(* ===== verification/Iam_Prelude.thy ===== *)
theory Iam_Prelude
  imports Main "HOL-Library.Word"
begin

text \<open>
  Shared vocabulary of the development: the machine integers of the C++ code, the enumerations of
  \<^verbatim>\<open>interfaces/inner_api/iam_common_defines.h\<close> that several components use, the model of
  \<^verbatim>\<open>std::map\<close> (a strictly ascending association list) and of \<^verbatim>\<open>std::unordered_map\<close> (an
  association list with distinct keys whose order stands for the unspecified iteration order),
  the interface \<open>keyed_store\<close> that both containers provide, and generic list lemmas.

  A \<^verbatim>\<open>uint32_t\<close> and an \<^verbatim>\<open>int32_t\<close> are both \<open>32 word\<close>: \<^verbatim>\<open>static_cast\<close> between the two
  keeps the bit pattern, equality is equality of bit patterns, and an order comparison of signed
  values is written with \<open>sint\<close> where the code has one.
\<close>

type_synonym u8 = "8 word"
type_synonym u16 = "16 word"
type_synonym u32 = "32 word"
type_synonym u64 = "64 word"
type_synonym i32 = "32 word"
type_synonym i64 = "64 word"
type_synonym bytes = "u8 list"

named_theorems iam_simps
  \<open>unfolding rules of small accessors and guards shared by component proofs\<close>

section \<open>Enumerations of the public interface\<close>

abbreviation (input) SUCCESS :: i32 where "SUCCESS \<equiv> 0"
abbreviation (input) FAIL :: i32 where "FAIL \<equiv> 1"
abbreviation (input) GENERAL_ERROR :: i32 where "GENERAL_ERROR \<equiv> 2"
abbreviation (input) CANCELED :: i32 where "CANCELED \<equiv> 3"
abbreviation (input) TIMEOUT :: i32 where "TIMEOUT \<equiv> 4"
abbreviation (input) BUSY :: i32 where "BUSY \<equiv> 7"
abbreviation (input) INVALID_PARAMETERS :: i32 where "INVALID_PARAMETERS \<equiv> 8"
abbreviation (input) LOCKED :: i32 where "LOCKED \<equiv> 9"
abbreviation (input) NOT_ENROLLED :: i32 where "NOT_ENROLLED \<equiv> 10"
abbreviation (input) INVALID_CONTEXT_ID :: u64 where "INVALID_CONTEXT_ID \<equiv> 1002"
abbreviation (input) INVALID_USER_ID :: i32 where "INVALID_USER_ID \<equiv> - 1"

abbreviation (input) INVALID_AUTH_TYPE :: i32 where "INVALID_AUTH_TYPE \<equiv> - 1"
abbreviation (input) PIN :: i32 where "PIN \<equiv> 1"
abbreviation (input) FACE :: i32 where "FACE \<equiv> 2"
abbreviation (input) FINGERPRINT :: i32 where "FINGERPRINT \<equiv> 4"
abbreviation (input) PRIVATE_PIN :: i32 where "PRIVATE_PIN \<equiv> 16"

abbreviation (input) SCHEDULER :: i32 where "SCHEDULER \<equiv> 0"
abbreviation (input) COLLECTOR :: i32 where "COLLECTOR \<equiv> 1"
abbreviation (input) VERIFIER :: i32 where "VERIFIER \<equiv> 2"
abbreviation (input) ALL_IN_ONE :: i32 where "ALL_IN_ONE \<equiv> 3"

abbreviation (input) QUESTION_AUTH :: i32 where "QUESTION_AUTH \<equiv> 3"
abbreviation (input) SUDO_PIN_AUTH :: i32 where "SUDO_PIN_AUTH \<equiv> 5"

abbreviation (input) PIN_QUESTION :: i32 where "PIN_QUESTION \<equiv> 10005"
abbreviation (input) PIN_MAX :: i32 where "PIN_MAX \<equiv> 10006"

section \<open>Hexadecimal digits, as a stream prints them\<close>

definition hex_digit :: "nat \<Rightarrow> char" where
  "hex_digit n = ''0123456789abcdef'' ! (n mod 16)"

section \<open>Attribute keys\<close>

text \<open>The enumerators of \<^verbatim>\<open>interfaces/inner_api/attributes.h\<close> that the modelled components use.\<close>

abbreviation (input) ATTR_RESULT_CODE :: u32 where "ATTR_RESULT_CODE \<equiv> 100001"
abbreviation (input) ATTR_SIGNATURE :: u32 where "ATTR_SIGNATURE \<equiv> 100004"
abbreviation (input) ATTR_TEMPLATE_ID :: u32 where "ATTR_TEMPLATE_ID \<equiv> 100006"
abbreviation (input) ATTR_TEMPLATE_ID_LIST :: u32 where "ATTR_TEMPLATE_ID_LIST \<equiv> 100007"
abbreviation (input) ATTR_REMAIN_TIMES :: u32 where "ATTR_REMAIN_TIMES \<equiv> 100009"
abbreviation (input) ATTR_FREEZING_TIME :: u32 where "ATTR_FREEZING_TIME \<equiv> 100010"
abbreviation (input) ATTR_SCHEDULE_ID :: u32 where "ATTR_SCHEDULE_ID \<equiv> 100017"
abbreviation (input) ATTR_PIN_SUB_TYPE :: u32 where "ATTR_PIN_SUB_TYPE \<equiv> 100021"
abbreviation (input) ATTR_SCHEDULE_MODE :: u32 where "ATTR_SCHEDULE_MODE \<equiv> 100022"
abbreviation (input) ATTR_PROPERTY_MODE :: u32 where "ATTR_PROPERTY_MODE \<equiv> 100023"
abbreviation (input) ATTR_RESULT :: u32 where "ATTR_RESULT \<equiv> 100028"
abbreviation (input) ATTR_AUTH_TOKEN :: u32 where "ATTR_AUTH_TOKEN \<equiv> 100033"
abbreviation (input) ATTR_SEC_USER_ID :: u32 where "ATTR_SEC_USER_ID \<equiv> 100034"
abbreviation (input) ATTR_OLD_ROOT_SECRET :: u32 where "ATTR_OLD_ROOT_SECRET \<equiv> 100040"
abbreviation (input) ATTR_OLD_CREDENTIAL_ID :: u32 where "ATTR_OLD_CREDENTIAL_ID \<equiv> 100041"
abbreviation (input) ATTR_ROOT_SECRET :: u32 where "ATTR_ROOT_SECRET \<equiv> 100032"
abbreviation (input) ATTR_KEY_LIST :: u32 where "ATTR_KEY_LIST \<equiv> 100037"
abbreviation (input) ATTR_END_AFTER_FIRST_FAIL :: u32 where "ATTR_END_AFTER_FIRST_FAIL \<equiv> 100038"
abbreviation (input) ATTR_TIP_INFO :: u32 where "ATTR_TIP_INFO \<equiv> 100039"
abbreviation (input) ATTR_SRC_ROLE :: u32 where "ATTR_SRC_ROLE \<equiv> 100042"
abbreviation (input) ATTR_USER_ID :: u32 where "ATTR_USER_ID \<equiv> 100043"
abbreviation (input) ATTR_EXTRA_INFO :: u32 where "ATTR_EXTRA_INFO \<equiv> 100044"
abbreviation (input) ATTR_ACCESS_TOKEN_ID :: u32 where "ATTR_ACCESS_TOKEN_ID \<equiv> 100048"
abbreviation (input) ATTR_TEMPLATE_CHANGE_REASON :: u32 where "ATTR_TEMPLATE_CHANGE_REASON \<equiv> 100049"
abbreviation (input) ATTR_CREDENTIAL_DIGEST :: u32 where "ATTR_CREDENTIAL_DIGEST \<equiv> 100050"
abbreviation (input) ATTR_CREDENTIAL_COUNT :: u32 where "ATTR_CREDENTIAL_COUNT \<equiv> 100051"
abbreviation (input) ATTR_COLLECTOR_TOKEN_ID :: u32 where "ATTR_COLLECTOR_TOKEN_ID \<equiv> 100082"
abbreviation (input) ATTR_PIN_EXPIRED_INFO :: u32 where "ATTR_PIN_EXPIRED_INFO \<equiv> 100083"
abbreviation (input) ATTR_NEXT_FAIL_LOCKOUT_DURATION :: u32 where "ATTR_NEXT_FAIL_LOCKOUT_DURATION \<equiv> 100084"
abbreviation (input) ATTR_AUTH_INTENTION :: u32 where "ATTR_AUTH_INTENTION \<equiv> 100086"
abbreviation (input) ATTR_RE_ENROLL_FLAG :: u32 where "ATTR_RE_ENROLL_FLAG \<equiv> 100088"
abbreviation (input) ATTR_ADDITIONAL_INFO :: u32 where "ATTR_ADDITIONAL_INFO \<equiv> 100094"
abbreviation (input) ATTR_AUTH_SCENE :: u32 where "ATTR_AUTH_SCENE \<equiv> 100095"
abbreviation (input) ATTR_CONTEXT_ID :: u32 where "ATTR_CONTEXT_ID \<equiv> 100061"
abbreviation (input) ATTR_AUTH_TYPE :: u32 where "ATTR_AUTH_TYPE \<equiv> 100024"
abbreviation (input) ATTR_CREDENTIAL_ID :: u32 where "ATTR_CREDENTIAL_ID \<equiv> 100025"
abbreviation (input) ATTR_AUTH_TRUST_LEVEL :: u32 where "ATTR_AUTH_TRUST_LEVEL \<equiv> 100075"
abbreviation (input) ATTR_SIGNED_AUTH_RESULT :: u32 where "ATTR_SIGNED_AUTH_RESULT \<equiv> 100065"
abbreviation (input) ATTR_WIDGET_TITLE :: u32 where "ATTR_WIDGET_TITLE \<equiv> 100096"

abbreviation (input) PROPERTY_MODE_DEL :: u32 where "PROPERTY_MODE_DEL \<equiv> 2"
abbreviation (input) PROPERTY_MODE_GET :: u32 where "PROPERTY_MODE_GET \<equiv> 3"
abbreviation (input) PROPERTY_MODE_FREEZE :: u32 where "PROPERTY_MODE_FREEZE \<equiv> 5"
abbreviation (input) PROPERTY_MODE_UNFREEZE :: u32 where "PROPERTY_MODE_UNFREEZE \<equiv> 6"
abbreviation (input) PROPERTY_MODE_SET_CACHED_TEMPLATES :: u32 where
  "PROPERTY_MODE_SET_CACHED_TEMPLATES \<equiv> 7"
abbreviation (input) PROPERTY_MODE_NOTIFY_COLLECTOR_READY :: u32 where
  "PROPERTY_MODE_NOTIFY_COLLECTOR_READY \<equiv> 8"

section \<open>Keyed containers\<close>

text \<open>
  What the clients of a container rely on: a lookup after an insertion or an erasure, and that
  both keep the container's representation invariant.
\<close>

locale keyed_store =
  fixes empty :: "'m"
    and assign :: "'k \<Rightarrow> 'v \<Rightarrow> 'm \<Rightarrow> 'm"
    and erase :: "'k \<Rightarrow> 'm \<Rightarrow> 'm"
    and look :: "'m \<Rightarrow> 'k \<Rightarrow> 'v option"
    and count :: "'m \<Rightarrow> nat"
    and inv :: "'m \<Rightarrow> bool"
  assumes inv_empty: "inv empty"
    and inv_assign: "inv m \<Longrightarrow> inv (assign k v m)"
    and inv_erase: "inv m \<Longrightarrow> inv (erase k m)"
    and look_empty: "look empty k = None"
    and look_assign: "inv m \<Longrightarrow> look (assign k v m) = (look m)(k \<mapsto> v)"
    and look_erase: "inv m \<Longrightarrow> look (erase k m) = (look m)(k := None)"
    and count_dom: "inv m \<Longrightarrow> count m = card (dom (look m)) \<and> finite (dom (look m))"
begin

lemma assign_twice: "inv m \<Longrightarrow> look (assign k v (assign k w m)) = look (assign k v m)"
  by (simp add: look_assign inv_assign)

lemma assign_swap:
  "inv m \<Longrightarrow> j \<noteq> k \<Longrightarrow> look (assign j v (assign k w m)) = look (assign k w (assign j v m))"
  by (simp add: look_assign inv_assign fun_upd_twist)

lemma erase_assign: "inv m \<Longrightarrow> look m k = None \<Longrightarrow> look (erase k (assign k v m)) = look m"
  by (auto simp: look_assign look_erase inv_assign)

lemma count_empty: "count empty = 0"
  using count_dom [OF inv_empty] by (simp add: look_empty dom_def)

lemma count_assign:
  assumes "inv m"
  shows "count (assign k v m) = (if look m k = None then Suc (count m) else count m)"
proof -
  have "count (assign k v m) = card (insert k (dom (look m)))"
    using count_dom [OF inv_assign [OF assms]] by (simp add: look_assign [OF assms])
  then show ?thesis
    using count_dom [OF assms] by (auto simp: domIff insert_absorb)
qed

lemma count_erase:
  assumes "inv m"
  shows "count (erase k m) = (if look m k = None then count m else count m - 1)"
proof -
  have "count (erase k m) = card (dom (look m) - {k})"
    using count_dom [OF inv_erase [OF assms]] by (simp add: look_erase [OF assms])
  then show ?thesis
    using count_dom [OF assms] by (auto simp: domIff)
qed

end

subsection \<open>std::map: an ascending association list\<close>

fun omap_assign :: "'k::linorder \<Rightarrow> 'v \<Rightarrow> ('k \<times> 'v) list \<Rightarrow> ('k \<times> 'v) list" where
  "omap_assign k v [] = [(k, v)]"
| "omap_assign k v ((k', v') # m) =
     (if k < k' then (k, v) # (k', v') # m
      else if k = k' then (k, v) # m
      else (k', v') # omap_assign k v m)"

definition key_erase :: "'k \<Rightarrow> ('k \<times> 'v) list \<Rightarrow> ('k \<times> 'v) list" where
  "key_erase k m = filter (\<lambda>(j, _). j \<noteq> k) m"

definition omap_ok :: "('k::linorder \<times> 'v) list \<Rightarrow> bool" where
  "omap_ok m \<longleftrightarrow> sorted_wrt (<) (map fst m)"

lemma omap_ok_Nil [simp]: "omap_ok []"
  by (simp add: omap_ok_def)

lemma omap_ok_Cons [simp]: "omap_ok ((k, v) # m) \<longleftrightarrow> (\<forall>j \<in> fst ` set m. k < j) \<and> omap_ok m"
  by (auto simp: omap_ok_def)

lemma map_of_omap_assign [simp]: "map_of (omap_assign k v m) = (map_of m)(k \<mapsto> v)"
  by (induction k v m rule: omap_assign.induct) auto

lemma keys_omap_assign [simp]: "fst ` set (omap_assign k v m) = insert k (fst ` set m)"
  by (induction k v m rule: omap_assign.induct) auto

lemma omap_ok_assign [simp]: "omap_ok m \<Longrightarrow> omap_ok (omap_assign k v m)"
  by (induction k v m rule: omap_assign.induct) auto

lemma omap_ok_distinct: "omap_ok m \<Longrightarrow> distinct (map fst m)"
  by (simp add: omap_ok_def strict_sorted_iff)

lemma values_omap_assign:
  "(j, w) \<in> set (omap_assign k v m) \<Longrightarrow> (j = k \<and> w = v) \<or> (j, w) \<in> set m"
  by (induction k v m rule: omap_assign.induct) (auto split: if_splits)

lemma keys_key_erase [simp]: "fst ` set (key_erase k m) = fst ` set m - {k}"
  by (auto simp: key_erase_def)

lemma map_of_key_erase [simp]: "map_of (key_erase k m) = (map_of m)(k := None)"
  by (induction m) (auto simp: key_erase_def)

lemma omap_ok_erase [simp]: "omap_ok m \<Longrightarrow> omap_ok (key_erase k m)"
  by (induction m) (auto simp: key_erase_def)

lemma length_distinct_keys: "distinct (map fst m) \<Longrightarrow> length m = card (dom (map_of m))"
  by (metis distinct_card dom_map_of_conv_image_fst length_map list.set_map)

lemma length_omap_assign:
  "omap_ok m \<Longrightarrow> length (omap_assign k v m) = (if map_of m k = None then Suc (length m) else length m)"
  by (simp add: length_distinct_keys omap_ok_distinct finite_dom_map_of insert_absorb domIff)

interpretation std_map: keyed_store
  "[] :: ('k::linorder \<times> 'v) list" omap_assign key_erase map_of length omap_ok
  by unfold_locales (simp_all add: length_distinct_keys omap_ok_distinct finite_dom_map_of)

lemma omap_ext:
  assumes "omap_ok m" and "omap_ok n" and "map_of m = map_of n"
  shows "m = n"
proof -
  have d: "distinct (map fst m)" "distinct (map fst n)"
    using assms(1,2) by (simp_all add: omap_ok_distinct)
  then have s: "set m = set n"
    using assms(3) by (simp add: map_of_inject_set)
  have "inj_on fst (set m \<union> set n)"
    using d by (simp add: s distinct_map)
  then show ?thesis
    using assms(1,2) d s by (intro map_sorted_distinct_set_unique [of fst])
      (simp_all add: omap_ok_def strict_sorted_iff)
qed

subsection \<open>std::unordered_map: distinct keys in an unspecified order\<close>

fun umap_assign :: "'k \<Rightarrow> 'v \<Rightarrow> ('k \<times> 'v) list \<Rightarrow> ('k \<times> 'v) list" where
  "umap_assign k v [] = [(k, v)]"
| "umap_assign k v ((k', v') # m) =
     (if k = k' then (k, v) # m else (k', v') # umap_assign k v m)"

definition umap_ok :: "('k \<times> 'v) list \<Rightarrow> bool" where
  "umap_ok m \<longleftrightarrow> distinct (map fst m)"

lemma umap_ok_Nil [simp]: "umap_ok []"
  by (simp add: umap_ok_def)

lemma umap_ok_Cons [simp]: "umap_ok ((k, v) # m) \<longleftrightarrow> k \<notin> fst ` set m \<and> umap_ok m"
  by (auto simp: umap_ok_def)

lemma map_of_umap_assign [simp]: "map_of (umap_assign k v m) = (map_of m)(k \<mapsto> v)"
  by (induction k v m rule: umap_assign.induct) auto

lemma keys_umap_assign [simp]: "fst ` set (umap_assign k v m) = insert k (fst ` set m)"
  by (induction k v m rule: umap_assign.induct) auto

lemma umap_ok_assign [simp]: "umap_ok m \<Longrightarrow> umap_ok (umap_assign k v m)"
  by (induction k v m rule: umap_assign.induct) auto

lemma umap_ok_erase [simp]: "umap_ok m \<Longrightarrow> umap_ok (key_erase k m)"
  by (induction m) (auto simp: key_erase_def)

interpretation std_umap: keyed_store
  "[] :: ('k \<times> 'v) list" umap_assign key_erase map_of length umap_ok
  by unfold_locales (simp_all add: length_distinct_keys umap_ok_def finite_dom_map_of
      umap_ok_assign [unfolded umap_ok_def] umap_ok_erase [unfolded umap_ok_def])

section \<open>Lists\<close>

lemma take_drop_append_exact [simp]:
  "length xs = n \<Longrightarrow> take n (xs @ ys) = xs" "length xs = n \<Longrightarrow> drop n (xs @ ys) = ys"
  by auto

end
