(* ===== verification/Attributes_Codec.thy ===== *)
theory Attributes_Codec
  imports Iam_Prelude
begin

unbundle bit_operations_syntax

text \<open>
  The value codecs of \<^verbatim>\<open>frameworks/native/common/attributes/src/attributes.cpp\<close>: the
  \<^verbatim>\<open>Encode...Value\<close> and \<^verbatim>\<open>Decode...Value\<close> functions of \<^verbatim>\<open>Attributes::Impl\<close>, one definition
  each. A function that returns false is \<open>None\<close>. \<^verbatim>\<open>htole64\<close> followed by a copy of the host
  representation writes the little-endian bytes on every host (\<open>le_bytes\<close>), and a copy followed by
  \<^verbatim>\<open>le64toh\<close> reads them (\<open>le_value\<close>). Every \<^verbatim>\<open>memcpy_s\<close> of the file copies into a buffer of
  exactly the copied size, where it returns \<^verbatim>\<open>EOK\<close>, so its error branch is not taken.
  A \<^verbatim>\<open>std::string\<close> is its list of bytes.

  The interface \<open>value_codec\<close> is what the attribute map relies on: decoding an encoded value gives
  it back. It is interpreted on all thirteen pairs of functions.
\<close>

section \<open>Little-endian words\<close>

definition le_bytes :: "nat \<Rightarrow> 'a::len word \<Rightarrow> bytes" where
  "le_bytes n w = map (\<lambda>i. ucast (drop_bit (8 * i) w)) [0..<n]"

primrec le_value :: "bytes \<Rightarrow> 'a::len word" where
  "le_value [] = 0"
| "le_value (b # bs) = ucast b OR push_bit 8 (le_value bs)"

lemma length_le_bytes [simp]: "length (le_bytes n w) = n"
  by (simp add: le_bytes_def)

lemma bit_le_value:
  "bit (le_value bs :: 'a::len word) k \<longleftrightarrow>
     k < LENGTH('a) \<and> k div 8 < length bs \<and> bit (bs ! (k div 8)) (k mod 8)"
proof (induction bs arbitrary: k)
  case Nil
  then show ?case by simp
next
  case (Cons b bs)
  show ?case
  proof (cases "k < 8")
    case True
    then show ?thesis by (auto simp: bit_or_iff bit_push_bit_iff bit_ucast_iff)
  next
    case False
    then have k: "k div 8 = Suc ((k - 8) div 8)" "(k - 8) mod 8 = k mod 8" and "8 \<le> k"
      by (simp_all add: le_div_geq le_mod_geq)
    have "\<not> bit (ucast b :: 'a word) k"
      using False bit_imp_le_length [of b k] by (auto simp: bit_ucast_iff)
    then show ?thesis
      using False k Cons.IH [of "k - 8"]
      by (auto simp: bit_or_iff bit_push_bit_iff)
  qed
qed

lemma le_value_bytes:
  fixes w :: "'a::len word"
  assumes "LENGTH('a) \<le> 8 * n"
  shows "le_value (le_bytes n w) = w"
proof (rule bit_word_eqI)
  fix k
  assume k: "k < LENGTH('a)"
  then have "k div 8 < n" using assms by auto
  then show "bit (le_value (le_bytes n w) :: 'a word) k = bit w k"
    using k by (simp add: bit_le_value le_bytes_def bit_ucast_iff bit_drop_bit_eq)
qed

lemma le_bytes_value:
  assumes "length bs = n" and "8 * n \<le> LENGTH('a::len)"
  shows "le_bytes n (le_value bs :: 'a word) = bs"
proof (rule nth_equalityI)
  show "length (le_bytes n (le_value bs :: 'a word)) = length bs" using assms by simp
next
  fix i
  assume "i < length (le_bytes n (le_value bs :: 'a word))"
  then have i: "i < n" by simp
  show "le_bytes n (le_value bs :: 'a word) ! i = bs ! i"
  proof (rule bit_word_eqI)
    fix k
    assume "k < LENGTH(8)"
    then have k: "k < 8" by simp
    have "8 * i + k < LENGTH('a)" using i k assms(2) by linarith
    with i k assms(1)
    show "bit (le_bytes n (le_value bs :: 'a word) ! i) k = bit (bs ! i) k"
      by (simp add: le_bytes_def bit_ucast_iff bit_drop_bit_eq bit_le_value)
  qed
qed

section \<open>The interface of a fixed-width element and its arrays\<close>

definition chunk_decode :: "nat \<Rightarrow> (bytes \<Rightarrow> 'a) \<Rightarrow> bytes \<Rightarrow> 'a list" where
  "chunk_decode n d src = map (\<lambda>i. d (take n (drop (n * i) src))) [0..<length src div n]"

locale element_codec =
  fixes width :: nat
    and enc :: "'a \<Rightarrow> bytes"
    and dec :: "bytes \<Rightarrow> 'a"
  assumes width_pos: "0 < width"
    and length_enc: "length (enc x) = width"
    and dec_enc: "dec (enc x) = x"
    and enc_dec: "length b = width \<Longrightarrow> enc (dec b) = b"
begin

lemma length_concat_enc: "length (concat (map enc xs)) = length xs * width"
  by (induction xs) (simp_all add: length_enc)

lemma take_chunk: "i < length xs \<Longrightarrow> take width (drop (width * i) (concat (map enc xs))) = enc (xs ! i)"
proof (induction xs arbitrary: i)
  case Nil
  then show ?case by simp
next
  case (Cons x xs)
  show ?case
  proof (cases i)
    case 0
    then show ?thesis by (simp add: length_enc)
  next
    case (Suc j)
    then have "drop (width * i) (concat (map enc (x # xs))) = drop (width * j) (concat (map enc xs))"
      by (simp add: length_enc)
    then show ?thesis using Cons Suc by simp
  qed
qed

lemma chunk_decode_concat: "chunk_decode width dec (concat (map enc xs)) = xs"
  using width_pos
  by (intro nth_equalityI) (simp_all add: chunk_decode_def length_concat_enc take_chunk dec_enc)

lemma concat_chunk_decode:
  "length src mod width = 0 \<Longrightarrow> concat (map enc (chunk_decode width dec src)) = src"
proof (induction "length src div width" arbitrary: src)
  case 0
  then have "src = []" using width_pos by (metis div_mult_mod_eq mult_zero_left add_0 length_0_conv)
  then show ?case by (simp add: chunk_decode_def)
next
  case (Suc n)
  then have len: "length src = Suc n * width" by (metis add_0_right div_mult_mod_eq)
  define s where "s = drop width src"
  have s: "length s = n * width" using len by (simp add: s_def)
  have "chunk_decode width dec src = dec (take width src) # chunk_decode width dec s"
    using width_pos unfolding chunk_decode_def
    by (simp add: len s upt_conv_Cons s_def drop_drop map_Suc_upt [symmetric] add.commute
        del: upt_Suc map_Suc_upt)
  moreover have "concat (map enc (chunk_decode width dec s)) = s"
    by (rule Suc.hyps(1)) (use s width_pos in simp_all)
  ultimately show ?case
    using len by (simp add: enc_dec s_def)
qed

end

interpretation elem16: element_codec 2 "le_bytes 2 :: u16 \<Rightarrow> bytes" le_value
  by unfold_locales (simp_all add: le_value_bytes le_bytes_value)

interpretation elem32: element_codec 4 "le_bytes 4 :: u32 \<Rightarrow> bytes" le_value
  by unfold_locales (simp_all add: le_value_bytes le_bytes_value)

interpretation elem64: element_codec 8 "le_bytes 8 :: u64 \<Rightarrow> bytes" le_value
  by unfold_locales (simp_all add: le_value_bytes le_bytes_value)

section \<open>Encoders\<close>

text \<open>\<^verbatim>\<open>MAX_ATTR_LENGTH\<close> and \<^verbatim>\<open>MAX_ATTR_COUNT\<close> of \<^verbatim>\<open>Attributes::Impl\<close>.\<close>

definition MAX_ATTR_LENGTH :: nat where
  "MAX_ATTR_LENGTH = 81920"

definition MAX_ATTR_COUNT :: nat where
  "MAX_ATTR_COUNT = 512"

definition EncodeBoolValue :: "bool \<Rightarrow> bytes option" where
  "EncodeBoolValue src = Some [if src then 1 else 0]"

definition EncodeUint64Value :: "u64 \<Rightarrow> bytes option" where
  "EncodeUint64Value src = Some (le_bytes 8 src)"

definition EncodeUint32Value :: "u32 \<Rightarrow> bytes option" where
  "EncodeUint32Value src = Some (le_bytes 4 src)"

definition EncodeUint16Value :: "u16 \<Rightarrow> bytes option" where
  "EncodeUint16Value src = Some (le_bytes 2 src)"

definition EncodeUint8Value :: "u8 \<Rightarrow> bytes option" where
  "EncodeUint8Value src = Some [src]"

definition EncodeInt32Value :: "i32 \<Rightarrow> bytes option" where
  "EncodeInt32Value src = Some (le_bytes 4 src)"

definition EncodeInt64Value :: "i64 \<Rightarrow> bytes option" where
  "EncodeInt64Value src = Some (le_bytes 8 src)"

definition EncodeStringValue :: "bytes \<Rightarrow> bytes option" where
  "EncodeStringValue src =
     (if length src > MAX_ATTR_LENGTH then None else Some (src @ [0]))"

definition EncodeUint64ArrayValue :: "u64 list \<Rightarrow> bytes option" where
  "EncodeUint64ArrayValue src =
     (if length src * 8 > MAX_ATTR_LENGTH then None else Some (concat (map (le_bytes 8) src)))"

definition EncodeUint32ArrayValue :: "u32 list \<Rightarrow> bytes option" where
  "EncodeUint32ArrayValue src =
     (if length src * 4 > MAX_ATTR_LENGTH then None else Some (concat (map (le_bytes 4) src)))"

definition EncodeUint16ArrayValue :: "u16 list \<Rightarrow> bytes option" where
  "EncodeUint16ArrayValue src =
     (if length src * 2 > MAX_ATTR_LENGTH then None else Some (concat (map (le_bytes 2) src)))"

definition EncodeInt32ArrayValue :: "i32 list \<Rightarrow> bytes option" where
  "EncodeInt32ArrayValue src =
     (if length src * 4 > MAX_ATTR_LENGTH then None else Some (concat (map (le_bytes 4) src)))"

definition EncodeUint8ArrayValue :: "bytes \<Rightarrow> bytes option" where
  "EncodeUint8ArrayValue src = (if length src > MAX_ATTR_LENGTH then None else Some src)"

section \<open>Decoders\<close>

definition DecodeBoolValue :: "bytes \<Rightarrow> bool option" where
  "DecodeBoolValue src = (if length src \<noteq> 1 then None else Some (src ! 0 = 1))"

definition DecodeUint64Value :: "bytes \<Rightarrow> u64 option" where
  "DecodeUint64Value src = (if length src \<noteq> 8 then None else Some (le_value src))"

definition DecodeUint32Value :: "bytes \<Rightarrow> u32 option" where
  "DecodeUint32Value src = (if length src \<noteq> 4 then None else Some (le_value src))"

definition DecodeUint16Value :: "bytes \<Rightarrow> u16 option" where
  "DecodeUint16Value src = (if length src \<noteq> 2 then None else Some (le_value src))"

definition DecodeUint8Value :: "bytes \<Rightarrow> u8 option" where
  "DecodeUint8Value src = (if length src \<noteq> 1 then None else Some (src ! 0))"

definition DecodeInt32Value :: "bytes \<Rightarrow> i32 option" where
  "DecodeInt32Value src = (if length src \<noteq> 4 then None else Some (le_value src))"

definition DecodeInt64Value :: "bytes \<Rightarrow> i64 option" where
  "DecodeInt64Value src = (if length src \<noteq> 8 then None else Some (le_value src))"

definition DecodeStringValue :: "bytes \<Rightarrow> bytes option" where
  "DecodeStringValue src =
     (if src = [] then None else if last src \<noteq> 0 then None else Some (butlast src))"

definition DecodeUint64ArrayValue :: "bytes \<Rightarrow> u64 list option" where
  "DecodeUint64ArrayValue src =
     (if length src mod 8 \<noteq> 0 then None else Some (chunk_decode 8 le_value src))"

definition DecodeUint32ArrayValue :: "bytes \<Rightarrow> u32 list option" where
  "DecodeUint32ArrayValue src =
     (if length src mod 4 \<noteq> 0 then None else Some (chunk_decode 4 le_value src))"

text \<open>
  The guard of the 16-bit array divides \<^verbatim>\<open>sizeof(uint32_t)\<close> by \<^verbatim>\<open>sizeof(uint16_t)\<close> where the
  others divide the element size by \<^verbatim>\<open>sizeof(uint8_t)\<close>; both quotients are 2.
\<close>

definition DecodeUint16ArrayValue :: "bytes \<Rightarrow> u16 list option" where
  "DecodeUint16ArrayValue src =
     (if length src mod (4 div 2) \<noteq> 0 then None else Some (chunk_decode 2 le_value src))"

definition DecodeUint8ArrayValue :: "bytes \<Rightarrow> bytes option" where
  "DecodeUint8ArrayValue src = Some src"

definition DecodeInt32ArrayValue :: "bytes \<Rightarrow> i32 list option" where
  "DecodeInt32ArrayValue src =
     (if length src mod 4 \<noteq> 0 then None else Some (chunk_decode 4 le_value src))"

lemmas encode_defs =
  EncodeBoolValue_def EncodeUint64Value_def EncodeUint32Value_def EncodeUint16Value_def
  EncodeUint8Value_def EncodeInt32Value_def EncodeInt64Value_def EncodeStringValue_def
  EncodeUint64ArrayValue_def EncodeUint32ArrayValue_def EncodeUint16ArrayValue_def
  EncodeInt32ArrayValue_def EncodeUint8ArrayValue_def

lemmas decode_defs =
  DecodeBoolValue_def DecodeUint64Value_def DecodeUint32Value_def DecodeUint16Value_def
  DecodeUint8Value_def DecodeInt32Value_def DecodeInt64Value_def DecodeStringValue_def
  DecodeUint64ArrayValue_def DecodeUint32ArrayValue_def DecodeUint16ArrayValue_def
  DecodeUint8ArrayValue_def DecodeInt32ArrayValue_def

section \<open>The interface of a value codec\<close>

locale value_codec =
  fixes enc :: "'a \<Rightarrow> bytes option"
    and dec :: "bytes \<Rightarrow> 'a option"
  assumes dec_enc: "enc x = Some b \<Longrightarrow> dec b = Some x"
begin

lemma enc_inj: "enc x = Some b \<Longrightarrow> enc y = Some b \<Longrightarrow> x = y"
  by (metis dec_enc option.inject)

end

text \<open>A bounded codec never produces more bytes than the parser of the serialised form accepts.\<close>

locale bounded_codec = value_codec +
  assumes enc_bound: "enc x = Some b \<Longrightarrow> length b \<le> MAX_ATTR_LENGTH"

interpretation codec_bool: bounded_codec EncodeBoolValue DecodeBoolValue
  by unfold_locales (auto simp: encode_defs decode_defs MAX_ATTR_LENGTH_def)

interpretation codec_u64: bounded_codec EncodeUint64Value DecodeUint64Value
  by unfold_locales (auto simp: encode_defs decode_defs MAX_ATTR_LENGTH_def le_value_bytes)

interpretation codec_u32: bounded_codec EncodeUint32Value DecodeUint32Value
  by unfold_locales (auto simp: encode_defs decode_defs MAX_ATTR_LENGTH_def le_value_bytes)

interpretation codec_u16: bounded_codec EncodeUint16Value DecodeUint16Value
  by unfold_locales (auto simp: encode_defs decode_defs MAX_ATTR_LENGTH_def le_value_bytes)

interpretation codec_u8: bounded_codec EncodeUint8Value DecodeUint8Value
  by unfold_locales (auto simp: encode_defs decode_defs MAX_ATTR_LENGTH_def)

interpretation codec_i32: bounded_codec EncodeInt32Value DecodeInt32Value
  by unfold_locales (auto simp: encode_defs decode_defs MAX_ATTR_LENGTH_def le_value_bytes)

interpretation codec_i64: bounded_codec EncodeInt64Value DecodeInt64Value
  by unfold_locales (auto simp: encode_defs decode_defs MAX_ATTR_LENGTH_def le_value_bytes)

text \<open>
  The string codec is the one that is not bounded: the terminating zero comes on top of a string
  of up to \<^verbatim>\<open>MAX_ATTR_LENGTH\<close> bytes.
\<close>

interpretation codec_string: value_codec EncodeStringValue DecodeStringValue
  by unfold_locales (auto simp: encode_defs decode_defs split: if_splits)

lemma length_EncodeStringValue: "EncodeStringValue s = Some b \<Longrightarrow> length b = Suc (length s)"
  by (auto simp: encode_defs split: if_splits)

interpretation codec_u64s: bounded_codec EncodeUint64ArrayValue DecodeUint64ArrayValue
  by unfold_locales (auto simp: encode_defs decode_defs elem64.length_concat_enc
      elem64.chunk_decode_concat split: if_splits)

interpretation codec_u32s: bounded_codec EncodeUint32ArrayValue DecodeUint32ArrayValue
  by unfold_locales (auto simp: encode_defs decode_defs elem32.length_concat_enc
      elem32.chunk_decode_concat split: if_splits)

interpretation codec_u16s: bounded_codec EncodeUint16ArrayValue DecodeUint16ArrayValue
  by unfold_locales (auto simp: encode_defs decode_defs elem16.length_concat_enc
      elem16.chunk_decode_concat split: if_splits)

interpretation codec_i32s: bounded_codec EncodeInt32ArrayValue DecodeInt32ArrayValue
  by unfold_locales (auto simp: encode_defs decode_defs elem32.length_concat_enc
      elem32.chunk_decode_concat split: if_splits)

interpretation codec_u8s: bounded_codec EncodeUint8ArrayValue DecodeUint8ArrayValue
  by unfold_locales (auto simp: encode_defs decode_defs split: if_splits)

text \<open>
  The array decoders are total inverses on their domain: re-encoding what they decode gives the
  bytes back.
\<close>

lemma encode_decode_u64s:
  "length b \<le> MAX_ATTR_LENGTH \<Longrightarrow> DecodeUint64ArrayValue b = Some xs \<Longrightarrow>
     EncodeUint64ArrayValue xs = Some b"
  using elem64.concat_chunk_decode [of b] elem64.length_concat_enc [of xs]
  by (auto simp: encode_defs decode_defs split: if_splits)

lemma encode_decode_u32s:
  "length b \<le> MAX_ATTR_LENGTH \<Longrightarrow> DecodeUint32ArrayValue b = Some xs \<Longrightarrow>
     EncodeUint32ArrayValue xs = Some b"
  using elem32.concat_chunk_decode [of b] elem32.length_concat_enc [of xs]
  by (auto simp: encode_defs decode_defs split: if_splits)

lemma encode_decode_u16s:
  "length b \<le> MAX_ATTR_LENGTH \<Longrightarrow> DecodeUint16ArrayValue b = Some xs \<Longrightarrow>
     EncodeUint16ArrayValue xs = Some b"
  using elem16.concat_chunk_decode [of b] elem16.length_concat_enc [of xs]
  by (auto simp: encode_defs decode_defs split: if_splits)

end
