(* ===== verification/Attributes_Impl.thy ===== *)
theory Attributes_Impl
  imports Attributes_Codec
begin

text \<open>
  \<^verbatim>\<open>Attributes::Impl\<close> of \<^verbatim>\<open>frameworks/native/common/attributes/src/attributes.cpp\<close>: the typed
  attribute map that every message between the framework, its executors and its clients is made
  of. The single field \<^verbatim>\<open>map_\<close>, a \<^verbatim>\<open>std::map\<close> from attribute keys to raw values, is an ascending
  association list. A setter returns the C++ result with the updated object, a getter returns
  \<open>None\<close> where the C++ function returns false.

  \<open>ParseAttributes\<close> and the constructor from raw bytes take the unread suffix of the buffer in place
  of the pair of pointers \<^verbatim>\<open>curr\<close> and \<^verbatim>\<open>end\<close>.
\<close>

record attributes_impl =
  amap :: "(u32 \<times> bytes) list"

definition Impl_empty :: attributes_impl where
  "Impl_empty = \<lparr>amap = []\<rparr>"

section \<open>Setters and getters\<close>

text \<open>
  Every setter encodes first, then refuses a map that is already over \<^verbatim>\<open>MAX_ATTR_COUNT\<close>, then
  stores. Only the 64-bit signed setter stores with \<^verbatim>\<open>try_emplace\<close>.
\<close>

definition store_value :: "bytes option \<Rightarrow> u32 \<Rightarrow> attributes_impl \<Rightarrow> bool \<times> attributes_impl" where
  "store_value dest key s =
     (case dest of
        None \<Rightarrow> (False, s)
      | Some b \<Rightarrow>
          if length (amap s) > MAX_ATTR_COUNT then (False, s)
          else (True, s\<lparr>amap := omap_assign key b (amap s)\<rparr>))"

definition emplace_value :: "bytes option \<Rightarrow> u32 \<Rightarrow> attributes_impl \<Rightarrow> bool \<times> attributes_impl" where
  "emplace_value dest key s =
     (case dest of
        None \<Rightarrow> (False, s)
      | Some b \<Rightarrow>
          if length (amap s) > MAX_ATTR_COUNT then (False, s)
          else if map_of (amap s) key \<noteq> None then (False, s)
          else (True, s\<lparr>amap := omap_assign key b (amap s)\<rparr>))"

definition load_value :: "(bytes \<Rightarrow> 'a option) \<Rightarrow> u32 \<Rightarrow> attributes_impl \<Rightarrow> 'a option" where
  "load_value dec key s = (case map_of (amap s) key of None \<Rightarrow> None | Some b \<Rightarrow> dec b)"

definition Impl_SetBoolValue :: "u32 \<Rightarrow> bool \<Rightarrow> attributes_impl \<Rightarrow> bool \<times> attributes_impl" where
  "Impl_SetBoolValue key value s = store_value (EncodeBoolValue value) key s"

definition Impl_SetUint64Value :: "u32 \<Rightarrow> u64 \<Rightarrow> attributes_impl \<Rightarrow> bool \<times> attributes_impl" where
  "Impl_SetUint64Value key value s = store_value (EncodeUint64Value value) key s"

definition Impl_SetUint32Value :: "u32 \<Rightarrow> u32 \<Rightarrow> attributes_impl \<Rightarrow> bool \<times> attributes_impl" where
  "Impl_SetUint32Value key value s = store_value (EncodeUint32Value value) key s"

definition Impl_SetUint16Value :: "u32 \<Rightarrow> u16 \<Rightarrow> attributes_impl \<Rightarrow> bool \<times> attributes_impl" where
  "Impl_SetUint16Value key value s = store_value (EncodeUint16Value value) key s"

definition Impl_SetUint8Value :: "u32 \<Rightarrow> u8 \<Rightarrow> attributes_impl \<Rightarrow> bool \<times> attributes_impl" where
  "Impl_SetUint8Value key value s = store_value (EncodeUint8Value value) key s"

definition Impl_SetInt32Value :: "u32 \<Rightarrow> i32 \<Rightarrow> attributes_impl \<Rightarrow> bool \<times> attributes_impl" where
  "Impl_SetInt32Value key value s = store_value (EncodeInt32Value value) key s"

definition Impl_SetInt64Value :: "u32 \<Rightarrow> i64 \<Rightarrow> attributes_impl \<Rightarrow> bool \<times> attributes_impl" where
  "Impl_SetInt64Value key value s = emplace_value (EncodeInt64Value value) key s"

definition Impl_SetStringValue :: "u32 \<Rightarrow> bytes \<Rightarrow> attributes_impl \<Rightarrow> bool \<times> attributes_impl" where
  "Impl_SetStringValue key value s = store_value (EncodeStringValue value) key s"

definition Impl_SetUint64ArrayValue :: "u32 \<Rightarrow> u64 list \<Rightarrow> attributes_impl \<Rightarrow> bool \<times> attributes_impl" where
  "Impl_SetUint64ArrayValue key value s = store_value (EncodeUint64ArrayValue value) key s"

definition Impl_SetUint32ArrayValue :: "u32 \<Rightarrow> u32 list \<Rightarrow> attributes_impl \<Rightarrow> bool \<times> attributes_impl" where
  "Impl_SetUint32ArrayValue key value s = store_value (EncodeUint32ArrayValue value) key s"

definition Impl_SetInt32ArrayValue :: "u32 \<Rightarrow> i32 list \<Rightarrow> attributes_impl \<Rightarrow> bool \<times> attributes_impl" where
  "Impl_SetInt32ArrayValue key value s = store_value (EncodeInt32ArrayValue value) key s"

definition Impl_SetUint16ArrayValue :: "u32 \<Rightarrow> u16 list \<Rightarrow> attributes_impl \<Rightarrow> bool \<times> attributes_impl" where
  "Impl_SetUint16ArrayValue key value s = store_value (EncodeUint16ArrayValue value) key s"

definition Impl_SetUint8ArrayValue :: "u32 \<Rightarrow> bytes \<Rightarrow> attributes_impl \<Rightarrow> bool \<times> attributes_impl" where
  "Impl_SetUint8ArrayValue key value s = store_value (EncodeUint8ArrayValue value) key s"

definition Impl_GetBoolValue :: "u32 \<Rightarrow> attributes_impl \<Rightarrow> bool option" where
  "Impl_GetBoolValue key s = load_value DecodeBoolValue key s"

definition Impl_GetUint64Value :: "u32 \<Rightarrow> attributes_impl \<Rightarrow> u64 option" where
  "Impl_GetUint64Value key s = load_value DecodeUint64Value key s"

definition Impl_GetUint32Value :: "u32 \<Rightarrow> attributes_impl \<Rightarrow> u32 option" where
  "Impl_GetUint32Value key s = load_value DecodeUint32Value key s"

definition Impl_GetUint16Value :: "u32 \<Rightarrow> attributes_impl \<Rightarrow> u16 option" where
  "Impl_GetUint16Value key s = load_value DecodeUint16Value key s"

definition Impl_GetUint8Value :: "u32 \<Rightarrow> attributes_impl \<Rightarrow> u8 option" where
  "Impl_GetUint8Value key s = load_value DecodeUint8Value key s"

definition Impl_GetInt32Value :: "u32 \<Rightarrow> attributes_impl \<Rightarrow> i32 option" where
  "Impl_GetInt32Value key s = load_value DecodeInt32Value key s"

definition Impl_GetInt64Value :: "u32 \<Rightarrow> attributes_impl \<Rightarrow> i64 option" where
  "Impl_GetInt64Value key s = load_value DecodeInt64Value key s"

definition Impl_GetStringValue :: "u32 \<Rightarrow> attributes_impl \<Rightarrow> bytes option" where
  "Impl_GetStringValue key s = load_value DecodeStringValue key s"

definition Impl_GetUint64ArrayValue :: "u32 \<Rightarrow> attributes_impl \<Rightarrow> u64 list option" where
  "Impl_GetUint64ArrayValue key s = load_value DecodeUint64ArrayValue key s"

definition Impl_GetUint32ArrayValue :: "u32 \<Rightarrow> attributes_impl \<Rightarrow> u32 list option" where
  "Impl_GetUint32ArrayValue key s = load_value DecodeUint32ArrayValue key s"

definition Impl_GetInt32ArrayValue :: "u32 \<Rightarrow> attributes_impl \<Rightarrow> i32 list option" where
  "Impl_GetInt32ArrayValue key s = load_value DecodeInt32ArrayValue key s"

definition Impl_GetUint16ArrayValue :: "u32 \<Rightarrow> attributes_impl \<Rightarrow> u16 list option" where
  "Impl_GetUint16ArrayValue key s = load_value DecodeUint16ArrayValue key s"

definition Impl_GetUint8ArrayValue :: "u32 \<Rightarrow> attributes_impl \<Rightarrow> bytes option" where
  "Impl_GetUint8ArrayValue key s = load_value DecodeUint8ArrayValue key s"

definition Impl_GetKeys :: "attributes_impl \<Rightarrow> u32 list" where
  "Impl_GetKeys s = map fst (amap s)"

definition Impl_HasAttribute :: "u32 \<Rightarrow> attributes_impl \<Rightarrow> bool" where
  "Impl_HasAttribute key s \<longleftrightarrow> map_of (amap s) key \<noteq> None"

section \<open>The serialised form\<close>

definition serialize_entry :: "u32 \<Rightarrow> bytes \<Rightarrow> bytes" where
  "serialize_entry key value = le_bytes 4 key @ le_bytes 4 (of_nat (length value) :: u32) @ value"

definition Impl_Serialize :: "attributes_impl \<Rightarrow> bytes" where
  "Impl_Serialize s = concat (map (\<lambda>(key, value). serialize_entry key value) (amap s))"

definition CheckAttributeLength :: "bytes \<Rightarrow> u32 \<Rightarrow> bool" where
  "CheckAttributeLength cur len \<longleftrightarrow>
     \<not> (unat len mod 1 \<noteq> 0 \<or> unat len > MAX_ATTR_LENGTH) \<and> \<not> unat len > length cur"

definition ParseAttributes ::
  "bytes \<Rightarrow> (u32 \<times> bytes) list \<Rightarrow> (bytes \<times> (u32 \<times> bytes) list) option" where
  "ParseAttributes cur out =
     (let typ = le_value (take 4 cur) :: u32;
          cur1 = drop 4 cur;
          len = le_value (take 4 cur1) :: u32;
          cur2 = drop 4 cur1
      in if \<not> CheckAttributeLength cur2 len then None
         else let value = take (unat len) cur2;
                  out1 = omap_assign typ value out
              in if map_of out typ \<noteq> None then None
                 else if length out1 > MAX_ATTR_COUNT then None
                 else Some (drop (unat len) cur2, out1))"

lemma ParseAttributes_shorter:
  "ParseAttributes cur out = Some (rest, out1) \<Longrightarrow> 8 \<le> length cur \<Longrightarrow> length rest < length cur"
  by (auto simp: ParseAttributes_def Let_def split: if_splits)

function parse_loop :: "bytes \<Rightarrow> (u32 \<times> bytes) list \<Rightarrow> (u32 \<times> bytes) list option" where
  "parse_loop cur out =
     (if cur = [] then Some out
      else if length cur < 8 then None
      else case ParseAttributes cur out of
             None \<Rightarrow> None
           | Some (rest, out1) \<Rightarrow> parse_loop rest out1)"
  by pat_completeness auto
termination
  by (relation "measure (\<lambda>(cur, out). length cur)")
    (auto dest: ParseAttributes_shorter)

declare parse_loop.simps [simp del]

definition Impl_of_raw :: "bytes \<Rightarrow> attributes_impl" where
  "Impl_of_raw raw =
     (if raw = [] then Impl_empty
      else case parse_loop raw [] of None \<Rightarrow> Impl_empty | Some out \<Rightarrow> \<lparr>amap = out\<rparr>)"

definition Impl_SetAttributesValue ::
  "u32 \<Rightarrow> attributes_impl \<Rightarrow> attributes_impl \<Rightarrow> bool \<times> attributes_impl" where
  "Impl_SetAttributesValue key value s =
     (let dest = Impl_Serialize value
      in if dest = [] then (False, s) else store_value (Some dest) key s)"

definition Impl_GetAttributesValue :: "u32 \<Rightarrow> attributes_impl \<Rightarrow> attributes_impl option" where
  "Impl_GetAttributesValue key s = load_value (\<lambda>b. Some (Impl_of_raw b)) key s"

lemmas setter_defs =
  Impl_SetBoolValue_def Impl_SetUint64Value_def Impl_SetUint32Value_def Impl_SetUint16Value_def
  Impl_SetUint8Value_def Impl_SetInt32Value_def Impl_SetInt64Value_def Impl_SetStringValue_def
  Impl_SetUint64ArrayValue_def Impl_SetUint32ArrayValue_def Impl_SetInt32ArrayValue_def
  Impl_SetUint16ArrayValue_def Impl_SetUint8ArrayValue_def

lemmas getter_defs =
  Impl_GetBoolValue_def Impl_GetUint64Value_def Impl_GetUint32Value_def Impl_GetUint16Value_def
  Impl_GetUint8Value_def Impl_GetInt32Value_def Impl_GetInt64Value_def Impl_GetStringValue_def
  Impl_GetUint64ArrayValue_def Impl_GetUint32ArrayValue_def Impl_GetInt32ArrayValue_def
  Impl_GetUint16ArrayValue_def Impl_GetUint8ArrayValue_def Impl_GetAttributesValue_def

section \<open>Getting what was set\<close>

lemma load_store_other:
  "store_value dest k s = (r, t) \<Longrightarrow> j \<noteq> k \<Longrightarrow> load_value dec j t = load_value dec j s"
  by (auto simp: store_value_def load_value_def split: option.splits if_splits)

lemma load_emplace_other:
  "emplace_value dest k s = (r, t) \<Longrightarrow> j \<noteq> k \<Longrightarrow> load_value dec j t = load_value dec j s"
  by (auto simp: emplace_value_def load_value_def split: option.splits if_splits)

lemma emplace_present: "map_of (amap s) k \<noteq> None \<Longrightarrow> emplace_value dest k s = (False, s)"
  by (auto simp: emplace_value_def split: option.splits)

lemma store_unchanged: "store_value dest k s = (False, t) \<Longrightarrow> t = s"
  by (auto simp: store_value_def split: option.splits if_splits)

lemma store_count:
  "length (amap s) \<le> MAX_ATTR_COUNT \<Longrightarrow> fst (store_value dest k s) \<longleftrightarrow> dest \<noteq> None"
  by (auto simp: store_value_def split: option.splits)

context value_codec
begin

lemma load_store: "store_value (enc v) k s = (True, t) \<Longrightarrow> load_value dec k t = Some v"
  by (auto simp: store_value_def load_value_def dec_enc split: option.splits if_splits)

lemma load_emplace: "emplace_value (enc v) k s = (True, t) \<Longrightarrow> load_value dec k t = Some v"
  by (auto simp: emplace_value_def load_value_def dec_enc split: option.splits if_splits)

end

section \<open>Well-formed maps\<close>

definition entry_fits :: "u32 \<times> bytes \<Rightarrow> bool" where
  "entry_fits e \<longleftrightarrow> length (snd e) \<le> MAX_ATTR_LENGTH"

definition attr_wf :: "attributes_impl \<Rightarrow> bool" where
  "attr_wf s \<longleftrightarrow> omap_ok (amap s) \<and> length (amap s) \<le> MAX_ATTR_COUNT \<and> list_all entry_fits (amap s)"

lemma attr_wf_empty [simp]: "attr_wf Impl_empty"
  by (simp add: attr_wf_def Impl_empty_def)

lemma ParseAttributes_ok:
  assumes "ParseAttributes cur out = Some (rest, out1)" and "attr_wf \<lparr>amap = out\<rparr>"
  shows "attr_wf \<lparr>amap = out1\<rparr>"
proof -
  have "list_all entry_fits (omap_assign k v out)" if "length v \<le> MAX_ATTR_LENGTH" for k v
    using assms(2) that
    by (auto simp: attr_wf_def list_all_iff entry_fits_def dest!: values_omap_assign)
  then show ?thesis
    using assms
    by (auto simp: ParseAttributes_def attr_wf_def Let_def CheckAttributeLength_def split: if_splits)
qed

lemma parse_loop_ok:
  "parse_loop cur out = Some out1 \<Longrightarrow> attr_wf \<lparr>amap = out\<rparr> \<Longrightarrow> attr_wf \<lparr>amap = out1\<rparr>"
proof (induction cur out rule: parse_loop.induct)
  case (1 cur out)
  show ?case
  proof (cases "cur = []")
    case True
    then show ?thesis using "1.prems" by (simp add: parse_loop.simps)
  next
    case False
    then obtain rest out2 where p: "\<not> length cur < 8" "ParseAttributes cur out = Some (rest, out2)"
      "parse_loop rest out2 = Some out1"
      using "1.prems"(1) by (auto simp: parse_loop.simps [of cur out] split: if_splits option.splits)
    show ?thesis
      by (rule "1.IH" [OF False p(1,2) refl p(3) ParseAttributes_ok [OF p(2) "1.prems"(2)]])
  qed
qed

lemma Impl_of_raw_wf: "attr_wf (Impl_of_raw raw)"
  using parse_loop_ok [of raw "[]"] attr_wf_empty
  by (auto simp: Impl_of_raw_def Impl_empty_def split: option.splits)

section \<open>Serialise, then parse\<close>

lemma length_serialize_entry [simp]: "length (serialize_entry k v) = 8 + length v"
  by (simp add: serialize_entry_def)

lemma ParseAttributes_entry:
  assumes "length v \<le> MAX_ATTR_LENGTH" and "map_of out k = None"
    and "length (omap_assign k v out) \<le> MAX_ATTR_COUNT"
  shows "ParseAttributes (serialize_entry k v @ rest) out = Some (rest, omap_assign k v out)"
proof -
  have len: "unat (of_nat (length v) :: u32) = length v"
    using assms(1) by (simp add: unat_of_nat MAX_ATTR_LENGTH_def)
  show ?thesis
    using assms
    by (simp add: ParseAttributes_def serialize_entry_def Let_def le_value_bytes len
        CheckAttributeLength_def)
qed

lemma omap_assign_last: "omap_ok (m @ [(k, v)]) \<Longrightarrow> omap_assign k v m = m @ [(k, v)]"
  by (induction k v m rule: omap_assign.induct) (auto simp: omap_ok_def)

lemma parse_loop_serialize:
  "attr_wf \<lparr>amap = out @ m\<rparr> \<Longrightarrow>
     parse_loop (concat (map (\<lambda>(k, v). serialize_entry k v) m)) out = Some (out @ m)"
proof (induction m arbitrary: out)
  case Nil
  then show ?case by (simp add: parse_loop.simps)
next
  case (Cons e m)
  obtain k v where e: "e = (k, v)" by fastforce
  let ?rest = "concat (map (\<lambda>(k, v). serialize_entry k v) m)"
  from Cons.prems e have wf: "omap_ok (out @ (k, v) # m)" "length v \<le> MAX_ATTR_LENGTH"
    "length out + 1 + length m \<le> MAX_ATTR_COUNT"
    by (simp_all add: attr_wf_def entry_fits_def)
  from wf(1) have ok: "omap_ok (out @ [(k, v)])" and fresh: "map_of out k = None"
    by (auto simp: omap_ok_def sorted_wrt_append map_of_eq_None_iff)
  have "ParseAttributes (serialize_entry k v @ ?rest) out = Some (?rest, out @ [(k, v)])"
    using ParseAttributes_entry [of v out k ?rest] wf fresh by (simp add: omap_assign_last [OF ok])
  moreover have "serialize_entry k v @ ?rest \<noteq> []" "\<not> length (serialize_entry k v @ ?rest) < 8"
    by (auto simp: serialize_entry_def le_bytes_def upt_rec)
  ultimately have "parse_loop (serialize_entry k v @ ?rest) out = parse_loop ?rest (out @ [(k, v)])"
    by (simp only: parse_loop.simps [of "serialize_entry k v @ ?rest"] if_False option.case prod.case)
  then show ?case using Cons.IH [of "out @ [(k, v)]"] Cons.prems by (simp add: e)
qed

lemma serialize_empty_iff: "Impl_Serialize s = [] \<longleftrightarrow> amap s = []"
  by (cases "amap s") (auto simp: Impl_Serialize_def serialize_entry_def le_bytes_def upt_rec)

lemma Impl_of_raw_serialize:
  assumes "attr_wf s"
  shows "Impl_of_raw (Impl_Serialize s) = s"
proof (cases "amap s = []")
  case True
  then show ?thesis by (simp add: Impl_of_raw_def serialize_empty_iff Impl_empty_def)
next
  case False
  then have "Impl_Serialize s \<noteq> []" by (simp add: serialize_empty_iff)
  moreover have "parse_loop (Impl_Serialize s) [] = Some (amap s)"
    using parse_loop_serialize [of "[]" "amap s"] assms by (simp add: Impl_Serialize_def attr_wf_def)
  ultimately show ?thesis by (simp add: Impl_of_raw_def)
qed

section \<open>The bytes the parser accepts\<close>

text \<open>
  \<open>accepts es out\<close>: the entries \<open>es\<close> can follow a buffer whose entries gave the map \<open>out\<close>: no key
  repeats, no value is too long, and the map stays within \<^verbatim>\<open>MAX_ATTR_COUNT\<close>.
\<close>

definition accepts :: "(u32 \<times> bytes) list \<Rightarrow> (u32 \<times> bytes) list \<Rightarrow> bool" where
  "accepts es out \<longleftrightarrow> distinct (map fst es) \<and> fst ` set es \<inter> fst ` set out = {} \<and>
     list_all entry_fits es \<and> length out + length es \<le> MAX_ATTR_COUNT"

definition entries_bytes :: "(u32 \<times> bytes) list \<Rightarrow> bytes" where
  "entries_bytes es = concat (map (\<lambda>(k, v). serialize_entry k v) es)"

fun assign_all :: "(u32 \<times> bytes) list \<Rightarrow> (u32 \<times> bytes) list \<Rightarrow> (u32 \<times> bytes) list" where
  "assign_all [] out = out"
| "assign_all ((k, v) # es) out = assign_all es (omap_assign k v out)"

lemma entries_bytes_simps [simp]:
  "entries_bytes [] = []"
  "entries_bytes ((k, v) # es) = serialize_entry k v @ entries_bytes es"
  by (simp_all add: entries_bytes_def)

lemma entries_bytes_Nil_iff [simp]:
  "entries_bytes es = [] \<longleftrightarrow> es = []" "[] = entries_bytes es \<longleftrightarrow> es = []"
  by (cases es; auto simp: serialize_entry_def le_bytes_def upt_rec)+

lemma ParseAttributes_inv:
  assumes "ParseAttributes cur out = Some (rest, out1)" and "8 \<le> length cur"
  shows "\<exists>k v. cur = serialize_entry k v @ rest \<and> length v \<le> MAX_ATTR_LENGTH \<and>
    map_of out k = None \<and> out1 = omap_assign k v out \<and> length out1 \<le> MAX_ATTR_COUNT"
proof -
  define k where "k = (le_value (take 4 cur) :: u32)"
  define len where "len = (le_value (take 4 (drop 4 cur)) :: u32)"
  define v where "v = take (unat len) (drop 8 cur)"
  have p: "unat len \<le> MAX_ATTR_LENGTH" "unat len \<le> length (drop 8 cur)" "map_of out k = None"
    "out1 = omap_assign k v out" "length out1 \<le> MAX_ATTR_COUNT" "rest = drop (unat len) (drop 8 cur)"
    using assms(1)
    by (auto simp: ParseAttributes_def Let_def CheckAttributeLength_def k_def len_def v_def
        drop_drop split: if_splits)
  have "le_bytes 4 k = take 4 cur" "le_bytes 4 len = take 4 (drop 4 cur)"
    using assms(2) by (simp_all add: k_def len_def le_bytes_value)
  moreover have "length v = unat len" using p(2) by (simp add: v_def)
  ultimately have "serialize_entry k v @ rest = take 4 cur @ take 4 (drop 4 cur) @ drop 8 cur"
    using p(6) by (simp add: serialize_entry_def v_def del: drop_drop)
  also have "\<dots> = cur"
    by (metis append_take_drop_id drop_drop numeral_Bit0)
  finally show ?thesis using p \<open>length v = unat len\<close> by metis
qed

lemma keys_length_assign:
  "map_of out k = None \<Longrightarrow> length (omap_assign k v out) = Suc (length out)"
  by (induction k v out rule: omap_assign.induct) (auto split: if_splits)

lemma parse_loop_iff:
  "parse_loop cur out = Some m \<longleftrightarrow>
     (\<exists>es. cur = entries_bytes es \<and> accepts es out \<and> m = assign_all es out)"
  if "length out \<le> MAX_ATTR_COUNT"
  using that
proof (induction cur out rule: parse_loop.induct)
  case (1 cur out)
  show ?case
  proof (cases "cur = []")
    case True
    with "1.prems" show ?thesis by (auto simp: parse_loop.simps accepts_def)
  next
    case False
    show ?thesis
    proof
      assume l: "parse_loop cur out = Some m"
      with False obtain rest out1 where n: "\<not> length cur < 8"
        and p: "ParseAttributes cur out = Some (rest, out1)" and m: "parse_loop rest out1 = Some m"
        by (auto simp: parse_loop.simps [of cur out] split: if_splits option.splits)
      obtain k v where e: "cur = serialize_entry k v @ rest" "length v \<le> MAX_ATTR_LENGTH"
        "map_of out k = None" "out1 = omap_assign k v out" "length out1 \<le> MAX_ATTR_COUNT"
        using ParseAttributes_inv [OF p] n by auto
      obtain es where es: "rest = entries_bytes es" "accepts es out1" "m = assign_all es out1"
        using "1.IH" [OF False n p refl e(5)] m by blast
      have "accepts ((k, v) # es) out"
        using e es by (auto simp: accepts_def entry_fits_def keys_length_assign map_of_eq_None_iff)
      then show "\<exists>es. cur = entries_bytes es \<and> accepts es out \<and> m = assign_all es out"
        using e(1,4) es by (intro exI [of _ "(k, v) # es"]) simp
    next
      assume "\<exists>es. cur = entries_bytes es \<and> accepts es out \<and> m = assign_all es out"
      then obtain es0 where es0: "cur = entries_bytes es0" "accepts es0 out" "m = assign_all es0 out"
        by blast
      with False obtain k v es where c: "es0 = (k, v) # es" by (cases es0) auto
      let ?out1 = "omap_assign k v out"
      have fresh: "map_of out k = None" and v: "length v \<le> MAX_ATTR_LENGTH"
        and len: "length ?out1 \<le> MAX_ATTR_COUNT" and acc: "accepts es ?out1"
        using es0(2) by (auto simp: c accepts_def entry_fits_def map_of_eq_None_iff keys_length_assign)
      have p: "ParseAttributes cur out = Some (entries_bytes es, ?out1)"
        using ParseAttributes_entry [OF v fresh len] es0(1) by (simp add: c)
      have n: "\<not> length cur < 8" using es0(1) by (simp add: c)
      have "parse_loop (entries_bytes es) ?out1 = Some m"
        using "1.IH" [OF False n p refl len] acc es0(3) by (auto simp: c)
      then show "parse_loop cur out = Some m"
        by (simp add: parse_loop.simps [of cur out] p False n)
    qed
  qed
qed

lemma assign_all_map_of:
  "accepts es out \<Longrightarrow> map_of (assign_all es out) = map_of out ++ map_of es"
proof (induction es out rule: assign_all.induct)
  case (1 out)
  then show ?case by simp
next
  case (2 k v es out)
  then have "accepts es (omap_assign k v out)" and k: "k \<notin> fst ` set es"
    by (auto simp: accepts_def keys_length_assign map_of_eq_None_iff)
  then have "map_of (assign_all es (omap_assign k v out)) = map_of (omap_assign k v out) ++ map_of es"
    using "2.IH" by blast
  also have "\<dots> = (map_of out)(k \<mapsto> v) ++ map_of es"
    by (simp only: map_of_omap_assign)
  also have "\<dots> = map_of out ++ map_of ((k, v) # es)"
    using k [folded map_of_eq_None_iff] by (auto simp: fun_eq_iff map_add_def split: option.splits)
  finally show ?case by (simp only: assign_all.simps)
qed

lemma assign_all_ok: "omap_ok out \<Longrightarrow> omap_ok (assign_all es out)"
  by (induction es out rule: assign_all.induct) auto

end
