(* ===== verification/Attributes.thy ===== *)
theory Attributes
  imports Attributes_Impl
begin

text \<open>
  The public class \<^verbatim>\<open>Attributes\<close> of \<^verbatim>\<open>frameworks/native/common/attributes/src/attributes.cpp\<close>, a
  facade over \<^verbatim>\<open>Attributes::Impl\<close>. Its only field is the owning pointer \<^verbatim>\<open>impl_\<close>, which is null
  after the object was moved from: an object is an \<open>attributes_impl option\<close>. Arrays of attribute
  objects are stored as one byte value of length-prefixed serialised objects.

  The theorems say what the wire format guarantees: which byte strings the parser accepts, that
  every parsed object is well formed, when an object survives serialisation, that a typed value is
  read back as it was set, and where the limits of the setters and of the parser disagree.
\<close>

type_synonym attributes = "attributes_impl option"

definition Attributes_new :: attributes where
  "Attributes_new = Some Impl_empty"

definition Attributes_of_raw :: "bytes \<Rightarrow> attributes" where
  "Attributes_of_raw raw = Some (Impl_of_raw raw)"

text \<open>The move constructor and the move assignment: the new object and the one moved from.\<close>

definition Attributes_move :: "attributes \<Rightarrow> attributes \<times> attributes" where
  "Attributes_move other = (other, None)"

definition with_impl ::
  "(attributes_impl \<Rightarrow> bool \<times> attributes_impl) \<Rightarrow> attributes \<Rightarrow> bool \<times> attributes" where
  "with_impl f a =
     (case a of None \<Rightarrow> (False, None) | Some s \<Rightarrow> (case f s of (r, t) \<Rightarrow> (r, Some t)))"

definition SetBoolValue :: "u32 \<Rightarrow> bool \<Rightarrow> attributes \<Rightarrow> bool \<times> attributes" where
  "SetBoolValue key value a = with_impl (Impl_SetBoolValue key value) a"

definition SetUint64Value :: "u32 \<Rightarrow> u64 \<Rightarrow> attributes \<Rightarrow> bool \<times> attributes" where
  "SetUint64Value key value a = with_impl (Impl_SetUint64Value key value) a"

definition SetUint32Value :: "u32 \<Rightarrow> u32 \<Rightarrow> attributes \<Rightarrow> bool \<times> attributes" where
  "SetUint32Value key value a = with_impl (Impl_SetUint32Value key value) a"

definition SetUint16Value :: "u32 \<Rightarrow> u16 \<Rightarrow> attributes \<Rightarrow> bool \<times> attributes" where
  "SetUint16Value key value a = with_impl (Impl_SetUint16Value key value) a"

definition SetUint8Value :: "u32 \<Rightarrow> u8 \<Rightarrow> attributes \<Rightarrow> bool \<times> attributes" where
  "SetUint8Value key value a = with_impl (Impl_SetUint8Value key value) a"

definition SetInt32Value :: "u32 \<Rightarrow> i32 \<Rightarrow> attributes \<Rightarrow> bool \<times> attributes" where
  "SetInt32Value key value a = with_impl (Impl_SetInt32Value key value) a"

definition SetInt64Value :: "u32 \<Rightarrow> i64 \<Rightarrow> attributes \<Rightarrow> bool \<times> attributes" where
  "SetInt64Value key value a = with_impl (Impl_SetInt64Value key value) a"

definition SetStringValue :: "u32 \<Rightarrow> bytes \<Rightarrow> attributes \<Rightarrow> bool \<times> attributes" where
  "SetStringValue key value a = with_impl (Impl_SetStringValue key value) a"

definition SetUint64ArrayValue :: "u32 \<Rightarrow> u64 list \<Rightarrow> attributes \<Rightarrow> bool \<times> attributes" where
  "SetUint64ArrayValue key value a = with_impl (Impl_SetUint64ArrayValue key value) a"

definition SetUint32ArrayValue :: "u32 \<Rightarrow> u32 list \<Rightarrow> attributes \<Rightarrow> bool \<times> attributes" where
  "SetUint32ArrayValue key value a = with_impl (Impl_SetUint32ArrayValue key value) a"

definition SetUint16ArrayValue :: "u32 \<Rightarrow> u16 list \<Rightarrow> attributes \<Rightarrow> bool \<times> attributes" where
  "SetUint16ArrayValue key value a = with_impl (Impl_SetUint16ArrayValue key value) a"

definition SetUint8ArrayValue :: "u32 \<Rightarrow> bytes \<Rightarrow> attributes \<Rightarrow> bool \<times> attributes" where
  "SetUint8ArrayValue key value a = with_impl (Impl_SetUint8ArrayValue key value) a"

definition SetInt32ArrayValue :: "u32 \<Rightarrow> i32 list \<Rightarrow> attributes \<Rightarrow> bool \<times> attributes" where
  "SetInt32ArrayValue key value a = with_impl (Impl_SetInt32ArrayValue key value) a"

definition SetAttributesValue :: "u32 \<Rightarrow> attributes \<Rightarrow> attributes \<Rightarrow> bool \<times> attributes" where
  "SetAttributesValue key value a =
     (case value of
        None \<Rightarrow> (False, a)
      | Some v \<Rightarrow> with_impl (Impl_SetAttributesValue key v) a)"

definition GetBoolValue :: "u32 \<Rightarrow> attributes \<Rightarrow> (bool) option" where
  "GetBoolValue key a = Option.bind a (Impl_GetBoolValue key)"

definition GetUint64Value :: "u32 \<Rightarrow> attributes \<Rightarrow> (u64) option" where
  "GetUint64Value key a = Option.bind a (Impl_GetUint64Value key)"

definition GetUint32Value :: "u32 \<Rightarrow> attributes \<Rightarrow> (u32) option" where
  "GetUint32Value key a = Option.bind a (Impl_GetUint32Value key)"

definition GetUint16Value :: "u32 \<Rightarrow> attributes \<Rightarrow> (u16) option" where
  "GetUint16Value key a = Option.bind a (Impl_GetUint16Value key)"

definition GetUint8Value :: "u32 \<Rightarrow> attributes \<Rightarrow> (u8) option" where
  "GetUint8Value key a = Option.bind a (Impl_GetUint8Value key)"

definition GetInt32Value :: "u32 \<Rightarrow> attributes \<Rightarrow> (i32) option" where
  "GetInt32Value key a = Option.bind a (Impl_GetInt32Value key)"

definition GetInt64Value :: "u32 \<Rightarrow> attributes \<Rightarrow> (i64) option" where
  "GetInt64Value key a = Option.bind a (Impl_GetInt64Value key)"

definition GetStringValue :: "u32 \<Rightarrow> attributes \<Rightarrow> (bytes) option" where
  "GetStringValue key a = Option.bind a (Impl_GetStringValue key)"

definition GetUint64ArrayValue :: "u32 \<Rightarrow> attributes \<Rightarrow> (u64 list) option" where
  "GetUint64ArrayValue key a = Option.bind a (Impl_GetUint64ArrayValue key)"

definition GetUint32ArrayValue :: "u32 \<Rightarrow> attributes \<Rightarrow> (u32 list) option" where
  "GetUint32ArrayValue key a = Option.bind a (Impl_GetUint32ArrayValue key)"

definition GetUint16ArrayValue :: "u32 \<Rightarrow> attributes \<Rightarrow> (u16 list) option" where
  "GetUint16ArrayValue key a = Option.bind a (Impl_GetUint16ArrayValue key)"

definition GetUint8ArrayValue :: "u32 \<Rightarrow> attributes \<Rightarrow> (bytes) option" where
  "GetUint8ArrayValue key a = Option.bind a (Impl_GetUint8ArrayValue key)"

definition GetInt32ArrayValue :: "u32 \<Rightarrow> attributes \<Rightarrow> (i32 list) option" where
  "GetInt32ArrayValue key a = Option.bind a (Impl_GetInt32ArrayValue key)"

definition GetAttributesValue :: "u32 \<Rightarrow> attributes \<Rightarrow> attributes \<Rightarrow> bool \<times> attributes" where
  "GetAttributesValue key a value =
     (case (a, value) of
        (Some s, Some _) \<Rightarrow>
          (case Impl_GetAttributesValue key s of
             None \<Rightarrow> (False, value)
           | Some v \<Rightarrow> (True, Some v))
      | _ \<Rightarrow> (False, value))"

definition Serialize :: "attributes \<Rightarrow> bytes" where
  "Serialize a = (case a of None \<Rightarrow> [] | Some s \<Rightarrow> Impl_Serialize s)"

definition GetKeys :: "attributes \<Rightarrow> u32 list" where
  "GetKeys a = (case a of None \<Rightarrow> [] | Some s \<Rightarrow> Impl_GetKeys s)"

definition HasAttribute :: "u32 \<Rightarrow> attributes \<Rightarrow> bool" where
  "HasAttribute key a \<longleftrightarrow> (case a of None \<Rightarrow> False | Some s \<Rightarrow> Impl_HasAttribute key s)"

section \<open>Arrays of attribute objects\<close>

text \<open>
  The index \<^verbatim>\<open>i\<close> of the reading loop is the length of the part already read; the model keeps the
  unread suffix. On a malformed value the function returns false and leaves the objects read so far
  in the output array, which the model returns too.
\<close>

definition array_bytes :: "attributes list \<Rightarrow> bytes" where
  "array_bytes array = concat (map (\<lambda>item. le_bytes 4 (of_nat (length (Serialize item)) :: u32) @
     Serialize item) array)"

definition SetAttributesArrayValue ::
  "u32 \<Rightarrow> attributes list \<Rightarrow> attributes \<Rightarrow> bool \<times> attributes" where
  "SetAttributesArrayValue key array a =
     (if a = None then (False, a)
      else if \<exists>item \<in> set array. item = None then (False, a)
      else with_impl (Impl_SetUint8ArrayValue key (array_bytes array)) a)"

function read_array :: "bytes \<Rightarrow> attributes list \<Rightarrow> bool \<times> attributes list" where
  "read_array data array =
     (if data = [] then (True, array)
      else if length data < 4 then (False, array)
      else case DecodeUint32Value (take 4 data) of
             None \<Rightarrow> (False, array)
           | Some arrayLen \<Rightarrow>
               if length (drop 4 data) < unat arrayLen then (False, array)
               else read_array (drop (unat arrayLen) (drop 4 data))
                      (array @ [Attributes_of_raw (take (unat arrayLen) (drop 4 data))]))"
  by pat_completeness auto
termination
  by (relation "measure (\<lambda>(data, array). length data)") auto

declare read_array.simps [simp del]

definition GetAttributesArrayValue ::
  "u32 \<Rightarrow> attributes \<Rightarrow> attributes list \<Rightarrow> bool \<times> attributes list" where
  "GetAttributesArrayValue key a array =
     (case a of
        None \<Rightarrow> (False, array)
      | Some s \<Rightarrow>
          (case Impl_GetUint8ArrayValue key s of
             None \<Rightarrow> (False, array)
           | Some data \<Rightarrow> read_array data []))"

lemmas facade_defs =
  with_impl_def SetBoolValue_def GetBoolValue_def SetUint64Value_def GetUint64Value_def SetUint32Value_def GetUint32Value_def SetUint16Value_def GetUint16Value_def SetUint8Value_def GetUint8Value_def SetInt32Value_def GetInt32Value_def SetInt64Value_def GetInt64Value_def SetStringValue_def GetStringValue_def SetUint64ArrayValue_def GetUint64ArrayValue_def SetUint32ArrayValue_def GetUint32ArrayValue_def SetUint16ArrayValue_def GetUint16ArrayValue_def SetUint8ArrayValue_def GetUint8ArrayValue_def SetInt32ArrayValue_def GetInt32ArrayValue_def

section \<open>Operations on one object\<close>

text \<open>
  The operations that build an object: every setter as a command, so that facts about all of them
  are stated once, and the objects that can exist are those reached from an empty or a parsed one.
\<close>

datatype attr_op =
    OpBool u32 bool | OpUint64 u32 u64 | OpUint32 u32 u32 | OpUint16 u32 u16 | OpUint8 u32 u8
  | OpInt32 u32 i32 | OpInt64 u32 i64 | OpString u32 bytes | OpUint64Array u32 "u64 list"
  | OpUint32Array u32 "u32 list" | OpUint16Array u32 "u16 list" | OpUint8Array u32 bytes
  | OpInt32Array u32 "i32 list" | OpAttributes u32 attributes_impl

fun attr_op_key :: "attr_op \<Rightarrow> u32" where
  "attr_op_key (OpBool k _) = k" | "attr_op_key (OpUint64 k _) = k"
| "attr_op_key (OpUint32 k _) = k" | "attr_op_key (OpUint16 k _) = k"
| "attr_op_key (OpUint8 k _) = k" | "attr_op_key (OpInt32 k _) = k"
| "attr_op_key (OpInt64 k _) = k" | "attr_op_key (OpString k _) = k"
| "attr_op_key (OpUint64Array k _) = k" | "attr_op_key (OpUint32Array k _) = k"
| "attr_op_key (OpUint16Array k _) = k" | "attr_op_key (OpUint8Array k _) = k"
| "attr_op_key (OpInt32Array k _) = k" | "attr_op_key (OpAttributes k _) = k"

fun apply_attr_op :: "attr_op \<Rightarrow> attributes_impl \<Rightarrow> bool \<times> attributes_impl" where
  "apply_attr_op (OpBool k v) s = Impl_SetBoolValue k v s"
| "apply_attr_op (OpUint64 k v) s = Impl_SetUint64Value k v s"
| "apply_attr_op (OpUint32 k v) s = Impl_SetUint32Value k v s"
| "apply_attr_op (OpUint16 k v) s = Impl_SetUint16Value k v s"
| "apply_attr_op (OpUint8 k v) s = Impl_SetUint8Value k v s"
| "apply_attr_op (OpInt32 k v) s = Impl_SetInt32Value k v s"
| "apply_attr_op (OpInt64 k v) s = Impl_SetInt64Value k v s"
| "apply_attr_op (OpString k v) s = Impl_SetStringValue k v s"
| "apply_attr_op (OpUint64Array k v) s = Impl_SetUint64ArrayValue k v s"
| "apply_attr_op (OpUint32Array k v) s = Impl_SetUint32ArrayValue k v s"
| "apply_attr_op (OpUint16Array k v) s = Impl_SetUint16ArrayValue k v s"
| "apply_attr_op (OpUint8Array k v) s = Impl_SetUint8ArrayValue k v s"
| "apply_attr_op (OpInt32Array k v) s = Impl_SetInt32ArrayValue k v s"
| "apply_attr_op (OpAttributes k v) s = Impl_SetAttributesValue k v s"

inductive impl_reach :: "attributes_impl \<Rightarrow> bool" where
  reach_new: "impl_reach Impl_empty"
| reach_raw: "impl_reach (Impl_of_raw raw)"
| reach_op: "impl_reach s \<Longrightarrow> impl_reach (snd (apply_attr_op op s))"

text \<open>Every command is a store or an emplace of some encoded value under its key.\<close>

lemma apply_attr_op_cases:
  "\<exists>dest. apply_attr_op op s = store_value dest (attr_op_key op) s \<or>
     apply_attr_op op s = emplace_value dest (attr_op_key op) s"
proof (cases op)
  case (OpAttributes k v)
  then show ?thesis
    by (intro exI [of _ "if Impl_Serialize v = [] then None else Some (Impl_Serialize v)"])
      (simp add: Impl_SetAttributesValue_def store_value_def)
qed (auto simp: setter_defs)

lemma store_map:
  "map_of (amap (snd (store_value dest k s))) j = map_of (amap s) j \<or> j = k \<and> fst (store_value dest k s)"
  by (auto simp: store_value_def split: option.splits)

lemma emplace_map:
  "map_of (amap (snd (emplace_value dest k s))) j = map_of (amap s) j \<or> j = k \<and> fst (emplace_value dest k s)"
  by (auto simp: emplace_value_def split: option.splits)

lemma store_invariant:
  assumes "omap_ok (amap s)" and "length (amap s) \<le> Suc MAX_ATTR_COUNT"
  shows "omap_ok (amap (snd (store_value dest k s))) \<and>
    length (amap (snd (store_value dest k s))) \<le> Suc MAX_ATTR_COUNT"
  using assms by (auto simp: store_value_def length_omap_assign split: option.splits)

lemma emplace_invariant:
  assumes "omap_ok (amap s)" and "length (amap s) \<le> Suc MAX_ATTR_COUNT"
  shows "omap_ok (amap (snd (emplace_value dest k s))) \<and>
    length (amap (snd (emplace_value dest k s))) \<le> Suc MAX_ATTR_COUNT"
  using assms by (auto simp: emplace_value_def length_omap_assign split: option.splits)

lemma emplace_unchanged: "emplace_value dest k s = (False, t) \<Longrightarrow> t = s"
  by (auto simp: emplace_value_def split: option.splits if_splits)

lemma apply_attr_op_invariant:
  assumes "omap_ok (amap s)" and "length (amap s) \<le> Suc MAX_ATTR_COUNT"
  shows "omap_ok (amap (snd (apply_attr_op op s))) \<and>
    length (amap (snd (apply_attr_op op s))) \<le> Suc MAX_ATTR_COUNT"
  using apply_attr_op_cases [of op s] store_invariant [OF assms] emplace_invariant [OF assms] by auto

section \<open>Losing an object in transit\<close>

lemma ParseAttributes_entry_fails:
  assumes "length v < 2 ^ 32"
    and "length v > MAX_ATTR_LENGTH \<or> length (omap_assign k v out) > MAX_ATTR_COUNT"
  shows "ParseAttributes (serialize_entry k v @ rest) out = None"
proof -
  have len: "unat (of_nat (length v) :: u32) = length v"
    using assms(1) by (simp add: unat_of_nat)
  show ?thesis
    using assms(2)
    by (auto simp: ParseAttributes_def serialize_entry_def Let_def le_value_bytes len
        CheckAttributeLength_def)
qed

lemma parse_loop_lossy:
  assumes "omap_ok (out @ m)" and "list_all (\<lambda>e. length (snd e) < 2 ^ 32) m"
    and "attr_wf \<lparr>amap = out\<rparr>" and "\<not> attr_wf \<lparr>amap = out @ m\<rparr>"
  shows "parse_loop (entries_bytes m) out = None"
  using assms
proof (induction m arbitrary: out)
  case Nil
  then show ?case by simp
next
  case (Cons e m)
  obtain k v where e: "e = (k, v)" by fastforce
  have ok: "omap_ok (out @ [(k, v)])" using Cons.prems(1) by (auto simp: e omap_ok_def sorted_wrt_append)
  have u: "parse_loop (entries_bytes (e # m)) out =
      (case ParseAttributes (serialize_entry k v @ entries_bytes m) out of
         None \<Rightarrow> None | Some (rest, out1) \<Rightarrow> parse_loop rest out1)"
    by (subst parse_loop.simps) (auto simp: e serialize_entry_def le_bytes_def upt_rec)
  show ?case
  proof (cases "length v > MAX_ATTR_LENGTH \<or> length out \<ge> MAX_ATTR_COUNT")
    case True
    then show ?thesis
      using u Cons.prems(2) ParseAttributes_entry_fails [of v k out "entries_bytes m"]
      by (auto simp: omap_assign_last [OF ok] e)
  next
    case False
    have "map_of out k = None"
      using ok by (auto simp: omap_ok_def sorted_wrt_append map_of_eq_None_iff)
    then have p: "ParseAttributes (serialize_entry k v @ entries_bytes m) out =
        Some (entries_bytes m, out @ [(k, v)])"
      using False ParseAttributes_entry [of v out k] by (simp add: omap_assign_last [OF ok])
    have "attr_wf \<lparr>amap = out @ [(k, v)]\<rparr>"
      using False Cons.prems(3) ok by (simp add: attr_wf_def entry_fits_def)
    then have "parse_loop (entries_bytes m) (out @ [(k, v)]) = None"
      using Cons.IH [of "out @ [(k, v)]"] Cons.prems by (simp add: e)
    then show ?thesis using u by (simp add: p e)
  qed
qed

lemma Impl_of_raw_lossy:
  assumes "omap_ok (amap s)" and "list_all (\<lambda>e. length (snd e) < 2 ^ 32) (amap s)" and "\<not> attr_wf s"
  shows "Impl_of_raw (Impl_Serialize s) = Impl_empty"
proof -
  have "\<not> attr_wf \<lparr>amap = amap s\<rparr>" using assms(3) by (cases s) simp
  then have "parse_loop (Impl_Serialize s) [] = None"
    using parse_loop_lossy [of "[]" "amap s"] assms(1,2) attr_wf_empty
    by (simp add: Impl_Serialize_def entries_bytes_def Impl_empty_def)
  then show ?thesis by (simp add: Impl_of_raw_def)
qed

lemma impl_reach_invariant:
  "impl_reach s \<Longrightarrow> omap_ok (amap s) \<and> length (amap s) \<le> Suc MAX_ATTR_COUNT"
proof (induction rule: impl_reach.induct)
  case reach_new
  then show ?case by (simp add: Impl_empty_def)
next
  case (reach_raw raw)
  then show ?case using Impl_of_raw_wf [of raw] by (simp add: attr_wf_def)
next
  case (reach_op s op)
  then show ?case using apply_attr_op_invariant by blast
qed

section \<open>Objects made by a sequence of setters\<close>

text \<open>
  What the users of an object rely on: a setter leaves the other keys alone, stores its own value while
  the object is below the limit, and adds at most one key.
\<close>

definition attr_at :: "u32 \<Rightarrow> bytes option \<Rightarrow> attributes \<Rightarrow> bool" where
  "attr_at k v a \<longleftrightarrow> (\<exists>s. a = Some s \<and> map_of (amap s) k = v)"

definition attr_len :: "nat \<Rightarrow> attributes \<Rightarrow> bool" where
  "attr_len n a \<longleftrightarrow> (\<exists>s. a = Some s \<and> length (amap s) \<le> n)"

lemma attr_new [simp]: "attr_at k None Attributes_new" "attr_len 0 Attributes_new"
  by (simp_all add: attr_at_def attr_len_def Attributes_new_def Impl_empty_def)

lemma attr_len_mono: "attr_len m a \<Longrightarrow> m \<le> n \<Longrightarrow> attr_len n a"
  by (auto simp: attr_len_def)

lemma length_omap_assign_le: "length (omap_assign k v m) \<le> Suc (length m)"
  by (induction k v m rule: omap_assign.induct) auto

lemma attr_at_store_other:
  "attr_at j v a \<Longrightarrow> j \<noteq> k \<Longrightarrow> attr_at j v (snd (with_impl (store_value dest k) a))"
  by (auto simp: attr_at_def with_impl_def store_value_def split: option.splits prod.splits if_splits)

lemma attr_at_store:
  "attr_len MAX_ATTR_COUNT a \<Longrightarrow> dest \<noteq> None \<Longrightarrow> attr_at k dest (snd (with_impl (store_value dest k) a))"
  by (auto simp: attr_at_def attr_len_def with_impl_def store_value_def)

lemma attr_len_store:
  "attr_len n a \<Longrightarrow> attr_len (Suc n) (snd (with_impl (store_value dest k) a))"
  by (auto simp: attr_len_def with_impl_def store_value_def split: option.splits prod.splits if_splits
      intro: order_trans [OF length_omap_assign_le])

lemmas facade_store =
  SetBoolValue_def Impl_SetBoolValue_def SetUint64Value_def Impl_SetUint64Value_def
  SetUint32Value_def Impl_SetUint32Value_def SetInt32Value_def Impl_SetInt32Value_def
  SetStringValue_def Impl_SetStringValue_def SetUint64ArrayValue_def Impl_SetUint64ArrayValue_def
  SetUint32ArrayValue_def Impl_SetUint32ArrayValue_def SetUint8ArrayValue_def Impl_SetUint8ArrayValue_def

lemma attr_set_other:
  assumes "attr_at j v a" and "j \<noteq> k"
  shows "attr_at j v (snd (SetBoolValue k b a))" "attr_at j v (snd (SetUint64Value k n64 a))"
    "attr_at j v (snd (SetUint32Value k n32 a))" "attr_at j v (snd (SetInt32Value k i a))"
    "attr_at j v (snd (SetStringValue k str a))" "attr_at j v (snd (SetUint64ArrayValue k ns a))"
    "attr_at j v (snd (SetUint32ArrayValue k ws a))" "attr_at j v (snd (SetUint8ArrayValue k bs a))"
  unfolding facade_store by (rule attr_at_store_other [OF assms])+

lemma attr_set_len:
  assumes "attr_len n a"
  shows "attr_len (Suc n) (snd (SetBoolValue k b a))" "attr_len (Suc n) (snd (SetUint64Value k n64 a))"
    "attr_len (Suc n) (snd (SetUint32Value k n32 a))" "attr_len (Suc n) (snd (SetInt32Value k i a))"
    "attr_len (Suc n) (snd (SetStringValue k str a))" "attr_len (Suc n) (snd (SetUint64ArrayValue k ns a))"
    "attr_len (Suc n) (snd (SetUint32ArrayValue k ws a))" "attr_len (Suc n) (snd (SetUint8ArrayValue k bs a))"
  unfolding facade_store by (rule attr_len_store [OF assms])+

lemma attr_set_Int32:
  "attr_len MAX_ATTR_COUNT a \<Longrightarrow> attr_at k (EncodeInt32Value v) (snd (SetInt32Value k v a))"
  unfolding facade_store by (rule attr_at_store) (simp_all add: EncodeInt32Value_def)

lemma attr_set_Uint8Array:
  "attr_len MAX_ATTR_COUNT a \<Longrightarrow> length v \<le> MAX_ATTR_LENGTH \<Longrightarrow>
     attr_at k (Some v) (snd (SetUint8ArrayValue k v a))"
  unfolding facade_store using attr_at_store [of a "EncodeUint8ArrayValue v" k]
  by (simp add: EncodeUint8ArrayValue_def)

lemma attr_get_Int32:
  "attr_at k v a \<Longrightarrow> GetInt32Value k a = (case v of None \<Rightarrow> None | Some b \<Rightarrow> DecodeInt32Value b)"
  by (auto simp: attr_at_def GetInt32Value_def Impl_GetInt32Value_def load_value_def)

lemma attr_get_Uint8Array: "attr_at k v a \<Longrightarrow> GetUint8ArrayValue k a = v"
  by (auto simp: attr_at_def GetUint8ArrayValue_def Impl_GetUint8ArrayValue_def load_value_def
      DecodeUint8ArrayValue_def split: option.splits)

lemma attr_Int32_roundtrip:
  "(case EncodeInt32Value v of None \<Rightarrow> None | Some b \<Rightarrow> DecodeInt32Value b) = Some v"
  using codec_i32.dec_enc by (auto simp: EncodeInt32Value_def)

section \<open>Properties\<close>

text \<open>What the constructor takes for an object: entries one after the other, with nothing left over.\<close>

definition spells :: "bytes \<Rightarrow> (u32 \<times> bytes) list \<Rightarrow> bool" where
  "spells raw es \<longleftrightarrow>
     raw = entries_bytes es \<and> distinct (map fst es) \<and> list_all entry_fits es \<and> length es \<le> MAX_ATTR_COUNT"

lemma parse_loop_spells: "parse_loop raw [] = Some m \<longleftrightarrow> (\<exists>es. spells raw es \<and> omap_ok m \<and> map_of m = map_of es)"
  (is "?l \<longleftrightarrow> ?r")
proof
  assume ?l
  then obtain es where es: "raw = entries_bytes es" "accepts es []" "m = assign_all es []"
    using parse_loop_iff [of "[]" raw m] by auto
  then have "map_of m = map_of es" "omap_ok m"
    using assign_all_map_of [OF es(2)] assign_all_ok [of "[]" es] by simp_all
  with es show ?r by (auto simp: accepts_def spells_def)
next
  assume ?r
  then obtain es where es: "raw = entries_bytes es" "accepts es []" "omap_ok m" "map_of m = map_of es"
    by (auto simp: accepts_def spells_def)
  then have "m = assign_all es []"
    using assign_all_map_of [OF es(2)] by (intro omap_ext assign_all_ok) simp_all
  with es show ?l using parse_loop_iff [of "[]" raw m] by auto
qed

text \<open>
  Property C37: the constructor from raw bytes, for every byte string. If the bytes are a concatenation of at most
  \<^verbatim>\<open>MAX_ATTR_COUNT\<close> well-formed entries with no key twice and no value longer than \<^verbatim>\<open>MAX_ATTR_LENGTH\<close>, with nothing left
  over, the object holds exactly these entries, in ascending order of the keys; every other byte string, also one that
  repeats a key, gives the empty object.
\<close>

theorem raw_parser_accepts:
  "(\<forall>es. spells raw es \<longrightarrow>
      map_of (amap (Impl_of_raw raw)) = map_of es \<and> omap_ok (amap (Impl_of_raw raw)) \<and>
      length (amap (Impl_of_raw raw)) = length es) \<and>
   ((\<nexists>es. spells raw es) \<longrightarrow> Impl_of_raw raw = Impl_empty)"
proof (intro conjI allI impI)
  fix es assume es: "spells raw es"
  then have "\<exists>m. parse_loop raw [] = Some m"
    unfolding spells_def using parse_loop_iff [of "[]" raw] by (auto simp: accepts_def)
  then obtain m where m: "parse_loop raw [] = Some m" by blast
  have acc: "accepts es []" "raw = entries_bytes es" using es by (auto simp: spells_def accepts_def)
  then have "parse_loop raw [] = Some (assign_all es [])" using parse_loop_iff [of "[]" raw] by auto
  then have eq: "m = assign_all es []" using m by simp
  have of_raw: "amap (Impl_of_raw raw) = m" using m by (cases raw) (auto simp: Impl_of_raw_def Impl_empty_def parse_loop.simps)
  show maps: "map_of (amap (Impl_of_raw raw)) = map_of es" unfolding of_raw eq using assign_all_map_of [OF acc(1)] by simp
  show ok: "omap_ok (amap (Impl_of_raw raw))" unfolding of_raw eq using assign_all_ok [of "[]" es] by simp
  have "distinct (map fst (amap (Impl_of_raw raw)))" "distinct (map fst es)"
    using omap_ok_distinct [OF ok] es by (auto simp: spells_def)
  moreover have "fst ` set (amap (Impl_of_raw raw)) = fst ` set es" using maps by (metis dom_map_of_conv_image_fst)
  ultimately show "length (amap (Impl_of_raw raw)) = length es"
    by (metis distinct_card length_map list.set_map)
next
  assume "\<nexists>es. spells raw es"
  then have "parse_loop raw [] = None" using parse_loop_spells [of raw] by (cases "parse_loop raw []") auto
  then show "Impl_of_raw raw = Impl_empty" by (simp add: Impl_of_raw_def)
qed

lemma raw_parser_accepts_witness:
  "map_of (amap (Impl_of_raw (entries_bytes [(9, [5]), (7, [])]))) 9 = Some [5] \<and> Impl_of_raw [1] = Impl_empty"
proof
  have "spells (entries_bytes [(9, [5]), (7, [])]) [(9, [5]), (7, [])]"
    by (simp add: spells_def entry_fits_def MAX_ATTR_COUNT_def MAX_ATTR_LENGTH_def)
  then show "map_of (amap (Impl_of_raw (entries_bytes [(9, [5]), (7, [])]))) 9 = Some [5]"
    using raw_parser_accepts [of "entries_bytes [(9, [5]), (7, [])]"] by simp
  have "\<not> spells [1] es" for es
    by (cases es) (auto simp: spells_def serialize_entry_def le_bytes_def upt_rec split: prod.splits)
  then show "Impl_of_raw [1] = Impl_empty" using raw_parser_accepts [of "[1]"] by simp
qed

text \<open>
  Also shown: whatever bytes arrive, the object built from them is well formed: ascending keys, at
  most \<^verbatim>\<open>MAX_ATTR_COUNT\<close> of them, no value over \<^verbatim>\<open>MAX_ATTR_LENGTH\<close>; and it is either empty or
  accounts for every byte of the input.
\<close>

lemma length_entries_bytes: "length (entries_bytes es) = sum_list (map (\<lambda>e. 8 + length (snd e)) es)"
  by (induction es) auto

theorem parsed_object_well_formed:
  "attr_wf (Impl_of_raw raw) \<and>
     (Impl_of_raw raw = Impl_empty \<or> length (Impl_Serialize (Impl_of_raw raw)) = length raw)"
proof -
  have "length (Impl_Serialize \<lparr>amap = m\<rparr>) = length raw" if p: "parse_loop raw [] = Some m" for m
  proof -
    obtain es where es: "raw = entries_bytes es" "accepts es []" "m = assign_all es []"
      using parse_loop_iff [of "[]" raw m] p by auto
    have d: "distinct (map fst es)" "distinct (map fst m)" and "map_of m = map_of es"
      using es assign_all_map_of [OF es(2)] assign_all_ok [of "[]" es]
      by (auto simp: accepts_def omap_ok_distinct)
    then have "set m = set es" by (simp add: map_of_inject_set)
    then have "sum_list (map (\<lambda>e. 8 + length (snd e)) m) = sum_list (map (\<lambda>e. 8 + length (snd e)) es)"
      using d by (simp add: sum_list_distinct_conv_sum_set distinct_map)
    then show ?thesis
      by (simp add: Impl_Serialize_def length_entries_bytes es(1) entries_bytes_def [symmetric])
  qed
  then show ?thesis
    using Impl_of_raw_wf [of raw] by (auto simp: Impl_of_raw_def split: option.splits)
qed

text \<open>
  Property C28: an object built by any sequence of setters from an empty or a parsed one survives
  \<^verbatim>\<open>Serialize\<close> and the raw constructor unchanged exactly when it is well formed; otherwise the
  receiver gets the empty object, with every attribute lost.
\<close>

theorem serialize_roundtrip:
  assumes "impl_reach s" and "list_all (\<lambda>e. length (snd e) < 2 ^ 32) (amap s)"
  shows "Attributes_of_raw (Serialize (Some s)) =
    (if attr_wf s then Some s else Attributes_new)"
  using assms Impl_of_raw_serialize Impl_of_raw_lossy impl_reach_invariant
  by (simp add: Attributes_of_raw_def Serialize_def Attributes_new_def)

theorem serialize_roundtrip_witness:
  "Attributes_of_raw (Serialize (Some (snd (Impl_SetUint32Value 100043 7 Impl_empty)))) =
     Some (snd (Impl_SetUint32Value 100043 7 Impl_empty))"
proof -
  let ?s = "snd (Impl_SetUint32Value 100043 7 Impl_empty)"
  have s: "amap ?s = [(100043, [7, 0, 0, 0])]"
    by (simp add: Impl_SetUint32Value_def EncodeUint32Value_def store_value_def Impl_empty_def
        MAX_ATTR_COUNT_def) code_simp
  have "impl_reach ?s" using reach_op [OF reach_new, of "OpUint32 100043 7"] by simp
  moreover have "attr_wf ?s"
    by (simp add: attr_wf_def s entry_fits_def MAX_ATTR_COUNT_def MAX_ATTR_LENGTH_def)
  ultimately show ?thesis using serialize_roundtrip [of ?s] by (simp add: s)
qed

text \<open>
  Also shown: every object that can be built has ascending, distinct keys and at most
  \<^verbatim>\<open>MAX_ATTR_COUNT + 1\<close> attributes: the setters test the size before they insert.
\<close>

theorem attribute_count_bound:
  assumes "impl_reach s"
  shows "sorted_wrt (<) (Impl_GetKeys s) \<and> length (Impl_GetKeys s) \<le> MAX_ATTR_COUNT + 1"
  using impl_reach_invariant [OF assms] by (simp add: omap_ok_def Impl_GetKeys_def)

theorem attribute_count_bound_witness:
  "length (Impl_GetKeys (snd (Impl_SetBoolValue 1 True Impl_empty))) \<le> MAX_ATTR_COUNT + 1"
  using attribute_count_bound [OF reach_op [OF reach_new, of "OpBool 1 True"]] by simp

text \<open>
  Also shown: every setter is a frame: a refused setter leaves the object as it was, and an
  accepted one changes no attribute but its own.
\<close>

theorem setter_frame:
  "(fst (apply_attr_op op s) \<or> snd (apply_attr_op op s) = s) \<and>
     (j = attr_op_key op \<or>
      map_of (amap (snd (apply_attr_op op s))) j = map_of (amap s) j)"
proof -
  obtain dest where d: "apply_attr_op op s = store_value dest (attr_op_key op) s \<or>
      apply_attr_op op s = emplace_value dest (attr_op_key op) s"
    using apply_attr_op_cases by blast
  then have "fst (apply_attr_op op s) \<or> snd (apply_attr_op op s) = s"
    by (metis (full_types) emplace_unchanged prod.collapse store_unchanged)
  then show ?thesis using d store_map emplace_map by metis
qed

text \<open>
  Also shown: a typed value is read back as it was set, for each of the thirteen types, whenever
  the setter accepted it.
\<close>

theorem typed_set_get:
  "(Impl_SetBoolValue k b s = (True, t) \<longrightarrow> Impl_GetBoolValue k t = Some b) \<and>
   (Impl_SetUint64Value k u8v s = (True, t) \<longrightarrow> Impl_GetUint64Value k t = Some u8v) \<and>
   (Impl_SetUint32Value k u4v s = (True, t) \<longrightarrow> Impl_GetUint32Value k t = Some u4v) \<and>
   (Impl_SetUint16Value k u2v s = (True, t) \<longrightarrow> Impl_GetUint16Value k t = Some u2v) \<and>
   (Impl_SetUint8Value k u1v s = (True, t) \<longrightarrow> Impl_GetUint8Value k t = Some u1v) \<and>
   (Impl_SetInt32Value k i4v s = (True, t) \<longrightarrow> Impl_GetInt32Value k t = Some i4v) \<and>
   (Impl_SetInt64Value k i8v s = (True, t) \<longrightarrow> Impl_GetInt64Value k t = Some i8v) \<and>
   (Impl_SetStringValue k str s = (True, t) \<longrightarrow> Impl_GetStringValue k t = Some str) \<and>
   (Impl_SetUint64ArrayValue k u8s s = (True, t) \<longrightarrow> Impl_GetUint64ArrayValue k t = Some u8s) \<and>
   (Impl_SetUint32ArrayValue k u4s s = (True, t) \<longrightarrow> Impl_GetUint32ArrayValue k t = Some u4s) \<and>
   (Impl_SetUint16ArrayValue k u2s s = (True, t) \<longrightarrow> Impl_GetUint16ArrayValue k t = Some u2s) \<and>
   (Impl_SetUint8ArrayValue k u1s s = (True, t) \<longrightarrow> Impl_GetUint8ArrayValue k t = Some u1s) \<and>
   (Impl_SetInt32ArrayValue k i4s s = (True, t) \<longrightarrow> Impl_GetInt32ArrayValue k t = Some i4s)"
  unfolding setter_defs getter_defs
  by (intro conjI impI)
    (erule codec_bool.load_store codec_u64.load_store codec_u32.load_store codec_u16.load_store
      codec_u8.load_store codec_i32.load_store codec_i64.load_emplace codec_string.load_store
      codec_u64s.load_store codec_u32s.load_store codec_u16s.load_store codec_u8s.load_store
      codec_i32s.load_store)+

theorem typed_set_get_witness:
  "Impl_GetUint64ArrayValue 100007 (snd (Impl_SetUint64ArrayValue 100007 [3, 2 ^ 40] Impl_empty)) =
     Some [3, 2 ^ 40]"
proof -
  have "Impl_SetUint64ArrayValue 100007 [3, 2 ^ 40] Impl_empty =
      (True, snd (Impl_SetUint64ArrayValue 100007 [3, 2 ^ 40] Impl_empty))"
    by (simp add: Impl_SetUint64ArrayValue_def EncodeUint64ArrayValue_def store_value_def
        Impl_empty_def MAX_ATTR_COUNT_def MAX_ATTR_LENGTH_def)
  then show ?thesis using typed_set_get [where u8s = "[3, 2 ^ 40]"] by blast
qed

text \<open>
  Also shown: \<^verbatim>\<open>SetInt64Value\<close> never replaces a value: on a key that is present it returns false and
  leaves the object alone, where \<^verbatim>\<open>SetUint64Value\<close> on the same object stores the new value.
\<close>

theorem int64_setter_keeps_old_value:
  assumes "Impl_HasAttribute k s" and "length (amap s) \<le> MAX_ATTR_COUNT"
  shows "Impl_SetInt64Value k v s = (False, s) \<and>
    Impl_GetUint64Value k (snd (Impl_SetUint64Value k v s)) = Some v"
proof -
  have "Impl_SetUint64Value k v s = (True, snd (Impl_SetUint64Value k v s))"
    using assms(2) by (simp add: Impl_SetUint64Value_def EncodeUint64Value_def store_value_def)
  then have "Impl_GetUint64Value k (snd (Impl_SetUint64Value k v s)) = Some v"
    unfolding Impl_SetUint64Value_def Impl_GetUint64Value_def by (rule codec_u64.load_store)
  then show ?thesis
    using assms(1) emplace_present by (auto simp: Impl_HasAttribute_def Impl_SetInt64Value_def)
qed

theorem int64_setter_keeps_old_value_witness:
  "Impl_SetInt64Value 100083 5 (snd (Impl_SetInt64Value 100083 4 Impl_empty)) =
     (False, snd (Impl_SetInt64Value 100083 4 Impl_empty))"
  by (rule conjunct1 [OF int64_setter_keeps_old_value])
    (simp_all add: Impl_SetInt64Value_def EncodeInt64Value_def emplace_value_def Impl_empty_def
      Impl_HasAttribute_def MAX_ATTR_COUNT_def)

text \<open>
  Also shown: a string of exactly \<^verbatim>\<open>MAX_ATTR_LENGTH\<close> bytes is accepted and read back locally, but the
  object that holds it arrives empty: the terminating zero makes the entry one byte too long for
  the parser, which then drops every attribute.
\<close>

theorem longest_string_loses_object:
  assumes "length str = MAX_ATTR_LENGTH" and "attr_wf s"
    and "Impl_SetStringValue k str s = (r, t)"
  shows "r \<and> Impl_GetStringValue k t = Some str \<and>
    Attributes_of_raw (Serialize (Some t)) = Attributes_new"
proof -
  let ?b = "str @ [0]"
  have enc: "EncodeStringValue str = Some ?b" using assms(1) by (simp add: EncodeStringValue_def)
  have t: "r" "t = \<lparr>amap = omap_assign k ?b (amap s)\<rparr>"
    using assms(2,3) by (auto simp: Impl_SetStringValue_def enc store_value_def attr_wf_def split: if_splits)
  have "(k, ?b) \<in> set (amap t)" by (rule map_of_SomeD) (simp add: t(2))
  then have "\<not> attr_wf t" using assms(1)
    by (auto simp: attr_wf_def list_all_iff entry_fits_def intro!: bexI [of _ "(k, ?b)"])
  moreover have "list_all (\<lambda>e. length (snd e) < 2 ^ 32) (amap t)"
    using assms(1,2) values_omap_assign [of _ _ k ?b "amap s"]
    by (fastforce simp: t(2) list_all_iff attr_wf_def entry_fits_def MAX_ATTR_LENGTH_def)
  moreover have "omap_ok (amap t)" using assms(2) by (simp add: t(2) attr_wf_def)
  ultimately have "Impl_of_raw (Impl_Serialize t) = Impl_empty" using Impl_of_raw_lossy by blast
  moreover have "Impl_GetStringValue k t = Some str"
    using codec_string.load_store [of str k s t] assms(3) t(1)
    by (simp add: Impl_SetStringValue_def Impl_GetStringValue_def)
  ultimately show ?thesis using t(1)
    by (simp add: Attributes_of_raw_def Serialize_def Attributes_new_def)
qed

theorem longest_string_loses_object_witness:
  "\<exists>t. Impl_SetStringValue 100094 (replicate MAX_ATTR_LENGTH 65) Impl_empty = (True, t) \<and>
     Attributes_of_raw (Serialize (Some t)) = Attributes_new"
proof -
  let ?str = "replicate MAX_ATTR_LENGTH (65 :: u8)"
  obtain r t where t: "Impl_SetStringValue 100094 ?str Impl_empty = (r, t)" by fastforce
  show ?thesis
    using longest_string_loses_object [OF length_replicate attr_wf_empty t] t
    by (intro exI [of _ t]) simp
qed

text \<open>
  Also shown: the setters accept one attribute more than the parser: from a full object (with
  \<^verbatim>\<open>MAX_ATTR_COUNT\<close> attributes) a further attribute under a new key is stored, and the object that
  holds it arrives empty.
\<close>

theorem one_attribute_too_many:
  assumes "attr_wf s" and "length (amap s) = MAX_ATTR_COUNT" and "\<not> Impl_HasAttribute k s"
    and "Impl_SetBoolValue k b s = (r, t)"
  shows "r \<and> length (Impl_GetKeys t) = MAX_ATTR_COUNT + 1 \<and>
    Attributes_of_raw (Serialize (Some t)) = Attributes_new"
proof -
  let ?v = "[if b then 1 else 0 :: u8]"
  have t: "r" "t = \<lparr>amap = omap_assign k ?v (amap s)\<rparr>"
    using assms(2,4)
    by (auto simp: Impl_SetBoolValue_def EncodeBoolValue_def store_value_def split: if_splits)
  have ok: "omap_ok (amap s)" using assms(1) by (simp add: attr_wf_def)
  have len: "length (amap t) = MAX_ATTR_COUNT + 1"
    using assms(2,3) by (simp add: t(2) length_omap_assign [OF ok] Impl_HasAttribute_def)
  then have "\<not> attr_wf t" by (simp add: attr_wf_def)
  moreover have "list_all (\<lambda>e. length (snd e) < 2 ^ 32) (amap t)"
    using assms(1) values_omap_assign [of _ _ k ?v "amap s"]
    by (fastforce simp: t(2) list_all_iff attr_wf_def entry_fits_def MAX_ATTR_LENGTH_def)
  moreover have "omap_ok (amap t)" using ok by (simp add: t(2))
  ultimately have "Impl_of_raw (Impl_Serialize t) = Impl_empty" using Impl_of_raw_lossy by blast
  then show ?thesis using t(1) len
    by (simp add: Attributes_of_raw_def Serialize_def Attributes_new_def Impl_GetKeys_def)
qed

text \<open>A full object: the keys 0 to 511, each with an empty value.\<close>

definition full_impl :: attributes_impl where
  "full_impl = \<lparr>amap = map (\<lambda>i. (of_nat i, [])) [0..<512]\<rparr>"

lemma full_impl_keys: "map fst (amap full_impl) = map of_nat [0..<512]"
  by (simp add: full_impl_def comp_def)

lemma full_impl_wf: "attr_wf full_impl"
proof -
  have "(of_nat i :: u32) < of_nat j" if "i < j" "j < 512" for i j
    using that by (simp add: word_less_nat_alt unat_of_nat)
  then have "sorted_wrt (<) (map (of_nat :: nat \<Rightarrow> u32) [0..<512])"
    unfolding sorted_wrt_map by (auto intro!: sorted_wrt_mono_rel [OF _ sorted_wrt_upt])
  then show ?thesis
    by (simp add: attr_wf_def omap_ok_def full_impl_keys)
      (simp add: full_impl_def MAX_ATTR_COUNT_def list_all_iff entry_fits_def)
qed

theorem one_attribute_too_many_witness:
  "\<exists>t. Impl_SetBoolValue 1000 True full_impl = (True, t) \<and>
     Attributes_of_raw (Serialize (Some t)) = Attributes_new"
proof -
  obtain r t where t: "Impl_SetBoolValue 1000 True full_impl = (r, t)" by fastforce
  have n: "\<not> Impl_HasAttribute 1000 full_impl"
  proof -
    have "(1000 :: u32) \<noteq> of_nat i" if "i < 512" for i
    proof
      assume "(1000 :: u32) = of_nat i"
      then have "unat (1000 :: u32) = unat (of_nat i :: u32)" by simp
      then show False using that by (simp add: unat_of_nat)
    qed
    then show ?thesis
      by (force simp: Impl_HasAttribute_def full_impl_def map_of_eq_None_iff image_iff)
  qed
  have l: "length (amap full_impl) = MAX_ATTR_COUNT" by (simp add: full_impl_def MAX_ATTR_COUNT_def)
  show ?thesis using one_attribute_too_many [OF full_impl_wf l n t] t
    by (intro exI [of _ t]) simp
qed

lemma read_array_bytes:
  assumes "list_all attr_wf ss" and "list_all (\<lambda>t. length (Impl_Serialize t) < 2 ^ 32) ss"
  shows "read_array (array_bytes (map Some ss)) acc = (True, acc @ map Some ss)"
  using assms
proof (induction ss arbitrary: acc)
  case Nil
  then show ?case by (simp add: array_bytes_def read_array.simps)
next
  case (Cons t ss)
  let ?ser = "Impl_Serialize t"
  let ?n = "of_nat (length ?ser) :: u32"
  have len: "unat ?n = length ?ser" using Cons.prems(2) by (simp add: unat_of_nat)
  have d: "array_bytes (Some t # map Some ss) = le_bytes 4 ?n @ ?ser @ array_bytes (map Some ss)"
    by (simp add: array_bytes_def Serialize_def)
  have ne: "le_bytes 4 ?n \<noteq> []" by (simp add: le_bytes_def upt_rec)
  have dec: "DecodeUint32Value (le_bytes 4 ?n) = Some ?n"
    by (simp add: DecodeUint32Value_def le_value_bytes)
  have "Attributes_of_raw ?ser = Some t"
    using Cons.prems(1) by (simp add: Attributes_of_raw_def Impl_of_raw_serialize)
  then have "read_array (array_bytes (map Some (t # ss))) acc =
      read_array (array_bytes (map Some ss)) (acc @ [Some t])"
    by (subst read_array.simps) (simp add: d ne dec len)
  then show ?case using Cons by simp
qed

text \<open>
  Also shown: an array of well-formed attribute objects stored with \<^verbatim>\<open>SetAttributesArrayValue\<close> is read
  back object by object with \<^verbatim>\<open>GetAttributesArrayValue\<close>, whatever the output array held before,
  provided its length-prefixed form fits in one value.
\<close>

theorem attributes_array_roundtrip:
  assumes "list_all attr_wf ss" and "length (array_bytes (map Some ss)) \<le> MAX_ATTR_LENGTH"
    and "length (amap s) \<le> MAX_ATTR_COUNT"
  shows "\<exists>t. SetAttributesArrayValue k (map Some ss) (Some s) = (True, Some t) \<and>
    GetAttributesArrayValue k (Some t) arr = (True, map Some ss)"
proof -
  let ?d = "array_bytes (map Some ss)"
  obtain t where t: "Impl_SetUint8ArrayValue k ?d s = (True, t)"
    using assms(2,3) by (simp add: Impl_SetUint8ArrayValue_def EncodeUint8ArrayValue_def store_value_def)
  then have g: "Impl_GetUint8ArrayValue k t = Some ?d"
    unfolding Impl_SetUint8ArrayValue_def Impl_GetUint8ArrayValue_def by (rule codec_u8s.load_store)
  have "length (Impl_Serialize u) \<le> length ?d" if "u \<in> set ss" for u
    using that by (induction ss) (auto simp: array_bytes_def Serialize_def)
  then have "list_all (\<lambda>u. length (Impl_Serialize u) < 2 ^ 32) ss"
    using assms(2) by (fastforce simp: list_all_iff MAX_ATTR_LENGTH_def)
  then have "read_array ?d [] = (True, map Some ss)"
    using read_array_bytes [OF assms(1), of "[]"] by simp
  then show ?thesis
    using t g by (auto simp: SetAttributesArrayValue_def GetAttributesArrayValue_def with_impl_def)
qed

theorem attributes_array_roundtrip_witness:
  "\<exists>t. SetAttributesArrayValue 100070 [Attributes_new, Attributes_of_raw [1, 0, 0, 0, 0, 0, 0, 0]]
       Attributes_new = (True, Some t) \<and>
     GetAttributesArrayValue 100070 (Some t) [] =
       (True, [Attributes_new, Attributes_of_raw [1, 0, 0, 0, 0, 0, 0, 0]])"
proof -
  let ?raw = "[1, 0, 0, 0, 0, 0, 0, 0] :: bytes"
  have raw: "?raw = entries_bytes [(1, [])]"
    by (simp add: serialize_entry_def) code_simp
  have wf: "attr_wf \<lparr>amap = [(1, [])]\<rparr>"
    by (simp add: attr_wf_def entry_fits_def MAX_ATTR_COUNT_def)
  have o: "Impl_of_raw ?raw = \<lparr>amap = [(1, [])]\<rparr>"
    using Impl_of_raw_serialize [OF wf]
    by (simp add: raw Impl_Serialize_def del: entries_bytes_simps) (simp add: entries_bytes_def)
  have "length (array_bytes (map Some [Impl_empty, Impl_of_raw ?raw])) \<le> MAX_ATTR_LENGTH"
    by (simp add: o array_bytes_def Serialize_def Impl_Serialize_def Impl_empty_def MAX_ATTR_LENGTH_def)
  then show ?thesis
    using attributes_array_roundtrip [of "[Impl_empty, Impl_of_raw ?raw]" Impl_empty 100070 "[]"]
      Impl_of_raw_wf [of ?raw] attr_wf_empty
    by (simp add: Attributes_new_def Attributes_of_raw_def Impl_empty_def)
qed

end
