(* ===== verification/Fsm.thy ===== *)
theory Fsm
  imports Iam_Prelude
begin

unbundle bit_operations_syntax

text \<open>
  The finite state machine of \<^verbatim>\<open>services/base\<close>: \<^verbatim>\<open>FiniteStateMachineBuilder\<close> collects
  transitions and enter and leave actions, \<^verbatim>\<open>FiniteStateMachineImpl\<close> queues events and processes
  them on the thread of its handler. An action is a value of the client's type \<open>'a\<close>; what it does is
  given by the client as a function \<open>run\<close> that takes the action, its argument (the event, or the state
  entered or left) and the owner's state, and returns the owner's new state with the events it
  scheduled through the inner machine, in order. An empty \<^verbatim>\<open>std::function\<close> is \<open>None\<close>.

  The interfaces \<open>fsm_invariant\<close> and \<open>fsm_drain\<close> carry a one-event fact about a client over the loop
  of \<^verbatim>\<open>ScheduleInner\<close>: invariants are kept, and a potential bounds how many events a run can take.
\<close>

record 'a fsm =
  machineName :: string
  currentState :: u32
  transitionMap :: "(u64 \<times> (u32 \<times> 'a option)) list"
  enterMap :: "(u32 \<times> 'a option) list"
  leaveMap :: "(u32 \<times> 'a option) list"
  pendingEvents :: "u32 list"
  threadHandlerSet :: bool
  postedTasks :: nat

definition MAX_SCHEDULE_TIMES :: nat where
  "MAX_SCHEDULE_TIMES = 100"

definition GetTransitionIndex :: "u32 \<Rightarrow> u32 \<Rightarrow> u64" where
  "GetTransitionIndex state event = push_bit 32 (ucast state) OR ucast event"

text \<open>The index packs state and event without loss.\<close>

lemma GetTransitionIndex_low: "take_bit 32 (GetTransitionIndex s e) = (ucast e :: u64)"
  by (rule bit_word_eqI)
    (auto simp: GetTransitionIndex_def bit_take_bit_iff bit_or_iff bit_push_bit_iff bit_ucast_iff
      dest: bit_imp_le_length)

lemma GetTransitionIndex_high: "drop_bit 32 (GetTransitionIndex s e) = (ucast s :: u64)"
  by (rule bit_word_eqI)
    (auto simp: GetTransitionIndex_def bit_drop_bit_eq bit_or_iff bit_push_bit_iff bit_ucast_iff
      dest: bit_imp_le_length)

lemma ucast_32_64_inj: "(ucast a :: u64) = ucast b \<longleftrightarrow> (a :: u32) = b"
proof
  assume eq: "(ucast a :: u64) = ucast b"
  show "a = b"
  proof (rule bit_word_eqI)
    fix k
    assume "k < LENGTH(32)"
    then show "bit a k = bit b k"
      using arg_cong [OF eq, of "\<lambda>w. bit w k"] by (simp add: bit_ucast_iff)
  qed
qed simp

lemma GetTransitionIndex_inject [simp]:
  "GetTransitionIndex s e = GetTransitionIndex s' e' \<longleftrightarrow> s = s' \<and> e = e'"
  by (metis GetTransitionIndex_low GetTransitionIndex_high ucast_32_64_inj)

section \<open>The builder\<close>

record 'a fsm_builder =
  b_name :: string
  b_initstate :: u32
  b_valid :: bool
  b_transitionMap :: "(u64 \<times> (u32 \<times> 'a option)) list"
  b_enterMap :: "(u32 \<times> 'a option) list"
  b_leaveMap :: "(u32 \<times> 'a option) list"

definition Builder_New :: "string \<Rightarrow> u32 \<Rightarrow> 'a fsm_builder" where
  "Builder_New name initialState =
     \<lparr>b_name = name, b_initstate = initialState, b_valid = True, b_transitionMap = [],
      b_enterMap = [], b_leaveMap = []\<rparr>"

text \<open>\<^verbatim>\<open>try_emplace\<close>: the new map and whether the key was new.\<close>

definition try_emplace :: "'k \<Rightarrow> 'v \<Rightarrow> ('k \<times> 'v) list \<Rightarrow> ('k \<times> 'v) list \<times> bool" where
  "try_emplace k v m = (if map_of m k = None then (umap_assign k v m, True) else (m, False))"

definition MakeTransition ::
  "u32 \<Rightarrow> u32 \<Rightarrow> u32 \<Rightarrow> 'a option \<Rightarrow> 'a fsm_builder \<Rightarrow> 'a fsm_builder" where
  "MakeTransition state event nextState action b =
     (case try_emplace (GetTransitionIndex state event) (nextState, action) (b_transitionMap b) of
        (m, inserted) \<Rightarrow>
          b\<lparr>b_transitionMap := m, b_valid := b_valid b \<and> inserted\<rparr>)"

definition MakeOnStateEnter :: "u32 \<Rightarrow> 'a option \<Rightarrow> 'a fsm_builder \<Rightarrow> 'a fsm_builder" where
  "MakeOnStateEnter state action b =
     (case try_emplace state action (b_enterMap b) of
        (m, inserted) \<Rightarrow> b\<lparr>b_enterMap := m, b_valid := b_valid b \<and> inserted\<rparr>)"

definition MakeOnStateLeave :: "u32 \<Rightarrow> 'a option \<Rightarrow> 'a fsm_builder \<Rightarrow> 'a fsm_builder" where
  "MakeOnStateLeave state action b =
     (case try_emplace state action (b_leaveMap b) of
        (m, inserted) \<Rightarrow> b\<lparr>b_leaveMap := m, b_valid := b_valid b \<and> inserted\<rparr>)"

text \<open>
  \<^verbatim>\<open>Build\<close> hands its maps over to the machine (they are moved) and makes the builder unusable. The machine's constructor
  takes the thread handler that all single threaded parts share.
\<close>

definition Build :: "'a fsm_builder \<Rightarrow> 'a fsm option \<times> 'a fsm_builder" where
  "Build b =
     (if \<not> b_valid b then (None, b)
      else (Some \<lparr>machineName = b_name b, currentState = b_initstate b,
                  transitionMap = b_transitionMap b, enterMap = b_enterMap b,
                  leaveMap = b_leaveMap b, pendingEvents = [],
                  threadHandlerSet = True, postedTasks = 0\<rparr>,
            b\<lparr>b_valid := False, b_transitionMap := [], b_enterMap := [], b_leaveMap := []\<rparr>))"

section \<open>The machine\<close>

type_synonym ('a, 's) action_run = "'a \<Rightarrow> u32 \<Rightarrow> 's \<Rightarrow> 's \<times> u32 list"

definition PushEvent :: "u32 \<Rightarrow> 'a fsm \<Rightarrow> 'a fsm" where
  "PushEvent event m = m\<lparr>pendingEvents := pendingEvents m @ [event]\<rparr>"

text \<open>
  \<^verbatim>\<open>Schedule\<close> queues an event and posts one task to the thread handler; without a handler the
  event is dropped.
\<close>

definition FSM_SetThreadHandler :: "'a fsm \<Rightarrow> 'a fsm" where
  "FSM_SetThreadHandler m = m\<lparr>threadHandlerSet := True\<rparr>"

definition FSM_Schedule :: "u32 \<Rightarrow> 'a fsm \<Rightarrow> 'a fsm" where
  "FSM_Schedule event m =
     (if \<not> threadHandlerSet m then m
      else (PushEvent event m)\<lparr>postedTasks := Suc (postedTasks m)\<rparr>)"

definition invoke ::
  "('a, 's) action_run \<Rightarrow> 'a option \<Rightarrow> u32 \<Rightarrow> 'a fsm \<times> 's \<Rightarrow> 'a fsm \<times> 's" where
  "invoke run act arg ms =
     (case act of
        None \<Rightarrow> ms
      | Some a \<Rightarrow>
          (case run a arg (snd ms) of
             (s, events) \<Rightarrow> ((fst ms)\<lparr>pendingEvents := pendingEvents (fst ms) @ events\<rparr>, s)))"

definition invoke_at ::
  "('a, 's) action_run \<Rightarrow> (u32 \<times> 'a option) list \<Rightarrow> u32 \<Rightarrow> 'a fsm \<times> 's \<Rightarrow> 'a fsm \<times> 's" where
  "invoke_at run acts state ms =
     (case map_of acts state of None \<Rightarrow> ms | Some act \<Rightarrow> invoke run act state ms)"

definition DealWithStateLeaveAndEnter ::
  "('a, 's) action_run \<Rightarrow> u32 \<Rightarrow> u32 \<Rightarrow> 'a fsm \<times> 's \<Rightarrow> 'a fsm \<times> 's" where
  "DealWithStateLeaveAndEnter run oldState newState ms =
     (if oldState = newState then ms
      else let ms1 = invoke_at run (leaveMap (fst ms)) oldState ms
           in invoke_at run (enterMap (fst ms1)) newState ms1)"

text \<open>The body of the loop of \<^verbatim>\<open>ScheduleInner\<close> after an event was popped.\<close>

definition ProcessEvent :: "('a, 's) action_run \<Rightarrow> u32 \<Rightarrow> 'a fsm \<times> 's \<Rightarrow> 'a fsm \<times> 's" where
  "ProcessEvent run event ms =
     (let oldState = currentState (fst ms)
      in case map_of (transitionMap (fst ms)) (GetTransitionIndex oldState event) of
           None \<Rightarrow> DealWithStateLeaveAndEnter run oldState oldState ms
         | Some (newState, act) \<Rightarrow>
             let (m1, s1) = invoke run act event ms
             in DealWithStateLeaveAndEnter run oldState newState (m1\<lparr>currentState := newState\<rparr>, s1))"

fun schedule_loop :: "('a, 's) action_run \<Rightarrow> nat \<Rightarrow> 'a fsm \<times> 's \<Rightarrow> 'a fsm \<times> 's" where
  "schedule_loop run 0 ms = ms"
| "schedule_loop run (Suc n) ms =
     (case pendingEvents (fst ms) of
        [] \<Rightarrow> ms
      | event # events \<Rightarrow>
          schedule_loop run n (ProcessEvent run event ((fst ms)\<lparr>pendingEvents := events\<rparr>, snd ms)))"

text \<open>
  The test of \<^verbatim>\<open>runTimes\<close> at the end of the loop body can never hold, the loop condition being
  the same bound, so it has no branch here.
\<close>

definition ScheduleInner :: "('a, 's) action_run \<Rightarrow> 'a fsm \<times> 's \<Rightarrow> 'a fsm \<times> 's" where
  "ScheduleInner run ms = schedule_loop run MAX_SCHEDULE_TIMES ms"

text \<open>The task that \<^verbatim>\<open>Schedule\<close> posted: it drops out when the owner of the machine is gone.\<close>

definition RunPostedTask ::
  "('a, 's) action_run \<Rightarrow> bool \<Rightarrow> 'a fsm \<times> 's \<Rightarrow> 'a fsm \<times> 's" where
  "RunPostedTask run ownerAlive ms =
     (if postedTasks (fst ms) = 0 then ms
      else let m = (fst ms)\<lparr>postedTasks := postedTasks (fst ms) - 1\<rparr>
           in if ownerAlive then ScheduleInner run (m, snd ms) else (m, snd ms))"

lemmas fsm_step_defs =
  ProcessEvent_def DealWithStateLeaveAndEnter_def invoke_at_def invoke_def Let_def

section \<open>Facts about one event\<close>

lemma invoke_maps:
  "transitionMap (fst (invoke run act arg ms)) = transitionMap (fst ms)"
  "enterMap (fst (invoke run act arg ms)) = enterMap (fst ms)"
  "leaveMap (fst (invoke run act arg ms)) = leaveMap (fst ms)"
  "currentState (fst (invoke run act arg ms)) = currentState (fst ms)"
  by (auto simp: invoke_def split: option.splits prod.splits)

lemma invoke_at_maps:
  "transitionMap (fst (invoke_at run acts st ms)) = transitionMap (fst ms)"
  "enterMap (fst (invoke_at run acts st ms)) = enterMap (fst ms)"
  "leaveMap (fst (invoke_at run acts st ms)) = leaveMap (fst ms)"
  "currentState (fst (invoke_at run acts st ms)) = currentState (fst ms)"
  by (auto simp: invoke_at_def invoke_maps split: option.splits)

lemma ProcessEvent_maps:
  "transitionMap (fst (ProcessEvent run e ms)) = transitionMap (fst ms)"
  "enterMap (fst (ProcessEvent run e ms)) = enterMap (fst ms)"
  "leaveMap (fst (ProcessEvent run e ms)) = leaveMap (fst ms)"
  by (auto simp: ProcessEvent_def DealWithStateLeaveAndEnter_def Let_def invoke_at_maps
      split: option.splits prod.splits) (metis fst_conv invoke_maps)+

text \<open>The state after an event is the one the transition map names, whatever the actions do.\<close>

lemma ProcessEvent_state:
  "currentState (fst (ProcessEvent run e ms)) =
     (case map_of (transitionMap (fst ms)) (GetTransitionIndex (currentState (fst ms)) e) of
        None \<Rightarrow> currentState (fst ms) | Some (new, _) \<Rightarrow> new)"
  by (auto simp: ProcessEvent_def DealWithStateLeaveAndEnter_def Let_def invoke_at_maps
      split: option.splits prod.splits)

lemma ProcessEvent_ignored:
  "map_of (transitionMap (fst ms)) (GetTransitionIndex (currentState (fst ms)) e) = None \<Longrightarrow>
     ProcessEvent run e ms = ms"
  by (simp add: ProcessEvent_def DealWithStateLeaveAndEnter_def Let_def)

lemma schedule_loop_empty [simp]: "pendingEvents (fst ms) = [] \<Longrightarrow> schedule_loop run n ms = ms"
  by (cases n) simp_all

lemma schedule_loop_add: "schedule_loop run (m + n) ms = schedule_loop run n (schedule_loop run m ms)"
proof (induction m arbitrary: ms)
  case 0
  then show ?case by simp
next
  case (Suc m)
  then show ?case by (cases "pendingEvents (fst ms)") simp_all
qed

section \<open>The interface of a client of the machine\<close>

locale fsm_invariant =
  fixes run :: "('a, 's) action_run"
    and Inv :: "'a fsm \<times> 's \<Rightarrow> bool"
  assumes step: "Inv (m, s) \<Longrightarrow> pendingEvents m = e # es \<Longrightarrow>
    Inv (ProcessEvent run e (m\<lparr>pendingEvents := es\<rparr>, s))"
begin

lemma loop_keeps: "Inv ms \<Longrightarrow> Inv (schedule_loop run n ms)"
proof (induction n arbitrary: ms)
  case 0
  then show ?case by simp
next
  case (Suc n)
  obtain m s where ms: "ms = (m, s)" by fastforce
  show ?case
  proof (cases "pendingEvents m")
    case Nil
    then show ?thesis using Suc.prems by (simp add: ms)
  next
    case (Cons e es)
    then show ?thesis using Suc.IH [OF step [of m s e es]] Suc.prems by (simp add: ms)
  qed
qed

lemma ScheduleInner_keeps: "Inv ms \<Longrightarrow> Inv (ScheduleInner run ms)"
  by (simp add: ScheduleInner_def loop_keeps)

end

text \<open>
  \<open>left st\<close> bounds how many more events the actions can add from state \<open>st\<close> on. A run with enough
  iterations then empties the queue.
\<close>

locale fsm_drain = fsm_invariant +
  fixes left :: "u32 \<Rightarrow> nat"
  assumes pays: "Inv (m, s) \<Longrightarrow> pendingEvents m = e # es \<Longrightarrow>
    ProcessEvent run e (m\<lparr>pendingEvents := es\<rparr>, s) = (m', s') \<Longrightarrow>
    length (pendingEvents m') + left (currentState m') \<le> length es + left (currentState m)"
begin

lemma loop_drains:
  "Inv ms \<Longrightarrow> length (pendingEvents (fst ms)) + left (currentState (fst ms)) \<le> n \<Longrightarrow>
     pendingEvents (fst (schedule_loop run n ms)) = []"
proof (induction n arbitrary: ms)
  case 0
  then show ?case by simp
next
  case (Suc n)
  obtain m s where ms: "ms = (m, s)" by fastforce
  show ?case
  proof (cases "pendingEvents m")
    case Nil
    then show ?thesis by (simp add: ms)
  next
    case (Cons e es)
    obtain m' s' where p: "ProcessEvent run e (m\<lparr>pendingEvents := es\<rparr>, s) = (m', s')"
      by fastforce
    have "Inv (m', s')" using step [of m s e es] Suc.prems(1) Cons by (simp add: ms p)
    moreover have "length (pendingEvents m') + left (currentState m') \<le> n"
      using pays [OF _ Cons p] Suc.prems Cons by (simp add: ms)
    ultimately show ?thesis using Suc.IH [of "(m', s')"] Cons by (simp add: ms p)
  qed
qed

lemma ScheduleInner_drains:
  "Inv ms \<Longrightarrow> length (pendingEvents (fst ms)) + left (currentState (fst ms)) \<le> MAX_SCHEDULE_TIMES \<Longrightarrow>
     pendingEvents (fst (ScheduleInner run ms)) = []"
  by (simp add: ScheduleInner_def loop_drains)

end

section \<open>Building a machine\<close>

lemma Build_once: "Build b = (r, b') \<Longrightarrow> fst (Build b') = None"
  by (auto simp: Build_def split: if_splits)

lemma MakeTransition_duplicate:
  "map_of (b_transitionMap b) (GetTransitionIndex st ev) \<noteq> None \<Longrightarrow>
     fst (Build (MakeTransition st ev nxt act b)) = None"
  by (auto simp: MakeTransition_def try_emplace_def Build_def)

end
