(* ===== verification/Resource_Pool.thy ===== *)
theory Resource_Pool
  imports Attributes "HOL-Library.Multiset"
begin

text \<open>
  Executors and their pool: \<^verbatim>\<open>services/core/src/resource_node_impl.cpp\<close> (one registered executor),
  \<^verbatim>\<open>resource_node_pool_impl.cpp\<close> (the reference-counted pool of executors by executor index) and
  \<^verbatim>\<open>resource_node_utils.cpp\<close> (messages to pooled executors).

  Nodes are shared objects, so the pool keeps references (\<open>node_ref\<close>) into a heap of nodes. The
  executor behind a node is reached over IPC: what it answers is a parameter (\<open>ipc\<close>), and every call
  made to it is returned. The authentication engine is outside the repository too: its answer to
  \<^verbatim>\<open>AddExecutor\<close> is a parameter, and each \<^verbatim>\<open>DeleteExecutor\<close> is an output event. A listener call is
  an output event as well, in the order of the listener set. \<^verbatim>\<open>unordered_map\<close> iterates in an order
  of its own; the order of the association list stands for it.
\<close>

section \<open>Resource nodes\<close>

type_synonym node_ref = nat

record executor_register_info =
  ei_authType :: i32
  ei_executorRole :: i32
  ei_executorSensorHint :: u32
  ei_executorMatcher :: u32
  ei_esl :: i32
  ei_maxTemplateAcl :: u32
  ei_publicKey :: bytes
  ei_deviceUdid :: bytes
  ei_signedRemoteExecutorInfo :: bytes

record resource_node =
  rn_info :: executor_register_info
  rn_callback :: bool
  rn_executorIndex :: u64
  rn_addedToEngine :: bool

datatype exec_call =
    OnBeginExecute u64 bytes bytes
  | OnEndExecute u64 bytes
  | OnSetProperty bytes
  | OnGetProperty bytes
  | OnSendData u64 bytes

text \<open>The constructor; \<open>udid\<close> is the answer of \<^verbatim>\<open>GetLocalDeviceUdid\<close>, \<open>None\<close> when it fails.\<close>

definition ResourceNodeImpl :: "bytes option \<Rightarrow> executor_register_info \<Rightarrow> bool \<Rightarrow> resource_node" where
  "ResourceNodeImpl udid info callback =
     \<lparr>rn_info =
        (if ei_deviceUdid info = []
         then (case udid of None \<Rightarrow> info | Some u \<Rightarrow> info\<lparr>ei_deviceUdid := u\<rparr>) else info),
      rn_callback = callback, rn_executorIndex = 0, rn_addedToEngine = False\<rparr>"

definition call_executor ::
  "(exec_call \<Rightarrow> i32) \<Rightarrow> resource_node \<Rightarrow> exec_call \<Rightarrow> i32 \<times> exec_call list" where
  "call_executor ipc n c = (if rn_callback n then (ipc c, [c]) else (GENERAL_ERROR, []))"

definition BeginExecute ::
  "(exec_call \<Rightarrow> i32) \<Rightarrow> resource_node \<Rightarrow> u64 \<Rightarrow> bytes \<Rightarrow> attributes \<Rightarrow> i32 \<times> exec_call list" where
  "BeginExecute ipc n scheduleId publicKey command =
     call_executor ipc n (OnBeginExecute scheduleId publicKey (Serialize command))"

definition EndExecute ::
  "(exec_call \<Rightarrow> i32) \<Rightarrow> resource_node \<Rightarrow> u64 \<Rightarrow> attributes \<Rightarrow> i32 \<times> exec_call list" where
  "EndExecute ipc n scheduleId command = call_executor ipc n (OnEndExecute scheduleId (Serialize command))"

definition SetProperty ::
  "(exec_call \<Rightarrow> i32) \<Rightarrow> resource_node \<Rightarrow> attributes \<Rightarrow> i32 \<times> exec_call list" where
  "SetProperty ipc n properties = call_executor ipc n (OnSetProperty (Serialize properties))"

definition SendData ::
  "(exec_call \<Rightarrow> i32) \<Rightarrow> resource_node \<Rightarrow> u64 \<Rightarrow> attributes \<Rightarrow> i32 \<times> exec_call list" where
  "SendData ipc n scheduleId data = call_executor ipc n (OnSendData scheduleId (Serialize data))"

text \<open>\<open>reply\<close> is the attribute buffer the executor filled.\<close>

definition GetProperty ::
  "(exec_call \<Rightarrow> i32) \<Rightarrow> (exec_call \<Rightarrow> bytes) \<Rightarrow> resource_node \<Rightarrow> attributes \<Rightarrow> attributes \<Rightarrow>
   i32 \<times> attributes \<times> exec_call list" where
  "GetProperty ipc reply n condition values =
     (let c = OnGetProperty (Serialize condition)
      in case call_executor ipc n c of
           (ret, calls) \<Rightarrow>
             (ret, if calls \<noteq> [] \<and> ret = SUCCESS then Attributes_of_raw (reply c) else values, calls))"

record engine_add_result =
  ar_result :: i32
  ar_index :: u64
  ar_publicKey :: bytes
  ar_templateIds :: "u64 list"

definition AddToEngine :: "engine_add_result \<Rightarrow> resource_node \<Rightarrow> i32 \<times> resource_node" where
  "AddToEngine r n =
     (if ar_result r \<noteq> SUCCESS then (GENERAL_ERROR, n)
      else (SUCCESS, n\<lparr>rn_executorIndex := ar_index r, rn_addedToEngine := True\<rparr>))"

definition MakeNewResource ::
  "bytes option \<Rightarrow> engine_add_result \<Rightarrow> executor_register_info \<Rightarrow> bool \<Rightarrow> resource_node option" where
  "MakeNewResource udid r info callback =
     (case AddToEngine r (ResourceNodeImpl udid info callback) of
        (result, node) \<Rightarrow> if result \<noteq> 0 then None else Some node)"

section \<open>The pool\<close>

datatype pool_event =
    PoolInsert nat node_ref
  | PoolUpdate nat node_ref
  | PoolDelete nat "node_ref option"
  | EngineDelete u64

record rpool =
  rp_heap :: "node_ref \<Rightarrow> resource_node"
  rp_map :: "(u64 \<times> (u32 \<times> node_ref option)) list"
  rp_listeners :: "nat list"
  rp_events :: "pool_event list"

definition emit :: "pool_event list \<Rightarrow> rpool \<Rightarrow> rpool" where
  "emit es p = p\<lparr>rp_events := rp_events p @ es\<rparr>"

definition DeleteFromEngine :: "node_ref \<Rightarrow> rpool \<Rightarrow> rpool" where
  "DeleteFromEngine ref p =
     (let n = rp_heap p ref;
          p1 = (if rn_addedToEngine n then emit [EngineDelete (rn_executorIndex n)] p else p)
      in p1\<lparr>rp_heap := (rp_heap p1)(ref := n\<lparr>rn_addedToEngine := False\<rparr>)\<rparr>)"

definition DetachFromEngine :: "node_ref \<Rightarrow> rpool \<Rightarrow> rpool" where
  "DetachFromEngine ref p = p\<lparr>rp_heap := (rp_heap p)(ref := (rp_heap p ref)\<lparr>rn_addedToEngine := False\<rparr>)\<rparr>"

definition pool_Insert :: "node_ref option \<Rightarrow> rpool \<Rightarrow> bool \<times> rpool" where
  "pool_Insert resource p =
     (case resource of
        None \<Rightarrow> (False, p)
      | Some ref \<Rightarrow>
          let executorIndex = rn_executorIndex (rp_heap p ref)
          in case map_of (rp_map p) executorIndex of
               None \<Rightarrow>
                 (True, emit (map (\<lambda>l. PoolInsert l ref) (rp_listeners p))
                    (p\<lparr>rp_map := umap_assign executorIndex (1, Some ref) (rp_map p)\<rparr>))
             | Some (cnt, old) \<Rightarrow>
                 if cnt \<ge> 4294967295 then (False, p)
                 else let p1 = (case old of None \<Rightarrow> p | Some r \<Rightarrow> DetachFromEngine r p)
                      in (True, emit (map (\<lambda>l. PoolUpdate l ref) (rp_listeners p))
                           (p1\<lparr>rp_map := umap_assign executorIndex (cnt + 1, Some ref) (rp_map p1)\<rparr>)))"

definition pool_Delete :: "u64 \<Rightarrow> rpool \<Rightarrow> bool \<times> rpool" where
  "pool_Delete executorIndex p =
     (case map_of (rp_map p) executorIndex of
        None \<Rightarrow> (False, p)
      | Some (cnt, node) \<Rightarrow>
          if cnt > 1 then (True, p\<lparr>rp_map := umap_assign executorIndex (cnt - 1, node) (rp_map p)\<rparr>)
          else let p1 = p\<lparr>rp_map := key_erase executorIndex (rp_map p)\<rparr>
               in case node of
                    None \<Rightarrow> (False, p1)
                  | Some ref \<Rightarrow>
                      (True, emit (map (\<lambda>l. PoolDelete l (Some ref)) (rp_listeners p))
                        (DeleteFromEngine ref p1)))"

definition pool_DeleteAll :: "rpool \<Rightarrow> rpool" where
  "pool_DeleteAll p =
     (let p1 = fold (\<lambda>(_, _, node) q. case node of None \<Rightarrow> q | Some ref \<Rightarrow> DeleteFromEngine ref q)
                 (rp_map p) p
      in emit (concat (map (\<lambda>(_, _, node). map (\<lambda>l. PoolDelete l node) (rp_listeners p)) (rp_map p)))
           (p1\<lparr>rp_map := []\<rparr>))"

definition pool_Select :: "u64 \<Rightarrow> rpool \<Rightarrow> node_ref option" where
  "pool_Select executorIndex p =
     (case map_of (rp_map p) executorIndex of None \<Rightarrow> None | Some (_, node) \<Rightarrow> node)"

definition pool_GetPoolSize :: "rpool \<Rightarrow> u32" where
  "pool_GetPoolSize p = of_nat (length (rp_map p))"

text \<open>\<^verbatim>\<open>Enumerate\<close> passes every node to its action, here the list of what it is applied to.\<close>

definition pool_Enumerate :: "rpool \<Rightarrow> node_ref option list" where
  "pool_Enumerate p = map (\<lambda>(_, _, node). node) (rp_map p)"

definition RegisterListener :: "nat option \<Rightarrow> rpool \<Rightarrow> bool \<times> rpool" where
  "RegisterListener listener p =
     (case listener of
        None \<Rightarrow> (False, p)
      | Some l \<Rightarrow> (True, p\<lparr>rp_listeners := (if l \<in> set (rp_listeners p) then rp_listeners p
                                          else insort l (rp_listeners p))\<rparr>))"

definition DeregisterListener :: "nat \<Rightarrow> rpool \<Rightarrow> bool \<times> rpool" where
  "DeregisterListener l p =
     (l \<in> set (rp_listeners p), p\<lparr>rp_listeners := filter (\<lambda>k. k \<noteq> l) (rp_listeners p)\<rparr>)"

definition GetResourceNodeByTypeAndRole :: "i32 \<Rightarrow> i32 \<Rightarrow> rpool \<Rightarrow> node_ref list" where
  "GetResourceNodeByTypeAndRole authType role p =
     concat (map (\<lambda>node. case node of
         None \<Rightarrow> []
       | Some ref \<Rightarrow>
           if ei_authType (rn_info (rp_heap p ref)) \<noteq> authType then []
           else if ei_executorRole (rn_info (rp_heap p ref)) \<noteq> role then []
           else [ref]) (pool_Enumerate p))"

section \<open>The pool invariant\<close>

text \<open>
  Each entry has a live node that the engine knows under the entry's key, and a positive count.
\<close>

definition entry_ok :: "rpool \<Rightarrow> u64 \<times> u32 \<times> node_ref option \<Rightarrow> bool" where
  "entry_ok p e = (case e of
     (k, cnt, node) \<Rightarrow> 0 < cnt \<and> (case node of
        None \<Rightarrow> False
      | Some ref \<Rightarrow> rn_executorIndex (rp_heap p ref) = k \<and> rn_addedToEngine (rp_heap p ref)))"

definition rpool_inv :: "rpool \<Rightarrow> bool" where
  "rpool_inv p \<longleftrightarrow> umap_ok (rp_map p) \<and> list_all (entry_ok p) (rp_map p)"

text \<open>
  What \<^verbatim>\<open>CoAuthService::ExecutorRegister\<close> inserts: a node just made by \<open>MakeNewResource\<close>, known to the
  engine and not pooled yet.
\<close>

definition fresh_node :: "rpool \<Rightarrow> node_ref \<Rightarrow> bool" where
  "fresh_node p ref \<longleftrightarrow> rn_addedToEngine (rp_heap p ref) \<and> Some ref \<notin> set (pool_Enumerate p)"

text \<open>The abstract pool: how often each executor index is registered.\<close>

definition pool_abs :: "rpool \<Rightarrow> u64 multiset" where
  "pool_abs p = mset (concat (map (\<lambda>(k, cnt, _). replicate (unat cnt) k) (rp_map p)))"

lemma count_entries:
  "umap_ok m \<Longrightarrow>
     count (mset (concat (map (\<lambda>(k, cnt, _). replicate (unat cnt) k) m))) k =
       (case map_of m k of None \<Rightarrow> 0 | Some (cnt :: u32, _) \<Rightarrow> unat cnt)"
proof (induction m)
  case Nil
  then show ?case by simp
next
  case (Cons e m)
  obtain j cnt node where e: "e = (j, cnt, node)" by (cases e)
  have "map_of m j = None" and ok: "umap_ok m"
    using Cons.prems by (auto simp: e map_of_eq_None_iff)
  then show ?case using Cons.IH [OF ok] by (cases "k = j") (simp_all add: e mset_replicate)
qed

lemma count_pool_abs:
  "rpool_inv p \<Longrightarrow> count (pool_abs p) k =
     (case map_of (rp_map p) k of None \<Rightarrow> 0 | Some (cnt, _) \<Rightarrow> unat cnt)"
  by (simp add: pool_abs_def rpool_inv_def count_entries)

lemma inv_entry:
  assumes "rpool_inv p" and "map_of (rp_map p) k = Some (cnt, node)"
  obtains ref where "node = Some ref" "0 < cnt" "rn_executorIndex (rp_heap p ref) = k"
    "rn_addedToEngine (rp_heap p ref)"
proof -
  have "entry_ok p (k, cnt, node)"
    using assms by (auto simp: rpool_inv_def list_all_iff dest: map_of_SomeD)
  then show ?thesis using that by (auto simp: entry_ok_def split: option.splits)
qed

lemma entries_umap_assign:
  "umap_ok m \<Longrightarrow> e \<in> set (umap_assign k v m) \<Longrightarrow> e = (k, v) \<or> e \<in> set m \<and> fst e \<noteq> k"
  by (induction k v m rule: umap_assign.induct) (auto split: if_splits)

lemma entries_key_erase: "e \<in> set (key_erase k m) \<longleftrightarrow> e \<in> set m \<and> fst e \<noteq> k"
  by (auto simp: key_erase_def)

lemma emit_simps [simp]:
  "rp_heap (emit es p) = rp_heap p" "rp_map (emit es p) = rp_map p"
  "rp_listeners (emit es p) = rp_listeners p" "rp_events (emit es p) = rp_events p @ es"
  by (simp_all add: emit_def)

lemma rpool_inv_emit [simp]: "rpool_inv (emit es p) = rpool_inv p"
proof -
  have "entry_ok (emit es p) = entry_ok p" by (intro ext) (auto simp: entry_ok_def split: option.splits)
  then show ?thesis by (simp add: rpool_inv_def)
qed

lemma rpool_inv_assign:
  assumes "rpool_inv p" and "0 < cnt" and "rn_executorIndex (rp_heap q ref) = k"
    and "rn_addedToEngine (rp_heap q ref)" and "rp_map q = umap_assign k (cnt, Some ref) (rp_map p)"
    and "\<And>r. rn_executorIndex (rp_heap p r) \<noteq> k \<Longrightarrow> rp_heap q r = rp_heap p r"
  shows "rpool_inv q"
proof -
  have ok: "umap_ok (rp_map p)" and old: "\<And>e. e \<in> set (rp_map p) \<Longrightarrow> entry_ok p e"
    using assms(1) by (auto simp: rpool_inv_def list_all_iff)
  have "entry_ok q e" if e: "e \<in> set (rp_map q)" for e
  proof -
    consider "e = (k, cnt, Some ref)" | "e \<in> set (rp_map p)" "fst e \<noteq> k"
      using entries_umap_assign [OF ok] e assms(5) by metis
    then show ?thesis
    proof cases
      case 1
      then show ?thesis using assms(2-4) by (simp add: entry_ok_def)
    next
      case 2
      then show ?thesis using old [of e] assms(6)
        by (cases e) (auto simp: entry_ok_def split: option.splits)
    qed
  qed
  then show ?thesis using ok by (simp add: rpool_inv_def list_all_iff assms(5))
qed

lemma rpool_inv_erase:
  assumes "rpool_inv p" and "rp_map q = key_erase k (rp_map p)"
    and "\<And>r. rn_executorIndex (rp_heap p r) \<noteq> k \<Longrightarrow> rp_heap q r = rp_heap p r"
  shows "rpool_inv q"
proof -
  have ok: "umap_ok (rp_map p)" and old: "\<And>e. e \<in> set (rp_map p) \<Longrightarrow> entry_ok p e"
    using assms(1) by (auto simp: rpool_inv_def list_all_iff)
  have "entry_ok q e" if "e \<in> set (rp_map q)" for e
  proof -
    have "e \<in> set (rp_map p)" "fst e \<noteq> k" using that by (auto simp: assms(2) entries_key_erase)
    then show ?thesis using old [of e] assms(3)
      by (cases e) (auto simp: entry_ok_def split: option.splits)
  qed
  then show ?thesis using ok by (simp add: rpool_inv_def list_all_iff assms(2))
qed

section \<open>Properties\<close>

lemma unat_succ: "(w :: u32) < 4294967295 \<Longrightarrow> unat (w + 1) = Suc (unat w)"
  by (simp add: unat_word_ariths word_less_nat_alt)

lemma unat_pred: "(1 :: u32) < w \<Longrightarrow> unat (w - 1) = unat w - 1"
  by (subst unat_minus_one) auto

lemma map_of_Enumerate:
  "map_of (rp_map p) k = Some (cnt, node) \<Longrightarrow> node \<in> set (pool_Enumerate p)"
  by (force simp: pool_Enumerate_def dest: map_of_SomeD)

text \<open>
  Also shown: inserting a newly made node registers its executor index once more, in every pool that
  meets the invariant: the call succeeds unless the index is already registered \<open>2 ^ 32 - 1\<close> times, the
  pool keeps its invariant, and as a multiset of indexes it gains one occurrence.
\<close>

theorem pool_insert_refines:
  assumes "rpool_inv p" and "fresh_node p ref" and "rn_executorIndex (rp_heap p ref) = k"
    and "pool_Insert (Some ref) p = (r, q)"
  shows "rpool_inv q \<and> (r \<longleftrightarrow> count (pool_abs p) k < 2 ^ 32 - 1) \<and>
    pool_abs q = (if r then add_mset k (pool_abs p) else pool_abs p)"
proof (cases "map_of (rp_map p) k")
  case None
  then have q: "r" "rp_heap q = rp_heap p" "rp_map q = umap_assign k (1, Some ref) (rp_map p)"
    using assms(3,4) by (auto simp: pool_Insert_def Let_def)
  have "rpool_inv q"
    by (rule rpool_inv_assign [OF assms(1) _ _ _ q(3)]) (use assms q in \<open>simp_all add: fresh_node_def\<close>)
  moreover from this have "pool_abs q = add_mset k (pool_abs p)"
    using assms(1) None by (intro multiset_eqI) (auto simp: count_pool_abs q(3))
  ultimately show ?thesis using q(1) None assms(1) by (simp add: count_pool_abs)
next
  case (Some a)
  then obtain cnt old where c: "map_of (rp_map p) k = Some (cnt, old)" by (cases a) simp
  obtain o' where o: "old = Some o'" "rn_executorIndex (rp_heap p o') = k"
    using inv_entry [OF assms(1) c] by metis
  have ne: "o' \<noteq> ref" using assms(2) map_of_Enumerate [OF c] o(1) by (auto simp: fresh_node_def)
  show ?thesis
  proof (cases "cnt \<ge> 4294967295")
    case True
    then have "unat cnt \<ge> 4294967295" by (simp add: word_le_nat_alt)
    then show ?thesis using assms c True by (auto simp: pool_Insert_def Let_def count_pool_abs)
  next
    case False
    then have lt: "cnt < 4294967295" by simp
    have q: "r" "rp_heap q = (rp_heap p)(o' := (rp_heap p o')\<lparr>rn_addedToEngine := False\<rparr>)"
      "rp_map q = umap_assign k (cnt + 1, Some ref) (rp_map p)"
      using assms(3,4) c False by (auto simp: pool_Insert_def Let_def o(1) DetachFromEngine_def)
    have pos: "0 < cnt + 1" using unat_succ [OF lt] by (simp add: word_less_nat_alt)
    have "rpool_inv q"
      by (rule rpool_inv_assign [OF assms(1) pos _ _ q(3)])
        (use assms q(2) ne o(2) in \<open>auto simp: fresh_node_def\<close>)
    moreover from this have "pool_abs q = add_mset k (pool_abs p)"
      using assms(1) c by (intro multiset_eqI) (auto simp: count_pool_abs q(3) unat_succ [OF lt])
    moreover have "unat cnt < 2 ^ 32 - 1" using lt by (simp add: word_less_nat_alt)
    ultimately show ?thesis using q(1) c assms(1) by (simp add: count_pool_abs)
  qed
qed

text \<open>
  Also shown: deleting takes one registration away: it succeeds exactly when the index is registered,
  keeps the invariant, and only the last registration makes the engine drop the executor and tells
  every listener, once each and after the engine.
\<close>

theorem pool_delete_refines:
  assumes "rpool_inv p" and "pool_Delete k p = (r, q)"
  shows "rpool_inv q \<and> (r \<longleftrightarrow> k \<in># pool_abs p) \<and> pool_abs q = pool_abs p - {#k#} \<and>
    rp_events q = rp_events p @
      (if count (pool_abs p) k = 1
       then EngineDelete k # map (\<lambda>l. PoolDelete l (pool_Select k p)) (rp_listeners p) else [])"
proof (cases "map_of (rp_map p) k")
  case None
  then have "count (pool_abs p) k = 0" using assms(1) by (simp add: count_pool_abs)
  then show ?thesis
    using None assms by (auto simp: pool_Delete_def not_in_iff diff_single_trivial)
next
  case (Some a)
  then obtain cnt node where c: "map_of (rp_map p) k = Some (cnt, node)" by (cases a) simp
  obtain ref where n: "node = Some ref" "0 < cnt" "rn_executorIndex (rp_heap p ref) = k"
    "rn_addedToEngine (rp_heap p ref)"
    using inv_entry [OF assms(1) c] by metis
  have cnt: "count (pool_abs p) k = unat cnt" using assms(1) c by (simp add: count_pool_abs)
  have pos: "0 < unat cnt" using n(2) by (simp add: word_less_nat_alt)
  show ?thesis
  proof (cases "cnt > 1")
    case True
    then have q: "r" "rp_heap q = rp_heap p" "rp_map q = umap_assign k (cnt - 1, Some ref) (rp_map p)"
      "rp_events q = rp_events p"
      using assms(2) c by (auto simp: pool_Delete_def n(1))
    have c1: "unat cnt > 1" using True by (simp add: word_less_nat_alt)
    then have "0 < cnt - 1" using unat_pred [OF True] by (simp add: word_less_nat_alt)
    then have "rpool_inv q" by (rule rpool_inv_assign [OF assms(1) _ _ _ q(3)]) (simp_all add: q n)
    moreover from this have "pool_abs q = pool_abs p - {#k#}"
      using assms(1) c
      by (intro multiset_eqI) (auto simp: count_pool_abs q(3) unat_pred [OF True])
    ultimately show ?thesis using q cnt c1 by (auto simp flip: count_greater_zero_iff)
  next
    case False
    then have one: "unat cnt = 1" using pos by (simp add: word_less_nat_alt)
    have q: "r" "rp_heap q = (rp_heap p)(ref := (rp_heap p ref)\<lparr>rn_addedToEngine := False\<rparr>)"
      "rp_map q = key_erase k (rp_map p)"
      "rp_events q = rp_events p @ EngineDelete k # map (\<lambda>l. PoolDelete l (Some ref)) (rp_listeners p)"
      using assms(2) c False n by (auto simp: pool_Delete_def DeleteFromEngine_def Let_def)
    have "rpool_inv q"
      by (rule rpool_inv_erase [OF assms(1) q(3)]) (use q(2) n(3) in auto)
    moreover from this have "pool_abs q = pool_abs p - {#k#}"
      using assms(1) c one
      by (intro multiset_eqI) (auto simp: count_pool_abs q(3))
    ultimately show ?thesis
      using q cnt one c n(1) by (auto simp: pool_Select_def simp flip: count_greater_zero_iff)
  qed
qed

text \<open>
  Also shown: \<^verbatim>\<open>Select\<close> finds a node exactly for the registered indexes, and the node it finds is known
  to the engine under that index.
\<close>

theorem pool_select_registered:
  assumes "rpool_inv p"
  shows "(k \<in># pool_abs p \<longleftrightarrow> pool_Select k p \<noteq> None) \<and>
    (pool_Select k p = Some ref \<longrightarrow>
       rn_executorIndex (rp_heap p ref) = k \<and> rn_addedToEngine (rp_heap p ref))"
proof (cases "map_of (rp_map p) k")
  case None
  then show ?thesis using assms
    by (simp add: pool_Select_def count_pool_abs flip: count_greater_zero_iff)
next
  case (Some a)
  then obtain cnt node where c: "map_of (rp_map p) k = Some (cnt, node)" by (cases a) simp
  obtain ref' where n: "node = Some ref'" "0 < cnt" "rn_executorIndex (rp_heap p ref') = k"
    "rn_addedToEngine (rp_heap p ref')"
    using inv_entry [OF assms c] by metis
  then have "0 < unat cnt" by (simp add: word_less_nat_alt)
  then show ?thesis using assms c n
    by (auto simp: pool_Select_def count_pool_abs simp flip: count_greater_zero_iff)
qed

lemma DeleteFromEngine_simps [simp]:
  "rp_map (DeleteFromEngine ref p) = rp_map p"
  "rp_listeners (DeleteFromEngine ref p) = rp_listeners p"
  by (simp_all add: DeleteFromEngine_def Let_def)

lemma DeleteAll_events:
  assumes "umap_ok m" and "list_all (entry_ok p) m"
  shows "rp_events (fold (\<lambda>(_, _, node) q. case node of None \<Rightarrow> q | Some ref \<Rightarrow> DeleteFromEngine ref q) m p) =
    rp_events p @ map (\<lambda>(k, _). EngineDelete k) m"
  using assms
proof (induction m arbitrary: p)
  case Nil
  then show ?case by simp
next
  case (Cons e m)
  obtain k cnt ref where e: "e = (k, cnt, Some ref)" "rn_executorIndex (rp_heap p ref) = k"
    "rn_addedToEngine (rp_heap p ref)"
    using Cons.prems(2) by (cases e) (auto simp: entry_ok_def split: option.splits)
  let ?q = "DeleteFromEngine ref p"
  have q: "rp_events ?q = rp_events p @ [EngineDelete k]"
    "rp_heap ?q = (rp_heap p)(ref := (rp_heap p ref)\<lparr>rn_addedToEngine := False\<rparr>)"
    using e by (simp_all add: DeleteFromEngine_def Let_def)
  have "list_all (entry_ok ?q) m"
    unfolding list_all_iff
  proof
    fix f
    assume f: "f \<in> set m"
    then have "fst f \<noteq> k" using Cons.prems(1) by (auto simp: e)
    moreover have "entry_ok p f" using Cons.prems(2) f by (simp add: list_all_iff)
    ultimately show "entry_ok ?q f" using e(2)
      by (cases f) (auto simp: entry_ok_def q(2) split: option.splits)
  qed
  then show ?case using Cons.IH [of ?q] Cons.prems(1) by (simp add: e q(1))
qed

text \<open>
  Also shown: \<^verbatim>\<open>DeleteAll\<close> drops every executor index from the engine exactly once, however often it
  was registered, before any listener is told, and leaves an empty pool.
\<close>

theorem pool_delete_all_once:
  assumes "rpool_inv p"
  shows "rpool_inv (pool_DeleteAll p) \<and> pool_abs (pool_DeleteAll p) = {#} \<and>
    (\<exists>dropped told. rp_events (pool_DeleteAll p) = rp_events p @ map EngineDelete dropped @ told \<and>
       distinct dropped \<and> set dropped = set_mset (pool_abs p) \<and>
       told = concat (map (\<lambda>k. map (\<lambda>l. PoolDelete l (pool_Select k p)) (rp_listeners p)) dropped))"
proof -
  let ?m = "rp_map p"
  have ok: "umap_ok ?m" "list_all (entry_ok p) ?m" using assms by (simp_all add: rpool_inv_def)
  have look: "map_of ?m k = Some v" if "(k, v) \<in> set ?m" for k v
    using ok(1) that by (simp add: umap_ok_def)
  have ks: "set (map fst ?m) = set_mset (pool_abs p)"
  proof (rule set_eqI)
    fix k
    show "k \<in> set (map fst ?m) \<longleftrightarrow> k \<in> set_mset (pool_abs p)"
    proof (cases "map_of ?m k")
      case None
      then have "count (pool_abs p) k = 0" using assms by (simp add: count_pool_abs)
      then show ?thesis using None by (auto simp: map_of_eq_None_iff not_in_iff)
    next
      case (Some a)
      then obtain cnt node where c: "map_of ?m k = Some (cnt, node)" by (cases a) simp
      then have "0 < unat cnt" using inv_entry [OF assms c] by (metis word_less_nat_alt unat_0)
      then show ?thesis
        using c assms map_of_SomeD [OF c]
        by (force simp: count_pool_abs simp flip: count_greater_zero_iff)
    qed
  qed
  have told: "map (\<lambda>(_, _, node). map (\<lambda>l. PoolDelete l node) (rp_listeners p)) ?m =
      map (\<lambda>k. map (\<lambda>l. PoolDelete l (pool_Select k p)) (rp_listeners p)) (map fst ?m)"
    by (auto simp: pool_Select_def look)
  have ev: "rp_events (pool_DeleteAll p) = rp_events p @ map EngineDelete (map fst ?m) @
      concat (map (\<lambda>k. map (\<lambda>l. PoolDelete l (pool_Select k p)) (rp_listeners p)) (map fst ?m))"
    unfolding pool_DeleteAll_def Let_def emit_simps told [symmetric]
    using DeleteAll_events [OF ok] by (simp add: split_def comp_def)
  have "rpool_inv (pool_DeleteAll p)" "pool_abs (pool_DeleteAll p) = {#}"
    by (simp_all add: pool_DeleteAll_def Let_def rpool_inv_def pool_abs_def)
  moreover have "distinct (map fst ?m)" using ok(1) by (simp add: umap_ok_def)
  ultimately show ?thesis using ev ks by blast
qed

section \<open>Witnesses\<close>

definition w_info :: executor_register_info where
  "w_info = \<lparr>ei_authType = PIN, ei_executorRole = ALL_IN_ONE, ei_executorSensorHint = 0,
     ei_executorMatcher = 0, ei_esl = 2, ei_maxTemplateAcl = 3, ei_publicKey = [1, 2],
     ei_deviceUdid = [7], ei_signedRemoteExecutorInfo = []\<rparr>"

definition w_pool :: rpool where
  "w_pool = \<lparr>rp_heap = (\<lambda>_. \<lparr>rn_info = w_info, rn_callback = True, rn_executorIndex = 5, rn_addedToEngine = True\<rparr>),
     rp_map = [(5, (1, Some 0))], rp_listeners = [1, 2], rp_events = []\<rparr>"

lemma w_pool_inv: "rpool_inv w_pool" "fresh_node w_pool 3" "rn_executorIndex (rp_heap w_pool 3) = 5"
  by (simp_all add: rpool_inv_def entry_ok_def fresh_node_def pool_Enumerate_def w_pool_def)

lemma pool_insert_refines_witness:
  "rpool_inv (snd (pool_Insert (Some 3) w_pool)) \<and>
   pool_abs (snd (pool_Insert (Some 3) w_pool)) = add_mset 5 (pool_abs w_pool)"
proof -
  have r: "fst (pool_Insert (Some 3) w_pool)"
    by (simp add: pool_Insert_def w_pool_def Let_def word_le_nat_alt)
  show ?thesis
    using pool_insert_refines [OF w_pool_inv prod.collapse [symmetric]] r by simp
qed

lemma pool_delete_refines_witness:
  "fst (pool_Delete 5 w_pool) \<and> pool_abs (snd (pool_Delete 5 w_pool)) = {#} \<and>
   rp_events (snd (pool_Delete 5 w_pool)) = [EngineDelete 5, PoolDelete 1 (Some 0), PoolDelete 2 (Some 0)]"
proof -
  have a: "pool_abs w_pool = {#5#}" by (simp add: pool_abs_def w_pool_def)
  have "pool_Select 5 w_pool = Some 0" "rp_listeners w_pool = [1, 2]" "rp_events w_pool = []"
    by (simp_all add: pool_Select_def w_pool_def)
  then show ?thesis
    using pool_delete_refines [OF w_pool_inv(1) prod.collapse [symmetric], of 5] by (simp add: a)
qed

lemma pool_select_registered_witness:
  "5 \<in># pool_abs w_pool \<and> rn_executorIndex (rp_heap w_pool 0) = 5"
proof -
  have "pool_Select 5 w_pool = Some 0" by (simp add: pool_Select_def w_pool_def)
  then show ?thesis using pool_select_registered [OF w_pool_inv(1), of 5 0] by simp
qed

lemma pool_delete_all_once_witness:
  "pool_abs (pool_DeleteAll w_pool) = {#} \<and> rpool_inv (pool_DeleteAll w_pool)"
  using pool_delete_all_once [OF w_pool_inv(1)] by simp

end
