(* ===== verification/Schedule_Node.thy ===== *)
theory Schedule_Node
  imports Resource_Pool Fsm
begin

text \<open>
  One authentication round between the framework and its executors:
  \<^verbatim>\<open>services/core/src/schedule_node_impl.cpp\<close> and \<^verbatim>\<open>schedule_resource_node_listener.cpp\<close>. A
  schedule node owns a finite state machine; its public operations queue events, the machine's
  actions call the executors over IPC, and the final state reports the result to the callback.

  The state of a node is a machine with a \<open>sched_node\<close>. The field \<open>sn_trace\<close> is the list of everything
  the node did to the outside. Executors are weak references into the heap \<open>sn_live\<close> of the nodes
  that are alive, which the environment may change at any time. The answers of executors, of the
  engine and of the timer are functions of the outputs so far (\<open>sched_env\<close>), so any behaviour of
  theirs is covered. The relation \<open>sched_step\<close> interleaves the operations with single iterations of the
  event loop; the operations of a node that is being destroyed are not steps.
\<close>

section \<open>Data\<close>

abbreviation (input) S_INIT :: u32 where "S_INIT \<equiv> 0"
abbreviation (input) S_VERIFY_STARING :: u32 where "S_VERIFY_STARING \<equiv> 1"
abbreviation (input) S_COLLECT_STARING :: u32 where "S_COLLECT_STARING \<equiv> 2"
abbreviation (input) S_AUTH_PROCESSING :: u32 where "S_AUTH_PROCESSING \<equiv> 3"
abbreviation (input) S_COLLECT_STOPPING :: u32 where "S_COLLECT_STOPPING \<equiv> 4"
abbreviation (input) S_VERIFY_STOPPING :: u32 where "S_VERIFY_STOPPING \<equiv> 5"
abbreviation (input) S_END :: u32 where "S_END \<equiv> 6"

abbreviation (input) E_START_AUTH :: u32 where "E_START_AUTH \<equiv> 0"
abbreviation (input) E_VERIFY_STARTED_SUCCESS :: u32 where "E_VERIFY_STARTED_SUCCESS \<equiv> 1"
abbreviation (input) E_VERIFY_STARTED_FAILED :: u32 where "E_VERIFY_STARTED_FAILED \<equiv> 2"
abbreviation (input) E_COLLECT_STARTED_SUCCESS :: u32 where "E_COLLECT_STARTED_SUCCESS \<equiv> 3"
abbreviation (input) E_COLLECT_STARTED_FAILED :: u32 where "E_COLLECT_STARTED_FAILED \<equiv> 4"
abbreviation (input) E_SCHEDULE_RESULT_RECEIVED :: u32 where "E_SCHEDULE_RESULT_RECEIVED \<equiv> 5"
abbreviation (input) E_COLLECT_STOPPED_SUCCESS :: u32 where "E_COLLECT_STOPPED_SUCCESS \<equiv> 6"
abbreviation (input) E_COLLECT_STOPPED_FAILED :: u32 where "E_COLLECT_STOPPED_FAILED \<equiv> 7"
abbreviation (input) E_VERIFY_STOPPED_SUCCESS :: u32 where "E_VERIFY_STOPPED_SUCCESS \<equiv> 8"
abbreviation (input) E_VERIFY_STOPPED_FAILED :: u32 where "E_VERIFY_STOPPED_FAILED \<equiv> 9"
abbreviation (input) E_STOP_AUTH :: u32 where "E_STOP_AUTH \<equiv> 10"
abbreviation (input) E_TIME_OUT :: u32 where "E_TIME_OUT \<equiv> 11"

text \<open>\<^verbatim>\<open>ScheduleNodeImpl::ScheduleInfo\<close>; a weak pointer is a reference or null.\<close>

record schedule_info =
  si_scheduleId :: u64
  si_tokenId :: "u32 option"
  si_collectorTokenId :: u32
  si_pinSubType :: i32
  si_contextId :: u64
  si_expiredTime :: u64
  si_templateIdList :: "u64 list"
  si_authType :: i32
  si_executorMatcher :: u32
  si_scheduleMode :: i32
  si_collector :: "node_ref option"
  si_verifier :: "node_ref option"
  si_threadHandler :: bool
  si_callback :: bool
  si_endAfterFirstFail :: bool
  si_collectorMessage :: bytes
  si_verifierMessage :: bytes
  si_authIntent :: i32
  si_userId :: i32
  si_additionalInfo :: bytes
  si_title :: bytes
  si_authScene :: i32

datatype node_output =
    NodeCall node_ref exec_call
  | ScheduleStarted
  | ScheduleProcessed i32 i32 bytes
  | ScheduleStoped i32 "attributes option"
  | EngineSend u64 i32 bytes
  | TimerRegister u64
  | TimerUnregister u32
  | ListenerRegister

record sched_node =
  sn_info :: schedule_info
  sn_executorResultCode :: i32
  sn_fwkResultCode :: "i32 option"
  sn_scheduleResult :: "attributes option"
  sn_timerId :: u32
  sn_live :: "node_ref \<Rightarrow> resource_node option"
  sn_trace :: "node_output list"

record sched_env =
  env_ipc :: "node_output list \<Rightarrow> node_ref \<Rightarrow> exec_call \<Rightarrow> i32"
  env_send :: "node_output list \<Rightarrow> u64 \<Rightarrow> i32 \<Rightarrow> bytes \<Rightarrow> i32"
  env_timer :: "node_output list \<Rightarrow> u64 \<Rightarrow> u32"

definition lock_node :: "sched_node \<Rightarrow> node_ref option \<Rightarrow> (node_ref \<times> resource_node) option" where
  "lock_node s r =
     (case r of None \<Rightarrow> None
      | Some ref \<Rightarrow> (case sn_live s ref of None \<Rightarrow> None | Some n \<Rightarrow> Some (ref, n)))"

definition node_emit :: "node_output \<Rightarrow> sched_node \<Rightarrow> sched_node" where
  "node_emit out s = s\<lparr>sn_trace := sn_trace s @ [out]\<rparr>"

text \<open>A call to an executor: its answer, and the node with the IPC call it made, if any.\<close>

definition call_node ::
  "sched_env \<Rightarrow> node_ref \<Rightarrow> resource_node \<Rightarrow>
   ((exec_call \<Rightarrow> i32) \<Rightarrow> resource_node \<Rightarrow> i32 \<times> exec_call list) \<Rightarrow> sched_node \<Rightarrow> i32 \<times> sched_node" where
  "call_node env ref n operation s =
     (case operation (env_ipc env (sn_trace s) ref) n of
        (ret, calls) \<Rightarrow> (ret, s\<lparr>sn_trace := sn_trace s @ map (NodeCall ref) calls\<rparr>))"

definition SetFwkResultCode :: "i32 \<Rightarrow> sched_node \<Rightarrow> sched_node" where
  "SetFwkResultCode resultCode s = s\<lparr>sn_fwkResultCode := Some resultCode\<rparr>"

definition SetExecutorResultCode :: "i32 \<Rightarrow> sched_node \<Rightarrow> sched_node" where
  "SetExecutorResultCode resultCode s = s\<lparr>sn_executorResultCode := resultCode\<rparr>"

definition SetScheduleResult :: "attributes option \<Rightarrow> sched_node \<Rightarrow> sched_node" where
  "SetScheduleResult scheduleResult s = s\<lparr>sn_scheduleResult := scheduleResult\<rparr>"

section \<open>Queries\<close>

definition GetScheduleId :: "sched_node \<Rightarrow> u64" where
  "GetScheduleId s = si_scheduleId (sn_info s)"

definition GetContextId :: "sched_node \<Rightarrow> u64" where
  "GetContextId s = si_contextId (sn_info s)"

definition GetAuthType :: "sched_node \<Rightarrow> i32" where
  "GetAuthType s = si_authType (sn_info s)"

definition GetExecutorMatcher :: "sched_node \<Rightarrow> u64" where
  "GetExecutorMatcher s = ucast (si_executorMatcher (sn_info s))"

definition GetScheduleMode :: "sched_node \<Rightarrow> i32" where
  "GetScheduleMode s = si_scheduleMode (sn_info s)"

definition GetCollectorExecutor :: "sched_node \<Rightarrow> node_ref option" where
  "GetCollectorExecutor s = si_collector (sn_info s)"

definition GetVerifyExecutor :: "sched_node \<Rightarrow> node_ref option" where
  "GetVerifyExecutor s = si_verifier (sn_info s)"

definition GetTemplateIdList :: "sched_node \<Rightarrow> u64 list option" where
  "GetTemplateIdList s =
     (if si_templateIdList (sn_info s) = [] then None else Some (si_templateIdList (sn_info s)))"

definition GetScheduleCallback :: "sched_node \<Rightarrow> bool" where
  "GetScheduleCallback s = si_callback (sn_info s)"

definition GetAuthIntent :: "sched_node \<Rightarrow> i32" where
  "GetAuthIntent s = si_authIntent (sn_info s)"

definition ClearScheduleCallback :: "sched_node \<Rightarrow> sched_node" where
  "ClearScheduleCallback s = s\<lparr>sn_info := (sn_info s)\<lparr>si_callback := False\<rparr>\<rparr>"

text \<open>The command for an executor; a refused setter is ignored, as in the code.\<close>

definition GetScheduleAttribute :: "schedule_info \<Rightarrow> bool \<Rightarrow> attributes \<Rightarrow> attributes" where
  "GetScheduleAttribute info isVerifier a =
     (let a = snd (SetInt32Value ATTR_SCHEDULE_MODE (si_scheduleMode info) a);
          a = (case si_tokenId info of None \<Rightarrow> a
               | Some t \<Rightarrow> snd (SetUint32Value ATTR_ACCESS_TOKEN_ID t a));
          a = (if si_pinSubType info \<noteq> 0
               then snd (SetInt32Value ATTR_PIN_SUB_TYPE (si_pinSubType info) a) else a);
          a = snd (SetUint32Value ATTR_COLLECTOR_TOKEN_ID (si_collectorTokenId info) a);
          a = snd (SetBoolValue ATTR_END_AFTER_FIRST_FAIL (si_endAfterFirstFail info) a);
          a = (if isVerifier
               then snd (SetUint8ArrayValue ATTR_EXTRA_INFO (si_verifierMessage info)
                      (snd (SetInt32Value ATTR_USER_ID (si_userId info)
                         (snd (SetInt32Value ATTR_AUTH_INTENTION (si_authIntent info) a)))))
               else snd (SetUint8ArrayValue ATTR_EXTRA_INFO (si_collectorMessage info) a));
          a = (case si_templateIdList info of
                 [] \<Rightarrow> a
               | t # ts \<Rightarrow>
                   let a1 = snd (SetUint64ArrayValue ATTR_TEMPLATE_ID_LIST (t # ts) a)
                   in if ts = [] then snd (SetUint64Value ATTR_TEMPLATE_ID t a1) else a1);
          a = (if si_additionalInfo info \<noteq> []
               then snd (SetStringValue ATTR_ADDITIONAL_INFO (si_additionalInfo info) a) else a);
          a = (if si_title info \<noteq> []
               then snd (SetStringValue ATTR_WIDGET_TITLE (si_title info) a) else a)
      in snd (SetInt32Value ATTR_AUTH_SCENE (si_authScene info) a))"

section \<open>The actions of the machine\<close>

datatype sched_action =
    BeginVerifierAction
  | BeginCollectorAction
  | VerifierBeginFailedAction
  | EndCollectorAction
  | EndVerifierAction
  | ProcessingAction
  | FinishedAction

definition ProcessBeginVerifier :: "sched_env \<Rightarrow> sched_node \<Rightarrow> sched_node \<times> u32 list" where
  "ProcessBeginVerifier env s =
     (case (lock_node s (si_collector (sn_info s)), lock_node s (si_verifier (sn_info s))) of
        (Some (cref, collector), Some (vref, verifier)) \<Rightarrow>
          (let peerPk = ei_publicKey (rn_info collector);
               attr = GetScheduleAttribute (sn_info s) True Attributes_new;
               (result, s1) = call_node env vref verifier
                  (\<lambda>ipc n. BeginExecute ipc n (GetScheduleId s) peerPk attr) s
           in if result \<noteq> SUCCESS then (SetExecutorResultCode result s1, [E_VERIFY_STARTED_FAILED])
              else (s1, [E_VERIFY_STARTED_SUCCESS]))
      | _ \<Rightarrow> (SetFwkResultCode GENERAL_ERROR s, [E_VERIFY_STARTED_FAILED]))"

definition NotifyCollectorReady :: "sched_env \<Rightarrow> sched_node \<Rightarrow> sched_node" where
  "NotifyCollectorReady env s =
     (case lock_node s (si_verifier (sn_info s)) of
        None \<Rightarrow> s
      | Some (vref, verifier) \<Rightarrow>
          let (r1, attr) = SetInt32Value ATTR_PROPERTY_MODE PROPERTY_MODE_NOTIFY_COLLECTOR_READY
                 Attributes_new
          in if \<not> r1 then s
             else let (r2, attr) = SetUint64Value ATTR_SCHEDULE_ID (GetScheduleId s) attr
                  in if \<not> r2 then s
                     else snd (call_node env vref verifier (\<lambda>ipc n. SetProperty ipc n attr) s))"

definition ProcessBeginCollector :: "sched_env \<Rightarrow> sched_node \<Rightarrow> sched_node \<times> u32 list" where
  "ProcessBeginCollector env s =
     (case (lock_node s (si_collector (sn_info s)), lock_node s (si_verifier (sn_info s))) of
        (Some (cref, collector), Some (vref, verifier)) \<Rightarrow>
          if cref = vref then (s, [E_COLLECT_STARTED_SUCCESS])
          else
            (let peerPk = ei_publicKey (rn_info collector);
                 attr = GetScheduleAttribute (sn_info s) False Attributes_new;
                 (result, s1) = call_node env cref collector
                    (\<lambda>ipc n. BeginExecute ipc n (GetScheduleId s) peerPk attr) s
             in if result \<noteq> SUCCESS
                then (SetExecutorResultCode result s1, [E_COLLECT_STARTED_FAILED])
                else (NotifyCollectorReady env s1, [E_COLLECT_STARTED_SUCCESS]))
      | _ \<Rightarrow> (SetFwkResultCode GENERAL_ERROR s, [E_COLLECT_STARTED_FAILED]))"

definition ProcessEndCollector :: "sched_env \<Rightarrow> sched_node \<Rightarrow> sched_node \<times> u32 list" where
  "ProcessEndCollector env s =
     (case (lock_node s (si_collector (sn_info s)), lock_node s (si_verifier (sn_info s))) of
        (Some (cref, collector), Some (vref, verifier)) \<Rightarrow>
          if cref = vref then (s, [E_COLLECT_STOPPED_SUCCESS])
          else
            (let (result, s1) = call_node env cref collector
                    (\<lambda>ipc n. EndExecute ipc n (GetScheduleId s) Attributes_new) s
             in if result \<noteq> SUCCESS
                then (SetExecutorResultCode result s1, [E_COLLECT_STOPPED_FAILED])
                else (s1, [E_COLLECT_STOPPED_SUCCESS]))
      | _ \<Rightarrow> (SetFwkResultCode GENERAL_ERROR s, [E_COLLECT_STOPPED_FAILED]))"

definition ProcessEndVerifier :: "sched_env \<Rightarrow> sched_node \<Rightarrow> sched_node \<times> u32 list" where
  "ProcessEndVerifier env s =
     (case lock_node s (si_verifier (sn_info s)) of
        Some (vref, verifier) \<Rightarrow>
          (let (result, s1) = call_node env vref verifier
                  (\<lambda>ipc n. EndExecute ipc n (GetScheduleId s) Attributes_new) s
           in if result \<noteq> SUCCESS
              then (SetExecutorResultCode result s1, [E_VERIFY_STOPPED_FAILED])
              else (s1, [E_VERIFY_STOPPED_SUCCESS]))
      | None \<Rightarrow> (SetFwkResultCode GENERAL_ERROR s, [E_VERIFY_STOPPED_FAILED]))"

definition OnScheduleProcessing :: "sched_node \<Rightarrow> sched_node" where
  "OnScheduleProcessing s = (if \<not> GetScheduleCallback s then s else node_emit ScheduleStarted s)"

definition StopTimer :: "sched_node \<Rightarrow> sched_node" where
  "StopTimer s =
     (if sn_timerId s = 0 then s
      else (node_emit (TimerUnregister (sn_timerId s)) s)\<lparr>sn_timerId := 0\<rparr>)"

definition reported_code :: "sched_node \<Rightarrow> i32" where
  "reported_code s = (case sn_fwkResultCode s of None \<Rightarrow> sn_executorResultCode s | Some c \<Rightarrow> c)"

definition OnScheduleFinished :: "sched_node \<Rightarrow> sched_node" where
  "OnScheduleFinished s =
     (let s1 = StopTimer s
      in if \<not> GetScheduleCallback s1 then s1
         else ClearScheduleCallback
                (node_emit (ScheduleStoped (reported_code s1) (sn_scheduleResult s1)) s1))"

text \<open>\<^verbatim>\<open>MakeAction\<close> wraps a handler; the node is alive while its machine runs.\<close>

definition run_action :: "sched_env \<Rightarrow> (sched_action, sched_node) action_run" where
  "run_action env act event s =
     (case act of
        BeginVerifierAction \<Rightarrow> ProcessBeginVerifier env s
      | BeginCollectorAction \<Rightarrow> ProcessBeginCollector env s
      | VerifierBeginFailedAction \<Rightarrow> (s, [])
      | EndCollectorAction \<Rightarrow> ProcessEndCollector env s
      | EndVerifierAction \<Rightarrow> ProcessEndVerifier env s
      | ProcessingAction \<Rightarrow> (OnScheduleProcessing s, [])
      | FinishedAction \<Rightarrow> (OnScheduleFinished s, []))"

definition MakeFiniteStateMachine :: "string \<Rightarrow> sched_action fsm option" where
  "MakeFiniteStateMachine description =
     (let b = Builder_New description S_INIT;
          b = MakeTransition S_INIT E_START_AUTH S_VERIFY_STARING (Some BeginVerifierAction) b;
          b = MakeTransition S_VERIFY_STARING E_VERIFY_STARTED_SUCCESS S_COLLECT_STARING
                (Some BeginCollectorAction) b;
          b = MakeTransition S_VERIFY_STARING E_VERIFY_STARTED_FAILED S_END
                (Some VerifierBeginFailedAction) b;
          b = MakeTransition S_VERIFY_STARING E_SCHEDULE_RESULT_RECEIVED S_END None b;
          b = MakeTransition S_VERIFY_STARING E_STOP_AUTH S_VERIFY_STOPPING (Some EndVerifierAction) b;
          b = MakeTransition S_VERIFY_STARING E_TIME_OUT S_VERIFY_STOPPING (Some EndVerifierAction) b;
          b = MakeTransition S_COLLECT_STARING E_COLLECT_STARTED_SUCCESS S_AUTH_PROCESSING None b;
          b = MakeTransition S_COLLECT_STARING E_SCHEDULE_RESULT_RECEIVED S_END None b;
          b = MakeTransition S_COLLECT_STARING E_STOP_AUTH S_COLLECT_STOPPING
                (Some EndCollectorAction) b;
          b = MakeTransition S_AUTH_PROCESSING E_SCHEDULE_RESULT_RECEIVED S_END None b;
          b = MakeTransition S_AUTH_PROCESSING E_STOP_AUTH S_COLLECT_STOPPING
                (Some EndCollectorAction) b;
          b = MakeTransition S_AUTH_PROCESSING E_TIME_OUT S_COLLECT_STOPPING
                (Some EndCollectorAction) b;
          b = MakeTransition S_COLLECT_STOPPING E_SCHEDULE_RESULT_RECEIVED S_END None b;
          b = MakeTransition S_COLLECT_STOPPING E_COLLECT_STOPPED_SUCCESS S_VERIFY_STOPPING
                (Some EndVerifierAction) b;
          b = MakeTransition S_COLLECT_STOPPING E_COLLECT_STOPPED_FAILED S_VERIFY_STOPPING
                (Some EndVerifierAction) b;
          b = MakeTransition S_COLLECT_STOPPING E_TIME_OUT S_VERIFY_STOPPING
                (Some EndVerifierAction) b;
          b = MakeTransition S_VERIFY_STOPPING E_SCHEDULE_RESULT_RECEIVED S_END None b;
          b = MakeTransition S_VERIFY_STOPPING E_VERIFY_STOPPED_SUCCESS S_END None b;
          b = MakeTransition S_VERIFY_STOPPING E_VERIFY_STOPPED_FAILED S_END None b;
          b = MakeTransition S_VERIFY_STOPPING E_TIME_OUT S_END None b;
          b = MakeOnStateEnter S_AUTH_PROCESSING (Some ProcessingAction) b;
          b = MakeOnStateEnter S_END (Some FinishedAction) b
      in fst (Build b))"

section \<open>The operations of a node\<close>

type_synonym sched_state = "sched_action fsm \<times> sched_node"

definition Init ::
  "string \<Rightarrow> (node_ref \<Rightarrow> resource_node option) \<Rightarrow> schedule_info \<Rightarrow> sched_state option" where
  "Init description live info =
     (case MakeFiniteStateMachine description of
        None \<Rightarrow> None
      | Some m \<Rightarrow>
          let s = \<lparr>sn_info = info, sn_executorResultCode = GENERAL_ERROR, sn_fwkResultCode = None,
                   sn_scheduleResult = None, sn_timerId = 0, sn_live = live, sn_trace = []\<rparr>
          in if \<not> si_threadHandler info
             then Some (FSM_SetThreadHandler m, s\<lparr>sn_info := info\<lparr>si_threadHandler := True\<rparr>\<rparr>)
             else Some (m, s))"

definition TryKickMachine :: "u32 \<Rightarrow> sched_state \<Rightarrow> bool \<times> sched_state" where
  "TryKickMachine event ms = (True, (FSM_Schedule event (fst ms), snd ms))"

definition StartTimer :: "sched_env \<Rightarrow> sched_node \<Rightarrow> sched_node" where
  "StartTimer env s =
     (if si_expiredTime (sn_info s) = 0 \<or> sn_timerId s \<noteq> 0 then s
      else (node_emit (TimerRegister (si_expiredTime (sn_info s))) s)
             \<lparr>sn_timerId := env_timer env (sn_trace s) (si_expiredTime (sn_info s))\<rparr>)"

definition StartSchedule :: "sched_env \<Rightarrow> sched_state \<Rightarrow> bool \<times> sched_state" where
  "StartSchedule env ms =
     (case TryKickMachine E_START_AUTH (fst ms, node_emit ListenerRegister (snd ms)) of
        (kicked, (m, s)) \<Rightarrow> if \<not> kicked then (False, (m, s)) else (True, (m, StartTimer env s)))"

definition StopSchedule :: "i32 \<Rightarrow> sched_state \<Rightarrow> bool \<times> sched_state" where
  "StopSchedule errorCode ms = TryKickMachine E_STOP_AUTH (fst ms, SetFwkResultCode errorCode (snd ms))"

definition ContinueSchedule :: "i32 \<Rightarrow> attributes option \<Rightarrow> sched_state \<Rightarrow> bool \<times> sched_state" where
  "ContinueSchedule resultCode finalResult ms =
     TryKickMachine E_SCHEDULE_RESULT_RECEIVED
       (fst ms, SetScheduleResult finalResult (SetExecutorResultCode resultCode (snd ms)))"

text \<open>The callback that \<open>StartTimer\<close> registers.\<close>

definition OnTimeOut :: "sched_state \<Rightarrow> sched_state" where
  "OnTimeOut ms = snd (TryKickMachine E_TIME_OUT (fst ms, SetFwkResultCode TIMEOUT (snd ms)))"

text \<open>\<open>msg\<close> is the serialised message; an \<^verbatim>\<open>ALL_IN_ONE\<close> or \<^verbatim>\<open>VERIFIER\<close> destination is the verifier.\<close>

definition SendMessage :: "sched_env \<Rightarrow> i32 \<Rightarrow> bytes \<Rightarrow> sched_node \<Rightarrow> bool \<times> sched_node" where
  "SendMessage env dstRole msg s =
     (let attr = Attributes_of_raw msg
      in if dstRole = SCHEDULER then
           (case GetInt32Value ATTR_TIP_INFO attr of
              Some tip \<Rightarrow>
                if \<not> GetScheduleCallback s then (False, s)
                else (True, node_emit (ScheduleProcessed dstRole (GetAuthType s) msg) s)
            | None \<Rightarrow>
                (case GetInt32Value ATTR_SRC_ROLE attr of
                   None \<Rightarrow> (False, s)
                 | Some srcRole \<Rightarrow>
                     (case GetUint8ArrayValue ATTR_EXTRA_INFO attr of
                        None \<Rightarrow> (False, s)
                      | Some message \<Rightarrow>
                          (env_send env (sn_trace s) (GetScheduleId s) srcRole message = SUCCESS,
                           node_emit (EngineSend (GetScheduleId s) srcRole message) s))))
         else
           let target = (if dstRole = ALL_IN_ONE \<or> dstRole = VERIFIER then si_verifier (sn_info s)
                         else if dstRole = COLLECTOR then si_collector (sn_info s) else None)
           in (case lock_node s target of
                 None \<Rightarrow> (False, s)
               | Some (ref, n) \<Rightarrow>
                   (True, snd (call_node env ref n (\<lambda>ipc n. SendData ipc n (GetScheduleId s) attr) s))))"

text \<open>The listener a node registers with the pool.\<close>

definition OnResourceNodePoolDelete :: "node_ref option \<Rightarrow> sched_state \<Rightarrow> sched_state" where
  "OnResourceNodePoolDelete resource ms =
     (case resource of
        None \<Rightarrow> ms
      | Some ref \<Rightarrow>
          let s = snd ms;
              held = (\<lambda>r. map_option fst (lock_node s r) = Some ref)
          in if held (GetCollectorExecutor s) \<or> held (GetVerifyExecutor s)
             then snd (StopSchedule GENERAL_ERROR ms) else ms)"

end
