(* ===== verification/Schedule_Runs.thy ===== *)
theory Schedule_Runs
  imports Schedule_Node
begin

text \<open>
  The runs of a schedule node: the step relation over its operations and its event loop, the
  transition table of its machine as the builder makes it, what each transition does, and the
  invariant of every run. The interfaces of \<open>Fsm\<close> are interpreted here on the node's own actions.
\<close>

section \<open>Runs of a node\<close>

datatype sched_label =
    LStart
  | LStop i32
  | LContinue i32 "attributes option"
  | LTimeOut
  | LPoolDelete "node_ref option"
  | LSend i32 bytes
  | LClear
  | LLive "node_ref \<Rightarrow> resource_node option"
  | LTask nat
  | LEvent

text \<open>
  \<open>LEvent\<close> is one iteration of the event loop, \<open>LTask\<close> the thread handler taking or dropping posted
  tasks, \<open>LLive\<close> a change of the executors that are alive. A timeout may come at any moment.
\<close>

inductive sched_step :: "sched_env \<Rightarrow> sched_label \<Rightarrow> sched_state \<Rightarrow> sched_state \<Rightarrow> bool"
  for env :: sched_env where
  step_start: "sched_step env LStart ms (snd (StartSchedule env ms))"
| step_stop: "sched_step env (LStop c) ms (snd (StopSchedule c ms))"
| step_continue: "sched_step env (LContinue c r) ms (snd (ContinueSchedule c r ms))"
| step_timeout: "sched_step env LTimeOut ms (OnTimeOut ms)"
| step_pool_delete: "sched_step env (LPoolDelete r) ms (OnResourceNodePoolDelete r ms)"
| step_send: "sched_step env (LSend role msg) (m, s) (m, snd (SendMessage env role msg s))"
| step_clear: "sched_step env LClear (m, s) (m, ClearScheduleCallback s)"
| step_live: "sched_step env (LLive h) (m, s) (m, s\<lparr>sn_live := h\<rparr>)"
| step_task: "sched_step env (LTask k) (m, s) (m\<lparr>postedTasks := k\<rparr>, s)"
| step_event: "pendingEvents m = e # es \<Longrightarrow>
    sched_step env LEvent (m, s) (ProcessEvent (run_action env) e (m\<lparr>pendingEvents := es\<rparr>, s))"

inductive_cases sched_stepE: "sched_step env l ms ms'"

inductive sched_reach :: "sched_env \<Rightarrow> sched_label list \<Rightarrow> sched_state \<Rightarrow> bool"
  for env :: sched_env where
  reach_init: "Init description live info = Some ms \<Longrightarrow> sched_reach env [] ms"
| reach_step: "sched_reach env ls ms \<Longrightarrow> sched_step env l ms ms' \<Longrightarrow> sched_reach env (ls @ [l]) ms'"

section \<open>The transition table\<close>

definition sched_table :: "(u32 \<times> u32 \<times> u32 \<times> sched_action option) list" where
  "sched_table =
     [(0, 0, 1, Some BeginVerifierAction),
      (1, 1, 2, Some BeginCollectorAction), (1, 2, 6, Some VerifierBeginFailedAction),
      (1, 5, 6, None), (1, 10, 5, Some EndVerifierAction), (1, 11, 5, Some EndVerifierAction),
      (2, 3, 3, None), (2, 5, 6, None), (2, 10, 4, Some EndCollectorAction),
      (3, 5, 6, None), (3, 10, 4, Some EndCollectorAction), (3, 11, 4, Some EndCollectorAction),
      (4, 5, 6, None), (4, 6, 5, Some EndVerifierAction), (4, 7, 5, Some EndVerifierAction),
      (4, 11, 5, Some EndVerifierAction),
      (5, 5, 6, None), (5, 8, 6, None), (5, 9, 6, None), (5, 11, 6, None)]"

definition sched_machine :: "sched_action fsm \<Rightarrow> bool" where
  "sched_machine m \<longleftrightarrow>
     transitionMap m = map (\<lambda>(st, e, x). (GetTransitionIndex st e, x)) sched_table \<and>
     enterMap m = [(3, Some ProcessingAction), (6, Some FinishedAction)] \<and> leaveMap m = []"

lemma umap_assign_new: "map_of m k = None \<Longrightarrow> umap_assign k v m = m @ [(k, v)]"
  by (induction k v m rule: umap_assign.induct) (auto split: if_splits)

lemma MakeTransition_new:
  "map_of t (GetTransitionIndex st e) = None \<Longrightarrow>
     MakeTransition st e n a \<lparr>b_name = nm, b_initstate = i, b_valid = True, b_transitionMap = t,
       b_enterMap = en, b_leaveMap = lv\<rparr> =
     \<lparr>b_name = nm, b_initstate = i, b_valid = True,
       b_transitionMap = t @ [(GetTransitionIndex st e, (n, a))], b_enterMap = en, b_leaveMap = lv\<rparr>"
  by (simp add: MakeTransition_def try_emplace_def umap_assign_new)

lemma MakeOnStateEnter_new:
  "map_of en st = None \<Longrightarrow>
     MakeOnStateEnter st a \<lparr>b_name = nm, b_initstate = i, b_valid = True, b_transitionMap = t,
       b_enterMap = en, b_leaveMap = lv\<rparr> =
     \<lparr>b_name = nm, b_initstate = i, b_valid = True, b_transitionMap = t,
       b_enterMap = en @ [(st, a)], b_leaveMap = lv\<rparr>"
  by (simp add: MakeOnStateEnter_def try_emplace_def umap_assign_new)

lemma MakeFiniteStateMachine_builds:
  "MakeFiniteStateMachine description =
     Some \<lparr>machineName = description, currentState = 0,
       transitionMap = map (\<lambda>(st, e, x). (GetTransitionIndex st e, x)) sched_table,
       enterMap = [(3, Some ProcessingAction), (6, Some FinishedAction)], leaveMap = [],
       pendingEvents = [], threadHandlerSet = True, postedTasks = 0\<rparr>"
  unfolding MakeFiniteStateMachine_def Builder_New_def Let_def
  by (simp add: MakeTransition_new MakeOnStateEnter_new Build_def sched_table_def)

definition sched_next :: "u32 \<Rightarrow> u32 \<Rightarrow> (u32 \<times> sched_action option) option" where
  "sched_next st e = map_of (map (\<lambda>(st, e, x). ((st, e), x)) sched_table) (st, e)"

lemma map_of_transitions:
  "map_of (map (\<lambda>(st, e, x). (GetTransitionIndex st e, x)) t) (GetTransitionIndex st e) =
     map_of (map (\<lambda>(st, e, x). ((st, e), x)) t) (st, e)"
  by (induction t) auto

lemma sched_next_table: "sched_next st e = Some (n, a) \<Longrightarrow> (st, e, n, a) \<in> set sched_table"
  unfolding sched_next_def by (auto dest!: map_of_SomeD)

definition enter_state :: "u32 \<Rightarrow> sched_node \<Rightarrow> sched_node" where
  "enter_state n s =
     (if n = S_AUTH_PROCESSING then OnScheduleProcessing s
      else if n = S_END then OnScheduleFinished s else s)"

definition run_transition ::
  "sched_env \<Rightarrow> sched_action option \<Rightarrow> u32 \<Rightarrow> sched_node \<Rightarrow> sched_node \<times> u32 list" where
  "run_transition env act e s = (case act of None \<Rightarrow> (s, []) | Some a \<Rightarrow> run_action env a e s)"

text \<open>One iteration of the loop, flattened: every transition leaves its state.\<close>

lemma sched_table_leaves: "(st, e, n, a) \<in> set sched_table \<Longrightarrow> unat st < unat n \<and> unat n \<le> 6"
  by (auto simp: sched_table_def)

lemma ProcessEvent_sched:
  assumes "sched_machine m"
  shows "ProcessEvent (run_action env) e (m, s) =
    (case sched_next (currentState m) e of
       None \<Rightarrow> (m, s)
     | Some (n, act) \<Rightarrow>
         (case run_transition env act e s of
            (s1, es) \<Rightarrow> (m\<lparr>pendingEvents := pendingEvents m @ es, currentState := n\<rparr>, enter_state n s1)))"
proof (cases "sched_next (currentState m) e")
  case None
  then have "map_of (transitionMap m) (GetTransitionIndex (currentState m) e) = None"
    using assms by (simp add: sched_machine_def map_of_transitions sched_next_def)
  then show ?thesis using None by (simp add: ProcessEvent_ignored)
next
  case (Some x)
  obtain n act where x: "x = (n, act)" by fastforce
  have "currentState m \<noteq> n" using sched_table_leaves [OF sched_next_table] Some x by fastforce
  moreover have "map_of (transitionMap m) (GetTransitionIndex (currentState m) e) = Some (n, act)"
    using assms Some x by (simp add: sched_machine_def map_of_transitions sched_next_def)
  ultimately show ?thesis using assms
    by (auto simp: fsm_step_defs Some x run_transition_def sched_machine_def enter_state_def
        run_action_def split: option.splits prod.splits)
qed

section \<open>What one transition does\<close>

fun is_begin :: "node_output \<Rightarrow> bool" where
  "is_begin (NodeCall _ (OnBeginExecute _ _ _)) = True"
| "is_begin _ = False"

fun is_end :: "node_output \<Rightarrow> bool" where
  "is_end (NodeCall _ (OnEndExecute _ _)) = True"
| "is_end _ = False"

fun is_stop :: "node_output \<Rightarrow> bool" where
  "is_stop (ScheduleStoped _ _) = True"
| "is_stop _ = False"

definition outs :: "(node_output \<Rightarrow> bool) \<Rightarrow> sched_node \<Rightarrow> nat" where
  "outs P s = length (filter P (sn_trace s))"

lemmas code_setter_defs = SetFwkResultCode_def SetExecutorResultCode_def SetScheduleResult_def

lemmas call_defs =
  call_node_def BeginExecute_def EndExecute_def SetProperty_def SendData_def call_executor_def

lemmas handler_defs =
  ProcessBeginVerifier_def ProcessBeginCollector_def ProcessEndCollector_def ProcessEndVerifier_def

definition handler_frame :: "sched_node \<Rightarrow> sched_node \<Rightarrow> bool" where
  "handler_frame s s1 \<longleftrightarrow>
     sn_info s1 = sn_info s \<and> sn_scheduleResult s1 = sn_scheduleResult s \<and>
     sn_timerId s1 = sn_timerId s \<and> sn_live s1 = sn_live s \<and>
     (sn_fwkResultCode s1 = sn_fwkResultCode s \<or> sn_fwkResultCode s1 = Some GENERAL_ERROR) \<and>
     (sn_executorResultCode s1 = sn_executorResultCode s \<or> sn_executorResultCode s1 \<noteq> SUCCESS) \<and>
     filter is_stop (sn_trace s1) = filter is_stop (sn_trace s)"

lemma handler_frame_refl [simp]: "handler_frame s s"
  by (simp add: handler_frame_def)

lemma handler_frame_trans: "handler_frame s t \<Longrightarrow> handler_frame t u \<Longrightarrow> handler_frame s u"
  by (auto simp: handler_frame_def)

lemma call_node_frame:
  "call_node env r n operation s = (ret, s1) \<Longrightarrow> handler_frame s s1"
  by (auto simp: call_node_def handler_frame_def filter_empty_conv split: prod.splits)

lemma set_code_frame [simp]:
  "handler_frame s (SetFwkResultCode GENERAL_ERROR s)"
  "result \<noteq> SUCCESS \<Longrightarrow> handler_frame s (SetExecutorResultCode result s)"
  by (simp_all add: handler_frame_def code_setter_defs)

lemma NotifyCollectorReady_frame: "handler_frame s (NotifyCollectorReady env s)"
  by (auto simp: NotifyCollectorReady_def Let_def split: option.splits prod.splits
      intro: call_node_frame prod.collapse [symmetric])

definition call_action :: "sched_action option \<Rightarrow> bool" where
  "call_action act \<longleftrightarrow> act \<noteq> Some ProcessingAction \<and> act \<noteq> Some FinishedAction"

lemma run_transition_frame:
  "run_transition env act e s = (s1, es) \<Longrightarrow> call_action act \<Longrightarrow> handler_frame s s1"
  by (auto simp: run_transition_def run_action_def call_action_def handler_defs Let_def
      split: option.splits sched_action.splits prod.splits if_splits
      dest!: call_node_frame
      intro: handler_frame_trans [OF _ set_code_frame(2)] handler_frame_trans [OF _ NotifyCollectorReady_frame])

lemma call_node_begins:
  "call_node env r n (\<lambda>ipc n. BeginExecute ipc n i pk a) s = (ret, s1) \<Longrightarrow>
     outs is_begin s1 \<le> Suc (outs is_begin s) \<and> outs is_end s1 = outs is_end s"
  "call_node env r n (\<lambda>ipc n. EndExecute ipc n i a) s = (ret, s1) \<Longrightarrow>
     outs is_end s1 \<le> Suc (outs is_end s) \<and> outs is_begin s1 = outs is_begin s"
  "call_node env r n (\<lambda>ipc n. SetProperty ipc n a) s = (ret, s1) \<Longrightarrow>
     outs is_end s1 = outs is_end s \<and> outs is_begin s1 = outs is_begin s"
  "call_node env r n (\<lambda>ipc n. SendData ipc n i a) s = (ret, s1) \<Longrightarrow>
     outs is_end s1 = outs is_end s \<and> outs is_begin s1 = outs is_begin s"
  by (auto simp: call_defs outs_def split: if_splits)

lemma NotifyCollectorReady_counts:
  "outs is_begin (NotifyCollectorReady env s) = outs is_begin s \<and>
   outs is_end (NotifyCollectorReady env s) = outs is_end s"
  by (auto simp: NotifyCollectorReady_def Let_def split: option.splits prod.splits)
    (metis call_node_begins(3) prod.collapse)+

lemma code_setter_counts [simp]:
  "outs P (SetFwkResultCode c s) = outs P s" "outs P (SetExecutorResultCode c s) = outs P s"
  "outs P (SetScheduleResult r s) = outs P s"
  by (simp_all add: outs_def code_setter_defs)

text \<open>The event a handler queues, and the calls it makes.\<close>

lemma run_transition_effect:
  assumes "run_transition env act e s = (s1, es)"
  shows "es \<in> (case act of
        Some BeginVerifierAction \<Rightarrow> {[E_VERIFY_STARTED_SUCCESS], [E_VERIFY_STARTED_FAILED]}
      | Some BeginCollectorAction \<Rightarrow> {[E_COLLECT_STARTED_SUCCESS], [E_COLLECT_STARTED_FAILED]}
      | Some EndCollectorAction \<Rightarrow> {[E_COLLECT_STOPPED_SUCCESS], [E_COLLECT_STOPPED_FAILED]}
      | Some EndVerifierAction \<Rightarrow> {[E_VERIFY_STOPPED_SUCCESS], [E_VERIFY_STOPPED_FAILED]}
      | _ \<Rightarrow> {[]})"
  using assms
  by (auto simp: run_transition_def run_action_def handler_defs Let_def
      split: option.splits sched_action.splits prod.splits if_splits)

lemma run_transition_counts:
  assumes "run_transition env act e s = (s1, es)" and "call_action act"
  shows "outs is_begin s1 \<le> outs is_begin s +
      (if act = Some BeginVerifierAction \<or> act = Some BeginCollectorAction then 1 else 0)"
    and "outs is_end s1 \<le> outs is_end s +
      (if act = Some EndVerifierAction \<or> act = Some EndCollectorAction then 1 else 0)"
  using assms
  by (auto simp: run_transition_def run_action_def call_action_def handler_defs Let_def
      NotifyCollectorReady_counts
      split: option.splits sched_action.splits prod.splits if_splits dest!: call_node_begins)

section \<open>Invariants\<close>

text \<open>The event that moves the machine on is queued in every state that waits for none from outside.\<close>

definition inv_progress :: "sched_action fsm \<Rightarrow> bool" where
  "inv_progress m \<longleftrightarrow>
     (let q = set (pendingEvents m)
      in unat (currentState m) \<le> 6 \<and>
         (currentState m = S_VERIFY_STARING \<longrightarrow> 1 \<in> q \<or> 2 \<in> q) \<and>
         (currentState m = S_COLLECT_STOPPING \<longrightarrow> 6 \<in> q \<or> 7 \<in> q) \<and>
         (currentState m = S_VERIFY_STOPPING \<longrightarrow> 8 \<in> q \<or> 9 \<in> q))"

definition inv_once :: "sched_state \<Rightarrow> bool" where
  "inv_once ms \<longleftrightarrow>
     (let stops = length (filter is_stop (sn_trace (snd ms))); st = currentState (fst ms)
      in stops \<le> 1 \<and> (st \<noteq> S_END \<longrightarrow> stops = 0) \<and> (GetScheduleCallback (snd ms) \<longrightarrow> stops = 0) \<and>
         (st = S_END \<longrightarrow> \<not> GetScheduleCallback (snd ms)))"

definition inv_calls :: "sched_state \<Rightarrow> bool" where
  "inv_calls ms \<longleftrightarrow>
     (let st = unat (currentState (fst ms))
      in outs is_begin (snd ms) \<le> min 2 st \<and> outs is_end (snd ms) \<le> min 2 (st - 3))"

text \<open>Where a reported code and a reported result can come from.\<close>

definition stop_ok :: "sched_label list \<Rightarrow> i32 \<Rightarrow> bool" where
  "stop_ok ls c \<longleftrightarrow> (c = SUCCESS \<longrightarrow> LStop SUCCESS \<in> set ls)"

definition origin_ok :: "sched_label list \<Rightarrow> i32 \<Rightarrow> attributes option \<Rightarrow> bool" where
  "origin_ok ls c r \<longleftrightarrow>
     (c = SUCCESS \<longrightarrow> LContinue SUCCESS r \<in> set ls \<or> LStop SUCCESS \<in> set ls)"

definition result_ok :: "sched_label list \<Rightarrow> attributes option \<Rightarrow> bool" where
  "result_ok ls r \<longleftrightarrow> (r \<noteq> None \<longrightarrow> (\<exists>c. LContinue c r \<in> set ls))"

definition inv_origin :: "sched_label list \<Rightarrow> sched_node \<Rightarrow> bool" where
  "inv_origin ls s \<longleftrightarrow>
     origin_ok ls (sn_executorResultCode s) (sn_scheduleResult s) \<and>
     (\<forall>c. sn_fwkResultCode s = Some c \<longrightarrow> stop_ok ls c) \<and>
     result_ok ls (sn_scheduleResult s) \<and>
     (\<forall>c r. ScheduleStoped c r \<in> set (filter is_stop (sn_trace s)) \<longrightarrow> origin_ok ls c r \<and> result_ok ls r)"

definition sched_inv :: "sched_label list \<Rightarrow> sched_state \<Rightarrow> bool" where
  "sched_inv ls ms \<longleftrightarrow>
     sched_machine (fst ms) \<and> inv_progress (fst ms) \<and> inv_once ms \<and> inv_calls ms \<and> inv_origin ls (snd ms)"

lemma origin_ok_error [simp]: "c \<noteq> SUCCESS \<Longrightarrow> origin_ok ls c r" "c \<noteq> SUCCESS \<Longrightarrow> stop_ok ls c"
  by (simp_all add: origin_ok_def stop_ok_def)

lemma stop_ok_origin: "stop_ok ls c \<Longrightarrow> origin_ok ls c r"
  by (simp add: origin_ok_def stop_ok_def)

lemma origin_ok_append: "origin_ok ls c r \<Longrightarrow> origin_ok (ls @ l) c r" "stop_ok ls c \<Longrightarrow> stop_ok (ls @ l) c"
  by (auto simp: origin_ok_def stop_ok_def)

lemma result_ok_append: "result_ok ls r \<Longrightarrow> result_ok (ls @ l) r"
  by (auto simp: result_ok_def)

lemma inv_origin_append: "inv_origin ls s \<Longrightarrow> inv_origin (ls @ l) s"
  by (auto simp: inv_origin_def origin_ok_append result_ok_append)

lemma inv_origin_frame: "handler_frame s s1 \<Longrightarrow> inv_origin ls s \<Longrightarrow> inv_origin ls s1"
  by (auto simp: handler_frame_def inv_origin_def)

section \<open>Entering a state\<close>

lemma StopTimer_simps [simp]:
  "sn_info (StopTimer s) = sn_info s" "sn_executorResultCode (StopTimer s) = sn_executorResultCode s"
  "sn_fwkResultCode (StopTimer s) = sn_fwkResultCode s"
  "sn_scheduleResult (StopTimer s) = sn_scheduleResult s"
  "filter is_stop (sn_trace (StopTimer s)) = filter is_stop (sn_trace s)"
  "outs is_begin (StopTimer s) = outs is_begin s" "outs is_end (StopTimer s) = outs is_end s"
  by (simp_all add: StopTimer_def node_emit_def outs_def)

lemma reported_code_StopTimer [simp]: "reported_code (StopTimer s) = reported_code s"
  by (simp add: reported_code_def split: option.splits)

lemma enter_state_counts [simp]:
  "outs is_begin (enter_state n s) = outs is_begin s" "outs is_end (enter_state n s) = outs is_end s"
proof -
  have "outs P (node_emit out s) = outs P s" if "\<not> P out" for P out s
    using that by (simp add: outs_def node_emit_def)
  moreover have "outs P (ClearScheduleCallback s) = outs P s" for P s
    by (simp add: outs_def ClearScheduleCallback_def)
  ultimately show "outs is_begin (enter_state n s) = outs is_begin s"
    and "outs is_end (enter_state n s) = outs is_end s"
    by (simp_all add: enter_state_def OnScheduleProcessing_def OnScheduleFinished_def Let_def)
qed

lemma enter_state_stop:
  "filter is_stop (sn_trace (enter_state n s)) = filter is_stop (sn_trace s) @
     (if n = S_END \<and> GetScheduleCallback s then [ScheduleStoped (reported_code s) (sn_scheduleResult s)]
      else [])"
  "GetScheduleCallback (enter_state n s) \<longleftrightarrow> n \<noteq> S_END \<and> GetScheduleCallback s"
  by (simp_all add: enter_state_def OnScheduleProcessing_def OnScheduleFinished_def Let_def
      node_emit_def ClearScheduleCallback_def GetScheduleCallback_def)

lemma enter_state_fields [simp]:
  "sn_executorResultCode (enter_state n s) = sn_executorResultCode s"
  "sn_fwkResultCode (enter_state n s) = sn_fwkResultCode s"
  "sn_scheduleResult (enter_state n s) = sn_scheduleResult s"
  by (simp_all add: enter_state_def OnScheduleProcessing_def OnScheduleFinished_def Let_def
      node_emit_def ClearScheduleCallback_def)

lemma inv_origin_enter: "inv_origin ls s \<Longrightarrow> inv_origin ls (enter_state n s)"
  by (auto simp: inv_origin_def enter_state_stop reported_code_def stop_ok_origin split: option.splits)

section \<open>One event keeps the invariant\<close>

lemma sched_table_call: "(st, e, n, a) \<in> set sched_table \<Longrightarrow> call_action a"
  by (auto simp: sched_table_def call_action_def)

lemma sched_table_progress:
  assumes "(st, e, n, a) \<in> set sched_table" and "run_transition env a e s = (s1, es)"
  shows "inv_progress (m\<lparr>pendingEvents := q @ es, currentState := n\<rparr>)"
proof -
  have "unat n \<le> 6" using sched_table_leaves [OF assms(1)] by simp
  moreover have "n = 1 \<longrightarrow> a = Some BeginVerifierAction" "n = 4 \<longrightarrow> a = Some EndCollectorAction"
    "n = 5 \<longrightarrow> a = Some EndVerifierAction"
    using assms(1) by (auto simp: sched_table_def)
  ultimately show ?thesis
    using run_transition_effect [OF assms(2)] by (auto simp: inv_progress_def Let_def)
qed

lemma sched_table_calls:
  assumes "(st, e, n, a) \<in> set sched_table"
    and "inv_calls (m, s)" and "currentState m = st" and "run_transition env a e s = (s1, es)"
  shows "inv_calls (m\<lparr>pendingEvents := q, currentState := n\<rparr>, enter_state n s1)"
proof -
  have "(a = Some BeginVerifierAction \<or> a = Some BeginCollectorAction) \<longrightarrow> unat st < 2 \<and> unat n = Suc (unat st)"
    "(a = Some EndVerifierAction \<or> a = Some EndCollectorAction) \<longrightarrow> min 2 (unat st - 3) < min 2 (unat n - 3)"
    using assms(1) by (auto simp: sched_table_def)
  moreover have "unat st < unat n" using sched_table_leaves [OF assms(1)] by simp
  moreover have "outs is_begin s \<le> min 2 (unat st)" "outs is_end s \<le> min 2 (unat st - 3)"
    using assms(2,3) by (simp_all add: inv_calls_def Let_def)
  moreover have "min 2 (unat st - 3) \<le> min 2 (unat n - 3)" "min 2 (unat st) \<le> min 2 (unat n)"
    using sched_table_leaves [OF assms(1)] by (auto simp: min_def)
  ultimately have "outs is_begin s1 \<le> min 2 (unat n)" and "outs is_end s1 \<le> min 2 (unat n - 3)"
    using run_transition_counts [OF assms(4) sched_table_call [OF assms(1)]]
    by (auto simp del: min.bounded_iff min_less_iff_conj split: if_splits)
  then show ?thesis by (simp add: inv_calls_def Let_def)
qed

lemma sched_inv_event:
  assumes "sched_inv ls (m, s)" and "pendingEvents m = e # es"
  shows "sched_inv ls (ProcessEvent (run_action env) e (m\<lparr>pendingEvents := es\<rparr>, s))"
proof -
  let ?m = "m\<lparr>pendingEvents := es\<rparr>"
  have mach: "sched_machine ?m" and inv: "inv_progress m" "inv_once (m, s)" "inv_calls (m, s)" "inv_origin ls s"
    using assms(1) by (simp_all add: sched_inv_def sched_machine_def)
  show ?thesis
  proof (cases "sched_next (currentState m) e")
    case None
    have "inv_progress ?m"
      using inv(1) None assms(2)
      by (auto simp: inv_progress_def Let_def sched_next_def sched_table_def)
    then show ?thesis
      using inv mach by (simp add: ProcessEvent_sched [OF mach] None sched_inv_def inv_once_def inv_calls_def)
  next
    case (Some x)
    obtain n a where x: "x = (n, a)" by fastforce
    have t: "(currentState m, e, n, a) \<in> set sched_table" using Some by (simp add: x sched_next_table)
    obtain s1 ev where r: "run_transition env a e s = (s1, ev)" by fastforce
    have fr: "handler_frame s s1" by (rule run_transition_frame [OF r sched_table_call [OF t]])
    let ?m1 = "?m\<lparr>pendingEvents := es @ ev, currentState := n\<rparr>"
    have p: "ProcessEvent (run_action env) e (?m, s) = (?m1, enter_state n s1)"
      using Some by (simp add: ProcessEvent_sched [OF mach] x r)
    have "currentState m \<noteq> S_END" using t by (auto simp: sched_table_def)
    moreover have "filter is_stop (sn_trace s1) = filter is_stop (sn_trace s)"
      and "GetScheduleCallback s1 = GetScheduleCallback s"
      using fr by (simp_all add: handler_frame_def GetScheduleCallback_def)
    ultimately have "inv_once (?m1, enter_state n s1)"
      using inv(2) by (auto simp: inv_once_def Let_def enter_state_stop)
    moreover have "inv_progress ?m1"
      using sched_table_progress [OF t r, where m = m and q = es] by (simp add: inv_progress_def)
    moreover have "inv_calls (?m1, enter_state n s1)"
      using sched_table_calls [OF t inv(3) refl r] by (simp add: inv_calls_def)
    moreover have "inv_origin ls (enter_state n s1)"
      by (rule inv_origin_enter [OF inv_origin_frame [OF fr inv(4)]])
    ultimately show ?thesis using mach by (simp add: p sched_inv_def sched_machine_def)
  qed
qed

section \<open>The interfaces of the machine, interpreted\<close>

text \<open>Every transition raises the state, and queues at most one event.\<close>

definition sched_left :: "u32 \<Rightarrow> nat" where
  "sched_left st = 6 - unat st"

lemma run_transition_one:
  "run_transition env act e s = (s1, es) \<Longrightarrow> length es \<le> 1"
  using run_transition_effect [of env act e s s1 es]
  by (auto split: option.splits sched_action.splits)

lemma sched_event_pays:
  assumes "sched_inv ls (m, s)" and "pendingEvents m = e # es"
    and "ProcessEvent (run_action env) e (m\<lparr>pendingEvents := es\<rparr>, s) = (m', s')"
  shows "length (pendingEvents m') + sched_left (currentState m') \<le> length es + sched_left (currentState m)"
proof -
  have mach: "sched_machine (m\<lparr>pendingEvents := es\<rparr>)"
    using assms(1) by (simp add: sched_inv_def sched_machine_def)
  show ?thesis
  proof (cases "sched_next (currentState m) e")
    case None
    then have "m' = m\<lparr>pendingEvents := es\<rparr>" using assms(3) by (simp add: ProcessEvent_sched [OF mach])
    then show ?thesis by simp
  next
    case (Some x)
    obtain n a where x: "x = (n, a)" by fastforce
    obtain s1 ev where r: "run_transition env a e s = (s1, ev)" by fastforce
    have "m' = m\<lparr>pendingEvents := es @ ev, currentState := n\<rparr>"
      using assms(3) Some by (simp add: ProcessEvent_sched [OF mach] x r)
    moreover have "unat (currentState m) < unat n \<and> unat n \<le> 6"
      using sched_table_leaves [OF sched_next_table] Some x by blast
    ultimately show ?thesis using run_transition_one [OF r] by (simp add: sched_left_def) arith
  qed
qed

interpretation sched_fsm: fsm_drain "run_action env" "sched_inv ls" sched_left
  for env :: sched_env and ls :: "sched_label list"
  by unfold_locales (simp_all add: sched_inv_event sched_event_pays)

section \<open>Every run keeps the invariant\<close>

lemma sched_inv_append: "sched_inv ls ms \<Longrightarrow> sched_inv (ls @ l) ms"
  by (simp add: sched_inv_def inv_origin_append)

lemma sched_inv_Init: "Init description live info = Some ms \<Longrightarrow> sched_inv [] ms"
  by (auto simp: Init_def MakeFiniteStateMachine_builds Let_def sched_inv_def sched_machine_def
      inv_progress_def inv_once_def inv_calls_def inv_origin_def outs_def origin_ok_def stop_ok_def result_ok_def
      FSM_SetThreadHandler_def split: if_splits)

lemma FSM_Schedule_simps [simp]:
  "sched_machine (FSM_Schedule e m) = sched_machine m"
  "currentState (FSM_Schedule e m) = currentState m"
  by (simp_all add: FSM_Schedule_def PushEvent_def sched_machine_def)

lemma inv_progress_Schedule: "inv_progress m \<Longrightarrow> inv_progress (FSM_Schedule e m)"
  by (auto simp: inv_progress_def Let_def FSM_Schedule_def PushEvent_def)

text \<open>A node changed in none of the watched fields, or with codes that have an origin.\<close>

lemma sched_inv_kick:
  assumes "sched_inv ls (m, s)"
    and "filter is_stop (sn_trace s') = filter is_stop (sn_trace s)"
    and "outs is_begin s' = outs is_begin s" and "outs is_end s' = outs is_end s"
    and "GetScheduleCallback s' \<longrightarrow> GetScheduleCallback s"
    and "inv_origin ls s'"
  shows "sched_inv ls (m, s')" and "sched_inv ls (FSM_Schedule e m, s')"
  using assms
  by (auto simp: sched_inv_def inv_once_def inv_calls_def Let_def inv_progress_Schedule)

lemma origin_LContinue [simp]: "origin_ok (ls @ [LContinue c r]) c r"
  by (auto simp: origin_ok_def)

lemma origin_LStop [simp]: "stop_ok (ls @ [LStop c]) c"
  by (auto simp: stop_ok_def)

lemma result_LContinue [simp]: "result_ok (ls @ [LContinue c r]) r"
  by (auto simp: result_ok_def)

lemma inv_origin_SetFwk: "inv_origin ls s \<Longrightarrow> stop_ok ls c \<Longrightarrow> inv_origin ls (SetFwkResultCode c s)"
  by (simp add: inv_origin_def code_setter_defs)

lemma sched_inv_stop:
  assumes "sched_inv ls ms" and "stop_ok ls c"
  shows "sched_inv ls (snd (StopSchedule c ms))"
proof -
  have "inv_origin ls (SetFwkResultCode c (snd ms))"
    using assms by (simp add: sched_inv_def inv_origin_SetFwk)
  then show ?thesis
    using assms(1) unfolding StopSchedule_def TryKickMachine_def
    by (cases ms) (auto intro!: sched_inv_kick(2) simp: code_setter_defs outs_def GetScheduleCallback_def)
qed

lemma sched_inv_send:
  assumes "sched_inv ls (m, s)"
  shows "sched_inv ls (m, snd (SendMessage env role msg s))"
proof -
  have org: "inv_origin ls s" using assms by (simp add: sched_inv_def)
  have emit: "sched_inv ls (m, node_emit out s)" if "\<not> is_stop out" "\<not> is_begin out" "\<not> is_end out" for out
    by (rule sched_inv_kick(1) [OF assms])
      (use org that in \<open>simp_all add: node_emit_def outs_def GetScheduleCallback_def inv_origin_def\<close>)
  have call: "sched_inv ls (m, snd (call_node env r n (\<lambda>ipc n. SendData ipc n i a) s))" for r n i a
  proof -
    obtain ret s1 where c: "call_node env r n (\<lambda>ipc n. SendData ipc n i a) s = (ret, s1)" by fastforce
    have fr: "handler_frame s s1" by (rule call_node_frame [OF c])
    have "sched_inv ls (m, s1)"
      by (rule sched_inv_kick(1) [OF assms])
        (use call_node_begins(4) [OF c] fr inv_origin_frame [OF fr org] in
          \<open>simp_all add: handler_frame_def GetScheduleCallback_def\<close>)
    then show ?thesis by (simp add: c)
  qed
  show ?thesis
    unfolding SendMessage_def Let_def
    using assms by (auto simp: emit call split: option.splits prod.splits)
qed

lemma sched_inv_step:
  assumes "sched_inv ls ms" and "sched_step env l ms ms'"
  shows "sched_inv (ls @ [l]) ms'"
  using assms(2)
proof (cases rule: sched_step.cases)
  case step_start
  obtain m s where ms: "ms = (m, s)" by fastforce
  let ?s = "StartTimer env (node_emit ListenerRegister s)"
  have "sched_inv ls (FSM_Schedule E_START_AUTH m, ?s)"
    by (rule sched_inv_kick(2) [of ls m s])
      (use assms(1) in \<open>auto simp: ms StartTimer_def node_emit_def outs_def GetScheduleCallback_def
        inv_origin_def sched_inv_def\<close>)
  then show ?thesis
    by (simp add: step_start StartSchedule_def TryKickMachine_def ms sched_inv_append)
next
  case (step_stop c)
  then show ?thesis
    using sched_inv_stop [OF sched_inv_append [OF assms(1)]] by simp
next
  case (step_continue c r)
  obtain m s where ms: "ms = (m, s)" by fastforce
  have "inv_origin (ls @ [LContinue c r]) s"
    using assms(1) by (simp add: ms sched_inv_def inv_origin_append)
  then have "inv_origin (ls @ [LContinue c r]) (SetScheduleResult r (SetExecutorResultCode c s))"
    by (simp add: inv_origin_def code_setter_defs)
  then show ?thesis
    using sched_inv_append [OF assms(1)] unfolding step_continue ContinueSchedule_def TryKickMachine_def ms
    by (auto intro!: sched_inv_kick(2) simp: code_setter_defs outs_def GetScheduleCallback_def)
next
  case step_timeout
  obtain m s where ms: "ms = (m, s)" by fastforce
  show ?thesis
    using sched_inv_append [OF sched_inv_stop [OF assms(1), of TIMEOUT], of "[l]"]
    by (simp add: step_timeout OnTimeOut_def StopSchedule_def TryKickMachine_def ms sched_inv_def
        inv_once_def inv_calls_def inv_progress_Schedule)
      (auto simp: inv_progress_def Let_def FSM_Schedule_def PushEvent_def split: if_splits)
next
  case (step_pool_delete r)
  then show ?thesis
    using sched_inv_append [OF sched_inv_stop [OF assms(1), of GENERAL_ERROR]] sched_inv_append [OF assms(1)]
    by (simp add: OnResourceNodePoolDelete_def Let_def split: option.splits)
next
  case (step_send role msg m s)
  then show ?thesis using sched_inv_send assms(1) by (simp add: sched_inv_append)
next
  case (step_clear m s)
  have "sched_inv ls (m, ClearScheduleCallback s)"
    by (rule sched_inv_kick(1) [of ls m s])
      (use assms(1) step_clear in \<open>auto simp: ClearScheduleCallback_def outs_def GetScheduleCallback_def
        inv_origin_def sched_inv_def\<close>)
  then show ?thesis using step_clear by (simp add: sched_inv_append)
next
  case (step_live h m s)
  have "sched_inv ls (m, s\<lparr>sn_live := h\<rparr>)"
    by (rule sched_inv_kick(1) [of ls m s])
      (use assms(1) step_live in \<open>auto simp: outs_def GetScheduleCallback_def inv_origin_def sched_inv_def\<close>)
  then show ?thesis using step_live by (simp add: sched_inv_append)
next
  case (step_task k m s)
  then show ?thesis
    using sched_inv_append [OF assms(1)]
    by (simp add: sched_inv_def sched_machine_def inv_progress_def inv_once_def inv_calls_def Let_def)
next
  case (step_event m e es s)
  then show ?thesis using sched_inv_event assms(1) by (simp add: sched_inv_append)
qed

lemma sched_reach_inv: "sched_reach env ls ms \<Longrightarrow> sched_inv ls ms"
  by (induction rule: sched_reach.induct) (auto intro: sched_inv_Init sched_inv_step)

end
