(* ===== verification/Schedule_Properties.thy ===== *)
theory Schedule_Properties
  imports Schedule_Runs
begin

text \<open>
  What a schedule guarantees in every run: its end is reported once and with a code that has an
  origin, its executors are called a bounded number of times, its event loop settles, a stop leads to
  the end, and a collector that failed to start leaves it waiting.
\<close>

section \<open>Properties\<close>

text \<open>
  Property C34: however its operations, the executors, the timer and the pool interleave, a schedule
  reports its end at most once, only in \<^verbatim>\<open>S_END\<close>, and holds no callback from then on; a schedule in
  \<^verbatim>\<open>S_END\<close> never holds one.
\<close>

theorem schedule_reports_once:
  assumes "sched_reach env ls (m, s)"
  shows "length (filter is_stop (sn_trace s)) \<le> 1 \<and>
    (currentState m = S_END \<or> length (filter is_stop (sn_trace s)) = 0) \<and>
    \<not> (GetScheduleCallback s \<and> (currentState m = S_END \<or> length (filter is_stop (sn_trace s)) > 0))"
  using sched_reach_inv [OF assms] by (auto simp: sched_inv_def inv_once_def Let_def)

text \<open>
  Property C6: success is never made up: a schedule reports \<^verbatim>\<open>SUCCESS\<close> with a result only after
  \<^verbatim>\<open>ContinueSchedule\<close> handed in that very result together with \<^verbatim>\<open>SUCCESS\<close>, or the schedule was stopped with
  the code \<^verbatim>\<open>SUCCESS\<close>; and any result it reports is one that \<^verbatim>\<open>ContinueSchedule\<close> was given.
\<close>

theorem schedule_success_origin:
  assumes "sched_reach env ls (m, s)" and "ScheduleStoped c r \<in> set (sn_trace s)"
  shows "(c \<noteq> SUCCESS \<or> LContinue SUCCESS r \<in> set ls \<or> LStop SUCCESS \<in> set ls) \<and>
    (r = None \<or> (\<exists>c'. LContinue c' r \<in> set ls))"
proof -
  have "inv_origin ls s" using sched_reach_inv [OF assms(1)] by (simp add: sched_inv_def)
  then have "origin_ok ls c r" "result_ok ls r" using assms(2) by (auto simp: inv_origin_def)
  then show ?thesis by (auto simp: origin_ok_def result_ok_def)
qed

text \<open>
  Also shown: in any run the executors of a schedule are asked to begin at most twice and to end at
  most twice, nobody is asked to end before the schedule was stopping, and nobody is asked to begin
  before it started.
\<close>

theorem schedule_executor_calls:
  assumes "sched_reach env ls (m, s)"
  shows "outs is_begin s \<le> min 2 (unat (currentState m)) \<and> outs is_end s \<le> min 2 (unat (currentState m) - 3)"
  using sched_reach_inv [OF assms] by (simp add: sched_inv_def inv_calls_def Let_def)

lemma state_range: "unat (st :: u32) \<le> 6 \<Longrightarrow> st \<in> {0, 1, 2, 3, 4, 5, 6}"
  by (simp add: word_unat_eq_iff) arith

lemma quiescent:
  assumes "sched_inv ls (m, s)" and "pendingEvents m = []"
  shows "currentState m \<in> {0, 2, 3, 6}"
proof -
  have "currentState m \<notin> {1, 4, 5}" "unat (currentState m) \<le> 6"
    using assms by (auto simp: sched_inv_def inv_progress_def Let_def)
  then show ?thesis using state_range [of "currentState m"] by blast
qed

text \<open>
  Property C39: when at most 94 events are queued for a schedule that can be reached, a run of its event loop leaves no event
  behind, and the schedule then waits in one of four states: not started, waiting for its collector, authenticating,
  or ended. It never rests in the middle of starting a verifier or of stopping.
\<close>

theorem schedule_loop_settles:
  assumes "sched_reach env ls ms" and "length (pendingEvents (fst ms)) \<le> 94"
  shows "pendingEvents (fst (ScheduleInner (run_action env) ms)) = [] \<and>
    currentState (fst (ScheduleInner (run_action env) ms)) \<in>
      {S_INIT, S_COLLECT_STARING, S_AUTH_PROCESSING, S_END}"
proof -
  have inv: "sched_inv ls ms" by (rule sched_reach_inv [OF assms(1)])
  have "sched_left (currentState (fst ms)) \<le> 6" by (simp add: sched_left_def)
  then have "pendingEvents (fst (ScheduleInner (run_action env) ms)) = []"
    using assms(2) by (intro sched_fsm.ScheduleInner_drains [OF inv]) (simp add: MAX_SCHEDULE_TIMES_def)
  moreover have "sched_inv ls (ScheduleInner (run_action env) ms)"
    by (rule sched_fsm.ScheduleInner_keeps [OF inv])
  ultimately show ?thesis by (metis prod.collapse quiescent)
qed

section \<open>Stopping\<close>

text \<open>
  What holds while a stopped schedule runs to its end: the machine is past \<open>k\<close>, the framework's code is
  the stop code or \<^verbatim>\<open>GENERAL_ERROR\<close>, and the report was made exactly when the end was reached.
\<close>

definition stopping :: "nat \<Rightarrow> i32 \<Rightarrow> attributes option \<Rightarrow> bool \<Rightarrow> sched_state \<Rightarrow> bool" where
  "stopping k c r cb ms \<longleftrightarrow>
     sched_machine (fst ms) \<and> k \<le> unat (currentState (fst ms)) \<and>
     sn_fwkResultCode (snd ms) \<in> {Some c, Some GENERAL_ERROR} \<and> sn_scheduleResult (snd ms) = r \<and>
     (GetScheduleCallback (snd ms) \<longleftrightarrow> cb \<and> currentState (fst ms) \<noteq> S_END) \<and>
     (\<exists>code \<in> {c, GENERAL_ERROR}. filter is_stop (sn_trace (snd ms)) =
        (if cb \<and> currentState (fst ms) = S_END then [ScheduleStoped code r] else []))"

lemma stopping_event:
  assumes "stopping k c r cb (m, s)" and "pendingEvents m = e # es"
  shows "stopping k c r cb (ProcessEvent (run_action env) e (m\<lparr>pendingEvents := es\<rparr>, s))"
proof -
  let ?m = "m\<lparr>pendingEvents := es\<rparr>"
  have mach: "sched_machine ?m" using assms(1) by (simp add: stopping_def sched_machine_def)
  show ?thesis
  proof (cases "sched_next (currentState m) e")
    case None
    then show ?thesis using assms(1) mach by (simp add: ProcessEvent_sched [OF mach] stopping_def)
  next
    case (Some x)
    obtain n a where x: "x = (n, a)" by fastforce
    have t: "(currentState m, e, n, a) \<in> set sched_table" using Some by (simp add: x sched_next_table)
    obtain s1 ev where r: "run_transition env a e s = (s1, ev)" by fastforce
    have fr: "handler_frame s s1" by (rule run_transition_frame [OF r sched_table_call [OF t]])
    then have cb: "GetScheduleCallback s1 = GetScheduleCallback s"
      and st: "filter is_stop (sn_trace s1) = filter is_stop (sn_trace s)"
      by (simp_all add: handler_frame_def GetScheduleCallback_def)
    have "currentState m \<noteq> S_END" using t by (auto simp: sched_table_def)
    moreover have "k \<le> unat n" using assms(1) sched_table_leaves [OF t] by (simp add: stopping_def)
    moreover have "sn_fwkResultCode s1 \<in> {Some c, Some GENERAL_ERROR}" "sn_scheduleResult s1 = r"
      using fr assms(1) by (auto simp: stopping_def handler_frame_def)
    ultimately show ?thesis using assms(1) mach Some
      by (auto simp: ProcessEvent_sched [OF mach] x r stopping_def enter_state_stop cb st
          sched_machine_def reported_code_def)
  qed
qed

interpretation stop_fsm: fsm_invariant "run_action env" "stopping k c r cb"
  for env :: sched_env and k :: nat and c :: i32 and r :: "attributes option" and cb :: bool
  by unfold_locales (rule stopping_event)

lemma ScheduleInner_step:
  "pendingEvents m = e # es \<Longrightarrow> ScheduleInner run (m, s) =
     schedule_loop run 99 (ProcessEvent run e (m\<lparr>pendingEvents := es\<rparr>, s))"
  by (simp add: ScheduleInner_def MAX_SCHEDULE_TIMES_def numeral_eq_Suc)

text \<open>
  Property C17: stopping a schedule that waits for its collector or authenticates ends it, whatever
  its executors answer: the posted run of the event loop empties the queue, reaches \<^verbatim>\<open>S_END\<close> and
  reports exactly once, with the stop code, or with \<^verbatim>\<open>GENERAL_ERROR\<close> when an executor is gone.
\<close>

theorem schedule_stop_ends:
  assumes "sched_reach env ls (m, s)" and "pendingEvents m = []"
    and "currentState m \<in> {S_COLLECT_STARING, S_AUTH_PROCESSING}"
    and "threadHandlerSet m" and "GetScheduleCallback s"
    and "RunPostedTask (run_action env) True (snd (StopSchedule c (m, s))) = (m', s')"
  shows "pendingEvents m' = [] \<and> currentState m' = S_END \<and>
    (\<exists>code \<in> {c, GENERAL_ERROR}.
       filter is_stop (sn_trace s') = [ScheduleStoped code (sn_scheduleResult s)])"
proof -
  let ?run = "run_action env"
  let ?m = "m\<lparr>pendingEvents := [E_STOP_AUTH]\<rparr>" and ?s = "SetFwkResultCode c s"
  have inv: "sched_inv ls (m, s)" by (rule sched_reach_inv [OF assms(1)])
  have mach: "sched_machine m" using inv by (simp add: sched_inv_def)
  have "inv_once (m, s)" using inv by (simp add: sched_inv_def)
  then have none: "filter is_stop (sn_trace s) = []" using assms(3,5) by (auto simp: inv_once_def Let_def)
  have run: "(m', s') = ScheduleInner ?run (?m, ?s)"
    using assms(2,4,6)
    by (simp add: StopSchedule_def TryKickMachine_def FSM_Schedule_def PushEvent_def RunPostedTask_def Let_def)
  have p0: "stopping 0 c (sn_scheduleResult s) True (?m, ?s)"
    using mach none assms(3,5)
    by (auto simp: stopping_def sched_machine_def code_setter_defs GetScheduleCallback_def)
  let ?p = "ProcessEvent ?run E_STOP_AUTH (?m\<lparr>pendingEvents := []\<rparr>, ?s)"
  have "sched_next (currentState m) E_STOP_AUTH = Some (S_COLLECT_STOPPING, Some EndCollectorAction)"
    using assms(3) by (auto simp: sched_next_def sched_table_def)
  then have "currentState (fst ?p) = S_COLLECT_STOPPING"
    using mach by (auto simp: ProcessEvent_sched sched_machine_def split: prod.splits)
  moreover have "stopping 0 c (sn_scheduleResult s) True ?p"
    using stop_fsm.step [OF p0, of E_STOP_AUTH "[]" env] by simp
  ultimately have p4: "stopping 4 c (sn_scheduleResult s) True ?p" by (simp add: stopping_def)
  have fin: "stopping 4 c (sn_scheduleResult s) True (m', s')"
    unfolding run ScheduleInner_step [of ?m E_STOP_AUTH "[]", simplified]
    using stop_fsm.loop_keeps [OF p4, of env 99] by simp
  have rs: "sched_reach env (ls @ [LStop c]) (FSM_Schedule E_STOP_AUTH m, ?s)"
    using reach_step [OF assms(1) step_stop [of env c]] by (simp add: StopSchedule_def TryKickMachine_def)
  have rt: "sched_reach env ((ls @ [LStop c]) @ [LTask (postedTasks m)]) (?m, ?s)"
    using reach_step [OF rs step_task [of env "postedTasks m"]] assms(2,4)
    by (simp add: FSM_Schedule_def PushEvent_def)
  have invt: "sched_inv ((ls @ [LStop c]) @ [LTask (postedTasks m)]) (?m, ?s)"
    by (rule sched_reach_inv [OF rt])
  have e: "pendingEvents (fst (ScheduleInner ?run (?m, ?s))) = []"
    by (rule sched_fsm.ScheduleInner_drains [OF invt]) (simp add: sched_left_def MAX_SCHEDULE_TIMES_def)
  have "sched_inv ((ls @ [LStop c]) @ [LTask (postedTasks m)]) (m', s')"
    unfolding run by (rule sched_fsm.ScheduleInner_keeps [OF invt])
  then have "pendingEvents m' = []" "currentState m' \<in> {0, 2, 3, 6}"
    using e quiescent by (simp_all add: run [symmetric] del: insert_iff)
  then show ?thesis using fin by (auto simp: stopping_def)
qed

section \<open>A collector that failed to start\<close>

lemma loop_reach:
  "sched_reach env ls ms \<Longrightarrow> \<exists>ls'. sched_reach env (ls @ ls') (schedule_loop (run_action env) n ms)"
proof (induction n arbitrary: ls ms)
  case 0
  then show ?case by (metis append_Nil2 schedule_loop.simps(1))
next
  case (Suc n)
  obtain m s where ms: "ms = (m, s)" by fastforce
  show ?case
  proof (cases "pendingEvents m")
    case Nil
    then show ?thesis using Suc.prems by (metis append_Nil2 fst_conv ms schedule_loop_empty)
  next
    case (Cons e es)
    have "sched_reach env (ls @ [LEvent]) (ProcessEvent (run_action env) e (m\<lparr>pendingEvents := es\<rparr>, s))"
      using reach_step [OF Suc.prems [unfolded ms] step_event [OF Cons]] .
    from Suc.IH [OF this] show ?thesis using Cons by (auto simp: ms)
  qed
qed

text \<open>The timer fires and the handler runs the task it posted.\<close>

definition timeout_round :: "sched_env \<Rightarrow> sched_state \<Rightarrow> sched_state" where
  "timeout_round env ms = RunPostedTask (run_action env) True (OnTimeOut ms)"

definition stuck :: "sched_state \<Rightarrow> bool" where
  "stuck ms \<longleftrightarrow> sched_machine (fst ms) \<and> currentState (fst ms) = S_COLLECT_STARING \<and>
     pendingEvents (fst ms) = [] \<and> filter is_stop (sn_trace (snd ms)) = []"

lemma loop_step:
  "pendingEvents m = e # es \<Longrightarrow> 0 < n \<Longrightarrow> schedule_loop run n (m, s) =
     schedule_loop run (n - 1) (ProcessEvent run e (m\<lparr>pendingEvents := es\<rparr>, s))"
  by (cases n) simp_all

lemma stuck_drops:
  assumes "sched_machine m" and "currentState m = S_COLLECT_STARING" and "pendingEvents m = [e]"
    and "e \<in> {E_COLLECT_STARTED_FAILED, E_TIME_OUT}" and "0 < n"
  shows "schedule_loop (run_action env) n (m, s) = (m\<lparr>pendingEvents := []\<rparr>, s)"
proof -
  have "sched_machine (m\<lparr>pendingEvents := []\<rparr>)" using assms(1) by (simp add: sched_machine_def)
  moreover have "sched_next S_COLLECT_STARING e = None"
    using assms(4) by (auto simp: sched_next_def sched_table_def)
  ultimately show ?thesis
    using assms(2,3,5) by (simp add: loop_step ProcessEvent_sched)
qed

lemma timeout_stuck: "stuck ms \<Longrightarrow> stuck (timeout_round env ms)"
proof -
  assume a: "stuck ms"
  obtain m s where ms: "ms = (m, s)" by fastforce
  have "sched_machine (m\<lparr>pendingEvents := [E_TIME_OUT]\<rparr>)"
    using a by (simp add: ms stuck_def sched_machine_def)
  then show ?thesis
    using a stuck_drops [of "m\<lparr>pendingEvents := [E_TIME_OUT]\<rparr>" E_TIME_OUT MAX_SCHEDULE_TIMES env]
    by (simp add: ms stuck_def timeout_round_def OnTimeOut_def TryKickMachine_def FSM_Schedule_def
        PushEvent_def RunPostedTask_def Let_def ScheduleInner_def MAX_SCHEDULE_TIMES_def sched_machine_def
        code_setter_defs)
qed

text \<open>
  Also shown: a collector that refused to begin leaves the schedule stuck: the event the failure
  queues is dropped in \<^verbatim>\<open>S_COLLECT_STARING\<close>, and so is every timeout, so that after any number of them
  the schedule still waits there and has told nobody.
\<close>

theorem failed_collector_start_stuck:
  assumes "sched_reach env ls (m, s)" and "currentState m = S_VERIFY_STARING"
    and "pendingEvents m = [E_VERIFY_STARTED_SUCCESS]"
    and "lock_node s (si_collector (sn_info s)) = Some (cref, collector)" and "rn_callback collector"
    and "lock_node s (si_verifier (sn_info s)) = Some (vref, verifier)" and "cref \<noteq> vref"
    and "\<And>c. env_ipc env (sn_trace s) cref c \<noteq> SUCCESS"
  shows "currentState (fst ((timeout_round env ^^ k) (ScheduleInner (run_action env) (m, s)))) =
      S_COLLECT_STARING \<and>
    filter is_stop (sn_trace (snd ((timeout_round env ^^ k) (ScheduleInner (run_action env) (m, s))))) = []"
proof -
  let ?run = "run_action env"
  have inv: "sched_inv ls (m, s)" by (rule sched_reach_inv [OF assms(1)])
  have mach: "sched_machine (m\<lparr>pendingEvents := q\<rparr>)" for q
    using inv by (simp add: sched_inv_def sched_machine_def)
  have none: "filter is_stop (sn_trace s) = []"
    using inv assms(2) by (simp add: sched_inv_def inv_once_def Let_def)
  have n1: "sched_next 1 1 = Some (2, Some BeginCollectorAction)"
    by (simp add: sched_next_def sched_table_def)
  obtain s1 where r: "run_transition env (Some BeginCollectorAction) E_VERIFY_STARTED_SUCCESS s =
      (s1, [E_COLLECT_STARTED_FAILED])"
    using assms(4-8)
    by (auto simp: run_transition_def run_action_def ProcessBeginCollector_def call_defs Let_def)
  have st1: "filter is_stop (sn_trace s1) = []"
    using run_transition_frame [OF r] none by (simp add: call_action_def handler_frame_def)
  let ?m1 = "m\<lparr>pendingEvents := [E_COLLECT_STARTED_FAILED], currentState := S_COLLECT_STARING\<rparr>"
  have p1: "ProcessEvent ?run E_VERIFY_STARTED_SUCCESS (m\<lparr>pendingEvents := []\<rparr>, s) = (?m1, s1)"
    using assms(2) by (simp add: ProcessEvent_sched [OF mach] n1 r enter_state_def)
  have "sched_machine ?m1" using mach by (simp add: sched_machine_def)
  then have "stuck (ScheduleInner ?run (m, s))"
    using assms(3) st1 stuck_drops [of ?m1 E_COLLECT_STARTED_FAILED 99 env s1]
    by (simp add: ScheduleInner_step p1 stuck_def sched_machine_def)
  then have "stuck ((timeout_round env ^^ k) (ScheduleInner ?run (m, s)))"
    by (induction k) (simp_all add: timeout_stuck)
  then show ?thesis by (simp add: stuck_def)
qed

section \<open>What the executors are told\<close>

definition command_head :: "schedule_info \<Rightarrow> attributes \<Rightarrow> attributes" where
  "command_head info a =
     (let a = snd (SetInt32Value ATTR_SCHEDULE_MODE (si_scheduleMode info) a);
          a = (case si_tokenId info of None \<Rightarrow> a
               | Some t \<Rightarrow> snd (SetUint32Value ATTR_ACCESS_TOKEN_ID t a));
          a = (if si_pinSubType info \<noteq> 0
               then snd (SetInt32Value ATTR_PIN_SUB_TYPE (si_pinSubType info) a) else a);
          a = snd (SetUint32Value ATTR_COLLECTOR_TOKEN_ID (si_collectorTokenId info) a)
      in snd (SetBoolValue ATTR_END_AFTER_FIRST_FAIL (si_endAfterFirstFail info) a))"

definition command_tail :: "schedule_info \<Rightarrow> attributes \<Rightarrow> attributes" where
  "command_tail info a =
     (let a = (case si_templateIdList info of
                 [] \<Rightarrow> a
               | t # ts \<Rightarrow>
                   let a1 = snd (SetUint64ArrayValue ATTR_TEMPLATE_ID_LIST (t # ts) a)
                   in if ts = [] then snd (SetUint64Value ATTR_TEMPLATE_ID t a1) else a1);
          a = (if si_additionalInfo info \<noteq> []
               then snd (SetStringValue ATTR_ADDITIONAL_INFO (si_additionalInfo info) a) else a);
          a = (if si_title info \<noteq> []
               then snd (SetStringValue ATTR_WIDGET_TITLE (si_title info) a) else a)
      in snd (SetInt32Value ATTR_AUTH_SCENE (si_authScene info) a))"

lemma GetScheduleAttribute_split:
  "GetScheduleAttribute info isVerifier a =
     command_tail info
       (if isVerifier
        then snd (SetUint8ArrayValue ATTR_EXTRA_INFO (si_verifierMessage info)
               (snd (SetInt32Value ATTR_USER_ID (si_userId info)
                  (snd (SetInt32Value ATTR_AUTH_INTENTION (si_authIntent info) (command_head info a))))))
        else snd (SetUint8ArrayValue ATTR_EXTRA_INFO (si_collectorMessage info) (command_head info a)))"
  unfolding GetScheduleAttribute_def command_head_def command_tail_def Let_def by (rule refl)

lemma command_head_keeps:
  "attr_at k v a \<Longrightarrow> k \<in> {ATTR_USER_ID, ATTR_AUTH_INTENTION, ATTR_EXTRA_INFO} \<Longrightarrow>
     attr_at k v (command_head info a)"
  unfolding command_head_def Let_def
  by (auto simp: attr_set_other split: option.split)

lemma command_tail_keeps:
  "attr_at k v a \<Longrightarrow> k \<in> {ATTR_USER_ID, ATTR_AUTH_INTENTION, ATTR_EXTRA_INFO} \<Longrightarrow>
     attr_at k v (command_tail info a)"
  unfolding command_tail_def Let_def
  by (auto simp: attr_set_other split: list.split)

lemma command_head_len5: "attr_len 5 (command_head info Attributes_new)"
    unfolding command_head_def Let_def
    by (cases "si_tokenId info"; cases "si_pinSubType info = 0")
      (auto simp: eval_nat_numeral intro!: attr_set_len intro: attr_len_mono [OF attr_new(2)])

lemma command_head_len: "attr_len MAX_ATTR_COUNT (command_head info Attributes_new)"
  by (rule attr_len_mono [OF command_head_len5]) (simp add: MAX_ATTR_COUNT_def)

text \<open>
  Also shown: the command for the verifier carries the user id, the authentication intention and the
  verifier's message; the command for a collector carries the collector's message and never the user
  id nor the intention.
\<close>

theorem collector_command_hides_user:
  assumes "length (si_verifierMessage info) \<le> MAX_ATTR_LENGTH"
    and "length (si_collectorMessage info) \<le> MAX_ATTR_LENGTH"
  shows "GetInt32Value ATTR_USER_ID (GetScheduleAttribute info True Attributes_new) = Some (si_userId info) \<and>
    GetInt32Value ATTR_AUTH_INTENTION (GetScheduleAttribute info True Attributes_new) =
      Some (si_authIntent info) \<and>
    GetUint8ArrayValue ATTR_EXTRA_INFO (GetScheduleAttribute info True Attributes_new) =
      Some (si_verifierMessage info) \<and>
    GetInt32Value ATTR_USER_ID (GetScheduleAttribute info False Attributes_new) = None \<and>
    GetInt32Value ATTR_AUTH_INTENTION (GetScheduleAttribute info False Attributes_new) = None \<and>
    GetUint8ArrayValue ATTR_EXTRA_INFO (GetScheduleAttribute info False Attributes_new) =
      Some (si_collectorMessage info)"
proof -
  let ?h = "command_head info Attributes_new"
  let ?v1 = "snd (SetInt32Value ATTR_AUTH_INTENTION (si_authIntent info) ?h)"
  let ?v2 = "snd (SetInt32Value ATTR_USER_ID (si_userId info) ?v1)"
  let ?v = "snd (SetUint8ArrayValue ATTR_EXTRA_INFO (si_verifierMessage info) ?v2)"
  let ?c = "snd (SetUint8ArrayValue ATTR_EXTRA_INFO (si_collectorMessage info) ?h)"
  have h5: "attr_len 5 ?h" "attr_len MAX_ATTR_COUNT ?h"
    using command_head_len5 by (simp_all add: command_head_len)
  then have l: "attr_len MAX_ATTR_COUNT ?v1" "attr_len MAX_ATTR_COUNT ?v2"
    by (auto intro: attr_len_mono [OF attr_set_len(4)] attr_len_mono [OF attr_set_len(4) [OF attr_set_len(4)]]
        simp: MAX_ATTR_COUNT_def)
  have "attr_at ATTR_USER_ID (EncodeInt32Value (si_userId info)) ?v"
    by (rule attr_set_other(8)) (simp_all add: attr_set_Int32 l)
  moreover have "attr_at ATTR_AUTH_INTENTION (EncodeInt32Value (si_authIntent info)) ?v"
    by (rule attr_set_other(8), rule attr_set_other(4)) (simp_all add: attr_set_Int32 h5)
  moreover have "attr_at ATTR_EXTRA_INFO (Some (si_verifierMessage info)) ?v"
    using assms(1) l by (simp add: attr_set_Uint8Array)
  moreover have "attr_at ATTR_USER_ID None ?c" "attr_at ATTR_AUTH_INTENTION None ?c"
    by (rule attr_set_other(8); simp add: command_head_keeps)+
  moreover have "attr_at ATTR_EXTRA_INFO (Some (si_collectorMessage info)) ?c"
    using assms(2) h5 by (simp add: attr_set_Uint8Array)
  ultimately show ?thesis
    by (simp add: GetScheduleAttribute_split command_tail_keeps attr_get_Uint8Array
        attr_get_Int32 [OF command_tail_keeps] attr_Int32_roundtrip)
qed

section \<open>Witnesses\<close>

text \<open>
  Node 0 is an all-in-one executor that answers every call with success, node 3 a collector that
  refuses every call.
\<close>

definition w_live :: "node_ref \<Rightarrow> resource_node option" where
  "w_live r = (if r < 4 then Some \<lparr>rn_info = w_info, rn_callback = True, rn_executorIndex = 5,
     rn_addedToEngine = True\<rparr> else None)"

definition w_env :: sched_env where
  "w_env = \<lparr>env_ipc = (\<lambda>_ r _. if r = 3 then 5 else SUCCESS), env_send = (\<lambda>_ _ _ _. SUCCESS),
     env_timer = (\<lambda>_ _. 9)\<rparr>"

definition w_sinfo :: "node_ref \<Rightarrow> schedule_info" where
  "w_sinfo collector = \<lparr>si_scheduleId = 77, si_tokenId = Some 3, si_collectorTokenId = 4, si_pinSubType = 0,
     si_contextId = 8, si_expiredTime = 1000, si_templateIdList = [6], si_authType = FACE,
     si_executorMatcher = 0, si_scheduleMode = 1, si_collector = Some collector, si_verifier = Some 0,
     si_threadHandler = False, si_callback = True, si_endAfterFirstFail = False,
     si_collectorMessage = [1], si_verifierMessage = [2], si_authIntent = 0, si_userId = 100,
     si_additionalInfo = [], si_title = [], si_authScene = 0\<rparr>"

definition w_machine :: "u32 \<Rightarrow> u32 list \<Rightarrow> nat \<Rightarrow> sched_action fsm" where
  "w_machine st q k = \<lparr>machineName = ''s'', currentState = st,
     transitionMap = map (\<lambda>(st, e, x). (GetTransitionIndex st e, x)) sched_table,
     enterMap = [(3, Some ProcessingAction), (6, Some FinishedAction)], leaveMap = [],
     pendingEvents = q, threadHandlerSet = True, postedTasks = k\<rparr>"

definition w_node :: "node_ref \<Rightarrow> sched_node" where
  "w_node collector = \<lparr>sn_info = (w_sinfo collector)\<lparr>si_threadHandler := True\<rparr>,
     sn_executorResultCode = GENERAL_ERROR, sn_fwkResultCode = None, sn_scheduleResult = None,
     sn_timerId = 9, sn_live = w_live, sn_trace = [ListenerRegister, TimerRegister 1000]\<rparr>"

lemma w_started: "sched_reach w_env [LStart] (w_machine 0 [0] (Suc 0), w_node collector)"
proof -
  let ?s = "(w_node collector)\<lparr>sn_timerId := 0, sn_trace := []\<rparr>"
  have "Init ''s'' w_live (w_sinfo collector) = Some (w_machine 0 [] 0, ?s)"
    by (simp add: Init_def MakeFiniteStateMachine_builds Let_def FSM_SetThreadHandler_def w_machine_def
        w_node_def w_sinfo_def)
  moreover have "snd (StartSchedule w_env (w_machine 0 [] 0, ?s)) = (w_machine 0 [0] (Suc 0), w_node collector)"
    by (simp add: StartSchedule_def TryKickMachine_def FSM_Schedule_def PushEvent_def StartTimer_def
        node_emit_def w_machine_def w_node_def w_sinfo_def w_env_def)
  ultimately show ?thesis using reach_step [OF reach_init step_start] by (metis append_Nil)
qed

lemma w_machine_simps [simp]:
  "currentState (w_machine st q k) = st" "pendingEvents (w_machine st q k) = q"
  "threadHandlerSet (w_machine st q k)" "postedTasks (w_machine st q k) = k"
  "sched_machine (w_machine st q k)" "w_machine st q k\<lparr>pendingEvents := q'\<rparr> = w_machine st q' k"
  "w_machine st q k\<lparr>postedTasks := k'\<rparr> = w_machine st q k'"
  "w_machine st q k\<lparr>currentState := st'\<rparr> = w_machine st' q k"
  by (simp_all add: w_machine_def sched_machine_def)

lemma w_event:
  "ProcessEvent (run_action env) e (w_machine st q k, s) =
    (case sched_next st e of
       None \<Rightarrow> (w_machine st q k, s)
     | Some (n, act) \<Rightarrow>
         (case run_transition env act e s of
            (s1, es) \<Rightarrow> (w_machine n (q @ es) k, enter_state n s1)))"
  by (simp add: ProcessEvent_sched split: option.splits prod.splits)

lemma w_loop:
  "0 < n \<Longrightarrow> schedule_loop run n (w_machine st (e # q) k, s) =
     schedule_loop run (n - 1) (ProcessEvent run e (w_machine st q k, s))"
  by (simp add: loop_step)

lemmas w_run =
  w_loop w_event sched_next_def sched_table_def run_transition_def run_action_def handler_defs call_defs
  enter_state_def OnScheduleProcessing_def node_emit_def Let_def lock_node_def

definition w_begun :: "node_ref \<Rightarrow> sched_node" where
  "w_begun collector = (w_node collector)\<lparr>sn_trace := [ListenerRegister, TimerRegister 1000,
     NodeCall 0 (OnBeginExecute 77 [1, 2]
       (Serialize (GetScheduleAttribute ((w_sinfo collector)\<lparr>si_threadHandler := True\<rparr>) True Attributes_new)))]\<rparr>"

lemma w_first_event:
  "collector < 4 \<Longrightarrow> ProcessEvent (run_action w_env) 0 (w_machine 0 [] (Suc 0), w_node collector) =
     (w_machine 1 [1] (Suc 0), w_begun collector)"
  by (simp add: w_run w_begun_def w_node_def w_env_def w_live_def w_sinfo_def GetScheduleId_def w_info_def)

lemma w_verifying: "sched_reach w_env [LStart, LEvent] (w_machine 1 [1] (Suc 0), w_begun 3)"
  using reach_step [OF w_started [of 3] step_event [of _ 0 "[]"]] w_first_event [of 3] by simp

definition w_auth :: sched_node where
  "w_auth = (w_begun 0)\<lparr>sn_trace := sn_trace (w_begun 0) @ [ScheduleStarted]\<rparr>"

lemma w_all_in_one:
  "schedule_loop (run_action w_env) 100 (w_machine 0 [0] (Suc 0), w_node 0) = (w_machine 3 [] (Suc 0), w_auth)"
proof -
  have "schedule_loop (run_action w_env) 99 (w_machine 1 [1] (Suc 0), w_begun 0) = (w_machine 3 [] (Suc 0), w_auth)"
    by (simp add: w_run w_auth_def w_begun_def w_node_def w_env_def w_live_def w_sinfo_def
        GetScheduleCallback_def)
  then show ?thesis by (simp add: w_loop w_first_event)
qed

lemma w_authenticating: "\<exists>ls. sched_reach w_env ls (w_machine 3 [] (Suc 0), w_auth)"
  using loop_reach [OF w_started, of 100 0] by (auto simp: w_all_in_one)

lemma w_auth_facts:
  "GetScheduleCallback w_auth" "sn_scheduleResult w_auth = None" "filter is_stop (sn_trace w_auth) = []"
  by (simp_all add: w_auth_def w_begun_def w_node_def w_sinfo_def GetScheduleCallback_def)

lemma schedule_reports_once_witness: "length (filter is_stop (sn_trace w_auth)) \<le> 1"
  using w_authenticating schedule_reports_once by blast

definition w_done :: sched_node where
  "w_done = enter_state S_END (SetScheduleResult (Some Attributes_new) (SetExecutorResultCode SUCCESS w_auth))"

lemma w_succeeds: "\<exists>ls. sched_reach w_env ls (w_machine 6 [] 2, w_done)"
proof -
  obtain ls where r: "sched_reach w_env ls (w_machine 3 [] (Suc 0), w_auth)" using w_authenticating by blast
  let ?s = "SetScheduleResult (Some Attributes_new) (SetExecutorResultCode SUCCESS w_auth)"
  have "snd (ContinueSchedule SUCCESS (Some Attributes_new) (w_machine 3 [] (Suc 0), w_auth)) =
      (w_machine 3 [5] 2, ?s)"
    by (simp add: ContinueSchedule_def TryKickMachine_def FSM_Schedule_def PushEvent_def numeral_2_eq_2)
  then have "sched_reach w_env (ls @ [LContinue SUCCESS (Some Attributes_new)]) (w_machine 3 [5] 2, ?s)"
    using reach_step [OF r step_continue [of w_env SUCCESS "Some Attributes_new"]] by simp
  moreover have "schedule_loop (run_action w_env) (Suc 0) (w_machine 3 [5] 2, ?s) = (w_machine 6 [] 2, w_done)"
    by (simp add: w_event sched_next_def sched_table_def run_transition_def w_done_def)
  ultimately show ?thesis using loop_reach by metis
qed

lemma w_done_stop: "ScheduleStoped SUCCESS (Some Attributes_new) \<in> set (sn_trace w_done)"
proof -
  have "GetScheduleCallback (SetScheduleResult (Some Attributes_new) (SetExecutorResultCode SUCCESS w_auth))"
    using w_auth_facts(1) by (simp add: GetScheduleCallback_def code_setter_defs)
  moreover have "sn_fwkResultCode w_auth = None" by (simp add: w_auth_def w_begun_def w_node_def)
  ultimately have "filter is_stop (sn_trace w_done) = [ScheduleStoped SUCCESS (Some Attributes_new)]"
    using w_auth_facts(3) by (simp add: w_done_def enter_state_stop reported_code_def code_setter_defs)
  then have "ScheduleStoped SUCCESS (Some Attributes_new) \<in> set (filter is_stop (sn_trace w_done))" by simp
  then show ?thesis by simp
qed

lemma schedule_success_origin_witness:
  "\<exists>ls. sched_reach w_env ls (w_machine 6 [] 2, w_done) \<and>
     (LContinue SUCCESS (Some Attributes_new) \<in> set ls \<or> LStop SUCCESS \<in> set ls)"
proof -
  obtain ls where r: "sched_reach w_env ls (w_machine 6 [] 2, w_done)" using w_succeeds by blast
  then show ?thesis using schedule_success_origin [OF r w_done_stop] by blast
qed

lemma schedule_executor_calls_witness: "outs is_begin w_done \<le> 2 \<and> outs is_end w_done \<le> 2"
proof -
  obtain ls where r: "sched_reach w_env ls (w_machine 6 [] 2, w_done)" using w_succeeds by blast
  then show ?thesis using schedule_executor_calls [OF r] by simp
qed

lemma schedule_loop_settles_witness:
  "pendingEvents (fst (ScheduleInner (run_action w_env) (w_machine 0 [0] (Suc 0), w_node 0))) = []"
  using schedule_loop_settles [OF w_started [of 0]] by simp

lemma schedule_stop_ends_witness:
  "\<exists>code \<in> {CANCELED, GENERAL_ERROR}. filter is_stop (sn_trace (snd (RunPostedTask (run_action w_env) True
     (snd (StopSchedule CANCELED (w_machine 3 [] (Suc 0), w_auth)))))) = [ScheduleStoped code None]"
proof -
  obtain ls where r: "sched_reach w_env ls (w_machine 3 [] (Suc 0), w_auth)" using w_authenticating by blast
  show ?thesis
    using schedule_stop_ends [OF r _ _ _ _ prod.collapse [symmetric], of CANCELED] w_auth_facts by simp
qed

lemma failed_collector_start_stuck_witness:
  "currentState (fst ((timeout_round w_env ^^ 5)
     (ScheduleInner (run_action w_env) (w_machine 1 [1] (Suc 0), w_begun 3)))) = S_COLLECT_STARING"
proof -
  let ?n = "\<lparr>rn_info = w_info, rn_callback = True, rn_executorIndex = 5, rn_addedToEngine = True\<rparr>"
  have "lock_node (w_begun 3) (si_collector (sn_info (w_begun 3))) = Some (3, ?n)"
    "lock_node (w_begun 3) (si_verifier (sn_info (w_begun 3))) = Some (0, ?n)"
    by (simp_all add: lock_node_def w_begun_def w_node_def w_sinfo_def w_live_def)
  then show ?thesis
    using failed_collector_start_stuck [OF w_verifying, of 3 ?n 0 ?n 5] by (simp add: w_env_def)
qed

lemma collector_command_hides_user_witness:
  "GetInt32Value ATTR_USER_ID (GetScheduleAttribute (w_sinfo 0) False Attributes_new) = None \<and>
   GetInt32Value ATTR_USER_ID (GetScheduleAttribute (w_sinfo 0) True Attributes_new) = Some 100"
  using collector_command_hides_user [of "w_sinfo 0"] by (simp add: w_sinfo_def MAX_ATTR_LENGTH_def)

end
