(* ===== verification/Context_Policy.thy ===== *)
theory Context_Policy
  imports Iam_Prelude
begin

text \<open>
  What the context pool knows of a request: the attributes of a \<^verbatim>\<open>Context\<close>
  (\<^verbatim>\<open>services/context/inc/context.h\<close>) and the two decisions a context takes about others, whether it can
  start behind given predecessors and whether it yields to a newer request
  (\<^verbatim>\<open>context_arbitration_policy.cpp\<close>, \<^verbatim>\<open>widget_context.cpp\<close>, \<^verbatim>\<open>sudo_auth_context.cpp\<close>). The virtual functions
  are dispatched on the context type. Only a sudo context changes its decision over time: the flag
  \<^verbatim>\<open>dialogActive_\<close> is an argument.

  The interface \<open>admission\<close> is what the pool's promotion relies on.
\<close>

datatype context_type =
    CONTEXT_SIMPLE_AUTH | CONTEXT_ENROLL | CONTEXT_IDENTIFY | WIDGET_AUTH_CONTEXT
  | REMOTE_AUTH_CONTEXT | REMOTE_AUTH_INVOKER_CONTEXT | SCHEDULE_HOLDER_CONTEXT | CONTEXT_DELETE
  | LOCAL_REMOTE_AUTH_CONTEXT | SUDO_AUTH_CONTEXT

datatype preempt_decision = KEEP_RUNNING | STOP_NOW

record auth_context =
  cx_contextId :: u64
  cx_createTime :: int
  cx_contextType :: context_type
  cx_primary :: bool
  cx_callerName :: bytes
  cx_authType :: i32
  cx_userId :: i32
  cx_tokenId :: u32
  cx_authIntent :: i32
  cx_authTypeList :: "i32 list"

definition IsAuthContext :: "context_type \<Rightarrow> bool" where
  "IsAuthContext t \<longleftrightarrow>
     t = CONTEXT_SIMPLE_AUTH \<or> t = WIDGET_AUTH_CONTEXT \<or> t = SUDO_AUTH_CONTEXT \<or>
     t = REMOTE_AUTH_CONTEXT \<or> t = LOCAL_REMOTE_AUTH_CONTEXT"

definition BearsPin :: "auth_context \<Rightarrow> bool" where
  "BearsPin c \<longleftrightarrow> list_ex (\<lambda>authType. authType = PIN) (cx_authTypeList c)"

definition BlockedBySudoPinContention :: "auth_context \<Rightarrow> auth_context \<Rightarrow> bool" where
  "BlockedBySudoPinContention self predecessor =
     (if cx_userId self = INVALID_USER_ID \<or> cx_userId self \<noteq> cx_userId predecessor then False
      else if \<not> BearsPin self \<or> \<not> BearsPin predecessor then False
      else cx_authIntent self = SUDO_PIN_AUTH \<or> cx_authIntent predecessor = SUDO_PIN_AUTH)"

fun policy_loop :: "auth_context \<Rightarrow> auth_context list \<Rightarrow> bool" where
  "policy_loop self [] = True"
| "policy_loop self (p # ps) =
     (if \<not> cx_primary p \<or> \<not> IsAuthContext (cx_contextType p) then policy_loop self ps
      else if \<not> BlockedBySudoPinContention self p then policy_loop self ps
      else False)"

definition Policy_CanStart :: "auth_context \<Rightarrow> auth_context list \<Rightarrow> bool" where
  "Policy_CanStart self predecessors =
     (if \<not> cx_primary self \<or> \<not> IsAuthContext (cx_contextType self) then True
      else policy_loop self predecessors)"

definition CanStart :: "auth_context \<Rightarrow> auth_context list \<Rightarrow> bool" where
  "CanStart self predecessors =
     (case cx_contextType self of
        CONTEXT_SIMPLE_AUTH \<Rightarrow> Policy_CanStart self predecessors
      | REMOTE_AUTH_CONTEXT \<Rightarrow> Policy_CanStart self predecessors
      | LOCAL_REMOTE_AUTH_CONTEXT \<Rightarrow> Policy_CanStart self predecessors
      | WIDGET_AUTH_CONTEXT \<Rightarrow> Policy_CanStart self predecessors
      | SUDO_AUTH_CONTEXT \<Rightarrow> Policy_CanStart self predecessors
      | _ \<Rightarrow> True)"

definition Widget_GetPreemptDecision :: "auth_context \<Rightarrow> preempt_decision" where
  "Widget_GetPreemptDecision newRequest =
     (if cx_contextType newRequest \<noteq> WIDGET_AUTH_CONTEXT then KEEP_RUNNING else STOP_NOW)"

definition Sudo_GetPreemptDecision ::
  "bool \<Rightarrow> auth_context \<Rightarrow> auth_context \<Rightarrow> preempt_decision" where
  "Sudo_GetPreemptDecision dialogActive self newRequest =
     (if \<not> dialogActive \<or> \<not> cx_primary newRequest then KEEP_RUNNING
      else
        let newcomerType = cx_contextType newRequest;
            newcomerUserId = cx_userId newRequest;
            takesOverWindow = (newcomerType = SUDO_AUTH_CONTEXT \<or> newcomerType = WIDGET_AUTH_CONTEXT);
            conflictsPinSlot = (newcomerUserId \<noteq> INVALID_USER_ID \<and> newcomerUserId = cx_userId self \<and>
              IsAuthContext newcomerType \<and> BearsPin newRequest)
        in if takesOverWindow \<or> conflictsPinSlot then STOP_NOW else KEEP_RUNNING)"

definition GetPreemptDecision ::
  "(u64 \<Rightarrow> bool) \<Rightarrow> auth_context \<Rightarrow> auth_context \<Rightarrow> preempt_decision" where
  "GetPreemptDecision dialogActive self newRequest =
     (case cx_contextType self of
        WIDGET_AUTH_CONTEXT \<Rightarrow> Widget_GetPreemptDecision newRequest
      | SUDO_AUTH_CONTEXT \<Rightarrow>
          Sudo_GetPreemptDecision (dialogActive (cx_contextId self)) self newRequest
      | _ \<Rightarrow> KEEP_RUNNING)"

definition IsSameCallerDuplicate :: "auth_context \<Rightarrow> auth_context \<Rightarrow> bool" where
  "IsSameCallerDuplicate incoming existing =
     (if \<not> cx_primary incoming \<or> \<not> cx_primary existing \<or>
         cx_callerName incoming \<noteq> cx_callerName existing \<or>
         cx_contextType incoming \<noteq> cx_contextType existing \<or>
         cx_authType incoming \<noteq> cx_authType existing \<or>
         cx_userId incoming \<noteq> cx_userId existing
      then False else True)"

section \<open>The contention relation\<close>

text \<open>
  Two requests contend when both are primary authentications that use the PIN of the same valid user
  and one of them is a sudo authentication.
\<close>

definition primary_auth :: "auth_context \<Rightarrow> bool" where
  "primary_auth c \<longleftrightarrow> cx_primary c \<and> IsAuthContext (cx_contextType c)"

definition contends :: "auth_context \<Rightarrow> auth_context \<Rightarrow> bool" where
  "contends a b \<longleftrightarrow> primary_auth a \<and> primary_auth b \<and> BlockedBySudoPinContention a b"

lemma contends_sym: "contends a b \<Longrightarrow> contends b a"
  by (auto simp: contends_def BlockedBySudoPinContention_def split: if_splits)

lemma policy_loop_iff:
  "policy_loop self ps \<longleftrightarrow> \<not> (\<exists>p \<in> set ps. primary_auth p \<and> BlockedBySudoPinContention self p)"
  by (induction ps) (auto simp: primary_auth_def)

lemma CanStart_iff: "CanStart self ps \<longleftrightarrow> \<not> (\<exists>p \<in> set ps. contends self p)"
  by (auto simp: CanStart_def Policy_CanStart_def policy_loop_iff contends_def primary_auth_def
      IsAuthContext_def split: context_type.splits)

locale admission =
  fixes can_start :: "'c \<Rightarrow> 'c list \<Rightarrow> bool"
    and blocks :: "'c \<Rightarrow> 'c \<Rightarrow> bool"
  assumes can_start_blocks: "can_start w ps \<longleftrightarrow> \<not> (\<exists>p \<in> set ps. blocks w p)"
begin

lemma can_start_alone: "can_start w []"
  by (simp add: can_start_blocks)

lemma can_start_anti: "can_start w ps \<Longrightarrow> set qs \<subseteq> set ps \<Longrightarrow> can_start w qs"
  by (auto simp: can_start_blocks)

lemma can_start_append: "can_start w (ps @ qs) \<longleftrightarrow> can_start w ps \<and> can_start w qs"
  by (auto simp: can_start_blocks)

lemma blocked_by: "\<not> can_start w ps \<Longrightarrow> \<exists>p \<in> set ps. blocks w p"
  by (simp add: can_start_blocks)

lemma admitted_unblocked: "can_start w ps \<Longrightarrow> p \<in> set ps \<Longrightarrow> \<not> blocks w p"
  by (auto simp: can_start_blocks)

end

interpretation pin_admission: admission CanStart contends
  by unfold_locales (rule CanStart_iff)

end
