(* ===== verification/Context_Pool.thy ===== *)
theory Context_Pool
  imports Context_Policy
begin

text \<open>
  The pool of requests, \<^verbatim>\<open>services/context/src/context_pool_impl.cpp\<close>: at most \<^verbatim>\<open>MAX_CONTEXT_NUM\<close> contexts,
  some running and the others waiting in arrival order. Every change of the pool promotes the waiting
  contexts that can start and stops the running ones that yield to them; starts and stops are tasks
  posted to the handler thread.

  \<^verbatim>\<open>runningContexts_\<close> is an unordered map; neither it nor \<^verbatim>\<open>waitingFifo_\<close> ever holds a null pointer, so
  the null checks on their elements have no branch here. The calls a task makes on a context are
  recorded in \<open>cp_calls\<close>; whether \<^verbatim>\<open>Start\<close> succeeds and the error it left are parameters. A call on a
  context re-enters the pool only as a further step. The handler may run its tasks in any order.
\<close>

definition MAX_CONTEXT_NUM :: nat where
  "MAX_CONTEXT_NUM = 100"

datatype pool_task =
    CancelTask u64
  | PreemptTask u64
  | StartTask u64

datatype context_call =
    CallStart u64
  | CallStop u64
  | CallStartFailed u64 i32

record context_pool =
  cp_running :: "(u64 \<times> auth_context) list"
  cp_waiting :: "auth_context list"
  cp_cancelRequested :: "u64 set"
  cp_dialogActive :: "u64 \<Rightarrow> bool"
  cp_tasks :: "pool_task list"
  cp_calls :: "context_call list"

record admission_plan =
  toStop :: "(u64 \<times> auth_context) list"
  toStart :: "auth_context list"

definition empty_plan :: admission_plan where
  "empty_plan = \<lparr>toStop = [], toStart = []\<rparr>"

section \<open>Promotion\<close>

text \<open>\<^verbatim>\<open>std::map::emplace\<close> keeps the value of a present key.\<close>

definition plan_stop :: "auth_context \<Rightarrow> admission_plan \<Rightarrow> admission_plan" where
  "plan_stop c plan =
     (if map_of (toStop plan) (cx_contextId c) \<noteq> None then plan
      else plan\<lparr>toStop := omap_assign (cx_contextId c) c (toStop plan)\<rparr>)"

text \<open>The inner loop over the predecessors of a waiter: the plan, the victims and the visible ones.\<close>

fun scan_predecessors ::
  "(u64 \<Rightarrow> bool) \<Rightarrow> auth_context \<Rightarrow> auth_context list \<Rightarrow>
   admission_plan \<times> auth_context list \<times> auth_context list \<Rightarrow>
   admission_plan \<times> auth_context list \<times> auth_context list" where
  "scan_predecessors dialog waiter [] acc = acc"
| "scan_predecessors dialog waiter (member # ms) (plan, victims, visible) =
     (let canCollect = cx_createTime waiter > cx_createTime member
      in if canCollect \<and> IsSameCallerDuplicate waiter member
         then scan_predecessors dialog waiter ms (plan_stop member plan, victims, visible)
         else if canCollect \<and> GetPreemptDecision dialog member waiter = STOP_NOW
         then scan_predecessors dialog waiter ms (plan, victims @ [member], visible)
         else scan_predecessors dialog waiter ms (plan, victims, visible @ [member]))"

text \<open>
  The outer loop: \<open>kept\<close> are the waiters passed over so far. \<^verbatim>\<open>emplace\<close> into the running map keeps a
  present entry.
\<close>

fun promote_loop ::
  "(u64 \<Rightarrow> bool) \<Rightarrow> auth_context list \<Rightarrow> auth_context list \<Rightarrow> auth_context list \<Rightarrow>
   (u64 \<times> auth_context) list \<Rightarrow> admission_plan \<Rightarrow>
   auth_context list \<times> (u64 \<times> auth_context) list \<times> admission_plan" where
  "promote_loop dialog [] kept predecessors running plan = (kept, running, plan)"
| "promote_loop dialog (waiter # ws) kept predecessors running plan =
     (case scan_predecessors dialog waiter predecessors (plan, [], []) of
        (plan1, victims, visible) \<Rightarrow>
          let plan2 = fold plan_stop victims plan1;
              predecessors1 = predecessors @ [waiter]
          in if \<not> CanStart waiter visible
             then promote_loop dialog ws (kept @ [waiter]) predecessors1 running plan2
             else promote_loop dialog ws kept predecessors1
                    (if map_of running (cx_contextId waiter) = None
                     then running @ [(cx_contextId waiter, waiter)] else running)
                    (plan2\<lparr>toStart := toStart plan2 @ [waiter]\<rparr>))"

definition PromoteWaitingLocked :: "context_pool \<Rightarrow> context_pool \<times> admission_plan" where
  "PromoteWaitingLocked p =
     (case promote_loop (cp_dialogActive p) (cp_waiting p) [] (map snd (cp_running p)) (cp_running p)
             empty_plan of
        (waiting, running, plan) \<Rightarrow> (p\<lparr>cp_waiting := waiting, cp_running := running\<rparr>, plan))"

definition ExecutePlan :: "admission_plan \<Rightarrow> context_pool \<Rightarrow> context_pool" where
  "ExecutePlan plan p =
     p\<lparr>cp_tasks := cp_tasks p @ map (\<lambda>(_, c). PreemptTask (cx_contextId c)) (toStop plan) @
        map (\<lambda>c. StartTask (cx_contextId c)) (toStart plan)\<rparr>"

definition promote :: "context_pool \<Rightarrow> context_pool" where
  "promote p = (case PromoteWaitingLocked p of (p1, plan) \<Rightarrow> ExecutePlan plan p1)"

section \<open>Operations\<close>

definition SelectLocked :: "u64 \<Rightarrow> context_pool \<Rightarrow> auth_context option" where
  "SelectLocked contextId p =
     (case map_of (cp_running p) contextId of
        Some c \<Rightarrow> Some c
      | None \<Rightarrow> List.find (\<lambda>c. cx_contextId c = contextId) (cp_waiting p))"

definition Pool_Schedule :: "auth_context option \<Rightarrow> context_pool \<Rightarrow> bool \<times> context_pool" where
  "Pool_Schedule context p =
     (case context of
        None \<Rightarrow> (False, p)
      | Some c \<Rightarrow>
          if length (cp_running p) + length (cp_waiting p) \<ge> MAX_CONTEXT_NUM then (False, p)
          else if SelectLocked (cx_contextId c) p \<noteq> None then (False, p)
          else (True, promote (p\<lparr>cp_waiting := cp_waiting p @ [c]\<rparr>)))"

definition Pool_Cancel :: "u64 \<Rightarrow> context_pool \<Rightarrow> context_pool" where
  "Pool_Cancel contextId p =
     p\<lparr>cp_cancelRequested := insert contextId (cp_cancelRequested p),
       cp_tasks := cp_tasks p @ [CancelTask contextId]\<rparr>"

fun remove_first :: "('a \<Rightarrow> bool) \<Rightarrow> 'a list \<Rightarrow> 'a list" where
  "remove_first q [] = []"
| "remove_first q (x # xs) = (if q x then xs else x # remove_first q xs)"

definition Pool_Delete :: "u64 \<Rightarrow> context_pool \<Rightarrow> bool \<times> context_pool" where
  "Pool_Delete contextId p =
     (let removedFromWaiting = list_ex (\<lambda>c. cx_contextId c = contextId) (cp_waiting p);
          removedFromRunning = map_of (cp_running p) contextId \<noteq> None
      in if \<not> removedFromWaiting \<and> \<not> removedFromRunning then (False, p)
         else (True, promote
                (p\<lparr>cp_waiting := remove_first (\<lambda>c. cx_contextId c = contextId) (cp_waiting p),
                   cp_running := key_erase contextId (cp_running p)\<rparr>)))"

text \<open>The cleaner a callback runs after it delivered its result.\<close>

definition Cleaner_call :: "u64 \<Rightarrow> context_pool \<Rightarrow> context_pool" where
  "Cleaner_call contextId p =
     (if contextId = INVALID_CONTEXT_ID then p else snd (Pool_Delete contextId p))"

definition CancelAll :: "context_pool \<Rightarrow> context_pool" where
  "CancelAll p = fold Pool_Cancel (map fst (cp_running p) @ map cx_contextId (cp_waiting p)) p"

definition NotifyPreemptStateChanged :: "context_pool \<Rightarrow> context_pool" where
  "NotifyPreemptStateChanged p = promote p"

definition SelectByType :: "context_type \<Rightarrow> context_pool \<Rightarrow> auth_context list" where
  "SelectByType t p =
     filter (\<lambda>c. cx_contextType c = t) (map snd (cp_running p)) @
     filter (\<lambda>c. cx_contextType c = t) (cp_waiting p)"

text \<open>\<open>lookup\<close> is the \<^verbatim>\<open>GetScheduleNode\<close> of a context.\<close>

fun first_some :: "('a \<Rightarrow> 'b option) \<Rightarrow> 'a list \<Rightarrow> 'b option" where
  "first_some f [] = None"
| "first_some f (x # xs) = (case f x of None \<Rightarrow> first_some f xs | Some y \<Rightarrow> Some y)"

definition SelectScheduleNodeByScheduleId ::
  "(auth_context \<Rightarrow> u64 \<Rightarrow> 'n option) \<Rightarrow> u64 \<Rightarrow> context_pool \<Rightarrow> 'n option" where
  "SelectScheduleNodeByScheduleId lookup scheduleId p =
     first_some (\<lambda>(_, c). lookup c scheduleId) (cp_running p)"

section \<open>Tasks\<close>

definition StopIfPooled :: "u64 \<Rightarrow> context_pool \<Rightarrow> context_pool" where
  "StopIfPooled contextId p =
     (let p1 = p\<lparr>cp_cancelRequested := cp_cancelRequested p - {contextId}\<rparr>
      in if SelectLocked contextId p1 = None then p1
         else p1\<lparr>cp_calls := cp_calls p1 @ [CallStop contextId]\<rparr>)"

definition StartIfPooled ::
  "(context_call list \<Rightarrow> u64 \<Rightarrow> bool) \<Rightarrow> (context_call list \<Rightarrow> u64 \<Rightarrow> i32) \<Rightarrow> u64 \<Rightarrow>
   context_pool \<Rightarrow> context_pool" where
  "StartIfPooled start latestError contextId p =
     (if map_of (cp_running p) contextId = None \<or> contextId \<in> cp_cancelRequested p then p
      else
        let calls = cp_calls p @ [CallStart contextId]
        in if start (cp_calls p) contextId then p\<lparr>cp_calls := calls\<rparr>
           else p\<lparr>cp_calls := calls @ [CallStartFailed contextId (latestError calls contextId)]\<rparr>)"

definition run_task ::
  "(context_call list \<Rightarrow> u64 \<Rightarrow> bool) \<Rightarrow> (context_call list \<Rightarrow> u64 \<Rightarrow> i32) \<Rightarrow> pool_task \<Rightarrow>
   context_pool \<Rightarrow> context_pool" where
  "run_task start latestError t p =
     (case t of
        CancelTask i \<Rightarrow> StopIfPooled i p
      | PreemptTask i \<Rightarrow> StopIfPooled i p
      | StartTask i \<Rightarrow> StartIfPooled start latestError i p)"

section \<open>New context ids\<close>

definition MAX_TRY_TIMES :: nat where
  "MAX_TRY_TIMES = 10"

definition REUSE_AUTH_RESULT_CONTEXT_ID :: u64 where
  "REUSE_AUTH_RESULT_CONTEXT_ID = 1"

text \<open>\<open>draws\<close> are the random numbers read, \<open>None\<close> where reading fails; \<open>contextId\<close> is the last one.\<close>

fun new_id_loop :: "context_pool \<Rightarrow> nat \<Rightarrow> (nat \<Rightarrow> u64 option) \<Rightarrow> nat \<Rightarrow> u64 \<Rightarrow> u64" where
  "new_id_loop p 0 draws i contextId = contextId"
| "new_id_loop p (Suc n) draws i contextId =
     (case draws i of
        None \<Rightarrow> 0
      | Some r \<Rightarrow>
          if r = 0 \<or> r = REUSE_AUTH_RESULT_CONTEXT_ID \<or> SelectLocked r p \<noteq> None
          then new_id_loop p n draws (Suc i) r
          else r)"

definition GetNewContextId :: "(nat \<Rightarrow> u64 option) \<Rightarrow> context_pool \<Rightarrow> u64" where
  "GetNewContextId draws p = new_id_loop p MAX_TRY_TIMES draws 0 0"

section \<open>Runs of the pool\<close>

datatype pool_label =
    PSchedule "auth_context option"
  | PCancel u64
  | PDelete u64
  | PClean u64
  | PCancelAll
  | PNotify
  | PDialog "u64 \<Rightarrow> bool"
  | PTask pool_task

inductive pool_step ::
  "(context_call list \<Rightarrow> u64 \<Rightarrow> bool) \<Rightarrow> (context_call list \<Rightarrow> u64 \<Rightarrow> i32) \<Rightarrow>
   pool_label \<Rightarrow> context_pool \<Rightarrow> context_pool \<Rightarrow> bool"
  for start latestError where
  pool_schedule: "pool_step start latestError (PSchedule c) p (snd (Pool_Schedule c p))"
| pool_cancel: "pool_step start latestError (PCancel i) p (Pool_Cancel i p)"
| pool_delete: "pool_step start latestError (PDelete i) p (snd (Pool_Delete i p))"
| pool_clean: "pool_step start latestError (PClean i) p (Cleaner_call i p)"
| pool_cancel_all: "pool_step start latestError PCancelAll p (CancelAll p)"
| pool_notify: "pool_step start latestError PNotify p (NotifyPreemptStateChanged p)"
| pool_dialog: "pool_step start latestError (PDialog f) p (p\<lparr>cp_dialogActive := f\<rparr>)"
| pool_task: "cp_tasks p = ts @ t # us \<Longrightarrow>
    pool_step start latestError (PTask t) p (run_task start latestError t (p\<lparr>cp_tasks := ts @ us\<rparr>))"

inductive_cases pool_stepE: "pool_step start latestError l p p'"

inductive pool_run ::
  "(context_call list \<Rightarrow> u64 \<Rightarrow> bool) \<Rightarrow> (context_call list \<Rightarrow> u64 \<Rightarrow> i32) \<Rightarrow>
   context_pool \<Rightarrow> pool_label list \<Rightarrow> context_pool \<Rightarrow> bool"
  for start latestError p where
  run_nil: "pool_run start latestError p [] p"
| run_snoc: "pool_run start latestError p ls q \<Longrightarrow> pool_step start latestError l q q' \<Longrightarrow>
    pool_run start latestError p (ls @ [l]) q'"

definition initial_pool :: context_pool where
  "initial_pool = \<lparr>cp_running = [], cp_waiting = [], cp_cancelRequested = {},
     cp_dialogActive = (\<lambda>_. False), cp_tasks = [], cp_calls = []\<rparr>"

section \<open>One waiter\<close>

definition stops :: "(u64 \<Rightarrow> bool) \<Rightarrow> auth_context \<Rightarrow> auth_context \<Rightarrow> bool" where
  "stops dialog waiter member \<longleftrightarrow>
     cx_createTime waiter > cx_createTime member \<and>
     (IsSameCallerDuplicate waiter member \<or> GetPreemptDecision dialog member waiter = STOP_NOW)"

definition supersedes :: "auth_context \<Rightarrow> auth_context \<Rightarrow> bool" where
  "supersedes waiter member \<longleftrightarrow>
     cx_createTime waiter > cx_createTime member \<and> IsSameCallerDuplicate waiter member"

lemma scan_predecessors_eq:
  "scan_predecessors dialog w ms (plan, victims, visible) =
     (fold plan_stop (filter (supersedes w) ms) plan,
      victims @ filter (\<lambda>m. stops dialog w m \<and> \<not> supersedes w m) ms,
      visible @ filter (\<lambda>m. \<not> stops dialog w m) ms)"
  by (induction ms arbitrary: plan victims visible)
    (auto simp: Let_def stops_def supersedes_def)

lemma plan_stop_keys:
  "fst ` set (toStop (fold plan_stop xs plan)) = fst ` set (toStop plan) \<union> cx_contextId ` set xs"
proof (induction xs arbitrary: plan)
  case Nil
  then show ?case by simp
next
  case (Cons x xs)
  have "fst ` set (toStop (plan_stop x plan)) = insert (cx_contextId x) (fst ` set (toStop plan))"
    by (auto simp: plan_stop_def map_of_eq_None_iff)
  then show ?case using Cons.IH [of "plan_stop x plan"] by simp
qed

lemma plan_stop_entries:
  "e \<in> set (toStop (fold plan_stop xs plan)) \<Longrightarrow>
     e \<in> set (toStop plan) \<or> (\<exists>x \<in> set xs. e = (cx_contextId x, x))"
proof (induction xs arbitrary: plan)
  case Nil
  then show ?case by simp
next
  case (Cons x xs)
  have "e \<in> set (toStop (plan_stop x plan)) \<Longrightarrow> e \<in> set (toStop plan) \<or> e = (cx_contextId x, x)"
    by (cases e) (auto simp: plan_stop_def split: if_splits dest!: values_omap_assign)
  then show ?case using Cons.IH [of "plan_stop x plan"] Cons.prems by auto
qed

lemma plan_stop_toStart [simp]: "toStart (fold plan_stop xs plan) = toStart plan"
  by (induction xs arbitrary: plan) (simp_all add: plan_stop_def)

text \<open>One round of the outer loop: the plan with every predecessor that yields, and the visible ones.\<close>

definition round_plan :: "(u64 \<Rightarrow> bool) \<Rightarrow> auth_context \<Rightarrow> auth_context list \<Rightarrow> admission_plan \<Rightarrow> admission_plan" where
  "round_plan dialog w ms plan =
     fold plan_stop (filter (supersedes w) ms @ filter (\<lambda>m. stops dialog w m \<and> \<not> supersedes w m) ms) plan"

lemma promote_round:
  "promote_loop dialog (w # ws) kept preds running plan =
     (let plan2 = round_plan dialog w preds plan
      in if \<not> CanStart w (filter (\<lambda>m. \<not> stops dialog w m) preds)
         then promote_loop dialog ws (kept @ [w]) (preds @ [w]) running plan2
         else promote_loop dialog ws kept (preds @ [w])
                (if map_of running (cx_contextId w) = None
                 then running @ [(cx_contextId w, w)] else running)
                (plan2\<lparr>toStart := toStart plan2 @ [w]\<rparr>))"
  by (simp add: scan_predecessors_eq round_plan_def Let_def)

lemma round_plan_keys:
  "fst ` set (toStop (round_plan dialog w ms plan)) =
     fst ` set (toStop plan) \<union> cx_contextId ` {m \<in> set ms. stops dialog w m}"
proof -
  have "set (filter (supersedes w) ms @ filter (\<lambda>m. stops dialog w m \<and> \<not> supersedes w m) ms) =
      {m \<in> set ms. stops dialog w m}"
    by (auto simp: stops_def supersedes_def)
  then show ?thesis unfolding round_plan_def plan_stop_keys by simp
qed

lemma round_plan_entries:
  "e \<in> set (toStop (round_plan dialog w ms plan)) \<Longrightarrow>
     e \<in> set (toStop plan) \<or> (\<exists>m \<in> set ms. e = (cx_contextId m, m) \<and> stops dialog w m)"
  unfolding round_plan_def by (drule plan_stop_entries) (auto simp: stops_def supersedes_def)

lemma round_plan_toStart [simp]: "toStart (round_plan dialog w ms plan) = toStart plan"
  by (simp add: round_plan_def)

end
