(* ===== verification/Context_Pool_Properties.thy ===== *)
theory Context_Pool_Properties
  imports Context_Pool "HOL-Library.Multiset"
begin

text \<open>
  What the context pool guarantees in every run: bounded size and distinct ids, that every waiting
  context is held up by somebody ahead of it (so that no wake-up is lost), that two contending
  contexts run together only while one of them is being stopped, that only older requests are
  preempted, and that a cancelled context is not started.
\<close>

section \<open>The promotion loop\<close>

definition entries_ok :: "(u64 \<times> auth_context) list \<Rightarrow> bool" where
  "entries_ok running \<longleftrightarrow> list_all (\<lambda>(k, c). k = cx_contextId c) running"

definition pool_ids :: "(u64 \<times> auth_context) list \<Rightarrow> auth_context list \<Rightarrow> u64 list" where
  "pool_ids running waiting = map fst running @ map cx_contextId waiting"

definition admit :: "auth_context list \<Rightarrow> (u64 \<times> auth_context) list" where
  "admit cs = map (\<lambda>c. (cx_contextId c, c)) cs"

lemma admit_simps [simp]:
  "admit [] = []" "admit (c # cs) = (cx_contextId c, c) # admit cs"
  "admit (cs @ ds) = admit cs @ admit ds" "map fst (admit cs) = map cx_contextId cs"
  "map snd (admit cs) = cs" "entries_ok (admit cs)" "snd ` set (admit cs) = set cs"
  by (auto simp: admit_def entries_ok_def list_all_iff comp_def image_iff)

lemma promote_shape:
  assumes "promote_loop dialog ws kept preds running plan = (kept', running', plan')"
    and "distinct (pool_ids running (kept @ ws))"
  shows "\<exists>adm. running' = running @ admit adm \<and> toStart plan' = toStart plan @ adm \<and>
    mset kept' + mset adm = mset kept + mset ws"
  using assms
proof (induction ws arbitrary: kept preds running plan)
  case Nil
  then show ?case by (intro exI [of _ "[]"]) simp
next
  case (Cons w ws)
  let ?plan2 = "round_plan dialog w preds plan"
  show ?case
  proof (cases "CanStart w (filter (\<lambda>m. \<not> stops dialog w m) preds)")
    case True
    have "map_of running (cx_contextId w) = None"
      using Cons.prems(2) by (auto simp: pool_ids_def map_of_eq_None_iff)
    then have "promote_loop dialog ws kept (preds @ [w]) (running @ [(cx_contextId w, w)])
        (?plan2\<lparr>toStart := toStart plan @ [w]\<rparr>) = (kept', running', plan')"
      using Cons.prems(1) True by (simp add: promote_round Let_def del: promote_loop.simps)
    moreover have "distinct (pool_ids (running @ [(cx_contextId w, w)]) (kept @ ws))"
      using Cons.prems(2) by (auto simp: pool_ids_def)
    ultimately obtain adm where "running' = (running @ [(cx_contextId w, w)]) @ admit adm"
      "toStart plan' = (toStart plan @ [w]) @ adm" "mset kept' + mset adm = mset kept + mset ws"
      using Cons.IH by fastforce
    then show ?thesis by (intro exI [of _ "w # adm"]) simp
  next
    case False
    then have "promote_loop dialog ws (kept @ [w]) (preds @ [w]) running ?plan2 = (kept', running', plan')"
      using Cons.prems(1) by (simp add: promote_round Let_def del: promote_loop.simps)
    moreover have "distinct (pool_ids running ((kept @ [w]) @ ws))" using Cons.prems(2) by simp
    ultimately obtain adm where "running' = running @ admit adm" "toStart plan' = toStart ?plan2 @ adm"
      "mset kept' + mset adm = mset (kept @ [w]) + mset ws"
      using Cons.IH by blast
    then show ?thesis by (intro exI [of _ adm]) simp
  qed
qed

text \<open>Every context of a queue is held up by one of \<open>front\<close> or by one ahead of it in the queue.\<close>

definition queue_blocked :: "auth_context list \<Rightarrow> auth_context list \<Rightarrow> bool" where
  "queue_blocked front ws \<longleftrightarrow>
     (\<forall>i < length ws. \<exists>q \<in> set front \<union> set (take i ws). contends (ws ! i) q)"

lemma queue_blocked_Nil [simp]: "queue_blocked front []"
  by (simp add: queue_blocked_def)

lemma queue_blocked_snoc:
  "queue_blocked front (ws @ [w]) \<longleftrightarrow>
     queue_blocked front ws \<and> (\<exists>q \<in> set front \<union> set ws. contends w q)"
  by (auto simp: queue_blocked_def nth_append less_Suc_eq)

lemma queue_blocked_mono:
  "queue_blocked front ws \<Longrightarrow> set front \<subseteq> set front' \<Longrightarrow> queue_blocked front' ws"
  unfolding queue_blocked_def by blast

lemma promote_blocked:
  assumes "promote_loop dialog ws kept preds running plan = (kept', running', plan')"
    and "distinct (pool_ids running (kept @ ws))"
    and "set preds = snd ` set running \<union> set kept" and "queue_blocked (map snd running) kept"
  shows "queue_blocked (map snd running') kept'"
  using assms
proof (induction ws arbitrary: kept preds running plan)
  case Nil
  then show ?case by simp
next
  case (Cons w ws)
  let ?plan2 = "round_plan dialog w preds plan"
  let ?visible = "filter (\<lambda>m. \<not> stops dialog w m) preds"
  show ?case
  proof (cases "CanStart w ?visible")
    case True
    let ?run = "running @ [(cx_contextId w, w)]"
    have "map_of running (cx_contextId w) = None"
      using Cons.prems(2) by (auto simp: pool_ids_def map_of_eq_None_iff)
    then have "promote_loop dialog ws kept (preds @ [w]) ?run (?plan2\<lparr>toStart := toStart plan @ [w]\<rparr>) =
        (kept', running', plan')"
      using Cons.prems(1) True by (simp add: promote_round Let_def del: promote_loop.simps)
    moreover have "distinct (pool_ids ?run (kept @ ws))"
      using Cons.prems(2) by (auto simp: pool_ids_def)
    moreover have "set (preds @ [w]) = snd ` set ?run \<union> set kept" using Cons.prems(3) by auto
    moreover have "queue_blocked (map snd ?run) kept"
      using Cons.prems(4) by (rule queue_blocked_mono) auto
    ultimately show ?thesis by (rule Cons.IH)
  next
    case False
    then have "promote_loop dialog ws (kept @ [w]) (preds @ [w]) running ?plan2 = (kept', running', plan')"
      using Cons.prems(1) by (simp add: promote_round Let_def del: promote_loop.simps)
    moreover have "distinct (pool_ids running ((kept @ [w]) @ ws))" using Cons.prems(2) by simp
    moreover have "set (preds @ [w]) = snd ` set running \<union> set (kept @ [w])" using Cons.prems(3) by auto
    moreover have "queue_blocked (map snd running) (kept @ [w])"
      using Cons.prems(3,4) pin_admission.blocked_by [OF False] by (auto simp: queue_blocked_snoc)
    ultimately show ?thesis by (rule Cons.IH)
  qed
qed

lemma promote_loopE:
  assumes "promote_loop dialog (w # ws) kept preds running plan = r"
  obtains kept1 running1 plan1 where
    "promote_loop dialog ws kept1 (preds @ [w]) running1 plan1 = r"
    "toStop plan1 = toStop (round_plan dialog w preds plan)"
    "kept1 = (if CanStart w (filter (\<lambda>m. \<not> stops dialog w m) preds) then kept else kept @ [w])"
proof (cases "CanStart w (filter (\<lambda>m. \<not> stops dialog w m) preds)")
  case True
  show ?thesis
    by (rule that [OF assms [unfolded promote_round Let_def, simplified True simp_thms if_False]])
      (simp_all add: True)
next
  case False
  show ?thesis
    by (rule that [OF assms [unfolded promote_round Let_def, simplified False simp_thms if_True]])
      (simp_all add: False)
qed

lemma promote_grows:
  assumes "promote_loop dialog ws kept preds running plan = (kept', running', plan')"
  shows "fst ` set (toStop plan) \<subseteq> fst ` set (toStop plan')" and "set kept \<subseteq> set kept'"
proof -
  have "fst ` set (toStop plan) \<subseteq> fst ` set (toStop plan') \<and> set kept \<subseteq> set kept'"
    using assms
  proof (induction ws arbitrary: kept preds running plan)
    case Nil
    then show ?case by simp
  next
    case (Cons w ws)
    from Cons.prems obtain kept1 running1 plan1 where
      "promote_loop dialog ws kept1 (preds @ [w]) running1 plan1 = (kept', running', plan')"
      and n: "toStop plan1 = toStop (round_plan dialog w preds plan)"
      "kept1 = (if CanStart w (filter (\<lambda>m. \<not> stops dialog w m) preds) then kept else kept @ [w])"
      by (rule promote_loopE)
    from Cons.IH [OF this(1)]
    have "fst ` set (toStop plan1) \<subseteq> fst ` set (toStop plan')" "set kept1 \<subseteq> set kept'" by blast+
    moreover have "fst ` set (toStop plan) \<subseteq> fst ` set (toStop plan1)"
      by (simp add: n(1) round_plan_keys)
    moreover have "set kept \<subseteq> set kept1" by (auto simp: n(2))
    ultimately show ?case by blast
  qed
  then show "fst ` set (toStop plan) \<subseteq> fst ` set (toStop plan')" and "set kept \<subseteq> set kept'"
    by blast+
qed

text \<open>Whoever is admitted contends with no predecessor, but for those the plan stops.\<close>

lemma promote_safe:
  assumes "promote_loop dialog (pre @ w # post) kept preds running plan = (kept', running', plan')"
    and "w \<notin> set kept'" and "q \<in> set (preds @ pre)" and "contends w q"
  shows "cx_contextId q \<in> fst ` set (toStop plan')"
  using assms
proof (induction pre arbitrary: kept preds running plan)
  case Nil
  let ?visible = "filter (\<lambda>m. \<not> stops dialog w m) preds"
  from Nil.prems(1) obtain kept1 running1 plan1 where
    l: "promote_loop dialog post kept1 (preds @ [w]) running1 plan1 = (kept', running', plan')"
    and n: "toStop plan1 = toStop (round_plan dialog w preds plan)"
    "kept1 = (if CanStart w ?visible then kept else kept @ [w])"
    unfolding append_Nil by (rule promote_loopE)
  have can: "CanStart w ?visible"
    using promote_grows(2) [OF l] Nil.prems(2) by (auto simp: n(2) split: if_splits)
  then have "stops dialog w q"
    using pin_admission.admitted_unblocked [OF can, of q] Nil.prems(3,4) by auto
  then have "cx_contextId q \<in> fst ` set (toStop plan1)"
    using Nil.prems(3) by (auto simp: n(1) round_plan_keys)
  then show ?case using promote_grows(1) [OF l] by blast
next
  case (Cons x pre)
  from Cons.prems(1) obtain kept1 running1 plan1 where
    l: "promote_loop dialog (pre @ w # post) kept1 (preds @ [x]) running1 plan1 = (kept', running', plan')"
    unfolding append_Cons by (rule promote_loopE)
  have "q \<in> set ((preds @ [x]) @ pre)" using Cons.prems(3) by auto
  then show ?case by (rule Cons.IH [OF l Cons.prems(2) _ Cons.prems(4)])
qed

text \<open>Whoever is stopped yields to a strictly newer waiter.\<close>

lemma promote_justified:
  assumes "promote_loop dialog ws kept preds running plan = (kept', running', plan')"
    and "e \<in> set (toStop plan')"
  shows "e \<in> set (toStop plan) \<or>
    (\<exists>c w. e = (cx_contextId c, c) \<and> c \<in> set (preds @ ws) \<and> w \<in> set ws \<and> stops dialog w c)"
  using assms
proof (induction ws arbitrary: kept preds running plan)
  case Nil
  then show ?case by simp
next
  case (Cons w ws)
  from Cons.prems(1) obtain kept1 running1 plan1 where
    l: "promote_loop dialog ws kept1 (preds @ [w]) running1 plan1 = (kept', running', plan')"
    and n: "toStop plan1 = toStop (round_plan dialog w preds plan)"
    by (rule promote_loopE)
  from Cons.IH [OF l Cons.prems(2)] show ?case
    using round_plan_entries [of e dialog w preds plan] by (auto simp: n)
qed

section \<open>The invariant of the pool\<close>

definition stop_issued :: "context_pool \<Rightarrow> u64 \<Rightarrow> bool" where
  "stop_issued p i \<longleftrightarrow> PreemptTask i \<in> set (cp_tasks p) \<or> CallStop i \<in> set (cp_calls p)"

definition exclusive :: "context_pool \<Rightarrow> bool" where
  "exclusive p \<longleftrightarrow>
     (\<forall>a \<in> snd ` set (cp_running p). \<forall>b \<in> snd ` set (cp_running p).
        a \<noteq> b \<and> contends a b \<longrightarrow> stop_issued p (cx_contextId a) \<or> stop_issued p (cx_contextId b))"

definition pool_shape :: "context_pool \<Rightarrow> bool" where
  "pool_shape p \<longleftrightarrow>
     distinct (pool_ids (cp_running p) (cp_waiting p)) \<and> entries_ok (cp_running p) \<and>
     length (cp_running p) + length (cp_waiting p) \<le> MAX_CONTEXT_NUM \<and> exclusive p"

definition pool_inv :: "context_pool \<Rightarrow> bool" where
  "pool_inv p \<longleftrightarrow> pool_shape p \<and> queue_blocked (map snd (cp_running p)) (cp_waiting p)"

lemma exclusive_mono:
  assumes "exclusive p" and "snd ` set (cp_running q) \<subseteq> snd ` set (cp_running p)"
    and "\<And>i. stop_issued p i \<Longrightarrow> i \<in> cx_contextId ` snd ` set (cp_running q) \<Longrightarrow> stop_issued q i"
  shows "exclusive q"
proof -
  have "stop_issued q (cx_contextId a) \<or> stop_issued q (cx_contextId b)"
    if "a \<in> snd ` set (cp_running q)" "b \<in> snd ` set (cp_running q)" "a \<noteq> b" "contends a b" for a b
  proof -
    have "a \<in> snd ` set (cp_running p)" "b \<in> snd ` set (cp_running p)" using that(1,2) assms(2) by blast+
    then have "stop_issued p (cx_contextId a) \<or> stop_issued p (cx_contextId b)"
      using assms(1) that(3,4) unfolding exclusive_def by blast
    then show ?thesis using assms(3) that(1,2) by blast
  qed
  then show ?thesis unfolding exclusive_def by blast
qed

lemma promote_eq:
  obtains kept running plan where
    "promote_loop (cp_dialogActive p) (cp_waiting p) [] (map snd (cp_running p)) (cp_running p) empty_plan =
       (kept, running, plan)"
    "promote p = p\<lparr>cp_waiting := kept, cp_running := running, cp_tasks := cp_tasks p @
       map (\<lambda>(_, c). PreemptTask (cx_contextId c)) (toStop plan) @
       map (\<lambda>c. StartTask (cx_contextId c)) (toStart plan)\<rparr>"
  using that
  by (cases "promote_loop (cp_dialogActive p) (cp_waiting p) [] (map snd (cp_running p)) (cp_running p) empty_plan")
    (auto simp: promote_def PromoteWaitingLocked_def ExecutePlan_def)

lemma promote_stop_entries:
  assumes "promote_loop dialog ws [] preds running empty_plan = (kept, running', plan)"
    and "i \<in> fst ` set (toStop plan)"
  shows "PreemptTask i \<in> set (map (\<lambda>(_, c). PreemptTask (cx_contextId c)) (toStop plan))"
  using assms(2) promote_justified [OF assms(1)] by (fastforce simp: empty_plan_def)

text \<open>Any two admitted or running contenders: the plan stops the one that came first.\<close>

lemma promote_contenders:
  assumes l: "promote_loop dialog ws [] preds running empty_plan = (kept, running', plan)"
    and "distinct ws" and "a \<in> set ws" and "a \<notin> set kept" and "contends a b"
    and "b \<in> set preds \<or> b \<in> set ws \<and> b \<notin> set kept \<and> a \<noteq> b"
  shows "cx_contextId a \<in> fst ` set (toStop plan) \<or> cx_contextId b \<in> fst ` set (toStop plan)"
proof -
  obtain pre post where ws: "ws = pre @ a # post" using assms(3) by (meson split_list)
  consider "b \<in> set (preds @ pre)" | "b \<in> set post" "b \<notin> set kept"
    using assms(6) by (auto simp: ws)
  then show ?thesis
  proof cases
    case 1
    then show ?thesis using promote_safe [OF l [unfolded ws] assms(4) 1 assms(5)] by simp
  next
    case 2
    obtain p2 q2 where post: "post = p2 @ b # q2" using 2(1) by (meson split_list)
    have w2: "ws = (pre @ a # p2) @ b # q2" by (simp add: ws post)
    show ?thesis
      using promote_safe [OF l [unfolded w2] 2(2) _ contends_sym [OF assms(5)]] by simp
  qed
qed

lemma promote_inv:
  assumes "pool_shape p"
  shows "pool_inv (promote p)"
proof -
  obtain kept running plan where
    l: "promote_loop (cp_dialogActive p) (cp_waiting p) [] (map snd (cp_running p)) (cp_running p) empty_plan =
       (kept, running, plan)"
    and pr: "promote p = p\<lparr>cp_waiting := kept, cp_running := running, cp_tasks := cp_tasks p @
       map (\<lambda>(_, c). PreemptTask (cx_contextId c)) (toStop plan) @
       map (\<lambda>c. StartTask (cx_contextId c)) (toStart plan)\<rparr>"
    by (rule promote_eq)
  have sh: "distinct (pool_ids (cp_running p) (cp_waiting p))" "entries_ok (cp_running p)"
    "length (cp_running p) + length (cp_waiting p) \<le> MAX_CONTEXT_NUM" "exclusive p"
    using assms by (simp_all add: pool_shape_def)
  obtain adm where adm: "running = cp_running p @ admit adm" "mset kept + mset adm = mset (cp_waiting p)"
    using promote_shape [OF l] sh(1) by auto
  have dw: "distinct (cp_waiting p)" using sh(1) by (auto simp: pool_ids_def distinct_map)
  have "distinct (kept @ adm)" using dw adm(2) by (metis mset_append mset_eq_imp_distinct_iff)
  then have disj: "c \<in> set adm \<Longrightarrow> c \<in> set (cp_waiting p) \<and> c \<notin> set kept" for c
    using adm(2) by (metis Un_iff disjoint_iff distinct_append set_append set_mset_mset set_mset_union mset_append)
  have "mset (pool_ids running kept) = mset (pool_ids (cp_running p) (cp_waiting p))"
    using arg_cong [OF adm(2), of "image_mset cx_contextId"] by (simp add: pool_ids_def adm(1) ac_simps)
  then have d: "distinct (pool_ids running kept)" using sh(1) by (metis mset_eq_imp_distinct_iff)
  have "length kept + length adm = length (cp_waiting p)"
    using arg_cong [OF adm(2), of size] by simp
  then have len: "length running + length kept \<le> MAX_CONTEXT_NUM"
    using sh(3) by (simp add: adm(1) admit_def)
  have ent: "entries_ok running"
    using sh(2) admit_simps(6) [of adm] by (simp add: adm(1) entries_ok_def)
  have blocked: "queue_blocked (map snd running) kept"
    by (rule promote_blocked [OF l]) (use sh(1) in simp_all)
  have "exclusive (promote p)"
    unfolding exclusive_def
  proof (intro ballI impI, elim conjE)
    fix a b
    assume ab: "a \<in> snd ` set (cp_running (promote p))" "b \<in> snd ` set (cp_running (promote p))"
      "a \<noteq> b" "contends a b"
    have iss: "i \<in> fst ` set (toStop plan) \<or> stop_issued p i \<Longrightarrow> stop_issued (promote p) i" for i
      using promote_stop_entries [OF l, of i] by (auto simp: stop_issued_def pr)
    have mem: "c \<in> snd ` set (cp_running p) \<or> c \<in> set adm" if "c \<in> snd ` set (cp_running (promote p))" for c
      using that by (auto simp: pr adm(1) image_Un)
    consider "a \<in> snd ` set (cp_running p)" "b \<in> snd ` set (cp_running p)" | "a \<in> set adm" | "b \<in> set adm"
      using mem ab(1,2) by blast
    then show "stop_issued (promote p) (cx_contextId a) \<or> stop_issued (promote p) (cx_contextId b)"
    proof cases
      case 1
      then show ?thesis using sh(4) ab(3,4) iss unfolding exclusive_def by blast
    next
      case 2
      then have "b \<in> set (map snd (cp_running p)) \<or> b \<in> set (cp_waiting p) \<and> b \<notin> set kept \<and> a \<noteq> b"
        using mem [OF ab(2)] disj [of b] ab(3) by auto
      then have "cx_contextId a \<in> fst ` set (toStop plan) \<or> cx_contextId b \<in> fst ` set (toStop plan)"
        using promote_contenders [OF l dw _ _ ab(4)] disj [OF 2] by blast
      then show ?thesis using iss by blast
    next
      case 3
      then have "a \<in> set (map snd (cp_running p)) \<or> a \<in> set (cp_waiting p) \<and> a \<notin> set kept \<and> b \<noteq> a"
        using mem [OF ab(1)] disj [of a] ab(3) by auto
      then have "cx_contextId b \<in> fst ` set (toStop plan) \<or> cx_contextId a \<in> fst ` set (toStop plan)"
        using promote_contenders [OF l dw _ _ contends_sym [OF ab(4)]] disj [OF 3] by blast
      then show ?thesis using iss by blast
    qed
  qed
  then show ?thesis using d len ent blocked by (simp add: pool_inv_def pool_shape_def pr)
qed

section \<open>Every operation keeps the invariant\<close>

lemma find_waiting_None:
  "List.find (\<lambda>c. cx_contextId c = i) ws = None \<longleftrightarrow> i \<notin> cx_contextId ` set ws"
  by (auto simp: find_None_iff)

lemma SelectLocked_None:
  "SelectLocked i p = None \<longleftrightarrow> i \<notin> set (pool_ids (cp_running p) (cp_waiting p))"
proof (cases "map_of (cp_running p) i")
  case None
  then have "i \<notin> fst ` set (cp_running p)" by (simp add: map_of_eq_None_iff)
  then show ?thesis using None by (simp add: SelectLocked_def pool_ids_def find_waiting_None)
next
  case (Some c)
  then have "i \<in> fst ` set (cp_running p)" by (force dest: map_of_SomeD)
  then show ?thesis using Some by (simp add: SelectLocked_def pool_ids_def)
qed

lemma pool_shape_same:
  assumes "pool_shape p" and "cp_running q = cp_running p" and "cp_waiting q = cp_waiting p"
    and "\<And>i. stop_issued p i \<Longrightarrow> i \<in> cx_contextId ` snd ` set (cp_running p) \<Longrightarrow> stop_issued q i"
  shows "pool_shape q"
proof -
  have "exclusive q" by (rule exclusive_mono [of p]) (use assms in \<open>auto simp: pool_shape_def\<close>)
  then show ?thesis using assms(1-3) by (simp add: pool_shape_def)
qed

lemma pool_inv_same:
  assumes "pool_inv p" and "cp_running q = cp_running p" and "cp_waiting q = cp_waiting p"
    and "\<And>i. stop_issued p i \<Longrightarrow> i \<in> cx_contextId ` snd ` set (cp_running p) \<Longrightarrow> stop_issued q i"
  shows "pool_inv q"
  using assms pool_shape_same [of p q] by (simp add: pool_inv_def)

lemma Pool_Schedule_inv:
  assumes "pool_inv p"
  shows "pool_inv (snd (Pool_Schedule c p))"
proof -
  have "pool_inv (promote (p\<lparr>cp_waiting := cp_waiting p @ [x]\<rparr>))"
    if "length (cp_running p) + length (cp_waiting p) < MAX_CONTEXT_NUM"
      "SelectLocked (cx_contextId x) p = None" for x
  proof (rule promote_inv)
    let ?q = "p\<lparr>cp_waiting := cp_waiting p @ [x]\<rparr>"
    have "exclusive ?q"
      by (rule exclusive_mono [of p]) (use assms in \<open>auto simp: pool_inv_def pool_shape_def stop_issued_def\<close>)
    then show "pool_shape ?q"
      using assms that by (auto simp: pool_inv_def pool_shape_def SelectLocked_None pool_ids_def)
  qed
  then show ?thesis using assms by (auto simp: Pool_Schedule_def split: option.splits)
qed

lemma remove_first_filter:
  "distinct (map f xs) \<Longrightarrow> remove_first (\<lambda>c. f c = i) xs = filter (\<lambda>c. f c \<noteq> i) xs"
proof (induction xs)
  case (Cons x xs)
  have "f x \<notin> f ` set xs" using Cons.prems by simp
  then have "filter (\<lambda>c. f c \<noteq> f x) xs = xs" by (intro filter_True) (metis imageI)
  then show ?case using Cons by auto
qed simp

lemma Pool_Delete_inv:
  assumes "pool_inv p"
  shows "pool_inv (snd (Pool_Delete i p))"
proof -
  let ?q = "p\<lparr>cp_waiting := remove_first (\<lambda>c. cx_contextId c = i) (cp_waiting p),
    cp_running := key_erase i (cp_running p)\<rparr>"
  have d: "distinct (map fst (cp_running p))" "distinct (map cx_contextId (cp_waiting p))"
    and sh: "pool_shape p"
    using assms by (simp_all add: pool_inv_def pool_shape_def pool_ids_def)
  have w: "cp_waiting ?q = filter (\<lambda>c. cx_contextId c \<noteq> i) (cp_waiting p)"
    using d(2) by (simp add: remove_first_filter)
  have r: "cp_running ?q = filter (\<lambda>(j, _). j \<noteq> i) (cp_running p)" by (simp add: key_erase_def)
  have "exclusive ?q"
    by (rule exclusive_mono [of p]) (use sh r in \<open>auto simp: pool_shape_def stop_issued_def\<close>)
  moreover have "distinct (pool_ids (cp_running ?q) (cp_waiting ?q))"
    using sh unfolding r w by (auto simp: pool_shape_def pool_ids_def distinct_map_filter)
  moreover have "entries_ok (cp_running ?q)" using sh unfolding r by (auto simp: pool_shape_def entries_ok_def list_all_iff)
  moreover have "length (cp_running ?q) + length (cp_waiting ?q) \<le> MAX_CONTEXT_NUM"
    using sh length_filter_le [of "\<lambda>(j, _). j \<noteq> i" "cp_running p"]
      length_filter_le [of "\<lambda>c. cx_contextId c \<noteq> i" "cp_waiting p"]
    unfolding r w pool_shape_def by linarith
  ultimately have "pool_inv (promote ?q)" by (intro promote_inv) (simp add: pool_shape_def)
  then show ?thesis using assms by (simp add: Pool_Delete_def Let_def)
qed

lemma Pool_Cancel_inv: "pool_inv p \<Longrightarrow> pool_inv (Pool_Cancel i p)"
  by (rule pool_inv_same) (simp_all add: Pool_Cancel_def stop_issued_def)

lemma CancelAll_inv: "pool_inv p \<Longrightarrow> pool_inv (CancelAll p)"
proof -
  have "pool_inv p \<Longrightarrow> pool_inv (fold Pool_Cancel ids p)" for ids
    by (induction ids arbitrary: p) (simp_all add: Pool_Cancel_inv)
  then show "pool_inv p \<Longrightarrow> pool_inv (CancelAll p)" by (simp add: CancelAll_def del: fold_append)
qed

lemma run_task_inv:
  assumes "pool_inv p" and "cp_tasks p = ts @ t # us"
  shows "pool_inv (run_task start err t (p\<lparr>cp_tasks := ts @ us\<rparr>))"
proof (rule pool_inv_same [OF assms(1)])
  let ?q = "run_task start err t (p\<lparr>cp_tasks := ts @ us\<rparr>)"
  show "cp_running ?q = cp_running p" "cp_waiting ?q = cp_waiting p"
    by (simp_all add: run_task_def StopIfPooled_def StartIfPooled_def Let_def split: pool_task.splits)
  fix i
  assume i: "stop_issued p i" "i \<in> cx_contextId ` snd ` set (cp_running p)"
  have "i \<in> fst ` set (cp_running p)"
    using i(2) assms(1) by (force simp: pool_inv_def pool_shape_def entries_ok_def list_all_iff)
  then have "SelectLocked i (p\<lparr>cp_tasks := ts @ us, cp_cancelRequested := cp_cancelRequested p - {i}\<rparr>) \<noteq> None"
    by (simp add: SelectLocked_None pool_ids_def)
  then show "stop_issued ?q i"
    using i(1) assms(2)
    by (auto simp: stop_issued_def run_task_def StopIfPooled_def StartIfPooled_def Let_def
        split: pool_task.splits)
qed

lemma pool_step_inv: "pool_inv p \<Longrightarrow> pool_step start err l p q \<Longrightarrow> pool_inv q"
proof (erule pool_stepE)
  fix f
  assume "pool_inv p" "q = p\<lparr>cp_dialogActive := f\<rparr>"
  then show "pool_inv q" by (intro pool_inv_same [of p q]) (simp_all add: stop_issued_def)
qed (auto simp: Cleaner_call_def NotifyPreemptStateChanged_def pool_inv_def [of p] promote_inv
    Pool_Schedule_inv Pool_Delete_inv Pool_Cancel_inv CancelAll_inv run_task_inv)

lemma initial_pool_inv: "pool_inv initial_pool"
  by (simp add: pool_inv_def pool_shape_def initial_pool_def pool_ids_def entries_ok_def exclusive_def)

lemma pool_run_inv: "pool_run start err p ls q \<Longrightarrow> pool_inv p \<Longrightarrow> pool_inv q"
  by (induction rule: pool_run.induct) (auto intro: pool_step_inv)

lemmas pool_reach_inv = pool_run_inv [OF _ initial_pool_inv]

section \<open>Properties\<close>

text \<open>
  Property C40: in every run the pool holds at most \<^verbatim>\<open>MAX_CONTEXT_NUM\<close> contexts, no two of them, running
  or waiting, with the same id, and finds each by its id.
\<close>

theorem pool_bounded_and_distinct:
  assumes "pool_run start err initial_pool ls p"
  shows "length (cp_running p) + length (cp_waiting p) \<le> MAX_CONTEXT_NUM \<and>
    distinct (map fst (cp_running p) @ map cx_contextId (cp_waiting p)) \<and>
    (SelectLocked i p = None \<longleftrightarrow> i \<notin> set (map fst (cp_running p) @ map cx_contextId (cp_waiting p)))"
  using pool_reach_inv [OF assms] SelectLocked_None [of i p]
  by (simp add: pool_inv_def pool_shape_def pool_ids_def)

text \<open>
  Property C33: no wake-up is lost: in every reachable pool each waiting context contends with a running
  context or with one ahead of it in the queue, so a queue that is not empty waits for a running
  context, whose removal promotes again.
\<close>

theorem pool_waiters_blocked:
  assumes "pool_run start err initial_pool ls p" and "i < length (cp_waiting p)"
  shows "(\<exists>q \<in> snd ` set (cp_running p) \<union> set (take i (cp_waiting p)). contends (cp_waiting p ! i) q) \<and>
    (\<exists>q \<in> snd ` set (cp_running p). contends (cp_waiting p ! 0) q)"
proof -
  have b: "queue_blocked (map snd (cp_running p)) (cp_waiting p)"
    using pool_reach_inv [OF assms(1)] by (simp add: pool_inv_def)
  have "0 < length (cp_waiting p)" using assms(2) by linarith
  then have "\<exists>q \<in> set (map snd (cp_running p)) \<union> set (take 0 (cp_waiting p)). contends (cp_waiting p ! 0) q"
    using b unfolding queue_blocked_def by blast
  moreover have "\<exists>q \<in> set (map snd (cp_running p)) \<union> set (take i (cp_waiting p)). contends (cp_waiting p ! i) q"
    using b assms(2) unfolding queue_blocked_def by blast
  ultimately show ?thesis by simp
qed

text \<open>
  Property C4: two contending contexts, primary authentications on the PIN of the same user with a
  sudo request among them, are in the running set together only when the pool has already issued the
  stop of one of them.
\<close>

theorem pool_pin_contention:
  assumes "pool_run start err initial_pool ls p"
    and "(i, a) \<in> set (cp_running p)" and "(j, b) \<in> set (cp_running p)" and "i \<noteq> j" and "contends a b"
  shows "\<exists>k \<in> {i, j}. PreemptTask k \<in> set (cp_tasks p) \<or> CallStop k \<in> set (cp_calls p)"
proof -
  have inv: "pool_inv p" by (rule pool_reach_inv [OF assms(1)])
  then have ids: "i = cx_contextId a" "j = cx_contextId b"
    using assms(2,3) by (auto simp: pool_inv_def pool_shape_def entries_ok_def list_all_iff)
  then have "a \<noteq> b" using assms(4) by auto
  moreover have "a \<in> snd ` set (cp_running p)" "b \<in> snd ` set (cp_running p)" using assms(2,3) by force+
  moreover have "exclusive p" using inv by (simp add: pool_inv_def pool_shape_def)
  ultimately have "stop_issued p i \<or> stop_issued p j" using assms(5) ids unfolding exclusive_def by blast
  then show ?thesis by (auto simp: stop_issued_def)
qed

text \<open>
  Also shown: promotion preempts only older contexts: whoever it stops is in the pool and yields to a
  strictly newer waiter, as a duplicate from the same caller or by its own decision, and whoever it
  starts was waiting.
\<close>

theorem promotion_preempts_older:
  assumes "PromoteWaitingLocked p = (q, plan)" and "(k, c) \<in> set (toStop plan)"
  shows "k = cx_contextId c \<and> c \<in> snd ` set (cp_running p) \<union> set (cp_waiting p) \<and>
    (\<exists>w \<in> set (cp_waiting p). cx_createTime w > cx_createTime c \<and>
       (IsSameCallerDuplicate w c \<or> GetPreemptDecision (cp_dialogActive p) c w = STOP_NOW))"
proof -
  obtain kept running where
    "promote_loop (cp_dialogActive p) (cp_waiting p) [] (map snd (cp_running p)) (cp_running p) empty_plan =
       (kept, running, plan)"
    using assms(1) by (auto simp: PromoteWaitingLocked_def split: prod.splits)
  from promote_justified [OF this assms(2)] show ?thesis
    by (auto simp: empty_plan_def stops_def)
qed

lemma run_task_starts:
  "i \<in> cp_cancelRequested p \<Longrightarrow> t \<notin> {CancelTask i, PreemptTask i} \<Longrightarrow>
     i \<in> cp_cancelRequested (run_task start err t p) \<and>
     filter (\<lambda>c. c = CallStart i) (cp_calls (run_task start err t p)) = filter (\<lambda>c. c = CallStart i) (cp_calls p)"
  by (auto simp: run_task_def StopIfPooled_def StartIfPooled_def Let_def split: pool_task.splits)

lemma promote_cancel [simp]:
  "cp_cancelRequested (promote p) = cp_cancelRequested p" "cp_calls (promote p) = cp_calls p"
  by (simp_all add: promote_def PromoteWaitingLocked_def ExecutePlan_def split: prod.splits)

lemma fold_Pool_Cancel:
  "cp_cancelRequested p \<subseteq> cp_cancelRequested (fold Pool_Cancel ids p) \<and>
   cp_calls (fold Pool_Cancel ids p) = cp_calls p"
proof (induction ids arbitrary: p)
  case (Cons i ids)
  then show ?case using Cons [of "Pool_Cancel i p"] by (auto simp: Pool_Cancel_def)
qed simp

text \<open>
  Property C35: once a context was cancelled it is not started, whatever else happens, before a stop
  task for it has run, even if its start task was posted earlier.
\<close>

theorem cancelled_not_started:
  assumes "pool_run start err (Pool_Cancel i p) ls q"
    and "PTask (CancelTask i) \<notin> set ls" and "PTask (PreemptTask i) \<notin> set ls"
  shows "filter (\<lambda>c. c = CallStart i) (cp_calls q) = filter (\<lambda>c. c = CallStart i) (cp_calls p)"
proof -
  have "i \<in> cp_cancelRequested q \<and>
      filter (\<lambda>c. c = CallStart i) (cp_calls q) = filter (\<lambda>c. c = CallStart i) (cp_calls p)"
    using assms
  proof (induction rule: pool_run.induct)
    case run_nil
    then show ?case by (simp add: Pool_Cancel_def)
  next
    case (run_snoc ls q l q')
    then have ih: "i \<in> cp_cancelRequested q"
      "filter (\<lambda>c. c = CallStart i) (cp_calls q) = filter (\<lambda>c. c = CallStart i) (cp_calls p)" by simp_all
    from run_snoc.hyps(2) show ?case
    proof cases
      case (pool_task ts t us)
      then show ?thesis
        using run_task_starts [of i "q\<lparr>cp_tasks := ts @ us\<rparr>" t start err] ih run_snoc.prems by auto
    next
      case pool_cancel_all
      then show ?thesis using fold_Pool_Cancel [of q] ih by (auto simp: CancelAll_def simp del: fold_append)
    qed (use ih in \<open>auto simp: Pool_Schedule_def Pool_Cancel_def Pool_Delete_def Cleaner_call_def
        NotifyPreemptStateChanged_def Let_def split: option.splits\<close>)
  qed
  then show ?thesis by simp
qed

text \<open>A context id is fresh when it is neither reserved nor in the pool.\<close>

definition fresh_id :: "context_pool \<Rightarrow> u64 \<Rightarrow> bool" where
  "fresh_id p r \<longleftrightarrow> r \<noteq> 0 \<and> r \<noteq> REUSE_AUTH_RESULT_CONTEXT_ID \<and> SelectLocked r p = None"

lemma new_id_loop_bad:
  "(\<And>j. j < n \<Longrightarrow> \<exists>r. draws (i + j) = Some r \<and> \<not> fresh_id p r) \<Longrightarrow>
     new_id_loop p n draws i contextId = (if n = 0 then contextId else the (draws (i + n - 1)))"
proof (induction n arbitrary: i contextId)
  case (Suc n)
  obtain r where r: "draws i = Some r" "\<not> fresh_id p r" using Suc.prems [of 0] by auto
  have "new_id_loop p n draws (Suc i) r = (if n = 0 then r else the (draws (Suc i + n - 1)))"
    using Suc.prems by (intro Suc.IH) (metis Suc_less_eq add_Suc_shift)
  then show ?case using r by (auto simp: fresh_id_def)
qed simp

lemma new_id_loop_good:
  "(\<And>j. j < k \<Longrightarrow> \<exists>r. draws (i + j) = Some r \<and> \<not> fresh_id p r) \<Longrightarrow> k < n \<Longrightarrow>
     draws (i + k) = Some r \<Longrightarrow> fresh_id p r \<Longrightarrow> new_id_loop p n draws i contextId = r"
proof (induction k arbitrary: i n contextId)
  case 0
  then show ?case by (cases n) (auto simp: fresh_id_def)
next
  case (Suc k)
  obtain x where x: "draws i = Some x" "\<not> fresh_id p x" using Suc.prems(1) [of 0] by auto
  obtain m where n: "n = Suc m" using Suc.prems(2) by (cases n) auto
  have "\<exists>r. draws (Suc i + j) = Some r \<and> \<not> fresh_id p r" if "j < k" for j
    using Suc.prems(1) [of "Suc j"] that by simp
  then have "new_id_loop p m draws (Suc i) x = r"
    by (rule Suc.IH) (use Suc.prems(2-4) n in auto)
  then show ?case using x by (auto simp: fresh_id_def n)
qed

text \<open>
  Also shown: a new context id is the first fresh one of ten random draws; when none of the ten is
  fresh the function still returns the last draw, although that id is reserved or taken.
\<close>

theorem new_context_id:
  assumes "\<forall>j < MAX_TRY_TIMES. draws j \<noteq> None"
  shows "(\<forall>k < MAX_TRY_TIMES. (\<forall>j < k. \<not> fresh_id p (the (draws j))) \<and> fresh_id p (the (draws k)) \<longrightarrow>
      GetNewContextId draws p = the (draws k)) \<and>
    ((\<forall>j < MAX_TRY_TIMES. \<not> fresh_id p (the (draws j))) \<longrightarrow>
      GetNewContextId draws p = the (draws (MAX_TRY_TIMES - 1)))"
proof (intro conjI allI impI)
  fix k
  assume k: "k < MAX_TRY_TIMES" "(\<forall>j < k. \<not> fresh_id p (the (draws j))) \<and> fresh_id p (the (draws k))"
  have "draws j = Some (the (draws j))" if "j \<le> k" for j using assms k(1) that by auto
  then have "\<And>j. j < k \<Longrightarrow> \<exists>r. draws (0 + j) = Some r \<and> \<not> fresh_id p r" "draws (0 + k) = Some (the (draws k))"
    using k(2) by (metis add_0 less_imp_le, simp)
  then show "GetNewContextId draws p = the (draws k)"
    unfolding GetNewContextId_def using new_id_loop_good [of k draws 0 p MAX_TRY_TIMES] k by blast
next
  assume a: "\<forall>j < MAX_TRY_TIMES. \<not> fresh_id p (the (draws j))"
  have "\<exists>r. draws (0 + j) = Some r \<and> \<not> fresh_id p r" if "j < MAX_TRY_TIMES" for j
    using a assms that by (metis add_0 option.collapse)
  then show "GetNewContextId draws p = the (draws (MAX_TRY_TIMES - 1))"
    unfolding GetNewContextId_def
    using new_id_loop_bad [of MAX_TRY_TIMES draws 0 p 0] by (simp add: MAX_TRY_TIMES_def)
qed

section \<open>Witnesses\<close>

definition w_sudo :: auth_context where
  "w_sudo = \<lparr>cx_contextId = 11, cx_createTime = 1, cx_contextType = SUDO_AUTH_CONTEXT, cx_primary = True,
     cx_callerName = [1], cx_authType = PIN, cx_userId = 100, cx_tokenId = 7, cx_authIntent = SUDO_PIN_AUTH,
     cx_authTypeList = [PIN]\<rparr>"

definition w_pin :: auth_context where
  "w_pin = \<lparr>cx_contextId = 12, cx_createTime = 2, cx_contextType = CONTEXT_SIMPLE_AUTH, cx_primary = True,
     cx_callerName = [2], cx_authType = PIN, cx_userId = 100, cx_tokenId = 7, cx_authIntent = 0, cx_authTypeList = [PIN]\<rparr>"

definition w_start :: "context_call list \<Rightarrow> u64 \<Rightarrow> bool" where
  "w_start calls i = True"

definition w_err :: "context_call list \<Rightarrow> u64 \<Rightarrow> i32" where
  "w_err calls i = GENERAL_ERROR"

definition w_waiting :: context_pool where
  "w_waiting = \<lparr>cp_running = [(11, w_sudo)], cp_waiting = [w_pin], cp_cancelRequested = {},
     cp_dialogActive = (\<lambda>_. False), cp_tasks = [StartTask 11], cp_calls = []\<rparr>"

definition w_preempt :: context_pool where
  "w_preempt = \<lparr>cp_running = [(11, w_sudo), (12, w_pin)], cp_waiting = [], cp_cancelRequested = {},
     cp_dialogActive = (\<lambda>_. True), cp_tasks = [StartTask 11, PreemptTask 11, StartTask 12], cp_calls = []\<rparr>"

lemmas w_pool_eval =
  promote_def PromoteWaitingLocked_def ExecutePlan_def empty_plan_def plan_stop_def IsSameCallerDuplicate_def
  GetPreemptDecision_def Sudo_GetPreemptDecision_def CanStart_def Policy_CanStart_def IsAuthContext_def
  BearsPin_def BlockedBySudoPinContention_def Let_def w_sudo_def w_pin_def

lemma w_waiting_run:
  "pool_run w_start w_err initial_pool [PSchedule (Some w_sudo), PSchedule (Some w_pin)] w_waiting"
proof -
  let ?p = "w_waiting\<lparr>cp_waiting := []\<rparr>"
  have "snd (Pool_Schedule (Some w_sudo) initial_pool) = ?p"
    by (simp add: Pool_Schedule_def initial_pool_def MAX_CONTEXT_NUM_def SelectLocked_def w_waiting_def w_pool_eval)
  then have r: "pool_run w_start w_err initial_pool [PSchedule (Some w_sudo)] ?p"
    using run_snoc [OF run_nil pool_schedule] by (metis append_Nil)
  have "snd (Pool_Schedule (Some w_pin) ?p) = w_waiting"
    by (simp add: Pool_Schedule_def MAX_CONTEXT_NUM_def SelectLocked_def w_waiting_def w_pool_eval)
  then show ?thesis using run_snoc [OF r pool_schedule, of "Some w_pin"] by simp
qed

lemma w_preempt_run: "\<exists>ls. pool_run w_start w_err initial_pool ls w_preempt"
proof -
  let ?p = "w_waiting\<lparr>cp_dialogActive := \<lambda>_. True\<rparr>"
  have "NotifyPreemptStateChanged ?p = w_preempt"
    by (simp add: NotifyPreemptStateChanged_def w_waiting_def w_preempt_def w_pool_eval)
  then show ?thesis
    using run_snoc [OF run_snoc [OF w_waiting_run pool_dialog [of _ _ "\<lambda>_. True"]] pool_notify] by metis
qed

lemma w_contends: "contends w_sudo w_pin"
  by (simp add: contends_def primary_auth_def w_pool_eval)

lemma pool_bounded_and_distinct_witness:
  "distinct (map fst (cp_running w_waiting) @ map cx_contextId (cp_waiting w_waiting)) \<and>
   SelectLocked 99 w_waiting = None"
  using pool_bounded_and_distinct [OF w_waiting_run, of 99] by (simp add: w_waiting_def w_sudo_def w_pin_def)

lemma pool_waiters_blocked_witness: "\<exists>q \<in> snd ` set (cp_running w_waiting). contends w_pin q"
  using pool_waiters_blocked [OF w_waiting_run, of 0] by (simp add: w_waiting_def)

lemma pool_pin_contention_witness:
  "\<exists>k \<in> {11, 12}. PreemptTask k \<in> set (cp_tasks w_preempt) \<or> CallStop k \<in> set (cp_calls w_preempt)"
proof -
  obtain ls where r: "pool_run w_start w_err initial_pool ls w_preempt" using w_preempt_run by blast
  show ?thesis
    using pool_pin_contention [OF r, of 11 w_sudo 12 w_pin] w_contends by (simp add: w_preempt_def)
qed

lemma promotion_preempts_older_witness:
  "\<exists>w \<in> {w_pin}. cx_createTime w > cx_createTime w_sudo"
proof -
  let ?p = "w_waiting\<lparr>cp_dialogActive := \<lambda>_. True\<rparr>"
  have "(11, w_sudo) \<in> set (toStop (snd (PromoteWaitingLocked ?p)))"
    by (simp add: w_waiting_def w_pool_eval)
  then show ?thesis
    using promotion_preempts_older [OF prod.collapse [symmetric], of 11 w_sudo ?p] by (simp add: w_waiting_def)
qed

lemma cancelled_not_started_witness:
  "filter (\<lambda>c. c = CallStart 11) (cp_calls
     (run_task w_start w_err (StartTask 11) ((Pool_Cancel 11 w_waiting)\<lparr>cp_tasks := [CancelTask 11]\<rparr>))) = []"
proof -
  have "cp_tasks (Pool_Cancel 11 w_waiting) = [] @ StartTask 11 # [CancelTask 11]"
    by (simp add: Pool_Cancel_def w_waiting_def)
  from cancelled_not_started [OF run_snoc [OF run_nil pool_task [OF this]]] show ?thesis
    by (simp add: w_waiting_def)
qed

lemma new_context_id_witness: "GetNewContextId (\<lambda>_. Some 11) w_waiting = 11"
  using new_context_id [of "\<lambda>_. Some 11" w_waiting]
  by (simp add: fresh_id_def SelectLocked_def w_waiting_def)

end
