(* ===== verification/Schedule_Build.thy ===== *)
theory Schedule_Build
  imports Schedule_Runs
begin

text \<open>
  From the engine's schedule descriptions to schedule nodes: \<^verbatim>\<open>services/core/src/schedule_node_builder.cpp\<close>
  and \<^verbatim>\<open>schedule_node_helper.cpp\<close>. A builder collects a \<open>schedule_info\<close>; the helper finds the executors
  of a description in the resource pool and builds one node for each description, or none at all.
  Executors are references into the pool's heap; a node starts out with all of them alive.
\<close>

section \<open>The builder\<close>

record schedule_builder =
  sb_info :: schedule_info
  sb_collector :: "node_ref option"
  sb_verifier :: "node_ref option"

definition default_info :: schedule_info where
  "default_info = \<lparr>si_scheduleId = 0, si_tokenId = None, si_collectorTokenId = 0, si_pinSubType = 0,
     si_contextId = 0, si_expiredTime = 0, si_templateIdList = [], si_authType = PIN,
     si_executorMatcher = 0, si_scheduleMode = 1, si_collector = None, si_verifier = None,
     si_threadHandler = False, si_callback = False, si_endAfterFirstFail = False,
     si_collectorMessage = [], si_verifierMessage = [], si_authIntent = 0, si_userId = 0,
     si_additionalInfo = [], si_title = [], si_authScene = 0\<rparr>"

definition node_info :: "rpool \<Rightarrow> node_ref \<Rightarrow> executor_register_info" where
  "node_info p ref = rn_info (rp_heap p ref)"

definition ScheduleNodeBuilder ::
  "rpool \<Rightarrow> node_ref option \<Rightarrow> node_ref option \<Rightarrow> schedule_builder" where
  "ScheduleNodeBuilder p collector verifier =
     \<lparr>sb_info = (case collector of
          None \<Rightarrow> default_info
        | Some c \<Rightarrow> default_info\<lparr>si_authType := ei_authType (node_info p c)\<rparr>)\<lparr>si_endAfterFirstFail := False\<rparr>,
      sb_collector = collector, sb_verifier = verifier\<rparr>"

definition CheckExecutors :: "rpool \<Rightarrow> node_ref option \<Rightarrow> node_ref option \<Rightarrow> bool" where
  "CheckExecutors p collector verifier =
     (case collector of
        None \<Rightarrow> False
      | Some c \<Rightarrow>
          (case verifier of
             None \<Rightarrow> False
           | Some v \<Rightarrow>
               if ei_authType (node_info p c) \<noteq> ei_authType (node_info p v) then False
               else if ei_executorMatcher (node_info p c) \<noteq> ei_executorMatcher (node_info p v) then False
               else if c = v \<and> ei_executorRole (node_info p c) = ALL_IN_ONE then True
               else if ei_executorRole (node_info p c) = COLLECTOR \<and>
                       ei_executorRole (node_info p v) = VERIFIER then True
               else False))"

definition Sched_Builder_New ::
  "rpool \<Rightarrow> node_ref option \<Rightarrow> node_ref option \<Rightarrow> schedule_builder option" where
  "Sched_Builder_New p collector verifier =
     (if \<not> CheckExecutors p collector verifier then None
      else Some (ScheduleNodeBuilder p collector verifier))"

definition B_SetScheduleId :: "u64 \<Rightarrow> schedule_builder \<Rightarrow> schedule_builder" where
  "B_SetScheduleId v b = b\<lparr>sb_info := (sb_info b)\<lparr>si_scheduleId := v\<rparr>\<rparr>"

definition B_SetAccessTokenId :: "u32 \<Rightarrow> schedule_builder \<Rightarrow> schedule_builder" where
  "B_SetAccessTokenId v b = b\<lparr>sb_info := (sb_info b)\<lparr>si_tokenId := Some v\<rparr>\<rparr>"

definition B_SetCollectorTokenId :: "u32 \<Rightarrow> schedule_builder \<Rightarrow> schedule_builder" where
  "B_SetCollectorTokenId v b = b\<lparr>sb_info := (sb_info b)\<lparr>si_collectorTokenId := v\<rparr>\<rparr>"

definition B_SetPinSubType :: "i32 \<Rightarrow> schedule_builder \<Rightarrow> schedule_builder" where
  "B_SetPinSubType v b = b\<lparr>sb_info := (sb_info b)\<lparr>si_pinSubType := v\<rparr>\<rparr>"

definition B_SetTemplateIdList :: "u64 list \<Rightarrow> schedule_builder \<Rightarrow> schedule_builder" where
  "B_SetTemplateIdList v b = b\<lparr>sb_info := (sb_info b)\<lparr>si_templateIdList := v\<rparr>\<rparr>"

definition B_SetAuthType :: "i32 \<Rightarrow> schedule_builder \<Rightarrow> schedule_builder" where
  "B_SetAuthType v b = b\<lparr>sb_info := (sb_info b)\<lparr>si_authType := v\<rparr>\<rparr>"

definition B_SetExecutorMatcher :: "u32 \<Rightarrow> schedule_builder \<Rightarrow> schedule_builder" where
  "B_SetExecutorMatcher v b = b\<lparr>sb_info := (sb_info b)\<lparr>si_executorMatcher := v\<rparr>\<rparr>"

definition B_SetScheduleMode :: "i32 \<Rightarrow> schedule_builder \<Rightarrow> schedule_builder" where
  "B_SetScheduleMode v b = b\<lparr>sb_info := (sb_info b)\<lparr>si_scheduleMode := v\<rparr>\<rparr>"

definition B_SetScheduleCallback :: "bool \<Rightarrow> schedule_builder \<Rightarrow> schedule_builder" where
  "B_SetScheduleCallback v b = b\<lparr>sb_info := (sb_info b)\<lparr>si_callback := v\<rparr>\<rparr>"

definition B_SetExpiredTime :: "u32 \<Rightarrow> schedule_builder \<Rightarrow> schedule_builder" where
  "B_SetExpiredTime v b = b\<lparr>sb_info := (sb_info b)\<lparr>si_expiredTime := ucast v\<rparr>\<rparr>"

definition B_SetThreadHandler :: "bool \<Rightarrow> schedule_builder \<Rightarrow> schedule_builder" where
  "B_SetThreadHandler v b = b\<lparr>sb_info := (sb_info b)\<lparr>si_threadHandler := v\<rparr>\<rparr>"

definition B_SetEndAfterFirstFail :: "bool \<Rightarrow> schedule_builder \<Rightarrow> schedule_builder" where
  "B_SetEndAfterFirstFail v b = b\<lparr>sb_info := (sb_info b)\<lparr>si_endAfterFirstFail := v\<rparr>\<rparr>"

definition B_SetCollectorMessage :: "bytes \<Rightarrow> schedule_builder \<Rightarrow> schedule_builder" where
  "B_SetCollectorMessage v b = b\<lparr>sb_info := (sb_info b)\<lparr>si_collectorMessage := v\<rparr>\<rparr>"

definition B_SetVerifierMessage :: "bytes \<Rightarrow> schedule_builder \<Rightarrow> schedule_builder" where
  "B_SetVerifierMessage v b = b\<lparr>sb_info := (sb_info b)\<lparr>si_verifierMessage := v\<rparr>\<rparr>"

definition B_SetAuthIntent :: "i32 \<Rightarrow> schedule_builder \<Rightarrow> schedule_builder" where
  "B_SetAuthIntent v b = b\<lparr>sb_info := (sb_info b)\<lparr>si_authIntent := v\<rparr>\<rparr>"

definition B_SetUserId :: "i32 \<Rightarrow> schedule_builder \<Rightarrow> schedule_builder" where
  "B_SetUserId v b = b\<lparr>sb_info := (sb_info b)\<lparr>si_userId := v\<rparr>\<rparr>"

definition B_SetAdditionalInfo :: "bytes \<Rightarrow> schedule_builder \<Rightarrow> schedule_builder" where
  "B_SetAdditionalInfo v b = b\<lparr>sb_info := (sb_info b)\<lparr>si_additionalInfo := v\<rparr>\<rparr>"

definition B_SetTitle :: "bytes \<Rightarrow> schedule_builder \<Rightarrow> schedule_builder" where
  "B_SetTitle v b = b\<lparr>sb_info := (sb_info b)\<lparr>si_title := v\<rparr>\<rparr>"

definition B_SetAuthScene :: "i32 \<Rightarrow> schedule_builder \<Rightarrow> schedule_builder" where
  "B_SetAuthScene v b = b\<lparr>sb_info := (sb_info b)\<lparr>si_authScene := v\<rparr>\<rparr>"

definition CheckParameters :: "rpool \<Rightarrow> schedule_builder \<Rightarrow> bool" where
  "CheckParameters p b =
     (case sb_collector b of
        Some c \<Rightarrow> if ei_authType (node_info p c) \<noteq> si_authType (sb_info b) then False else True
      | None \<Rightarrow> True)"

definition Sched_Builder_Build :: "string \<Rightarrow> rpool \<Rightarrow> schedule_builder \<Rightarrow> sched_state option" where
  "Sched_Builder_Build description p b =
     (if \<not> CheckParameters p b then None
      else Init description (\<lambda>ref. Some (rp_heap p ref))
             ((sb_info b)\<lparr>si_collector := sb_collector b, si_verifier := sb_verifier b\<rparr>))"

section \<open>The helper\<close>

record eng_schedule_info =
  es_scheduleId :: u64
  es_templateIds :: "u64 list"
  es_authType :: i32
  es_executorMatcher :: u32
  es_scheduleMode :: i32
  es_executorIndexes :: "u64 list"
  es_executorMessages :: "bytes list"

record node_optional_para =
  np_expire :: "u32 option"
  np_tokenId :: "u32 option"
  np_collectorTokenId :: u32
  np_pinSubType :: "i32 option"
  np_endAfterFirstFail :: "bool option"
  np_authIntent :: i32
  np_userId :: i32
  np_additionalInfo :: bytes
  np_title :: bytes
  np_authScene :: i32

record found_executors =
  fe_collector :: "node_ref option"
  fe_verifier :: "node_ref option"
  fe_collectorMessage :: bytes
  fe_verifierMessage :: bytes

fun find_executors :: "rpool \<Rightarrow> (u64 \<times> bytes) list \<Rightarrow> found_executors \<Rightarrow> found_executors option" where
  "find_executors p [] f = Some f"
| "find_executors p ((executorIndex, msg) # xs) f =
     (case pool_Select executorIndex p of
        None \<Rightarrow> None
      | Some r \<Rightarrow>
          if ei_executorRole (node_info p r) = COLLECTOR
          then find_executors p xs (f\<lparr>fe_collector := Some r, fe_collectorMessage := msg\<rparr>)
          else if ei_executorRole (node_info p r) = VERIFIER
          then find_executors p xs (f\<lparr>fe_verifier := Some r, fe_verifierMessage := msg\<rparr>)
          else if ei_executorRole (node_info p r) = ALL_IN_ONE
          then find_executors p xs
                 (f\<lparr>fe_collector := Some r, fe_verifier := Some r, fe_verifierMessage := msg\<rparr>)
          else find_executors p xs f)"

definition ScheduleInfoToExecutors :: "rpool \<Rightarrow> eng_schedule_info \<Rightarrow> found_executors option" where
  "ScheduleInfoToExecutors p info =
     (if length (es_executorIndexes info) \<noteq> length (es_executorMessages info) then None
      else if length (es_executorIndexes info) = 0 then None
      else case find_executors p (zip (es_executorIndexes info) (es_executorMessages info))
                  \<lparr>fe_collector = None, fe_verifier = None, fe_collectorMessage = [],
                   fe_verifierMessage = []\<rparr> of
             None \<Rightarrow> None
           | Some f \<Rightarrow>
               if fe_collector f = None then None else if fe_verifier f = None then None else Some f)"

text \<open>The builder calls of the helper, in its order.\<close>

definition configure ::
  "eng_schedule_info \<Rightarrow> node_optional_para \<Rightarrow> bool \<Rightarrow> found_executors \<Rightarrow> schedule_builder \<Rightarrow>
   schedule_builder" where
  "configure info para callback f b =
     (let b = (case np_tokenId para of None \<Rightarrow> b | Some t \<Rightarrow> B_SetAccessTokenId t b);
          b = B_SetAuthType (es_authType info) b;
          b = B_SetExecutorMatcher (es_executorMatcher info) b;
          b = B_SetScheduleId (es_scheduleId info) b;
          b = B_SetTemplateIdList (es_templateIds info) b;
          b = B_SetScheduleMode (es_scheduleMode info) b;
          b = B_SetExpiredTime (case np_expire para of None \<Rightarrow> 0 | Some e \<Rightarrow> e) b;
          b = B_SetPinSubType (case np_pinSubType para of None \<Rightarrow> PIN_MAX | Some t \<Rightarrow> t) b;
          b = B_SetScheduleCallback callback b;
          b = B_SetEndAfterFirstFail (case np_endAfterFirstFail para of None \<Rightarrow> False | Some e \<Rightarrow> e) b;
          b = B_SetCollectorTokenId (np_collectorTokenId para) b;
          b = B_SetCollectorMessage (fe_collectorMessage f) b;
          b = B_SetVerifierMessage (fe_verifierMessage f) b;
          b = B_SetAuthIntent (np_authIntent para) b;
          b = B_SetUserId (np_userId para) b;
          b = B_SetAdditionalInfo (np_additionalInfo para) b;
          b = B_SetTitle (np_title para) b
      in B_SetAuthScene (np_authScene para) b)"

definition ScheduleInfoToScheduleNode ::
  "string \<Rightarrow> rpool \<Rightarrow> node_optional_para \<Rightarrow> bool \<Rightarrow> eng_schedule_info \<Rightarrow> sched_state option" where
  "ScheduleInfoToScheduleNode description p para callback info =
     (if es_executorIndexes info = [] then None
      else case ScheduleInfoToExecutors p info of
             None \<Rightarrow> None
           | Some f \<Rightarrow>
               (case Sched_Builder_New p (fe_collector f) (fe_verifier f) of
                  None \<Rightarrow> None
                | Some b \<Rightarrow> Sched_Builder_Build description p (configure info para callback f b)))"

fun build_loop ::
  "string \<Rightarrow> rpool \<Rightarrow> node_optional_para \<Rightarrow> bool \<Rightarrow> eng_schedule_info list \<Rightarrow> sched_state list \<Rightarrow>
   sched_state list option" where
  "build_loop description p para callback [] outputs = Some outputs"
| "build_loop description p para callback (info # infos) outputs =
     (case ScheduleInfoToScheduleNode description p para callback info of
        None \<Rightarrow> None
      | Some node \<Rightarrow> build_loop description p para callback infos (outputs @ [node]))"

text \<open>The result with the caller's vector, which is replaced on success only.\<close>

definition BuildFromHdi ::
  "string \<Rightarrow> rpool \<Rightarrow> node_optional_para \<Rightarrow> bool \<Rightarrow> eng_schedule_info list \<Rightarrow> sched_state list \<Rightarrow>
   bool \<times> sched_state list" where
  "BuildFromHdi description p para callback infos nodes =
     (case build_loop description p para callback infos [] of
        None \<Rightarrow> (False, nodes)
      | Some outputs \<Rightarrow> (True, outputs))"

section \<open>Lemmas\<close>

lemmas builder_defs =
  B_SetScheduleId_def B_SetAccessTokenId_def B_SetCollectorTokenId_def B_SetPinSubType_def
  B_SetTemplateIdList_def B_SetAuthType_def B_SetExecutorMatcher_def B_SetScheduleMode_def
  B_SetScheduleCallback_def B_SetExpiredTime_def B_SetThreadHandler_def B_SetEndAfterFirstFail_def
  B_SetCollectorMessage_def B_SetVerifierMessage_def B_SetAuthIntent_def B_SetUserId_def
  B_SetAdditionalInfo_def B_SetTitle_def B_SetAuthScene_def

text \<open>What is found comes from the pool, and has its role.\<close>

definition found_in :: "rpool \<Rightarrow> u64 list \<Rightarrow> found_executors \<Rightarrow> bool" where
  "found_in p ks f \<longleftrightarrow>
     (\<forall>c. fe_collector f = Some c \<longrightarrow> (\<exists>k \<in> set ks. pool_Select k p = Some c)) \<and>
     (\<forall>v. fe_verifier f = Some v \<longrightarrow> (\<exists>k \<in> set ks. pool_Select k p = Some v))"

lemma found_in_mono: "found_in p ks f \<Longrightarrow> set ks \<subseteq> set js \<Longrightarrow> found_in p js f"
  unfolding found_in_def by blast

lemma find_executors_found:
  "find_executors p xs f = Some g \<Longrightarrow> found_in p ks f \<Longrightarrow> found_in p (ks @ map fst xs) g"
proof (induction p xs f arbitrary: ks rule: find_executors.induct)
  case (1 p f)
  then show ?case by simp
next
  case (2 p k msg xs f)
  obtain r where r: "pool_Select k p = Some r" using "2.prems"(1) by (auto split: option.splits)
  have "found_in p (ks @ [k]) f" using "2.prems"(2) by (rule found_in_mono) auto
  then have "found_in p (ks @ [k]) (f\<lparr>fe_collector := Some r, fe_collectorMessage := msg\<rparr>)"
    "found_in p (ks @ [k]) (f\<lparr>fe_verifier := Some r, fe_verifierMessage := msg\<rparr>)"
    "found_in p (ks @ [k]) (f\<lparr>fe_collector := Some r, fe_verifier := Some r, fe_verifierMessage := msg\<rparr>)"
    "found_in p (ks @ [k]) f"
    using r by (auto simp: found_in_def)
  then have "found_in p (ks @ k # map fst xs) g"
    using "2.prems"(1) "2.IH" [OF r] r
    by (auto split: if_splits) (metis append.assoc append_Cons append_Nil)+
  then show ?case by simp
qed

lemma build_loop_iff:
  "build_loop description p para callback infos outputs = Some nodes \<longleftrightarrow>
     (\<exists>built. nodes = outputs @ built \<and>
        list_all2 (\<lambda>info node. ScheduleInfoToScheduleNode description p para callback info = Some node)
          infos built)"
proof (induction infos arbitrary: outputs)
  case Nil
  then show ?case by auto
next
  case (Cons info infos)
  then show ?case
    by (auto simp: list_all2_Cons1 split: option.splits)
qed

lemma configure_fields:
  "sb_collector (configure info para cb f b) = sb_collector b"
  "sb_verifier (configure info para cb f b) = sb_verifier b"
  "si_authType (sb_info (configure info para cb f b)) = es_authType info"
  "si_scheduleId (sb_info (configure info para cb f b)) = es_scheduleId info"
  "si_callback (sb_info (configure info para cb f b)) = cb"
  "si_threadHandler (sb_info (configure info para cb f b)) = si_threadHandler (sb_info b)"
  by (simp_all add: configure_def builder_defs Let_def split: option.splits)

lemma CheckExecutors_iff:
  "CheckExecutors p c v \<longleftrightarrow>
     (\<exists>cr vr. c = Some cr \<and> v = Some vr \<and>
        ei_authType (node_info p cr) = ei_authType (node_info p vr) \<and>
        ei_executorMatcher (node_info p cr) = ei_executorMatcher (node_info p vr) \<and>
        (cr = vr \<and> ei_executorRole (node_info p cr) = ALL_IN_ONE \<or>
         ei_executorRole (node_info p cr) = COLLECTOR \<and> ei_executorRole (node_info p vr) = VERIFIER))"
  by (auto simp: CheckExecutors_def split: option.splits)

lemma ScheduleInfoToExecutors_found:
  assumes "ScheduleInfoToExecutors p info = Some f"
  shows "found_in p (es_executorIndexes info) f"
proof -
  have len: "length (es_executorIndexes info) = length (es_executorMessages info)"
    and "find_executors p (zip (es_executorIndexes info) (es_executorMessages info))
      \<lparr>fe_collector = None, fe_verifier = None, fe_collectorMessage = [], fe_verifierMessage = []\<rparr> = Some f"
    using assms by (auto simp: ScheduleInfoToExecutors_def split: if_splits option.splits)
  from find_executors_found [OF this(2), of "[]"] show ?thesis by (simp add: found_in_def len)
qed

lemma Init_fields:
  assumes "Init description live info = Some (m, s)" and "\<not> si_threadHandler info"
  shows "sn_info s = info\<lparr>si_threadHandler := True\<rparr>" "currentState m = S_INIT" "threadHandlerSet m"
    "pendingEvents m = []" "sn_trace s = []"
proof -
  show "sn_info s = info\<lparr>si_threadHandler := True\<rparr>" "currentState m = S_INIT" "threadHandlerSet m"
    "pendingEvents m = []" "sn_trace s = []"
    using assms by (auto simp: Init_def MakeFiniteStateMachine_builds Let_def FSM_SetThreadHandler_def)
qed

section \<open>Properties\<close>

text \<open>
  Also shown: when the helper succeeds it has built one node per description, in order, each not yet
  started, under the description's schedule id, with a collector and a verifier that are registered in
  the pool under two of the description's executor indexes, have its authentication type and the same
  matcher, and are one all-in-one executor or a collector with a verifier.
\<close>

theorem built_schedules_well_formed:
  assumes "BuildFromHdi description p para callback infos nodes = (True, built)"
    and "i < length infos" and "built ! i = (m, s)"
  shows "length built = length infos \<and> GetScheduleId s = es_scheduleId (infos ! i) \<and>
    GetScheduleCallback s = callback \<and> currentState m = S_INIT \<and> threadHandlerSet m \<and>
    (\<exists>c v. GetCollectorExecutor s = Some c \<and> GetVerifyExecutor s = Some v \<and>
       (\<exists>k \<in> set (es_executorIndexes (infos ! i)). pool_Select k p = Some c) \<and>
       (\<exists>k \<in> set (es_executorIndexes (infos ! i)). pool_Select k p = Some v) \<and>
       ei_authType (node_info p c) = es_authType (infos ! i) \<and>
       ei_authType (node_info p v) = es_authType (infos ! i) \<and>
       ei_executorMatcher (node_info p c) = ei_executorMatcher (node_info p v) \<and>
       (c = v \<and> ei_executorRole (node_info p c) = ALL_IN_ONE \<or>
        ei_executorRole (node_info p c) = COLLECTOR \<and> ei_executorRole (node_info p v) = VERIFIER))"
proof -
  let ?info = "infos ! i"
  have all: "list_all2 (\<lambda>info node. ScheduleInfoToScheduleNode description p para callback info = Some node)
      infos built"
    using assms(1) by (auto simp: BuildFromHdi_def build_loop_iff split: option.splits)
  then have "ScheduleInfoToScheduleNode description p para callback ?info = Some (m, s)"
    using list_all2_nthD [OF all assms(2)] assms(3) by simp
  then obtain f b where f: "ScheduleInfoToExecutors p ?info = Some f"
    and b: "Sched_Builder_New p (fe_collector f) (fe_verifier f) = Some b"
    and bd: "Sched_Builder_Build description p (configure ?info para callback f b) = Some (m, s)"
    unfolding ScheduleInfoToScheduleNode_def by (simp split: if_splits option.splits)
  have ce: "CheckExecutors p (fe_collector f) (fe_verifier f)"
    and bn: "b = ScheduleNodeBuilder p (fe_collector f) (fe_verifier f)"
    using b by (auto simp: Sched_Builder_New_def split: if_splits)
  then obtain c v where cv: "fe_collector f = Some c" "fe_verifier f = Some v"
    by (auto simp: CheckExecutors_iff)
  have flds: "sb_collector b = Some c" "sb_verifier b = Some v" "\<not> si_threadHandler (sb_info b)"
    using bn cv by (simp_all add: ScheduleNodeBuilder_def default_info_def)
  let ?i = "(sb_info (configure ?info para callback f b))\<lparr>si_collector := Some c, si_verifier := Some v\<rparr>"
  have init: "Init description (\<lambda>ref. Some (rp_heap p ref)) ?i = Some (m, s)"
    and at: "ei_authType (node_info p c) = es_authType ?info"
    using bd flds
    by (auto simp: Sched_Builder_Build_def CheckParameters_def configure_fields split: if_splits)
  have "\<not> si_threadHandler ?i" using flds by (simp add: configure_fields)
  note s = Init_fields [OF init this]
  have "found_in p (es_executorIndexes ?info) f" by (rule ScheduleInfoToExecutors_found [OF f])
  then have "\<exists>k \<in> set (es_executorIndexes ?info). pool_Select k p = Some c"
    "\<exists>k \<in> set (es_executorIndexes ?info). pool_Select k p = Some v"
    using cv unfolding found_in_def by blast+
  then show ?thesis
    using s at ce cv list_all2_lengthD [OF all]
    by (simp add: GetScheduleId_def GetScheduleCallback_def GetCollectorExecutor_def GetVerifyExecutor_def
        configure_fields CheckExecutors_iff)
qed

text \<open>
  Also shown: the helper is all or nothing: it fails exactly when one description cannot be built, and
  then leaves the caller's nodes alone.
\<close>

theorem build_all_or_nothing:
  "BuildFromHdi description p para callback infos nodes = (r, out) \<longleftrightarrow>
     (if \<exists>info \<in> set infos. ScheduleInfoToScheduleNode description p para callback info = None
      then \<not> r \<and> out = nodes
      else r \<and> map (ScheduleInfoToScheduleNode description p para callback) infos = map Some out)"
proof -
  let ?f = "ScheduleInfoToScheduleNode description p para callback"
  have iff: "build_loop description p para callback infos [] = Some built \<longleftrightarrow> map ?f infos = map Some built"
    for built
    by (simp add: build_loop_iff list_all2_conv_all_nth) (auto simp: list_eq_iff_nth_eq)
  show ?thesis
  proof (cases "\<exists>info \<in> set infos. ?f info = None")
    case True
    then have "None \<in> set (map ?f infos)" by force
    then have "map ?f infos \<noteq> map Some built" for built by (metis ex_map_conv option.distinct(1) image_iff list.set_map)
    then have "build_loop description p para callback infos [] = None" using iff by (metis not_Some_eq)
    then show ?thesis using True by (auto simp: BuildFromHdi_def)
  next
    case False
    then have "map ?f infos = map Some (map (the \<circ> ?f) infos)" by auto
    then have "build_loop description p para callback infos [] = Some (map (the \<circ> ?f) infos)" using iff by blast
    moreover have "map ?f infos = map Some out \<longleftrightarrow> out = map (the \<circ> ?f) infos"
      using \<open>map ?f infos = map Some (map (the \<circ> ?f) infos)\<close> by (metis iff calculation option.inject)
    ultimately show ?thesis using False by (auto simp: BuildFromHdi_def)
  qed
qed

section \<open>Witnesses\<close>

definition w_eng_info :: eng_schedule_info where
  "w_eng_info = \<lparr>es_scheduleId = 77, es_templateIds = [6], es_authType = PIN, es_executorMatcher = 0,
     es_scheduleMode = 1, es_executorIndexes = [5], es_executorMessages = [[9]]\<rparr>"

definition w_para :: node_optional_para where
  "w_para = \<lparr>np_expire = None, np_tokenId = Some 3, np_collectorTokenId = 4, np_pinSubType = None,
     np_endAfterFirstFail = None, np_authIntent = 0, np_userId = 100, np_additionalInfo = [],
     np_title = [], np_authScene = 0\<rparr>"

lemma w_build:
  "\<exists>m s. BuildFromHdi ''s'' w_pool w_para True [w_eng_info] [] = (True, [(m, s)])"
proof -
  let ?f = "\<lparr>fe_collector = Some 0, fe_verifier = Some 0, fe_collectorMessage = [], fe_verifierMessage = [9]\<rparr>"
  have f: "ScheduleInfoToExecutors w_pool w_eng_info = Some ?f"
    by (simp add: ScheduleInfoToExecutors_def w_eng_info_def pool_Select_def w_pool_def node_info_def w_info_def)
  have b: "Sched_Builder_New w_pool (Some 0) (Some 0) = Some (ScheduleNodeBuilder w_pool (Some 0) (Some 0))"
    by (simp add: Sched_Builder_New_def CheckExecutors_def node_info_def w_pool_def w_info_def)
  let ?c = "configure w_eng_info w_para True ?f (ScheduleNodeBuilder w_pool (Some 0) (Some 0))"
  have "CheckParameters w_pool ?c"
    by (simp add: CheckParameters_def configure_fields ScheduleNodeBuilder_def node_info_def w_pool_def
        w_info_def w_eng_info_def)
  moreover have "Init ''s'' live info \<noteq> None" for live info
    by (simp add: Init_def MakeFiniteStateMachine_builds Let_def)
  ultimately obtain m s where "Sched_Builder_Build ''s'' w_pool ?c = Some (m, s)"
    by (fastforce simp: Sched_Builder_Build_def)
  then have "ScheduleInfoToScheduleNode ''s'' w_pool w_para True w_eng_info = Some (m, s)"
    by (simp add: ScheduleInfoToScheduleNode_def f b) (simp add: w_eng_info_def)
  then show ?thesis by (simp add: BuildFromHdi_def)
qed

lemma built_schedules_well_formed_witness:
  "\<exists>m s. BuildFromHdi ''s'' w_pool w_para True [w_eng_info] [] = (True, [(m, s)]) \<and> GetScheduleId s = 77"
proof -
  obtain m s where b: "BuildFromHdi ''s'' w_pool w_para True [w_eng_info] [] = (True, [(m, s)])"
    using w_build by blast
  then show ?thesis using built_schedules_well_formed [OF b, of 0 m s] by (simp add: w_eng_info_def)
qed

end
