(* ===== verification/Resource_Utils.thy ===== *)
theory Resource_Utils
  imports Resource_Pool
begin

text \<open>
  Credentials as the framework sees them (\<^verbatim>\<open>services/core/src/credential_info_impl.cpp\<close>) and the
  messages about them to pooled executors (\<^verbatim>\<open>services/core/src/resource_node_utils.cpp\<close>). Each function
  returns the calls it made, in order; the executors' answers are a function of the calls so far.
\<close>

record credential_info =
  ci_userId :: i32
  ci_credentialId :: u64
  ci_executorIndex :: u64
  ci_templateId :: u64
  ci_authType :: i32
  ci_executorMatcher :: u32
  ci_executorSensorHint :: u32
  ci_authSubType :: i32
  ci_isAbandoned :: bool
  ci_validityPeriod :: i64

text \<open>\<^verbatim>\<open>Authentication::AuthExecutorMsg\<close>: a message the engine wants delivered to an executor.\<close>

record executor_msg =
  em_executorIndex :: u64
  em_commandId :: i32
  em_msg :: bytes

type_synonym call_log = "(node_ref \<times> exec_call) list"
type_synonym ipc_answers = "call_log \<Rightarrow> node_ref \<Rightarrow> exec_call \<Rightarrow> i32"

definition set_property_of ::
  "ipc_answers \<Rightarrow> rpool \<Rightarrow> node_ref \<Rightarrow> attributes \<Rightarrow> call_log \<Rightarrow> i32 \<times> call_log" where
  "set_property_of ipc p ref attr log =
     (case SetProperty (ipc log ref) (rp_heap p ref) attr of
        (ret, calls) \<Rightarrow> (ret, log @ map (\<lambda>c. (ref, c)) calls))"

definition delete_command :: "credential_info \<Rightarrow> bytes \<Rightarrow> attributes" where
  "delete_command info changeReasonTrace =
     (let a = snd (SetUint32Value ATTR_PROPERTY_MODE PROPERTY_MODE_DEL Attributes_new);
          a = snd (SetUint64Value ATTR_TEMPLATE_ID (ci_templateId info) a)
      in snd (SetStringValue ATTR_TEMPLATE_CHANGE_REASON changeReasonTrace a))"

fun delete_loop ::
  "ipc_answers \<Rightarrow> rpool \<Rightarrow> bytes \<Rightarrow> credential_info option list \<Rightarrow> call_log \<Rightarrow> call_log" where
  "delete_loop ipc p reason [] log = log"
| "delete_loop ipc p reason (None # infos) log = delete_loop ipc p reason infos log"
| "delete_loop ipc p reason (Some info # infos) log =
     (case pool_Select (ci_executorIndex info) p of
        None \<Rightarrow> delete_loop ipc p reason infos log
      | Some ref \<Rightarrow>
          delete_loop ipc p reason infos (snd (set_property_of ipc p ref (delete_command info reason) log)))"

definition NotifyExecutorToDeleteTemplates ::
  "ipc_answers \<Rightarrow> rpool \<Rightarrow> credential_info option list \<Rightarrow> bytes \<Rightarrow> call_log \<Rightarrow> i32 \<times> call_log" where
  "NotifyExecutorToDeleteTemplates ipc p infos changeReasonTrace log =
     (if infos = [] then (INVALID_PARAMETERS, log)
      else (SUCCESS, delete_loop ipc p changeReasonTrace infos log))"

definition SendMsgToExecutor ::
  "ipc_answers \<Rightarrow> rpool \<Rightarrow> u64 \<Rightarrow> i32 \<Rightarrow> bytes \<Rightarrow> call_log \<Rightarrow> call_log" where
  "SendMsgToExecutor ipc p executorIndex commandId msg log =
     (case pool_Select executorIndex p of
        None \<Rightarrow> log
      | Some ref \<Rightarrow>
          let (r1, a) = SetInt32Value ATTR_PROPERTY_MODE commandId Attributes_new
          in if \<not> r1 then log
             else let (r2, a) = SetUint8ArrayValue ATTR_EXTRA_INFO msg a
                  in if \<not> r2 then log else snd (set_property_of ipc p ref a log))"

definition SetCachedTemplates ::
  "ipc_answers \<Rightarrow> rpool \<Rightarrow> u64 \<Rightarrow> credential_info option list \<Rightarrow> call_log \<Rightarrow> call_log" where
  "SetCachedTemplates ipc p executorIndex infos log =
     (case pool_Select executorIndex p of
        None \<Rightarrow> log
      | Some ref \<Rightarrow>
          let templateIds = concat (map (\<lambda>i. case i of None \<Rightarrow> [] | Some info \<Rightarrow> [ci_templateId info]) infos);
              a = snd (SetUint32Value ATTR_PROPERTY_MODE PROPERTY_MODE_SET_CACHED_TEMPLATES Attributes_new);
              a = snd (SetUint64ArrayValue ATTR_TEMPLATE_ID_LIST templateIds a)
          in snd (set_property_of ipc p ref a log))"

text \<open>\<open>out\<close> is the caller's map, which keeps what was classified before a null credential stops the loop.\<close>

fun ClassifyCredInfoByExecutor ::
  "credential_info option list \<Rightarrow> (u64 \<times> credential_info list) list \<Rightarrow>
   i32 \<times> (u64 \<times> credential_info list) list" where
  "ClassifyCredInfoByExecutor [] out = (SUCCESS, out)"
| "ClassifyCredInfoByExecutor (None # creds) out = (GENERAL_ERROR, out)"
| "ClassifyCredInfoByExecutor (Some cred # creds) out =
     (let executorIndex = ci_executorIndex cred;
          out1 = (if map_of out executorIndex = None then omap_assign executorIndex [] out else out);
          old = (case map_of out1 executorIndex of None \<Rightarrow> [] | Some l \<Rightarrow> l)
      in ClassifyCredInfoByExecutor creds (omap_assign executorIndex (old @ [cred]) out1))"

section \<open>Lemmas\<close>

definition class_of :: "(u64 \<times> credential_info list) list \<Rightarrow> u64 \<Rightarrow> credential_info list" where
  "class_of out k = (case map_of out k of None \<Rightarrow> [] | Some l \<Rightarrow> l)"

lemma classify_step:
  "ClassifyCredInfoByExecutor creds out = (SUCCESS, res) \<Longrightarrow> omap_ok out \<Longrightarrow>
     omap_ok res \<and> None \<notin> set creds \<and>
     fst ` set res = fst ` set out \<union> (ci_executorIndex \<circ> the) ` set creds \<and>
     (\<forall>k. class_of res k = class_of out k @ filter (\<lambda>c. ci_executorIndex c = k) (map the creds))"
proof (induction creds out rule: ClassifyCredInfoByExecutor.induct)
  case (1 out)
  then show ?case by simp
next
  case (2 creds out)
  then show ?case by simp
next
  case (3 cred creds out)
  let ?i = "ci_executorIndex cred"
  let ?out1 = "if map_of out ?i = None then omap_assign ?i [] out else out"
  let ?old = "case map_of ?out1 ?i of None \<Rightarrow> [] | Some l \<Rightarrow> l"
  let ?out2 = "omap_assign ?i (?old @ [cred]) ?out1"
  have ok: "omap_ok ?out2" using "3.prems"(2) by simp
  have rec: "ClassifyCredInfoByExecutor creds ?out2 = (SUCCESS, res)"
    using "3.prems"(1) by (simp add: Let_def)
  note ih = "3.IH" [OF refl refl refl rec ok]
  have "?old = class_of out ?i" by (auto simp: class_of_def split: option.splits)
  then have cls: "class_of ?out2 k = class_of out k @ (if ?i = k then [cred] else [])" for k
    by (auto simp: class_of_def split: option.splits if_splits)
  have keys: "fst ` set ?out2 = insert ?i (fst ` set out)" by auto
  show ?case using ih by (auto simp: cls keys)
qed

section \<open>Properties\<close>

text \<open>
  Also shown: classifying credentials by executor succeeds exactly when none of them is null, and then
  partitions them: there is one class per executor index that occurs, in ascending order, and each
  class holds the credentials of that index in their order.
\<close>

theorem classify_partitions:
  assumes "ClassifyCredInfoByExecutor creds [] = (r, out)"
  shows "(r = SUCCESS \<longleftrightarrow> None \<notin> set creds) \<and>
    (r = SUCCESS \<longrightarrow>
       omap_ok out \<and> set (map fst out) = (ci_executorIndex \<circ> the) ` set creds \<and>
       (\<forall>k l. map_of out k = Some l \<longrightarrow> l = filter (\<lambda>c. ci_executorIndex c = k) (map the creds)))"
proof (cases "r = SUCCESS")
  case True
  have st: "omap_ok out" "None \<notin> set creds" "fst ` set out = (ci_executorIndex \<circ> the) ` set creds"
    and cls: "class_of out k = filter (\<lambda>c. ci_executorIndex c = k) (map the creds)" for k
    using classify_step [of creds "[]" out] assms True by (auto simp: class_of_def [of "[]"])
  have "l = filter (\<lambda>c. ci_executorIndex c = k) (map the creds)" if "map_of out k = Some l" for k l
    using that cls [of k] by (simp add: class_of_def)
  then show ?thesis using st True by auto
next
  case False
  have "None \<notin> set creds \<Longrightarrow> fst (ClassifyCredInfoByExecutor creds out) = SUCCESS" for creds out
    by (induction creds out rule: ClassifyCredInfoByExecutor.induct) (simp_all add: Let_def)
  then show ?thesis using False assms by (metis fst_conv)
qed

section \<open>Witness\<close>

definition w_cred :: "u64 \<Rightarrow> u64 \<Rightarrow> credential_info" where
  "w_cred index template = \<lparr>ci_userId = 100, ci_credentialId = template, ci_executorIndex = index,
     ci_templateId = template, ci_authType = FACE, ci_executorMatcher = 0, ci_executorSensorHint = 0,
     ci_authSubType = 0, ci_isAbandoned = False, ci_validityPeriod = 0\<rparr>"

lemma classify_partitions_witness:
  "omap_ok (snd (ClassifyCredInfoByExecutor [Some (w_cred 7 1), Some (w_cred 5 2), Some (w_cred 7 3)] [])) \<and>
   map_of (snd (ClassifyCredInfoByExecutor [Some (w_cred 7 1), Some (w_cred 5 2), Some (w_cred 7 3)] [])) 7 =
     Some [w_cred 7 1, w_cred 7 3]"
proof -
  let ?l = "[Some (w_cred 7 1), Some (w_cred 5 2), Some (w_cred 7 3)]"
  have r: "ClassifyCredInfoByExecutor ?l [] = (SUCCESS, snd (ClassifyCredInfoByExecutor ?l []))"
    by (simp add: w_cred_def Let_def)
  have "map_of (snd (ClassifyCredInfoByExecutor ?l [])) 7 \<noteq> None" by (simp add: w_cred_def Let_def)
  then obtain l where l: "map_of (snd (ClassifyCredInfoByExecutor ?l [])) 7 = Some l" by blast
  have "l = filter (\<lambda>c. ci_executorIndex c = 7) (map the ?l)"
    using conjunct2 [OF classify_partitions [OF r]] l by blast
  then have "l = [w_cred 7 1, w_cred 7 3]" by (simp add: w_cred_def)
  moreover have "omap_ok (snd (ClassifyCredInfoByExecutor ?l []))"
    using conjunct2 [OF classify_partitions [OF r]] by blast
  ultimately show ?thesis using l by blast
qed

end
