(* ===== verification/Authentication.thy ===== *)
theory Authentication
  imports Schedule_Build Resource_Utils
begin

text \<open>
  One authentication towards the engine: \<^verbatim>\<open>services/core/src/authentication_impl.cpp\<close>. The engine is the
  driver behind \<^verbatim>\<open>GetUserAuthEngine()\<close>, outside the repository: each operation takes the engine's answer
  as an argument, so every behaviour of it is covered. \<^verbatim>\<open>TOKEN_HAP\<close> and \<^verbatim>\<open>TOKEN_NATIVE\<close> are constants of
  the access token service and arguments too.
\<close>

record auth_para =
  ap_userId :: i32
  ap_authType :: i32
  ap_atl :: u32
  ap_tokenId :: u32
  ap_collectorTokenId :: u32
  ap_challenge :: bytes
  ap_endAfterFirstFail :: bool
  ap_callerName :: bytes
  ap_sdkVersion :: i32
  ap_callerType :: i32
  ap_authIntent :: i32
  ap_isOsAccountVerified :: bool
  ap_skipLockedBiometricAuth :: bool
  ap_credentialIdList :: "u64 list"
  ap_title :: bytes
  ap_authScene :: i32
  ap_callerPermissions :: u32

record auth_result_info =
  ar_result :: i32
  ar_authTrustLevel :: u32
  ar_freezingTime :: i32
  ar_remainTimes :: i32
  ar_token :: bytes
  ar_rootSecret :: bytes
  ar_credentialDigest :: u64
  ar_credentialCount :: u16
  ar_sdkVersion :: i32
  ar_userId :: i32
  ar_nextFailLockoutDuration :: i32
  ar_pinExpiredInfo :: i64
  ar_remoteAuthResultMsg :: bytes
  ar_credentialId :: u64
  ar_reEnrollFlag :: bool

text \<open>\<^verbatim>\<open>AuthResultInfo resultInfo = {}\<close>.\<close>

definition empty_result :: auth_result_info where
  "empty_result = \<lparr>ar_result = 0, ar_authTrustLevel = 0, ar_freezingTime = 0, ar_remainTimes = 0,
     ar_token = [], ar_rootSecret = [], ar_credentialDigest = 0, ar_credentialCount = 0,
     ar_sdkVersion = 0, ar_userId = 0, ar_nextFailLockoutDuration = 0, ar_pinExpiredInfo = 0,
     ar_remoteAuthResultMsg = [], ar_credentialId = 0, ar_reEnrollFlag = False\<rparr>"

record eng_auth_result =
  er_result :: i32
  er_authTrustLevel :: "u32 option"
  er_lockoutDuration :: i32
  er_remainAttempts :: i32
  er_msgs :: "executor_msg list"
  er_token :: bytes
  er_rootSecret :: bytes
  er_userId :: i32
  er_credentialId :: u64
  er_pinExpiredInfo :: i64
  er_remoteAuthResultMsg :: bytes
  er_reEnrollFlag :: bool

record eng_enrolled_state =
  ee_credentialDigest :: u64
  ee_credentialCount :: u16

record eng_auth_param =
  ep_userId :: i32
  ep_authTrustLevel :: u32
  ep_executorSensorHint :: u32
  ep_challenge :: bytes
  ep_callerName :: bytes
  ep_callerType :: i32
  ep_apiVersion :: i32
  ep_callerPermissions :: u32
  ep_authType :: i32
  ep_authIntent :: i32
  ep_isOsAccountVerified :: bool
  ep_collectorUdid :: bytes
  ep_credentialIdList :: "u64 list"

record authentication =
  au_contextId :: u64
  au_para :: auth_para
  au_endAfterFirstFail :: bool
  au_executorSensorHint :: u32
  au_executorIndex :: u32
  au_challenge :: bytes
  au_tokenId :: u32
  au_running :: bool
  au_latestError :: i32
  au_executorMsgs :: "executor_msg list"
  au_collectorUdid :: bytes

section \<open>Operations\<close>

definition AuthenticationImpl :: "u64 \<Rightarrow> auth_para \<Rightarrow> authentication" where
  "AuthenticationImpl contextId authPara =
     \<lparr>au_contextId = contextId, au_para = authPara, au_endAfterFirstFail = False,
      au_executorSensorHint = 0, au_executorIndex = 0, au_challenge = [], au_tokenId = 0,
      au_running = False, au_latestError = GENERAL_ERROR, au_executorMsgs = [], au_collectorUdid = []\<rparr>"

definition Auth_SetLatestError :: "i32 \<Rightarrow> authentication \<Rightarrow> authentication" where
  "Auth_SetLatestError error a = (if error \<noteq> SUCCESS then a\<lparr>au_latestError := error\<rparr> else a)"

definition Auth_SetExecutor :: "u32 \<Rightarrow> authentication \<Rightarrow> authentication" where
  "Auth_SetExecutor executorIndex a = a\<lparr>au_executorIndex := executorIndex\<rparr>"

definition Auth_SetChallenge :: "bytes \<Rightarrow> authentication \<Rightarrow> authentication" where
  "Auth_SetChallenge challenge a = a\<lparr>au_challenge := challenge\<rparr>"

definition Auth_SetAccessTokenId :: "u32 \<Rightarrow> authentication \<Rightarrow> authentication" where
  "Auth_SetAccessTokenId tokenId a = a\<lparr>au_tokenId := tokenId\<rparr>"

definition Auth_SetEndAfterFirstFail :: "bool \<Rightarrow> authentication \<Rightarrow> authentication" where
  "Auth_SetEndAfterFirstFail endAfterFirstFail a = a\<lparr>au_endAfterFirstFail := endAfterFirstFail\<rparr>"

definition Auth_SetCollectorUdid :: "bytes \<Rightarrow> authentication \<Rightarrow> authentication" where
  "Auth_SetCollectorUdid collectorUdid a = a\<lparr>au_collectorUdid := collectorUdid\<rparr>"

definition GetEngCallerType :: "i32 \<Rightarrow> i32 \<Rightarrow> i32 \<Rightarrow> i32 option" where
  "GetEngCallerType TOKEN_HAP TOKEN_NATIVE callerType =
     (if callerType = TOKEN_HAP then Some 0 else if callerType = TOKEN_NATIVE then Some 1 else None)"

definition GetAuthParam :: "i32 \<Rightarrow> i32 \<Rightarrow> authentication \<Rightarrow> eng_auth_param option" where
  "GetAuthParam TOKEN_HAP TOKEN_NATIVE a =
     (let para = au_para a
      in case GetEngCallerType TOKEN_HAP TOKEN_NATIVE (ap_callerType para) of
           None \<Rightarrow> None
         | Some callerType \<Rightarrow>
             Some \<lparr>ep_userId = ap_userId para, ep_authTrustLevel = ap_atl para,
                   ep_executorSensorHint = au_executorSensorHint a, ep_challenge = au_challenge a,
                   ep_callerName = ap_callerName para, ep_callerType = callerType,
                   ep_apiVersion = ap_sdkVersion para, ep_callerPermissions = ap_callerPermissions para,
                   ep_authType = ap_authType para, ep_authIntent = ap_authIntent para,
                   ep_isOsAccountVerified = ap_isOsAccountVerified para,
                   ep_collectorUdid = au_collectorUdid a,
                   ep_credentialIdList = ap_credentialIdList para\<rparr>)"

record auth_engine =
  ae_TOKEN_HAP :: i32
  ae_TOKEN_NATIVE :: i32
  ae_begin :: "u64 \<Rightarrow> eng_auth_param \<Rightarrow> i32 \<times> eng_schedule_info list"
  ae_update :: "u64 \<Rightarrow> bytes \<Rightarrow> i32 \<times> eng_auth_result \<times> eng_enrolled_state"
  ae_cancel :: "u64 \<Rightarrow> i32"

text \<open>The result, the caller's schedule list and the object after \<^verbatim>\<open>Start\<close>.\<close>

definition Auth_Start ::
  "auth_engine \<Rightarrow> string \<Rightarrow> rpool \<Rightarrow> sched_state list \<Rightarrow> bool \<Rightarrow> authentication \<Rightarrow>
   bool \<times> sched_state list \<times> authentication" where
  "Auth_Start eng description p scheduleList callback a =
     (case GetAuthParam (ae_TOKEN_HAP eng) (ae_TOKEN_NATIVE eng) a of
        None \<Rightarrow> (False, scheduleList, a)
      | Some param \<Rightarrow>
          (case ae_begin eng (au_contextId a) param of
             (result, infos) \<Rightarrow>
               if result \<noteq> SUCCESS then (False, scheduleList, Auth_SetLatestError result a)
               else if infos = [] then (False, scheduleList, a)
               else
                 let para = \<lparr>np_expire = None, np_tokenId = Some (au_tokenId a),
                       np_collectorTokenId = ap_collectorTokenId (au_para a), np_pinSubType = None,
                       np_endAfterFirstFail = Some (au_endAfterFirstFail a),
                       np_authIntent = ap_authIntent (au_para a), np_userId = ap_userId (au_para a),
                       np_additionalInfo = [], np_title = ap_title (au_para a),
                       np_authScene = ap_authScene (au_para a)\<rparr>
                 in case BuildFromHdi description p para callback infos scheduleList of
                      (built, nodes) \<Rightarrow>
                        if \<not> built then (False, nodes, a) else (True, nodes, a\<lparr>au_running := True\<rparr>)))"

definition Auth_Update ::
  "auth_engine \<Rightarrow> bytes \<Rightarrow> auth_result_info \<Rightarrow> authentication \<Rightarrow>
   bool \<times> auth_result_info \<times> authentication" where
  "Auth_Update eng scheduleResult resultInfo a =
     (case ae_update eng (au_contextId a) scheduleResult of
        (result, info, enrolledState) \<Rightarrow>
          let a1 = (if result \<noteq> SUCCESS then Auth_SetLatestError result a else a);
              a2 = a1\<lparr>au_executorMsgs := au_executorMsgs a1 @ er_msgs info\<rparr>;
              ri = resultInfo\<lparr>
                 ar_result := er_result info,
                 ar_authTrustLevel := (if er_result info = SUCCESS
                    then (case er_authTrustLevel info of None \<Rightarrow> ap_atl (au_para a) | Some l \<Rightarrow> l)
                    else ar_authTrustLevel resultInfo),
                 ar_freezingTime := er_lockoutDuration info, ar_remainTimes := er_remainAttempts info,
                 ar_token := er_token info, ar_rootSecret := er_rootSecret info,
                 ar_pinExpiredInfo := er_pinExpiredInfo info,
                 ar_credentialDigest := ee_credentialDigest enrolledState,
                 ar_credentialCount := ee_credentialCount enrolledState,
                 ar_sdkVersion := ap_sdkVersion (au_para a), ar_userId := er_userId info,
                 ar_remoteAuthResultMsg := er_remoteAuthResultMsg info,
                 ar_credentialId := er_credentialId info, ar_reEnrollFlag := er_reEnrollFlag info\<rparr>;
              a3 = (if ar_result ri \<noteq> SUCCESS then Auth_SetLatestError (ar_result ri) a2 else a2)
          in (result = SUCCESS \<and> ar_result ri = SUCCESS, ri, a3))"

definition Auth_Cancel :: "auth_engine \<Rightarrow> authentication \<Rightarrow> bool \<times> authentication" where
  "Auth_Cancel eng a =
     (if \<not> au_running a then (False, a\<lparr>au_running := False\<rparr>)
      else
        let a1 = a\<lparr>au_running := False\<rparr>; result = ae_cancel eng (au_contextId a)
        in if result \<noteq> SUCCESS then (False, Auth_SetLatestError result a1) else (True, a1))"

section \<open>Lemmas\<close>

lemma Auth_SetLatestError_keeps:
  "au_latestError a \<noteq> SUCCESS \<Longrightarrow> au_latestError (Auth_SetLatestError e a) \<noteq> SUCCESS"
  by (simp add: Auth_SetLatestError_def)

lemma Auth_Start_error:
  "Auth_Start eng description p sl cb a = (r, nodes, a') \<Longrightarrow> au_latestError a \<noteq> SUCCESS \<Longrightarrow>
     au_latestError a' \<noteq> SUCCESS"
  by (auto simp: Auth_Start_def Auth_SetLatestError_def Let_def split: option.splits prod.splits if_splits)

lemma Auth_Update_error:
  "Auth_Update eng b ri a = (r, ri', a') \<Longrightarrow> au_latestError a \<noteq> SUCCESS \<Longrightarrow>
     au_latestError a' \<noteq> SUCCESS"
  by (auto simp: Auth_Update_def Auth_SetLatestError_def Let_def split: prod.splits if_splits)

lemma Auth_Cancel_error:
  "Auth_Cancel eng a = (r, a') \<Longrightarrow> au_latestError a \<noteq> SUCCESS \<Longrightarrow> au_latestError a' \<noteq> SUCCESS"
  by (auto simp: Auth_Cancel_def Auth_SetLatestError_def Let_def split: if_splits)

lemma Auth_Update_success:
  "Auth_Update eng b ri a = (r, ri', a') \<Longrightarrow>
     (r \<longleftrightarrow> fst (ae_update eng (au_contextId a) b) = SUCCESS \<and>
        er_result (fst (snd (ae_update eng (au_contextId a) b))) = SUCCESS) \<and>
     ar_result ri' = er_result (fst (snd (ae_update eng (au_contextId a) b)))"
  by (auto simp: Auth_Update_def Let_def split: prod.splits)

text \<open>A cancelled authentication is cancelled at the engine at most once.\<close>

lemma Auth_Cancel_once: "Auth_Cancel eng a = (r, a') \<Longrightarrow> fst (Auth_Cancel eng a') = False"
  by (auto simp: Auth_Cancel_def Auth_SetLatestError_def Let_def split: if_splits)

end
