(* ===== verification/User_Database.thy ===== *)
theory User_Database
  imports Resource_Utils
begin

text \<open>
  What the framework asks the engine about users and credentials, \<^verbatim>\<open>services/core/src/user_idm_database_impl.cpp\<close>,
  and the requests that enroll and delete credentials. The engine is the driver behind
  \<^verbatim>\<open>GetUserAuthEngine()\<close>: its answers are the fields of \<open>user_engine\<close>. Output parameters are passed in
  and returned.
\<close>

section \<open>Data\<close>

record enrolled_info =
  enr_authType :: i32
  enr_enrolledId :: u64

record enrolled_info_impl =
  eii_userId :: i32
  eii_info :: enrolled_info

record secure_user_info =
  su_userId :: i32
  su_secUserId :: u64
  su_enrolledInfos :: "enrolled_info_impl list"

record eng_user_info =
  eu_secureUid :: u64
  eu_pinSubType :: i32
  eu_enrolledInfos :: "enrolled_info list"

record user_info =
  ui_userId :: i32
  ui_userInfo :: eng_user_info

record user_engine =
  ue_getUserInfo :: "i32 \<Rightarrow> i32 \<times> u64 \<times> enrolled_info list"
  ue_getCredential :: "i32 \<Rightarrow> i32 \<Rightarrow> i32 \<times> credential_info list"
  ue_deleteUser :: "i32 \<Rightarrow> bytes \<Rightarrow> i32 \<times> credential_info list \<times> bytes"
  ue_enforceDeleteUser :: "i32 \<Rightarrow> i32 \<times> credential_info list"
  ue_getAllExtUserInfo :: "i32 \<times> (i32 \<times> eng_user_info) list"
  ue_getCredentialById :: "u64 \<Rightarrow> i32 \<times> credential_info"
  ue_clearUnavailable :: "i32 list \<Rightarrow> i32 \<times> credential_info list"
  ue_latestEnrollmentTime :: "i32 \<Rightarrow> i32 \<Rightarrow> i32 \<times> u64"

section \<open>The database\<close>

text \<open>The constructor \<^verbatim>\<open>CredentialInfoImpl(userId, info)\<close> keeps the engine's answer under the given user.\<close>

definition CredentialInfoImpl :: "i32 \<Rightarrow> credential_info \<Rightarrow> credential_info" where
  "CredentialInfoImpl userId info = info\<lparr>ci_userId := userId\<rparr>"

definition EnrolledInfoImpl :: "i32 \<Rightarrow> enrolled_info \<Rightarrow> enrolled_info_impl" where
  "EnrolledInfoImpl userId info = \<lparr>eii_userId = userId, eii_info = info\<rparr>"

definition GetSecUserInfo :: "user_engine \<Rightarrow> i32 \<Rightarrow> secure_user_info option \<Rightarrow> i32 \<times> secure_user_info option" where
  "GetSecUserInfo eng userId secUserInfo =
     (case ue_getUserInfo eng userId of
        (ret, secureUid, enrolledInfoVector) \<Rightarrow>
          if ret \<noteq> SUCCESS then (GENERAL_ERROR, secUserInfo)
          else if enrolledInfoVector = [] then (NOT_ENROLLED, secUserInfo)
          else (SUCCESS, Some \<lparr>su_userId = userId, su_secUserId = secureUid,
                  su_enrolledInfos = map (EnrolledInfoImpl userId) enrolledInfoVector\<rparr>))"

definition GetCredentialInfo ::
  "(i32 \<Rightarrow> i32 \<Rightarrow> i32 \<times> credential_info list) \<Rightarrow> i32 \<Rightarrow> i32 \<Rightarrow> credential_info list \<Rightarrow>
   i32 \<times> credential_info list" where
  "GetCredentialInfo getCredential userId authType credInfos =
     (case getCredential userId authType of
        (ret, hdiInfos) \<Rightarrow>
          if ret \<noteq> SUCCESS then (ret, credInfos)
          else (SUCCESS, credInfos @ map (CredentialInfoImpl userId) hdiInfos))"

definition DeleteUser ::
  "user_engine \<Rightarrow> i32 \<Rightarrow> bytes \<Rightarrow> credential_info list \<Rightarrow> i32 \<times> credential_info list \<times> bytes" where
  "DeleteUser eng userId authToken credInfos =
     (case ue_deleteUser eng userId authToken of
        (ret, hdiInfos, rootSecret) \<Rightarrow>
          if ret \<noteq> SUCCESS then (ret, credInfos, rootSecret)
          else (SUCCESS, credInfos @ map (CredentialInfoImpl userId) hdiInfos, rootSecret))"

definition DeleteUserEnforce ::
  "user_engine \<Rightarrow> i32 \<Rightarrow> credential_info list \<Rightarrow> i32 \<times> credential_info list" where
  "DeleteUserEnforce eng userId credInfos =
     (case ue_enforceDeleteUser eng userId of
        (ret, hdiInfos) \<Rightarrow>
          if ret \<noteq> SUCCESS then (ret, credInfos)
          else (SUCCESS, credInfos @ map (CredentialInfoImpl userId) hdiInfos))"

definition GetAllExtUserInfo :: "user_engine \<Rightarrow> user_info list \<Rightarrow> i32 \<times> user_info list" where
  "GetAllExtUserInfo eng userInfos =
     (case ue_getAllExtUserInfo eng of
        (ret, hdiUserInfos) \<Rightarrow>
          if ret \<noteq> SUCCESS then (ret, userInfos)
          else (SUCCESS, userInfos @
                  map (\<lambda>(userId, info). \<lparr>ui_userId = userId, ui_userInfo = info\<rparr>) hdiUserInfos))"

definition GetCredentialInfoById ::
  "user_engine \<Rightarrow> u64 \<Rightarrow> credential_info option \<Rightarrow> i32 \<times> credential_info option" where
  "GetCredentialInfoById eng credentialId credInfo =
     (case ue_getCredentialById eng credentialId of
        (ret, hdiInfo) \<Rightarrow>
          if ret \<noteq> SUCCESS then (ret, credInfo) else (SUCCESS, Some (CredentialInfoImpl 0 hdiInfo)))"

definition ClearUnavailableCredential ::
  "user_engine \<Rightarrow> i32 \<Rightarrow> credential_info list \<Rightarrow> i32 \<times> credential_info list" where
  "ClearUnavailableCredential eng userId credInfos =
     (case ue_clearUnavailable eng [userId] of
        (ret, hdiInfos) \<Rightarrow>
          if ret \<noteq> SUCCESS then (ret, credInfos)
          else (SUCCESS, credInfos @ map (CredentialInfoImpl userId) hdiInfos))"

definition GetLatestEnrollmentTime :: "user_engine \<Rightarrow> i32 \<Rightarrow> i32 \<Rightarrow> i32 \<times> u64" where
  "GetLatestEnrollmentTime eng userId authType =
     (case ue_latestEnrollmentTime eng userId authType of
        (ret, time) \<Rightarrow> if ret \<noteq> SUCCESS then (ret, time) else (SUCCESS, time))"

section \<open>Requests that change credentials\<close>

record delete_param =
  dp_userId :: i32
  dp_credentialId :: u64
  dp_tokenId :: u32
  dp_callerName :: bytes
  dp_callerType :: i32
  dp_token :: bytes

record enrollment_para =
  en_userId :: i32
  en_authType :: i32
  en_pinType :: i32
  en_isUpdate :: bool
  en_tokenId :: u32
  en_token :: bytes
  en_callerName :: bytes
  en_sdkVersion :: i32
  en_callerType :: i32
  en_additionalInfo :: bytes

record eng_enroll_result =
  el_credentialId :: u64
  el_oldInfo :: credential_info
  el_rootSecret :: bytes
  el_oldRootSecret :: bytes
  el_authToken :: bytes

section \<open>Lemmas\<close>

text \<open>A successful query of the user always comes with the user.\<close>

lemma GetSecUserInfo_success:
  "GetSecUserInfo eng userId None = (SUCCESS, info) \<Longrightarrow>
     \<exists>i. info = Some i \<and> su_userId i = userId \<and> su_enrolledInfos i \<noteq> []"
  by (auto simp: GetSecUserInfo_def split: prod.splits if_splits)

lemma GetCredentialInfo_user:
  "GetCredentialInfo get userId authType [] = (ret, infos) \<Longrightarrow> info \<in> set infos \<Longrightarrow> ci_userId info = userId"
  by (auto simp: GetCredentialInfo_def CredentialInfoImpl_def split: prod.splits if_splits)

end
