(* ===== verification/Base_Context.thy ===== *)
theory Base_Context
  imports Schedule_Build User_Database
begin

text \<open>
  The common part of every pooled context, \<^verbatim>\<open>services/context/src/base_context.cpp\<close>, and its composition with
  the schedule nodes it owns. A context is a \<open>base_context\<close> record that each subclass extends; the virtual
  members a subclass overrides are the fields of a \<open>ctx_vtable\<close>. Each of them takes a description of
  the environment at that moment, so the engine, the executors and the pool may change from call to
  call. The list \<open>bc_outputs\<close> is everything the context did to the outside.

  \<open>ctx_step\<close> interleaves the pool's start task, \<^verbatim>\<open>Stop\<close> and the steps of the context's schedule nodes; a
  node reports to the context while its machine runs, as \<^verbatim>\<open>ScheduleNodeCallback\<close> says. Only the context
  itself starts and stops its nodes. The observers of the caller's death and of the application state are
  left out.
\<close>

section \<open>Data\<close>

datatype stage =
    S_CONTEXT_START
  | S_BEGIN_SCHEDULE_START
  | S_BEGIN_SCHEDULE_END
  | S_UPDATE_SCHEDULE_RESULT_START
  | S_UPDATE_SCHEDULE_RESULT_END
  | S_CANCEL
  | S_ON_RESULT
  | S_ON_TIP_AUTH_SUCC

datatype ctx_output =
    StageMark stage
  | StageEnterWait stage
  | StageExitWait stage
  | AuthFinishReason string
  | ResultDelivered i32 attributes
  | AcquireInfo i32 i32 bytes
  | EventPosted i32 attributes
  | ExecutorMsgPosted executor_msg
  | PinUpdateCached bool
  | PropertyRead node_ref "exec_call list"
  | TraceAuthType i32
  | ExecutorsCalled call_log
  | DeleteTemplatesPosted "credential_info list" bytes
  | CredentialEnrolled enrollment_para eng_enroll_result bool u64
  | CredentialDeleted delete_param u64 i32
  | UserDeletionEnforced i32
  | NullCallbackUsed

text \<open>A null entry of the schedule list is \<open>None\<close>.\<close>

record base_context =
  bc_contextId :: u64
  bc_callback :: bool
  bc_isPrimaryContext :: bool
  bc_hasStarted :: bool
  bc_stopRequested :: bool
  bc_startFailDelivered :: bool
  bc_latestError :: i32
  bc_scheduleList :: "sched_state option list"
  bc_outputs :: "ctx_output list"

definition BaseContext :: "u64 \<Rightarrow> bool \<Rightarrow> bool \<Rightarrow> base_context" where
  "BaseContext contextId isPrimaryContext callback =
     \<lparr>bc_contextId = contextId, bc_callback = callback, bc_isPrimaryContext = isPrimaryContext,
      bc_hasStarted = False, bc_stopRequested = False, bc_startFailDelivered = False,
      bc_latestError = GENERAL_ERROR, bc_scheduleList = [], bc_outputs = []\<rparr>"

definition ctx_emit :: "ctx_output \<Rightarrow> 'c base_context_scheme \<Rightarrow> 'c base_context_scheme" where
  "ctx_emit out c = c\<lparr>bc_outputs := bc_outputs c @ [out]\<rparr>"

section \<open>Operations\<close>

definition Base_SetLatestError :: "i32 \<Rightarrow> 'c base_context_scheme \<Rightarrow> 'c base_context_scheme" where
  "Base_SetLatestError error c = (if error \<noteq> SUCCESS then c\<lparr>bc_latestError := error\<rparr> else c)"

definition Base_Mark :: "stage \<Rightarrow> 'c base_context_scheme \<Rightarrow> 'c base_context_scheme" where
  "Base_Mark stage c = (if \<not> bc_callback c then c else ctx_emit (StageMark stage) c)"

definition Base_EnterWait :: "stage \<Rightarrow> 'c base_context_scheme \<Rightarrow> 'c base_context_scheme" where
  "Base_EnterWait stage c = (if \<not> bc_callback c then c else ctx_emit (StageEnterWait stage) c)"

definition Base_ExitWait :: "stage \<Rightarrow> 'c base_context_scheme \<Rightarrow> 'c base_context_scheme" where
  "Base_ExitWait stage c = (if \<not> bc_callback c then c else ctx_emit (StageExitWait stage) c)"

definition Base_Start ::
  "('c base_context_scheme \<Rightarrow> bool \<times> 'c base_context_scheme) \<Rightarrow> 'c base_context_scheme \<Rightarrow>
   bool \<times> 'c base_context_scheme" where
  "Base_Start onStart c =
     (if bc_hasStarted c then (False, c)
      else if bc_stopRequested c then (False, Base_SetLatestError CANCELED c)
      else onStart ((Base_Mark S_CONTEXT_START c)\<lparr>bc_hasStarted := True\<rparr>))"

definition Base_OnStartFailed :: "i32 \<Rightarrow> 'c base_context_scheme \<Rightarrow> 'c base_context_scheme" where
  "Base_OnStartFailed errorCode c =
     (if bc_startFailDelivered c then c
      else let c1 = c\<lparr>bc_startFailDelivered := True\<rparr>
           in if \<not> bc_callback c1 then c1
              else ctx_emit (ResultDelivered errorCode Attributes_new)
                     (ctx_emit (AuthFinishReason ''BaseContext start context fail'') c1))"

definition Base_Stop ::
  "('c base_context_scheme \<Rightarrow> bool \<times> 'c base_context_scheme) \<Rightarrow> 'c base_context_scheme \<Rightarrow>
   bool \<times> 'c base_context_scheme" where
  "Base_Stop onStop c =
     (let c1 = Base_Mark S_CANCEL c
      in if \<not> bc_hasStarted c1 then
           if bc_stopRequested c1 then (True, c1)
           else (True, Base_OnStartFailed CANCELED (c1\<lparr>bc_stopRequested := True\<rparr>))
         else onStop c1)"

definition SetScheduleList :: "sched_state option list \<Rightarrow> 'c base_context_scheme \<Rightarrow> 'c base_context_scheme" where
  "SetScheduleList scheduleList c = c\<lparr>bc_scheduleList := scheduleList\<rparr>"

fun GetScheduleNode :: "u64 \<Rightarrow> sched_state option list \<Rightarrow> sched_state option" where
  "GetScheduleNode scheduleId [] = None"
| "GetScheduleNode scheduleId (None # scheduleList) = GetScheduleNode scheduleId scheduleList"
| "GetScheduleNode scheduleId (Some ms # scheduleList) =
     (if GetScheduleId (snd ms) = scheduleId then Some ms else GetScheduleNode scheduleId scheduleList)"

definition Base_OnScheduleProcessed ::
  "i32 \<Rightarrow> i32 \<Rightarrow> bytes \<Rightarrow> 'c base_context_scheme \<Rightarrow> 'c base_context_scheme" where
  "Base_OnScheduleProcessed src moduleType acquireMsg c =
     (if \<not> bc_callback c then c else ctx_emit (AcquireInfo src moduleType acquireMsg) c)"

definition Base_OnScheduleStarted :: "'c base_context_scheme \<Rightarrow> 'c base_context_scheme" where
  "Base_OnScheduleStarted c = c"

definition Base_OnScheduleStoped ::
  "(i32 \<Rightarrow> attributes option \<Rightarrow> 'c base_context_scheme \<Rightarrow> 'c base_context_scheme) \<Rightarrow>
   i32 \<Rightarrow> attributes option \<Rightarrow> 'c base_context_scheme \<Rightarrow> 'c base_context_scheme" where
  "Base_OnScheduleStoped onResult resultCode finalResult c = onResult resultCode finalResult c"

text \<open>
  What the subclasses do with their schedules: \<^verbatim>\<open>OnStart\<close> keeps the schedules that were built and starts the
  only one, \<^verbatim>\<open>OnStop\<close> stops the only one. A list of another length is refused.
\<close>

definition start_single ::
  "sched_env \<Rightarrow> sched_state list \<Rightarrow> 'c base_context_scheme \<Rightarrow> bool \<times> 'c base_context_scheme" where
  "start_single env scheduleList c =
     (let c = SetScheduleList (map Some scheduleList) c
      in case scheduleList of
           [ms] \<Rightarrow> (case StartSchedule env ms of (started, ms1) \<Rightarrow> (started, c\<lparr>bc_scheduleList := [Some ms1]\<rparr>))
         | _ \<Rightarrow> (False, c))"

definition stop_single :: "'c base_context_scheme \<Rightarrow> 'c base_context_scheme" where
  "stop_single c =
     (case bc_scheduleList c of
        [Some ms] \<Rightarrow> c\<lparr>bc_scheduleList := [Some (snd (StopSchedule CANCELED ms))]\<rparr>
      | _ \<Rightarrow> c)"

text \<open>The task the pool posts for a promoted context, once it found it pooled and not cancelled.\<close>

definition start_task ::
  "('c base_context_scheme \<Rightarrow> bool \<times> 'c base_context_scheme) \<Rightarrow> 'c base_context_scheme \<Rightarrow>
   'c base_context_scheme" where
  "start_task onStart c =
     (case Base_Start onStart c of
        (started, c1) \<Rightarrow> if \<not> started then Base_OnStartFailed (bc_latestError c1) c1 else c1)"

section \<open>Runs\<close>

record ('e, 'c) ctx_vtable =
  vt_OnStart :: "'e \<Rightarrow> 'c base_context_scheme \<Rightarrow> bool \<times> 'c base_context_scheme"
  vt_OnStop :: "'e \<Rightarrow> 'c base_context_scheme \<Rightarrow> bool \<times> 'c base_context_scheme"
  vt_OnResult ::
    "'e \<Rightarrow> i32 \<Rightarrow> attributes option \<Rightarrow> 'c base_context_scheme \<Rightarrow> 'c base_context_scheme"
  vt_sched :: "'e \<Rightarrow> sched_env"

text \<open>What a schedule node tells its callback.\<close>

fun deliver ::
  "('e, 'c) ctx_vtable \<Rightarrow> 'e \<Rightarrow> node_output \<Rightarrow> 'c base_context_scheme \<Rightarrow> 'c base_context_scheme" where
  "deliver V e ScheduleStarted c = Base_OnScheduleStarted c"
| "deliver V e (ScheduleProcessed src moduleType msg) c = Base_OnScheduleProcessed src moduleType msg c"
| "deliver V e (ScheduleStoped code result) c = Base_OnScheduleStoped (vt_OnResult V e) code result c"
| "deliver V e _ c = c"

datatype 'e ctx_label =
    CStart 'e
  | CStop 'e
  | CNode nat sched_label 'e

fun own_label :: "sched_label \<Rightarrow> bool" where
  "own_label LStart = True"
| "own_label (LStop _) = True"
| "own_label _ = False"

inductive ctx_step ::
  "('e, 'c) ctx_vtable \<Rightarrow> 'e ctx_label \<Rightarrow> 'c base_context_scheme \<Rightarrow> 'c base_context_scheme \<Rightarrow> bool"
  for V :: "('e, 'c) ctx_vtable" where
  ctx_start: "ctx_step V (CStart e) c (start_task (vt_OnStart V e) c)"
| ctx_stop: "ctx_step V (CStop e) c (snd (Base_Stop (vt_OnStop V e) c))"
| ctx_node: "i < length (bc_scheduleList c) \<Longrightarrow> bc_scheduleList c ! i = Some ms \<Longrightarrow> \<not> own_label l \<Longrightarrow>
    sched_step (vt_sched V e) l ms ms' \<Longrightarrow> sn_trace (snd ms') = sn_trace (snd ms) @ told \<Longrightarrow>
    ctx_step V (CNode i l e) c
      (fold (deliver V e) told (c\<lparr>bc_scheduleList := (bc_scheduleList c)[i := Some ms']\<rparr>))"

inductive ctx_run ::
  "('e, 'c) ctx_vtable \<Rightarrow> 'c base_context_scheme \<Rightarrow> 'e ctx_label list \<Rightarrow> 'c base_context_scheme \<Rightarrow> bool"
  for V :: "('e, 'c) ctx_vtable" and c0 :: "'c base_context_scheme" where
  run_nil: "ctx_run V c0 [] c0"
| run_cons: "ctx_run V c0 ls c \<Longrightarrow> ctx_step V l c c' \<Longrightarrow> ctx_run V c0 (ls @ [l]) c'"

inductive_cases ctx_stepE: "ctx_step V l c c'"

section \<open>Schedule nodes that were never started\<close>

definition dormant :: "sched_state \<Rightarrow> bool" where
  "dormant ms \<longleftrightarrow>
     currentState (fst ms) = S_INIT \<and> E_START_AUTH \<notin> set (pendingEvents (fst ms)) \<and>
     filter is_stop (sn_trace (snd ms)) = []"

lemma dormant_kick: "dormant (m, s) \<Longrightarrow> e \<noteq> E_START_AUTH \<Longrightarrow>
    filter is_stop (sn_trace s') = filter is_stop (sn_trace s) \<Longrightarrow> dormant (FSM_Schedule e m, s')"
  by (simp add: dormant_def FSM_Schedule_def PushEvent_def)

lemma dormant_stop: "dormant ms \<Longrightarrow> dormant (snd (StopSchedule c ms))"
  by (cases ms) (auto simp: StopSchedule_def TryKickMachine_def SetFwkResultCode_def intro!: dormant_kick)

lemma SendMessage_stops: "filter is_stop (sn_trace (snd (SendMessage env role msg s))) = filter is_stop (sn_trace s)"
proof -
  have emit: "filter is_stop (sn_trace (node_emit out s)) = filter is_stop (sn_trace s)" if "\<not> is_stop out" for out
    using that by (simp add: node_emit_def)
  have call: "filter is_stop (sn_trace (snd (call_node env r n f s))) = filter is_stop (sn_trace s)" for r n f
    using call_node_frame [of env r n f s] by (cases "call_node env r n f s") (auto simp: handler_frame_def)
  show ?thesis
    unfolding SendMessage_def Let_def by (auto simp: emit call split: option.splits prod.splits)
qed

lemma dormant_step:
  assumes "sched_step env l ms ms'" and "dormant ms" and "sched_inv nls ms" and "l \<noteq> LStart"
  shows "dormant ms'"
  using assms(1)
proof (cases rule: sched_step.cases)
  case step_start
  then show ?thesis using assms(4) by simp
next
  case (step_stop c)
  then show ?thesis using dormant_stop assms(2) by simp
next
  case (step_continue c r)
  then show ?thesis using assms(2)
    by (cases ms) (auto simp: ContinueSchedule_def TryKickMachine_def code_setter_defs intro!: dormant_kick)
next
  case step_timeout
  then show ?thesis using assms(2)
    by (cases ms) (auto simp: OnTimeOut_def TryKickMachine_def code_setter_defs intro!: dormant_kick)
next
  case (step_pool_delete r)
  then show ?thesis using assms(2)
    by (auto simp: OnResourceNodePoolDelete_def Let_def dormant_stop split: option.splits)
next
  case (step_send role msg m s)
  then show ?thesis using assms(2) by (simp add: dormant_def SendMessage_stops)
next
  case (step_event m e es s)
  have "sched_machine (m\<lparr>pendingEvents := es\<rparr>)" using assms(3) step_event by (simp add: sched_inv_def sched_machine_def)
  moreover have "sched_next 0 e = None"
    using assms(2) step_event by (simp add: dormant_def sched_next_def sched_table_def)
  ultimately show ?thesis
    using assms(2) step_event by (simp add: ProcessEvent_sched dormant_def)
qed (use assms(2) in \<open>simp_all add: dormant_def ClearScheduleCallback_def\<close>)

end
