(* ===== verification/Context_Life.thy ===== *)
theory Context_Life
  imports Base_Context
begin

text \<open>
  What every kind of context owes to its caller, proved once for all of them: the locale \<open>context_class\<close>
  states what a subclass may do in \<^verbatim>\<open>OnStart\<close>, \<^verbatim>\<open>OnStop\<close> and \<^verbatim>\<open>OnResult\<close>, and its lemmas follow the runs of
  such a context together with its schedule nodes.
\<close>

fun is_result :: "ctx_output \<Rightarrow> bool" where
  "is_result (ResultDelivered _ _) = True"
| "is_result _ = False"

definition results :: "'c base_context_scheme \<Rightarrow> ctx_output list" where
  "results c = filter is_result (bc_outputs c)"

definition ctx_keeps :: "('c \<Rightarrow> 'k) \<Rightarrow> 'c base_context_scheme \<Rightarrow> 'c base_context_scheme \<Rightarrow> bool" where
  "ctx_keeps eid c c' \<longleftrightarrow>
     eid (base_context.more c') = eid (base_context.more c) \<and> bc_contextId c' = bc_contextId c \<and> bc_callback c' = bc_callback c \<and>
     bc_hasStarted c' = bc_hasStarted c \<and> bc_stopRequested c' = bc_stopRequested c \<and>
     bc_startFailDelivered c' = bc_startFailDelivered c \<and>
     (bc_latestError c \<noteq> SUCCESS \<longrightarrow> bc_latestError c' \<noteq> SUCCESS)"

definition node_new :: "sched_state \<Rightarrow> bool" where
  "node_new ms \<longleftrightarrow>
     (\<exists>nls. set nls \<subseteq> {LStart} \<and> sched_inv nls ms) \<and> filter is_stop (sn_trace (snd ms)) = []"

fun maybe_stopped :: "sched_state option \<Rightarrow> sched_state option \<Rightarrow> bool" where
  "maybe_stopped None y = (y = None)"
| "maybe_stopped (Some ms) y = (y = Some ms \<or> y = Some (snd (StopSchedule CANCELED ms)))"

locale context_class =
  fixes V :: "('e, 'c) ctx_vtable"
    and eid :: "'c \<Rightarrow> 'k"
    and backed :: "'e \<Rightarrow> 'k \<Rightarrow> i32 \<Rightarrow> attributes option \<Rightarrow> bool"
    and sbacked :: "'e \<Rightarrow> 'k \<Rightarrow> bool"
  assumes start_keeps: "vt_OnStart V e c = (r, c') \<Longrightarrow> ctx_keeps eid c c'"
    and start_delivers: "vt_OnStart V e c = (r, c') \<Longrightarrow>
      \<exists>d. results c' = results c @ d \<and> length d \<le> 1 \<and> (d \<noteq> [] \<longrightarrow> r \<and> bc_scheduleList c' = []) \<and>
        ((\<exists>a. ResultDelivered SUCCESS a \<in> set d) \<longrightarrow> sbacked e (eid (base_context.more c)))"
    and start_nodes: "vt_OnStart V e c = (r, c') \<Longrightarrow> bc_scheduleList c = [] \<Longrightarrow>
      (\<forall>ms. Some ms \<in> set (bc_scheduleList c') \<longrightarrow> node_new ms \<and> (r \<or> dormant ms)) \<and>
      (r \<longrightarrow> length (bc_scheduleList c') \<le> 1)"
    and stop_keeps: "vt_OnStop V e c = (r, c') \<Longrightarrow> ctx_keeps eid c c' \<and> results c' = results c"
    and stop_nodes: "vt_OnStop V e c = (r, c') \<Longrightarrow>
      list_all2 maybe_stopped (bc_scheduleList c) (bc_scheduleList c')"
    and result_keeps: "ctx_keeps eid c (vt_OnResult V e code res c)"
    and result_nodes: "bc_scheduleList (vt_OnResult V e code res c) = bc_scheduleList c"
    and result_delivers: "bc_latestError c \<noteq> SUCCESS \<Longrightarrow>
      \<exists>d. results (vt_OnResult V e code res c) = results c @ d \<and> length d \<le> 1 \<and>
        ((\<exists>a. ResultDelivered SUCCESS a \<in> set d) \<longrightarrow> backed e (eid (base_context.more c)) code res)"

section \<open>Small steps\<close>

lemma ctx_keeps_refl [simp]: "ctx_keeps eid c c"
  by (simp add: ctx_keeps_def)

lemma ctx_keeps_trans: "ctx_keeps eid a b \<Longrightarrow> ctx_keeps eid b c \<Longrightarrow> ctx_keeps eid a c"
  by (simp add: ctx_keeps_def)

lemma results_emit [simp]: "results (ctx_emit out c) = results c @ (if is_result out then [out] else [])"
  by (simp add: results_def ctx_emit_def)

lemma keeps_emit [simp]: "ctx_keeps eid c (ctx_emit out c)"
  by (simp add: ctx_keeps_def ctx_emit_def)

lemma nodes_emit [simp]: "bc_scheduleList (ctx_emit out c) = bc_scheduleList c"
  by (simp add: ctx_emit_def)

lemma mark_quiet [simp]:
  "results (Base_Mark g c) = results c" "ctx_keeps eid c (Base_Mark g c)"
  "bc_scheduleList (Base_Mark g c) = bc_scheduleList c"
  "results (Base_EnterWait g c) = results c" "ctx_keeps eid c (Base_EnterWait g c)"
  "bc_scheduleList (Base_EnterWait g c) = bc_scheduleList c"
  "results (Base_ExitWait g c) = results c" "ctx_keeps eid c (Base_ExitWait g c)"
  "bc_scheduleList (Base_ExitWait g c) = bc_scheduleList c"
  by (simp_all add: Base_Mark_def Base_EnterWait_def Base_ExitWait_def)

lemma latest_error_quiet [simp]:
  "results (Base_SetLatestError e c) = results c"
  "bc_scheduleList (Base_SetLatestError e c) = bc_scheduleList c"
  "ctx_keeps eid c (Base_SetLatestError e c)"
  by (simp_all add: Base_SetLatestError_def results_def ctx_keeps_def)

lemma results_update [simp]:
  "results (c\<lparr>bc_scheduleList := l\<rparr>) = results c" "results (c\<lparr>bc_hasStarted := b\<rparr>) = results c"
  "results (c\<lparr>bc_stopRequested := b\<rparr>) = results c" "results (c\<lparr>bc_startFailDelivered := b\<rparr>) = results c"
  by (simp_all add: results_def)

lemma start_failed:
  "results (Base_OnStartFailed code c) = results c @
     (if bc_startFailDelivered c \<or> \<not> bc_callback c then [] else [ResultDelivered code Attributes_new])"
  "bc_startFailDelivered (Base_OnStartFailed code c)"
  "bc_scheduleList (Base_OnStartFailed code c) = bc_scheduleList c"
  "bc_hasStarted (Base_OnStartFailed code c) = bc_hasStarted c"
  "bc_stopRequested (Base_OnStartFailed code c) = bc_stopRequested c"
  "bc_callback (Base_OnStartFailed code c) = bc_callback c"
  "bc_contextId (Base_OnStartFailed code c) = bc_contextId c"
  "base_context.more (Base_OnStartFailed code c) = base_context.more c"
  "bc_latestError (Base_OnStartFailed code c) = bc_latestError c"
  by (simp_all add: Base_OnStartFailed_def Let_def ctx_emit_def results_def)

section \<open>Operations that deliver nothing\<close>

definition quiet :: "('c \<Rightarrow> 'k) \<Rightarrow> 'c base_context_scheme \<Rightarrow> 'c base_context_scheme \<Rightarrow> bool" where
  "quiet eid c c' \<longleftrightarrow> ctx_keeps eid c c' \<and> results c' = results c"

lemma quiet_refl [simp]: "quiet eid c c"
  by (simp add: quiet_def)

lemma quiet_trans: "quiet eid a b \<Longrightarrow> quiet eid b c \<Longrightarrow> quiet eid a c"
  using ctx_keeps_trans by (fastforce simp: quiet_def)

lemma quiet_emit [simp]: "\<not> is_result out \<Longrightarrow> quiet eid c (ctx_emit out c)"
  unfolding quiet_def by simp

lemma quiet_base [simp]:
  "quiet eid c (Base_Mark g c)" "quiet eid c (Base_EnterWait g c)" "quiet eid c (Base_ExitWait g c)"
  "quiet eid c (Base_SetLatestError err c)" "quiet eid c (SetScheduleList l c)"
  "quiet eid c (c\<lparr>bc_scheduleList := l\<rparr>)"
  unfolding quiet_def by (simp_all add: SetScheduleList_def) (simp_all add: ctx_keeps_def)

lemma fold_emit: "fold ctx_emit calls c = c\<lparr>bc_outputs := bc_outputs c @ calls\<rparr>"
  by (induction calls arbitrary: c) (simp_all add: ctx_emit_def)

lemma quiet_fold_emit: "list_all (\<lambda>out. \<not> is_result out) calls \<Longrightarrow> quiet eid c (c\<lparr>bc_outputs := bc_outputs c @ calls\<rparr>)"
  by (simp add: quiet_def ctx_keeps_def results_def list_all_iff)

lemma base_callback [simp]:
  "bc_callback (ctx_emit out c) = bc_callback c" "bc_latestError (ctx_emit out c) = bc_latestError c"
  "bc_callback (Base_EnterWait g c) = bc_callback c" "bc_callback (Base_ExitWait g c) = bc_callback c"
  "bc_callback (Base_SetLatestError err c) = bc_callback c"
  by (simp_all add: ctx_emit_def Base_EnterWait_def Base_ExitWait_def Base_SetLatestError_def)

lemma maybe_stopped_refl [simp]: "maybe_stopped x x" "list_all2 maybe_stopped xs xs"
proof -
  show "maybe_stopped x x" for x by (cases x) simp_all
  then show "list_all2 maybe_stopped xs xs" by (simp add: list.rel_refl)
qed

lemma stop_single_contract [simp]:
  "quiet eid c (stop_single c)" "list_all2 maybe_stopped (bc_scheduleList c) (bc_scheduleList (stop_single c))"
  "bc_callback (stop_single c) = bc_callback c" "base_context.more (stop_single c) = base_context.more c"
  by (auto simp: stop_single_def split: list.splits option.splits)

lemma StartSchedule_True: "fst (StartSchedule env ms) = True"
  by (simp add: StartSchedule_def TryKickMachine_def)

lemma StartSchedule_new:
  assumes "node_new ms"
  shows "node_new (snd (StartSchedule env ms))"
proof -
  obtain nls where n: "set nls \<subseteq> {LStart}" "sched_inv nls ms" using assms by (auto simp: node_new_def)
  have "sched_inv (nls @ [LStart]) (snd (StartSchedule env ms))" by (rule sched_inv_step [OF n(2) step_start])
  moreover have "filter is_stop (sn_trace (snd (snd (StartSchedule env ms)))) = filter is_stop (sn_trace (snd ms))"
    by (simp add: StartSchedule_def TryKickMachine_def StartTimer_def node_emit_def)
  ultimately show ?thesis
    using n(1) assms by (auto simp: node_new_def intro!: exI [of _ "nls @ [LStart]"])
qed

lemma built_nodes_new:
  assumes "BuildFromHdi description p para callback infos nodes = (True, built)" and "ms \<in> set built"
  shows "node_new ms \<and> dormant ms"
proof -
  obtain info where "ScheduleInfoToScheduleNode description p para callback info = Some ms"
    using assms by (auto simp: BuildFromHdi_def build_loop_iff list_all2_conv_all_nth in_set_conv_nth
        split: option.splits)
  then obtain live si where i: "Init description live si = Some ms"
    by (auto simp: ScheduleInfoToScheduleNode_def Sched_Builder_Build_def split: option.splits if_splits)
  then have "sn_trace (snd ms) = []" "currentState (fst ms) = S_INIT" "pendingEvents (fst ms) = []"
    by (auto simp: Init_def MakeFiniteStateMachine_builds FSM_SetThreadHandler_def Let_def split: if_splits option.splits)
  then show ?thesis using sched_inv_Init [OF i] by (auto simp: node_new_def dormant_def intro: exI [of _ "[]"])
qed

text \<open>Starting the only schedule of a list of new ones.\<close>

lemma start_single_contract:
  assumes "start_single env nodes c = (r, c')" and "\<And>ms. ms \<in> set nodes \<Longrightarrow> node_new ms \<and> dormant ms"
  shows "quiet eid c c'"
    and "(\<forall>ms. Some ms \<in> set (bc_scheduleList c') \<longrightarrow> node_new ms \<and> (r \<or> dormant ms)) \<and>
      (r \<longrightarrow> length (bc_scheduleList c') = 1)"
    and "base_context.more c' = base_context.more c" and "bc_callback c' = bc_callback c"
proof -
  consider (one) ms where "nodes = [ms]" | (other) "\<nexists>ms. nodes = [ms]" by blast
  then have "quiet eid c c' \<and>
      (\<forall>ms. Some ms \<in> set (bc_scheduleList c') \<longrightarrow> node_new ms \<and> (r \<or> dormant ms)) \<and>
      (r \<longrightarrow> length (bc_scheduleList c') = 1) \<and> base_context.more c' = base_context.more c \<and>
      bc_callback c' = bc_callback c"
  proof cases
    case one
    obtain ms1 where ms1: "StartSchedule env ms = (True, ms1)"
      using StartSchedule_True [of env ms] by (cases "StartSchedule env ms") auto
    then have "node_new ms1" using StartSchedule_new [of ms env] assms(2) one by simp
    then show ?thesis
      using assms(1) quiet_trans [OF quiet_base(5) quiet_base(6)]
      by (auto simp: start_single_def one ms1 Let_def SetScheduleList_def)
  next
    case other
    have "start_single env nodes c = (False, SetScheduleList (map Some nodes) c)"
      using other by (auto simp: start_single_def Let_def split: list.splits)
    then show ?thesis using assms by (auto simp: SetScheduleList_def)
  qed
  then show "quiet eid c c'"
    and "(\<forall>ms. Some ms \<in> set (bc_scheduleList c') \<longrightarrow> node_new ms \<and> (r \<or> dormant ms)) \<and>
      (r \<longrightarrow> length (bc_scheduleList c') = 1)"
    and "base_context.more c' = base_context.more c" and "bc_callback c' = bc_callback c" by blast+
qed

text \<open>
  How the subclasses use them: the object of the context is updated first, then the schedule is started or the
  failure noted; and the schedule is stopped first, then the object is updated and a failure noted.
\<close>

lemma start_after_update:
  assumes q: "quiet eid c c1" and "bc_scheduleList c1 = bc_scheduleList c"
    and "(if st then start_single env nodes c1 else (False, Base_SetLatestError err c1)) = (r, c')"
    and n: "\<And>ms. st \<Longrightarrow> ms \<in> set nodes \<Longrightarrow> node_new ms \<and> dormant ms"
  shows "quiet eid c c' \<and> (bc_scheduleList c = [] \<longrightarrow>
      (\<forall>ms. Some ms \<in> set (bc_scheduleList c') \<longrightarrow> node_new ms \<and> (r \<or> dormant ms)) \<and>
      (r \<longrightarrow> length (bc_scheduleList c') \<le> 1))"
proof (cases st)
  case True
  then have s: "start_single env nodes c1 = (r, c')" using assms(3) by simp
  have "\<And>ms. ms \<in> set nodes \<Longrightarrow> node_new ms \<and> dormant ms" using n True by simp
  from start_single_contract(1,2) [OF s this] show ?thesis using quiet_trans [OF q] by auto
next
  case False
  then have "\<not> r" "c' = Base_SetLatestError err c1" using assms(3) by simp_all
  then show ?thesis using quiet_trans [OF q quiet_base(4)] assms(2) by simp
qed

lemma update_after_stop:
  assumes q: "quiet eid (stop_single c) c1" and "bc_scheduleList c1 = bc_scheduleList (stop_single c)"
    and "c' = c1 \<or> c' = Base_SetLatestError err c1"
  shows "quiet eid c c' \<and> list_all2 maybe_stopped (bc_scheduleList c) (bc_scheduleList c')"
proof -
  have "quiet eid c c1" by (rule quiet_trans [OF stop_single_contract(1) q])
  moreover from this have "quiet eid c (Base_SetLatestError err c1)" by (rule quiet_trans) simp
  ultimately show ?thesis using assms(2,3) stop_single_contract(2) [of c] by auto
qed

section \<open>The invariant\<close>

definition node_ok :: "'e ctx_label list \<Rightarrow> nat \<Rightarrow> sched_state \<Rightarrow> bool" where
  "node_ok ls i ms \<longleftrightarrow>
     (\<exists>nls. sched_inv nls ms \<and>
        (\<forall>l \<in> set nls. l = LStart \<or> l = LStop CANCELED \<or> (\<exists>e. CNode i l e \<in> set ls) \<and> \<not> own_label l))"

definition node_stops :: "sched_state option \<Rightarrow> nat" where
  "node_stops x = (case x of None \<Rightarrow> 0 | Some ms \<Rightarrow> length (filter is_stop (sn_trace (snd ms))))"

fun is_start :: "'e ctx_label \<Rightarrow> bool" where
  "is_start (CStart _) = True"
| "is_start _ = False"

definition success_backed ::
  "('e \<Rightarrow> 'k \<Rightarrow> i32 \<Rightarrow> attributes option \<Rightarrow> bool) \<times> ('e \<Rightarrow> 'k \<Rightarrow> bool) \<Rightarrow> 'e ctx_label list \<Rightarrow> 'k \<Rightarrow> bool" where
  "success_backed B ls cid \<longleftrightarrow>
     (\<exists>i l e code r. CNode i l e \<in> set ls \<and> fst B e cid code r \<and>
        (code = SUCCESS \<longrightarrow> (\<exists>e'. CNode i (LContinue SUCCESS r) e' \<in> set ls)) \<and>
        (r \<noteq> None \<longrightarrow> (\<exists>c e'. CNode i (LContinue c r) e' \<in> set ls))) \<or>
     (\<exists>e. CStart e \<in> set ls \<and> snd B e cid)"

definition ctx_inv ::
  "('c \<Rightarrow> 'k) \<Rightarrow> ('e \<Rightarrow> 'k \<Rightarrow> i32 \<Rightarrow> attributes option \<Rightarrow> bool) \<times> ('e \<Rightarrow> 'k \<Rightarrow> bool) \<Rightarrow>
   'e ctx_label list \<Rightarrow> 'c base_context_scheme \<Rightarrow> bool" where
  "ctx_inv eid B ls c \<longleftrightarrow>
     bc_latestError c \<noteq> SUCCESS \<and>
     (bc_hasStarted c \<longrightarrow> (\<exists>l \<in> set ls. is_start l)) \<and>
     (\<not> bc_hasStarted c \<longrightarrow> bc_scheduleList c = []) \<and>
     (bc_stopRequested c \<longrightarrow> bc_startFailDelivered c \<and> \<not> bc_hasStarted c) \<and>
     (bc_startFailDelivered c \<longrightarrow> bc_stopRequested c \<or> (\<exists>l \<in> set ls. is_start l)) \<and>
     (\<forall>i ms. i < length (bc_scheduleList c) \<longrightarrow> bc_scheduleList c ! i = Some ms \<longrightarrow> node_ok ls i ms) \<and>
     length (results c) \<le>
       (if bc_startFailDelivered c \<or> bc_hasStarted c \<and> bc_scheduleList c = [] then 1 else 0) +
       sum_list (map node_stops (bc_scheduleList c)) \<and>
     (length (bc_scheduleList c) \<le> 1 \<and> \<not> bc_startFailDelivered c \<or>
      (\<forall>ms. Some ms \<in> set (bc_scheduleList c) \<longrightarrow> dormant ms)) \<and>
     ((\<exists>a. ResultDelivered SUCCESS a \<in> set (results c)) \<longrightarrow> success_backed B ls (eid (base_context.more c)))"

lemma node_ok_append: "node_ok ls i ms \<Longrightarrow> node_ok (ls @ l) i ms"
  unfolding node_ok_def by fastforce

lemma success_backed_append: "success_backed B ls cid \<Longrightarrow> success_backed B (ls @ l) cid"
  unfolding success_backed_def by fastforce

lemma node_ok_new: "node_new ms \<Longrightarrow> node_ok ls i ms"
  unfolding node_ok_def node_new_def by blast

lemma node_ok_stop: "node_ok ls i ms \<Longrightarrow> node_ok ls i (snd (StopSchedule CANCELED ms))"
  unfolding node_ok_def
  using sched_inv_append [OF sched_inv_stop, of _ ms CANCELED "[]"] by fastforce

lemma node_ok_step:
  assumes "node_ok ls i ms" and "sched_step env l ms ms'" and "\<not> own_label l"
  shows "node_ok (ls @ [CNode i l e]) i ms'"
proof -
  obtain nls where "sched_inv nls ms"
    and "\<forall>l \<in> set nls. l = LStart \<or> l = LStop CANCELED \<or> (\<exists>e. CNode i l e \<in> set ls) \<and> \<not> own_label l"
    using assms(1) unfolding node_ok_def by blast
  then show ?thesis
    using sched_inv_step [OF _ assms(2)] assms(3) unfolding node_ok_def
    by (intro exI [of _ "nls @ [l]"]) auto
qed

lemma node_ok_result:
  assumes "node_ok ls i ms" and "ScheduleStoped code (Some r) \<in> set (sn_trace (snd ms))"
  shows "\<exists>c e. CNode i (LContinue c (Some r)) e \<in> set ls"
proof -
  obtain nls where inv: "sched_inv nls ms"
    and nls: "\<forall>l \<in> set nls. l = LStart \<or> l = LStop CANCELED \<or> (\<exists>e. CNode i l e \<in> set ls) \<and> \<not> own_label l"
    using assms(1) unfolding node_ok_def by blast
  have "result_ok nls (Some r)" using inv assms(2) unfolding sched_inv_def inv_origin_def by fastforce
  then show ?thesis using nls unfolding result_ok_def by fastforce
qed

lemma node_ok_success:
  assumes "node_ok ls i ms" and "ScheduleStoped SUCCESS r \<in> set (sn_trace (snd ms))"
  shows "\<exists>e. CNode i (LContinue SUCCESS r) e \<in> set ls"
proof -
  obtain nls where inv: "sched_inv nls ms"
    and nls: "\<forall>l \<in> set nls. l = LStart \<or> l = LStop CANCELED \<or> (\<exists>e. CNode i l e \<in> set ls) \<and> \<not> own_label l"
    using assms(1) unfolding node_ok_def by blast
  have "origin_ok nls SUCCESS r" using inv assms(2) by (simp add: sched_inv_def inv_origin_def)
  moreover have "LStop SUCCESS \<notin> set nls" using nls by fastforce
  ultimately have "LContinue SUCCESS r \<in> set nls" by (simp add: origin_ok_def)
  then show ?thesis using nls by fastforce
qed

section \<open>Every step keeps it\<close>

definition fresh_context :: "'c base_context_scheme \<Rightarrow> bool" where
  "fresh_context c \<longleftrightarrow>
     \<not> bc_hasStarted c \<and> \<not> bc_stopRequested c \<and> \<not> bc_startFailDelivered c \<and>
     bc_latestError c \<noteq> SUCCESS \<and> bc_scheduleList c = [] \<and> bc_outputs c = []"

lemma dormant_stops: "(\<And>ms. Some ms \<in> set xs \<Longrightarrow> dormant ms) \<Longrightarrow> sum_list (map node_stops xs) = 0"
  by (auto simp: node_stops_def dormant_def split: option.splits)

lemma StopSchedule_stops: "node_stops (Some (snd (StopSchedule c ms))) = node_stops (Some ms)"
  by (simp add: node_stops_def StopSchedule_def TryKickMachine_def SetFwkResultCode_def)

lemma maybe_stopped_stops: "maybe_stopped x y \<Longrightarrow> node_stops y = node_stops x"
  by (cases x) (auto simp: StopSchedule_stops)

lemma all_stopped_stops:
  "list_all2 maybe_stopped xs ys \<Longrightarrow> map node_stops ys = map node_stops xs"
  by (induction rule: list_all2_induct) (simp_all add: maybe_stopped_stops)

lemma maybe_stopped_some:
  "maybe_stopped x (Some ms) \<Longrightarrow> \<exists>ms0. x = Some ms0 \<and> (ms = ms0 \<or> ms = snd (StopSchedule CANCELED ms0))"
  by (cases x) auto

lemma ctx_inv_le: "ctx_inv eid B ls c \<Longrightarrow> length (results c) \<le> 1"
proof -
  assume inv: "ctx_inv eid B ls c"
  have "sum_list (map node_stops (bc_scheduleList c)) \<le> 1" if "length (bc_scheduleList c) \<le> 1"
  proof (cases "bc_scheduleList c")
    case (Cons x xs)
    then have l: "bc_scheduleList c = [x]" using that by simp
    have "node_stops x \<le> 1"
    proof (cases x)
      case (Some ms)
      then obtain nls where "sched_inv nls ms"
        using inv l unfolding ctx_inv_def node_ok_def by fastforce
      then show ?thesis by (simp add: Some node_stops_def sched_inv_def inv_once_def Let_def)
    qed (simp add: node_stops_def)
    then show ?thesis by (simp add: l)
  qed simp
  moreover have "sum_list (map node_stops (bc_scheduleList c)) = 0"
    if "\<forall>ms. Some ms \<in> set (bc_scheduleList c) \<longrightarrow> dormant ms"
    using that dormant_stops by blast
  moreover have "length (results c) \<le>
      (if bc_startFailDelivered c \<or> bc_hasStarted c \<and> bc_scheduleList c = [] then 1 else 0) +
      sum_list (map node_stops (bc_scheduleList c))"
    and "length (bc_scheduleList c) \<le> 1 \<and> \<not> bc_startFailDelivered c \<or>
      (\<forall>ms. Some ms \<in> set (bc_scheduleList c) \<longrightarrow> dormant ms)"
    using inv unfolding ctx_inv_def by blast+
  ultimately show ?thesis by (elim disjE) (simp_all split: if_splits del: sum_list_eq_0_iff)
qed

lemma ctx_inv_append: "ctx_inv eid B ls c \<Longrightarrow> ctx_inv eid B (ls @ l) c"
  by (auto simp: ctx_inv_def node_ok_append success_backed_append)

lemma fresh_inv: "fresh_context c \<Longrightarrow> ctx_inv eid B [] c"
  by (simp add: fresh_context_def ctx_inv_def results_def)

lemma ctx_inv_start_failed:
  assumes "ctx_inv eid B ls c" and "code \<noteq> SUCCESS" and "\<exists>l \<in> set ls. is_start l"
    and "results c = [] \<or> bc_startFailDelivered c" and "\<And>ms. Some ms \<in> set (bc_scheduleList c) \<Longrightarrow> dormant ms"
  shows "ctx_inv eid B ls (Base_OnStartFailed code c)"
  using assms unfolding ctx_inv_def by (auto simp: start_failed split: if_splits)

context context_class
begin

lemma deliver_one:
  assumes "bc_latestError c \<noteq> SUCCESS"
  shows "\<exists>d. results (deliver V e out c) = results c @ d \<and>
    length d \<le> (if is_stop out then 1 else 0) \<and> ctx_keeps eid c (deliver V e out c) \<and>
    bc_scheduleList (deliver V e out c) = bc_scheduleList c \<and>
    ((\<exists>a. ResultDelivered SUCCESS a \<in> set d) \<longrightarrow>
       (\<exists>code r. out = ScheduleStoped code r \<and> backed e (eid (base_context.more c)) code r))"
proof (cases out)
  case (ScheduleStoped code r)
  then show ?thesis
    using result_delivers [OF assms] result_keeps result_nodes by (auto simp: Base_OnScheduleStoped_def)
qed (simp_all add: Base_OnScheduleStarted_def Base_OnScheduleProcessed_def)

lemma deliver_all:
  assumes "bc_latestError c \<noteq> SUCCESS"
  shows "\<exists>d. results (fold (deliver V e) told c) = results c @ d \<and>
    length d \<le> length (filter is_stop told) \<and> ctx_keeps eid c (fold (deliver V e) told c) \<and>
    bc_scheduleList (fold (deliver V e) told c) = bc_scheduleList c \<and>
    ((\<exists>a. ResultDelivered SUCCESS a \<in> set d) \<longrightarrow>
       (\<exists>code r. ScheduleStoped code r \<in> set told \<and> backed e (eid (base_context.more c)) code r))"
  using assms
proof (induction told arbitrary: c)
  case (Cons out told)
  let ?c = "deliver V e out c"
  obtain d1 where d1: "results ?c = results c @ d1" "length d1 \<le> (if is_stop out then 1 else 0)"
    "ctx_keeps eid c ?c" "bc_scheduleList ?c = bc_scheduleList c"
    "(\<exists>a. ResultDelivered SUCCESS a \<in> set d1) \<Longrightarrow>
       \<exists>code r. out = ScheduleStoped code r \<and> backed e (eid (base_context.more c)) code r"
    using deliver_one [OF Cons.prems] by blast
  have "bc_latestError ?c \<noteq> SUCCESS" and cid: "eid (base_context.more ?c) = eid (base_context.more c)"
    using d1(3) Cons.prems by (simp_all add: ctx_keeps_def)
  then obtain d2 where d2: "results (fold (deliver V e) told ?c) = results ?c @ d2"
    "length d2 \<le> length (filter is_stop told)" "ctx_keeps eid ?c (fold (deliver V e) told ?c)"
    "bc_scheduleList (fold (deliver V e) told ?c) = bc_scheduleList ?c"
    "(\<exists>a. ResultDelivered SUCCESS a \<in> set d2) \<Longrightarrow>
       \<exists>code r. ScheduleStoped code r \<in> set told \<and> backed e (eid (base_context.more c)) code r"
    using Cons.IH [of ?c] by auto
  have "ctx_keeps eid c (fold (deliver V e) told ?c)" by (rule ctx_keeps_trans [OF d1(3) d2(3)])
  then show ?case
    using d1 d2(1,2,4,5) by (intro exI [of _ "d1 @ d2"]) (auto split: if_splits)
qed simp

lemma ctx_inv_stop:
  assumes "ctx_inv eid (backed, sbacked) ls c"
  shows "ctx_inv eid (backed, sbacked) ls (snd (Base_Stop (vt_OnStop V e) c))"
proof -
  let ?c = "Base_Mark S_CANCEL c"
  have k: "ctx_keeps eid c ?c" by simp
  have inv: "ctx_inv eid (backed, sbacked) ls ?c"
    using assms k unfolding ctx_inv_def ctx_keeps_def by simp
  show ?thesis
  proof (cases "bc_hasStarted ?c")
    case False
    have "ctx_inv eid (backed, sbacked) ls (Base_OnStartFailed CANCELED (?c\<lparr>bc_stopRequested := True\<rparr>))"
      using inv False unfolding ctx_inv_def by (auto simp: start_failed split: if_splits)
    then show ?thesis using inv False by (simp add: Base_Stop_def Let_def)
  next
    case True
    obtain r c' where o: "vt_OnStop V e ?c = (r, c')" by fastforce
    have n: "list_all2 maybe_stopped (bc_scheduleList ?c) (bc_scheduleList c')"
      by (rule stop_nodes [OF o])
    have kc: "ctx_keeps eid ?c c'" and rc: "results c' = results ?c" using stop_keeps [OF o] by simp_all
    have "node_ok ls i ms" if "i < length (bc_scheduleList c')" "bc_scheduleList c' ! i = Some ms" for i ms
    proof -
      have "maybe_stopped (bc_scheduleList ?c ! i) (Some ms)" and "i < length (bc_scheduleList ?c)"
        using list_all2_nthD2 [OF n that(1)] that list_all2_lengthD [OF n] by simp_all
      then show ?thesis
        using inv maybe_stopped_some [of "bc_scheduleList ?c ! i" ms] node_ok_stop [of ls i]
        unfolding ctx_inv_def by blast
    qed
    moreover have "dormant ms" if all: "\<forall>ms. Some ms \<in> set (bc_scheduleList ?c) \<longrightarrow> dormant ms"
      and mem: "Some ms \<in> set (bc_scheduleList c')" for ms
    proof -
      obtain i where "i < length (bc_scheduleList c')" "bc_scheduleList c' ! i = Some ms"
        using mem by (auto simp: in_set_conv_nth)
      then have "maybe_stopped (bc_scheduleList ?c ! i) (Some ms)" and "i < length (bc_scheduleList ?c)"
        using list_all2_nthD2 [OF n] list_all2_lengthD [OF n] by fastforce+
      then show ?thesis
        using maybe_stopped_some [of "bc_scheduleList ?c ! i" ms] all dormant_stop nth_mem by metis
    qed
    moreover have "length (bc_scheduleList c') = length (bc_scheduleList ?c)"
      and "bc_scheduleList c' = [] \<longleftrightarrow> bc_scheduleList ?c = []"
      and "map node_stops (bc_scheduleList c') = map node_stops (bc_scheduleList ?c)"
      using list_all2_lengthD [OF n] all_stopped_stops [OF n] n by auto
    ultimately have "ctx_inv eid (backed, sbacked) ls c'"
      using inv True kc rc unfolding ctx_inv_def ctx_keeps_def by simp blast
    then show ?thesis using True o by (simp add: Base_Stop_def)
  qed
qed

lemma ctx_inv_start:
  assumes "ctx_inv eid (backed, sbacked) ls c" and "\<not> (\<exists>l \<in> set ls. is_start l)"
  shows "ctx_inv eid (backed, sbacked) (ls @ [CStart e]) (start_task (vt_OnStart V e) c)"
proof -
  have not: "\<not> bc_hasStarted c" and list: "bc_scheduleList c = []"
    using assms unfolding ctx_inv_def by blast+
  have inv: "ctx_inv eid (backed, sbacked) (ls @ [CStart e]) c" by (rule ctx_inv_append [OF assms(1)])
  show ?thesis
  proof (cases "bc_stopRequested c")
    case True
    let ?c = "Base_SetLatestError CANCELED c"
    have "ctx_inv eid (backed, sbacked) (ls @ [CStart e]) ?c"
      using inv unfolding ctx_inv_def by (simp add: Base_SetLatestError_def results_def)
    moreover have "start_task (vt_OnStart V e) c = Base_OnStartFailed (bc_latestError ?c) ?c"
      using not True by (simp add: start_task_def Base_Start_def)
    moreover have "bc_latestError ?c \<noteq> SUCCESS" by (simp add: Base_SetLatestError_def)
    moreover have "bc_startFailDelivered ?c"
      using True inv unfolding ctx_inv_def by (simp add: Base_SetLatestError_def)
    ultimately show ?thesis using list by (auto intro!: ctx_inv_start_failed)
  next
    case False
    let ?c = "(Base_Mark S_CONTEXT_START c)\<lparr>bc_hasStarted := True\<rparr>"
    obtain r c' where o: "vt_OnStart V e ?c = (r, c')" by fastforce
    have k: "ctx_keeps eid c (Base_Mark S_CONTEXT_START c)" by simp
    have kc: "ctx_keeps eid ?c c'" using start_keeps [OF o] .
    obtain d where d: "results c' = results c @ d" "length d \<le> 1" "d \<noteq> [] \<Longrightarrow> r \<and> bc_scheduleList c' = []"
      "(\<exists>a. ResultDelivered SUCCESS a \<in> set d) \<Longrightarrow> sbacked e (eid (base_context.more ?c))"
      using start_delivers [OF o] by auto
    have n: "\<forall>ms. Some ms \<in> set (bc_scheduleList c') \<longrightarrow> node_new ms \<and> (r \<or> dormant ms)"
      and len: "r \<Longrightarrow> length (bc_scheduleList c') \<le> 1"
      using start_nodes [OF o] list by simp_all
    have ok: "\<forall>i ms. i < length (bc_scheduleList c') \<longrightarrow> bc_scheduleList c' ! i = Some ms \<longrightarrow>
        node_ok (ls @ [CStart e]) i ms"
      using n node_ok_new nth_mem by metis
    have zero: "sum_list (map node_stops (bc_scheduleList c')) = 0"
      using n by (auto simp: node_stops_def node_new_def split: option.splits)
    have sf: "\<not> bc_startFailDelivered c" using assms False unfolding ctx_inv_def by blast
    then have rc: "results c = []" using inv list not unfolding ctx_inv_def by simp
    have id: "eid (base_context.more c') = eid (base_context.more c)" and "bc_hasStarted c'"
      "bc_latestError c' \<noteq> SUCCESS" "\<not> bc_startFailDelivered c'" "\<not> bc_stopRequested c'"
      using kc k sf inv False unfolding ctx_inv_def ctx_keeps_def by simp_all
    moreover have "success_backed (backed, sbacked) (ls @ [CStart e]) (eid (base_context.more c'))"
      if "ResultDelivered SUCCESS a \<in> set (results c')" for a
    proof -
      have "sbacked e (eid (base_context.more c'))" using that d(1,4) rc k id by (auto simp: ctx_keeps_def)
      then show ?thesis unfolding success_backed_def by auto
    qed
    moreover have "length (bc_scheduleList c') \<le> 1 \<or> (\<forall>ms. Some ms \<in> set (bc_scheduleList c') \<longrightarrow> dormant ms)"
      using n len by blast
    moreover have "length (results c') \<le> (if bc_scheduleList c' = [] then 1 else 0)"
      using d(1-3) rc by (cases d) auto
    ultimately have c': "ctx_inv eid (backed, sbacked) (ls @ [CStart e]) c'"
      using ok zero unfolding ctx_inv_def by auto
    show ?thesis
    proof (cases r)
      case True
      then show ?thesis using o c' False not by (simp add: start_task_def Base_Start_def)
    next
      case F: False
      then have "ctx_inv eid (backed, sbacked) (ls @ [CStart e]) (Base_OnStartFailed (bc_latestError c') c')"
        using c' n d(1,3) rc by (intro ctx_inv_start_failed) (auto simp: ctx_inv_def)
      then show ?thesis using o F False not by (simp add: start_task_def Base_Start_def)
    qed
  qed
qed

lemma ctx_inv_node:
  assumes "ctx_inv eid (backed, sbacked) ls c" and "i < length (bc_scheduleList c)" and "bc_scheduleList c ! i = Some ms"
    and "\<not> own_label l" and "sched_step (vt_sched V e) l ms ms'"
    and "sn_trace (snd ms') = sn_trace (snd ms) @ told"
  shows "ctx_inv eid (backed, sbacked) (ls @ [CNode i l e])
    (fold (deliver V e) told (c\<lparr>bc_scheduleList := (bc_scheduleList c)[i := Some ms']\<rparr>))"
proof -
  let ?ls = "ls @ [CNode i l e]" and ?xs = "(bc_scheduleList c)[i := Some ms']"
  let ?c = "c\<lparr>bc_scheduleList := ?xs\<rparr>"
  let ?c' = "fold (deliver V e) told ?c"
  have inv: "ctx_inv eid (backed, sbacked) ?ls c" by (rule ctx_inv_append [OF assms(1)])
  have nodes: "node_ok ?ls j mj" if "j < length (bc_scheduleList c)" "bc_scheduleList c ! j = Some mj" for j mj
    using inv that unfolding ctx_inv_def by blast
  have err: "bc_latestError ?c \<noteq> SUCCESS" using assms(1) by (simp add: ctx_inv_def)
  obtain d where d: "results ?c' = results c @ d" "length d \<le> length (filter is_stop told)"
    "ctx_keeps eid ?c ?c'" "bc_scheduleList ?c' = ?xs"
    "(\<exists>a. ResultDelivered SUCCESS a \<in> set d) \<Longrightarrow>
       \<exists>code r. ScheduleStoped code r \<in> set told \<and> backed e (eid (base_context.more c)) code r"
    using deliver_all [OF err, of e told] by auto
  have ok: "node_ok ls i ms" using assms(1-3) unfolding ctx_inv_def by blast
  have ok': "node_ok ?ls i ms'" by (rule node_ok_step [OF ok assms(5,4)])
  have backed': "success_backed (backed, sbacked) ?ls (eid (base_context.more c))"
    if "ScheduleStoped code r \<in> set told" and "backed e (eid (base_context.more c)) code r" for code r
  proof -
    have "code = SUCCESS \<longrightarrow> (\<exists>e'. CNode i (LContinue SUCCESS r) e' \<in> set ?ls)"
      using node_ok_success [OF ok', of r] that(1) assms(6) by auto
    moreover have "r \<noteq> None \<longrightarrow> (\<exists>c e'. CNode i (LContinue c r) e' \<in> set ?ls)"
      using node_ok_result [OF ok', of code] that(1) assms(6) by auto
    ultimately show ?thesis using that(2) unfolding success_backed_def fst_conv
      by (intro disjI1 exI [of _ i] exI [of _ l] exI [of _ e] exI [of _ code] exI [of _ r]) simp
  qed
  have "sum_list (map node_stops ?xs) = sum_list (map node_stops (bc_scheduleList c)) + length (filter is_stop told)"
  proof -
    have "node_stops (Some ms') = node_stops (Some ms) + length (filter is_stop told)"
      using assms(6) by (simp add: node_stops_def)
    moreover have "map node_stops (bc_scheduleList c) ! i = node_stops (Some ms)"
      using assms(2,3) by simp
    moreover have "node_stops (Some ms) \<le> sum_list (map node_stops (bc_scheduleList c))"
      using assms(2,3) by (metis elem_le_sum_list length_map nth_map)
    ultimately show ?thesis
      using assms(2) by (simp add: map_update sum_list_update)
  qed
  moreover have "node_ok ?ls j mj" if "j < length ?xs" "?xs ! j = Some mj" for j mj
    using that ok' nodes by (cases "j = i") auto
  moreover have "dormant mj" if all: "\<forall>ms. Some ms \<in> set (bc_scheduleList c) \<longrightarrow> dormant ms"
    and mem: "Some mj \<in> set ?xs" for mj
  proof (cases "mj = ms'")
    case True
    have "dormant ms" using all assms(2,3) nth_mem by metis
    moreover obtain nls where "sched_inv nls ms" using ok unfolding node_ok_def by blast
    moreover have "l \<noteq> LStart" using assms(4) by auto
    ultimately show ?thesis using dormant_step [OF assms(5)] True by blast
  next
    case False
    then show ?thesis using all mem set_update_subset_insert [of "bc_scheduleList c" i "Some ms'"] by blast
  qed
  moreover have "bc_hasStarted c"
    using assms(1,2) unfolding ctx_inv_def by fastforce
  moreover have "length ?xs = length (bc_scheduleList c)" by simp
  moreover have "success_backed (backed, sbacked) ?ls (eid (base_context.more c))"
    if "ResultDelivered SUCCESS a \<in> set (results ?c')" for a
  proof (cases "ResultDelivered SUCCESS a \<in> set d")
    case True
    then show ?thesis using d(5) backed' by blast
  next
    case False
    then show ?thesis using that d(1) inv unfolding ctx_inv_def by auto
  qed
  ultimately show ?thesis
    using inv d(1-4) unfolding ctx_inv_def ctx_keeps_def by simp blast
qed

lemma ctx_run_inv:
  assumes "ctx_run V c0 ls c" and "fresh_context c0" and "length (filter is_start ls) \<le> 1"
  shows "ctx_inv eid (backed, sbacked) ls c"
  using assms(1,3)
proof (induction rule: ctx_run.induct)
  case run_nil
  show ?case using assms(2) by (rule fresh_inv)
next
  case (run_cons ls c l c')
  then have inv: "ctx_inv eid (backed, sbacked) ls c" by simp
  from run_cons.hyps(2) show ?case
  proof (cases rule: ctx_step.cases)
    case (ctx_start e)
    then have "\<not> (\<exists>l \<in> set ls. is_start l)"
      using run_cons.prems by (simp add: filter_empty_conv)
    then show ?thesis using ctx_inv_start [OF inv] ctx_start by simp
  next
    case (ctx_stop e)
    then show ?thesis using ctx_inv_append [OF ctx_inv_stop [OF inv]] by simp
  next
    case (ctx_node i ms j e ms' told)
    then show ?thesis using ctx_inv_node [OF inv] by blast
  qed
qed

text \<open>The engine's id of a context never changes.\<close>

lemma deliver_keeps: "ctx_keeps eid c (fold (deliver V e) told c)"
proof (induction told arbitrary: c)
  case (Cons out told)
  have "ctx_keeps eid c (deliver V e out c)"
    by (cases out)
      (simp_all add: Base_OnScheduleStarted_def Base_OnScheduleProcessed_def Base_OnScheduleStoped_def result_keeps)
  then show ?case using Cons.IH ctx_keeps_trans by fastforce
qed simp

lemma ctx_run_id:
  assumes "ctx_run V c0 ls c"
  shows "eid (base_context.more c) = eid (base_context.more c0)"
  using assms
proof (induction rule: ctx_run.induct)
  case (run_cons ls c l c')
  have mark: "base_context.more (Base_Mark g c) = base_context.more c" for g
    by (simp add: Base_Mark_def ctx_emit_def)
  have "eid (base_context.more c') = eid (base_context.more c)"
    using run_cons.hyps(2)
  proof (cases rule: ctx_step.cases)
    case (ctx_start e)
    obtain r d where "vt_OnStart V e ((Base_Mark S_CONTEXT_START c)\<lparr>bc_hasStarted := True\<rparr>) = (r, d)" by fastforce
    then show ?thesis
      using start_keeps by (fastforce simp: ctx_start start_task_def Base_Start_def start_failed Base_SetLatestError_def
          ctx_keeps_def mark)
  next
    case (ctx_stop e)
    obtain r d where "vt_OnStop V e (Base_Mark S_CANCEL c) = (r, d)" by fastforce
    then show ?thesis
      using stop_keeps by (fastforce simp: ctx_stop Base_Stop_def Let_def start_failed ctx_keeps_def mark)
  next
    case (ctx_node i ms j e ms' told)
    then show ?thesis
      using deliver_keeps [of "c\<lparr>bc_scheduleList := (bc_scheduleList c)[i := Some ms']\<rparr>" e told]
      by (simp add: ctx_keeps_def)
  qed
  then show ?case using run_cons.IH by simp
qed simp

end

section \<open>A context stopped before it started\<close>

text \<open>This holds whatever the subclass does: its \<^verbatim>\<open>OnStart\<close> is never reached.\<close>

lemma stopped_before_start:
  assumes "ctx_run V c0 ls c" and "fresh_context c0" and "ls \<noteq> []" and "hd ls = CStop e"
  shows "bc_stopRequested c \<and> bc_startFailDelivered c \<and> \<not> bc_hasStarted c \<and> bc_scheduleList c = [] \<and>
    base_context.more c = base_context.more c0 \<and> bc_callback c = bc_callback c0 \<and>
    results c = (if bc_callback c0 then [ResultDelivered CANCELED Attributes_new] else [])"
  using assms(1,3,4)
proof (induction rule: ctx_run.induct)
  case run_nil
  then show ?case by simp
next
  case (run_cons ls c l c')
  show ?case
  proof (cases "ls = []")
    case True
    with run_cons.hyps(1) have c: "c = c0" by (auto elim: ctx_run.cases)
    have l: "l = CStop e" using run_cons.prems True by simp
    have "c' = snd (Base_Stop (vt_OnStop V e) c0)"
      using run_cons.hyps(2) by (auto simp: c l elim: ctx_stepE)
    moreover have "bc_outputs c0 = []" using assms(2) by (simp add: fresh_context_def)
    ultimately show ?thesis
      using assms(2) by (simp add: Base_Stop_def Let_def fresh_context_def Base_Mark_def ctx_emit_def
          Base_OnStartFailed_def results_def)
  next
    case False
    then have ih: "bc_stopRequested c \<and> bc_startFailDelivered c \<and> \<not> bc_hasStarted c \<and>
        bc_scheduleList c = [] \<and> base_context.more c = base_context.more c0 \<and> bc_callback c = bc_callback c0 \<and>
        results c = (if bc_callback c0 then [ResultDelivered CANCELED Attributes_new] else [])"
      using run_cons.IH run_cons.prems by simp
    from run_cons.hyps(2) show ?thesis
      by (cases rule: ctx_step.cases)
        (use ih in \<open>auto simp: start_task_def Base_Start_def Base_SetLatestError_def Base_OnStartFailed_def
          Base_Stop_def Let_def Base_Mark_def ctx_emit_def results_def\<close>)
  qed
qed

text \<open>A class whose \<^verbatim>\<open>OnStart\<close> delivers nothing itself.\<close>

lemma quiet_start_class:
  fixes V :: "('e, 'c) ctx_vtable"
  assumes start: "\<And>e c r c'. vt_OnStart V e c = (r, c') \<Longrightarrow> quiet eid c c'"
    and nodes: "\<And>e c r c'. vt_OnStart V e c = (r, c') \<Longrightarrow> bc_scheduleList c = [] \<Longrightarrow>
      (\<forall>ms. Some ms \<in> set (bc_scheduleList c') \<longrightarrow> node_new ms \<and> (r \<or> dormant ms)) \<and>
      (r \<longrightarrow> length (bc_scheduleList c') \<le> 1)"
    and stop: "\<And>e c r c'. vt_OnStop V e c = (r, c') \<Longrightarrow>
      quiet eid c c' \<and> list_all2 maybe_stopped (bc_scheduleList c) (bc_scheduleList c')"
    and result: "\<And>e code res c. ctx_keeps eid c (vt_OnResult V e code res c) \<and>
      bc_scheduleList (vt_OnResult V e code res c) = bc_scheduleList c"
    and delivers: "\<And>e code res c. bc_latestError c \<noteq> SUCCESS \<Longrightarrow>
      \<exists>d. results (vt_OnResult V e code res c) = results c @ d \<and> length d \<le> 1 \<and>
        ((\<exists>a. ResultDelivered SUCCESS a \<in> set d) \<longrightarrow> backed e (eid (base_context.more c)) code res)"
  shows "context_class V eid backed (\<lambda>_ _. False)"
proof
  show "ctx_keeps eid c c'" if "vt_OnStart V e c = (r, c')" for e c r c'
    using start [OF that] by (simp add: quiet_def)
  show "\<exists>d. results c' = results c @ d \<and> length d \<le> 1 \<and> (d \<noteq> [] \<longrightarrow> r \<and> bc_scheduleList c' = []) \<and>
      ((\<exists>a. ResultDelivered SUCCESS a \<in> set d) \<longrightarrow> False)" if "vt_OnStart V e c = (r, c')" for e c r c'
    using start [OF that] by (simp add: quiet_def)
qed (use nodes stop result delivers in \<open>auto simp: quiet_def\<close>)

end
