(* ===== verification/Attribute_Setters.thy ===== *)
theory Attribute_Setters
  imports Attributes
begin

text \<open>
  Objects that are filled by a row of setters, up to the first that is refused: the idiom of every result and
  event that the contexts build. The lemmas say which keys such an object has.
\<close>

text \<open>Setters in a row, up to the first that is refused.\<close>

fun set_all :: "(attributes \<Rightarrow> bool \<times> attributes) list \<Rightarrow> attributes \<Rightarrow> bool \<times> attributes" where
  "set_all [] a = (True, a)"
| "set_all (f # fs) a = (case f a of (r, a1) \<Rightarrow> if r then set_all fs a1 else (False, a1))"

definition opt_setter ::
  "(u32 \<Rightarrow> 'v \<Rightarrow> attributes \<Rightarrow> bool \<times> attributes) \<Rightarrow> u32 \<Rightarrow> 'v option \<Rightarrow>
   (attributes \<Rightarrow> bool \<times> attributes) list" where
  "opt_setter setter key v = (case v of None \<Rightarrow> [] | Some x \<Rightarrow> [setter key x])"

section \<open>The keys of a filled object\<close>

definition leaves :: "u32 \<Rightarrow> (attributes \<Rightarrow> bool \<times> attributes) \<Rightarrow> bool" where
  "leaves j f \<longleftrightarrow> (\<forall>v a. attr_at j v a \<longrightarrow> attr_at j v (snd (f a)))"

definition adds_one :: "(attributes \<Rightarrow> bool \<times> attributes) \<Rightarrow> bool" where
  "adds_one f \<longleftrightarrow>
     (\<forall>n a. attr_len n a \<longrightarrow> n \<le> MAX_ATTR_COUNT \<longrightarrow> fst (f a) \<and> attr_len (Suc n) (snd (f a)))"

lemma set_all_leaves: "list_all (leaves j) fs \<Longrightarrow> attr_at j v a \<Longrightarrow> attr_at j v (snd (set_all fs a))"
proof (induction fs a rule: set_all.induct)
  case (2 f fs a)
  obtain r b where f: "f a = (r, b)" by fastforce
  then have "attr_at j v b" using 2(2,3) by (auto simp: leaves_def dest!: spec [of _ v] spec [of _ a])
  then show ?case using 2 by (simp add: f)
qed simp

lemma set_all_append: "set_all (fs @ gs) a = (case set_all fs a of (r, b) \<Rightarrow> if r then set_all gs b else (False, b))"
  by (induction fs a rule: set_all.induct) (auto split: prod.splits)

lemma set_all_adds:
  "list_all adds_one fs \<Longrightarrow> attr_len n a \<Longrightarrow> n + length fs \<le> Suc MAX_ATTR_COUNT \<Longrightarrow>
     fst (set_all fs a) \<and> attr_len (n + length fs) (snd (set_all fs a))"
proof (induction fs a arbitrary: n rule: set_all.induct)
  case (2 f fs a)
  obtain r b where f: "f a = (r, b)" by fastforce
  have "n \<le> MAX_ATTR_COUNT" using 2(4) by simp
  then have "fst (f a) \<and> attr_len (Suc n) (snd (f a))" using 2(2,3) unfolding adds_one_def by simp
  then show ?case using 2(1) [of r b "Suc n"] 2(2,4) by (simp add: f)
qed simp

lemma leaves_setters [simp]:
  "j \<noteq> k \<Longrightarrow> leaves j (SetBoolValue k b)" "j \<noteq> k \<Longrightarrow> leaves j (SetUint64Value k n64)"
  "j \<noteq> k \<Longrightarrow> leaves j (SetUint32Value k n32)" "j \<noteq> k \<Longrightarrow> leaves j (SetInt32Value k i32)"
  "j \<noteq> k \<Longrightarrow> leaves j (SetUint8ArrayValue k bs)"
  by (simp_all add: leaves_def attr_set_other)

lemma leaves_setters_16_64 [simp]:
  "j \<noteq> k \<Longrightarrow> leaves j (SetUint16Value k n16)" "j \<noteq> k \<Longrightarrow> leaves j (SetInt64Value k i64)"
  by (auto simp: leaves_def attr_at_def with_impl_def SetUint16Value_def Impl_SetUint16Value_def
      SetInt64Value_def Impl_SetInt64Value_def store_value_def emplace_value_def
      split: option.splits prod.splits if_splits)

lemma adds_one_setters [simp]:
  "adds_one (SetUint64Value k n64)" "adds_one (SetInt32Value k i32)" "adds_one (SetUint32Value k n32)"
  "adds_one (SetUint16Value k n16)"
  by (auto simp: adds_one_def attr_len_def with_impl_def SetUint64Value_def Impl_SetUint64Value_def
      SetInt32Value_def Impl_SetInt32Value_def SetUint32Value_def Impl_SetUint32Value_def
      SetUint16Value_def Impl_SetUint16Value_def store_value_def EncodeUint64Value_def
      EncodeInt32Value_def EncodeUint32Value_def EncodeUint16Value_def
      intro: order_trans [OF length_omap_assign_le])

lemma adds_one_bytes: "length v \<le> MAX_ATTR_LENGTH \<Longrightarrow> adds_one (SetUint8ArrayValue k v)"
  by (auto simp: adds_one_def attr_len_def with_impl_def SetUint8ArrayValue_def Impl_SetUint8ArrayValue_def
      store_value_def EncodeUint8ArrayValue_def intro: order_trans [OF length_omap_assign_le])

lemma refused_bytes: "length v > MAX_ATTR_LENGTH \<Longrightarrow> \<not> fst (SetUint8ArrayValue k v a)"
  by (auto simp: with_impl_def SetUint8ArrayValue_def Impl_SetUint8ArrayValue_def store_value_def
      EncodeUint8ArrayValue_def split: option.splits)

text \<open>Setters that only a too long value makes fail: then the row is built exactly when no value is too long.\<close>

definition refuses :: "(attributes \<Rightarrow> bool \<times> attributes) \<Rightarrow> bool" where
  "refuses f \<longleftrightarrow> (\<forall>a. \<not> fst (f a))"

lemma attr_len_new: "attr_len n Attributes_new"
  by (simp add: attr_len_def Attributes_new_def Impl_empty_def)

lemma adds_one_bytes_iff [simp]: "adds_one (SetUint8ArrayValue k v) \<longleftrightarrow> length v \<le> MAX_ATTR_LENGTH"
proof (cases "length v \<le> MAX_ATTR_LENGTH")
  case False
  then have "\<not> fst (SetUint8ArrayValue k v Attributes_new)" by (simp add: refused_bytes)
  then have "\<not> adds_one (SetUint8ArrayValue k v)" unfolding adds_one_def using attr_len_new [of 0] by blast
  then show ?thesis using False by simp
qed (simp add: adds_one_bytes)

lemma refuses_bytes [simp]: "length v > MAX_ATTR_LENGTH \<Longrightarrow> refuses (SetUint8ArrayValue k v)"
  by (simp add: refuses_def refused_bytes)

lemma bytes_setter_total [simp]: "length v \<le> MAX_ATTR_LENGTH \<or> refuses (SetUint8ArrayValue k v)"
  using refuses_bytes linorder_not_le by blast

lemma set_all_builds:
  "list_all (\<lambda>f. adds_one f \<or> refuses f) fs \<Longrightarrow> attr_len n a \<Longrightarrow> n + length fs \<le> Suc MAX_ATTR_COUNT \<Longrightarrow>
     fst (set_all fs a) \<longleftrightarrow> list_all adds_one fs"
proof (induction fs a arbitrary: n rule: set_all.induct)
  case (2 f fs a)
  obtain r b where f: "f a = (r, b)" by fastforce
  have n: "n \<le> MAX_ATTR_COUNT" using 2(4) by simp
  show ?case
  proof (cases "adds_one f")
    case True
    then have "r" "attr_len (Suc n) b" using n 2(3) f unfolding adds_one_def by (metis fst_conv, metis snd_conv)
    then show ?thesis using 2(1) [of r b "Suc n"] 2(2,4) True by (simp add: f)
  next
    case False
    then have "\<not> r" using 2(2) f by (auto simp: refuses_def dest!: spec [of _ a])
    then show ?thesis using False by (simp add: f)
  qed
qed simp

text \<open>A key that one setter writes and no later one touches.\<close>

lemma set_all_at:
  assumes "list_all adds_one fs" and "length fs \<le> MAX_ATTR_COUNT" and "list_all (leaves k) gs"
    and "\<And>a. attr_len MAX_ATTR_COUNT a \<Longrightarrow> fst (f a) \<and> attr_at k v (snd (f a))"
  shows "attr_at k v (snd (set_all (fs @ f # gs) Attributes_new))"
proof -
  obtain r a where fs: "set_all fs Attributes_new = (r, a)" by fastforce
  have r: "r" and "attr_len (length fs) a"
    using set_all_adds [OF assms(1), of 0 Attributes_new] assms(2) fs by auto
  then have "fst (f a) \<and> attr_at k v (snd (f a))" using assms(2,4) attr_len_mono by blast
  then show ?thesis
    using set_all_leaves [OF assms(3)] by (auto simp: set_all_append fs r split: prod.splits)
qed

lemma put_Int32: "attr_len MAX_ATTR_COUNT a \<Longrightarrow>
    fst (SetInt32Value k v a) \<and> attr_at k (EncodeInt32Value v) (snd (SetInt32Value k v a))"
  using attr_set_Int32 adds_one_setters(2) by (auto simp: adds_one_def)

lemma put_Uint64: "attr_len MAX_ATTR_COUNT a \<Longrightarrow>
    fst (SetUint64Value k v a) \<and> attr_at k (EncodeUint64Value v) (snd (SetUint64Value k v a))"
  by (auto simp: attr_len_def attr_at_def with_impl_def SetUint64Value_def Impl_SetUint64Value_def
      store_value_def EncodeUint64Value_def)

lemma attr_get_Uint64:
  "attr_at k (EncodeUint64Value v) a \<Longrightarrow> GetUint64Value k a = Some v"
  "attr_at k None a \<Longrightarrow> GetUint64Value k a = None"
  using codec_u64.dec_enc
  by (auto simp: attr_at_def GetUint64Value_def Impl_GetUint64Value_def load_value_def EncodeUint64Value_def)

lemma put_Uint32: "attr_len MAX_ATTR_COUNT a \<Longrightarrow>
    fst (SetUint32Value k v a) \<and> attr_at k (EncodeUint32Value v) (snd (SetUint32Value k v a))"
  by (auto simp: attr_len_def attr_at_def with_impl_def SetUint32Value_def Impl_SetUint32Value_def
      store_value_def EncodeUint32Value_def)

lemma attr_get_Uint32:
  "attr_at k (EncodeUint32Value v) a \<Longrightarrow> GetUint32Value k a = Some v"
  "attr_at k None a \<Longrightarrow> GetUint32Value k a = None"
  using codec_u32.dec_enc
  by (auto simp: attr_at_def GetUint32Value_def Impl_GetUint32Value_def load_value_def EncodeUint32Value_def)

end
