(* ===== verification/Simple_Auth.thy ===== *)
theory Simple_Auth
  imports Authentication Context_Life Attribute_Setters
begin

text \<open>
  The context of one authentication, \<^verbatim>\<open>services/context/src/simple_auth_context.cpp\<close>: it starts the
  authentication at the engine, runs the schedule the engine asks for, hands the executor's result back to
  the engine and tells the caller. Tips that the engine sends while it works, through the callback
  that \<^verbatim>\<open>Start\<close> and \<^verbatim>\<open>Update\<close> pass on, are not modelled; they carry no result.
\<close>

section \<open>Data\<close>

record simple_auth_context = base_context +
  sa_auth :: "authentication option"

text \<open>
  The surroundings of a call: the engine, the registered executors, the answers of the executors, and the
  credentials the engine lists for a user and a type.
\<close>

record simple_env =
  se_engine :: auth_engine
  se_pool :: rpool
  se_description :: string
  se_sched :: sched_env
  se_getCredential :: "i32 \<Rightarrow> i32 \<Rightarrow> i32 \<times> credential_info list"
  se_ipc :: "node_ref \<Rightarrow> exec_call \<Rightarrow> i32"
  se_reply :: "node_ref \<Rightarrow> exec_call \<Rightarrow> bytes"

record auth_event_info =
  aei_resultCode :: "i32 option"
  aei_credentialId :: "u64 option"
  aei_authTrustLevel :: "u32 option"

abbreviation (input) FIRST_LOCKOUT_DURATION_OF_PIN :: i32 where "FIRST_LOCKOUT_DURATION_OF_PIN \<equiv> 60000"
abbreviation (input) FIRST_LOCKOUT_DURATION_EXCEPT_PIN :: i32 where
  "FIRST_LOCKOUT_DURATION_EXCEPT_PIN \<equiv> 30000"
abbreviation (input) API_VERSION_9 :: i32 where "API_VERSION_9 \<equiv> 9"
abbreviation (input) INNER_API_VERSION_10000 :: i32 where "INNER_API_VERSION_10000 \<equiv> 10000"
abbreviation (input) EVENT_AUTH_INITIATED :: i32 where "EVENT_AUTH_INITIATED \<equiv> 1"
abbreviation (input) EVENT_AUTH_RESULT :: i32 where "EVENT_AUTH_RESULT \<equiv> 2"

definition SimpleAuthContext :: "u64 \<Rightarrow> authentication option \<Rightarrow> bool \<Rightarrow> bool \<Rightarrow> simple_auth_context" where
  "SimpleAuthContext contextId auth isPrimaryContext callback =
     base_context.extend (BaseContext contextId isPrimaryContext callback) \<lparr>sa_auth = auth\<rparr>"

section \<open>Operations\<close>

definition Simple_GetTokenId :: "simple_auth_context \<Rightarrow> u32" where
  "Simple_GetTokenId c = (case sa_auth c of None \<Rightarrow> 0 | Some a \<Rightarrow> au_tokenId a)"

definition Simple_GetUserId :: "simple_auth_context \<Rightarrow> i32" where
  "Simple_GetUserId c = (case sa_auth c of None \<Rightarrow> INVALID_USER_ID | Some a \<Rightarrow> ap_userId (au_para a))"

definition Simple_GetAuthType :: "simple_auth_context \<Rightarrow> i32" where
  "Simple_GetAuthType c = (case sa_auth c of None \<Rightarrow> INVALID_AUTH_TYPE | Some a \<Rightarrow> ap_authType (au_para a))"

definition PostEvent :: "i32 \<Rightarrow> auth_event_info \<Rightarrow> simple_auth_context \<Rightarrow> simple_auth_context" where
  "PostEvent eventId info c =
     (case set_all
        ([SetUint64Value ATTR_CONTEXT_ID (bc_contextId c),
          SetInt32Value ATTR_USER_ID (Simple_GetUserId c),
          SetInt32Value ATTR_AUTH_TYPE (Simple_GetAuthType c)] @
         opt_setter SetInt32Value ATTR_RESULT_CODE (aei_resultCode info) @
         opt_setter SetUint64Value ATTR_CREDENTIAL_ID (aei_credentialId info) @
         opt_setter SetUint32Value ATTR_AUTH_TRUST_LEVEL (aei_authTrustLevel info)) Attributes_new of
        (built, data) \<Rightarrow> if \<not> built then c else ctx_emit (EventPosted eventId data) c)"

fun pick_template :: "i32 \<Rightarrow> credential_info list \<Rightarrow> u64 list" where
  "pick_template authIntent [] = []"
| "pick_template authIntent (info # infos) =
     (if authIntent = QUESTION_AUTH then
        if ci_authSubType info = PIN_QUESTION then [ci_templateId info] else pick_template authIntent infos
      else
        if ci_authSubType info \<noteq> PIN_QUESTION then [ci_templateId info] else pick_template authIntent infos)"

definition GetPropertyTemplateIds ::
  "simple_env \<Rightarrow> auth_result_info \<Rightarrow> simple_auth_context \<Rightarrow> u64 list option" where
  "GetPropertyTemplateIds e resultInfo c =
     (case bc_scheduleList c of
        [Some (m, s)] \<Rightarrow>
          if GetAuthType s \<noteq> PRIVATE_PIN then GetTemplateIdList s
          else (case GetCredentialInfo (se_getCredential e) (ar_userId resultInfo) (GetAuthType s) [] of
                  (ret, credInfos) \<Rightarrow>
                    if ret \<noteq> SUCCESS then None else Some (pick_template (GetAuthIntent s) credInfos))
      | _ \<Rightarrow> None)"

text \<open>The attributes that an executor reports for a failed authentication, read one after the other.\<close>

definition read_property ::
  "bool \<Rightarrow> attributes \<Rightarrow> auth_result_info \<Rightarrow> i32 \<times> auth_result_info" where
  "read_property isPin values ri =
     (case (if isPin then GetInt32Value ATTR_NEXT_FAIL_LOCKOUT_DURATION values
            else Some (ar_nextFailLockoutDuration ri)) of
        None \<Rightarrow> (GENERAL_ERROR, ri)
      | Some next_fail \<Rightarrow>
          let ri = ri\<lparr>ar_nextFailLockoutDuration := next_fail\<rparr>
          in case GetInt32Value ATTR_FREEZING_TIME values of
               None \<Rightarrow> (GENERAL_ERROR, ri)
             | Some freezing \<Rightarrow>
                 let ri = ri\<lparr>ar_freezingTime := freezing\<rparr>
                 in case GetInt32Value ATTR_REMAIN_TIMES values of
                      None \<Rightarrow> (GENERAL_ERROR, ri)
                    | Some remain \<Rightarrow> (SUCCESS, ri\<lparr>ar_remainTimes := remain\<rparr>))"

definition GetPropertyForAuthResult ::
  "simple_env \<Rightarrow> auth_result_info \<Rightarrow> simple_auth_context \<Rightarrow> i32 \<times> auth_result_info \<times> simple_auth_context" where
  "GetPropertyForAuthResult e resultInfo c =
     (case bc_scheduleList c of
        [Some (m, s)] \<Rightarrow>
          let isPin = (GetAuthType s = PIN);
              ri = resultInfo\<lparr>ar_nextFailLockoutDuration :=
                 (if isPin then FIRST_LOCKOUT_DURATION_OF_PIN else FIRST_LOCKOUT_DURATION_EXCEPT_PIN)\<rparr>
          in if ar_result ri \<noteq> FAIL \<and> ar_result ri \<noteq> LOCKED then (SUCCESS, ri, c)
             else (case lock_node s (GetVerifyExecutor s) of
                     None \<Rightarrow> (GENERAL_ERROR, ri, c)
                   | Some (ref, resourceNode) \<Rightarrow>
                       (case GetPropertyTemplateIds e ri c of
                          None \<Rightarrow> (GENERAL_ERROR, ri, c)
                        | Some templateIdList \<Rightarrow>
                            let keys = [ATTR_FREEZING_TIME, ATTR_REMAIN_TIMES] @
                                  (if isPin then [ATTR_NEXT_FAIL_LOCKOUT_DURATION] else []);
                                attr = snd (SetUint32ArrayValue ATTR_KEY_LIST keys Attributes_new);
                                attr = snd (SetUint32Value ATTR_PROPERTY_MODE PROPERTY_MODE_GET attr);
                                attr = snd (SetUint64ArrayValue ATTR_TEMPLATE_ID_LIST templateIdList attr)
                            in case GetProperty (se_ipc e ref) (se_reply e ref) resourceNode attr Attributes_new of
                                 (ret, values, calls) \<Rightarrow>
                                   let c = ctx_emit (PropertyRead ref calls) c
                                   in if ret \<noteq> SUCCESS then (GENERAL_ERROR, ri, c)
                                      else (case read_property isPin values ri of
                                              (code, ri) \<Rightarrow> (code, ri, c))))
      | _ \<Rightarrow> (GENERAL_ERROR, resultInfo, c))"

definition Simple_OnStart :: "simple_env \<Rightarrow> simple_auth_context \<Rightarrow> bool \<times> simple_auth_context" where
  "Simple_OnStart e c =
     (case sa_auth c of
        None \<Rightarrow> (False, c)
      | Some a \<Rightarrow>
          if \<not> bc_callback c then (False, c)
          else
            (case Auth_Start (se_engine e) (se_description e) (se_pool e) [] True a of
               (startRet, scheduleList, a1) \<Rightarrow>
                 let c = c\<lparr>sa_auth := Some a1\<rparr>
                 in if \<not> startRet then (False, Base_SetLatestError (au_latestError a1) c)
                    else
                      let c = SetScheduleList (map Some scheduleList) c
                      in case scheduleList of
                           [ms] \<Rightarrow>
                             let c = Base_EnterWait S_BEGIN_SCHEDULE_START c;
                                 (startScheduleRet, ms1) = StartSchedule (se_sched e) ms;
                                 c = Base_ExitWait S_BEGIN_SCHEDULE_END (c\<lparr>bc_scheduleList := [Some ms1]\<rparr>)
                             in if \<not> startScheduleRet then (False, c)
                                else (True, PostEvent EVENT_AUTH_INITIATED
                                        \<lparr>aei_resultCode = None, aei_credentialId = None,
                                         aei_authTrustLevel = None\<rparr> c)
                         | _ \<Rightarrow> (False, c)))"

definition UpdateScheduleResult ::
  "simple_env \<Rightarrow> attributes option \<Rightarrow> auth_result_info \<Rightarrow> simple_auth_context \<Rightarrow>
   bool \<times> auth_result_info \<times> simple_auth_context" where
  "UpdateScheduleResult e scheduleResultAttr resultInfo c =
     (case (sa_auth c, scheduleResultAttr) of
        (Some a, Some attr) \<Rightarrow>
          if \<not> bc_callback c then (False, resultInfo, c)
          else (case GetUint8ArrayValue ATTR_RESULT attr of
                  None \<Rightarrow> (False, resultInfo, c)
                | Some scheduleResult \<Rightarrow>
                    let c = Base_EnterWait S_UPDATE_SCHEDULE_RESULT_START c
                    in case Auth_Update (se_engine e) scheduleResult resultInfo a of
                         (updateRet, ri, a1) \<Rightarrow>
                           let c = Base_ExitWait S_UPDATE_SCHEDULE_RESULT_END (c\<lparr>sa_auth := Some a1\<rparr>)
                           in if \<not> updateRet then (False, ri, Base_SetLatestError (au_latestError a1) c)
                              else (True, ri, c))
      | _ \<Rightarrow> (False, resultInfo, c))"

definition SendAuthExecutorMsg :: "simple_auth_context \<Rightarrow> simple_auth_context" where
  "SendAuthExecutorMsg c =
     (case sa_auth c of None \<Rightarrow> c
      | Some a \<Rightarrow> fold (\<lambda>msg. ctx_emit (ExecutorMsgPosted msg)) (au_executorMsgs a) c)"

text \<open>The setters of \<^verbatim>\<open>SetCredentialDigest\<close> and of \<^verbatim>\<open>SetAuthResultAttributes\<close>, in the order of the code.\<close>

definition SetCredentialDigest :: "auth_result_info \<Rightarrow> (attributes \<Rightarrow> bool \<times> attributes) list" where
  "SetCredentialDigest resultInfo =
     [SetUint64Value ATTR_CREDENTIAL_DIGEST
        (if sint (ar_sdkVersion resultInfo) < sint INNER_API_VERSION_10000
         then take_bit 16 (ar_credentialDigest resultInfo) else ar_credentialDigest resultInfo),
      SetUint16Value ATTR_CREDENTIAL_COUNT (ar_credentialCount resultInfo)]"

definition SetAuthResultAttributes :: "auth_result_info \<Rightarrow> attributes \<Rightarrow> attributes" where
  "SetAuthResultAttributes ri finalResult =
     snd (set_all
       ([SetInt32Value ATTR_RESULT_CODE (ar_result ri),
         SetInt32Value ATTR_NEXT_FAIL_LOCKOUT_DURATION (ar_nextFailLockoutDuration ri)] @
        (if ar_result ri = FAIL \<or> ar_result ri = LOCKED \<or> ar_result ri = SUCCESS
         then [SetInt32Value ATTR_FREEZING_TIME (ar_freezingTime ri),
               SetInt32Value ATTR_REMAIN_TIMES (ar_remainTimes ri)] else []) @
        (if (ar_result ri = SUCCESS \<or> ar_token ri \<noteq> []) \<and> sint (ar_sdkVersion ri) > sint API_VERSION_9
         then SetCredentialDigest ri else []) @
        (if ar_result ri = SUCCESS
         then [SetInt32Value ATTR_USER_ID (ar_userId ri),
               SetUint64Value ATTR_CREDENTIAL_ID (ar_credentialId ri),
               SetInt64Value ATTR_PIN_EXPIRED_INFO (ar_pinExpiredInfo ri)] else []) @
        (if ar_token ri \<noteq> [] then [SetUint8ArrayValue ATTR_SIGNATURE (ar_token ri)] else []) @
        (if ar_rootSecret ri \<noteq> [] then [SetUint8ArrayValue ATTR_ROOT_SECRET (ar_rootSecret ri)] else []) @
        (if ar_remoteAuthResultMsg ri \<noteq> []
         then [SetUint8ArrayValue ATTR_SIGNED_AUTH_RESULT (ar_remoteAuthResultMsg ri)] else []) @
        [SetBoolValue ATTR_RE_ENROLL_FLAG (ar_reEnrollFlag ri)]) finalResult)"

definition InvokeResultCallback :: "auth_result_info \<Rightarrow> simple_auth_context \<Rightarrow> simple_auth_context" where
  "InvokeResultCallback ri c =
     (if \<not> bc_callback c then c
      else
        let finalResult = SetAuthResultAttributes ri Attributes_new;
            c = PostEvent EVENT_AUTH_RESULT
              \<lparr>aei_resultCode = Some (ar_result ri), aei_credentialId = Some (ar_credentialId ri),
               aei_authTrustLevel = Some (ar_authTrustLevel ri)\<rparr> c;
            c = ctx_emit (AuthFinishReason ''SimpleAuthContext InvokeResultCallback'') c
        in ctx_emit (ResultDelivered (ar_result ri) finalResult) c)"

definition Simple_OnResult ::
  "simple_env \<Rightarrow> i32 \<Rightarrow> attributes option \<Rightarrow> simple_auth_context \<Rightarrow> simple_auth_context" where
  "Simple_OnResult e resultCode scheduleResultAttr c =
     (case UpdateScheduleResult e scheduleResultAttr empty_result c of
        (updateRet, ri, c) \<Rightarrow>
          let ri = (if \<not> updateRet
                 then ri\<lparr>ar_result := (if resultCode = SUCCESS then bc_latestError c else resultCode)\<rparr>
                 else if resultCode \<noteq> ar_result ri
                 then ri\<lparr>ar_result := (if ar_result ri = SUCCESS then resultCode else ar_result ri)\<rparr>
                 else ri)
          in case GetPropertyForAuthResult e ri c of
               (_, ri, c) \<Rightarrow>
                 let c = (if ar_result ri = SUCCESS \<and> Simple_GetAuthType c = PIN
                          then ctx_emit (PinUpdateCached (ar_reEnrollFlag ri)) c else c)
                 in InvokeResultCallback ri (SendAuthExecutorMsg c))"

definition Simple_OnStop :: "simple_env \<Rightarrow> simple_auth_context \<Rightarrow> bool \<times> simple_auth_context" where
  "Simple_OnStop e c =
     (let c = stop_single c
      in case sa_auth c of
           None \<Rightarrow> (False, c)
         | Some a \<Rightarrow>
             (case Auth_Cancel (se_engine e) a of
                (cancelRet, a1) \<Rightarrow>
                  let c = c\<lparr>sa_auth := Some a1\<rparr>
                  in if \<not> cancelRet then (False, Base_SetLatestError (au_latestError a1) c) else (True, c)))"

definition simple_vtable :: "(simple_env, unit simple_auth_context_ext) ctx_vtable" where
  "simple_vtable =
     \<lparr>vt_OnStart = Simple_OnStart, vt_OnStop = Simple_OnStop, vt_OnResult = Simple_OnResult,
      vt_sched = se_sched\<rparr>"

section \<open>What the operations leave alone\<close>

text \<open>The id under which the engine knows the authentication.\<close>

definition simple_eid :: "unit simple_auth_context_ext \<Rightarrow> u64" where
  "simple_eid x =
     (case sa_auth (base_context.extend (BaseContext 0 False False) x) of None \<Rightarrow> 0 | Some a \<Rightarrow> au_contextId a)"

lemma simple_eid_more [simp]:
  "simple_eid (base_context.more c) = (case sa_auth c of None \<Rightarrow> 0 | Some a \<Rightarrow> au_contextId a)"
  by (cases c) (simp add: simple_eid_def base_context.defs)

lemma quiet_auth: "sa_auth c = Some a \<Longrightarrow> au_contextId a1 = au_contextId a \<Longrightarrow> quiet simple_eid c (c\<lparr>sa_auth := Some a1\<rparr>)"
  by (simp add: quiet_def ctx_keeps_def results_def)

lemma sa_auth_base [simp]:
  "sa_auth (ctx_emit out c) = sa_auth c" "sa_auth (Base_EnterWait g c) = sa_auth c"
  "sa_auth (Base_ExitWait g c) = sa_auth c" "sa_auth (Base_SetLatestError err c) = sa_auth c"
  by (simp_all add: ctx_emit_def Base_EnterWait_def Base_ExitWait_def Base_SetLatestError_def)

lemma PostEvent_quiet [simp]:
  "quiet simple_eid c (PostEvent i info c)" "bc_scheduleList (PostEvent i info c) = bc_scheduleList c"
  "bc_callback (PostEvent i info c) = bc_callback c" "sa_auth (PostEvent i info c) = sa_auth c"
  by (simp_all add: PostEvent_def split: prod.splits)

lemma SendAuthExecutorMsg_quiet [simp]:
  "quiet simple_eid c (SendAuthExecutorMsg c)" "bc_scheduleList (SendAuthExecutorMsg c) = bc_scheduleList c"
  "bc_callback (SendAuthExecutorMsg c) = bc_callback c"
proof -
  have "quiet simple_eid c (fold (\<lambda>msg. ctx_emit (ExecutorMsgPosted msg)) msgs c) \<and>
      bc_scheduleList (fold (\<lambda>msg. ctx_emit (ExecutorMsgPosted msg)) msgs c) = bc_scheduleList c \<and>
      bc_callback (fold (\<lambda>msg. ctx_emit (ExecutorMsgPosted msg)) msgs c) = bc_callback c" for msgs
  proof (induction msgs arbitrary: c)
    case (Cons msg msgs)
    then show ?case
      using quiet_trans [OF quiet_emit [of "ExecutorMsgPosted msg" simple_eid c]] by simp
  qed simp
  then show "quiet simple_eid c (SendAuthExecutorMsg c)" "bc_scheduleList (SendAuthExecutorMsg c) = bc_scheduleList c"
    "bc_callback (SendAuthExecutorMsg c) = bc_callback c"
    by (simp_all add: SendAuthExecutorMsg_def split: option.splits)
qed

lemma Auth_ids:
  "Auth_Start eng d p sl cb a = (r, nodes, a') \<Longrightarrow> au_contextId a' = au_contextId a"
  "Auth_Update eng b ri a = (u, ri', a') \<Longrightarrow> au_contextId a' = au_contextId a"
  "Auth_Cancel eng a = (r, a') \<Longrightarrow> au_contextId a' = au_contextId a"
  by (auto simp: Auth_Start_def Auth_Update_def Auth_Cancel_def Auth_SetLatestError_def Let_def
      split: option.splits prod.splits if_splits)

lemma read_property_result: "read_property isPin values ri = (code, ri') \<Longrightarrow> ar_result ri' = ar_result ri"
  by (auto simp: read_property_def Let_def split: option.splits)

lemma GetPropertyForAuthResult_quiet:
  assumes "GetPropertyForAuthResult e ri c = (code, ri', c')"
  shows "ar_result ri' = ar_result ri \<and> quiet simple_eid c c' \<and> bc_scheduleList c' = bc_scheduleList c \<and>
    sa_auth c' = sa_auth c \<and> bc_callback c' = bc_callback c"
  using assms read_property_result unfolding GetPropertyForAuthResult_def Let_def
  by (fastforce split: list.splits option.splits prod.splits if_splits)

text \<open>The engine accepted the executor's result as a successful authentication.\<close>

definition engine_accepts :: "simple_env \<Rightarrow> u64 \<Rightarrow> attributes option \<Rightarrow> bool" where
  "engine_accepts e cid r \<longleftrightarrow>
     (case r of None \<Rightarrow> False
      | Some attr \<Rightarrow>
          (case GetUint8ArrayValue ATTR_RESULT attr of None \<Rightarrow> False
           | Some b \<Rightarrow>
               (case ae_update (se_engine e) cid b of
                  (ret, info, state) \<Rightarrow> ret = SUCCESS \<and> er_result info = SUCCESS)))"

definition simple_backed :: "simple_env \<Rightarrow> u64 \<Rightarrow> i32 \<Rightarrow> attributes option \<Rightarrow> bool" where
  "simple_backed e cid code r \<longleftrightarrow> code = SUCCESS \<and> engine_accepts e cid r"

lemma UpdateScheduleResult_quiet:
  assumes "UpdateScheduleResult e attr ri0 c = (upd, ri, c')"
  shows "quiet simple_eid c c' \<and> bc_scheduleList c' = bc_scheduleList c \<and> bc_callback c' = bc_callback c \<and>
    (upd \<longleftrightarrow> bc_callback c \<and> sa_auth c \<noteq> None \<and> engine_accepts e (simple_eid (base_context.more c)) attr) \<and>
    (upd \<longrightarrow> ar_result ri = SUCCESS)"
proof (cases "sa_auth c")
  case None
  then show ?thesis using assms by (simp add: UpdateScheduleResult_def)
next
  case (Some a)
  show ?thesis
  proof (cases "attr = None \<or> \<not> bc_callback c \<or> GetUint8ArrayValue ATTR_RESULT (the attr) = None")
    case True
    then show ?thesis
      using assms Some by (auto simp: UpdateScheduleResult_def engine_accepts_def split: option.splits)
  next
    case False
    then obtain at b where at: "attr = Some at" and b: "GetUint8ArrayValue ATTR_RESULT at = Some b" by auto
    obtain u ri1 a1 where u: "Auth_Update (se_engine e) b ri0 a = (u, ri1, a1)" by (metis prod_cases3)
    let ?c1 = "Base_EnterWait S_UPDATE_SCHEDULE_RESULT_START c"
    let ?c2 = "Base_ExitWait S_UPDATE_SCHEDULE_RESULT_END (?c1\<lparr>sa_auth := Some a1\<rparr>)"
    have "quiet simple_eid ?c1 (?c1\<lparr>sa_auth := Some a1\<rparr>)"
      using Some Auth_ids(2) [OF u] by (intro quiet_auth) auto
    then have q: "quiet simple_eid c ?c2" by (intro quiet_trans [OF quiet_base(2) quiet_trans [OF _ quiet_base(3)]])
    have q': "quiet simple_eid c (Base_SetLatestError (au_latestError a1) ?c2)" by (rule quiet_trans [OF q]) simp
    have acc: "u \<longleftrightarrow> engine_accepts e (simple_eid (base_context.more c)) attr" "u \<Longrightarrow> ar_result ri1 = SUCCESS"
      using Auth_Update_success [OF u] by (auto simp: engine_accepts_def at b Some split: prod.splits)
    show ?thesis
      using assms q q' acc False by (auto simp del: simple_eid_more simp: UpdateScheduleResult_def Some at b u Let_def split: if_splits)
  qed
qed

section \<open>The contract of a context, interpreted\<close>

lemma Auth_Start_nodes:
  assumes "Auth_Start eng d p [] cb a = (r, nodes, a')" and "ms \<in> set nodes"
  shows "node_new ms \<and> dormant ms"
proof (cases r)
  case True
  have "\<exists>para infos. BuildFromHdi d p para cb infos [] = (True, nodes)"
    using assms(1) True by (auto simp: Auth_Start_def Let_def split: option.splits prod.splits if_splits)
  then show ?thesis using built_nodes_new assms(2) by blast
next
  case False
  have "nodes = []"
    using assms(1) False
    by (auto simp: Auth_Start_def Let_def BuildFromHdi_def split: option.splits prod.splits if_splits)
  then show ?thesis using assms(2) by simp
qed

lemma Simple_OnStart_contract:
  assumes "Simple_OnStart e c = (r, c')"
  shows "quiet simple_eid c c'"
    and "bc_scheduleList c = [] \<Longrightarrow>
      (\<forall>ms. Some ms \<in> set (bc_scheduleList c') \<longrightarrow> node_new ms \<and> (r \<or> dormant ms)) \<and>
      (r \<longrightarrow> length (bc_scheduleList c') \<le> 1)"
proof -
  have "quiet simple_eid c c' \<and> (bc_scheduleList c = [] \<longrightarrow>
      (\<forall>ms. Some ms \<in> set (bc_scheduleList c') \<longrightarrow> node_new ms \<and> (r \<or> dormant ms)) \<and>
      (r \<longrightarrow> length (bc_scheduleList c') \<le> 1))"
  proof (cases "sa_auth c = None \<or> \<not> bc_callback c")
    case True
    then show ?thesis using assms by (auto simp: Simple_OnStart_def split: option.splits)
  next
    case False
    then obtain a where a: "sa_auth c = Some a" and cb: "bc_callback c" by auto
    obtain st nodes a1 where o: "Auth_Start (se_engine e) (se_description e) (se_pool e) [] True a = (st, nodes, a1)"
      by (metis prod_cases3)
    let ?c1 = "c\<lparr>sa_auth := Some a1\<rparr>"
    let ?c2 = "SetScheduleList (map Some nodes) ?c1"
    have q1: "quiet simple_eid c ?c1" by (rule quiet_auth [OF a Auth_ids(1) [OF o]])
    have q2: "quiet simple_eid c ?c2" by (rule quiet_trans [OF q1]) simp
    have nodes: "ms \<in> set nodes \<Longrightarrow> node_new ms \<and> dormant ms" for ms by (rule Auth_Start_nodes [OF o])
    consider (failed) "\<not> st" | (one) ms where "st" "nodes = [ms]" | (other) "st" "\<nexists>ms. nodes = [ms]" by blast
    then show ?thesis
    proof cases
      case failed
      have "quiet simple_eid c (Base_SetLatestError (au_latestError a1) ?c1)" by (rule quiet_trans [OF q1]) simp
      then show ?thesis using assms failed by (auto simp: Simple_OnStart_def a cb o)
    next
      case one
      obtain ms1 where ms1: "StartSchedule (se_sched e) ms = (True, ms1)"
        using StartSchedule_True [of "se_sched e" ms] by (cases "StartSchedule (se_sched e) ms") auto
      let ?c3 = "(Base_EnterWait S_BEGIN_SCHEDULE_START ?c2)\<lparr>bc_scheduleList := [Some ms1]\<rparr>"
      have "quiet simple_eid ?c2 ?c3" by (rule quiet_trans [OF quiet_base(2) quiet_base(6)])
      then have q4: "quiet simple_eid c (Base_ExitWait S_BEGIN_SCHEDULE_END ?c3)"
        by (intro quiet_trans [OF q2 quiet_trans [OF _ quiet_base(3)]])
      have n: "node_new ms1" using StartSchedule_new [of ms "se_sched e"] nodes [of ms] ms1 one(2) by simp
      show ?thesis
        using assms one n quiet_trans [OF q4 PostEvent_quiet(1)]
        by (auto simp: Simple_OnStart_def a cb o ms1 Let_def)
    next
      case other
      have "Simple_OnStart e c = (False, ?c2)"
        using other by (auto simp: Simple_OnStart_def a cb o Let_def split: list.splits)
      then show ?thesis using assms q2 nodes by (auto simp: SetScheduleList_def)
    qed
  qed
  then show "quiet simple_eid c c'" and "bc_scheduleList c = [] \<Longrightarrow>
      (\<forall>ms. Some ms \<in> set (bc_scheduleList c') \<longrightarrow> node_new ms \<and> (r \<or> dormant ms)) \<and>
      (r \<longrightarrow> length (bc_scheduleList c') \<le> 1)" by blast+
qed

lemma Simple_OnStop_contract:
  assumes "Simple_OnStop e c = (r, c')"
  shows "quiet simple_eid c c'" and "list_all2 maybe_stopped (bc_scheduleList c) (bc_scheduleList c')"
proof -
  let ?stopped = "stop_single c"
  have q: "quiet simple_eid c ?stopped" and n: "list_all2 maybe_stopped (bc_scheduleList c) (bc_scheduleList ?stopped)"
    and a: "sa_auth ?stopped = sa_auth c"
    by (auto simp: stop_single_def split: list.splits option.splits)
  show "quiet simple_eid c c'" "list_all2 maybe_stopped (bc_scheduleList c) (bc_scheduleList c')"
  proof (atomize(full), cases "sa_auth c")
    case None
    then show "quiet simple_eid c c' \<and> list_all2 maybe_stopped (bc_scheduleList c) (bc_scheduleList c')"
      using assms q n a by (simp add: Simple_OnStop_def Let_def)
  next
    case (Some au)
    obtain cr a1 where cn: "Auth_Cancel (se_engine e) au = (cr, a1)" by fastforce
    have q1: "quiet simple_eid c (?stopped\<lparr>sa_auth := Some a1\<rparr>)"
      by (rule quiet_trans [OF q quiet_auth [of _ au]]) (simp_all add: a Some Auth_ids(3) [OF cn])
    have "quiet simple_eid c (Base_SetLatestError (au_latestError a1) (?stopped\<lparr>sa_auth := Some a1\<rparr>))"
      by (rule quiet_trans [OF q1]) simp
    then show "quiet simple_eid c c' \<and> list_all2 maybe_stopped (bc_scheduleList c) (bc_scheduleList c')"
      using assms q1 n a by (auto simp: Simple_OnStop_def Let_def Some cn split: if_splits)
  qed
qed

text \<open>The code that is delivered, and the quiet part of \<^verbatim>\<open>OnResult\<close> before it.\<close>

lemma Simple_OnResult_split:
  "\<exists>ri c1. Simple_OnResult e code r c = InvokeResultCallback ri c1 \<and> quiet simple_eid c c1 \<and>
    bc_scheduleList c1 = bc_scheduleList c \<and> (code \<noteq> SUCCESS \<longrightarrow> ar_result ri = code) \<and>
    (bc_latestError c \<noteq> SUCCESS \<longrightarrow>
       (ar_result ri = SUCCESS \<longleftrightarrow> bc_callback c \<and> sa_auth c \<noteq> None \<and>
          simple_backed e (simple_eid (base_context.more c)) code r))"
proof -
  obtain upd ri0 c0 where u: "UpdateScheduleResult e r empty_result c = (upd, ri0, c0)" by (metis prod_cases3)
  let ?ri = "if \<not> upd then ri0\<lparr>ar_result := (if code = SUCCESS then bc_latestError c0 else code)\<rparr>
     else if code \<noteq> ar_result ri0 then ri0\<lparr>ar_result := (if ar_result ri0 = SUCCESS then code else ar_result ri0)\<rparr>
     else ri0"
  obtain g ri1 c1 where g: "GetPropertyForAuthResult e ?ri c0 = (g, ri1, c1)" by (metis prod_cases3)
  let ?c2 = "if ar_result ri1 = SUCCESS \<and> Simple_GetAuthType c1 = PIN
     then ctx_emit (PinUpdateCached (ar_reEnrollFlag ri1)) c1 else c1"
  have uf: "quiet simple_eid c c0" "bc_scheduleList c0 = bc_scheduleList c"
    "upd \<longleftrightarrow> bc_callback c \<and> sa_auth c \<noteq> None \<and> engine_accepts e (simple_eid (base_context.more c)) r"
    "upd \<Longrightarrow> ar_result ri0 = SUCCESS"
    using UpdateScheduleResult_quiet [OF u] by simp_all
  have gf: "ar_result ri1 = ar_result ?ri" "quiet simple_eid c0 c1" "bc_scheduleList c1 = bc_scheduleList c0"
    using GetPropertyForAuthResult_quiet [OF g] by simp_all
  have err: "bc_latestError c \<noteq> SUCCESS \<Longrightarrow> bc_latestError c0 \<noteq> SUCCESS" using uf(1) by (simp add: quiet_def ctx_keeps_def)
  have "quiet simple_eid c1 ?c2" by simp
  then have "quiet simple_eid c (SendAuthExecutorMsg ?c2)"
    by (intro quiet_trans [OF uf(1) quiet_trans [OF gf(2) quiet_trans [OF _ SendAuthExecutorMsg_quiet(1)]]])
  moreover have "bc_scheduleList (SendAuthExecutorMsg ?c2) = bc_scheduleList c"
    using uf(2) gf(3) by simp
  moreover have "Simple_OnResult e code r c = InvokeResultCallback ri1 (SendAuthExecutorMsg ?c2)"
    by (simp add: Simple_OnResult_def u g Let_def)
  moreover have "code \<noteq> SUCCESS \<longrightarrow> ar_result ri1 = code" using gf(1) uf(4) by (auto split: if_splits)
  moreover have "bc_latestError c \<noteq> SUCCESS \<longrightarrow> (ar_result ri1 = SUCCESS \<longleftrightarrow> bc_callback c \<and> sa_auth c \<noteq> None \<and>
      simple_backed e (simple_eid (base_context.more c)) code r)"
    using gf(1) uf(3,4) err unfolding simple_backed_def by (cases upd) (auto simp del: simple_eid_more)
  ultimately show ?thesis by blast
qed

lemma InvokeResultCallback_delivers:
  "results (InvokeResultCallback ri c) = results c @
     (if bc_callback c then [ResultDelivered (ar_result ri) (SetAuthResultAttributes ri Attributes_new)] else [])"
  "ctx_keeps simple_eid c (InvokeResultCallback ri c)"
  "bc_scheduleList (InvokeResultCallback ri c) = bc_scheduleList c"
proof -
  let ?p = "PostEvent EVENT_AUTH_RESULT \<lparr>aei_resultCode = Some (ar_result ri),
     aei_credentialId = Some (ar_credentialId ri), aei_authTrustLevel = Some (ar_authTrustLevel ri)\<rparr> c"
  have "quiet simple_eid c ?p" by simp
  then show "results (InvokeResultCallback ri c) = results c @
     (if bc_callback c then [ResultDelivered (ar_result ri) (SetAuthResultAttributes ri Attributes_new)] else [])"
    "ctx_keeps simple_eid c (InvokeResultCallback ri c)"
    "bc_scheduleList (InvokeResultCallback ri c) = bc_scheduleList c"
    by (auto simp: InvokeResultCallback_def Let_def quiet_def
        intro!: ctx_keeps_trans [OF _ ctx_keeps_trans [OF keeps_emit keeps_emit]])
qed

lemma Simple_OnResult_contract:
  "ctx_keeps simple_eid c (Simple_OnResult e code r c)"
  "bc_scheduleList (Simple_OnResult e code r c) = bc_scheduleList c"
proof -
  have "\<exists>ri c1. Simple_OnResult e code r c = InvokeResultCallback ri c1 \<and> quiet simple_eid c c1 \<and>
    bc_scheduleList c1 = bc_scheduleList c" using Simple_OnResult_split by blast
  then show "ctx_keeps simple_eid c (Simple_OnResult e code r c)"
    "bc_scheduleList (Simple_OnResult e code r c) = bc_scheduleList c"
    using ctx_keeps_trans [OF _ InvokeResultCallback_delivers(2)]
    by (auto simp: quiet_def InvokeResultCallback_delivers)
qed

lemma Simple_OnResult_delivers:
  assumes "bc_latestError c \<noteq> SUCCESS"
  shows "\<exists>d. results (Simple_OnResult e code r c) = results c @ d \<and> length d \<le> 1 \<and>
    ((\<exists>a. ResultDelivered SUCCESS a \<in> set d) \<longrightarrow> simple_backed e (simple_eid (base_context.more c)) code r)"
proof -
  obtain ri c1 where o: "Simple_OnResult e code r c = InvokeResultCallback ri c1" "quiet simple_eid c c1"
    and s: "ar_result ri = SUCCESS \<Longrightarrow> simple_backed e (simple_eid (base_context.more c)) code r"
    using Simple_OnResult_split [of e code r c] assms by blast
  show ?thesis
    using o s by (cases "bc_callback c1") (auto simp: InvokeResultCallback_delivers quiet_def)
qed

interpretation simple_class: context_class simple_vtable simple_eid simple_backed "\<lambda>_ _. False"
proof (rule quiet_start_class)
  show "quiet simple_eid c c' \<and> list_all2 maybe_stopped (bc_scheduleList c) (bc_scheduleList c')"
    if "vt_OnStop simple_vtable e c = (r, c')" for e c r c'
    using Simple_OnStop_contract that by (simp add: simple_vtable_def)
qed (use Simple_OnStart_contract Simple_OnResult_contract Simple_OnResult_delivers in
    \<open>simp_all add: simple_vtable_def del: simple_eid_more\<close>)

end
