(* ===== verification/Context_Witness.thy ===== *)
theory Context_Witness
  imports Context_Life Attribute_Setters Schedule_Properties
begin

text \<open>
  A concrete round of one schedule, as a part of the runs that show that the hypotheses of the
  contexts' properties can hold: an engine's schedule for one executor, the schedule node built from it, and
  the steps in which the executor's final result ends the schedule and reaches the context.
\<close>

definition w_round_info :: "node_optional_para \<Rightarrow> schedule_info" where
  "w_round_info para = \<lparr>si_scheduleId = 77, si_tokenId = np_tokenId para, si_collectorTokenId = np_collectorTokenId para,
     si_pinSubType = PIN_MAX, si_contextId = 0, si_expiredTime = 0, si_templateIdList = [6], si_authType = PIN,
     si_executorMatcher = 0, si_scheduleMode = 1, si_collector = Some 0, si_verifier = Some 0,
     si_threadHandler = True, si_callback = True,
     si_endAfterFirstFail = (case np_endAfterFirstFail para of None \<Rightarrow> False | Some b \<Rightarrow> b), si_collectorMessage = [],
     si_verifierMessage = [9], si_authIntent = np_authIntent para, si_userId = np_userId para,
     si_additionalInfo = np_additionalInfo para, si_title = np_title para, si_authScene = np_authScene para\<rparr>"

definition w_round ::
  "node_optional_para \<Rightarrow> i32 \<Rightarrow> attributes option \<Rightarrow> node_output list \<Rightarrow> sched_node" where
  "w_round para code r tr = \<lparr>sn_info = w_round_info para, sn_executorResultCode = code, sn_fwkResultCode = None,
     sn_scheduleResult = r, sn_timerId = 0, sn_live = (\<lambda>ref. Some (rp_heap w_pool ref)), sn_trace = tr\<rparr>"

lemma w_round_facts [simp]:
  "sn_trace (w_round para code r tr) = tr" "GetScheduleId (w_round para code r tr) = 77"
  "GetAuthType (w_round para code r tr) = PIN"
  by (simp_all add: w_round_def w_round_info_def GetScheduleId_def GetAuthType_def)

lemma w_round_build:
  assumes "np_tokenId para \<noteq> None" and "np_expire para = None" and "np_pinSubType para = None"
  shows "BuildFromHdi ''s'' w_pool para True [w_eng_info] [] = (True, [(w_machine 0 [] 0, w_round para GENERAL_ERROR None [])])"
  using assms
  by (auto simp: BuildFromHdi_def ScheduleInfoToScheduleNode_def w_eng_info_def ScheduleInfoToExecutors_def
      pool_Select_def w_pool_def node_info_def w_info_def Sched_Builder_New_def CheckExecutors_def
      ScheduleNodeBuilder_def configure_def builder_defs default_info_def Sched_Builder_Build_def
      CheckParameters_def Init_def MakeFiniteStateMachine_builds Let_def FSM_SetThreadHandler_def
      w_machine_def w_round_def w_round_info_def)

definition w_started_node :: "node_optional_para \<Rightarrow> sched_state" where
  "w_started_node para = (w_machine 0 [0] (Suc 0), w_round para GENERAL_ERROR None [ListenerRegister])"

lemma w_start_round:
  "StartSchedule w_env (w_machine 0 [] 0, w_round para GENERAL_ERROR None []) = (True, w_started_node para)"
  by (simp add: StartSchedule_def TryKickMachine_def FSM_Schedule_def PushEvent_def StartTimer_def
      node_emit_def w_machine_def w_round_def w_round_info_def w_started_node_def)

definition w_final :: attributes where
  "w_final = snd (SetUint8ArrayValue ATTR_RESULT [1] Attributes_new)"

lemma w_final_result: "GetUint8ArrayValue ATTR_RESULT w_final = Some [1]"
  unfolding w_final_def
  by (intro attr_get_Uint8Array attr_set_Uint8Array attr_len_mono [OF attr_new(2)]) (simp_all add: MAX_ATTR_LENGTH_def)

definition w_begin :: "node_optional_para \<Rightarrow> node_output" where
  "w_begin para = NodeCall 0 (OnBeginExecute 77 [1, 2]
     (Serialize (GetScheduleAttribute (w_round_info para) True Attributes_new)))"

definition w_ended_node :: "node_optional_para \<Rightarrow> i32 \<Rightarrow> sched_state" where
  "w_ended_node para code =
     (w_machine 6 [1] 2,
      (w_round para code (Some w_final) [ListenerRegister, w_begin para, ScheduleStoped code (Some w_final)])
        \<lparr>sn_info := (w_round_info para)\<lparr>si_callback := False\<rparr>\<rparr>)"

lemma w_node_step:
  assumes "vt_sched V e = w_env" and "sched_step w_env l ms ms'" and "\<not> own_label l"
    and "sn_trace (snd ms') = sn_trace (snd ms) @ told"
  shows "ctx_step V (CNode 0 l e) (c\<lparr>bc_scheduleList := [Some ms]\<rparr>)
    (fold (deliver V e) told (c\<lparr>bc_scheduleList := [Some ms']\<rparr>))"
proof -
  have "sched_step (vt_sched V e) l ms ms'" using assms(1,2) by simp
  from ctx_node [of 0 "c\<lparr>bc_scheduleList := [Some ms]\<rparr>" ms, OF _ _ assms(3) this assms(4)] show ?thesis by simp
qed

text \<open>The executor's final result, the start and the end of the machine.\<close>

lemma w_round_run:
  assumes "ctx_run V c0 ls (c\<lparr>bc_scheduleList := [Some (w_started_node para)]\<rparr>)" and "vt_sched V e = w_env"
  shows "ctx_run V c0 (ls @ [CNode 0 (LContinue code (Some w_final)) e, CNode 0 LEvent e, CNode 0 LEvent e])
    (vt_OnResult V e code (Some w_final) (c\<lparr>bc_scheduleList := [Some (w_ended_node para code)]\<rparr>))"
proof -
  let ?c = "\<lambda>ms. c\<lparr>bc_scheduleList := [Some ms]\<rparr>"
  let ?m = "\<lambda>st q k. w_machine st q k"
  let ?r = "w_round para"
  have "snd (ContinueSchedule code (Some w_final) (w_started_node para)) =
      (?m 0 [0, 5] 2, ?r code (Some w_final) [ListenerRegister])"
    by (simp add: ContinueSchedule_def TryKickMachine_def FSM_Schedule_def PushEvent_def numeral_2_eq_2 w_round_def
        code_setter_defs w_started_node_def w_machine_def)
  then have r2: "ctx_step V (CNode 0 (LContinue code (Some w_final)) e) (?c (w_started_node para))
      (?c (?m 0 [0, 5] 2, ?r code (Some w_final) [ListenerRegister]))"
    using w_node_step [OF assms(2) step_continue [of _ code "Some w_final" "w_started_node para"], where told = "[]"]
    by (simp add: w_started_node_def)
  have "ProcessEvent (run_action w_env) 0 (?m 0 [5] 2, ?r code (Some w_final) [ListenerRegister]) =
      (?m 1 [5, 1] 2, ?r code (Some w_final) [ListenerRegister, w_begin para])"
    by (simp add: w_run w_round_def w_env_def w_pool_def w_round_info_def GetScheduleId_def w_info_def w_begin_def)
  then have r3: "ctx_step V (CNode 0 LEvent e)
      (?c (?m 0 [0, 5] 2, ?r code (Some w_final) [ListenerRegister]))
      (?c (?m 1 [5, 1] 2, ?r code (Some w_final) [ListenerRegister, w_begin para]))"
    using w_node_step [OF assms(2) step_event [of "?m 0 [0, 5] 2" 0 "[5]" _
          "?r code (Some w_final) [ListenerRegister]"], where told = "[w_begin para]"]
    by (simp add: w_begin_def)
  have "ProcessEvent (run_action w_env) 5 (?m 1 [1] 2, ?r code (Some w_final) [ListenerRegister, w_begin para]) =
      w_ended_node para code"
    by (simp add: w_run w_round_def OnScheduleFinished_def StopTimer_def GetScheduleCallback_def
        ClearScheduleCallback_def reported_code_def w_round_info_def w_ended_node_def)
  then have r4: "ctx_step V (CNode 0 LEvent e)
      (?c (?m 1 [5, 1] 2, ?r code (Some w_final) [ListenerRegister, w_begin para]))
      (vt_OnResult V e code (Some w_final) (?c (w_ended_node para code)))"
    using w_node_step [OF assms(2) step_event [of "?m 1 [5, 1] 2" 5 "[1]" _
          "?r code (Some w_final) [ListenerRegister, w_begin para]"], where told = "[ScheduleStoped code (Some w_final)]"]
    by (simp add: w_ended_node_def Base_OnScheduleStoped_def)
  show ?thesis using run_cons [OF run_cons [OF run_cons [OF assms(1) r2] r3] r4] by simp
qed

lemma w_whole_run:
  assumes "start_task (vt_OnStart V e) c0 = c" and "bc_scheduleList c = [Some (w_started_node para)]"
    and "vt_sched V e = w_env"
  shows "\<exists>ls. ctx_run V c0 ls
      (vt_OnResult V e code (Some w_final) (c\<lparr>bc_scheduleList := [Some (w_ended_node para code)]\<rparr>)) \<and>
    length (filter is_start ls) = 1"
proof -
  have "c = c\<lparr>bc_scheduleList := [Some (w_started_node para)]\<rparr>" using assms(2) by (cases c) simp
  then have "ctx_run V c0 [CStart e] (c\<lparr>bc_scheduleList := [Some (w_started_node para)]\<rparr>)"
    using run_cons [OF run_nil ctx_start [of V e c0]] assms(1) by simp
  from w_round_run [OF this assms(3), of code] show ?thesis
    by (intro exI [of _ "[CStart e, CNode 0 (LContinue code (Some w_final)) e, CNode 0 LEvent e, CNode 0 LEvent e]"]) simp
qed

end
