(* ===== verification/Simple_Auth_Properties.thy ===== *)
theory Simple_Auth_Properties
  imports Simple_Auth Context_Witness
begin

text \<open>
  What a client of an authentication may rely on: when success is reported, how often a result is
  reported, what the result carries, and what a cancellation before the start does.
\<close>

section \<open>The attributes of a result\<close>

definition result_head :: "auth_result_info \<Rightarrow> (attributes \<Rightarrow> bool \<times> attributes) list" where
  "result_head ri =
     [SetInt32Value ATTR_NEXT_FAIL_LOCKOUT_DURATION (ar_nextFailLockoutDuration ri)] @
     (if ar_result ri = FAIL \<or> ar_result ri = LOCKED \<or> ar_result ri = SUCCESS
      then [SetInt32Value ATTR_FREEZING_TIME (ar_freezingTime ri),
            SetInt32Value ATTR_REMAIN_TIMES (ar_remainTimes ri)] else []) @
     (if (ar_result ri = SUCCESS \<or> ar_token ri \<noteq> []) \<and> sint (ar_sdkVersion ri) > sint API_VERSION_9
      then SetCredentialDigest ri else [])"

definition result_tail :: "auth_result_info \<Rightarrow> (attributes \<Rightarrow> bool \<times> attributes) list" where
  "result_tail ri =
     (if ar_token ri \<noteq> [] then [SetUint8ArrayValue ATTR_SIGNATURE (ar_token ri)] else []) @
     (if ar_rootSecret ri \<noteq> [] then [SetUint8ArrayValue ATTR_ROOT_SECRET (ar_rootSecret ri)] else []) @
     (if ar_remoteAuthResultMsg ri \<noteq> []
      then [SetUint8ArrayValue ATTR_SIGNED_AUTH_RESULT (ar_remoteAuthResultMsg ri)] else []) @
     [SetBoolValue ATTR_RE_ENROLL_FLAG (ar_reEnrollFlag ri)]"

lemma SetAuthResultAttributes_split:
  "SetAuthResultAttributes ri a =
     snd (set_all ([SetInt32Value ATTR_RESULT_CODE (ar_result ri)] @ result_head ri @
       (if ar_result ri = SUCCESS
        then [SetInt32Value ATTR_USER_ID (ar_userId ri),
              SetUint64Value ATTR_CREDENTIAL_ID (ar_credentialId ri),
              SetInt64Value ATTR_PIN_EXPIRED_INFO (ar_pinExpiredInfo ri)] else []) @ result_tail ri) a)"
  by (simp add: SetAuthResultAttributes_def result_head_def result_tail_def)

lemma result_head_facts:
  "list_all adds_one (result_head ri)" "length (result_head ri) \<le> 5"
  "k \<in> {ATTR_RESULT_CODE, ATTR_USER_ID, ATTR_CREDENTIAL_ID} \<Longrightarrow> list_all (leaves k) (result_head ri)"
  "k \<in> {ATTR_RESULT_CODE, ATTR_USER_ID, ATTR_CREDENTIAL_ID} \<Longrightarrow> list_all (leaves k) (result_tail ri)"
  by (auto simp: result_head_def result_tail_def SetCredentialDigest_def)

text \<open>The result code is always there; the identity of the user only when the code is success.\<close>

lemma result_attributes:
  shows "GetInt32Value ATTR_RESULT_CODE (SetAuthResultAttributes ri Attributes_new) = Some (ar_result ri)"
    and "GetInt32Value ATTR_USER_ID (SetAuthResultAttributes ri Attributes_new) =
      (if ar_result ri = SUCCESS then Some (ar_userId ri) else None)"
    and "GetUint64Value ATTR_CREDENTIAL_ID (SetAuthResultAttributes ri Attributes_new) =
      (if ar_result ri = SUCCESS then Some (ar_credentialId ri) else None)"
proof -
  let ?a = "SetAuthResultAttributes ri Attributes_new"
  let ?code = "SetInt32Value ATTR_RESULT_CODE (ar_result ri)"
  let ?mid = "[SetInt32Value ATTR_USER_ID (ar_userId ri),
    SetUint64Value ATTR_CREDENTIAL_ID (ar_credentialId ri),
    SetInt64Value ATTR_PIN_EXPIRED_INFO (ar_pinExpiredInfo ri)]"
  note f = result_head_facts(1,2) [of ri] result_head_facts(3,4) [of _ ri]
  have "attr_at ATTR_RESULT_CODE (EncodeInt32Value (ar_result ri)) ?a"
    using set_all_at [of "[]" ATTR_RESULT_CODE "result_head ri @ (if ar_result ri = SUCCESS then ?mid else []) @ result_tail ri"
        ?code] f by (simp add: SetAuthResultAttributes_split put_Int32)
  then show "GetInt32Value ATTR_RESULT_CODE ?a = Some (ar_result ri)"
    by (simp add: attr_get_Int32 attr_Int32_roundtrip)
  have pre: "list_all adds_one (?code # result_head ri)" "length (?code # result_head ri) \<le> MAX_ATTR_COUNT"
    "list_all adds_one (?code # result_head ri @ [hd ?mid])"
    "length (?code # result_head ri @ [hd ?mid]) \<le> MAX_ATTR_COUNT"
    using f(1,2) by (simp_all add: MAX_ATTR_COUNT_def)
  show "GetInt32Value ATTR_USER_ID ?a = (if ar_result ri = SUCCESS then Some (ar_userId ri) else None)"
  proof (cases "ar_result ri = SUCCESS")
    case True
    have "attr_at ATTR_USER_ID (EncodeInt32Value (ar_userId ri)) ?a"
      using set_all_at [OF pre(1,2), of ATTR_USER_ID "tl ?mid @ result_tail ri" "hd ?mid"] f True
      by (simp add: SetAuthResultAttributes_split put_Int32)
    then show ?thesis using True by (simp add: attr_get_Int32 attr_Int32_roundtrip)
  next
    case False
    have "attr_at ATTR_USER_ID None ?a"
      using set_all_leaves [of ATTR_USER_ID "?code # result_head ri @ result_tail ri" None Attributes_new] f False
      by (simp add: SetAuthResultAttributes_split)
    then show ?thesis using False by (simp add: attr_get_Int32)
  qed
  show "GetUint64Value ATTR_CREDENTIAL_ID ?a = (if ar_result ri = SUCCESS then Some (ar_credentialId ri) else None)"
  proof (cases "ar_result ri = SUCCESS")
    case True
    have "attr_at ATTR_CREDENTIAL_ID (EncodeUint64Value (ar_credentialId ri)) ?a"
      using set_all_at [OF pre(3,4), of ATTR_CREDENTIAL_ID "[last ?mid] @ result_tail ri" "?mid ! 1"] f True
      by (simp add: SetAuthResultAttributes_split put_Uint64)
    then show ?thesis using True by (simp add: attr_get_Uint64)
  next
    case False
    have "attr_at ATTR_CREDENTIAL_ID None ?a"
      using set_all_leaves [of ATTR_CREDENTIAL_ID "?code # result_head ri @ result_tail ri" None Attributes_new] f False
      by (simp add: SetAuthResultAttributes_split)
    then show ?thesis using False by (simp add: attr_get_Uint64)
  qed
qed

section \<open>Properties\<close>

lemma simple_fresh: "fresh_context (SimpleAuthContext cid auth primary callback)"
  by (simp add: fresh_context_def SimpleAuthContext_def BaseContext_def base_context.defs)

lemma simple_start_id:
  "simple_eid (base_context.more (SimpleAuthContext cid (Some a) primary callback)) = au_contextId a"
  by (simp add: SimpleAuthContext_def base_context.defs simple_eid_def BaseContext_def)

text \<open>
  Property C1: a client is told \<^verbatim>\<open>SUCCESS\<close> only when the executor's final result was handed in with the
  code \<^verbatim>\<open>SUCCESS\<close> for one of the context's schedules, and the engine, given the very attributes of that
  result under the id of this authentication, accepted them as a successful authentication.
\<close>

theorem client_success_backed:
  assumes "ctx_run simple_vtable (SimpleAuthContext cid (Some a) primary callback) ls c"
    and "length (filter is_start ls) \<le> 1" and "ResultDelivered SUCCESS attrs \<in> set (bc_outputs c)"
  shows "\<exists>i l e e' r. CNode i l e \<in> set ls \<and> CNode i (LContinue SUCCESS r) e' \<in> set ls \<and>
    engine_accepts e (au_contextId a) r"
proof -
  have "ctx_inv simple_eid (simple_backed, \<lambda>_ _. False) ls c"
    by (rule simple_class.ctx_run_inv [OF assms(1) simple_fresh assms(2)])
  moreover have "ResultDelivered SUCCESS attrs \<in> set (results c)" using assms(3) by (simp add: results_def)
  ultimately have "success_backed (simple_backed, \<lambda>_ _. False) ls (simple_eid (base_context.more c))"
    unfolding ctx_inv_def by blast
  then show ?thesis
    unfolding success_backed_def simple_backed_def simple_class.ctx_run_id [OF assms(1)] simple_start_id by (simp, blast)
qed

text \<open>
  Property C2: whatever the engine, the executors, the caller and the timer do, an authentication context that is
  started once delivers at most one result.
\<close>

theorem one_result_per_context:
  assumes "ctx_run simple_vtable (SimpleAuthContext cid auth primary callback) ls c"
    and "length (filter is_start ls) \<le> 1"
  shows "length (filter is_result (bc_outputs c)) \<le> 1"
  using ctx_inv_le [OF simple_class.ctx_run_inv [OF assms(1) simple_fresh assms(2)]]
  by (simp add: results_def)

text \<open>
  Also shown: a context that is stopped before it was started never asks the engine for anything: it stays
  unstarted through every later step, a start task included, owns no schedule, leaves its
  authentication as it was, and its only result is \<^verbatim>\<open>CANCELED\<close>.
\<close>

theorem stop_before_start_cancels:
  assumes "ctx_run simple_vtable (SimpleAuthContext cid auth primary True) (CStop e # ls) c"
  shows "\<not> bc_hasStarted c \<and> bc_scheduleList c = [] \<and> sa_auth c = auth \<and>
    filter is_result (bc_outputs c) = [ResultDelivered CANCELED Attributes_new]"
proof -
  have m: "base_context.more c = base_context.more (SimpleAuthContext cid auth primary True)"
    and r: "results c = [ResultDelivered CANCELED Attributes_new]" "\<not> bc_hasStarted c" "bc_scheduleList c = []"
    using stopped_before_start [OF assms simple_fresh]
    by (simp_all add: SimpleAuthContext_def BaseContext_def base_context.defs)
  have "sa_auth c = auth" using m by (cases c) (simp add: SimpleAuthContext_def base_context.defs)
  then show ?thesis using r by (simp add: results_def)
qed

text \<open>
  Also shown: the result a client is given at the end of a round: the code is \<^verbatim>\<open>SUCCESS\<close> exactly when the
  schedule ended with \<^verbatim>\<open>SUCCESS\<close> and the engine accepted its result; a failure of the schedule is passed
  on unchanged; the attributes repeat the code, and name a user and a credential exactly on success.
\<close>

theorem simple_result_code:
  assumes "bc_callback c" and "sa_auth c = Some a" and "bc_latestError c \<noteq> SUCCESS"
  shows "\<exists>k attrs. filter is_result (bc_outputs (Simple_OnResult e code r c)) =
      filter is_result (bc_outputs c) @ [ResultDelivered k attrs] \<and>
    (k = SUCCESS \<longleftrightarrow> code = SUCCESS \<and> engine_accepts e (au_contextId a) r) \<and>
    (code = SUCCESS \<or> k = code) \<and> GetInt32Value ATTR_RESULT_CODE attrs = Some k \<and>
    (GetInt32Value ATTR_USER_ID attrs \<noteq> None \<longleftrightarrow> k = SUCCESS) \<and>
    (GetUint64Value ATTR_CREDENTIAL_ID attrs \<noteq> None \<longleftrightarrow> k = SUCCESS)"
proof -
  obtain ri c1 where o: "Simple_OnResult e code r c = InvokeResultCallback ri c1" "quiet simple_eid c c1"
    and k: "code \<noteq> SUCCESS \<longrightarrow> ar_result ri = code"
    and s: "ar_result ri = SUCCESS \<longleftrightarrow> bc_callback c \<and> sa_auth c \<noteq> None \<and>
      simple_backed e (simple_eid (base_context.more c)) code r"
    using Simple_OnResult_split [of e code r c] assms(3) by blast
  have "bc_callback c1" and rc: "results c1 = results c" using o(2) assms(1) by (auto simp: quiet_def ctx_keeps_def)
  then have "results (Simple_OnResult e code r c) = results c @
      [ResultDelivered (ar_result ri) (SetAuthResultAttributes ri Attributes_new)]"
    by (simp add: o(1) InvokeResultCallback_delivers)
  moreover have "ar_result ri = SUCCESS \<longleftrightarrow> code = SUCCESS \<and> engine_accepts e (au_contextId a) r"
    using s assms by (simp add: simple_backed_def)
  ultimately show ?thesis
    using k by (intro exI [of _ "ar_result ri"] exI [of _ "SetAuthResultAttributes ri Attributes_new"])
      (auto simp: results_def result_attributes)
qed

section \<open>The trust level of a failed authentication\<close>

lemma read_property_level:
  "read_property isPin values ri = (code, ri') \<Longrightarrow> ar_authTrustLevel ri' = ar_authTrustLevel ri"
  by (auto simp: read_property_def Let_def split: option.splits)

lemma GetPropertyForAuthResult_level:
  assumes "GetPropertyForAuthResult e ri c = (code, ri', c')"
  shows "ar_authTrustLevel ri' = ar_authTrustLevel ri"
  using assms read_property_level unfolding GetPropertyForAuthResult_def Let_def
  by (fastforce split: list.splits option.splits prod.splits if_splits)

definition accepted_level :: "eng_auth_result \<Rightarrow> authentication \<Rightarrow> u32" where
  "accepted_level info a = (case er_authTrustLevel info of None \<Rightarrow> ap_atl (au_para a) | Some l \<Rightarrow> l)"

lemma result_event:
  assumes "bc_callback c"
  shows "\<exists>data. EventPosted EVENT_AUTH_RESULT data \<in> set (bc_outputs (InvokeResultCallback ri c)) \<and>
    GetInt32Value ATTR_RESULT_CODE data = Some (ar_result ri) \<and>
    GetUint32Value ATTR_AUTH_TRUST_LEVEL data = Some (ar_authTrustLevel ri)"
proof -
  let ?pre = "[SetUint64Value ATTR_CONTEXT_ID (bc_contextId c), SetInt32Value ATTR_USER_ID (Simple_GetUserId c),
    SetInt32Value ATTR_AUTH_TYPE (Simple_GetAuthType c)]"
  let ?code = "SetInt32Value ATTR_RESULT_CODE (ar_result ri)"
  let ?cred = "SetUint64Value ATTR_CREDENTIAL_ID (ar_credentialId ri)"
  let ?level = "SetUint32Value ATTR_AUTH_TRUST_LEVEL (ar_authTrustLevel ri)"
  obtain ok data where d: "set_all (?pre @ [?code, ?cred, ?level]) Attributes_new = (ok, data)" by fastforce
  have ok: ok using set_all_adds [of "?pre @ [?code, ?cred, ?level]" 0 Attributes_new] d
    by (simp add: MAX_ATTR_COUNT_def)
  have "attr_at ATTR_RESULT_CODE (EncodeInt32Value (ar_result ri)) data"
    using set_all_at [of ?pre ATTR_RESULT_CODE "[?cred, ?level]" ?code] d
    by (simp add: put_Int32 MAX_ATTR_COUNT_def)
  moreover have "attr_at ATTR_AUTH_TRUST_LEVEL (EncodeUint32Value (ar_authTrustLevel ri)) data"
    using set_all_at [of "?pre @ [?code, ?cred]" ATTR_AUTH_TRUST_LEVEL "[]" ?level] d
    by (simp add: put_Uint32 MAX_ATTR_COUNT_def)
  ultimately have "GetInt32Value ATTR_RESULT_CODE data = Some (ar_result ri)"
    "GetUint32Value ATTR_AUTH_TRUST_LEVEL data = Some (ar_authTrustLevel ri)"
    by (simp_all add: attr_get_Int32 attr_Int32_roundtrip attr_get_Uint32)
  moreover have "EventPosted EVENT_AUTH_RESULT data \<in> set (bc_outputs (InvokeResultCallback ri c))"
    using d ok assms by (simp add: InvokeResultCallback_def Let_def PostEvent_def opt_setter_def ctx_emit_def)
  ultimately show ?thesis by blast
qed

text \<open>
  Also shown: when a round fails although the engine accepted the executor's result, as when the caller cancels
  while the result is on its way, the event \<^verbatim>\<open>EVENT_AUTH_RESULT\<close> still carries the trust level of a
  success next to the failing code.
\<close>

theorem failed_result_advertises_level:
  assumes "bc_callback c" and "sa_auth c = Some a" and "code \<noteq> SUCCESS"
    and "GetUint8ArrayValue ATTR_RESULT attr = Some b"
    and "ae_update (se_engine e) (au_contextId a) b = (SUCCESS, info, state)" and "er_result info = SUCCESS"
  shows "\<exists>data. EventPosted EVENT_AUTH_RESULT data \<in> set (bc_outputs (Simple_OnResult e code (Some attr) c)) \<and>
    GetInt32Value ATTR_RESULT_CODE data = Some code \<and>
    GetUint32Value ATTR_AUTH_TRUST_LEVEL data = Some (accepted_level info a)"
proof -
  obtain u ri0 a1 where u: "Auth_Update (se_engine e) b empty_result a = (u, ri0, a1)" by (metis prod_cases3)
  have r0: "u" "ar_result ri0 = SUCCESS" "ar_authTrustLevel ri0 = accepted_level info a"
    using u assms(5,6) by (auto simp: Auth_Update_def Let_def accepted_level_def)
  obtain c0 where us: "UpdateScheduleResult e (Some attr) empty_result c = (True, ri0, c0)"
    using u r0(1) assms(1,2,4) by (simp add: UpdateScheduleResult_def Let_def)
  let ?ri = "ri0\<lparr>ar_result := code\<rparr>"
  obtain g ri1 c1 where g: "GetPropertyForAuthResult e ?ri c0 = (g, ri1, c1)" by (metis prod_cases3)
  have r1: "ar_result ri1 = code" "ar_authTrustLevel ri1 = accepted_level info a" "bc_callback c1"
    using GetPropertyForAuthResult_quiet [OF g] GetPropertyForAuthResult_level [OF g] r0
      UpdateScheduleResult_quiet [OF us] assms(1) by simp_all
  have "Simple_OnResult e code (Some attr) c = InvokeResultCallback ri1 (SendAuthExecutorMsg c1)"
    using us g r0(2) r1(1) assms(3) by (simp add: Simple_OnResult_def)
  then show ?thesis using result_event [of "SendAuthExecutorMsg c1" ri1] r1 by simp
qed

section \<open>A successful authentication\<close>

text \<open>The run that the witnesses use: one executor, one round, a result the engine accepts.\<close>

definition w_auth_result :: eng_auth_result where
  "w_auth_result = \<lparr>er_result = SUCCESS, er_authTrustLevel = Some 30000, er_lockoutDuration = 0,
     er_remainAttempts = 5, er_msgs = [], er_token = [1, 2], er_rootSecret = [], er_userId = 100,
     er_credentialId = 4, er_pinExpiredInfo = 0, er_remoteAuthResultMsg = [], er_reEnrollFlag = False\<rparr>"

definition w_engine :: auth_engine where
  "w_engine = \<lparr>ae_TOKEN_HAP = 0, ae_TOKEN_NATIVE = 1, ae_begin = (\<lambda>_ _. (SUCCESS, [w_eng_info])),
     ae_update = (\<lambda>_ _. (SUCCESS, w_auth_result, \<lparr>ee_credentialDigest = 7, ee_credentialCount = 1\<rparr>)),
     ae_cancel = (\<lambda>_. SUCCESS)\<rparr>"

definition w_simple_env :: simple_env where
  "w_simple_env = \<lparr>se_engine = w_engine, se_pool = w_pool, se_description = ''s'', se_sched = w_env,
     se_getCredential = (\<lambda>_ _. (SUCCESS, [])), se_ipc = (\<lambda>_ _. SUCCESS), se_reply = (\<lambda>_ _. [])\<rparr>"

definition w_apara :: auth_para where
  "w_apara = \<lparr>ap_userId = 100, ap_authType = PIN, ap_atl = 10000, ap_tokenId = 3, ap_collectorTokenId = 4,
     ap_challenge = [], ap_endAfterFirstFail = False, ap_callerName = [], ap_sdkVersion = 20,
     ap_callerType = 0, ap_authIntent = 0, ap_isOsAccountVerified = True, ap_skipLockedBiometricAuth = False,
     ap_credentialIdList = [], ap_title = [], ap_authScene = 0, ap_callerPermissions = 0\<rparr>"

definition w_ctx :: simple_auth_context where
  "w_ctx = SimpleAuthContext 8 (Some (AuthenticationImpl 8 w_apara)) True True"

definition w_simple_para :: node_optional_para where
  "w_simple_para = \<lparr>np_expire = None, np_tokenId = Some 0, np_collectorTokenId = 4, np_pinSubType = None,
     np_endAfterFirstFail = Some False, np_authIntent = 0, np_userId = 100, np_additionalInfo = [],
     np_title = [], np_authScene = 0\<rparr>"

lemma w_auth_start:
  "Auth_Start w_engine ''s'' w_pool [] True (AuthenticationImpl 8 w_apara) =
     (True, [(w_machine 0 [] 0, w_round w_simple_para GENERAL_ERROR None [])],
      (AuthenticationImpl 8 w_apara)\<lparr>au_running := True\<rparr>)"
  using w_round_build [of w_simple_para]
  by (simp add: Auth_Start_def GetAuthParam_def GetEngCallerType_def AuthenticationImpl_def w_apara_def
      w_engine_def Let_def w_simple_para_def)

definition w_begun_ctx :: simple_auth_context where
  "w_begun_ctx = w_ctx\<lparr>bc_hasStarted := True,
     bc_scheduleList := [Some (w_started_node w_simple_para)],
     bc_outputs := [StageMark S_CONTEXT_START, StageEnterWait S_BEGIN_SCHEDULE_START, StageExitWait S_BEGIN_SCHEDULE_END],
     sa_auth := Some ((AuthenticationImpl 8 w_apara)\<lparr>au_running := True\<rparr>)\<rparr>"

definition w_started_ctx :: simple_auth_context where
  "w_started_ctx = PostEvent EVENT_AUTH_INITIATED
     \<lparr>aei_resultCode = None, aei_credentialId = None, aei_authTrustLevel = None\<rparr> w_begun_ctx"

lemmas w_ctx_defs = w_ctx_def SimpleAuthContext_def BaseContext_def base_context.defs

lemma w_start: "start_task (Simple_OnStart w_simple_env) w_ctx = w_started_ctx"
  by (simp add: start_task_def Base_Start_def Simple_OnStart_def w_simple_env_def w_auth_start w_start_round
      Let_def SetScheduleList_def Base_EnterWait_def Base_ExitWait_def Base_Mark_def ctx_emit_def
      w_started_ctx_def w_begun_ctx_def w_ctx_defs)

lemma w_started_ctx_facts:
  "bc_scheduleList w_started_ctx = [Some (w_started_node w_simple_para)]"
  "bc_callback w_started_ctx" "bc_latestError w_started_ctx \<noteq> SUCCESS"
  "sa_auth w_started_ctx = Some ((AuthenticationImpl 8 w_apara)\<lparr>au_running := True\<rparr>)"
proof -
  have "ctx_keeps simple_eid w_begun_ctx w_started_ctx"
    using PostEvent_quiet(1) [of w_begun_ctx] by (simp add: w_started_ctx_def quiet_def)
  then show "bc_latestError w_started_ctx \<noteq> SUCCESS"
    by (simp add: ctx_keeps_def w_begun_ctx_def w_ctx_defs)
qed (simp_all add: w_started_ctx_def, simp_all add: w_begun_ctx_def w_ctx_defs)

lemma w_accepts: "engine_accepts w_simple_env 8 (Some w_final)"
  by (simp add: engine_accepts_def w_final_result w_simple_env_def w_engine_def w_auth_result_def)

definition w_last_ctx :: simple_auth_context where
  "w_last_ctx = w_started_ctx\<lparr>bc_scheduleList := [Some (w_ended_node w_simple_para SUCCESS)]\<rparr>"

lemma w_success_run:
  "\<exists>ls. ctx_run simple_vtable w_ctx ls (Simple_OnResult w_simple_env SUCCESS (Some w_final) w_last_ctx) \<and>
     length (filter is_start ls) = 1"
  using w_whole_run [of simple_vtable w_simple_env w_ctx w_started_ctx w_simple_para SUCCESS] w_start w_started_ctx_facts(1)
  by (simp add: simple_vtable_def w_simple_env_def w_last_ctx_def)

lemma w_last_ctx_facts:
  "bc_callback w_last_ctx" "bc_latestError w_last_ctx \<noteq> SUCCESS"
  "sa_auth w_last_ctx = Some ((AuthenticationImpl 8 w_apara)\<lparr>au_running := True\<rparr>)"
  using w_started_ctx_facts by (simp_all add: w_last_ctx_def)

lemma simple_result_code_witness:
  "\<exists>attrs. ResultDelivered SUCCESS attrs \<in>
     set (bc_outputs (Simple_OnResult w_simple_env SUCCESS (Some w_final) w_last_ctx))"
proof -
  obtain k attrs where "filter is_result (bc_outputs (Simple_OnResult w_simple_env SUCCESS (Some w_final) w_last_ctx)) =
      filter is_result (bc_outputs w_last_ctx) @ [ResultDelivered k attrs]"
    and "k = SUCCESS \<longleftrightarrow> engine_accepts w_simple_env 8 (Some w_final)"
    using simple_result_code [OF w_last_ctx_facts(1,3,2), of w_simple_env SUCCESS "Some w_final"]
    by (auto simp: AuthenticationImpl_def)
  then have "ResultDelivered SUCCESS attrs \<in>
      set (filter is_result (bc_outputs (Simple_OnResult w_simple_env SUCCESS (Some w_final) w_last_ctx)))"
    using w_accepts by simp
  then show ?thesis by auto
qed

lemma w_delivered:
  "\<exists>attrs. ResultDelivered SUCCESS attrs \<in>
     set (bc_outputs (Simple_OnResult w_simple_env SUCCESS (Some w_final) w_last_ctx))"
proof -
  obtain ri c1 where o: "Simple_OnResult w_simple_env SUCCESS (Some w_final) w_last_ctx = InvokeResultCallback ri c1"
    "quiet simple_eid w_last_ctx c1" "ar_result ri = SUCCESS"
    using Simple_OnResult_split [of w_simple_env SUCCESS "Some w_final" w_last_ctx] w_last_ctx_facts w_accepts
    by (auto simp: simple_backed_def AuthenticationImpl_def)
  have "bc_callback c1" using o(2) w_last_ctx_facts(1) by (simp add: quiet_def ctx_keeps_def)
  then show ?thesis
    by (auto simp: o InvokeResultCallback_def Let_def ctx_emit_def)
qed

lemma client_success_backed_witness:
  "\<exists>ls e r. engine_accepts e 8 r \<and>
     ctx_run simple_vtable w_ctx ls (Simple_OnResult w_simple_env SUCCESS (Some w_final) w_last_ctx)"
proof -
  obtain ls attrs where run: "ctx_run simple_vtable w_ctx ls (Simple_OnResult w_simple_env SUCCESS (Some w_final) w_last_ctx)"
    "length (filter is_start ls) \<le> 1"
    "ResultDelivered SUCCESS attrs \<in> set (bc_outputs (Simple_OnResult w_simple_env SUCCESS (Some w_final) w_last_ctx))"
    using w_success_run w_delivered by fastforce
  obtain e r where "engine_accepts e 8 r"
    using client_success_backed [OF run(1) [unfolded w_ctx_def] run(2,3)] by (auto simp: AuthenticationImpl_def)
  then show ?thesis using run(1) by blast
qed

lemma one_result_per_context_witness:
  "length (filter is_result (bc_outputs (Simple_OnResult w_simple_env SUCCESS (Some w_final) w_last_ctx))) \<le> 1"
proof -
  obtain ls where run: "ctx_run simple_vtable w_ctx ls (Simple_OnResult w_simple_env SUCCESS (Some w_final) w_last_ctx)"
    "length (filter is_start ls) \<le> 1" using w_success_run by fastforce
  show ?thesis by (rule one_result_per_context [OF run(1) [unfolded w_ctx_def] run(2)])
qed

lemma stop_before_start_cancels_witness:
  "filter is_result (bc_outputs (start_task (Simple_OnStart w_simple_env)
     (snd (Base_Stop (Simple_OnStop w_simple_env) w_ctx)))) = [ResultDelivered CANCELED Attributes_new]"
proof -
  have "ctx_run simple_vtable w_ctx [CStop w_simple_env, CStart w_simple_env]
      (start_task (Simple_OnStart w_simple_env) (snd (Base_Stop (Simple_OnStop w_simple_env) w_ctx)))"
    using run_cons [OF run_cons [OF run_nil ctx_stop [of simple_vtable w_simple_env w_ctx]] ctx_start [of simple_vtable w_simple_env]]
    by (simp add: simple_vtable_def)
  then show ?thesis using stop_before_start_cancels [of 8] unfolding w_ctx_def by blast
qed

lemma failed_result_advertises_level_witness:
  "\<exists>data. EventPosted EVENT_AUTH_RESULT data \<in>
     set (bc_outputs (Simple_OnResult w_simple_env CANCELED (Some w_final) w_last_ctx)) \<and>
   GetInt32Value ATTR_RESULT_CODE data = Some CANCELED \<and> GetUint32Value ATTR_AUTH_TRUST_LEVEL data = Some 30000"
proof -
  let ?a = "(AuthenticationImpl 8 w_apara)\<lparr>au_running := True\<rparr>"
  have "ae_update (se_engine w_simple_env) (au_contextId ?a) [1] =
      (SUCCESS, w_auth_result, \<lparr>ee_credentialDigest = 7, ee_credentialCount = 1\<rparr>)"
    by (simp add: w_simple_env_def w_engine_def)
  from failed_result_advertises_level [OF w_last_ctx_facts(1,3) _ w_final_result this, of CANCELED]
  show ?thesis by (simp add: w_auth_result_def accepted_level_def)
qed

end
