(* ===== verification/Identify.thy ===== *)
theory Identify
  imports Context_Witness
begin

text \<open>
  The identification of an unknown user: \<^verbatim>\<open>services/core/src/identification_impl.cpp\<close> towards the engine and
  \<^verbatim>\<open>services/context/src/identify_context.cpp\<close> as the pooled context. The engine's answers are arguments. The
  members of \<^verbatim>\<open>NodeOptionalPara\<close> that \<^verbatim>\<open>Start\<close> leaves uninitialised are arbitrary values of the surroundings.
\<close>

section \<open>Data\<close>

record identify_result_info =
  ir_result :: i32
  ir_userId :: i32
  ir_token :: bytes

record identify_engine =
  ig_begin :: "u64 \<Rightarrow> i32 \<Rightarrow> bytes \<Rightarrow> u32 \<Rightarrow> i32 \<times> eng_schedule_info"
  ig_update :: "u64 \<Rightarrow> bytes \<Rightarrow> i32 \<times> identify_result_info"
  ig_cancel :: "u64 \<Rightarrow> i32"

record identification =
  if_contextId :: u64
  if_authType :: i32
  if_challenge :: bytes
  if_executorIndex :: u32
  if_tokenId :: u32
  if_running :: bool
  if_latestError :: i32

record identify_context = base_context +
  ic_identify :: "identification option"

record identify_env =
  ie_engine :: identify_engine
  ie_pool :: rpool
  ie_description :: string
  ie_sched :: sched_env
  ie_uninitialised :: node_optional_para

section \<open>\<open>IdentificationImpl\<close>\<close>

definition IdentificationImpl :: "u64 \<Rightarrow> i32 \<Rightarrow> identification" where
  "IdentificationImpl contextId authType =
     \<lparr>if_contextId = contextId, if_authType = authType, if_challenge = [], if_executorIndex = 0,
      if_tokenId = 0, if_running = False, if_latestError = GENERAL_ERROR\<rparr>"

definition Ident_SetLatestError :: "i32 \<Rightarrow> identification \<Rightarrow> identification" where
  "Ident_SetLatestError error a = (if error \<noteq> SUCCESS then a\<lparr>if_latestError := error\<rparr> else a)"

definition Ident_SetExecutor :: "u32 \<Rightarrow> identification \<Rightarrow> identification" where
  "Ident_SetExecutor executorIndex a = a\<lparr>if_executorIndex := executorIndex\<rparr>"

definition Ident_SetChallenge :: "bytes \<Rightarrow> identification \<Rightarrow> identification" where
  "Ident_SetChallenge challenge a = a\<lparr>if_challenge := challenge\<rparr>"

definition Ident_SetAccessTokenId :: "u32 \<Rightarrow> identification \<Rightarrow> identification" where
  "Ident_SetAccessTokenId tokenId a = a\<lparr>if_tokenId := tokenId\<rparr>"

definition Ident_Start ::
  "identify_env \<Rightarrow> sched_state list \<Rightarrow> bool \<Rightarrow> identification \<Rightarrow>
   bool \<times> sched_state list \<times> identification" where
  "Ident_Start e scheduleList callback a =
     (case ig_begin (ie_engine e) (if_contextId a) (if_authType a) (if_challenge a) (if_executorIndex a) of
        (result, info) \<Rightarrow>
          if result \<noteq> SUCCESS then (False, scheduleList, Ident_SetLatestError result a)
          else
            let para = (ie_uninitialised e)\<lparr>np_expire := None, np_tokenId := Some (if_tokenId a),
                  np_pinSubType := None, np_endAfterFirstFail := None, np_additionalInfo := [],
                  np_title := [], np_authScene := 0\<rparr>
            in case BuildFromHdi (ie_description e) (ie_pool e) para callback [info] scheduleList of
                 (built, nodes) \<Rightarrow>
                   if \<not> built then (False, nodes, a) else (True, nodes, a\<lparr>if_running := True\<rparr>))"

definition Ident_Update ::
  "identify_engine \<Rightarrow> bytes \<Rightarrow> identify_result_info \<Rightarrow> identification \<Rightarrow>
   bool \<times> identify_result_info \<times> identification" where
  "Ident_Update eng scheduleResult resultInfo a =
     (case ig_update eng (if_contextId a) scheduleResult of
        (result, info) \<Rightarrow>
          if result \<noteq> SUCCESS then (False, resultInfo, Ident_SetLatestError result a)
          else (True, resultInfo\<lparr>ir_result := ir_result info, ir_userId := ir_userId info,
                  ir_token := ir_token info\<rparr>, a))"

definition Ident_Cancel :: "identify_engine \<Rightarrow> identification \<Rightarrow> bool \<times> identification" where
  "Ident_Cancel eng a =
     (if \<not> if_running a then (False, a\<lparr>if_running := False\<rparr>)
      else
        let a1 = a\<lparr>if_running := False\<rparr>; result = ig_cancel eng (if_contextId a)
        in if result \<noteq> SUCCESS then (False, Ident_SetLatestError result a1) else (True, a1))"

section \<open>\<open>IdentifyContext\<close>\<close>

definition IdentifyContext :: "u64 \<Rightarrow> identification option \<Rightarrow> bool \<Rightarrow> identify_context" where
  "IdentifyContext contextId identify callback =
     base_context.extend (BaseContext contextId False callback) \<lparr>ic_identify = identify\<rparr>"

definition Identify_GetTokenId :: "identify_context \<Rightarrow> u32" where
  "Identify_GetTokenId c = (case ic_identify c of None \<Rightarrow> 0 | Some a \<Rightarrow> if_tokenId a)"

definition Identify_OnStart :: "identify_env \<Rightarrow> identify_context \<Rightarrow> bool \<times> identify_context" where
  "Identify_OnStart e c =
     (case ic_identify c of
        None \<Rightarrow> (False, c)
      | Some a \<Rightarrow>
          (case Ident_Start e [] True a of
             (startRet, scheduleList, a1) \<Rightarrow>
               let c = c\<lparr>ic_identify := Some a1\<rparr>
               in if \<not> startRet then (False, Base_SetLatestError (if_latestError a1) c)
                  else start_single (ie_sched e) scheduleList c))"

definition Identify_UpdateScheduleResult ::
  "identify_env \<Rightarrow> attributes option \<Rightarrow> identify_result_info \<Rightarrow> identify_context \<Rightarrow>
   bool \<times> identify_result_info \<times> identify_context" where
  "Identify_UpdateScheduleResult e scheduleResultAttr resultInfo c =
     (case (ic_identify c, scheduleResultAttr) of
        (Some a, Some attr) \<Rightarrow>
          (case GetUint8ArrayValue ATTR_RESULT attr of
             None \<Rightarrow> (False, resultInfo, c)
           | Some scheduleResult \<Rightarrow>
               (case Ident_Update (ie_engine e) scheduleResult resultInfo a of
                  (updateRet, ri, a1) \<Rightarrow>
                    let c = c\<lparr>ic_identify := Some a1\<rparr>
                    in if \<not> updateRet then (False, ri, Base_SetLatestError (if_latestError a1) c)
                       else (True, ri, c)))
      | _ \<Rightarrow> (False, resultInfo, c))"

definition identify_setters :: "identify_result_info \<Rightarrow> (attributes \<Rightarrow> bool \<times> attributes) list" where
  "identify_setters ri =
     [SetInt32Value ATTR_RESULT_CODE (ir_result ri), SetInt32Value ATTR_USER_ID (ir_userId ri)] @
     (if ir_token ri \<noteq> [] then [SetUint8ArrayValue ATTR_SIGNATURE (ir_token ri)] else [])"

definition Identify_InvokeResultCallback :: "identify_result_info \<Rightarrow> identify_context \<Rightarrow> identify_context" where
  "Identify_InvokeResultCallback ri c =
     (if \<not> bc_callback c then c
      else (case set_all (identify_setters ri) Attributes_new of
              (built, finalResult) \<Rightarrow>
                if \<not> built then c else ctx_emit (ResultDelivered (ir_result ri) finalResult) c))"

definition Identify_OnResult ::
  "identify_env \<Rightarrow> i32 \<Rightarrow> attributes option \<Rightarrow> identify_context \<Rightarrow> identify_context" where
  "Identify_OnResult e resultCode scheduleResultAttr c =
     (case Identify_UpdateScheduleResult e scheduleResultAttr
        \<lparr>ir_result = 0, ir_userId = 0, ir_token = []\<rparr> c of
        (updateRet, ri, c) \<Rightarrow>
          let ri = (if \<not> updateRet
                 then ri\<lparr>ir_result := (if resultCode = SUCCESS then bc_latestError c else resultCode)\<rparr> else ri)
          in Identify_InvokeResultCallback ri c)"

definition Identify_OnStop :: "identify_env \<Rightarrow> identify_context \<Rightarrow> bool \<times> identify_context" where
  "Identify_OnStop e c =
     (let c = stop_single c
      in case ic_identify c of
           None \<Rightarrow> (False, c)
         | Some a \<Rightarrow>
             (case Ident_Cancel (ie_engine e) a of
                (cancelRet, a1) \<Rightarrow>
                  let c = c\<lparr>ic_identify := Some a1\<rparr>
                  in if \<not> cancelRet then (False, Base_SetLatestError (if_latestError a1) c) else (True, c)))"

definition identify_vtable :: "(identify_env, unit identify_context_ext) ctx_vtable" where
  "identify_vtable =
     \<lparr>vt_OnStart = Identify_OnStart, vt_OnStop = Identify_OnStop, vt_OnResult = Identify_OnResult,
      vt_sched = ie_sched\<rparr>"

section \<open>The contract of a context, interpreted\<close>

definition identify_eid :: "unit identify_context_ext \<Rightarrow> u64" where
  "identify_eid m =
     (case ic_identify (base_context.extend (BaseContext 0 False False) m) of None \<Rightarrow> 0 | Some a \<Rightarrow> if_contextId a)"

lemma identify_eid_more [simp]:
  "identify_eid (base_context.more c) = (case ic_identify c of None \<Rightarrow> 0 | Some a \<Rightarrow> if_contextId a)"
  by (cases c) (simp add: identify_eid_def base_context.defs)

lemma quiet_identify:
  "ic_identify c = Some a \<Longrightarrow> if_contextId a1 = if_contextId a \<Longrightarrow> quiet identify_eid c (c\<lparr>ic_identify := Some a1\<rparr>)"
  by (simp add: quiet_def ctx_keeps_def results_def)

lemma Ident_ids:
  "Ident_Start e sl cb a = (r, nodes, a') \<Longrightarrow> if_contextId a' = if_contextId a"
  "Ident_Update eng b ri a = (u, ri', a') \<Longrightarrow> if_contextId a' = if_contextId a"
  "Ident_Cancel eng a = (r, a') \<Longrightarrow> if_contextId a' = if_contextId a"
  by (auto simp: Ident_Start_def Ident_Update_def Ident_Cancel_def Ident_SetLatestError_def Let_def
      split: prod.splits if_splits)

lemma Ident_Start_nodes:
  "Ident_Start e [] True a = (True, nodes, a') \<Longrightarrow> ms \<in> set nodes \<Longrightarrow> node_new ms \<and> dormant ms"
  using built_nodes_new by (auto simp: Ident_Start_def Let_def split: prod.splits if_splits)

lemma Identify_OnStart_contract:
  assumes "Identify_OnStart e c = (r, c')"
  shows "quiet identify_eid c c' \<and> (bc_scheduleList c = [] \<longrightarrow>
      (\<forall>ms. Some ms \<in> set (bc_scheduleList c') \<longrightarrow> node_new ms \<and> (r \<or> dormant ms)) \<and>
      (r \<longrightarrow> length (bc_scheduleList c') \<le> 1))"
proof (cases "ic_identify c")
  case None
  then show ?thesis using assms by (auto simp: Identify_OnStart_def)
next
  case (Some a)
  obtain st nodes a1 where o: "Ident_Start e [] True a = (st, nodes, a1)" by (metis prod_cases3)
  have q: "quiet identify_eid c (c\<lparr>ic_identify := Some a1\<rparr>)" by (rule quiet_identify [OF Some Ident_ids(1) [OF o]])
  show ?thesis
    by (rule start_after_update [OF q, where st = st and nodes = nodes and env = "ie_sched e" and err = "if_latestError a1"])
      (use assms Ident_Start_nodes [of e a nodes a1] in \<open>auto simp: Identify_OnStart_def Some o\<close>)
qed

lemma Identify_OnStop_contract:
  assumes "Identify_OnStop e c = (r, c')"
  shows "quiet identify_eid c c' \<and> list_all2 maybe_stopped (bc_scheduleList c) (bc_scheduleList c')"
proof -
  let ?c = "stop_single c"
  have m: "ic_identify ?c = ic_identify c" by (auto simp: stop_single_def split: list.splits option.splits)
  show ?thesis
  proof (cases "ic_identify c")
    case None
    then show ?thesis using assms m by (auto simp: Identify_OnStop_def Let_def)
  next
    case (Some a)
    obtain cr a1 where cn: "Ident_Cancel (ie_engine e) a = (cr, a1)" by fastforce
    have q: "quiet identify_eid ?c (?c\<lparr>ic_identify := Some a1\<rparr>)"
      by (rule quiet_identify [of _ a]) (simp_all add: m Some Ident_ids(3) [OF cn])
    show ?thesis
      by (rule update_after_stop [OF q, where err = "if_latestError a1"])
        (use assms m in \<open>auto simp: Identify_OnStop_def Let_def Some cn split: if_splits\<close>)
  qed
qed

text \<open>The engine's verdict on the executor's result, when it gives one.\<close>

definition identify_verdict :: "identify_env \<Rightarrow> u64 \<Rightarrow> attributes option \<Rightarrow> identify_result_info option" where
  "identify_verdict e cid r =
     (case r of None \<Rightarrow> None
      | Some attr \<Rightarrow>
          (case GetUint8ArrayValue ATTR_RESULT attr of None \<Rightarrow> None
           | Some b \<Rightarrow> (case ig_update (ie_engine e) cid b of (ret, info) \<Rightarrow> if ret = SUCCESS then Some info else None)))"

definition identify_backed :: "identify_env \<Rightarrow> u64 \<Rightarrow> i32 \<Rightarrow> attributes option \<Rightarrow> bool" where
  "identify_backed e cid code r \<longleftrightarrow> (\<exists>info. identify_verdict e cid r = Some info \<and> ir_result info = SUCCESS)"

lemma Identify_UpdateScheduleResult_quiet:
  assumes "Identify_UpdateScheduleResult e attr ri0 c = (upd, ri, c')"
  shows "quiet identify_eid c c' \<and> bc_scheduleList c' = bc_scheduleList c \<and>
    (upd \<longleftrightarrow> ic_identify c \<noteq> None \<and> identify_verdict e (identify_eid (base_context.more c)) attr \<noteq> None) \<and>
    (upd \<longrightarrow> identify_verdict e (identify_eid (base_context.more c)) attr = Some ri) \<and> (\<not> upd \<longrightarrow> ri = ri0)"
proof (cases "ic_identify c = None \<or> attr = None \<or> GetUint8ArrayValue ATTR_RESULT (the attr) = None")
  case True
  then show ?thesis
    using assms by (auto simp: Identify_UpdateScheduleResult_def identify_verdict_def split: option.splits)
next
  case False
  then obtain a at b where a: "ic_identify c = Some a" and at: "attr = Some at"
    and b: "GetUint8ArrayValue ATTR_RESULT at = Some b" by auto
  obtain u ri1 a1 where u: "Ident_Update (ie_engine e) b ri0 a = (u, ri1, a1)" by (metis prod_cases3)
  let ?c = "c\<lparr>ic_identify := Some a1\<rparr>"
  have q: "quiet identify_eid c ?c" by (rule quiet_identify [OF a Ident_ids(2) [OF u]])
  have v: "(u \<longleftrightarrow> identify_verdict e (if_contextId a) attr \<noteq> None) \<and>
      (u \<longrightarrow> identify_verdict e (if_contextId a) attr = Some ri1) \<and> (\<not> u \<longrightarrow> ri1 = ri0)"
    using u by (auto simp: Ident_Update_def identify_verdict_def at b split: prod.splits if_splits)
  have "upd = u \<and> ri = ri1 \<and> c' = (if u then ?c else Base_SetLatestError (if_latestError a1) ?c)"
    using assms by (auto simp: Identify_UpdateScheduleResult_def a at b u Let_def split: if_splits)
  moreover have "quiet identify_eid c (Base_SetLatestError (if_latestError a1) ?c)" by (rule quiet_trans [OF q]) simp
  moreover have "identify_eid (base_context.more c) = if_contextId a" by (simp add: a)
  ultimately show ?thesis using v q a by (cases u) (simp_all del: identify_eid_more)
qed

text \<open>The result object is refused only for a signature that is too long for an attribute.\<close>

lemma identify_built: "fst (set_all (identify_setters ri) Attributes_new) \<longleftrightarrow> length (ir_token ri) \<le> MAX_ATTR_LENGTH"
proof -
  have "fst (set_all (identify_setters ri) Attributes_new) \<longleftrightarrow> list_all adds_one (identify_setters ri)"
    by (rule set_all_builds [OF _ attr_len_new [of 0]]) (simp_all add: identify_setters_def MAX_ATTR_COUNT_def)
  then show ?thesis by (simp add: identify_setters_def)
qed

lemma Identify_Invoke_delivers:
  "results (Identify_InvokeResultCallback ri c) = results c @
     (if bc_callback c \<and> length (ir_token ri) \<le> MAX_ATTR_LENGTH
      then [ResultDelivered (ir_result ri) (snd (set_all (identify_setters ri) Attributes_new))] else [])"
  "ctx_keeps identify_eid c (Identify_InvokeResultCallback ri c)"
  "bc_scheduleList (Identify_InvokeResultCallback ri c) = bc_scheduleList c"
  using identify_built [of ri] by (auto simp: Identify_InvokeResultCallback_def split: prod.splits)

lemma Identify_OnResult_split:
  assumes "bc_latestError c \<noteq> SUCCESS"
  shows "\<exists>ri c1. Identify_OnResult e code r c = Identify_InvokeResultCallback ri c1 \<and> quiet identify_eid c c1 \<and>
    bc_scheduleList c1 = bc_scheduleList c \<and>
    (case (if ic_identify c = None then None else identify_verdict e (identify_eid (base_context.more c)) r) of
       None \<Rightarrow> ir_token ri = [] \<and> ir_userId ri = 0 \<and> ir_result ri \<noteq> SUCCESS \<and> (code \<noteq> SUCCESS \<longrightarrow> ir_result ri = code)
     | Some info \<Rightarrow> ri = info)"
proof -
  obtain upd ri0 c0 where u:
    "Identify_UpdateScheduleResult e r \<lparr>ir_result = 0, ir_userId = 0, ir_token = []\<rparr> c = (upd, ri0, c0)"
    by (metis prod_cases3)
  let ?ri = "if \<not> upd then ri0\<lparr>ir_result := (if code = SUCCESS then bc_latestError c0 else code)\<rparr> else ri0"
  have f: "quiet identify_eid c c0" "bc_scheduleList c0 = bc_scheduleList c"
    "upd \<longleftrightarrow> ic_identify c \<noteq> None \<and> identify_verdict e (identify_eid (base_context.more c)) r \<noteq> None"
    "upd \<Longrightarrow> identify_verdict e (identify_eid (base_context.more c)) r = Some ri0"
    "\<not> upd \<Longrightarrow> ri0 = \<lparr>ir_result = 0, ir_userId = 0, ir_token = []\<rparr>"
    using Identify_UpdateScheduleResult_quiet [OF u] by blast+
  have "bc_latestError c0 \<noteq> SUCCESS" using f(1) assms by (simp add: quiet_def ctx_keeps_def)
  then have "case (if ic_identify c = None then None else identify_verdict e (identify_eid (base_context.more c)) r) of
       None \<Rightarrow> ir_token ?ri = [] \<and> ir_userId ?ri = 0 \<and> ir_result ?ri \<noteq> SUCCESS \<and> (code \<noteq> SUCCESS \<longrightarrow> ir_result ?ri = code)
     | Some info \<Rightarrow> ?ri = info"
    using f(3-5) by (cases upd) (auto simp del: identify_eid_more split: option.splits)
  moreover have "Identify_OnResult e code r c = Identify_InvokeResultCallback ?ri c0"
    by (simp add: Identify_OnResult_def u Let_def)
  ultimately show ?thesis using f(1,2) by blast
qed

lemma Identify_OnResult_contract:
  "ctx_keeps identify_eid c (Identify_OnResult e code r c)"
  "bc_scheduleList (Identify_OnResult e code r c) = bc_scheduleList c"
proof -
  obtain upd ri0 c0 where u:
    "Identify_UpdateScheduleResult e r \<lparr>ir_result = 0, ir_userId = 0, ir_token = []\<rparr> c = (upd, ri0, c0)"
    by (metis prod_cases3)
  then have "quiet identify_eid c c0" "bc_scheduleList c0 = bc_scheduleList c"
    using Identify_UpdateScheduleResult_quiet by blast+
  then show "ctx_keeps identify_eid c (Identify_OnResult e code r c)"
    "bc_scheduleList (Identify_OnResult e code r c) = bc_scheduleList c"
    using ctx_keeps_trans [OF _ Identify_Invoke_delivers(2)]
    by (simp_all add: Identify_OnResult_def u Let_def Identify_Invoke_delivers quiet_def)
qed

lemma Identify_OnResult_delivers:
  assumes "bc_latestError c \<noteq> SUCCESS"
  shows "\<exists>d. results (Identify_OnResult e code r c) = results c @ d \<and> length d \<le> 1 \<and>
    ((\<exists>a. ResultDelivered SUCCESS a \<in> set d) \<longrightarrow> identify_backed e (identify_eid (base_context.more c)) code r)"
proof -
  let ?v = "if ic_identify c = None then None else identify_verdict e (identify_eid (base_context.more c)) r"
  obtain ri c1 where o: "Identify_OnResult e code r c = Identify_InvokeResultCallback ri c1" "quiet identify_eid c c1"
    and v: "case ?v of None \<Rightarrow> ir_token ri = [] \<and> ir_userId ri = 0 \<and> ir_result ri \<noteq> SUCCESS \<and>
        (code \<noteq> SUCCESS \<longrightarrow> ir_result ri = code) | Some info \<Rightarrow> ri = info"
    using Identify_OnResult_split [OF assms, of e code r] by blast
  have "ir_result ri = SUCCESS \<Longrightarrow> identify_backed e (identify_eid (base_context.more c)) code r"
    using v unfolding identify_backed_def
    by (cases "identify_verdict e (identify_eid (base_context.more c)) r") (auto simp del: identify_eid_more split: if_splits)
  then show ?thesis
    using o(2) unfolding o(1) Identify_Invoke_delivers(1) quiet_def by (auto simp del: identify_eid_more)
qed

interpretation identify_class: context_class identify_vtable identify_eid identify_backed "\<lambda>_ _. False"
  by (rule quiet_start_class)
    (use Identify_OnStart_contract Identify_OnStop_contract Identify_OnResult_contract Identify_OnResult_delivers in
      \<open>simp_all add: identify_vtable_def del: identify_eid_more\<close>)

section \<open>What the caller is told\<close>

lemma identify_fresh: "fresh_context (IdentifyContext cid a callback)"
  by (simp add: fresh_context_def IdentifyContext_def BaseContext_def base_context.defs)

lemma identify_start_id:
  "identify_eid (base_context.more (IdentifyContext cid (Some a) callback)) = if_contextId a"
  by (simp add: IdentifyContext_def base_context.defs identify_eid_def BaseContext_def)

text \<open>
  Property C22: in a run of an identification a caller gets at most one result, and is told \<^verbatim>\<open>SUCCESS\<close> only
  when an executor handed in its final result for one of the context's schedules and the engine, given the
  very attributes of that result under the id of this identification, accepted them. The code that the
  schedule ended with plays no part in it.
\<close>

theorem identify_success_backed:
  assumes "ctx_run identify_vtable (IdentifyContext cid (Some a) callback) ls c"
    and "length (filter is_start ls) \<le> 1"
  shows "length (filter is_result (bc_outputs c)) \<le> 1 \<and>
    (ResultDelivered SUCCESS attrs \<in> set (bc_outputs c) \<longrightarrow>
      (\<exists>i l e code e' r info. CNode i l e \<in> set ls \<and> CNode i (LContinue code r) e' \<in> set ls \<and>
         identify_verdict e (if_contextId a) r = Some info \<and> ir_result info = SUCCESS))"
proof -
  have inv: "ctx_inv identify_eid (identify_backed, \<lambda>_ _. False) ls c"
    by (rule identify_class.ctx_run_inv [OF assms(1) identify_fresh assms(2)])
  have "success_backed (identify_backed, \<lambda>_ _. False) ls (identify_eid (base_context.more c))"
    if "ResultDelivered SUCCESS attrs \<in> set (bc_outputs c)"
    using inv that unfolding ctx_inv_def results_def by auto
  moreover have "identify_verdict e cid r = Some info \<Longrightarrow> r \<noteq> None" for e cid r info
    by (auto simp: identify_verdict_def split: option.splits)
  ultimately show ?thesis
    using ctx_inv_le [OF inv]
    unfolding success_backed_def identify_backed_def identify_class.ctx_run_id [OF assms(1)] identify_start_id results_def
      fst_conv snd_conv by blast
qed

text \<open>
  Also shown: the result of an identification on every branch. With the engine's verdict the caller gets the
  verdict, whatever the schedule's code was; without one it gets a failure: the schedule's own code if that is one.
  A verdict whose token is longer than an attribute may be is the one case in which the caller is told nothing.
\<close>

theorem identify_result_code:
  assumes "bc_callback c" and "ic_identify c = Some a" and "bc_latestError c \<noteq> SUCCESS"
  shows "case identify_verdict e (if_contextId a) r of
      None \<Rightarrow> \<exists>k attrs. results (Identify_OnResult e code r c) = results c @ [ResultDelivered k attrs] \<and>
        k \<noteq> SUCCESS \<and> (code \<noteq> SUCCESS \<longrightarrow> k = code) \<and> GetInt32Value ATTR_RESULT_CODE attrs = Some k
    | Some info \<Rightarrow>
        if length (ir_token info) \<le> MAX_ATTR_LENGTH
        then \<exists>attrs. results (Identify_OnResult e code r c) = results c @ [ResultDelivered (ir_result info) attrs] \<and>
          GetInt32Value ATTR_RESULT_CODE attrs = Some (ir_result info) \<and>
          GetInt32Value ATTR_USER_ID attrs = Some (ir_userId info)
        else results (Identify_OnResult e code r c) = results c"
proof -
  obtain ri c1 where o: "Identify_OnResult e code r c = Identify_InvokeResultCallback ri c1" "quiet identify_eid c c1"
    and v: "case identify_verdict e (if_contextId a) r of
       None \<Rightarrow> ir_token ri = [] \<and> ir_userId ri = 0 \<and> ir_result ri \<noteq> SUCCESS \<and> (code \<noteq> SUCCESS \<longrightarrow> ir_result ri = code)
     | Some info \<Rightarrow> ri = info"
    using Identify_OnResult_split [OF assms(3), of e code r] assms(2) by auto
  let ?attrs = "snd (set_all (identify_setters ri) Attributes_new)"
  have "attr_at ATTR_RESULT_CODE (EncodeInt32Value (ir_result ri)) ?attrs"
    unfolding identify_setters_def append_Cons
    by (rule set_all_at [of "[]", unfolded append_Nil]) (simp_all add: put_Int32)
  moreover have "attr_at ATTR_USER_ID (EncodeInt32Value (ir_userId ri)) ?attrs"
    unfolding identify_setters_def append_Cons
    by (rule set_all_at [of "[SetInt32Value ATTR_RESULT_CODE (ir_result ri)]", unfolded append_Cons append_Nil])
      (simp_all add: put_Int32 MAX_ATTR_COUNT_def)
  ultimately have g: "GetInt32Value ATTR_RESULT_CODE ?attrs = Some (ir_result ri)"
    "GetInt32Value ATTR_USER_ID ?attrs = Some (ir_userId ri)" by (simp_all add: attr_get_Int32 attr_Int32_roundtrip)
  have "bc_callback c1" "results c1 = results c" using o(2) assms(1) by (auto simp: quiet_def ctx_keeps_def)
  then have "results (Identify_OnResult e code r c) = results c @
      (if length (ir_token ri) \<le> MAX_ATTR_LENGTH then [ResultDelivered (ir_result ri) ?attrs] else [])"
    by (simp add: o(1) Identify_Invoke_delivers)
  then show ?thesis using v g by (auto split: option.splits)
qed

section \<open>Witnesses\<close>

text \<open>An engine that accepts what the executor reports, although the schedule itself was cancelled.\<close>

definition w_identify_env :: identify_env where
  "w_identify_env = \<lparr>ie_engine = \<lparr>ig_begin = (\<lambda>_ _ _ _. (SUCCESS, w_eng_info)),
       ig_update = (\<lambda>_ _. (SUCCESS, \<lparr>ir_result = SUCCESS, ir_userId = 100, ir_token = [1, 2]\<rparr>)),
       ig_cancel = (\<lambda>_. SUCCESS)\<rparr>,
     ie_pool = w_pool, ie_description = ''s'', ie_sched = w_env, ie_uninitialised = w_para\<rparr>"

definition w_identify_ctx :: identify_context where
  "w_identify_ctx = IdentifyContext 8 (Some (IdentificationImpl 8 PIN)) True"

definition w_identify_para :: node_optional_para where
  "w_identify_para = w_para\<lparr>np_tokenId := Some 0\<rparr>"

definition w_identify_started :: identify_context where
  "w_identify_started = w_identify_ctx\<lparr>bc_hasStarted := True, bc_scheduleList := [Some (w_started_node w_identify_para)],
     bc_outputs := [StageMark S_CONTEXT_START], ic_identify := Some ((IdentificationImpl 8 PIN)\<lparr>if_running := True\<rparr>)\<rparr>"

definition w_identify_last :: identify_context where
  "w_identify_last = w_identify_started\<lparr>bc_scheduleList := [Some (w_ended_node w_identify_para CANCELED)]\<rparr>"

lemma w_identify_start: "start_task (Identify_OnStart w_identify_env) w_identify_ctx = w_identify_started"
proof -
  have "BuildFromHdi ''s'' w_pool w_identify_para True [w_eng_info] [] =
      (True, [(w_machine 0 [] 0, w_round w_identify_para GENERAL_ERROR None [])])"
    by (rule w_round_build) (simp_all add: w_identify_para_def w_para_def)
  then have "Ident_Start w_identify_env [] True (IdentificationImpl 8 PIN) =
      (True, [(w_machine 0 [] 0, w_round w_identify_para GENERAL_ERROR None [])],
       (IdentificationImpl 8 PIN)\<lparr>if_running := True\<rparr>)"
    by (simp add: Ident_Start_def w_identify_env_def Let_def IdentificationImpl_def w_identify_para_def w_para_def)
  then show ?thesis
    by (simp add: start_task_def Base_Start_def Identify_OnStart_def start_single_def SetScheduleList_def Let_def
        Base_Mark_def ctx_emit_def w_identify_started_def w_identify_ctx_def IdentifyContext_def BaseContext_def
        base_context.defs w_start_round) (simp add: w_identify_env_def w_start_round)
qed

lemma w_identify_facts:
  "bc_callback w_identify_last" "ic_identify w_identify_last = Some ((IdentificationImpl 8 PIN)\<lparr>if_running := True\<rparr>)"
  "bc_latestError w_identify_last \<noteq> SUCCESS" "results w_identify_last = []"
  by (simp_all add: w_identify_last_def w_identify_started_def w_identify_ctx_def IdentifyContext_def BaseContext_def
      base_context.defs results_def)

lemma w_identify_verdict:
  "identify_verdict w_identify_env cid (Some w_final) = Some \<lparr>ir_result = SUCCESS, ir_userId = 100, ir_token = [1, 2]\<rparr>"
  by (simp add: identify_verdict_def w_final_result w_identify_env_def)

lemma w_identify_run:
  "\<exists>ls. ctx_run identify_vtable w_identify_ctx ls (Identify_OnResult w_identify_env CANCELED (Some w_final) w_identify_last) \<and>
     length (filter is_start ls) = 1"
  using w_whole_run [of identify_vtable w_identify_env w_identify_ctx w_identify_started w_identify_para CANCELED] w_identify_start
  by (simp add: identify_vtable_def w_identify_env_def w_identify_last_def) (simp add: w_identify_started_def)

theorem identify_result_code_witness:
  "\<exists>attrs. results (Identify_OnResult w_identify_env CANCELED (Some w_final) w_identify_last) = [ResultDelivered SUCCESS attrs] \<and>
     GetInt32Value ATTR_USER_ID attrs = Some 100"
  using identify_result_code [OF w_identify_facts(1-3), where e = w_identify_env and r = "Some w_final" and code = CANCELED]
  by (auto simp: w_identify_verdict w_identify_facts(4) MAX_ATTR_LENGTH_def)

theorem identify_success_backed_witness:
  "\<exists>ls. ctx_run identify_vtable w_identify_ctx ls (Identify_OnResult w_identify_env CANCELED (Some w_final) w_identify_last) \<and>
     length (filter is_result (bc_outputs (Identify_OnResult w_identify_env CANCELED (Some w_final) w_identify_last))) \<le> 1"
proof -
  obtain ls where run: "ctx_run identify_vtable w_identify_ctx ls (Identify_OnResult w_identify_env CANCELED (Some w_final) w_identify_last)"
    and one: "length (filter is_start ls) \<le> 1" using w_identify_run by fastforce
  show ?thesis
    using identify_success_backed [OF run [unfolded w_identify_ctx_def] one] run by (auto simp: w_identify_ctx_def)
qed

end
