(* ===== verification/Credential_Events.thy ===== *)
theory Credential_Events
  imports User_Database
begin

text \<open>
  The events that follow a changed credential: \<^verbatim>\<open>services/core/src/publish_event_adapter.cpp\<close> and
  \<^verbatim>\<open>services/core/src/credential_updated_manager.cpp\<close>. A changed PIN is announced in two steps: the
  enrolled PIN is cached, and the update is published when the old credential is deleted.
\<close>

section \<open>Published events\<close>

record cred_change_info =
  cc_callerName :: bytes
  cc_callerType :: i32
  cc_credentialId :: u64
  cc_lastCredentialId :: u64
  cc_isSilentCredChange :: bool

datatype cred_change = ADD_CRED | UPDATE_CRED | DEL_CRED | DEL_USER | ENFORCE_DEL_USER

datatype cred_event =
    PinDeleted i32
  | PinCreated i32 u64
  | PinUpdated i32 u64 bool
  | CredentialCount i32 i32 u32 bool
  | CountSaved i32 i32 u32
  | CredChange i32 i32 cred_change cred_change_info

text \<open>The state of \<^verbatim>\<open>PublishEventAdapter\<close>, and the events that were sent, in order.\<close>

record publisher =
  pa_userId :: i32
  pa_scheduleId :: u64
  pa_changeInfo :: cred_change_info
  pa_reEnrollFlag :: bool
  pa_events :: "cred_event list"

definition no_change :: cred_change_info where
  "no_change = \<lparr>cc_callerName = [], cc_callerType = 0, cc_credentialId = 0, cc_lastCredentialId = 0,
     cc_isSilentCredChange = False\<rparr>"

definition publisher_new :: publisher where
  "publisher_new = \<lparr>pa_userId = 0, pa_scheduleId = 0, pa_changeInfo = no_change, pa_reEnrollFlag = False,
     pa_events = []\<rparr>"

definition publish :: "cred_event \<Rightarrow> publisher \<Rightarrow> publisher" where
  "publish ev p = p\<lparr>pa_events := pa_events p @ [ev]\<rparr>"

definition PublishDeletedEvent :: "i32 \<Rightarrow> publisher \<Rightarrow> publisher" where
  "PublishDeletedEvent userId p = publish (PinDeleted userId) p"

definition PublishCreatedEvent :: "i32 \<Rightarrow> u64 \<Rightarrow> publisher \<Rightarrow> publisher" where
  "PublishCreatedEvent userId scheduleId p =
     (if scheduleId = 0 then p else publish (PinCreated userId scheduleId) p)"

definition ClearPinUpdateCacheInfo :: "publisher \<Rightarrow> publisher" where
  "ClearPinUpdateCacheInfo p = p\<lparr>pa_changeInfo := no_change, pa_reEnrollFlag := False\<rparr>"

definition PublishUpdatedEvent :: "i32 \<Rightarrow> u64 \<Rightarrow> publisher \<Rightarrow> publisher" where
  "PublishUpdatedEvent userId credentialId p =
     (if userId \<noteq> pa_userId p \<or> credentialId \<noteq> cc_lastCredentialId (pa_changeInfo p) then p
      else ClearPinUpdateCacheInfo
             (publish (PinUpdated userId (pa_scheduleId p) (cc_isSilentCredChange (pa_changeInfo p)))
                (publish (CredChange userId PIN UPDATE_CRED (pa_changeInfo p)) p)))"

definition CachePinUpdateParam :: "i32 \<Rightarrow> u64 \<Rightarrow> cred_change_info \<Rightarrow> publisher \<Rightarrow> publisher" where
  "CachePinUpdateParam userId scheduleId changeInfo p =
     p\<lparr>pa_userId := userId, pa_scheduleId := scheduleId,
       pa_changeInfo := changeInfo\<lparr>cc_isSilentCredChange := pa_reEnrollFlag p\<rparr>\<rparr>"

definition CachePinUpdateFlag :: "bool \<Rightarrow> publisher \<Rightarrow> publisher" where
  "CachePinUpdateFlag reEnrollFlag p = p\<lparr>pa_reEnrollFlag := reEnrollFlag\<rparr>"

definition PublishCredentialUpdatedEvent :: "i32 \<Rightarrow> i32 \<Rightarrow> u32 \<Rightarrow> publisher \<Rightarrow> publisher" where
  "PublishCredentialUpdatedEvent userId authType credentialCount p =
     publish (CredentialCount userId authType credentialCount
       (if authType = PIN then cc_isSilentCredChange (pa_changeInfo p) else False)) p"

definition SaveCredentialUpdatedEvent :: "i32 \<Rightarrow> i32 \<Rightarrow> u32 \<Rightarrow> publisher \<Rightarrow> publisher" where
  "SaveCredentialUpdatedEvent userId authType credentialCount p =
     publish (CountSaved userId authType credentialCount) p"

text \<open>\<^verbatim>\<open>uint32_t credentialCount = credentialInfos.size()\<close> wraps.\<close>

definition ProcessCredentialDeleted ::
  "user_engine \<Rightarrow> delete_param \<Rightarrow> u64 \<Rightarrow> i32 \<Rightarrow> publisher \<Rightarrow> publisher" where
  "ProcessCredentialDeleted eng deletePara credentialId authType p =
     (case GetCredentialInfo (ue_getCredential eng) (dp_userId deletePara) authType [] of
        (ret, credentialInfos) \<Rightarrow>
          if ret \<noteq> SUCCESS then p
          else
            let credentialCount = of_nat (length credentialInfos);
                p = PublishCredentialUpdatedEvent (dp_userId deletePara) authType credentialCount p;
                p = SaveCredentialUpdatedEvent (dp_userId deletePara) authType credentialCount p;
                p = PublishUpdatedEvent (dp_userId deletePara) credentialId p;
                changeInfo = \<lparr>cc_callerName = dp_callerName deletePara,
                  cc_callerType = dp_callerType deletePara, cc_credentialId = 0,
                  cc_lastCredentialId = credentialId, cc_isSilentCredChange = False\<rparr>
            in if authType \<noteq> PIN then publish (CredChange (dp_userId deletePara) authType DEL_CRED changeInfo) p
               else p)"

definition ProcessCredentialEnrolled ::
  "user_engine \<Rightarrow> enrollment_para \<Rightarrow> eng_enroll_result \<Rightarrow> bool \<Rightarrow> u64 \<Rightarrow> publisher \<Rightarrow> publisher" where
  "ProcessCredentialEnrolled eng para resultInfo isUpdate scheduleId p =
     (let userId = en_userId para; authType = en_authType para;
          changeInfo = \<lparr>cc_callerName = en_callerName para, cc_callerType = en_callerType para,
            cc_credentialId = el_credentialId resultInfo, cc_lastCredentialId = 0,
            cc_isSilentCredChange = False\<rparr>;
          updateInfo = changeInfo\<lparr>cc_lastCredentialId := ci_credentialId (el_oldInfo resultInfo)\<rparr>
      in if isUpdate \<and> authType = PIN then CachePinUpdateParam userId scheduleId updateInfo p
         else
           (case GetCredentialInfo (ue_getCredential eng) userId authType [] of
              (ret, credentialInfos) \<Rightarrow>
                if ret \<noteq> SUCCESS then p
                else
                  let credentialCount = of_nat (length credentialInfos);
                      p = PublishCredentialUpdatedEvent userId authType credentialCount p;
                      p = SaveCredentialUpdatedEvent userId authType credentialCount p
                  in if isUpdate \<and> authType \<noteq> PIN then publish (CredChange userId authType UPDATE_CRED updateInfo) p
                     else if \<not> isUpdate \<and> authType \<noteq> PIN
                     then publish (CredChange userId authType ADD_CRED changeInfo) p
                     else publish (CredChange userId authType ADD_CRED changeInfo)
                            (PublishCreatedEvent userId scheduleId p)))"

definition ProcessUserDeleted :: "i32 \<Rightarrow> publisher \<Rightarrow> publisher" where
  "ProcessUserDeleted userId p =
     SaveCredentialUpdatedEvent userId PIN 0 (PublishCredentialUpdatedEvent userId PIN 0 p)"

text \<open>
  \<^verbatim>\<open>UserIdmService::PostProcessForDelete\<close>, the task that follows the deletion of a user: the executors drop the
  templates, and every credential but an abandoned PIN is announced. The answers of the executors and the pool
  are arguments; the calls to them are returned beside the events.
\<close>

fun announce_deleted ::
  "i32 \<Rightarrow> cred_change \<Rightarrow> cred_change_info \<Rightarrow> credential_info list \<Rightarrow> bool \<Rightarrow> publisher \<Rightarrow> bool \<times> publisher" where
  "announce_deleted userId eventType changeInfo [] isExistPin p = (isExistPin, p)"
| "announce_deleted userId eventType changeInfo (cred # credInfos) isExistPin p =
     (if ci_authType cred = PIN \<and> ci_isAbandoned cred
      then announce_deleted userId eventType changeInfo credInfos isExistPin p
      else announce_deleted userId eventType (changeInfo\<lparr>cc_lastCredentialId := ci_credentialId cred\<rparr>) credInfos
             (isExistPin \<or> ci_authType cred = PIN)
             (publish (CredChange userId (ci_authType cred) eventType
                (changeInfo\<lparr>cc_lastCredentialId := ci_credentialId cred\<rparr>)) p))"

definition PostProcessForDelete ::
  "ipc_answers \<Rightarrow> rpool \<Rightarrow> i32 \<Rightarrow> credential_info list \<Rightarrow> bytes \<Rightarrow> cred_change \<Rightarrow> cred_change_info \<Rightarrow>
   call_log \<Rightarrow> publisher \<Rightarrow> call_log \<times> publisher" where
  "PostProcessForDelete ipc pool userId credInfos reason eventType changeInfo log p =
     (let log = snd (NotifyExecutorToDeleteTemplates ipc pool (map Some credInfos) reason log);
          p = PublishDeletedEvent userId p
      in case announce_deleted userId eventType changeInfo credInfos False p of
           (isExistPin, p) \<Rightarrow> (log, if isExistPin then ProcessUserDeleted userId p else p))"

section \<open>Sequences of changes\<close>

datatype cred_op =
    CredDeleted user_engine delete_param u64 i32
  | CredEnrolled user_engine enrollment_para eng_enroll_result bool u64
  | PinAuthenticated bool
  | UserErased ipc_answers rpool i32 "credential_info list" bytes cred_change cred_change_info

fun cred_step :: "cred_op \<Rightarrow> publisher \<Rightarrow> publisher" where
  "cred_step (CredDeleted eng para credentialId authType) p = ProcessCredentialDeleted eng para credentialId authType p"
| "cred_step (CredEnrolled eng para res isUpdate scheduleId) p =
     ProcessCredentialEnrolled eng para res isUpdate scheduleId p"
| "cred_step (PinAuthenticated reEnrollFlag) p = CachePinUpdateFlag reEnrollFlag p"
| "cred_step (UserErased ipc pool userId credInfos reason eventType changeInfo) p =
     snd (PostProcessForDelete ipc pool userId credInfos reason eventType changeInfo [] p)"

definition cred_run :: "cred_op list \<Rightarrow> publisher" where
  "cred_run ops = fold cred_step ops publisher_new"

fun is_pin_updated :: "cred_event \<Rightarrow> bool" where
  "is_pin_updated (PinUpdated _ _ _) = True"
| "is_pin_updated _ = False"

fun is_pin_change :: "cred_op \<Rightarrow> bool" where
  "is_pin_change (CredEnrolled _ para _ isUpdate _) = (isUpdate \<and> en_authType para = PIN)"
| "is_pin_change _ = False"

fun deletes_real :: "cred_op \<Rightarrow> bool" where
  "deletes_real (CredDeleted _ _ credentialId _) = (credentialId \<noteq> 0)"
| "deletes_real _ = True"

text \<open>What is cached comes from a change of a PIN, unless nothing is.\<close>

definition cache_backed :: "cred_op list \<Rightarrow> publisher \<Rightarrow> bool" where
  "cache_backed ops p \<longleftrightarrow> cc_lastCredentialId (pa_changeInfo p) \<noteq> 0 \<longrightarrow>
     (\<exists>eng para res. CredEnrolled eng para res True (pa_scheduleId p) \<in> set ops \<and> en_authType para = PIN \<and>
        en_userId para = pa_userId p \<and> ci_credentialId (el_oldInfo res) = cc_lastCredentialId (pa_changeInfo p))"

fun update_backed :: "cred_op list \<Rightarrow> cred_event \<Rightarrow> bool" where
  "update_backed ops (PinUpdated userId scheduleId silent) =
     (\<exists>eng para res eng' del authType. CredEnrolled eng para res True scheduleId \<in> set ops \<and>
        en_authType para = PIN \<and> en_userId para = userId \<and>
        CredDeleted eng' del (ci_credentialId (el_oldInfo res)) authType \<in> set ops \<and> dp_userId del = userId)"
| "update_backed ops _ = True"

definition pending :: "publisher \<Rightarrow> nat" where
  "pending p = (if cc_lastCredentialId (pa_changeInfo p) = 0 then 0 else 1)"

definition updates :: "publisher \<Rightarrow> nat" where
  "updates p = length (filter is_pin_updated (pa_events p))"

lemmas publisher_defs =
  publish_def PublishDeletedEvent_def PublishCreatedEvent_def ClearPinUpdateCacheInfo_def PublishUpdatedEvent_def
  CachePinUpdateParam_def CachePinUpdateFlag_def PublishCredentialUpdatedEvent_def SaveCredentialUpdatedEvent_def
  ProcessUserDeleted_def no_change_def

text \<open>The operations that leave the cached update and its announcements alone.\<close>

definition same_updates :: "publisher \<Rightarrow> publisher \<Rightarrow> bool" where
  "same_updates p p' \<longleftrightarrow> pa_changeInfo p' = pa_changeInfo p \<and> pa_userId p' = pa_userId p \<and>
     pa_scheduleId p' = pa_scheduleId p \<and> filter is_pin_updated (pa_events p') = filter is_pin_updated (pa_events p)"

lemma announce_deleted_same:
  "announce_deleted userId eventType changeInfo credInfos b p = (b', p') \<Longrightarrow> same_updates p p'"
  by (induction userId eventType changeInfo credInfos b p rule: announce_deleted.induct)
    (auto simp: same_updates_def publish_def split: if_splits)

lemma UserErased_same: "same_updates p (cred_step (UserErased ipc pool userId credInfos reason eventType changeInfo) p)"
proof -
  obtain b p1 where "announce_deleted userId eventType changeInfo credInfos False (PublishDeletedEvent userId p) = (b, p1)"
    by fastforce
  then show ?thesis
    using announce_deleted_same [of userId eventType changeInfo credInfos False _ b p1]
    by (auto simp: PostProcessForDelete_def Let_def same_updates_def publisher_defs)
qed

lemma PinAuthenticated_same: "same_updates p (cred_step (PinAuthenticated f) p)"
  by (simp add: same_updates_def CachePinUpdateFlag_def)

lemma same_counts: "same_updates p p' \<Longrightarrow> updates p' = updates p \<and> pending p' = pending p"
  by (simp add: same_updates_def updates_def pending_def)

lemma cred_step_count:
  "deletes_real cop \<Longrightarrow> updates (cred_step cop p) + pending (cred_step cop p) \<le>
     updates p + pending p + (if is_pin_change cop then 1 else 0)"
proof (cases cop)
  case (UserErased ipc pool userId credInfos reason eventType changeInfo)
  then show ?thesis using same_counts [OF UserErased_same] by simp
next
  case (PinAuthenticated f)
  then show ?thesis using same_counts [OF PinAuthenticated_same] by simp
qed (auto simp: updates_def pending_def publisher_defs ProcessCredentialDeleted_def
      ProcessCredentialEnrolled_def Let_def split: prod.splits)

lemma cred_fold_count:
  "\<forall>cop \<in> set ops. deletes_real cop \<Longrightarrow> updates (fold cred_step ops p) + pending (fold cred_step ops p) \<le>
     updates p + pending p + length (filter is_pin_change ops)"
proof (induction ops arbitrary: p)
  case (Cons cop ops)
  have "updates (fold cred_step ops (cred_step cop p)) + pending (fold cred_step ops (cred_step cop p)) \<le>
      updates (cred_step cop p) + pending (cred_step cop p) + length (filter is_pin_change ops)"
    using Cons.prems by (intro Cons.IH) simp
  then show ?case using cred_step_count [of cop p] Cons.prems by (auto split: if_splits)
qed simp

lemma update_backedI:
  "CredEnrolled eng para res True scheduleId \<in> set ops \<Longrightarrow> en_authType para = PIN \<Longrightarrow> en_userId para = userId \<Longrightarrow>
   CredDeleted eng' del (ci_credentialId (el_oldInfo res)) authType \<in> set ops \<Longrightarrow> dp_userId del = userId \<Longrightarrow>
   update_backed ops (PinUpdated userId scheduleId silent)"
  unfolding update_backed.simps by (intro exI conjI)

lemma update_backed_mono: "update_backed ops ev \<Longrightarrow> set ops \<subseteq> set ops' \<Longrightarrow> update_backed ops' ev"
proof (cases ev)
  case (PinUpdated userId scheduleId silent)
  assume "update_backed ops ev" and sub: "set ops \<subseteq> set ops'"
  then obtain eng para res eng' del authType where
    "CredEnrolled eng para res True scheduleId \<in> set ops" "en_authType para = PIN" "en_userId para = userId"
    "CredDeleted eng' del (ci_credentialId (el_oldInfo res)) authType \<in> set ops" "dp_userId del = userId"
    unfolding PinUpdated update_backed.simps by blast
  then show ?thesis
    unfolding PinUpdated by (intro update_backedI [of eng para res _ _ _ eng' del authType] subsetD [OF sub])
qed simp_all

lemma cache_backed_mono: "cache_backed ops p \<Longrightarrow> set ops \<subseteq> set ops' \<Longrightarrow> cache_backed ops' p"
  unfolding cache_backed_def by (meson subsetD)

definition cred_inv :: "cred_op list \<Rightarrow> publisher \<Rightarrow> bool" where
  "cred_inv ops p \<longleftrightarrow> cache_backed ops p \<and> (\<forall>ev \<in> set (pa_events p). update_backed ops ev)"

lemma deleted_cases:
  assumes "p' = ProcessCredentialDeleted eng del credentialId authType p"
  shows "pa_userId p' = pa_userId p" and "pa_scheduleId p' = pa_scheduleId p"
    and "pa_changeInfo p' = pa_changeInfo p \<or> pa_changeInfo p' = no_change"
    and "PinUpdated userId scheduleId silent \<in> set (pa_events p') \<Longrightarrow>
      PinUpdated userId scheduleId silent \<in> set (pa_events p) \<or>
      userId = pa_userId p \<and> scheduleId = pa_scheduleId p \<and> dp_userId del = userId \<and>
      credentialId = cc_lastCredentialId (pa_changeInfo p)"
  unfolding assms by (auto simp: publisher_defs ProcessCredentialDeleted_def Let_def split: prod.splits if_splits)

lemma enrolled_events:
  "PinUpdated userId scheduleId silent \<in> set (pa_events (ProcessCredentialEnrolled eng para res isUpdate sid p)) \<longleftrightarrow>
     PinUpdated userId scheduleId silent \<in> set (pa_events p)"
  by (auto simp: publisher_defs ProcessCredentialEnrolled_def Let_def split: prod.splits)

lemma enrolled_cache:
  assumes "cache_backed ops p"
  shows "cache_backed (ops @ [CredEnrolled eng para res isUpdate sid]) (ProcessCredentialEnrolled eng para res isUpdate sid p)"
proof (cases "isUpdate \<and> en_authType para = PIN")
  case True
  then show ?thesis
    by (auto simp: cache_backed_def ProcessCredentialEnrolled_def CachePinUpdateParam_def Let_def)
next
  case False
  let ?p = "ProcessCredentialEnrolled eng para res isUpdate sid p"
  have "pa_changeInfo ?p = pa_changeInfo p" "pa_userId ?p = pa_userId p" "pa_scheduleId ?p = pa_scheduleId p"
    using False by (auto simp: publisher_defs ProcessCredentialEnrolled_def Let_def split: prod.splits)
  then have "cache_backed ops ?p" using assms by (simp add: cache_backed_def)
  then show ?thesis by (rule cache_backed_mono) auto
qed

lemma cred_inv_step:
  assumes "cred_inv ops p" and "deletes_real cop"
  shows "cred_inv (ops @ [cop]) (cred_step cop p)"
proof -
  have keep: "update_backed (ops @ [cop]) ev" if "ev \<in> set (pa_events p)" for ev
  proof (rule update_backed_mono)
    show "update_backed ops ev" using assms(1) that unfolding cred_inv_def by blast
  qed auto
  have mono: "cred_inv (ops @ [cop]) p'" if same: "same_updates p p'" for p'
  proof -
    have "cache_backed ops p'" using same assms(1) by (simp add: cred_inv_def cache_backed_def same_updates_def)
    moreover have "update_backed ops ev" if ev: "ev \<in> set (pa_events p')" for ev
    proof (cases "is_pin_updated ev")
      case True
      then have "ev \<in> set (filter is_pin_updated (pa_events p'))" using ev by simp
      then have "ev \<in> set (pa_events p)" using same unfolding same_updates_def by simp
      then show ?thesis using assms(1) by (simp add: cred_inv_def)
    qed (cases ev, simp_all)
    ultimately show ?thesis
      unfolding cred_inv_def
      using update_backed_mono [of ops _ "ops @ [cop]"] cache_backed_mono [of ops p' "ops @ [cop]"] by auto
  qed
  show ?thesis
  proof (cases cop)
    case (CredDeleted eng del credentialId authType)
    let ?p = "cred_step cop p"
    have p: "?p = ProcessCredentialDeleted eng del credentialId authType p" by (simp add: CredDeleted)
    note f = deleted_cases [OF p]
    have "cache_backed (ops @ [cop]) ?p"
    proof (cases "pa_changeInfo ?p = no_change")
      case True
      then show ?thesis by (simp add: cache_backed_def no_change_def)
    next
      case False
      then have "cache_backed ops ?p" using f assms(1) by (auto simp: cred_inv_def cache_backed_def)
      then show ?thesis by (rule cache_backed_mono) auto
    qed
    moreover have "update_backed (ops @ [cop]) ev" if "ev \<in> set (pa_events ?p)" for ev
    proof (cases "ev \<in> set (pa_events p)")
      case True
      then show ?thesis by (rule keep)
    next
      case False
      show ?thesis
      proof (cases ev)
        case (PinUpdated userId scheduleId silent)
        then have new: "userId = pa_userId p" "scheduleId = pa_scheduleId p" "dp_userId del = userId"
          "credentialId = cc_lastCredentialId (pa_changeInfo p)"
          using False f(4) [of userId scheduleId silent] that unfolding PinUpdated by blast+
        then obtain eng1 para res where "CredEnrolled eng1 para res True (pa_scheduleId p) \<in> set ops"
          "en_authType para = PIN" "en_userId para = pa_userId p" "ci_credentialId (el_oldInfo res) = credentialId"
          using assms unfolding cred_inv_def cache_backed_def CredDeleted deletes_real.simps by blast
        then show ?thesis
          unfolding PinUpdated CredDeleted using new
          by (intro update_backedI [of eng1 para res _ _ _ eng del authType]) simp_all
      qed simp_all
    qed
    ultimately show ?thesis by (simp add: cred_inv_def)
  next
    case (CredEnrolled eng para res isUpdate sid)
    have "update_backed (ops @ [cop]) ev" if "ev \<in> set (pa_events (cred_step cop p))" for ev
    proof (cases "ev \<in> set (pa_events p)")
      case True
      then show ?thesis by (rule keep)
    next
      case False
      then show ?thesis using that by (cases ev) (auto simp: CredEnrolled enrolled_events)
    qed
    then show ?thesis using assms(1) enrolled_cache by (auto simp: cred_inv_def CredEnrolled)
  qed (use mono UserErased_same PinAuthenticated_same in blast)+
qed

lemma cred_run_inv: "\<forall>cop \<in> set ops. deletes_real cop \<Longrightarrow> cred_inv ops (cred_run ops)"
proof (induction ops rule: rev_induct)
  case Nil
  then show ?case by (simp add: cred_run_def publisher_new_def cred_inv_def cache_backed_def no_change_def)
next
  case (snoc cop ops)
  then show ?case using cred_inv_step [of ops "cred_run ops" cop] by (simp add: cred_run_def)
qed

section \<open>A changed PIN is announced once\<close>

text \<open>
  Property C36: as long as no deletion names the credential id 0, every announced update of a PIN has an enrolled
  update of that user's PIN behind it, with the announced schedule, whose old credential was deleted for that
  user; and there are at most as many announcements as there were enrolled updates, so a replaced credential
  that is reported deleted again is not announced again.
\<close>

theorem pin_update_announced_once:
  assumes "\<forall>cop \<in> set ops. deletes_real cop"
  shows "(\<forall>ev \<in> set (pa_events (cred_run ops)). update_backed ops ev) \<and>
    length (filter is_pin_updated (pa_events (cred_run ops))) \<le> length (filter is_pin_change ops)"
proof
  show "\<forall>ev \<in> set (pa_events (cred_run ops)). update_backed ops ev"
    using cred_run_inv [OF assms] unfolding cred_inv_def by blast
  have "updates (cred_run ops) + pending (cred_run ops) \<le>
      updates publisher_new + pending publisher_new + length (filter is_pin_change ops)"
    unfolding cred_run_def by (rule cred_fold_count [OF assms])
  moreover have "updates publisher_new = 0" "pending publisher_new = 0"
    by (simp_all add: updates_def pending_def publisher_new_def no_change_def)
  ultimately show "length (filter is_pin_updated (pa_events (cred_run ops))) \<le> length (filter is_pin_change ops)"
    by (simp add: updates_def)
qed

definition w_cred :: "u64 \<Rightarrow> credential_info" where
  "w_cred i = \<lparr>ci_userId = 0, ci_credentialId = i, ci_executorIndex = 1, ci_templateId = 5, ci_authType = PIN,
     ci_executorMatcher = 0, ci_executorSensorHint = 0, ci_authSubType = 10000, ci_isAbandoned = False,
     ci_validityPeriod = 0\<rparr>"

definition w_user_engine :: user_engine where
  "w_user_engine = \<lparr>ue_getUserInfo = (\<lambda>_. (SUCCESS, 77, [\<lparr>enr_authType = PIN, enr_enrolledId = 3\<rparr>])),
     ue_getCredential = (\<lambda>_ _. (SUCCESS, [w_cred 8])), ue_deleteUser = (\<lambda>_ _. (SUCCESS, [], [])),
     ue_enforceDeleteUser = (\<lambda>_. (SUCCESS, [])), ue_getAllExtUserInfo = (SUCCESS, []),
     ue_getCredentialById = (\<lambda>i. (SUCCESS, w_cred i)), ue_clearUnavailable = (\<lambda>_. (SUCCESS, [])),
     ue_latestEnrollmentTime = (\<lambda>_ _. (SUCCESS, 0))\<rparr>"

definition w_enroll_para :: enrollment_para where
  "w_enroll_para = \<lparr>en_userId = 100, en_authType = PIN, en_pinType = 10000, en_isUpdate = True, en_tokenId = 1,
     en_token = [], en_callerName = [], en_sdkVersion = 12, en_callerType = 0, en_additionalInfo = []\<rparr>"

definition w_delete_para :: delete_param where
  "w_delete_para = \<lparr>dp_userId = 100, dp_credentialId = 7, dp_tokenId = 1, dp_callerName = [], dp_callerType = 0,
     dp_token = []\<rparr>"

definition w_change_ops :: "cred_op list" where
  "w_change_ops =
     [CredEnrolled w_user_engine w_enroll_para
        \<lparr>el_credentialId = 8, el_oldInfo = w_cred 7, el_rootSecret = [], el_oldRootSecret = [], el_authToken = []\<rparr> True 9,
      CredDeleted w_user_engine w_delete_para 7 PIN, CredDeleted w_user_engine w_delete_para 7 PIN]"

lemmas w_change_defs = w_change_ops_def w_cred_def w_user_engine_def w_enroll_para_def w_delete_para_def

theorem pin_update_announced_once_witness:
  "length (filter is_pin_updated (pa_events (cred_run w_change_ops))) = 1 \<and>
   length (filter is_pin_updated (pa_events (cred_run w_change_ops))) \<le> length (filter is_pin_change w_change_ops)"
proof
  show "length (filter is_pin_updated (pa_events (cred_run w_change_ops))) = 1"
    by (simp add: w_change_defs cred_run_def publisher_new_def publisher_defs ProcessCredentialDeleted_def
        ProcessCredentialEnrolled_def GetCredentialInfo_def CredentialInfoImpl_def Let_def)
  show "length (filter is_pin_updated (pa_events (cred_run w_change_ops))) \<le> length (filter is_pin_change w_change_ops)"
    by (rule pin_update_announced_once [THEN conjunct2]) (simp add: w_change_defs)
qed

text \<open>
  The cleared cache names the credential id 0 and keeps its user. A deletion of the credential 0 of that user
  is announced as one more update.
\<close>

lemma cleared_cache_announces:
  "length (filter is_pin_updated
     (pa_events (cred_run (w_change_ops @ [CredDeleted w_user_engine w_delete_para 0 PIN])))) = 2"
  by (simp add: w_change_defs cred_run_def publisher_new_def publisher_defs ProcessCredentialDeleted_def
      ProcessCredentialEnrolled_def GetCredentialInfo_def CredentialInfoImpl_def Let_def)

end
