(* ===== verification/Enroll.thy ===== *)
theory Enroll
  imports Authentication Context_Witness Credential_Events
begin

text \<open>
  The enrollment of a credential: \<^verbatim>\<open>services/core/src/enrollment_impl.cpp\<close> towards the engine and
  \<^verbatim>\<open>services/context/src/enroll_context.cpp\<close> as the pooled context. The engine and the account service are
  arguments: \<open>enroll_engine\<close> and the user database of \<open>User_Database\<close>. The members of \<^verbatim>\<open>NodeOptionalPara\<close> that
  \<^verbatim>\<open>StartSchedule\<close> leaves uninitialised are arbitrary values of the surroundings.
\<close>

section \<open>Data\<close>

record eng_enroll_param =
  ne_authType :: i32
  ne_executorSensorHint :: u32
  ne_callerName :: bytes
  ne_callerType :: i32
  ne_apiVersion :: i32
  ne_userId :: i32
  ne_userType :: i32
  ne_authSubType :: i32
  ne_additionalInfo :: bytes

record enroll_engine =
  ng_TOKEN_HAP :: i32
  ng_TOKEN_NATIVE :: i32
  ng_userType :: "i32 \<Rightarrow> i32 \<times> i32"
  ng_begin :: "bytes \<Rightarrow> eng_enroll_param \<Rightarrow> i32 \<times> eng_schedule_info"
  ng_update :: "i32 \<Rightarrow> bytes \<Rightarrow> i32 \<times> eng_enroll_result"
  ng_cancel :: "i32 \<Rightarrow> i32"

record enrollment =
  eo_para :: enrollment_para
  eo_authToken :: bytes
  eo_secUserId :: "u64 option"
  eo_executorSensorHint :: u32
  eo_tokenId :: u32
  eo_scheduleId :: u64
  eo_pinSubType :: i32
  eo_isUpdate :: bool
  eo_running :: bool
  eo_latestError :: i32

record update_pin_param =
  up_oldCredentialId :: u64
  up_oldRootSecret :: bytes
  up_rootSecret :: bytes
  up_authToken :: bytes

record enroll_context = base_context +
  nc_enroll :: "enrollment option"

record enroll_env =
  nv_engine :: enroll_engine
  nv_users :: user_engine
  nv_pool :: rpool
  nv_description :: string
  nv_sched :: sched_env
  nv_ipc :: ipc_answers
  nv_uninitialised :: node_optional_para

section \<open>\<open>EnrollmentImpl\<close>\<close>

definition EnrollmentImpl :: "enrollment_para \<Rightarrow> enrollment" where
  "EnrollmentImpl enrollPara =
     \<lparr>eo_para = enrollPara, eo_authToken = [], eo_secUserId = None, eo_executorSensorHint = 0, eo_tokenId = 0,
      eo_scheduleId = 0, eo_pinSubType = PIN_MAX, eo_isUpdate = False, eo_running = False,
      eo_latestError = GENERAL_ERROR\<rparr>"

definition Enr_SetLatestError :: "i32 \<Rightarrow> enrollment \<Rightarrow> enrollment" where
  "Enr_SetLatestError error a = (if error \<noteq> SUCCESS then a\<lparr>eo_latestError := error\<rparr> else a)"

definition Enr_SetExecutorSensorHint :: "u32 \<Rightarrow> enrollment \<Rightarrow> enrollment" where
  "Enr_SetExecutorSensorHint executorSensorHint a = a\<lparr>eo_executorSensorHint := executorSensorHint\<rparr>"

definition Enr_SetAuthToken :: "bytes \<Rightarrow> enrollment \<Rightarrow> enrollment" where
  "Enr_SetAuthToken authToken a = a\<lparr>eo_authToken := authToken\<rparr>"

definition Enr_SetAccessTokenId :: "u32 \<Rightarrow> enrollment \<Rightarrow> enrollment" where
  "Enr_SetAccessTokenId tokenId a = a\<lparr>eo_tokenId := tokenId\<rparr>"

definition Enr_SetPinSubType :: "i32 \<Rightarrow> enrollment \<Rightarrow> enrollment" where
  "Enr_SetPinSubType pinSubType a = a\<lparr>eo_pinSubType := pinSubType\<rparr>"

definition Enr_SetIsUpdate :: "bool \<Rightarrow> enrollment \<Rightarrow> enrollment" where
  "Enr_SetIsUpdate isUpdate a = a\<lparr>eo_isUpdate := isUpdate\<rparr>"

text \<open>The answer, the output parameter, and what was done to the outside.\<close>

definition GetSecUserId :: "user_engine \<Rightarrow> enrollment \<Rightarrow> bool \<times> u64 option \<times> ctx_output list" where
  "GetSecUserId users a =
     (if en_authType (eo_para a) \<noteq> PIN then (True, None, [])
      else (case GetSecUserInfo users (en_userId (eo_para a)) None of
              (ret, userInfo) \<Rightarrow>
                if ret \<noteq> SUCCESS then (False, None, [])
                else (case userInfo of
                        Some info \<Rightarrow> (True, Some (su_secUserId info), [])
                      | None \<Rightarrow>
                          if eo_isUpdate a then (False, None, [])
                          else (False, None, [UserDeletionEnforced (en_userId (eo_para a))]))))"

definition Enr_StartSchedule ::
  "enroll_env \<Rightarrow> i32 \<Rightarrow> eng_schedule_info \<Rightarrow> sched_state list \<Rightarrow> bool \<Rightarrow> enrollment \<Rightarrow>
   bool \<times> sched_state list \<times> enrollment" where
  "Enr_StartSchedule e userId info scheduleList callback a =
     (let para = (nv_uninitialised e)\<lparr>np_expire := None, np_tokenId := Some (eo_tokenId a), np_pinSubType := None,
            np_endAfterFirstFail := None, np_userId := userId,
            np_additionalInfo := en_additionalInfo (eo_para a), np_title := [], np_authScene := 0\<rparr>
      in case BuildFromHdi (nv_description e) (nv_pool e) para callback [info] scheduleList of
           (built, nodes) \<Rightarrow>
             if \<not> built then (False, nodes, a)
             else (case nodes of
                     [] \<Rightarrow> (False, nodes, a)
                   | ms # _ \<Rightarrow> (True, nodes, a\<lparr>eo_scheduleId := GetScheduleId (snd ms), eo_running := True\<rparr>)))"

definition Enr_Start ::
  "enroll_env \<Rightarrow> sched_state list \<Rightarrow> bool \<Rightarrow> enrollment \<Rightarrow> bool \<times> sched_state list \<times> enrollment" where
  "Enr_Start e scheduleList callback a =
     (let eng = nv_engine e; para = eo_para a
      in case GetEngCallerType (ng_TOKEN_HAP eng) (ng_TOKEN_NATIVE eng) (en_callerType para) of
           None \<Rightarrow> (False, scheduleList, a)
         | Some callerType \<Rightarrow>
             (case (if eo_isUpdate a then GetSecUserId (nv_users e) a else (True, eo_secUserId a, [])) of
                (cached, secUserId, _) \<Rightarrow>
                  let a = a\<lparr>eo_secUserId := secUserId\<rparr>
                  in if \<not> cached then (False, scheduleList, a)
                     else
                       (case ng_userType eng (en_userId para) of
                          (ret, userType) \<Rightarrow>
                            if ret \<noteq> SUCCESS then (False, scheduleList, a)
                            else
                              let param = \<lparr>ne_authType = en_authType para,
                                    ne_executorSensorHint = eo_executorSensorHint a,
                                    ne_callerName = en_callerName para, ne_callerType = callerType,
                                    ne_apiVersion = en_sdkVersion para, ne_userId = en_userId para,
                                    ne_userType = userType, ne_authSubType = en_pinType para,
                                    ne_additionalInfo = en_additionalInfo para\<rparr>
                              in case ng_begin eng (eo_authToken a) param of
                                   (result, info) \<Rightarrow>
                                     if result \<noteq> SUCCESS then (False, scheduleList, Enr_SetLatestError result a)
                                     else Enr_StartSchedule e (en_userId para) info scheduleList callback a)))"

text \<open>
  \<^verbatim>\<open>Update\<close> fills the output parameters one after the other, so that a failure keeps those already filled.
\<close>

record enroll_update =
  eup_credentialId :: u64
  eup_info :: "credential_info option"
  eup_pinInfo :: "update_pin_param option"
  eup_secUserId :: "u64 option"

definition Enr_Update ::
  "enroll_env \<Rightarrow> bytes \<Rightarrow> enroll_update \<Rightarrow> enrollment \<Rightarrow> bool \<times> enroll_update \<times> enrollment \<times> ctx_output list" where
  "Enr_Update e scheduleResult out a =
     (case ng_update (nv_engine e) (en_userId (eo_para a)) scheduleResult of
        (result, resultInfo) \<Rightarrow>
          if result \<noteq> SUCCESS then (False, out, Enr_SetLatestError result a, [])
          else
            let out = out\<lparr>eup_credentialId := el_credentialId resultInfo,
                  eup_pinInfo := Some \<lparr>up_oldCredentialId = ci_credentialId (el_oldInfo resultInfo),
                    up_oldRootSecret = el_oldRootSecret resultInfo, up_rootSecret = el_rootSecret resultInfo,
                    up_authToken = el_authToken resultInfo\<rparr>\<rparr>;
                enrolled = CredentialEnrolled (eo_para a) resultInfo (eo_isUpdate a) (eo_scheduleId a)
            in if eo_isUpdate a
               then (True, out\<lparr>eup_secUserId := eo_secUserId a,
                       eup_info := Some (CredentialInfoImpl (en_userId (eo_para a)) (el_oldInfo resultInfo))\<rparr>,
                     a, [enrolled])
               else (case GetSecUserId (nv_users e) a of
                       (got, secUserId, calls) \<Rightarrow>
                         let out = out\<lparr>eup_secUserId := secUserId\<rparr>
                         in if \<not> got then (False, out, a, calls)
                            else (True, out\<lparr>eup_info := None\<rparr>, a, calls @ [enrolled])))"

definition Enr_Cancel :: "enroll_engine \<Rightarrow> enrollment \<Rightarrow> bool \<times> enrollment" where
  "Enr_Cancel eng a =
     (if \<not> eo_running a then (False, a)
      else
        let a1 = a\<lparr>eo_running := False\<rparr>; result = ng_cancel eng (en_userId (eo_para a))
        in if result \<noteq> SUCCESS then (False, Enr_SetLatestError result a1) else (True, a1))"

section \<open>\<open>EnrollContext\<close>\<close>

definition EnrollContext :: "u64 \<Rightarrow> enrollment option \<Rightarrow> bool \<Rightarrow> enroll_context" where
  "EnrollContext contextId enroll callback =
     base_context.extend (BaseContext contextId True callback) \<lparr>nc_enroll = enroll\<rparr>"

definition Enroll_GetTokenId :: "enroll_context \<Rightarrow> u32" where
  "Enroll_GetTokenId c = (case nc_enroll c of None \<Rightarrow> 0 | Some a \<Rightarrow> eo_tokenId a)"

definition Enroll_GetUserId :: "enroll_context \<Rightarrow> i32" where
  "Enroll_GetUserId c = (case nc_enroll c of None \<Rightarrow> INVALID_USER_ID | Some a \<Rightarrow> en_userId (eo_para a))"

definition Enroll_OnStart :: "enroll_env \<Rightarrow> enroll_context \<Rightarrow> bool \<times> enroll_context" where
  "Enroll_OnStart e c =
     (case nc_enroll c of
        None \<Rightarrow> (False, c)
      | Some a \<Rightarrow>
          (case Enr_Start e [] True a of
             (startRet, scheduleList, a1) \<Rightarrow>
               let c = c\<lparr>nc_enroll := Some a1\<rparr>
               in if \<not> startRet then (False, Base_SetLatestError (eo_latestError a1) c)
                  else start_single (nv_sched e) scheduleList c))"

definition delete_old_template :: "enroll_env \<Rightarrow> credential_info option \<Rightarrow> ctx_output list" where
  "delete_old_template e infoToDel =
     (case infoToDel of
        None \<Rightarrow> []
      | Some info \<Rightarrow>
          if ci_authType info \<noteq> PIN
          then [ExecutorsCalled (snd (NotifyExecutorToDeleteTemplates (nv_ipc e) (nv_pool e) [Some info]
                  (map of_char ''DeleteForUpdate'') []))]
          else [])"

definition Enroll_UpdateScheduleResult ::
  "enroll_env \<Rightarrow> attributes option \<Rightarrow> enroll_update \<Rightarrow> enroll_context \<Rightarrow>
   bool \<times> enroll_update \<times> enroll_context" where
  "Enroll_UpdateScheduleResult e scheduleResultAttr out c =
     (case (nc_enroll c, scheduleResultAttr) of
        (Some a, Some attr) \<Rightarrow>
          (case GetUint8ArrayValue ATTR_RESULT attr of
             None \<Rightarrow> (False, out, c)
           | Some scheduleResult \<Rightarrow>
               (case Enr_Update e scheduleResult out a of
                  (updateRet, out, a1, calls) \<Rightarrow>
                    let c = fold ctx_emit calls (c\<lparr>nc_enroll := Some a1\<rparr>)
                    in if \<not> updateRet then (False, out, Base_SetLatestError (eo_latestError a1) c)
                       else (True, out, fold ctx_emit (delete_old_template e (eup_info out)) c)))
      | _ \<Rightarrow> (False, out, c))"

definition bytes_setter :: "u32 \<Rightarrow> bytes \<Rightarrow> (attributes \<Rightarrow> bool \<times> attributes) list" where
  "bytes_setter key value = (if value \<noteq> [] then [SetUint8ArrayValue key value] else [])"

definition enroll_setters :: "enroll_update \<Rightarrow> (attributes \<Rightarrow> bool \<times> attributes) list" where
  "enroll_setters out =
     opt_setter SetUint64Value ATTR_SEC_USER_ID (eup_secUserId out) @
     SetUint64Value ATTR_CREDENTIAL_ID (eup_credentialId out) #
     (case eup_pinInfo out of
        None \<Rightarrow> []
      | Some pinInfo \<Rightarrow>
          SetUint64Value ATTR_OLD_CREDENTIAL_ID (up_oldCredentialId pinInfo) #
          bytes_setter ATTR_ROOT_SECRET (up_rootSecret pinInfo) @
          bytes_setter ATTR_OLD_ROOT_SECRET (up_oldRootSecret pinInfo) @
          bytes_setter ATTR_AUTH_TOKEN (up_authToken pinInfo))"

definition Enroll_InvokeResultCallback :: "i32 \<Rightarrow> enroll_update \<Rightarrow> enroll_context \<Rightarrow> enroll_context" where
  "Enroll_InvokeResultCallback resultCode out c =
     (if \<not> bc_callback c then c
      else (case set_all (enroll_setters out) Attributes_new of
              (built, finalResult) \<Rightarrow>
                if \<not> built then c else ctx_emit (ResultDelivered resultCode finalResult) c))"

definition no_update :: enroll_update where
  "no_update = \<lparr>eup_credentialId = 0, eup_info = None, eup_pinInfo = None, eup_secUserId = None\<rparr>"

definition Enroll_OnResult ::
  "enroll_env \<Rightarrow> i32 \<Rightarrow> attributes option \<Rightarrow> enroll_context \<Rightarrow> enroll_context" where
  "Enroll_OnResult e resultCode scheduleResultAttr c =
     (case Enroll_UpdateScheduleResult e scheduleResultAttr no_update c of
        (updateRet, out, c) \<Rightarrow>
          let resultCode = (if \<not> updateRet \<and> resultCode = SUCCESS then bc_latestError c else resultCode)
          in Enroll_InvokeResultCallback resultCode out c)"

definition Enroll_OnStop :: "enroll_env \<Rightarrow> enroll_context \<Rightarrow> bool \<times> enroll_context" where
  "Enroll_OnStop e c =
     (let c = stop_single c
      in case nc_enroll c of
           None \<Rightarrow> (False, c)
         | Some a \<Rightarrow>
             (case Enr_Cancel (nv_engine e) a of
                (cancelRet, a1) \<Rightarrow>
                  let c = c\<lparr>nc_enroll := Some a1\<rparr>
                  in if \<not> cancelRet then (False, Base_SetLatestError (eo_latestError a1) c) else (True, c)))"

definition enroll_vtable :: "(enroll_env, unit enroll_context_ext) ctx_vtable" where
  "enroll_vtable =
     \<lparr>vt_OnStart = Enroll_OnStart, vt_OnStop = Enroll_OnStop, vt_OnResult = Enroll_OnResult,
      vt_sched = nv_sched\<rparr>"

section \<open>The contract of a context, interpreted\<close>

text \<open>What a context enrolls: the parameters, and whether they replace a credential.\<close>

definition enroll_key :: "unit enroll_context_ext \<Rightarrow> (enrollment_para \<times> bool) option" where
  "enroll_key m =
     map_option (\<lambda>a. (eo_para a, eo_isUpdate a)) (nc_enroll (base_context.extend (BaseContext 0 False False) m))"

lemma enroll_key_more [simp]:
  "enroll_key (base_context.more c) = map_option (\<lambda>a. (eo_para a, eo_isUpdate a)) (nc_enroll c)"
  by (cases c) (simp add: enroll_key_def base_context.defs)

lemma quiet_enroll:
  "nc_enroll c = Some a \<Longrightarrow> eo_para a1 = eo_para a \<Longrightarrow> eo_isUpdate a1 = eo_isUpdate a \<Longrightarrow>
     quiet enroll_key c (c\<lparr>nc_enroll := Some a1\<rparr>)"
  by (simp add: quiet_def ctx_keeps_def results_def)

lemma Enr_Start_keeps:
  "Enr_Start e sl cb a = (r, nodes, a') \<Longrightarrow> eo_para a' = eo_para a \<and> eo_isUpdate a' = eo_isUpdate a"
  by (auto simp: Enr_Start_def Enr_StartSchedule_def Enr_SetLatestError_def Let_def
      split: option.splits prod.splits if_splits list.splits)

lemma Enr_Cancel_keeps:
  "Enr_Cancel eng a = (r, a') \<Longrightarrow> eo_para a' = eo_para a \<and> eo_isUpdate a' = eo_isUpdate a"
  by (auto simp: Enr_Cancel_def Enr_SetLatestError_def Let_def split: if_splits)

lemma Enr_StartSchedule_nodes:
  "Enr_StartSchedule e userId info [] True a = (True, nodes, a') \<Longrightarrow> ms \<in> set nodes \<Longrightarrow> node_new ms \<and> dormant ms"
  using built_nodes_new by (auto simp: Enr_StartSchedule_def Let_def split: prod.splits if_splits list.splits)

lemma Enr_Start_nodes:
  "Enr_Start e [] True a = (True, nodes, a') \<Longrightarrow> ms \<in> set nodes \<Longrightarrow> node_new ms \<and> dormant ms"
  using Enr_StartSchedule_nodes
  by (auto simp: Enr_Start_def Let_def split: option.splits prod.splits if_splits)

lemma Enroll_OnStart_contract:
  assumes "Enroll_OnStart e c = (r, c')"
  shows "quiet enroll_key c c' \<and> (bc_scheduleList c = [] \<longrightarrow>
      (\<forall>ms. Some ms \<in> set (bc_scheduleList c') \<longrightarrow> node_new ms \<and> (r \<or> dormant ms)) \<and>
      (r \<longrightarrow> length (bc_scheduleList c') \<le> 1))"
proof (cases "nc_enroll c")
  case None
  then show ?thesis using assms by (auto simp: Enroll_OnStart_def)
next
  case (Some a)
  obtain st nodes a1 where o: "Enr_Start e [] True a = (st, nodes, a1)" by (metis prod_cases3)
  have q: "quiet enroll_key c (c\<lparr>nc_enroll := Some a1\<rparr>)" using quiet_enroll [OF Some] Enr_Start_keeps [OF o] by blast
  show ?thesis
    by (rule start_after_update [OF q, where st = st and nodes = nodes and env = "nv_sched e" and err = "eo_latestError a1"])
      (use assms Enr_Start_nodes [of e a nodes a1] in \<open>auto simp: Enroll_OnStart_def Some o\<close>)
qed

lemma Enroll_OnStop_contract:
  assumes "Enroll_OnStop e c = (r, c')"
  shows "quiet enroll_key c c' \<and> list_all2 maybe_stopped (bc_scheduleList c) (bc_scheduleList c')"
proof -
  let ?c = "stop_single c"
  have m: "nc_enroll ?c = nc_enroll c" by (auto simp: stop_single_def split: list.splits option.splits)
  show ?thesis
  proof (cases "nc_enroll c")
    case None
    then show ?thesis using assms m by (auto simp: Enroll_OnStop_def Let_def)
  next
    case (Some a)
    obtain cr a1 where cn: "Enr_Cancel (nv_engine e) a = (cr, a1)" by fastforce
    have q: "quiet enroll_key ?c (?c\<lparr>nc_enroll := Some a1\<rparr>)"
      by (rule quiet_enroll [of _ a]) (simp_all add: m Some Enr_Cancel_keeps [OF cn])
    show ?thesis
      by (rule update_after_stop [OF q, where err = "eo_latestError a1"])
        (use assms m in \<open>auto simp: Enroll_OnStop_def Let_def Some cn split: if_splits\<close>)
  qed
qed

text \<open>
  What the engine says of the executor's result, and whether the secure user is known: a new PIN is reported only
  with the user's secure id.
\<close>

definition enroll_verdict ::
  "enroll_env \<Rightarrow> (enrollment_para \<times> bool) option \<Rightarrow> attributes option \<Rightarrow> eng_enroll_result option" where
  "enroll_verdict e k r =
     (case (k, r) of
        (Some (para, isUpdate), Some attr) \<Rightarrow>
          (case GetUint8ArrayValue ATTR_RESULT attr of None \<Rightarrow> None
           | Some b \<Rightarrow> (case ng_update (nv_engine e) (en_userId para) b of
                         (ret, info) \<Rightarrow> if ret = SUCCESS then Some info else None))
      | _ \<Rightarrow> None)"

definition sec_user :: "enroll_env \<Rightarrow> enrollment_para \<Rightarrow> u64 option" where
  "sec_user e para =
     (case GetSecUserInfo (nv_users e) (en_userId para) None of
        (ret, info) \<Rightarrow> if ret = SUCCESS then map_option su_secUserId info else None)"

definition sec_known :: "enroll_env \<Rightarrow> enrollment_para \<Rightarrow> bool \<Rightarrow> bool" where
  "sec_known e para isUpdate \<longleftrightarrow> isUpdate \<or> en_authType para \<noteq> PIN \<or> sec_user e para \<noteq> None"

definition enroll_backed ::
  "enroll_env \<Rightarrow> (enrollment_para \<times> bool) option \<Rightarrow> i32 \<Rightarrow> attributes option \<Rightarrow> bool" where
  "enroll_backed e k code r \<longleftrightarrow>
     code = SUCCESS \<and> enroll_verdict e k r \<noteq> None \<and> (\<exists>para isUpdate. k = Some (para, isUpdate) \<and> sec_known e para isUpdate)"

lemma GetSecUserId_cases:
  "GetSecUserId (nv_users e) a =
     (if en_authType (eo_para a) \<noteq> PIN then (True, None, [])
      else (sec_user e (eo_para a) \<noteq> None, sec_user e (eo_para a), []))"
  using GetSecUserInfo_success [of "nv_users e" "en_userId (eo_para a)"]
  by (auto simp: GetSecUserId_def sec_user_def split: prod.splits option.splits)

text \<open>The parts of the result that the engine's verdict fixes.\<close>

definition verdict_update :: "enroll_env \<Rightarrow> enrollment \<Rightarrow> eng_enroll_result option \<Rightarrow> enroll_update" where
  "verdict_update e a v =
     (case v of
        None \<Rightarrow> no_update
      | Some info \<Rightarrow>
          \<lparr>eup_credentialId = el_credentialId info,
           eup_info = (if eo_isUpdate a then Some (CredentialInfoImpl (en_userId (eo_para a)) (el_oldInfo info)) else None),
           eup_pinInfo = Some \<lparr>up_oldCredentialId = ci_credentialId (el_oldInfo info),
             up_oldRootSecret = el_oldRootSecret info, up_rootSecret = el_rootSecret info, up_authToken = el_authToken info\<rparr>,
           eup_secUserId = (if eo_isUpdate a then eo_secUserId a
             else if en_authType (eo_para a) = PIN then sec_user e (eo_para a) else None)\<rparr>)"

definition enroll_calls :: "enroll_env \<Rightarrow> enrollment \<Rightarrow> eng_enroll_result option \<Rightarrow> ctx_output list" where
  "enroll_calls e a v =
     (case v of
        None \<Rightarrow> []
      | Some info \<Rightarrow>
          if sec_known e (eo_para a) (eo_isUpdate a)
          then CredentialEnrolled (eo_para a) info (eo_isUpdate a) (eo_scheduleId a) #
            delete_old_template e (eup_info (verdict_update e a v))
          else [])"

lemma Enroll_UpdateScheduleResult_spec:
  assumes "nc_enroll c = Some a" and "v = enroll_verdict e (enroll_key (base_context.more c)) r"
  shows "\<exists>a1 err. eo_para a1 = eo_para a \<and> eo_isUpdate a1 = eo_isUpdate a \<and> (v \<noteq> None \<longrightarrow> a1 = a) \<and>
    Enroll_UpdateScheduleResult e r no_update c =
      (v \<noteq> None \<and> sec_known e (eo_para a) (eo_isUpdate a), verdict_update e a v,
       Base_SetLatestError err ((c\<lparr>nc_enroll := Some a1\<rparr>)\<lparr>bc_outputs := bc_outputs c @ enroll_calls e a v\<rparr>))"
proof (cases "r = None \<or> GetUint8ArrayValue ATTR_RESULT (the r) = None")
  case True
  have "c = c\<lparr>nc_enroll := Some a\<rparr>" using assms(1) by (cases c) simp
  then show ?thesis
    using True assms
    by (intro exI [of _ a] exI [of _ SUCCESS])
      (auto simp: Enroll_UpdateScheduleResult_def enroll_verdict_def verdict_update_def enroll_calls_def
        Base_SetLatestError_def split: option.splits)
next
  case False
  then obtain at b where at: "r = Some at" and b: "GetUint8ArrayValue ATTR_RESULT at = Some b" by auto
  obtain ret info where u: "ng_update (nv_engine e) (en_userId (eo_para a)) b = (ret, info)" by fastforce
  have v: "v = (if ret = SUCCESS then Some info else None)"
    using assms by (simp add: enroll_verdict_def at b u)
  note defs = Enroll_UpdateScheduleResult_def assms(1) at b Enr_Update_def u v verdict_update_def enroll_calls_def
    fold_emit Let_def no_update_def Base_SetLatestError_def sec_known_def
  have same: "c\<lparr>nc_enroll := Some a\<rparr> = c" using assms(1) by (cases c) simp
  consider (refused) "ret \<noteq> SUCCESS" | (update) "ret = SUCCESS" "eo_isUpdate a" | (new) "ret = SUCCESS" "\<not> eo_isUpdate a" by blast
  then show ?thesis
  proof cases
    case refused
    then show ?thesis
      by (intro exI [of _ "Enr_SetLatestError ret a"] exI [of _ "eo_latestError (Enr_SetLatestError ret a)"])
        (simp add: defs, simp add: Enr_SetLatestError_def)
  next
    case update
    then show ?thesis by (intro exI [of _ a] exI [of _ SUCCESS]) (simp add: defs)
  next
    case new
    show ?thesis
    proof (cases "en_authType (eo_para a) \<noteq> PIN \<or> sec_user e (eo_para a) \<noteq> None")
      case True
      then show ?thesis using new
        by (intro exI [of _ a] exI [of _ SUCCESS]) (auto simp: defs GetSecUserId_cases)
    next
      case False
      then show ?thesis using new
        by (intro exI [of _ a] exI [of _ "eo_latestError a"]) (auto simp: defs GetSecUserId_cases)
    qed
  qed
qed

text \<open>The result object is refused only for a secret that is too long for an attribute.\<close>

definition fits :: "enroll_update \<Rightarrow> bool" where
  "fits out \<longleftrightarrow>
     (case eup_pinInfo out of
        None \<Rightarrow> True
      | Some pinInfo \<Rightarrow> length (up_rootSecret pinInfo) \<le> MAX_ATTR_LENGTH \<and>
          length (up_oldRootSecret pinInfo) \<le> MAX_ATTR_LENGTH \<and> length (up_authToken pinInfo) \<le> MAX_ATTR_LENGTH)"

lemma bytes_setter_adds:
  "list_all (\<lambda>f. adds_one f \<or> refuses f) (bytes_setter k v)"
  "list_all adds_one (bytes_setter k v) \<longleftrightarrow> length v \<le> MAX_ATTR_LENGTH" "length (bytes_setter k v) \<le> 1"
  by (auto simp: bytes_setter_def)

lemma enroll_setters_length: "length (enroll_setters out) \<le> 6"
  by (simp add: enroll_setters_def opt_setter_def bytes_setter_def split: option.splits)

lemma enroll_built: "fst (set_all (enroll_setters out) Attributes_new) \<longleftrightarrow> fits out"
proof -
  have "list_all (\<lambda>f. adds_one f \<or> refuses f) (enroll_setters out)"
    by (auto simp: enroll_setters_def opt_setter_def bytes_setter_adds split: option.splits)
  moreover have "0 + length (enroll_setters out) \<le> Suc MAX_ATTR_COUNT"
    using enroll_setters_length [of out] by (simp add: MAX_ATTR_COUNT_def)
  ultimately have "fst (set_all (enroll_setters out) Attributes_new) \<longleftrightarrow> list_all adds_one (enroll_setters out)"
    by (rule set_all_builds [OF _ attr_len_new])
  then show ?thesis
    by (simp add: enroll_setters_def opt_setter_def bytes_setter_adds fits_def split: option.splits)
qed

lemma enroll_attributes:
  "GetUint64Value ATTR_CREDENTIAL_ID (snd (set_all (enroll_setters out) Attributes_new)) = Some (eup_credentialId out)"
proof -
  let ?pre = "opt_setter SetUint64Value ATTR_SEC_USER_ID (eup_secUserId out)"
  have "list_all adds_one ?pre" "length ?pre \<le> MAX_ATTR_COUNT"
    by (simp_all add: opt_setter_def MAX_ATTR_COUNT_def split: option.splits)
  then show ?thesis
    unfolding enroll_setters_def
    by (intro attr_get_Uint64(1) set_all_at) (auto simp: put_Uint64 bytes_setter_def split: option.splits)
qed

lemma Enroll_Invoke_delivers:
  "bc_outputs (Enroll_InvokeResultCallback code out c) = bc_outputs c @
     (if bc_callback c \<and> fits out
      then [ResultDelivered code (snd (set_all (enroll_setters out) Attributes_new))] else [])"
  "ctx_keeps enroll_key c (Enroll_InvokeResultCallback code out c)"
  "bc_scheduleList (Enroll_InvokeResultCallback code out c) = bc_scheduleList c"
  using enroll_built [of out] by (auto simp: Enroll_InvokeResultCallback_def ctx_emit_def ctx_keeps_def split: prod.splits)

lemma enroll_calls_quiet: "list_all (\<lambda>out. \<not> is_result out) (enroll_calls e a v)"
  by (auto simp: enroll_calls_def delete_old_template_def split: option.splits)

text \<open>Everything that \<^verbatim>\<open>OnResult\<close> does.\<close>

lemma Enroll_OnResult_spec:
  assumes "nc_enroll c = Some a" and "v = enroll_verdict e (enroll_key (base_context.more c)) r"
  shows "\<exists>k. (bc_latestError c \<noteq> SUCCESS \<longrightarrow>
      (k = SUCCESS \<longleftrightarrow> code = SUCCESS \<and> v \<noteq> None \<and> sec_known e (eo_para a) (eo_isUpdate a))) \<and> (code \<noteq> SUCCESS \<longrightarrow> k = code) \<and>
    bc_outputs (Enroll_OnResult e code r c) = bc_outputs c @ enroll_calls e a v @
      (if bc_callback c \<and> fits (verdict_update e a v)
       then [ResultDelivered k (snd (set_all (enroll_setters (verdict_update e a v)) Attributes_new))] else []) \<and>
    ctx_keeps enroll_key c (Enroll_OnResult e code r c) \<and>
    bc_scheduleList (Enroll_OnResult e code r c) = bc_scheduleList c"
proof -
  obtain a1 err where a1: "eo_para a1 = eo_para a" "eo_isUpdate a1 = eo_isUpdate a"
    and u: "Enroll_UpdateScheduleResult e r no_update c =
      (v \<noteq> None \<and> sec_known e (eo_para a) (eo_isUpdate a), verdict_update e a v,
       Base_SetLatestError err ((c\<lparr>nc_enroll := Some a1\<rparr>)\<lparr>bc_outputs := bc_outputs c @ enroll_calls e a v\<rparr>))"
    using Enroll_UpdateScheduleResult_spec [OF assms] by blast
  let ?upd = "v \<noteq> None \<and> sec_known e (eo_para a) (eo_isUpdate a)"
  let ?c0 = "c\<lparr>nc_enroll := Some a1\<rparr>"
  let ?c1 = "Base_SetLatestError err (?c0\<lparr>bc_outputs := bc_outputs ?c0 @ enroll_calls e a v\<rparr>)"
  have "quiet enroll_key ?c0 ?c1" by (rule quiet_trans [OF quiet_fold_emit [OF enroll_calls_quiet [of e a v]]]) simp
  then have q: "quiet enroll_key c ?c1" by (rule quiet_trans [OF quiet_enroll [OF assms(1) a1]])
  have c1: "bc_outputs ?c1 = bc_outputs c @ enroll_calls e a v" "bc_callback ?c1 = bc_callback c"
    "bc_scheduleList ?c1 = bc_scheduleList c" by (simp_all add: Base_SetLatestError_def)
  have err: "bc_latestError c \<noteq> SUCCESS \<Longrightarrow> bc_latestError ?c1 \<noteq> SUCCESS" using q by (simp add: quiet_def ctx_keeps_def)
  let ?k = "if \<not> ?upd \<and> code = SUCCESS then bc_latestError ?c1 else code"
  have r: "Enroll_OnResult e code r c = Enroll_InvokeResultCallback ?k (verdict_update e a v) ?c1"
    by (simp add: Enroll_OnResult_def u Let_def)
  have "ctx_keeps enroll_key c (Enroll_OnResult e code r c)"
    unfolding r using q by (intro ctx_keeps_trans [OF _ Enroll_Invoke_delivers(2)]) (simp add: quiet_def)
  then show ?thesis
    using err c1 unfolding r
    by (intro exI [of _ ?k]) (simp add: Enroll_Invoke_delivers)
qed

lemma Enroll_OnResult_none:
  assumes "nc_enroll c = None"
  shows "Enroll_OnResult e code r c =
    Enroll_InvokeResultCallback (if code = SUCCESS then bc_latestError c else code) no_update c"
  using assms by (simp add: Enroll_OnResult_def Enroll_UpdateScheduleResult_def)

lemma Enroll_OnResult_contract:
  "ctx_keeps enroll_key c (Enroll_OnResult e code r c) \<and>
   bc_scheduleList (Enroll_OnResult e code r c) = bc_scheduleList c"
proof (cases "nc_enroll c")
  case None
  then show ?thesis by (simp add: Enroll_OnResult_none Enroll_Invoke_delivers)
next
  case (Some a)
  then show ?thesis using Enroll_OnResult_spec [OF Some refl] by blast
qed

lemma Enroll_OnResult_delivers:
  assumes "bc_latestError c \<noteq> SUCCESS"
  shows "\<exists>d. results (Enroll_OnResult e code r c) = results c @ d \<and> length d \<le> 1 \<and>
    ((\<exists>x. ResultDelivered SUCCESS x \<in> set d) \<longrightarrow> enroll_backed e (enroll_key (base_context.more c)) code r)"
proof (cases "nc_enroll c")
  case None
  then show ?thesis using assms by (auto simp: Enroll_OnResult_none Enroll_Invoke_delivers results_def)
next
  case (Some a)
  let ?v = "enroll_verdict e (enroll_key (base_context.more c)) r"
  obtain k where k: "k = SUCCESS \<longleftrightarrow> code = SUCCESS \<and> ?v \<noteq> None \<and> sec_known e (eo_para a) (eo_isUpdate a)"
    and "bc_outputs (Enroll_OnResult e code r c) = bc_outputs c @ enroll_calls e a ?v @
      (if bc_callback c \<and> fits (verdict_update e a ?v)
       then [ResultDelivered k (snd (set_all (enroll_setters (verdict_update e a ?v)) Attributes_new))] else [])"
    using Enroll_OnResult_spec [OF Some refl] assms by blast
  moreover have "filter is_result (enroll_calls e a ?v) = []"
    using enroll_calls_quiet [of e a ?v] by (simp add: list_all_iff)
  ultimately have "results (Enroll_OnResult e code r c) = results c @
      (if bc_callback c \<and> fits (verdict_update e a ?v)
       then [ResultDelivered k (snd (set_all (enroll_setters (verdict_update e a ?v)) Attributes_new))] else [])"
    by (simp add: results_def)
  moreover have "k = SUCCESS \<Longrightarrow> enroll_backed e (enroll_key (base_context.more c)) code r"
    using k by (auto simp: enroll_backed_def Some)
  ultimately show ?thesis by auto
qed

interpretation enroll_class: context_class enroll_vtable enroll_key enroll_backed "\<lambda>_ _. False"
  by (rule quiet_start_class)
    (use Enroll_OnStart_contract Enroll_OnStop_contract Enroll_OnResult_contract Enroll_OnResult_delivers in
      \<open>simp_all add: enroll_vtable_def del: enroll_key_more\<close>)

section \<open>What the caller is told\<close>

lemma enroll_fresh: "fresh_context (EnrollContext cid a callback)"
  by (simp add: fresh_context_def EnrollContext_def BaseContext_def base_context.defs)

lemma enroll_start_key:
  "enroll_key (base_context.more (EnrollContext cid (Some a) callback)) = Some (eo_para a, eo_isUpdate a)"
  by (simp add: EnrollContext_def base_context.defs enroll_key_def BaseContext_def)

text \<open>
  Property C21: in a run of an enrollment a caller gets at most one result, and is told \<^verbatim>\<open>SUCCESS\<close> only when
  an executor handed in its final result with the code \<^verbatim>\<open>SUCCESS\<close> for one of the context's schedules, and the
  engine, given the very attributes of that result for this user, stored the credential; a new PIN moreover only
  when the user's secure id is known.
\<close>

theorem enroll_success_backed:
  assumes "ctx_run enroll_vtable (EnrollContext cid (Some a) callback) ls c"
    and "length (filter is_start ls) \<le> 1"
  shows "length (filter is_result (bc_outputs c)) \<le> 1 \<and>
    (ResultDelivered SUCCESS attrs \<in> set (bc_outputs c) \<longrightarrow>
      (\<exists>i l e e' r. CNode i l e \<in> set ls \<and> CNode i (LContinue SUCCESS r) e' \<in> set ls \<and>
         enroll_verdict e (Some (eo_para a, eo_isUpdate a)) r \<noteq> None \<and> sec_known e (eo_para a) (eo_isUpdate a)))"
proof -
  have inv: "ctx_inv enroll_key (enroll_backed, \<lambda>_ _. False) ls c"
    by (rule enroll_class.ctx_run_inv [OF assms(1) enroll_fresh assms(2)])
  have "success_backed (enroll_backed, \<lambda>_ _. False) ls (enroll_key (base_context.more c))"
    if "ResultDelivered SUCCESS attrs \<in> set (bc_outputs c)"
    using inv that unfolding ctx_inv_def results_def by auto
  then show ?thesis
    using ctx_inv_le [OF inv]
    unfolding success_backed_def enroll_backed_def enroll_class.ctx_run_id [OF assms(1)] enroll_start_key results_def
      fst_conv snd_conv option.inject prod.inject by blast
qed

text \<open>
  Also shown: everything \<^verbatim>\<open>OnResult\<close> of an enrollment does, on every branch. When the engine stored the
  credential and the secure user is known, the enrollment is announced and, for a replaced credential that is
  not a PIN, the executor is told to delete the old template. The caller gets \<^verbatim>\<open>SUCCESS\<close> exactly when besides
  that the schedule succeeded, a failing schedule's own code otherwise, and the id of the stored credential (0 if
  none was). The result is not delivered only when a secret is longer than an attribute may be.
\<close>

theorem enroll_result:
  assumes "bc_callback c" and "nc_enroll c = Some a" and "bc_latestError c \<noteq> SUCCESS"
    and "v = enroll_verdict e (Some (eo_para a, eo_isUpdate a)) r"
  shows "\<exists>k attrs. bc_outputs (Enroll_OnResult e code r c) = bc_outputs c @
      (case v of
         Some info \<Rightarrow>
           if sec_known e (eo_para a) (eo_isUpdate a)
           then CredentialEnrolled (eo_para a) info (eo_isUpdate a) (eo_scheduleId a) #
             (if eo_isUpdate a
              then delete_old_template e (Some (CredentialInfoImpl (en_userId (eo_para a)) (el_oldInfo info))) else [])
           else []
       | None \<Rightarrow> []) @
      (if (\<forall>info. v = Some info \<longrightarrow> list_all (\<lambda>b. length b \<le> MAX_ATTR_LENGTH)
             [el_rootSecret info, el_oldRootSecret info, el_authToken info])
       then [ResultDelivered k attrs] else []) \<and>
    (k = SUCCESS \<longleftrightarrow> code = SUCCESS \<and> v \<noteq> None \<and> sec_known e (eo_para a) (eo_isUpdate a)) \<and>
    (code \<noteq> SUCCESS \<longrightarrow> k = code) \<and>
    GetUint64Value ATTR_CREDENTIAL_ID attrs = Some (case v of None \<Rightarrow> 0 | Some info \<Rightarrow> el_credentialId info)"
proof -
  have key: "enroll_key (base_context.more c) = Some (eo_para a, eo_isUpdate a)" using assms(2) by simp
  obtain k where k: "k = SUCCESS \<longleftrightarrow> code = SUCCESS \<and> v \<noteq> None \<and> sec_known e (eo_para a) (eo_isUpdate a)"
    "code \<noteq> SUCCESS \<longrightarrow> k = code"
    and o: "bc_outputs (Enroll_OnResult e code r c) = bc_outputs c @ enroll_calls e a v @
      (if bc_callback c \<and> fits (verdict_update e a v)
       then [ResultDelivered k (snd (set_all (enroll_setters (verdict_update e a v)) Attributes_new))] else [])"
    using Enroll_OnResult_spec [OF assms(2), of v e r] assms(3,4) key by metis
  have f: "fits (verdict_update e a v) \<longleftrightarrow>
      (\<forall>info. v = Some info \<longrightarrow> list_all (\<lambda>b. length b \<le> MAX_ATTR_LENGTH)
         [el_rootSecret info, el_oldRootSecret info, el_authToken info])"
    by (auto simp: fits_def verdict_update_def no_update_def split: option.splits)
  have cs: "enroll_calls e a v = (case v of
         Some info \<Rightarrow>
           if sec_known e (eo_para a) (eo_isUpdate a)
           then CredentialEnrolled (eo_para a) info (eo_isUpdate a) (eo_scheduleId a) #
             (if eo_isUpdate a
              then delete_old_template e (Some (CredentialInfoImpl (en_userId (eo_para a)) (el_oldInfo info))) else [])
           else []
       | None \<Rightarrow> [])"
    by (auto simp: enroll_calls_def verdict_update_def delete_old_template_def split: option.splits)
  have "eup_credentialId (verdict_update e a v) = (case v of None \<Rightarrow> 0 | Some info \<Rightarrow> el_credentialId info)"
    by (simp add: verdict_update_def no_update_def split: option.splits)
  then show ?thesis
    using o k enroll_attributes [of "verdict_update e a v"] assms(1) unfolding f cs
    by (intro exI [of _ k] exI [of _ "snd (set_all (enroll_setters (verdict_update e a v)) Attributes_new)"]) simp
qed

section \<open>Witnesses\<close>

definition w_enroll_result :: eng_enroll_result where
  "w_enroll_result = \<lparr>el_credentialId = 8, el_oldInfo = (w_cred 7)\<lparr>ci_authType := FACE\<rparr>, el_rootSecret = [3],
     el_oldRootSecret = [], el_authToken = [4]\<rparr>"

definition w_enroll_env :: enroll_env where
  "w_enroll_env = \<lparr>nv_engine = \<lparr>ng_TOKEN_HAP = 0, ng_TOKEN_NATIVE = 1, ng_userType = (\<lambda>_. (SUCCESS, 0)),
       ng_begin = (\<lambda>_ _. (SUCCESS, w_eng_info)), ng_update = (\<lambda>_ _. (SUCCESS, w_enroll_result)), ng_cancel = (\<lambda>_. SUCCESS)\<rparr>,
     nv_users = w_user_engine, nv_pool = w_pool, nv_description = ''s'', nv_sched = w_env,
     nv_ipc = (\<lambda>_ _ _. SUCCESS), nv_uninitialised = w_para\<rparr>"

definition w_enrollment :: enrollment where
  "w_enrollment = EnrollmentImpl (w_enroll_para\<lparr>en_isUpdate := False\<rparr>)"

definition w_enroll_ctx :: enroll_context where
  "w_enroll_ctx = EnrollContext 8 (Some w_enrollment) True"

definition w_enroll_opt :: node_optional_para where
  "w_enroll_opt = w_para\<lparr>np_tokenId := Some 0\<rparr>"

definition w_enroll_started :: enroll_context where
  "w_enroll_started = w_enroll_ctx\<lparr>bc_hasStarted := True, bc_scheduleList := [Some (w_started_node w_enroll_opt)],
     bc_outputs := [StageMark S_CONTEXT_START],
     nc_enroll := Some (w_enrollment\<lparr>eo_scheduleId := 77, eo_running := True\<rparr>)\<rparr>"

definition w_enroll_last :: enroll_context where
  "w_enroll_last = w_enroll_started\<lparr>bc_scheduleList := [Some (w_ended_node w_enroll_opt SUCCESS)]\<rparr>"

lemmas w_enrollment_defs = w_enrollment_def EnrollmentImpl_def w_enroll_para_def

lemma w_enroll_start: "start_task (Enroll_OnStart w_enroll_env) w_enroll_ctx = w_enroll_started"
proof -
  have b: "BuildFromHdi ''s'' w_pool w_enroll_opt True [w_eng_info] [] =
      (True, [(w_machine 0 [] 0, w_round w_enroll_opt GENERAL_ERROR None [])])"
    by (rule w_round_build) (simp_all add: w_enroll_opt_def w_para_def)
  have "(nv_uninitialised w_enroll_env)\<lparr>np_expire := None, np_tokenId := Some 0, np_pinSubType := None,
      np_endAfterFirstFail := None, np_userId := 100, np_additionalInfo := [], np_title := [], np_authScene := 0\<rparr> =
      w_enroll_opt" by (simp add: w_enroll_env_def w_enroll_opt_def w_para_def)
  then have "Enr_StartSchedule w_enroll_env 100 w_eng_info [] True w_enrollment =
      (True, [(w_machine 0 [] 0, w_round w_enroll_opt GENERAL_ERROR None [])],
       w_enrollment\<lparr>eo_scheduleId := 77, eo_running := True\<rparr>)"
    by (simp add: Enr_StartSchedule_def w_enrollment_defs) (simp add: w_enroll_env_def b)
  then have "Enr_Start w_enroll_env [] True w_enrollment =
      (True, [(w_machine 0 [] 0, w_round w_enroll_opt GENERAL_ERROR None [])],
       w_enrollment\<lparr>eo_scheduleId := 77, eo_running := True\<rparr>)"
    by (simp add: Enr_Start_def w_enroll_env_def Let_def GetEngCallerType_def w_enrollment_defs)
  then show ?thesis
    by (simp add: start_task_def Base_Start_def Enroll_OnStart_def start_single_def SetScheduleList_def Let_def
        Base_Mark_def ctx_emit_def w_enroll_started_def w_enroll_ctx_def EnrollContext_def BaseContext_def
        base_context.defs w_start_round) (simp add: w_enroll_env_def w_start_round)
qed

lemma w_enroll_facts:
  "bc_callback w_enroll_last" "nc_enroll w_enroll_last = Some (w_enrollment\<lparr>eo_scheduleId := 77, eo_running := True\<rparr>)"
  "bc_latestError w_enroll_last \<noteq> SUCCESS" "bc_outputs w_enroll_last = [StageMark S_CONTEXT_START]"
  by (simp_all add: w_enroll_last_def w_enroll_started_def w_enroll_ctx_def EnrollContext_def BaseContext_def
      base_context.defs)

lemma w_enroll_verdict:
  "enroll_verdict w_enroll_env (Some k) (Some w_final) = Some w_enroll_result"
  by (simp add: enroll_verdict_def w_final_result w_enroll_env_def split: prod.splits)

lemma w_enroll_run:
  "\<exists>ls. ctx_run enroll_vtable w_enroll_ctx ls (Enroll_OnResult w_enroll_env SUCCESS (Some w_final) w_enroll_last) \<and>
     length (filter is_start ls) = 1"
  using w_whole_run [of enroll_vtable w_enroll_env w_enroll_ctx w_enroll_started w_enroll_opt SUCCESS] w_enroll_start
  by (simp add: enroll_vtable_def w_enroll_env_def w_enroll_last_def) (simp add: w_enroll_started_def)

theorem enroll_result_witness:
  "\<exists>attrs. bc_outputs (Enroll_OnResult w_enroll_env SUCCESS (Some w_final) w_enroll_last) =
     [StageMark S_CONTEXT_START, CredentialEnrolled (w_enroll_para\<lparr>en_isUpdate := False\<rparr>) w_enroll_result False 77,
      ResultDelivered SUCCESS attrs] \<and>
     GetUint64Value ATTR_CREDENTIAL_ID attrs = Some 8"
proof -
  have "sec_known w_enroll_env (w_enroll_para\<lparr>en_isUpdate := False\<rparr>) False"
    by (simp add: sec_known_def sec_user_def w_enroll_env_def GetSecUserInfo_def w_user_engine_def)
  then show ?thesis
    using enroll_result [OF w_enroll_facts(1-3) refl, where e = w_enroll_env and r = "Some w_final" and code = SUCCESS]
    by (auto simp: w_enroll_verdict w_enroll_facts(4) w_enrollment_def EnrollmentImpl_def)
      (simp_all add: w_enroll_result_def MAX_ATTR_LENGTH_def)
qed

theorem enroll_success_backed_witness:
  "\<exists>ls. ctx_run enroll_vtable w_enroll_ctx ls (Enroll_OnResult w_enroll_env SUCCESS (Some w_final) w_enroll_last) \<and>
     length (filter is_result (bc_outputs (Enroll_OnResult w_enroll_env SUCCESS (Some w_final) w_enroll_last))) \<le> 1"
proof -
  obtain ls where run: "ctx_run enroll_vtable w_enroll_ctx ls (Enroll_OnResult w_enroll_env SUCCESS (Some w_final) w_enroll_last)"
    and one: "length (filter is_start ls) \<le> 1" using w_enroll_run by fastforce
  show ?thesis
    using enroll_success_backed [OF run [unfolded w_enroll_ctx_def] one] run by (auto simp: w_enroll_ctx_def)
qed

end
