(* ===== verification/Delete.thy ===== *)
theory Delete
  imports Context_Witness Credential_Events
begin

text \<open>
  The deletion of a credential: \<^verbatim>\<open>services/core/src/delete_impl.cpp\<close> towards the engine and
  \<^verbatim>\<open>services/context/src/delete_context.cpp\<close> as the pooled context. The engine either deletes at once, and the
  context answers from \<^verbatim>\<open>OnStart\<close> without a schedule, or it asks for a schedule that abandons the credential.
  The engine's answers are arguments; the members of \<^verbatim>\<open>NodeOptionalPara\<close> that \<^verbatim>\<open>StartSchedule\<close> leaves
  uninitialised are arbitrary values of the surroundings. \<open>NullCallbackUsed\<close> marks the use of a null callback,
  after which the code has no defined behaviour.
\<close>

unbundle bit_operations_syntax

section \<open>Data\<close>

record eng_operate_result =
  or_operateType :: i32
  or_scheduleInfo :: eng_schedule_info
  or_credentialInfos :: "credential_info list"

abbreviation (input) CREDENTIAL_DELETE :: i32 where "CREDENTIAL_DELETE \<equiv> 1"
abbreviation (input) CREDENTIAL_ABANDON :: i32 where "CREDENTIAL_ABANDON \<equiv> 2"
abbreviation (input) PIN_UPDATE :: i32 where "PIN_UPDATE \<equiv> 3"

record delete_engine =
  dg_delete :: "i32 \<Rightarrow> u64 \<Rightarrow> bytes \<Rightarrow> i32 \<times> eng_operate_result"
  dg_updateAbandon :: "i32 \<Rightarrow> bytes \<Rightarrow> i32 \<times> credential_info list"

record deletion =
  dl_para :: delete_param
  dl_tokenId :: u32
  dl_scheduleId :: u64
  dl_latestError :: i32

record delete_context = base_context +
  dc_deletion :: "deletion option"

record delete_env =
  de_engine :: delete_engine
  de_pool :: rpool
  de_description :: string
  de_sched :: sched_env
  de_ipc :: ipc_answers
  de_uninitialised :: node_optional_para

section \<open>\<open>DeleteImpl\<close>\<close>

definition DeleteImpl :: "delete_param \<Rightarrow> deletion" where
  "DeleteImpl deletePara =
     \<lparr>dl_para = deletePara, dl_tokenId = 0, dl_scheduleId = 0, dl_latestError = GENERAL_ERROR\<rparr>"

definition Del_SetLatestError :: "i32 \<Rightarrow> deletion \<Rightarrow> deletion" where
  "Del_SetLatestError error a = (if error \<noteq> SUCCESS then a\<lparr>dl_latestError := error\<rparr> else a)"

definition Del_SetAccessTokenId :: "u32 \<Rightarrow> deletion \<Rightarrow> deletion" where
  "Del_SetAccessTokenId tokenId a = a\<lparr>dl_tokenId := tokenId\<rparr>"

definition Del_StartSchedule ::
  "delete_env \<Rightarrow> i32 \<Rightarrow> eng_schedule_info \<Rightarrow> sched_state list \<Rightarrow> bool \<Rightarrow> deletion \<Rightarrow>
   bool \<times> sched_state list \<times> deletion" where
  "Del_StartSchedule e userId info scheduleList callback a =
     (let para = (de_uninitialised e)\<lparr>np_expire := None, np_tokenId := Some (dl_tokenId a), np_pinSubType := None,
            np_endAfterFirstFail := None, np_userId := userId, np_additionalInfo := [], np_title := [],
            np_authScene := 0\<rparr>
      in case BuildFromHdi (de_description e) (de_pool e) para callback [info] scheduleList of
           (built, nodes) \<Rightarrow>
             if \<not> built then (False, nodes, a)
             else (case nodes of
                     [] \<Rightarrow> (False, nodes, a)
                   | ms # _ \<Rightarrow> (True, nodes, a\<lparr>dl_scheduleId := GetScheduleId (snd ms)\<rparr>)))"

text \<open>The executors are told on a thread of its own; the calls to the credential manager follow at once.\<close>

definition Del_DeleteCredential :: "i32 \<Rightarrow> credential_info list \<Rightarrow> deletion \<Rightarrow> bool \<times> ctx_output list" where
  "Del_DeleteCredential userId credentialInfos a =
     (let list = map (CredentialInfoImpl userId) credentialInfos
      in (True, DeleteTemplatesPosted list (map of_char ''DeleteTemplate'') #
            map (\<lambda>info. CredentialDeleted (dl_para a) (ci_credentialId info) (ci_authType info)) list))"

record delete_start =
  ds_started :: bool
  ds_scheduleList :: "sched_state list"
  ds_isStartSchedule :: bool
  ds_credentialInfos :: "credential_info list"
  ds_calls :: "ctx_output list"

definition Del_Start ::
  "delete_env \<Rightarrow> sched_state list \<Rightarrow> bool \<Rightarrow> deletion \<Rightarrow> delete_start \<times> deletion" where
  "Del_Start e scheduleList callback a =
     (let para = dl_para a
      in case dg_delete (de_engine e) (dp_userId para) (dp_credentialId para) (dp_token para) of
           (ret, hdiResult) \<Rightarrow>
             if ret \<noteq> SUCCESS
             then (\<lparr>ds_started = False, ds_scheduleList = scheduleList, ds_isStartSchedule = False,
                    ds_credentialInfos = [], ds_calls = []\<rparr>, Del_SetLatestError ret a)
             else if or_operateType hdiResult = CREDENTIAL_ABANDON
             then (case Del_StartSchedule e (dp_userId para) (or_scheduleInfo hdiResult) scheduleList callback a of
                     (started, nodes, a1) \<Rightarrow>
                       (\<lparr>ds_started = started, ds_scheduleList = nodes, ds_isStartSchedule = True,
                         ds_credentialInfos = or_credentialInfos hdiResult, ds_calls = []\<rparr>, a1))
             else if or_operateType hdiResult = CREDENTIAL_DELETE \<or> or_operateType hdiResult = PIN_UPDATE
             then (case Del_DeleteCredential (dp_userId para) (or_credentialInfos hdiResult) a of
                     (deleted, calls) \<Rightarrow>
                       (\<lparr>ds_started = deleted, ds_scheduleList = scheduleList, ds_isStartSchedule = False,
                         ds_credentialInfos = or_credentialInfos hdiResult, ds_calls = calls\<rparr>, a))
             else (\<lparr>ds_started = False, ds_scheduleList = scheduleList, ds_isStartSchedule = False,
                    ds_credentialInfos = or_credentialInfos hdiResult, ds_calls = []\<rparr>, a))"

definition Del_Update ::
  "delete_engine \<Rightarrow> bytes \<Rightarrow> deletion \<Rightarrow> bool \<times> credential_info option \<times> deletion \<times> ctx_output list" where
  "Del_Update eng scheduleResult a =
     (let para = dl_para a
      in case dg_updateAbandon eng (dp_userId para) scheduleResult of
           (result, credentialInfos) \<Rightarrow>
             if result \<noteq> SUCCESS then (False, None, Del_SetLatestError result a, [])
             else (True,
                   (case credentialInfos of [] \<Rightarrow> None | info # _ \<Rightarrow> Some (CredentialInfoImpl (dp_userId para) info)),
                   a, [CredentialDeleted para (dp_credentialId para) PIN]))"

definition Del_Cancel :: "deletion \<Rightarrow> bool" where
  "Del_Cancel a = True"

section \<open>\<open>DeleteContext\<close>\<close>

definition DeleteContext :: "u64 \<Rightarrow> deletion option \<Rightarrow> bool \<Rightarrow> delete_context" where
  "DeleteContext contextId deletion callback =
     base_context.extend (BaseContext contextId True callback) \<lparr>dc_deletion = deletion\<rparr>"

definition Delete_GetTokenId :: "delete_context \<Rightarrow> u32" where
  "Delete_GetTokenId c = (case dc_deletion c of None \<Rightarrow> 0 | Some a \<Rightarrow> dl_tokenId a)"

definition Delete_GetUserId :: "delete_context \<Rightarrow> i32" where
  "Delete_GetUserId c = (case dc_deletion c of None \<Rightarrow> INVALID_USER_ID | Some a \<Rightarrow> dp_userId (dl_para a))"

definition trace_auth_type :: "i32 \<Rightarrow> delete_context \<Rightarrow> delete_context" where
  "trace_auth_type authType c = ctx_emit (if bc_callback c then TraceAuthType authType else NullCallbackUsed) c"

definition Delete_InvokeResultCallback :: "i32 \<Rightarrow> delete_context \<Rightarrow> delete_context" where
  "Delete_InvokeResultCallback resultCode c =
     (if \<not> bc_callback c then c else ctx_emit (ResultDelivered resultCode Attributes_new) c)"

definition Delete_OnStart :: "delete_env \<Rightarrow> delete_context \<Rightarrow> bool \<times> delete_context" where
  "Delete_OnStart e c =
     (case dc_deletion c of
        None \<Rightarrow> (False, c)
      | Some a \<Rightarrow>
          (case Del_Start e [] True a of
             (st, a1) \<Rightarrow>
               let c = fold ctx_emit (ds_calls st) (c\<lparr>dc_deletion := Some a1\<rparr>)
               in if \<not> ds_started st then (False, Base_SetLatestError (dl_latestError a1) c)
                  else if \<not> ds_isStartSchedule st then
                    let c = SetScheduleList (map Some (ds_scheduleList st)) c;
                        authTypeTrace = fold (\<lambda>credInfo t. t OR ci_authType credInfo) (ds_credentialInfos st) 0
                    in (True, Delete_InvokeResultCallback SUCCESS (trace_auth_type authTypeTrace c))
                  else
                    (case start_single (de_sched e) (ds_scheduleList st) c of
                       (started, c) \<Rightarrow>
                         if \<not> started then (False, c)
                         else (True, trace_auth_type (GetAuthType (snd (hd (ds_scheduleList st)))) c))))"

definition delete_abandoned :: "delete_env \<Rightarrow> credential_info option \<Rightarrow> ctx_output list" where
  "delete_abandoned e infoToDel =
     (case infoToDel of
        None \<Rightarrow> []
      | Some info \<Rightarrow>
          [ExecutorsCalled (snd (NotifyExecutorToDeleteTemplates (de_ipc e) (de_pool e) [Some info]
             (map of_char ''DeleteForUpdate'') []))])"

definition Delete_UpdateScheduleResult ::
  "delete_env \<Rightarrow> attributes option \<Rightarrow> delete_context \<Rightarrow> bool \<times> delete_context" where
  "Delete_UpdateScheduleResult e scheduleResultAttr c =
     (case (dc_deletion c, scheduleResultAttr) of
        (Some a, Some attr) \<Rightarrow>
          (case GetUint8ArrayValue ATTR_RESULT attr of
             None \<Rightarrow> (False, c)
           | Some scheduleResult \<Rightarrow>
               (case Del_Update (de_engine e) scheduleResult a of
                  (updateRet, infoToDel, a1, calls) \<Rightarrow>
                    let c = fold ctx_emit calls (c\<lparr>dc_deletion := Some a1\<rparr>)
                    in if \<not> updateRet then (False, Base_SetLatestError (dl_latestError a1) c)
                       else (True, fold ctx_emit (delete_abandoned e infoToDel) c)))
      | _ \<Rightarrow> (False, c))"

definition Delete_OnResult ::
  "delete_env \<Rightarrow> i32 \<Rightarrow> attributes option \<Rightarrow> delete_context \<Rightarrow> delete_context" where
  "Delete_OnResult e resultCode scheduleResultAttr c =
     (case Delete_UpdateScheduleResult e scheduleResultAttr c of
        (updateRet, c) \<Rightarrow>
          let resultCode = (if \<not> updateRet \<and> resultCode = SUCCESS then bc_latestError c else resultCode)
          in Delete_InvokeResultCallback resultCode c)"

definition Delete_OnStop :: "delete_env \<Rightarrow> delete_context \<Rightarrow> bool \<times> delete_context" where
  "Delete_OnStop e c =
     (let c = stop_single c
      in case dc_deletion c of
           None \<Rightarrow> (False, c)
         | Some a \<Rightarrow>
             if \<not> Del_Cancel a then (False, Base_SetLatestError (dl_latestError a) c) else (True, c))"

definition delete_vtable :: "(delete_env, unit delete_context_ext) ctx_vtable" where
  "delete_vtable =
     \<lparr>vt_OnStart = Delete_OnStart, vt_OnStop = Delete_OnStop, vt_OnResult = Delete_OnResult,
      vt_sched = de_sched\<rparr>"

section \<open>The contract of a context, interpreted\<close>

definition delete_key :: "unit delete_context_ext \<Rightarrow> delete_param option" where
  "delete_key m = map_option dl_para (dc_deletion (base_context.extend (BaseContext 0 False False) m))"

lemma delete_key_more [simp]: "delete_key (base_context.more c) = map_option dl_para (dc_deletion c)"
  by (cases c) (simp add: delete_key_def base_context.defs)

lemma quiet_delete:
  "dc_deletion c = Some a \<Longrightarrow> dl_para a1 = dl_para a \<Longrightarrow> quiet delete_key c (c\<lparr>dc_deletion := Some a1\<rparr>)"
  by (simp add: quiet_def ctx_keeps_def results_def)

text \<open>
  The engine deleted the credential when it was asked to, or it stored that the credential is abandoned when it
  was given the executor's result.
\<close>

definition deleted_at_once :: "delete_env \<Rightarrow> delete_param \<Rightarrow> credential_info list option" where
  "deleted_at_once e para =
     (case dg_delete (de_engine e) (dp_userId para) (dp_credentialId para) (dp_token para) of
        (ret, result) \<Rightarrow>
          if ret = SUCCESS \<and> (or_operateType result = CREDENTIAL_DELETE \<or> or_operateType result = PIN_UPDATE)
          then Some (or_credentialInfos result) else None)"

definition abandon_accepted :: "delete_env \<Rightarrow> delete_param \<Rightarrow> attributes option \<Rightarrow> credential_info list option" where
  "abandon_accepted e para r =
     (case r of None \<Rightarrow> None
      | Some attr \<Rightarrow>
          (case GetUint8ArrayValue ATTR_RESULT attr of None \<Rightarrow> None
           | Some b \<Rightarrow> (case dg_updateAbandon (de_engine e) (dp_userId para) b of
                         (ret, infos) \<Rightarrow> if ret = SUCCESS then Some infos else None)))"

definition delete_backed :: "delete_env \<Rightarrow> delete_param option \<Rightarrow> i32 \<Rightarrow> attributes option \<Rightarrow> bool" where
  "delete_backed e k code r \<longleftrightarrow> code = SUCCESS \<and> (\<exists>para. k = Some para \<and> abandon_accepted e para r \<noteq> None)"

definition delete_sbacked :: "delete_env \<Rightarrow> delete_param option \<Rightarrow> bool" where
  "delete_sbacked e k \<longleftrightarrow> (\<exists>para. k = Some para \<and> deleted_at_once e para \<noteq> None)"

lemma trace_quiet [simp]:
  "quiet delete_key c (trace_auth_type t c)" "bc_scheduleList (trace_auth_type t c) = bc_scheduleList c"
  "bc_callback (trace_auth_type t c) = bc_callback c"
  by (simp_all add: trace_auth_type_def)

lemma Delete_Invoke_delivers:
  "results (Delete_InvokeResultCallback code c) = results c @
     (if bc_callback c then [ResultDelivered code Attributes_new] else [])"
  "ctx_keeps delete_key c (Delete_InvokeResultCallback code c)"
  "bc_scheduleList (Delete_InvokeResultCallback code c) = bc_scheduleList c"
  "bc_outputs (Delete_InvokeResultCallback code c) = bc_outputs c @
     (if bc_callback c then [ResultDelivered code Attributes_new] else [])"
  by (simp_all add: Delete_InvokeResultCallback_def) (simp add: ctx_emit_def)

lemma Del_StartSchedule_nodes:
  "Del_StartSchedule e userId info [] True a = (True, nodes, a') \<Longrightarrow> ms \<in> set nodes \<Longrightarrow> node_new ms \<and> dormant ms"
  using built_nodes_new by (auto simp: Del_StartSchedule_def Let_def split: prod.splits if_splits list.splits)

lemma Del_StartSchedule_keeps: "Del_StartSchedule e userId info sl cb a = (r, nodes, a') \<Longrightarrow> dl_para a' = dl_para a"
  by (auto simp: Del_StartSchedule_def Let_def split: prod.splits if_splits list.splits)

lemma Del_Start_facts:
  assumes "Del_Start e [] True a = (st, a')"
  shows "dl_para a' = dl_para a" and "list_all (\<lambda>out. \<not> is_result out) (ds_calls st)"
    and "ds_started st \<Longrightarrow> \<not> ds_isStartSchedule st \<Longrightarrow>
      ds_scheduleList st = [] \<and> deleted_at_once e (dl_para a) = Some (ds_credentialInfos st)"
    and "ds_started st \<Longrightarrow> ds_isStartSchedule st \<Longrightarrow> ms \<in> set (ds_scheduleList st) \<Longrightarrow> node_new ms \<and> dormant ms"
proof -
  show "dl_para a' = dl_para a"
    using assms Del_StartSchedule_keeps
    by (auto simp: Del_Start_def Let_def Del_SetLatestError_def split: prod.splits if_splits)
  show "list_all (\<lambda>out. \<not> is_result out) (ds_calls st)"
    using assms by (auto simp: Del_Start_def Let_def Del_DeleteCredential_def list_all_iff split: prod.splits if_splits)
  show "ds_started st \<Longrightarrow> \<not> ds_isStartSchedule st \<Longrightarrow>
      ds_scheduleList st = [] \<and> deleted_at_once e (dl_para a) = Some (ds_credentialInfos st)"
    using assms by (auto simp: Del_Start_def Let_def deleted_at_once_def split: prod.splits if_splits)
  show "ds_started st \<Longrightarrow> ds_isStartSchedule st \<Longrightarrow> ms \<in> set (ds_scheduleList st) \<Longrightarrow> node_new ms \<and> dormant ms"
  proof -
    assume st: "ds_started st" "ds_isStartSchedule st" and ms: "ms \<in> set (ds_scheduleList st)"
    have "\<exists>info. Del_StartSchedule e (dp_userId (dl_para a)) info [] True a = (True, ds_scheduleList st, a')"
      using assms st by (auto simp: Del_Start_def Let_def split: prod.splits if_splits)
    then show ?thesis using Del_StartSchedule_nodes ms by blast
  qed
qed

lemma Delete_OnStart_contract:
  assumes "Delete_OnStart e c = (r, c')"
  shows "ctx_keeps delete_key c c'"
    and "\<exists>d. results c' = results c @ d \<and> length d \<le> 1 \<and> (d \<noteq> [] \<longrightarrow> r \<and> bc_scheduleList c' = []) \<and>
        ((\<exists>x. ResultDelivered SUCCESS x \<in> set d) \<longrightarrow> delete_sbacked e (delete_key (base_context.more c)))"
    and "bc_scheduleList c = [] \<Longrightarrow>
      (\<forall>ms. Some ms \<in> set (bc_scheduleList c') \<longrightarrow> node_new ms \<and> (r \<or> dormant ms)) \<and>
      (r \<longrightarrow> length (bc_scheduleList c') \<le> 1)"
proof (atomize(full), cases "dc_deletion c")
  case None
  then show "ctx_keeps delete_key c c' \<and>
    (\<exists>d. results c' = results c @ d \<and> length d \<le> 1 \<and> (d \<noteq> [] \<longrightarrow> r \<and> bc_scheduleList c' = []) \<and>
        ((\<exists>x. ResultDelivered SUCCESS x \<in> set d) \<longrightarrow> delete_sbacked e (delete_key (base_context.more c)))) \<and>
    (bc_scheduleList c = [] \<longrightarrow>
      (\<forall>ms. Some ms \<in> set (bc_scheduleList c') \<longrightarrow> node_new ms \<and> (r \<or> dormant ms)) \<and>
      (r \<longrightarrow> length (bc_scheduleList c') \<le> 1))"
    using assms by (auto simp: Delete_OnStart_def)
next
  case (Some a)
  obtain st a1 where o: "Del_Start e [] True a = (st, a1)" by fastforce
  let ?c0 = "c\<lparr>dc_deletion := Some a1\<rparr>"
  let ?c1 = "?c0\<lparr>bc_outputs := bc_outputs ?c0 @ ds_calls st\<rparr>"
  have q: "quiet delete_key c ?c1"
    by (rule quiet_trans [OF quiet_delete [OF Some Del_Start_facts(1) [OF o]] quiet_fold_emit [OF Del_Start_facts(2) [OF o]]])
  consider (failed) "\<not> ds_started st" | (direct) "ds_started st" "\<not> ds_isStartSchedule st"
    | (sched) "ds_started st" "ds_isStartSchedule st" by blast
  then show "ctx_keeps delete_key c c' \<and>
    (\<exists>d. results c' = results c @ d \<and> length d \<le> 1 \<and> (d \<noteq> [] \<longrightarrow> r \<and> bc_scheduleList c' = []) \<and>
        ((\<exists>x. ResultDelivered SUCCESS x \<in> set d) \<longrightarrow> delete_sbacked e (delete_key (base_context.more c)))) \<and>
    (bc_scheduleList c = [] \<longrightarrow>
      (\<forall>ms. Some ms \<in> set (bc_scheduleList c') \<longrightarrow> node_new ms \<and> (r \<or> dormant ms)) \<and>
      (r \<longrightarrow> length (bc_scheduleList c') \<le> 1))"
  proof cases
    case failed
    have "quiet delete_key c (Base_SetLatestError (dl_latestError a1) ?c1)" by (rule quiet_trans [OF q]) simp
    then show ?thesis using assms failed by (auto simp: Delete_OnStart_def Some o fold_emit quiet_def)
  next
    case direct
    let ?t = "fold (\<lambda>credInfo t. t OR ci_authType credInfo) (ds_credentialInfos st) 0"
    let ?c2 = "trace_auth_type ?t (SetScheduleList [] ?c1)"
    have q2: "quiet delete_key c ?c2" by (intro quiet_trans [OF q quiet_trans [OF quiet_base(5) trace_quiet(1)]])
    have c': "r" "c' = Delete_InvokeResultCallback SUCCESS ?c2"
      using assms direct Del_Start_facts(3) [OF o direct] by (simp_all add: Delete_OnStart_def Some o fold_emit Let_def)
    have "delete_sbacked e (delete_key (base_context.more c))"
      using Del_Start_facts(3) [OF o direct] by (simp add: delete_sbacked_def Some)
    moreover have "bc_scheduleList c' = []" unfolding c' by (simp add: Delete_Invoke_delivers SetScheduleList_def)
    moreover have "ctx_keeps delete_key c c'"
      unfolding c' using q2 by (intro ctx_keeps_trans [OF _ Delete_Invoke_delivers(2)]) (simp add: quiet_def)
    moreover have "results c' = results c @ (if bc_callback ?c2 then [ResultDelivered SUCCESS Attributes_new] else [])"
      using q2 unfolding c' by (simp add: Delete_Invoke_delivers quiet_def)
    ultimately show ?thesis using c'(1) by auto
  next
    case sched
    obtain r1 c2 where s: "start_single (de_sched e) (ds_scheduleList st) ?c1 = (r1, c2)" by fastforce
    have n: "\<And>ms. ms \<in> set (ds_scheduleList st) \<Longrightarrow> node_new ms \<and> dormant ms" by (rule Del_Start_facts(4) [OF o sched])
    note f = start_single_contract(1,2) [OF s n]
    have q2: "quiet delete_key c c2" by (rule quiet_trans [OF q f(1)])
    have q3: "quiet delete_key c (trace_auth_type t c2)" for t by (rule quiet_trans [OF q2]) simp
    have "r = r1 \<and> c' = (if r1 then trace_auth_type (GetAuthType (snd (hd (ds_scheduleList st)))) c2 else c2)"
      using assms sched s by (auto simp: Delete_OnStart_def Some o fold_emit split: if_splits)
    then show ?thesis using q2 q3 f(2) by (auto simp: quiet_def)
  qed
qed

lemma Delete_OnStop_contract:
  assumes "Delete_OnStop e c = (r, c')"
  shows "quiet delete_key c c' \<and> list_all2 maybe_stopped (bc_scheduleList c) (bc_scheduleList c')"
  using assms by (auto simp: Delete_OnStop_def Del_Cancel_def Let_def split: option.splits)

definition delete_calls :: "delete_env \<Rightarrow> deletion \<Rightarrow> credential_info list option \<Rightarrow> ctx_output list" where
  "delete_calls e a v =
     (case v of
        None \<Rightarrow> []
      | Some infos \<Rightarrow>
          CredentialDeleted (dl_para a) (dp_credentialId (dl_para a)) PIN #
          delete_abandoned e
            (case infos of [] \<Rightarrow> None | info # _ \<Rightarrow> Some (CredentialInfoImpl (dp_userId (dl_para a)) info)))"

lemma delete_calls_quiet: "list_all (\<lambda>out. \<not> is_result out) (delete_calls e a v)"
  by (auto simp: delete_calls_def delete_abandoned_def split: option.splits list.splits)

lemma Delete_UpdateScheduleResult_spec:
  assumes "dc_deletion c = Some a"
  shows "\<exists>a1 err. dl_para a1 = dl_para a \<and>
    Delete_UpdateScheduleResult e r c =
      (abandon_accepted e (dl_para a) r \<noteq> None,
       Base_SetLatestError err ((c\<lparr>dc_deletion := Some a1\<rparr>)
         \<lparr>bc_outputs := bc_outputs c @ delete_calls e a (abandon_accepted e (dl_para a) r)\<rparr>))"
proof (cases "r = None \<or> GetUint8ArrayValue ATTR_RESULT (the r) = None")
  case True
  have "c = c\<lparr>dc_deletion := Some a\<rparr>" using assms by (cases c) simp
  then show ?thesis
    using True assms
    by (intro exI [of _ a] exI [of _ SUCCESS])
      (auto simp: Delete_UpdateScheduleResult_def abandon_accepted_def delete_calls_def Base_SetLatestError_def
        split: option.splits)
next
  case False
  then obtain at b where at: "r = Some at" and b: "GetUint8ArrayValue ATTR_RESULT at = Some b" by auto
  obtain ret infos where u: "dg_updateAbandon (de_engine e) (dp_userId (dl_para a)) b = (ret, infos)" by fastforce
  note defs = Delete_UpdateScheduleResult_def assms at b Del_Update_def u abandon_accepted_def delete_calls_def
    fold_emit Let_def Base_SetLatestError_def
  show ?thesis
  proof (cases "ret = SUCCESS")
    case True
    then show ?thesis by (intro exI [of _ a] exI [of _ SUCCESS]) (simp add: defs)
  next
    case False
    then show ?thesis
      by (intro exI [of _ "Del_SetLatestError ret a"] exI [of _ "dl_latestError (Del_SetLatestError ret a)"])
        (simp add: defs, simp add: Del_SetLatestError_def)
  qed
qed

lemma Delete_OnResult_spec:
  assumes "dc_deletion c = Some a" and "v = abandon_accepted e (dl_para a) r"
  shows "\<exists>k. (bc_latestError c \<noteq> SUCCESS \<longrightarrow> (k = SUCCESS \<longleftrightarrow> code = SUCCESS \<and> v \<noteq> None)) \<and> (code \<noteq> SUCCESS \<longrightarrow> k = code) \<and>
    bc_outputs (Delete_OnResult e code r c) = bc_outputs c @ delete_calls e a v @
      (if bc_callback c then [ResultDelivered k Attributes_new] else []) \<and>
    ctx_keeps delete_key c (Delete_OnResult e code r c) \<and>
    bc_scheduleList (Delete_OnResult e code r c) = bc_scheduleList c"
proof -
  obtain a1 err where a1: "dl_para a1 = dl_para a"
    and u: "Delete_UpdateScheduleResult e r c = (v \<noteq> None,
       Base_SetLatestError err ((c\<lparr>dc_deletion := Some a1\<rparr>)\<lparr>bc_outputs := bc_outputs c @ delete_calls e a v\<rparr>))"
    using Delete_UpdateScheduleResult_spec [OF assms(1)] assms(2) by blast
  let ?c0 = "c\<lparr>dc_deletion := Some a1\<rparr>"
  define c1 where "c1 = Base_SetLatestError err (?c0\<lparr>bc_outputs := bc_outputs ?c0 @ delete_calls e a v\<rparr>)"
  have "quiet delete_key ?c0 c1"
    unfolding c1_def by (rule quiet_trans [OF quiet_fold_emit [OF delete_calls_quiet [of e a v]]]) simp
  then have q: "quiet delete_key c c1" by (rule quiet_trans [OF quiet_delete [OF assms(1) a1]])
  have c1: "bc_outputs c1 = bc_outputs c @ delete_calls e a v" "bc_callback c1 = bc_callback c"
    "bc_scheduleList c1 = bc_scheduleList c" by (simp_all add: Base_SetLatestError_def c1_def)
  have err: "bc_latestError c \<noteq> SUCCESS \<Longrightarrow> bc_latestError c1 \<noteq> SUCCESS" using q by (simp add: quiet_def ctx_keeps_def)
  let ?k = "if v = None \<and> code = SUCCESS then bc_latestError c1 else code"
  have r: "Delete_OnResult e code r c = Delete_InvokeResultCallback ?k c1"
    by (simp add: Delete_OnResult_def u Let_def c1_def)
  have "ctx_keeps delete_key c (Delete_OnResult e code r c)"
    unfolding r using q by (intro ctx_keeps_trans [OF _ Delete_Invoke_delivers(2)]) (simp add: quiet_def)
  then show ?thesis
    using err c1 unfolding r by (intro exI [of _ ?k]) (simp add: Delete_Invoke_delivers)
qed

lemma Delete_OnResult_none:
  "dc_deletion c = None \<Longrightarrow> Delete_OnResult e code r c =
    Delete_InvokeResultCallback (if code = SUCCESS then bc_latestError c else code) c"
  by (simp add: Delete_OnResult_def Delete_UpdateScheduleResult_def)

lemma Delete_OnResult_contract:
  "ctx_keeps delete_key c (Delete_OnResult e code r c) \<and>
   bc_scheduleList (Delete_OnResult e code r c) = bc_scheduleList c"
proof (cases "dc_deletion c")
  case (Some a)
  then show ?thesis using Delete_OnResult_spec [OF Some refl] by blast
qed (simp add: Delete_OnResult_none Delete_Invoke_delivers)

lemma Delete_OnResult_delivers:
  assumes "bc_latestError c \<noteq> SUCCESS"
  shows "\<exists>d. results (Delete_OnResult e code r c) = results c @ d \<and> length d \<le> 1 \<and>
    ((\<exists>x. ResultDelivered SUCCESS x \<in> set d) \<longrightarrow> delete_backed e (delete_key (base_context.more c)) code r)"
proof (cases "dc_deletion c")
  case None
  then show ?thesis using assms by (auto simp: Delete_OnResult_none Delete_Invoke_delivers)
next
  case (Some a)
  obtain k where k: "k = SUCCESS \<longleftrightarrow> code = SUCCESS \<and> abandon_accepted e (dl_para a) r \<noteq> None"
    and "bc_outputs (Delete_OnResult e code r c) = bc_outputs c @ delete_calls e a (abandon_accepted e (dl_para a) r) @
      (if bc_callback c then [ResultDelivered k Attributes_new] else [])"
    using Delete_OnResult_spec [OF Some refl] assms by blast
  moreover have "filter is_result (delete_calls e a (abandon_accepted e (dl_para a) r)) = []"
    using delete_calls_quiet [of e a "abandon_accepted e (dl_para a) r"] by (simp add: list_all_iff)
  ultimately have "results (Delete_OnResult e code r c) = results c @
      (if bc_callback c then [ResultDelivered k Attributes_new] else [])" by (simp add: results_def)
  moreover have "k = SUCCESS \<Longrightarrow> delete_backed e (delete_key (base_context.more c)) code r"
    using k by (auto simp: delete_backed_def Some)
  ultimately show ?thesis by auto
qed

interpretation delete_class: context_class delete_vtable delete_key delete_backed delete_sbacked
  by unfold_locales
    (use Delete_OnStart_contract Delete_OnStop_contract Delete_OnResult_contract Delete_OnResult_delivers in
      \<open>auto simp: delete_vtable_def quiet_def simp del: delete_key_more\<close>)

section \<open>What the caller is told\<close>

lemma delete_fresh: "fresh_context (DeleteContext cid a callback)"
  by (simp add: fresh_context_def DeleteContext_def BaseContext_def base_context.defs)

lemma delete_start_key: "delete_key (base_context.more (DeleteContext cid (Some a) callback)) = Some (dl_para a)"
  by (simp add: DeleteContext_def base_context.defs delete_key_def BaseContext_def)

text \<open>
  Property C23: in a run of a deletion a caller gets at most one result, and is told \<^verbatim>\<open>SUCCESS\<close> only when the
  engine deleted the credential as the context started, or when an executor handed in its final result with the
  code \<^verbatim>\<open>SUCCESS\<close> for one of the context's schedules and the engine, given the very attributes of that result for
  this user, stored that the credential is abandoned.
\<close>

theorem delete_success_backed:
  assumes "ctx_run delete_vtable (DeleteContext cid (Some a) callback) ls c"
    and "length (filter is_start ls) \<le> 1"
  shows "length (filter is_result (bc_outputs c)) \<le> 1 \<and>
    (ResultDelivered SUCCESS attrs \<in> set (bc_outputs c) \<longrightarrow>
      (\<exists>e. CStart e \<in> set ls \<and> deleted_at_once e (dl_para a) \<noteq> None) \<or>
      (\<exists>i l e e' r. CNode i l e \<in> set ls \<and> CNode i (LContinue SUCCESS r) e' \<in> set ls \<and>
         abandon_accepted e (dl_para a) r \<noteq> None))"
proof -
  have inv: "ctx_inv delete_key (delete_backed, delete_sbacked) ls c"
    by (rule delete_class.ctx_run_inv [OF assms(1) delete_fresh assms(2)])
  have "success_backed (delete_backed, delete_sbacked) ls (delete_key (base_context.more c))"
    if "ResultDelivered SUCCESS attrs \<in> set (bc_outputs c)"
    using inv that unfolding ctx_inv_def results_def by auto
  then show ?thesis
    using ctx_inv_le [OF inv]
    unfolding success_backed_def delete_backed_def delete_sbacked_def delete_class.ctx_run_id [OF assms(1)] delete_start_key
      results_def fst_conv snd_conv option.inject by blast
qed

text \<open>
  Also shown: the start of a deletion that the engine carries out at once. The templates of all the credentials
  the engine names are handed to the task that tells the executors, each of those credentials is reported
  deleted, and the caller gets \<^verbatim>\<open>SUCCESS\<close>; no schedule is kept or started.
\<close>

theorem delete_at_once:
  assumes "bc_callback c" and "dc_deletion c = Some a" and "deleted_at_once e (dl_para a) = Some infos"
  shows "\<exists>t c'. Delete_OnStart e c = (True, c') \<and> bc_scheduleList c' = [] \<and> dc_deletion c' = Some a \<and>
    bc_outputs c' = bc_outputs c @
      DeleteTemplatesPosted (map (CredentialInfoImpl (dp_userId (dl_para a))) infos) (map of_char ''DeleteTemplate'') #
      map (\<lambda>info. CredentialDeleted (dl_para a) (ci_credentialId info) (ci_authType info)) infos @
      [TraceAuthType t, ResultDelivered SUCCESS Attributes_new]"
proof -
  obtain ret result where d: "dg_delete (de_engine e) (dp_userId (dl_para a)) (dp_credentialId (dl_para a)) (dp_token (dl_para a)) =
      (ret, result)" by fastforce
  then have "ret = SUCCESS" "or_operateType result = CREDENTIAL_DELETE \<or> or_operateType result = PIN_UPDATE"
    "infos = or_credentialInfos result" using assms(3) by (auto simp: deleted_at_once_def split: if_splits)
  then have "Del_Start e [] True a =
      (\<lparr>ds_started = True, ds_scheduleList = [], ds_isStartSchedule = False, ds_credentialInfos = infos,
        ds_calls = snd (Del_DeleteCredential (dp_userId (dl_para a)) infos a)\<rparr>, a)"
    by (auto simp: Del_Start_def d Let_def Del_DeleteCredential_def)
  then show ?thesis
    using assms(1,2)
    by (simp add: Delete_OnStart_def fold_emit Let_def Del_DeleteCredential_def CredentialInfoImpl_def comp_def
        SetScheduleList_def trace_auth_type_def Delete_InvokeResultCallback_def ctx_emit_def)
qed

section \<open>Witnesses\<close>

definition w_delete_env :: "i32 \<Rightarrow> delete_env" where
  "w_delete_env operate = \<lparr>de_engine = \<lparr>dg_delete = (\<lambda>_ _ _. (SUCCESS, \<lparr>or_operateType = operate,
         or_scheduleInfo = w_eng_info, or_credentialInfos = [w_cred 7]\<rparr>)),
       dg_updateAbandon = (\<lambda>_ _. (SUCCESS, [w_cred 7]))\<rparr>,
     de_pool = w_pool, de_description = ''s'', de_sched = w_env, de_ipc = (\<lambda>_ _ _. SUCCESS), de_uninitialised = w_para\<rparr>"

definition w_delete_ctx :: delete_context where
  "w_delete_ctx = DeleteContext 8 (Some (DeleteImpl w_delete_para)) True"

definition w_delete_opt :: node_optional_para where
  "w_delete_opt = w_para\<lparr>np_tokenId := Some 0\<rparr>"

definition w_delete_started :: delete_context where
  "w_delete_started = w_delete_ctx\<lparr>bc_hasStarted := True, bc_scheduleList := [Some (w_started_node w_delete_opt)],
     bc_outputs := [StageMark S_CONTEXT_START, TraceAuthType PIN],
     dc_deletion := Some ((DeleteImpl w_delete_para)\<lparr>dl_scheduleId := 77\<rparr>)\<rparr>"

definition w_delete_last :: delete_context where
  "w_delete_last = w_delete_started\<lparr>bc_scheduleList := [Some (w_ended_node w_delete_opt SUCCESS)]\<rparr>"

lemma w_delete_start: "start_task (Delete_OnStart (w_delete_env CREDENTIAL_ABANDON)) w_delete_ctx = w_delete_started"
proof -
  have b: "BuildFromHdi ''s'' w_pool w_delete_opt True [w_eng_info] [] =
      (True, [(w_machine 0 [] 0, w_round w_delete_opt GENERAL_ERROR None [])])"
    by (rule w_round_build) (simp_all add: w_delete_opt_def w_para_def)
  have "(de_uninitialised (w_delete_env t))\<lparr>np_expire := None, np_tokenId := Some 0, np_pinSubType := None,
      np_endAfterFirstFail := None, np_userId := 100, np_additionalInfo := [], np_title := [], np_authScene := 0\<rparr> =
      w_delete_opt" for t by (simp add: w_delete_env_def w_delete_opt_def w_para_def)
  then have "Del_StartSchedule (w_delete_env t) 100 w_eng_info [] True (DeleteImpl w_delete_para) =
      (True, [(w_machine 0 [] 0, w_round w_delete_opt GENERAL_ERROR None [])],
       (DeleteImpl w_delete_para)\<lparr>dl_scheduleId := 77\<rparr>)" for t
    by (simp add: Del_StartSchedule_def DeleteImpl_def) (simp add: w_delete_env_def b)
  then have "Del_Start (w_delete_env CREDENTIAL_ABANDON) [] True (DeleteImpl w_delete_para) =
      (\<lparr>ds_started = True, ds_scheduleList = [(w_machine 0 [] 0, w_round w_delete_opt GENERAL_ERROR None [])],
        ds_isStartSchedule = True, ds_credentialInfos = [w_cred 7], ds_calls = []\<rparr>,
       (DeleteImpl w_delete_para)\<lparr>dl_scheduleId := 77\<rparr>)"
    by (simp add: Del_Start_def w_delete_env_def Let_def DeleteImpl_def w_delete_para_def)
  then show ?thesis
    by (simp add: start_task_def Base_Start_def Delete_OnStart_def start_single_def SetScheduleList_def Let_def
        Base_Mark_def ctx_emit_def w_delete_started_def w_delete_ctx_def DeleteContext_def BaseContext_def
        base_context.defs w_start_round trace_auth_type_def) (simp add: w_delete_env_def w_start_round trace_auth_type_def ctx_emit_def)
qed

lemma w_delete_run:
  "\<exists>ls. ctx_run delete_vtable w_delete_ctx ls (Delete_OnResult (w_delete_env CREDENTIAL_ABANDON) SUCCESS (Some w_final) w_delete_last) \<and>
     length (filter is_start ls) = 1"
  using w_whole_run [of delete_vtable "w_delete_env CREDENTIAL_ABANDON" w_delete_ctx w_delete_started w_delete_opt SUCCESS] w_delete_start
  by (simp add: delete_vtable_def w_delete_env_def w_delete_last_def) (simp add: w_delete_started_def)

theorem delete_success_backed_witness:
  "\<exists>ls. ctx_run delete_vtable w_delete_ctx ls (Delete_OnResult (w_delete_env CREDENTIAL_ABANDON) SUCCESS (Some w_final) w_delete_last) \<and>
     length (filter is_result (bc_outputs (Delete_OnResult (w_delete_env CREDENTIAL_ABANDON) SUCCESS (Some w_final) w_delete_last))) \<le> 1"
proof -
  obtain ls where run: "ctx_run delete_vtable w_delete_ctx ls
      (Delete_OnResult (w_delete_env CREDENTIAL_ABANDON) SUCCESS (Some w_final) w_delete_last)"
    and one: "length (filter is_start ls) \<le> 1" using w_delete_run by fastforce
  show ?thesis
    using delete_success_backed [OF run [unfolded w_delete_ctx_def] one] run by (auto simp: w_delete_ctx_def)
qed

theorem delete_at_once_witness:
  "\<exists>t c'. Delete_OnStart (w_delete_env CREDENTIAL_DELETE) w_delete_ctx = (True, c') \<and>
     bc_outputs c' = [DeleteTemplatesPosted [(w_cred 7)\<lparr>ci_userId := 100\<rparr>] (map of_char ''DeleteTemplate''),
       CredentialDeleted w_delete_para 7 PIN, TraceAuthType t, ResultDelivered SUCCESS Attributes_new]"
proof -
  have "deleted_at_once (w_delete_env CREDENTIAL_DELETE) (dl_para (DeleteImpl w_delete_para)) = Some [w_cred 7]"
    by (simp add: deleted_at_once_def w_delete_env_def)
  moreover have "bc_callback w_delete_ctx" "dc_deletion w_delete_ctx = Some (DeleteImpl w_delete_para)"
    by (simp_all add: w_delete_ctx_def DeleteContext_def BaseContext_def base_context.defs)
  ultimately have "\<exists>t c'. Delete_OnStart (w_delete_env CREDENTIAL_DELETE) w_delete_ctx = (True, c') \<and> bc_outputs c' =
      bc_outputs w_delete_ctx @
      DeleteTemplatesPosted (map (CredentialInfoImpl (dp_userId w_delete_para)) [w_cred 7]) (map of_char ''DeleteTemplate'') #
      map (\<lambda>info. CredentialDeleted w_delete_para (ci_credentialId info) (ci_authType info)) [w_cred 7] @
      [TraceAuthType t, ResultDelivered SUCCESS Attributes_new]"
    using delete_at_once [of w_delete_ctx "DeleteImpl w_delete_para" "w_delete_env CREDENTIAL_DELETE" "[w_cred 7]"]
    by (auto simp: DeleteImpl_def)
  moreover have "bc_outputs w_delete_ctx = []" by (simp add: w_delete_ctx_def DeleteContext_def BaseContext_def base_context.defs)
  ultimately show ?thesis by (simp add: CredentialInfoImpl_def w_delete_para_def w_cred_def)
qed

text \<open>A context without a callback is started all the same, and the null callback is used.\<close>

lemma delete_uses_null_callback:
  "NullCallbackUsed \<in> set (bc_outputs (snd (Delete_OnStart (w_delete_env CREDENTIAL_DELETE)
     (DeleteContext 8 (Some (DeleteImpl w_delete_para)) False))))"
  by (simp add: Delete_OnStart_def Del_Start_def w_delete_env_def DeleteContext_def BaseContext_def base_context.defs
      Del_DeleteCredential_def Let_def fold_emit SetScheduleList_def trace_auth_type_def Delete_InvokeResultCallback_def
      ctx_emit_def)

end
