(* ===== verification/Ipc_Common.thy ===== *)
theory Ipc_Common
  imports Iam_Prelude
begin

text \<open>
  Who calls and what the caller may do: \<^verbatim>\<open>services/core/src/ipc_common.cpp\<close>, built with the account service. The
  facts about the caller that the access token service, the IPC layer, the account service and the application
  manager report are the fields of \<open>caller\<close>; the framework only combines them.
\<close>

section \<open>Data\<close>

datatype permission =
    MANAGE_USER_IDM_PERMISSION
  | USE_USER_IDM_PERMISSION
  | ACCESS_USER_AUTH_INTERNAL_PERMISSION
  | ACCESS_BIOMETRIC_PERMISSION
  | ACCESS_USER_PASSIVE_RECOGNITION_PERMISSION
  | ACCESS_AUTH_RESPOOL
  | ENFORCE_USER_IDM
  | SUPPORT_USER_AUTH
  | IS_SYSTEM_APP
  | CLEAR_REDUNDANCY_PERMISSION
  | USE_USER_ACCESS_MANAGER
  | USER_AUTH_FROM_BACKGROUND
  | ENTERPRISE_DEVICE_MGR
  | ENTERPRISE_MANAGE_SECURITY

record hap_token_info =
  ht_userID :: i32
  ht_bundleName :: bytes
  ht_appID :: bytes

record caller =
  cl_firstTokenId :: u32
  cl_callingTokenId :: u32
  cl_callingUid :: i32
  cl_fullTokenId :: u64
  cl_TOKEN_HAP :: i32
  cl_TOKEN_NATIVE :: i32
  cl_verifyAccessToken :: "u32 \<Rightarrow> string \<Rightarrow> bool"
  cl_tokenType :: "u32 \<Rightarrow> i32"
  cl_hapTokenInfo :: "u32 \<Rightarrow> hap_token_info option"
  cl_nativeProcessName :: "u32 \<Rightarrow> bytes option"
  cl_isSystemApp :: "u64 \<Rightarrow> bool"
  cl_foregroundUser :: "i32 option"
  cl_activeUsers :: "i32 list option"
  cl_allUsers :: "i32 list option"
  cl_accountType :: "i32 \<Rightarrow> i32 option"
  cl_PRIVATE :: i32
  cl_foregroundApps :: "bytes list option"
  cl_signature :: "i32 \<Rightarrow> (bytes \<times> bytes) option"
  cl_accountVerified :: "i32 \<Rightarrow> bool option"

abbreviation (input) TYPE_NOT_SUPPORT :: i32 where "TYPE_NOT_SUPPORT \<equiv> 5"
abbreviation (input) MAIN_USER_ID :: i32 where "MAIN_USER_ID \<equiv> 100"

section \<open>Identity of the caller\<close>

definition GetAccessTokenId :: "caller \<Rightarrow> u32" where
  "GetAccessTokenId stub = (if cl_firstTokenId stub = 0 then cl_callingTokenId stub else cl_firstTokenId stub)"

definition GetTokenId :: "caller \<Rightarrow> u32" where
  "GetTokenId stub = cl_callingTokenId stub"

text \<open>The code and the user id, an output parameter.\<close>

definition GetCallingUserId :: "caller \<Rightarrow> i32 \<Rightarrow> i32 \<times> i32" where
  "GetCallingUserId stub userId =
     (let tokenId = GetAccessTokenId stub
      in if cl_tokenType stub tokenId \<noteq> cl_TOKEN_HAP stub then (TYPE_NOT_SUPPORT, userId)
         else (case cl_hapTokenInfo stub tokenId of
                 None \<Rightarrow> (TYPE_NOT_SUPPORT, userId)
               | Some hapInfo \<Rightarrow>
                   if ht_userID hapInfo \<noteq> 0 then (SUCCESS, ht_userID hapInfo)
                   else (case cl_foregroundUser stub of
                           None \<Rightarrow> (TYPE_NOT_SUPPORT, userId)
                         | Some u \<Rightarrow> (SUCCESS, u))))"

definition GetActiveUserId :: "caller \<Rightarrow> i32 option \<Rightarrow> i32 \<times> i32 option" where
  "GetActiveUserId stub userId =
     (if userId \<noteq> None \<and> userId \<noteq> Some 0 then (SUCCESS, userId)
      else (case cl_activeUsers stub of
              Some (u # _) \<Rightarrow> (SUCCESS, Some u)
            | _ \<Rightarrow> (GENERAL_ERROR, userId)))"

definition GetAllUserId :: "caller \<Rightarrow> i32 list \<Rightarrow> i32 \<times> i32 list" where
  "GetAllUserId stub userIds =
     (case cl_allUsers stub of None \<Rightarrow> (GENERAL_ERROR, userIds) | Some us \<Rightarrow> (SUCCESS, userIds @ us))"

definition MapOsAccountTypeToUserType :: "i32 \<Rightarrow> i32 \<Rightarrow> i32 \<Rightarrow> i32" where
  "MapOsAccountTypeToUserType PRIVATE userId osAccountType =
     (if osAccountType = PRIVATE then 2 else if userId = MAIN_USER_ID then 0 else 1)"

definition GetUserTypeByUserId :: "caller \<Rightarrow> i32 \<Rightarrow> i32 \<Rightarrow> i32 \<times> i32" where
  "GetUserTypeByUserId stub userId userType =
     (case cl_accountType stub userId of
        None \<Rightarrow> (TYPE_NOT_SUPPORT, userType)
      | Some t \<Rightarrow> (SUCCESS, MapOsAccountTypeToUserType (cl_PRIVATE stub) userId t))"

definition CheckForegroundApplication :: "caller \<Rightarrow> bytes \<Rightarrow> bool" where
  "CheckForegroundApplication stub bundleName =
     (case cl_foregroundApps stub of None \<Rightarrow> False | Some apps \<Rightarrow> bundleName \<in> set apps)"

definition GetCallerNameByTokenId :: "caller \<Rightarrow> u32 \<Rightarrow> bytes \<Rightarrow> bool \<times> bytes \<times> i32" where
  "GetCallerNameByTokenId stub tokenId callerName =
     (let callerType = cl_tokenType stub tokenId
      in if callerType = cl_TOKEN_HAP stub then
           (case cl_hapTokenInfo stub tokenId of
              None \<Rightarrow> (False, callerName, callerType)
            | Some info \<Rightarrow> (True, ht_bundleName info, callerType))
         else if callerType = cl_TOKEN_NATIVE stub then
           (case cl_nativeProcessName stub tokenId of
              None \<Rightarrow> (False, callerName, callerType)
            | Some processName \<Rightarrow> (True, processName, callerType))
         else (False, callerName, callerType))"

definition GetCallerName :: "caller \<Rightarrow> bytes \<Rightarrow> bool \<times> bytes \<times> i32" where
  "GetCallerName stub callerName = GetCallerNameByTokenId stub (GetAccessTokenId stub) callerName"

definition GetDirectCallerType :: "caller \<Rightarrow> i32" where
  "GetDirectCallerType stub = cl_tokenType stub (GetTokenId stub)"

definition GetCallingAppID :: "caller \<Rightarrow> bool \<times> bytes \<times> bytes" where
  "GetCallingAppID stub =
     (let tokenId = GetAccessTokenId stub
      in if cl_tokenType stub tokenId \<noteq> cl_TOKEN_HAP stub then (False, [], [])
         else if cl_firstTokenId stub = 0 then
           (case cl_signature stub (cl_callingUid stub) of
              Some (appId, appIdentifier) \<Rightarrow>
                if appId = [] then (False, [], []) else (True, appId, appIdentifier)
            | None \<Rightarrow> (False, [], []))
         else (case cl_hapTokenInfo stub tokenId of
                 None \<Rightarrow> (False, [], [])
               | Some info \<Rightarrow> (True, ht_appID info, [])))"

definition IsOsAccountVerified :: "caller \<Rightarrow> i32 \<Rightarrow> bool" where
  "IsOsAccountVerified stub userId = (case cl_accountVerified stub userId of None \<Rightarrow> False | Some b \<Rightarrow> b)"

section \<open>Permissions\<close>

definition CheckDirectCaller :: "caller \<Rightarrow> string \<Rightarrow> bool" where
  "CheckDirectCaller stub perm = cl_verifyAccessToken stub (GetTokenId stub) perm"

definition CheckDirectCallerAndFirstCallerIfSet :: "caller \<Rightarrow> string \<Rightarrow> bool" where
  "CheckDirectCallerAndFirstCallerIfSet stub perm =
     (let firstTokenId = cl_firstTokenId stub; callingTokenId = GetTokenId stub
      in if (firstTokenId \<noteq> 0 \<and> \<not> cl_verifyAccessToken stub firstTokenId perm) \<or>
            \<not> cl_verifyAccessToken stub callingTokenId perm
         then False else True)"

definition CheckCallerIsSystemApp :: "caller \<Rightarrow> bool" where
  "CheckCallerIsSystemApp stub =
     (cl_isSystemApp stub (cl_fullTokenId stub) \<and> cl_tokenType stub (GetTokenId stub) = cl_TOKEN_HAP stub)"

definition GetWhiteLists :: "permission \<Rightarrow> (i32 \<times> bytes) list" where
  "GetWhiteLists perm = (if perm = ENFORCE_USER_IDM then [(3058, map of_char ''accountmgr'')] else [])"

definition CheckNativeCallingProcessWhiteList :: "caller \<Rightarrow> permission \<Rightarrow> bool" where
  "CheckNativeCallingProcessWhiteList stub perm =
     (let tokenId = GetTokenId stub
      in if cl_tokenType stub tokenId \<noteq> cl_TOKEN_NATIVE stub then False
         else (case cl_nativeProcessName stub tokenId of
                 None \<Rightarrow> False
               | Some processName \<Rightarrow>
                   list_ex (\<lambda>(uid, name). uid = cl_callingUid stub \<and> name = processName) (GetWhiteLists perm)))"

fun CheckPermission :: "caller \<Rightarrow> permission \<Rightarrow> bool" where
  "CheckPermission stub MANAGE_USER_IDM_PERMISSION =
     CheckDirectCallerAndFirstCallerIfSet stub ''ohos.permission.MANAGE_USER_IDM''"
| "CheckPermission stub USE_USER_IDM_PERMISSION =
     CheckDirectCallerAndFirstCallerIfSet stub ''ohos.permission.USE_USER_IDM''"
| "CheckPermission stub ACCESS_USER_AUTH_INTERNAL_PERMISSION =
     CheckDirectCallerAndFirstCallerIfSet stub ''ohos.permission.ACCESS_USER_AUTH_INTERNAL''"
| "CheckPermission stub ACCESS_BIOMETRIC_PERMISSION =
     CheckDirectCallerAndFirstCallerIfSet stub ''ohos.permission.ACCESS_BIOMETRIC''"
| "CheckPermission stub ACCESS_USER_PASSIVE_RECOGNITION_PERMISSION =
     CheckDirectCallerAndFirstCallerIfSet stub ''ohos.permission.ACCESS_USER_PASSIVE_RECOGNITION''"
| "CheckPermission stub ACCESS_AUTH_RESPOOL = CheckDirectCaller stub ''ohos.permission.ACCESS_AUTH_RESPOOL''"
| "CheckPermission stub ENFORCE_USER_IDM =
     (CheckDirectCaller stub ''ohos.permission.ENFORCE_USER_IDM'' \<and>
      CheckNativeCallingProcessWhiteList stub ENFORCE_USER_IDM)"
| "CheckPermission stub SUPPORT_USER_AUTH =
     CheckDirectCallerAndFirstCallerIfSet stub ''ohos.permission.SUPPORT_USER_AUTH''"
| "CheckPermission stub IS_SYSTEM_APP = CheckCallerIsSystemApp stub"
| "CheckPermission stub CLEAR_REDUNDANCY_PERMISSION = CheckDirectCaller stub ''ohos.permission.ENFORCE_USER_IDM''"
| "CheckPermission stub USE_USER_ACCESS_MANAGER =
     CheckDirectCaller stub ''ohos.permission.USE_USER_ACCESS_MANAGER''"
| "CheckPermission stub USER_AUTH_FROM_BACKGROUND =
     CheckDirectCallerAndFirstCallerIfSet stub ''ohos.permission.USER_AUTH_FROM_BACKGROUND''"
| "CheckPermission stub ENTERPRISE_DEVICE_MGR = CheckDirectCaller stub ''ohos.permission.MANAGE_EDM_POLICY''"
| "CheckPermission stub ENTERPRISE_MANAGE_SECURITY =
     CheckDirectCaller stub ''ohos.permission.ENTERPRISE_MANAGE_SECURITY''"

text \<open>
  The token that a request is attributed to holds the permission whenever the check that looks at the first caller
  passes; only the account manager itself passes the check for enforced deletions.
\<close>

lemma checked_for_the_attributed_token:
  "CheckDirectCallerAndFirstCallerIfSet stub perm \<Longrightarrow> cl_verifyAccessToken stub (GetAccessTokenId stub) perm"
  by (auto simp: CheckDirectCallerAndFirstCallerIfSet_def GetAccessTokenId_def GetTokenId_def Let_def split: if_splits)

lemma enforce_is_account_manager:
  "CheckPermission stub ENFORCE_USER_IDM \<longleftrightarrow>
     cl_verifyAccessToken stub (cl_callingTokenId stub) ''ohos.permission.ENFORCE_USER_IDM'' \<and>
     cl_callingUid stub = 3058 \<and> cl_tokenType stub (cl_callingTokenId stub) = cl_TOKEN_NATIVE stub \<and>
     cl_nativeProcessName stub (cl_callingTokenId stub) = Some (map of_char ''accountmgr'')"
  by (auto simp: CheckDirectCaller_def CheckNativeCallingProcessWhiteList_def GetWhiteLists_def GetTokenId_def Let_def
      split: option.splits)

end
