(* ===== verification/Context_Factory.thy ===== *)
theory Context_Factory
  imports Simple_Auth Identify Enroll Delete Context_Pool
begin

text \<open>
  The contexts as the services create them, \<^verbatim>\<open>services/context/src/context_factory.cpp\<close>. The id comes from
  \<^verbatim>\<open>ContextPool::GetNewContextId\<close> and is an argument, as is whether the callback is there. Of the factory the four
  contexts of the framework's own device are modelled.
\<close>

record identification_para =
  ip_authType :: i32
  ip_tokenId :: u32
  ip_challenge :: bytes

definition CreateSimpleAuthContext ::
  "u64 \<Rightarrow> auth_para \<Rightarrow> bool \<Rightarrow> bool \<Rightarrow> simple_auth_context option" where
  "CreateSimpleAuthContext newContextId para isPrimaryContext callback =
     (if \<not> callback then None
      else
        let auth = AuthenticationImpl newContextId para;
            auth = Auth_SetChallenge (ap_challenge para) auth;
            auth = Auth_SetAccessTokenId (ap_tokenId para) auth;
            auth = Auth_SetEndAfterFirstFail (ap_endAfterFirstFail para) auth
        in Some (SimpleAuthContext newContextId (Some auth) isPrimaryContext callback))"

definition CreateIdentifyContext :: "u64 \<Rightarrow> identification_para \<Rightarrow> bool \<Rightarrow> identify_context option" where
  "CreateIdentifyContext newContextId para callback =
     (if \<not> callback then None
      else
        let identify = IdentificationImpl newContextId (ip_authType para);
            identify = Ident_SetChallenge (ip_challenge para) identify;
            identify = Ident_SetAccessTokenId (ip_tokenId para) identify
        in Some (IdentifyContext newContextId (Some identify) callback))"

definition CreateEnrollContext :: "u64 \<Rightarrow> enrollment_para \<Rightarrow> bool \<Rightarrow> enroll_context option" where
  "CreateEnrollContext newContextId para callback =
     (if \<not> callback then None
      else
        let enroll = EnrollmentImpl para;
            enroll = Enr_SetAuthToken (en_token para) enroll;
            enroll = Enr_SetAccessTokenId (en_tokenId para) enroll;
            enroll = Enr_SetPinSubType (en_pinType para) enroll;
            enroll = Enr_SetIsUpdate (en_isUpdate para) enroll
        in Some (EnrollContext newContextId (Some enroll) callback))"

definition CreateDeleteContext :: "u64 \<Rightarrow> delete_param \<Rightarrow> bool \<Rightarrow> delete_context option" where
  "CreateDeleteContext newContextId para callback =
     (if \<not> callback then None
      else
        let deleteImpl = Del_SetAccessTokenId (dp_tokenId para) (DeleteImpl para)
        in Some (DeleteContext newContextId (Some deleteImpl) callback))"

text \<open>
  What the pool reads of an enroll and of a delete context through the virtual functions of \<^verbatim>\<open>Context\<close>; those that
  the two classes do not override answer with the defaults of \<^verbatim>\<open>BaseContext\<close> and \<^verbatim>\<open>Context\<close>.
\<close>

definition enroll_view :: "int \<Rightarrow> enroll_context \<Rightarrow> auth_context" where
  "enroll_view createTime c = \<lparr>cx_contextId = bc_contextId c, cx_createTime = createTime,
     cx_contextType = CONTEXT_ENROLL, cx_primary = bc_isPrimaryContext c, cx_callerName = [],
     cx_authType = INVALID_AUTH_TYPE, cx_userId = Enroll_GetUserId c, cx_tokenId = Enroll_GetTokenId c,
     cx_authIntent = 0, cx_authTypeList = [INVALID_AUTH_TYPE]\<rparr>"

definition delete_view :: "int \<Rightarrow> delete_context \<Rightarrow> auth_context" where
  "delete_view createTime c = \<lparr>cx_contextId = bc_contextId c, cx_createTime = createTime,
     cx_contextType = CONTEXT_DELETE, cx_primary = bc_isPrimaryContext c, cx_callerName = [],
     cx_authType = INVALID_AUTH_TYPE, cx_userId = Delete_GetUserId c, cx_tokenId = Delete_GetTokenId c,
     cx_authIntent = 0, cx_authTypeList = [INVALID_AUTH_TYPE]\<rparr>"

text \<open>
  The request of a created context is the one it was created for, and the token that the pool attributes the
  context to is the token of the request.
\<close>

lemma created_enroll:
  "CreateEnrollContext i para True = Some c \<Longrightarrow>
     enroll_key (base_context.more c) = Some (para, en_isUpdate para) \<and> Enroll_GetTokenId c = en_tokenId para \<and>
     Enroll_GetUserId c = en_userId para \<and> bc_contextId c = i \<and> fresh_context c"
  using enroll_fresh
  by (auto simp: CreateEnrollContext_def Let_def EnrollContext_def BaseContext_def base_context.defs EnrollmentImpl_def
      Enr_SetAuthToken_def Enr_SetAccessTokenId_def Enr_SetPinSubType_def Enr_SetIsUpdate_def Enroll_GetTokenId_def
      Enroll_GetUserId_def enroll_key_def fresh_context_def)

lemma created_delete:
  "CreateDeleteContext i para True = Some c \<Longrightarrow>
     delete_key (base_context.more c) = Some para \<and> Delete_GetTokenId c = dp_tokenId para \<and>
     Delete_GetUserId c = dp_userId para \<and> bc_contextId c = i \<and> fresh_context c"
  by (auto simp: CreateDeleteContext_def Let_def DeleteContext_def BaseContext_def base_context.defs DeleteImpl_def
      Del_SetAccessTokenId_def Delete_GetTokenId_def Delete_GetUserId_def delete_key_def fresh_context_def)

end
