(* ===== verification/Timing_Tracer.thy ===== *)
theory Timing_Tracer
  imports Iam_Prelude
begin

text \<open>
  The stopwatch of a request, \<^verbatim>\<open>frameworks/native/common/dfx/src/timing_tracer.cpp\<close>: it marks the stages that a
  request passes, adds up the time that it waited for somebody else in a saturating 32-bit counter, and reports the
  total time and what remains of it without the waits. The clock is an argument of every operation.
\<close>

section \<open>Data and operations\<close>

record point =
  pt_id :: u32
  pt_absMs :: u64

record timing_tracer =
  tt_points :: "point list"
  tt_startMs :: "u64 option"
  tt_endMs :: "u64 option"
  tt_waitMs :: u32
  tt_inWait :: bool
  tt_waitEnterMs :: u64

abbreviation (input) S_ON_TIP_AUTH_SUCC :: u32 where "S_ON_TIP_AUTH_SUCC \<equiv> 101"
abbreviation (input) UINT32_MAX :: nat where "UINT32_MAX \<equiv> 4294967295"

definition TimingTracer :: timing_tracer where
  "TimingTracer = \<lparr>tt_points = [], tt_startMs = None, tt_endMs = None, tt_waitMs = 0, tt_inWait = False,
     tt_waitEnterMs = 0\<rparr>"

definition Tracer_Start :: "u64 \<Rightarrow> timing_tracer \<Rightarrow> timing_tracer" where
  "Tracer_Start now s = s\<lparr>tt_startMs := Some now, tt_endMs := None, tt_points := [], tt_waitMs := 0,
     tt_inWait := False, tt_waitEnterMs := 0\<rparr>"

definition SafeSubToU32 :: "u64 \<Rightarrow> u64 \<Rightarrow> u32" where
  "SafeSubToU32 finish start =
     (if finish < start then 0
      else let diff = finish - start in if diff > 4294967295 then 4294967295 else ucast diff)"

definition CloseWaitIfNeeded :: "u64 \<Rightarrow> timing_tracer \<Rightarrow> timing_tracer" where
  "CloseWaitIfNeeded now s =
     (if tt_inWait s then
        let delta = SafeSubToU32 now (tt_waitEnterMs s)
        in s\<lparr>tt_waitMs := (if tt_waitMs s \<le> 4294967295 - delta then tt_waitMs s + delta else 4294967295),
             tt_inWait := False\<rparr>
      else s)"

definition Tracer_Mark :: "u32 \<Rightarrow> u64 \<Rightarrow> timing_tracer \<Rightarrow> timing_tracer" where
  "Tracer_Mark i now s =
     (if tt_startMs s = None then s
      else let s = CloseWaitIfNeeded now s in s\<lparr>tt_points := tt_points s @ [\<lparr>pt_id = i, pt_absMs = now\<rparr>]\<rparr>)"

definition Tracer_EnterWait :: "u32 \<Rightarrow> u64 \<Rightarrow> timing_tracer \<Rightarrow> timing_tracer" where
  "Tracer_EnterWait i now s =
     (if tt_startMs s = None then s
      else let s = CloseWaitIfNeeded now s
           in s\<lparr>tt_inWait := True, tt_waitEnterMs := now, tt_points := tt_points s @ [\<lparr>pt_id = i, pt_absMs = now\<rparr>]\<rparr>)"

definition Tracer_ExitWait :: "u32 \<Rightarrow> u64 \<Rightarrow> timing_tracer \<Rightarrow> timing_tracer" where
  "Tracer_ExitWait i now s =
     (if tt_startMs s = None then s
      else let s = CloseWaitIfNeeded now s in s\<lparr>tt_points := tt_points s @ [\<lparr>pt_id = i, pt_absMs = now\<rparr>]\<rparr>)"

definition Tracer_Finish :: "u64 \<Rightarrow> timing_tracer \<Rightarrow> timing_tracer" where
  "Tracer_Finish now s =
     (if tt_startMs s = None then s
      else (CloseWaitIfNeeded now s)\<lparr>tt_endMs := Some now\<rparr>)"

definition TotalMs :: "timing_tracer \<Rightarrow> u32" where
  "TotalMs s =
     (case (tt_startMs s, tt_endMs s) of
        (Some startMs, Some endMs) \<Rightarrow> if endMs < startMs then 0 else SafeSubToU32 endMs startMs
      | _ \<Rightarrow> 0)"

definition LocalMs :: "timing_tracer \<Rightarrow> u32" where
  "LocalMs s = (let total = TotalMs s in if total \<ge> tt_waitMs s then total - tt_waitMs s else 0)"

definition AuthTipMs :: "timing_tracer \<Rightarrow> u32" where
  "AuthTipMs s =
     (case tt_startMs s of
        None \<Rightarrow> 0
      | Some startMs \<Rightarrow>
          (case List.find (\<lambda>p. pt_id p = S_ON_TIP_AUTH_SUCC) (tt_points s) of
             None \<Rightarrow> 0
           | Some p \<Rightarrow> SafeSubToU32 (pt_absMs p) startMs))"

fun decimal :: "nat \<Rightarrow> string" where
  "decimal n = (if n < 10 then [''0123456789'' ! n] else decimal (n div 10) @ [''0123456789'' ! (n mod 10)])"

declare decimal.simps [simp del]

fun join_commas :: "string list \<Rightarrow> string" where
  "join_commas [] = []"
| "join_commas [x] = x"
| "join_commas (x # y # xs) = x @ '','' @ join_commas (y # xs)"

definition ExportTrace :: "timing_tracer \<Rightarrow> string" where
  "ExportTrace s =
     (case tt_startMs s of
        None \<Rightarrow> []
      | Some startMs \<Rightarrow>
          if tt_points s = [] then []
          else join_commas (map (\<lambda>p. decimal (unat (pt_id p)) @ '':'' @
                 decimal (unat (if pt_absMs p \<ge> startMs then pt_absMs p - startMs else 0))) (tt_points s)))"

section \<open>Runs\<close>

datatype tracer_op = OpMark u32 | OpEnterWait u32 | OpExitWait u32 | OpFinish

fun tracer_do :: "tracer_op \<times> u64 \<Rightarrow> timing_tracer \<Rightarrow> timing_tracer" where
  "tracer_do (OpMark i, now) s = Tracer_Mark i now s"
| "tracer_do (OpEnterWait i, now) s = Tracer_EnterWait i now s"
| "tracer_do (OpExitWait i, now) s = Tracer_ExitWait i now s"
| "tracer_do (OpFinish, now) s = Tracer_Finish now s"

fun is_wait :: "tracer_op \<Rightarrow> bool" where
  "is_wait (OpEnterWait i) = True"
| "is_wait _ = False"

text \<open>The reference: the time between every entered wait and whatever was done next, in unbounded numbers.\<close>

fun waited :: "(tracer_op \<times> u64) list \<Rightarrow> nat" where
  "waited ((d, t) # (d', t') # es) = (if is_wait d then unat t' - unat t else 0) + waited ((d', t') # es)"
| "waited _ = 0"

section \<open>The counter counts\<close>

lemma SafeSubToU32_min:
  "unat (SafeSubToU32 e s) = min UINT32_MAX (unat e - unat s)"
proof (cases "e < s")
  case True
  then show ?thesis by (simp add: SafeSubToU32_def word_less_nat_alt)
next
  case False
  then have d: "unat (e - s) = unat e - unat s" by (simp add: word_le_nat_alt unat_sub not_less)
  show ?thesis
  proof (cases "e - s > 4294967295")
    case True
    then have "unat e - unat s > 4294967295" using d by (simp add: word_less_nat_alt)
    then show ?thesis using False True by (simp add: SafeSubToU32_def Let_def)
  next
    case small: False
    then have le: "unat e - unat s \<le> 4294967295" using d by (simp add: word_less_nat_alt not_less)
    have "unat (ucast (e - s) :: u32) = unat (e - s) mod 2 ^ 32" by (simp add: unsigned_ucast_eq take_bit_eq_mod)
    then show ?thesis using False small d le by (simp add: SafeSubToU32_def Let_def)
  qed
qed

lemma u32_max: "unat (w :: u32) \<le> UINT32_MAX"
proof -
  have "unat w < 2 ^ LENGTH(32)" by (rule unsigned_less)
  then show ?thesis by simp
qed

definition pending :: "timing_tracer \<Rightarrow> u64 \<Rightarrow> nat" where
  "pending s t = (if tt_inWait s then unat t - unat (tt_waitEnterMs s) else 0)"

lemma CloseWait_waitMs:
  "unat (tt_waitMs (CloseWaitIfNeeded t s)) = min UINT32_MAX (unat (tt_waitMs s) + pending s t)"
proof (cases "tt_inWait s")
  case False
  then show ?thesis using u32_max [of "tt_waitMs s"] by (simp add: CloseWaitIfNeeded_def pending_def)
next
  case True
  let ?d = "SafeSubToU32 t (tt_waitEnterMs s)"
  note w = u32_max [of "tt_waitMs s"]
  have d: "unat ?d \<le> 4294967295" by (simp add: SafeSubToU32_min)
  have room: "unat (4294967295 - ?d :: u32) = 4294967295 - unat ?d"
    using d by (subst unat_sub) (simp_all add: word_le_nat_alt)
  show ?thesis
  proof (cases "tt_waitMs s \<le> 4294967295 - ?d")
    case le: True
    then have "unat (tt_waitMs s) + unat ?d \<le> 4294967295" using room d by (simp add: word_le_nat_alt)
    then have "unat (tt_waitMs s + ?d) = unat (tt_waitMs s) + unat ?d"
      by (intro unat_add_lem [THEN iffD1]) simp
    then show ?thesis using True le \<open>unat (tt_waitMs s) + unat ?d \<le> 4294967295\<close>
      by (simp add: CloseWaitIfNeeded_def pending_def Let_def SafeSubToU32_min)
  next
    case gt: False
    then have "unat (tt_waitMs s) + unat ?d > 4294967295" using room d w by (simp add: word_le_nat_alt)
    then show ?thesis using True gt w
      by (simp add: CloseWaitIfNeeded_def pending_def Let_def SafeSubToU32_min min_def split: if_splits)
  qed
qed

lemma CloseWait_simps [simp]:
  "tt_startMs (CloseWaitIfNeeded t s) = tt_startMs s" "tt_endMs (CloseWaitIfNeeded t s) = tt_endMs s"
  "tt_inWait (CloseWaitIfNeeded t s) = False" "tt_points (CloseWaitIfNeeded t s) = tt_points s"
  by (simp_all add: CloseWaitIfNeeded_def Let_def)

lemmas tracer_defs = Tracer_Mark_def Tracer_EnterWait_def Tracer_ExitWait_def Tracer_Finish_def

lemma tracer_do_facts:
  assumes "tt_startMs s \<noteq> None"
  shows "tt_startMs (tracer_do (d, t) s) = tt_startMs s"
    and "unat (tt_waitMs (tracer_do (d, t) s)) = min UINT32_MAX (unat (tt_waitMs s) + pending s t)"
    and "pending (tracer_do (d, t) s) t' = (if is_wait d then unat t' - unat t else 0)"
  using assms by (cases d; auto simp: tracer_defs CloseWait_waitMs pending_def Let_def)+

lemma tracer_waits:
  "tt_startMs s \<noteq> None \<Longrightarrow> es \<noteq> [] \<Longrightarrow>
     unat (tt_waitMs (fold tracer_do es s)) =
       min UINT32_MAX (unat (tt_waitMs s) + pending s (snd (hd es)) + waited es)"
proof (induction es arbitrary: s)
  case Nil
  then show ?case by simp
next
  case (Cons ev es)
  obtain d t where ev: "ev = (d, t)" by (cases ev)
  show ?case
  proof (cases es)
    case Nil
    then show ?thesis using tracer_do_facts(2) [OF Cons.prems(1)] ev by simp
  next
    case (Cons ev' es')
    obtain d' t' where ev': "ev' = (d', t')" by (cases ev')
    have ne: "tt_startMs (tracer_do (d, t) s) \<noteq> None" using tracer_do_facts(1) Cons.prems(1) by simp
    show ?thesis
      using Cons.IH [OF ne] tracer_do_facts(2,3) [OF Cons.prems(1)] ev ev' Cons
      by (simp add: min_def)
  qed
qed

lemma tracer_start [simp]:
  "tt_startMs (fold tracer_do es s) = tt_startMs s"
proof (induction es arbitrary: s)
  case Nil
  then show ?case by simp
next
  case (Cons e es)
  obtain d t where e: "e = (d, t)" by (cases e)
  have "tt_startMs (tracer_do (d, t) s) = tt_startMs s" by (cases d) (simp_all add: tracer_defs Let_def)
  then show ?case using Cons.IH [of "tracer_do (d, t) s"] e by simp
qed

lemma waited_le:
  "sorted (map (\<lambda>e. unat (snd e)) (e # es)) \<Longrightarrow>
     waited (e # es) \<le> unat (snd (last (e # es))) - unat (snd e)"
proof (induction es arbitrary: e)
  case Nil
  obtain d t where "e = (d, t)" by (cases e)
  then show ?case by simp
next
  case (Cons e' es)
  obtain d t d' t' where e: "e = (d, t)" "e' = (d', t')" by (cases e, cases e')
  have "waited (e' # es) \<le> unat (snd (last (e' # es))) - unat t'" using Cons.IH [of e'] Cons.prems e by simp
  moreover have "unat t \<le> unat t'" using Cons.prems e by simp
  moreover have "unat t' \<le> unat (snd (last (e' # es)))" using Cons.prems e by (cases es) auto
  ultimately show ?case unfolding e by (cases "es = []") auto
qed

lemma waited_within:
  assumes "sorted (map unat (t0 # map snd es @ [t]))"
  shows "waited (es @ [(d, t)]) \<le> unat t - unat t0"
proof -
  obtain e0 es0 where es: "es @ [(d, t)] = e0 # es0" by (cases es) auto
  have "sorted (map unat (t0 # map snd (es @ [(d, t)])))" using assms by simp
  then have s: "sorted (map (\<lambda>e. unat (snd e)) (e0 # es0))" and le: "unat t0 \<le> unat (snd e0)"
    unfolding es by (simp_all add: comp_def)
  have "snd (last (e0 # es0)) = t" unfolding es [symmetric] by simp
  then show ?thesis using waited_le [OF s] le es by simp
qed

text \<open>
  Also shown: A request that was started and finished reports as its local time exactly the total time less the time
  that it spent waiting, whatever stages it marked, for every clock that does not run backwards and total times that
  fit 32 bits.
\<close>

theorem local_time_excludes_waits:
  assumes "sorted (map unat (t0 # map snd es @ [t]))" "unat t - unat t0 \<le> UINT32_MAX"
  shows "unat (LocalMs (fold tracer_do (es @ [(OpFinish, t)]) (Tracer_Start t0 s))) =
           unat t - unat t0 - waited (es @ [(OpFinish, t)])"
proof -
  let ?init = "Tracer_Start t0 s" and ?es = "es @ [(OpFinish, t)]"
  let ?s = "fold tracer_do ?es ?init"
  note within = waited_within [OF assms(1), of OpFinish]
  have start: "tt_startMs (Tracer_Start t0 s) = Some t0" and fresh: "tt_waitMs ?init = 0" "tt_inWait ?init = False"
    by (simp_all add: Tracer_Start_def)
  have wait: "unat (tt_waitMs ?s) = waited ?es"
    using tracer_waits [of ?init ?es] start fresh assms(2) within by (simp add: pending_def del: fold_append)
  have "tt_startMs ?s = Some t0" using start by (simp del: fold_append)
  moreover have "tt_endMs ?s = Some t" using start by (simp add: Tracer_Finish_def)
  moreover have "\<not> t < t0" using assms(1) by (simp add: word_less_nat_alt)
  ultimately have "unat (TotalMs ?s) = unat t - unat t0"
    using assms(2) by (simp add: TotalMs_def SafeSubToU32_min)
  then show ?thesis using wait within
    by (simp add: LocalMs_def Let_def word_le_nat_alt unat_sub)
qed

lemma local_time_excludes_waits_witness:
  "unat (LocalMs (fold tracer_do ([(OpEnterWait 5, 10), (OpMark 6, 30)] @ [(OpFinish, 100)])
     (Tracer_Start 0 TimingTracer))) = 80"
  using local_time_excludes_waits [of 0 "[(OpEnterWait 5, 10), (OpMark 6, 30)]" 100 TimingTracer] by simp

end
