(* ===== verification/Context_Callback.thy ===== *)
theory Context_Callback
  imports Attributes Timing_Tracer
begin

text \<open>
  The callback of a request, \<^verbatim>\<open>services/context/src/context_callback_impl.cpp\<close>: it passes tips and the result on
  to the client, collects what the trace of the request needs, announces successful authentications, and removes the
  context from the pool when the result is out. The client, the trace notifiers, the listeners and the cleaner are
  reached through \<open>cb_outputs\<close>, in the order of the calls; the clock is a field of \<open>callback_env\<close>, as is the JSON
  parser, applied to the bytes of a tip: \<open>None\<close> for text that is not JSON or is null, else the two members as far as
  they are numbers.
\<close>

section \<open>Data\<close>

record meta_data =
  md_operationType :: u32
  md_operationResult :: i32
  md_userId :: "i32 option"
  md_remainTime :: "i32 option"
  md_freezingTime :: "i32 option"
  md_sdkVersion :: "i32 option"
  md_requestContextId :: "u64 option"
  md_authContextId :: "u64 option"
  md_atl :: "u32 option"
  md_authType :: "i32 option"
  md_authWidgetType :: "u32 option"
  md_callerName :: "bytes option"
  md_callerType :: "i32 option"
  md_startTime :: int
  md_endTime :: "int option"
  md_reuseUnlockResultMode :: "u32 option"
  md_reuseUnlockResultDuration :: "u64 option"
  md_isRemoteAuth :: "bool option"
  md_remoteUdid :: "bytes option"
  md_localUdid :: "bytes option"
  md_connectionName :: "bytes option"
  md_authFinishReason :: "string option"
  md_isBackgroundApplication :: "bool option"
  md_isWidgetAuth :: "bool option"
  md_totalTime :: "u32 option"
  md_localTime :: "u32 option"
  md_authSuccTipTime :: "u32 option"
  md_extraInfo :: "string option"

record auth_success_event =
  as_callerName :: bytes
  as_callerType :: i32
  as_isWidgetAuth :: bool

datatype callback_output =
    ClientResult i32 bytes
  | ClientAcquireInfo i32 i32 bytes
  | NotifierCalled nat meta_data bool
  | AuthSuccessEvent i32 i32 auth_success_event
  | CleanerCalled u64

record context_callback =
  cb_iamCallback :: bool
  cb_cleaner :: "u64 option"
  cb_metaData :: meta_data
  cb_tracer :: timing_tracer
  cb_outputs :: "callback_output list"

record callback_env =
  ce_timePoint :: int
  ce_now :: u64
  ce_later :: u64
  ce_notifiers :: "nat option list"
  ce_tip :: "bytes \<Rightarrow> (i32 option \<times> i32 option) option"

abbreviation (input) TRACE_ADD_CREDENTIAL :: u32 where "TRACE_ADD_CREDENTIAL \<equiv> 0"
abbreviation (input) TRACE_DELETE_CREDENTIAL :: u32 where "TRACE_DELETE_CREDENTIAL \<equiv> 1"
abbreviation (input) TRACE_DELETE_USER :: u32 where "TRACE_DELETE_USER \<equiv> 2"
abbreviation (input) TRACE_ENFORCE_DELETE_USER :: u32 where "TRACE_ENFORCE_DELETE_USER \<equiv> 3"
abbreviation (input) TRACE_UPDATE_CREDENTIAL :: u32 where "TRACE_UPDATE_CREDENTIAL \<equiv> 4"
abbreviation (input) TRACE_AUTH_USER_BEHAVIOR :: u32 where "TRACE_AUTH_USER_BEHAVIOR \<equiv> 5"
abbreviation (input) TRACE_IDENTIFY :: u32 where "TRACE_IDENTIFY \<equiv> 6"
abbreviation (input) TRACE_DELETE_REDUNDANCY :: u32 where "TRACE_DELETE_REDUNDANCY \<equiv> 7"
abbreviation (input) TRACE_AUTH_USER_SECURITY :: u32 where "TRACE_AUTH_USER_SECURITY \<equiv> 8"
abbreviation (input) TRACE_AUTH_USER_ALL :: u32 where "TRACE_AUTH_USER_ALL \<equiv> 9"
abbreviation (input) USER_AUTH_TIP_AUTH_SUCC :: i32 where "USER_AUTH_TIP_AUTH_SUCC \<equiv> 9998"
abbreviation (input) USER_AUTH_TIP_SINGLE_AUTH_RESULT :: i32 where "USER_AUTH_TIP_SINGLE_AUTH_RESULT \<equiv> 9999"
abbreviation (input) S_ON_RESULT :: u32 where "S_ON_RESULT \<equiv> 7"

definition cb_emit :: "callback_output list \<Rightarrow> context_callback \<Rightarrow> context_callback" where
  "cb_emit ys s = s\<lparr>cb_outputs := cb_outputs s @ ys\<rparr>"

definition ContextCallbackImpl :: "callback_env \<Rightarrow> bool \<Rightarrow> u32 \<Rightarrow> context_callback" where
  "ContextCallbackImpl e iamCallback operationType =
     (let timePoint = ce_timePoint e
      in \<lparr>cb_iamCallback = iamCallback, cb_cleaner = None,
          cb_metaData = \<lparr>md_operationType = operationType, md_operationResult = - 1, md_userId = None, md_remainTime = None,
       md_freezingTime = None, md_sdkVersion = None, md_requestContextId = None, md_authContextId = None,
       md_atl = None, md_authType = None, md_authWidgetType = None, md_callerName = None, md_callerType = None,
       md_startTime = timePoint, md_endTime = None, md_reuseUnlockResultMode = None,
       md_reuseUnlockResultDuration = None, md_isRemoteAuth = None, md_remoteUdid = None, md_localUdid = None,
       md_connectionName = None, md_authFinishReason = None, md_isBackgroundApplication = None, md_isWidgetAuth
       = None, md_totalTime = None, md_localTime = None, md_authSuccTipTime = None, md_extraInfo = None\<rparr>,
          cb_tracer = Tracer_Start (ce_now e) TimingTracer, cb_outputs = []\<rparr>)"

definition ContextCallback_NewInstance :: "callback_env \<Rightarrow> bool \<Rightarrow> u32 \<Rightarrow> context_callback option" where
  "ContextCallback_NewInstance e iamCallback operationType =
     (if \<not> iamCallback then None else Some (ContextCallbackImpl e iamCallback operationType))"

text \<open>A dummy instance has a client of its own that answers nothing.\<close>

definition ContextCallback_NewDummyInstance :: "callback_env \<Rightarrow> u32 \<Rightarrow> context_callback" where
  "ContextCallback_NewDummyInstance e operationType = ContextCallbackImpl e True operationType"

section \<open>What the trace is told\<close>

definition SetTraceUserId :: "i32 \<Rightarrow> context_callback \<Rightarrow> context_callback" where
  "SetTraceUserId v s = s\<lparr>cb_metaData := (cb_metaData s)\<lparr>md_userId := Some v\<rparr>\<rparr>"

definition SetTraceRemainTime :: "i32 \<Rightarrow> context_callback \<Rightarrow> context_callback" where
  "SetTraceRemainTime v s = s\<lparr>cb_metaData := (cb_metaData s)\<lparr>md_remainTime := Some v\<rparr>\<rparr>"

definition SetTraceCallerName :: "bytes \<Rightarrow> context_callback \<Rightarrow> context_callback" where
  "SetTraceCallerName v s = s\<lparr>cb_metaData := (cb_metaData s)\<lparr>md_callerName := Some v\<rparr>\<rparr>"

definition SetTraceRequestContextId :: "u64 \<Rightarrow> context_callback \<Rightarrow> context_callback" where
  "SetTraceRequestContextId v s = s\<lparr>cb_metaData := (cb_metaData s)\<lparr>md_requestContextId := Some v\<rparr>\<rparr>"

definition SetTraceAuthContextId :: "u64 \<Rightarrow> context_callback \<Rightarrow> context_callback" where
  "SetTraceAuthContextId v s = s\<lparr>cb_metaData := (cb_metaData s)\<lparr>md_authContextId := Some v\<rparr>\<rparr>"

definition SetTraceFreezingTime :: "i32 \<Rightarrow> context_callback \<Rightarrow> context_callback" where
  "SetTraceFreezingTime v s = s\<lparr>cb_metaData := (cb_metaData s)\<lparr>md_freezingTime := Some v\<rparr>\<rparr>"

definition SetTraceSdkVersion :: "i32 \<Rightarrow> context_callback \<Rightarrow> context_callback" where
  "SetTraceSdkVersion v s = s\<lparr>cb_metaData := (cb_metaData s)\<lparr>md_sdkVersion := Some v\<rparr>\<rparr>"

definition SetTraceAuthType :: "i32 \<Rightarrow> context_callback \<Rightarrow> context_callback" where
  "SetTraceAuthType v s = s\<lparr>cb_metaData := (cb_metaData s)\<lparr>md_authType := Some v\<rparr>\<rparr>"

definition SetTraceAuthWidgetType :: "u32 \<Rightarrow> context_callback \<Rightarrow> context_callback" where
  "SetTraceAuthWidgetType v s = s\<lparr>cb_metaData := (cb_metaData s)\<lparr>md_authWidgetType := Some v\<rparr>\<rparr>"

definition SetTraceAuthTrustLevel :: "u32 \<Rightarrow> context_callback \<Rightarrow> context_callback" where
  "SetTraceAuthTrustLevel v s = s\<lparr>cb_metaData := (cb_metaData s)\<lparr>md_atl := Some v\<rparr>\<rparr>"

definition SetTraceCallerType :: "i32 \<Rightarrow> context_callback \<Rightarrow> context_callback" where
  "SetTraceCallerType v s = s\<lparr>cb_metaData := (cb_metaData s)\<lparr>md_callerType := Some v\<rparr>\<rparr>"

definition SetTraceReuseUnlockResultMode :: "u32 \<Rightarrow> context_callback \<Rightarrow> context_callback" where
  "SetTraceReuseUnlockResultMode v s = s\<lparr>cb_metaData := (cb_metaData s)\<lparr>md_reuseUnlockResultMode := Some v\<rparr>\<rparr>"

definition SetTraceReuseUnlockResultDuration :: "u64 \<Rightarrow> context_callback \<Rightarrow> context_callback" where
  "SetTraceReuseUnlockResultDuration v s = s\<lparr>cb_metaData := (cb_metaData s)\<lparr>md_reuseUnlockResultDuration := Some v\<rparr>\<rparr>"

definition SetTraceIsRemoteAuth :: "bool \<Rightarrow> context_callback \<Rightarrow> context_callback" where
  "SetTraceIsRemoteAuth v s = s\<lparr>cb_metaData := (cb_metaData s)\<lparr>md_isRemoteAuth := Some v\<rparr>\<rparr>"

definition SetTraceLocalUdid :: "bytes \<Rightarrow> context_callback \<Rightarrow> context_callback" where
  "SetTraceLocalUdid v s = s\<lparr>cb_metaData := (cb_metaData s)\<lparr>md_localUdid := Some v\<rparr>\<rparr>"

definition SetTraceRemoteUdid :: "bytes \<Rightarrow> context_callback \<Rightarrow> context_callback" where
  "SetTraceRemoteUdid v s = s\<lparr>cb_metaData := (cb_metaData s)\<lparr>md_remoteUdid := Some v\<rparr>\<rparr>"

definition SetTraceConnectionName :: "bytes \<Rightarrow> context_callback \<Rightarrow> context_callback" where
  "SetTraceConnectionName v s = s\<lparr>cb_metaData := (cb_metaData s)\<lparr>md_connectionName := Some v\<rparr>\<rparr>"

definition SetTraceAuthFinishReason :: "string \<Rightarrow> context_callback \<Rightarrow> context_callback" where
  "SetTraceAuthFinishReason v s = s\<lparr>cb_metaData := (cb_metaData s)\<lparr>md_authFinishReason := Some v\<rparr>\<rparr>"

definition SetTraceIsBackgroundApplication :: "bool \<Rightarrow> context_callback \<Rightarrow> context_callback" where
  "SetTraceIsBackgroundApplication v s = s\<lparr>cb_metaData := (cb_metaData s)\<lparr>md_isBackgroundApplication := Some v\<rparr>\<rparr>"

definition SetTraceIsWidgetAuth :: "bool \<Rightarrow> context_callback \<Rightarrow> context_callback" where
  "SetTraceIsWidgetAuth v s = s\<lparr>cb_metaData := (cb_metaData s)\<lparr>md_isWidgetAuth := Some v\<rparr>\<rparr>"

definition SetCleaner :: "u64 \<Rightarrow> context_callback \<Rightarrow> context_callback" where
  "SetCleaner contextId s = s\<lparr>cb_cleaner := Some contextId\<rparr>"

definition Callback_GetCallerName :: "context_callback \<Rightarrow> bytes" where
  "Callback_GetCallerName s = (case md_callerName (cb_metaData s) of None \<Rightarrow> [] | Some n \<Rightarrow> n)"

definition Callback_Mark :: "u32 \<Rightarrow> u64 \<Rightarrow> context_callback \<Rightarrow> context_callback" where
  "Callback_Mark i now s = s\<lparr>cb_tracer := Tracer_Mark i now (cb_tracer s)\<rparr>"

definition Callback_EnterWait :: "u32 \<Rightarrow> u64 \<Rightarrow> context_callback \<Rightarrow> context_callback" where
  "Callback_EnterWait i now s = s\<lparr>cb_tracer := Tracer_EnterWait i now (cb_tracer s)\<rparr>"

definition Callback_ExitWait :: "u32 \<Rightarrow> u64 \<Rightarrow> context_callback \<Rightarrow> context_callback" where
  "Callback_ExitWait i now s = s\<lparr>cb_tracer := Tracer_ExitWait i now (cb_tracer s)\<rparr>"

definition NotifyListener_Process :: "nat option list \<Rightarrow> meta_data \<Rightarrow> bool \<Rightarrow> callback_output list" where
  "NotifyListener_Process notifierList metaData noNeedBehavior =
     map (\<lambda>notify. NotifierCalled (the notify) metaData noNeedBehavior)
       (filter (\<lambda>notify. notify \<noteq> None) notifierList)"

section \<open>Tips\<close>

text \<open>The code, the result and the freezing time, two output parameters.\<close>

definition ParseAuthTipInfo ::
  "callback_env \<Rightarrow> i32 \<Rightarrow> bytes \<Rightarrow> i32 \<Rightarrow> i32 \<Rightarrow> i32 \<times> i32 \<times> i32" where
  "ParseAuthTipInfo e tip extraInfo authResult freezingTime =
     (if tip \<noteq> USER_AUTH_TIP_SINGLE_AUTH_RESULT \<or> extraInfo = [] then (GENERAL_ERROR, authResult, freezingTime)
      else (case ce_tip e extraInfo of
              None \<Rightarrow> (GENERAL_ERROR, authResult, freezingTime)
            | Some (None, _) \<Rightarrow> (GENERAL_ERROR, authResult, freezingTime)
            | Some (Some authResult, lockoutDuration) \<Rightarrow>
                if authResult = SUCCESS then (SUCCESS, authResult, freezingTime)
                else (case lockoutDuration of
                        None \<Rightarrow> (GENERAL_ERROR, authResult, freezingTime)
                      | Some freezingTime \<Rightarrow> (SUCCESS, authResult, freezingTime))))"

definition ProcessAuthResult :: "callback_env \<Rightarrow> i32 \<Rightarrow> bytes \<Rightarrow> context_callback \<Rightarrow> context_callback" where
  "ProcessAuthResult e tip extraInfo s =
     (case ParseAuthTipInfo e tip extraInfo SUCCESS (- 1) of
        (ret, authResult, freezingTime) \<Rightarrow>
          if ret \<noteq> SUCCESS then s
          else if authResult = SUCCESS then s
          else
            let s = s\<lparr>cb_metaData := (cb_metaData s)\<lparr>md_operationResult := authResult,
                      md_endTime := Some (ce_timePoint e)\<rparr>\<rparr>
            in cb_emit (NotifyListener_Process (ce_notifiers e) (cb_metaData s) True) s)"

definition Callback_OnAcquireInfo :: "callback_env \<Rightarrow> i32 \<Rightarrow> bytes \<Rightarrow> context_callback \<Rightarrow> context_callback" where
  "Callback_OnAcquireInfo e moduleType acquireMsg s =
     (if \<not> cb_iamCallback s then s
      else
        let attr = Attributes_of_raw acquireMsg
        in case GetInt32Value ATTR_TIP_INFO attr of
             None \<Rightarrow> s
           | Some acquireInfo \<Rightarrow>
               let s = (case GetUint8ArrayValue ATTR_EXTRA_INFO attr of
                          None \<Rightarrow> s | Some extraInfo \<Rightarrow> ProcessAuthResult e acquireInfo extraInfo s);
                   s = (if acquireInfo = USER_AUTH_TIP_AUTH_SUCC then Callback_Mark S_ON_TIP_AUTH_SUCC (ce_now e) s
                        else s)
               in cb_emit [ClientAcquireInfo moduleType acquireInfo acquireMsg] s)"

section \<open>The result\<close>

definition HandleAuthSuccessResult :: "i32 \<Rightarrow> attributes \<Rightarrow> context_callback \<Rightarrow> context_callback" where
  "HandleAuthSuccessResult resultCode finalResult s =
     (let metaData = cb_metaData s
      in if resultCode \<noteq> SUCCESS \<or> (md_operationType metaData \<noteq> TRACE_AUTH_USER_ALL \<and>
              md_operationType metaData \<noteq> TRACE_AUTH_USER_BEHAVIOR) then s
         else (case (md_authType metaData, md_callerType metaData, md_callerName metaData) of
                 (Some authType, Some callerType, Some callerName) \<Rightarrow>
                   (case GetInt32Value ATTR_USER_ID finalResult of
                      None \<Rightarrow> s
                    | Some userId \<Rightarrow>
                        cb_emit [AuthSuccessEvent userId authType
                          \<lparr>as_callerName = callerName, as_callerType = callerType,
                           as_isWidgetAuth = (case md_isWidgetAuth metaData of None \<Rightarrow> False | Some b \<Rightarrow> b)\<rparr>] s)
               | _ \<Rightarrow> s))"

definition Callback_OnResult :: "callback_env \<Rightarrow> i32 \<Rightarrow> attributes \<Rightarrow> context_callback \<Rightarrow> context_callback" where
  "Callback_OnResult e resultCode finalResult s =
     (let m = (cb_metaData s)\<lparr>md_operationResult := resultCode\<rparr>;
          m = (case GetInt32Value ATTR_REMAIN_TIMES finalResult of
                 None \<Rightarrow> m | Some remainTime \<Rightarrow> m\<lparr>md_remainTime := Some remainTime\<rparr>);
          m = (case GetInt32Value ATTR_FREEZING_TIME finalResult of
                 None \<Rightarrow> m | Some freezingTime \<Rightarrow> m\<lparr>md_freezingTime := Some freezingTime\<rparr>);
          s = s\<lparr>cb_metaData := m\<lparr>md_endTime := Some (ce_timePoint e)\<rparr>\<rparr>;
          s = (if cb_iamCallback s
               then Callback_Mark S_ON_RESULT (ce_now e) (cb_emit [ClientResult resultCode (Serialize finalResult)] s)
               else s);
          s = s\<lparr>cb_tracer := Tracer_Finish (ce_later e) (cb_tracer s)\<rparr>;
          s = s\<lparr>cb_metaData := (cb_metaData s)\<lparr>md_totalTime := Some (TotalMs (cb_tracer s)),
                md_localTime := Some (LocalMs (cb_tracer s)), md_authSuccTipTime := Some (AuthTipMs (cb_tracer s)),
                md_extraInfo := Some (ExportTrace (cb_tracer s))\<rparr>\<rparr>;
          s = HandleAuthSuccessResult resultCode finalResult s;
          s = cb_emit (NotifyListener_Process (ce_notifiers e) (cb_metaData s) False) s
      in (case cb_cleaner s of None \<Rightarrow> s | Some contextId \<Rightarrow> cb_emit [CleanerCalled contextId] s))"

section \<open>What a result sets off\<close>

text \<open>The reference: whom a result is announced to as a successful authentication.\<close>

definition announced :: "i32 \<Rightarrow> attributes \<Rightarrow> meta_data \<Rightarrow> (i32 \<times> i32 \<times> auth_success_event) option" where
  "announced r a m =
     (if r = SUCCESS \<and> md_operationType m \<in> {TRACE_AUTH_USER_ALL, TRACE_AUTH_USER_BEHAVIOR} then
        Option.bind (md_authType m) (\<lambda>t. Option.bind (md_callerType m) (\<lambda>ct. Option.bind (md_callerName m) (\<lambda>n.
          map_option (\<lambda>u. (u, t, \<lparr>as_callerName = n, as_callerType = ct, as_isWidgetAuth = md_isWidgetAuth m = Some True\<rparr>))
            (GetInt32Value ATTR_USER_ID a))))
      else None)"

lemma announced_simps [simp]:
  "announced r a (m\<lparr>md_operationResult := x0\<rparr>) = announced r a m"
  "announced r a (m\<lparr>md_remainTime := x1\<rparr>) = announced r a m"
  "announced r a (m\<lparr>md_freezingTime := x2\<rparr>) = announced r a m"
  "announced r a (m\<lparr>md_endTime := x3\<rparr>) = announced r a m"
  "announced r a (m\<lparr>md_totalTime := x4\<rparr>) = announced r a m"
  "announced r a (m\<lparr>md_localTime := x5\<rparr>) = announced r a m"
  "announced r a (m\<lparr>md_authSuccTipTime := x6\<rparr>) = announced r a m"
  "announced r a (m\<lparr>md_extraInfo := x7\<rparr>) = announced r a m"
  by (auto simp: announced_def)

definition announcement :: "(i32 \<times> i32 \<times> auth_success_event) option \<Rightarrow> callback_output list" where
  "announcement x = (case x of None \<Rightarrow> [] | Some (u, t, ev) \<Rightarrow> [AuthSuccessEvent u t ev])"

lemma HandleAuthSuccess_outputs:
  "HandleAuthSuccessResult r a s = cb_emit (announcement (announced r a (cb_metaData s))) s"
  by (auto simp: HandleAuthSuccessResult_def announced_def announcement_def Let_def cb_emit_def split: option.splits)

lemma cb_emit_simps [simp]:
  "cb_metaData (cb_emit ys s) = cb_metaData s" "cb_iamCallback (cb_emit ys s) = cb_iamCallback s"
  "cb_cleaner (cb_emit ys s) = cb_cleaner s" "cb_tracer (cb_emit ys s) = cb_tracer s"
  "cb_outputs (cb_emit ys s) = cb_outputs s @ ys" "cb_emit [] s = s"
  by (simp_all add: cb_emit_def)

lemma OnResult_outputs:
  "\<exists>m. md_operationResult m = r \<and> md_localTime m \<noteq> None \<and>
     cb_outputs (Callback_OnResult e r a s) =
       cb_outputs s @ (if cb_iamCallback s then [ClientResult r (Serialize a)] else []) @
       announcement (announced r a (cb_metaData s)) @ NotifyListener_Process (ce_notifiers e) m False @
       (case cb_cleaner s of None \<Rightarrow> [] | Some i \<Rightarrow> [CleanerCalled i])"
proof -
  define m where "m = cb_metaData (Callback_OnResult e r a s)"
  have "md_operationResult m = r \<and> md_localTime m \<noteq> None"
    by (simp add: m_def Callback_OnResult_def HandleAuthSuccess_outputs Callback_Mark_def Let_def split: option.split)
  moreover have "cb_outputs (Callback_OnResult e r a s) =
       cb_outputs s @ (if cb_iamCallback s then [ClientResult r (Serialize a)] else []) @
       announcement (announced r a (cb_metaData s)) @ NotifyListener_Process (ce_notifiers e) m False @
       (case cb_cleaner s of None \<Rightarrow> [] | Some i \<Rightarrow> [CleanerCalled i])"
    by (simp add: m_def Callback_OnResult_def HandleAuthSuccess_outputs Callback_Mark_def Let_def split: option.split)
  ultimately show ?thesis by blast
qed

text \<open>
  Also shown: a successful authentication is announced to the listeners exactly when the result is SUCCESS, the
  request is one of the two kinds of authentication, and its type and its caller are known and the result names the
  user; the announcement carries these.
\<close>

theorem success_announced:
  assumes "cb_outputs s = []"
  shows "AuthSuccessEvent u t ev \<in> set (cb_outputs (Callback_OnResult e r a s)) \<longleftrightarrow>
    r = SUCCESS \<and> md_operationType (cb_metaData s) \<in> {TRACE_AUTH_USER_ALL, TRACE_AUTH_USER_BEHAVIOR} \<and>
    GetInt32Value ATTR_USER_ID a = Some u \<and> md_authType (cb_metaData s) = Some t \<and>
    md_callerName (cb_metaData s) = Some (as_callerName ev) \<and>
    md_callerType (cb_metaData s) = Some (as_callerType ev) \<and>
    as_isWidgetAuth ev = (md_isWidgetAuth (cb_metaData s) = Some True)"
proof -
  obtain m where m: "cb_outputs (Callback_OnResult e r a s) =
       (if cb_iamCallback s then [ClientResult r (Serialize a)] else []) @
       announcement (announced r a (cb_metaData s)) @ NotifyListener_Process (ce_notifiers e) m False @
       (case cb_cleaner s of None \<Rightarrow> [] | Some i \<Rightarrow> [CleanerCalled i])"
    using OnResult_outputs [of r e a s] assms by auto
  have "AuthSuccessEvent u t ev \<in> set (cb_outputs (Callback_OnResult e r a s)) \<longleftrightarrow>
      announced r a (cb_metaData s) = Some (u, t, ev)"
    unfolding m by (auto simp: announcement_def NotifyListener_Process_def split: option.splits)
  then show ?thesis by (cases ev) (auto simp: announced_def bind_eq_Some_conv)
qed

lemma success_announced_witness:
  "AuthSuccessEvent 100 1 \<lparr>as_callerName = [1], as_callerType = 0, as_isWidgetAuth = False\<rparr> \<in>
     set (cb_outputs (Callback_OnResult \<lparr>ce_timePoint = 0, ce_now = 0, ce_later = 0, ce_notifiers = [], ce_tip = \<lambda>_. None\<rparr>
       SUCCESS (snd (SetInt32Value ATTR_USER_ID 100 Attributes_new))
       (SetTraceAuthType 1 (SetTraceCallerType 0 (SetTraceCallerName [1]
         (ContextCallbackImpl \<lparr>ce_timePoint = 0, ce_now = 0, ce_later = 0, ce_notifiers = [], ce_tip = \<lambda>_. None\<rparr>
            True TRACE_AUTH_USER_ALL))))))"
proof -
  let ?e = "\<lparr>ce_timePoint = 0, ce_now = 0, ce_later = 0, ce_notifiers = [], ce_tip = \<lambda>_. None\<rparr>"
  let ?s = "SetTraceAuthType 1 (SetTraceCallerType 0 (SetTraceCallerName [1]
    (ContextCallbackImpl ?e True TRACE_AUTH_USER_ALL)))"
  have user: "GetInt32Value ATTR_USER_ID (snd (SetInt32Value ATTR_USER_ID 100 Attributes_new)) = Some 100"
    by code_simp
  have "cb_outputs ?s = []"
    by (simp add: ContextCallbackImpl_def Let_def SetTraceAuthType_def SetTraceCallerType_def SetTraceCallerName_def)
  from success_announced [OF this] user show ?thesis
    by (simp add: ContextCallbackImpl_def Let_def SetTraceAuthType_def SetTraceCallerType_def SetTraceCallerName_def)
qed

end
