(* ===== verification/Callback_Answers.thy ===== *)
theory Callback_Answers
  imports Context_Callback
begin

text \<open>
  What a fresh callback does when a service answers through it at once: the lemmas that the two services share. A
  callback is fresh from \<^verbatim>\<open>ContextCallback::NewInstance\<close> until its first result; what the trace is told on the way
  does not change whom it answers.
\<close>

definition answer_outputs :: "callback_env \<Rightarrow> context_callback \<Rightarrow> i32 \<Rightarrow> attributes \<Rightarrow> callback_output list" where
  "answer_outputs e contextCallback resultCode extraInfo =
     drop (length (cb_outputs contextCallback))
       (cb_outputs (Callback_OnResult e resultCode extraInfo contextCallback))"

definition new_callback :: "u32 \<Rightarrow> context_callback \<Rightarrow> bool" where
  "new_callback oper cb \<longleftrightarrow> cb_outputs cb = [] \<and> cb_iamCallback cb \<and> md_operationType (cb_metaData cb) = oper"

lemmas trace_setters =
  SetTraceAuthType_def SetTraceUserId_def SetTraceCallerType_def SetTraceCallerName_def
  SetTraceRequestContextId_def SetTraceAuthContextId_def SetTraceSdkVersion_def SetTraceAuthWidgetType_def
  SetTraceAuthTrustLevel_def SetTraceReuseUnlockResultMode_def SetTraceReuseUnlockResultDuration_def
  SetTraceIsRemoteAuth_def SetTraceAuthFinishReason_def SetTraceIsBackgroundApplication_def SetCleaner_def

lemma new_callback_setters [simp]:
  "new_callback t (SetTraceAuthType a cb) = new_callback t cb"
  "new_callback t (SetTraceUserId u cb) = new_callback t cb"
  "new_callback t (SetTraceCallerType ct cb) = new_callback t cb"
  "new_callback t (SetTraceCallerName n cb) = new_callback t cb"
  "new_callback t (SetTraceRequestContextId i cb) = new_callback t cb"
  "new_callback t (SetTraceAuthContextId i cb) = new_callback t cb"
  "new_callback t (SetTraceSdkVersion v cb) = new_callback t cb"
  "new_callback t (SetTraceAuthWidgetType w cb) = new_callback t cb"
  "new_callback t (SetTraceAuthTrustLevel l cb) = new_callback t cb"
  "new_callback t (SetTraceReuseUnlockResultMode w cb) = new_callback t cb"
  "new_callback t (SetTraceReuseUnlockResultDuration d cb) = new_callback t cb"
  "new_callback t (SetTraceIsRemoteAuth b cb) = new_callback t cb"
  "new_callback t (SetTraceAuthFinishReason f cb) = new_callback t cb"
  "new_callback t (SetTraceIsBackgroundApplication b cb) = new_callback t cb"
  "new_callback t (SetCleaner i cb) = new_callback t cb"
  by (simp_all add: new_callback_def trace_setters)

lemma cleaner_setters [simp]:
  "cb_cleaner (SetTraceAuthType a cb) = cb_cleaner cb" "cb_cleaner (SetTraceUserId u cb) = cb_cleaner cb"
  "cb_cleaner (SetTraceCallerType ct cb) = cb_cleaner cb" "cb_cleaner (SetTraceCallerName n cb) = cb_cleaner cb"
  "cb_cleaner (SetTraceRequestContextId i cb) = cb_cleaner cb" "cb_cleaner (SetTraceAuthContextId i cb) = cb_cleaner cb"
  "cb_cleaner (SetTraceSdkVersion v cb) = cb_cleaner cb" "cb_cleaner (SetTraceAuthWidgetType w cb) = cb_cleaner cb"
  "cb_cleaner (SetTraceAuthTrustLevel l cb) = cb_cleaner cb"
  "cb_cleaner (SetTraceReuseUnlockResultMode w cb) = cb_cleaner cb"
  "cb_cleaner (SetTraceReuseUnlockResultDuration d cb) = cb_cleaner cb"
  "cb_cleaner (SetTraceIsRemoteAuth b cb) = cb_cleaner cb" "cb_cleaner (SetTraceAuthFinishReason f cb) = cb_cleaner cb"
  "cb_cleaner (SetTraceIsBackgroundApplication b cb) = cb_cleaner cb" "cb_cleaner (SetCleaner i cb) = Some i"
  by (simp_all add: trace_setters)

lemma NewInstance [simp]:
  "ContextCallback_NewInstance e True t = Some (ContextCallbackImpl e True t)"
  "ContextCallback_NewInstance e False t = None"
  "new_callback t (ContextCallbackImpl e True t)" "cb_cleaner (ContextCallbackImpl e True t) = None"
  by (simp_all add: ContextCallback_NewInstance_def ContextCallbackImpl_def new_callback_def Let_def)

lemma Serialize_new [simp]: "Serialize Attributes_new = []"
  by (simp add: Serialize_def Attributes_new_def Impl_Serialize_def Impl_empty_def)

text \<open>An answer: the client's result first, then at most the announcement of a success, the trace, and the cleaner.\<close>

lemma answer_outputs_eq:
  assumes "new_callback t cb"
  shows "\<exists>m. md_operationResult m = r \<and>
    answer_outputs e cb r a = ClientResult r (Serialize a) # announcement (announced r a (cb_metaData cb)) @
      NotifyListener_Process (ce_notifiers e) m False @
      (case cb_cleaner cb of None \<Rightarrow> [] | Some i \<Rightarrow> [CleanerCalled i])"
  using OnResult_outputs [of r e a cb] assms by (auto simp: answer_outputs_def new_callback_def)

lemma not_announced:
  "new_callback t cb \<Longrightarrow> t \<notin> {TRACE_AUTH_USER_ALL, TRACE_AUTH_USER_BEHAVIOR} \<or> r \<noteq> SUCCESS \<Longrightarrow>
   announced r a (cb_metaData cb) = None"
  by (auto simp: announced_def new_callback_def)

lemma answer_outputs_shape:
  assumes "new_callback t cb" "t \<notin> {TRACE_AUTH_USER_ALL, TRACE_AUTH_USER_BEHAVIOR} \<or> r \<noteq> SUCCESS"
  shows "\<exists>m. md_operationResult m = r \<and>
    answer_outputs e cb r a = ClientResult r (Serialize a) #
      NotifyListener_Process (ce_notifiers e) m False @
      (case cb_cleaner cb of None \<Rightarrow> [] | Some i \<Rightarrow> [CleanerCalled i])"
  using answer_outputs_eq [OF assms(1), of r e a] not_announced [OF assms, of a] by (simp add: announcement_def)

lemma no_client_result [simp]:
  "ClientResult k b \<notin> set (announcement x)" "ClientResult k b \<notin> set (NotifyListener_Process ns m f)"
  by (auto simp: announcement_def NotifyListener_Process_def split: option.splits)

lemma one_client_result:
  assumes "new_callback t cb"
  shows "\<exists>ys. answer_outputs e cb r a = ClientResult r (Serialize a) # ys \<and>
    (\<forall>y \<in> set ys. \<forall>k b. y \<noteq> ClientResult k b)"
  using answer_outputs_eq [OF assms, of r e a] by (auto split: option.split)

end
