(* ===== verification/User_Idm_Service.thy ===== *)
theory User_Idm_Service
  imports Ipc_Common Context_Factory Callback_Answers
begin

text \<open>
  The service that manages credentials, \<^verbatim>\<open>services/ipc/src/user_idm_service.cpp\<close>: every request of a client, from
  the permission check to the answer. A request works on the service's own state (the token of the open
  session), on the publisher of \<open>Credential_Events\<close>, on the pool of \<open>Context_Pool\<close>, and on a list of everything else it
  did: answers, calls to the engine that change something, contexts it gave to the pool with their callbacks. The
  engine, the accounts, the random numbers, the clock and the JSON parser are fields of the surroundings
  \<open>idm_env\<close>. Allocation succeeds, so that a callback is there whenever the client gave one.
\<close>

unbundle bit_operations_syntax

section \<open>Data\<close>

record ipc_credential_info =
  ic_authType :: i32
  ic_pinType :: i32
  ic_credentialId :: u64
  ic_templateId :: u64
  ic_isAbandoned :: bool
  ic_validityPeriod :: i64

record ipc_credential_para =
  icp_authType :: i32
  icp_pinType :: i32
  icp_token :: bytes
  icp_additionalInfo :: bytes

datatype idm_output =
    IdmCallback callback_output
  | IdmDummy callback_output
  | IdmCredentialInfos i32 "ipc_credential_info list"
  | IdmSecureUserInfo i32 u64 "enrolled_info list"
  | IdmEnrollContext enroll_context bool context_callback
  | IdmDeleteContext delete_context context_callback
  | IdmOpenSession i32
  | IdmCloseSession i32
  | IdmDeleteUser i32 bytes
  | IdmEnforceDeleteUser i32
  | IdmDeleteSubProfile i32 i32
  | IdmClearUnavailable i32
  | IdmSessionInfo string
  | IdmExecutors call_log
  | IdmRegistListener
  | IdmUnRegistListener

record idm_service =
  is_sessionTokenId :: "u32 option"
  is_publisher :: publisher
  is_pool :: context_pool
  is_outputs :: "idm_output list"

record idm_env =
  im_caller :: caller
  im_openSession :: "i32 \<Rightarrow> i32 \<times> bytes"
  im_closeSession :: "i32 \<Rightarrow> i32"
  im_users :: user_engine
  im_deleteSubProfile :: "i32 \<Rightarrow> i32 \<Rightarrow> i32 \<times> credential_info list"
  im_json :: "bytes \<Rightarrow> string \<Rightarrow> bool option"
  im_draws :: "nat \<Rightarrow> u64 option"
  im_createTime :: int
  im_callback :: callback_env
  im_ipc :: ipc_answers
  im_executors :: rpool
  im_regist :: i32
  im_unRegist :: i32

abbreviation (input) CHECK_PERMISSION_FAILED :: i32 where "CHECK_PERMISSION_FAILED \<equiv> 1005"
abbreviation (input) IPC_ERROR :: i32 where "IPC_ERROR \<equiv> 1001"

definition idm_emit :: "idm_output list \<Rightarrow> idm_service \<Rightarrow> idm_service" where
  "idm_emit ys s = s\<lparr>is_outputs := is_outputs s @ ys\<rparr>"

text \<open>An answer straight to the client, and one through a callback, whose cleaner then works on the pool.\<close>

definition tell :: "i32 \<Rightarrow> attributes \<Rightarrow> idm_service \<Rightarrow> idm_service" where
  "tell resultCode extraInfo s = idm_emit [IdmCallback (ClientResult resultCode (Serialize extraInfo))] s"

definition cleaned :: "context_callback \<Rightarrow> idm_service \<Rightarrow> idm_service" where
  "cleaned contextCallback s =
     (case cb_cleaner contextCallback of
        None \<Rightarrow> s | Some contextId \<Rightarrow> s\<lparr>is_pool := Cleaner_call contextId (is_pool s)\<rparr>)"

definition answer :: "idm_env \<Rightarrow> context_callback \<Rightarrow> i32 \<Rightarrow> attributes \<Rightarrow> idm_service \<Rightarrow> idm_service" where
  "answer e contextCallback resultCode extraInfo s =
     cleaned contextCallback (idm_emit (map IdmCallback (answer_outputs (im_callback e) contextCallback resultCode extraInfo)) s)"

section \<open>Sessions\<close>

definition GetSessionInfoMasked :: "bytes \<Rightarrow> string" where
  "GetSessionInfoMasked challenge =
     concat (map (\<lambda>b. [hex_digit (unat b div 16), hex_digit (unat b)]) (take 2 challenge))"

definition CancelCurrentEnrollIfExist :: "idm_service \<Rightarrow> idm_service" where
  "CancelCurrentEnrollIfExist s =
     s\<lparr>is_pool := fold Pool_Cancel (map cx_contextId (SelectByType CONTEXT_ENROLL (is_pool s))) (is_pool s)\<rparr>"

text \<open>The code, the challenge, an output parameter, and the state.\<close>

definition Idm_OpenSession :: "idm_env \<Rightarrow> i32 \<Rightarrow> bytes \<Rightarrow> idm_service \<Rightarrow> i32 \<times> bytes \<times> idm_service" where
  "Idm_OpenSession e userId challenge s =
     (if \<not> CheckPermission (im_caller e) MANAGE_USER_IDM_PERMISSION then (CHECK_PERMISSION_FAILED, challenge, s)
      else
        let s = idm_emit [IdmOpenSession userId] (CancelCurrentEnrollIfExist s)
        in case im_openSession e userId of
             (ret, challenge) \<Rightarrow>
               if ret \<noteq> SUCCESS then (GENERAL_ERROR, challenge, s)
               else (SUCCESS, challenge, idm_emit [IdmSessionInfo (GetSessionInfoMasked challenge)]
                       (s\<lparr>is_sessionTokenId := Some (GetAccessTokenId (im_caller e))\<rparr>)))"

definition Idm_CloseSession :: "idm_env \<Rightarrow> i32 \<Rightarrow> idm_service \<Rightarrow> i32 \<times> idm_service" where
  "Idm_CloseSession e userId s =
     (if \<not> CheckPermission (im_caller e) MANAGE_USER_IDM_PERMISSION then (CHECK_PERMISSION_FAILED, s)
      else if is_sessionTokenId s \<noteq> Some (GetAccessTokenId (im_caller e)) then (SUCCESS, s)
      else
        let s = idm_emit [IdmCloseSession userId] s
        in if im_closeSession e userId \<noteq> SUCCESS then (GENERAL_ERROR, s) else (SUCCESS, s))"

section \<open>Queries\<close>

definition ipc_info :: "credential_info \<Rightarrow> ipc_credential_info" where
  "ipc_info info = \<lparr>ic_authType = ci_authType info, ic_pinType = ci_authSubType info,
     ic_credentialId = ci_credentialId info, ic_templateId = ci_templateId info,
     ic_isAbandoned = ci_isAbandoned info, ic_validityPeriod = ci_validityPeriod info\<rparr>"

definition GetCredentialInfoInner ::
  "idm_env \<Rightarrow> i32 \<Rightarrow> i32 \<Rightarrow> ipc_credential_info list \<Rightarrow> i32 \<times> ipc_credential_info list" where
  "GetCredentialInfoInner e userId authType credInfoList =
     (if \<not> CheckPermission (im_caller e) USE_USER_IDM_PERMISSION then (CHECK_PERMISSION_FAILED, credInfoList)
      else (case GetCredentialInfo (ue_getCredential (im_users e)) userId authType [] of
              (ret, credInfos) \<Rightarrow>
                if ret \<noteq> SUCCESS then (ret, credInfoList)
                else if credInfos = [] then (NOT_ENROLLED, credInfoList)
                else (SUCCESS, credInfoList @ map ipc_info credInfos)))"

definition ConvertGetCredentialResult :: "i32 \<Rightarrow> bool \<Rightarrow> i32" where
  "ConvertGetCredentialResult resultCode isNotEnrollReturnSuccess =
     (if resultCode = SUCCESS then SUCCESS
      else if resultCode = NOT_ENROLLED then (if isNotEnrollReturnSuccess then SUCCESS else NOT_ENROLLED)
      else if resultCode = INVALID_PARAMETERS \<or> resultCode = CHECK_PERMISSION_FAILED then resultCode
      else GENERAL_ERROR)"

definition Idm_ClearUnavailableCredential :: "idm_env \<Rightarrow> i32 \<Rightarrow> idm_service \<Rightarrow> idm_service" where
  "Idm_ClearUnavailableCredential e userId s =
     (let s = idm_emit [IdmClearUnavailable userId] s
      in case ClearUnavailableCredential (im_users e) userId [] of
           (ret, credInfos) \<Rightarrow>
             if ret \<noteq> SUCCESS then s
             else if credInfos = [] then s
             else idm_emit [IdmExecutors (snd (NotifyExecutorToDeleteTemplates (im_ipc e) (im_executors e)
                    (map Some credInfos) (map of_char ''ClearExpiredTemplate'') []))] s)"

text \<open>The loop over the credentials: those that are abandoned and expired are left out and noted.\<close>

fun visible_infos :: "ipc_credential_info list \<Rightarrow> ipc_credential_info list \<times> bool" where
  "visible_infos [] = ([], False)"
| "visible_infos (iter # infos) =
     (case visible_infos infos of
        (ipcCredInfoList, hasAbandoned) \<Rightarrow>
          if ic_isAbandoned iter \<and> ic_validityPeriod iter = 0 then (ipcCredInfoList, True)
          else (iter # ipcCredInfoList, hasAbandoned))"

definition GetCredentialInfoImpl :: "idm_env \<Rightarrow> i32 \<Rightarrow> i32 \<Rightarrow> bool \<Rightarrow> idm_service \<Rightarrow> i32 \<times> idm_service" where
  "GetCredentialInfoImpl e userId authType callback s =
     (if \<not> callback then (INVALID_PARAMETERS, s)
      else
        (case GetCredentialInfoInner e userId authType [] of
           (ret, credInfoList) \<Rightarrow>
             let (ret, credInfoList) = (if ret \<noteq> SUCCESS then (ConvertGetCredentialResult ret False, []) else (ret, credInfoList))
             in case visible_infos credInfoList of
                  (ipcCredInfoList, hasAbandonedCredential) \<Rightarrow>
                    let s = idm_emit [IdmCredentialInfos ret ipcCredInfoList] s
                    in (ret, if hasAbandonedCredential then Idm_ClearUnavailableCredential e userId s else s)))"

definition GetCredentialInfoSync ::
  "idm_env \<Rightarrow> i32 \<Rightarrow> i32 \<Rightarrow> ipc_credential_info list \<Rightarrow> idm_service \<Rightarrow>
   i32 \<times> ipc_credential_info list \<times> idm_service" where
  "GetCredentialInfoSync e userId authType ipcCredentialInfoList s =
     (case GetCredentialInfoInner e userId authType [] of
        (ret, credentialInfoList) \<Rightarrow>
          let (ret, credentialInfoList) =
                (if ret \<noteq> SUCCESS then (ConvertGetCredentialResult ret True, []) else (ret, credentialInfoList))
          in case visible_infos credentialInfoList of
               (visible, hasAbandonedCredential) \<Rightarrow>
                 (ret, ipcCredentialInfoList @ visible,
                  if hasAbandonedCredential then Idm_ClearUnavailableCredential e userId s else s))"

definition GetSecInfoInner :: "idm_env \<Rightarrow> i32 \<Rightarrow> i32 \<times> u64 \<times> enrolled_info list" where
  "GetSecInfoInner e userId =
     (if \<not> CheckPermission (im_caller e) USE_USER_IDM_PERMISSION then (CHECK_PERMISSION_FAILED, 0, [])
      else (case GetSecUserInfo (im_users e) userId None of
              (ret, userInfos) \<Rightarrow>
                if ret \<noteq> SUCCESS then (ret, 0, [])
                else (case userInfos of
                        None \<Rightarrow> (GENERAL_ERROR, 0, [])
                      | Some info \<Rightarrow> (SUCCESS, su_secUserId info, map eii_info (su_enrolledInfos info)))))"

definition Idm_GetSecInfo :: "idm_env \<Rightarrow> i32 \<Rightarrow> bool \<Rightarrow> idm_service \<Rightarrow> i32 \<times> idm_service" where
  "Idm_GetSecInfo e userId callback s =
     (if \<not> callback then (INVALID_PARAMETERS, s)
      else
        (case GetSecInfoInner e userId of
           (ret, secureUid, enrolledInfo) \<Rightarrow>
             let (secureUid, enrolledInfo) = (if ret \<noteq> SUCCESS then (0, []) else (secureUid, enrolledInfo))
             in (ret, idm_emit [IdmSecureUserInfo ret secureUid enrolledInfo] s)))"

definition Idm_GetLatestEnrollmentTime :: "idm_env \<Rightarrow> i32 \<Rightarrow> i32 \<Rightarrow> i32 \<times> u64 option" where
  "Idm_GetLatestEnrollmentTime e userId authType =
     (if \<not> CheckPermission (im_caller e) USE_USER_IDM_PERMISSION then (CHECK_PERMISSION_FAILED, None)
      else (case GetLatestEnrollmentTime (im_users e) userId authType of
              (ret, time) \<Rightarrow> if ret \<noteq> SUCCESS then (ret, Some time) else (SUCCESS, Some time)))"

section \<open>Enrollment\<close>

text \<open>The name and type of the caller, as \<^verbatim>\<open>GetCallerName\<close> leaves them whether or not it succeeds.\<close>

definition caller_name :: "idm_env \<Rightarrow> bytes" where
  "caller_name e = fst (snd (GetCallerName (im_caller e) []))"

definition caller_type :: "idm_env \<Rightarrow> i32" where
  "caller_type e = snd (snd (GetCallerName (im_caller e) []))"

definition caller_traced :: "idm_env \<Rightarrow> context_callback \<Rightarrow> context_callback" where
  "caller_traced e contextCallback =
     SetTraceCallerType (caller_type e) (SetTraceCallerName (caller_name e) contextCallback)"

text \<open>
  The context and the pool's answer. The context is one of the pool's, and held by it, if the pool takes it; else
  it is gone and the callback tells the client.
\<close>

definition StartEnroll ::
  "idm_env \<Rightarrow> enrollment_para \<Rightarrow> context_callback \<Rightarrow> bool \<Rightarrow> idm_service \<Rightarrow> i32 \<times> idm_service" where
  "StartEnroll e para contextCallback needSubscribeAppState s =
     (case CreateEnrollContext (GetNewContextId (im_draws e) (is_pool s)) para True of
        None \<Rightarrow> (GENERAL_ERROR, answer e contextCallback GENERAL_ERROR Attributes_new s)
      | Some context \<Rightarrow>
          let contextCallback = SetCleaner (bc_contextId context)
                (SetTraceRequestContextId (bc_contextId context) contextCallback)
          in case Pool_Schedule (Some (enroll_view (im_createTime e) context)) (is_pool s) of
               (ret, pool) \<Rightarrow>
                 let s = s\<lparr>is_pool := pool\<rparr>
                 in if \<not> ret then (GENERAL_ERROR, answer e contextCallback GENERAL_ERROR Attributes_new s)
                    else (SUCCESS, idm_emit [IdmEnrollContext context needSubscribeAppState contextCallback] s))"

definition GetNeedSubscribeAppState :: "idm_env \<Rightarrow> bytes \<Rightarrow> string \<Rightarrow> bool" where
  "GetNeedSubscribeAppState e jsonText key =
     (if CheckPermission (im_caller e) USER_AUTH_FROM_BACKGROUND then False
      else if jsonText = [] then True
      else (case im_json e jsonText key of None \<Rightarrow> True | Some isEnrollBackGround \<Rightarrow> \<not> isEnrollBackGround))"

definition Idm_AddCredential ::
  "idm_env \<Rightarrow> i32 \<Rightarrow> ipc_credential_para \<Rightarrow> bool \<Rightarrow> bool \<Rightarrow> idm_service \<Rightarrow> i32 \<times> idm_service" where
  "Idm_AddCredential e userId ipcPara idmCallback isUpdate s =
     (case ContextCallback_NewInstance (im_callback e) idmCallback
             (if isUpdate then TRACE_UPDATE_CREDENTIAL else TRACE_ADD_CREDENTIAL) of
        None \<Rightarrow> (INVALID_PARAMETERS, s)
      | Some contextCallback \<Rightarrow>
          let contextCallback = SetTraceAuthType (icp_authType ipcPara)
                (SetTraceUserId userId (caller_traced e contextCallback))
          in if \<not> CheckPermission (im_caller e) MANAGE_USER_IDM_PERMISSION
             then (CHECK_PERMISSION_FAILED, answer e contextCallback CHECK_PERMISSION_FAILED Attributes_new s)
             else
               let s = CancelCurrentEnrollIfExist s;
                   para = \<lparr>en_userId = userId, en_authType = icp_authType ipcPara, en_pinType = icp_pinType ipcPara,
                     en_isUpdate = isUpdate, en_tokenId = GetAccessTokenId (im_caller e),
                     en_token = icp_token ipcPara, en_callerName = caller_name e, en_sdkVersion = 10000,
                     en_callerType = caller_type e, en_additionalInfo = icp_additionalInfo ipcPara\<rparr>
               in StartEnroll e para contextCallback
                    (GetNeedSubscribeAppState e (icp_additionalInfo ipcPara) ''isEnrollBackground'') s)"

definition Idm_UpdateCredential ::
  "idm_env \<Rightarrow> i32 \<Rightarrow> ipc_credential_para \<Rightarrow> bool \<Rightarrow> idm_service \<Rightarrow> i32 \<times> idm_service" where
  "Idm_UpdateCredential e userId ipcPara idmCallback s =
     (if \<not> idmCallback then (INVALID_PARAMETERS, s)
      else
        (case GetCredentialInfo (ue_getCredential (im_users e)) userId (icp_authType ipcPara) [] of
           (ret, credInfos) \<Rightarrow>
             if ret \<noteq> SUCCESS then (GENERAL_ERROR, tell GENERAL_ERROR Attributes_new s)
             else if credInfos = [] then (SUCCESS, tell NOT_ENROLLED Attributes_new s)
             else Idm_AddCredential e userId ipcPara idmCallback True s))"

definition Idm_Cancel :: "idm_env \<Rightarrow> i32 \<Rightarrow> idm_service \<Rightarrow> i32 \<times> idm_service" where
  "Idm_Cancel e userId s =
     (if \<not> CheckPermission (im_caller e) MANAGE_USER_IDM_PERMISSION then (CHECK_PERMISSION_FAILED, s)
      else
        let own = filter (\<lambda>ctx. GetAccessTokenId (im_caller e) = cx_tokenId ctx)
              (SelectByType CONTEXT_ENROLL (is_pool s))
        in (if own = [] then GENERAL_ERROR else SUCCESS,
            s\<lparr>is_pool := fold Pool_Cancel (map cx_contextId own) (is_pool s)\<rparr>))"

section \<open>Deletion\<close>

definition SetAuthTypeTrace :: "credential_info list \<Rightarrow> context_callback \<Rightarrow> context_callback" where
  "SetAuthTypeTrace credInfos contextCallback =
     SetTraceAuthType (fold (\<lambda>credInfo t. t OR ci_authType credInfo) credInfos 0) contextCallback"

definition post_process ::
  "idm_env \<Rightarrow> i32 \<Rightarrow> credential_info list \<Rightarrow> bytes \<Rightarrow> cred_change \<Rightarrow> cred_change_info \<Rightarrow> idm_service \<Rightarrow> idm_service" where
  "post_process e userId credInfos reason eventType changeInfo s =
     (case PostProcessForDelete (im_ipc e) (im_executors e) userId credInfos reason eventType changeInfo []
        (is_publisher s) of
        (log, p) \<Rightarrow> idm_emit [IdmExecutors log] (s\<lparr>is_publisher := p\<rparr>))"

definition change_of :: "bytes \<Rightarrow> i32 \<Rightarrow> cred_change_info" where
  "change_of callerName callerType = \<lparr>cc_callerName = callerName, cc_callerType = callerType, cc_credentialId = 0,
     cc_lastCredentialId = 0, cc_isSilentCredChange = False\<rparr>"

definition EnforceDelUserInner ::
  "idm_env \<Rightarrow> i32 \<Rightarrow> context_callback \<Rightarrow> bytes \<Rightarrow> cred_change_info \<Rightarrow> idm_service \<Rightarrow>
   i32 \<times> context_callback \<times> idm_service" where
  "EnforceDelUserInner e userId callbackForTrace reason changeInfo s =
     (let s = idm_emit [IdmEnforceDeleteUser userId] s
      in case DeleteUserEnforce (im_users e) userId [] of
           (ret, credInfos) \<Rightarrow>
             if ret \<noteq> SUCCESS then (ret, callbackForTrace, s)
             else (SUCCESS, SetAuthTypeTrace credInfos callbackForTrace,
                   post_process e userId credInfos reason ENFORCE_DEL_USER changeInfo s))"

definition Idm_EnforceDelUser :: "idm_env \<Rightarrow> i32 \<Rightarrow> bool \<Rightarrow> idm_service \<Rightarrow> i32 \<times> idm_service" where
  "Idm_EnforceDelUser e userId idmCallback s =
     (case ContextCallback_NewInstance (im_callback e) idmCallback TRACE_ENFORCE_DELETE_USER of
        None \<Rightarrow> (INVALID_PARAMETERS, s)
      | Some contextCallback \<Rightarrow>
          let contextCallback = SetTraceUserId userId (caller_traced e contextCallback)
          in if \<not> CheckPermission (im_caller e) ENFORCE_USER_IDM
             then (CHECK_PERMISSION_FAILED, answer e contextCallback CHECK_PERMISSION_FAILED Attributes_new s)
             else
               let s = CancelCurrentEnrollIfExist s
               in case GetSecUserInfo (im_users e) userId None of
                    (ret, userInfo) \<Rightarrow>
                      if ret \<noteq> SUCCESS then (ret, answer e contextCallback ret Attributes_new s)
                      else if userInfo = None
                      then (GENERAL_ERROR, answer e contextCallback GENERAL_ERROR Attributes_new s)
                      else (case EnforceDelUserInner e userId contextCallback (map of_char ''EnforceDeleteUser'')
                              (change_of (caller_name e) (caller_type e)) s of
                              (ret, contextCallback, s) \<Rightarrow>
                                if ret \<noteq> SUCCESS
                                then (ret, answer e contextCallback ret
                                        (snd (SetUint64Value ATTR_CREDENTIAL_ID 0 Attributes_new)) s)
                                else (SUCCESS, answer e contextCallback SUCCESS Attributes_new s)))"

definition Idm_DelUser :: "idm_env \<Rightarrow> i32 \<Rightarrow> bytes \<Rightarrow> bool \<Rightarrow> idm_service \<Rightarrow> i32 \<times> idm_service" where
  "Idm_DelUser e userId authToken idmCallback s =
     (case ContextCallback_NewInstance (im_callback e) idmCallback TRACE_DELETE_USER of
        None \<Rightarrow> (INVALID_PARAMETERS, s)
      | Some contextCallback \<Rightarrow>
          let contextCallback = SetTraceUserId userId (caller_traced e contextCallback)
          in if \<not> CheckPermission (im_caller e) MANAGE_USER_IDM_PERMISSION
             then (CHECK_PERMISSION_FAILED, answer e contextCallback CHECK_PERMISSION_FAILED Attributes_new s)
             else
               let s = idm_emit [IdmDeleteUser userId authToken] (CancelCurrentEnrollIfExist s)
               in case DeleteUser (im_users e) userId authToken [] of
                    (ret, credInfos, rootSecret) \<Rightarrow>
                      if ret \<noteq> SUCCESS then (ret, answer e contextCallback ret Attributes_new s)
                      else (case SetUint8ArrayValue ATTR_OLD_ROOT_SECRET rootSecret Attributes_new of
                              (stored, extraInfo) \<Rightarrow>
                                if \<not> stored then (ret, answer e contextCallback ret extraInfo s)
                                else
                                  let s = answer e (SetAuthTypeTrace credInfos contextCallback) ret extraInfo s
                                  in (SUCCESS, post_process e userId credInfos (map of_char ''DeleteUser'') DEL_USER
                                         (change_of (caller_name e) (caller_type e)) s)))"

definition StartDelete ::
  "idm_env \<Rightarrow> delete_param \<Rightarrow> context_callback \<Rightarrow> idm_service \<Rightarrow> i32 \<times> idm_service" where
  "StartDelete e para contextCallback s =
     (case CreateDeleteContext (GetNewContextId (im_draws e) (is_pool s)) para True of
        None \<Rightarrow> (GENERAL_ERROR, answer e contextCallback GENERAL_ERROR Attributes_new s)
      | Some context \<Rightarrow>
          let contextCallback = SetCleaner (bc_contextId context)
                (SetTraceRequestContextId (bc_contextId context) contextCallback)
          in case Pool_Schedule (Some (delete_view (im_createTime e) context)) (is_pool s) of
               (ret, pool) \<Rightarrow>
                 let s = s\<lparr>is_pool := pool\<rparr>
                 in if \<not> ret then (GENERAL_ERROR, answer e contextCallback GENERAL_ERROR Attributes_new s)
                    else (SUCCESS, idm_emit [IdmDeleteContext context contextCallback] s))"

definition Idm_DelCredential :: "idm_env \<Rightarrow> i32 \<Rightarrow> u64 \<Rightarrow> bytes \<Rightarrow> bool \<Rightarrow> idm_service \<Rightarrow> i32 \<times> idm_service" where
  "Idm_DelCredential e userId credentialId authToken idmCallback s =
     (case ContextCallback_NewInstance (im_callback e) idmCallback TRACE_DELETE_CREDENTIAL of
        None \<Rightarrow> (INVALID_PARAMETERS, s)
      | Some contextCallback \<Rightarrow>
          let contextCallback = SetTraceUserId userId (caller_traced e contextCallback)
          in if \<not> CheckPermission (im_caller e) MANAGE_USER_IDM_PERMISSION
             then (CHECK_PERMISSION_FAILED, answer e contextCallback CHECK_PERMISSION_FAILED Attributes_new s)
             else
               let s = CancelCurrentEnrollIfExist s
               in StartDelete e \<lparr>dp_userId = userId, dp_credentialId = credentialId,
                    dp_tokenId = GetAccessTokenId (im_caller e), dp_callerName = caller_name e,
                    dp_callerType = caller_type e, dp_token = authToken\<rparr> contextCallback s)"

definition Idm_DeleteSubProfile :: "idm_env \<Rightarrow> i32 \<Rightarrow> i32 \<Rightarrow> bool \<Rightarrow> idm_service \<Rightarrow> i32 \<times> idm_service" where
  "Idm_DeleteSubProfile e userId subProfileId idmCallback s =
     (if \<not> idmCallback then (INVALID_PARAMETERS, s)
      else if \<not> CheckPermission (im_caller e) ENFORCE_USER_IDM
      then (CHECK_PERMISSION_FAILED, tell CHECK_PERMISSION_FAILED Attributes_new s)
      else
        let s = idm_emit [IdmDeleteSubProfile userId subProfileId] s
        in case im_deleteSubProfile e userId subProfileId of
             (ret, hdiInfos) \<Rightarrow>
               if ret \<noteq> SUCCESS then (ret, tell ret Attributes_new s)
               else
                 let credInfos = map (CredentialInfoImpl userId) hdiInfos;
                     s = idm_emit [IdmExecutors (snd (NotifyExecutorToDeleteTemplates (im_ipc e) (im_executors e)
                           (map Some credInfos) (map of_char ''DeleteSubProfile'') []))] s
                 in (SUCCESS, tell SUCCESS Attributes_new s))"

fun clear_users :: "idm_env \<Rightarrow> i32 list \<Rightarrow> bytes \<Rightarrow> i32 \<Rightarrow> user_info list \<Rightarrow> idm_service \<Rightarrow> idm_service" where
  "clear_users e accountInfo callerName callerType [] s = s"
| "clear_users e accountInfo callerName callerType (iter # userInfos) s =
     (let userId = ui_userId iter;
          callbackForTrace = SetTraceCallerType callerType (SetTraceCallerName callerName (SetTraceUserId userId
            (ContextCallback_NewDummyInstance (im_callback e) TRACE_DELETE_REDUNDANCY)))
      in if userId \<notin> set accountInfo
         then (case EnforceDelUserInner e userId callbackForTrace (map of_char ''DeleteRedundancy'')
                      (change_of callerName callerType) s of
                 (ret, callbackForTrace, s) \<Rightarrow>
                   clear_users e accountInfo callerName callerType userInfos
                     (idm_emit (map IdmDummy (answer_outputs (im_callback e) callbackForTrace ret Attributes_new)) s))
         else clear_users e accountInfo callerName callerType userInfos s)"

definition ClearRedundancyCredentialInner ::
  "idm_env \<Rightarrow> bytes \<Rightarrow> i32 \<Rightarrow> idm_service \<Rightarrow> i32 \<times> idm_service" where
  "ClearRedundancyCredentialInner e callerName callerType s =
     (case GetAllUserId (im_caller e) [] of
        (ret, accountInfo) \<Rightarrow>
          if ret \<noteq> SUCCESS then (IPC_ERROR, s)
          else (case GetAllExtUserInfo (im_users e) [] of
                  (ret, userInfos) \<Rightarrow>
                    if ret \<noteq> SUCCESS then (if ret = NOT_ENROLLED then (SUCCESS, s) else (ret, s))
                    else if userInfos = [] then (SUCCESS, s)
                    else (SUCCESS, clear_users e accountInfo callerName callerType userInfos s)))"

definition Idm_ClearRedundancyCredential :: "idm_env \<Rightarrow> bool \<Rightarrow> idm_service \<Rightarrow> i32 \<times> idm_service" where
  "Idm_ClearRedundancyCredential e idmCallback s =
     (case ContextCallback_NewInstance (im_callback e) idmCallback TRACE_DELETE_REDUNDANCY of
        None \<Rightarrow> (INVALID_PARAMETERS, s)
      | Some contextCallback \<Rightarrow>
          let contextCallback = caller_traced e contextCallback
          in if \<not> CheckPermission (im_caller e) CLEAR_REDUNDANCY_PERMISSION
             then (CHECK_PERMISSION_FAILED, answer e contextCallback CHECK_PERMISSION_FAILED Attributes_new s)
             else (case ClearRedundancyCredentialInner e (caller_name e) (caller_type e)
                          (CancelCurrentEnrollIfExist s) of
                     (ret, s) \<Rightarrow> (ret, answer e contextCallback ret Attributes_new s)))"

section \<open>Listeners\<close>

definition Idm_RegistCredChangeEventListener :: "idm_env \<Rightarrow> bool \<Rightarrow> idm_service \<Rightarrow> i32 \<times> idm_service" where
  "Idm_RegistCredChangeEventListener e listener s =
     (if \<not> listener then (INVALID_PARAMETERS, s)
      else if \<not> CheckPermission (im_caller e) USE_USER_IDM_PERMISSION then (CHECK_PERMISSION_FAILED, s)
      else (im_regist e, idm_emit [IdmRegistListener] s))"

definition Idm_UnRegistCredChangeEventListener :: "idm_env \<Rightarrow> bool \<Rightarrow> idm_service \<Rightarrow> i32 \<times> idm_service" where
  "Idm_UnRegistCredChangeEventListener e listener s =
     (if \<not> listener then (INVALID_PARAMETERS, s)
      else if \<not> CheckPermission (im_caller e) USE_USER_IDM_PERMISSION then (CHECK_PERMISSION_FAILED, s)
      else (im_unRegist e, idm_emit [IdmUnRegistListener] s))"

end
