(* ===== verification/Pool_Driven.thy ===== *)
theory Pool_Driven
  imports Context_Pool_Properties
begin

text \<open>
  What the services rely on of the pool: whatever they do with it is a run of the pool's own machine, an accepted
  context is in the pool, and a cancelled one is marked.
\<close>

definition driven :: "context_pool \<Rightarrow> context_pool \<Rightarrow> bool" where
  "driven p q \<longleftrightarrow> (\<forall>start err. \<exists>ls. pool_run start err p ls q)"

lemma pool_run_append:
  "pool_run start err q ls' r \<Longrightarrow> pool_run start err p ls q \<Longrightarrow> pool_run start err p (ls @ ls') r"
  by (induction rule: pool_run.induct) (auto simp flip: append_assoc intro: run_snoc)

lemma driven_refl [simp, intro]: "driven p p"
  unfolding driven_def by (blast intro: run_nil)

lemma driven_trans: "driven p q \<Longrightarrow> driven q r \<Longrightarrow> driven p r"
  unfolding driven_def by (blast intro: pool_run_append)

lemma driven_step: "(\<And>start err. pool_step start err l p q) \<Longrightarrow> driven p q"
  unfolding driven_def using run_snoc [OF run_nil] by blast

lemma driven_Cancel: "driven p (Pool_Cancel i p)"
  by (rule driven_step) (rule pool_cancel)

lemma driven_cancels: "driven p (fold Pool_Cancel is p)"
proof (induction "is" arbitrary: p)
  case (Cons i ids)
  then show ?case using driven_trans [OF driven_Cancel [of p i] Cons.IH] by simp
qed simp

lemma driven_Schedule: "Pool_Schedule c p = (r, q) \<Longrightarrow> driven p q"
  using driven_step [OF pool_schedule, of p c] by simp

lemma driven_Cleaner: "driven p (Cleaner_call i p)"
  by (rule driven_step) (rule pool_clean)

lemma scheduled_member:
  assumes "pool_inv p" "Pool_Schedule (Some c) p = (True, q)"
  shows "c \<in> set (SelectByType (cx_contextType c) q)"
proof -
  let ?p = "p\<lparr>cp_waiting := cp_waiting p @ [c]\<rparr>"
  have fresh: "cx_contextId c \<notin> set (pool_ids (cp_running p) (cp_waiting p))" and q: "q = promote ?p"
    using assms(2) by (auto simp: Pool_Schedule_def SelectLocked_None split: if_splits)
  obtain kept running plan where l: "promote_loop (cp_dialogActive ?p) (cp_waiting ?p) []
      (map snd (cp_running ?p)) (cp_running ?p) empty_plan = (kept, running, plan)"
    and pr: "cp_waiting (promote ?p) = kept" "cp_running (promote ?p) = running"
    by (rule promote_eq [of ?p]) auto
  have "distinct (pool_ids (cp_running ?p) ([] @ cp_waiting ?p))"
    using assms(1) fresh by (auto simp: pool_inv_def pool_shape_def pool_ids_def)
  from promote_shape [OF l this] obtain adm where adm: "running = cp_running p @ admit adm"
    "mset kept + mset adm = mset (cp_waiting p @ [c])"
    by auto
  have "c \<in># mset kept + mset adm" unfolding adm(2) by simp
  then have "c \<in> set kept \<or> c \<in> snd ` set running" using adm(1) admit_simps(7) [of adm] by (auto simp: image_Un)
  then show ?thesis by (auto simp: SelectByType_def q pr)
qed

lemma cancels_requested:
  "i \<in> set is \<Longrightarrow> i \<in> cp_cancelRequested (fold Pool_Cancel is p)"
proof (induction "is" arbitrary: p)
  case (Cons j js)
  have "j \<in> cp_cancelRequested (Pool_Cancel j p)" by (simp add: Pool_Cancel_def)
  then show ?case using Cons fold_Pool_Cancel [of "Pool_Cancel j p" js] by auto
qed simp

text \<open>Ids are unique in the pool, so a context that is in it is the one its id finds.\<close>

lemma SelectLocked_member:
  assumes "pool_inv p" "c \<in> set (SelectByType t p)"
  shows "SelectLocked (cx_contextId c) p = Some c"
proof -
  have d: "distinct (map fst (cp_running p) @ map cx_contextId (cp_waiting p))" and ok: "entries_ok (cp_running p)"
    using assms(1) by (auto simp: pool_inv_def pool_shape_def pool_ids_def)
  have "c \<in> snd ` set (cp_running p) \<or> c \<in> set (cp_waiting p)" using assms(2) by (auto simp: SelectByType_def)
  then show ?thesis
  proof
    assume "c \<in> snd ` set (cp_running p)"
    then have "(cx_contextId c, c) \<in> set (cp_running p)" using ok by (auto simp: entries_ok_def list_all_iff)
    then have "map_of (cp_running p) (cx_contextId c) = Some c" using d by simp
    then show ?thesis by (simp add: SelectLocked_def)
  next
    assume w: "c \<in> set (cp_waiting p)"
    then have "map_of (cp_running p) (cx_contextId c) = None" using d by (auto simp: map_of_eq_None_iff)
    moreover have "List.find (\<lambda>x. cx_contextId x = cx_contextId c) ws = Some c"
      if "c \<in> set ws" "distinct (map cx_contextId ws)" for ws
      using that by (induction ws) (auto simp: image_iff)
    then have "List.find (\<lambda>x. cx_contextId x = cx_contextId c) (cp_waiting p) = Some c" using w d by simp
    ultimately show ?thesis by (simp add: SelectLocked_def)
  qed
qed

lemma scheduled_found:
  "pool_inv p \<Longrightarrow> Pool_Schedule (Some c) p = (True, q) \<Longrightarrow> SelectLocked (cx_contextId c) q = Some c"
  using SelectLocked_member [OF _ scheduled_member, of q p c] Pool_Schedule_inv [of p "Some c"] by simp

text \<open>A context that is not primary contends with nobody, so it runs as soon as it is accepted.\<close>

lemma scheduled_admitted:
  assumes "pool_inv p" "\<not> cx_primary c" "Pool_Schedule (Some c) p = (True, q)"
  shows "(cx_contextId c, c) \<in> set (cp_running q) \<and> StartTask (cx_contextId c) \<in> set (cp_tasks q)"
proof -
  let ?p = "p\<lparr>cp_waiting := cp_waiting p @ [c]\<rparr>"
  have fresh: "cx_contextId c \<notin> set (pool_ids (cp_running p) (cp_waiting p))" and q: "q = promote ?p"
    using assms(3) by (auto simp: Pool_Schedule_def SelectLocked_None split: if_splits)
  obtain kept running plan where l: "promote_loop (cp_dialogActive ?p) (cp_waiting ?p) []
      (map snd (cp_running ?p)) (cp_running ?p) empty_plan = (kept, running, plan)"
    and pr: "promote ?p = ?p\<lparr>cp_waiting := kept, cp_running := running, cp_tasks := cp_tasks ?p @
       map (\<lambda>(_, c). PreemptTask (cx_contextId c)) (toStop plan) @ map (\<lambda>c. StartTask (cx_contextId c)) (toStart plan)\<rparr>"
    by (rule promote_eq [of ?p])
  have "distinct (pool_ids (cp_running ?p) ([] @ cp_waiting ?p))"
    using assms(1) fresh by (auto simp: pool_inv_def pool_shape_def pool_ids_def)
  from promote_shape [OF l this] obtain adm where adm: "running = cp_running p @ admit adm" "toStart plan = adm"
    "mset kept + mset adm = mset (cp_waiting p @ [c])"
    by (auto simp: empty_plan_def)
  have "pool_inv q" using Pool_Schedule_inv [OF assms(1), of "Some c"] assms(3) by simp
  then have "queue_blocked (map snd running) kept" by (simp add: pool_inv_def q pr)
  then have "c \<notin> set kept"
    using assms(2) by (fastforce simp: queue_blocked_def in_set_conv_nth contends_def primary_auth_def)
  moreover have "c \<in># mset kept + mset adm" unfolding adm(3) by simp
  ultimately have "c \<in> set adm" by auto
  then show ?thesis by (auto simp: q pr adm admit_def)
qed

end
