(* ===== verification/User_Idm_Properties.thy ===== *)
theory User_Idm_Properties
  imports User_Idm_Service Pool_Driven
begin

text \<open>
  What the requests of \<open>User_Idm_Service\<close> guarantee: every request with a callback is answered once or handed to a
  context, and the pool is only driven through its operations. What a caller without the permission gets is shown in
  \<open>User_Idm_Gate\<close>.
\<close>

section \<open>Requests\<close>

datatype idm_request =
    OpenSessionRequest i32 bytes
  | CloseSessionRequest i32
  | GetCredentialInfoRequest i32 i32 bool
  | GetCredentialInfoSyncRequest i32 i32 "ipc_credential_info list"
  | GetSecInfoRequest i32 bool
  | GetLatestEnrollmentTimeRequest i32 i32
  | AddCredentialRequest i32 ipc_credential_para bool
  | UpdateCredentialRequest i32 ipc_credential_para bool
  | CancelRequest i32
  | EnforceDelUserRequest i32 bool
  | DelUserRequest i32 bytes bool
  | DelCredentialRequest i32 u64 bytes bool
  | DeleteSubProfileRequest i32 i32 bool
  | ClearRedundancyCredentialRequest bool
  | RegistListenerRequest bool
  | UnRegistListenerRequest bool

fun idm_serve :: "idm_env \<Rightarrow> idm_request \<Rightarrow> idm_service \<Rightarrow> i32 \<times> idm_service" where
  "idm_serve e (OpenSessionRequest u c) s = (case Idm_OpenSession e u c s of (r, _, s) \<Rightarrow> (r, s))"
| "idm_serve e (CloseSessionRequest u) s = Idm_CloseSession e u s"
| "idm_serve e (GetCredentialInfoRequest u t cb) s = GetCredentialInfoImpl e u t cb s"
| "idm_serve e (GetCredentialInfoSyncRequest u t infos) s =
     (case GetCredentialInfoSync e u t infos s of (r, _, s) \<Rightarrow> (r, s))"
| "idm_serve e (GetSecInfoRequest u cb) s = Idm_GetSecInfo e u cb s"
| "idm_serve e (GetLatestEnrollmentTimeRequest u t) s = (fst (Idm_GetLatestEnrollmentTime e u t), s)"
| "idm_serve e (AddCredentialRequest u p cb) s = Idm_AddCredential e u p cb False s"
| "idm_serve e (UpdateCredentialRequest u p cb) s = Idm_UpdateCredential e u p cb s"
| "idm_serve e (CancelRequest u) s = Idm_Cancel e u s"
| "idm_serve e (EnforceDelUserRequest u cb) s = Idm_EnforceDelUser e u cb s"
| "idm_serve e (DelUserRequest u token cb) s = Idm_DelUser e u token cb s"
| "idm_serve e (DelCredentialRequest u i token cb) s = Idm_DelCredential e u i token cb s"
| "idm_serve e (DeleteSubProfileRequest u i cb) s = Idm_DeleteSubProfile e u i cb s"
| "idm_serve e (ClearRedundancyCredentialRequest cb) s = Idm_ClearRedundancyCredential e cb s"
| "idm_serve e (RegistListenerRequest l) s = Idm_RegistCredChangeEventListener e l s"
| "idm_serve e (UnRegistListenerRequest l) s = Idm_UnRegistCredChangeEventListener e l s"

fun needed_permission :: "idm_request \<Rightarrow> permission" where
  "needed_permission (EnforceDelUserRequest _ _) = ENFORCE_USER_IDM"
| "needed_permission (DeleteSubProfileRequest _ _ _) = ENFORCE_USER_IDM"
| "needed_permission (ClearRedundancyCredentialRequest _) = CLEAR_REDUNDANCY_PERMISSION"
| "needed_permission (GetCredentialInfoRequest _ _ _) = USE_USER_IDM_PERMISSION"
| "needed_permission (GetCredentialInfoSyncRequest _ _ _) = USE_USER_IDM_PERMISSION"
| "needed_permission (GetSecInfoRequest _ _) = USE_USER_IDM_PERMISSION"
| "needed_permission (GetLatestEnrollmentTimeRequest _ _) = USE_USER_IDM_PERMISSION"
| "needed_permission (RegistListenerRequest _) = USE_USER_IDM_PERMISSION"
| "needed_permission (UnRegistListenerRequest _) = USE_USER_IDM_PERMISSION"
| "needed_permission _ = MANAGE_USER_IDM_PERMISSION"

text \<open>What a caller without the permission may see: a failure without any content, and its trace.\<close>

fun refusal :: "idm_output \<Rightarrow> bool" where
  "refusal (IdmCallback (ClientResult r b)) = (r \<noteq> SUCCESS \<and> b = [])"
| "refusal (IdmCallback (NotifierCalled n m f)) = (md_operationResult m \<noteq> SUCCESS)"
| "refusal (IdmCredentialInfos r infos) = (r \<noteq> SUCCESS \<and> infos = [])"
| "refusal (IdmSecureUserInfo r uid infos) = (r \<noteq> SUCCESS \<and> uid = 0 \<and> infos = [])"
| "refusal _ = False"

section \<open>Answers\<close>

lemmas callback_setters = caller_traced_def SetAuthTypeTrace_def

lemma idm_callback_setters [simp]:
  "new_callback t (caller_traced e cb) = new_callback t cb" "cb_cleaner (caller_traced e cb) = cb_cleaner cb"
  "new_callback t (SetAuthTypeTrace infos cb) = new_callback t cb" "cb_cleaner (SetAuthTypeTrace infos cb) = cb_cleaner cb"
  by (simp_all add: callback_setters)

section \<open>One answer\<close>

fun gives_answer :: "idm_output \<Rightarrow> bool" where
  "gives_answer (IdmCallback (ClientResult r b)) = True"
| "gives_answer (IdmCredentialInfos r infos) = True"
| "gives_answer (IdmSecureUserInfo r uid infos) = True"
| "gives_answer (IdmEnrollContext c sub cb) = True"
| "gives_answer (IdmDeleteContext c cb) = True"
| "gives_answer _ = False"

definition answered :: "idm_service \<Rightarrow> nat" where
  "answered s = length (filter gives_answer (is_outputs s))"

fun has_callback :: "idm_request \<Rightarrow> bool" where
  "has_callback (GetCredentialInfoRequest u t cb) = cb"
| "has_callback (GetSecInfoRequest u cb) = cb"
| "has_callback (AddCredentialRequest u p cb) = cb"
| "has_callback (UpdateCredentialRequest u p cb) = cb"
| "has_callback (EnforceDelUserRequest u cb) = cb"
| "has_callback (DelUserRequest u token cb) = cb"
| "has_callback (DelCredentialRequest u i token cb) = cb"
| "has_callback (DeleteSubProfileRequest u i cb) = cb"
| "has_callback (ClearRedundancyCredentialRequest cb) = cb"
| "has_callback _ = False"

lemma answered_simps [simp]:
  "answered (idm_emit ys s) = answered s + length (filter gives_answer ys)"
  "answered (s\<lparr>is_pool := x1\<rparr>) = answered s" "answered (s\<lparr>is_publisher := x2\<rparr>) = answered s"
  "answered (s\<lparr>is_sessionTokenId := x3\<rparr>) = answered s"
  "answered (CancelCurrentEnrollIfExist s) = answered s" "answered (tell r a s) = Suc (answered s)"
  "answered (cleaned cb s) = answered s"
  by (simp_all add: answered_def idm_emit_def CancelCurrentEnrollIfExist_def tell_def cleaned_def split: option.split)

lemma answered_once:
  assumes "new_callback t cb" "t \<notin> {TRACE_AUTH_USER_ALL, TRACE_AUTH_USER_BEHAVIOR}"
  shows "answered (answer e cb r a s) = Suc (answered s)"
proof -
  have "filter (gives_answer \<circ> IdmCallback) (NotifyListener_Process ns m f) = []" for ns m f
    by (auto simp: NotifyListener_Process_def filter_empty_conv)
  then show ?thesis
    using answer_outputs_shape [OF assms(1) disjI1 [OF assms(2)], of r "im_callback e" a] by (auto simp: answer_def split: option.split)
qed

lemmas answered_by [simp] =
  answered_once [where t = TRACE_ADD_CREDENTIAL] answered_once [where t = TRACE_UPDATE_CREDENTIAL]
  answered_once [where t = TRACE_DELETE_CREDENTIAL] answered_once [where t = TRACE_DELETE_USER]
  answered_once [where t = TRACE_ENFORCE_DELETE_USER] answered_once [where t = TRACE_DELETE_REDUNDANCY]

lemma answered_post_process [simp]: "answered (post_process e u infos reason t info s) = answered s"
  by (simp add: post_process_def split: prod.split)

lemma answered_unavailable [simp]: "answered (Idm_ClearUnavailableCredential e u s) = answered s"
  by (simp add: Idm_ClearUnavailableCredential_def Let_def split: prod.split)

lemma enforce_inner:
  assumes "EnforceDelUserInner e u cb reason info s = (r, cb', s')"
  shows "answered s' = answered s" "is_pool s' = is_pool s" "new_callback t cb' = new_callback t cb"
    "cb_cleaner cb' = cb_cleaner cb"
  using assms by (auto simp: EnforceDelUserInner_def Let_def idm_emit_def answered_def post_process_def
      split: prod.splits if_splits)

lemma answered_dummy [simp]: "filter gives_answer (map IdmDummy ys) = []"
  by (simp add: filter_empty_conv)

lemma clear_users_answered [simp]: "answered (clear_users e accts n t infos s) = answered s"
  by (induction infos arbitrary: s) (auto simp: Let_def enforce_inner split: prod.split)

lemma clear_inner_answered:
  "ClearRedundancyCredentialInner e n t s = (r, s') \<Longrightarrow> answered s' = answered s"
  by (auto simp: ClearRedundancyCredentialInner_def split: prod.splits if_splits)

lemma start_answered:
  assumes "new_callback t cb" "t \<notin> {TRACE_AUTH_USER_ALL, TRACE_AUTH_USER_BEHAVIOR}"
  shows "answered (snd (StartEnroll e para cb sub s)) = Suc (answered s)"
    and "answered (snd (StartDelete e dp cb s)) = Suc (answered s)"
  using assms by (auto simp: answered_once [where t = t] StartEnroll_def StartDelete_def Let_def split: option.split prod.split)

lemma add_answered:
  "answered (snd (Idm_AddCredential e u p True upd s)) = Suc (answered s)"
  using start_answered(1) [of "if upd then TRACE_UPDATE_CREDENTIAL else TRACE_ADD_CREDENTIAL"]
  by (cases upd) (auto simp: Idm_AddCredential_def Let_def simp del: CheckPermission.simps)

text \<open>
  Property C27: every request that names a callback is settled exactly once: the client gets one answer, or the pool
  takes one context, which answers in its turn.
\<close>

theorem answered_exactly_once:
  assumes "has_callback q"
  shows "answered (snd (idm_serve e q s)) = Suc (answered s)"
proof (cases q)
  case (GetCredentialInfoRequest u t cb)
  then show ?thesis using assms
    by (auto simp: GetCredentialInfoImpl_def Let_def split: prod.split if_splits)
next
  case (GetSecInfoRequest u cb)
  then show ?thesis using assms by (auto simp: Idm_GetSecInfo_def Let_def split: prod.split)
next
  case (AddCredentialRequest u p cb)
  then show ?thesis using assms add_answered by simp
next
  case (UpdateCredentialRequest u p cb)
  then show ?thesis using assms add_answered by (auto simp: Idm_UpdateCredential_def split: prod.split)
next
  case (EnforceDelUserRequest u cb)
  then show ?thesis using assms
    by (auto simp: Idm_EnforceDelUser_def Let_def enforce_inner simp del: CheckPermission.simps split: prod.split)
next
  case (DelUserRequest u token cb)
  then show ?thesis using assms
    by (auto simp: Idm_DelUser_def Let_def simp del: CheckPermission.simps split: prod.split)
next
  case (DelCredentialRequest u i token cb)
  then show ?thesis using assms start_answered(2) [where t = TRACE_DELETE_CREDENTIAL]
    by (auto simp: Idm_DelCredential_def Let_def simp del: CheckPermission.simps)
next
  case (DeleteSubProfileRequest u i cb)
  then show ?thesis using assms
    by (auto simp: Idm_DeleteSubProfile_def Let_def simp del: CheckPermission.simps split: prod.split)
next
  case (ClearRedundancyCredentialRequest cb)
  then show ?thesis using assms
    by (auto simp: Idm_ClearRedundancyCredential_def Let_def clear_inner_answered simp del: CheckPermission.simps
        split: prod.split)
qed (use assms in simp_all)

section \<open>The pool is driven through its operations\<close>

lemma pool_simps [simp]:
  "is_pool (idm_emit ys s) = is_pool s" "is_pool (tell r a s) = is_pool s"
  "is_pool (s\<lparr>is_publisher := x\<rparr>) = is_pool s"
  "is_pool (post_process e u infos reason t info s) = is_pool s"
  "is_pool (Idm_ClearUnavailableCredential e u s) = is_pool s"
  "cb_cleaner cb = None \<Longrightarrow> is_pool (answer e cb r a s) = is_pool s"
  by (simp_all add: idm_emit_def tell_def post_process_def Idm_ClearUnavailableCredential_def answer_def cleaned_def
      Let_def split: prod.split)

lemma driven_cancel_enrolls: "driven (is_pool s) (is_pool (CancelCurrentEnrollIfExist s))"
  by (simp add: CancelCurrentEnrollIfExist_def driven_cancels)

lemma driven_answer: "driven (is_pool s) (is_pool (answer e cb r a s))"
  by (auto simp: answer_def cleaned_def driven_Cleaner split: option.split)

lemma clear_users_pool [simp]: "is_pool (clear_users e accts n t infos s) = is_pool s"
  by (induction infos arbitrary: s) (auto simp: Let_def enforce_inner(2) split: prod.split)

lemma clear_inner_pool: "ClearRedundancyCredentialInner e n t s = (r, s') \<Longrightarrow> is_pool s' = is_pool s"
  by (auto simp: ClearRedundancyCredentialInner_def split: prod.splits if_splits)

lemma driven_scheduled:
  "Pool_Schedule c (is_pool s) = (r, q) \<Longrightarrow> driven (is_pool s) (is_pool (answer e cb x a (s\<lparr>is_pool := q\<rparr>)))"
  using driven_trans [OF driven_Schedule driven_answer, of c "is_pool s" r "s\<lparr>is_pool := q\<rparr>"] by simp

lemma driven_start:
  "driven (is_pool s) (is_pool (snd (StartEnroll e para cb sub s)))"
  "driven (is_pool s) (is_pool (snd (StartDelete e dp cb s)))"
  by (auto simp: StartEnroll_def StartDelete_def Let_def driven_answer driven_scheduled driven_Schedule
      split: option.split prod.split)

lemma driven_add: "driven (is_pool s) (is_pool (snd (Idm_AddCredential e u p cb upd s)))"
  by (cases cb)
    (auto simp: Idm_AddCredential_def Let_def simp del: CheckPermission.simps
      intro: driven_answer driven_trans [OF driven_cancel_enrolls driven_start(1)])

text \<open>
  Also shown: whatever a client asks for, the service changes the pool only by steps of the pool's own machine, so
  that every property of the runs of the pool holds for the pool behind the service.
\<close>

theorem service_refines_pool:
  "\<exists>ls. pool_run start err (is_pool s) ls (is_pool (snd (idm_serve e q s)))"
proof -
  note cancels = driven_trans [OF driven_cancel_enrolls]
  have "driven (is_pool s) (is_pool (snd (idm_serve e q s)))"
  proof (cases q)
    case (OpenSessionRequest u c)
    then show ?thesis by (auto simp: Idm_OpenSession_def Let_def driven_cancel_enrolls split: prod.split)
  next
    case (CloseSessionRequest u)
    then show ?thesis by (simp add: Idm_CloseSession_def Let_def)
  next
    case (GetCredentialInfoRequest u t cb)
    then show ?thesis by (auto simp: GetCredentialInfoImpl_def Let_def split: prod.split)
  next
    case (GetCredentialInfoSyncRequest u t infos)
    then show ?thesis by (auto simp: GetCredentialInfoSync_def Let_def split: prod.split)
  next
    case (GetSecInfoRequest u cb)
    then show ?thesis by (auto simp: Idm_GetSecInfo_def Let_def split: prod.split)
  next
    case (AddCredentialRequest u p cb)
    then show ?thesis by (simp add: driven_add)
  next
    case (UpdateCredentialRequest u p cb)
    then show ?thesis by (auto simp: Idm_UpdateCredential_def driven_add split: prod.split)
  next
    case (CancelRequest u)
    then show ?thesis by (simp add: Idm_Cancel_def Let_def driven_cancels)
  next
    case (EnforceDelUserRequest u cb)
    then show ?thesis
      by (cases cb) (auto simp: Idm_EnforceDelUser_def Let_def driven_cancel_enrolls enforce_inner(2,4)
          simp del: CheckPermission.simps split: prod.split)
  next
    case (DelUserRequest u token cb)
    then show ?thesis
      by (cases cb) (auto simp: Idm_DelUser_def Let_def driven_cancel_enrolls
          simp del: CheckPermission.simps split: prod.split)
  next
    case (DelCredentialRequest u i token cb)
    then show ?thesis
      by (cases cb) (auto simp: Idm_DelCredential_def Let_def driven_answer simp del: CheckPermission.simps
          intro!: cancels [OF driven_start(2)])
  next
    case (DeleteSubProfileRequest u i cb)
    then show ?thesis by (auto simp: Idm_DeleteSubProfile_def Let_def split: prod.split)
  next
    case (ClearRedundancyCredentialRequest cb)
    then show ?thesis
      by (cases cb) (auto simp: Idm_ClearRedundancyCredential_def Let_def driven_answer driven_cancel_enrolls
          clear_inner_pool simp del: CheckPermission.simps split: prod.split)
  qed (simp_all add: Idm_RegistCredChangeEventListener_def Idm_UnRegistCredChangeEventListener_def)
  then show ?thesis by (simp add: driven_def)
qed

section \<open>An enrollment can be taken back\<close>

lemma enroll_view_simps [simp]:
  "cx_contextType (enroll_view t c) = CONTEXT_ENROLL" "cx_contextId (enroll_view t c) = bc_contextId c"
  "cx_tokenId (enroll_view t c) = Enroll_GetTokenId c"
  by (simp_all add: enroll_view_def)

lemma idm_cancels_own:
  assumes "CheckPermission (im_caller e) MANAGE_USER_IDM_PERMISSION"
    and "ctx \<in> set (SelectByType CONTEXT_ENROLL (is_pool s))" "cx_tokenId ctx = GetAccessTokenId (im_caller e)"
  shows "fst (Idm_Cancel e u s) = SUCCESS"
    and "cx_contextId ctx \<in> cp_cancelRequested (is_pool (snd (Idm_Cancel e u s)))"
proof -
  have "filter (\<lambda>c. GetAccessTokenId (im_caller e) = cx_tokenId c) (SelectByType CONTEXT_ENROLL (is_pool s)) \<noteq> []"
    using assms(2) assms(3) [symmetric] by (auto simp: filter_empty_conv)
  then show "fst (Idm_Cancel e u s) = SUCCESS" using assms(1) by (simp add: Idm_Cancel_def Let_def del: CheckPermission.simps)
  show "cx_contextId ctx \<in> cp_cancelRequested (is_pool (snd (Idm_Cancel e u s)))"
    using assms by (simp add: Idm_Cancel_def Let_def cancels_requested del: CheckPermission.simps)
qed

text \<open>
  Also shown: when the service accepts an enrollment, the pool holds a context of it that belongs to the caller's
  token, and the same caller can take it back: a cancel request then succeeds and marks that very context.
\<close>

theorem enroll_cancellable:
  assumes "pool_run start err initial_pool ls (is_pool s)"
    and "Idm_AddCredential e u p cb upd s = (SUCCESS, s1)" "im_caller e' = im_caller e"
  shows "\<exists>c sub cb. is_outputs s1 = is_outputs s @ [IdmEnrollContext c sub cb] \<and> Enroll_GetUserId c = u \<and>
    fst (Idm_Cancel e' v s1) = SUCCESS \<and> bc_contextId c \<in> cp_cancelRequested (is_pool (snd (Idm_Cancel e' v s1)))"
proof -
  let ?s = "CancelCurrentEnrollIfExist s"
  have perm: "CheckPermission (im_caller e) MANAGE_USER_IDM_PERMISSION" and cb
    using assms(2) by (cases cb; auto simp: Idm_AddCredential_def Let_def simp del: CheckPermission.simps split: if_splits)+
  define para where "para = \<lparr>en_userId = u, en_authType = icp_authType p, en_pinType = icp_pinType p,
    en_isUpdate = upd, en_tokenId = GetAccessTokenId (im_caller e), en_token = icp_token p,
    en_callerName = caller_name e, en_sdkVersion = 10000, en_callerType = caller_type e,
    en_additionalInfo = icp_additionalInfo p\<rparr>"
  have para: "en_userId para = u" "en_tokenId para = GetAccessTokenId (im_caller e)" by (simp_all add: para_def)
  obtain contextCallback sub where start: "StartEnroll e para contextCallback sub ?s = (SUCCESS, s1)"
    using assms(2) perm \<open>cb\<close>
    by (simp add: Idm_AddCredential_def Let_def para_def [symmetric] del: CheckPermission.simps)
  obtain c where c: "CreateEnrollContext (GetNewContextId (im_draws e) (is_pool ?s)) para True = Some c"
    by (simp add: CreateEnrollContext_def Let_def)
  obtain q where q: "Pool_Schedule (Some (enroll_view (im_createTime e) c)) (is_pool ?s) = (True, q)"
    and s1: "is_pool s1 = q" "\<exists>cb. is_outputs s1 = is_outputs ?s @ [IdmEnrollContext c sub cb]"
    using start c by (auto simp: StartEnroll_def Let_def idm_emit_def split: prod.splits if_splits)
  obtain ls' where "pool_run start err (is_pool s) ls' (is_pool ?s)"
    using driven_cancel_enrolls [of s] by (auto simp: driven_def)
  then have "pool_inv (is_pool ?s)" using pool_run_append [OF _ assms(1)] pool_reach_inv by blast
  from scheduled_member [OF this q]
  have "enroll_view (im_createTime e) c \<in> set (SelectByType CONTEXT_ENROLL (is_pool s1))" using s1(1) by simp
  note own = idm_cancels_own [OF perm [folded assms(3)] this]
  have "Enroll_GetUserId c = u" "Enroll_GetTokenId c = GetAccessTokenId (im_caller e)" using created_enroll [OF c] para by auto
  then show ?thesis using own s1(2) assms(3) by (auto simp: CancelCurrentEnrollIfExist_def)
qed

section \<open>What is deleted and what is shown\<close>

definition enforced :: "idm_service \<Rightarrow> i32 list" where
  "enforced s = concat (map (\<lambda>x. case x of IdmEnforceDeleteUser u \<Rightarrow> [u] | _ \<Rightarrow> []) (is_outputs s))"

lemma enforced_simps [simp]:
  "enforced (idm_emit ys s) = enforced s @ concat (map (\<lambda>x. case x of IdmEnforceDeleteUser u \<Rightarrow> [u] | _ \<Rightarrow> []) ys)"
  "enforced (post_process e u infos reason t info s) = enforced s"
  "enforced (CancelCurrentEnrollIfExist s) = enforced s"
  by (simp_all add: enforced_def idm_emit_def post_process_def CancelCurrentEnrollIfExist_def split: prod.split)

lemma enforced_callbacks [simp]:
  "concat (map ((\<lambda>x. case x of IdmEnforceDeleteUser u \<Rightarrow> [u] | _ \<Rightarrow> []) \<circ> IdmCallback) ys) = []"
  "concat (map ((\<lambda>x. case x of IdmEnforceDeleteUser u \<Rightarrow> [u] | _ \<Rightarrow> []) \<circ> IdmDummy) ys) = []"
  by simp_all

lemma enforced_answer [simp]: "enforced (answer e cb r a s) = enforced s"
  by (simp add: answer_def cleaned_def enforced_def idm_emit_def split: option.split)

lemma enforced_clear_users:
  "enforced (clear_users e accts n t infos s) = enforced s @ filter (\<lambda>u. u \<notin> set accts) (map ui_userId infos)"
proof (induction infos arbitrary: s)
  case (Cons i infos)
  then show ?case by (simp add: Let_def EnforceDelUserInner_def split: prod.split)
qed simp

text \<open>
  Also shown: clearing redundant credentials enforces the deletion of exactly those users of the engine that have
  no account, once each and in the order of the engine.
\<close>

theorem redundancy_exact:
  assumes "CheckPermission (im_caller e) CLEAR_REDUNDANCY_PERMISSION"
    and "cl_allUsers (im_caller e) = Some accts" and "GetAllExtUserInfo (im_users e) [] = (SUCCESS, infos)"
  shows "enforced (snd (Idm_ClearRedundancyCredential e True s)) =
    enforced s @ filter (\<lambda>u. u \<notin> set accts) (map ui_userId infos)"
  using assms by (simp add: Idm_ClearRedundancyCredential_def ClearRedundancyCredentialInner_def GetAllUserId_def
      Let_def enforced_clear_users del: CheckPermission.simps)

definition expired :: "ipc_credential_info \<Rightarrow> bool" where
  "expired i \<longleftrightarrow> ic_isAbandoned i \<and> ic_validityPeriod i = 0"

lemma visible_infos_eq:
  "visible_infos infos = (filter (\<lambda>i. \<not> expired i) infos, list_ex expired infos)"
  by (induction infos) (auto simp: expired_def)

text \<open>
  Also shown: a query shows exactly the enrolled credentials of the user and type that are not abandoned and
  expired; when there are such credentials, and only then, it has them cleared away after the answer.
\<close>

theorem expired_hidden:
  assumes "CheckPermission (im_caller e) USE_USER_IDM_PERMISSION"
    and "GetCredentialInfo (ue_getCredential (im_users e)) u t [] = (SUCCESS, infos)" "infos \<noteq> []"
  shows "GetCredentialInfoImpl e u t True s =
    (SUCCESS,
     (if \<exists>i \<in> set infos. ci_isAbandoned i \<and> ci_validityPeriod i = 0 then Idm_ClearUnavailableCredential e u else (\<lambda>s. s))
       (idm_emit [IdmCredentialInfos SUCCESS
          (map ipc_info (filter (\<lambda>i. \<not> (ci_isAbandoned i \<and> ci_validityPeriod i = 0)) infos))] s))"
proof -
  have "expired (ipc_info i) \<longleftrightarrow> ci_isAbandoned i \<and> ci_validityPeriod i = 0" for i
    by (simp add: expired_def ipc_info_def)
  then show ?thesis
    using assms by (auto simp: GetCredentialInfoImpl_def GetCredentialInfoInner_def visible_infos_eq filter_map comp_def
        list_ex_iff Let_def simp del: CheckPermission.simps cong: filter_cong)
qed

section \<open>Witnesses\<close>

text \<open>
  A native caller with every permission but that of the account manager, for whom all three users of the engine are
  known of whom one has an account, and one who has no permission at all.
\<close>

definition w_idm_caller :: caller where
  "w_idm_caller = \<lparr>cl_firstTokenId = 0, cl_callingTokenId = 5, cl_callingUid = 3058, cl_fullTokenId = 5,
     cl_TOKEN_HAP = 0, cl_TOKEN_NATIVE = 1, cl_verifyAccessToken = (\<lambda>_ _. True), cl_tokenType = (\<lambda>_. 1),
     cl_hapTokenInfo = (\<lambda>_. None), cl_nativeProcessName = (\<lambda>_. Some [7]), cl_isSystemApp = (\<lambda>_. False),
     cl_foregroundUser = None, cl_activeUsers = None, cl_allUsers = Some [100], cl_accountType = (\<lambda>_. None),
     cl_PRIVATE = 0, cl_foregroundApps = None, cl_signature = (\<lambda>_. None), cl_accountVerified = (\<lambda>_. None)\<rparr>"

definition w_stranger :: caller where
  "w_stranger = w_idm_caller\<lparr>cl_verifyAccessToken := \<lambda>_ _. False\<rparr>"

definition w_idm_env :: idm_env where
  "w_idm_env = \<lparr>im_caller = w_idm_caller, im_openSession = (\<lambda>_. (SUCCESS, [171, 5, 9])), im_closeSession = (\<lambda>_. SUCCESS),
     im_users = w_user_engine\<lparr>ue_getCredential := \<lambda>_ _. (SUCCESS, [w_cred 7, (w_cred 8)\<lparr>ci_isAbandoned := True, ci_validityPeriod := 0\<rparr>]),
       ue_getAllExtUserInfo := (SUCCESS, [(99, \<lparr>eu_secureUid = 1, eu_pinSubType = 0, eu_enrolledInfos = []\<rparr>),
         (100, \<lparr>eu_secureUid = 2, eu_pinSubType = 0, eu_enrolledInfos = []\<rparr>)])\<rparr>,
     im_deleteSubProfile = (\<lambda>_ _. (SUCCESS, [])), im_json = (\<lambda>_ _. None), im_draws = (\<lambda>_. Some 77), im_createTime = 1,
     im_callback = \<lparr>ce_timePoint = 0, ce_now = 0, ce_later = 0, ce_notifiers = [Some 0], ce_tip = (\<lambda>_. None)\<rparr>,
     im_ipc = (\<lambda>_ _ _. SUCCESS), im_executors = w_pool, im_regist = SUCCESS, im_unRegist = SUCCESS\<rparr>"

definition w_idm :: idm_service where
  "w_idm = \<lparr>is_sessionTokenId = None, is_publisher = publisher_new, is_pool = initial_pool, is_outputs = []\<rparr>"

definition w_idm_para :: ipc_credential_para where
  "w_idm_para = \<lparr>icp_authType = 1, icp_pinType = 0, icp_token = [], icp_additionalInfo = []\<rparr>"

lemma w_idm_permissions:
  "CheckPermission w_idm_caller MANAGE_USER_IDM_PERMISSION" "CheckPermission w_idm_caller USE_USER_IDM_PERMISSION"
  "CheckPermission w_idm_caller CLEAR_REDUNDANCY_PERMISSION" "\<not> CheckPermission w_idm_caller ENFORCE_USER_IDM"
  "\<not> CheckPermission w_stranger MANAGE_USER_IDM_PERMISSION"
  by (simp_all add: w_idm_caller_def w_stranger_def CheckDirectCallerAndFirstCallerIfSet_def CheckDirectCaller_def
      CheckNativeCallingProcessWhiteList_def GetWhiteLists_def GetTokenId_def Let_def)

lemma answered_exactly_once_witness:
  "answered (snd (idm_serve w_idm_env (DelUserRequest 100 [] True) w_idm)) = 1"
  using answered_exactly_once [of "DelUserRequest 100 [] True" w_idm_env w_idm] by (simp add: answered_def w_idm_def)

lemma w_idm_added:
  "fst (Idm_AddCredential w_idm_env 100 w_idm_para True False w_idm) = SUCCESS"
proof -
  have p: "CheckPermission w_idm_caller MANAGE_USER_IDM_PERMISSION" "im_caller w_idm_env = w_idm_caller"
    by (simp_all add: w_idm_permissions w_idm_env_def del: CheckPermission.simps)
  have "is_pool (CancelCurrentEnrollIfExist w_idm) = initial_pool"
    by (simp add: CancelCurrentEnrollIfExist_def SelectByType_def w_idm_def initial_pool_def)
  then show ?thesis
    using p by (simp add: Idm_AddCredential_def StartEnroll_def CreateEnrollContext_def Pool_Schedule_def
        SelectLocked_def initial_pool_def MAX_CONTEXT_NUM_def Let_def del: CheckPermission.simps)
qed

lemma enroll_cancellable_witness:
  "\<exists>s1. Idm_AddCredential w_idm_env 100 w_idm_para True False w_idm = (SUCCESS, s1) \<and>
     fst (Idm_Cancel w_idm_env 100 s1) = SUCCESS"
proof -
  obtain s1 where s1: "Idm_AddCredential w_idm_env 100 w_idm_para True False w_idm = (SUCCESS, s1)"
    using w_idm_added by (metis prod.collapse)
  have "pool_run (\<lambda>_ _. True) (\<lambda>_ _. 0) initial_pool [] (is_pool w_idm)" by (simp add: w_idm_def run_nil)
  from enroll_cancellable [OF this s1 refl, of 100] show ?thesis using s1 by auto
qed

lemma redundancy_exact_witness:
  "enforced (snd (Idm_ClearRedundancyCredential w_idm_env True w_idm)) = [99]"
proof -
  have c: "im_caller w_idm_env = w_idm_caller" by (simp add: w_idm_env_def)
  have infos: "GetAllExtUserInfo (im_users w_idm_env) [] =
      (SUCCESS, [\<lparr>ui_userId = 99, ui_userInfo = \<lparr>eu_secureUid = 1, eu_pinSubType = 0, eu_enrolledInfos = []\<rparr>\<rparr>,
        \<lparr>ui_userId = 100, ui_userInfo = \<lparr>eu_secureUid = 2, eu_pinSubType = 0, eu_enrolledInfos = []\<rparr>\<rparr>])"
    by (simp add: w_idm_env_def GetAllExtUserInfo_def)
  have "cl_allUsers (im_caller w_idm_env) = Some [100]" by (simp add: c w_idm_caller_def)
  from redundancy_exact [OF w_idm_permissions(3) [folded c] this infos, of w_idm] show ?thesis
    by (simp add: enforced_def w_idm_def)
qed

lemma expired_hidden_witness:
  "fst (GetCredentialInfoImpl w_idm_env 100 1 True w_idm) = SUCCESS \<and>
   IdmClearUnavailable 100 \<in> set (is_outputs (snd (GetCredentialInfoImpl w_idm_env 100 1 True w_idm)))"
proof -
  have c: "im_caller w_idm_env = w_idm_caller" by (simp add: w_idm_env_def)
  have infos: "GetCredentialInfo (ue_getCredential (im_users w_idm_env)) 100 1 [] =
      (SUCCESS, [CredentialInfoImpl 100 (w_cred 7), CredentialInfoImpl 100 ((w_cred 8)\<lparr>ci_isAbandoned := True, ci_validityPeriod := 0\<rparr>)])"
    by (simp add: w_idm_env_def GetCredentialInfo_def)
  from expired_hidden [OF w_idm_permissions(2) [folded c] infos, of w_idm] show ?thesis
    by (simp add: CredentialInfoImpl_def Idm_ClearUnavailableCredential_def idm_emit_def Let_def split: prod.split)
qed

end
