(* ===== verification/User_Idm_Gate.thy ===== *)
theory User_Idm_Gate
  imports User_Idm_Properties
begin

text \<open>
  What a caller without the permission gets from the service that manages credentials, with the codes and the output
  parameters of every request. One request tells more than a failure, \<^verbatim>\<open>UpdateCredential\<close>; what it tells is stated too.
\<close>

section \<open>Requests with everything they return\<close>

datatype idm_out =
    IdmNoOut
  | ChallengeOut bytes
  | CredentialsOut "ipc_credential_info list"
  | TimeOut "u64 option"

text \<open>The code, the output parameter and the state after a request. \<open>TimeOut None\<close> is a time that was not written.\<close>

fun idm_reply :: "idm_env \<Rightarrow> idm_request \<Rightarrow> idm_service \<Rightarrow> i32 \<times> idm_out \<times> idm_service" where
  "idm_reply e (OpenSessionRequest u c) s = (case Idm_OpenSession e u c s of (r, c, s) \<Rightarrow> (r, ChallengeOut c, s))"
| "idm_reply e (GetCredentialInfoSyncRequest u t infos) s =
     (case GetCredentialInfoSync e u t infos s of (r, infos, s) \<Rightarrow> (r, CredentialsOut infos, s))"
| "idm_reply e (GetLatestEnrollmentTimeRequest u t) s =
     (case Idm_GetLatestEnrollmentTime e u t of (r, time) \<Rightarrow> (r, TimeOut time, s))"
| "idm_reply e q s = (case idm_serve e q s of (r, s) \<Rightarrow> (r, IdmNoOut, s))"

fun idm_given_out :: "idm_request \<Rightarrow> idm_out" where
  "idm_given_out (OpenSessionRequest u c) = ChallengeOut c"
| "idm_given_out (GetCredentialInfoSyncRequest u t infos) = CredentialsOut infos"
| "idm_given_out (GetLatestEnrollmentTimeRequest u t) = TimeOut None"
| "idm_given_out _ = IdmNoOut"

text \<open>What \<^verbatim>\<open>UpdateCredential\<close> looks up before it checks the caller: whether the lookup worked, and found nothing.\<close>

definition looked_up :: "idm_env \<Rightarrow> i32 \<Rightarrow> i32 \<Rightarrow> bool \<times> bool" where
  "looked_up e userId authType =
     (case GetCredentialInfo (ue_getCredential (im_users e)) userId authType [] of
        (ret, credInfos) \<Rightarrow> (ret = SUCCESS, credInfos = []))"

section \<open>Two services side by side\<close>

definition idm_alike :: "idm_out \<Rightarrow> idm_service \<Rightarrow> i32 \<times> idm_out \<times> idm_service \<Rightarrow>
  idm_service \<Rightarrow> i32 \<times> idm_out \<times> idm_service \<Rightarrow> bool" where
  "idm_alike x s r s' r' \<longleftrightarrow>
     fst r' = fst r \<and> fst (snd r) = x \<and> fst (snd r') = x \<and>
     (\<exists>ys ys'. snd (snd r) = s\<lparr>is_outputs := is_outputs s @ ys\<rparr> \<and> snd (snd r') = s'\<lparr>is_outputs := is_outputs s' @ ys'\<rparr> \<and>
        list_all refusal ys \<and> list_all refusal ys' \<and> filter gives_answer ys' = filter gives_answer ys \<and>
        (fst r = SUCCESS \<longrightarrow> filter gives_answer ys \<noteq> []))"

lemma idm_alike_silent [intro]: "k \<noteq> SUCCESS \<Longrightarrow> idm_alike x s (k, x, s) s' (k, x, s')"
  unfolding idm_alike_def by (intro conjI exI [of _ "[]"]) simp_all

lemma idm_alike_emit:
  "list_all refusal ys \<Longrightarrow> filter gives_answer ys \<noteq> [] \<Longrightarrow> idm_alike x s (k, x, idm_emit ys s) s' (k, x, idm_emit ys s')"
  unfolding idm_alike_def by (intro conjI exI [of _ ys]) (simp_all add: idm_emit_def)

lemma idm_alike_tell:
  "r \<noteq> SUCCESS \<Longrightarrow> idm_alike x s (k, x, tell r Attributes_new s) s' (k, x, tell r Attributes_new s')"
  unfolding tell_def by (rule idm_alike_emit) simp_all

lemma idm_refusal_outputs:
  assumes "new_callback t cb" "t \<notin> {TRACE_AUTH_USER_ALL, TRACE_AUTH_USER_BEHAVIOR}" "cb_cleaner cb = None" "r \<noteq> SUCCESS"
  shows "\<exists>ys. answer e cb r Attributes_new s = s\<lparr>is_outputs := is_outputs s @ ys\<rparr> \<and> list_all refusal ys \<and>
    filter gives_answer ys = [IdmCallback (ClientResult r [])]"
proof -
  obtain m where m: "md_operationResult m = r"
    "answer_outputs (im_callback e) cb r Attributes_new =
       ClientResult r [] # NotifyListener_Process (ce_notifiers (im_callback e)) m False"
    using answer_outputs_shape [OF assms(1) disjI1 [OF assms(2)], of r "im_callback e" Attributes_new] assms(3) by auto
  let ?ys = "map IdmCallback (answer_outputs (im_callback e) cb r Attributes_new)"
  have "answer e cb r Attributes_new s = s\<lparr>is_outputs := is_outputs s @ ?ys\<rparr>"
    using assms(3) by (simp add: answer_def cleaned_def idm_emit_def)
  moreover have "list_all refusal ?ys" "filter gives_answer ?ys = [IdmCallback (ClientResult r [])]"
    using m assms(4) by (auto simp: NotifyListener_Process_def list_all_iff filter_empty_conv)
  ultimately show ?thesis by blast
qed

lemma idm_alike_answer:
  assumes "new_callback t cb" "cb_cleaner cb = None" "new_callback t cb'" "cb_cleaner cb' = None"
    and "t \<notin> {TRACE_AUTH_USER_ALL, TRACE_AUTH_USER_BEHAVIOR}" "r \<noteq> SUCCESS" "k \<noteq> SUCCESS"
  shows "idm_alike x s (k, x, answer e cb r Attributes_new s) s' (k, x, answer e' cb' r Attributes_new s')"
proof -
  obtain ys where "answer e cb r Attributes_new s = s\<lparr>is_outputs := is_outputs s @ ys\<rparr>"
    "list_all refusal ys" "filter gives_answer ys = [IdmCallback (ClientResult r [])]"
    using idm_refusal_outputs [OF assms(1,5,2,6), of e s] by blast
  moreover obtain ys' where "answer e' cb' r Attributes_new s' = s'\<lparr>is_outputs := is_outputs s' @ ys'\<rparr>"
    "list_all refusal ys'" "filter gives_answer ys' = [IdmCallback (ClientResult r [])]"
    using idm_refusal_outputs [OF assms(3,5,4,6), of e' s'] by blast
  ultimately show ?thesis using assms(7) unfolding idm_alike_def by (intro conjI exI [of _ ys] exI [of _ ys']) simp_all
qed

lemmas idm_queries_def = Idm_OpenSession_def Idm_CloseSession_def GetCredentialInfoImpl_def GetCredentialInfoSync_def
  GetCredentialInfoInner_def ConvertGetCredentialResult_def Idm_GetSecInfo_def GetSecInfoInner_def
  Idm_GetLatestEnrollmentTime_def Idm_Cancel_def Idm_DeleteSubProfile_def Idm_RegistCredChangeEventListener_def
  Idm_UnRegistCredChangeEventListener_def

lemma add_alike:
  assumes "\<not> CheckPermission (im_caller e) MANAGE_USER_IDM_PERMISSION" "im_caller e' = im_caller e"
  shows "idm_alike IdmNoOut s (case Idm_AddCredential e u p cb upd s of (r, s) \<Rightarrow> (r, IdmNoOut, s))
    s' (case Idm_AddCredential e' u p cb upd s' of (r, s) \<Rightarrow> (r, IdmNoOut, s))"
  using assms by (cases cb) (auto simp: Idm_AddCredential_def Let_def simp del: CheckPermission.simps
      intro!: idm_alike_silent idm_alike_answer [where t = "if upd then TRACE_UPDATE_CREDENTIAL else TRACE_ADD_CREDENTIAL"])

lemma update_alike:
  assumes "\<not> CheckPermission (im_caller e) MANAGE_USER_IDM_PERMISSION" "im_caller e' = im_caller e"
    and "looked_up e' u (icp_authType p) = looked_up e u (icp_authType p)"
  shows "idm_alike IdmNoOut s (idm_reply e (UpdateCredentialRequest u p cb) s)
    s' (idm_reply e' (UpdateCredentialRequest u p cb) s')"
  using assms add_alike [OF assms(1,2), of s u p True True s']
  by (auto simp: Idm_UpdateCredential_def looked_up_def simp del: CheckPermission.simps
      intro!: idm_alike_silent idm_alike_tell split: prod.splits)

lemma delete_alike:
  assumes "\<not> CheckPermission (im_caller e) MANAGE_USER_IDM_PERMISSION" "im_caller e' = im_caller e"
  shows "idm_alike IdmNoOut s (idm_reply e (DelUserRequest u token cb) s) s' (idm_reply e' (DelUserRequest u token cb) s')"
    and "idm_alike IdmNoOut s (idm_reply e (DelCredentialRequest u i token cb) s)
      s' (idm_reply e' (DelCredentialRequest u i token cb) s')"
  using assms by (cases cb; auto simp: Idm_DelUser_def Let_def simp del: CheckPermission.simps
      intro!: idm_alike_silent idm_alike_answer [where t = TRACE_DELETE_USER])
    (use assms in \<open>cases cb; auto simp: Idm_DelCredential_def Let_def simp del: CheckPermission.simps
      intro!: idm_alike_silent idm_alike_answer [where t = TRACE_DELETE_CREDENTIAL]\<close>)

lemma enforce_alike:
  assumes "\<not> CheckPermission (im_caller e) ENFORCE_USER_IDM" "im_caller e' = im_caller e"
  shows "idm_alike IdmNoOut s (idm_reply e (EnforceDelUserRequest u cb) s) s' (idm_reply e' (EnforceDelUserRequest u cb) s')"
  using assms by (cases cb) (auto simp: Idm_EnforceDelUser_def Let_def simp del: CheckPermission.simps
      intro!: idm_alike_silent idm_alike_answer [where t = TRACE_ENFORCE_DELETE_USER])

lemma redundancy_alike:
  assumes "\<not> CheckPermission (im_caller e) CLEAR_REDUNDANCY_PERMISSION" "im_caller e' = im_caller e"
  shows "idm_alike IdmNoOut s (idm_reply e (ClearRedundancyCredentialRequest cb) s)
    s' (idm_reply e' (ClearRedundancyCredentialRequest cb) s')"
  using assms by (cases cb) (auto simp: Idm_ClearRedundancyCredential_def Let_def simp del: CheckPermission.simps
      intro!: idm_alike_silent idm_alike_answer [where t = TRACE_DELETE_REDUNDANCY])

text \<open>
  Property C26: a caller without the permission learns nothing from the service that manages credentials and changes
  nothing. The same request of the same caller to two services that may differ in everything else, the state, the
  engine and the executors, returns the same code, leaves the output parameter (challenge, credentials, time of the
  latest enrollment) as it was handed in, tells the same answers, all of them failures without content, and changes
  nothing but the log; and where the code itself is SUCCESS, a callback was told the failure. One exception is the
  code's: \<^verbatim>\<open>UpdateCredential\<close> looks the credentials up first, so the two services must agree there on whether the lookup
  works and whether it finds nothing.
\<close>

theorem permission_gate:
  assumes "\<not> CheckPermission (im_caller e) (needed_permission q)" "im_caller e' = im_caller e"
    and "\<And>u p cb. q = UpdateCredentialRequest u p cb \<Longrightarrow> looked_up e' u (icp_authType p) = looked_up e u (icp_authType p)"
    and "idm_reply e q s = (code, out, t)" "idm_reply e' q s' = (code', out', t')"
  shows "code' = code \<and> out = idm_given_out q \<and> out' = idm_given_out q \<and>
    (\<exists>ys ys'. t = s\<lparr>is_outputs := is_outputs s @ ys\<rparr> \<and> t' = s'\<lparr>is_outputs := is_outputs s' @ ys'\<rparr> \<and>
       list_all refusal ys \<and> list_all refusal ys' \<and> filter gives_answer ys' = filter gives_answer ys \<and>
       (code = SUCCESS \<longrightarrow> filter gives_answer ys \<noteq> []))"
proof -
  have "idm_alike (idm_given_out q) s (idm_reply e q s) s' (idm_reply e' q s')"
  proof (cases q)
    case (AddCredentialRequest u p cb)
    then show ?thesis using assms(1,2) add_alike [of e e' s u p cb False s'] by simp
  next
    case (UpdateCredentialRequest u p cb)
    then show ?thesis
      using assms(1,2) assms(3) [OF UpdateCredentialRequest] update_alike [of e e' u p s cb s']
      by (simp del: idm_reply.simps CheckPermission.simps)
  next
    case (DelUserRequest u token cb)
    then show ?thesis using assms(1,2) delete_alike(1) [of e e' s u token cb s'] by (simp del: idm_reply.simps CheckPermission.simps)
  next
    case (DelCredentialRequest u i token cb)
    then show ?thesis using assms(1,2) delete_alike(2) [of e e' s u i token cb s'] by (simp del: idm_reply.simps CheckPermission.simps)
  next
    case (EnforceDelUserRequest u cb)
    then show ?thesis using assms(1,2) enforce_alike [of e e' s u cb s'] by (simp del: idm_reply.simps CheckPermission.simps)
  next
    case (ClearRedundancyCredentialRequest cb)
    then show ?thesis using assms(1,2) redundancy_alike [of e e' s cb s'] by (simp del: idm_reply.simps CheckPermission.simps)
  qed (use assms(1,2) in
      \<open>auto simp: idm_queries_def simp del: CheckPermission.simps intro!: idm_alike_silent idm_alike_emit idm_alike_tell\<close>)
  then show ?thesis unfolding idm_alike_def assms(4,5) by simp
qed

text \<open>
  Also shown: the exception is real. A caller without any permission is answered \<open>NOT_ENROLLED\<close> when the user has no
  credential of the type, and \<open>CHECK_PERMISSION_FAILED\<close> as the code of the request when there is one.
\<close>

theorem update_tells_enrollment:
  assumes "\<not> CheckPermission (im_caller e) MANAGE_USER_IDM_PERMISSION"
    and "looked_up e u (icp_authType p) = (True, none)"
  shows "fst (idm_reply e (UpdateCredentialRequest u p True) s) = (if none then SUCCESS else CHECK_PERMISSION_FAILED)"
  using assms by (auto simp: Idm_UpdateCredential_def looked_up_def Idm_AddCredential_def Let_def
      simp del: CheckPermission.simps split: prod.splits)

section \<open>A caller without permissions\<close>

text \<open>Two services whose engines know different credentials and that are in different sessions refuse the query alike.\<close>

lemma permission_gate_witness:
  "idm_reply (w_idm_env\<lparr>im_caller := w_stranger\<rparr>) (GetCredentialInfoSyncRequest 100 1 []) w_idm =
     (CHECK_PERMISSION_FAILED, CredentialsOut [], w_idm) \<and>
   (\<exists>t'. idm_reply (w_idm_env\<lparr>im_caller := w_stranger, im_users := (im_users w_idm_env)\<lparr>ue_getCredential := \<lambda>_ _. (GENERAL_ERROR, [])\<rparr>\<rparr>)
      (GetCredentialInfoSyncRequest 100 1 []) (w_idm\<lparr>is_sessionTokenId := Some 9\<rparr>) =
        (CHECK_PERMISSION_FAILED, CredentialsOut [], t') \<and>
      is_sessionTokenId t' = Some 9)"
proof -
  let ?e = "w_idm_env\<lparr>im_caller := w_stranger\<rparr>" and ?q = "GetCredentialInfoSyncRequest 100 1 []"
  let ?e' = "w_idm_env\<lparr>im_caller := w_stranger, im_users := (im_users w_idm_env)\<lparr>ue_getCredential := \<lambda>_ _. (GENERAL_ERROR, [])\<rparr>\<rparr>"
  have refused: "\<not> CheckPermission (im_caller ?e) (needed_permission ?q)"
    by (simp add: w_stranger_def w_idm_caller_def CheckDirectCallerAndFirstCallerIfSet_def GetTokenId_def Let_def)
  have reply: "idm_reply ?e ?q w_idm = (CHECK_PERMISSION_FAILED, CredentialsOut [], w_idm)"
    using refused by (simp add: idm_queries_def del: CheckPermission.simps)
  obtain code' out' t' where reply': "idm_reply ?e' ?q (w_idm\<lparr>is_sessionTokenId := Some 9\<rparr>) = (code', out', t')"
    by (metis prod_cases3)
  have same: "im_caller ?e' = im_caller ?e" by simp
  from permission_gate [OF refused same _ reply reply'] reply reply' show ?thesis by auto
qed

end
