(* ===== verification/User_Auth_Helper.thy ===== *)
theory User_Auth_Helper
  imports Iam_Prelude
begin

text \<open>
  The helpers that clients and the service share, \<^verbatim>\<open>frameworks/common/src/user_auth_helper.cpp\<close>: result codes for
  the versions of the public interface, checks of enumerators, and the count of displayed characters of a text in
  UTF-8. Signed comparisons are written with \<open>sint\<close>; the addition wraps, after the guard that excludes it.
\<close>

unbundle bit_operations_syntax

section \<open>Data\<close>

record reuse_unlock_result =
  ru_isReuse :: bool
  ru_reuseMode :: u32
  ru_reuseDuration :: u64

abbreviation (input) TRUST_LEVEL_NOT_SUPPORT :: i32 where "TRUST_LEVEL_NOT_SUPPORT \<equiv> 6"
abbreviation (input) CANCELED_FROM_WIDGET :: i32 where "CANCELED_FROM_WIDGET \<equiv> 11"
abbreviation (input) HARDWARE_NOT_SUPPORTED :: i32 where "HARDWARE_NOT_SUPPORTED \<equiv> 12"
abbreviation (input) PIN_EXPIRED :: i32 where "PIN_EXPIRED \<equiv> 13"
abbreviation (input) REUSE_AUTH_RESULT_FAILED :: i32 where "REUSE_AUTH_RESULT_FAILED \<equiv> 17"
abbreviation (input) CHECK_SYSTEM_APP_FAILED :: i32 where "CHECK_SYSTEM_APP_FAILED \<equiv> 1007"
abbreviation (input) COMPANION_DEVICE :: i32 where "COMPANION_DEVICE \<equiv> 64"
abbreviation (input) CUSTOM_AUTH :: i32 where "CUSTOM_AUTH \<equiv> 128"
abbreviation (input) ENTERPRISE_ACCOUNT :: i32 where "ENTERPRISE_ACCOUNT \<equiv> 1024"
abbreviation (input) ATL1 :: u32 where "ATL1 \<equiv> 10000"
abbreviation (input) ATL2 :: u32 where "ATL2 \<equiv> 20000"
abbreviation (input) ATL3 :: u32 where "ATL3 \<equiv> 30000"
abbreviation (input) ATL4 :: u32 where "ATL4 \<equiv> 40000"
abbreviation (input) MAX_ALLOWABLE_REUSE_DURATION :: u64 where "MAX_ALLOWABLE_REUSE_DURATION \<equiv> 300000"

abbreviation (input) RESULT_CODE_V10_MIN :: i32 where "RESULT_CODE_V10_MIN \<equiv> 12500000"
abbreviation (input) RESULT_CODE_V10_MAX :: i32 where "RESULT_CODE_V10_MAX \<equiv> 12500013"
abbreviation (input) USER_AUTH_GENERAL_ERROR :: i32 where "USER_AUTH_GENERAL_ERROR \<equiv> 12500002"

section \<open>Result codes of the public interface\<close>

definition GetResultCodeV10 :: "i32 \<Rightarrow> i32" where
  "GetResultCodeV10 result =
     (if result = 1005 then 201
      else if result = INVALID_PARAMETERS then 401
      else if result = CHECK_SYSTEM_APP_FAILED then 202
      else if result = HARDWARE_NOT_SUPPORTED then USER_AUTH_GENERAL_ERROR
      else if sint result > 2147483647 - sint RESULT_CODE_V10_MIN then USER_AUTH_GENERAL_ERROR
      else
        let resultCodeV10 = result + RESULT_CODE_V10_MIN
        in if sint resultCodeV10 \<ge> sint RESULT_CODE_V10_MIN \<and> sint resultCodeV10 \<le> sint RESULT_CODE_V10_MAX
           then resultCodeV10 else USER_AUTH_GENERAL_ERROR)"

definition GetResultCodeV20 :: "i32 \<Rightarrow> i32" where
  "GetResultCodeV20 result =
     (if result = INVALID_PARAMETERS then 12500008
      else if result = REUSE_AUTH_RESULT_FAILED then 12500017
      else GetResultCodeV10 result)"

definition GetResultCodeV21 :: "i32 \<Rightarrow> i32" where
  "GetResultCodeV21 result =
     (if result = 5 then 12500005
      else if result = NOT_ENROLLED then 12500010
      else GetResultCodeV20 result)"

section \<open>Checks of enumerators\<close>

definition CheckUserAuthType :: "i32 \<Rightarrow> bool" where
  "CheckUserAuthType authType =
     (if authType \<noteq> PIN \<and> authType \<noteq> FACE \<and> authType \<noteq> FINGERPRINT \<and> authType \<noteq> PRIVATE_PIN \<and>
         authType \<noteq> COMPANION_DEVICE \<and> authType \<noteq> CUSTOM_AUTH
      then False else True)"

definition Helper_CheckAuthTrustLevel :: "u32 \<Rightarrow> bool" where
  "Helper_CheckAuthTrustLevel authTrustLevel =
     (if authTrustLevel \<noteq> ATL1 \<and> authTrustLevel \<noteq> ATL2 \<and> authTrustLevel \<noteq> ATL3 \<and> authTrustLevel \<noteq> ATL4
      then False else True)"

definition Helper_CheckReuseUnlockResult :: "reuse_unlock_result \<Rightarrow> bool" where
  "Helper_CheckReuseUnlockResult r =
     (if ru_reuseMode r \<noteq> 1 \<and> ru_reuseMode r \<noteq> 2 \<and> ru_reuseMode r \<noteq> 3 \<and> ru_reuseMode r \<noteq> 4 then False
      else if ru_reuseDuration r \<le> 0 \<or> ru_reuseDuration r > MAX_ALLOWABLE_REUSE_DURATION then False
      else True)"

section \<open>Displayed characters\<close>

definition utf8_width :: "u8 \<Rightarrow> nat" where
  "utf8_width c =
     (if c AND 0xE0 = 0xC0 then 2 else if c AND 0xF0 = 0xE0 then 3 else if c AND 0xF8 = 0xF0 then 4 else 1)"

lemma utf8_width_bounds: "1 \<le> utf8_width c \<and> utf8_width c \<le> 4"
  by (simp add: utf8_width_def)

text \<open>The loop over the text, on what is left of it from the index on.\<close>

function GetUtf8CharCount :: "bytes \<Rightarrow> nat" where
  "GetUtf8CharCount [] = 0"
| "GetUtf8CharCount (c # cs) = Suc (GetUtf8CharCount (drop (utf8_width c) (c # cs)))"
  by pat_completeness auto

termination
  by (relation "measure length") (use utf8_width_bounds in \<open>auto simp: Suc_le_eq\<close>)

section \<open>What the result codes tell\<close>

lemma sint_add_V10:
  assumes "sint (r :: i32) \<le> 2147483647 - 12500000"
  shows "sint (r + 12500000) = sint r + 12500000"
proof -
  have "- (2 ^ 31) \<le> sint r"
    using sint_ge [of r] by simp
  then have "signed_take_bit 31 (sint r + 12500000) = sint r + 12500000"
    using assms by (intro signed_take_bit_int_eq_self) auto
  then show ?thesis
    by (simp add: sint_word_ariths)
qed

text \<open>Also shown: the version 10 codes: three codes are shared with the operating system, the codes from success to
  an expired PIN are shifted into the public range, and everything else, negative and overflowing codes included, is
  the general error.\<close>

theorem result_code_v10:
  "GetResultCodeV10 r =
     (if r = 1005 then 201 else if r = INVALID_PARAMETERS then 401 else if r = CHECK_SYSTEM_APP_FAILED then 202
      else if sint r \<in> {0 .. 13} - {12} then 12500000 + r else USER_AUTH_GENERAL_ERROR)"
proof (cases "sint r > 2147483647 - 12500000")
  case True
  then show ?thesis
    by (auto simp: GetResultCodeV10_def)
next
  case False
  then have "sint (r + 12500000) = sint r + 12500000"
    using sint_add_V10 [of r] by simp
  moreover have "r = 12 \<longleftrightarrow> sint r = 12"
    using signed_word_eqI [of r 12] by auto
  ultimately show ?thesis
    using False by (auto simp: GetResultCodeV10_def Let_def add.commute)
qed

text \<open>No failure is reported as a success, in any version.\<close>

lemma success_is_success: "GetResultCodeV21 r = 12500000 \<longleftrightarrow> r = SUCCESS"
  by (auto simp: GetResultCodeV21_def GetResultCodeV20_def GetResultCodeV10_def Let_def)

text \<open>The clauses that version 21 adds change no code.\<close>

lemma v21_is_v20: "GetResultCodeV21 r = GetResultCodeV20 r"
  by (auto simp: GetResultCodeV21_def GetResultCodeV20_def GetResultCodeV10_def Let_def)

section \<open>The count is that of the characters\<close>

text \<open>The reference: the encoding of a code point.\<close>

definition utf8_encode :: "nat \<Rightarrow> bytes" where
  "utf8_encode n =
     map of_nat
       (if n < 0x80 then [n]
        else if n < 0x800 then [0xC0 + n div 64, 0x80 + n mod 64]
        else if n < 0x10000 then [0xE0 + n div 4096, 0x80 + n div 64 mod 64, 0x80 + n mod 64]
        else [0xF0 + n div 262144, 0x80 + n div 4096 mod 64, 0x80 + n div 64 mod 64, 0x80 + n mod 64])"

lemma utf8_width_table:
  "list_all (\<lambda>n. utf8_width (of_nat n) =
     (if n < 192 then 1 else if n < 224 then 2 else if n < 240 then 3 else if n < 248 then 4 else 1)) [0 ..< 256]"
  by code_simp

lemma utf8_width_of_nat:
  "n < 256 \<Longrightarrow> utf8_width (of_nat n) =
     (if n < 192 then 1 else if n < 224 then 2 else if n < 240 then 3 else if n < 248 then 4 else 1)"
  using utf8_width_table by (simp add: list_all_iff)

lemma utf8_lead:
  assumes "n < 0x110000"
  shows "\<exists>c cs. utf8_encode n = c # cs \<and> utf8_width c = Suc (length cs)"
proof -
  consider "n < 0x80" | "0x80 \<le> n" "n < 0x800" | "0x800 \<le> n" "n < 0x10000" | "0x10000 \<le> n"
    by linarith
  then show ?thesis
  proof cases
    case 1
    then show ?thesis by (simp add: utf8_encode_def utf8_width_of_nat)
  next
    case 2
    then have "n div 64 < 32" by simp
    then show ?thesis using 2 utf8_width_of_nat [of "192 + n div 64"] by (simp add: utf8_encode_def)
  next
    case 3
    then have "n div 4096 < 16" by simp
    then show ?thesis using 3 utf8_width_of_nat [of "224 + n div 4096"] by (simp add: utf8_encode_def)
  next
    case 4
    then have "n div 262144 < 8" using assms by simp
    then show ?thesis using 4 utf8_width_of_nat [of "240 + n div 262144"] by (simp add: utf8_encode_def)
  qed
qed

lemma count_character:
  assumes "n < 0x110000"
  shows "GetUtf8CharCount (utf8_encode n @ bs) = Suc (GetUtf8CharCount bs)"
proof -
  obtain c cs where "utf8_encode n = c # cs" "utf8_width c = Suc (length cs)"
    using utf8_lead [OF assms] by blast
  then show ?thesis by simp
qed

text \<open>Also shown: the count of a text in UTF-8 is the number of its characters, whatever the width of each.\<close>

theorem utf8_count_exact:
  assumes "\<forall>n \<in> set ns. n < 0x110000"
  shows "GetUtf8CharCount (concat (map utf8_encode ns)) = length ns"
  using assms by (induction ns) (auto simp: count_character)

theorem utf8_count_exact_witness:
  "GetUtf8CharCount (concat (map utf8_encode [0x41, 0xE9, 0x4F60, 0x1F600])) = 4"
  using utf8_count_exact [of "[0x41, 0xE9, 0x4F60, 0x1F600]"] by simp

text \<open>A malformed text is undercounted by at most a factor of four: its length in bytes stays bounded.\<close>

lemma count_bounds: "GetUtf8CharCount bs \<le> length bs \<and> length bs \<le> 4 * GetUtf8CharCount bs"
proof (induction bs rule: GetUtf8CharCount.induct)
  case (2 c cs)
  then show ?case
    using utf8_width_bounds [of c] by (auto simp del: drop_Suc_Cons)
qed simp

end
