(* ===== verification/Auth_Widget_Helper.thy ===== *)
theory Auth_Widget_Helper
  imports User_Auth_Helper Authentication User_Database Attribute_Setters
begin

text \<open>
  What the service and the contexts ask before they show an authentication dialogue,
  \<^verbatim>\<open>services/context/src/auth_widget_helper.cpp\<close>: the state of a credential at its executor, the authentication types
  the engine accepts, and whether an earlier unlock can be reused. The engine and the executors are fields of the
  surroundings; a query returns the calls it made to executors besides its code and its output parameter.
  Allocation succeeds, so the database never hands out an empty credential.
\<close>

unbundle bit_operations_syntax

section \<open>Data\<close>

record auth_profile =
  pr_pinSubType :: i32
  pr_sensorInfo :: bytes
  pr_remainTimes :: i32
  pr_freezingTime :: i32
  pr_nextPhaseFreezingTime :: i32
  pr_cameraStatus :: u32

definition AuthProfile_default :: auth_profile where
  "AuthProfile_default = \<lparr>pr_pinSubType = 0, pr_sensorInfo = [], pr_remainTimes = 0, pr_freezingTime = 0,
     pr_nextPhaseFreezingTime = - 1, pr_cameraStatus = 0\<rparr>"

record auth_param_inner =
  pi_userId :: i32
  pi_isUserIdSpecified :: bool
  pi_challenge :: bytes
  pi_authType :: i32
  pi_authTypes :: "i32 list"
  pi_authTrustLevel :: u32
  pi_reuseUnlockResult :: reuse_unlock_result
  pi_authIntent :: i32
  pi_skipLockedBiometricAuth :: bool
  pi_credentialIdList :: "u64 list"
  pi_remoteTokenId :: "u32 option"
  pi_additionalInfo :: bytes

record widget_param_inner =
  wp_title :: bytes
  wp_navigationButtonText :: bytes
  wp_windowMode :: i32
  wp_hasContext :: bool

record widget_para =
  wc_userId :: i32
  wc_sdkVersion :: i32
  wc_tokenId :: u32
  wc_callerName :: bytes
  wc_challenge :: bytes
  wc_authTypeList :: "i32 list"
  wc_atl :: u32
  wc_widgetParam :: widget_param_inner
  wc_authProfileMap :: "i32 \<rightharpoonup> auth_profile"
  wc_callerType :: i32
  wc_callingAppID :: bytes
  wc_callingAppIdentifier :: bytes
  wc_isPinExpired :: bool
  wc_isOsAccountVerified :: bool
  wc_isBackgroundApplication :: bool
  wc_skipLockedBiometricAuth :: bool
  wc_credentialIdList :: "u64 list"
  wc_remoteCallerName :: bytes
  wc_callerPermissions :: u32

text \<open>The members of the engine's parameter and answer that this code sets and reads; the others keep zero.\<close>

record eng_reuse_param =
  rp_userId :: i32
  rp_authTrustLevel :: u32
  rp_challenge :: bytes
  rp_authTypes :: "i32 list"
  rp_mode :: u32
  rp_duration :: u64

record eng_reuse_info =
  ri_authType :: i32
  ri_token :: bytes
  ri_enrolledState :: eng_enrolled_state

record profile_env =
  pe_users :: user_engine
  pe_pool :: rpool
  pe_ipc :: "node_ref \<Rightarrow> exec_call \<Rightarrow> i32"
  pe_reply :: "node_ref \<Rightarrow> exec_call \<Rightarrow> bytes"
  pe_validSolution :: "i32 \<Rightarrow> i32 list \<Rightarrow> u32 \<Rightarrow> i32 \<times> i32 list"
  pe_reuse :: "eng_reuse_param \<Rightarrow> i32 \<times> eng_reuse_info"

abbreviation (input) ATTR_SENSOR_INFO :: u32 where "ATTR_SENSOR_INFO \<equiv> 100036"
abbreviation (input) ATTR_CAMERA_STATUS :: u32 where "ATTR_CAMERA_STATUS \<equiv> 100097"
abbreviation (input) DIALOG_BOX :: i32 where "DIALOG_BOX \<equiv> 1"
abbreviation (input) FULLSCREEN :: i32 where "FULLSCREEN \<equiv> 2"
abbreviation (input) UNKNOWN_WINDOW_MODE :: i32 where "UNKNOWN_WINDOW_MODE \<equiv> 3"
abbreviation (input) NONE_INTERRUPTION_DIALOG_BOX :: i32 where "NONE_INTERRUPTION_DIALOG_BOX \<equiv> 4"
abbreviation (input) AUTH_TYPE_RELEVANT :: u32 where "AUTH_TYPE_RELEVANT \<equiv> 1"
abbreviation (input) AUTH_TYPE_IRRELEVANT :: u32 where "AUTH_TYPE_IRRELEVANT \<equiv> 2"
abbreviation (input) CALLER_IRRELEVANT_AUTH_TYPE_RELEVANT :: u32 where
  "CALLER_IRRELEVANT_AUTH_TYPE_RELEVANT \<equiv> 3"
abbreviation (input) CALLER_IRRELEVANT_AUTH_TYPE_IRRELEVANT :: u32 where
  "CALLER_IRRELEVANT_AUTH_TYPE_IRRELEVANT \<equiv> 4"

section \<open>Operations\<close>

definition InitWidgetContextParam ::
  "auth_param_inner \<Rightarrow> i32 list \<Rightarrow> widget_param_inner \<Rightarrow> widget_para \<Rightarrow> widget_para" where
  "InitWidgetContextParam authParam validType widgetParam para =
     (let para = para\<lparr>wc_challenge := pi_challenge authParam, wc_authTypeList := validType,
            wc_atl := pi_authTrustLevel authParam,
            wc_skipLockedBiometricAuth := pi_skipLockedBiometricAuth authParam, wc_widgetParam := widgetParam\<rparr>;
          para = (if wp_windowMode widgetParam = UNKNOWN_WINDOW_MODE
                  then para\<lparr>wc_widgetParam := widgetParam\<lparr>wp_windowMode := DIALOG_BOX\<rparr>\<rparr> else para)
      in para\<lparr>wc_credentialIdList := pi_credentialIdList authParam\<rparr>)"

fun credentials_by_id ::
  "user_engine \<Rightarrow> u64 list \<Rightarrow> credential_info list \<Rightarrow> bool \<times> credential_info list" where
  "credentials_by_id eng [] credentialInfos = (True, credentialInfos)"
| "credentials_by_id eng (credId # credIds) credentialInfos =
     (case GetCredentialInfoById eng credId None of
        (ret, credInfo) \<Rightarrow>
          if ret \<noteq> SUCCESS then (False, credentialInfos)
          else credentials_by_id eng credIds (credentialInfos @ [the credInfo]))"

definition GetAuthCredentialList ::
  "user_engine \<Rightarrow> i32 \<Rightarrow> i32 \<Rightarrow> u64 list \<Rightarrow> credential_info list \<Rightarrow> bool \<times> credential_info list" where
  "GetAuthCredentialList eng userId authType credentialIdList credentialInfos =
     (if credentialIdList = [] then
        (case GetCredentialInfo (ue_getCredential eng) userId authType credentialInfos of
           (ret, credentialInfos) \<Rightarrow> (ret = SUCCESS, credentialInfos))
      else credentials_by_id eng credentialIdList credentialInfos)"

definition GetUint32PropertyKeys :: "i32 \<Rightarrow> u32 list" where
  "GetUint32PropertyKeys authType =
     [ATTR_REMAIN_TIMES, ATTR_FREEZING_TIME] @
     (if authType = PIN \<or> authType = PRIVATE_PIN then [ATTR_PIN_SUB_TYPE, ATTR_NEXT_FAIL_LOCKOUT_DURATION]
      else if authType = FINGERPRINT then [ATTR_SENSOR_INFO]
      else if authType = FACE then [ATTR_CAMERA_STATUS] else [])"

text \<open>One attribute read into the profile: the profile keeps what was read before a failure.\<close>

definition read_into ::
  "'v option \<Rightarrow> ('v \<Rightarrow> auth_profile \<Rightarrow> auth_profile) \<Rightarrow> bool \<times> auth_profile \<Rightarrow> bool \<times> auth_profile" where
  "read_into v put r =
     (case r of (ok, profile) \<Rightarrow>
        if \<not> ok then r else (case v of None \<Rightarrow> (False, profile) | Some x \<Rightarrow> (True, put x profile)))"

definition Helper_ParseAttributes :: "attributes \<Rightarrow> i32 \<Rightarrow> auth_profile \<Rightarrow> bool \<times> auth_profile" where
  "Helper_ParseAttributes values authType profile =
     (let isPin = (authType = PIN \<or> authType = PRIVATE_PIN);
          r = (True, profile);
          r = (if isPin then read_into (GetInt32Value ATTR_PIN_SUB_TYPE values)
                 (\<lambda>v p. p\<lparr>pr_pinSubType := v\<rparr>) r else r);
          r = (if authType = FINGERPRINT then read_into (GetStringValue ATTR_SENSOR_INFO values)
                 (\<lambda>v p. p\<lparr>pr_sensorInfo := v\<rparr>) r else r);
          r = read_into (GetInt32Value ATTR_REMAIN_TIMES values) (\<lambda>v p. p\<lparr>pr_remainTimes := v\<rparr>) r;
          r = read_into (GetInt32Value ATTR_FREEZING_TIME values) (\<lambda>v p. p\<lparr>pr_freezingTime := v\<rparr>) r;
          r = (if isPin then (case GetInt32Value ATTR_NEXT_FAIL_LOCKOUT_DURATION values of
                                None \<Rightarrow> r
                              | Some v \<Rightarrow> read_into (Some v) (\<lambda>v p. p\<lparr>pr_nextPhaseFreezingTime := v\<rparr>) r)
               else r)
      in if authType = FACE then read_into (GetUint32Value ATTR_CAMERA_STATUS values)
           (\<lambda>v p. p\<lparr>pr_cameraStatus := v\<rparr>) r else r)"

definition GetUserAuthProfile ::
  "profile_env \<Rightarrow> i32 \<Rightarrow> i32 \<Rightarrow> auth_profile \<Rightarrow> u64 list \<Rightarrow> i32 \<times> auth_profile \<times> (node_ref \<times> exec_call) list" where
  "GetUserAuthProfile e userId authType profile credentialIdList =
     (case GetAuthCredentialList (pe_users e) userId authType credentialIdList [] of
        (found, credentialInfos) \<Rightarrow>
          if \<not> found then (GENERAL_ERROR, profile, [])
          else if credentialInfos = [] then (NOT_ENROLLED, profile, [])
          else (case pool_Select (ci_executorIndex (hd credentialInfos)) (pe_pool e) of
                  None \<Rightarrow> (if authType = ENTERPRISE_ACCOUNT then SUCCESS else GENERAL_ERROR, profile, [])
                | Some ref \<Rightarrow>
                    let templateIds = map ci_templateId credentialInfos;
                        attr = snd (SetInt32Value ATTR_AUTH_TYPE authType Attributes_new);
                        attr = snd (SetUint32Value ATTR_PROPERTY_MODE PROPERTY_MODE_GET attr);
                        attr = snd (SetUint64ArrayValue ATTR_TEMPLATE_ID_LIST templateIds attr);
                        attr = snd (SetUint32ArrayValue ATTR_KEY_LIST (GetUint32PropertyKeys authType) attr)
                    in case GetProperty (pe_ipc e ref) (pe_reply e ref) (rp_heap (pe_pool e) ref) attr
                              Attributes_new of
                         (result, values, calls) \<Rightarrow>
                           let log = map (\<lambda>c. (ref, c)) calls
                           in if result \<noteq> SUCCESS then (GENERAL_ERROR, profile, log)
                              else (case Helper_ParseAttributes values authType profile of
                                      (parsed, profile) \<Rightarrow>
                                        (if parsed then SUCCESS else GENERAL_ERROR, profile, log))))"

definition Helper_CheckValidSolution ::
  "profile_env \<Rightarrow> i32 \<Rightarrow> i32 list \<Rightarrow> u32 \<Rightarrow> i32 list \<Rightarrow> i32 \<times> i32 list" where
  "Helper_CheckValidSolution e userId authTypeList atl validTypeList =
     (case pe_validSolution e userId authTypeList atl of
        (result, validTypes) \<Rightarrow> if result \<noteq> SUCCESS then (result, validTypeList) else (result, validTypes))"

definition SetReuseUnlockResult :: "i32 \<Rightarrow> eng_reuse_info \<Rightarrow> attributes \<Rightarrow> i32 \<times> attributes" where
  "SetReuseUnlockResult apiVersion info extraInfo =
     (let credentialDigest = (if sint apiVersion < 10000
            then ee_credentialDigest (ri_enrolledState info) AND 0xFFFF
            else ee_credentialDigest (ri_enrolledState info))
      in case set_all
           [SetUint8ArrayValue ATTR_SIGNATURE (ri_token info), SetInt32Value ATTR_AUTH_TYPE (ri_authType info),
            SetInt32Value ATTR_RESULT_CODE SUCCESS, SetUint64Value ATTR_CREDENTIAL_DIGEST credentialDigest,
            SetUint16Value ATTR_CREDENTIAL_COUNT (ee_credentialCount (ri_enrolledState info))] extraInfo of
           (stored, extraInfo) \<Rightarrow> (if stored then SUCCESS else GENERAL_ERROR, extraInfo))"

definition QueryReusableAuthResult ::
  "profile_env \<Rightarrow> i32 \<Rightarrow> auth_param_inner \<Rightarrow> eng_reuse_info \<Rightarrow> i32 \<times> eng_reuse_info" where
  "QueryReusableAuthResult e userId authParam reuseResultInfo =
     (let r = pi_reuseUnlockResult authParam
      in if \<not> ru_isReuse r \<or> ru_reuseDuration r = 0 \<or> ru_reuseDuration r > MAX_ALLOWABLE_REUSE_DURATION \<or>
            (ru_reuseMode r \<noteq> AUTH_TYPE_RELEVANT \<and> ru_reuseMode r \<noteq> AUTH_TYPE_IRRELEVANT \<and>
             ru_reuseMode r \<noteq> CALLER_IRRELEVANT_AUTH_TYPE_RELEVANT \<and>
             ru_reuseMode r \<noteq> CALLER_IRRELEVANT_AUTH_TYPE_IRRELEVANT)
         then (INVALID_PARAMETERS, reuseResultInfo)
         else pe_reuse e \<lparr>rp_userId = userId, rp_authTrustLevel = pi_authTrustLevel authParam,
                rp_challenge = pi_challenge authParam, rp_authTypes = pi_authTypes authParam,
                rp_mode = ru_reuseMode r, rp_duration = ru_reuseDuration r\<rparr>)"

definition empty_reuse_info :: eng_reuse_info where
  "empty_reuse_info = \<lparr>ri_authType = 0, ri_token = [],
     ri_enrolledState = \<lparr>ee_credentialDigest = 0, ee_credentialCount = 0\<rparr>\<rparr>"

definition CheckReuseUnlockResult ::
  "profile_env \<Rightarrow> widget_para \<Rightarrow> auth_param_inner \<Rightarrow> attributes \<Rightarrow> i32 \<times> attributes" where
  "CheckReuseUnlockResult e para authParam extraInfo =
     (case QueryReusableAuthResult e (wc_userId para) authParam empty_reuse_info of
        (result, reuseResultInfo) \<Rightarrow>
          if result \<noteq> SUCCESS then (result, extraInfo)
          else SetReuseUnlockResult (wc_sdkVersion para) reuseResultInfo extraInfo)"

end
