(* ===== verification/Attribute_Messages.thy ===== *)
theory Attribute_Messages
  imports Attribute_Setters
begin

text \<open>
  Messages between devices: an object that a row of setters fills completely is read back key by key, and survives
  being serialised and parsed. Every plain setter is one write of an encoded value, so a message is a list of keys
  with their encoded values, \<open>None\<close> for a value that is too long.
\<close>

definition puts :: "(u32 \<times> bytes option) list \<Rightarrow> (attributes \<Rightarrow> bool \<times> attributes) list" where
  "puts kds = map (\<lambda>(k, d). with_impl (store_value d k)) kds"

lemma puts_simps [simp]:
  "puts [] = []" "puts ((k, d) # kds) = with_impl (store_value d k) # puts kds" "puts (xs @ ys) = puts xs @ puts ys"
  by (simp_all add: puts_def)

lemma setters_as_puts:
  "SetInt32Value k i = with_impl (store_value (EncodeInt32Value i) k)"
  "SetUint32Value k n32 = with_impl (store_value (EncodeUint32Value n32) k)"
  "SetUint64Value k n64 = with_impl (store_value (EncodeUint64Value n64) k)"
  "SetStringValue k s = with_impl (store_value (EncodeStringValue s) k)"
  "SetUint8ArrayValue k bs = with_impl (store_value (EncodeUint8ArrayValue bs) k)"
  "SetInt32ArrayValue k is = with_impl (store_value (EncodeInt32ArrayValue is) k)"
  by (rule ext, simp add: facade_store SetInt32ArrayValue_def Impl_SetInt32ArrayValue_def with_impl_def split: option.split)+

lemma attr_at_put_other:
  "attr_at j v a \<Longrightarrow> j \<noteq> k \<Longrightarrow> with_impl (store_value d k) a = (r, b) \<Longrightarrow> attr_at j v b"
  using attr_at_store_other [of j v a k d] by simp

lemma attr_at_put:
  "with_impl (store_value d k) a = (True, b) \<Longrightarrow> attr_at k d b \<and> d \<noteq> None"
  by (auto simp: attr_at_def with_impl_def store_value_def split: option.splits if_splits)

lemma puts_leave:
  "set_all (puts kds) a = (r, b) \<Longrightarrow> attr_at j v a \<Longrightarrow> j \<notin> fst ` set kds \<Longrightarrow> attr_at j v b"
proof (induction kds arbitrary: a)
  case (Cons kd kds)
  obtain k d where kd: "kd = (k, d)" by fastforce
  obtain r1 a1 where a1: "with_impl (store_value d k) a = (r1, a1)" by fastforce
  then have "attr_at j v a1" using Cons(3,4) attr_at_put_other kd by auto
  then show ?case using Cons a1 kd by (auto split: if_splits)
qed auto

text \<open>Every key of a complete message holds its value.\<close>

lemma puts_read:
  assumes "set_all (puts kds) a = (True, b)" "distinct (map fst kds)" "(k, d) \<in> set kds"
  shows "attr_at k d b \<and> d \<noteq> None"
  using assms
proof (induction kds arbitrary: a)
  case (Cons kd kds)
  obtain j c where kd: "kd = (j, c)" by fastforce
  obtain a1 where a1: "with_impl (store_value c j) a = (True, a1)" and rest: "set_all (puts kds) a1 = (True, b)"
    using Cons(2) kd by (auto split: prod.splits if_splits)
  show ?case
  proof (cases "(k, d) = kd")
    case True
    then have "k = j" "d = c" using kd by auto
    then show ?thesis using attr_at_put [OF a1] puts_leave [OF rest] Cons(3) kd by auto
  next
    case False
    then show ?thesis using Cons.IH [OF rest] Cons(3,4) by simp
  qed
qed simp

lemma put_wf:
  assumes "attr_wf s" "Suc (length (amap s)) \<le> MAX_ATTR_COUNT" "\<And>v. d = Some v \<Longrightarrow> length v \<le> MAX_ATTR_LENGTH"
    and "with_impl (store_value d k) (Some s) = (True, b)"
  shows "\<exists>t. b = Some t \<and> attr_wf t \<and> length (amap t) \<le> Suc (length (amap s))"
proof -
  obtain v where v: "d = Some v" "b = Some (s\<lparr>amap := omap_assign k v (amap s)\<rparr>)"
    using assms(4) by (auto simp: with_impl_def store_value_def split: option.splits if_splits)
  have len: "length (omap_assign k v (amap s)) \<le> Suc (length (amap s))" by (rule length_omap_assign_le)
  have fits: "list_all entry_fits (omap_assign k v (amap s))"
    using assms(1,3) v(1) by (auto simp: attr_wf_def list_all_iff entry_fits_def dest!: values_omap_assign)
  show ?thesis using v len fits assms(1,2) by (auto simp: attr_wf_def)
qed

lemma puts_wf:
  assumes "set_all (puts kds) (Some s) = (True, b)" "attr_wf s" "length (amap s) + length kds \<le> MAX_ATTR_COUNT"
    and "\<And>k v. (k, Some v) \<in> set kds \<Longrightarrow> length v \<le> MAX_ATTR_LENGTH"
  shows "\<exists>t. b = Some t \<and> attr_wf t \<and> length (amap t) \<le> length (amap s) + length kds"
  using assms
proof (induction kds arbitrary: s)
  case (Cons kd kds)
  obtain k d where kd: "kd = (k, d)" by fastforce
  obtain a1 where a1: "with_impl (store_value d k) (Some s) = (True, a1)"
    and rest: "set_all (puts kds) a1 = (True, b)"
    using Cons(2) kd by (auto split: prod.splits if_splits)
  obtain t where t: "a1 = Some t" "attr_wf t" "length (amap t) \<le> Suc (length (amap s))"
    using put_wf [OF Cons(3) _ _ a1] Cons(4,5) kd by force
  have "\<exists>u. b = Some u \<and> attr_wf u \<and> length (amap u) \<le> length (amap t) + length kds"
    using Cons.IH [of t] rest t Cons(4,5) by auto
  then show ?case using t(3) by auto
qed auto

lemma wf_survives: "attr_wf s \<Longrightarrow> Attributes_of_raw (Serialize (Some s)) = Some s"
  by (simp add: Attributes_of_raw_def Serialize_def Impl_of_raw_serialize)

text \<open>What the getters read where a message holds an encoded value.\<close>

lemma encoded_reads:
  "attr_at k (EncodeInt32Value i) a \<Longrightarrow> GetInt32Value k a = Some i"
  "attr_at k (EncodeUint32Value n32) a \<Longrightarrow> GetUint32Value k a = Some n32"
  "attr_at k (EncodeUint64Value n64) a \<Longrightarrow> GetUint64Value k a = Some n64"
  "attr_at k (EncodeStringValue s) a \<Longrightarrow> EncodeStringValue s \<noteq> None \<Longrightarrow> GetStringValue k a = Some s"
  "attr_at k (EncodeUint8ArrayValue bs) a \<Longrightarrow> EncodeUint8ArrayValue bs \<noteq> None \<Longrightarrow> GetUint8ArrayValue k a = Some bs"
proof -
  show "attr_at k (EncodeInt32Value i) a \<Longrightarrow> GetInt32Value k a = Some i"
    by (simp add: attr_get_Int32 attr_Int32_roundtrip)
  show "attr_at k (EncodeUint32Value n32) a \<Longrightarrow> GetUint32Value k a = Some n32" by (rule attr_get_Uint32)
  show "attr_at k (EncodeUint64Value n64) a \<Longrightarrow> GetUint64Value k a = Some n64" by (rule attr_get_Uint64)
  show "attr_at k (EncodeStringValue s) a \<Longrightarrow> EncodeStringValue s \<noteq> None \<Longrightarrow> GetStringValue k a = Some s"
    using codec_string.dec_enc by (auto simp: attr_at_def GetStringValue_def Impl_GetStringValue_def load_value_def)
  show "attr_at k (EncodeUint8ArrayValue bs) a \<Longrightarrow> EncodeUint8ArrayValue bs \<noteq> None \<Longrightarrow> GetUint8ArrayValue k a = Some bs"
    by (auto simp: attr_get_Uint8Array EncodeUint8ArrayValue_def split: if_splits)
qed

lemma encoded_short:
  "EncodeInt32Value i = Some v \<Longrightarrow> length v = 4" "EncodeUint32Value n32 = Some v \<Longrightarrow> length v = 4"
  "EncodeUint8ArrayValue bs = Some v \<Longrightarrow> length v \<le> MAX_ATTR_LENGTH"
  "EncodeStringValue s = Some v \<Longrightarrow> length v = Suc (length s)"
  by (auto simp: EncodeInt32Value_def EncodeUint32Value_def EncodeUint8ArrayValue_def EncodeStringValue_def
      split: if_splits)

end
