(* ===== verification/Remote_Msg.thy ===== *)
theory Remote_Msg
  imports Auth_Widget_Helper Attribute_Messages
begin

text \<open>
  The messages that two devices exchange for an authentication, \<^verbatim>\<open>services/core/src/remote_msg_util.cpp\<close>: the name of
  a connection, the description of the executors of one device for the other, and the parameters of a request. The
  device's own identity, \<^verbatim>\<open>DeviceManagerUtil\<close>, and the engine are arguments, \<open>None\<close> where the call fails. An
  \<^verbatim>\<open>ExecutorInfo\<close> has the members of the registered description and is the same record.
\<close>

abbreviation (input) ATTR_CALLER_NAME :: u32 where "ATTR_CALLER_NAME \<equiv> 100015"
abbreviation (input) ATTR_EXECUTOR_SENSOR_HINT :: u32 where "ATTR_EXECUTOR_SENSOR_HINT \<equiv> 100046"
abbreviation (input) ATTR_EXECUTOR_MATCHER :: u32 where "ATTR_EXECUTOR_MATCHER \<equiv> 100047"
abbreviation (input) ATTR_MSG_TYPE :: u32 where "ATTR_MSG_TYPE \<equiv> 100059"
abbreviation (input) ATTR_DEVICE_UDID :: u32 where "ATTR_DEVICE_UDID \<equiv> 100080"
abbreviation (input) ATTR_EXECUTOR_ROLE :: u32 where "ATTR_EXECUTOR_ROLE \<equiv> 100063"
abbreviation (input) ATTR_PUBLIC_KEY :: u32 where "ATTR_PUBLIC_KEY \<equiv> 100069"
abbreviation (input) ATTR_EXECUTOR_REGISTER_INFO_LIST :: u32 where "ATTR_EXECUTOR_REGISTER_INFO_LIST \<equiv> 100070"
abbreviation (input) ATTR_ESL :: u32 where "ATTR_ESL \<equiv> 100071"
abbreviation (input) ATTR_CHALLENGE :: u32 where "ATTR_CHALLENGE \<equiv> 100072"
abbreviation (input) ATTR_REMOTE_EXECUTOR_INFO :: u32 where "ATTR_REMOTE_EXECUTOR_INFO \<equiv> 100073"
abbreviation (input) ATTR_AUTH_TYPES :: u32 where "ATTR_AUTH_TYPES \<equiv> 100074"
abbreviation (input) ATTR_COLLECTOR_NETWORK_ID :: u32 where "ATTR_COLLECTOR_NETWORK_ID \<equiv> 100081"
abbreviation (input) ATTR_CALLER_TYPE :: u32 where "ATTR_CALLER_TYPE \<equiv> 100085"
abbreviation (input) REMOTE_DEVICE_CONNECTION_FAIL :: i32 where "REMOTE_DEVICE_CONNECTION_FAIL \<equiv> 1008"
abbreviation (input) DEVICE_CAPABILITY_NOT_SUPPORT :: i32 where "DEVICE_CAPABILITY_NOT_SUPPORT \<equiv> 1009"

section \<open>Connections\<close>

definition hex4 :: "u16 \<Rightarrow> string" where
  "hex4 w = [hex_digit (unat w div 4096), hex_digit (unat w div 256), hex_digit (unat w div 16), hex_digit (unat w)]"

definition GetConnectionName :: "bytes option \<Rightarrow> u64 \<Rightarrow> bytes option" where
  "GetConnectionName networkId contextId =
     (case networkId of
        None \<Rightarrow> None
      | Some networkId \<Rightarrow> Some (take 4 networkId @ map of_char ('':'' @ hex4 (ucast contextId))))"

section \<open>Executors\<close>

definition SetExecutorInfoToAttributes :: "executor_register_info \<Rightarrow> attributes \<Rightarrow> bool \<times> attributes" where
  "SetExecutorInfoToAttributes executorInfo attr =
     set_all
       [SetInt32Value ATTR_AUTH_TYPE (ei_authType executorInfo),
        SetInt32Value ATTR_EXECUTOR_ROLE (ei_executorRole executorInfo),
        SetUint32Value ATTR_EXECUTOR_SENSOR_HINT (ei_executorSensorHint executorInfo),
        SetUint32Value ATTR_EXECUTOR_MATCHER (ei_executorMatcher executorInfo),
        SetInt32Value ATTR_ESL (ei_esl executorInfo),
        SetUint8ArrayValue ATTR_PUBLIC_KEY (ei_publicKey executorInfo),
        SetStringValue ATTR_DEVICE_UDID (ei_deviceUdid executorInfo)] attr"

text \<open>The members that the code leaves alone have the default values of an \<^verbatim>\<open>ExecutorInfo\<close>.\<close>

definition GetExecutorInfoFromAttributes :: "attributes \<Rightarrow> bytes \<Rightarrow> executor_register_info option" where
  "GetExecutorInfoFromAttributes attr signedRemoteExecutorInfo =
     (case GetInt32Value ATTR_AUTH_TYPE attr of None \<Rightarrow> None | Some authType \<Rightarrow>
      case GetInt32Value ATTR_EXECUTOR_ROLE attr of None \<Rightarrow> None | Some executorRole \<Rightarrow>
      case GetUint32Value ATTR_EXECUTOR_SENSOR_HINT attr of None \<Rightarrow> None | Some executorSensorHint \<Rightarrow>
      case GetUint32Value ATTR_EXECUTOR_MATCHER attr of None \<Rightarrow> None | Some executorMatcher \<Rightarrow>
      case GetInt32Value ATTR_ESL attr of None \<Rightarrow> None | Some esl \<Rightarrow>
      case GetUint8ArrayValue ATTR_PUBLIC_KEY attr of None \<Rightarrow> None | Some publicKey \<Rightarrow>
      case GetStringValue ATTR_DEVICE_UDID attr of None \<Rightarrow> None | Some deviceUdid \<Rightarrow>
        Some \<lparr>ei_authType = authType, ei_executorRole = executorRole, ei_executorSensorHint = executorSensorHint,
          ei_executorMatcher = executorMatcher, ei_esl = esl, ei_maxTemplateAcl = 0, ei_publicKey = publicKey,
          ei_deviceUdid = deviceUdid, ei_signedRemoteExecutorInfo = signedRemoteExecutorInfo\<rparr>)"

fun executor_items :: "executor_register_info list \<Rightarrow> attributes list \<Rightarrow> attributes list option" where
  "executor_items [] attributeArray = Some attributeArray"
| "executor_items (executorInfo # infos) attributeArray =
     (case SetExecutorInfoToAttributes executorInfo Attributes_new of
        (stored, item) \<Rightarrow>
          if \<not> stored then None
          else executor_items infos (attributeArray @ [Attributes_of_raw (Serialize item)]))"

definition SetExecutorInfoArrayToAttributes ::
  "executor_register_info list \<Rightarrow> attributes \<Rightarrow> bool \<times> attributes" where
  "SetExecutorInfoArrayToAttributes executorInfoArray attr =
     (case executor_items executorInfoArray [] of
        None \<Rightarrow> (False, attr)
      | Some attributeArray \<Rightarrow> SetAttributesArrayValue ATTR_EXECUTOR_REGISTER_INFO_LIST attributeArray attr)"

fun executor_infos ::
  "attributes list \<Rightarrow> bytes \<Rightarrow> executor_register_info list \<Rightarrow> bool \<times> executor_register_info list" where
  "executor_infos [] signedRemoteExecutorInfo executorInfoArray = (True, executorInfoArray)"
| "executor_infos (item # items) signedRemoteExecutorInfo executorInfoArray =
     (case GetExecutorInfoFromAttributes item signedRemoteExecutorInfo of
        None \<Rightarrow> (False, executorInfoArray)
      | Some executorInfo \<Rightarrow>
          executor_infos items signedRemoteExecutorInfo (executorInfoArray @ [executorInfo]))"

definition GetExecutorInfoArrayFromAttributes ::
  "attributes \<Rightarrow> bytes \<Rightarrow> executor_register_info list \<Rightarrow> bool \<times> executor_register_info list" where
  "GetExecutorInfoArrayFromAttributes attr signedRemoteExecutorInfo executorInfoArray =
     (case GetAttributesArrayValue ATTR_EXECUTOR_REGISTER_INFO_LIST attr [] of
        (found, attributeArray) \<Rightarrow>
          if \<not> found then (False, executorInfoArray)
          else executor_infos attributeArray signedRemoteExecutorInfo executorInfoArray)"

definition EncodeQueryExecutorInfoReply ::
  "executor_register_info list \<Rightarrow> bytes \<Rightarrow> attributes \<Rightarrow> bool \<times> attributes" where
  "EncodeQueryExecutorInfoReply executorInfoArray signedRemoteExecutorInfo attr =
     (if executorInfoArray = [] then (False, attr)
      else (case SetUint8ArrayValue ATTR_REMOTE_EXECUTOR_INFO signedRemoteExecutorInfo attr of
              (stored, attr) \<Rightarrow>
                if \<not> stored then (False, attr) else SetExecutorInfoArrayToAttributes executorInfoArray attr))"

definition DecodeQueryExecutorInfoReply ::
  "attributes \<Rightarrow> executor_register_info list \<Rightarrow> bool \<times> executor_register_info list" where
  "DecodeQueryExecutorInfoReply attr executorInfoArray =
     (case GetUint8ArrayValue ATTR_REMOTE_EXECUTOR_INFO attr of
        None \<Rightarrow> (False, executorInfoArray)
      | Some signedRemoteExecutorInfo \<Rightarrow>
          GetExecutorInfoArrayFromAttributes attr signedRemoteExecutorInfo executorInfoArray)"

text \<open>Which of the registered executors are described: those of the type and role on this very device.\<close>

definition local_executors :: "rpool \<Rightarrow> i32 \<Rightarrow> i32 \<Rightarrow> bytes \<Rightarrow> executor_register_info list" where
  "local_executors p authType executorRole localUdid =
     concat (map (\<lambda>node. case node of
         None \<Rightarrow> []
       | Some ref \<Rightarrow>
           let info = rn_info (rp_heap p ref)
           in if ei_authType info \<noteq> authType \<or> ei_executorRole info \<noteq> executorRole \<or> localUdid \<noteq> ei_deviceUdid info
              then [] else [info\<lparr>ei_maxTemplateAcl := 0, ei_signedRemoteExecutorInfo := []\<rparr>]) (pool_Enumerate p))"

definition GetQueryExecutorInfoReply ::
  "(i32 list \<Rightarrow> i32 \<Rightarrow> bytes \<Rightarrow> i32 \<times> bytes) \<Rightarrow> bytes option \<Rightarrow> rpool \<Rightarrow> i32 list \<Rightarrow> i32 \<Rightarrow> bytes \<Rightarrow> attributes \<Rightarrow>
   i32 \<times> attributes" where
  "GetQueryExecutorInfoReply getSigned localUdid p authTypes executorRole remoteUdid attr =
     (if length authTypes \<noteq> 1 then (INVALID_PARAMETERS, attr)
      else (case getSigned authTypes executorRole remoteUdid of
              (ret, signedExecutorInfo) \<Rightarrow>
                if ret = DEVICE_CAPABILITY_NOT_SUPPORT \<or> ret = REMOTE_DEVICE_CONNECTION_FAIL then (ret, attr)
                else if ret \<noteq> SUCCESS then (GENERAL_ERROR, attr)
                else (case localUdid of
                        None \<Rightarrow> (GENERAL_ERROR, attr)
                      | Some localUdid \<Rightarrow>
                          (case EncodeQueryExecutorInfoReply
                                  (local_executors p (hd authTypes) executorRole localUdid) signedExecutorInfo attr of
                             (encoded, attr) \<Rightarrow> (if encoded then SUCCESS else GENERAL_ERROR, attr)))))"

section \<open>Requests\<close>

definition EncodeAuthParam :: "auth_param_inner \<Rightarrow> attributes \<Rightarrow> bool \<times> attributes" where
  "EncodeAuthParam authParam attr =
     set_all
       [SetInt32Value ATTR_USER_ID (pi_userId authParam),
        SetUint8ArrayValue ATTR_CHALLENGE (pi_challenge authParam),
        SetInt32Value ATTR_AUTH_TYPE (pi_authType authParam),
        SetInt32Value ATTR_AUTH_TRUST_LEVEL (pi_authTrustLevel authParam)] attr"

text \<open>The parameters keep what was read before a failure.\<close>

definition DecodeAuthParam :: "attributes \<Rightarrow> auth_param_inner \<Rightarrow> bool \<times> auth_param_inner" where
  "DecodeAuthParam attr authParam =
     (case GetInt32Value ATTR_USER_ID attr of None \<Rightarrow> (False, authParam) | Some userId \<Rightarrow>
      let authParam = authParam\<lparr>pi_userId := userId\<rparr>
      in case GetUint8ArrayValue ATTR_CHALLENGE attr of None \<Rightarrow> (False, authParam) | Some challenge \<Rightarrow>
      let authParam = authParam\<lparr>pi_challenge := challenge\<rparr>
      in case GetInt32Value ATTR_AUTH_TYPE attr of None \<Rightarrow> (False, authParam) | Some authType \<Rightarrow>
      let authParam = authParam\<lparr>pi_authType := authType\<rparr>
      in case GetInt32Value ATTR_AUTH_TRUST_LEVEL attr of None \<Rightarrow> (False, authParam) | Some authTrustLevel \<Rightarrow>
        (True, authParam\<lparr>pi_authTrustLevel := authTrustLevel\<rparr>))"

section \<open>What is encoded is decoded\<close>

lemma hex_digit_eq: "hex_digit m = hex_digit n \<longleftrightarrow> m mod 16 = n mod 16"
proof -
  have "distinct (''0123456789abcdef'' :: string)" by simp
  then show ?thesis using nth_eq_iff_index_eq [of "''0123456789abcdef''" "m mod 16" "n mod 16"]
    by (simp add: hex_digit_def)
qed

lemma hex_parts:
  assumes "n < (65536 :: nat)"
  shows "n = 4096 * (n div 4096 mod 16) + (256 * (n div 256 mod 16) + (16 * (n div 16 mod 16) + n mod 16))"
proof -
  define a b c where "a = n div 16" and "b = a div 16" and "c = b div 16"
  have "n = 16 * a + n mod 16" "a = 16 * b + a mod 16" "b = 16 * c + b mod 16" "c < 16"
    using assms by (simp_all add: a_def b_def c_def)
  moreover have "n div 256 = b" "n div 4096 = c" by (simp_all add: a_def b_def c_def div_mult2_eq [symmetric])
  ultimately show ?thesis unfolding a_def [symmetric] by simp
qed

lemma hex4_inj: "hex4 v = hex4 w \<longleftrightarrow> v = w"
proof
  assume "hex4 v = hex4 w"
  then have d: "unat v div 4096 mod 16 = unat w div 4096 mod 16" "unat v div 256 mod 16 = unat w div 256 mod 16"
    "unat v div 16 mod 16 = unat w div 16 mod 16" "unat v mod 16 = unat w mod 16"
    by (simp_all add: hex4_def hex_digit_eq)
  have "unat x < 65536" for x :: u16 using unsigned_less [of x, where ?'a = nat] by simp
  then have "unat v < 65536" "unat w < 65536" by blast+
  then have "unat v = unat w" using d hex_parts [of "unat v"] hex_parts [of "unat w"] by simp
  then show "v = w" by (simp add: word_unat_eq_iff)
qed simp

text \<open>
  A connection is named after the last four hexadecimal digits of the context: contexts whose ids agree there share
  the name.
\<close>

lemma connection_names:
  "GetConnectionName (Some n) i = GetConnectionName (Some n) j \<longleftrightarrow> (ucast i :: u16) = ucast j"
proof -
  have "inj (of_char :: char \<Rightarrow> u8)"
  proof (rule injI)
    fix c d :: char
    assume "(of_char c :: u8) = of_char d"
    then have "(of_nat (of_char c) :: u8) = of_nat (of_char d)" by (simp add: of_nat_of_char)
    then have "unat (of_nat (of_char c) :: u8) = unat (of_nat (of_char d) :: u8)" by (rule arg_cong)
    then have "of_char c mod (256 :: nat) = of_char d mod 256" by (simp add: unat_of_nat)
    then have "(of_char c :: nat) = of_char d" by simp
    then show "c = d" by simp
  qed
  then show ?thesis by (simp add: GetConnectionName_def inj_map_eq_map hex4_inj)
qed

abbreviation (input) received_info :: "bytes \<Rightarrow> executor_register_info \<Rightarrow> executor_register_info" where
  "received_info sg info \<equiv> info\<lparr>ei_maxTemplateAcl := 0, ei_signedRemoteExecutorInfo := sg\<rparr>"

definition info_keys :: "executor_register_info \<Rightarrow> (u32 \<times> bytes option) list" where
  "info_keys i =
     [(ATTR_AUTH_TYPE, EncodeInt32Value (ei_authType i)), (ATTR_EXECUTOR_ROLE, EncodeInt32Value (ei_executorRole i)),
      (ATTR_EXECUTOR_SENSOR_HINT, EncodeUint32Value (ei_executorSensorHint i)),
      (ATTR_EXECUTOR_MATCHER, EncodeUint32Value (ei_executorMatcher i)), (ATTR_ESL, EncodeInt32Value (ei_esl i)),
      (ATTR_PUBLIC_KEY, EncodeUint8ArrayValue (ei_publicKey i)),
      (ATTR_DEVICE_UDID, EncodeStringValue (ei_deviceUdid i))]"

lemma item_roundtrip:
  assumes "SetExecutorInfoToAttributes i Attributes_new = (True, a)" "length (ei_deviceUdid i) < MAX_ATTR_LENGTH"
  shows "\<exists>s. a = Some s \<and> attr_wf s \<and> GetExecutorInfoFromAttributes a sg = Some (received_info sg i)"
proof -
  have built: "set_all (puts (info_keys i)) (Some Impl_empty) = (True, a)"
    using assms(1) by (simp add: SetExecutorInfoToAttributes_def info_keys_def setters_as_puts Attributes_new_def)
  have "distinct (map fst (info_keys i))" by (simp add: info_keys_def)
  note read = puts_read [OF built this]
  have get: "GetInt32Value ATTR_AUTH_TYPE a = Some (ei_authType i)"
    "GetInt32Value ATTR_EXECUTOR_ROLE a = Some (ei_executorRole i)"
    "GetUint32Value ATTR_EXECUTOR_SENSOR_HINT a = Some (ei_executorSensorHint i)"
    "GetUint32Value ATTR_EXECUTOR_MATCHER a = Some (ei_executorMatcher i)"
    "GetInt32Value ATTR_ESL a = Some (ei_esl i)" "GetUint8ArrayValue ATTR_PUBLIC_KEY a = Some (ei_publicKey i)"
    "GetStringValue ATTR_DEVICE_UDID a = Some (ei_deviceUdid i)"
    using read [of ATTR_AUTH_TYPE] read [of ATTR_EXECUTOR_ROLE] read [of ATTR_EXECUTOR_SENSOR_HINT]
      read [of ATTR_EXECUTOR_MATCHER] read [of ATTR_ESL] read [of ATTR_PUBLIC_KEY] read [of ATTR_DEVICE_UDID]
    by (simp_all add: info_keys_def encoded_reads)
  have "\<exists>s. a = Some s \<and> attr_wf s \<and> length (amap s) \<le> length (amap Impl_empty) + length (info_keys i)"
  proof (rule puts_wf [OF built attr_wf_empty])
    show "length (amap Impl_empty) + length (info_keys i) \<le> MAX_ATTR_COUNT"
      by (simp add: Impl_empty_def info_keys_def MAX_ATTR_COUNT_def)
    show "length v \<le> MAX_ATTR_LENGTH" if "(k, Some v) \<in> set (info_keys i)" for k v
      using that assms(2) encoded_short by (auto simp: info_keys_def MAX_ATTR_LENGTH_def)
  qed
  then show ?thesis using get by (auto simp: GetExecutorInfoFromAttributes_def)
qed

lemma items_roundtrip:
  assumes "executor_items infos (map Some acc) = Some items" "\<forall>i \<in> set infos. length (ei_deviceUdid i) < MAX_ATTR_LENGTH"
  shows "\<exists>ss. items = map Some (acc @ ss) \<and> list_all attr_wf ss \<and>
    executor_infos (map Some ss) sg out = (True, out @ map (received_info sg) infos)"
  using assms
proof (induction infos arbitrary: acc out)
  case (Cons i infos)
  obtain a where a: "SetExecutorInfoToAttributes i Attributes_new = (True, a)"
    using Cons(2) by (auto split: prod.splits if_splits)
  obtain s where s: "a = Some s" "attr_wf s" "GetExecutorInfoFromAttributes (Some s) sg = Some (received_info sg i)"
    using item_roundtrip [OF a, of sg] Cons(3) by auto
  have "executor_items infos (map Some (acc @ [s])) = Some items"
    using Cons(2) a s by (simp add: wf_survives)
  from Cons.IH [OF this, of "out @ [received_info sg i]"] Cons(3)
  obtain ss where "items = map Some ((acc @ [s]) @ ss)" "list_all attr_wf ss"
    "executor_infos (map Some ss) sg (out @ [received_info sg i]) =
      (True, (out @ [received_info sg i]) @ map (received_info sg) infos)" by auto
  then show ?case using s by (intro exI [of _ "s # ss"]) simp
qed auto

text \<open>The two keys that carry the executors, wherever they are stored.\<close>

definition carries :: "executor_register_info list \<Rightarrow> bytes \<Rightarrow> attributes \<Rightarrow> bool" where
  "carries infos sg a \<longleftrightarrow>
     (\<exists>ss. attr_at ATTR_REMOTE_EXECUTOR_INFO (Some sg) a \<and>
       attr_at ATTR_EXECUTOR_REGISTER_INFO_LIST (Some (array_bytes (map Some ss))) a \<and>
       length (array_bytes (map Some ss)) \<le> MAX_ATTR_LENGTH \<and> list_all attr_wf ss \<and>
       executor_infos (map Some ss) sg [] = (True, map (received_info sg) infos))"

lemma items_bounded:
  "length (array_bytes (map Some ss)) \<le> MAX_ATTR_LENGTH \<Longrightarrow> s \<in> set ss \<Longrightarrow> length (Impl_Serialize s) \<le> MAX_ATTR_LENGTH"
  by (induction ss) (auto simp: array_bytes_def Serialize_def)

lemma carries_decode:
  assumes "carries infos sg a"
  shows "DecodeQueryExecutorInfoReply a [] = (True, map (received_info sg) infos)"
proof -
  obtain ss where ss: "attr_at ATTR_REMOTE_EXECUTOR_INFO (Some sg) a"
    "attr_at ATTR_EXECUTOR_REGISTER_INFO_LIST (Some (array_bytes (map Some ss))) a"
    "length (array_bytes (map Some ss)) \<le> MAX_ATTR_LENGTH" "list_all attr_wf ss"
    "executor_infos (map Some ss) sg [] = (True, map (received_info sg) infos)"
    using assms by (auto simp: carries_def)
  have "list_all (\<lambda>t. length (Impl_Serialize t) < 2 ^ 32) ss"
    using items_bounded [OF ss(3)] by (fastforce simp: list_all_iff MAX_ATTR_LENGTH_def)
  from read_array_bytes [OF ss(4) this, of "[]"]
  have "GetAttributesArrayValue ATTR_EXECUTOR_REGISTER_INFO_LIST a [] = (True, map Some ss)"
    using ss(2) by (auto simp: GetAttributesArrayValue_def attr_at_def Impl_GetUint8ArrayValue_def load_value_def
        DecodeUint8ArrayValue_def split: option.splits)
  then show ?thesis
    using ss by (simp add: DecodeQueryExecutorInfoReply_def GetExecutorInfoArrayFromAttributes_def attr_get_Uint8Array)
qed

lemma encoded_carries:
  assumes "EncodeQueryExecutorInfoReply infos sg Attributes_new = (True, a)"
    and "\<forall>i \<in> set infos. length (ei_deviceUdid i) < MAX_ATTR_LENGTH"
  shows "carries infos sg a \<and> (\<exists>s. a = Some s \<and> attr_wf s \<and> length (amap s) \<le> 2)"
proof -
  obtain a1 items where a1: "SetUint8ArrayValue ATTR_REMOTE_EXECUTOR_INFO sg Attributes_new = (True, a1)"
    and items: "executor_items infos [] = Some items"
    and a: "SetAttributesArrayValue ATTR_EXECUTOR_REGISTER_INFO_LIST items a1 = (True, a)"
    using assms(1) by (auto simp: EncodeQueryExecutorInfoReply_def SetExecutorInfoArrayToAttributes_def
        split: prod.splits option.splits if_splits)
  obtain ss where ss: "items = map Some ss" "list_all attr_wf ss"
    "executor_infos (map Some ss) sg [] = (True, map (received_info sg) infos)"
    using items_roundtrip [of infos "[]" items sg "[]"] items assms(2) by auto
  define d where "d = EncodeUint8ArrayValue (array_bytes (map Some ss))"
  let ?kds = "[(ATTR_REMOTE_EXECUTOR_INFO, EncodeUint8ArrayValue sg), (ATTR_EXECUTOR_REGISTER_INFO_LIST, d)]"
  have "with_impl (store_value d ATTR_EXECUTOR_REGISTER_INFO_LIST) a1 = (True, a)"
    using a ss(1) by (auto simp: SetAttributesArrayValue_def d_def with_impl_def Impl_SetUint8ArrayValue_def
        split: option.splits if_splits)
  then have built: "set_all (puts ?kds) (Some Impl_empty) = (True, a)"
    using a1 by (simp add: setters_as_puts Attributes_new_def)
  have "attr_at ATTR_REMOTE_EXECUTOR_INFO (EncodeUint8ArrayValue sg) a \<and> EncodeUint8ArrayValue sg \<noteq> None"
    "attr_at ATTR_EXECUTOR_REGISTER_INFO_LIST d a \<and> d \<noteq> None"
    by (rule puts_read [OF built]; simp)+
  then have "carries infos sg a"
    using ss unfolding carries_def by (auto simp: d_def EncodeUint8ArrayValue_def split: if_splits)
  moreover have "\<exists>s. a = Some s \<and> attr_wf s \<and> length (amap s) \<le> length (amap Impl_empty) + length ?kds"
    by (rule puts_wf [OF built attr_wf_empty])
      (auto simp: Impl_empty_def MAX_ATTR_COUNT_def d_def EncodeUint8ArrayValue_def split: if_splits)
  ultimately show ?thesis by (simp add: Impl_empty_def numeral_2_eq_2)
qed

text \<open>
  Property C31: what one device tells the other about its executors arrives: after the reply is serialised and parsed,
  decoding gives the same executors in the same order, each with the signed description attached.
\<close>

theorem executor_reply_roundtrip:
  assumes "EncodeQueryExecutorInfoReply infos sg Attributes_new = (True, a)"
    and "\<forall>i \<in> set infos. length (ei_deviceUdid i) < MAX_ATTR_LENGTH"
  shows "DecodeQueryExecutorInfoReply (Attributes_of_raw (Serialize a)) [] =
    (True, map (\<lambda>i. i\<lparr>ei_maxTemplateAcl := 0, ei_signedRemoteExecutorInfo := sg\<rparr>) infos)"
  using encoded_carries [OF assms] carries_decode by (auto simp: wf_survives)

definition w_remote_info :: executor_register_info where
  "w_remote_info = \<lparr>ei_authType = 1, ei_executorRole = 1, ei_executorSensorHint = 0, ei_executorMatcher = 0, ei_esl = 3,
     ei_maxTemplateAcl = 4, ei_publicKey = [1, 2], ei_deviceUdid = [3, 4], ei_signedRemoteExecutorInfo = []\<rparr>"

lemma w_remote_item:
  "\<exists>s. SetExecutorInfoToAttributes w_remote_info Attributes_new = (True, Some s) \<and> length (Impl_Serialize s) < 200"
  by (simp add: SetExecutorInfoToAttributes_def w_remote_info_def setters_as_puts with_impl_def store_value_def
      EncodeInt32Value_def EncodeUint32Value_def EncodeUint8ArrayValue_def EncodeStringValue_def Attributes_new_def
      Impl_empty_def MAX_ATTR_LENGTH_def MAX_ATTR_COUNT_def Impl_Serialize_def)

lemma executor_reply_roundtrip_witness:
  "\<exists>a. EncodeQueryExecutorInfoReply [w_remote_info] [9] Attributes_new = (True, a) \<and>
     DecodeQueryExecutorInfoReply (Attributes_of_raw (Serialize a)) [] =
       (True, [w_remote_info\<lparr>ei_maxTemplateAcl := 0, ei_signedRemoteExecutorInfo := [9]\<rparr>])"
proof -
  obtain s where s: "SetExecutorInfoToAttributes w_remote_info Attributes_new = (True, Some s)" "length (Impl_Serialize s) < 200"
    using w_remote_item by blast
  have short: "length (ei_deviceUdid w_remote_info) < MAX_ATTR_LENGTH" by (simp add: w_remote_info_def MAX_ATTR_LENGTH_def)
  then have "Attributes_of_raw (Serialize (Some s)) = Some s" using item_roundtrip [OF s(1)] wf_survives by auto
  then have "\<exists>a. EncodeQueryExecutorInfoReply [w_remote_info] [9] Attributes_new = (True, a)"
    using s by (simp add: EncodeQueryExecutorInfoReply_def SetExecutorInfoArrayToAttributes_def SetAttributesArrayValue_def
        Impl_SetUint8ArrayValue_def array_bytes_def Serialize_def setters_as_puts with_impl_def store_value_def
        EncodeUint8ArrayValue_def Attributes_new_def Impl_empty_def MAX_ATTR_LENGTH_def MAX_ATTR_COUNT_def)
  then obtain a where a: "EncodeQueryExecutorInfoReply [w_remote_info] [9] Attributes_new = (True, a)" by blast
  from executor_reply_roundtrip [OF a] short a show ?thesis by simp
qed

end
