(* ===== verification/Auth_Factory.thy ===== *)
theory Auth_Factory
  imports Context_Factory Callback_Answers Remote_Msg
begin

text \<open>
  The contexts of authentications that are shown to the user or cross devices, as
  \<^verbatim>\<open>services/context/src/context_factory.cpp\<close> creates them, and what the pool reads of every context for an
  authentication. A widget, a sudo and an invoker context are here the data their constructors keep.
\<close>

section \<open>Data\<close>

record sudo_para =
  sp_userId :: i32
  sp_tokenId :: u32
  sp_sdkVersion :: i32
  sp_callerType :: i32
  sp_callerName :: bytes
  sp_challenge :: bytes
  sp_atl :: u32
  sp_additionalInfo :: bytes
  sp_isOsAccountVerified :: bool
  sp_needSubscribeAppState :: bool

record remote_auth_param =
  ra_authType :: i32
  ra_connectionName :: bytes
  ra_collectorNetworkId :: bytes
  ra_executorInfoMsg :: bytes

record invoker_param =
  iv_connectionName :: bytes
  iv_verifierNetworkId :: bytes
  iv_collectorNetworkId :: bytes
  iv_tokenId :: u32
  iv_collectorTokenId :: u32
  iv_callerName :: bytes
  iv_callerType :: i32

record widget_request =
  wr_contextId :: u64
  wr_para :: widget_para
  wr_isPrimary :: bool
  wr_modalCallback :: bool
  wr_remoteCallback :: "nat option"

record sudo_request =
  sr_contextId :: u64
  sr_para :: sudo_para

record invoker_request =
  vr_contextId :: u64
  vr_authParam :: auth_param_inner
  vr_param :: invoker_param

record remote_request =
  rr_auth :: simple_auth_context
  rr_param :: remote_auth_param

record local_remote_request =
  lr_auth :: simple_auth_context
  lr_collectorNetworkId :: bytes

section \<open>Creation\<close>

definition empty_para :: auth_para where
  "empty_para = \<lparr>ap_userId = 0, ap_authType = 0, ap_atl = ATL1, ap_tokenId = 0, ap_collectorTokenId = 0,
     ap_challenge = [], ap_endAfterFirstFail = False, ap_callerName = [], ap_sdkVersion = 0, ap_callerType = 0,
     ap_authIntent = 0, ap_isOsAccountVerified = False, ap_skipLockedBiometricAuth = False,
     ap_credentialIdList = [], ap_title = [], ap_authScene = 0, ap_callerPermissions = 0\<rparr>"

definition default_widget_para :: "i32 \<Rightarrow> widget_para" where
  "default_widget_para apiVersion = \<lparr>wc_userId = INVALID_USER_ID, wc_sdkVersion = apiVersion, wc_tokenId = 0,
     wc_callerName = [], wc_challenge = [], wc_authTypeList = [], wc_atl = ATL1,
     wc_widgetParam = \<lparr>wp_title = [], wp_navigationButtonText = [], wp_windowMode = 0, wp_hasContext = False\<rparr>,
     wc_authProfileMap = (\<lambda>_. None), wc_callerType = 0, wc_callingAppID = [], wc_callingAppIdentifier = [],
     wc_isPinExpired = False, wc_isOsAccountVerified = False, wc_isBackgroundApplication = False,
     wc_skipLockedBiometricAuth = False, wc_credentialIdList = [], wc_remoteCallerName = [],
     wc_callerPermissions = 0\<rparr>"

definition CreateWidgetContext ::
  "u64 \<Rightarrow> widget_para \<Rightarrow> bool \<Rightarrow> bool \<Rightarrow> bool \<Rightarrow> nat option \<Rightarrow> widget_request option" where
  "CreateWidgetContext newContextId para isPrimaryContext callback modalCallback remoteAuthCallback =
     (if \<not> callback then None
      else Some \<lparr>wr_contextId = newContextId, wr_para = para, wr_isPrimary = isPrimaryContext,
             wr_modalCallback = modalCallback, wr_remoteCallback = remoteAuthCallback\<rparr>)"

definition remote_authentication :: "u64 \<Rightarrow> auth_para \<Rightarrow> authentication" where
  "remote_authentication newContextId para =
     Auth_SetAccessTokenId (ap_tokenId para) (Auth_SetChallenge (ap_challenge para)
       (AuthenticationImpl newContextId para))"

definition CreateRemoteAuthContext ::
  "bytes option \<Rightarrow> u64 \<Rightarrow> auth_para \<Rightarrow> remote_auth_param \<Rightarrow> bool \<Rightarrow> bool \<Rightarrow> remote_request option" where
  "CreateRemoteAuthContext networkId newContextId para param isPrimaryContext callback =
     (if \<not> callback then None
      else
        let auth = SimpleAuthContext newContextId (Some (remote_authentication newContextId para))
              isPrimaryContext callback
        in if ra_connectionName param = []
           then (case GetConnectionName networkId newContextId of
                   None \<Rightarrow> None
                 | Some name \<Rightarrow> Some \<lparr>rr_auth = auth, rr_param = param\<lparr>ra_connectionName := name\<rparr>\<rparr>)
           else Some \<lparr>rr_auth = auth, rr_param = param\<rparr>)"

definition CreateRemoteAuthInvokerContext ::
  "bytes option \<Rightarrow> u64 \<Rightarrow> auth_param_inner \<Rightarrow> invoker_param \<Rightarrow> bool \<Rightarrow> invoker_request option" where
  "CreateRemoteAuthInvokerContext networkId newContextId authParam param callback =
     (if \<not> callback then None
      else (case GetConnectionName networkId newContextId of
              None \<Rightarrow> None
            | Some name \<Rightarrow> Some \<lparr>vr_contextId = newContextId, vr_authParam = authParam,
                             vr_param = param\<lparr>iv_connectionName := name\<rparr>\<rparr>))"

definition CreateLocalRemoteAuthContext ::
  "u64 \<Rightarrow> auth_para \<Rightarrow> bytes \<Rightarrow> bool \<Rightarrow> bool \<Rightarrow> local_remote_request option" where
  "CreateLocalRemoteAuthContext newContextId para collectorNetworkId isPrimaryContext callback =
     (if \<not> callback then None
      else Some \<lparr>lr_auth = SimpleAuthContext newContextId (Some (remote_authentication newContextId para))
             isPrimaryContext callback, lr_collectorNetworkId = collectorNetworkId\<rparr>)"

definition CreateSudoAuthContext :: "u64 \<Rightarrow> sudo_para \<Rightarrow> bool \<Rightarrow> sudo_request option" where
  "CreateSudoAuthContext newContextId para callback =
     (if \<not> callback then None else Some \<lparr>sr_contextId = newContextId, sr_para = para\<rparr>)"

section \<open>What the pool reads\<close>

text \<open>
  An authentication context is named after the caller that its callback knows; the three classes that run one at the
  engine differ in their type only.
\<close>

definition simple_view :: "context_type \<Rightarrow> int \<Rightarrow> context_callback \<Rightarrow> simple_auth_context \<Rightarrow> auth_context" where
  "simple_view contextType createTime callback c = \<lparr>cx_contextId = bc_contextId c, cx_createTime = createTime,
     cx_contextType = contextType, cx_primary = bc_isPrimaryContext c,
     cx_callerName = Callback_GetCallerName callback, cx_authType = Simple_GetAuthType c,
     cx_userId = Simple_GetUserId c, cx_tokenId = Simple_GetTokenId c, cx_authIntent = 0,
     cx_authTypeList = [Simple_GetAuthType c]\<rparr>"

definition identify_view :: "int \<Rightarrow> identify_context \<Rightarrow> auth_context" where
  "identify_view createTime c = \<lparr>cx_contextId = bc_contextId c, cx_createTime = createTime,
     cx_contextType = CONTEXT_IDENTIFY, cx_primary = bc_isPrimaryContext c, cx_callerName = [],
     cx_authType = INVALID_AUTH_TYPE, cx_userId = INVALID_USER_ID, cx_tokenId = Identify_GetTokenId c,
     cx_authIntent = 0, cx_authTypeList = [INVALID_AUTH_TYPE]\<rparr>"

definition widget_view :: "int \<Rightarrow> widget_request \<Rightarrow> auth_context" where
  "widget_view createTime c = \<lparr>cx_contextId = wr_contextId c, cx_createTime = createTime,
     cx_contextType = WIDGET_AUTH_CONTEXT, cx_primary = wr_isPrimary c, cx_callerName = wc_callerName (wr_para c),
     cx_authType = INVALID_AUTH_TYPE, cx_userId = wc_userId (wr_para c), cx_tokenId = wc_tokenId (wr_para c),
     cx_authIntent = 0, cx_authTypeList = wc_authTypeList (wr_para c)\<rparr>"

definition sudo_view :: "int \<Rightarrow> sudo_request \<Rightarrow> auth_context" where
  "sudo_view createTime c = \<lparr>cx_contextId = sr_contextId c, cx_createTime = createTime,
     cx_contextType = SUDO_AUTH_CONTEXT, cx_primary = True, cx_callerName = sp_callerName (sr_para c),
     cx_authType = PIN, cx_userId = sp_userId (sr_para c), cx_tokenId = sp_tokenId (sr_para c),
     cx_authIntent = SUDO_PIN_AUTH, cx_authTypeList = [PIN]\<rparr>"

definition invoker_view :: "int \<Rightarrow> invoker_request \<Rightarrow> auth_context" where
  "invoker_view createTime c = \<lparr>cx_contextId = vr_contextId c, cx_createTime = createTime,
     cx_contextType = REMOTE_AUTH_INVOKER_CONTEXT, cx_primary = False, cx_callerName = [],
     cx_authType = INVALID_AUTH_TYPE, cx_userId = INVALID_USER_ID, cx_tokenId = iv_tokenId (vr_param c),
     cx_authIntent = 0, cx_authTypeList = [INVALID_AUTH_TYPE]\<rparr>"

text \<open>The pool attributes each context to the token of the request it was created for, under the new id.\<close>

lemma created_views [simp]:
  "CreateSimpleAuthContext i para p True = Some c \<Longrightarrow>
     cx_contextId (simple_view t n cb c) = i \<and> cx_tokenId (simple_view t n cb c) = ap_tokenId para \<and> bc_contextId c = i"
  "CreateIdentifyContext i ipara True = Some ic \<Longrightarrow>
     cx_contextId (identify_view n ic) = i \<and> cx_tokenId (identify_view n ic) = ip_tokenId ipara \<and> bc_contextId ic = i"
  by (auto simp: CreateSimpleAuthContext_def simple_view_def SimpleAuthContext_def base_context.defs BaseContext_def
      Simple_GetTokenId_def Auth_SetEndAfterFirstFail_def Auth_SetAccessTokenId_def CreateIdentifyContext_def
      identify_view_def IdentifyContext_def Identify_GetTokenId_def Ident_SetAccessTokenId_def Let_def)

end
