(* ===== verification/Sudo_Auth.thy ===== *)
theory Sudo_Auth
  imports Auth_Factory Pool_Driven
begin

text \<open>
  A sudo authentication, \<^verbatim>\<open>services/context/src/sudo_auth_context.cpp\<close>: the context asks for the state of the
  user's PIN, answers at once when it is not enrolled or frozen, and otherwise runs a child context: the silent child
  takes the PIN without a dialogue, the widget child, chosen for the last try before the lockout, shows one. The
  answer of the child is the answer of the sudo context.

  The context shares the pool with everybody else, so the pool is a field of its record: its own calls change the
  field, and what others do with the pool is a step. \<^verbatim>\<open>dialogActive_\<close> is the pool's flag for the context's id.
  \<open>su_launched\<close> remembers the children that the pool accepted, each with its callback. What the callbacks do after they
  delivered a result, the removal from the pool above all, is a step of the pool.
\<close>

section \<open>Data\<close>

datatype sudo_phase = PHASE_QUERY | PHASE_RUN | PHASE_END

datatype sudo_child =
    SilentChild simple_auth_context context_callback
  | WidgetChild widget_request context_callback

record sudo_auth_context = base_context +
  su_para :: sudo_para
  su_phase :: sudo_phase
  su_childContextId :: "u64 option"
  su_childIsWidget :: bool
  su_stopping :: bool
  su_pool :: context_pool
  su_launched :: "sudo_child list"

record sudo_env =
  sv_profile :: profile_env
  sv_draws :: "nat \<Rightarrow> u64 option"
  sv_createTime :: int
  sv_callback :: callback_env

definition SudoAuthContext :: "u64 \<Rightarrow> sudo_para \<Rightarrow> bool \<Rightarrow> context_pool \<Rightarrow> sudo_auth_context" where
  "SudoAuthContext contextId para callback pool =
     base_context.extend (BaseContext contextId True callback)
       (sudo_auth_context.fields para PHASE_QUERY None False False pool [])"

section \<open>Operations\<close>

definition set_dialogActive :: "bool \<Rightarrow> sudo_auth_context \<Rightarrow> sudo_auth_context" where
  "set_dialogActive b c =
     c\<lparr>su_pool := (su_pool c)\<lparr>cp_dialogActive := (cp_dialogActive (su_pool c))(bc_contextId c := b)\<rparr>\<rparr>"

definition Sudo_EndWithResult :: "i32 \<Rightarrow> attributes \<Rightarrow> sudo_auth_context \<Rightarrow> sudo_auth_context" where
  "Sudo_EndWithResult resultCode finalResult c =
     (if su_phase c = PHASE_END then c
      else
        let c = (set_dialogActive False (c\<lparr>su_phase := PHASE_END\<rparr>))\<lparr>su_childContextId := None\<rparr>
        in if \<not> bc_callback c then c else ctx_emit (ResultDelivered resultCode finalResult) c)"

definition locked_result :: "auth_profile \<Rightarrow> attributes" where
  "locked_result profile =
     (let nextPhase = (if sint (pr_nextPhaseFreezingTime profile) > 0 then pr_nextPhaseFreezingTime profile
            else FIRST_LOCKOUT_DURATION_OF_PIN);
          lockedResult = snd (SetInt32Value ATTR_RESULT_CODE LOCKED Attributes_new);
          lockedResult = snd (SetInt32Value ATTR_REMAIN_TIMES 0 lockedResult);
          lockedResult = snd (SetInt32Value ATTR_FREEZING_TIME (pr_freezingTime profile) lockedResult)
      in snd (SetInt32Value ATTR_NEXT_FAIL_LOCKOUT_DURATION nextPhase lockedResult))"

definition EndWithLocked :: "auth_profile \<Rightarrow> sudo_auth_context \<Rightarrow> sudo_auth_context" where
  "EndWithLocked profile c = Sudo_EndWithResult LOCKED (locked_result profile) c"

definition BuildChildCallback :: "sudo_env \<Rightarrow> sudo_auth_context \<Rightarrow> context_callback option" where
  "BuildChildCallback e c =
     (case ContextCallback_NewInstance (sv_callback e) True TRACE_AUTH_USER_SECURITY of
        None \<Rightarrow> None
      | Some childCallback \<Rightarrow>
          Some (SetTraceAuthType PIN (SetTraceAuthTrustLevel (sp_atl (su_para c))
            (SetTraceRequestContextId (bc_contextId c) (SetTraceCallerType (sp_callerType (su_para c))
              (SetTraceCallerName (sp_callerName (su_para c)) childCallback))))))"

definition LaunchChild :: "sudo_child \<Rightarrow> auth_context \<Rightarrow> sudo_auth_context \<Rightarrow> bool \<times> sudo_auth_context" where
  "LaunchChild child view c =
     (let c = c\<lparr>su_childContextId := Some (cx_contextId view), su_phase := PHASE_RUN\<rparr>
      in case Pool_Schedule (Some view) (su_pool c) of
           (scheduled, pool) \<Rightarrow>
             if \<not> scheduled then (False, c\<lparr>su_pool := pool\<rparr>)
             else (True, c\<lparr>su_pool := pool, su_launched := su_launched c @ [child]\<rparr>))"

definition silent_para :: "sudo_para \<Rightarrow> auth_para" where
  "silent_para p = empty_para\<lparr>ap_tokenId := sp_tokenId p, ap_userId := sp_userId p, ap_authType := PIN,
     ap_atl := sp_atl p, ap_challenge := sp_challenge p, ap_endAfterFirstFail := True,
     ap_callerName := sp_callerName p, ap_callerType := sp_callerType p, ap_sdkVersion := sp_sdkVersion p,
     ap_authIntent := 0, ap_isOsAccountVerified := sp_isOsAccountVerified p\<rparr>"

definition StartSilentChild :: "sudo_env \<Rightarrow> sudo_auth_context \<Rightarrow> bool \<times> sudo_auth_context" where
  "StartSilentChild e c =
     (case BuildChildCallback e c of
        None \<Rightarrow> (False, c)
      | Some childCallback \<Rightarrow>
          (case CreateSimpleAuthContext (GetNewContextId (sv_draws e) (su_pool c)) (silent_para (su_para c)) False True of
             None \<Rightarrow> (False, c)
           | Some child \<Rightarrow>
               let childCallback = SetCleaner (bc_contextId child) childCallback
               in LaunchChild (SilentChild child childCallback)
                    (simple_view CONTEXT_SIMPLE_AUTH (sv_createTime e) childCallback child) c))"

definition dialog_para :: "auth_profile \<Rightarrow> sudo_para \<Rightarrow> widget_para" where
  "dialog_para profile p =
     (let para = default_widget_para 0
      in para\<lparr>wc_isBackgroundApplication := \<not> sp_needSubscribeAppState p, wc_userId := sp_userId p,
           wc_sdkVersion := sp_sdkVersion p, wc_isOsAccountVerified := sp_isOsAccountVerified p,
           wc_tokenId := sp_tokenId p, wc_callerName := sp_callerName p, wc_callerType := sp_callerType p,
           wc_challenge := sp_challenge p, wc_authTypeList := [PIN], wc_atl := sp_atl p,
           wc_widgetParam := (wc_widgetParam para)\<lparr>wp_title := sp_additionalInfo p, wp_windowMode := DIALOG_BOX\<rparr>,
           wc_authProfileMap := [PIN \<mapsto> profile]\<rparr>)"

definition StartWidgetChild :: "sudo_env \<Rightarrow> auth_profile \<Rightarrow> sudo_auth_context \<Rightarrow> bool \<times> sudo_auth_context" where
  "StartWidgetChild e profile c =
     (case BuildChildCallback e c of
        None \<Rightarrow> (False, c)
      | Some childCallback \<Rightarrow>
          (case CreateWidgetContext (GetNewContextId (sv_draws e) (su_pool c)) (dialog_para profile (su_para c)) False
                  True False None of
             None \<Rightarrow> (False, c)
           | Some child \<Rightarrow>
               let c = set_dialogActive True c;
                   c = c\<lparr>su_pool := NotifyPreemptStateChanged (su_pool c)\<rparr>
               in LaunchChild (WidgetChild child childCallback) (widget_view (sv_createTime e) child) c))"

definition DispatchByProfile :: "sudo_env \<Rightarrow> auth_profile \<Rightarrow> sudo_auth_context \<Rightarrow> sudo_auth_context" where
  "DispatchByProfile e profile c =
     (if su_phase c \<noteq> PHASE_QUERY then c
      else if sint (pr_freezingTime profile) > 0 then EndWithLocked profile c
      else if pr_remainTimes profile = 1 then
        (case StartWidgetChild e profile (c\<lparr>su_childIsWidget := True\<rparr>) of
           (started, c) \<Rightarrow>
             if \<not> started then Sudo_EndWithResult GENERAL_ERROR Attributes_new (c\<lparr>su_childIsWidget := False\<rparr>) else c)
      else
        (case StartSilentChild e c of
           (started, c) \<Rightarrow> if \<not> started then Sudo_EndWithResult GENERAL_ERROR Attributes_new c else c))"

definition Sudo_OnStart :: "sudo_env \<Rightarrow> sudo_auth_context \<Rightarrow> bool \<times> sudo_auth_context" where
  "Sudo_OnStart e c =
     (case GetUserAuthProfile (sv_profile e) (sp_userId (su_para c)) PIN AuthProfile_default [] of
        (ret, profile, calls) \<Rightarrow>
          let c = ctx_emit (ExecutorsCalled calls) c
          in (True, if ret = NOT_ENROLLED then Sudo_EndWithResult NOT_ENROLLED Attributes_new c
                    else if ret \<noteq> SUCCESS then Sudo_EndWithResult GENERAL_ERROR Attributes_new c
                    else DispatchByProfile e profile c))"

definition OnChildResult :: "sudo_env \<Rightarrow> i32 \<Rightarrow> attributes \<Rightarrow> sudo_auth_context \<Rightarrow> sudo_auth_context" where
  "OnChildResult e resultCode finalResult c =
     (if su_phase c \<noteq> PHASE_RUN then c
      else if su_stopping c \<or> resultCode = CANCELED then Sudo_EndWithResult CANCELED finalResult c
      else if resultCode = SUCCESS \<or> \<not> su_childIsWidget c then Sudo_EndWithResult resultCode finalResult c
      else (case GetUserAuthProfile (sv_profile e) (sp_userId (su_para c)) PIN AuthProfile_default [] of
              (ret, profile, calls) \<Rightarrow>
                let c = ctx_emit (ExecutorsCalled calls) c
                in if ret = SUCCESS \<and> sint (pr_freezingTime profile) > 0 then EndWithLocked profile c
                   else Sudo_EndWithResult resultCode finalResult c))"

text \<open>The child's callback: the result arrives as bytes.\<close>

definition SudoChildCallback_OnResult :: "sudo_env \<Rightarrow> i32 \<Rightarrow> bytes \<Rightarrow> sudo_auth_context \<Rightarrow> sudo_auth_context" where
  "SudoChildCallback_OnResult e resultCode extraInfo c = OnChildResult e resultCode (Attributes_of_raw extraInfo) c"

definition Sudo_OnStop :: "sudo_auth_context \<Rightarrow> bool \<times> sudo_auth_context" where
  "Sudo_OnStop c =
     (True,
      if su_phase c = PHASE_END then c
      else if su_phase c \<noteq> PHASE_RUN \<or> su_childContextId c = None then Sudo_EndWithResult CANCELED Attributes_new c
      else
        let c = c\<lparr>su_stopping := True\<rparr>
        in c\<lparr>su_pool := Pool_Cancel (the (su_childContextId c)) (su_pool c)\<rparr>)"

section \<open>Runs\<close>

datatype sudo_label =
    SudoStart sudo_env
  | SudoStop
  | SudoChildResult sudo_env i32 bytes
  | SudoPool pool_label

text \<open>Nobody but the context itself sets its dialogue flag.\<close>

inductive sudo_step ::
  "(context_call list \<Rightarrow> u64 \<Rightarrow> bool) \<Rightarrow> (context_call list \<Rightarrow> u64 \<Rightarrow> i32) \<Rightarrow>
   sudo_label \<Rightarrow> sudo_auth_context \<Rightarrow> sudo_auth_context \<Rightarrow> bool"
  for start latestError where
  sudo_start: "sudo_step start latestError (SudoStart e) c (start_task (Sudo_OnStart e) c)"
| sudo_stop: "sudo_step start latestError SudoStop c (snd (Base_Stop Sudo_OnStop c))"
| sudo_child: "sudo_step start latestError (SudoChildResult e code extra) c (SudoChildCallback_OnResult e code extra c)"
| sudo_pool: "pool_step start latestError l (su_pool c) p \<Longrightarrow>
    cp_dialogActive p (bc_contextId c) = cp_dialogActive (su_pool c) (bc_contextId c) \<Longrightarrow>
    sudo_step start latestError (SudoPool l) c (c\<lparr>su_pool := p\<rparr>)"

inductive sudo_run ::
  "(context_call list \<Rightarrow> u64 \<Rightarrow> bool) \<Rightarrow> (context_call list \<Rightarrow> u64 \<Rightarrow> i32) \<Rightarrow>
   sudo_auth_context \<Rightarrow> sudo_label list \<Rightarrow> sudo_auth_context \<Rightarrow> bool"
  for start latestError c0 where
  run_nil: "sudo_run start latestError c0 [] c0"
| run_snoc: "sudo_run start latestError c0 ls c \<Longrightarrow> sudo_step start latestError l c c' \<Longrightarrow>
    sudo_run start latestError c0 (ls @ [l]) c'"

inductive_cases sudo_stepE: "sudo_step start latestError l c c'"

fun is_sudo_start :: "sudo_label \<Rightarrow> bool" where
  "is_sudo_start (SudoStart e) = True"
| "is_sudo_start _ = False"

end
