(* ===== verification/Sudo_Auth_Properties.thy ===== *)
theory Sudo_Auth_Properties
  imports Sudo_Auth Context_Life
begin

text \<open>
  What a sudo authentication owes to its caller, along every interleaving of its start, its stop, the results of its
  child and the pool's own life: one answer, a success only from the child and never after a stop, and children that
  authenticate the caller's user and nobody else.
\<close>

section \<open>The operations\<close>

definition sudo_keeps :: "sudo_auth_context \<Rightarrow> sudo_auth_context \<Rightarrow> bool" where
  "sudo_keeps c c' \<longleftrightarrow>
     bc_contextId c' = bc_contextId c \<and> bc_callback c' = bc_callback c \<and> bc_hasStarted c' = bc_hasStarted c \<and>
     bc_stopRequested c' = bc_stopRequested c \<and> bc_startFailDelivered c' = bc_startFailDelivered c \<and>
     su_para c' = su_para c"

lemma sudo_keeps_refl [simp]: "sudo_keeps c c"
  by (simp add: sudo_keeps_def)

lemma sudo_keeps_trans: "sudo_keeps a b \<Longrightarrow> sudo_keeps b c \<Longrightarrow> sudo_keeps a c"
  by (simp add: sudo_keeps_def)

lemma sudo_updates [simp]:
  "results (c\<lparr>su_phase := p\<rparr>) = results c" "results (c\<lparr>su_childContextId := i\<rparr>) = results c"
  "results (c\<lparr>su_childIsWidget := b\<rparr>) = results c" "results (c\<lparr>su_stopping := b\<rparr>) = results c"
  "results (c\<lparr>su_pool := q\<rparr>) = results c" "results (c\<lparr>su_launched := l\<rparr>) = results c"
  by (simp_all add: results_def)

lemma sudo_emit [simp]:
  "sudo_keeps c (ctx_emit out c')= sudo_keeps c c'"
  "su_phase (ctx_emit out c) = su_phase c" "su_childContextId (ctx_emit out c) = su_childContextId c"
  "su_childIsWidget (ctx_emit out c) = su_childIsWidget c" "su_stopping (ctx_emit out c) = su_stopping c"
  "su_pool (ctx_emit out c) = su_pool c" "su_launched (ctx_emit out c) = su_launched c"
  "su_para (ctx_emit out c) = su_para c" "bc_contextId (ctx_emit out c) = bc_contextId c"
  by (simp_all add: sudo_keeps_def ctx_emit_def)

lemma sudo_emit_results [simp]: "results (ctx_emit (out :: ctx_output) (c :: sudo_auth_context)) = results c @ (if is_result out then [out] else [])"
  by (simp add: results_def ctx_emit_def)

lemma set_dialog [simp]:
  "sudo_keeps c (set_dialogActive b c') = sudo_keeps c c'" "results (set_dialogActive b c) = results c"
  "su_phase (set_dialogActive b c) = su_phase c" "su_childContextId (set_dialogActive b c) = su_childContextId c"
  "su_childIsWidget (set_dialogActive b c) = su_childIsWidget c" "su_stopping (set_dialogActive b c) = su_stopping c"
  "su_launched (set_dialogActive b c) = su_launched c" "bc_callback (set_dialogActive b c) = bc_callback c"
  "bc_contextId (set_dialogActive b c) = bc_contextId c" "su_para (set_dialogActive b c) = su_para c"
  by (simp_all add: set_dialogActive_def sudo_keeps_def results_def)

text \<open>What ending does; a second end does nothing.\<close>

definition ended :: "i32 \<Rightarrow> attributes \<Rightarrow> sudo_auth_context \<Rightarrow> sudo_auth_context \<Rightarrow> bool" where
  "ended code a c c' \<longleftrightarrow>
     sudo_keeps c c' \<and> su_phase c' = PHASE_END \<and> su_stopping c' = su_stopping c \<and> su_launched c' = su_launched c \<and>
     \<not> cp_dialogActive (su_pool c') (bc_contextId c) \<and>
     results c' = results c @ (if bc_callback c then [ResultDelivered code a] else [])"

lemma EndWithResult_ended:
  "su_phase c \<noteq> PHASE_END \<Longrightarrow> ended code a c (Sudo_EndWithResult code a c)"
  by (simp add: ended_def Sudo_EndWithResult_def Let_def set_dialogActive_def sudo_keeps_def results_def ctx_emit_def)

lemma ended_emit: "ended code a (ctx_emit out c) c' \<Longrightarrow> \<not> is_result out \<Longrightarrow> ended code a c c'"
  by (simp add: ended_def sudo_keeps_def) (simp add: ctx_emit_def)

lemma ended_widget: "ended code a (c\<lparr>su_childIsWidget := b\<rparr>) c' \<Longrightarrow> ended code a c c'"
  by (simp add: ended_def sudo_keeps_def)

section \<open>Launching a child\<close>

lemma BuildChildCallback_Some: "\<exists>cb. BuildChildCallback e c = Some cb \<and> new_callback TRACE_AUTH_USER_SECURITY cb"
  by (simp add: BuildChildCallback_def)

text \<open>The dialogue flag of the context is changed by the context alone, whatever the pool does.\<close>

lemma promote_dialog [simp]: "cp_dialogActive (promote p) = cp_dialogActive p"
  by (rule promote_eq [of p]) simp

lemma Schedule_dialog: "Pool_Schedule v p = (r, q) \<Longrightarrow> cp_dialogActive q = cp_dialogActive p"
  by (auto simp: Pool_Schedule_def split: option.splits if_splits)

definition launched :: "bool \<Rightarrow> sudo_child \<Rightarrow> sudo_auth_context \<Rightarrow> bool \<times> sudo_auth_context \<Rightarrow> bool" where
  "launched dialog child c r \<longleftrightarrow>
     sudo_keeps c (snd r) \<and> results (snd r) = results c \<and> su_phase (snd r) = PHASE_RUN \<and>
     su_childContextId (snd r) \<noteq> None \<and> su_stopping (snd r) = su_stopping c \<and> su_childIsWidget (snd r) = dialog \<and>
     cp_dialogActive (su_pool (snd r)) (bc_contextId c) = dialog \<and>
     su_launched (snd r) = su_launched c @ (if fst r then [child] else [])"

lemma LaunchChild_launched:
  assumes "cp_dialogActive (su_pool c) (bc_contextId c) = dialog" "su_childIsWidget c = dialog"
  shows "launched dialog child c (LaunchChild child view c)"
proof -
  obtain r q where q: "Pool_Schedule (Some view) (su_pool c) = (r, q)" by fastforce
  then show ?thesis
    using Schedule_dialog [OF q] assms
    by (simp add: LaunchChild_def Let_def launched_def sudo_keeps_def)
qed

lemma launched_from:
  "launched dialog child d r \<Longrightarrow> sudo_keeps c d \<Longrightarrow> results d = results c \<Longrightarrow> su_stopping d = su_stopping c \<Longrightarrow>
     su_launched d = su_launched c \<Longrightarrow> launched dialog child c r"
  by (auto simp: launched_def sudo_keeps_def)

lemma launch_failed:
  "launched dialog child c (False, d) \<Longrightarrow> ended code a (d\<lparr>su_childIsWidget := b\<rparr>) c' \<Longrightarrow> ended code a c c'"
  by (auto simp: launched_def ended_def sudo_keeps_def)

text \<open>The request that a child carries out: whose, for what and how strong.\<close>

definition silent_request :: "sudo_para \<Rightarrow> authentication \<Rightarrow> bool" where
  "silent_request p a \<longleftrightarrow>
     au_para a = silent_para p \<and> au_challenge a = sp_challenge p \<and> au_tokenId a = sp_tokenId p \<and> au_endAfterFirstFail a"

fun child_of :: "sudo_auth_context \<Rightarrow> sudo_child \<Rightarrow> bool" where
  "child_of c (SilentChild x cb) \<longleftrightarrow>
     \<not> bc_isPrimaryContext x \<and> (\<exists>a. sa_auth x = Some a \<and> silent_request (su_para c) a) \<and>
     cb_cleaner cb = Some (bc_contextId x) \<and> md_requestContextId (cb_metaData cb) = Some (bc_contextId c)"
| "child_of c (WidgetChild x cb) \<longleftrightarrow>
     \<not> wr_isPrimary x \<and> (\<exists>profile. wr_para x = dialog_para profile (su_para c) \<and> pr_remainTimes profile = 1) \<and>
     md_requestContextId (cb_metaData cb) = Some (bc_contextId c)"

fun is_dialog :: "sudo_child \<Rightarrow> bool" where
  "is_dialog (SilentChild x cb) = False"
| "is_dialog (WidgetChild x cb) = True"

lemma child_of_keeps: "sudo_keeps c c' \<Longrightarrow> child_of c' child = child_of c child"
  by (cases child) (simp_all add: sudo_keeps_def)

lemma StartSilentChild_launched:
  assumes "\<not> cp_dialogActive (su_pool c) (bc_contextId c)" "\<not> su_childIsWidget c"
  shows "\<exists>child. child_of c child \<and> \<not> is_dialog child \<and> launched False child c (StartSilentChild e c)"
proof -
  obtain cb where cb: "BuildChildCallback e c = Some cb" "md_requestContextId (cb_metaData cb) = Some (bc_contextId c)"
    by (simp add: BuildChildCallback_def trace_setters)
  obtain x where x: "CreateSimpleAuthContext (GetNewContextId (sv_draws e) (su_pool c)) (silent_para (su_para c)) False True
      = Some x" "\<not> bc_isPrimaryContext x" "\<exists>a. sa_auth x = Some a \<and> silent_request (su_para c) a"
    unfolding CreateSimpleAuthContext_def
    by (simp add: SimpleAuthContext_def BaseContext_def base_context.defs Let_def silent_request_def AuthenticationImpl_def
        Auth_SetChallenge_def Auth_SetAccessTokenId_def Auth_SetEndAfterFirstFail_def silent_para_def del: created_views)
  have "child_of c (SilentChild x (SetCleaner (bc_contextId x) cb))" using x cb by (simp add: SetCleaner_def del: created_views)
  then show ?thesis
    using LaunchChild_launched [of c False] assms
    by (intro exI [of _ "SilentChild x (SetCleaner (bc_contextId x) cb)"]) (simp add: StartSilentChild_def cb x Let_def del: created_views)
qed

lemma StartWidgetChild_launched:
  assumes "pr_remainTimes profile = 1" "su_childIsWidget c"
  shows "\<exists>child. child_of c child \<and> is_dialog child \<and> launched True child c (StartWidgetChild e profile c)"
proof -
  obtain cb where cb: "BuildChildCallback e c = Some cb" "md_requestContextId (cb_metaData cb) = Some (bc_contextId c)"
    by (simp add: BuildChildCallback_def trace_setters)
  obtain x where x: "CreateWidgetContext (GetNewContextId (sv_draws e) (su_pool c)) (dialog_para profile (su_para c)) False
      True False None = Some x" "\<not> wr_isPrimary x" "wr_para x = dialog_para profile (su_para c)"
    by (simp add: CreateWidgetContext_def)
  let ?d = "set_dialogActive True c"
  let ?d = "?d\<lparr>su_pool := NotifyPreemptStateChanged (su_pool ?d)\<rparr>"
  have "launched True (WidgetChild x cb) ?d (LaunchChild (WidgetChild x cb) (widget_view (sv_createTime e) x) ?d)"
    by (rule LaunchChild_launched) (use assms in \<open>simp_all add: set_dialogActive_def NotifyPreemptStateChanged_def\<close>)
  then have "launched True (WidgetChild x cb) c (LaunchChild (WidgetChild x cb) (widget_view (sv_createTime e) x) ?d)"
    by (rule launched_from) (simp_all add: set_dialogActive_def sudo_keeps_def)
  moreover have "child_of c (WidgetChild x cb)" using x cb assms by auto
  ultimately show ?thesis
    by (intro exI [of _ "WidgetChild x cb"]) (simp add: StartWidgetChild_def cb x Let_def)
qed

text \<open>A start answers, and never with success, or it leaves an accepted child at work.\<close>

definition asked :: "sudo_auth_context \<Rightarrow> sudo_auth_context \<Rightarrow> bool" where
  "asked c c' \<longleftrightarrow> (\<exists>child. child_of c child \<and> launched (is_dialog child) child c (True, c'))"

definition refused :: "sudo_auth_context \<Rightarrow> sudo_auth_context \<Rightarrow> bool" where
  "refused c c' \<longleftrightarrow> (\<exists>code a. code \<noteq> SUCCESS \<and> ended code a c c')"

lemma child_or_refused:
  assumes "launched (is_dialog child) child c (started, d)" "child_of c child"
  shows "asked c d \<and> started \<or> refused c (Sudo_EndWithResult GENERAL_ERROR Attributes_new (d\<lparr>su_childIsWidget := b\<rparr>)) \<and> \<not> started"
proof (cases started)
  case True
  then show ?thesis using assms by (auto simp: asked_def)
next
  case False
  have "su_phase (d\<lparr>su_childIsWidget := b\<rparr>) \<noteq> PHASE_END" using assms(1) by (simp add: launched_def)
  then have "ended GENERAL_ERROR Attributes_new c (Sudo_EndWithResult GENERAL_ERROR Attributes_new (d\<lparr>su_childIsWidget := b\<rparr>))"
    by (intro launch_failed [OF _ EndWithResult_ended]) (use assms(1) False in auto)
  then show ?thesis using False by (auto simp: refused_def intro!: exI [of _ GENERAL_ERROR] exI [of _ Attributes_new])
qed

lemma DispatchByProfile_outcome:
  assumes "su_phase c = PHASE_QUERY" "\<not> cp_dialogActive (su_pool c) (bc_contextId c)" "\<not> su_childIsWidget c"
  shows "asked c (DispatchByProfile e profile c) \<or> refused c (DispatchByProfile e profile c)"
proof -
  consider "sint (pr_freezingTime profile) > 0" | "sint (pr_freezingTime profile) \<le> 0" "pr_remainTimes profile = 1"
    | "sint (pr_freezingTime profile) \<le> 0" "pr_remainTimes profile \<noteq> 1" by linarith
  then show ?thesis
  proof cases
    case 1
    then have "ended LOCKED (locked_result profile) c (DispatchByProfile e profile c)"
      using assms(1) EndWithResult_ended by (simp add: DispatchByProfile_def EndWithLocked_def)
    then show ?thesis by (auto simp: refused_def intro!: exI [of _ LOCKED])
  next
    case 2
    obtain started d where d: "StartWidgetChild e profile (c\<lparr>su_childIsWidget := True\<rparr>) = (started, d)" by fastforce
    obtain child where child: "child_of (c\<lparr>su_childIsWidget := True\<rparr>) child" "is_dialog child"
      "launched True child (c\<lparr>su_childIsWidget := True\<rparr>) (started, d)"
      using StartWidgetChild_launched [OF 2(2), of "c\<lparr>su_childIsWidget := True\<rparr>" e] d by auto
    have "sudo_keeps c (c\<lparr>su_childIsWidget := True\<rparr>)" by (simp add: sudo_keeps_def)
    then have "child_of c child" "launched (is_dialog child) child c (started, d)"
      using child child_of_keeps launched_from [OF child(3), of c] by auto
    from child_or_refused [OF this(2,1)] show ?thesis
      using 2 assms(1) by (auto simp: DispatchByProfile_def d)
  next
    case 3
    obtain started d where d: "StartSilentChild e c = (started, d)" by fastforce
    obtain child where "child_of c child" "launched (is_dialog child) child c (started, d)"
      using StartSilentChild_launched [OF assms(2,3), of e] d by fastforce
    from child_or_refused [OF this(2,1), of "su_childIsWidget d"] show ?thesis
      using 3 assms(1) by (auto simp: DispatchByProfile_def d)
  qed
qed

lemma outcome_emit:
  assumes "\<not> is_result out"
  shows "asked (ctx_emit out c) c' \<Longrightarrow> asked c c'" "refused (ctx_emit out c) c' \<Longrightarrow> refused c c'"
proof -
  have k: "sudo_keeps c (ctx_emit out c)" "results (ctx_emit out c) = results c" using assms by simp_all
  show "asked c c'" if "asked (ctx_emit out c) c'"
    using that child_of_keeps [OF k(1)] launched_from [OF _ k] by (fastforce simp: asked_def)
  show "refused c c'" if "refused (ctx_emit out c) c'"
    using that ended_emit assms by (fastforce simp: refused_def)
qed

lemma OnStart_outcome:
  assumes "su_phase c = PHASE_QUERY" "\<not> cp_dialogActive (su_pool c) (bc_contextId c)" "\<not> su_childIsWidget c"
  shows "fst (Sudo_OnStart e c)" "asked c (snd (Sudo_OnStart e c)) \<or> refused c (snd (Sudo_OnStart e c))"
proof -
  obtain ret profile calls where q: "GetUserAuthProfile (sv_profile e) (sp_userId (su_para c)) PIN AuthProfile_default [] =
      (ret, profile, calls)" by (metis prod_cases3)
  let ?c = "ctx_emit (ExecutorsCalled calls) c"
  have end_refused: "code \<noteq> SUCCESS \<Longrightarrow> refused ?c (Sudo_EndWithResult code Attributes_new ?c)" for code
    using EndWithResult_ended [of ?c code] assms(1) by (auto simp: refused_def)
  have "asked ?c (snd (Sudo_OnStart e c)) \<or> refused ?c (snd (Sudo_OnStart e c))"
    using end_refused [of NOT_ENROLLED] end_refused [of GENERAL_ERROR] DispatchByProfile_outcome [of ?c e profile] assms
    by (simp add: Sudo_OnStart_def q Let_def)
  then show "asked c (snd (Sudo_OnStart e c)) \<or> refused c (snd (Sudo_OnStart e c))"
    using outcome_emit [of "ExecutorsCalled calls"] by auto
  show "fst (Sudo_OnStart e c)" by (simp add: Sudo_OnStart_def q Let_def)
qed

text \<open>The result of a child ends a running context; a stop reaches the child first.\<close>

lemma OnChildResult_outcome:
  assumes "su_phase c = PHASE_RUN"
  shows "\<exists>code a. ended code a c (OnChildResult e r final c) \<and> (su_stopping c \<longrightarrow> code = CANCELED) \<and>
    (code = SUCCESS \<longrightarrow> r = SUCCESS \<and> a = final)"
proof -
  obtain ret profile calls where q: "GetUserAuthProfile (sv_profile e) (sp_userId (su_para c)) PIN AuthProfile_default [] =
      (ret, profile, calls)" by (metis prod_cases3)
  let ?c = "ctx_emit (ExecutorsCalled calls) c"
  have end_c: "ended code a c (Sudo_EndWithResult code a c)" for code a using EndWithResult_ended assms by simp
  have end_q: "ended code a c (Sudo_EndWithResult code a ?c)" for code a
    by (rule ended_emit [OF EndWithResult_ended]) (use assms in simp_all)
  consider "su_stopping c \<or> r = CANCELED" | "\<not> su_stopping c" "r \<noteq> CANCELED" "r = SUCCESS \<or> \<not> su_childIsWidget c"
    | "\<not> su_stopping c" "r \<noteq> CANCELED" "r \<noteq> SUCCESS" "su_childIsWidget c" by blast
  then show ?thesis
  proof cases
    case 1
    then show ?thesis using end_c [of CANCELED final] assms
      by (intro exI [of _ CANCELED] exI [of _ final]) (simp add: OnChildResult_def)
  next
    case 2
    then show ?thesis using end_c [of r final] assms
      by (intro exI [of _ r] exI [of _ final]) (simp add: OnChildResult_def)
  next
    case 3
    then show ?thesis
    proof (cases "ret = SUCCESS \<and> sint (pr_freezingTime profile) > 0")
      case True
      then show ?thesis using 3 end_q [of LOCKED "locked_result profile"] assms
        by (intro exI [of _ LOCKED] exI [of _ "locked_result profile"])
          (simp add: OnChildResult_def q Let_def EndWithLocked_def)
    next
      case False
      then have "OnChildResult e r final c = Sudo_EndWithResult r final ?c"
        using 3 assms by (auto simp: OnChildResult_def q Let_def)
      then show ?thesis using 3 end_q [of r final] by (intro exI [of _ r] exI [of _ final]) simp
    qed
  qed
qed

section \<open>The invariant of a run\<close>

definition fresh_sudo :: "sudo_auth_context \<Rightarrow> bool" where
  "fresh_sudo c \<longleftrightarrow>
     \<not> bc_hasStarted c \<and> \<not> bc_stopRequested c \<and> \<not> bc_startFailDelivered c \<and> bc_outputs c = [] \<and>
     su_phase c = PHASE_QUERY \<and> \<not> su_childIsWidget c \<and> \<not> su_stopping c \<and> su_launched c = [] \<and>
     \<not> cp_dialogActive (su_pool c) (bc_contextId c)"

definition child_succeeded :: "sudo_label list \<Rightarrow> attributes \<Rightarrow> bool" where
  "child_succeeded ls a \<longleftrightarrow>
     (\<exists>ls1 e extra ls2. ls = ls1 @ SudoChildResult e SUCCESS extra # ls2 \<and> a = Attributes_of_raw extra \<and>
        (\<exists>l \<in> set ls1. is_sudo_start l) \<and> SudoStop \<notin> set ls1)"

lemma child_succeeded_append: "child_succeeded ls a \<Longrightarrow> child_succeeded (ls @ ks) a"
  unfolding child_succeeded_def by (metis append.assoc append_Cons)

definition sudo_inv :: "sudo_label list \<Rightarrow> sudo_auth_context \<Rightarrow> bool" where
  "sudo_inv ls c \<longleftrightarrow>
     (su_phase c \<noteq> PHASE_QUERY \<longleftrightarrow> bc_hasStarted c) \<and>
     (bc_hasStarted c \<longrightarrow> (\<exists>l \<in> set ls. is_sudo_start l)) \<and>
     ((\<exists>l \<in> set ls. is_sudo_start l) \<longrightarrow> bc_hasStarted c \<or> bc_stopRequested c) \<and>
     (bc_stopRequested c \<longleftrightarrow> bc_startFailDelivered c) \<and> (bc_stopRequested c \<longrightarrow> \<not> bc_hasStarted c) \<and>
     (su_phase c = PHASE_QUERY \<longrightarrow> \<not> su_childIsWidget c \<and> \<not> su_stopping c \<and> su_launched c = [] \<and>
        (SudoStop \<in> set ls \<longrightarrow> bc_stopRequested c)) \<and>
     (su_phase c = PHASE_RUN \<longrightarrow> su_childContextId c \<noteq> None \<and> (SudoStop \<in> set ls \<longrightarrow> su_stopping c) \<and>
        (\<exists>child. su_launched c = [child] \<and> is_dialog child = su_childIsWidget c)) \<and>
     (cp_dialogActive (su_pool c) (bc_contextId c) \<longleftrightarrow> su_phase c = PHASE_RUN \<and> su_childIsWidget c) \<and>
     (\<forall>child \<in> set (su_launched c). child_of c child) \<and> length (su_launched c) \<le> 1 \<and>
     length (results c) = (if bc_callback c \<and> (su_phase c = PHASE_END \<or> bc_stopRequested c) then 1 else 0) \<and>
     (\<forall>a. ResultDelivered SUCCESS a \<in> set (results c) \<longrightarrow> child_succeeded ls a)"

lemma fresh_sudo_inv: "fresh_sudo c \<Longrightarrow> sudo_inv [] c"
  by (simp add: fresh_sudo_def sudo_inv_def results_def)

text \<open>A label that changes nothing the invariant reads.\<close>

lemma sudo_inv_grows:
  "sudo_inv ls c \<Longrightarrow> l \<noteq> SudoStop \<Longrightarrow> \<not> is_sudo_start l \<or> bc_stopRequested c \<Longrightarrow> sudo_inv (ls @ [l]) c"
  using child_succeeded_append by (fastforce simp: sudo_inv_def)

lemma sudo_inv_ended:
  assumes "sudo_inv ls c" "bc_hasStarted c" "su_phase c = PHASE_RUN" "ended code a c c'" "code = SUCCESS \<longrightarrow> child_succeeded (ls @ [l]) a"
  shows "sudo_inv (ls @ [l]) c'"
proof -
  have k: "sudo_keeps c c'" "su_phase c' = PHASE_END" "su_launched c' = su_launched c"
    "\<not> cp_dialogActive (su_pool c') (bc_contextId c)"
    "results c' = results c @ (if bc_callback c then [ResultDelivered code a] else [])"
    using assms(4) by (auto simp: ended_def)
  have i: "\<not> bc_stopRequested c" "\<not> bc_startFailDelivered c" "results c = []" "\<exists>l \<in> set ls. is_sudo_start l"
    "\<forall>child \<in> set (su_launched c). child_of c child" "length (su_launched c) \<le> 1"
    using assms(1-3) by (auto simp: sudo_inv_def)
  show ?thesis
    unfolding sudo_inv_def using i k assms(2,5) child_of_keeps [OF k(1)] by (auto simp: sudo_keeps_def)
qed

lemma sudo_inv_child:
  assumes "sudo_inv ls c"
  shows "sudo_inv (ls @ [SudoChildResult e r extra]) (SudoChildCallback_OnResult e r extra c)"
proof (cases "su_phase c = PHASE_RUN")
  case True
  obtain code a where out: "ended code a c (SudoChildCallback_OnResult e r extra c)" "su_stopping c \<longrightarrow> code = CANCELED"
    "code = SUCCESS \<longrightarrow> r = SUCCESS \<and> a = Attributes_of_raw extra"
    using OnChildResult_outcome [OF True] unfolding SudoChildCallback_OnResult_def by blast
  have "bc_hasStarted c" "\<exists>l \<in> set ls. is_sudo_start l" "SudoStop \<in> set ls \<longrightarrow> su_stopping c"
    using assms True by (auto simp: sudo_inv_def)
  then have "code = SUCCESS \<longrightarrow> child_succeeded (ls @ [SudoChildResult e r extra]) a"
    using out(2,3) unfolding child_succeeded_def by fastforce
  then show ?thesis using sudo_inv_ended [OF assms _ True out(1)] \<open>bc_hasStarted c\<close> by blast
next
  case False
  then show ?thesis using sudo_inv_grows [OF assms] by (simp add: SudoChildCallback_OnResult_def OnChildResult_def)
qed

lemma sudo_inv_start:
  assumes "sudo_inv ls c" "\<not> (\<exists>l \<in> set ls. is_sudo_start l)"
  shows "sudo_inv (ls @ [SudoStart e]) (start_task (Sudo_OnStart e) c)"
proof -
  have i: "\<not> bc_hasStarted c" "su_phase c = PHASE_QUERY" "\<not> su_childIsWidget c" "\<not> su_stopping c" "su_launched c = []"
    "\<not> cp_dialogActive (su_pool c) (bc_contextId c)" "SudoStop \<in> set ls \<longrightarrow> bc_stopRequested c"
    "bc_stopRequested c \<longleftrightarrow> bc_startFailDelivered c"
    using assms by (auto simp: sudo_inv_def)
  show ?thesis
  proof (cases "bc_stopRequested c")
    case True
    then have "start_task (Sudo_OnStart e) c = c\<lparr>bc_latestError := CANCELED\<rparr>"
      using i by (simp add: start_task_def Base_Start_def Base_SetLatestError_def Base_OnStartFailed_def)
    moreover have "sudo_inv (ls @ [SudoStart e]) c" using sudo_inv_grows [OF assms(1)] True by simp
    moreover have "child_of (c\<lparr>bc_latestError := CANCELED\<rparr>) child = child_of c child" for child by (cases child) simp_all
    moreover have "results (c\<lparr>bc_latestError := CANCELED\<rparr>) = results c" by (simp add: results_def)
    ultimately show ?thesis by (auto simp: sudo_inv_def)
  next
    case False
    let ?c = "(Base_Mark S_CONTEXT_START c)\<lparr>bc_hasStarted := True\<rparr>"
    have c: "su_phase ?c = PHASE_QUERY" "\<not> cp_dialogActive (su_pool ?c) (bc_contextId ?c)" "\<not> su_childIsWidget ?c"
      "bc_stopRequested ?c = bc_stopRequested c" "bc_startFailDelivered ?c = bc_startFailDelivered c"
      "results ?c = results c" "su_launched ?c = []" "\<not> su_stopping ?c" "bc_hasStarted ?c"
      "bc_callback ?c = bc_callback c" "results c = []"
      using i assms(1) False by (simp_all add: Base_Mark_def ctx_emit_def results_def sudo_inv_def)
    note o = OnStart_outcome [OF c(1-3), of e]
    have run: "start_task (Sudo_OnStart e) c = snd (Sudo_OnStart e ?c)"
      using o(1) i(1) False by (simp add: start_task_def Base_Start_def split_beta)
    from o(2) show ?thesis
    proof
      assume "asked ?c (snd (Sudo_OnStart e ?c))"
      then obtain child where a: "child_of ?c child" "launched (is_dialog child) child ?c (True, snd (Sudo_OnStart e ?c))"
        by (auto simp: asked_def)
      then have "child_of (snd (Sudo_OnStart e ?c)) child" using child_of_keeps by (auto simp: launched_def)
      then show ?thesis
        using a c i False unfolding run sudo_inv_def by (auto simp: launched_def sudo_keeps_def)
    next
      assume "refused ?c (snd (Sudo_OnStart e ?c))"
      then show ?thesis
        using c i False unfolding run sudo_inv_def by (auto simp: refused_def ended_def sudo_keeps_def)
    qed
  qed
qed

lemma sudo_inv_stop:
  assumes "sudo_inv ls c"
  shows "sudo_inv (ls @ [SudoStop]) (snd (Base_Stop Sudo_OnStop c))"
proof -
  let ?c = "Base_Mark S_CANCEL c"
  have marked: "sudo_keeps c ?c" "su_phase ?c = su_phase c" "su_childIsWidget ?c = su_childIsWidget c"
    "su_stopping ?c = su_stopping c" "su_launched ?c = su_launched c" "su_pool ?c = su_pool c"
    "su_childContextId ?c = su_childContextId c" "results ?c = results c"
    by (simp_all add: Base_Mark_def ctx_emit_def sudo_keeps_def results_def)
  have "sudo_inv ls ?c"
    using assms marked child_of_keeps [OF marked(1)] unfolding sudo_inv_def by (auto simp: sudo_keeps_def)
  note inv = this
  show ?thesis
  proof (cases "bc_hasStarted c")
    case False
    then have "\<not> bc_hasStarted ?c" using marked(1) by (simp add: sudo_keeps_def)
    then have q: "su_phase ?c = PHASE_QUERY" "bc_stopRequested ?c \<longleftrightarrow> bc_startFailDelivered ?c"
      using inv by (auto simp: sudo_inv_def)
    let ?d = "Base_OnStartFailed CANCELED (?c\<lparr>bc_stopRequested := True\<rparr>)"
    have d: "\<not> bc_stopRequested ?c \<Longrightarrow> sudo_inv (ls @ [SudoStop]) ?d"
      using inv q \<open>\<not> bc_hasStarted ?c\<close> child_succeeded_append
      by (auto simp: sudo_inv_def Base_OnStartFailed_def Let_def ctx_emit_def results_def)
    have "bc_stopRequested ?c \<Longrightarrow> sudo_inv (ls @ [SudoStop]) ?c"
      using inv q child_succeeded_append by (auto simp: sudo_inv_def)
    with d show ?thesis using False \<open>\<not> bc_hasStarted ?c\<close> by (simp add: Base_Stop_def Let_def)
  next
    case True
    then have h: "bc_hasStarted ?c" using marked(1) by (simp add: sudo_keeps_def)
    then have ph: "su_phase ?c \<noteq> PHASE_QUERY" using inv by (simp add: sudo_inv_def)
    have stop: "snd (Base_Stop Sudo_OnStop c) = snd (Sudo_OnStop ?c)" using h by (simp add: Base_Stop_def Let_def)
    show ?thesis
    proof (cases "su_phase ?c = PHASE_RUN")
      case True
      let ?d = "?c\<lparr>su_stopping := True, su_pool := Pool_Cancel (the (su_childContextId ?c)) (su_pool ?c)\<rparr>"
      have "su_childContextId ?c \<noteq> None" using inv True by (simp add: sudo_inv_def)
      then have d: "snd (Sudo_OnStop ?c) = ?d" using True by (auto simp: Sudo_OnStop_def)
      have "sudo_keeps ?c ?d" by (simp add: sudo_keeps_def)
      note kids = child_of_keeps [OF this]
      show ?thesis
        unfolding stop d using inv True kids child_succeeded_append
        by (auto simp: sudo_inv_def Pool_Cancel_def)
    next
      case False
      then have e: "su_phase ?c = PHASE_END" using ph by (cases "su_phase ?c") auto
      then show ?thesis
        unfolding stop using inv child_succeeded_append by (auto simp: Sudo_OnStop_def sudo_inv_def)
    qed
  qed
qed

lemma sudo_inv_pool:
  assumes "sudo_inv ls c" "cp_dialogActive p (bc_contextId c) = cp_dialogActive (su_pool c) (bc_contextId c)"
  shows "sudo_inv (ls @ [SudoPool l]) (c\<lparr>su_pool := p\<rparr>)"
proof -
  have "sudo_inv (ls @ [SudoPool l]) c" using sudo_inv_grows [OF assms(1)] by simp
  moreover have "child_of (c\<lparr>su_pool := p\<rparr>) child = child_of c child" for child by (cases child) simp_all
  ultimately show ?thesis using assms(2) by (auto simp: sudo_inv_def)
qed

lemma sudo_run_inv:
  assumes "sudo_run start err c0 ls c" "fresh_sudo c0" "length (filter is_sudo_start ls) \<le> 1"
  shows "sudo_inv ls c"
  using assms(1,3)
proof (induction rule: sudo_run.induct)
  case run_nil
  show ?case by (rule fresh_sudo_inv [OF assms(2)])
next
  case (run_snoc ls c l c')
  then have inv: "sudo_inv ls c" by simp
  from run_snoc.hyps(2) show ?case
  proof (cases rule: sudo_step.cases)
    case (sudo_start e)
    then have "\<not> (\<exists>l \<in> set ls. is_sudo_start l)" using run_snoc.prems by (simp add: filter_empty_conv)
    then show ?thesis using sudo_inv_start [OF inv] sudo_start by simp
  qed (use sudo_inv_stop [OF inv] sudo_inv_child [OF inv] sudo_inv_pool [OF inv] in simp_all)
qed

section \<open>The constants of a run, and the pool\<close>

lemma driven_dialog: "driven p (p\<lparr>cp_dialogActive := f\<rparr>)"
  by (rule driven_step) (rule pool_dialog)

lemma driven_notify: "driven p (NotifyPreemptStateChanged p)"
  by (rule driven_step) (rule pool_notify)

lemma driven_run: "driven p q \<Longrightarrow> \<exists>ks. pool_run start err p ks q"
  by (simp add: driven_def)

definition sudo_follows ::
  "(context_call list \<Rightarrow> u64 \<Rightarrow> bool) \<Rightarrow> (context_call list \<Rightarrow> u64 \<Rightarrow> i32) \<Rightarrow> sudo_auth_context \<Rightarrow> sudo_auth_context \<Rightarrow> bool" where
  "sudo_follows start err c c' \<longleftrightarrow>
     bc_contextId c' = bc_contextId c \<and> bc_callback c' = bc_callback c \<and> su_para c' = su_para c \<and>
     (\<exists>ks. pool_run start err (su_pool c) ks (su_pool c'))"

lemma sudo_follows_refl [simp]: "sudo_follows start err c c"
  using driven_run [OF driven_refl] by (simp add: sudo_follows_def)

lemma sudo_follows_trans: "sudo_follows start err a b \<Longrightarrow> sudo_follows start err b c \<Longrightarrow> sudo_follows start err a c"
  unfolding sudo_follows_def by (metis pool_run_append)

lemma follows_simple [simp]:
  "sudo_follows start err c (ctx_emit out d) = sudo_follows start err c d" "sudo_follows start err c (Base_Mark g d) = sudo_follows start err c d"
  "sudo_follows start err c (Base_SetLatestError code d) = sudo_follows start err c d"
  "sudo_follows start err c (Base_OnStartFailed code d) = sudo_follows start err c d"
  "sudo_follows start err c (d\<lparr>bc_hasStarted := b\<rparr>) = sudo_follows start err c d" "sudo_follows start err c (d\<lparr>bc_stopRequested := b\<rparr>) = sudo_follows start err c d"
  "sudo_follows start err c (d\<lparr>su_phase := p\<rparr>) = sudo_follows start err c d" "sudo_follows start err c (d\<lparr>su_childContextId := i\<rparr>) = sudo_follows start err c d"
  "sudo_follows start err c (d\<lparr>su_childIsWidget := b\<rparr>) = sudo_follows start err c d" "sudo_follows start err c (d\<lparr>su_stopping := b\<rparr>) = sudo_follows start err c d"
  "sudo_follows start err c (d\<lparr>su_launched := l\<rparr>) = sudo_follows start err c d"
  by (simp_all add: sudo_follows_def ctx_emit_def Base_Mark_def Base_SetLatestError_def Base_OnStartFailed_def Let_def)

lemma follows_pool: "sudo_follows start err c d \<Longrightarrow> driven (su_pool d) q \<Longrightarrow> sudo_follows start err c (d\<lparr>su_pool := q\<rparr>)"
  unfolding sudo_follows_def using driven_run [of "su_pool d" q start err] by (auto intro: pool_run_append)

lemma follows_dialog: "sudo_follows start err c d \<Longrightarrow> sudo_follows start err c (set_dialogActive b d)"
  unfolding set_dialogActive_def by (intro follows_pool driven_dialog)

lemma follows_end: "sudo_follows start err c d \<Longrightarrow> sudo_follows start err c (Sudo_EndWithResult r a d)"
  by (simp add: Sudo_EndWithResult_def Let_def follows_dialog)

lemma follows_launch: "sudo_follows start err c d \<Longrightarrow> LaunchChild child view d = (r, c') \<Longrightarrow> sudo_follows start err c c'"
  by (auto simp: LaunchChild_def Let_def split: prod.splits if_splits intro!: follows_pool dest!: driven_Schedule)

lemma follows_silent: "sudo_follows start err c d \<Longrightarrow> StartSilentChild e d = (r, c') \<Longrightarrow> sudo_follows start err c c'"
  unfolding StartSilentChild_def using follows_launch by (auto simp: Let_def split: option.splits)

lemma follows_widget: "sudo_follows start err c d \<Longrightarrow> StartWidgetChild e profile d = (r, c') \<Longrightarrow> sudo_follows start err c c'"
  unfolding StartWidgetChild_def
  by (auto simp: Let_def split: option.splits intro!: follows_launch [of start err c "(set_dialogActive True d)\<lparr>su_pool :=
      NotifyPreemptStateChanged (su_pool (set_dialogActive True d))\<rparr>"] follows_pool follows_dialog driven_notify)

lemma follows_dispatch:
  assumes "sudo_follows start err c d"
  shows "sudo_follows start err c (DispatchByProfile e profile d)"
proof -
  obtain r1 d1 where d1: "StartWidgetChild e profile (d\<lparr>su_childIsWidget := True\<rparr>) = (r1, d1)" by fastforce
  obtain r2 d2 where d2: "StartSilentChild e d = (r2, d2)" by fastforce
  have "sudo_follows start err c d1" "sudo_follows start err c d2"
    using follows_widget [OF _ d1] follows_silent [OF _ d2] assms by auto
  then show ?thesis
    using assms by (simp add: DispatchByProfile_def EndWithLocked_def d1 d2 follows_end)
qed

lemma sudo_step_follows:
  assumes "sudo_step start err l c c'"
  shows "sudo_follows start err c c'"
  using assms
proof (cases rule: sudo_step.cases)
  case (sudo_start e)
  have "sudo_follows start err c d \<Longrightarrow> sudo_follows start err c (snd (Sudo_OnStart e d))" for d
    by (auto simp: Sudo_OnStart_def Let_def split_beta follows_end follows_dispatch)
  then show ?thesis by (auto simp: sudo_start start_task_def Base_Start_def split_beta)
next
  case sudo_stop
  have "sudo_follows start err c d \<Longrightarrow> sudo_follows start err c (snd (Sudo_OnStop d))" for d
    by (auto simp: Sudo_OnStop_def Let_def follows_end intro!: follows_pool driven_Cancel)
  then show ?thesis by (simp add: sudo_stop Base_Stop_def Let_def)
next
  case (sudo_child e code extra)
  then show ?thesis
    by (auto simp: SudoChildCallback_OnResult_def OnChildResult_def EndWithLocked_def Let_def split_beta follows_end)
next
  case (sudo_pool pl p)
  then show ?thesis using pool_run.run_snoc [OF pool_run.run_nil sudo_pool(3)] unfolding sudo_follows_def by auto
qed

lemma sudo_run_follows: "sudo_run start err c0 ls c \<Longrightarrow> sudo_follows start err c0 c"
  by (induction rule: sudo_run.induct) (auto intro: sudo_follows_trans sudo_step_follows)

section \<open>Properties\<close>

text \<open>
  Also shown: a sudo authentication whose start task runs once gives its caller at most one result whatever
  happens, and no request is lost: once it was started it has answered, or exactly one child that the pool accepted is
  at work for it.
\<close>

theorem sudo_answers_once:
  assumes "sudo_run start err c0 ls c" "fresh_sudo c0" "length (filter is_sudo_start ls) \<le> 1"
  shows "length (results c) \<le> 1 \<and>
    (bc_callback c0 \<and> SudoStart e \<in> set ls \<and> results c = [] \<longrightarrow>
      su_phase c = PHASE_RUN \<and> (\<exists>child. su_launched c = [child]))"
proof -
  have inv: "sudo_inv ls c" and cb: "bc_callback c = bc_callback c0"
    using sudo_run_inv assms sudo_run_follows [OF assms(1)] by (auto simp: sudo_follows_def)
  have "su_phase c = PHASE_RUN" if "bc_callback c0" "SudoStart e \<in> set ls" "results c = []"
  proof -
    have "\<exists>l \<in> set ls. is_sudo_start l" using that(2) by force
    then have "bc_hasStarted c \<or> bc_stopRequested c" using inv unfolding sudo_inv_def by blast
    then show ?thesis using inv that(1,3) cb by (cases "su_phase c") (auto simp: sudo_inv_def split: if_splits)
  qed
  then show ?thesis using inv by (auto simp: sudo_inv_def)
qed

text \<open>
  Property C14: a caller is told that a sudo authentication succeeded only with the result of a child that reported
  success after the context was started, and never when the caller stopped the request before that.
\<close>

theorem sudo_success_is_the_childs:
  assumes "sudo_run start err c0 ls c" "fresh_sudo c0" "length (filter is_sudo_start ls) \<le> 1"
    and "ResultDelivered SUCCESS a \<in> set (results c)"
  shows "\<exists>ls1 e extra ls2. ls = ls1 @ SudoChildResult e SUCCESS extra # ls2 \<and> a = Attributes_of_raw extra \<and>
    (\<exists>l \<in> set ls1. is_sudo_start l) \<and> SudoStop \<notin> set ls1"
  using sudo_run_inv [OF assms(1-3)] assms(4) by (auto simp: sudo_inv_def child_succeeded_def)

text \<open>
  Also shown: every child that a sudo authentication runs is a secondary request for the PIN of the user it was
  created for, under the caller's token, challenge and trust level; its dialogue, shown only for the last try, carries
  the caller's text. At most one child is ever launched.
\<close>

theorem sudo_children_faithful:
  assumes "sudo_run start err c0 ls c" "fresh_sudo c0" "length (filter is_sudo_start ls) \<le> 1"
  shows "length (su_launched c) \<le> 1 \<and> (\<forall>child \<in> set (su_launched c).
    (case child of
       SilentChild x cb \<Rightarrow> \<not> bc_isPrimaryContext x \<and> (\<exists>a. sa_auth x = Some a \<and>
         ap_userId (au_para a) = sp_userId (su_para c0) \<and> ap_authType (au_para a) = PIN \<and>
         ap_atl (au_para a) = sp_atl (su_para c0) \<and> au_challenge a = sp_challenge (su_para c0) \<and>
         au_tokenId a = sp_tokenId (su_para c0) \<and> au_endAfterFirstFail a)
     | WidgetChild x cb \<Rightarrow> \<not> wr_isPrimary x \<and> wc_userId (wr_para x) = sp_userId (su_para c0) \<and>
         wc_authTypeList (wr_para x) = [PIN] \<and> wc_atl (wr_para x) = sp_atl (su_para c0) \<and>
         wc_challenge (wr_para x) = sp_challenge (su_para c0) \<and> wc_tokenId (wr_para x) = sp_tokenId (su_para c0) \<and>
         wp_title (wc_widgetParam (wr_para x)) = sp_additionalInfo (su_para c0) \<and>
         (\<exists>profile. wc_authProfileMap (wr_para x) PIN = Some profile \<and> pr_remainTimes profile = 1)))"
    (is "_ \<and> (\<forall>child \<in> _. ?faithful child)")
proof -
  have inv: "sudo_inv ls c" and p: "su_para c = su_para c0"
    using sudo_run_inv assms sudo_run_follows [OF assms(1)] by (auto simp: sudo_follows_def)
  have "child_of c child \<Longrightarrow> ?faithful child" for child
    by (cases child) (auto simp: silent_request_def silent_para_def dialog_para_def Let_def p)
  then show ?thesis using inv by (simp add: sudo_inv_def)
qed

text \<open>
  Also shown: the dialogue flag of a sudo authentication, which lets newer requests take its place, is set exactly
  while its dialogue child is at work.
\<close>

theorem sudo_dialog_flag:
  assumes "sudo_run start err c0 ls c" "fresh_sudo c0" "length (filter is_sudo_start ls) \<le> 1"
  shows "cp_dialogActive (su_pool c) (bc_contextId c) \<longleftrightarrow>
    su_phase c = PHASE_RUN \<and> (\<exists>x cb. su_launched c = [WidgetChild x cb])"
proof -
  have inv: "sudo_inv ls c" by (rule sudo_run_inv [OF assms])
  have d: "is_dialog child \<longleftrightarrow> (\<exists>x cb. child = WidgetChild x cb)" for child by (cases child) simp_all
  then show ?thesis using inv by (auto simp: sudo_inv_def)
qed

text \<open>A context that was stopped before it answered.\<close>

definition quenched :: "sudo_auth_context \<Rightarrow> bool" where
  "quenched c \<longleftrightarrow>
     (\<forall>x \<in> set (results c). \<exists>a. x = ResultDelivered CANCELED a) \<and>
     (if bc_hasStarted c then su_phase c \<noteq> PHASE_QUERY \<and>
        (su_phase c = PHASE_RUN \<longrightarrow> su_stopping c \<and> su_childContextId c \<noteq> None)
      else bc_stopRequested c \<and> bc_startFailDelivered c \<and> su_phase c = PHASE_QUERY)"

lemma quenched_stop:
  assumes "sudo_inv ls c" "results c = []"
  shows "quenched (snd (Base_Stop Sudo_OnStop c))"
proof -
  let ?c = "Base_Mark S_CANCEL c"
  have m: "sudo_keeps c ?c" "su_phase ?c = su_phase c" "su_childContextId ?c = su_childContextId c" "results ?c = []"
    using assms(2) by (simp_all add: Base_Mark_def ctx_emit_def sudo_keeps_def results_def)
  have i: "su_phase c \<noteq> PHASE_QUERY \<longleftrightarrow> bc_hasStarted c" "bc_stopRequested c \<longleftrightarrow> bc_startFailDelivered c"
    "su_phase c = PHASE_RUN \<longrightarrow> su_childContextId c \<noteq> None"
    using assms(1) by (auto simp: sudo_inv_def)
  show ?thesis
  proof (cases "bc_hasStarted c")
    case False
    have "results (Base_OnStartFailed CANCELED (?c\<lparr>bc_stopRequested := True\<rparr>)) =
        (if bc_startFailDelivered c \<or> \<not> bc_callback c then [] else [ResultDelivered CANCELED Attributes_new])"
      using m(1,4) by (simp add: Base_OnStartFailed_def Let_def ctx_emit_def results_def sudo_keeps_def)
    moreover have "su_phase (Base_OnStartFailed CANCELED (?c\<lparr>bc_stopRequested := True\<rparr>)) = su_phase c"
      using m(2) by (simp add: Base_OnStartFailed_def Let_def)
    ultimately show ?thesis
      using False i m by (auto simp: quenched_def Base_Stop_def Let_def sudo_keeps_def start_failed)
  next
    case True
    then have "su_phase ?c = PHASE_RUN \<and> su_childContextId ?c \<noteq> None \<or> su_phase ?c = PHASE_END"
      using i m by (cases "su_phase c") auto
    then show ?thesis
      using True m by (auto simp: quenched_def Base_Stop_def Let_def sudo_keeps_def Sudo_OnStop_def)
  qed
qed

lemma quenched_step:
  assumes "sudo_step start err l c c'" "quenched c" "is_sudo_start l \<longrightarrow> \<not> bc_hasStarted c"
  shows "quenched c'"
  using assms(1)
proof (cases rule: sudo_step.cases)
  case (sudo_start e)
  then have "\<not> bc_hasStarted c" "bc_stopRequested c" "bc_startFailDelivered c" using assms(2,3) by (auto simp: quenched_def)
  then have "c' = c\<lparr>bc_latestError := CANCELED\<rparr>"
    by (simp add: sudo_start start_task_def Base_Start_def Base_SetLatestError_def Base_OnStartFailed_def)
  then show ?thesis using assms(2) by (simp add: quenched_def results_def)
next
  case sudo_stop
  let ?c = "Base_Mark S_CANCEL c"
  have m: "sudo_keeps c ?c" "su_phase ?c = su_phase c" "su_childContextId ?c = su_childContextId c" "results ?c = results c"
    "su_stopping ?c = su_stopping c"
    by (simp_all add: Base_Mark_def ctx_emit_def sudo_keeps_def results_def)
  show ?thesis
  proof (cases "bc_hasStarted c")
    case True
    then have "su_phase ?c = PHASE_RUN \<and> su_childContextId ?c \<noteq> None \<or> su_phase ?c = PHASE_END"
      using assms(2) m by (cases "su_phase c") (auto simp: quenched_def)
    then show ?thesis
      using True m assms(2) by (auto simp: sudo_stop quenched_def Base_Stop_def Let_def sudo_keeps_def Sudo_OnStop_def)
  next
    case False
    then show ?thesis using m assms(2) by (auto simp: sudo_stop quenched_def Base_Stop_def Let_def sudo_keeps_def)
  qed
next
  case (sudo_child e code extra)
  show ?thesis
  proof (cases "su_phase c = PHASE_RUN")
    case True
    then have "bc_hasStarted c" "su_stopping c" using assms(2) by (auto simp: quenched_def split: if_splits)
    then obtain a where "ended CANCELED a c c'"
      using OnChildResult_outcome [OF True] by (auto simp: sudo_child SudoChildCallback_OnResult_def) metis
    then show ?thesis using assms(2) \<open>bc_hasStarted c\<close> by (auto simp: quenched_def ended_def sudo_keeps_def)
  next
    case False
    then show ?thesis using assms(2) by (simp add: sudo_child SudoChildCallback_OnResult_def OnChildResult_def)
  qed
next
  case (sudo_pool pl p)
  then show ?thesis using assms(2) by (simp add: quenched_def)
qed

lemma sudo_run_append:
  "sudo_run start err c0 ls c \<Longrightarrow> ls = ks @ ms \<Longrightarrow> \<exists>d. sudo_run start err c0 ks d \<and> sudo_run start err d ms c"
proof (induction arbitrary: ms rule: sudo_run.induct)
  case run_nil
  then show ?case by (auto intro: sudo_run.run_nil)
next
  case (run_snoc ls c l c')
  show ?case
  proof (cases ms rule: rev_cases)
    case Nil
    then show ?thesis using run_snoc sudo_run.run_snoc [OF run_snoc.hyps] by (auto intro: sudo_run.run_nil)
  next
    case (snoc ns n)
    then have "ls = ks @ ns" "l = n" using run_snoc.prems by auto
    then show ?thesis using run_snoc.IH run_snoc.hyps(2) snoc by (blast intro: sudo_run.run_snoc)
  qed
qed

lemma quenched_run:
  assumes "sudo_run start err c ms c'" "quenched c" "sudo_run start err c0 ks c" "fresh_sudo c0"
    "length (filter is_sudo_start (ks @ ms)) \<le> 1"
  shows "quenched c'"
  using assms(1,5)
proof (induction rule: sudo_run.induct)
  case run_nil
  then show ?case using assms(2) by simp
next
  case (run_snoc ms d l d')
  have "sudo_run start err c0 (ks @ ms) d" if "sudo_run start err c ms d" for ms d
    using that assms(3) by (induction rule: sudo_run.induct) (auto simp flip: append_assoc intro: sudo_run.run_snoc)
  then have "sudo_run start err c0 (ks @ ms) d" using run_snoc.hyps(1) .
  then have "sudo_inv (ks @ ms) d" by (rule sudo_run_inv [OF _ assms(4)]) (use run_snoc.prems in simp)
  then have "bc_hasStarted d \<longrightarrow> (\<exists>l \<in> set (ks @ ms). is_sudo_start l)" unfolding sudo_inv_def by blast
  then have "is_sudo_start l \<longrightarrow> \<not> bc_hasStarted d"
    using run_snoc.prems by (auto simp: filter_empty_conv)
  then show ?case using quenched_step [OF run_snoc.hyps(2)] run_snoc.IH run_snoc.prems by simp
qed

text \<open>
  Property C15: a stop is final. Once a sudo authentication was stopped before it answered, the only result its caller
  can still get is CANCELED, whatever the child reports afterwards.
\<close>

theorem sudo_stop_is_final:
  assumes "sudo_run start err c0 ks c" "fresh_sudo c0" "results c = []" "sudo_run start err c (SudoStop # ms) c'"
    "length (filter is_sudo_start (ks @ ms)) \<le> 1" "x \<in> set (results c')"
  shows "\<exists>a. x = ResultDelivered CANCELED a"
proof -
  obtain d where d: "sudo_run start err c [SudoStop] d" "sudo_run start err d ms c'"
    using sudo_run_append [OF assms(4), of "[SudoStop]" ms] by auto
  have nil: "x = c" if "sudo_run start err c [] x" for x using that by (cases rule: sudo_run.cases) auto
  have "sudo_step start err SudoStop c d"
    by (rule sudo_run.cases [OF d(1)]) (use nil in auto)
  then have step: "d = snd (Base_Stop Sudo_OnStop c)" by (auto elim: sudo_stepE)
  have run: "sudo_run start err c0 (ks @ [SudoStop]) d" using assms(1) \<open>sudo_step start err SudoStop c d\<close> by (rule run_snoc)
  have "sudo_inv ks c" by (rule sudo_run_inv [OF assms(1,2)]) (use assms(5) in simp)
  then have "quenched d" using quenched_stop assms(3) step by blast
  then have "quenched c'" by (rule quenched_run [OF d(2) _ run assms(2)]) (use assms(5) in simp)
  then show ?thesis using assms(6) by (simp add: quenched_def)
qed

section \<open>The lockout\<close>

definition says_locked :: "auth_profile \<Rightarrow> attributes \<Rightarrow> bool" where
  "says_locked profile a \<longleftrightarrow>
     GetInt32Value ATTR_RESULT_CODE a = Some LOCKED \<and> GetInt32Value ATTR_REMAIN_TIMES a = Some 0 \<and>
     GetInt32Value ATTR_FREEZING_TIME a = Some (pr_freezingTime profile) \<and>
     (\<exists>d. GetInt32Value ATTR_NEXT_FAIL_LOCKOUT_DURATION a = Some d \<and> sint d > 0)"

lemma locked_says_locked: "says_locked profile (locked_result profile)"
proof -
  define d where "d = (if sint (pr_nextPhaseFreezingTime profile) > 0 then pr_nextPhaseFreezingTime profile
    else FIRST_LOCKOUT_DURATION_OF_PIN)"
  let ?a0 = "Attributes_new"
  let ?a1 = "snd (SetInt32Value ATTR_RESULT_CODE LOCKED ?a0)"
  let ?a2 = "snd (SetInt32Value ATTR_REMAIN_TIMES 0 ?a1)"
  let ?a3 = "snd (SetInt32Value ATTR_FREEZING_TIME (pr_freezingTime profile) ?a2)"
  let ?a4 = "snd (SetInt32Value ATTR_NEXT_FAIL_LOCKOUT_DURATION d ?a3)"
  have a0: "attr_len 0 ?a0" by (simp add: attr_len_def Attributes_new_def Impl_empty_def)
  note lens = attr_set_len(4) [OF a0] attr_set_len(4) [OF attr_set_len(4) [OF a0]]
    attr_set_len(4) [OF attr_set_len(4) [OF attr_set_len(4) [OF a0]]]
  have len: "attr_len n a \<Longrightarrow> n \<le> 3 \<Longrightarrow> attr_len MAX_ATTR_COUNT a" for n a by (auto simp: attr_len_def MAX_ATTR_COUNT_def)
  note at = attr_set_Int32 [OF len]
  have at1: "attr_at ATTR_RESULT_CODE (EncodeInt32Value LOCKED) ?a1" by (rule at [OF a0]) simp
  have at2: "attr_at ATTR_REMAIN_TIMES (EncodeInt32Value 0) ?a2" by (rule at [OF lens(1)]) simp
  have at3: "attr_at ATTR_FREEZING_TIME (EncodeInt32Value (pr_freezingTime profile)) ?a3" by (rule at [OF lens(2)]) simp
  have at4: "attr_at ATTR_NEXT_FAIL_LOCKOUT_DURATION (EncodeInt32Value d) ?a4" by (rule at [OF lens(3)]) simp
  have "attr_at ATTR_RESULT_CODE (EncodeInt32Value LOCKED) ?a4"
    by (intro attr_set_other(4) at1) simp_all
  moreover have "attr_at ATTR_REMAIN_TIMES (EncodeInt32Value 0) ?a4" by (intro attr_set_other(4) at2) simp_all
  moreover have "attr_at ATTR_FREEZING_TIME (EncodeInt32Value (pr_freezingTime profile)) ?a4"
    by (intro attr_set_other(4) at3) simp_all
  moreover note at4
  moreover have "sint d > 0" by (simp add: d_def)
  moreover have "locked_result profile = ?a4" by (simp add: locked_result_def d_def Let_def)
  ultimately show ?thesis by (simp add: says_locked_def attr_get_Int32 attr_Int32_roundtrip)
qed

text \<open>
  Also shown: a caller whose PIN is frozen is told so, whether it was frozen when the sudo authentication started or the
  last try of its dialogue froze it: the result is LOCKED, with no tries left, the time the freezing takes and a positive
  time for the next one; no child is launched for it.
\<close>

theorem sudo_lockout_reported:
  assumes "GetUserAuthProfile (sv_profile e) (sp_userId (su_para c)) PIN AuthProfile_default [] = (SUCCESS, profile, calls)"
    and "sint (pr_freezingTime profile) > 0" "bc_callback c"
    and "su_phase c = PHASE_QUERY \<and> c' = snd (Sudo_OnStart e c) \<or>
      su_phase c = PHASE_RUN \<and> su_childIsWidget c \<and> \<not> su_stopping c \<and> code \<notin> {SUCCESS, CANCELED} \<and>
      c' = SudoChildCallback_OnResult e code extra c"
  shows "\<exists>a. results c' = results c @ [ResultDelivered LOCKED a] \<and> says_locked profile a \<and>
    su_launched c' = su_launched c \<and> su_phase c' = PHASE_END"
proof -
  have "c' = EndWithLocked profile (ctx_emit (ExecutorsCalled calls) c)" "su_phase c \<noteq> PHASE_END"
    using assms(1,2,4) by (auto simp: Sudo_OnStart_def DispatchByProfile_def SudoChildCallback_OnResult_def
        OnChildResult_def Let_def)
  then have "ended LOCKED (locked_result profile) c c'"
    using ended_emit [OF EndWithResult_ended] by (simp add: EndWithLocked_def)
  then show ?thesis using assms(3) locked_says_locked by (auto simp: ended_def)
qed

section \<open>The child in the pool\<close>

lemma LaunchChild_admitted:
  assumes "pool_inv (su_pool c)" "\<not> cx_primary view" "LaunchChild child view c = (True, c')"
  shows "\<exists>v. su_childContextId c' = Some (cx_contextId v) \<and> (cx_contextId v, v) \<in> set (cp_running (su_pool c')) \<and>
    StartTask (cx_contextId v) \<in> set (cp_tasks (su_pool c'))"
  using assms scheduled_admitted [of "su_pool c" view]
  by (auto simp: LaunchChild_def Let_def split: prod.splits if_splits intro!: exI [of _ view])

lemma StartChild_admitted:
  assumes "pool_inv (su_pool c)"
  shows "StartSilentChild e c = (True, c') \<Longrightarrow> \<exists>v. su_childContextId c' = Some (cx_contextId v) \<and>
      (cx_contextId v, v) \<in> set (cp_running (su_pool c')) \<and> StartTask (cx_contextId v) \<in> set (cp_tasks (su_pool c'))"
    and "StartWidgetChild e profile c = (True, c') \<Longrightarrow> \<exists>v. su_childContextId c' = Some (cx_contextId v) \<and>
      (cx_contextId v, v) \<in> set (cp_running (su_pool c')) \<and> StartTask (cx_contextId v) \<in> set (cp_tasks (su_pool c'))"
proof -
  let ?admitted = "\<lambda>c'. \<exists>v. su_childContextId c' = Some (cx_contextId v) \<and>
      (cx_contextId v, v) \<in> set (cp_running (su_pool c')) \<and> StartTask (cx_contextId v) \<in> set (cp_tasks (su_pool c'))"
  show "?admitted c'" if run: "StartSilentChild e c = (True, c')"
  proof -
    obtain cb where cb: "BuildChildCallback e c = Some cb" by (simp add: BuildChildCallback_def)
    obtain x where x: "CreateSimpleAuthContext (GetNewContextId (sv_draws e) (su_pool c)) (silent_para (su_para c)) False True
      = Some x" "\<not> bc_isPrimaryContext x"
      unfolding CreateSimpleAuthContext_def
      by (simp add: SimpleAuthContext_def BaseContext_def base_context.defs Let_def del: created_views)
    let ?cb = "SetCleaner (bc_contextId x) cb"
    let ?view = "simple_view CONTEXT_SIMPLE_AUTH (sv_createTime e) ?cb x"
    have "LaunchChild (SilentChild x ?cb) ?view c = (True, c')"
      using run x by (simp add: StartSilentChild_def cb Let_def del: created_views)
    moreover have "\<not> cx_primary ?view" using x(2) by (simp add: simple_view_def)
    ultimately show ?thesis using LaunchChild_admitted [OF assms] by blast
  qed
  show "?admitted c'" if run: "StartWidgetChild e profile c = (True, c')"
  proof -
    obtain cb where cb: "BuildChildCallback e c = Some cb" by (simp add: BuildChildCallback_def)
    let ?d = "set_dialogActive True c"
    let ?d = "?d\<lparr>su_pool := NotifyPreemptStateChanged (su_pool ?d)\<rparr>"
    have "pool_shape (su_pool (set_dialogActive True c))"
      using assms by (simp add: pool_inv_def pool_shape_def set_dialogActive_def exclusive_def stop_issued_def)
    then have inv: "pool_inv (su_pool ?d)" using promote_inv by (simp add: NotifyPreemptStateChanged_def)
    obtain x where x: "CreateWidgetContext (GetNewContextId (sv_draws e) (su_pool c)) (dialog_para profile (su_para c))
      False True False None = Some x" "\<not> wr_isPrimary x"
      by (simp add: CreateWidgetContext_def)
    have "LaunchChild (WidgetChild x cb) (widget_view (sv_createTime e) x) ?d = (True, c')"
      using run by (simp add: StartWidgetChild_def cb x Let_def)
    moreover have "\<not> cx_primary (widget_view (sv_createTime e) x)" using x(2) by (simp add: widget_view_def)
    ultimately show ?thesis using LaunchChild_admitted [OF inv] by blast
  qed
qed

text \<open>
  Also shown: whatever else waits or runs in the pool, the child that a sudo authentication launches is running and its
  start is posted before the start of the sudo authentication returns: a sudo authentication never waits for itself.
\<close>

theorem sudo_child_runs_at_once:
  assumes "pool_run start err initial_pool ks (su_pool c)" "su_phase c = PHASE_QUERY"
    and "snd (Sudo_OnStart e c) = c'" "su_phase c' = PHASE_RUN"
  shows "\<exists>i v. su_childContextId c' = Some i \<and> cx_contextId v = i \<and> (i, v) \<in> set (cp_running (su_pool c')) \<and>
    StartTask i \<in> set (cp_tasks (su_pool c'))"
proof -
  have inv: "pool_inv (su_pool c)" by (rule pool_reach_inv [OF assms(1)])
  obtain ret profile calls where q: "GetUserAuthProfile (sv_profile e) (sp_userId (su_para c)) PIN AuthProfile_default [] =
      (ret, profile, calls)" by (metis prod_cases3)
  let ?c = "ctx_emit (ExecutorsCalled calls) c"
  have ended: "su_phase (Sudo_EndWithResult r a d) = PHASE_END" for r a d by (simp add: Sudo_EndWithResult_def Let_def)
  have "StartSilentChild e ?c = (True, c') \<or> StartWidgetChild e profile (?c\<lparr>su_childIsWidget := True\<rparr>) = (True, c')"
    using assms(2-4) by (auto simp: Sudo_OnStart_def q Let_def DispatchByProfile_def EndWithLocked_def ended
        split: prod.splits if_splits)
  then show ?thesis
    using StartChild_admitted(1) [of ?c e c'] StartChild_admitted(2) [of "?c\<lparr>su_childIsWidget := True\<rparr>" e profile c'] inv
    by auto
qed

text \<open>
  Also shown: all that a sudo authentication and its surroundings do with the context pool is a run of the pool's own
  machine, so the pool's guarantees hold for it.
\<close>

theorem sudo_refines_pool:
  assumes "sudo_run start err c0 ls c"
  shows "\<exists>ks. pool_run start err (su_pool c0) ks (su_pool c)"
  using sudo_run_follows [OF assms] by (simp add: sudo_follows_def)

end
