(* ===== verification/Auth_Requests.thy ===== *)
theory Auth_Requests
  imports Ipc_Common Auth_Widget_Helper
begin

text \<open>
  What the authentication service checks before it starts anything: the parameter and caller checks of
  \<^verbatim>\<open>services/ipc/src/user_auth_service.cpp\<close>, as functions of the caller, the parameters and the state of the
  credentials. The requests themselves are in \<open>User_Auth_Service\<close>. The overloads of \<^verbatim>\<open>CheckAuthPermissionAndParam\<close>
  are named after the request that uses them.
\<close>

section \<open>Data\<close>

record ipc_auth_param =
  iap_userId :: i32
  iap_isUserIdSpecified :: bool
  iap_challenge :: bytes
  iap_authType :: i32
  iap_authTypes :: "i32 list"
  iap_authTrustLevel :: u32
  iap_reuseUnlockResult :: reuse_unlock_result
  iap_authIntent :: i32
  iap_skipLockedBiometricAuth :: bool
  iap_credentialIdList :: "u64 list"
  iap_isHasRemoteTokenId :: bool
  iap_remoteTokenId :: u32
  iap_additionalInfo :: bytes

record remote_para =
  rm_verifierNetworkId :: "bytes option"
  rm_collectorNetworkId :: "bytes option"
  rm_collectorTokenId :: "u32 option"

record ipc_remote_param =
  irp_isHasRemoteAuthParam :: bool
  irp_isHasVerifierNetworkId :: bool
  irp_verifierNetworkId :: bytes
  irp_isHasCollectorNetworkId :: bool
  irp_collectorNetworkId :: bytes
  irp_isHasCollectorTokenId :: bool
  irp_collectorTokenId :: u32

abbreviation (input) CHECK_PERMISSION_FAILED :: i32 where "CHECK_PERMISSION_FAILED \<equiv> 1005"
abbreviation (input) MAX_AUTH_TYPE_SIZE :: nat where "MAX_AUTH_TYPE_SIZE \<equiv> 8"
abbreviation (input) MAX_USER_CREDENTIAL_SIZE :: nat where "MAX_USER_CREDENTIAL_SIZE \<equiv> 100"
abbreviation (input) TITLE_MAX :: nat where "TITLE_MAX \<equiv> 500"
abbreviation (input) NETWORK_ID_LENGTH :: nat where "NETWORK_ID_LENGTH \<equiv> 64"
abbreviation (input) CAMERA_NOT_AVAILABLE :: u32 where "CAMERA_NOT_AVAILABLE \<equiv> 1"
abbreviation (input) ATTR_CREDENTIAL_LENGTH :: u32 where "ATTR_CREDENTIAL_LENGTH \<equiv> 100092"

section \<open>From the wire\<close>

definition InitAuthParam :: "ipc_auth_param \<Rightarrow> auth_param_inner" where
  "InitAuthParam p =
     \<lparr>pi_userId = iap_userId p, pi_isUserIdSpecified = iap_isUserIdSpecified p, pi_challenge = iap_challenge p,
      pi_authType = iap_authType p, pi_authTypes = iap_authTypes p, pi_authTrustLevel = iap_authTrustLevel p,
      pi_reuseUnlockResult = iap_reuseUnlockResult p, pi_authIntent = iap_authIntent p,
      pi_skipLockedBiometricAuth = iap_skipLockedBiometricAuth p,
      pi_credentialIdList = iap_credentialIdList p,
      pi_remoteTokenId = (if iap_isHasRemoteTokenId p then Some (iap_remoteTokenId p) else None),
      pi_additionalInfo = iap_additionalInfo p\<rparr>"

definition InitRemoteAuthParam :: "ipc_remote_param \<Rightarrow> remote_para option" where
  "InitRemoteAuthParam p =
     (if irp_isHasRemoteAuthParam p then
        Some \<lparr>rm_verifierNetworkId = (if irp_isHasVerifierNetworkId p then Some (irp_verifierNetworkId p) else None),
          rm_collectorNetworkId = (if irp_isHasCollectorNetworkId p then Some (irp_collectorNetworkId p) else None),
          rm_collectorTokenId = (if irp_isHasCollectorTokenId p then Some (irp_collectorTokenId p) else None)\<rparr>
      else None)"

section \<open>Levels, types and texts\<close>

definition CheckAuthTrustLevel :: "u32 \<Rightarrow> i32 \<Rightarrow> bool" where
  "CheckAuthTrustLevel authTrustLevel authType =
     (if authType = COMPANION_DEVICE then True
      else if authTrustLevel \<noteq> ATL1 \<and> authTrustLevel \<noteq> ATL2 \<and> authTrustLevel \<noteq> ATL3 \<and> authTrustLevel \<noteq> ATL4
      then False else True)"

definition CheckAuthWidgetType :: "i32 list \<Rightarrow> i32" where
  "CheckAuthWidgetType authType =
     (if authType = [] \<or> length authType > MAX_AUTH_TYPE_SIZE then INVALID_PARAMETERS
      else if \<exists>t \<in> set authType. t \<notin> {PIN, FACE, FINGERPRINT, PRIVATE_PIN, COMPANION_DEVICE} then TYPE_NOT_SUPPORT
      else if card (set authType) \<noteq> length authType then INVALID_PARAMETERS
      else if PIN \<in> set authType \<and> PRIVATE_PIN \<in> set authType then INVALID_PARAMETERS
      else if COMPANION_DEVICE \<in> set authType \<and> length authType \<noteq> 1 then INVALID_PARAMETERS
      else SUCCESS)"

definition CheckAuthTypeOnly :: "i32 list \<Rightarrow> i32 list \<Rightarrow> bool" where
  "CheckAuthTypeOnly checkedTypes onlyContainTypes =
     list_all (\<lambda>type. type \<in> set onlyContainTypes) checkedTypes"

definition CheckPrivatePinEnroll :: "i32 list \<Rightarrow> i32 list \<Rightarrow> bool" where
  "CheckPrivatePinEnroll authType validType =
     (if \<not> list_ex (\<lambda>t. t = PRIVATE_PIN) authType then True
      else if length validType = 2 \<and> list_ex (\<lambda>t. t = FACE) validType \<and> list_ex (\<lambda>t. t = FINGERPRINT) validType
      then False else True)"

definition CheckAuthWidgetParam :: "auth_param_inner \<Rightarrow> widget_param_inner \<Rightarrow> i32" where
  "CheckAuthWidgetParam authParam widgetParam =
     (if wp_navigationButtonText widgetParam = [] \<and> length (pi_authTypes authParam) = 2 \<and>
         CheckAuthTypeOnly (pi_authTypes authParam) [FACE, FINGERPRINT] then INVALID_PARAMETERS
      else if GetUtf8CharCount (wp_navigationButtonText widgetParam) > 60 then INVALID_PARAMETERS
      else if wp_title widgetParam = [] \<or> GetUtf8CharCount (wp_title widgetParam) > TITLE_MAX
      then INVALID_PARAMETERS else SUCCESS)"

definition CheckSudoAuthParam :: "auth_param_inner \<Rightarrow> remote_para option \<Rightarrow> i32" where
  "CheckSudoAuthParam authParam remoteAuthParam =
     (if remoteAuthParam \<noteq> None then INVALID_PARAMETERS
      else if pi_authType authParam \<noteq> PIN then INVALID_PARAMETERS
      else if pi_additionalInfo authParam = [] \<or> GetUtf8CharCount (pi_additionalInfo authParam) > TITLE_MAX
      then INVALID_PARAMETERS
      else if ru_isReuse (pi_reuseUnlockResult authParam) then INVALID_PARAMETERS
      else SUCCESS)"

section \<open>The caller\<close>

definition CheckWindowMode :: "caller \<Rightarrow> widget_param_inner \<Rightarrow> i32" where
  "CheckWindowMode stub widgetParam =
     (if \<not> CheckPermission stub IS_SYSTEM_APP \<and> wp_windowMode widgetParam = NONE_INTERRUPTION_DIALOG_BOX
      then CHECK_SYSTEM_APP_FAILED
      else if \<not> CheckPermission stub IS_SYSTEM_APP \<and> wp_windowMode widgetParam \<noteq> UNKNOWN_WINDOW_MODE
      then INVALID_PARAMETERS else SUCCESS)"

definition CheckCallerPermissionForPrivatePin :: "caller \<Rightarrow> auth_param_inner \<Rightarrow> i32" where
  "CheckCallerPermissionForPrivatePin stub authParam =
     (if \<not> list_ex (\<lambda>t. t = PRIVATE_PIN) (pi_authTypes authParam) then SUCCESS
      else if CheckPermission stub ACCESS_USER_AUTH_INTERNAL_PERMISSION then SUCCESS
      else if CheckPermission stub IS_SYSTEM_APP then SUCCESS
      else CHECK_PERMISSION_FAILED)"

definition CheckCallerPermissionForUserId :: "caller \<Rightarrow> auth_param_inner \<Rightarrow> i32" where
  "CheckCallerPermissionForUserId stub authParam =
     (if \<not> pi_isUserIdSpecified authParam then
        (if \<not> CheckPermission stub ACCESS_BIOMETRIC_PERMISSION then CHECK_PERMISSION_FAILED else SUCCESS)
      else if CheckPermission stub ACCESS_USER_AUTH_INTERNAL_PERMISSION then SUCCESS
      else (case GetCallingUserId stub INVALID_USER_ID of
              (ret, userId) \<Rightarrow>
                if ret \<noteq> SUCCESS then GENERAL_ERROR
                else if CheckPermission stub ACCESS_BIOMETRIC_PERMISSION \<and>
                  (CheckPermission stub IS_SYSTEM_APP \<or> pi_userId authParam = userId) then SUCCESS
                else CHECK_PERMISSION_FAILED))"

text \<open>The checks of \<^verbatim>\<open>Auth\<close>, of \<^verbatim>\<open>AuthUser\<close> (which answers the client itself) and of \<^verbatim>\<open>AuthWidget\<close>.\<close>

definition Auth_CheckPermissionAndParam :: "caller \<Rightarrow> i32 \<Rightarrow> i32 \<Rightarrow> bytes \<Rightarrow> u32 \<Rightarrow> i32" where
  "Auth_CheckPermissionAndParam stub authType callerType callerName authTrustLevel =
     (if \<not> CheckPermission stub ACCESS_BIOMETRIC_PERMISSION then CHECK_PERMISSION_FAILED
      else if callerType = cl_TOKEN_HAP stub \<and> \<not> CheckForegroundApplication stub callerName
      then CHECK_PERMISSION_FAILED
      else if authType = PIN then TYPE_NOT_SUPPORT
      else if \<not> CheckAuthTrustLevel authTrustLevel authType then TRUST_LEVEL_NOT_SUPPORT
      else SUCCESS)"

definition AuthUser_CheckPermissionAndParam :: "caller \<Rightarrow> i32 \<Rightarrow> u32 \<Rightarrow> (i32 \<times> string) option" where
  "AuthUser_CheckPermissionAndParam stub authType authTrustLevel =
     (if \<not> CheckAuthTrustLevel authTrustLevel authType
      then Some (TRUST_LEVEL_NOT_SUPPORT, ''UserAuthService AuthUser CheckAuthTrustLevel fail'')
      else if \<not> CheckPermission stub ACCESS_USER_AUTH_INTERNAL_PERMISSION
      then Some (CHECK_PERMISSION_FAILED, ''UserAuthService AuthUser CheckPermission fail'')
      else None)"

definition Widget_CheckPermissionAndParam ::
  "caller \<Rightarrow> auth_param_inner \<Rightarrow> widget_param_inner \<Rightarrow> bool \<Rightarrow> i32" where
  "Widget_CheckPermissionAndParam stub authParam widgetParam isBackgroundApplication =
     (if length (pi_credentialIdList authParam) > MAX_USER_CREDENTIAL_SIZE then INVALID_PARAMETERS
      else if CheckWindowMode stub widgetParam \<noteq> SUCCESS then CheckWindowMode stub widgetParam
      else if CheckCallerPermissionForPrivatePin stub authParam \<noteq> SUCCESS then CHECK_PERMISSION_FAILED
      else if CheckCallerPermissionForUserId stub authParam \<noteq> SUCCESS then CHECK_PERMISSION_FAILED
      else if isBackgroundApplication \<and> \<not> CheckPermission stub USER_AUTH_FROM_BACKGROUND
      then CHECK_PERMISSION_FAILED
      else if CheckAuthWidgetType (pi_authTypes authParam) \<noteq> SUCCESS
      then CheckAuthWidgetType (pi_authTypes authParam)
      else if \<not> CheckAuthTrustLevel (pi_authTrustLevel authParam) (pi_authType authParam)
      then TRUST_LEVEL_NOT_SUPPORT
      else CheckAuthWidgetParam authParam widgetParam)"

section \<open>Two devices\<close>

text \<open>The parameters are updated in place: what was completed before a failure stays.\<close>

definition CompleteRemoteAuthParam :: "caller \<Rightarrow> remote_para \<Rightarrow> bytes \<Rightarrow> bool \<times> remote_para" where
  "CompleteRemoteAuthParam stub p localNetworkId =
     (if (case rm_verifierNetworkId p of None \<Rightarrow> False | Some v \<Rightarrow> length v \<noteq> NETWORK_ID_LENGTH) then (False, p)
      else if (case rm_collectorNetworkId p of None \<Rightarrow> False | Some v \<Rightarrow> length v \<noteq> NETWORK_ID_LENGTH) then (False, p)
      else if rm_verifierNetworkId p = None \<and> rm_collectorNetworkId p = None then (False, p)
      else
        let p = (if rm_verifierNetworkId p = None then p\<lparr>rm_verifierNetworkId := Some localNetworkId\<rparr> else p);
            p = (if rm_collectorNetworkId p = None then p\<lparr>rm_collectorNetworkId := Some localNetworkId\<rparr> else p)
        in if rm_verifierNetworkId p \<noteq> Some localNetworkId \<and> rm_collectorNetworkId p \<noteq> Some localNetworkId
           then (False, p)
           else if rm_verifierNetworkId p = rm_collectorNetworkId p \<and> rm_verifierNetworkId p \<noteq> Some localNetworkId
           then (False, p)
           else if rm_collectorNetworkId p \<noteq> Some localNetworkId \<and> rm_collectorTokenId p = None then (False, p)
           else (True, if rm_collectorNetworkId p = Some localNetworkId \<and> rm_collectorTokenId p = None
                       then p\<lparr>rm_collectorTokenId := Some (GetAccessTokenId stub)\<rparr> else p))"

definition ProcessAuthParamForRemoteAuth ::
  "caller \<Rightarrow> auth_para \<Rightarrow> remote_para \<Rightarrow> bytes \<Rightarrow> bool \<times> auth_para \<times> remote_para" where
  "ProcessAuthParamForRemoteAuth stub para remoteAuthParam localNetworkId =
     (if ap_authType para \<noteq> PIN then (False, para, remoteAuthParam)
      else (case CompleteRemoteAuthParam stub remoteAuthParam localNetworkId of
              (completeRet, remoteAuthParam) \<Rightarrow>
                if \<not> completeRet then (False, para, remoteAuthParam)
                else (True, para\<lparr>ap_collectorTokenId :=
                        (case rm_collectorTokenId remoteAuthParam of None \<Rightarrow> ap_tokenId para | Some t \<Rightarrow> t)\<rparr>,
                      remoteAuthParam)))"

section \<open>The types a dialogue may offer\<close>

text \<open>\<^verbatim>\<open>GetCallerInfo\<close>: the code and the parameters; the trace is told of the same values.\<close>

definition GetCallerInfo :: "caller \<Rightarrow> bool \<Rightarrow> i32 \<Rightarrow> widget_para \<Rightarrow> i32 \<times> widget_para" where
  "GetCallerInfo stub isUserIdSpecified userId para =
     (case GetCallerName stub (wc_callerName para) of
        (_, callerName, callerType) \<Rightarrow>
          (case GetCallingAppID stub of
             (_, appID, appIdentifier) \<Rightarrow>
               let para = para\<lparr>wc_callerName := callerName, wc_callerType := callerType, wc_callingAppID := appID,
                     wc_callingAppIdentifier := appIdentifier\<rparr>;
                   para = (if sint (wc_sdkVersion para) < 10000 \<and> callerType = cl_TOKEN_HAP stub \<and>
                              \<not> CheckForegroundApplication stub callerName
                           then para\<lparr>wc_isBackgroundApplication := True\<rparr> else para)
               in if isUserIdSpecified then (SUCCESS, para\<lparr>wc_userId := userId\<rparr>)
                  else (case GetCallingUserId stub (wc_userId para) of
                          (ret, userId) \<Rightarrow>
                            if ret \<noteq> SUCCESS then (GENERAL_ERROR, para\<lparr>wc_userId := userId\<rparr>)
                            else (SUCCESS, para\<lparr>wc_userId := userId\<rparr>))))"

fun types_of_credentials :: "user_engine \<Rightarrow> u64 list \<Rightarrow> i32 list" where
  "types_of_credentials eng [] = []"
| "types_of_credentials eng (credId # credIds) =
     (case GetCredentialInfoById eng credId None of
        (ret, credInfo) \<Rightarrow>
          (if ret \<noteq> SUCCESS then [] else [ci_authType (the credInfo)]) @ types_of_credentials eng credIds)"

definition GetAuthTypesFromCredentialIds :: "profile_env \<Rightarrow> auth_param_inner \<Rightarrow> i32 list" where
  "GetAuthTypesFromCredentialIds e authParam =
     (if pi_credentialIdList authParam = [] then pi_authTypes authParam
      else types_of_credentials (pe_users e) (sorted_list_of_set (set (pi_credentialIdList authParam))))"

text \<open>
  One pass over the accepted types: the state of each is asked for, and a type goes when it cannot be had, or when the
  caller wants locked biometrics skipped and it is locked. The calls to executors are returned too.
\<close>

fun profile_loop ::
  "profile_env \<Rightarrow> auth_param_inner \<Rightarrow> i32 list \<Rightarrow> i32 list \<Rightarrow> widget_para \<Rightarrow> (node_ref \<times> exec_call) list \<Rightarrow>
   i32 list \<times> widget_para \<times> (node_ref \<times> exec_call) list" where
  "profile_loop e authParam [] kept para log = (kept, para, log)"
| "profile_loop e authParam (type # types) kept para log =
     (case GetUserAuthProfile e (wc_userId para) type AuthProfile_default (pi_credentialIdList authParam) of
        (ret, profile, calls) \<Rightarrow>
          if ret \<noteq> SUCCESS \<and> ret \<noteq> NOT_ENROLLED then profile_loop e authParam types kept para (log @ calls)
          else if pi_skipLockedBiometricAuth authParam \<and> pr_remainTimes profile = 0 \<and> type \<noteq> PIN \<and>
            type \<noteq> PRIVATE_PIN
          then profile_loop e authParam types kept
                 (para\<lparr>wc_authProfileMap := (wc_authProfileMap para)(type := None)\<rparr>) (log @ calls)
          else profile_loop e authParam types (kept @ [type])
                 (para\<lparr>wc_authProfileMap := (wc_authProfileMap para)(type \<mapsto> profile)\<rparr>) (log @ calls))"

definition CheckSkipLockedBiometricAuth ::
  "profile_env \<Rightarrow> widget_para \<Rightarrow> auth_param_inner \<Rightarrow> widget_param_inner \<Rightarrow> i32 list \<Rightarrow>
   i32 \<times> i32 list \<times> widget_para \<times> (node_ref \<times> exec_call) list" where
  "CheckSkipLockedBiometricAuth e para authParam widgetParam validType =
     (if validType = [] then (TYPE_NOT_SUPPORT, validType, para, [])
      else (case profile_loop e authParam validType [] para [] of
              (kept, para, log) \<Rightarrow>
                (if wp_navigationButtonText widgetParam \<noteq> [] \<and> kept = [] then CANCELED_FROM_WIDGET
                 else if kept = [] then LOCKED else SUCCESS, kept, para, log)))"

definition CheckValidSolution ::
  "caller \<Rightarrow> profile_env \<Rightarrow> widget_para \<Rightarrow> auth_param_inner \<Rightarrow> widget_param_inner \<Rightarrow> i32 list \<Rightarrow>
   i32 \<times> i32 list \<times> widget_para \<times> (node_ref \<times> exec_call) list" where
  "CheckValidSolution stub e para authParam widgetParam validType =
     (case Helper_CheckValidSolution e (wc_userId para) (GetAuthTypesFromCredentialIds e authParam)
             (pi_authTrustLevel authParam) validType of
        (ret, validType) \<Rightarrow>
          if ret \<noteq> SUCCESS then (ret, validType, para, [])
          else if wp_navigationButtonText widgetParam \<noteq> [] \<and> \<not> CheckAuthTypeOnly validType [FACE, FINGERPRINT]
          then (INVALID_PARAMETERS, validType, para, [])
          else if wp_windowMode widgetParam = FULLSCREEN \<and> CheckAuthTypeOnly validType [FACE, FINGERPRINT]
          then (INVALID_PARAMETERS, validType, para, [])
          else if \<not> CheckPrivatePinEnroll (pi_authTypes authParam) validType
          then (INVALID_PARAMETERS, validType, para, [])
          else
            let validType = (if \<not> IsOsAccountVerified stub (wc_userId para)
                  then filter (\<lambda>t. \<not> (t \<noteq> PIN \<and> t \<noteq> PRIVATE_PIN \<and> t \<noteq> ENTERPRISE_ACCOUNT)) validType
                  else validType)
            in CheckSkipLockedBiometricAuth e para authParam widgetParam validType)"

definition ProcessPinExpired ::
  "profile_env \<Rightarrow> i32 \<Rightarrow> auth_param_inner \<Rightarrow> i32 list \<Rightarrow> widget_para \<Rightarrow>
   i32 \<times> i32 list \<times> widget_para \<times> (node_ref \<times> exec_call) list" where
  "ProcessPinExpired e ret authParam validType para =
     (if ret \<noteq> PIN_EXPIRED then (SUCCESS, validType, para, [])
      else
        let para = para\<lparr>wc_isPinExpired := True\<rparr>;
            hasPrivatePin = list_ex (\<lambda>t. t = PRIVATE_PIN) (pi_authTypes authParam);
            pinType = (if hasPrivatePin then PRIVATE_PIN else PIN);
            validType = (if hasPrivatePin then [PRIVATE_PIN] else validType @ [PIN])
        in if wc_authProfileMap para pinType \<noteq> None then (SUCCESS, validType, para, [])
           else (case GetUserAuthProfile e (wc_userId para) pinType AuthProfile_default
                        (pi_credentialIdList authParam) of
                   (queryRet, profile, calls) \<Rightarrow>
                     if queryRet \<noteq> SUCCESS \<and> queryRet \<noteq> NOT_ENROLLED then (GENERAL_ERROR, validType, para, calls)
                     else (SUCCESS, validType,
                           para\<lparr>wc_authProfileMap := (wc_authProfileMap para)(pinType \<mapsto> profile)\<rparr>, calls)))"

definition FilterFaceNotAvailable :: "widget_para \<Rightarrow> i32 list \<Rightarrow> i32 list \<times> widget_para" where
  "FilterFaceNotAvailable para validType =
     (if length validType = 1 then (validType, para)
      else (case wc_authProfileMap para FACE of
              None \<Rightarrow> (validType, para)
            | Some profile \<Rightarrow>
                if pr_cameraStatus profile = CAMERA_NOT_AVAILABLE
                then (filter (\<lambda>t. t \<noteq> FACE) validType,
                      para\<lparr>wc_authProfileMap := (wc_authProfileMap para)(FACE := None)\<rparr>)
                else (validType, para)))"

end
