(* ===== verification/User_Auth_Service.thy ===== *)
theory User_Auth_Service
  imports Auth_Requests Auth_Factory
begin

text \<open>
  The service that authenticates, \<^verbatim>\<open>services/ipc/src/user_auth_service.cpp\<close>: every request of a client, from the
  checks of \<open>Auth_Requests\<close> to the answer or to the context given to the pool, and the manager of the callbacks of
  remote authentications, \<^verbatim>\<open>services/core/src/remote_auth_callback_manager.cpp\<close>. The state is the pool, the
  registered callbacks, and the list of everything else that a request did. A task that the code posts to another
  thread is run at once. The engine, the device manager, the managers of listeners and the widget client are fields of
  the surroundings \<open>auth_env\<close>. Allocation succeeds.
\<close>

unbundle bit_operations_syntax

section \<open>Data\<close>

record token_plain =
  tp_version :: u32
  tp_userId :: i32
  tp_challenge :: bytes
  tp_timeInterval :: u64
  tp_authTrustLevel :: u32
  tp_authType :: i32
  tp_tokenType :: i32
  tp_secureUid :: u64
  tp_enrolledId :: u64
  tp_credentialId :: u64

datatype auth_output =
    AuthCallback callback_output
  | AuthPropertyResult i32 bytes
  | AuthSetPropertyResult i32
  | AuthVerifyResult i32 bytes
  | AuthPlainResult i32 bytes
  | AuthExecutors "(node_ref \<times> exec_call) list"
  | AuthSimple simple_auth_context bool context_callback
  | AuthIdentify identify_context context_callback
  | AuthWidgetContext widget_request context_callback
  | AuthSudo sudo_request context_callback
  | AuthInvoker invoker_request context_callback
  | AuthLocalRemote local_remote_request context_callback
  | AuthRemote remote_request context_callback
  | AuthSystemFault
  | AuthNotice i32 bytes
  | AuthWidgetClient u32
  | AuthListener bool
  | AuthRecognitionListener bool
  | AuthDeathRecipient u32 bool

record auth_service =
  as_pool :: context_pool
  as_callbackMap :: "u32 \<rightharpoonup> nat"
  as_remoteDeathMap :: "u32 set"
  as_outputs :: "auth_output list"

record auth_env =
  ae_caller :: caller
  ae_profile :: profile_env
  ae_availableStatus :: "i32 \<Rightarrow> i32 \<Rightarrow> u32 \<Rightarrow> i32 \<times> i32"
  ae_enrolledState :: "i32 \<Rightarrow> i32 \<Rightarrow> i32 \<times> eng_enrolled_state"
  ae_capability :: u32
  ae_verifyToken :: "bytes \<Rightarrow> u64 \<Rightarrow> i32 \<times> token_plain \<times> bytes"
  ae_prepareRemote :: "bytes \<Rightarrow> i32"
  ae_udidOf :: "bytes \<Rightarrow> bytes option"
  ae_localNetworkId :: "bytes option"
  ae_draws :: "nat \<Rightarrow> u64 option"
  ae_createTime :: int
  ae_callback :: callback_env
  ae_notice :: "i32 \<Rightarrow> bytes \<Rightarrow> i32"
  ae_listeners :: "bool \<Rightarrow> i32"
  ae_recognition :: "bool \<Rightarrow> i32"
  ae_recognized :: bytes
  ae_hasObject :: "nat \<Rightarrow> bool"

abbreviation (input) BAD_CONTEXT_ID :: u64 where "BAD_CONTEXT_ID \<equiv> 0"
abbreviation (input) SUPPORT_USER_RECOGNITION :: u32 where "SUPPORT_USER_RECOGNITION \<equiv> 1"
abbreviation (input) ATTR_TOKEN_VERSION :: u32 where "ATTR_TOKEN_VERSION \<equiv> 100089"
abbreviation (input) ATTR_TOKEN_TYPE :: u32 where "ATTR_TOKEN_TYPE \<equiv> 100090"
abbreviation (input) ATTR_TOKEN_TIME_INTERVAL :: u32 where "ATTR_TOKEN_TIME_INTERVAL \<equiv> 100091"

definition auth_emit :: "auth_output list \<Rightarrow> auth_service \<Rightarrow> auth_service" where
  "auth_emit ys s = s\<lparr>as_outputs := as_outputs s @ ys\<rparr>"

text \<open>An answer through a callback, whose cleaner then works on the pool, with the reason told to the trace.\<close>

definition auth_cleaned :: "context_callback \<Rightarrow> auth_service \<Rightarrow> auth_service" where
  "auth_cleaned contextCallback s =
     (case cb_cleaner contextCallback of
        None \<Rightarrow> s | Some contextId \<Rightarrow> s\<lparr>as_pool := Cleaner_call contextId (as_pool s)\<rparr>)"

definition auth_answer ::
  "auth_env \<Rightarrow> string \<Rightarrow> context_callback \<Rightarrow> i32 \<Rightarrow> attributes \<Rightarrow> auth_service \<Rightarrow> auth_service" where
  "auth_answer e reason contextCallback resultCode extraInfo s =
     (let contextCallback = SetTraceAuthFinishReason reason contextCallback
      in auth_cleaned contextCallback
           (auth_emit (map AuthCallback (answer_outputs (ae_callback e) contextCallback resultCode extraInfo)) s))"

section \<open>Available status\<close>

definition GetAvailableStatusInner :: "auth_env \<Rightarrow> i32 \<Rightarrow> i32 \<Rightarrow> u32 \<Rightarrow> i32" where
  "GetAvailableStatusInner e userId authType authTrustLevel =
     (if \<not> CheckAuthTrustLevel authTrustLevel authType then TRUST_LEVEL_NOT_SUPPORT
      else (case ae_availableStatus e userId authType authTrustLevel of
              (result, checkRet) \<Rightarrow> if result \<noteq> SUCCESS then GENERAL_ERROR else checkRet))"

definition GetAvailableStatusOfUser :: "auth_env \<Rightarrow> i32 \<Rightarrow> i32 \<Rightarrow> i32 \<Rightarrow> u32 \<Rightarrow> i32" where
  "GetAvailableStatusOfUser e apiVersion userId authType authTrustLevel =
     (if \<not> CheckPermission (ae_caller e) ACCESS_USER_AUTH_INTERNAL_PERMISSION then CHECK_PERMISSION_FAILED
      else GetAvailableStatusInner e userId authType authTrustLevel)"

definition GetAvailableStatus :: "auth_env \<Rightarrow> i32 \<Rightarrow> i32 \<Rightarrow> u32 \<Rightarrow> i32" where
  "GetAvailableStatus e apiVersion authType authTrustLevel =
     (if \<not> CheckPermission (ae_caller e) ACCESS_USER_AUTH_INTERNAL_PERMISSION \<and>
         \<not> CheckPermission (ae_caller e) ACCESS_BIOMETRIC_PERMISSION then CHECK_PERMISSION_FAILED
      else if sint apiVersion \<le> 8 \<and> authType = PIN then TYPE_NOT_SUPPORT
      else (case GetCallingUserId (ae_caller e) INVALID_USER_ID of
              (ret, userId) \<Rightarrow>
                if ret \<noteq> SUCCESS then GENERAL_ERROR
                else GetAvailableStatusInner e userId authType authTrustLevel))"

section \<open>Properties of executors\<close>

definition IsTemplateIdListRequired :: "u32 list \<Rightarrow> bool" where
  "IsTemplateIdListRequired keys =
     list_ex (\<lambda>key. key = ATTR_PIN_SUB_TYPE \<or> key = ATTR_REMAIN_TIMES \<or> key = ATTR_FREEZING_TIME \<or>
       key = ATTR_NEXT_FAIL_LOCKOUT_DURATION \<or> key = ATTR_CREDENTIAL_LENGTH) keys"

definition IsSensorInfoRequested :: "u32 list \<Rightarrow> bool" where
  "IsSensorInfoRequested keys = (ATTR_SENSOR_INFO \<in> set keys)"

definition GetTemplatesByAuthType :: "user_engine \<Rightarrow> i32 \<Rightarrow> i32 \<Rightarrow> i32 \<times> u64 list" where
  "GetTemplatesByAuthType eng userId authType =
     (case GetCredentialInfo (ue_getCredential eng) userId authType [] of
        (ret, credentialInfos) \<Rightarrow>
          if ret \<noteq> SUCCESS then (GENERAL_ERROR, []) else (SUCCESS, map ci_templateId credentialInfos))"

definition FillGetPropertyKeys :: "i32 \<Rightarrow> u32 list \<Rightarrow> u32 list" where
  "FillGetPropertyKeys authType keys =
     filter (\<lambda>key. \<not> (key = ATTR_NEXT_FAIL_LOCKOUT_DURATION \<and> authType \<noteq> PIN)) keys"

definition FillGetPropertyValue :: "i32 \<Rightarrow> u32 list \<Rightarrow> attributes \<Rightarrow> attributes" where
  "FillGetPropertyValue authType keys values =
     (if list_ex (\<lambda>key. key = ATTR_NEXT_FAIL_LOCKOUT_DURATION \<and> authType \<noteq> PIN) keys
      then snd (SetInt32Value ATTR_NEXT_FAIL_LOCKOUT_DURATION FIRST_LOCKOUT_DURATION_EXCEPT_PIN values)
      else values)"

definition GetResourseNode :: "rpool \<Rightarrow> i32 \<Rightarrow> node_ref option" where
  "GetResourseNode p authType =
     (case GetResourceNodeByTypeAndRole authType ALL_IN_ONE p of [ref] \<Rightarrow> Some ref | _ \<Rightarrow> None)"

definition GetPropertyInner :: "auth_env \<Rightarrow> i32 \<Rightarrow> u32 list \<Rightarrow> u64 list \<Rightarrow> auth_service \<Rightarrow> i32 \<times> auth_service" where
  "GetPropertyInner e authType keys templateIds s =
     (case GetResourseNode (pe_pool (ae_profile e)) authType of
        None \<Rightarrow> (SUCCESS, auth_emit [AuthPropertyResult GENERAL_ERROR (Serialize Attributes_new)] s)
      | Some ref \<Rightarrow>
          let attr = snd (SetUint32Value ATTR_PROPERTY_MODE PROPERTY_MODE_GET Attributes_new);
              attr = snd (SetUint64ArrayValue ATTR_TEMPLATE_ID_LIST templateIds attr);
              attr = snd (SetUint32ArrayValue ATTR_KEY_LIST (FillGetPropertyKeys authType keys) attr)
          in case GetProperty (pe_ipc (ae_profile e) ref) (pe_reply (ae_profile e) ref)
                    (rp_heap (pe_pool (ae_profile e)) ref) attr Attributes_new of
               (result, values, calls) \<Rightarrow>
                 (SUCCESS, auth_emit [AuthExecutors (map (\<lambda>c. (ref, c)) calls),
                    AuthPropertyResult result (Serialize (FillGetPropertyValue authType keys values))] s))"

definition GetPropertyHelper :: "auth_env \<Rightarrow> i32 \<Rightarrow> i32 \<Rightarrow> u32 list \<Rightarrow> auth_service \<Rightarrow> i32 \<times> auth_service" where
  "GetPropertyHelper e userId authType keys s =
     (case GetTemplatesByAuthType (pe_users (ae_profile e)) userId authType of
        (ret, templateIds) \<Rightarrow>
          if IsTemplateIdListRequired keys then
            (if ret \<noteq> SUCCESS
             then (SUCCESS, auth_emit [AuthPropertyResult GENERAL_ERROR (Serialize Attributes_new)] s)
             else if templateIds = []
             then (SUCCESS, auth_emit [AuthPropertyResult NOT_ENROLLED (Serialize Attributes_new)] s)
             else GetPropertyInner e authType keys templateIds s)
          else GetPropertyInner e authType keys (if IsSensorInfoRequested keys then templateIds else []) s)"

definition UserAuth_GetProperty ::
  "auth_env \<Rightarrow> i32 \<Rightarrow> i32 \<Rightarrow> u32 list \<Rightarrow> bool \<Rightarrow> auth_service \<Rightarrow> i32 \<times> auth_service" where
  "UserAuth_GetProperty e userId authType keys callback s =
     (if \<not> callback then (INVALID_PARAMETERS, s)
      else if \<not> CheckPermission (ae_caller e) ACCESS_USER_AUTH_INTERNAL_PERMISSION
      then (SUCCESS, auth_emit [AuthPropertyResult CHECK_PERMISSION_FAILED (Serialize Attributes_new)] s)
      else (SUCCESS, snd (GetPropertyHelper e userId authType keys s)))"

definition GetPropertyById :: "auth_env \<Rightarrow> u64 \<Rightarrow> u32 list \<Rightarrow> bool \<Rightarrow> auth_service \<Rightarrow> i32 \<times> auth_service" where
  "GetPropertyById e credentialId keys callback s =
     (if \<not> callback then (INVALID_PARAMETERS, s)
      else if \<not> CheckPermission (ae_caller e) ACCESS_USER_AUTH_INTERNAL_PERMISSION
      then (SUCCESS, auth_emit [AuthPropertyResult CHECK_PERMISSION_FAILED (Serialize Attributes_new)] s)
      else (SUCCESS,
        (case GetCredentialInfoById (pe_users (ae_profile e)) credentialId None of
           (ret, credInfo) \<Rightarrow>
             if ret \<noteq> SUCCESS then auth_emit [AuthPropertyResult ret (Serialize Attributes_new)] s
             else (case credInfo of
                     None \<Rightarrow> auth_emit [AuthPropertyResult GENERAL_ERROR (Serialize Attributes_new)] s
                   | Some info \<Rightarrow> snd (GetPropertyInner e (ci_authType info) keys [ci_templateId info] s)))))"

definition UserAuth_SetProperty ::
  "auth_env \<Rightarrow> i32 \<Rightarrow> bytes \<Rightarrow> bool \<Rightarrow> auth_service \<Rightarrow> i32 \<times> auth_service" where
  "UserAuth_SetProperty e authType attributes callback s =
     (if \<not> callback then (INVALID_PARAMETERS, s)
      else if \<not> CheckPermission (ae_caller e) ACCESS_USER_AUTH_INTERNAL_PERMISSION
      then (CHECK_PERMISSION_FAILED, auth_emit [AuthSetPropertyResult CHECK_PERMISSION_FAILED] s)
      else (SUCCESS,
        (case GetResourseNode (pe_pool (ae_profile e)) authType of
           None \<Rightarrow> auth_emit [AuthSetPropertyResult GENERAL_ERROR] s
         | Some ref \<Rightarrow>
             (case SetProperty (pe_ipc (ae_profile e) ref) (rp_heap (pe_pool (ae_profile e)) ref)
                     (Attributes_of_raw attributes) of
                (result, calls) \<Rightarrow>
                  auth_emit [AuthExecutors (map (\<lambda>c. (ref, c)) calls), AuthSetPropertyResult result] s))))"

definition GetAuthLockState :: "auth_env \<Rightarrow> i32 \<Rightarrow> bool \<Rightarrow> auth_service \<Rightarrow> i32 \<times> auth_service" where
  "GetAuthLockState e authType callback s =
     (if \<not> callback then (INVALID_PARAMETERS, s)
      else if \<not> CheckPermission (ae_caller e) ACCESS_BIOMETRIC_PERMISSION
      then (SUCCESS, auth_emit [AuthPropertyResult CHECK_PERMISSION_FAILED (Serialize Attributes_new)] s)
      else (case GetCallingUserId (ae_caller e) INVALID_USER_ID of
              (ret, userId) \<Rightarrow>
                if ret \<noteq> SUCCESS
                then (SUCCESS, auth_emit [AuthPropertyResult GENERAL_ERROR (Serialize Attributes_new)] s)
                else GetPropertyHelper e userId authType [ATTR_REMAIN_TIMES, ATTR_FREEZING_TIME] s))"

section \<open>Starting a context\<close>

definition new_id :: "auth_env \<Rightarrow> auth_service \<Rightarrow> u64" where
  "new_id e s = GetNewContextId (ae_draws e) (as_pool s)"

text \<open>The callback knows the context from its creation on.\<close>

definition for_context :: "u64 \<Rightarrow> context_callback \<Rightarrow> context_callback" where
  "for_context contextId contextCallback =
     SetTraceAuthContextId contextId (SetTraceRequestContextId contextId (SetCleaner contextId contextCallback))"

text \<open>The callback after a result, for the path that answers a second time, beside the state.\<close>

definition auth_result ::
  "auth_env \<Rightarrow> string \<Rightarrow> context_callback \<Rightarrow> i32 \<Rightarrow> attributes \<Rightarrow> auth_service \<Rightarrow> context_callback \<times> auth_service" where
  "auth_result e reason contextCallback resultCode extraInfo s =
     (Callback_OnResult (ae_callback e) resultCode extraInfo (SetTraceAuthFinishReason reason contextCallback),
      auth_answer e reason contextCallback resultCode extraInfo s)"

text \<open>
  The common end of the functions that start a context: a created context is scheduled, and what went wrong is answered
  by the guard. The context id, the callback and the state.
\<close>

definition launch ::
  "auth_env \<Rightarrow> string \<Rightarrow> context_callback \<Rightarrow> auth_context option \<Rightarrow> (context_callback \<Rightarrow> auth_output) \<Rightarrow>
   auth_service \<Rightarrow> u64 \<times> context_callback \<times> auth_service" where
  "launch e reason contextCallback context started s =
     (case context of
        None \<Rightarrow> (BAD_CONTEXT_ID, auth_result e reason contextCallback GENERAL_ERROR Attributes_new s)
      | Some view \<Rightarrow>
          (case Pool_Schedule (Some view) (as_pool s) of
             (ret, pool) \<Rightarrow>
               let s = s\<lparr>as_pool := pool\<rparr>
               in if \<not> ret
                  then (BAD_CONTEXT_ID, auth_result e reason contextCallback GENERAL_ERROR Attributes_new s)
                  else (cx_contextId view, contextCallback, auth_emit [started contextCallback] s)))"

definition StartAuthContext ::
  "auth_env \<Rightarrow> auth_para \<Rightarrow> context_callback \<Rightarrow> bool \<Rightarrow> auth_service \<Rightarrow> u64 \<times> context_callback \<times> auth_service" where
  "StartAuthContext e para contextCallback needSubscribeAppState s =
     (let reason = ''UserAuthService Auth schedule context fail''
      in case CreateSimpleAuthContext (new_id e s) para True True of
           None \<Rightarrow> launch e reason contextCallback None (\<lambda>_. AuthSystemFault) s
         | Some context \<Rightarrow>
             let contextCallback = for_context (bc_contextId context) contextCallback
             in launch e reason contextCallback
                  (Some (simple_view CONTEXT_SIMPLE_AUTH (ae_createTime e) contextCallback context))
                  (AuthSimple context needSubscribeAppState) s)"

definition StartRemoteAuthInvokerContext ::
  "auth_env \<Rightarrow> auth_param_inner \<Rightarrow> invoker_param \<Rightarrow> context_callback \<Rightarrow> auth_service \<Rightarrow>
   u64 \<times> context_callback \<times> auth_service" where
  "StartRemoteAuthInvokerContext e authParam param contextCallback s =
     (let reason = ''UserAuthService StartRemoteAuthInvokerContext schedule context fail''
      in case CreateRemoteAuthInvokerContext (ae_localNetworkId e) (new_id e s) authParam param True of
           None \<Rightarrow> launch e reason contextCallback None (\<lambda>_. AuthSystemFault) s
         | Some context \<Rightarrow>
             launch e reason (for_context (vr_contextId context) contextCallback)
               (Some (invoker_view (ae_createTime e) context)) (AuthInvoker context) s)"

definition StartLocalRemoteAuthContext ::
  "auth_env \<Rightarrow> auth_para \<Rightarrow> bytes \<Rightarrow> context_callback \<Rightarrow> auth_service \<Rightarrow> u64 \<times> context_callback \<times> auth_service" where
  "StartLocalRemoteAuthContext e para collectorNetworkId contextCallback s =
     (let reason = ''UserAuthService StartLocalRemoteAuthContext schedule context fail''
      in case CreateLocalRemoteAuthContext (new_id e s) para collectorNetworkId True True of
           None \<Rightarrow> launch e reason contextCallback None (\<lambda>_. AuthSystemFault) s
         | Some context \<Rightarrow>
             let contextCallback = for_context (bc_contextId (lr_auth context)) contextCallback
             in launch e reason contextCallback
                  (Some (simple_view LOCAL_REMOTE_AUTH_CONTEXT (ae_createTime e) contextCallback (lr_auth context)))
                  (AuthLocalRemote context) s)"

text \<open>\<^verbatim>\<open>RemoteAuthServiceImpl::StartRemoteAuthContext\<close>, in \<^verbatim>\<open>remote_auth_service.cpp\<close>.\<close>

definition StartRemoteAuthContext ::
  "auth_env \<Rightarrow> auth_para \<Rightarrow> remote_auth_param \<Rightarrow> context_callback \<Rightarrow> auth_service \<Rightarrow>
   u64 \<times> context_callback \<times> auth_service" where
  "StartRemoteAuthContext e para param contextCallback s =
     (let reason = ''RemoteAuthServiceImpl StartRemoteAuthContext schedule context fail''
      in case CreateRemoteAuthContext (ae_localNetworkId e) (new_id e s) para param True True of
           None \<Rightarrow> launch e reason contextCallback None (\<lambda>_. AuthSystemFault) s
         | Some context \<Rightarrow>
             let contextCallback = for_context (bc_contextId (rr_auth context)) contextCallback
             in launch e reason contextCallback
                  (Some (simple_view REMOTE_AUTH_CONTEXT (ae_createTime e) contextCallback (rr_auth context)))
                  (AuthRemote context) s)"

definition StartSudoAuthContext ::
  "auth_env \<Rightarrow> auth_param_inner \<Rightarrow> auth_para \<Rightarrow> context_callback \<Rightarrow> auth_service \<Rightarrow>
   u64 \<times> context_callback \<times> auth_service" where
  "StartSudoAuthContext e authParam para contextCallback s =
     (let sudoPara = \<lparr>sp_userId = ap_userId para, sp_tokenId = ap_tokenId para, sp_sdkVersion = ap_sdkVersion para,
            sp_callerType = ap_callerType para, sp_callerName = ap_callerName para,
            sp_challenge = ap_challenge para, sp_atl = ap_atl para,
            sp_additionalInfo = pi_additionalInfo authParam,
            sp_isOsAccountVerified = ap_isOsAccountVerified para,
            sp_needSubscribeAppState = (\<not> CheckPermission (ae_caller e) USER_AUTH_FROM_BACKGROUND)\<rparr>;
          reason = ''UserAuthService StartSudoAuthContext schedule context fail''
      in case CreateSudoAuthContext (new_id e s) sudoPara True of
           None \<Rightarrow> launch e reason contextCallback None (\<lambda>_. AuthSystemFault) s
         | Some context \<Rightarrow>
             launch e reason (for_context (sr_contextId context) contextCallback)
               (Some (sudo_view (ae_createTime e) context)) (AuthSudo context) s)"

section \<open>Auth\<close>

definition GetAuthContextCallback ::
  "auth_env \<Rightarrow> i32 \<Rightarrow> i32 \<Rightarrow> u32 \<Rightarrow> bool \<Rightarrow> context_callback option" where
  "GetAuthContextCallback e apiVersion authType authTrustLevel userAuthCallback =
     (case ContextCallback_NewInstance (ae_callback e) userAuthCallback TRACE_AUTH_USER_ALL of
        None \<Rightarrow> None
      | Some contextCallback \<Rightarrow>
          Some (SetTraceSdkVersion apiVersion (SetTraceAuthTrustLevel authTrustLevel
            (SetTraceAuthWidgetType authType (SetTraceAuthType authType contextCallback)))))"

definition StartAuth ::
  "auth_env \<Rightarrow> auth_para \<Rightarrow> context_callback \<Rightarrow> auth_service \<Rightarrow> i32 \<times> u64 \<times> auth_service" where
  "StartAuth e para contextCallback s =
     (case StartAuthContext e para contextCallback True s of
        (contextId, _, s) \<Rightarrow> (if contextId = BAD_CONTEXT_ID then GENERAL_ERROR else SUCCESS, contextId, s))"

text \<open>The context id is an output parameter, which keeps its value on the paths that do not set it.\<close>

definition UserAuth_Auth ::
  "auth_env \<Rightarrow> i32 \<Rightarrow> ipc_auth_param \<Rightarrow> bool \<Rightarrow> u64 \<Rightarrow> auth_service \<Rightarrow> i32 \<times> u64 \<times> auth_service" where
  "UserAuth_Auth e apiVersion p userAuthCallback contextId s =
     (case GetAuthContextCallback e apiVersion (iap_authType p) (iap_authTrustLevel p) userAuthCallback of
        None \<Rightarrow> (GENERAL_ERROR, contextId, s)
      | Some contextCallback \<Rightarrow>
          (case GetCallerName (ae_caller e) [] of
             (named, callerName, callerType) \<Rightarrow>
               if \<not> named then (GENERAL_ERROR, contextId,
                 auth_answer e ''UserAuthService Auth GetCallerName fail'' contextCallback GENERAL_ERROR Attributes_new s)
               else
                 let contextCallback = SetTraceCallerType callerType (SetTraceCallerName callerName contextCallback);
                     checkRet = Auth_CheckPermissionAndParam (ae_caller e) (iap_authType p) callerType callerName
                       (iap_authTrustLevel p)
                 in if checkRet \<noteq> SUCCESS then (checkRet, contextId,
                      auth_answer e ''UserAuthService Auth CheckAuthPermissionAndParam fail'' contextCallback checkRet
                        Attributes_new s)
                    else (case GetCallingUserId (ae_caller e) INVALID_USER_ID of
                            (ret, userId) \<Rightarrow>
                              if ret \<noteq> SUCCESS then (CHECK_PERMISSION_FAILED, contextId,
                                auth_answer e ''UserAuthService Auth GetCallingUserId fail'' contextCallback GENERAL_ERROR
                                  Attributes_new s)
                              else StartAuth e (empty_para\<lparr>ap_callerName := callerName, ap_callerType := callerType,
                                     ap_tokenId := GetAccessTokenId (ae_caller e), ap_userId := userId,
                                     ap_authType := iap_authType p, ap_atl := iap_authTrustLevel p,
                                     ap_challenge := iap_challenge p, ap_endAfterFirstFail := True,
                                     ap_sdkVersion := apiVersion, ap_authIntent := 0,
                                     ap_isOsAccountVerified := IsOsAccountVerified (ae_caller e) userId\<rparr>)
                                     (SetTraceUserId userId contextCallback) s)))"

section \<open>AuthUser\<close>

text \<open>The context id, the reason of a failure, the callback and the state.\<close>

definition AuthRemoteUser ::
  "auth_env \<Rightarrow> auth_param_inner \<Rightarrow> auth_para \<Rightarrow> remote_para \<Rightarrow> context_callback \<Rightarrow> auth_service \<Rightarrow>
   u64 \<times> i32 \<times> context_callback \<times> auth_service" where
  "AuthRemoteUser e authParam para remoteAuthParam contextCallback s =
     (case ae_localNetworkId e of
        None \<Rightarrow> (BAD_CONTEXT_ID, GENERAL_ERROR, contextCallback, s)
      | Some localNetworkId \<Rightarrow>
          (case ProcessAuthParamForRemoteAuth (ae_caller e) para remoteAuthParam localNetworkId of
             (processed, para, remoteAuthParam) \<Rightarrow>
               if \<not> processed then (BAD_CONTEXT_ID, INVALID_PARAMETERS, contextCallback, s)
               else
                 let verifier = the (rm_verifierNetworkId remoteAuthParam);
                     collector = the (rm_collectorNetworkId remoteAuthParam)
                 in case (if verifier = localNetworkId \<and> collector = localNetworkId
                          then StartLocalRemoteAuthContext e para collector contextCallback s
                          else if collector = localNetworkId
                          then StartRemoteAuthInvokerContext e authParam
                                 \<lparr>iv_connectionName = [], iv_verifierNetworkId = verifier,
                                  iv_collectorNetworkId = collector, iv_tokenId = ap_tokenId para,
                                  iv_collectorTokenId = ap_collectorTokenId para,
                                  iv_callerName = ap_callerName para, iv_callerType = ap_callerType para\<rparr>
                                 contextCallback s
                          else StartRemoteAuthContext e para
                                 \<lparr>ra_authType = pi_authType authParam, ra_connectionName = [],
                                  ra_collectorNetworkId = collector, ra_executorInfoMsg = []\<rparr> contextCallback s) of
                      (contextId, contextCallback, s) \<Rightarrow> (contextId, GENERAL_ERROR, contextCallback, s)))"

definition StartAuthUser ::
  "auth_env \<Rightarrow> auth_param_inner \<Rightarrow> remote_para option \<Rightarrow> auth_para \<Rightarrow> context_callback \<Rightarrow> auth_service \<Rightarrow>
   i32 \<times> u64 \<times> auth_service" where
  "StartAuthUser e authParam remoteAuthParam para contextCallback s =
     (case remoteAuthParam of
        None \<Rightarrow>
          (case StartAuthContext e para contextCallback (\<not> CheckPermission (ae_caller e) USER_AUTH_FROM_BACKGROUND) s of
             (contextId, _, s) \<Rightarrow> (if contextId = BAD_CONTEXT_ID then GENERAL_ERROR else SUCCESS, contextId, s))
      | Some remoteAuthParam \<Rightarrow>
          (case AuthRemoteUser e authParam para remoteAuthParam contextCallback s of
             (contextId, failReason, contextCallback, s) \<Rightarrow>
               if contextId = BAD_CONTEXT_ID
               then (failReason, contextId,
                     auth_answer e ''UserAuthService AuthRemoteUser fail'' contextCallback failReason Attributes_new s)
               else (SUCCESS, contextId, s)))"

definition StartSudoAuthUser ::
  "auth_env \<Rightarrow> auth_param_inner \<Rightarrow> remote_para option \<Rightarrow> auth_para \<Rightarrow> context_callback \<Rightarrow> u64 \<Rightarrow> auth_service \<Rightarrow>
   i32 \<times> u64 \<times> auth_service" where
  "StartSudoAuthUser e authParam remoteAuthParam para contextCallback contextId s =
     (if GetDirectCallerType (ae_caller e) \<noteq> cl_TOKEN_NATIVE (ae_caller e) \<and>
         \<not> CheckPermission (ae_caller e) IS_SYSTEM_APP
      then (CHECK_PERMISSION_FAILED, contextId,
            auth_answer e ''UserAuthService AuthUser sudo caller check fail'' contextCallback CHECK_PERMISSION_FAILED
              Attributes_new s)
      else
        let sudoCheckRet = CheckSudoAuthParam authParam remoteAuthParam
        in if sudoCheckRet \<noteq> SUCCESS
           then (sudoCheckRet, contextId,
                 auth_answer e ''UserAuthService AuthUser CheckSudoAuthParam fail'' contextCallback sudoCheckRet
                   Attributes_new s)
           else (case StartSudoAuthContext e authParam para contextCallback s of
                   (contextId, _, s) \<Rightarrow> (if contextId = BAD_CONTEXT_ID then GENERAL_ERROR else SUCCESS, contextId, s)))"

definition UserAuth_AuthUser ::
  "auth_env \<Rightarrow> ipc_auth_param \<Rightarrow> ipc_remote_param \<Rightarrow> bool \<Rightarrow> auth_service \<Rightarrow> i32 \<times> u64 \<times> auth_service" where
  "UserAuth_AuthUser e p rp userAuthCallback s =
     (let authParam = InitAuthParam p; remoteAuthParam = InitRemoteAuthParam rp
      in case GetAuthContextCallback e 10000 (pi_authType authParam) (pi_authTrustLevel authParam) userAuthCallback of
           None \<Rightarrow> (GENERAL_ERROR, BAD_CONTEXT_ID, s)
         | Some contextCallback \<Rightarrow>
             let contextCallback = SetTraceUserId (pi_userId authParam)
                   (SetTraceIsRemoteAuth (remoteAuthParam \<noteq> None) contextCallback)
             in case GetCallerName (ae_caller e) [] of
                  (named, callerName, callerType) \<Rightarrow>
                    if \<not> named then (GENERAL_ERROR, BAD_CONTEXT_ID,
                      auth_answer e ''UserAuthService AuthUser GetCallerName fail'' contextCallback GENERAL_ERROR
                        Attributes_new s)
                    else
                      let contextCallback = SetTraceCallerType callerType (SetTraceCallerName callerName contextCallback)
                      in case AuthUser_CheckPermissionAndParam (ae_caller e) (pi_authType authParam)
                                (pi_authTrustLevel authParam) of
                           Some (code, reason) \<Rightarrow> (CHECK_PERMISSION_FAILED, BAD_CONTEXT_ID,
                             auth_answer e reason contextCallback code Attributes_new s)
                         | None \<Rightarrow>
                             let para = empty_para\<lparr>ap_callerName := callerName, ap_callerType := callerType,
                                   ap_tokenId := GetAccessTokenId (ae_caller e), ap_userId := pi_userId authParam,
                                   ap_authType := pi_authType authParam, ap_atl := pi_authTrustLevel authParam,
                                   ap_challenge := pi_challenge authParam, ap_endAfterFirstFail := False,
                                   ap_sdkVersion := 10000, ap_authIntent := pi_authIntent authParam,
                                   ap_skipLockedBiometricAuth := pi_skipLockedBiometricAuth authParam,
                                   ap_credentialIdList := pi_credentialIdList authParam,
                                   ap_isOsAccountVerified := IsOsAccountVerified (ae_caller e) (pi_userId authParam)\<rparr>
                             in if pi_authIntent authParam = SUDO_PIN_AUTH
                                then StartSudoAuthUser e authParam remoteAuthParam para contextCallback BAD_CONTEXT_ID s
                                else StartAuthUser e authParam remoteAuthParam para contextCallback s)"

section \<open>Identify and cancel\<close>

definition UserAuth_Identify ::
  "auth_env \<Rightarrow> bytes \<Rightarrow> i32 \<Rightarrow> bool \<Rightarrow> auth_service \<Rightarrow> i32 \<times> u64 \<times> auth_service" where
  "UserAuth_Identify e challenge authType userAuthCallback s =
     (case ContextCallback_NewInstance (ae_callback e) userAuthCallback TRACE_IDENTIFY of
        None \<Rightarrow> (INVALID_PARAMETERS, BAD_CONTEXT_ID, s)
      | Some contextCallback \<Rightarrow>
          if authType = PIN then (GENERAL_ERROR, BAD_CONTEXT_ID,
            auth_answer e ''UserAuthService Identify IsAuthTypeEnable fail'' contextCallback TYPE_NOT_SUPPORT
              Attributes_new s)
          else if \<not> CheckPermission (ae_caller e) ACCESS_USER_AUTH_INTERNAL_PERMISSION
          then (CHECK_PERMISSION_FAILED, BAD_CONTEXT_ID,
            auth_answer e ''UserAuthService Identify CheckPermission fail'' contextCallback CHECK_PERMISSION_FAILED
              Attributes_new s)
          else
            let context = CreateIdentifyContext (new_id e s) \<lparr>ip_authType = authType,
                  ip_tokenId = GetAccessTokenId (ae_caller e), ip_challenge = challenge\<rparr> True;
                contextCallback = SetCleaner
                  (case context of None \<Rightarrow> INVALID_CONTEXT_ID | Some c \<Rightarrow> bc_contextId c) contextCallback
            in case Pool_Schedule (map_option (identify_view (ae_createTime e)) context) (as_pool s) of
                 (ret, pool) \<Rightarrow>
                   let s = s\<lparr>as_pool := pool\<rparr>
                   in case (ret, context) of
                        (True, Some c) \<Rightarrow>
                          (SUCCESS, bc_contextId c, auth_emit [AuthIdentify c contextCallback] s)
                      | _ \<Rightarrow> (GENERAL_ERROR, BAD_CONTEXT_ID,
                          auth_answer e ''UserAuthService Identify schedule context fail'' contextCallback GENERAL_ERROR
                            Attributes_new s))"

definition CancelAuthOrIdentify :: "auth_env \<Rightarrow> u64 \<Rightarrow> i32 \<Rightarrow> auth_service \<Rightarrow> i32 \<times> auth_service" where
  "CancelAuthOrIdentify e contextId cancelReason s =
     (if \<not> CheckPermission (ae_caller e) ACCESS_USER_AUTH_INTERNAL_PERMISSION \<and>
         \<not> CheckPermission (ae_caller e) ACCESS_BIOMETRIC_PERMISSION then (CHECK_PERMISSION_FAILED, s)
      else (case SelectLocked contextId (as_pool s) of
              None \<Rightarrow> (1002, s)
            | Some context \<Rightarrow>
                if cx_tokenId context \<noteq> GetAccessTokenId (ae_caller e) then (CHECK_PERMISSION_FAILED, s)
                else
                  let s = (if cancelReason = 1 \<or> cancelReason = 2 then auth_emit [AuthSystemFault] s else s)
                  in (SUCCESS, s\<lparr>as_pool := Pool_Cancel contextId (as_pool s)\<rparr>)))"

definition GetVersion :: "auth_env \<Rightarrow> i32 \<times> i32" where
  "GetVersion e =
     (if \<not> CheckPermission (ae_caller e) ACCESS_USER_AUTH_INTERNAL_PERMISSION \<and>
         \<not> CheckPermission (ae_caller e) ACCESS_BIOMETRIC_PERMISSION then (CHECK_PERMISSION_FAILED, 0)
      else (SUCCESS, 1))"

section \<open>Callbacks of remote authentications\<close>

definition AddRemoteAuthCallback :: "auth_env \<Rightarrow> u32 \<Rightarrow> nat option \<Rightarrow> auth_service \<Rightarrow> i32 \<times> auth_service" where
  "AddRemoteAuthCallback e tokenId remoteAuthCallback s =
     (if as_callbackMap s tokenId \<noteq> None then (GENERAL_ERROR, s)
      else (case remoteAuthCallback of
              None \<Rightarrow> (GENERAL_ERROR, s)
            | Some r \<Rightarrow>
                let s = s\<lparr>as_callbackMap := (as_callbackMap s)(tokenId \<mapsto> r)\<rparr>
                in (SUCCESS,
                    if \<not> ae_hasObject e r then s
                    else auth_emit [AuthDeathRecipient tokenId True]
                           (s\<lparr>as_remoteDeathMap := insert tokenId (as_remoteDeathMap s)\<rparr>))))"

definition DelRemoteAuthCallback :: "auth_env \<Rightarrow> u32 \<Rightarrow> auth_service \<Rightarrow> auth_service" where
  "DelRemoteAuthCallback e tokenId s =
     (case as_callbackMap s tokenId of
        None \<Rightarrow> s
      | Some r \<Rightarrow>
          let s = (if tokenId \<in> as_remoteDeathMap s then
                     (if ae_hasObject e r then auth_emit [AuthDeathRecipient tokenId False] s else s)
                       \<lparr>as_remoteDeathMap := as_remoteDeathMap s - {tokenId}\<rparr>
                   else s)
          in s\<lparr>as_callbackMap := (as_callbackMap s)(tokenId := None)\<rparr>)"

text \<open>The process behind a callback dies: its recipient forgets the callback.\<close>

definition RemoteAuthCallback_OnRemoteDied :: "auth_env \<Rightarrow> bool \<Rightarrow> u32 \<Rightarrow> auth_service \<Rightarrow> auth_service" where
  "RemoteAuthCallback_OnRemoteDied e remote tokenId s = (if \<not> remote then s else DelRemoteAuthCallback e tokenId s)"

definition GetRemoteAuthCallback :: "u32 \<Rightarrow> auth_service \<Rightarrow> nat option" where
  "GetRemoteAuthCallback tokenId s = as_callbackMap s tokenId"

definition GetRemoteAuthCallerName :: "caller \<Rightarrow> u32 \<Rightarrow> bytes" where
  "GetRemoteAuthCallerName stub tokenId =
     (case GetCallerNameByTokenId stub tokenId [] of (named, callerName, _) \<Rightarrow> if named then callerName else [])"

definition RegisterRemoteAuthCallback :: "auth_env \<Rightarrow> nat option \<Rightarrow> auth_service \<Rightarrow> i32 \<times> auth_service" where
  "RegisterRemoteAuthCallback e remoteAuthCallback s =
     (if remoteAuthCallback = None then (INVALID_PARAMETERS, s)
      else if \<not> CheckPermission (ae_caller e) IS_SYSTEM_APP then (CHECK_SYSTEM_APP_FAILED, s)
      else if \<not> CheckPermission (ae_caller e) ACCESS_USER_AUTH_INTERNAL_PERMISSION then (CHECK_PERMISSION_FAILED, s)
      else if \<not> fst (GetCallerName (ae_caller e) []) then (GENERAL_ERROR, s)
      else AddRemoteAuthCallback e (GetAccessTokenId (ae_caller e)) remoteAuthCallback s)"

definition UnregisterRemoteAuthCallback :: "auth_env \<Rightarrow> auth_service \<Rightarrow> i32 \<times> auth_service" where
  "UnregisterRemoteAuthCallback e s =
     (if \<not> CheckPermission (ae_caller e) IS_SYSTEM_APP then (CHECK_SYSTEM_APP_FAILED, s)
      else if \<not> CheckPermission (ae_caller e) ACCESS_USER_AUTH_INTERNAL_PERMISSION then (CHECK_PERMISSION_FAILED, s)
      else (SUCCESS, DelRemoteAuthCallback e (GetAccessTokenId (ae_caller e)) s))"

section \<open>AuthWidget\<close>

definition Widget_GetAuthContextCallback ::
  "auth_env \<Rightarrow> i32 \<Rightarrow> auth_param_inner \<Rightarrow> widget_param_inner \<Rightarrow> bool \<Rightarrow> context_callback option" where
  "Widget_GetAuthContextCallback e apiVersion authParam widgetParam callback =
     (case ContextCallback_NewInstance (ae_callback e) callback TRACE_AUTH_USER_BEHAVIOR of
        None \<Rightarrow> None
      | Some contextCallback \<Rightarrow>
          let authWidgetType = fold (\<lambda>authType t. t OR authType) (pi_authTypes authParam) 0;
              authWidgetType = (if wp_windowMode widgetParam = FULLSCREEN then authWidgetType OR 0x40000000
                else authWidgetType);
              authWidgetType = (if wp_navigationButtonText widgetParam \<noteq> [] then authWidgetType OR 0x80000000
                else authWidgetType);
              r = pi_reuseUnlockResult authParam
          in Some (SetTraceReuseUnlockResultDuration (if ru_isReuse r then ru_reuseDuration r else 0)
               (SetTraceReuseUnlockResultMode (if ru_isReuse r then ru_reuseMode r else 0)
                 (SetTraceAuthWidgetType authWidgetType (SetTraceAuthTrustLevel (pi_authTrustLevel authParam)
                   (SetTraceSdkVersion apiVersion contextCallback))))))"

text \<open>What \<^verbatim>\<open>GetCallerInfo\<close> tells the trace.\<close>

definition widget_traced :: "i32 \<Rightarrow> widget_para \<Rightarrow> context_callback \<Rightarrow> context_callback" where
  "widget_traced ret para contextCallback =
     (let contextCallback = SetTraceIsBackgroundApplication (wc_isBackgroundApplication para)
            (SetTraceCallerType (wc_callerType para) (SetTraceCallerName (wc_callerName para) contextCallback))
      in if ret = SUCCESS then SetTraceUserId (wc_userId para) contextCallback else contextCallback)"

definition StartWidgetContext ::
  "auth_env \<Rightarrow> context_callback \<Rightarrow> auth_param_inner \<Rightarrow> widget_param_inner \<Rightarrow> i32 list \<Rightarrow> widget_para \<Rightarrow> bool \<Rightarrow>
   auth_service \<Rightarrow> u64 \<times> auth_service" where
  "StartWidgetContext e contextCallback authParam widgetParam validType para modalCallback s =
     (let para = para\<lparr>wc_tokenId := GetAccessTokenId (ae_caller e),
            wc_isOsAccountVerified := IsOsAccountVerified (ae_caller e) (wc_userId para)\<rparr>;
          para = InitWidgetContextParam authParam validType widgetParam para;
          remote = (case pi_remoteTokenId authParam of
                      None \<Rightarrow> Some (None, para)
                    | Some token \<Rightarrow>
                        (case GetRemoteAuthCallback token s of
                           None \<Rightarrow> None
                         | Some r \<Rightarrow>
                             let callerName = GetRemoteAuthCallerName (ae_caller e) token
                             in Some (Some r, if callerName \<noteq> [] then para\<lparr>wc_remoteCallerName := callerName\<rparr>
                                              else para)))
      in case remote of
           None \<Rightarrow> (BAD_CONTEXT_ID, auth_answer e ''UserAuthService GetRemoteAuthCallback fail'' contextCallback
             GENERAL_ERROR Attributes_new s)
         | Some (remoteAuthCallback, para) \<Rightarrow>
             let reason = ''UserAuthService AuthWidget schedule context fail''
             in case CreateWidgetContext (new_id e s) para True True modalCallback remoteAuthCallback of
                  None \<Rightarrow> (BAD_CONTEXT_ID, auth_answer e reason contextCallback GENERAL_ERROR Attributes_new s)
                | Some context \<Rightarrow>
                    (case launch e reason (SetTraceRequestContextId (wr_contextId context) contextCallback)
                            (Some (widget_view (ae_createTime e) context)) (AuthWidgetContext context) s of
                       (contextId, _, s) \<Rightarrow> (contextId, s)))"

definition StartAuthWidget ::
  "auth_env \<Rightarrow> auth_param_inner \<Rightarrow> widget_param_inner \<Rightarrow> widget_para \<Rightarrow> context_callback \<Rightarrow> bool \<Rightarrow> u64 \<Rightarrow>
   auth_service \<Rightarrow> i32 \<times> u64 \<times> auth_service" where
  "StartAuthWidget e authParam widgetParam para contextCallback modalCallback contextId s =
     (case CheckValidSolution (ae_caller e) (ae_profile e) para authParam widgetParam [] of
        (checkRet, validType, para, log) \<Rightarrow>
          let s = auth_emit [AuthExecutors log] s
          in if checkRet \<noteq> SUCCESS \<and> checkRet \<noteq> PIN_EXPIRED
             then (checkRet, contextId,
                   auth_answer e ''UserAuthService AuthWidget CheckValidSolution fail'' contextCallback checkRet
                     Attributes_new s)
             else (case ProcessPinExpired (ae_profile e) checkRet authParam validType para of
                     (pinExpiredRet, validType, para, log) \<Rightarrow>
                       let s = auth_emit [AuthExecutors log] s
                       in if pinExpiredRet \<noteq> SUCCESS
                          then (pinExpiredRet, contextId,
                                auth_answer e ''UserAuthService AuthWidget ProcessPinExpired fail'' contextCallback
                                  pinExpiredRet Attributes_new s)
                          else (case FilterFaceNotAvailable para validType of
                                  (validType, para) \<Rightarrow>
                                    (case StartWidgetContext e contextCallback authParam widgetParam validType para
                                            modalCallback s of
                                       (contextId, s) \<Rightarrow>
                                         (if contextId = BAD_CONTEXT_ID then GENERAL_ERROR else SUCCESS, contextId, s)))))"

definition UserAuth_AuthWidget ::
  "auth_env \<Rightarrow> i32 \<Rightarrow> ipc_auth_param \<Rightarrow> widget_param_inner \<Rightarrow> bool \<Rightarrow> bool \<Rightarrow> u64 \<Rightarrow> auth_service \<Rightarrow>
   i32 \<times> u64 \<times> auth_service" where
  "UserAuth_AuthWidget e apiVersion p widgetParam userAuthCallback modalCallback contextId s =
     (let authParam = InitAuthParam p
      in case Widget_GetAuthContextCallback e apiVersion authParam widgetParam userAuthCallback of
           None \<Rightarrow> (GENERAL_ERROR, contextId, s)
         | Some contextCallback \<Rightarrow>
             (case GetCallerInfo (ae_caller e) (pi_isUserIdSpecified authParam) (pi_userId authParam)
                     (default_widget_para apiVersion) of
                (checkRet, para) \<Rightarrow>
                  let contextCallback = widget_traced checkRet para contextCallback
                  in if checkRet \<noteq> SUCCESS
                     then (checkRet, contextId, auth_answer e ''UserAuthService AuthWidget GetCallerInfo fail''
                       contextCallback checkRet Attributes_new s)
                     else
                       let checkRet = Widget_CheckPermissionAndParam (ae_caller e) authParam widgetParam
                             (wc_isBackgroundApplication para)
                       in if checkRet \<noteq> SUCCESS
                          then (checkRet, contextId,
                                auth_answer e ''UserAuthService AuthWidget CheckAuthPermissionAndParam fail''
                                  contextCallback checkRet Attributes_new s)
                          else
                            let para = (if CheckPermission (ae_caller e) ENTERPRISE_MANAGE_SECURITY
                                  then para\<lparr>wc_callerPermissions := wc_callerPermissions para OR 1\<rparr> else para)
                            in case CheckReuseUnlockResult (ae_profile e) para authParam Attributes_new of
                                 (reused, extraInfo) \<Rightarrow>
                                   if reused = SUCCESS
                                   then (SUCCESS, REUSE_AUTH_RESULT_CONTEXT_ID,
                                         auth_answer e ''UserAuthService AuthWidget CheckReuseUnlockResult success''
                                           contextCallback SUCCESS extraInfo s)
                                   else StartAuthWidget e authParam widgetParam para contextCallback modalCallback
                                          contextId s))"

section \<open>The widget, listeners and recognition\<close>

definition UserAuth_Notice :: "auth_env \<Rightarrow> i32 \<Rightarrow> bytes \<Rightarrow> auth_service \<Rightarrow> i32 \<times> auth_service" where
  "UserAuth_Notice e noticeType eventData s =
     (if \<not> CheckPermission (ae_caller e) IS_SYSTEM_APP then (CHECK_SYSTEM_APP_FAILED, s)
      else if \<not> CheckPermission (ae_caller e) SUPPORT_USER_AUTH then (CHECK_PERMISSION_FAILED, s)
      else (ae_notice e noticeType eventData, auth_emit [AuthNotice noticeType eventData] s))"

definition RegisterWidgetCallback :: "auth_env \<Rightarrow> i32 \<Rightarrow> bool \<Rightarrow> auth_service \<Rightarrow> i32 \<times> auth_service" where
  "RegisterWidgetCallback e version widgetCallback s =
     (if \<not> CheckPermission (ae_caller e) IS_SYSTEM_APP then (CHECK_SYSTEM_APP_FAILED, s)
      else if \<not> CheckPermission (ae_caller e) SUPPORT_USER_AUTH then (CHECK_PERMISSION_FAILED, s)
      else if version \<noteq> 1 then (INVALID_PARAMETERS, s)
      else if \<not> widgetCallback then (INVALID_PARAMETERS, s)
      else (SUCCESS, auth_emit [AuthWidgetClient (GetTokenId (ae_caller e))] s))"

text \<open>The code and the state of enrollment, an output parameter.\<close>

definition GetEnrolledState ::
  "auth_env \<Rightarrow> i32 \<Rightarrow> i32 \<Rightarrow> eng_enrolled_state \<Rightarrow> i32 \<times> eng_enrolled_state" where
  "GetEnrolledState e apiVersion authType ipcEnrolledState =
     (if \<not> CheckPermission (ae_caller e) ACCESS_BIOMETRIC_PERMISSION
      then (CHECK_PERMISSION_FAILED, ipcEnrolledState)
      else if sint apiVersion < 12 then (TYPE_NOT_SUPPORT, ipcEnrolledState)
      else (case GetCallingUserId (ae_caller e) INVALID_USER_ID of
              (ret, userId) \<Rightarrow>
                if ret \<noteq> SUCCESS then (GENERAL_ERROR, ipcEnrolledState)
                else (case ae_enrolledState e userId authType of
                        (result, state) \<Rightarrow>
                          if result = NOT_ENROLLED then (result, ipcEnrolledState)
                          else if result \<noteq> SUCCESS then (result, ipcEnrolledState)
                          else (SUCCESS, \<lparr>ee_credentialDigest =
                                   (if sint apiVersion < 10000 then ee_credentialDigest state AND 0xFFFF
                                    else ee_credentialDigest state),
                                 ee_credentialCount = ee_credentialCount state\<rparr>))))"

definition auth_listener :: "auth_env \<Rightarrow> bool \<Rightarrow> bool \<Rightarrow> auth_service \<Rightarrow> i32 \<times> auth_service" where
  "auth_listener e regist listener s =
     (if \<not> listener then (INVALID_PARAMETERS, s)
      else if \<not> CheckPermission (ae_caller e) ACCESS_USER_AUTH_INTERNAL_PERMISSION then (CHECK_PERMISSION_FAILED, s)
      else (ae_listeners e regist, auth_emit [AuthListener regist] s))"

definition RegistUserAuthSuccessEventListener :: "auth_env \<Rightarrow> bool \<Rightarrow> auth_service \<Rightarrow> i32 \<times> auth_service" where
  "RegistUserAuthSuccessEventListener e listener s = auth_listener e True listener s"

definition UnRegistUserAuthSuccessEventListener :: "auth_env \<Rightarrow> bool \<Rightarrow> auth_service \<Rightarrow> i32 \<times> auth_service" where
  "UnRegistUserAuthSuccessEventListener e listener s = auth_listener e False listener s"

definition CheckUserRecognitionCapability :: "auth_env \<Rightarrow> i32" where
  "CheckUserRecognitionCapability e =
     (if \<not> CheckPermission (ae_caller e) ACCESS_USER_PASSIVE_RECOGNITION_PERMISSION then CHECK_PERMISSION_FAILED
      else if ae_capability e AND SUPPORT_USER_RECOGNITION = 0 then DEVICE_CAPABILITY_NOT_SUPPORT
      else SUCCESS)"

definition GetUserRecognitionResult :: "auth_env \<Rightarrow> bytes \<Rightarrow> i32 \<times> bytes" where
  "GetUserRecognitionResult e result =
     (if \<not> CheckPermission (ae_caller e) ACCESS_USER_PASSIVE_RECOGNITION_PERMISSION
      then (CHECK_PERMISSION_FAILED, result)
      else if ae_capability e AND SUPPORT_USER_RECOGNITION = 0 then (DEVICE_CAPABILITY_NOT_SUPPORT, result)
      else (SUCCESS, ae_recognized e))"

definition recognition_listener :: "auth_env \<Rightarrow> bool \<Rightarrow> bool \<Rightarrow> auth_service \<Rightarrow> i32 \<times> auth_service" where
  "recognition_listener e regist listener s =
     (if \<not> listener then (INVALID_PARAMETERS, s)
      else if \<not> CheckPermission (ae_caller e) ACCESS_USER_PASSIVE_RECOGNITION_PERMISSION
      then (CHECK_PERMISSION_FAILED, s)
      else if ae_capability e AND SUPPORT_USER_RECOGNITION = 0 then (DEVICE_CAPABILITY_NOT_SUPPORT, s)
      else (ae_recognition e regist, auth_emit [AuthRecognitionListener regist] s))"

definition RegisterUserRecognitionEventListener :: "auth_env \<Rightarrow> bool \<Rightarrow> auth_service \<Rightarrow> i32 \<times> auth_service" where
  "RegisterUserRecognitionEventListener e listener s = recognition_listener e True listener s"

definition UnregisterUserRecognitionEventListener :: "auth_env \<Rightarrow> bool \<Rightarrow> auth_service \<Rightarrow> i32 \<times> auth_service" where
  "UnregisterUserRecognitionEventListener e listener s = recognition_listener e False listener s"

section \<open>Tokens and reuse\<close>

definition GetAuthTokenAttr :: "token_plain \<Rightarrow> bytes \<Rightarrow> attributes \<Rightarrow> bool \<times> attributes" where
  "GetAuthTokenAttr tokenPlain rootSecret extraInfo =
     set_all
       ([SetUint32Value ATTR_TOKEN_VERSION (tp_version tokenPlain), SetInt32Value ATTR_USER_ID (tp_userId tokenPlain),
         SetUint8ArrayValue ATTR_CHALLENGE (tp_challenge tokenPlain),
         SetUint64Value ATTR_TOKEN_TIME_INTERVAL (tp_timeInterval tokenPlain),
         SetUint32Value ATTR_AUTH_TRUST_LEVEL (tp_authTrustLevel tokenPlain),
         SetInt32Value ATTR_AUTH_TYPE (tp_authType tokenPlain), SetInt32Value ATTR_TOKEN_TYPE (tp_tokenType tokenPlain),
         SetUint64Value ATTR_SEC_USER_ID (tp_secureUid tokenPlain),
         SetUint64Value ATTR_CREDENTIAL_DIGEST (tp_enrolledId tokenPlain),
         SetUint64Value ATTR_CREDENTIAL_ID (tp_credentialId tokenPlain)] @
        (if rootSecret \<noteq> [] then [SetUint8ArrayValue ATTR_ROOT_SECRET rootSecret] else [])) extraInfo"

definition VerifyAuthToken :: "auth_env \<Rightarrow> bytes \<Rightarrow> u64 \<Rightarrow> bool \<Rightarrow> auth_service \<Rightarrow> i32 \<times> auth_service" where
  "VerifyAuthToken e tokenIn allowableDuration callback s =
     (let refuse = (\<lambda>code extraInfo. (code, auth_emit [AuthVerifyResult code (Serialize extraInfo)] s))
      in if \<not> callback then (INVALID_PARAMETERS, s)
         else if tokenIn = [] then refuse INVALID_PARAMETERS Attributes_new
         else if \<not> CheckPermission (ae_caller e) USE_USER_ACCESS_MANAGER
         then refuse CHECK_PERMISSION_FAILED Attributes_new
         else if GetDirectCallerType (ae_caller e) \<noteq> cl_TOKEN_NATIVE (ae_caller e) \<and>
           \<not> CheckPermission (ae_caller e) IS_SYSTEM_APP then refuse CHECK_SYSTEM_APP_FAILED Attributes_new
         else (case ae_verifyToken e tokenIn allowableDuration of
                 (result, tokenPlain, rootSecret) \<Rightarrow>
                   if result \<noteq> SUCCESS then refuse result Attributes_new
                   else (case GetAuthTokenAttr tokenPlain rootSecret Attributes_new of
                           (stored, extraInfo) \<Rightarrow>
                             if \<not> stored then refuse GENERAL_ERROR extraInfo else refuse SUCCESS extraInfo)))"

text \<open>The code and the token, an output parameter.\<close>

definition UserAuth_QueryReusableAuthResult :: "auth_env \<Rightarrow> ipc_auth_param \<Rightarrow> bytes \<Rightarrow> i32 \<times> bytes" where
  "UserAuth_QueryReusableAuthResult e p token =
     (if \<not> CheckPermission (ae_caller e) ACCESS_USER_AUTH_INTERNAL_PERMISSION then (CHECK_PERMISSION_FAILED, token)
      else if \<not> (GetDirectCallerType (ae_caller e) = cl_TOKEN_HAP (ae_caller e) \<and>
        CheckPermission (ae_caller e) IS_SYSTEM_APP) then (CHECK_SYSTEM_APP_FAILED, token)
      else
        let authParam = InitAuthParam p
        in if \<not> Helper_CheckAuthTrustLevel (pi_authTrustLevel authParam) then (TRUST_LEVEL_NOT_SUPPORT, token)
           else if list_ex (\<lambda>type. \<not> CheckUserAuthType type) (pi_authTypes authParam) then (TYPE_NOT_SUPPORT, token)
           else (case (if pi_isUserIdSpecified authParam then (SUCCESS, pi_userId authParam)
                       else GetCallingUserId (ae_caller e) (pi_userId authParam)) of
                   (ret, userId) \<Rightarrow>
                     if ret \<noteq> SUCCESS then (GENERAL_ERROR, token)
                     else (case QueryReusableAuthResult (ae_profile e) userId authParam empty_reuse_info of
                             (result, info) \<Rightarrow>
                               if result \<noteq> SUCCESS then (result, token) else (SUCCESS, ri_token info))))"

section \<open>Preparation of remote authentications\<close>

definition DoPrepareRemoteAuth :: "auth_env \<Rightarrow> bytes \<Rightarrow> i32" where
  "DoPrepareRemoteAuth e networkId =
     (case ae_udidOf e networkId of
        None \<Rightarrow> GENERAL_ERROR
      | Some udid \<Rightarrow>
          let ret = ae_prepareRemote e udid
          in if ret = DEVICE_CAPABILITY_NOT_SUPPORT \<or> ret = REMOTE_DEVICE_CONNECTION_FAIL then ret
             else if ret \<noteq> SUCCESS then GENERAL_ERROR else SUCCESS)"

definition PrepareRemoteAuthInner :: "auth_env \<Rightarrow> bytes \<Rightarrow> bool \<Rightarrow> auth_service \<Rightarrow> i32 \<times> auth_service" where
  "PrepareRemoteAuthInner e networkId callback s =
     (if networkId = [] then (INVALID_PARAMETERS, s)
      else if \<not> callback then (INVALID_PARAMETERS, s)
      else if \<not> CheckPermission (ae_caller e) ACCESS_USER_AUTH_INTERNAL_PERMISSION then (CHECK_PERMISSION_FAILED, s)
      else (SUCCESS, auth_emit [AuthPlainResult (DoPrepareRemoteAuth e networkId) (Serialize Attributes_new)] s))"

definition PrepareRemoteAuth :: "auth_env \<Rightarrow> bytes \<Rightarrow> bool \<Rightarrow> auth_service \<Rightarrow> i32 \<times> auth_service" where
  "PrepareRemoteAuth e networkId callback s =
     (if \<not> callback then (INVALID_PARAMETERS, s)
      else (case PrepareRemoteAuthInner e networkId callback s of
              (ret, s) \<Rightarrow>
                (SUCCESS, if ret \<noteq> SUCCESS then auth_emit [AuthPlainResult ret (Serialize Attributes_new)] s else s)))"

end
