(* ===== verification/User_Auth_Properties.thy ===== *)
theory User_Auth_Properties
  imports User_Auth_Service User_Idm_Properties
begin

text \<open>
  What the requests of \<open>User_Auth_Service\<close> guarantee: a request is answered once or handed to a context, and the pool is
  only driven through its operations. What a caller without the permission gets is shown in \<open>User_Auth_Gate\<close>, what is
  started and who may cancel it in \<open>User_Auth_Safety\<close>.
\<close>

section \<open>Requests\<close>

datatype auth_request =
    GetPropertyRequest i32 i32 "u32 list" bool
  | GetPropertyByIdRequest u64 "u32 list" bool
  | SetPropertyRequest i32 bytes bool
  | GetAuthLockStateRequest i32 bool
  | AuthRequest i32 ipc_auth_param bool u64
  | AuthUserRequest ipc_auth_param ipc_remote_param bool
  | AuthWidgetRequest i32 ipc_auth_param widget_param_inner bool bool u64
  | IdentifyRequest bytes i32 bool
  | CancelAuthRequest u64 i32
  | RegisterRemoteRequest "nat option"
  | UnregisterRemoteRequest
  | NoticeRequest i32 bytes
  | WidgetCallbackRequest i32 bool
  | AuthListenerRequest bool bool
  | RecognitionListenerRequest bool bool
  | VerifyAuthTokenRequest bytes u64 bool
  | PrepareRemoteAuthRequest bytes bool

fun auth_serve :: "auth_env \<Rightarrow> auth_request \<Rightarrow> auth_service \<Rightarrow> i32 \<times> auth_service" where
  "auth_serve e (GetPropertyRequest u t ks cb) s = UserAuth_GetProperty e u t ks cb s"
| "auth_serve e (GetPropertyByIdRequest i ks cb) s = GetPropertyById e i ks cb s"
| "auth_serve e (SetPropertyRequest t a cb) s = UserAuth_SetProperty e t a cb s"
| "auth_serve e (GetAuthLockStateRequest t cb) s = GetAuthLockState e t cb s"
| "auth_serve e (AuthRequest v p cb i) s = (case UserAuth_Auth e v p cb i s of (r, _, s) \<Rightarrow> (r, s))"
| "auth_serve e (AuthUserRequest p rp cb) s = (case UserAuth_AuthUser e p rp cb s of (r, _, s) \<Rightarrow> (r, s))"
| "auth_serve e (AuthWidgetRequest v p w cb m i) s =
     (case UserAuth_AuthWidget e v p w cb m i s of (r, _, s) \<Rightarrow> (r, s))"
| "auth_serve e (IdentifyRequest c t cb) s = (case UserAuth_Identify e c t cb s of (r, _, s) \<Rightarrow> (r, s))"
| "auth_serve e (CancelAuthRequest i reason) s = CancelAuthOrIdentify e i reason s"
| "auth_serve e (RegisterRemoteRequest r) s = RegisterRemoteAuthCallback e r s"
| "auth_serve e UnregisterRemoteRequest s = UnregisterRemoteAuthCallback e s"
| "auth_serve e (NoticeRequest t d) s = UserAuth_Notice e t d s"
| "auth_serve e (WidgetCallbackRequest v cb) s = RegisterWidgetCallback e v cb s"
| "auth_serve e (AuthListenerRequest regist l) s =
     (if regist then RegistUserAuthSuccessEventListener else UnRegistUserAuthSuccessEventListener) e l s"
| "auth_serve e (RecognitionListenerRequest regist l) s =
     (if regist then RegisterUserRecognitionEventListener else UnregisterUserRecognitionEventListener) e l s"
| "auth_serve e (VerifyAuthTokenRequest t d cb) s = VerifyAuthToken e t d cb s"
| "auth_serve e (PrepareRemoteAuthRequest n cb) s = PrepareRemoteAuth e n cb s"

text \<open>The permission that the documentation of each request asks for.\<close>

fun permitted :: "caller \<Rightarrow> auth_request \<Rightarrow> bool" where
  "permitted c (GetAuthLockStateRequest _ _) = CheckPermission c ACCESS_BIOMETRIC_PERMISSION"
| "permitted c (AuthRequest _ _ _ _) = CheckPermission c ACCESS_BIOMETRIC_PERMISSION"
| "permitted c (AuthWidgetRequest _ p _ _ _ _) =
     (CheckPermission c ACCESS_BIOMETRIC_PERMISSION \<or>
      iap_isUserIdSpecified p \<and> CheckPermission c ACCESS_USER_AUTH_INTERNAL_PERMISSION)"
| "permitted c (CancelAuthRequest _ _) =
     (CheckPermission c ACCESS_USER_AUTH_INTERNAL_PERMISSION \<or> CheckPermission c ACCESS_BIOMETRIC_PERMISSION)"
| "permitted c (RegisterRemoteRequest _) =
     (CheckPermission c IS_SYSTEM_APP \<and> CheckPermission c ACCESS_USER_AUTH_INTERNAL_PERMISSION)"
| "permitted c UnregisterRemoteRequest =
     (CheckPermission c IS_SYSTEM_APP \<and> CheckPermission c ACCESS_USER_AUTH_INTERNAL_PERMISSION)"
| "permitted c (NoticeRequest _ _) = (CheckPermission c IS_SYSTEM_APP \<and> CheckPermission c SUPPORT_USER_AUTH)"
| "permitted c (WidgetCallbackRequest _ _) = (CheckPermission c IS_SYSTEM_APP \<and> CheckPermission c SUPPORT_USER_AUTH)"
| "permitted c (RecognitionListenerRequest _ _) = CheckPermission c ACCESS_USER_PASSIVE_RECOGNITION_PERMISSION"
| "permitted c (VerifyAuthTokenRequest _ _ _) =
     (CheckPermission c USE_USER_ACCESS_MANAGER \<and>
      (GetDirectCallerType c = cl_TOKEN_NATIVE c \<or> CheckPermission c IS_SYSTEM_APP))"
| "permitted c _ = CheckPermission c ACCESS_USER_AUTH_INTERNAL_PERMISSION"

text \<open>What a caller without the permission may see: a failure without any content, and its trace.\<close>

fun auth_refusal :: "auth_output \<Rightarrow> bool" where
  "auth_refusal (AuthCallback (ClientResult r b)) = (r \<noteq> SUCCESS \<and> b = [])"
| "auth_refusal (AuthCallback (NotifierCalled n m f)) = (md_operationResult m \<noteq> SUCCESS)"
| "auth_refusal (AuthPropertyResult r b) = (r \<noteq> SUCCESS \<and> b = [])"
| "auth_refusal (AuthSetPropertyResult r) = (r \<noteq> SUCCESS)"
| "auth_refusal (AuthVerifyResult r b) = (r \<noteq> SUCCESS \<and> b = [])"
| "auth_refusal (AuthPlainResult r b) = (r \<noteq> SUCCESS \<and> b = [])"
| "auth_refusal _ = False"

section \<open>What the requests start from\<close>

lemma GetAuthContextCallback_new:
  "GetAuthContextCallback e v t l True \<noteq> None" "GetAuthContextCallback e v t l False = None"
  "GetAuthContextCallback e v t l c = Some cb \<Longrightarrow> new_callback TRACE_AUTH_USER_ALL cb \<and> cb_cleaner cb = None \<and> c"
  by (cases c; auto simp: GetAuthContextCallback_def)+

lemma Widget_GetAuthContextCallback_new:
  "Widget_GetAuthContextCallback e v p w True \<noteq> None" "Widget_GetAuthContextCallback e v p w False = None"
  "Widget_GetAuthContextCallback e v p w c = Some cb \<Longrightarrow>
     new_callback TRACE_AUTH_USER_BEHAVIOR cb \<and> cb_cleaner cb = None \<and> c"
  by (cases c; auto simp: Widget_GetAuthContextCallback_def Let_def)+

lemma widget_traced_new [simp]:
  "new_callback t (widget_traced r p cb) = new_callback t cb" "cb_cleaner (widget_traced r p cb) = cb_cleaner cb"
  by (simp_all add: widget_traced_def Let_def)

lemma user_id_check_needs_permission:
  "CheckCallerPermissionForUserId c p = SUCCESS \<Longrightarrow>
   CheckPermission c ACCESS_BIOMETRIC_PERMISSION \<or>
   pi_isUserIdSpecified p \<and> CheckPermission c ACCESS_USER_AUTH_INTERNAL_PERMISSION"
  by (auto simp: CheckCallerPermissionForUserId_def simp del: CheckPermission.simps split: if_splits prod.splits)

text \<open>The requests whose first check is on the caller, group by group.\<close>

lemmas property_requests_def = UserAuth_GetProperty_def GetPropertyById_def UserAuth_SetProperty_def GetAuthLockState_def

lemmas listener_requests_def = UserAuth_Notice_def RegisterWidgetCallback_def auth_listener_def recognition_listener_def
  RegistUserAuthSuccessEventListener_def UnRegistUserAuthSuccessEventListener_def
  RegisterUserRecognitionEventListener_def UnregisterUserRecognitionEventListener_def
  RegisterRemoteAuthCallback_def UnregisterRemoteAuthCallback_def CancelAuthOrIdentify_def

section \<open>One answer\<close>

fun settles :: "auth_output \<Rightarrow> bool" where
  "settles (AuthCallback (ClientResult r b)) = True"
| "settles (AuthPropertyResult r b) = True"
| "settles (AuthSetPropertyResult r) = True"
| "settles (AuthVerifyResult r b) = True"
| "settles (AuthPlainResult r b) = True"
| "settles (AuthSimple c n cb) = True"
| "settles (AuthIdentify c cb) = True"
| "settles (AuthWidgetContext w cb) = True"
| "settles (AuthSudo w cb) = True"
| "settles (AuthInvoker w cb) = True"
| "settles (AuthLocalRemote w cb) = True"
| "settles (AuthRemote w cb) = True"
| "settles _ = False"

definition settled :: "auth_service \<Rightarrow> nat" where
  "settled s = length (filter settles (as_outputs s))"

text \<open>A request with a callback. Remote authentications of a user are the exception, see below.\<close>

fun with_callback :: "auth_request \<Rightarrow> bool" where
  "with_callback (GetPropertyRequest u t ks cb) = cb"
| "with_callback (GetPropertyByIdRequest i ks cb) = cb"
| "with_callback (SetPropertyRequest t a cb) = cb"
| "with_callback (GetAuthLockStateRequest t cb) = cb"
| "with_callback (AuthRequest v p cb i) = cb"
| "with_callback (AuthUserRequest p rp cb) =
     (cb \<and> (\<not> irp_isHasRemoteAuthParam rp \<or> iap_authIntent p = SUDO_PIN_AUTH))"
| "with_callback (AuthWidgetRequest v p w cb m i) = cb"
| "with_callback (IdentifyRequest c t cb) = cb"
| "with_callback (VerifyAuthTokenRequest t d cb) = cb"
| "with_callback (PrepareRemoteAuthRequest n cb) = cb"
| "with_callback _ = False"

lemma settled_simps [simp]:
  "settled (auth_emit ys s) = settled s + length (filter settles ys)" "settled (s\<lparr>as_pool := p\<rparr>) = settled s"
  "settled (auth_cleaned cb s) = settled s"
  by (simp_all add: settled_def auth_emit_def auth_cleaned_def split: option.split)

lemma iamCallback_answered:
  assumes "cb_iamCallback cb"
  shows "\<exists>ys. answer_outputs e cb r a = ClientResult r (Serialize a) # ys \<and> (\<forall>y \<in> set ys. \<forall>k b. y \<noteq> ClientResult k b)"
  using OnResult_outputs [of r e a cb] assms by (auto simp: answer_outputs_def split: option.split)

lemma iamCallback_stays [simp]:
  "cb_iamCallback (SetTraceAuthFinishReason reason cb) = cb_iamCallback cb"
  "cb_iamCallback (for_context i cb) = cb_iamCallback cb"
  "cb_iamCallback (SetTraceRequestContextId i cb) = cb_iamCallback cb"
  "cb_iamCallback (SetTraceCallerType t cb) = cb_iamCallback cb"
  "cb_iamCallback (SetTraceCallerName n cb) = cb_iamCallback cb"
  "cb_iamCallback (SetTraceIsRemoteAuth b cb) = cb_iamCallback cb"
  "cb_iamCallback (SetTraceUserId u cb) = cb_iamCallback cb"
  "cb_iamCallback (Callback_OnResult e r a cb) = cb_iamCallback cb"
  by (simp_all add: trace_setters for_context_def Callback_OnResult_def HandleAuthSuccess_outputs Callback_Mark_def Let_def
      split: option.split)

lemma settled_answer:
  assumes "cb_iamCallback cb"
  shows "settled (auth_answer e reason cb r a s) = Suc (settled s)"
proof -
  obtain ys where ys: "answer_outputs (ae_callback e) (SetTraceAuthFinishReason reason cb) r a = ClientResult r (Serialize a) # ys"
    "\<forall>y \<in> set ys. \<forall>k b. y \<noteq> ClientResult k b"
    using iamCallback_answered [of "SetTraceAuthFinishReason reason cb" "ae_callback e" r a] assms by auto
  have "settles (AuthCallback y) \<Longrightarrow> \<exists>k b. y = ClientResult k b" for y by (cases y) auto
  then have "filter settles (map AuthCallback ys) = []" using ys(2) by (auto simp: filter_empty_conv)
  then show ?thesis using ys(1) by (simp add: auth_answer_def Let_def)
qed

lemma settled_launch:
  assumes "cb_iamCallback cb" "c \<noteq> None \<Longrightarrow> settles (started cb)"
  shows "settled (snd (snd (launch e reason cb c started s))) = Suc (settled s)"
  using assms settled_answer [OF assms(1)]
  by (auto simp: launch_def auth_result_def Let_def split: option.split prod.split)

lemma for_context_new [simp]:
  "new_callback t (for_context i cb) = new_callback t cb" "cb_cleaner (for_context i cb) = Some i"
  by (simp_all add: for_context_def)

lemma settled_start:
  assumes "cb_iamCallback cb"
  shows "settled (snd (snd (StartAuthContext e para cb b s))) = Suc (settled s)"
    and "settled (snd (snd (StartSudoAuthContext e p para cb s))) = Suc (settled s)"
    and "settled (snd (StartWidgetContext e cb p w ts wpara m s)) = Suc (settled s)"
proof -
  show "settled (snd (snd (StartAuthContext e para cb b s))) = Suc (settled s)"
    using assms by (auto simp: StartAuthContext_def Let_def intro!: settled_launch split: option.split)
  show "settled (snd (snd (StartSudoAuthContext e p para cb s))) = Suc (settled s)"
    using assms by (auto simp: StartSudoAuthContext_def Let_def simp del: CheckPermission.simps
        intro!: settled_launch split: option.split)
  show "settled (snd (StartWidgetContext e cb p w ts wpara m s)) = Suc (settled s)"
    using assms settled_answer [OF assms]
    by (auto simp: StartWidgetContext_def Let_def split_beta intro!: settled_launch split: option.split)
qed

lemma settled_starts:
  assumes "cb_iamCallback cb"
  shows "settled (snd (snd (StartAuth e para cb s))) = Suc (settled s)"
    and "settled (snd (snd (StartSudoAuthUser e p r para cb i s))) = Suc (settled s)"
    and "settled (snd (snd (StartAuthUser e p None para cb s))) = Suc (settled s)"
    and "settled (snd (snd (StartAuthWidget e p w wpara cb m i s))) = Suc (settled s)"
  by (simp_all add: settled_start [OF assms] settled_answer [OF assms] StartAuth_def StartSudoAuthUser_def
      StartAuthUser_def StartAuthWidget_def Let_def split_beta del: CheckPermission.simps)

lemma new_callback_answers: "new_callback t cb \<Longrightarrow> cb_iamCallback cb"
  by (simp add: new_callback_def)

lemmas settled_all = settled_answer [OF new_callback_answers [where t = TRACE_AUTH_USER_ALL]]
  settled_starts [OF new_callback_answers [where t = TRACE_AUTH_USER_ALL]]
lemmas settled_widget = settled_answer [OF new_callback_answers [where t = TRACE_AUTH_USER_BEHAVIOR]]
  settled_starts [OF new_callback_answers [where t = TRACE_AUTH_USER_BEHAVIOR]]
lemmas settled_identify = settled_answer [OF new_callback_answers [where t = TRACE_IDENTIFY]]

lemma settled_Auth: "settled (snd (snd (UserAuth_Auth e v p True i s))) = Suc (settled s)"
proof -
  obtain cb where cb: "GetAuthContextCallback e v (iap_authType p) (iap_authTrustLevel p) True = Some cb"
    using GetAuthContextCallback_new(1) by (metis option.exhaust)
  then show ?thesis using GetAuthContextCallback_new(3) [OF cb]
    by (simp add: UserAuth_Auth_def settled_all Let_def split_beta)
qed

lemma settled_AuthUser:
  assumes "\<not> irp_isHasRemoteAuthParam rp \<or> iap_authIntent p = SUDO_PIN_AUTH"
  shows "settled (snd (snd (UserAuth_AuthUser e p rp True s))) = Suc (settled s)"
proof -
  obtain cb where cb: "GetAuthContextCallback e 10000 (iap_authType p) (iap_authTrustLevel p) True = Some cb"
    using GetAuthContextCallback_new(1) by (metis option.exhaust)
  then show ?thesis using assms GetAuthContextCallback_new(3) [OF cb]
    by (auto simp: UserAuth_AuthUser_def InitAuthParam_def InitRemoteAuthParam_def settled_all Let_def split_beta
        split: option.split)
qed

lemma settled_AuthWidget: "settled (snd (snd (UserAuth_AuthWidget e v p w True m i s))) = Suc (settled s)"
proof -
  obtain cb where cb: "Widget_GetAuthContextCallback e v (InitAuthParam p) w True = Some cb"
    using Widget_GetAuthContextCallback_new(1) by (metis option.exhaust)
  then show ?thesis using Widget_GetAuthContextCallback_new(3) [OF cb]
    by (simp add: UserAuth_AuthWidget_def settled_widget Let_def split_beta)
qed

lemma settled_Identify: "settled (snd (snd (UserAuth_Identify e c t True s))) = Suc (settled s)"
  by (auto simp: UserAuth_Identify_def settled_identify Let_def simp del: CheckPermission.simps
      split: prod.split option.split bool.split)

lemma settled_property:
  "settled (snd (GetPropertyInner e t ks ids s)) = Suc (settled s)"
  "settled (snd (GetPropertyHelper e u t ks s)) = Suc (settled s)"
proof -
  show *: "settled (snd (GetPropertyInner e t ks ids s)) = Suc (settled s)" for ids
    by (simp add: GetPropertyInner_def Let_def split: option.split prod.split)
  show "settled (snd (GetPropertyHelper e u t ks s)) = Suc (settled s)"
    by (simp add: GetPropertyHelper_def * split: prod.split)
qed

text \<open>
  Property C24: every request to the authentication service that names a callback is settled exactly once: the client
  gets one answer, or the pool takes one context, which answers in its turn. (The exception is a remote
  authentication of a user, for which see \<open>remote_failure_answered_twice\<close>.)
\<close>

theorem auth_answered_exactly_once:
  assumes "with_callback q"
  shows "settled (snd (auth_serve e q s)) = Suc (settled s)"
proof (cases q)
  case (AuthRequest v p cb i)
  then show ?thesis using assms settled_Auth by (simp add: split_beta)
next
  case (AuthUserRequest p rp cb)
  then show ?thesis using assms settled_AuthUser by (simp add: split_beta)
next
  case (AuthWidgetRequest v p w cb m i)
  then show ?thesis using assms settled_AuthWidget by (simp add: split_beta)
next
  case (IdentifyRequest c t cb)
  then show ?thesis using assms settled_Identify by (simp add: split_beta)
qed (use assms in \<open>auto simp: property_requests_def settled_property VerifyAuthToken_def PrepareRemoteAuth_def
    PrepareRemoteAuthInner_def Let_def simp del: CheckPermission.simps split: prod.split option.split\<close>)

text \<open>A full pool takes no context, whatever is asked of it: both the guard and the caller answer.\<close>

lemma launch_full:
  assumes "length (cp_running (as_pool s)) + length (cp_waiting (as_pool s)) \<ge> MAX_CONTEXT_NUM"
  shows "launch e reason cb c started s = (BAD_CONTEXT_ID, auth_result e reason cb GENERAL_ERROR Attributes_new s)"
  using assms by (cases c) (auto simp: launch_def Pool_Schedule_def Let_def)

definition told_failure :: "auth_service \<Rightarrow> u64 \<times> context_callback \<times> auth_service \<Rightarrow> bool" where
  "told_failure s x \<longleftrightarrow>
     fst x = BAD_CONTEXT_ID \<and> cb_iamCallback (fst (snd x)) \<and> settled (snd (snd x)) = Suc (settled s)"

lemma launch_told:
  assumes "length (cp_running (as_pool s)) + length (cp_waiting (as_pool s)) \<ge> MAX_CONTEXT_NUM" "cb_iamCallback cb"
  shows "told_failure s (launch e reason cb c started s)"
  using assms by (simp add: launch_full told_failure_def auth_result_def settled_answer)

lemma starts_told:
  assumes "length (cp_running (as_pool s)) + length (cp_waiting (as_pool s)) \<ge> MAX_CONTEXT_NUM" "cb_iamCallback cb"
  shows "told_failure s (StartLocalRemoteAuthContext e para n cb s)"
    and "told_failure s (StartRemoteAuthInvokerContext e p q cb s)"
    and "told_failure s (StartRemoteAuthContext e para rq cb s)"
  using assms
  by (simp_all add: StartLocalRemoteAuthContext_def StartRemoteAuthInvokerContext_def StartRemoteAuthContext_def
      Let_def launch_told split: option.split)

lemma remote_user_full:
  assumes full: "length (cp_running (as_pool s)) + length (cp_waiting (as_pool s)) \<ge> MAX_CONTEXT_NUM"
    and cb: "cb_iamCallback cb" and "ap_authType para = PIN" "ae_localNetworkId e = Some n"
    and "fst (CompleteRemoteAuthParam (ae_caller e) r n)"
  shows "settled (snd (snd (StartAuthUser e p (Some r) para cb s))) = Suc (Suc (settled s))"
proof -
  obtain r' where r': "CompleteRemoteAuthParam (ae_caller e) r n = (True, r')" using assms(5) by (metis prod.collapse)
  have "\<exists>x. told_failure s x \<and> AuthRemoteUser e p para r cb s = (case x of (i, cb, s) \<Rightarrow> (i, GENERAL_ERROR, cb, s))"
    unfolding AuthRemoteUser_def ProcessAuthParamForRemoteAuth_def assms(3,4) r' option.case prod.case Let_def
      simp_thms if_False if_True
    by (rule exI, rule conjI [rotated], rule refl) (simp add: starts_told [OF full cb])
  then show ?thesis by (auto simp: StartAuthUser_def settled_answer told_failure_def)
qed

text \<open>
  Property C38: a remote authentication of a user whose parameters pass, but which finds the pool full, is answered
  twice: the guard of the function that starts the context tells the client the failure, and its caller tells it again.
\<close>

theorem remote_failure_answered_twice:
  assumes "CheckPermission (ae_caller e) ACCESS_USER_AUTH_INTERNAL_PERMISSION"
    and "fst (GetCallerName (ae_caller e) [])" "iap_authType p = PIN" "CheckAuthTrustLevel (iap_authTrustLevel p) PIN"
    and "iap_authIntent p \<noteq> SUDO_PIN_AUTH" "InitRemoteAuthParam rp = Some r" "ae_localNetworkId e = Some n"
    and "fst (CompleteRemoteAuthParam (ae_caller e) r n)"
    and "length (cp_running (as_pool s)) + length (cp_waiting (as_pool s)) \<ge> MAX_CONTEXT_NUM"
  shows "settled (snd (auth_serve e (AuthUserRequest p rp True) s)) = settled s + 2"
proof -
  obtain cb where cb: "GetAuthContextCallback e 10000 (iap_authType p) (iap_authTrustLevel p) True = Some cb"
    using GetAuthContextCallback_new(1) by (metis option.exhaust)
  then have "cb_iamCallback cb" using GetAuthContextCallback_new(3) [OF cb] by (simp add: new_callback_def)
  note full = remote_user_full [OF assms(9) _ _ assms(7,8)]
  show ?thesis
    using assms cb \<open>cb_iamCallback cb\<close>
    by (auto simp: UserAuth_AuthUser_def InitAuthParam_def AuthUser_CheckPermissionAndParam_def Let_def split_beta
        empty_para_def simp del: CheckPermission.simps intro!: full)
qed

section \<open>The pool\<close>

lemma as_pool_simps [simp]: "as_pool (auth_emit ys s) = as_pool s"
  by (simp add: auth_emit_def)

lemma driven_auth_answer: "driven (as_pool s) (as_pool (auth_answer e reason cb r a s))"
  by (auto simp: auth_answer_def auth_cleaned_def Let_def driven_Cleaner split: option.split)

lemma driven_answer_trans:
  "driven p (as_pool s) \<Longrightarrow> driven p (as_pool (auth_answer e reason cb r a s))"
  by (rule driven_trans [OF _ driven_auth_answer])

lemma driven_launch:
  "driven p (as_pool s) \<Longrightarrow> driven p (as_pool (snd (snd (launch e reason cb c started s))))"
  by (auto simp: launch_def auth_result_def Let_def split: option.split prod.split
      intro!: driven_answer_trans elim!: driven_trans intro: driven_Schedule)

lemma driven_starts:
  "driven (as_pool s) (as_pool (snd (snd (StartAuthContext e para cb b s))))"
  "driven (as_pool s) (as_pool (snd (snd (StartSudoAuthContext e p para cb s))))"
  "driven (as_pool s) (as_pool (snd (snd (StartLocalRemoteAuthContext e para n cb s))))"
  "driven (as_pool s) (as_pool (snd (snd (StartRemoteAuthInvokerContext e p q cb s))))"
  "driven (as_pool s) (as_pool (snd (snd (StartRemoteAuthContext e para rq cb s))))"
  by (simp_all add: StartAuthContext_def StartSudoAuthContext_def StartLocalRemoteAuthContext_def
      StartRemoteAuthInvokerContext_def StartRemoteAuthContext_def Let_def driven_launch
      del: CheckPermission.simps split: option.split)

lemma driven_widget: "driven (as_pool s) (as_pool (snd (StartWidgetContext e cb p w ts para m s)))"
  by (simp add: StartWidgetContext_def Let_def driven_auth_answer driven_launch split_beta split: option.split)

lemma driven_remote_user: "driven (as_pool s) (as_pool (snd (snd (snd (AuthRemoteUser e p para r cb s)))))"
  by (simp add: AuthRemoteUser_def Let_def split_beta driven_starts split: option.split)

lemma driven_requests:
  "driven (as_pool s) (as_pool (snd (snd (StartAuth e para cb s))))"
  "driven (as_pool s) (as_pool (snd (snd (StartSudoAuthUser e p r para cb i s))))"
  "driven (as_pool s) (as_pool (snd (snd (StartAuthUser e p r para cb s))))"
  "driven (as_pool s) (as_pool (snd (snd (StartAuthWidget e p w wpara cb m i s))))"
proof -
  show "driven (as_pool s) (as_pool (snd (snd (StartAuth e para cb s))))"
    by (simp add: StartAuth_def split_beta driven_starts)
  show "driven (as_pool s) (as_pool (snd (snd (StartSudoAuthUser e p r para cb i s))))"
    by (simp add: StartSudoAuthUser_def Let_def split_beta driven_starts driven_auth_answer del: CheckPermission.simps)
  show "driven (as_pool s) (as_pool (snd (snd (StartAuthUser e p r para cb s))))"
    by (simp add: StartAuthUser_def split_beta driven_starts driven_answer_trans driven_remote_user
        del: CheckPermission.simps split: option.split)
  have emit: "driven (as_pool s) (as_pool (auth_answer e reason cb c a (auth_emit ys s)))" for reason cb c a ys and s :: auth_service
    using driven_auth_answer [of "auth_emit ys s"] by simp
  have widget: "driven (as_pool s) (as_pool (snd (StartWidgetContext e cb p w ts para m (auth_emit ys s))))" for ts para ys
    using driven_widget [of "auth_emit ys s"] by simp
  have emit2: "driven (as_pool s) (as_pool (auth_answer e reason cb c a (auth_emit xs (auth_emit ys s))))"
    for reason cb c a xs ys using emit [of "auth_emit ys s"] by simp
  have widget2: "driven (as_pool s) (as_pool (snd (StartWidgetContext e cb p w ts para m (auth_emit xs (auth_emit ys s)))))"
    for ts para xs ys using driven_widget [of "auth_emit xs (auth_emit ys s)"] by simp
  show "driven (as_pool s) (as_pool (snd (snd (StartAuthWidget e p w wpara cb m i s))))"
    by (simp add: StartAuthWidget_def Let_def split_beta emit emit2 widget2)
qed

lemma driven_serves:
  "driven (as_pool s) (as_pool (snd (snd (UserAuth_Auth e v p c i s))))"
  "driven (as_pool s) (as_pool (snd (snd (UserAuth_AuthUser e p rp c s))))"
  "driven (as_pool s) (as_pool (snd (snd (UserAuth_AuthWidget e v p w c m i s))))"
  "driven (as_pool s) (as_pool (snd (snd (UserAuth_Identify e ch t c s))))"
proof -
  show "driven (as_pool s) (as_pool (snd (snd (UserAuth_Auth e v p c i s))))"
    by (simp add: UserAuth_Auth_def Let_def split_beta driven_requests driven_auth_answer split: option.split)
  show "driven (as_pool s) (as_pool (snd (snd (UserAuth_AuthUser e p rp c s))))"
    by (simp add: UserAuth_AuthUser_def Let_def split_beta driven_requests driven_auth_answer split: option.split)
  show "driven (as_pool s) (as_pool (snd (snd (UserAuth_AuthWidget e v p w c m i s))))"
    by (simp add: UserAuth_AuthWidget_def Let_def split_beta driven_requests driven_auth_answer split: option.split)
  have "driven (as_pool s) (as_pool (auth_answer e reason cb r a (s\<lparr>as_pool := q\<rparr>)))"
    if "Pool_Schedule x (as_pool s) = (k, q)" for reason cb r a q x k
    using driven_answer_trans [of "as_pool s" "s\<lparr>as_pool := q\<rparr>"] driven_Schedule [OF that] by simp
  then show "driven (as_pool s) (as_pool (snd (snd (UserAuth_Identify e ch t c s))))"
    by (auto simp: UserAuth_Identify_def Let_def driven_auth_answer simp del: CheckPermission.simps
        split: option.split prod.split bool.split dest: driven_Schedule)
qed

lemma pool_untouched [simp]:
  "as_pool (snd (GetPropertyInner e t ks ids s)) = as_pool s"
  "as_pool (snd (GetPropertyHelper e u t ks s)) = as_pool s"
  "as_pool (snd (AddRemoteAuthCallback e k r s)) = as_pool s" "as_pool (DelRemoteAuthCallback e k s) = as_pool s"
  by (auto simp: GetPropertyInner_def GetPropertyHelper_def AddRemoteAuthCallback_def DelRemoteAuthCallback_def Let_def
      split: option.split prod.split)

text \<open>
  Also shown: whatever a client asks of the authentication service, it changes the pool only by steps of the pool's own
  machine, so that every property of the runs of the pool holds for the pool behind this service too.
\<close>

theorem auth_service_refines_pool:
  "\<exists>ls. pool_run start err (as_pool s) ls (as_pool (snd (auth_serve e q s)))"
proof -
  have "driven (as_pool s) (as_pool (snd (auth_serve e q s)))"
  proof (cases q)
    case (CancelAuthRequest i reason)
    then show ?thesis by (simp add: CancelAuthOrIdentify_def Let_def driven_Cancel split: option.split)
  next
    case (AuthRequest v p cb i)
    then show ?thesis by (simp add: split_beta driven_serves)
  next
    case (AuthUserRequest p rp cb)
    then show ?thesis by (simp add: split_beta driven_serves)
  next
    case (AuthWidgetRequest v p w cb m i)
    then show ?thesis by (simp add: split_beta driven_serves)
  next
    case (IdentifyRequest c t cb)
    then show ?thesis by (simp add: split_beta driven_serves)
  qed (auto simp: property_requests_def listener_requests_def VerifyAuthToken_def PrepareRemoteAuth_def
      PrepareRemoteAuthInner_def Let_def simp del: CheckPermission.simps split: option.split prod.split)
  then show ?thesis by (simp add: driven_def)
qed

end
