(* ===== verification/User_Auth_Safety.thy ===== *)
theory User_Auth_Safety
  imports User_Auth_Properties
begin

text \<open>
  What the authentication service starts has passed its checks, and belongs to the caller that asked for it: only that
  caller can cancel it. A success that a widget request reports at once comes from an earlier unlock that the engine
  let it reuse.
\<close>

section \<open>Contexts belong to their caller\<close>

text \<open>The requests that start a context: the code, the id of the context and the service after them.\<close>

fun auth_begin :: "auth_env \<Rightarrow> auth_request \<Rightarrow> auth_service \<Rightarrow> (i32 \<times> u64 \<times> auth_service) option" where
  "auth_begin e (AuthRequest v p cb i) s = Some (UserAuth_Auth e v p cb i s)"
| "auth_begin e (AuthUserRequest p rp cb) s = Some (UserAuth_AuthUser e p rp cb s)"
| "auth_begin e (AuthWidgetRequest v p w cb m i) s = Some (UserAuth_AuthWidget e v p w cb m i s)"
| "auth_begin e (IdentifyRequest c t cb) s = Some (UserAuth_Identify e c t cb s)"
| "auth_begin e q s = None"

definition owned :: "u32 \<Rightarrow> u64 \<Rightarrow> auth_service \<Rightarrow> bool" where
  "owned token i s \<longleftrightarrow> (\<exists>c. SelectLocked i (as_pool s) = Some c \<and> cx_tokenId c = token)"

lemma owned_emit [simp]: "owned token i (auth_emit ys s) = owned token i s"
  by (simp add: owned_def)

lemma launch_owned:
  assumes "pool_inv (as_pool s)" "launch e reason cb c started s = (i, cb', s')" "i \<noteq> BAD_CONTEXT_ID"
    and "\<And>view. c = Some view \<Longrightarrow> cx_tokenId view = token"
  shows "owned token i s'"
  using assms scheduled_found [of "as_pool s"]
  by (auto simp: launch_def auth_result_def owned_def Let_def split: option.splits prod.splits if_splits)

lemma remote_created:
  "cx_tokenId (simple_view t n cb (SimpleAuthContext i (Some (remote_authentication i para)) b c)) = ap_tokenId para"
  by (simp add: simple_view_def SimpleAuthContext_def base_context.defs Simple_GetTokenId_def remote_authentication_def
      Auth_SetAccessTokenId_def)

lemma created_tokens [simp]:
  "CreateRemoteAuthContext net i para rp b cc = Some c \<Longrightarrow> cx_tokenId (simple_view t n cb (rr_auth c)) = ap_tokenId para"
  "CreateLocalRemoteAuthContext i para col b cc = Some lc \<Longrightarrow> cx_tokenId (simple_view t n cb (lr_auth lc)) = ap_tokenId para"
  "CreateRemoteAuthInvokerContext net i ap vp cc = Some vc \<Longrightarrow> cx_tokenId (invoker_view n vc) = iv_tokenId vp"
  "CreateSudoAuthContext i sp cc = Some sc \<Longrightarrow> cx_tokenId (sudo_view n sc) = sp_tokenId sp"
  "CreateWidgetContext i wp b cc m r = Some wc \<Longrightarrow> cx_tokenId (widget_view n wc) = wc_tokenId wp"
  by (auto simp: CreateRemoteAuthContext_def CreateLocalRemoteAuthContext_def CreateRemoteAuthInvokerContext_def
      CreateSudoAuthContext_def CreateWidgetContext_def invoker_view_def sudo_view_def widget_view_def Let_def remote_created
      split: option.splits if_splits)

lemma start_owned:
  assumes inv: "pool_inv (as_pool s)" and good: "i \<noteq> BAD_CONTEXT_ID"
  shows "StartAuthContext e para cb b s = (i, cb', s') \<Longrightarrow> owned (ap_tokenId para) i s'"
    and "StartSudoAuthContext e p para cb s = (i, cb', s') \<Longrightarrow> owned (ap_tokenId para) i s'"
    and "StartLocalRemoteAuthContext e para n cb s = (i, cb', s') \<Longrightarrow> owned (ap_tokenId para) i s'"
    and "StartRemoteAuthInvokerContext e p q cb s = (i, cb', s') \<Longrightarrow> owned (iv_tokenId q) i s'"
    and "StartRemoteAuthContext e para rq cb s = (i, cb', s') \<Longrightarrow> owned (ap_tokenId para) i s'"
  by (auto simp: StartAuthContext_def StartSudoAuthContext_def StartLocalRemoteAuthContext_def
      StartRemoteAuthInvokerContext_def StartRemoteAuthContext_def Let_def simp del: CheckPermission.simps
      elim!: launch_owned [OF inv _ good] split: option.splits)

lemma widget_owned:
  assumes "pool_inv (as_pool s)" "i \<noteq> BAD_CONTEXT_ID"
    and "StartWidgetContext e cb p w ts para m s = (i, s')"
  shows "owned (GetAccessTokenId (ae_caller e)) i s'"
  using assms(2,3)
  by (auto simp: StartWidgetContext_def InitWidgetContextParam_def Let_def split: option.splits prod.splits if_splits
      elim!: launch_owned [OF assms(1)])

lemma remote_user_owned:
  assumes inv: "pool_inv (as_pool s)" and good: "i \<noteq> BAD_CONTEXT_ID"
    and "AuthRemoteUser e p para r cb s = (i, k, cb', s')"
  shows "owned (ap_tokenId para) i s'"
proof -
  have t: "ProcessAuthParamForRemoteAuth c para r n = (b, para', r') \<Longrightarrow> ap_tokenId para' = ap_tokenId para" for c n b para' r'
    by (auto simp: ProcessAuthParamForRemoteAuth_def split: if_splits prod.splits)
  show "owned (ap_tokenId para) i s'"
    using assms(3) good
    by (auto simp: AuthRemoteUser_def Let_def split: option.splits if_splits prod.splits dest!: t start_owned(3-5) [OF inv good])
qed

lemma starts_owned:
  assumes inv: "pool_inv (as_pool s)"
  shows "StartAuth e para cb s = (SUCCESS, i, s') \<Longrightarrow> owned (ap_tokenId para) i s'"
    and "StartSudoAuthUser e p r para cb k s = (SUCCESS, i, s') \<Longrightarrow> owned (ap_tokenId para) i s'"
    and "StartAuthUser e p r para cb s = (SUCCESS, i, s') \<Longrightarrow> owned (ap_tokenId para) i s'"
    and "StartAuthWidget e p w wpara cb m k s = (SUCCESS, i, s') \<Longrightarrow> owned (GetAccessTokenId (ae_caller e)) i s'"
proof -
  note start = start_owned [OF inv]
  show "StartAuth e para cb s = (SUCCESS, i, s') \<Longrightarrow> owned (ap_tokenId para) i s'"
    by (auto simp: StartAuth_def split: prod.splits if_splits dest: start(1))
  show "StartSudoAuthUser e p r para cb k s = (SUCCESS, i, s') \<Longrightarrow> owned (ap_tokenId para) i s'"
    by (auto simp: StartSudoAuthUser_def Let_def simp del: CheckPermission.simps split: prod.splits if_splits dest: start(2))
  show "owned (ap_tokenId para) i s'" if "StartAuthUser e p r para cb s = (SUCCESS, i, s')"
  proof (cases r)
    case None
    then show ?thesis using that
      by (auto simp: StartAuthUser_def simp del: CheckPermission.simps split: prod.splits if_splits dest: start(1))
  next
    case (Some x)
    obtain i1 k1 cb1 s1 where remote: "AuthRemoteUser e p para x cb s = (i1, k1, cb1, s1)" by (metis prod_cases4)
    have "k1 \<noteq> SUCCESS" using remote by (auto simp: AuthRemoteUser_def Let_def split: option.splits prod.splits if_splits)
    then show ?thesis using that Some remote remote_user_owned(1) [OF inv _ remote]
      by (auto simp: StartAuthUser_def split: if_splits)
  qed
  show "StartAuthWidget e p w wpara cb m k s = (SUCCESS, i, s') \<Longrightarrow> owned (GetAccessTokenId (ae_caller e)) i s'"
    using widget_owned inv
    by (auto simp: StartAuthWidget_def Let_def split: prod.splits if_splits dest!: widget_owned [rotated 2])
qed

lemma begun_owned:
  assumes inv: "pool_inv (as_pool s)" and "auth_begin e q s = Some (SUCCESS, i, s')" and "i \<noteq> REUSE_AUTH_RESULT_CONTEXT_ID"
  shows "owned (GetAccessTokenId (ae_caller e)) i s'"
proof (cases q)
  case (AuthRequest v p cb k)
  then show ?thesis using assms(2)
    by (auto simp: UserAuth_Auth_def Let_def split: option.splits prod.splits if_splits dest!: starts_owned(1) [OF inv])
next
  case (AuthUserRequest p rp cb)
  then show ?thesis using assms(2)
    by (auto simp: UserAuth_AuthUser_def Let_def split: option.splits prod.splits if_splits
        dest!: starts_owned(2,3) [OF inv])
next
  case (AuthWidgetRequest v p w cb m k)
  then show ?thesis using assms(2,3)
    by (auto simp: UserAuth_AuthWidget_def Let_def split: option.splits prod.splits if_splits
        dest!: starts_owned(4) [OF inv])
next
  case (IdentifyRequest c t cb)
  then show ?thesis using assms(2)
    by (auto simp: UserAuth_Identify_def Let_def owned_def simp del: CheckPermission.simps
        split: option.splits prod.splits if_splits bool.splits dest!: scheduled_found [OF inv])
qed (use assms(2) in simp_all)

text \<open>
  Property C3: right after the service has started a context for a caller, under an id that is not the one of reused
  results, a request to cancel this id reaches the pool exactly when it comes under the token of that caller and with one
  of the two permissions, the internal one for user authentication or the biometric one; any other request leaves the
  pool as it is.
\<close>

theorem cancel_by_owner_only:
  assumes "pool_run start err initial_pool ls (as_pool s)"
    and "auth_begin e q s = Some (SUCCESS, i, s1)" "i \<noteq> REUSE_AUTH_RESULT_CONTEXT_ID"
  shows "as_pool (snd (CancelAuthOrIdentify e' i reason s1)) =
    (if GetAccessTokenId (ae_caller e') = GetAccessTokenId (ae_caller e) \<and>
        (CheckPermission (ae_caller e') ACCESS_USER_AUTH_INTERNAL_PERMISSION \<or>
         CheckPermission (ae_caller e') ACCESS_BIOMETRIC_PERMISSION)
     then Pool_Cancel i (as_pool s1) else as_pool s1)"
  using begun_owned [OF pool_reach_inv [OF assms(1)] assms(2,3)]
  by (auto simp: owned_def CancelAuthOrIdentify_def Let_def simp del: CheckPermission.simps)

section \<open>Sudo\<close>

definition sudo_allowed :: "caller \<Rightarrow> ipc_auth_param \<Rightarrow> ipc_remote_param \<Rightarrow> bool" where
  "sudo_allowed c p rp \<longleftrightarrow>
     CheckPermission c ACCESS_USER_AUTH_INTERNAL_PERMISSION \<and>
     (GetDirectCallerType c = cl_TOKEN_NATIVE c \<or> CheckPermission c IS_SYSTEM_APP) \<and>
     \<not> irp_isHasRemoteAuthParam rp \<and> iap_authType p = PIN \<and> \<not> ru_isReuse (iap_reuseUnlockResult p) \<and>
     iap_additionalInfo p \<noteq> [] \<and> GetUtf8CharCount (iap_additionalInfo p) \<le> TITLE_MAX"

lemma CheckSudoAuthParam_SUCCESS:
  "CheckSudoAuthParam a r = SUCCESS \<longleftrightarrow> r = None \<and> pi_authType a = PIN \<and> pi_additionalInfo a \<noteq> [] \<and>
     GetUtf8CharCount (pi_additionalInfo a) \<le> TITLE_MAX \<and> \<not> ru_isReuse (pi_reuseUnlockResult a)"
  by (auto simp: CheckSudoAuthParam_def)

lemma sudo_started:
  assumes "StartSudoAuthContext e p para cb s = (i, cb', s')" "i \<noteq> BAD_CONTEXT_ID"
  shows "\<exists>c. as_outputs s' = as_outputs s @ [AuthSudo c cb'] \<and> sr_contextId c = i \<and> sp_userId (sr_para c) = ap_userId para \<and>
    sp_challenge (sr_para c) = ap_challenge para \<and> sp_atl (sr_para c) = ap_atl para"
  using assms by (auto simp: StartSudoAuthContext_def launch_def auth_result_def CreateSudoAuthContext_def sudo_view_def
      auth_emit_def Let_def simp del: CheckPermission.simps split: option.splits prod.splits if_splits)

lemma sudo_user_started:
  assumes "StartSudoAuthUser e a r para cb k s = (SUCCESS, i, s')"
  shows "(GetDirectCallerType (ae_caller e) = cl_TOKEN_NATIVE (ae_caller e) \<or> CheckPermission (ae_caller e) IS_SYSTEM_APP) \<and>
    CheckSudoAuthParam a r = SUCCESS \<and> (\<exists>cb'. StartSudoAuthContext e a para cb s = (i, cb', s')) \<and> i \<noteq> BAD_CONTEXT_ID"
proof -
  obtain j cb' s'' where "StartSudoAuthContext e a para cb s = (j, cb', s'')" by (metis prod_cases3)
  then show ?thesis using assms
    by (simp add: StartSudoAuthUser_def Let_def del: CheckPermission.simps split: if_splits)
qed

text \<open>
  Property C7: an accepted request for elevated rights started exactly one sudo context, for the user, the challenge
  and the trust level of the request, and its caller is a native process or a system application that holds the
  internal permission and asks for the local PIN with a title of at most 500 characters and without reuse.
\<close>

theorem sudo_gate:
  assumes "UserAuth_AuthUser e p rp True s = (SUCCESS, i, s')" "iap_authIntent p = SUDO_PIN_AUTH"
  shows "sudo_allowed (ae_caller e) p rp \<and>
    (\<exists>c cb. as_outputs s' = as_outputs s @ [AuthSudo c cb] \<and> sr_contextId c = i \<and> sp_userId (sr_para c) = iap_userId p \<and>
       sp_challenge (sr_para c) = iap_challenge p \<and> sp_atl (sr_para c) = iap_authTrustLevel p)"
proof -
  have perm: "CheckPermission (ae_caller e) ACCESS_USER_AUTH_INTERNAL_PERMISSION"
    and start: "\<exists>cb n t. StartSudoAuthUser e (InitAuthParam p) (InitRemoteAuthParam rp)
      (empty_para\<lparr>ap_callerName := n, ap_callerType := t,
         ap_tokenId := GetAccessTokenId (ae_caller e), ap_userId := iap_userId p, ap_authType := iap_authType p,
         ap_atl := iap_authTrustLevel p, ap_challenge := iap_challenge p, ap_endAfterFirstFail := False,
         ap_sdkVersion := 10000, ap_authIntent := iap_authIntent p,
         ap_skipLockedBiometricAuth := iap_skipLockedBiometricAuth p,
         ap_credentialIdList := iap_credentialIdList p,
         ap_isOsAccountVerified := IsOsAccountVerified (ae_caller e) (iap_userId p)\<rparr>)
      cb BAD_CONTEXT_ID s = (SUCCESS, i, s')"
    using assms by (auto simp: UserAuth_AuthUser_def AuthUser_CheckPermissionAndParam_def InitAuthParam_def Let_def
        simp del: CheckPermission.simps split: option.splits prod.splits if_splits)
  from start obtain cb n t where "StartSudoAuthUser e (InitAuthParam p) (InitRemoteAuthParam rp)
      (empty_para\<lparr>ap_callerName := n, ap_callerType := t,
         ap_tokenId := GetAccessTokenId (ae_caller e), ap_userId := iap_userId p, ap_authType := iap_authType p,
         ap_atl := iap_authTrustLevel p, ap_challenge := iap_challenge p, ap_endAfterFirstFail := False,
         ap_sdkVersion := 10000, ap_authIntent := iap_authIntent p,
         ap_skipLockedBiometricAuth := iap_skipLockedBiometricAuth p,
         ap_credentialIdList := iap_credentialIdList p,
         ap_isOsAccountVerified := IsOsAccountVerified (ae_caller e) (iap_userId p)\<rparr>)
      cb BAD_CONTEXT_ID s = (SUCCESS, i, s')" by blast
  from sudo_user_started [OF this] show ?thesis using perm
    by (auto simp: CheckSudoAuthParam_SUCCESS sudo_allowed_def InitAuthParam_def InitRemoteAuthParam_def
        simp del: CheckPermission.simps split: if_splits dest!: sudo_started)
qed

section \<open>Immediate successes\<close>

fun tells_success :: "auth_output \<Rightarrow> bool" where
  "tells_success (AuthCallback (ClientResult r b)) = (r = SUCCESS)"
| "tells_success _ = False"

definition successes :: "auth_service \<Rightarrow> nat" where
  "successes s = length (filter tells_success (as_outputs s))"

lemma successes_simps [simp]:
  "successes (auth_emit ys s) = successes s + length (filter tells_success ys)" "successes (s\<lparr>as_pool := q\<rparr>) = successes s"
  "successes (auth_cleaned cb s) = successes s"
  by (simp_all add: successes_def auth_emit_def auth_cleaned_def split: option.split)

lemma answer_successes:
  assumes "cb_iamCallback cb"
  shows "successes (auth_answer e reason cb r a s) = (if r = SUCCESS then Suc (successes s) else successes s)"
proof -
  obtain ys where ys: "answer_outputs (ae_callback e) (SetTraceAuthFinishReason reason cb) r a = ClientResult r (Serialize a) # ys"
    "\<forall>y \<in> set ys. \<forall>k b. y \<noteq> ClientResult k b"
    using iamCallback_answered [of "SetTraceAuthFinishReason reason cb" "ae_callback e" r a] assms by auto
  have "tells_success (AuthCallback y) \<Longrightarrow> \<exists>k b. y = ClientResult k b" for y by (cases y) auto
  then have "filter tells_success (map AuthCallback ys) = []" using ys(2) by (auto simp: filter_empty_conv)
  then show ?thesis using ys(1) by (simp add: auth_answer_def Let_def)
qed

lemma failure_no_success:
  "cb_iamCallback cb \<Longrightarrow> r \<noteq> SUCCESS \<Longrightarrow> successes (auth_answer e reason cb r a s) = successes s"
  by (simp add: answer_successes)

lemma widget_no_success:
  assumes "cb_iamCallback cb"
  shows "successes (snd (StartWidgetContext e cb p w ts para m s)) = successes s"
    and "successes (snd (snd (StartAuthWidget e p w wpara cb m k s))) = successes s"
proof -
  have l: "successes (snd (snd (launch e reason c x started s))) = successes s"
    if "cb_iamCallback c" "\<not> tells_success (started c)" for reason c x started and s :: auth_service
    using that failure_no_success [OF that(1)] by (auto simp: launch_def auth_result_def Let_def split: option.split prod.split)
  show *: "successes (snd (StartWidgetContext e cb p w ts para m s)) = successes s" for ts para s
    using failure_no_success [OF assms] assms
    by (auto simp: StartWidgetContext_def Let_def split_beta l split: option.split)
  show "successes (snd (snd (StartAuthWidget e p w wpara cb m k s))) = successes s"
    using failure_no_success [OF assms] * by (simp add: StartAuthWidget_def Let_def split_beta)
qed

definition reusable :: "profile_env \<Rightarrow> i32 \<Rightarrow> ipc_auth_param \<Rightarrow> bool" where
  "reusable e userId p \<longleftrightarrow>
     (let r = iap_reuseUnlockResult p
      in ru_isReuse r \<and> 0 < ru_reuseDuration r \<and> ru_reuseDuration r \<le> MAX_ALLOWABLE_REUSE_DURATION \<and>
         ru_reuseMode r \<in> {AUTH_TYPE_RELEVANT, AUTH_TYPE_IRRELEVANT, CALLER_IRRELEVANT_AUTH_TYPE_RELEVANT,
           CALLER_IRRELEVANT_AUTH_TYPE_IRRELEVANT} \<and>
         fst (pe_reuse e \<lparr>rp_userId = userId, rp_authTrustLevel = iap_authTrustLevel p, rp_challenge = iap_challenge p,
           rp_authTypes = iap_authTypes p, rp_mode = ru_reuseMode r, rp_duration = ru_reuseDuration r\<rparr>) = SUCCESS)"

lemma CheckReuse_reusable:
  assumes "CheckReuseUnlockResult e para (InitAuthParam p) extra = (SUCCESS, extra')"
  shows "reusable e (wc_userId para) p"
  using assms by (auto simp: CheckReuseUnlockResult_def QueryReusableAuthResult_def reusable_def InitAuthParam_def Let_def
      word_gt_0 split: if_splits prod.splits)

text \<open>The request as a whole, once its callback, its caller and the reuse query are known.\<close>

lemma AuthWidget_eq:
  assumes "Widget_GetAuthContextCallback e v (InitAuthParam p) w True = Some cb"
    and "GetCallerInfo (ae_caller e) (iap_isUserIdSpecified p) (iap_userId p) (default_widget_para v) = (c, para)"
    and "para' = (if CheckPermission (ae_caller e) ENTERPRISE_MANAGE_SECURITY
      then para\<lparr>wc_callerPermissions := wc_callerPermissions para OR 1\<rparr> else para)"
    and "CheckReuseUnlockResult (ae_profile e) para' (InitAuthParam p) Attributes_new = (k', extra)"
    and "check = Widget_CheckPermissionAndParam (ae_caller e) (InitAuthParam p) w (wc_isBackgroundApplication para)"
    and "cb' = widget_traced c para cb"
  shows "UserAuth_AuthWidget e v p w True m k s =
    (if c \<noteq> SUCCESS then (c, k, auth_answer e ''UserAuthService AuthWidget GetCallerInfo fail'' cb' c Attributes_new s)
     else if check \<noteq> SUCCESS
     then (check, k, auth_answer e ''UserAuthService AuthWidget CheckAuthPermissionAndParam fail'' cb' check Attributes_new s)
     else if k' = SUCCESS
     then (SUCCESS, REUSE_AUTH_RESULT_CONTEXT_ID,
           auth_answer e ''UserAuthService AuthWidget CheckReuseUnlockResult success'' cb' SUCCESS extra s)
     else StartAuthWidget e (InitAuthParam p) w para' cb' m k s)"
proof -
  have ids: "pi_isUserIdSpecified (InitAuthParam p) = iap_isUserIdSpecified p" "pi_userId (InitAuthParam p) = iap_userId p"
    by (simp_all add: InitAuthParam_def)
  show ?thesis
    unfolding UserAuth_AuthWidget_def Let_def assms(1) option.case ids assms(2) prod.case assms(3) [symmetric] assms(4)
      assms(5) [symmetric] assms(6) [symmetric] by (rule refl)
qed

lemma checks_passed:
  assumes "Widget_CheckPermissionAndParam c (InitAuthParam p) w b = SUCCESS"
  shows "b \<longrightarrow> CheckPermission c USER_AUTH_FROM_BACKGROUND"
    and "CheckPermission c ACCESS_BIOMETRIC_PERMISSION \<or>
      iap_isUserIdSpecified p \<and> CheckPermission c ACCESS_USER_AUTH_INTERNAL_PERMISSION"
  using assms user_id_check_needs_permission [of c "InitAuthParam p"]
  by (auto simp: Widget_CheckPermissionAndParam_def InitAuthParam_def simp del: CheckPermission.simps split: if_splits)

text \<open>
  Property C16: a widget request that reports a success at once shows no dialogue. This happens only to a permitted
  caller whose request passed every check, the one for a request from the background with the flag that the caller's own
  information gives, and only when the caller asked for reuse within at most five minutes in one of the four modes and the
  engine confirmed that the user's earlier unlock satisfies the request.
\<close>

theorem immediate_success_is_reuse:
  assumes "UserAuth_AuthWidget e v p w True m k s = (r, i, s')" "successes s' \<noteq> successes s"
  shows "\<exists>para. GetCallerInfo (ae_caller e) (iap_isUserIdSpecified p) (iap_userId p) (default_widget_para v) =
      (SUCCESS, para) \<and> reusable (ae_profile e) (wc_userId para) p \<and>
    Widget_CheckPermissionAndParam (ae_caller e) (InitAuthParam p) w (wc_isBackgroundApplication para) = SUCCESS \<and>
    (wc_isBackgroundApplication para \<longrightarrow> CheckPermission (ae_caller e) USER_AUTH_FROM_BACKGROUND) \<and>
    (CheckPermission (ae_caller e) ACCESS_BIOMETRIC_PERMISSION \<or>
     iap_isUserIdSpecified p \<and> CheckPermission (ae_caller e) ACCESS_USER_AUTH_INTERNAL_PERMISSION) \<and> (r, i) = (SUCCESS, REUSE_AUTH_RESULT_CONTEXT_ID)"
proof -
  obtain cb where cb: "Widget_GetAuthContextCallback e v (InitAuthParam p) w True = Some cb"
    using Widget_GetAuthContextCallback_new(1) by (metis option.exhaust)
  obtain c para where info: "GetCallerInfo (ae_caller e) (iap_isUserIdSpecified p) (iap_userId p)
      (default_widget_para v) = (c, para)" by fastforce
  define para' where "para' = (if CheckPermission (ae_caller e) ENTERPRISE_MANAGE_SECURITY
    then para\<lparr>wc_callerPermissions := wc_callerPermissions para OR 1\<rparr> else para)"
  obtain k' extra where reuse: "CheckReuseUnlockResult (ae_profile e) para' (InitAuthParam p) Attributes_new = (k', extra)"
    by fastforce
  let ?check = "Widget_CheckPermissionAndParam (ae_caller e) (InitAuthParam p) w (wc_isBackgroundApplication para)"
  have new: "cb_iamCallback (widget_traced c para cb)"
    using Widget_GetAuthContextCallback_new(3) [OF cb] by (simp add: new_callback_answers [of TRACE_AUTH_USER_BEHAVIOR])
  note AuthWidget_eq [OF cb info para'_def reuse refl refl, of m k s]
  then have "c = SUCCESS \<and> ?check = SUCCESS \<and> k' = SUCCESS \<and> (r, i) = (SUCCESS, REUSE_AUTH_RESULT_CONTEXT_ID)"
    using assms failure_no_success [OF new] widget_no_success(2) [OF new]
    by (auto split: if_splits) (metis snd_conv)+
  then show ?thesis
    using info reuse CheckReuse_reusable [of "ae_profile e" para' p] checks_passed [of "ae_caller e" p w "wc_isBackgroundApplication para"]
    by (auto simp: para'_def simp del: CheckPermission.simps split: if_splits)
qed

section \<open>Registered callbacks\<close>

text \<open>What happens to the manager of remote callbacks: a request of a client, or the death of a registered process.\<close>

datatype auth_event = Served auth_env auth_request | CallbackDied auth_env u32

fun auth_happens :: "auth_event \<Rightarrow> auth_service \<Rightarrow> auth_service" where
  "auth_happens (Served e q) s = snd (auth_serve e q s)"
| "auth_happens (CallbackDied e token) s = RemoteAuthCallback_OnRemoteDied e True token s"

definition callbacks :: "auth_service \<Rightarrow> (u32 \<rightharpoonup> nat) \<times> u32 set" where
  "callbacks s = (as_callbackMap s, as_remoteDeathMap s)"

lemma callbacks_simps [simp]:
  "callbacks (auth_emit ys s) = callbacks s" "callbacks (s\<lparr>as_pool := p\<rparr>) = callbacks s"
  "callbacks (auth_answer e reason cb r a s) = callbacks s"
  "callbacks (snd (snd (launch e reason cb c started s))) = callbacks s"
proof -
  show *: "callbacks (auth_emit ys s) = callbacks s" "callbacks (s\<lparr>as_pool := p\<rparr>) = callbacks s" for ys p s
    by (simp_all add: callbacks_def auth_emit_def)
  show a: "callbacks (auth_answer e reason cb r a s) = callbacks s" for reason cb r a s
    by (simp add: auth_answer_def auth_cleaned_def Let_def * split: option.split)
  show "callbacks (snd (snd (launch e reason cb c started s))) = callbacks s"
    by (simp add: launch_def auth_result_def Let_def * a split: option.split prod.split)
qed

lemma callbacks_starts [simp]:
  "callbacks (snd (snd (StartAuthContext e para cb b s))) = callbacks s"
  "callbacks (snd (snd (StartSudoAuthContext e p para cb s))) = callbacks s"
  "callbacks (snd (snd (StartLocalRemoteAuthContext e para n cb s))) = callbacks s"
  "callbacks (snd (snd (StartRemoteAuthInvokerContext e p q cb s))) = callbacks s"
  "callbacks (snd (snd (StartRemoteAuthContext e para rq cb s))) = callbacks s"
  "callbacks (snd (StartWidgetContext e cb p w ts wp m s)) = callbacks s"
  by (simp_all add: StartAuthContext_def StartSudoAuthContext_def StartLocalRemoteAuthContext_def
      StartRemoteAuthInvokerContext_def StartRemoteAuthContext_def StartWidgetContext_def Let_def split_beta
      del: CheckPermission.simps split: option.split)

lemma callbacks_requests [simp]:
  "callbacks (snd (snd (StartAuth e para cb s))) = callbacks s"
  "callbacks (snd (snd (StartSudoAuthUser e p r para cb i s))) = callbacks s"
  "callbacks (snd (snd (snd (AuthRemoteUser e p para rr cb s)))) = callbacks s"
  "callbacks (snd (snd (StartAuthUser e p r para cb s))) = callbacks s"
  "callbacks (snd (snd (StartAuthWidget e p w wpara cb m i s))) = callbacks s"
proof -
  show *: "callbacks (snd (snd (snd (AuthRemoteUser e p para rr cb s)))) = callbacks s" for rr
    by (simp add: AuthRemoteUser_def Let_def split_beta split: option.split)
  show "callbacks (snd (snd (StartAuth e para cb s))) = callbacks s"
    "callbacks (snd (snd (StartSudoAuthUser e p r para cb i s))) = callbacks s"
    "callbacks (snd (snd (StartAuthUser e p r para cb s))) = callbacks s"
    "callbacks (snd (snd (StartAuthWidget e p w wpara cb m i s))) = callbacks s"
    by (simp_all add: StartAuth_def StartSudoAuthUser_def StartAuthUser_def StartAuthWidget_def Let_def split_beta *
        del: CheckPermission.simps split: option.split)
qed

lemma callbacks_serves [simp]:
  "callbacks (snd (snd (UserAuth_Auth e v p c i s))) = callbacks s"
  "callbacks (snd (snd (UserAuth_AuthUser e p rp c s))) = callbacks s"
  "callbacks (snd (snd (UserAuth_AuthWidget e v p w c m i s))) = callbacks s"
  "callbacks (snd (snd (UserAuth_Identify e ch t c s))) = callbacks s"
proof -
  show "callbacks (snd (snd (UserAuth_Auth e v p c i s))) = callbacks s"
    by (simp add: UserAuth_Auth_def Let_def split_beta split: option.split)
  show "callbacks (snd (snd (UserAuth_AuthUser e p rp c s))) = callbacks s"
    by (simp add: UserAuth_AuthUser_def Let_def split_beta split: option.split)
  show "callbacks (snd (snd (UserAuth_AuthWidget e v p w c m i s))) = callbacks s"
    by (simp add: UserAuth_AuthWidget_def Let_def split_beta split: option.split)
  show "callbacks (snd (snd (UserAuth_Identify e ch t c s))) = callbacks s"
    by (simp add: UserAuth_Identify_def Let_def del: CheckPermission.simps split: option.split prod.split bool.split)
qed

lemma callbacks_property [simp]:
  "callbacks (snd (GetPropertyInner e t ks ids s)) = callbacks s" "callbacks (snd (GetPropertyHelper e u t ks s)) = callbacks s"
  by (simp_all add: GetPropertyInner_def GetPropertyHelper_def Let_def split: option.split prod.split)

lemma callbacks_served:
  "callbacks (snd (auth_serve e q s)) = callbacks s \<or> (\<exists>r. q = RegisterRemoteRequest r) \<or> q = UnregisterRemoteRequest"
  by (cases q)
    (simp_all add: split_beta property_requests_def UserAuth_Notice_def RegisterWidgetCallback_def auth_listener_def
      recognition_listener_def RegistUserAuthSuccessEventListener_def UnRegistUserAuthSuccessEventListener_def
      RegisterUserRecognitionEventListener_def UnregisterUserRecognitionEventListener_def VerifyAuthToken_def
      PrepareRemoteAuth_def PrepareRemoteAuthInner_def CancelAuthOrIdentify_def Let_def del: CheckPermission.simps
      split: option.split prod.split)

definition callbacks_wf :: "auth_service \<Rightarrow> bool" where
  "callbacks_wf s \<longleftrightarrow> as_remoteDeathMap s \<subseteq> dom (as_callbackMap s)"

lemma callbacks_wf_same: "callbacks s' = callbacks s \<Longrightarrow> callbacks_wf s \<Longrightarrow> callbacks_wf s'"
  by (simp add: callbacks_def callbacks_wf_def)

lemma manager_wf:
  assumes "callbacks_wf s"
  shows "callbacks_wf (snd (AddRemoteAuthCallback e token r s))" "callbacks_wf (DelRemoteAuthCallback e token s)"
proof -
  show "callbacks_wf (snd (AddRemoteAuthCallback e token r s))" using assms
    by (auto simp: AddRemoteAuthCallback_def callbacks_wf_def auth_emit_def Let_def split: option.split)
  show "callbacks_wf (DelRemoteAuthCallback e token s)" using assms
    by (auto simp: DelRemoteAuthCallback_def callbacks_wf_def auth_emit_def Let_def split: option.split)
qed

text \<open>
  Also shown: along any sequence of requests and deaths, every death recipient that the manager of remote callbacks
  holds belongs to a callback that is still registered, so none outlives its callback.
\<close>

theorem death_recipients_registered:
  assumes "callbacks_wf s"
  shows "callbacks_wf (fold auth_happens events s)"
  using assms
proof (induction events arbitrary: s)
  case (Cons ev events)
  have "callbacks_wf (auth_happens ev s)"
  proof (cases ev)
    case (Served e q)
    then show ?thesis
      using callbacks_served [of e q s] callbacks_wf_same Cons.prems manager_wf [OF Cons.prems]
      by (auto simp: RegisterRemoteAuthCallback_def UnregisterRemoteAuthCallback_def simp del: CheckPermission.simps)
  next
    case (CallbackDied e token)
    then show ?thesis using manager_wf(2) [OF Cons.prems] by (simp add: RemoteAuthCallback_OnRemoteDied_def)
  qed
  then show ?case using Cons.IH by simp
qed simp

end
