(* ===== verification/User_Auth_Gate.thy ===== *)
theory User_Auth_Gate
  imports User_Auth_Properties
begin

text \<open>
  What a caller without the permission gets from the authentication service. Beside the requests of
  \<open>User_Auth_Properties\<close> there are those that only return something: their codes and output parameters are part
  of what is compared here.
\<close>

section \<open>Requests with everything they return\<close>

datatype auth_call =
    ServiceCall auth_request
  | AvailableStatusOfUserCall i32 i32 i32 u32
  | AvailableStatusCall i32 i32 u32
  | VersionCall
  | EnrolledStateCall i32 i32 eng_enrolled_state
  | RecognitionCapabilityCall
  | RecognitionResultCall bytes
  | QueryReusableCall ipc_auth_param bytes

datatype auth_out =
    NoOut
  | ContextOut u64
  | VersionOut i32
  | EnrolledOut eng_enrolled_state
  | RecognitionOut bytes
  | TokenOut bytes

text \<open>The code, the output parameter and the state after a request.\<close>

fun service_reply :: "auth_env \<Rightarrow> auth_request \<Rightarrow> auth_service \<Rightarrow> i32 \<times> auth_out \<times> auth_service" where
  "service_reply e (AuthRequest v p cb i) s = (case UserAuth_Auth e v p cb i s of (r, i, s) \<Rightarrow> (r, ContextOut i, s))"
| "service_reply e (AuthUserRequest p rp cb) s = (case UserAuth_AuthUser e p rp cb s of (r, i, s) \<Rightarrow> (r, ContextOut i, s))"
| "service_reply e (AuthWidgetRequest v p w cb m i) s =
     (case UserAuth_AuthWidget e v p w cb m i s of (r, i, s) \<Rightarrow> (r, ContextOut i, s))"
| "service_reply e (IdentifyRequest c t cb) s = (case UserAuth_Identify e c t cb s of (r, i, s) \<Rightarrow> (r, ContextOut i, s))"
| "service_reply e q s = (case auth_serve e q s of (r, s) \<Rightarrow> (r, NoOut, s))"

fun auth_reply :: "auth_env \<Rightarrow> auth_call \<Rightarrow> auth_service \<Rightarrow> i32 \<times> auth_out \<times> auth_service" where
  "auth_reply e (ServiceCall q) s = service_reply e q s"
| "auth_reply e (AvailableStatusOfUserCall v u t l) s = (GetAvailableStatusOfUser e v u t l, NoOut, s)"
| "auth_reply e (AvailableStatusCall v t l) s = (GetAvailableStatus e v t l, NoOut, s)"
| "auth_reply e VersionCall s = (case GetVersion e of (r, n) \<Rightarrow> (r, VersionOut n, s))"
| "auth_reply e (EnrolledStateCall v t x) s = (case GetEnrolledState e v t x of (r, x) \<Rightarrow> (r, EnrolledOut x, s))"
| "auth_reply e RecognitionCapabilityCall s = (CheckUserRecognitionCapability e, NoOut, s)"
| "auth_reply e (RecognitionResultCall x) s = (case GetUserRecognitionResult e x of (r, x) \<Rightarrow> (r, RecognitionOut x, s))"
| "auth_reply e (QueryReusableCall p token) s =
     (case UserAuth_QueryReusableAuthResult e p token of (r, token) \<Rightarrow> (r, TokenOut token, s))"

text \<open>What the output parameter holds without a result: what the caller handed in, or the fixed initial value.\<close>

fun given_out :: "auth_call \<Rightarrow> auth_out" where
  "given_out (ServiceCall (AuthRequest v p cb i)) = ContextOut i"
| "given_out (ServiceCall (AuthUserRequest p rp cb)) = ContextOut BAD_CONTEXT_ID"
| "given_out (ServiceCall (AuthWidgetRequest v p w cb m i)) = ContextOut i"
| "given_out (ServiceCall (IdentifyRequest c t cb)) = ContextOut BAD_CONTEXT_ID"
| "given_out VersionCall = VersionOut 0"
| "given_out (EnrolledStateCall v t x) = EnrolledOut x"
| "given_out (RecognitionResultCall x) = RecognitionOut x"
| "given_out (QueryReusableCall p token) = TokenOut token"
| "given_out _ = NoOut"

fun allowed :: "caller \<Rightarrow> auth_call \<Rightarrow> bool" where
  "allowed c (ServiceCall q) = permitted c q"
| "allowed c (AvailableStatusOfUserCall v u t l) = CheckPermission c ACCESS_USER_AUTH_INTERNAL_PERMISSION"
| "allowed c (AvailableStatusCall v t l) =
     (CheckPermission c ACCESS_USER_AUTH_INTERNAL_PERMISSION \<or> CheckPermission c ACCESS_BIOMETRIC_PERMISSION)"
| "allowed c VersionCall =
     (CheckPermission c ACCESS_USER_AUTH_INTERNAL_PERMISSION \<or> CheckPermission c ACCESS_BIOMETRIC_PERMISSION)"
| "allowed c (EnrolledStateCall v t x) = CheckPermission c ACCESS_BIOMETRIC_PERMISSION"
| "allowed c RecognitionCapabilityCall = CheckPermission c ACCESS_USER_PASSIVE_RECOGNITION_PERMISSION"
| "allowed c (RecognitionResultCall x) = CheckPermission c ACCESS_USER_PASSIVE_RECOGNITION_PERMISSION"
| "allowed c (QueryReusableCall p token) =
     (CheckPermission c ACCESS_USER_AUTH_INTERNAL_PERMISSION \<and> GetDirectCallerType c = cl_TOKEN_HAP c \<and>
      CheckPermission c IS_SYSTEM_APP)"

section \<open>Two services side by side\<close>

text \<open>
  The same request of the same caller to two services that may differ in everything else (state, engine, executors,
  profiles): both refuse in the same way.
\<close>

definition alike :: "auth_out \<Rightarrow> auth_service \<Rightarrow> i32 \<times> auth_out \<times> auth_service \<Rightarrow>
  auth_service \<Rightarrow> i32 \<times> auth_out \<times> auth_service \<Rightarrow> bool" where
  "alike x s r s' r' \<longleftrightarrow>
     fst r' = fst r \<and> fst (snd r) = x \<and> fst (snd r') = x \<and>
     (\<exists>ys ys'. snd (snd r) = s\<lparr>as_outputs := as_outputs s @ ys\<rparr> \<and> snd (snd r') = s'\<lparr>as_outputs := as_outputs s' @ ys'\<rparr> \<and>
        list_all auth_refusal ys \<and> list_all auth_refusal ys' \<and> filter settles ys' = filter settles ys \<and>
        (fst r = SUCCESS \<longrightarrow> filter settles ys \<noteq> []))"

lemma alike_silent [intro]: "k \<noteq> SUCCESS \<Longrightarrow> alike x s (k, x, s) s' (k, x, s')"
  unfolding alike_def by (intro conjI exI [of _ "[]"]) simp_all

lemma alike_emit:
  "list_all auth_refusal ys \<Longrightarrow> filter settles ys \<noteq> [] \<Longrightarrow> alike x s (k, x, auth_emit ys s) s' (k, x, auth_emit ys s')"
  unfolding alike_def by (intro conjI exI [of _ ys]) (simp_all add: auth_emit_def)

lemma refusal_outputs:
  assumes "new_callback t cb" "cb_cleaner cb = None" "r \<noteq> SUCCESS"
  shows "\<exists>ys. auth_answer e reason cb r Attributes_new s = s\<lparr>as_outputs := as_outputs s @ ys\<rparr> \<and>
    list_all auth_refusal ys \<and> filter settles ys = [AuthCallback (ClientResult r [])]"
proof -
  let ?cb = "SetTraceAuthFinishReason reason cb"
  obtain m where m: "md_operationResult m = r"
    "answer_outputs (ae_callback e) ?cb r Attributes_new =
       ClientResult r [] # NotifyListener_Process (ce_notifiers (ae_callback e)) m False"
    using answer_outputs_shape [of t ?cb r "ae_callback e" Attributes_new] assms by auto
  let ?ys = "map AuthCallback (answer_outputs (ae_callback e) ?cb r Attributes_new)"
  have "auth_answer e reason cb r Attributes_new s = s\<lparr>as_outputs := as_outputs s @ ?ys\<rparr>"
    using assms(2) by (simp add: auth_answer_def auth_cleaned_def auth_emit_def Let_def)
  moreover have "list_all auth_refusal ?ys" "filter settles ?ys = [AuthCallback (ClientResult r [])]"
    using m assms(3) by (auto simp: NotifyListener_Process_def list_all_iff filter_empty_conv)
  ultimately show ?thesis by blast
qed

lemma alike_answer:
  assumes "new_callback t cb" "cb_cleaner cb = None" "new_callback t cb'" "cb_cleaner cb' = None"
    and "r \<noteq> SUCCESS" "k \<noteq> SUCCESS"
  shows "alike x s (k, x, auth_answer e reason cb r Attributes_new s)
    s' (k, x, auth_answer e' reason cb' r Attributes_new s')"
proof -
  obtain ys where "auth_answer e reason cb r Attributes_new s = s\<lparr>as_outputs := as_outputs s @ ys\<rparr>"
    "list_all auth_refusal ys" "filter settles ys = [AuthCallback (ClientResult r [])]"
    using refusal_outputs [OF assms(1,2,5), of e reason s] by blast
  moreover obtain ys' where "auth_answer e' reason cb' r Attributes_new s' = s'\<lparr>as_outputs := as_outputs s' @ ys'\<rparr>"
    "list_all auth_refusal ys'" "filter settles ys' = [AuthCallback (ClientResult r [])]"
    using refusal_outputs [OF assms(3,4,5), of e' reason s'] by blast
  ultimately show ?thesis using assms(6) unfolding alike_def by (intro conjI exI [of _ ys] exI [of _ ys']) simp_all
qed

lemmas alike_all_answer = alike_answer [where t = TRACE_AUTH_USER_ALL]
lemmas alike_widget_answer = alike_answer [where t = TRACE_AUTH_USER_BEHAVIOR]

text \<open>The requests that authenticate, one by one.\<close>

lemma Auth_alike:
  assumes "\<not> CheckPermission (ae_caller e) ACCESS_BIOMETRIC_PERMISSION" "ae_caller e' = ae_caller e"
  shows "alike (ContextOut i) s (service_reply e (AuthRequest v p cb i) s) s' (service_reply e' (AuthRequest v p cb i) s')"
proof (cases cb)
  case True
  obtain cb1 where cb1: "GetAuthContextCallback e v (iap_authType p) (iap_authTrustLevel p) cb = Some cb1"
    using GetAuthContextCallback_new(1) True by (metis option.exhaust)
  obtain cb2 where cb2: "GetAuthContextCallback e' v (iap_authType p) (iap_authTrustLevel p) cb = Some cb2"
    using GetAuthContextCallback_new(1) True by (metis option.exhaust)
  show ?thesis
    using assms cb1 cb2 GetAuthContextCallback_new(3) [OF cb1] GetAuthContextCallback_new(3) [OF cb2]
    by (auto simp: UserAuth_Auth_def Auth_CheckPermissionAndParam_def Let_def simp del: CheckPermission.simps
        intro!: alike_all_answer split: prod.split)
qed (simp add: UserAuth_Auth_def GetAuthContextCallback_new alike_silent)

lemma AuthUser_alike:
  assumes "\<not> CheckPermission (ae_caller e) ACCESS_USER_AUTH_INTERNAL_PERMISSION" "ae_caller e' = ae_caller e"
  shows "alike (ContextOut 0) s (service_reply e (AuthUserRequest p rp cb) s) s' (service_reply e' (AuthUserRequest p rp cb) s')"
proof (cases cb)
  case True
  obtain cb1 where cb1: "GetAuthContextCallback e 10000 (iap_authType p) (iap_authTrustLevel p) cb = Some cb1"
    using GetAuthContextCallback_new(1) True by (metis option.exhaust)
  obtain cb2 where cb2: "GetAuthContextCallback e' 10000 (iap_authType p) (iap_authTrustLevel p) cb = Some cb2"
    using GetAuthContextCallback_new(1) True by (metis option.exhaust)
  show ?thesis
    using assms cb1 cb2 GetAuthContextCallback_new(3) [OF cb1] GetAuthContextCallback_new(3) [OF cb2]
    by (auto simp: UserAuth_AuthUser_def AuthUser_CheckPermissionAndParam_def InitAuthParam_def Let_def
        simp del: CheckPermission.simps intro!: alike_all_answer split: prod.split)
qed (simp add: UserAuth_AuthUser_def GetAuthContextCallback_new alike_silent InitAuthParam_def)

lemma AuthWidget_alike:
  assumes "\<not> permitted (ae_caller e) (AuthWidgetRequest v p w cb m i)" "ae_caller e' = ae_caller e"
  shows "alike (ContextOut i) s (service_reply e (AuthWidgetRequest v p w cb m i) s)
    s' (service_reply e' (AuthWidgetRequest v p w cb m i) s')"
proof (cases cb)
  case True
  obtain cb1 where cb1: "Widget_GetAuthContextCallback e v (InitAuthParam p) w cb = Some cb1"
    using Widget_GetAuthContextCallback_new(1) True by (metis option.exhaust)
  obtain cb2 where cb2: "Widget_GetAuthContextCallback e' v (InitAuthParam p) w cb = Some cb2"
    using Widget_GetAuthContextCallback_new(1) True by (metis option.exhaust)
  obtain r para where info: "GetCallerInfo (ae_caller e) (iap_isUserIdSpecified p) (iap_userId p)
      (default_widget_para v) = (r, para)" by fastforce
  have "Widget_CheckPermissionAndParam (ae_caller e) (InitAuthParam p) w b \<noteq> SUCCESS" for b
    using assms user_id_check_needs_permission [of "ae_caller e" "InitAuthParam p"]
    by (auto simp: Widget_CheckPermissionAndParam_def InitAuthParam_def simp del: CheckPermission.simps)
  then show ?thesis
    using cb1 cb2 info assms(2) Widget_GetAuthContextCallback_new(3) [OF cb1] Widget_GetAuthContextCallback_new(3) [OF cb2]
    by (auto simp: UserAuth_AuthWidget_def InitAuthParam_def Let_def simp del: CheckPermission.simps
        intro!: alike_widget_answer)
qed (simp add: UserAuth_AuthWidget_def Widget_GetAuthContextCallback_new alike_silent InitAuthParam_def Let_def)

lemma Identify_alike:
  assumes "\<not> CheckPermission (ae_caller e) ACCESS_USER_AUTH_INTERNAL_PERMISSION" "ae_caller e' = ae_caller e"
  shows "alike (ContextOut 0) s (service_reply e (IdentifyRequest c t cb) s) s' (service_reply e' (IdentifyRequest c t cb) s')"
  using assms by (cases cb) (auto simp: UserAuth_Identify_def simp del: CheckPermission.simps
      intro!: alike_silent alike_answer [where t = TRACE_IDENTIFY])

lemma service_alike:
  assumes "\<not> permitted (ae_caller e) q" "ae_caller e' = ae_caller e"
  shows "alike (given_out (ServiceCall q)) s (service_reply e q s) s' (service_reply e' q s')"
proof (cases q)
  case (AuthRequest v p cb i)
  then show ?thesis using assms Auth_alike [of e e' i s v p cb s'] by (simp del: service_reply.simps CheckPermission.simps)
next
  case (AuthUserRequest p rp cb)
  then show ?thesis using assms AuthUser_alike [of e e' s p rp cb s'] by (simp del: service_reply.simps CheckPermission.simps)
next
  case (AuthWidgetRequest v p w cb m i)
  then show ?thesis using assms AuthWidget_alike [of e v p w cb m i e' s s'] by (simp del: service_reply.simps CheckPermission.simps permitted.simps)
next
  case (IdentifyRequest c t cb)
  then show ?thesis using assms Identify_alike [of e e' s c t cb s'] by (simp del: service_reply.simps CheckPermission.simps)
qed (use assms in \<open>auto simp: property_requests_def listener_requests_def VerifyAuthToken_def PrepareRemoteAuth_def
    PrepareRemoteAuthInner_def Let_def simp del: CheckPermission.simps intro!: alike_silent alike_emit\<close>)

lemmas asking_calls_def = GetAvailableStatusOfUser_def GetAvailableStatus_def GetVersion_def GetEnrolledState_def
  CheckUserRecognitionCapability_def GetUserRecognitionResult_def UserAuth_QueryReusableAuthResult_def


end
