(* ===== verification/Auth_Checks.thy ===== *)
theory Auth_Checks
  imports Auth_Requests
begin

text \<open>
  What the checks of \<open>Auth_Requests\<close> let through: which combinations of types a dialogue may ask for, which types
  remain when locked biometrics are skipped, and what a remote authentication knows once its parameters are complete.
\<close>

section \<open>Types\<close>

text \<open>
  Also shown: a widget request may name exactly the non-empty lists of different types out of PIN, face, fingerprint,
  private PIN and companion device in which no PIN stands beside a private PIN and no other type beside a companion
  device. The limit of eight types never matters.
\<close>

theorem widget_types_exact:
  "CheckAuthWidgetType ts = SUCCESS \<longleftrightarrow>
     ts \<noteq> [] \<and> distinct ts \<and> set ts \<subseteq> {PIN, FACE, FINGERPRINT, PRIVATE_PIN, COMPANION_DEVICE} \<and>
     \<not> {PIN, PRIVATE_PIN} \<subseteq> set ts \<and> (COMPANION_DEVICE \<in> set ts \<longrightarrow> ts = [COMPANION_DEVICE])"
proof -
  have "length ts \<le> 5" if "distinct ts" "set ts \<subseteq> {PIN, FACE, FINGERPRINT, PRIVATE_PIN, COMPANION_DEVICE}"
    using that card_mono [of "{PIN, FACE, FINGERPRINT, PRIVATE_PIN, COMPANION_DEVICE}" "set ts"]
    by (simp add: distinct_card)
  moreover have "ts = [COMPANION_DEVICE]" if "COMPANION_DEVICE \<in> set ts" "length ts = 1"
    using that by (cases ts) auto
  ultimately show ?thesis
    by (auto simp: CheckAuthWidgetType_def card_distinct distinct_card)
qed

lemma widget_types_exact_witness:
  "CheckAuthWidgetType [FACE, FINGERPRINT, PIN] = SUCCESS \<and> CheckAuthWidgetType [PIN, COMPANION_DEVICE] \<noteq> SUCCESS"
  using widget_types_exact [of "[FACE, FINGERPRINT, PIN]"] widget_types_exact [of "[PIN, COMPANION_DEVICE]"] by simp

section \<open>Locked biometrics\<close>

definition profile_of :: "profile_env \<Rightarrow> i32 \<Rightarrow> auth_param_inner \<Rightarrow> i32 \<Rightarrow> auth_profile" where
  "profile_of e u a t = fst (snd (GetUserAuthProfile e u t AuthProfile_default (pi_credentialIdList a)))"

definition usable :: "profile_env \<Rightarrow> i32 \<Rightarrow> auth_param_inner \<Rightarrow> widget_para \<Rightarrow> i32 \<Rightarrow> bool" where
  "usable e u a para t \<longleftrightarrow>
     wc_authProfileMap para t = Some (profile_of e u a t) \<and>
     (pr_remainTimes (profile_of e u a t) \<noteq> 0 \<or> t = PIN \<or> t = PRIVATE_PIN)"

lemma profile_loop_usable:
  assumes "pi_skipLockedBiometricAuth a" "profile_loop e a ts kept para log = (kept', para', log')"
    and "\<forall>t \<in> set kept. usable e (wc_userId para) a para t"
  shows "(\<forall>t \<in> set kept'. usable e (wc_userId para) a para' t) \<and> set kept' \<subseteq> set kept \<union> set ts \<and>
    wc_userId para' = wc_userId para"
  using assms(2,3)
proof (induction ts arbitrary: kept para log)
  case (Cons t ts)
  obtain r p calls where g: "GetUserAuthProfile e (wc_userId para) t AuthProfile_default (pi_credentialIdList a) = (r, p, calls)"
    by (metis prod_cases3)
  have p: "profile_of e (wc_userId para) a t = p" by (simp add: profile_of_def g)
  let ?gone = "para\<lparr>wc_authProfileMap := (wc_authProfileMap para)(t := None)\<rparr>"
  let ?had = "para\<lparr>wc_authProfileMap := (wc_authProfileMap para)(t \<mapsto> p)\<rparr>"
  consider "r \<noteq> SUCCESS \<and> r \<noteq> NOT_ENROLLED"
    | "\<not> (r \<noteq> SUCCESS \<and> r \<noteq> NOT_ENROLLED)" "pr_remainTimes p = 0 \<and> t \<noteq> PIN \<and> t \<noteq> PRIVATE_PIN"
    | "\<not> (r \<noteq> SUCCESS \<and> r \<noteq> NOT_ENROLLED)" "\<not> (pr_remainTimes p = 0 \<and> t \<noteq> PIN \<and> t \<noteq> PRIVATE_PIN)"
    by blast
  then show ?case
  proof cases
    case 1
    then have "profile_loop e a ts kept para (log @ calls) = (kept', para', log')" using Cons.prems(1) g by simp
    from Cons.IH [OF this Cons.prems(2)] show ?thesis by auto
  next
    case 2
    then have l: "profile_loop e a ts kept ?gone (log @ calls) = (kept', para', log')"
      using Cons.prems(1) g assms(1) by auto
    have "\<forall>x \<in> set kept. usable e (wc_userId ?gone) a ?gone x"
      using Cons.prems(2) 2(2) p by (auto simp: usable_def)
    from Cons.IH [OF l this] show ?thesis by auto
  next
    case 3
    then have l: "profile_loop e a ts (kept @ [t]) ?had (log @ calls) = (kept', para', log')"
      using Cons.prems(1) g by auto
    have "\<forall>x \<in> set (kept @ [t]). usable e (wc_userId ?had) a ?had x"
      using Cons.prems(2) 3(2) p by (auto simp: usable_def)
    from Cons.IH [OF l this] show ?thesis by auto
  qed
qed simp

text \<open>
  Also shown: when the caller wants locked biometrics skipped, a dialogue only ever offers types the engine accepted
  whose current state at the executor was read into the parameters, and each of them is a kind of PIN or has attempts
  left; at least one type is offered.
\<close>

theorem locked_biometrics_skipped:
  assumes "CheckSkipLockedBiometricAuth e para a w ts = (SUCCESS, kept, para', log)" "pi_skipLockedBiometricAuth a"
  shows "kept \<noteq> [] \<and> set kept \<subseteq> set ts \<and> list_all (usable e (wc_userId para) a para') kept"
proof -
  have "kept \<noteq> []" and l: "profile_loop e a ts [] para [] = (kept, para', log)"
    using assms(1) by (auto simp: CheckSkipLockedBiometricAuth_def split: if_splits prod.splits)
  then show ?thesis using profile_loop_usable [OF assms(2) l] by (auto simp: list_all_iff)
qed

section \<open>Remote parameters\<close>

text \<open>
  Also shown: once the parameters of a remote authentication are complete, both devices and the collector's token are
  known, nothing that the caller gave was changed, at least one of the devices is the own one, and a token that the
  caller did not give is its own.
\<close>

theorem remote_param_complete:
  assumes "CompleteRemoteAuthParam c p n = (True, p')"
  shows "\<exists>v k t. p' = p\<lparr>rm_verifierNetworkId := Some v, rm_collectorNetworkId := Some k, rm_collectorTokenId := Some t\<rparr> \<and>
    v = (case rm_verifierNetworkId p of None \<Rightarrow> n | Some x \<Rightarrow> x) \<and>
    k = (case rm_collectorNetworkId p of None \<Rightarrow> n | Some x \<Rightarrow> x) \<and> n \<in> {v, k} \<and>
    t = (case rm_collectorTokenId p of None \<Rightarrow> GetAccessTokenId c | Some x \<Rightarrow> x)"
  using assms
  by (cases "rm_verifierNetworkId p"; cases "rm_collectorNetworkId p"; cases "rm_collectorTokenId p")
    (auto simp: CompleteRemoteAuthParam_def Let_def split: if_splits)

end
