(* ===== verification/User_Auth_Witness.thy ===== *)
theory User_Auth_Witness
  imports User_Auth_Safety User_Auth_Gate Auth_Checks
begin

text \<open>
  Concrete requests for the properties of the authentication service: a native caller with the permissions, a caller
  without any, a full pool, an engine that accepts the PIN and lets an unlock be reused.
\<close>

definition w_profile_env :: profile_env where
  "w_profile_env = \<lparr>pe_users = w_user_engine, pe_pool = w_pool, pe_ipc = (\<lambda>_ _. SUCCESS), pe_reply = (\<lambda>_ _. []),
     pe_validSolution = (\<lambda>_ _ _. (SUCCESS, [PIN])), pe_reuse = (\<lambda>_. (SUCCESS, empty_reuse_info))\<rparr>"

definition w_auth_env :: auth_env where
  "w_auth_env = \<lparr>ae_caller = w_idm_caller, ae_profile = w_profile_env, ae_availableStatus = (\<lambda>_ _ _. (SUCCESS, SUCCESS)),
     ae_enrolledState = (\<lambda>_ _. (NOT_ENROLLED, \<lparr>ee_credentialDigest = 0, ee_credentialCount = 0\<rparr>)), ae_capability = 0,
     ae_verifyToken = (\<lambda>_ _. (GENERAL_ERROR, \<lparr>tp_version = 0, tp_userId = 0, tp_challenge = [], tp_timeInterval = 0,
       tp_authTrustLevel = 0, tp_authType = 0, tp_tokenType = 0, tp_secureUid = 0, tp_enrolledId = 0,
       tp_credentialId = 0\<rparr>, [])),
     ae_prepareRemote = (\<lambda>_. SUCCESS), ae_udidOf = (\<lambda>_. None), ae_localNetworkId = Some (replicate 64 7),
     ae_draws = (\<lambda>_. Some 77), ae_createTime = 1,
     ae_callback = \<lparr>ce_timePoint = 0, ce_now = 0, ce_later = 0, ce_notifiers = [Some 0], ce_tip = (\<lambda>_. None)\<rparr>,
     ae_notice = (\<lambda>_ _. SUCCESS), ae_listeners = (\<lambda>_. SUCCESS), ae_recognition = (\<lambda>_. SUCCESS), ae_recognized = [],
     ae_hasObject = (\<lambda>_. True)\<rparr>"

definition w_auth :: auth_service where
  "w_auth = \<lparr>as_pool = initial_pool, as_callbackMap = (\<lambda>_. None), as_remoteDeathMap = {}, as_outputs = []\<rparr>"

definition w_full :: auth_service where
  "w_full = w_auth\<lparr>as_pool := initial_pool\<lparr>cp_waiting := replicate 100
     (identify_view 1 (the (CreateIdentifyContext 9 \<lparr>ip_authType = 2, ip_tokenId = 5, ip_challenge = []\<rparr> True)))\<rparr>\<rparr>"

definition w_auth_param :: ipc_auth_param where
  "w_auth_param = \<lparr>iap_userId = 100, iap_isUserIdSpecified = True, iap_challenge = [1], iap_authType = PIN,
     iap_authTypes = [PIN], iap_authTrustLevel = ATL1,
     iap_reuseUnlockResult = \<lparr>ru_isReuse = True, ru_reuseMode = 1, ru_reuseDuration = 1000\<rparr>, iap_authIntent = 0,
     iap_skipLockedBiometricAuth = False, iap_credentialIdList = [], iap_isHasRemoteTokenId = False,
     iap_remoteTokenId = 0, iap_additionalInfo = [65]\<rparr>"

definition w_remote_param :: ipc_remote_param where
  "w_remote_param = \<lparr>irp_isHasRemoteAuthParam = True, irp_isHasVerifierNetworkId = True,
     irp_verifierNetworkId = replicate 64 7, irp_isHasCollectorNetworkId = False, irp_collectorNetworkId = [],
     irp_isHasCollectorTokenId = False, irp_collectorTokenId = 0\<rparr>"

lemma w_auth_permissions:
  "CheckPermission w_idm_caller ACCESS_USER_AUTH_INTERNAL_PERMISSION" "CheckPermission w_idm_caller ACCESS_BIOMETRIC_PERMISSION"
  "\<not> CheckPermission w_stranger ACCESS_USER_AUTH_INTERNAL_PERMISSION" "\<not> CheckPermission w_idm_caller IS_SYSTEM_APP"
  by (simp_all add: w_idm_caller_def w_stranger_def CheckDirectCallerAndFirstCallerIfSet_def GetTokenId_def
      CheckCallerIsSystemApp_def Let_def)

lemma w_auth_env_simps [simp]:
  "ae_caller w_auth_env = w_idm_caller" "ae_localNetworkId w_auth_env = Some (replicate 64 7)"
  "ae_profile w_auth_env = w_profile_env" "new_id w_auth_env w_auth = 77"
  by (simp_all add: w_auth_env_def new_id_def GetNewContextId_def w_auth_def initial_pool_def SelectLocked_def MAX_TRY_TIMES_def
      REUSE_AUTH_RESULT_CONTEXT_ID_def numeral_eq_Suc)

lemma w_callers [simp]:
  "GetAccessTokenId w_idm_caller = 5" "GetCallerName w_idm_caller n = (True, [7], 1)"
  "GetDirectCallerType w_idm_caller = cl_TOKEN_NATIVE w_idm_caller"
  by (simp_all add: w_idm_caller_def GetAccessTokenId_def GetCallerName_def GetCallerNameByTokenId_def GetDirectCallerType_def
      GetTokenId_def)


lemma auth_answered_exactly_once_witness:
  "settled (snd (auth_serve w_auth_env (AuthUserRequest (w_auth_param\<lparr>iap_authIntent := SUDO_PIN_AUTH\<rparr>) w_remote_param True) w_auth)) = 1"
  using auth_answered_exactly_once [of "AuthUserRequest (w_auth_param\<lparr>iap_authIntent := SUDO_PIN_AUTH\<rparr>) w_remote_param True" w_auth_env w_auth]
  by (simp add: settled_def w_auth_def)

lemma remote_failure_answered_twice_witness:
  "settled (snd (auth_serve w_auth_env (AuthUserRequest w_auth_param w_remote_param True) w_full)) = 2"
proof -
  have "InitRemoteAuthParam w_remote_param =
      Some \<lparr>rm_verifierNetworkId = Some (replicate 64 7), rm_collectorNetworkId = None, rm_collectorTokenId = None\<rparr>"
    by (simp add: w_remote_param_def InitRemoteAuthParam_def)
  from remote_failure_answered_twice [OF _ _ _ _ _ this, of w_auth_env w_auth_param "replicate 64 7" w_full] show ?thesis
    by (simp add: w_auth_permissions w_auth_param_def CheckAuthTrustLevel_def CompleteRemoteAuthParam_def w_full_def
        MAX_CONTEXT_NUM_def settled_def w_auth_def del: CheckPermission.simps)
qed

lemma w_scheduled: "\<exists>q. Pool_Schedule (Some c) (as_pool w_auth) = (True, q)"
  by (simp add: Pool_Schedule_def w_auth_def initial_pool_def SelectLocked_def MAX_CONTEXT_NUM_def)

lemma w_launched [simp]: "fst (launch e reason cb (Some c) started w_auth) = cx_contextId c"
  using w_scheduled [of c] by (auto simp: launch_def Let_def)

lemma cancel_by_owner_only_witness:
  "\<exists>s1. auth_begin w_auth_env (IdentifyRequest [1] FACE True) w_auth = Some (SUCCESS, 77, s1) \<and>
     as_pool (snd (CancelAuthOrIdentify (w_auth_env\<lparr>ae_caller := w_idm_caller\<lparr>cl_callingTokenId := 6\<rparr>\<rparr>) 77 0 s1)) = as_pool s1"
proof -
  obtain c where c: "CreateIdentifyContext 77 \<lparr>ip_authType = FACE, ip_tokenId = 5, ip_challenge = [1]\<rparr> True = Some c"
    unfolding CreateIdentifyContext_def Let_def by simp
  obtain q where q: "Pool_Schedule (Some (identify_view (ae_createTime w_auth_env) c)) (as_pool w_auth) = (True, q)"
    using w_scheduled by blast
  have "\<exists>s1. UserAuth_Identify w_auth_env [1] FACE True w_auth = (SUCCESS, 77, s1)"
    using created_views(2) [OF c, of 0]
    by (simp add: UserAuth_Identify_def w_auth_permissions c q del: CheckPermission.simps created_views)
  then obtain s1 where s1: "auth_begin w_auth_env (IdentifyRequest [1] FACE True) w_auth = Some (SUCCESS, 77, s1)" by auto
  have start: "pool_run (\<lambda>_ _. True) (\<lambda>_ _. 0) initial_pool [] (as_pool w_auth)" by (simp add: w_auth_def run_nil)
  have "GetAccessTokenId (w_idm_caller\<lparr>cl_callingTokenId := 6\<rparr>) = 6" by (simp add: GetAccessTokenId_def w_idm_caller_def)
  then have "as_pool (snd (CancelAuthOrIdentify (w_auth_env\<lparr>ae_caller := w_idm_caller\<lparr>cl_callingTokenId := 6\<rparr>\<rparr>) 77 0 s1)) = as_pool s1"
    using cancel_by_owner_only [OF start s1, of "w_auth_env\<lparr>ae_caller := w_idm_caller\<lparr>cl_callingTokenId := 6\<rparr>\<rparr>" 0]
    by (simp add: REUSE_AUTH_RESULT_CONTEXT_ID_def del: CheckPermission.simps)
  with s1 show ?thesis by blast
qed

definition w_sudo_param :: ipc_auth_param where
  "w_sudo_param = w_auth_param\<lparr>iap_authIntent := SUDO_PIN_AUTH,
     iap_reuseUnlockResult := \<lparr>ru_isReuse = False, ru_reuseMode = 0, ru_reuseDuration = 0\<rparr>\<rparr>"

lemma sudo_gate_witness:
  "\<exists>i s' c cb. UserAuth_AuthUser w_auth_env w_sudo_param (w_remote_param\<lparr>irp_isHasRemoteAuthParam := False\<rparr>) True w_auth =
       (SUCCESS, i, s') \<and> as_outputs s' = [AuthSudo c cb] \<and> sp_userId (sr_para c) = 100 \<and> sp_challenge (sr_para c) = [1]"
proof -
  let ?rp = "w_remote_param\<lparr>irp_isHasRemoteAuthParam := False\<rparr>"
  have start: "fst (StartSudoAuthContext w_auth_env a para cb w_auth) = 77" for a para cb
    by (simp add: StartSudoAuthContext_def CreateSudoAuthContext_def sudo_view_def Let_def del: CheckPermission.simps)
  have "CheckSudoAuthParam (InitAuthParam w_sudo_param) (InitRemoteAuthParam ?rp) = SUCCESS"
    by (simp add: CheckSudoAuthParam_SUCCESS InitAuthParam_def InitRemoteAuthParam_def w_sudo_param_def w_auth_param_def
        w_remote_param_def order_trans [OF conjunct1 [OF count_bounds]] del: GetUtf8CharCount.simps)
  then have user: "fst (StartSudoAuthUser w_auth_env (InitAuthParam w_sudo_param) (InitRemoteAuthParam ?rp) para cb i w_auth) = SUCCESS"
    for para cb i
    by (simp add: StartSudoAuthUser_def start split_beta del: CheckPermission.simps)
  obtain cb where cb: "GetAuthContextCallback w_auth_env 10000 PIN ATL1 True = Some cb"
    using GetAuthContextCallback_new(1) by (metis option.exhaust)
  have proj: "pi_authType (InitAuthParam w_sudo_param) = PIN" "pi_authTrustLevel (InitAuthParam w_sudo_param) = ATL1"
    "pi_authIntent (InitAuthParam w_sudo_param) = SUDO_PIN_AUTH"
    by (simp_all add: InitAuthParam_def w_sudo_param_def w_auth_param_def)
  have "fst (UserAuth_AuthUser w_auth_env w_sudo_param ?rp True w_auth) = SUCCESS"
    by (simp add: UserAuth_AuthUser_def Let_def proj cb user AuthUser_CheckPermissionAndParam_def CheckAuthTrustLevel_def
        w_auth_permissions del: CheckPermission.simps)
  then obtain i s' where run: "UserAuth_AuthUser w_auth_env w_sudo_param ?rp True w_auth = (SUCCESS, i, s')"
    by (metis prod.collapse)
  have "iap_authIntent w_sudo_param = SUDO_PIN_AUTH" by (simp add: w_sudo_param_def)
  from sudo_gate [OF run this] obtain c cb where "as_outputs s' = [AuthSudo c cb]" "sp_userId (sr_para c) = 100"
    "sp_challenge (sr_para c) = [1]" by (auto simp: w_auth_def w_sudo_param_def w_auth_param_def)
  with run show ?thesis by blast
qed

lemma locked_biometrics_skipped_witness:
  "\<exists>para' log. CheckSkipLockedBiometricAuth (w_profile_env\<lparr>pe_users := w_user_engine\<lparr>ue_getCredential := \<lambda>_ _. (SUCCESS, [])\<rparr>\<rparr>)
     (default_widget_para 12) ((InitAuthParam w_auth_param)\<lparr>pi_skipLockedBiometricAuth := True\<rparr>)
     \<lparr>wp_title = [65], wp_navigationButtonText = [], wp_windowMode = UNKNOWN_WINDOW_MODE, wp_hasContext = False\<rparr>
     [FACE, PIN] = (SUCCESS, [PIN], para', log) \<and> wc_authProfileMap para' PIN \<noteq> None"
proof -
  let ?e = "w_profile_env\<lparr>pe_users := w_user_engine\<lparr>ue_getCredential := \<lambda>_ _. (SUCCESS, [])\<rparr>\<rparr>"
  let ?a = "(InitAuthParam w_auth_param)\<lparr>pi_skipLockedBiometricAuth := True\<rparr>"
  let ?w = "\<lparr>wp_title = [65], wp_navigationButtonText = [], wp_windowMode = UNKNOWN_WINDOW_MODE, wp_hasContext = False\<rparr>"
  have none: "GetUserAuthProfile ?e u t p (pi_credentialIdList ?a) = (NOT_ENROLLED, p, [])" for u t p
    by (simp add: GetUserAuthProfile_def GetAuthCredentialList_def GetCredentialInfo_def InitAuthParam_def w_auth_param_def)
  have "\<exists>para' log. CheckSkipLockedBiometricAuth ?e (default_widget_para 12) ?a ?w [FACE, PIN] = (SUCCESS, [PIN], para', log)"
    using none by (simp add: CheckSkipLockedBiometricAuth_def AuthProfile_default_def)
  then obtain para' log where run: "CheckSkipLockedBiometricAuth ?e (default_widget_para 12) ?a ?w [FACE, PIN] = (SUCCESS, [PIN], para', log)"
    by blast
  from locked_biometrics_skipped [OF this] run show ?thesis by (auto simp: usable_def)
qed

lemma reuse_built: "fst (SetReuseUnlockResult v empty_reuse_info Attributes_new) = SUCCESS"
  using set_all_adds [of "[SetUint8ArrayValue ATTR_SIGNATURE [], SetInt32Value ATTR_AUTH_TYPE 0,
      SetInt32Value ATTR_RESULT_CODE SUCCESS, SetUint64Value ATTR_CREDENTIAL_DIGEST 0,
      SetUint16Value ATTR_CREDENTIAL_COUNT 0]" 0 Attributes_new]
  by (simp add: SetReuseUnlockResult_def empty_reuse_info_def attr_len_new MAX_ATTR_COUNT_def split_beta del: set_all.simps)

lemma immediate_success_is_reuse_witness:
  "\<exists>s' (para :: widget_para). UserAuth_AuthWidget w_auth_env 12 w_auth_param
      \<lparr>wp_title = [65], wp_navigationButtonText = [], wp_windowMode = UNKNOWN_WINDOW_MODE, wp_hasContext = False\<rparr>
      True False 0 w_auth = (SUCCESS, 1, s') \<and> reusable w_profile_env (wc_userId para) w_auth_param"
proof -
  let ?w = "\<lparr>wp_title = [65], wp_navigationButtonText = [], wp_windowMode = UNKNOWN_WINDOW_MODE, wp_hasContext = False\<rparr>"
  obtain cb where cb: "Widget_GetAuthContextCallback w_auth_env 12 (InitAuthParam w_auth_param) ?w True = Some cb"
    using Widget_GetAuthContextCallback_new(1) by (metis option.exhaust)
  obtain para where info: "GetCallerInfo w_idm_caller True 100 (default_widget_para 12) = (SUCCESS, para)"
    by (simp add: GetCallerInfo_def split_beta Let_def)
  have iam: "cb_iamCallback (widget_traced SUCCESS para cb)"
    using Widget_GetAuthContextCallback_new(3) [OF cb] by (simp add: new_callback_answers [of TRACE_AUTH_USER_BEHAVIOR])
  have bg: "\<not> wc_isBackgroundApplication para \<or> CheckPermission w_idm_caller USER_AUTH_FROM_BACKGROUND"
    by (simp add: w_idm_caller_def CheckDirectCallerAndFirstCallerIfSet_def GetTokenId_def Let_def)
  have "GetUtf8CharCount [65] \<le> 1" "GetUtf8CharCount [] = 0" using count_bounds [of "[65]"] by simp_all
  then have check: "Widget_CheckPermissionAndParam w_idm_caller (InitAuthParam w_auth_param) ?w (wc_isBackgroundApplication para) = SUCCESS"
    using bg w_auth_permissions
    by (simp add: Widget_CheckPermissionAndParam_def CheckWindowMode_def CheckCallerPermissionForPrivatePin_def
        CheckCallerPermissionForUserId_def CheckAuthWidgetType_def CheckAuthTrustLevel_def CheckAuthWidgetParam_def
        CheckAuthTypeOnly_def InitAuthParam_def w_auth_param_def del: CheckPermission.simps GetUtf8CharCount.simps)
  have query: "CheckReuseUnlockResult w_profile_env x (InitAuthParam w_auth_param) Attributes_new =
      SetReuseUnlockResult (wc_sdkVersion x) empty_reuse_info Attributes_new" for x
    by (simp add: CheckReuseUnlockResult_def QueryReusableAuthResult_def InitAuthParam_def w_auth_param_def w_profile_env_def)
  define para' where "para' = (if CheckPermission w_idm_caller ENTERPRISE_MANAGE_SECURITY
    then para\<lparr>wc_callerPermissions := wc_callerPermissions para OR 1\<rparr> else para)"
  have "iap_isUserIdSpecified w_auth_param" "iap_userId w_auth_param = 100" by (simp_all add: w_auth_param_def)
  then have "GetCallerInfo (ae_caller w_auth_env) (iap_isUserIdSpecified w_auth_param) (iap_userId w_auth_param)
      (default_widget_para 12) = (SUCCESS, para)" using info by simp
  note eq = AuthWidget_eq [OF cb this, simplified w_auth_env_simps, OF para'_def surjective_pairing refl refl]
  have "\<exists>s'. UserAuth_AuthWidget w_auth_env 12 w_auth_param ?w True False 0 w_auth = (SUCCESS, 1, s') \<and> successes s' \<noteq> successes w_auth"
    using reuse_built iam unfolding eq by (simp add: check answer_successes query REUSE_AUTH_RESULT_CONTEXT_ID_def)
  then obtain s' where s': "UserAuth_AuthWidget w_auth_env 12 w_auth_param ?w True False 0 w_auth = (SUCCESS, 1, s')"
    "successes s' \<noteq> successes w_auth" by blast
  from immediate_success_is_reuse [OF this] s'(1) show ?thesis by auto
qed

lemma remote_param_complete_witness:
  "\<exists>p'. CompleteRemoteAuthParam w_idm_caller \<lparr>rm_verifierNetworkId = Some (replicate 64 8), rm_collectorNetworkId = None,
     rm_collectorTokenId = None\<rparr> (replicate 64 7) = (True, p') \<and> rm_collectorTokenId p' = Some 5"
proof -
  have "\<exists>p'. CompleteRemoteAuthParam w_idm_caller \<lparr>rm_verifierNetworkId = Some (replicate 64 8), rm_collectorNetworkId = None,
     rm_collectorTokenId = None\<rparr> (replicate 64 7) = (True, p')"
    by (simp add: CompleteRemoteAuthParam_def)
  then show ?thesis using remote_param_complete by fastforce
qed

lemma death_recipients_registered_witness:
  "callbacks_wf (fold auth_happens [CallbackDied w_auth_env 5, Served w_auth_env (NoticeRequest 1 [])] w_auth)"
  by (rule death_recipients_registered) (simp add: callbacks_wf_def w_auth_def)

end
