(* ===== verification/Sudo_Auth_Witness.thy ===== *)
theory Sudo_Auth_Witness
  imports Sudo_Auth_Properties User_Auth_Witness
begin

text \<open>
  The properties of the sudo authentication at work: one user with one PIN whose executor answers with the number of
  tries left and the freezing time.
\<close>

definition w_pin_reply :: "i32 \<Rightarrow> i32 \<Rightarrow> bytes" where
  "w_pin_reply remain freezing = Serialize (snd (set_all (puts
     [(ATTR_PIN_SUB_TYPE, EncodeInt32Value 10000), (ATTR_REMAIN_TIMES, EncodeInt32Value remain),
      (ATTR_FREEZING_TIME, EncodeInt32Value freezing)]) Attributes_new))"

definition w_sudo_env :: "i32 \<Rightarrow> i32 \<Rightarrow> sudo_env" where
  "w_sudo_env remain freezing = \<lparr>sv_profile = w_profile_env\<lparr>pe_reply := \<lambda>_ _. w_pin_reply remain freezing,
       pe_pool := w_pool\<lparr>rp_map := [(1, (1, Some 0))]\<rparr>\<rparr>,
     sv_draws = (\<lambda>_. Some 77), sv_createTime = 1, sv_callback = ae_callback w_auth_env\<rparr>"

definition w_sudo_ctx :: sudo_auth_context where
  "w_sudo_ctx = SudoAuthContext 9 \<lparr>sp_userId = 100, sp_tokenId = 5, sp_sdkVersion = 12, sp_callerType = 0,
     sp_callerName = [], sp_challenge = [1], sp_atl = ATL1, sp_additionalInfo = [65], sp_isOsAccountVerified = True,
     sp_needSubscribeAppState = False\<rparr> True initial_pool"

lemma w_sudo_fresh: "fresh_sudo w_sudo_ctx" "bc_callback w_sudo_ctx"
  by (simp_all add: fresh_sudo_def w_sudo_ctx_def SudoAuthContext_def BaseContext_def base_context.defs
      sudo_auth_context.defs initial_pool_def)

text \<open>A row of short attributes survives its serialisation.\<close>

lemma puts_survive:
  assumes "set_all (puts kds) (Some Impl_empty) = (True, a)" "length kds \<le> MAX_ATTR_COUNT"
    and "\<And>k v. (k, Some v) \<in> set kds \<Longrightarrow> length v \<le> MAX_ATTR_LENGTH"
  shows "Attributes_of_raw (Serialize a) = a"
proof -
  have "length (amap Impl_empty) + length kds \<le> MAX_ATTR_COUNT" using assms(2) by (simp add: Impl_empty_def)
  then have "\<exists>t. a = Some t \<and> attr_wf t \<and> length (amap t) \<le> length (amap Impl_empty) + length kds"
    by (rule puts_wf [OF assms(1) attr_wf_empty]) (rule assms(3))
  then show ?thesis by (auto simp: wf_survives)
qed

lemma w_pin_reads:
  "GetInt32Value ATTR_PIN_SUB_TYPE (Attributes_of_raw (w_pin_reply r f)) = Some 10000"
  "GetInt32Value ATTR_REMAIN_TIMES (Attributes_of_raw (w_pin_reply r f)) = Some r"
  "GetInt32Value ATTR_FREEZING_TIME (Attributes_of_raw (w_pin_reply r f)) = Some f"
  "GetInt32Value ATTR_NEXT_FAIL_LOCKOUT_DURATION (Attributes_of_raw (w_pin_reply r f)) = None"
proof -
  let ?kds = "[(ATTR_PIN_SUB_TYPE, EncodeInt32Value 10000), (ATTR_REMAIN_TIMES, EncodeInt32Value r),
    (ATTR_FREEZING_TIME, EncodeInt32Value f)]"
  obtain a where a: "set_all (puts ?kds) (Some Impl_empty) = (True, a)"
    by (simp add: with_impl_def store_value_def EncodeInt32Value_def Impl_empty_def MAX_ATTR_COUNT_def)
  have short: "\<And>k v. (k, Some v) \<in> set ?kds \<Longrightarrow> length v \<le> MAX_ATTR_LENGTH"
    using encoded_short(1) [OF sym] by (auto simp: MAX_ATTR_LENGTH_def)
  have raw: "Attributes_of_raw (w_pin_reply r f) = a"
    using puts_survive [OF a _ short] a by (simp add: w_pin_reply_def Attributes_new_def MAX_ATTR_COUNT_def)
  show "GetInt32Value ATTR_PIN_SUB_TYPE (Attributes_of_raw (w_pin_reply r f)) = Some 10000"
    "GetInt32Value ATTR_REMAIN_TIMES (Attributes_of_raw (w_pin_reply r f)) = Some r"
    "GetInt32Value ATTR_FREEZING_TIME (Attributes_of_raw (w_pin_reply r f)) = Some f"
    unfolding raw by (rule encoded_reads, use puts_read [OF a] in simp)+
  have "attr_at ATTR_NEXT_FAIL_LOCKOUT_DURATION None a"
    by (rule puts_leave [OF a]) (use attr_new in \<open>simp_all add: Attributes_new_def\<close>)
  then show "GetInt32Value ATTR_NEXT_FAIL_LOCKOUT_DURATION (Attributes_of_raw (w_pin_reply r f)) = None"
    unfolding raw by (simp add: attr_get_Int32)
qed

lemma w_pin_profile:
  "\<exists>calls. GetUserAuthProfile (sv_profile (w_sudo_env r f)) u PIN AuthProfile_default [] =
     (SUCCESS, AuthProfile_default\<lparr>pr_pinSubType := 10000, pr_remainTimes := r, pr_freezingTime := f\<rparr>, calls)"
  by (simp add: GetUserAuthProfile_def GetAuthCredentialList_def GetCredentialInfo_def w_sudo_env_def w_profile_env_def
      w_user_engine_def w_cred_def CredentialInfoImpl_def pool_Select_def w_pool_def Let_def GetProperty_def
      call_executor_def w_pin_reads Helper_ParseAttributes_def read_into_def AuthProfile_default_def)

lemma w_sudo_launched:
  assumes "sint f \<le> 0" "r \<noteq> 1"
  shows "su_phase (start_task (Sudo_OnStart (w_sudo_env r f)) w_sudo_ctx) = PHASE_RUN"
    and "\<not> su_stopping (start_task (Sudo_OnStart (w_sudo_env r f)) w_sudo_ctx)"
    and "su_phase (snd (Sudo_OnStart (w_sudo_env r f) w_sudo_ctx)) = PHASE_RUN"
proof -
  let ?e = "w_sudo_env r f"
  have run: "fst (Sudo_OnStart ?e c) \<and> su_phase (snd (Sudo_OnStart ?e c)) = PHASE_RUN \<and> \<not> su_stopping (snd (Sudo_OnStart ?e c))"
    if c: "su_pool c = initial_pool" "su_phase c = PHASE_QUERY" "bc_contextId c = 9" "\<not> su_childIsWidget c" "\<not> su_stopping c" for c
  proof -
    obtain calls where p: "GetUserAuthProfile (sv_profile ?e) (sp_userId (su_para c)) PIN AuthProfile_default [] =
       (SUCCESS, AuthProfile_default\<lparr>pr_pinSubType := 10000, pr_remainTimes := r, pr_freezingTime := f\<rparr>, calls)"
      using w_pin_profile by blast
    let ?c = "ctx_emit (ExecutorsCalled calls) c"
    have "\<exists>q. LaunchChild child v ?c = (True, q)" for child v
      using c by (auto simp: LaunchChild_def Let_def Pool_Schedule_def initial_pool_def SelectLocked_def MAX_CONTEXT_NUM_def)
    then obtain q where q: "StartSilentChild ?e ?c = (True, q)"
      unfolding StartSilentChild_def CreateSimpleAuthContext_def BuildChildCallback_def
      by (simp add: Let_def del: created_views) metis
    have "\<exists>child. launched False child ?c (True, q)"
      using StartSilentChild_launched [of ?c ?e] c q by (auto simp: initial_pool_def)
    then show ?thesis
      using assms c by (auto simp: Sudo_OnStart_def p Let_def DispatchByProfile_def q launched_def)
  qed
  have "su_pool w_sudo_ctx = initial_pool" "su_phase w_sudo_ctx = PHASE_QUERY" "bc_contextId w_sudo_ctx = 9" "\<not> su_childIsWidget w_sudo_ctx"
    "\<not> bc_hasStarted w_sudo_ctx" "\<not> bc_stopRequested w_sudo_ctx" "\<not> su_stopping w_sudo_ctx"
    by (simp_all add: w_sudo_ctx_def SudoAuthContext_def BaseContext_def base_context.defs sudo_auth_context.defs)
  then show "su_phase (start_task (Sudo_OnStart ?e) w_sudo_ctx) = PHASE_RUN" "\<not> su_stopping (start_task (Sudo_OnStart ?e) w_sudo_ctx)"
    "su_phase (snd (Sudo_OnStart ?e w_sudo_ctx)) = PHASE_RUN"
    using run [of w_sudo_ctx] run [of "(Base_Mark S_CONTEXT_START w_sudo_ctx)\<lparr>bc_hasStarted := True\<rparr>"]
    by (simp_all add: start_task_def Base_Start_def split_beta Base_Mark_def ctx_emit_def)
qed

abbreviation (input) w_sudo_running :: sudo_auth_context where
  "w_sudo_running \<equiv> start_task (Sudo_OnStart (w_sudo_env 5 0)) w_sudo_ctx"

lemma w_sudo_run: "sudo_run w_start w_err w_sudo_ctx [SudoStart (w_sudo_env 5 0)] w_sudo_running"
  using sudo_run.run_snoc [OF sudo_run.run_nil sudo_start] by fastforce

lemma w_sudo_running:
  "bc_callback w_sudo_running" "bc_hasStarted w_sudo_running" "results w_sudo_running = []" "\<not> su_stopping w_sudo_running"
  "su_childContextId w_sudo_running \<noteq> None"
  using sudo_run_inv [OF w_sudo_run w_sudo_fresh(1)] sudo_run_follows [OF w_sudo_run] w_sudo_fresh(2) w_sudo_launched(1,2) [of 0 5]
  by (auto simp: sudo_inv_def sudo_follows_def)

lemma sudo_answers_once_witness:
  "su_phase w_sudo_running = PHASE_RUN \<and> (\<exists>child. su_launched w_sudo_running = [child])"
  using sudo_answers_once [OF w_sudo_run w_sudo_fresh(1), of "w_sudo_env 5 0"] w_sudo_running w_sudo_fresh(2) by simp

lemma w_sudo_child: "su_phase w_sudo_running = PHASE_RUN \<Longrightarrow>
    results (SudoChildCallback_OnResult e SUCCESS extra w_sudo_running) =
      (if su_stopping w_sudo_running then [ResultDelivered CANCELED (Attributes_of_raw extra)]
       else [ResultDelivered SUCCESS (Attributes_of_raw extra)])"
  using EndWithResult_ended [of w_sudo_running] w_sudo_running
  by (simp add: SudoChildCallback_OnResult_def OnChildResult_def ended_def)

lemma sudo_success_is_the_childs_witness:
  "\<exists>a ls1 e extra ls2. ResultDelivered SUCCESS a \<in>
       set (results (SudoChildCallback_OnResult (w_sudo_env 5 0) SUCCESS [] w_sudo_running)) \<and>
     [SudoStart (w_sudo_env 5 0), SudoChildResult (w_sudo_env 5 0) SUCCESS []] = ls1 @ SudoChildResult e SUCCESS extra # ls2 \<and>
     a = Attributes_of_raw extra"
proof -
  have run: "sudo_run w_start w_err w_sudo_ctx [SudoStart (w_sudo_env 5 0), SudoChildResult (w_sudo_env 5 0) SUCCESS []]
      (SudoChildCallback_OnResult (w_sudo_env 5 0) SUCCESS [] w_sudo_running)"
    using sudo_run.run_snoc [OF w_sudo_run sudo_child] by fastforce
  have "ResultDelivered SUCCESS (Attributes_of_raw []) \<in>
      set (results (SudoChildCallback_OnResult (w_sudo_env 5 0) SUCCESS [] w_sudo_running))"
    using w_sudo_child w_sudo_launched(1) [of 0 5] w_sudo_running(4) by simp
  from sudo_success_is_the_childs [OF run w_sudo_fresh(1) _ this] this show ?thesis by auto blast
qed

lemma sudo_stop_is_final_witness:
  "\<exists>c' a. results c' = [ResultDelivered CANCELED a] \<and> sudo_run w_start w_err w_sudo_running
     [SudoStop, SudoChildResult (w_sudo_env 5 0) SUCCESS []] c'"
proof -
  let ?c = "snd (Base_Stop Sudo_OnStop w_sudo_running)"
  let ?c' = "SudoChildCallback_OnResult (w_sudo_env 5 0) SUCCESS [] ?c"
  have run: "sudo_run w_start w_err w_sudo_running [SudoStop, SudoChildResult (w_sudo_env 5 0) SUCCESS []] ?c'"
    using sudo_run.run_snoc [OF sudo_run.run_snoc [OF sudo_run.run_nil sudo_stop] sudo_child] by fastforce
  have ph: "su_phase w_sudo_running = PHASE_RUN" using w_sudo_launched(1) [of 0 5] by simp
  have c: "su_phase ?c = PHASE_RUN" "results ?c = []" "bc_callback ?c"
    using ph w_sudo_running by (auto simp: Base_Stop_def Let_def Sudo_OnStop_def Base_Mark_def ctx_emit_def results_def)
  obtain code a where "ended code a ?c ?c'"
    using OnChildResult_outcome [OF c(1)] unfolding SudoChildCallback_OnResult_def by blast
  then have r: "results ?c' = [ResultDelivered code a]" using c by (simp add: ended_def)
  have "\<exists>a'. ResultDelivered code a = ResultDelivered CANCELED a'"
    by (rule sudo_stop_is_final [OF w_sudo_run w_sudo_fresh(1) w_sudo_running(3) run]) (simp_all add: r)
  then show ?thesis using r run by auto
qed

lemma sudo_child_runs_at_once_witness:
  "\<exists>i v. (i, v) \<in> set (cp_running (su_pool (snd (Sudo_OnStart (w_sudo_env 5 0) w_sudo_ctx)))) \<and> cx_contextId v = i"
proof -
  have "pool_run w_start w_err initial_pool [] (su_pool w_sudo_ctx)" "su_phase w_sudo_ctx = PHASE_QUERY"
    using pool_run.run_nil
    by (simp_all add: w_sudo_ctx_def SudoAuthContext_def BaseContext_def base_context.defs sudo_auth_context.defs)
  from sudo_child_runs_at_once [OF this refl, of "w_sudo_env 5 0"] w_sudo_launched(3) [of 0 5] show ?thesis by auto
qed

lemma sudo_lockout_reported_witness:
  "\<exists>a. results (snd (Sudo_OnStart (w_sudo_env 0 60) w_sudo_ctx)) = [ResultDelivered LOCKED a] \<and>
     GetInt32Value ATTR_FREEZING_TIME a = Some 60"
proof -
  have i: "su_phase w_sudo_ctx = PHASE_QUERY" "results w_sudo_ctx = []"
    by (simp_all add: w_sudo_ctx_def SudoAuthContext_def BaseContext_def base_context.defs sudo_auth_context.defs results_def)
  obtain calls where p: "GetUserAuthProfile (sv_profile (w_sudo_env 0 60)) (sp_userId (su_para w_sudo_ctx)) PIN AuthProfile_default [] =
     (SUCCESS, AuthProfile_default\<lparr>pr_pinSubType := 10000, pr_remainTimes := 0, pr_freezingTime := 60\<rparr>, calls)"
    using w_pin_profile by blast
  from sudo_lockout_reported [OF p _ w_sudo_fresh(2)] i show ?thesis by (auto simp: says_locked_def)
qed

end
