(* ===== verification/Widget_Json.thy ===== *)
theory Widget_Json
  imports Auth_Factory "HOL-Library.List_Lexorder"
begin

text \<open>
  What the service and the widget, the dialogue that shows an authentication, say to each other:
  \<^verbatim>\<open>services/context/src/widget_json.cpp\<close>. A notice comes from the widget and a command goes to it, both as JSON text. The
  text is parsed and printed by the JSON library, whose values are the type \<open>json\<close> here; a number is given by its value
  truncated towards zero, which is all that the conversions to integers read. The members of an object are kept in
  a list and visited in the order of their keys, as the library's map is.
\<close>

section \<open>Values\<close>

datatype json =
    JNull
  | JBool bool
  | JNumber int
  | JString bytes
  | JArray "json list"
  | JObject "(bytes \<times> json) list"

definition text_of :: "string \<Rightarrow> bytes" where
  "text_of s = map of_char s"

fun json_find :: "bytes \<Rightarrow> json \<Rightarrow> json option" where
  "json_find k (JObject ob) = map_of ob k"
| "json_find k _ = None"

fun json_set :: "bytes \<Rightarrow> json \<Rightarrow> json \<Rightarrow> json" where
  "json_set k v (JObject ob) = JObject (umap_assign k v ob)"
| "json_set k v _ = JObject [(k, v)]"

definition json_items :: "(bytes \<times> json) list \<Rightarrow> (bytes \<times> json) list" where
  "json_items ob = sort_key fst ob"

definition json_bool :: "bool \<Rightarrow> json" where
  "json_bool b = JBool b"

definition json_int :: "'a::len word \<Rightarrow> json" where
  "json_int w = JNumber (sint w)"

definition json_uint :: "'a::len word \<Rightarrow> json" where
  "json_uint w = JNumber (uint w)"

definition json_bytes :: "bytes \<Rightarrow> json" where
  "json_bytes bs = JArray (map json_uint bs)"

definition json_texts :: "bytes list \<Rightarrow> json" where
  "json_texts ts = JArray (map JString ts)"

lemma of_char_byte: "(of_char c :: u8) = of_nat (of_char c)"
  by (simp add: of_char_def)

lemma of_char_u8_inject [simp]: "(of_char c :: u8) = of_char d \<longleftrightarrow> c = d"
proof
  assume "(of_char c :: u8) = of_char d"
  then have "unat (of_nat (of_char c) :: u8) = unat (of_nat (of_char d) :: u8)"
    by (simp only: of_char_byte)
  then have "(of_char c :: nat) = of_char d" by (simp add: unat_of_nat)
  then show "c = d" by simp
qed simp

lemma text_of_inject [simp]: "text_of s = text_of t \<longleftrightarrow> s = t"
  by (auto simp: text_of_def inj_on_def dest!: map_injective)

lemma text_of_Nil [simp]: "text_of s = [] \<longleftrightarrow> s = []" "[] = text_of s \<longleftrightarrow> s = []"
  by (auto simp: text_of_def)

section \<open>Names\<close>

abbreviation (input) AUTH_TYPE_ALL :: i32 where "AUTH_TYPE_ALL \<equiv> 0"
abbreviation (input) PIN_EXPIRED :: i32 where "PIN_EXPIRED \<equiv> 13"
abbreviation (input) MAX_AUTH_TYPE_SIZE :: nat where "MAX_AUTH_TYPE_SIZE \<equiv> 8"

definition Str2AuthType :: "bytes \<Rightarrow> i32" where
  "Str2AuthType strAuthType =
     (if strAuthType = text_of ''all'' then AUTH_TYPE_ALL
      else if strAuthType = text_of ''pin'' then PIN
      else if strAuthType = text_of ''face'' then FACE
      else if strAuthType = text_of ''fingerprint'' then FINGERPRINT
      else if strAuthType = text_of ''privatePin'' then PRIVATE_PIN
      else if strAuthType = text_of ''companionDevice'' then COMPANION_DEVICE
      else if strAuthType = text_of ''enterpriseAccount'' then PIN
      else INVALID_AUTH_TYPE)"

definition AuthType2Str :: "i32 \<Rightarrow> bytes" where
  "AuthType2Str authType =
     (if authType = AUTH_TYPE_ALL then text_of ''all''
      else if authType = PIN then text_of ''pin''
      else if authType = FACE then text_of ''face''
      else if authType = FINGERPRINT then text_of ''fingerprint''
      else if authType = PRIVATE_PIN then text_of ''privatePin''
      else if authType = COMPANION_DEVICE then text_of ''companionDevice''
      else if authType = ENTERPRISE_ACCOUNT then text_of ''enterpriseAccount''
      else [])"

definition WinModeType2Str :: "i32 \<Rightarrow> bytes" where
  "WinModeType2Str winModeType =
     (if winModeType = DIALOG_BOX then text_of ''DIALOG_BOX''
      else if winModeType = FULLSCREEN then text_of ''FULLSCREEN''
      else if winModeType = NONE_INTERRUPTION_DIALOG_BOX then text_of ''NONE_INTERRUPTION_DIALOG_BOX''
      else [])"

definition PinSubType2Str :: "i32 \<Rightarrow> bytes" where
  "PinSubType2Str subType =
     (if subType = 10000 then text_of ''PIN_SIX''
      else if subType = 10001 then text_of ''PIN_NUMBER''
      else if subType = 10002 then text_of ''PIN_MIXED''
      else if subType = 10003 then text_of ''PIN_FOUR''
      else if subType = 10004 then text_of ''PIN_PATTERN''
      else if subType = PIN_MAX then text_of ''PIN_MAX''
      else [])"

section \<open>Notices\<close>

record widget_notice =
  wn_widgetContextId :: u64
  wn_event :: bytes
  wn_orientation :: u32
  wn_needRotate :: u32
  wn_alreadyLoad :: u32
  wn_version :: bytes
  wn_typeList :: "bytes list"
  wn_endAfterFirstFail :: bool
  wn_authIntent :: i32
  wn_tipCode :: i32
  wn_resultCode :: i32
  wn_authToken :: bytes

definition WidgetNotice_default :: widget_notice where
  "WidgetNotice_default = \<lparr>wn_widgetContextId = 0, wn_event = [], wn_orientation = 0, wn_needRotate = 0,
     wn_alreadyLoad = 0, wn_version = [], wn_typeList = [], wn_endAfterFirstFail = False, wn_authIntent = 0,
     wn_tipCode = 0, wn_resultCode = GENERAL_ERROR, wn_authToken = []\<rparr>"

definition Notice_AuthTypeList :: "widget_notice \<Rightarrow> i32 list" where
  "Notice_AuthTypeList notice = map Str2AuthType (wn_typeList notice)"

definition notice_to_json :: "widget_notice \<Rightarrow> json" where
  "notice_to_json notice =
     JObject [(text_of ''widgetContextId'', json_uint (wn_widgetContextId notice)),
       (text_of ''event'', JString (wn_event notice)),
       (text_of ''orientation'', json_uint (wn_orientation notice)),
       (text_of ''needRotate'', json_uint (wn_needRotate notice)),
       (text_of ''alreadyLoad'', json_uint (wn_alreadyLoad notice)),
       (text_of ''version'', JString (wn_version notice)),
       (text_of ''payload'',
        JObject [(text_of ''type'', json_texts (wn_typeList notice)),
          (text_of ''endAfterFirstFail'', json_bool (wn_endAfterFirstFail notice)),
          (text_of ''authIntent'', json_int (wn_authIntent notice)),
          (text_of ''tipCode'', json_int (wn_tipCode notice))])]"

text \<open>The readers: a member that is missing or has another type leaves the target as it is.\<close>

definition get_number :: "string \<Rightarrow> json \<Rightarrow> 'a::len word \<Rightarrow> 'a word" where
  "get_number item js old = (case json_find (text_of item) js of Some (JNumber n) \<Rightarrow> word_of_int n | _ \<Rightarrow> old)"

definition get_text :: "string \<Rightarrow> json \<Rightarrow> bytes \<Rightarrow> bytes" where
  "get_text item js old = (case json_find (text_of item) js of Some (JString s) \<Rightarrow> s | _ \<Rightarrow> old)"

definition get_boolean :: "string \<Rightarrow> json \<Rightarrow> bool \<Rightarrow> bool" where
  "get_boolean item js old = (case json_find (text_of item) js of Some (JBool b) \<Rightarrow> b | _ \<Rightarrow> old)"

fun read_types :: "json list \<Rightarrow> bytes list \<Rightarrow> bytes list" where
  "read_types [] typeList = typeList"
| "read_types (JString s # js) typeList = read_types js (typeList @ [s])"
| "read_types (_ # js) typeList = []"

definition getPayloadFromJson :: "json \<Rightarrow> widget_notice \<Rightarrow> widget_notice" where
  "getPayloadFromJson jsonNotice notice =
     (case json_find (text_of ''payload'') jsonNotice of
        Some (JObject ob) \<Rightarrow>
          let payload = JObject ob;
              rest = (\<lambda>notice. notice
                \<lparr>wn_endAfterFirstFail := get_boolean ''endAfterFirstFail'' payload (wn_endAfterFirstFail notice),
                 wn_authIntent := get_number ''authIntent'' payload (wn_authIntent notice),
                 wn_tipCode := get_number ''tipCode'' payload (wn_tipCode notice)\<rparr>)
          in (case json_find (text_of ''type'') payload of
                Some (JArray js) \<Rightarrow>
                  if length js > MAX_AUTH_TYPE_SIZE then notice
                  else rest (notice\<lparr>wn_typeList := read_types js (wn_typeList notice)\<rparr>)
              | _ \<Rightarrow> rest notice)
      | _ \<Rightarrow> notice)"

text \<open>A conversion to a byte takes numbers and truth values, and throws on everything else.\<close>

fun json_get_byte :: "json \<Rightarrow> u8 option" where
  "json_get_byte (JNumber n) = Some (word_of_int n)"
| "json_get_byte (JBool b) = Some (of_bool b)"
| "json_get_byte _ = None"

fun read_token :: "(bytes \<times> json) list \<Rightarrow> bytes \<Rightarrow> bytes option" where
  "read_token [] authToken = Some authToken"
| "read_token ((k, v) # items) authToken =
     (case json_get_byte v of None \<Rightarrow> None | Some b \<Rightarrow> read_token items (authToken @ [b]))"

text \<open>\<open>None\<close> is an exception of the library.\<close>

definition notice_from_json :: "json \<Rightarrow> widget_notice \<Rightarrow> widget_notice option" where
  "notice_from_json jsonNotice notice =
     (let notice = notice\<lparr>wn_widgetContextId := get_number ''widgetContextId'' jsonNotice (wn_widgetContextId notice),
            wn_event := get_text ''event'' jsonNotice (wn_event notice),
            wn_orientation := get_number ''orientation'' jsonNotice (wn_orientation notice),
            wn_needRotate := get_number ''needRotate'' jsonNotice (wn_needRotate notice),
            wn_alreadyLoad := get_number ''alreadyLoad'' jsonNotice (wn_alreadyLoad notice),
            wn_version := get_text ''version'' jsonNotice (wn_version notice)\<rparr>;
          token = (case json_find (text_of ''authToken'') jsonNotice of
                     Some (JObject ob) \<Rightarrow> read_token (json_items ob) (wn_authToken notice)
                   | _ \<Rightarrow> Some (wn_authToken notice))
      in (case token of
            None \<Rightarrow> None
          | Some authToken \<Rightarrow>
              Some (getPayloadFromJson jsonNotice
                (notice\<lparr>wn_authToken := authToken,
                  wn_resultCode := get_number ''resultCode'' jsonNotice (wn_resultCode notice)\<rparr>))))"

section \<open>Commands\<close>

record command_extra_info =
  ci_callingBundleName :: bytes
  ci_challenge :: bytes

record widget_cmd =
  wd_event :: bytes
  wd_version :: bytes
  wd_type :: bytes
  wd_result :: i32
  wd_lockoutDuration :: i32
  wd_remainAttempts :: i32
  wd_sensorInfo :: bytes
  wd_tipType :: i32
  wd_tipInfo :: bytes
  wd_extraInfo :: command_extra_info

record widget_command =
  wm_widgetContextId :: u64
  wm_typeList :: "bytes list"
  wm_title :: bytes
  wm_pinSubType :: bytes
  wm_windowModeType :: bytes
  wm_navigationButtonText :: bytes
  wm_cmdList :: "widget_cmd list"
  wm_isReload :: i32
  wm_rotateAuthType :: bytes
  wm_callingAppID :: bytes
  wm_callingProcessName :: bytes
  wm_widgetContextIdStr :: bytes
  wm_userId :: i32
  wm_skipLockedBiometricAuth :: bool

record widget_cmd_parameters =
  wz_uiExtensionType :: bytes
  wz_useriamCmdData :: widget_command
  wz_uiExtNodeAngle :: bytes
  wz_sysDialogZOrder :: u32
  wz_focusState :: u32

definition Cmd_default :: widget_cmd where
  "Cmd_default = \<lparr>wd_event = [], wd_version = [], wd_type = [], wd_result = - 1, wd_lockoutDuration = - 1,
     wd_remainAttempts = - 1, wd_sensorInfo = [], wd_tipType = - 1, wd_tipInfo = [],
     wd_extraInfo = \<lparr>ci_callingBundleName = [], ci_challenge = []\<rparr>\<rparr>"

definition WidgetCommand_default :: widget_command where
  "WidgetCommand_default = \<lparr>wm_widgetContextId = 0, wm_typeList = [], wm_title = [], wm_pinSubType = [],
     wm_windowModeType = [], wm_navigationButtonText = [], wm_cmdList = [], wm_isReload = 0, wm_rotateAuthType = [],
     wm_callingAppID = [], wm_callingProcessName = [], wm_widgetContextIdStr = [], wm_userId = - 1,
     wm_skipLockedBiometricAuth = False\<rparr>"

definition WidgetCmdParameters_default :: widget_cmd_parameters where
  "WidgetCmdParameters_default = \<lparr>wz_uiExtensionType = [], wz_useriamCmdData = WidgetCommand_default,
     wz_uiExtNodeAngle = [], wz_sysDialogZOrder = 0, wz_focusState = 1\<rparr>"

definition CMD_NOTIFY_AUTH_START :: bytes where "CMD_NOTIFY_AUTH_START = text_of ''CMD_NOTIFY_AUTH_START''"
definition CMD_NOTIFY_AUTH_RESULT :: bytes where "CMD_NOTIFY_AUTH_RESULT = text_of ''CMD_NOTIFY_AUTH_RESULT''"
definition CMD_NOTIFY_AUTH_TIP :: bytes where "CMD_NOTIFY_AUTH_TIP = text_of ''CMD_NOTIFY_AUTH_TIP''"
definition NOTICE_VERSION_STR :: bytes where "NOTICE_VERSION_STR = text_of ''1''"

definition json_when :: "bool \<Rightarrow> string \<Rightarrow> json \<Rightarrow> json \<Rightarrow> json" where
  "json_when b k v js = (if b then json_set (text_of k) v js else js)"

definition GetJsonPayload :: "widget_cmd \<Rightarrow> json" where
  "GetJsonPayload cmd =
     (let js = json_set (text_of ''type'') (JString (wd_type cmd)) JNull;
          js = json_when (wd_lockoutDuration cmd \<noteq> - 1) ''lockoutDuration'' (json_int (wd_lockoutDuration cmd)) js;
          js = json_when (wd_remainAttempts cmd \<noteq> - 1) ''remainAttempts'' (json_int (wd_remainAttempts cmd)) js;
          js = json_when (wd_event cmd = CMD_NOTIFY_AUTH_RESULT \<or> wd_result cmd = PIN_EXPIRED) ''result''
                 (json_int (wd_result cmd)) js;
          js = json_when (wd_event cmd = CMD_NOTIFY_AUTH_TIP) ''tipType'' (json_int (wd_tipType cmd)) js;
          js = json_when (wd_event cmd = CMD_NOTIFY_AUTH_TIP) ''tipInfo'' (json_bytes (wd_tipInfo cmd)) js;
          js = json_when (wd_sensorInfo cmd \<noteq> []) ''sensorInfo'' (JString (wd_sensorInfo cmd)) js
      in json_set (text_of ''extraInfo'')
           (JObject [(text_of ''challenge'', json_bytes (ci_challenge (wd_extraInfo cmd))),
              (text_of ''callingBundleName'', JString (ci_callingBundleName (wd_extraInfo cmd)))]) js)"

definition GetJsonCmd :: "widget_command \<Rightarrow> json" where
  "GetJsonCmd command =
     (let jsonCmdList = map (\<lambda>cmd. JObject [(text_of ''event'', JString (wd_event cmd)),
            (text_of ''version'', JString (wd_version cmd)), (text_of ''payload'', GetJsonPayload cmd)])
            (wm_cmdList command);
          js = JObject [(text_of ''widgetContextId'', json_uint (wm_widgetContextId command)),
                 (text_of ''type'', json_texts (wm_typeList command)),
                 (text_of ''title'', JString (wm_title command)),
                 (text_of ''cmd'', JArray jsonCmdList),
                 (text_of ''widgetContextIdStr'', JString (wm_widgetContextIdStr command))];
          js = json_when (wm_pinSubType command \<noteq> []) ''pinSubType'' (JString (wm_pinSubType command)) js;
          js = json_when (wm_windowModeType command \<noteq> []) ''windowModeType'' (JString (wm_windowModeType command)) js;
          js = json_when (wm_navigationButtonText command \<noteq> []) ''navigationButtonText''
                 (JString (wm_navigationButtonText command)) js;
          js = json_set (text_of ''isReload'') (json_int (wm_isReload command)) js;
          js = json_set (text_of ''rotateAuthType'') (JString (wm_rotateAuthType command)) js;
          js = json_set (text_of ''callingAppID'') (JString (wm_callingAppID command)) js;
          js = json_set (text_of ''callingProcessName'') (JString (wm_callingProcessName command)) js;
          js = json_set (text_of ''userId'') (json_int (wm_userId command)) js
      in json_set (text_of ''skipLockedBiometricAuth'') (json_bool (wm_skipLockedBiometricAuth command)) js)"

definition parameters_to_json :: "widget_cmd_parameters \<Rightarrow> json" where
  "parameters_to_json p =
     JObject [(text_of ''ability.want.params.uiExtensionType'', JString (wz_uiExtensionType p)),
       (text_of ''sysDialogZOrder'', json_uint (wz_sysDialogZOrder p)),
       (text_of ''ability.want.params.uiExtNodeAngle'', JString (wz_uiExtNodeAngle p)),
       (text_of ''focusState'', json_uint (wz_focusState p)),
       (text_of ''isEnableRotate'', json_uint (0 :: u32)),
       (text_of ''useriamCmdData'', GetJsonCmd (wz_useriamCmdData p))]"

section \<open>The configuration file\<close>

text \<open>
  The file is an array of objects. The first object that has the key decides; an entry that is no object ends the search
  with an error.
\<close>

fun json_string :: "json \<Rightarrow> bytes option" where
  "json_string (JString s) = Some s"
| "json_string _ = None"

fun string_array_in :: "bytes \<Rightarrow> json list \<Rightarrow> bytes list \<Rightarrow> bool \<times> bytes list" where
  "string_array_in key [] infos = (True, infos)"
| "string_array_in key (JObject ob # js) infos =
     (case map_of ob key of
        Some (JArray vs) \<Rightarrow>
          if None \<in> set (map json_string vs) then (False, infos) else (True, map (the \<circ> json_string) vs)
      | _ \<Rightarrow> string_array_in key js infos)"
| "string_array_in key (_ # js) infos = (False, infos)"

fun GetStringArrayFromJson :: "json \<Rightarrow> bytes list \<Rightarrow> string \<Rightarrow> bool \<times> bytes list" where
  "GetStringArrayFromJson (JArray js) infos key = string_array_in (text_of key) js infos"
| "GetStringArrayFromJson _ infos key = (False, infos)"

fun string_in :: "bytes \<Rightarrow> json list \<Rightarrow> bytes \<Rightarrow> bool \<times> bytes" where
  "string_in key [] info = (False, info)"
| "string_in key (JObject ob # js) info =
     (case map_of ob key of Some (JString s) \<Rightarrow> (True, s) | _ \<Rightarrow> string_in key js info)"
| "string_in key (_ # js) info = (False, info)"

fun GetStringFromJson :: "json \<Rightarrow> bytes \<Rightarrow> string \<Rightarrow> bool \<times> bytes" where
  "GetStringFromJson (JArray js) info key = string_in (text_of key) js info"
| "GetStringFromJson _ info key = (False, info)"

definition GetSceneboardBundleName :: "json \<Rightarrow> bytes \<Rightarrow> bool \<times> bytes" where
  "GetSceneboardBundleName jsonBuf processName = GetStringFromJson jsonBuf processName ''sceneboard_bundle_name''"

definition GetSceneboardAbilityName :: "json \<Rightarrow> bytes \<Rightarrow> bool \<times> bytes" where
  "GetSceneboardAbilityName jsonBuf processName = GetStringFromJson jsonBuf processName ''sceneboard_ability_name''"

definition Config_GetProcessName :: "json \<Rightarrow> bytes list \<Rightarrow> bool \<times> bytes list" where
  "Config_GetProcessName jsonBuf processName = GetStringArrayFromJson jsonBuf processName ''show_with_level_2_window''"

definition GetFollowCallerList :: "json \<Rightarrow> bytes list \<Rightarrow> bool \<times> bytes list" where
  "GetFollowCallerList jsonBuf processName =
     GetStringArrayFromJson jsonBuf processName ''follow_caller_window_when_folded''"

definition GetAlwaysSupportFollowCallerUi :: "json \<Rightarrow> bytes list \<Rightarrow> bool \<times> bytes list" where
  "GetAlwaysSupportFollowCallerUi jsonBuf processName =
     GetStringArrayFromJson jsonBuf processName ''always_support_follow_caller_ui''"

section \<open>What the two sides understand\<close>

text \<open>
  Also shown: the names of the authentication types are read back as they were written, for every type that has a name
  but one: \<^verbatim>\<open>enterpriseAccount\<close> is read as a PIN. Nothing else is read as a type.
\<close>

theorem auth_type_names:
  "Str2AuthType (AuthType2Str t) =
     (if t \<in> {AUTH_TYPE_ALL, PIN, FACE, FINGERPRINT, PRIVATE_PIN, COMPANION_DEVICE} then t
      else if t = ENTERPRISE_ACCOUNT then PIN else INVALID_AUTH_TYPE)"
  by (auto simp: AuthType2Str_def Str2AuthType_def)

text \<open>A number of the word's own range is read back.\<close>

lemma json_number [simp]: "word_of_int (sint w) = w" "word_of_int (uint w) = w"
  by simp_all

lemma read_types_texts [simp]: "read_types (map JString ts) acc = acc @ ts"
  by (induction ts arbitrary: acc) auto

lemma notice_members [simp]:
  "json_find (text_of k) (JObject ((text_of k', v) # ob)) =
     (if k = k' then Some v else json_find (text_of k) (JObject ob))"
  "json_find key (JObject []) = None"
  by simp_all

text \<open>
  Also shown: a notice that is written and read again is the notice, but for its result code and its token, which
  the writer leaves out.
\<close>

theorem notice_roundtrip:
  assumes "length (wn_typeList n) \<le> MAX_AUTH_TYPE_SIZE"
  shows "notice_from_json (notice_to_json n) WidgetNotice_default =
     Some (n\<lparr>wn_resultCode := GENERAL_ERROR, wn_authToken := []\<rparr>)"
  using assms
  by (cases n)
    (simp add: notice_from_json_def notice_to_json_def getPayloadFromJson_def get_number_def get_text_def get_boolean_def
      WidgetNotice_default_def json_uint_def json_int_def json_bool_def json_texts_def Let_def del: json_find.simps)

lemma notice_roundtrip_witness:
  "notice_from_json (notice_to_json (WidgetNotice_default\<lparr>wn_widgetContextId := 7, wn_typeList := [text_of ''pin'']\<rparr>))
     WidgetNotice_default = Some (WidgetNotice_default\<lparr>wn_widgetContextId := 7, wn_typeList := [text_of ''pin'']\<rparr>)"
  using notice_roundtrip [of "WidgetNotice_default\<lparr>wn_widgetContextId := 7, wn_typeList := [text_of ''pin'']\<rparr>"]
  by (simp add: WidgetNotice_default_def)

text \<open>An array of bytes as JSON prints a byte array of the widget's language: an object with the indices as keys.\<close>

definition token_object :: "bytes \<Rightarrow> json" where
  "token_object token = JObject (map (\<lambda>(i, b). (text_of (decimal i), json_uint b)) (enumerate 0 token))"

text \<open>
  Also shown: the members of a token are read in the order of their keys as texts: the eleventh byte, whose key is 10, is
  read as the third.
\<close>

theorem token_read_in_key_order:
  "notice_from_json (JObject [(text_of ''authToken'', token_object [b0, b1, b2, b3, b4, b5, b6, b7, b8, b9, b10])])
     WidgetNotice_default =
     Some (WidgetNotice_default\<lparr>wn_authToken := [b0, b1, b10, b2, b3, b4, b5, b6, b7, b8, b9]\<rparr>)"
proof -
  have keys: "map (\<lambda>(i, b). (text_of (decimal i), json_uint b)) (enumerate 0 [b0, b1, b2, b3, b4, b5, b6, b7, b8, b9, b10]) =
      [([48], json_uint b0), ([49], json_uint b1), ([50], json_uint b2), ([51], json_uint b3), ([52], json_uint b4),
       ([53], json_uint b5), ([54], json_uint b6), ([55], json_uint b7), ([56], json_uint b8), ([57], json_uint b9),
       ([49, 48], json_uint b10)]"
    by (simp add: text_of_def decimal.simps)
  have "json_items [([48], json_uint b0), ([49], json_uint b1), ([50], json_uint b2), ([51], json_uint b3),
       ([52], json_uint b4), ([53], json_uint b5), ([54], json_uint b6), ([55], json_uint b7), ([56], json_uint b8),
       ([57], json_uint b9), ([49, 48], json_uint b10)] =
     [([48], json_uint b0), ([49], json_uint b1), ([49, 48], json_uint b10), ([50], json_uint b2), ([51], json_uint b3),
       ([52], json_uint b4), ([53], json_uint b5), ([54], json_uint b6), ([55], json_uint b7), ([56], json_uint b8),
       ([57], json_uint b9)]"
    by (simp add: json_items_def)
  then show ?thesis
    unfolding token_object_def keys
    by (simp add: notice_from_json_def get_number_def get_text_def getPayloadFromJson_def WidgetNotice_default_def
        json_uint_def Let_def)
qed

end
