(* ===== verification/Widget_Node.thy ===== *)
theory Widget_Node
  imports Schedule_Runs
begin

text \<open>
  The node that drives a widget authentication, \<^verbatim>\<open>services/core/src/widget_schedule_node_impl.cpp\<close>: a finite state machine
  whose events are the wishes of the widget, of the child authentications and of the context, and whose actions call
  the context. Every operation notes its arguments in the node and queues one event; an action reads what was noted
  last. The call an action makes is a value here, \<open>widget_call\<close>; the context gives it its meaning.
\<close>

section \<open>Data\<close>

abbreviation (input) S_WIDGET_INIT :: u32 where "S_WIDGET_INIT \<equiv> 0"
abbreviation (input) S_WIDGET_WAITING :: u32 where "S_WIDGET_WAITING \<equiv> 1"
abbreviation (input) S_WIDGET_AUTH_RUNNING :: u32 where "S_WIDGET_AUTH_RUNNING \<equiv> 2"
abbreviation (input) S_WIDGET_AUTH_FINISHED :: u32 where "S_WIDGET_AUTH_FINISHED \<equiv> 3"
abbreviation (input) S_WIDGET_RELOAD_WAITING :: u32 where "S_WIDGET_RELOAD_WAITING \<equiv> 4"
abbreviation (input) S_WIDGET_RELEASED :: u32 where "S_WIDGET_RELEASED \<equiv> 5"
abbreviation (input) S_WIDGET_PARAM_WAITING :: u32 where "S_WIDGET_PARAM_WAITING \<equiv> 6"

abbreviation (input) EW_START_WIDGET :: u32 where "EW_START_WIDGET \<equiv> 0"
abbreviation (input) EW_START_AUTH :: u32 where "EW_START_AUTH \<equiv> 1"
abbreviation (input) EW_UPDATE_AUTH :: u32 where "EW_UPDATE_AUTH \<equiv> 2"
abbreviation (input) EW_CANCEL_AUTH :: u32 where "EW_CANCEL_AUTH \<equiv> 3"
abbreviation (input) EW_COMPLETE_AUTH :: u32 where "EW_COMPLETE_AUTH \<equiv> 4"
abbreviation (input) EW_NAVI_PIN_AUTH :: u32 where "EW_NAVI_PIN_AUTH \<equiv> 5"
abbreviation (input) EW_WIDGET_PARA_INVALID :: u32 where "EW_WIDGET_PARA_INVALID \<equiv> 6"
abbreviation (input) EW_WIDGET_RELOAD :: u32 where "EW_WIDGET_RELOAD \<equiv> 7"
abbreviation (input) EW_STOP_AUTH :: u32 where "EW_STOP_AUTH \<equiv> 8"
abbreviation (input) EW_WIDGET_RELEASE :: u32 where "EW_WIDGET_RELEASE \<equiv> 9"
abbreviation (input) EW_START_DIRECT_AUTH :: u32 where "EW_START_DIRECT_AUTH \<equiv> 10"
abbreviation (input) EW_GET_REMOTE_AUTH_PARAM :: u32 where "EW_GET_REMOTE_AUTH_PARAM \<equiv> 11"
abbreviation (input) EW_NOTICE_COMPLETE_AUTH :: u32 where "EW_NOTICE_COMPLETE_AUTH \<equiv> 12"

datatype widget_action =
    OnGetRemoteAuthParam | OnStartSchedule | OnStartDirectAuth | OnWidgetRelease | OnStartAuth | OnStopSchedule
  | OnNaviPinAuth | OnSendAuthResult | OnWidgetParaInvalid | OnWidgetReloadInit | OnSuccessAuth | OnFailAuth
  | OnStopAuthList | OnWidgetReload

text \<open>\<^verbatim>\<open>runningAuthTypeSet_\<close> is a \<^verbatim>\<open>std::set\<close>: a list that ascends.\<close>

record widget_node =
  wnd_machine :: "widget_action fsm"
  wnd_successAuthType :: i32
  wnd_failAuthType :: i32
  wnd_startAuthTypeList :: "i32 list"
  wnd_endAfterFirstFail :: bool
  wnd_stopAuthTypeList :: "i32 list"
  wnd_runningAuthTypeSet :: "i32 list"
  wnd_orientation :: u32
  wnd_needRotate :: u32
  wnd_alreadyLoad :: u32
  wnd_rotateAuthType :: i32
  wnd_authIntent :: i32
  wnd_resultCode :: i32
  wnd_authToken :: bytes

datatype widget_call =
    CallGetRemoteAuthParam
  | CallLaunchWidget
  | CallExecuteAuthList "i32 list" bool i32
  | CallStopAuthList "i32 list"
  | CallEndAuthAsCancel
  | CallEndAuthAsNaviPin
  | CallEndAuthAsWidgetParaInvalid
  | CallAuthWidgetReloadInit
  | CallAuthWidgetReload u32 u32 u32 i32
  | CallOnAuthSuccess i32
  | CallOnAuthFail i32
  | CallOnScheduleAuthResult i32 i32 bytes
  | CallClearSchedule

section \<open>The machine\<close>

definition BuildInitStateTransitions :: "widget_action fsm_builder \<Rightarrow> widget_action fsm_builder" where
  "BuildInitStateTransitions b =
     (let b = MakeTransition S_WIDGET_INIT EW_GET_REMOTE_AUTH_PARAM S_WIDGET_PARAM_WAITING (Some OnGetRemoteAuthParam) b;
          b = MakeTransition S_WIDGET_INIT EW_START_WIDGET S_WIDGET_WAITING (Some OnStartSchedule) b;
          b = MakeTransition S_WIDGET_INIT EW_START_DIRECT_AUTH S_WIDGET_AUTH_RUNNING (Some OnStartDirectAuth) b
      in MakeTransition S_WIDGET_INIT EW_WIDGET_RELEASE S_WIDGET_RELEASED (Some OnWidgetRelease) b)"

definition BuildWaitingStateTransitions :: "widget_action fsm_builder \<Rightarrow> widget_action fsm_builder" where
  "BuildWaitingStateTransitions b =
     (let b = MakeTransition S_WIDGET_WAITING EW_START_AUTH S_WIDGET_AUTH_RUNNING (Some OnStartAuth) b;
          b = MakeTransition S_WIDGET_WAITING EW_CANCEL_AUTH S_WIDGET_AUTH_FINISHED (Some OnStopSchedule) b;
          b = MakeTransition S_WIDGET_WAITING EW_NAVI_PIN_AUTH S_WIDGET_AUTH_FINISHED (Some OnNaviPinAuth) b;
          b = MakeTransition S_WIDGET_WAITING EW_NOTICE_COMPLETE_AUTH S_WIDGET_AUTH_FINISHED (Some OnSendAuthResult) b;
          b = MakeTransition S_WIDGET_WAITING EW_WIDGET_PARA_INVALID S_WIDGET_AUTH_FINISHED (Some OnWidgetParaInvalid) b;
          b = MakeTransition S_WIDGET_WAITING EW_WIDGET_RELOAD S_WIDGET_RELOAD_WAITING (Some OnWidgetReloadInit) b
      in MakeTransition S_WIDGET_WAITING EW_WIDGET_RELEASE S_WIDGET_RELEASED (Some OnWidgetRelease) b)"

definition BuildAuthRunningStateTransitions :: "widget_action fsm_builder \<Rightarrow> widget_action fsm_builder" where
  "BuildAuthRunningStateTransitions b =
     (let b = MakeTransition S_WIDGET_AUTH_RUNNING EW_COMPLETE_AUTH S_WIDGET_AUTH_FINISHED (Some OnSuccessAuth) b;
          b = MakeTransition S_WIDGET_AUTH_RUNNING EW_NOTICE_COMPLETE_AUTH S_WIDGET_AUTH_FINISHED (Some OnSendAuthResult) b;
          b = MakeTransition S_WIDGET_AUTH_RUNNING EW_STOP_AUTH S_WIDGET_AUTH_FINISHED (Some OnFailAuth) b;
          b = MakeTransition S_WIDGET_AUTH_RUNNING EW_CANCEL_AUTH S_WIDGET_AUTH_FINISHED (Some OnStopSchedule) b;
          b = MakeTransition S_WIDGET_AUTH_RUNNING EW_NAVI_PIN_AUTH S_WIDGET_AUTH_FINISHED (Some OnNaviPinAuth) b;
          b = MakeTransition S_WIDGET_AUTH_RUNNING EW_START_AUTH S_WIDGET_AUTH_RUNNING (Some OnStartAuth) b;
          b = MakeTransition S_WIDGET_AUTH_RUNNING EW_UPDATE_AUTH S_WIDGET_AUTH_RUNNING (Some OnStopAuthList) b;
          b = MakeTransition S_WIDGET_AUTH_RUNNING EW_WIDGET_PARA_INVALID S_WIDGET_AUTH_FINISHED (Some OnWidgetParaInvalid) b;
          b = MakeTransition S_WIDGET_AUTH_RUNNING EW_WIDGET_RELOAD S_WIDGET_RELOAD_WAITING (Some OnWidgetReloadInit) b
      in MakeTransition S_WIDGET_AUTH_RUNNING EW_WIDGET_RELEASE S_WIDGET_RELEASED (Some OnWidgetRelease) b)"

definition BuildReloadWaitingStateTransitions :: "widget_action fsm_builder \<Rightarrow> widget_action fsm_builder" where
  "BuildReloadWaitingStateTransitions b =
     (let b = MakeTransition S_WIDGET_RELOAD_WAITING EW_CANCEL_AUTH S_WIDGET_WAITING (Some OnWidgetReload) b
      in MakeTransition S_WIDGET_RELOAD_WAITING EW_WIDGET_RELEASE S_WIDGET_RELEASED (Some OnWidgetRelease) b)"

definition BuildParamWaitingStateTransitions :: "widget_action fsm_builder \<Rightarrow> widget_action fsm_builder" where
  "BuildParamWaitingStateTransitions b =
     (let b = MakeTransition S_WIDGET_PARAM_WAITING EW_START_WIDGET S_WIDGET_WAITING (Some OnStartSchedule) b
      in MakeTransition S_WIDGET_PARAM_WAITING EW_CANCEL_AUTH S_WIDGET_RELEASED (Some OnStopSchedule) b)"

definition BuildAuthFinishedStateTransitions :: "widget_action fsm_builder \<Rightarrow> widget_action fsm_builder" where
  "BuildAuthFinishedStateTransitions b =
     MakeTransition S_WIDGET_AUTH_FINISHED EW_WIDGET_RELEASE S_WIDGET_RELEASED (Some OnWidgetRelease) b"

definition Widget_MakeFiniteStateMachine :: "widget_action fsm option" where
  "Widget_MakeFiniteStateMachine =
     (let b = Builder_New ''widget_schedule'' S_WIDGET_INIT;
          b = BuildInitStateTransitions b;
          b = BuildWaitingStateTransitions b;
          b = BuildAuthRunningStateTransitions b;
          b = BuildReloadWaitingStateTransitions b;
          b = BuildParamWaitingStateTransitions b;
          b = BuildAuthFinishedStateTransitions b
      in fst (Build b))"

text \<open>A node exists only with its machine: \<^verbatim>\<open>Create\<close> gives up without one.\<close>

definition WidgetNode_Create :: "widget_node option" where
  "WidgetNode_Create =
     (case Widget_MakeFiniteStateMachine of
        None \<Rightarrow> None
      | Some machine \<Rightarrow>
          Some \<lparr>wnd_machine = FSM_SetThreadHandler machine, wnd_successAuthType = 0, wnd_failAuthType = 0,
            wnd_startAuthTypeList = [], wnd_endAfterFirstFail = False, wnd_stopAuthTypeList = [],
            wnd_runningAuthTypeSet = [], wnd_orientation = 0, wnd_needRotate = 0, wnd_alreadyLoad = 0,
            wnd_rotateAuthType = 0, wnd_authIntent = 0, wnd_resultCode = GENERAL_ERROR, wnd_authToken = []\<rparr>)"

section \<open>Operations\<close>

text \<open>The node is alive and has its machine, so the event is always queued.\<close>

definition Node_TryKickMachine :: "u32 \<Rightarrow> widget_node \<Rightarrow> bool \<times> widget_node" where
  "Node_TryKickMachine event n = (True, n\<lparr>wnd_machine := FSM_Schedule event (wnd_machine n)\<rparr>)"

definition Node_GetRemoteAuthParam :: "widget_node \<Rightarrow> bool \<times> widget_node" where
  "Node_GetRemoteAuthParam n = Node_TryKickMachine EW_GET_REMOTE_AUTH_PARAM n"

definition Node_StartSchedule :: "widget_node \<Rightarrow> bool \<times> widget_node" where
  "Node_StartSchedule n = Node_TryKickMachine EW_START_WIDGET n"

definition Node_StartDirectAuth :: "widget_node \<Rightarrow> bool \<times> widget_node" where
  "Node_StartDirectAuth n = Node_TryKickMachine EW_START_DIRECT_AUTH n"

definition Node_StopSchedule :: "widget_node \<Rightarrow> bool \<times> widget_node" where
  "Node_StopSchedule n = Node_TryKickMachine EW_CANCEL_AUTH n"

definition Node_ClearSchedule :: "widget_node \<Rightarrow> bool \<times> widget_node" where
  "Node_ClearSchedule n = Node_TryKickMachine EW_WIDGET_RELEASE n"

definition Node_StartAuthList :: "i32 list \<Rightarrow> bool \<Rightarrow> i32 \<Rightarrow> widget_node \<Rightarrow> bool \<times> widget_node" where
  "Node_StartAuthList authTypeList endAfterFirstFail authIntent n =
     Node_TryKickMachine EW_START_AUTH (n\<lparr>wnd_startAuthTypeList := authTypeList,
       wnd_endAfterFirstFail := endAfterFirstFail, wnd_authIntent := authIntent\<rparr>)"

definition Node_StopAuthList :: "i32 list \<Rightarrow> widget_node \<Rightarrow> bool \<times> widget_node" where
  "Node_StopAuthList authTypeList n = Node_TryKickMachine EW_UPDATE_AUTH (n\<lparr>wnd_stopAuthTypeList := authTypeList\<rparr>)"

definition Node_NotifyAuthSuccess :: "i32 \<Rightarrow> widget_node \<Rightarrow> bool \<times> widget_node" where
  "Node_NotifyAuthSuccess authType n = Node_TryKickMachine EW_COMPLETE_AUTH (n\<lparr>wnd_successAuthType := authType\<rparr>)"

definition Node_NotifyAuthFail :: "i32 \<Rightarrow> widget_node \<Rightarrow> bool \<times> widget_node" where
  "Node_NotifyAuthFail authType n = Node_TryKickMachine EW_STOP_AUTH (n\<lparr>wnd_failAuthType := authType\<rparr>)"

definition Node_NaviPinAuth :: "widget_node \<Rightarrow> bool \<times> widget_node" where
  "Node_NaviPinAuth n = Node_TryKickMachine EW_NAVI_PIN_AUTH n"

definition Node_WidgetParaInvalid :: "widget_node \<Rightarrow> bool \<times> widget_node" where
  "Node_WidgetParaInvalid n = Node_TryKickMachine EW_WIDGET_PARA_INVALID n"

definition Node_WidgetReload :: "u32 \<Rightarrow> u32 \<Rightarrow> u32 \<Rightarrow> i32 \<Rightarrow> widget_node \<Rightarrow> bool \<times> widget_node" where
  "Node_WidgetReload orientation needRotate alreadyLoad rotateAuthType n =
     Node_TryKickMachine EW_WIDGET_RELOAD (n\<lparr>wnd_orientation := orientation, wnd_needRotate := needRotate,
       wnd_alreadyLoad := alreadyLoad, wnd_rotateAuthType := rotateAuthType\<rparr>)"

definition OnWidgetResult :: "i32 \<Rightarrow> i32 \<Rightarrow> bytes \<Rightarrow> widget_node \<Rightarrow> widget_node" where
  "OnWidgetResult resultCode authType token n =
     (let n = n\<lparr>wnd_resultCode := resultCode, wnd_authToken := token\<rparr>;
          n = (if resultCode = SUCCESS then n\<lparr>wnd_successAuthType := authType\<rparr> else n\<lparr>wnd_failAuthType := authType\<rparr>)
      in snd (Node_TryKickMachine EW_NOTICE_COMPLETE_AUTH n))"

section \<open>Actions\<close>

text \<open>The types that are not running yet: they join the running ones, and the set of those to be started.\<close>

definition start_types :: "i32 list \<Rightarrow> i32 list \<times> i32 list \<Rightarrow> i32 list \<times> i32 list" where
  "start_types authTypes sets =
     fold (\<lambda>authType (start, running).
         if authType \<notin> set running then (insort_insert_key sint authType start, insort_insert_key sint authType running)
         else (start, running)) authTypes sets"

definition start_running :: "widget_node \<Rightarrow> widget_node \<times> widget_call" where
  "start_running n =
     (case start_types (wnd_startAuthTypeList n) ([], wnd_runningAuthTypeSet n) of
        (startAuthTypeSet, running) \<Rightarrow>
          (n\<lparr>wnd_runningAuthTypeSet := running\<rparr>,
           CallExecuteAuthList startAuthTypeSet (wnd_endAfterFirstFail n) (wnd_authIntent n)))"

text \<open>What an action does to the node, and the call it makes.\<close>

fun widget_handler :: "widget_action \<Rightarrow> widget_node \<Rightarrow> widget_node \<times> widget_call" where
  "widget_handler OnGetRemoteAuthParam n = (n, CallGetRemoteAuthParam)"
| "widget_handler OnStartSchedule n = (n, CallLaunchWidget)"
| "widget_handler OnStopSchedule n = (n, CallEndAuthAsCancel)"
| "widget_handler OnStartDirectAuth n = start_running n"
| "widget_handler OnStartAuth n = start_running n"
| "widget_handler OnStopAuthList n =
     (n\<lparr>wnd_runningAuthTypeSet := filter (\<lambda>t. t \<notin> set (wnd_stopAuthTypeList n)) (wnd_runningAuthTypeSet n)\<rparr>,
      CallStopAuthList (wnd_stopAuthTypeList n))"
| "widget_handler OnSuccessAuth n =
     (n\<lparr>wnd_runningAuthTypeSet := filter (\<lambda>t. t \<noteq> wnd_successAuthType n) (wnd_runningAuthTypeSet n)\<rparr>,
      CallOnAuthSuccess (wnd_successAuthType n))"
| "widget_handler OnFailAuth n =
     (n\<lparr>wnd_runningAuthTypeSet := filter (\<lambda>t. t \<noteq> wnd_failAuthType n) (wnd_runningAuthTypeSet n)\<rparr>,
      CallOnAuthFail (wnd_failAuthType n))"
| "widget_handler OnNaviPinAuth n = (n, CallEndAuthAsNaviPin)"
| "widget_handler OnWidgetParaInvalid n = (n, CallEndAuthAsWidgetParaInvalid)"
| "widget_handler OnWidgetReloadInit n = (n, CallAuthWidgetReloadInit)"
| "widget_handler OnWidgetReload n =
     (n, CallAuthWidgetReload (wnd_orientation n) (wnd_needRotate n) (wnd_alreadyLoad n) (wnd_rotateAuthType n))"
| "widget_handler OnWidgetRelease n = (n, CallClearSchedule)"
| "widget_handler OnSendAuthResult n =
     (n, CallOnScheduleAuthResult (wnd_resultCode n)
           (if wnd_resultCode n = SUCCESS then wnd_successAuthType n else wnd_failAuthType n) (wnd_authToken n))"

text \<open>The two actions that stop the schedule when the context refuses.\<close>

fun stops_on_failure :: "widget_action \<Rightarrow> bool" where
  "stops_on_failure OnStartSchedule = True"
| "stops_on_failure OnWidgetReload = True"
| "stops_on_failure _ = False"

section \<open>The table\<close>

definition widget_table :: "(u32 \<times> u32 \<times> u32 \<times> widget_action option) list" where
  "widget_table =
     [(0, 11, 6, Some OnGetRemoteAuthParam), (0, 0, 1, Some OnStartSchedule), (0, 10, 2, Some OnStartDirectAuth),
      (0, 9, 5, Some OnWidgetRelease),
      (1, 1, 2, Some OnStartAuth), (1, 3, 3, Some OnStopSchedule), (1, 5, 3, Some OnNaviPinAuth),
      (1, 12, 3, Some OnSendAuthResult), (1, 6, 3, Some OnWidgetParaInvalid), (1, 7, 4, Some OnWidgetReloadInit),
      (1, 9, 5, Some OnWidgetRelease),
      (2, 4, 3, Some OnSuccessAuth), (2, 12, 3, Some OnSendAuthResult), (2, 8, 3, Some OnFailAuth),
      (2, 3, 3, Some OnStopSchedule), (2, 5, 3, Some OnNaviPinAuth), (2, 1, 2, Some OnStartAuth),
      (2, 2, 2, Some OnStopAuthList), (2, 6, 3, Some OnWidgetParaInvalid), (2, 7, 4, Some OnWidgetReloadInit),
      (2, 9, 5, Some OnWidgetRelease),
      (4, 3, 1, Some OnWidgetReload), (4, 9, 5, Some OnWidgetRelease),
      (6, 0, 1, Some OnStartSchedule), (6, 3, 5, Some OnStopSchedule),
      (3, 9, 5, Some OnWidgetRelease)]"

definition widget_machine :: "widget_action fsm \<Rightarrow> bool" where
  "widget_machine m \<longleftrightarrow>
     transitionMap m = map (\<lambda>(st, e, x). (GetTransitionIndex st e, x)) widget_table \<and>
     enterMap m = [] \<and> leaveMap m = [] \<and> threadHandlerSet m"

lemmas widget_builders =
  BuildInitStateTransitions_def BuildWaitingStateTransitions_def BuildAuthRunningStateTransitions_def
  BuildReloadWaitingStateTransitions_def BuildParamWaitingStateTransitions_def BuildAuthFinishedStateTransitions_def

lemma Widget_machine_builds:
  "Widget_MakeFiniteStateMachine =
     Some \<lparr>machineName = ''widget_schedule'', currentState = 0,
       transitionMap = map (\<lambda>(st, e, x). (GetTransitionIndex st e, x)) widget_table,
       enterMap = [], leaveMap = [], pendingEvents = [], threadHandlerSet = True, postedTasks = 0\<rparr>"
  unfolding Widget_MakeFiniteStateMachine_def Builder_New_def Let_def widget_builders
  by (simp add: MakeTransition_new Build_def widget_table_def)

lemma WidgetNode_created:
  "\<exists>n. WidgetNode_Create = Some n \<and> widget_machine (wnd_machine n) \<and> currentState (wnd_machine n) = S_WIDGET_INIT \<and>
     pendingEvents (wnd_machine n) = [] \<and> wnd_runningAuthTypeSet n = []"
  by (simp add: WidgetNode_Create_def Widget_machine_builds widget_machine_def FSM_SetThreadHandler_def)

definition widget_next :: "u32 \<Rightarrow> u32 \<Rightarrow> (u32 \<times> widget_action option) option" where
  "widget_next st e = map_of (map (\<lambda>(st, e, x). ((st, e), x)) widget_table) (st, e)"

lemma widget_next_table: "widget_next st e = Some (n, a) \<Longrightarrow> (st, e, n, a) \<in> set widget_table"
  unfolding widget_next_def by (auto dest!: map_of_SomeD)

lemma widget_table_action: "(st, e, n, a) \<in> set widget_table \<Longrightarrow> a \<noteq> None"
  by (auto simp: widget_table_def)

text \<open>One event: an event that the state does not know is dropped, any other runs its one action.\<close>

lemma ProcessEvent_widget:
  assumes "widget_machine m"
  shows "ProcessEvent run e (m, s) =
    (case widget_next (currentState m) e of
       None \<Rightarrow> (m, s)
     | Some (n, act) \<Rightarrow>
         (case run (the act) e s of (s1, es) \<Rightarrow> (m\<lparr>pendingEvents := pendingEvents m @ es, currentState := n\<rparr>, s1)))"
proof (cases "widget_next (currentState m) e")
  case None
  then have "map_of (transitionMap m) (GetTransitionIndex (currentState m) e) = None"
    using assms by (simp add: widget_machine_def map_of_transitions widget_next_def)
  then show ?thesis using None by (simp add: ProcessEvent_ignored)
next
  case (Some x)
  then obtain n a where x: "x = (n, Some a)"
    using widget_table_action [OF widget_next_table] by (cases x) fastforce
  have "map_of (transitionMap m) (GetTransitionIndex (currentState m) e) = Some (n, Some a)"
    using assms Some x by (simp add: widget_machine_def map_of_transitions widget_next_def)
  then show ?thesis using assms
    by (auto simp: fsm_step_defs Some x widget_machine_def split: prod.splits)
qed

end
