(* ===== verification/Widget_Client.thy ===== *)
theory Widget_Client
  imports Widget_Json Widget_Node
begin

text \<open>
  The one object that talks to the widget, \<^verbatim>\<open>services/context/src/widget_client.cpp\<close>: it turns the notices of the widget into
  operations of the schedule nodes and reports results and tips as commands. It knows every node by the id of its
  context; the fields that are not keyed by an id belong to the session that registered last.

  An operation returns the client with what it did to nodes and to the widget, in order. Parsing and printing JSON is
  the library's, \<open>parse\<close> and \<open>dump\<close>: \<open>None\<close> is a text that is no JSON, and a value that cannot be printed.
\<close>

section \<open>Data\<close>

datatype node_op =
    OpStartAuthList "i32 list" bool i32
  | OpStopAuthList "i32 list"
  | OpStopSchedule
  | OpClearSchedule
  | OpNaviPinAuth
  | OpWidgetParaInvalid
  | OpWidgetReload u32 u32 u32 i32
  | OpWidgetTip "i32 list" i32
  | OpWidgetResult i32 i32 bytes

datatype client_call =
    ToNode u64 node_op
  | ToWidget bytes

record widget_client =
  wk_schedule :: "u64 option"
  wk_widgetContextId :: u64
  wk_widgetParam :: widget_param_inner
  wk_authTypeList :: "i32 list"
  wk_widgetCallback :: bool
  wk_pinSubType :: bytes
  wk_sensorInfo :: bytes
  wk_authTokenId :: u32
  wk_challenge :: bytes
  wk_callingBundleName :: bytes
  wk_scheduleMap :: "u64 list"
  wk_loadedAuthTypeList :: "i32 list"

abbreviation (input) TIP_CODE_WIDGET_LOADED :: i32 where "TIP_CODE_WIDGET_LOADED \<equiv> 5"
abbreviation (input) TIP_CODE_WIDGET_RELEASED :: i32 where "TIP_CODE_WIDGET_RELEASED \<equiv> 6"
abbreviation (input) WIDGET_NOTICE :: i32 where "WIDGET_NOTICE \<equiv> 1"

definition NOTICE_EVENT_AUTH_READY :: bytes where
  "NOTICE_EVENT_AUTH_READY = text_of ''EVENT_AUTH_TYPE_READY''"
definition NOTICE_EVENT_CANCEL_AUTH :: bytes where
  "NOTICE_EVENT_CANCEL_AUTH = text_of ''EVENT_AUTH_USER_CANCEL''"
definition NOTICE_EVENT_USER_NAVIGATION :: bytes where
  "NOTICE_EVENT_USER_NAVIGATION = text_of ''EVENT_AUTH_USER_NAVIGATION''"
definition NOTICE_EVENT_WIDGET_PARA_INVALID :: bytes where
  "NOTICE_EVENT_WIDGET_PARA_INVALID = text_of ''EVENT_AUTH_WIDGET_PARA_INVALID''"
definition NOTICE_EVENT_END :: bytes where
  "NOTICE_EVENT_END = text_of ''EVENT_AUTH_END''"
definition NOTICE_EVENT_RELOAD :: bytes where
  "NOTICE_EVENT_RELOAD = text_of ''EVENT_AUTH_RELOAD''"
definition NOTICE_EVENT_AUTH_WIDGET_LOADED :: bytes where
  "NOTICE_EVENT_AUTH_WIDGET_LOADED = text_of ''EVENT_AUTH_WIDGET_LOADED''"
definition NOTICE_EVENT_AUTH_WIDGET_RELEASED :: bytes where
  "NOTICE_EVENT_AUTH_WIDGET_RELEASED = text_of ''EVENT_AUTH_WIDGET_RELEASED''"
definition NOTICE_EVENT_PROCESS_TERMINATE :: bytes where
  "NOTICE_EVENT_PROCESS_TERMINATE = text_of ''EVENT_AUTH_PROCESS_TERMINATE''"
definition NOTICE_EVENT_AUTH_SEND_TIP :: bytes where
  "NOTICE_EVENT_AUTH_SEND_TIP = text_of ''EVENT_AUTH_SEND_TIP''"
definition NOTICE_EVENT_COMPLETE_AUTH :: bytes where
  "NOTICE_EVENT_COMPLETE_AUTH = text_of ''NOTICE_EVENT_COMPLETE_AUTH''"

lemmas notice_events =
  NOTICE_EVENT_AUTH_READY_def NOTICE_EVENT_CANCEL_AUTH_def NOTICE_EVENT_USER_NAVIGATION_def
  NOTICE_EVENT_WIDGET_PARA_INVALID_def NOTICE_EVENT_END_def NOTICE_EVENT_RELOAD_def
  NOTICE_EVENT_AUTH_WIDGET_LOADED_def NOTICE_EVENT_AUTH_WIDGET_RELEASED_def NOTICE_EVENT_PROCESS_TERMINATE_def
  NOTICE_EVENT_AUTH_SEND_TIP_def NOTICE_EVENT_COMPLETE_AUTH_def

definition WidgetClient_initial :: widget_client where
  "WidgetClient_initial = \<lparr>wk_schedule = None, wk_widgetContextId = 0,
     wk_widgetParam = \<lparr>wp_title = [], wp_navigationButtonText = [], wp_windowMode = 0, wp_hasContext = False\<rparr>,
     wk_authTypeList = [], wk_widgetCallback = False, wk_pinSubType = [], wk_sensorInfo = [], wk_authTokenId = 0,
     wk_challenge = [], wk_callingBundleName = [], wk_scheduleMap = [], wk_loadedAuthTypeList = []\<rparr>"

section \<open>Fields\<close>

definition InsertScheduleNode :: "u64 \<Rightarrow> widget_client \<Rightarrow> widget_client" where
  "InsertScheduleNode contextId k =
     (if contextId \<in> set (wk_scheduleMap k) then k else k\<lparr>wk_scheduleMap := wk_scheduleMap k @ [contextId]\<rparr>)"

definition RemoveScheduleNode :: "u64 \<Rightarrow> widget_client \<Rightarrow> widget_client" where
  "RemoveScheduleNode contextId k = k\<lparr>wk_scheduleMap := filter (\<lambda>i. i \<noteq> contextId) (wk_scheduleMap k)\<rparr>"

definition Client_GetScheduleNode :: "u64 \<Rightarrow> widget_client \<Rightarrow> bool" where
  "Client_GetScheduleNode contextId k = (contextId \<in> set (wk_scheduleMap k))"

definition SetWidgetSchedule :: "u64 \<Rightarrow> widget_client \<Rightarrow> widget_client" where
  "SetWidgetSchedule contextId k =
     InsertScheduleNode contextId (k\<lparr>wk_widgetContextId := contextId, wk_schedule := Some contextId\<rparr>)"

definition SetWidgetParam :: "widget_param_inner \<Rightarrow> widget_client \<Rightarrow> widget_client" where
  "SetWidgetParam param k = k\<lparr>wk_widgetParam := param\<rparr>"

definition SetAuthTypeList :: "i32 list \<Rightarrow> widget_client \<Rightarrow> widget_client" where
  "SetAuthTypeList authTypeList k = k\<lparr>wk_authTypeList := authTypeList\<rparr>"

definition SetWidgetCallback :: "bool \<Rightarrow> widget_client \<Rightarrow> widget_client" where
  "SetWidgetCallback callback k = k\<lparr>wk_widgetCallback := callback\<rparr>"

definition SetAuthTokenId :: "u32 \<Rightarrow> widget_client \<Rightarrow> widget_client" where
  "SetAuthTokenId tokenId k = k\<lparr>wk_authTokenId := tokenId\<rparr>"

definition SetChallenge :: "bytes \<Rightarrow> widget_client \<Rightarrow> widget_client" where
  "SetChallenge challenge k = k\<lparr>wk_challenge := challenge\<rparr>"

definition SetCallingBundleName :: "bytes \<Rightarrow> widget_client \<Rightarrow> widget_client" where
  "SetCallingBundleName callingBundleName k = k\<lparr>wk_callingBundleName := callingBundleName\<rparr>"

definition SetSensorInfo :: "bytes \<Rightarrow> widget_client \<Rightarrow> widget_client" where
  "SetSensorInfo info k = k\<lparr>wk_sensorInfo := info\<rparr>"

definition SetPinSubType :: "i32 \<Rightarrow> widget_client \<Rightarrow> widget_client" where
  "SetPinSubType subType k =
     k\<lparr>wk_pinSubType :=
       (if subType = 10001 then text_of ''PIN_NUMBER''
        else if subType = 10002 then text_of ''PIN_MIXED''
        else if subType = PIN_MAX then text_of ''PIN_MAX''
        else if subType = 10003 then text_of ''PIN_FOUR''
        else if subType = 10004 then text_of ''PIN_PATTERN''
        else text_of ''PIN_SIX'')\<rparr>"

definition Client_Reset :: "widget_client \<Rightarrow> widget_client" where
  "Client_Reset k = k\<lparr>wk_widgetParam := (wk_widgetParam k)\<lparr>wp_title := [], wp_navigationButtonText := [],
       wp_windowMode := DIALOG_BOX\<rparr>,
     wk_widgetContextId := 0, wk_authTokenId := 0, wk_schedule := None, wk_widgetCallback := False,
     wk_pinSubType := [], wk_sensorInfo := []\<rparr>"

section \<open>Sessions\<close>

definition Client_ClearSchedule :: "u64 \<Rightarrow> widget_client \<Rightarrow> widget_client \<times> client_call list" where
  "Client_ClearSchedule contextId k =
     (if \<not> Client_GetScheduleNode contextId k then (k, [])
      else
        let (k, tips) = (if contextId = wk_widgetContextId k then
               let k = Client_Reset k
               in if wk_loadedAuthTypeList k \<noteq> []
                  then (k\<lparr>wk_loadedAuthTypeList := []\<rparr>,
                        [ToNode contextId (OpWidgetTip (wk_loadedAuthTypeList k) TIP_CODE_WIDGET_RELEASED)])
                  else (k, [])
             else (k, []))
        in (RemoveScheduleNode contextId k,
            tips @ [ToNode contextId OpStopSchedule, ToNode contextId OpClearSchedule]))"

definition ForceStopAuth_all :: "widget_client \<Rightarrow> widget_client \<times> client_call list" where
  "ForceStopAuth_all k =
     (let stop = (case wk_schedule k of None \<Rightarrow> [] | Some i \<Rightarrow> [ToNode i OpStopSchedule])
      in case Client_ClearSchedule (wk_widgetContextId k) k of (k, es) \<Rightarrow> (k, stop @ es))"

definition ForceStopAuth :: "u64 \<Rightarrow> widget_client \<Rightarrow> widget_client \<times> client_call list" where
  "ForceStopAuth contextId k = Client_ClearSchedule contextId k"

definition WidgetLoad :: "u64 \<Rightarrow> i32 list \<Rightarrow> widget_client \<Rightarrow> widget_client \<times> client_call list" where
  "WidgetLoad contextId authTypeList k =
     (if \<not> Client_GetScheduleNode contextId k then (k, [])
      else if contextId \<noteq> wk_widgetContextId k then (k, [])
      else (k\<lparr>wk_loadedAuthTypeList := authTypeList\<rparr>, [ToNode contextId (OpWidgetTip authTypeList TIP_CODE_WIDGET_LOADED)]))"

definition WidgetRelease :: "u64 \<Rightarrow> i32 list \<Rightarrow> widget_client \<Rightarrow> widget_client \<times> client_call list" where
  "WidgetRelease contextId authTypeList k =
     (if \<not> Client_GetScheduleNode contextId k then (k, [])
      else
        let es = [ToNode contextId (OpWidgetTip authTypeList TIP_CODE_WIDGET_RELEASED)]
        in if contextId \<noteq> wk_widgetContextId k then (k, es) else (k\<lparr>wk_loadedAuthTypeList := []\<rparr>, es))"

definition WidgetCompleteAuth :: "widget_notice \<Rightarrow> i32 list \<Rightarrow> widget_client \<Rightarrow> client_call list" where
  "WidgetCompleteAuth notice authTypeList k =
     (case authTypeList of
        [] \<Rightarrow> []
      | authType # _ \<Rightarrow>
          if \<not> Client_GetScheduleNode (wn_widgetContextId notice) k then []
          else [ToNode (wn_widgetContextId notice)
                  (OpWidgetResult (wn_resultCode notice) authType (wn_authToken notice))])"

section \<open>Notices\<close>

definition IsValidNoticeType :: "widget_notice \<Rightarrow> bool" where
  "IsValidNoticeType notice =
     (wn_event notice \<in> {NOTICE_EVENT_AUTH_READY, NOTICE_EVENT_CANCEL_AUTH, NOTICE_EVENT_USER_NAVIGATION,
        NOTICE_EVENT_WIDGET_PARA_INVALID, NOTICE_EVENT_RELOAD, NOTICE_EVENT_END, NOTICE_EVENT_AUTH_WIDGET_LOADED,
        NOTICE_EVENT_AUTH_WIDGET_RELEASED, NOTICE_EVENT_PROCESS_TERMINATE, NOTICE_EVENT_AUTH_SEND_TIP,
        NOTICE_EVENT_COMPLETE_AUTH})"

definition Client_GetAuthTypeList :: "widget_notice \<Rightarrow> widget_client \<Rightarrow> i32 list option" where
  "Client_GetAuthTypeList notice k =
     (let tempList = Notice_AuthTypeList notice
      in if wk_authTypeList k = [] then None
         else if tempList = [] then None
         else if tempList = [AUTH_TYPE_ALL] then
           (if wn_event notice \<noteq> NOTICE_EVENT_CANCEL_AUTH \<and> wn_event notice \<noteq> NOTICE_EVENT_PROCESS_TERMINATE
            then None else Some [AUTH_TYPE_ALL])
         else if length tempList = length (wk_authTypeList k) \<and> wn_event notice = NOTICE_EVENT_CANCEL_AUTH
           then Some [AUTH_TYPE_ALL]
         else Some tempList)"

definition ProcessNotice ::
  "widget_notice \<Rightarrow> i32 list \<Rightarrow> widget_client \<Rightarrow> widget_client \<times> client_call list" where
  "ProcessNotice notice authTypeList k =
     (let i = wn_widgetContextId notice; event = wn_event notice
      in if \<not> Client_GetScheduleNode i k then (k, [])
         else if event = NOTICE_EVENT_AUTH_READY then
           (k, [ToNode i (OpStartAuthList authTypeList (wn_endAfterFirstFail notice) (wn_authIntent notice))])
         else if event = NOTICE_EVENT_CANCEL_AUTH then
           (k, [ToNode i (if authTypeList = [AUTH_TYPE_ALL] then OpStopSchedule else OpStopAuthList authTypeList)])
         else if event = NOTICE_EVENT_USER_NAVIGATION then (k, [ToNode i OpNaviPinAuth])
         else if event = NOTICE_EVENT_WIDGET_PARA_INVALID then (k, [ToNode i OpWidgetParaInvalid])
         else if event = NOTICE_EVENT_END then (k, [ToNode i (OpStopAuthList authTypeList)])
         else if event = NOTICE_EVENT_RELOAD then
           (k, [ToNode i (if authTypeList = [AUTH_TYPE_ALL] \<or> length authTypeList \<noteq> 1 then OpWidgetParaInvalid
                  else OpWidgetReload (wn_orientation notice) (wn_needRotate notice) (wn_alreadyLoad notice)
                         (hd authTypeList))])
         else if event = NOTICE_EVENT_AUTH_WIDGET_LOADED then WidgetLoad i authTypeList k
         else if event = NOTICE_EVENT_AUTH_WIDGET_RELEASED then WidgetRelease i authTypeList k
         else if event = NOTICE_EVENT_PROCESS_TERMINATE then Client_ClearSchedule i k
         else if event = NOTICE_EVENT_AUTH_SEND_TIP then (k, [ToNode i (OpWidgetTip authTypeList (wn_tipCode notice))])
         else if event = NOTICE_EVENT_COMPLETE_AUTH then (k, WidgetCompleteAuth notice authTypeList k)
         else (k, []))"

text \<open>The text ends at its first null character. What is parsed and is no object is refused.\<close>

definition OnNotice ::
  "(bytes \<Rightarrow> json option) \<Rightarrow> i32 \<Rightarrow> bytes \<Rightarrow> widget_client \<Rightarrow> i32 \<times> widget_client \<times> client_call list" where
  "OnNotice parse type eventData k =
     (if type \<noteq> WIDGET_NOTICE then (INVALID_PARAMETERS, k, [])
      else if eventData = [] then (INVALID_PARAMETERS, k, [])
      else (case parse (takeWhile (\<lambda>b. b \<noteq> 0) eventData) of
              Some (JObject ob) \<Rightarrow>
                (case notice_from_json (JObject ob) WidgetNotice_default of
                   None \<Rightarrow> (INVALID_PARAMETERS, k, [])
                 | Some notice \<Rightarrow>
                     if wn_widgetContextId notice = 0 then (INVALID_PARAMETERS, k, [])
                     else if \<not> IsValidNoticeType notice then (INVALID_PARAMETERS, k, [])
                     else if wk_schedule k = None then (GENERAL_ERROR, k, [])
                     else (case Client_GetAuthTypeList notice k of
                             None \<Rightarrow> (INVALID_PARAMETERS, k, [])
                           | Some authTypeList \<Rightarrow> (SUCCESS, ProcessNotice notice authTypeList k)))
            | _ \<Rightarrow> (INVALID_PARAMETERS, k, [])))"

section \<open>Commands\<close>

definition SendCommand :: "(json \<Rightarrow> bytes option) \<Rightarrow> widget_command \<Rightarrow> widget_client \<Rightarrow> client_call list" where
  "SendCommand dump command k =
     (if \<not> wk_widgetCallback k then []
      else (case dump (GetJsonCmd command) of None \<Rightarrow> [] | Some cmdData \<Rightarrow> [ToWidget cmdData]))"

definition ReportWidgetResult ::
  "(json \<Rightarrow> bytes option) \<Rightarrow> i32 \<Rightarrow> i32 \<Rightarrow> i32 \<Rightarrow> i32 \<Rightarrow> bool \<Rightarrow> u64 \<Rightarrow> bytes \<Rightarrow> widget_client \<Rightarrow>
   client_call list" where
  "ReportWidgetResult dump resultCode authType lockoutDuration remainAttempts skipLockedBiometricAuth widgetContextId
       challenge k =
     (let cmd = Cmd_default\<lparr>wd_event := CMD_NOTIFY_AUTH_RESULT, wd_version := NOTICE_VERSION_STR,
            wd_type := AuthType2Str authType, wd_result := resultCode, wd_lockoutDuration := lockoutDuration,
            wd_remainAttempts := remainAttempts,
            wd_extraInfo := \<lparr>ci_callingBundleName = wk_callingBundleName k, ci_challenge = challenge\<rparr>\<rparr>;
          cmd = (if authType = FINGERPRINT \<and> wk_sensorInfo k \<noteq> [] then cmd\<lparr>wd_sensorInfo := wk_sensorInfo k\<rparr> else cmd);
          widgetCmd = WidgetCommand_default\<lparr>wm_widgetContextId := widgetContextId,
            wm_title := wp_title (wk_widgetParam k),
            wm_windowModeType := WinModeType2Str (wp_windowMode (wk_widgetParam k)),
            wm_navigationButtonText := wp_navigationButtonText (wk_widgetParam k), wm_cmdList := [cmd],
            wm_skipLockedBiometricAuth := skipLockedBiometricAuth,
            wm_typeList := map AuthType2Str (wk_authTypeList k)\<rparr>;
          widgetCmd = (if wk_pinSubType k \<noteq> [] then widgetCmd\<lparr>wm_pinSubType := wk_pinSubType k\<rparr> else widgetCmd)
      in SendCommand dump widgetCmd k)"

definition ReportWidgetTip ::
  "(json \<Rightarrow> bytes option) \<Rightarrow> i32 \<Rightarrow> i32 \<Rightarrow> bytes \<Rightarrow> bool \<Rightarrow> u64 \<Rightarrow> widget_client \<Rightarrow> client_call list" where
  "ReportWidgetTip dump tipType authType tipInfo skipLockedBiometricAuth widgetContextId k =
     SendCommand dump (WidgetCommand_default\<lparr>wm_widgetContextId := widgetContextId,
       wm_cmdList := [Cmd_default\<lparr>wd_event := CMD_NOTIFY_AUTH_TIP, wd_version := NOTICE_VERSION_STR,
          wd_type := AuthType2Str authType, wd_tipType := tipType, wd_tipInfo := tipInfo\<rparr>],
       wm_skipLockedBiometricAuth := skipLockedBiometricAuth\<rparr>) k"

end
