(* ===== verification/Widget_Command.thy ===== *)
theory Widget_Command
  imports Widget_Client
begin

text \<open>
  What a widget authentication computes from its parameters and its surroundings, without a state of its own: the command
  that starts the dialogue, where the dialogue is shown, whom its child authentications act for, and what the user is
  told about a failure. These are the small members of \<^verbatim>\<open>services/context/src/widget_context.cpp\<close>. The surroundings
  (\<open>widget_env\<close>) are what the system says when it is asked: the executors and the user database, the screen, the display,
  the system parameters, the ability manager, the timer, the engine and the clock. The caller types are constants of
  the access token kit.
\<close>

section \<open>Data\<close>

record widget_rotate_para =
  rt_isReload :: bool
  rt_orientation :: u32
  rt_needRotate :: u32
  rt_alreadyLoad :: u32
  rt_rotateAuthType :: i32

record widget_env =
  we_profile :: profile_env
  we_draws :: "nat \<Rightarrow> u64 option"
  we_createTime :: int
  we_callback :: callback_env
  we_dump :: "json \<Rightarrow> bytes option"
  we_tokenHap :: i32
  we_tokenNative :: i32
  we_screenLocked :: bool
  we_supportFollowCallerUi :: bool
  we_folded :: bool
  we_productName :: bytes
  we_allowedOnLockScreen :: "bytes \<Rightarrow> i32 \<Rightarrow> bytes \<Rightarrow> bool"
  we_connect :: bool
  we_disconnect :: bool
  we_timerId :: u32
  we_faceAlgoCallerSeq :: u32
  we_enrolledState :: "i32 \<Rightarrow> i32 \<Rightarrow> i32 \<times> eng_enrolled_state"

text \<open>
  The types a profile can be kept for, in the order of the map: the enumerators of \<^verbatim>\<open>AuthType\<close>, and whatever the
  request lists.
\<close>

definition AUTH_TYPES :: "i32 list" where
  "AUTH_TYPES = [1, 2, 4, 8, 16, 32, 64, 128, 1024]"

definition profile_types :: "widget_para \<Rightarrow> i32 list" where
  "profile_types para =
     sort_key sint (remdups (filter (\<lambda>t. wc_authProfileMap para t \<noteq> None) (AUTH_TYPES @ wc_authTypeList para)))"

abbreviation (input) SYSDIALOG_ZORDER_DEFAULT :: u32 where "SYSDIALOG_ZORDER_DEFAULT \<equiv> 1"
abbreviation (input) SYSDIALOG_ZORDER_UPPER :: u32 where "SYSDIALOG_ZORDER_UPPER \<equiv> 2"
abbreviation (input) SYSDIALOG_FOCUS_STATE_ENABLE :: u32 where "SYSDIALOG_FOCUS_STATE_ENABLE \<equiv> 1"
abbreviation (input) ORIENTATION_LANDSCAPE :: u32 where "ORIENTATION_LANDSCAPE \<equiv> 1"
abbreviation (input) ORIENTATION_PORTRAIT_INVERTED :: u32 where "ORIENTATION_PORTRAIT_INVERTED \<equiv> 2"
abbreviation (input) ORIENTATION_LANDSCAPE_INVERTED :: u32 where "ORIENTATION_LANDSCAPE_INVERTED \<equiv> 3"

abbreviation (input) TIP_CODE_FAIL :: i32 where "TIP_CODE_FAIL \<equiv> 1"
abbreviation (input) TIP_CODE_TIMEOUT :: i32 where "TIP_CODE_TIMEOUT \<equiv> 2"
abbreviation (input) TIP_CODE_TEMPORARILY_LOCKED :: i32 where "TIP_CODE_TEMPORARILY_LOCKED \<equiv> 3"
abbreviation (input) TIP_CODE_PERMANENTLY_LOCKED :: i32 where "TIP_CODE_PERMANENTLY_LOCKED \<equiv> 4"
abbreviation (input) TIP_CODE_COMPARE_FAIL_WITH_FROZEN :: i32 where "TIP_CODE_COMPARE_FAIL_WITH_FROZEN \<equiv> 7"

section \<open>Questions about the request\<close>

definition IsSingleFaceOrFingerPrintAuth :: "widget_para \<Rightarrow> bool" where
  "IsSingleFaceOrFingerPrintAuth para =
     (if wp_navigationButtonText (wc_widgetParam para) \<noteq> [] then False
      else wc_authTypeList para = [FACE] \<or> wc_authTypeList para = [FINGERPRINT])"

definition IsNavigationAuth :: "widget_para \<Rightarrow> bool" where
  "IsNavigationAuth para = (wp_navigationButtonText (wc_widgetParam para) \<noteq> [])"

definition IsSingleCompanionDeviceAuth :: "widget_para \<Rightarrow> bool" where
  "IsSingleCompanionDeviceAuth para = (wc_authTypeList para = [COMPANION_DEVICE])"

definition GetCallingBundleName :: "widget_env \<Rightarrow> widget_para \<Rightarrow> bytes" where
  "GetCallingBundleName e para = (if wc_callerType para = we_tokenHap e then wc_callerName para else [])"

definition IsWidgetLaunchAllowed :: "widget_env \<Rightarrow> widget_para \<Rightarrow> bool" where
  "IsWidgetLaunchAllowed e para =
     (if \<not> we_screenLocked e then True
      else we_allowedOnLockScreen e (wc_callerName para) (wc_callerType para) (wc_callingAppIdentifier para))"

definition IsInFollowCallerList :: "widget_env \<Rightarrow> json \<Rightarrow> widget_para \<Rightarrow> bool" where
  "IsInFollowCallerList e jsonBuf para =
     (if wc_remoteCallerName para \<in> set (snd (GetAlwaysSupportFollowCallerUi jsonBuf [])) then True
      else if \<not> we_folded e then False
      else (case GetFollowCallerList jsonBuf [] of
              (ok, processName) \<Rightarrow> ok \<and> we_productName e @ text_of ''-'' \<in> set processName))"

definition IsSupportFollowCallerUi :: "widget_env \<Rightarrow> json \<Rightarrow> widget_para \<Rightarrow> bool" where
  "IsSupportFollowCallerUi e jsonBuf para = (we_supportFollowCallerUi e \<or> IsInFollowCallerList e jsonBuf para)"

definition GetAuthTipCode :: "i32 \<Rightarrow> i32 \<Rightarrow> i32" where
  "GetAuthTipCode authResult freezingTime =
     (if authResult = TIMEOUT then TIP_CODE_TIMEOUT
      else if authResult = LOCKED then
        (if freezingTime = 0x7FFFFFFF then TIP_CODE_PERMANENTLY_LOCKED else TIP_CODE_TEMPORARILY_LOCKED)
      else if sint freezingTime > 0 then TIP_CODE_COMPARE_FAIL_WITH_FROZEN
      else TIP_CODE_FAIL)"

section \<open>The start command\<close>

definition session_pin_profile :: "widget_para \<Rightarrow> auth_profile option" where
  "session_pin_profile para =
     (case wc_authProfileMap para PIN of None \<Rightarrow> wc_authProfileMap para PRIVATE_PIN | Some p \<Rightarrow> Some p)"

definition InitSessionProfiles :: "widget_para \<Rightarrow> widget_client \<Rightarrow> widget_client" where
  "InitSessionProfiles para k =
     (let k = (case session_pin_profile para of None \<Rightarrow> k | Some p \<Rightarrow> SetPinSubType (pr_pinSubType p) k)
      in case wc_authProfileMap para FINGERPRINT of None \<Rightarrow> k | Some p \<Rightarrow> SetSensorInfo (pr_sensorInfo p) k)"

definition SetSysDialogZOrder ::
  "widget_env \<Rightarrow> json \<Rightarrow> widget_para \<Rightarrow> widget_cmd_parameters \<Rightarrow> widget_cmd_parameters" where
  "SetSysDialogZOrder e jsonBuf para p =
     (let p = (if we_screenLocked e then p\<lparr>wz_sysDialogZOrder := SYSDIALOG_ZORDER_UPPER\<rparr> else p)
      in case Config_GetProcessName jsonBuf [] of
           (ok, processName) \<Rightarrow>
             if \<not> ok then p
             else if wc_callerName para \<in> set processName \<and> wc_callerType para = we_tokenNative e
             then p\<lparr>wz_useriamCmdData := (wz_useriamCmdData p)\<lparr>wm_callingProcessName := wc_callerName para\<rparr>,
                     wz_sysDialogZOrder := SYSDIALOG_ZORDER_UPPER\<rparr>
             else p)"

definition start_cmd :: "widget_env \<Rightarrow> bool \<Rightarrow> widget_para \<Rightarrow> i32 \<Rightarrow> auth_profile \<Rightarrow> widget_cmd" where
  "start_cmd e remoteAuthCallback para at profile =
     (let cmd = Cmd_default\<lparr>wd_event := CMD_NOTIFY_AUTH_START, wd_version := NOTICE_VERSION_STR, wd_type := AuthType2Str at\<rparr>;
          cmd = (if at = FINGERPRINT \<and> pr_sensorInfo profile \<noteq> [] then cmd\<lparr>wd_sensorInfo := pr_sensorInfo profile\<rparr> else cmd);
          cmd = (if wc_isPinExpired para then cmd\<lparr>wd_result := PIN_EXPIRED\<rparr> else cmd);
          cmd = cmd\<lparr>wd_remainAttempts := pr_remainTimes profile, wd_lockoutDuration := pr_freezingTime profile\<rparr>
      in cmd\<lparr>wd_extraInfo :=
           \<lparr>ci_callingBundleName = (if remoteAuthCallback then wc_remoteCallerName para else GetCallingBundleName e para),
            ci_challenge = wc_challenge para\<rparr>\<rparr>)"

definition ProcessRotatePara ::
  "i32 \<Rightarrow> widget_rotate_para \<Rightarrow> widget_cmd_parameters \<Rightarrow> widget_cmd_parameters" where
  "ProcessRotatePara faceReload r p =
     (let p = (if \<not> rt_isReload r then p
             else p\<lparr>wz_useriamCmdData := (wz_useriamCmdData p)
                     \<lparr>wm_isReload := (if rt_rotateAuthType r = FACE then faceReload else 1),
                      wm_rotateAuthType := AuthType2Str (rt_rotateAuthType r)\<rparr>\<rparr>)
      in if rt_needRotate r = 0 then p
         else if rt_orientation r = ORIENTATION_LANDSCAPE then p\<lparr>wz_uiExtNodeAngle := text_of ''90''\<rparr>
         else if rt_orientation r = ORIENTATION_PORTRAIT_INVERTED then p\<lparr>wz_uiExtNodeAngle := text_of ''180''\<rparr>
         else if rt_orientation r = ORIENTATION_LANDSCAPE_INVERTED then p\<lparr>wz_uiExtNodeAngle := text_of ''270''\<rparr>
         else p)"

definition start_parameters ::
  "widget_env \<Rightarrow> json \<Rightarrow> bool \<Rightarrow> u64 \<Rightarrow> i32 \<Rightarrow> widget_para \<Rightarrow> widget_rotate_para \<Rightarrow> widget_cmd_parameters" where
  "start_parameters e jsonBuf remoteAuthCallback contextId faceReload para r =
     (let data = WidgetCommand_default\<lparr>wm_widgetContextId := contextId,
            wm_widgetContextIdStr := text_of (decimal (unat contextId)),
            wm_title := wp_title (wc_widgetParam para),
            wm_windowModeType := WinModeType2Str (wp_windowMode (wc_widgetParam para)),
            wm_navigationButtonText := wp_navigationButtonText (wc_widgetParam para)\<rparr>;
          data = (case session_pin_profile para of None \<Rightarrow> data
                  | Some p \<Rightarrow> data\<lparr>wm_pinSubType := PinSubType2Str (pr_pinSubType p)\<rparr>);
          p = SetSysDialogZOrder e jsonBuf para
                (WidgetCmdParameters_default\<lparr>wz_uiExtensionType := text_of ''sysDialog/userAuth'',
                   wz_useriamCmdData := data, wz_sysDialogZOrder := SYSDIALOG_ZORDER_DEFAULT,
                   wz_focusState := SYSDIALOG_FOCUS_STATE_ENABLE\<rparr>);
          types = profile_types para;
          cmds = map (\<lambda>at. start_cmd e remoteAuthCallback para at (the (wc_authProfileMap para at))) types;
          p = p\<lparr>wz_useriamCmdData := (wz_useriamCmdData p)\<lparr>wm_cmdList := cmds, wm_typeList := map AuthType2Str types,
                  wm_callingAppID := wc_callingAppID para, wm_userId := wc_userId para,
                  wm_skipLockedBiometricAuth := wc_skipLockedBiometricAuth para\<rparr>\<rparr>
      in ProcessRotatePara faceReload r p)"

text \<open>A value that cannot be printed gives the empty text.\<close>

definition ProcessCmdData :: "widget_env \<Rightarrow> widget_cmd_parameters \<Rightarrow> bytes" where
  "ProcessCmdData e p = (case we_dump e (parameters_to_json p) of None \<Rightarrow> [] | Some cmdData \<Rightarrow> cmdData)"

definition BuildStartCommand ::
  "widget_env \<Rightarrow> json \<Rightarrow> bool \<Rightarrow> u64 \<Rightarrow> i32 \<Rightarrow> widget_para \<Rightarrow> widget_rotate_para \<Rightarrow> bytes" where
  "BuildStartCommand e jsonBuf remoteAuthCallback contextId faceReload para r =
     ProcessCmdData e (start_parameters e jsonBuf remoteAuthCallback contextId faceReload para r)"

definition ProcessElementName :: "json \<Rightarrow> bytes \<Rightarrow> bytes \<Rightarrow> bytes \<times> bytes" where
  "ProcessElementName jsonBuf bundleName abilityName =
     (snd (GetSceneboardBundleName jsonBuf bundleName), snd (GetSceneboardAbilityName jsonBuf abilityName))"

section \<open>Profiles\<close>

fun refresh_profiles ::
  "profile_env \<Rightarrow> i32 list \<Rightarrow> widget_para \<Rightarrow> call_log \<Rightarrow> bool \<times> widget_para \<times> call_log" where
  "refresh_profiles e [] para log = (True, para, log)"
| "refresh_profiles e (authType # authTypes) para log =
     (case GetUserAuthProfile e (wc_userId para) authType AuthProfile_default (wc_credentialIdList para) of
        (ret, profile, calls) \<Rightarrow>
          if ret \<noteq> SUCCESS \<and> ret \<noteq> NOT_ENROLLED then (False, para, log @ calls)
          else refresh_profiles e authTypes
                 (para\<lparr>wc_authProfileMap := (wc_authProfileMap para)(authType \<mapsto> profile)\<rparr>) (log @ calls))"

section \<open>Children\<close>

definition BuildAuthenticationPara :: "widget_para \<Rightarrow> u32 \<Rightarrow> bytes \<Rightarrow> i32 \<Rightarrow> u32 \<Rightarrow> bool \<Rightarrow> i32 \<Rightarrow> auth_para" where
  "BuildAuthenticationPara p authTokenId challenge authType authTrustLevel endAfterFirstFail authIntent =
     empty_para\<lparr>ap_tokenId := authTokenId, ap_userId := wc_userId p, ap_authType := authType,
       ap_atl := authTrustLevel, ap_challenge := challenge, ap_endAfterFirstFail := endAfterFirstFail,
       ap_callerName := wc_callerName p, ap_callerType := wc_callerType p, ap_sdkVersion := wc_sdkVersion p,
       ap_authIntent := authIntent, ap_skipLockedBiometricAuth := wc_skipLockedBiometricAuth p,
       ap_isOsAccountVerified := wc_isOsAccountVerified p, ap_credentialIdList := wc_credentialIdList p,
       ap_title := wp_title (wc_widgetParam p), ap_authScene := 1, ap_callerPermissions := wc_callerPermissions p\<rparr>"

definition Child_GetAuthContextCallback :: "widget_env \<Rightarrow> widget_para \<Rightarrow> u64 \<Rightarrow> i32 \<Rightarrow> u32 \<Rightarrow> context_callback option" where
  "Child_GetAuthContextCallback e p contextId authType authTrustLevel =
     (case ContextCallback_NewInstance (we_callback e) True TRACE_AUTH_USER_SECURITY of
        None \<Rightarrow> None
      | Some widgetCallback \<Rightarrow>
          Some (SetTraceAuthType authType (SetTraceAuthTrustLevel authTrustLevel (SetTraceRequestContextId contextId
            (SetTraceCallerType (wc_callerType p) (SetTraceCallerName (wc_callerName p) widgetCallback))))))"

section \<open>The connection to the dialogue\<close>

text \<open>
  \<^verbatim>\<open>services/context/src/ui_extension_ability_connection.cpp\<close>. \<^verbatim>\<open>isConnectionRelease_\<close> is true while the connection is
  not released.
\<close>

record extension_connection =
  xc_commandStr :: bytes
  xc_extRemoteObject :: bool
  xc_isConnectionRelease :: bool
  xc_isNormalEnd :: bool

datatype extension_effect = ExtensionCommand bytes | ExtensionStateChanged | ExtensionFault

definition UIExtensionAbilityConnection :: "bytes \<Rightarrow> extension_connection" where
  "UIExtensionAbilityConnection commandStr = \<lparr>xc_commandStr = commandStr, xc_extRemoteObject = False,
     xc_isConnectionRelease = True, xc_isNormalEnd = False\<rparr>"

definition setIsNormalEnd :: "bool \<Rightarrow> extension_connection \<Rightarrow> extension_connection" where
  "setIsNormalEnd isNormalEnd x = x\<lparr>xc_isNormalEnd := isNormalEnd\<rparr>"

definition GetOnResultEnd :: "extension_connection \<Rightarrow> bool" where
  "GetOnResultEnd x = xc_isNormalEnd x"

definition ReleaseUIExtensionComponent :: "extension_connection \<Rightarrow> extension_connection \<times> extension_effect list" where
  "ReleaseUIExtensionComponent x =
     (x\<lparr>xc_extRemoteObject := False, xc_isConnectionRelease := False\<rparr>,
      if xc_extRemoteObject x then [ExtensionStateChanged] else [])"

text \<open>The two notifications return whether the authentication is to be stopped by force.\<close>

definition OnAbilityConnectDone ::
  "bool \<Rightarrow> i32 \<Rightarrow> extension_connection \<Rightarrow> bool \<times> extension_connection \<times> extension_effect list" where
  "OnAbilityConnectDone remoteObject errCode x =
     (if \<not> xc_isConnectionRelease x then (False, x, [])
      else if \<not> remoteObject then (True, x, [])
      else
        let x = x\<lparr>xc_extRemoteObject := True\<rparr>; sent = [ExtensionCommand (xc_commandStr x)]
        in if errCode \<noteq> SUCCESS
           then (case ReleaseUIExtensionComponent x of (x, es) \<Rightarrow> (True, x, sent @ es))
           else (False, x, sent))"

definition OnAbilityDisconnectDone ::
  "extension_connection \<Rightarrow> bool \<times> extension_connection \<times> extension_effect list" where
  "OnAbilityDisconnectDone x =
     (xc_isConnectionRelease x, x, if \<not> xc_isNormalEnd x then [ExtensionFault] else [])"

end
