(* ===== verification/Widget_Context.thy ===== *)
theory Widget_Context
  imports Widget_Command Pool_Driven
begin

text \<open>
  A widget authentication, \<^verbatim>\<open>services/context/src/widget_context.cpp\<close>: the context shows the dialogue, runs one child
  authentication per type the user chooses, and answers its caller once, with the first success or the reason why there
  is none. It goes through the phases of \<open>widget_phase\<close>, never back. Its schedule node (\<open>Widget_Node\<close>) turns what the dialogue
  and the children want into calls of the context, one at a time.

  The client of the dialogue and the pool are shared with everybody else: they are fields here, the context's own calls
  change them, and what others do with them is a step. The members hold the context's lock, so each is one step; an
  operation of the node queues an event, and handling one event is a step. The caller's callback is never null: the
  constructor calls it. \<open>wx_launched\<close> remembers the children the pool accepted. The observers of the caller are left
  out, and so are the checks for memory that cannot be allocated.
\<close>

section \<open>Data\<close>

datatype widget_phase = NOT_STARTED | RUNNING | STOPPING | RESULT_DELIVERED | RELEASED

fun phase_rank :: "widget_phase \<Rightarrow> nat" where
  "phase_rank NOT_STARTED = 0"
| "phase_rank RUNNING = 1"
| "phase_rank STOPPING = 2"
| "phase_rank RESULT_DELIVERED = 3"
| "phase_rank RELEASED = 4"

lemma phase_rank_inject [simp]: "phase_rank p = phase_rank q \<longleftrightarrow> p = q"
  by (cases p; cases q) simp_all

instantiation widget_phase :: linorder
begin

definition less_eq_widget_phase :: "widget_phase \<Rightarrow> widget_phase \<Rightarrow> bool" where
  "less_eq_widget_phase p q = (phase_rank p \<le> phase_rank q)"

definition less_widget_phase :: "widget_phase \<Rightarrow> widget_phase \<Rightarrow> bool" where
  "less_widget_phase p q = (phase_rank p < phase_rank q)"

instance
  by standard (auto simp: less_eq_widget_phase_def less_widget_phase_def)

end

record widget_auth_result =
  wa_token :: bytes
  wa_authType :: i32
  wa_credentialDigest :: u64
  wa_credentialCount :: u16
  wa_resultUserId :: i32

datatype widget_output =
    Caller ctx_output
  | RemoteAuthResult bytes i32 bytes
  | RemoteWidgetParamAsked bytes u64
  | ModalCommand u64 bytes
  | DialogCommand bytes
  | ExtensionConnected bytes bytes bytes
  | ExtensionEffect extension_effect
  | ExtensionDisconnected
  | SystemFault
  | TimerRegistered u32
  | TimerUnregistered u32
  | OtherNode u64 node_op

record widget_context =
  wx_contextId :: u64
  wx_para :: widget_para
  wx_isPrimaryContext :: bool
  wx_useModalApplication :: bool
  wx_phase :: widget_phase
  wx_activeChildCount :: u32
  wx_scheduleReleased :: bool
  wx_latestError :: i32
  wx_isDirectAuth :: bool
  wx_schedule :: "widget_node option"
  wx_modalCallback :: bool
  wx_remoteAuthCallback :: bool
  wx_runTaskInfoList :: "(i32 \<times> u64) list"
  wx_connection :: "extension_connection option"
  wx_authResultInfo :: widget_auth_result
  wx_faceReload :: i32
  wx_widgetAlreadyLoad :: u32
  wx_jsonBuf :: json
  wx_onTerminateTimerId :: u32
  wx_faceAlgoCaller :: bytes
  wx_client :: widget_client
  wx_pool :: context_pool
  wx_launched :: "(i32 \<times> simple_auth_context \<times> context_callback) list"
  wx_outputs :: "widget_output list"

abbreviation (input) COMPLEXITY_CHECK_FAILED :: i32 where "COMPLEXITY_CHECK_FAILED \<equiv> 14"
abbreviation (input) PROPERTY_INIT_ALGORITHM :: i32 where "PROPERTY_INIT_ALGORITHM \<equiv> 1"

text \<open>The constructor; \<open>jsonBuf\<close> is the configuration file as far as it could be read.\<close>

definition WidgetContext :: "widget_request \<Rightarrow> json \<Rightarrow> widget_client \<Rightarrow> context_pool \<Rightarrow> widget_context" where
  "WidgetContext r jsonBuf client pool = \<lparr>wx_contextId = wr_contextId r, wx_para = wr_para r,
     wx_isPrimaryContext = wr_isPrimary r, wx_useModalApplication = False, wx_phase = NOT_STARTED,
     wx_activeChildCount = 0, wx_scheduleReleased = False, wx_latestError = GENERAL_ERROR, wx_isDirectAuth = False,
     wx_schedule = None, wx_modalCallback = wr_modalCallback r, wx_remoteAuthCallback = (wr_remoteCallback r \<noteq> None),
     wx_runTaskInfoList = [], wx_connection = None,
     wx_authResultInfo = \<lparr>wa_token = [], wa_authType = 0, wa_credentialDigest = 0, wa_credentialCount = 0,
       wa_resultUserId = 0\<rparr>,
     wx_faceReload = 0, wx_widgetAlreadyLoad = 0, wx_jsonBuf = jsonBuf, wx_onTerminateTimerId = 0,
     wx_faceAlgoCaller = [], wx_client = client, wx_pool = pool, wx_launched = [], wx_outputs = []\<rparr>"

section \<open>Small steps\<close>

definition wx_emit :: "widget_output \<Rightarrow> widget_context \<Rightarrow> widget_context" where
  "wx_emit out c = c\<lparr>wx_outputs := wx_outputs c @ [out]\<rparr>"

definition wx_emits :: "widget_output list \<Rightarrow> widget_context \<Rightarrow> widget_context" where
  "wx_emits ys c = c\<lparr>wx_outputs := wx_outputs c @ ys\<rparr>"

definition AdvancePhaseLocked :: "widget_phase \<Rightarrow> widget_context \<Rightarrow> bool \<times> widget_context" where
  "AdvancePhaseLocked next c = (if next \<le> wx_phase c then (False, c) else (True, c\<lparr>wx_phase := next\<rparr>))"

definition Widget_SetLatestError :: "i32 \<Rightarrow> widget_context \<Rightarrow> widget_context" where
  "Widget_SetLatestError error c = (if error \<noteq> SUCCESS then c\<lparr>wx_latestError := error\<rparr> else c)"

text \<open>An operation of the schedule node.\<close>

definition on_schedule :: "(widget_node \<Rightarrow> bool \<times> widget_node) \<Rightarrow> widget_context \<Rightarrow> bool \<times> widget_context" where
  "on_schedule f c =
     (case wx_schedule c of
        None \<Rightarrow> (False, c)
      | Some n \<Rightarrow> (case f n of (ok, n) \<Rightarrow> (ok, c\<lparr>wx_schedule := Some n\<rparr>)))"

definition OnScheduleAuthTip :: "i32 \<Rightarrow> i32 \<Rightarrow> widget_context \<Rightarrow> widget_context" where
  "OnScheduleAuthTip authType tipCode c =
     (case SetInt32Value ATTR_TIP_INFO tipCode Attributes_new of
        (ok, attr) \<Rightarrow>
          if \<not> ok then c
          else
            let c = (if tipCode = USER_AUTH_TIP_AUTH_SUCC then wx_emit (Caller (StageMark stage.S_ON_TIP_AUTH_SUCC)) c else c)
            in wx_emit (Caller (AcquireInfo ALL_IN_ONE authType (Serialize attr))) c)"

definition OnWidgetTip :: "i32 list \<Rightarrow> i32 \<Rightarrow> widget_context \<Rightarrow> widget_context" where
  "OnWidgetTip authTypeList tipCode c = fold (\<lambda>authType. OnScheduleAuthTip authType tipCode) authTypeList c"

text \<open>What the client of the dialogue does: operations of this context's node, of others, and commands.\<close>

fun node_operation :: "node_op \<Rightarrow> widget_context \<Rightarrow> widget_context" where
  "node_operation (OpStartAuthList types fail intent) c = snd (on_schedule (Node_StartAuthList types fail intent) c)"
| "node_operation (OpStopAuthList types) c = snd (on_schedule (Node_StopAuthList types) c)"
| "node_operation OpStopSchedule c = snd (on_schedule Node_StopSchedule c)"
| "node_operation OpClearSchedule c = snd (on_schedule Node_ClearSchedule c)"
| "node_operation OpNaviPinAuth c = snd (on_schedule Node_NaviPinAuth c)"
| "node_operation OpWidgetParaInvalid c = snd (on_schedule Node_WidgetParaInvalid c)"
| "node_operation (OpWidgetReload orientation turned loaded authType) c =
     snd (on_schedule (Node_WidgetReload orientation turned loaded authType) c)"
| "node_operation (OpWidgetTip types tip) c = OnWidgetTip types tip c"
| "node_operation (OpWidgetResult code authType token) c =
     snd (on_schedule (\<lambda>n. (True, OnWidgetResult code authType token n)) c)"

fun client_effect :: "client_call \<Rightarrow> widget_context \<Rightarrow> widget_context" where
  "client_effect (ToNode i oper) c = (if i = wx_contextId c then node_operation oper c else wx_emit (OtherNode i oper) c)"
| "client_effect (ToWidget cmdData) c = wx_emit (DialogCommand cmdData) c"

definition with_client ::
  "(widget_client \<Rightarrow> widget_client \<times> client_call list) \<Rightarrow> widget_context \<Rightarrow> widget_context" where
  "with_client f c = (case f (wx_client c) of (k, es) \<Rightarrow> fold client_effect es (c\<lparr>wx_client := k\<rparr>))"

section \<open>The timer\<close>

definition StartOnTerminateTimer :: "widget_env \<Rightarrow> widget_context \<Rightarrow> widget_context" where
  "StartOnTerminateTimer e c =
     (if wx_onTerminateTimerId c \<noteq> 0 then c
      else wx_emit (TimerRegistered (we_timerId e)) (c\<lparr>wx_onTerminateTimerId := we_timerId e\<rparr>))"

definition StopOnTerminateTimer :: "widget_context \<Rightarrow> widget_context" where
  "StopOnTerminateTimer c =
     (if wx_onTerminateTimerId c = 0 then c
      else (wx_emit (TimerUnregistered (wx_onTerminateTimerId c)) c)\<lparr>wx_onTerminateTimerId := 0\<rparr>)"

section \<open>The end\<close>

definition DeliverResultLocked :: "string \<Rightarrow> i32 \<Rightarrow> attributes \<Rightarrow> widget_context \<Rightarrow> widget_context" where
  "DeliverResultLocked reason resultCode attr c =
     (let c = (if reason \<noteq> [] then wx_emit (Caller (AuthFinishReason reason)) c else c);
          c = wx_emit (Caller (ResultDelivered resultCode attr)) c
      in if wx_remoteAuthCallback c
         then wx_emit (RemoteAuthResult (wc_challenge (wx_para c)) resultCode (Serialize attr)) c else c)"

definition Widget_EndLocked :: "widget_context \<Rightarrow> widget_context" where
  "Widget_EndLocked c =
     (let reportWithoutResult = wx_phase c < RESULT_DELIVERED
      in case AdvancePhaseLocked RELEASED c of
           (advanced, c) \<Rightarrow>
             if \<not> advanced then c
             else
               let c = StopOnTerminateTimer c;
                   c = with_client (Client_ClearSchedule (wx_contextId c)) c;
                   c = (if reportWithoutResult
                        then DeliverResultLocked ''WidgetContext release without result'' CANCELED Attributes_new
                               (wx_emit SystemFault c)
                        else c)
               in c\<lparr>wx_pool := snd (Pool_Delete (wx_contextId c) (wx_pool c))\<rparr>)"

definition TryEndLocked :: "widget_env \<Rightarrow> widget_context \<Rightarrow> widget_context" where
  "TryEndLocked e c =
     (if wx_phase c = RELEASED \<or> \<not> wx_scheduleReleased c then c
      else if wx_activeChildCount c > 0 \<and> wx_phase c < RESULT_DELIVERED then StartOnTerminateTimer e c
      else Widget_EndLocked c)"

definition OnChildTerminated :: "widget_env \<Rightarrow> widget_context \<Rightarrow> widget_context" where
  "OnChildTerminated e c =
     (let c = (if wx_activeChildCount c > 0 then c\<lparr>wx_activeChildCount := wx_activeChildCount c - 1\<rparr> else c)
      in if wx_activeChildCount c \<noteq> 0 then c else TryEndLocked e c)"

definition Widget_ClearSchedule :: "widget_env \<Rightarrow> widget_context \<Rightarrow> widget_context" where
  "Widget_ClearSchedule e c = (if wx_phase c = RELEASED then c else TryEndLocked e (c\<lparr>wx_scheduleReleased := True\<rparr>))"

definition OnTerminateTimerTimeOut :: "widget_context \<Rightarrow> widget_context" where
  "OnTerminateTimerTimeOut c =
     (if wx_phase c = RELEASED then c
      else Widget_EndLocked ((wx_emit SystemFault (c\<lparr>wx_onTerminateTimerId := 0\<rparr>))\<lparr>wx_activeChildCount := 0\<rparr>))"

definition Widget_OnStartFailed :: "i32 \<Rightarrow> widget_context \<Rightarrow> widget_context" where
  "Widget_OnStartFailed errorCode c =
     (case AdvancePhaseLocked RESULT_DELIVERED c of
        (advanced, c) \<Rightarrow>
          if \<not> advanced then c
          else Widget_EndLocked (DeliverResultLocked ''WidgetContext start context fail'' errorCode Attributes_new c))"

section \<open>The dialogue\<close>

definition RefreshAuthProfiles :: "widget_env \<Rightarrow> widget_context \<Rightarrow> bool \<times> widget_context" where
  "RefreshAuthProfiles e c =
     (case refresh_profiles (we_profile e) (wc_authTypeList (wx_para c)) (wx_para c) [] of
        (ok, para, log) \<Rightarrow> (ok, wx_emit (Caller (ExecutorsCalled log)) (c\<lparr>wx_para := para\<rparr>)))"

definition ConnectExtensionAbility ::
  "widget_env \<Rightarrow> bytes \<times> bytes \<Rightarrow> bytes \<Rightarrow> widget_context \<Rightarrow> bool \<times> widget_context" where
  "ConnectExtensionAbility e element commandStr c =
     (if wx_connection c \<noteq> None then (False, c)
      else (we_connect e, wx_emit (ExtensionConnected (fst element) (snd element) commandStr)
              (c\<lparr>wx_connection := Some (UIExtensionAbilityConnection commandStr)\<rparr>)))"

definition DisconnectExtension :: "widget_env \<Rightarrow> widget_context \<Rightarrow> bool \<times> widget_context" where
  "DisconnectExtension e c =
     (if (wp_hasContext (wc_widgetParam (wx_para c)) \<and> IsSupportFollowCallerUi e (wx_jsonBuf c) (wx_para c)) \<or>
         wx_useModalApplication c
      then
        let c = snd (on_schedule Node_StopSchedule c)
        in (True, if wx_modalCallback c then wx_emit (ModalCommand (wx_contextId c) []) c else c)
      else
        let c = snd (on_schedule Node_StopSchedule c)
        in case wx_connection c of
             None \<Rightarrow> (False, c)
           | Some x \<Rightarrow>
               (case ReleaseUIExtensionComponent x of
                  (x, es) \<Rightarrow> (we_disconnect e,
                    (wx_emits (map ExtensionEffect es @ [ExtensionDisconnected]) c)\<lparr>wx_connection := None\<rparr>)))"

definition StopAllRunTask :: "widget_env \<Rightarrow> i32 \<Rightarrow> widget_context \<Rightarrow> widget_context" where
  "StopAllRunTask e resultCode c =
     (let c = c\<lparr>wx_runTaskInfoList := [],
              wx_pool := fold Pool_Cancel (map snd (wx_runTaskInfoList c)) (wx_pool c)\<rparr>
      in if resultCode \<noteq> SUCCESS then snd (DisconnectExtension e c) else c)"

text \<open>The attributes of a result with a token: the result is reported as failed when one cannot be set.\<close>

definition set_or_reason ::
  "bool \<times> attributes \<Rightarrow> string \<Rightarrow> attributes \<times> string option \<Rightarrow> attributes \<times> string option" where
  "set_or_reason r reason s =
     (case s of
        (attr, Some failed) \<Rightarrow> s
      | (attr, None) \<Rightarrow> (case r of (ok, attr) \<Rightarrow> (attr, if ok then None else Some reason)))"

definition result_attributes :: "widget_auth_result \<Rightarrow> attributes \<Rightarrow> attributes \<times> string option" where
  "result_attributes info attr =
     (let s = set_or_reason (SetInt32Value ATTR_AUTH_TYPE (wa_authType info) attr)
                ''WidgetContext End set authType fail'' (attr, None);
          s = (if wa_token info = [] then s
               else set_or_reason (SetUint8ArrayValue ATTR_SIGNATURE (wa_token info) (fst s))
                      ''WidgetContext End set token fail'' s);
          s = set_or_reason (SetUint64Value ATTR_CREDENTIAL_DIGEST (wa_credentialDigest info) (fst s))
                ''WidgetContext End set credentialDigest fail'' s;
          s = set_or_reason (SetUint16Value ATTR_CREDENTIAL_COUNT (wa_credentialCount info) (fst s))
                ''WidgetContext End set credentialCount fail'' s
      in set_or_reason (SetInt32Value ATTR_USER_ID (wa_resultUserId info) (fst s))
           ''WidgetContext End set userId fail'' s)"

definition Widget_HandleAuthSuccessResult :: "widget_context \<Rightarrow> bool \<times> attributes \<times> widget_context" where
  "Widget_HandleAuthSuccessResult c =
     (case result_attributes (wx_authResultInfo c) Attributes_new of
        (attr, None) \<Rightarrow> (True, attr, c)
      | (attr, Some reason) \<Rightarrow>
          (False, attr, DeliverResultLocked [] GENERAL_ERROR attr
             (snd (AdvancePhaseLocked RESULT_DELIVERED (wx_emit (Caller (AuthFinishReason reason)) c)))))"

definition DeliverEndLocked :: "widget_env \<Rightarrow> i32 \<Rightarrow> widget_context \<Rightarrow> widget_context" where
  "DeliverEndLocked e resultCode c =
     (case AdvancePhaseLocked RESULT_DELIVERED c of
        (advanced, c) \<Rightarrow>
          if \<not> advanced then c
          else (case (if resultCode = SUCCESS \<or> wa_token (wx_authResultInfo c) \<noteq> []
                      then Widget_HandleAuthSuccessResult c else (True, Attributes_new, c)) of
                  (ok, attr, c) \<Rightarrow>
                    if \<not> ok then StartOnTerminateTimer e c
                    else
                      let c = DeliverResultLocked [] resultCode attr c;
                          c = c\<lparr>wx_connection := map_option (setIsNormalEnd True) (wx_connection c)\<rparr>
                      in StartOnTerminateTimer e c))"

definition Widget_End :: "widget_env \<Rightarrow> i32 \<Rightarrow> widget_context \<Rightarrow> widget_context" where
  "Widget_End e resultCode c =
     (case AdvancePhaseLocked STOPPING c of
        (advanced, c) \<Rightarrow>
          if \<not> advanced then c
          else
            let c = (if resultCode = CANCELED then wx_emit (Caller (StageMark stage.S_CANCEL)) c else c)
            in TryEndLocked e (DeliverEndLocked e resultCode (StopAllRunTask e resultCode c)))"

definition ConnectExtension :: "widget_env \<Rightarrow> widget_rotate_para \<Rightarrow> widget_context \<Rightarrow> bool \<times> widget_context" where
  "ConnectExtension e r c =
     (case (if rt_isReload r then RefreshAuthProfiles e c else (True, c)) of
        (refreshed, c) \<Rightarrow>
          if \<not> refreshed then (False, c)
          else
            let first = hd (wc_authTypeList (wx_para c));
                asked = IsSingleFaceOrFingerPrintAuth (wx_para c) \<and> wc_skipLockedBiometricAuth (wx_para c);
                profile = (case wc_authProfileMap (wx_para c) first of None \<Rightarrow> AuthProfile_default | Some p \<Rightarrow> p);
                c = (if asked then c\<lparr>wx_para := (wx_para c)
                       \<lparr>wc_authProfileMap := (wc_authProfileMap (wx_para c))(first \<mapsto> profile)\<rparr>\<rparr> else c)
            in if asked \<and> pr_remainTimes profile = 0 then (True, Widget_End e LOCKED c)
               else if \<not> IsWidgetLaunchAllowed e (wx_para c) then (True, Widget_End e CANCELED c)
               else
                 let commandData = BuildStartCommand e (wx_jsonBuf c) (wx_remoteAuthCallback c) (wx_contextId c)
                       (wx_faceReload c) (wx_para c) r
                 in if commandData = [] then (False, c)
                    else if wp_hasContext (wc_widgetParam (wx_para c)) \<and>
                            IsSupportFollowCallerUi e (wx_jsonBuf c) (wx_para c)
                    then
                      let c = c\<lparr>wx_useModalApplication := True\<rparr>
                      in (True, if wx_modalCallback c then wx_emit (ModalCommand (wx_contextId c) commandData) c else c)
                    else (case ConnectExtensionAbility e (ProcessElementName (wx_jsonBuf c)
                                 (text_of ''com.ohos.systemui'') (text_of ''com.ohos.systemui.dialog'')) commandData c of
                            (connected, c) \<Rightarrow> if \<not> connected then (False, wx_emit SystemFault c) else (True, c)))"

definition SendFaceAlgoCommand :: "widget_env \<Rightarrow> string \<Rightarrow> widget_context \<Rightarrow> widget_context" where
  "SendFaceAlgoCommand e operation c =
     (case GetResourceNodeByTypeAndRole FACE ALL_IN_ONE (pe_pool (we_profile e)) of
        [] \<Rightarrow> c
      | ref # _ \<Rightarrow>
          let extraInfo = text_of (''{'' @ [CHR 0x22] @ ''operation'' @ [CHR 0x22] @ '':'' @ [CHR 0x22] @ operation @
                [CHR 0x22] @ '','' @ [CHR 0x22] @ ''caller'' @ [CHR 0x22] @ '':'' @ [CHR 0x22]) @
                wx_faceAlgoCaller c @ text_of ([CHR 0x22] @ ''}'')
          in wx_emit (Caller (ExecutorsCalled (SendMsgToExecutor (\<lambda>_. pe_ipc (we_profile e)) (pe_pool (we_profile e))
               (rn_executorIndex (rp_heap (pe_pool (we_profile e)) ref)) PROPERTY_INIT_ALGORITHM extraInfo []))) c)"

definition InitFaceAlgo :: "widget_env \<Rightarrow> widget_context \<Rightarrow> widget_context" where
  "InitFaceAlgo e c = SendFaceAlgoCommand e ''init''
     (c\<lparr>wx_faceAlgoCaller := text_of (''widget_'' @ decimal (unat (we_faceAlgoCallerSeq e)))\<rparr>)"

definition UninitFaceAlgo :: "widget_env \<Rightarrow> widget_context \<Rightarrow> widget_context" where
  "UninitFaceAlgo e c = SendFaceAlgoCommand e ''uninit'' c"

text \<open>The destructor.\<close>

definition WidgetContext_destroy :: "widget_env \<Rightarrow> widget_context \<Rightarrow> widget_context" where
  "WidgetContext_destroy e c = UninitFaceAlgo e (StopOnTerminateTimer c)"

definition LaunchWidget :: "widget_env \<Rightarrow> widget_context \<Rightarrow> bool \<times> widget_context" where
  "LaunchWidget e c =
     (if wx_phase c \<ge> STOPPING then (False, c)
      else
        let c = (if FACE \<in> set (wc_authTypeList (wx_para c)) then InitFaceAlgo e c else c)
        in ConnectExtension e \<lparr>rt_isReload = False, rt_orientation = 0, rt_needRotate = 0, rt_alreadyLoad = 0,
             rt_rotateAuthType = 0\<rparr> c)"

definition AuthWidgetReloadInit :: "widget_env \<Rightarrow> widget_context \<Rightarrow> widget_context" where
  "AuthWidgetReloadInit e c = snd (DisconnectExtension e c)"

text \<open>\<^verbatim>\<open>IsValidRotate\<close> accepts every rotation, so it has no branch here.\<close>

definition AuthWidgetReload ::
  "widget_env \<Rightarrow> u32 \<Rightarrow> u32 \<Rightarrow> u32 \<Rightarrow> i32 \<Rightarrow> widget_context \<Rightarrow> bool \<times> widget_context" where
  "AuthWidgetReload e orientation needRotate alreadyLoad rotateAuthType c =
     (let c = (if alreadyLoad \<noteq> 0 then c\<lparr>wx_widgetAlreadyLoad := 1\<rparr> else c)
      in ConnectExtension e \<lparr>rt_isReload = True, rt_orientation = orientation, rt_needRotate = needRotate,
           rt_alreadyLoad = alreadyLoad, rt_rotateAuthType = rotateAuthType\<rparr> c)"

section \<open>The children\<close>

definition ProcAuthResult :: "i32 \<Rightarrow> i32 \<Rightarrow> i32 \<Rightarrow> attributes \<Rightarrow> widget_context \<Rightarrow> widget_context" where
  "ProcAuthResult resultCode authType freezingTime finalResult c =
     (if wx_schedule c = None then c
      else if resultCode = SUCCESS \<or> resultCode = COMPLEXITY_CHECK_FAILED then
        let info = wx_authResultInfo c;
            info = (case GetUint8ArrayValue ATTR_SIGNATURE finalResult of None \<Rightarrow> info | Some v \<Rightarrow> info\<lparr>wa_token := v\<rparr>);
            info = (case GetUint64Value ATTR_CREDENTIAL_DIGEST finalResult of
                      None \<Rightarrow> info | Some v \<Rightarrow> info\<lparr>wa_credentialDigest := v\<rparr>);
            info = (case GetUint16Value ATTR_CREDENTIAL_COUNT finalResult of
                      None \<Rightarrow> info | Some v \<Rightarrow> info\<lparr>wa_credentialCount := v\<rparr>);
            c = c\<lparr>wx_authResultInfo := info\<lparr>wa_authType := authType, wa_resultUserId := wc_userId (wx_para c)\<rparr>\<rparr>;
            c = (if resultCode \<noteq> SUCCESS then Widget_SetLatestError resultCode c else c);
            c = snd (on_schedule (Node_NotifyAuthSuccess authType) c)
        in if wx_isDirectAuth c then snd (on_schedule Node_ClearSchedule c) else c
      else
        let c = Widget_SetLatestError resultCode c
        in if wx_isDirectAuth c
           then snd (on_schedule Node_ClearSchedule (snd (on_schedule (Node_NotifyAuthFail authType) c)))
           else
             let c = (if resultCode \<noteq> CANCELED then OnScheduleAuthTip authType (GetAuthTipCode resultCode freezingTime) c
                      else c)
             in if wc_skipLockedBiometricAuth (wx_para c) \<and> sint freezingTime > 0 then
                  (if IsSingleFaceOrFingerPrintAuth (wx_para c)
                   then snd (on_schedule (Node_NotifyAuthFail authType) (Widget_SetLatestError LOCKED c))
                   else if IsNavigationAuth (wx_para c) then snd (on_schedule Node_NaviPinAuth c)
                   else snd (on_schedule (Node_StopAuthList [authType]) c))
                else snd (on_schedule (Node_StopAuthList [authType]) c))"

definition OnChildAuthResult ::
  "widget_env \<Rightarrow> i32 \<Rightarrow> i32 \<Rightarrow> attributes \<Rightarrow> widget_context \<Rightarrow> widget_context" where
  "OnChildAuthResult e resultCode authType finalResult c =
     OnChildTerminated e
       (if wx_phase c = RELEASED then c
        else
          let remainTimes = (case GetInt32Value ATTR_REMAIN_TIMES finalResult of None \<Rightarrow> - 1 | Some v \<Rightarrow> v);
              freezingTime = (case GetInt32Value ATTR_FREEZING_TIME finalResult of None \<Rightarrow> - 1 | Some v \<Rightarrow> v);
              c = with_client (\<lambda>k. (k, ReportWidgetResult (we_dump e) resultCode authType freezingTime remainTimes
                    (wc_skipLockedBiometricAuth (wx_para c)) (wx_contextId c) (wc_challenge (wx_para c)) k)) c;
              c = wx_emit (Caller (TraceAuthType authType)) c
          in ProcAuthResult resultCode authType freezingTime finalResult c)"

definition ProcAuthTipInfo :: "widget_env \<Rightarrow> i32 \<Rightarrow> i32 \<Rightarrow> bytes \<Rightarrow> widget_context \<Rightarrow> widget_context" where
  "ProcAuthTipInfo e tip authType extraInfo c =
     (if wx_schedule c = None then c
      else (case ParseAuthTipInfo (we_callback e) tip extraInfo GENERAL_ERROR (- 1) of
              (ret, resultCode, freezingTime) \<Rightarrow>
                if ret \<noteq> SUCCESS then c
                else if resultCode = SUCCESS then c
                else
                  let c = (if resultCode \<noteq> CANCELED
                           then OnScheduleAuthTip authType (GetAuthTipCode resultCode freezingTime) c else c)
                  in if wc_skipLockedBiometricAuth (wx_para c) \<and> sint freezingTime > 0 then
                       (if IsSingleFaceOrFingerPrintAuth (wx_para c)
                        then snd (on_schedule (Node_NotifyAuthFail authType) (Widget_SetLatestError LOCKED c))
                        else if IsNavigationAuth (wx_para c) then snd (on_schedule Node_NaviPinAuth c)
                        else c)
                     else c))"

definition OnChildAuthTip :: "widget_env \<Rightarrow> i32 \<Rightarrow> i32 \<Rightarrow> attributes \<Rightarrow> widget_context \<Rightarrow> widget_context" where
  "OnChildAuthTip e tipType authType extraInfo c =
     (case GetUint8ArrayValue ATTR_EXTRA_INFO extraInfo of
        None \<Rightarrow> c
      | Some tipInfo \<Rightarrow>
          ProcAuthTipInfo e tipType authType tipInfo
            (with_client (\<lambda>k. (k, ReportWidgetTip (we_dump e) tipType authType tipInfo
               (wc_skipLockedBiometricAuth (wx_para c)) (wx_contextId c) k)) c))"

text \<open>\<^verbatim>\<open>services/context/src/widget_context_callback_impl.cpp\<close>: what the children call.\<close>

definition WidgetCallback_OnResult :: "widget_env \<Rightarrow> i32 \<Rightarrow> i32 \<Rightarrow> bytes \<Rightarrow> widget_context \<Rightarrow> widget_context" where
  "WidgetCallback_OnResult e authType resultCode extraInfo c =
     OnChildAuthResult e resultCode authType (Attributes_of_raw extraInfo) c"

definition WidgetCallback_OnAcquireInfo :: "widget_env \<Rightarrow> i32 \<Rightarrow> i32 \<Rightarrow> bytes \<Rightarrow> widget_context \<Rightarrow> widget_context" where
  "WidgetCallback_OnAcquireInfo e authType acquireInfo extraInfo c =
     OnChildAuthTip e acquireInfo authType (Attributes_of_raw extraInfo) c"

text \<open>
  A child that could not be started reports an error of its own through its callback, whose cleaner runs afterwards when
  it has one.
\<close>

definition ReportChildError :: "widget_env \<Rightarrow> i32 \<Rightarrow> context_callback option \<Rightarrow> widget_context \<Rightarrow> widget_context" where
  "ReportChildError e authType widgetCallback c =
     (let c = WidgetCallback_OnResult e authType GENERAL_ERROR (Serialize Attributes_new) c
      in case Option.bind widgetCallback cb_cleaner of
           None \<Rightarrow> c
         | Some contextId \<Rightarrow> c\<lparr>wx_pool := Cleaner_call contextId (wx_pool c)\<rparr>)"

definition BuildTask ::
  "widget_env \<Rightarrow> bytes \<Rightarrow> i32 \<Rightarrow> u32 \<Rightarrow> bool \<Rightarrow> i32 \<Rightarrow> widget_context \<Rightarrow> u64 option \<times> widget_context" where
  "BuildTask e challenge authType authTrustLevel endAfterFirstFail authIntent c =
     (case Child_GetAuthContextCallback e (wx_para c) (wx_contextId c) authType authTrustLevel of
        None \<Rightarrow> (None, ReportChildError e authType None c)
      | Some widgetCallback \<Rightarrow>
          let para = BuildAuthenticationPara (wx_para c) (wk_authTokenId (wx_client c)) challenge authType authTrustLevel
                endAfterFirstFail authIntent
          in case CreateSimpleAuthContext (GetNewContextId (we_draws e) (wx_pool c)) para False True of
               None \<Rightarrow> (None, ReportChildError e authType (Some widgetCallback) c)
             | Some context \<Rightarrow>
                 let widgetCallback = SetCleaner (bc_contextId context)
                       (SetTraceAuthContextId (bc_contextId context) widgetCallback)
                 in case Pool_Schedule (Some (simple_view CONTEXT_SIMPLE_AUTH (we_createTime e) widgetCallback context))
                           (wx_pool c) of
                      (scheduled, pool) \<Rightarrow>
                        if \<not> scheduled then (None, ReportChildError e authType (Some widgetCallback) (c\<lparr>wx_pool := pool\<rparr>))
                        else (Some (bc_contextId context),
                              c\<lparr>wx_pool := pool, wx_launched := wx_launched c @ [(authType, context, widgetCallback)]\<rparr>))"

definition start_child :: "widget_env \<Rightarrow> bool \<Rightarrow> i32 \<Rightarrow> i32 \<Rightarrow> widget_context \<Rightarrow> widget_context" where
  "start_child e endAfterFirstFail authIntent authType c =
     (case BuildTask e (wc_challenge (wx_para c)) authType (wc_atl (wx_para c)) endAfterFirstFail authIntent
             (c\<lparr>wx_activeChildCount := wx_activeChildCount c + 1\<rparr>) of
        (None, c) \<Rightarrow> c
      | (Some taskId, c) \<Rightarrow>
          let c = (if authType = FACE then c\<lparr>wx_faceReload := 1\<rparr> else c)
          in c\<lparr>wx_runTaskInfoList := wx_runTaskInfoList c @ [(authType, taskId)]\<rparr>)"

definition ExecuteAuthList :: "widget_env \<Rightarrow> i32 list \<Rightarrow> bool \<Rightarrow> i32 \<Rightarrow> widget_context \<Rightarrow> widget_context" where
  "ExecuteAuthList e authTypeList endAfterFirstFail authIntent c =
     (if wx_phase c \<ge> STOPPING then c else fold (start_child e endAfterFirstFail authIntent) authTypeList c)"

definition stop_child :: "i32 \<Rightarrow> widget_context \<Rightarrow> widget_context" where
  "stop_child authType c =
     (case filter (\<lambda>(t, i). t = authType) (wx_runTaskInfoList c) of
        [] \<Rightarrow> c
      | (t, taskId) # _ \<Rightarrow>
          c\<lparr>wx_runTaskInfoList := remove_first (\<lambda>(t, i). t = authType) (wx_runTaskInfoList c),
            wx_pool := Pool_Cancel taskId (wx_pool c)\<rparr>)"

definition Widget_StopAuthList :: "i32 list \<Rightarrow> widget_context \<Rightarrow> widget_context" where
  "Widget_StopAuthList authTypeList c = fold stop_child authTypeList c"

section \<open>What the node calls\<close>

definition EndAuthAsCancel :: "widget_env \<Rightarrow> widget_context \<Rightarrow> widget_context" where
  "EndAuthAsCancel e c =
     (if wx_latestError c = COMPLEXITY_CHECK_FAILED then Widget_End e TRUST_LEVEL_NOT_SUPPORT c
      else if (case wx_connection c of None \<Rightarrow> False | Some x \<Rightarrow> GetOnResultEnd x) then c
      else Widget_End e CANCELED c)"

definition OnAuthSuccess :: "widget_env \<Rightarrow> widget_context \<Rightarrow> widget_context" where
  "OnAuthSuccess e c =
     (if wx_latestError c = COMPLEXITY_CHECK_FAILED then Widget_End e TRUST_LEVEL_NOT_SUPPORT c
      else Widget_End e SUCCESS c)"

definition OnAuthFail :: "widget_env \<Rightarrow> widget_context \<Rightarrow> widget_context" where
  "OnAuthFail e c = Widget_End e (wx_latestError c) c"

definition OnScheduleAuthResult :: "widget_env \<Rightarrow> i32 \<Rightarrow> i32 \<Rightarrow> bytes \<Rightarrow> widget_context \<Rightarrow> widget_context" where
  "OnScheduleAuthResult e resultCode authType token c =
     (if resultCode \<noteq> SUCCESS then Widget_End e resultCode c
      else
        let c = c\<lparr>wx_authResultInfo := (wx_authResultInfo c)\<lparr>wa_token := token, wa_authType := authType,
                  wa_resultUserId := wc_userId (wx_para c)\<rparr>\<rparr>
        in case we_enrolledState e (wc_userId (wx_para c)) authType of
             (resultCode, enrolledState) \<Rightarrow>
               if resultCode \<noteq> SUCCESS then Widget_End e resultCode c
               else
                 let c = wx_emit (Caller (TraceAuthType authType)) c;
                     c = c\<lparr>wx_authResultInfo := (wx_authResultInfo c)
                           \<lparr>wa_credentialCount := ee_credentialCount enrolledState,
                            wa_credentialDigest := ee_credentialDigest enrolledState AND 0xFFFF\<rparr>\<rparr>
                 in Widget_End e resultCode c)"

definition Widget_GetRemoteAuthParam :: "widget_context \<Rightarrow> bool \<times> widget_context" where
  "Widget_GetRemoteAuthParam c =
     (if \<not> wx_remoteAuthCallback c then (False, c)
      else (True, wx_emit (RemoteWidgetParamAsked (wc_challenge (wx_para c)) (wx_contextId c)) c))"

fun widget_callback :: "widget_env \<Rightarrow> widget_call \<Rightarrow> widget_context \<Rightarrow> bool \<times> widget_context" where
  "widget_callback e CallGetRemoteAuthParam c = Widget_GetRemoteAuthParam c"
| "widget_callback e CallLaunchWidget c = LaunchWidget e c"
| "widget_callback e (CallExecuteAuthList types fail intent) c = (True, ExecuteAuthList e types fail intent c)"
| "widget_callback e (CallStopAuthList types) c = (True, Widget_StopAuthList types c)"
| "widget_callback e CallEndAuthAsCancel c = (True, EndAuthAsCancel e c)"
| "widget_callback e CallEndAuthAsNaviPin c = (True, Widget_End e CANCELED_FROM_WIDGET c)"
| "widget_callback e CallEndAuthAsWidgetParaInvalid c = (True, Widget_End e INVALID_PARAMETERS c)"
| "widget_callback e CallAuthWidgetReloadInit c = (True, AuthWidgetReloadInit e c)"
| "widget_callback e (CallAuthWidgetReload orientation turned loaded authType) c =
     AuthWidgetReload e orientation turned loaded authType c"
| "widget_callback e (CallOnAuthSuccess authType) c = (True, OnAuthSuccess e c)"
| "widget_callback e (CallOnAuthFail authType) c = (True, OnAuthFail e c)"
| "widget_callback e (CallOnScheduleAuthResult code authType token) c =
     (True, OnScheduleAuthResult e code authType token c)"
| "widget_callback e CallClearSchedule c = (True, Widget_ClearSchedule e c)"

text \<open>An action of the node: its own part, its call of the context, and the stop of a schedule that could not go on.\<close>

definition perform :: "widget_env \<Rightarrow> widget_action \<Rightarrow> widget_context \<Rightarrow> widget_context" where
  "perform e a c =
     (case wx_schedule c of
        None \<Rightarrow> c
      | Some n \<Rightarrow>
          (case widget_handler a n of
             (n, call) \<Rightarrow>
               (case widget_callback e call (c\<lparr>wx_schedule := Some n\<rparr>) of
                  (ok, c) \<Rightarrow> if \<not> ok \<and> stops_on_failure a then snd (on_schedule Node_StopSchedule c) else c)))"

section \<open>The life of the context\<close>

definition Widget_OnStart :: "widget_env \<Rightarrow> widget_context \<Rightarrow> bool \<times> widget_context" where
  "Widget_OnStart e c =
     (case RefreshAuthProfiles e c of
        (refreshed, c) \<Rightarrow>
          if \<not> refreshed then (False, Widget_SetLatestError GENERAL_ERROR c)
          else (case WidgetNode_Create of
                  None \<Rightarrow> (False, c\<lparr>wx_schedule := None\<rparr>)
                | Some n \<Rightarrow>
                    let k = SetWidgetParam (wc_widgetParam (wx_para c)) (wx_client c);
                        k = SetAuthTypeList (wc_authTypeList (wx_para c)) k;
                        k = SetWidgetSchedule (wx_contextId c) k;
                        k = SetChallenge (wc_challenge (wx_para c)) k;
                        k = SetCallingBundleName (GetCallingBundleName e (wx_para c)) k;
                        k = InitSessionProfiles (wx_para c) k;
                        c = c\<lparr>wx_schedule := Some n, wx_isDirectAuth := IsSingleCompanionDeviceAuth (wx_para c),
                              wx_client := k\<rparr>
                    in if wx_isDirectAuth c then
                         on_schedule Node_StartDirectAuth
                           (snd (on_schedule (Node_StartAuthList (wc_authTypeList (wx_para c)) False 0) c))
                       else if wx_remoteAuthCallback c then on_schedule Node_GetRemoteAuthParam c
                       else (case on_schedule Node_StartSchedule
                                    (wx_emit (Caller (StageEnterWait stage.S_BEGIN_SCHEDULE_START)) c) of
                               (ok, c) \<Rightarrow> (ok, wx_emit (Caller (StageExitWait stage.S_BEGIN_SCHEDULE_END)) c))))"

definition Widget_Start :: "widget_env \<Rightarrow> widget_context \<Rightarrow> bool \<times> widget_context" where
  "Widget_Start e c =
     (if wx_phase c \<noteq> NOT_STARTED then
        (if wx_phase c \<ge> STOPPING then (True, c) else (False, Widget_SetLatestError GENERAL_ERROR c))
      else (case AdvancePhaseLocked RUNNING (wx_emit (Caller (StageMark stage.S_CONTEXT_START)) c) of
              (advanced, c) \<Rightarrow> if \<not> advanced then (False, c) else Widget_OnStart e c))"

text \<open>The task the pool posts for a promoted context.\<close>

definition widget_start_task :: "widget_env \<Rightarrow> widget_context \<Rightarrow> widget_context" where
  "widget_start_task e c =
     (case Widget_Start e c of (started, c) \<Rightarrow> if \<not> started then Widget_OnStartFailed (wx_latestError c) c else c)"

definition Widget_OnStop :: "widget_env \<Rightarrow> widget_context \<Rightarrow> bool \<times> widget_context" where
  "Widget_OnStop e c = (True, with_client (Client_ClearSchedule (wx_contextId c)) (Widget_End e CANCELED c))"

definition Widget_Stop :: "widget_env \<Rightarrow> widget_context \<Rightarrow> bool \<times> widget_context" where
  "Widget_Stop e c =
     (let c = wx_emit (Caller (StageMark stage.S_CANCEL)) c
      in case (if wx_phase c = NOT_STARTED then AdvancePhaseLocked STOPPING c else (False, c)) of
           (stoppedBeforeStart, c) \<Rightarrow>
             if stoppedBeforeStart then (True, Widget_OnStartFailed CANCELED c) else Widget_OnStop e c)"

definition SetRemoteAuthParam :: "widget_param_inner \<Rightarrow> bool \<Rightarrow> widget_context \<Rightarrow> widget_context" where
  "SetRemoteAuthParam widgetParam modalCallback c =
     snd (on_schedule Node_StartSchedule
       (c\<lparr>wx_para := (wx_para c)\<lparr>wc_widgetParam := widgetParam\<rparr>, wx_modalCallback := modalCallback\<rparr>))"

text \<open>
  \<^verbatim>\<open>services/context/src/set_widget_param_callback_service.cpp\<close>: the remote side answers with the appearance of the dialogue,
  and the pool finds the context.
\<close>

definition OnSetRemoteAuthWidgetParam :: "widget_param_inner \<Rightarrow> bool \<Rightarrow> widget_context \<Rightarrow> i32 \<times> widget_context" where
  "OnSetRemoteAuthWidgetParam widgetParam modalCallback c =
     (if SelectLocked (wx_contextId c) (wx_pool c) = None then (GENERAL_ERROR, c)
      else (SUCCESS, SetRemoteAuthParam
              (if wp_windowMode widgetParam = UNKNOWN_WINDOW_MODE then widgetParam\<lparr>wp_windowMode := DIALOG_BOX\<rparr>
               else widgetParam) modalCallback c))"

end
