(* ===== verification/Widget_Runs.thy ===== *)
theory Widget_Runs
  imports Widget_Context
begin

text \<open>
  The runs of a widget authentication, and what every member of the context keeps: the relation \<open>advances\<close> collects
  the frame of all of them. A member passes it on to the members it calls, so each has one lemma here, and the
  invariants of runs follow from the lemma of each step.
\<close>

section \<open>Runs\<close>

datatype widget_label =
    WStart widget_env
  | WStop widget_env
  | WNotice "bytes \<Rightarrow> json option" i32 bytes
  | WChildResult widget_env i32 i32 bytes
  | WChildTip widget_env i32 i32 bytes
  | WEvent widget_env
  | WTimeout
  | WRemoteParam widget_param_inner bool
  | WConnected bool i32
  | WDisconnected
  | WForceStop
  | WOthers widget_client
  | WPool pool_label

text \<open>
  One event of the node. The context holds the node with its queue; what an action queues goes behind what is queued
  already.
\<close>

definition with_machine :: "(widget_action fsm \<Rightarrow> widget_action fsm) \<Rightarrow> widget_context \<Rightarrow> widget_context" where
  "with_machine f c = c\<lparr>wx_schedule := map_option (\<lambda>n. n\<lparr>wnd_machine := f (wnd_machine n)\<rparr>) (wx_schedule c)\<rparr>"

definition pending :: "widget_context \<Rightarrow> u32 list" where
  "pending c = (case wx_schedule c of None \<Rightarrow> [] | Some n \<Rightarrow> pendingEvents (wnd_machine n))"

definition widget_run :: "widget_env \<Rightarrow> (widget_action, widget_context) action_run" where
  "widget_run e a event c =
     (let c = perform e a (with_machine (\<lambda>m. m\<lparr>pendingEvents := []\<rparr>) c) in (c, pending c))"

definition widget_event :: "widget_env \<Rightarrow> widget_context \<Rightarrow> widget_context" where
  "widget_event e c =
     (case wx_schedule c of
        None \<Rightarrow> c
      | Some n \<Rightarrow>
          (case pendingEvents (wnd_machine n) of
             [] \<Rightarrow> c
           | event # events \<Rightarrow>
               (case ProcessEvent (widget_run e) event ((wnd_machine n)\<lparr>pendingEvents := events\<rparr>, c) of
                  (m, c) \<Rightarrow> with_machine (\<lambda>old. m\<lparr>postedTasks := postedTasks old\<rparr>) c)))"

definition notice_received :: "(bytes \<Rightarrow> json option) \<Rightarrow> i32 \<Rightarrow> bytes \<Rightarrow> widget_context \<Rightarrow> widget_context" where
  "notice_received parse type eventData c = with_client (\<lambda>k. snd (OnNotice parse type eventData k)) c"

definition extension_notified ::
  "(extension_connection \<Rightarrow> bool \<times> extension_connection \<times> extension_effect list) \<Rightarrow> widget_context \<Rightarrow> widget_context" where
  "extension_notified f c =
     (case wx_connection c of
        None \<Rightarrow> c
      | Some x \<Rightarrow>
          (case f x of
             (force, x, es) \<Rightarrow>
               let c = wx_emits (map ExtensionEffect es) (c\<lparr>wx_connection := Some x\<rparr>)
               in if force then with_client (ForceStopAuth (wx_contextId c)) c else c))"

text \<open>
  The others use the client for their own sessions: they neither register nor remove the node of this context. A timer
  fires once, and only when it was registered.
\<close>

inductive widget_step ::
  "(context_call list \<Rightarrow> u64 \<Rightarrow> bool) \<Rightarrow> (context_call list \<Rightarrow> u64 \<Rightarrow> i32) \<Rightarrow>
   widget_label \<Rightarrow> widget_context \<Rightarrow> widget_context \<Rightarrow> bool"
  for start latestError where
  widget_start: "widget_step start latestError (WStart e) c (widget_start_task e c)"
| widget_stop: "widget_step start latestError (WStop e) c (snd (Widget_Stop e c))"
| widget_notice: "widget_step start latestError (WNotice parse type eventData) c (notice_received parse type eventData c)"
| widget_child: "widget_step start latestError (WChildResult e authType code extra) c
    (WidgetCallback_OnResult e authType code extra c)"
| widget_tip: "widget_step start latestError (WChildTip e authType tip extra) c
    (WidgetCallback_OnAcquireInfo e authType tip extra c)"
| widget_event: "widget_step start latestError (WEvent e) c (widget_event e c)"
| widget_timeout: "wx_onTerminateTimerId c \<noteq> 0 \<Longrightarrow> widget_step start latestError WTimeout c (OnTerminateTimerTimeOut c)"
| widget_remote: "widget_step start latestError (WRemoteParam param modal) c (snd (OnSetRemoteAuthWidgetParam param modal c))"
| widget_connected: "widget_step start latestError (WConnected remoteObject errCode) c
    (extension_notified (OnAbilityConnectDone remoteObject errCode) c)"
| widget_disconnected: "widget_step start latestError WDisconnected c (extension_notified OnAbilityDisconnectDone c)"
| widget_force: "widget_step start latestError WForceStop c (with_client ForceStopAuth_all c)"
| widget_others: "wx_contextId c \<in> set (wk_scheduleMap k) \<longleftrightarrow> wx_contextId c \<in> set (wk_scheduleMap (wx_client c)) \<Longrightarrow>
    widget_step start latestError (WOthers k) c (c\<lparr>wx_client := k\<rparr>)"
| widget_pool: "pool_step start latestError l (wx_pool c) p \<Longrightarrow>
    widget_step start latestError (WPool l) c (c\<lparr>wx_pool := p\<rparr>)"

inductive widget_run_of ::
  "(context_call list \<Rightarrow> u64 \<Rightarrow> bool) \<Rightarrow> (context_call list \<Rightarrow> u64 \<Rightarrow> i32) \<Rightarrow>
   widget_context \<Rightarrow> widget_label list \<Rightarrow> widget_context \<Rightarrow> bool"
  for start latestError c0 where
  wrun_nil: "widget_run_of start latestError c0 [] c0"
| wrun_snoc: "widget_run_of start latestError c0 ls c \<Longrightarrow> widget_step start latestError l c c' \<Longrightarrow>
    widget_run_of start latestError c0 (ls @ [l]) c'"

inductive_cases widget_stepE: "widget_step start latestError l c c'"

lemma phase_order [simp]:
  "p \<le> RELEASED" "RELEASED \<le> p \<longleftrightarrow> p = RELEASED" "NOT_STARTED \<le> p" "\<not> RELEASED < p" "\<not> p < NOT_STARTED"
  by (cases p; simp add: less_eq_widget_phase_def less_widget_phase_def)+

lemma phase_constants [simp]:
  "\<not> RUNNING \<le> NOT_STARTED" "RUNNING \<le> STOPPING" "RUNNING \<le> RESULT_DELIVERED"
  "\<not> STOPPING \<le> NOT_STARTED" "\<not> STOPPING \<le> RUNNING" "STOPPING \<le> RESULT_DELIVERED"
  "\<not> RESULT_DELIVERED \<le> NOT_STARTED" "\<not> RESULT_DELIVERED \<le> RUNNING"
  "\<not> RESULT_DELIVERED \<le> STOPPING" "\<not> RELEASED \<le> NOT_STARTED" "\<not> RELEASED \<le> RUNNING"
  "\<not> RELEASED \<le> STOPPING" "\<not> RELEASED \<le> RESULT_DELIVERED" "NOT_STARTED < RUNNING"
  "NOT_STARTED < STOPPING" "NOT_STARTED < RESULT_DELIVERED" "NOT_STARTED < RELEASED" "RUNNING < STOPPING"
  "RUNNING < RESULT_DELIVERED" "RUNNING < RELEASED" "\<not> STOPPING < RUNNING" "STOPPING < RESULT_DELIVERED"
  "STOPPING < RELEASED" "\<not> RESULT_DELIVERED < RUNNING" "\<not> RESULT_DELIVERED < STOPPING"
  "RESULT_DELIVERED < RELEASED"
  by (simp_all add: less_eq_widget_phase_def less_widget_phase_def)

section \<open>The frame\<close>

fun result_in :: "widget_output \<Rightarrow> (i32 \<times> attributes) list" where
  "result_in (Caller (ResultDelivered code attr)) = [(code, attr)]"
| "result_in _ = []"

definition caller_results :: "widget_context \<Rightarrow> (i32 \<times> attributes) list" where
  "caller_results c = concat (map result_in (wx_outputs c))"

text \<open>A node whose queue grew; \<open>k\<close> allows the event of a success, \<open>n\<close> a success noted from the dialogue.\<close>

definition node_grows :: "bool \<Rightarrow> bool \<Rightarrow> widget_node \<Rightarrow> widget_node \<Rightarrow> bool" where
  "node_grows k n nd nd' \<longleftrightarrow>
     (\<exists>es p. wnd_machine nd' = (wnd_machine nd)\<lparr>pendingEvents := pendingEvents (wnd_machine nd) @ es, postedTasks := p\<rparr> \<and>
        (EW_COMPLETE_AUTH \<in> set es \<longrightarrow> k)) \<and>
     (wnd_resultCode nd' = SUCCESS \<longrightarrow> wnd_resultCode nd = SUCCESS \<or> n)"

definition schedule_grows :: "bool \<Rightarrow> bool \<Rightarrow> widget_node option \<Rightarrow> widget_node option \<Rightarrow> bool" where
  "schedule_grows k n x x' \<longleftrightarrow>
     (case (x, x') of (None, None) \<Rightarrow> True | (Some nd, Some nd') \<Rightarrow> node_grows k n nd nd' | _ \<Rightarrow> False)"

text \<open>A delivered result has a timer behind it, and a released context is no longer known to the client.\<close>

definition timer_ok :: "widget_context \<Rightarrow> bool" where
  "timer_ok c \<longleftrightarrow> (wx_phase c = RESULT_DELIVERED \<longrightarrow> wx_onTerminateTimerId c \<noteq> 0)"

definition client_ok :: "widget_context \<Rightarrow> bool" where
  "client_ok c \<longleftrightarrow> (wx_phase c = RELEASED \<longrightarrow> wx_contextId c \<notin> set (wk_scheduleMap (wx_client c)))"

definition one_result :: "bool \<Rightarrow> (i32 \<times> attributes) list \<Rightarrow> (i32 \<times> attributes) list \<Rightarrow> bool" where
  "one_result s xs ys \<longleftrightarrow> (\<exists>r a. ys = xs @ [(r, a)] \<and> (r = SUCCESS \<longrightarrow> s))"

definition result_grows :: "bool \<Rightarrow> widget_context \<Rightarrow> widget_context \<Rightarrow> bool" where
  "result_grows s c c' \<longleftrightarrow>
     (if wx_phase c < RESULT_DELIVERED \<and> RESULT_DELIVERED \<le> wx_phase c'
      then one_result s (caller_results c) (caller_results c')
      else caller_results c' = caller_results c)"

definition advances :: "bool \<Rightarrow> bool \<Rightarrow> bool \<Rightarrow> bool \<Rightarrow> widget_context \<Rightarrow> widget_context \<Rightarrow> bool" where
  "advances s k n t c c' \<longleftrightarrow>
     wx_contextId c' = wx_contextId c \<and> wx_phase c \<le> wx_phase c' \<and> result_grows s c c' \<and>
     schedule_grows k n (wx_schedule c) (wx_schedule c') \<and>
     (wx_latestError c \<noteq> SUCCESS \<longrightarrow> wx_latestError c' \<noteq> SUCCESS) \<and>
     driven (wx_pool c) (wx_pool c') \<and>
     (t \<longrightarrow> timer_ok c \<longrightarrow> timer_ok c') \<and> (client_ok c \<longrightarrow> client_ok c') \<and>
     set (wk_scheduleMap (wx_client c')) \<subseteq> set (wk_scheduleMap (wx_client c))"

lemma node_growsI:
  assumes "wnd_machine nd' = (wnd_machine nd)\<lparr>pendingEvents := pendingEvents (wnd_machine nd) @ es, postedTasks := p\<rparr>"
    and "EW_COMPLETE_AUTH \<in> set es \<Longrightarrow> k" and "wnd_resultCode nd' = SUCCESS \<Longrightarrow> wnd_resultCode nd = SUCCESS \<or> n"
  shows "node_grows k n nd nd'"
  unfolding node_grows_def using assms by blast

lemma node_grows_refl [simp]: "node_grows k n nd nd"
  by (rule node_growsI [where es = "[]" and p = "postedTasks (wnd_machine nd)"]) simp_all

lemma node_grows_trans:
  assumes "node_grows k n a b" "node_grows k n b d"
  shows "node_grows k n a d"
proof -
  obtain es p where 1: "wnd_machine b = (wnd_machine a)\<lparr>pendingEvents := pendingEvents (wnd_machine a) @ es, postedTasks := p\<rparr>"
      "EW_COMPLETE_AUTH \<in> set es \<longrightarrow> k" "wnd_resultCode b = SUCCESS \<longrightarrow> wnd_resultCode a = SUCCESS \<or> n"
    using assms(1) unfolding node_grows_def by blast
  obtain fs q where 2: "wnd_machine d = (wnd_machine b)\<lparr>pendingEvents := pendingEvents (wnd_machine b) @ fs, postedTasks := q\<rparr>"
      "EW_COMPLETE_AUTH \<in> set fs \<longrightarrow> k" "wnd_resultCode d = SUCCESS \<longrightarrow> wnd_resultCode b = SUCCESS \<or> n"
    using assms(2) unfolding node_grows_def by blast
  show ?thesis by (rule node_growsI [where es = "es @ fs" and p = q]) (use 1 2 in auto)
qed

lemma node_grows_mono:
  assumes "node_grows k n a b" "k \<Longrightarrow> k'" "n \<Longrightarrow> n'"
  shows "node_grows k' n' a b"
  using assms unfolding node_grows_def by blast

lemma schedule_grows_refl [simp]: "schedule_grows k n x x"
  by (simp add: schedule_grows_def split: option.split)

lemma schedule_grows_trans: "schedule_grows k n x y \<Longrightarrow> schedule_grows k n y z \<Longrightarrow> schedule_grows k n x z"
  by (auto simp: schedule_grows_def split: option.splits intro: node_grows_trans)

lemma result_grows_trans:
  assumes "wx_phase a \<le> wx_phase b" "wx_phase b \<le> wx_phase c" "result_grows s a b" "result_grows s b c"
  shows "result_grows s a c"
proof (cases "wx_phase a < RESULT_DELIVERED \<and> RESULT_DELIVERED \<le> wx_phase b")
  case True
  then have "caller_results c = caller_results b" using assms(4) by (simp add: result_grows_def leD)
  moreover have "RESULT_DELIVERED \<le> wx_phase c" using True assms(2) by (blast intro: order_trans)
  ultimately show ?thesis using True assms(3) by (simp add: result_grows_def)
next
  case False
  then have ab: "caller_results b = caller_results a" using assms(3) unfolding result_grows_def by (simp only: if_False)
  show ?thesis
  proof (cases "wx_phase a < RESULT_DELIVERED")
    case True
    then have "wx_phase b < RESULT_DELIVERED" using False by auto
    then show ?thesis using True assms(4) by (simp add: result_grows_def ab split: if_splits)
  next
    case ge: False
    then have "\<not> wx_phase b < RESULT_DELIVERED" using assms(1) by (auto simp: not_less intro: order_trans)
    then show ?thesis using ge assms(4) by (simp add: result_grows_def ab)
  qed
qed

lemma advances_refl [simp]: "advances s k n t c c"
  by (auto simp: advances_def result_grows_def)

lemma advances_trans:
  assumes "advances s k n t a b" "advances s k n t b c"
  shows "advances s k n t a c"
proof -
  have "result_grows s a c" "schedule_grows k n (wx_schedule a) (wx_schedule c)" "driven (wx_pool a) (wx_pool c)"
    using assms unfolding advances_def
    by (blast intro: result_grows_trans schedule_grows_trans driven_trans)+
  then show ?thesis using assms unfolding advances_def by auto
qed

lemma schedule_grows_mono:
  "schedule_grows k n x y \<Longrightarrow> (k \<Longrightarrow> k') \<Longrightarrow> (n \<Longrightarrow> n') \<Longrightarrow> schedule_grows k' n' x y"
  by (auto simp: schedule_grows_def split: option.splits elim: node_grows_mono)

lemma advances_mono:
  assumes "advances s k n t a b" "s \<Longrightarrow> s'" "k \<Longrightarrow> k'" "n \<Longrightarrow> n'" "t' \<Longrightarrow> t"
  shows "advances s' k' n' t' a b"
proof -
  have "result_grows s' a b"
    using assms(1,2) unfolding advances_def result_grows_def one_result_def by (auto split: if_splits)
  moreover have "schedule_grows k' n' (wx_schedule a) (wx_schedule b)"
    using assms(1,3,4) unfolding advances_def by (blast intro: schedule_grows_mono)
  ultimately show ?thesis using assms(1,5) unfolding advances_def by blast
qed

section \<open>The members\<close>

text \<open>The rules put one more member behind what was done so far.\<close>

named_theorems adv

lemma caller_results_emit [simp]: "caller_results (wx_emit out c) = caller_results c @ result_in out"
  by (simp add: caller_results_def wx_emit_def)

lemma wx_emit_fields [simp]:
  "wx_contextId (wx_emit out c) = wx_contextId c" "wx_phase (wx_emit out c) = wx_phase c"
  "wx_schedule (wx_emit out c) = wx_schedule c" "wx_latestError (wx_emit out c) = wx_latestError c"
  "wx_pool (wx_emit out c) = wx_pool c" "wx_onTerminateTimerId (wx_emit out c) = wx_onTerminateTimerId c"
  "wx_client (wx_emit out c) = wx_client c" "wx_para (wx_emit out c) = wx_para c"
  "wx_authResultInfo (wx_emit out c) = wx_authResultInfo c" "wx_connection (wx_emit out c) = wx_connection c"
  "wx_remoteAuthCallback (wx_emit out c) = wx_remoteAuthCallback c"
  "wx_activeChildCount (wx_emit out c) = wx_activeChildCount c"
  "wx_scheduleReleased (wx_emit out c) = wx_scheduleReleased c"
  by (simp_all add: wx_emit_def)

lemma caller_results_fields [simp]:
  "caller_results (c\<lparr>wx_phase := y1\<rparr>) = caller_results c" "caller_results (c\<lparr>wx_pool := y2\<rparr>) = caller_results c"
  "caller_results (c\<lparr>wx_schedule := y3\<rparr>) = caller_results c" "caller_results (c\<lparr>wx_client := y4\<rparr>) = caller_results c"
  "caller_results (c\<lparr>wx_connection := y5\<rparr>) = caller_results c" "caller_results (c\<lparr>wx_latestError := y6\<rparr>) = caller_results c"
  "caller_results (c\<lparr>wx_onTerminateTimerId := y7\<rparr>) = caller_results c"
  by (simp_all add: caller_results_def)

lemma advances_idle:
  assumes "wx_contextId c' = wx_contextId c" "wx_phase c' = wx_phase c" "wx_outputs c' = wx_outputs c"
    "schedule_grows k n (wx_schedule c) (wx_schedule c')" "wx_latestError c \<noteq> SUCCESS \<longrightarrow> wx_latestError c' \<noteq> SUCCESS"
    "driven (wx_pool c) (wx_pool c')" "wx_onTerminateTimerId c' = wx_onTerminateTimerId c"
    "set (wk_scheduleMap (wx_client c')) \<subseteq> set (wk_scheduleMap (wx_client c))"
  shows "advances s k n t c c'"
  using assms by (auto simp: advances_def result_grows_def timer_ok_def client_ok_def caller_results_def)

text \<open>A step that touches none of the fields the frame speaks of.\<close>

definition unobserved :: "widget_context \<Rightarrow> widget_context \<Rightarrow> bool" where
  "unobserved c c' \<longleftrightarrow> wx_contextId c' = wx_contextId c \<and> wx_phase c' = wx_phase c \<and>
     caller_results c' = caller_results c \<and> wx_schedule c' = wx_schedule c \<and> wx_latestError c' = wx_latestError c \<and>
     wx_pool c' = wx_pool c \<and> wx_onTerminateTimerId c' = wx_onTerminateTimerId c \<and> wx_client c' = wx_client c"

lemma adv_unobserved: "advances s k n t a c \<Longrightarrow> unobserved c c' \<Longrightarrow> advances s k n t a c'"
  by (rule advances_trans, assumption) (auto simp: unobserved_def advances_def result_grows_def timer_ok_def client_ok_def)

lemma adv_emit [adv]: "advances s k n t a c \<Longrightarrow> result_in out = [] \<Longrightarrow> advances s k n t a (wx_emit out c)"
  by (erule adv_unobserved) (simp add: unobserved_def)

lemma adv_emits [adv]:
  "advances s k n t a c \<Longrightarrow> (\<And>y. y \<in> set ys \<Longrightarrow> result_in y = []) \<Longrightarrow> advances s k n t a (wx_emits ys c)"
  by (erule adv_unobserved) (auto simp: unobserved_def wx_emits_def caller_results_def)

lemma unobserved_fields [simp]:
  "unobserved c (c\<lparr>wx_para := x1\<rparr>)" "unobserved c (c\<lparr>wx_useModalApplication := x2\<rparr>)"
  "unobserved c (c\<lparr>wx_activeChildCount := x3\<rparr>)" "unobserved c (c\<lparr>wx_scheduleReleased := x4\<rparr>)"
  "unobserved c (c\<lparr>wx_isDirectAuth := x5\<rparr>)" "unobserved c (c\<lparr>wx_modalCallback := x6\<rparr>)"
  "unobserved c (c\<lparr>wx_runTaskInfoList := x7\<rparr>)" "unobserved c (c\<lparr>wx_connection := x8\<rparr>)"
  "unobserved c (c\<lparr>wx_authResultInfo := x9\<rparr>)" "unobserved c (c\<lparr>wx_faceReload := x10\<rparr>)"
  "unobserved c (c\<lparr>wx_widgetAlreadyLoad := x11\<rparr>)" "unobserved c (c\<lparr>wx_faceAlgoCaller := x12\<rparr>)"
  "unobserved c (c\<lparr>wx_launched := x13\<rparr>)"
  by (simp_all add: unobserved_def caller_results_def)

lemma adv_fields [adv]:
  "advances s k n t a c \<Longrightarrow> advances s k n t a (c\<lparr>wx_para := x1\<rparr>)"
  "advances s k n t a c \<Longrightarrow> advances s k n t a (c\<lparr>wx_useModalApplication := x2\<rparr>)"
  "advances s k n t a c \<Longrightarrow> advances s k n t a (c\<lparr>wx_activeChildCount := x3\<rparr>)"
  "advances s k n t a c \<Longrightarrow> advances s k n t a (c\<lparr>wx_scheduleReleased := x4\<rparr>)"
  "advances s k n t a c \<Longrightarrow> advances s k n t a (c\<lparr>wx_isDirectAuth := x5\<rparr>)"
  "advances s k n t a c \<Longrightarrow> advances s k n t a (c\<lparr>wx_modalCallback := x6\<rparr>)"
  "advances s k n t a c \<Longrightarrow> advances s k n t a (c\<lparr>wx_runTaskInfoList := x7\<rparr>)"
  "advances s k n t a c \<Longrightarrow> advances s k n t a (c\<lparr>wx_connection := x8\<rparr>)"
  "advances s k n t a c \<Longrightarrow> advances s k n t a (c\<lparr>wx_authResultInfo := x9\<rparr>)"
  "advances s k n t a c \<Longrightarrow> advances s k n t a (c\<lparr>wx_faceReload := x10\<rparr>)"
  "advances s k n t a c \<Longrightarrow> advances s k n t a (c\<lparr>wx_widgetAlreadyLoad := x11\<rparr>)"
  "advances s k n t a c \<Longrightarrow> advances s k n t a (c\<lparr>wx_faceAlgoCaller := x12\<rparr>)"
  "advances s k n t a c \<Longrightarrow> advances s k n t a (c\<lparr>wx_launched := x13\<rparr>)"
  by (erule adv_unobserved, simp)+

lemma adv_pool [adv]:
  "advances s k n t a c \<Longrightarrow> driven (wx_pool c) p \<Longrightarrow> advances s k n t a (c\<lparr>wx_pool := p\<rparr>)"
  by (erule advances_trans, rule advances_idle) simp_all

lemma adv_error [adv]: "advances s k n t a c \<Longrightarrow> advances s k n t a (Widget_SetLatestError err c)"
  by (erule advances_trans, rule advances_idle) (simp_all add: Widget_SetLatestError_def)

lemma adv_schedule:
  assumes "advances s k n t a c" "schedule_grows k n (wx_schedule c) x"
  shows "advances s k n t a (c\<lparr>wx_schedule := x\<rparr>)"
  by (rule advances_trans [OF assms(1)], rule advances_idle) (use assms(2) in simp_all)

lemma adv_on_schedule:
  assumes "advances s k n t a c" "\<And>nd. node_grows k n nd (snd (f nd))"
  shows "advances s k n t a (snd (on_schedule f c))"
proof (cases "wx_schedule c")
  case None
  then show ?thesis using assms by (simp add: on_schedule_def)
next
  case (Some nd)
  have "advances s k n t a (c\<lparr>wx_schedule := Some (snd (f nd))\<rparr>)"
    by (rule adv_schedule [OF assms(1)]) (use assms(2) Some in \<open>simp add: schedule_grows_def\<close>)
  moreover have "snd (on_schedule f c) = c\<lparr>wx_schedule := Some (snd (f nd))\<rparr>"
    using Some by (cases "f nd") (simp add: on_schedule_def)
  ultimately show ?thesis by (simp only:)
qed

text \<open>The operations of the node: one event each, and only a success queues the event of a success.\<close>

lemma node_grows_kick:
  "wnd_machine nd' = wnd_machine nd \<Longrightarrow> wnd_resultCode nd' = wnd_resultCode nd \<or> n \<Longrightarrow> event \<noteq> EW_COMPLETE_AUTH \<or> k \<Longrightarrow>
   node_grows k n nd (snd (Node_TryKickMachine event nd'))"
  by (rule node_growsI [where es = "if threadHandlerSet (wnd_machine nd) then [event] else []" and
        p = "postedTasks (wnd_machine (snd (Node_TryKickMachine event nd')))"])
    (auto simp: Node_TryKickMachine_def FSM_Schedule_def PushEvent_def)

lemmas node_ops =
  Node_GetRemoteAuthParam_def Node_StartSchedule_def Node_StartDirectAuth_def Node_StopSchedule_def Node_ClearSchedule_def
  Node_StartAuthList_def Node_StopAuthList_def Node_NotifyAuthSuccess_def Node_NotifyAuthFail_def Node_NaviPinAuth_def
  Node_WidgetParaInvalid_def Node_WidgetReload_def

lemma node_grows_ops [simp]:
  "node_grows k n nd (snd (Node_GetRemoteAuthParam nd))" "node_grows k n nd (snd (Node_StartSchedule nd))"
  "node_grows k n nd (snd (Node_StartDirectAuth nd))" "node_grows k n nd (snd (Node_StopSchedule nd))"
  "node_grows k n nd (snd (Node_ClearSchedule nd))" "node_grows k n nd (snd (Node_StartAuthList ts b i nd))"
  "node_grows k n nd (snd (Node_StopAuthList ts nd))" "k \<Longrightarrow> node_grows k n nd (snd (Node_NotifyAuthSuccess ty nd))"
  "node_grows k n nd (snd (Node_NotifyAuthFail ty nd))" "node_grows k n nd (snd (Node_NaviPinAuth nd))"
  "node_grows k n nd (snd (Node_WidgetParaInvalid nd))" "node_grows k n nd (snd (Node_WidgetReload o1 o2 o3 ty nd))"
  unfolding node_ops by (rule node_grows_kick; simp)+

lemma node_grows_result [simp]: "code = SUCCESS \<longrightarrow> n \<Longrightarrow> node_grows k n nd (OnWidgetResult code ty token nd)"
  unfolding OnWidgetResult_def Let_def
  by (rule node_growsI [where es = "if threadHandlerSet (wnd_machine nd) then [EW_NOTICE_COMPLETE_AUTH] else []" and
        p = "postedTasks (wnd_machine (OnWidgetResult code ty token nd))"])
    (auto simp: Node_TryKickMachine_def FSM_Schedule_def PushEvent_def OnWidgetResult_def Let_def)

lemma adv_node [adv]:
  "advances s k n t a c \<Longrightarrow> advances s k n t a (snd (on_schedule Node_GetRemoteAuthParam c))"
  "advances s k n t a c \<Longrightarrow> advances s k n t a (snd (on_schedule Node_StartSchedule c))"
  "advances s k n t a c \<Longrightarrow> advances s k n t a (snd (on_schedule Node_StartDirectAuth c))"
  "advances s k n t a c \<Longrightarrow> advances s k n t a (snd (on_schedule Node_StopSchedule c))"
  "advances s k n t a c \<Longrightarrow> advances s k n t a (snd (on_schedule Node_ClearSchedule c))"
  "advances s k n t a c \<Longrightarrow> advances s k n t a (snd (on_schedule (Node_StartAuthList ts b i) c))"
  "advances s k n t a c \<Longrightarrow> advances s k n t a (snd (on_schedule (Node_StopAuthList ts) c))"
  "advances s k n t a c \<Longrightarrow> k \<Longrightarrow> advances s k n t a (snd (on_schedule (Node_NotifyAuthSuccess ty) c))"
  "advances s k n t a c \<Longrightarrow> advances s k n t a (snd (on_schedule (Node_NotifyAuthFail ty) c))"
  "advances s k n t a c \<Longrightarrow> advances s k n t a (snd (on_schedule Node_NaviPinAuth c))"
  "advances s k n t a c \<Longrightarrow> advances s k n t a (snd (on_schedule Node_WidgetParaInvalid c))"
  "advances s k n t a c \<Longrightarrow> advances s k n t a (snd (on_schedule (Node_WidgetReload o1 o2 o3 ty) c))"
  by (erule adv_on_schedule, simp)+

lemma adv_auth_tip [adv]: "advances s k n t a c \<Longrightarrow> advances s k n t a (OnScheduleAuthTip ty tip c)"
  unfolding OnScheduleAuthTip_def Let_def by (simp split: prod.split) (auto intro!: adv)

lemma adv_widget_tip [adv]: "advances s k n t a c \<Longrightarrow> advances s k n t a (OnWidgetTip ts tip c)"
  unfolding OnWidgetTip_def by (induction ts arbitrary: c) (auto intro!: adv)

fun op_success :: "node_op \<Rightarrow> bool" where
  "op_success (OpWidgetResult code ty token) = (code = SUCCESS)"
| "op_success _ = False"

lemma adv_operation [adv]:
  "advances s k n t a c \<Longrightarrow> (op_success oper \<Longrightarrow> n) \<Longrightarrow> advances s k n t a (node_operation oper c)"
  by (cases oper) (auto intro!: adv adv_on_schedule)

fun effect_success :: "u64 \<Rightarrow> client_call \<Rightarrow> bool" where
  "effect_success i (ToNode j oper) = (j = i \<and> op_success oper)"
| "effect_success i _ = False"

lemma adv_contextId: "advances s k n t a c \<Longrightarrow> wx_contextId c = wx_contextId a"
  by (simp add: advances_def)

lemma adv_effect:
  assumes "advances s k n t a c" "effect_success (wx_contextId a) y \<Longrightarrow> n"
  shows "advances s k n t a (client_effect y c)"
  using assms adv_contextId [OF assms(1)] by (cases y) (auto intro!: adv)

lemma adv_effects:
  "advances s k n t a c \<Longrightarrow> (\<And>y. y \<in> set ys \<Longrightarrow> effect_success (wx_contextId a) y \<Longrightarrow> n) \<Longrightarrow>
   advances s k n t a (fold client_effect ys c)"
  by (induction ys arbitrary: c) (auto intro!: adv_effect)

lemma adv_client:
  assumes "advances s k n t a c" "set (wk_scheduleMap j) \<subseteq> set (wk_scheduleMap (wx_client c))"
  shows "advances s k n t a (c\<lparr>wx_client := j\<rparr>)"
  by (rule advances_trans [OF assms(1)], rule advances_idle) (use assms(2) in simp_all)

lemma adv_with_client:
  assumes "advances s k n t a c" "f (wx_client c) = (j, ys)" "set (wk_scheduleMap j) \<subseteq> set (wk_scheduleMap (wx_client c))"
    "\<And>y. y \<in> set ys \<Longrightarrow> effect_success (wx_contextId a) y \<Longrightarrow> n"
  shows "advances s k n t a (with_client f c)"
  unfolding with_client_def using assms by (auto intro!: adv_effects adv_client)

lemma SendCommand_effects: "y \<in> set (SendCommand dump cmd j) \<Longrightarrow> \<not> effect_success i0 y"
  by (auto simp: SendCommand_def split: if_splits option.splits)

lemma adv_reports [adv]:
  "advances s k n t a c \<Longrightarrow>
     advances s k n t a (with_client (\<lambda>j. (j, ReportWidgetResult dump code ty lock remain skip i ch j)) c)"
  "advances s k n t a c \<Longrightarrow>
     advances s k n t a (with_client (\<lambda>j. (j, ReportWidgetTip dump tip ty info skip i j)) c)"
  by (rule adv_with_client, assumption, simp,
      auto simp: ReportWidgetResult_def ReportWidgetTip_def Let_def dest: SendCommand_effects)+

lemma ClearSchedule_shape:
  assumes "Client_ClearSchedule i j = (j', ys)"
  shows "set (wk_scheduleMap j') = set (wk_scheduleMap j) - {i}" "y \<in> set ys \<Longrightarrow> \<not> effect_success i0 y"
  using assms by (auto simp: Client_ClearSchedule_def Client_GetScheduleNode_def RemoveScheduleNode_def Client_Reset_def
      Let_def split: if_splits)

lemma adv_clear [adv]:
  "advances s k n t a c \<Longrightarrow> advances s k n t a (with_client (Client_ClearSchedule i) c)"
  by (cases "Client_ClearSchedule i (wx_client c)")
    (rule adv_with_client, auto dest: ClearSchedule_shape)

section \<open>The end\<close>

lemma adv_start_timer [adv]:
  "advances s k n t a c \<Longrightarrow> (t \<Longrightarrow> we_timerId e \<noteq> 0) \<Longrightarrow> advances s k n t a (StartOnTerminateTimer e c)"
  by (erule advances_trans)
    (auto simp: StartOnTerminateTimer_def advances_def result_grows_def timer_ok_def client_ok_def caller_results_def
      wx_emit_def)

lemma Deliver_fields [simp]:
  "caller_results (DeliverResultLocked reason r at c) = caller_results c @ [(r, at)]"
  "wx_contextId (DeliverResultLocked reason r at c) = wx_contextId c"
  "wx_phase (DeliverResultLocked reason r at c) = wx_phase c"
  "wx_schedule (DeliverResultLocked reason r at c) = wx_schedule c"
  "wx_latestError (DeliverResultLocked reason r at c) = wx_latestError c"
  "wx_pool (DeliverResultLocked reason r at c) = wx_pool c"
  "wx_onTerminateTimerId (DeliverResultLocked reason r at c) = wx_onTerminateTimerId c"
  "wx_client (DeliverResultLocked reason r at c) = wx_client c"
  "wx_connection (DeliverResultLocked reason r at c) = wx_connection c"
  "wx_authResultInfo (DeliverResultLocked reason r at c) = wx_authResultInfo c"
  by (simp_all add: DeliverResultLocked_def Let_def)

lemma effect_client [simp]: "wx_client (client_effect y c) = wx_client c"
proof -
  have sched: "wx_client (snd (on_schedule f d)) = wx_client d" for f d
    by (simp add: on_schedule_def split: option.split prod.split)
  have tip: "wx_client (OnScheduleAuthTip ty tp d) = wx_client d" for ty tp d
    by (simp add: OnScheduleAuthTip_def Let_def split: prod.split)
  have "wx_client (OnWidgetTip ts tp d) = wx_client d" for ts tp d
    unfolding OnWidgetTip_def by (induction ts arbitrary: d) (simp_all add: tip)
  then have "wx_client (node_operation oper d) = wx_client d" for oper d
    by (cases oper) (simp_all add: sched)
  then show ?thesis by (cases y) simp_all
qed

lemma with_client_client: "wx_client (with_client f c) = fst (f (wx_client c))"
proof -
  have "wx_client (fold client_effect ys d) = wx_client d" for ys d
    by (induction ys arbitrary: d) simp_all
  then show ?thesis by (simp add: with_client_def split: prod.split)
qed

lemma driven_Delete: "driven p (snd (Pool_Delete i p))"
  by (rule driven_step) (rule pool_delete)

lemma stop_timer_contextId [simp]: "wx_contextId (StopOnTerminateTimer c) = wx_contextId c"
  by (simp add: StopOnTerminateTimer_def)

text \<open>The part of \<^verbatim>\<open>EndLocked\<close> between the new phase and the removal from the pool.\<close>

lemma EndLocked_middle:
  assumes "wx_phase c = RELEASED"
  defines "d \<equiv> with_client (Client_ClearSchedule (wx_contextId c)) (StopOnTerminateTimer c)"
  shows "wx_contextId d = wx_contextId c" "wx_phase d = RELEASED" "caller_results d = caller_results c"
    "schedule_grows k n (wx_schedule c) (wx_schedule d)" "wx_latestError c \<noteq> SUCCESS \<Longrightarrow> wx_latestError d \<noteq> SUCCESS"
    "driven (wx_pool c) (wx_pool d)" "set (wk_scheduleMap (wx_client d)) = set (wk_scheduleMap (wx_client c)) - {wx_contextId c}"
proof -
  let ?t = "StopOnTerminateTimer c"
  have t: "wx_contextId ?t = wx_contextId c" "wx_phase ?t = RELEASED" "caller_results ?t = caller_results c"
    "wx_schedule ?t = wx_schedule c" "wx_latestError ?t = wx_latestError c" "wx_pool ?t = wx_pool c" "wx_client ?t = wx_client c"
    using assms(1) by (auto simp: StopOnTerminateTimer_def caller_results_def wx_emit_def)
  have "advances False k n False ?t d"
    unfolding d_def by (rule adv_clear) simp
  then show "wx_contextId d = wx_contextId c" "wx_phase d = RELEASED" "caller_results d = caller_results c"
    "schedule_grows k n (wx_schedule c) (wx_schedule d)" "wx_latestError c \<noteq> SUCCESS \<Longrightarrow> wx_latestError d \<noteq> SUCCESS"
    "driven (wx_pool c) (wx_pool d)"
    using t by (auto simp: advances_def result_grows_def)
  show "set (wk_scheduleMap (wx_client d)) = set (wk_scheduleMap (wx_client c)) - {wx_contextId c}"
    unfolding d_def with_client_client t(7)
    by (cases "Client_ClearSchedule (wx_contextId c) (wx_client c)") (simp add: ClearSchedule_shape(1))
qed

lemma adv_end [adv]:
  assumes "advances s k n t a c"
  shows "advances s k n t a (Widget_EndLocked c)"
proof (cases "wx_phase c = RELEASED")
  case True
  then show ?thesis using assms by (simp add: Widget_EndLocked_def AdvancePhaseLocked_def Let_def)
next
  case False
  let ?c = "c\<lparr>wx_phase := RELEASED\<rparr>"
  let ?d = "with_client (Client_ClearSchedule (wx_contextId ?c)) (StopOnTerminateTimer ?c)"
  let ?e = "if wx_phase c < RESULT_DELIVERED
    then DeliverResultLocked ''WidgetContext release without result'' CANCELED Attributes_new (wx_emit SystemFault ?d) else ?d"
  have eq: "Widget_EndLocked c = ?e\<lparr>wx_pool := snd (Pool_Delete (wx_contextId ?e) (wx_pool ?e))\<rparr>"
    using False by (simp add: Widget_EndLocked_def AdvancePhaseLocked_def Let_def)
  note m = EndLocked_middle [where c = ?c]
  have "advances s k n t c ?e"
    using m(1-6) m(7) by (auto simp: advances_def result_grows_def one_result_def timer_ok_def client_ok_def)
  then have "advances s k n t c (Widget_EndLocked c)"
    unfolding eq by (intro adv_pool) (auto simp: driven_Delete)
  then show ?thesis by (rule advances_trans [OF assms])
qed

lemma adv_try_end [adv]:
  "advances s k n t a c \<Longrightarrow> (t \<Longrightarrow> we_timerId e \<noteq> 0) \<Longrightarrow> advances s k n t a (TryEndLocked e c)"
  unfolding TryEndLocked_def by (auto intro!: adv)

lemma adv_child_terminated [adv]:
  "advances s k n t a c \<Longrightarrow> (t \<Longrightarrow> we_timerId e \<noteq> 0) \<Longrightarrow> advances s k n t a (OnChildTerminated e c)"
  unfolding OnChildTerminated_def Let_def by (auto intro!: adv)

lemma adv_clear_schedule [adv]:
  "advances s k n t a c \<Longrightarrow> (t \<Longrightarrow> we_timerId e \<noteq> 0) \<Longrightarrow> advances s k n t a (Widget_ClearSchedule e c)"
  unfolding Widget_ClearSchedule_def by (auto intro!: adv)

lemma EndLocked_released: "wx_phase (Widget_EndLocked c) = RELEASED"
proof (cases "wx_phase c = RELEASED")
  case False
  then show ?thesis
    using EndLocked_middle(2) [of "c\<lparr>wx_phase := RELEASED\<rparr>"]
    by (simp add: Widget_EndLocked_def AdvancePhaseLocked_def Let_def)
qed (simp add: Widget_EndLocked_def AdvancePhaseLocked_def Let_def)

lemma AdvancePhase_less:
  "AdvancePhaseLocked p c = (if wx_phase c < p then (True, c\<lparr>wx_phase := p\<rparr>) else (False, c))"
  by (simp add: AdvancePhaseLocked_def not_less)

lemma wx_emit_phase: "wx_emit out (c\<lparr>wx_phase := p\<rparr>) = (wx_emit out c)\<lparr>wx_phase := p\<rparr>"
  by (simp add: wx_emit_def)

lemma adv_timer: "advances s k n False a c \<Longrightarrow> (t \<Longrightarrow> timer_ok c) \<Longrightarrow> advances s k n t a c"
  by (auto simp: advances_def)

lemma adv_weak: "advances s k n t a c \<Longrightarrow> advances s k n False a c"
  by (auto simp: advances_def)

text \<open>The result is delivered in one step; the timer that must stand behind it comes next.\<close>

lemma adv_deliver:
  assumes "advances s k n t a c" "wx_phase c < RESULT_DELIVERED" "r = SUCCESS \<Longrightarrow> s"
  shows "advances s k n False a (DeliverResultLocked reason r at (c\<lparr>wx_phase := RESULT_DELIVERED\<rparr>))"
  using assms(2,3) by (intro advances_trans [OF adv_weak [OF assms(1)]])
    (auto simp: advances_def result_grows_def one_result_def client_ok_def)

lemma adv_start_failed [adv]:
  assumes "advances s k n t a c" "r = SUCCESS \<Longrightarrow> s"
  shows "advances s k n t a (Widget_OnStartFailed r c)"
proof (cases "wx_phase c < RESULT_DELIVERED")
  case True
  let ?d = "DeliverResultLocked ''WidgetContext start context fail'' r Attributes_new (c\<lparr>wx_phase := RESULT_DELIVERED\<rparr>)"
  have "Widget_OnStartFailed r c = Widget_EndLocked ?d"
    using True by (simp add: Widget_OnStartFailed_def AdvancePhase_less)
  moreover have "advances s k n False a (Widget_EndLocked ?d)"
    by (rule adv_end, rule adv_deliver [OF assms(1) True]) (rule assms(2))
  ultimately show ?thesis
    by (simp add: adv_timer timer_ok_def EndLocked_released)
next
  case False
  then show ?thesis using assms(1) by (simp add: Widget_OnStartFailed_def AdvancePhase_less)
qed

lemma adv_refresh [adv]:
  "advances s k n t a c \<Longrightarrow> advances s k n t a (snd (RefreshAuthProfiles e c))"
  unfolding RefreshAuthProfiles_def by (auto split: prod.split intro!: adv)

lemma adv_connect_ability [adv]:
  "advances s k n t a c \<Longrightarrow> advances s k n t a (snd (ConnectExtensionAbility e el cmd c))"
  unfolding ConnectExtensionAbility_def by (auto intro!: adv)

lemma adv_disconnect [adv]:
  "advances s k n t a c \<Longrightarrow> advances s k n t a (snd (DisconnectExtension e c))"
  unfolding DisconnectExtension_def Let_def
  by (auto intro!: adv split: option.split prod.split)

lemma adv_stop_tasks [adv]:
  "advances s k n t a c \<Longrightarrow> advances s k n t a (StopAllRunTask e r c)"
proof -
  assume a: "advances s k n t a c"
  have "advances s k n t a (c\<lparr>wx_runTaskInfoList := [],
      wx_pool := fold Pool_Cancel (map snd (wx_runTaskInfoList c)) (wx_pool c)\<rparr>)"
    by (intro adv a) (simp add: driven_cancels)
  then show ?thesis unfolding StopAllRunTask_def Let_def by (auto intro!: adv)
qed

lemma adv_deliver_end:
  assumes "advances s k n t a c" "r = SUCCESS \<Longrightarrow> s" "t \<Longrightarrow> we_timerId e \<noteq> 0"
  shows "advances s k n t a (DeliverEndLocked e r c)"
proof (cases "wx_phase c < RESULT_DELIVERED")
  case True
  let ?c = "c\<lparr>wx_phase := RESULT_DELIVERED\<rparr>"
  have timer: "t \<Longrightarrow> timer_ok (StartOnTerminateTimer e d)" for d
    using assms(3) by (auto simp: timer_ok_def StartOnTerminateTimer_def)
  have fin: "advances s k n t a (StartOnTerminateTimer e d)" if "advances s k n False a d" for d
    by (rule adv_timer) (auto intro!: adv that timer)
  show ?thesis
  proof (cases "r = SUCCESS \<or> wa_token (wx_authResultInfo c) \<noteq> []")
    case False
    then have "DeliverEndLocked e r c = StartOnTerminateTimer e ((DeliverResultLocked [] r Attributes_new ?c)
        \<lparr>wx_connection := map_option (setIsNormalEnd True) (wx_connection ?c)\<rparr>)"
      using True by (simp add: DeliverEndLocked_def AdvancePhase_less Let_def)
    also have "advances s k n t a \<dots>"
      by (rule fin, intro adv, rule adv_deliver [OF assms(1) True]) (rule assms(2))
    finally show ?thesis .
  next
    case token: True
    obtain at x where at: "result_attributes (wx_authResultInfo c) Attributes_new = (at, x)" by fastforce
    show ?thesis
    proof (cases x)
      case None
      then have "DeliverEndLocked e r c = StartOnTerminateTimer e ((DeliverResultLocked [] r at ?c)
          \<lparr>wx_connection := map_option (setIsNormalEnd True) (wx_connection ?c)\<rparr>)"
        using True token at by (simp add: DeliverEndLocked_def AdvancePhase_less Let_def Widget_HandleAuthSuccessResult_def)
      also have "advances s k n t a \<dots>"
        by (rule fin, intro adv, rule adv_deliver [OF assms(1) True]) (rule assms(2))
      finally show ?thesis .
    next
      case (Some reason)
      let ?d = "wx_emit (Caller (AuthFinishReason reason)) c"
      have "DeliverEndLocked e r c = StartOnTerminateTimer e
          (DeliverResultLocked [] GENERAL_ERROR at (?d\<lparr>wx_phase := RESULT_DELIVERED\<rparr>))"
        using True token at Some
        by (simp add: DeliverEndLocked_def AdvancePhase_less Let_def Widget_HandleAuthSuccessResult_def wx_emit_phase)
      also have "advances s k n t a \<dots>"
        by (rule fin, rule adv_deliver [where c = ?d and t = t]) (use assms(1) True in \<open>auto intro!: adv\<close>)
      finally show ?thesis .
    qed
  qed
next
  case False
  then show ?thesis using assms(1) by (simp add: DeliverEndLocked_def AdvancePhase_less)
qed

lemma adv_phase:
  assumes "advances s k n t a c" "wx_phase c < p" "p < RESULT_DELIVERED"
  shows "advances s k n t a (c\<lparr>wx_phase := p\<rparr>)"
  using assms(2,3) by (intro advances_trans [OF assms(1)])
    (auto simp: advances_def result_grows_def timer_ok_def client_ok_def)

lemma adv_widget_end:
  assumes "advances s k n t a c" "r = SUCCESS \<Longrightarrow> s" "t \<Longrightarrow> we_timerId e \<noteq> 0"
  shows "advances s k n t a (Widget_End e r c)"
proof (cases "wx_phase c < STOPPING")
  case True
  let ?c = "c\<lparr>wx_phase := STOPPING\<rparr>"
  let ?d = "if r = CANCELED then wx_emit (Caller (StageMark S_CANCEL)) ?c else ?c"
  have "advances s k n t a ?c" by (rule adv_phase [OF assms(1)]) (use True in simp_all)
  then have "advances s k n t a ?d" by (auto intro!: adv)
  then have "advances s k n t a (TryEndLocked e (DeliverEndLocked e r (StopAllRunTask e r ?d)))"
    by (intro adv_try_end adv_deliver_end adv_stop_tasks) (use assms(2,3) in auto)
  then show ?thesis using True by (simp add: Widget_End_def AdvancePhase_less Let_def)
next
  case False
  then show ?thesis using assms(1) by (simp add: Widget_End_def AdvancePhase_less Let_def)
qed

section \<open>What the node calls\<close>

text \<open>A case distinction moves out of the frame.\<close>

lemma adv_if: "(b \<Longrightarrow> advances s k n t a x) \<Longrightarrow> (\<not> b \<Longrightarrow> advances s k n t a y) \<Longrightarrow> advances s k n t a (if b then x else y)"
  by simp

lemma adv_snd_if:
  "(b \<Longrightarrow> advances s k n t a (snd x)) \<Longrightarrow> (\<not> b \<Longrightarrow> advances s k n t a (snd y)) \<Longrightarrow>
   advances s k n t a (snd (if b then x else y))"
  by simp

lemma adv_snd_split:
  "(\<And>ok d. x = (ok, d) \<Longrightarrow> advances s k n t a (snd (f ok d))) \<Longrightarrow> advances s k n t a (snd (case x of (ok, d) \<Rightarrow> f ok d))"
  by (simp split: prod.split)

lemma adv_snd_pair: "advances s k n t a c \<Longrightarrow> advances s k n t a (snd (ok, c))"
  by simp

lemma adv_of_snd: "advances s k n t a (snd x) \<Longrightarrow> x = (ok, c) \<Longrightarrow> advances s k n t a c"
  by simp

lemma adv_connect [adv]:
  assumes "advances s k n t a c" "t \<Longrightarrow> we_timerId e \<noteq> 0"
  shows "advances s k n t a (snd (ConnectExtension e r c))"
proof -
  have step: "advances s k n t a (snd (if x then (False, d) else
      (let first = hd (wc_authTypeList (wx_para d));
                asked = IsSingleFaceOrFingerPrintAuth (wx_para d) \<and> wc_skipLockedBiometricAuth (wx_para d);
                profile = (case wc_authProfileMap (wx_para d) first of None \<Rightarrow> AuthProfile_default | Some p \<Rightarrow> p);
                c = (if asked then d\<lparr>wx_para := (wx_para d)
                       \<lparr>wc_authProfileMap := (wc_authProfileMap (wx_para d))(first \<mapsto> profile)\<rparr>\<rparr> else d)
       in f asked profile c)))"
    if "advances s k n t a d" "\<And>q p d. advances s k n t a d \<Longrightarrow> advances s k n t a (snd (f q p d))" for x d f
    unfolding Let_def by (intro adv_snd_if adv_snd_pair that adv_if adv)
  have refreshed: "advances s k n t a (snd (if rt_isReload r then RefreshAuthProfiles e c else (True, c)))"
    using assms(1) by (auto intro!: adv)
  show ?thesis
    unfolding ConnectExtension_def
    apply (rule adv_snd_split)
    apply (rule step)
     apply (rule adv_of_snd [OF refreshed], assumption)
    apply (unfold Let_def)
    apply (intro adv_snd_if adv_snd_pair adv_snd_split adv_widget_end adv_if adv; (assumption | simp add: assms(2))?)
    apply (rule adv_of_snd, rule adv_connect_ability, assumption+)+
    done
qed

lemma adv_face_algo [adv]: "advances s k n t a c \<Longrightarrow> advances s k n t a (SendFaceAlgoCommand e oper c)"
  unfolding SendFaceAlgoCommand_def Let_def by (auto intro!: adv split: list.split)

lemma adv_launch [adv]:
  "advances s k n t a c \<Longrightarrow> (t \<Longrightarrow> we_timerId e \<noteq> 0) \<Longrightarrow> advances s k n t a (snd (LaunchWidget e c))"
  unfolding LaunchWidget_def Let_def InitFaceAlgo_def
  by (intro adv_snd_if adv_snd_pair adv_if adv) simp_all

lemma adv_reload [adv]:
  "advances s k n t a c \<Longrightarrow> (t \<Longrightarrow> we_timerId e \<noteq> 0) \<Longrightarrow>
   advances s k n t a (snd (AuthWidgetReload e orient turned loaded ty c))"
  unfolding AuthWidgetReload_def Let_def by (intro adv_if adv) simp_all

text \<open>The codes of a child that let the context end with success.\<close>

definition child_success :: "i32 \<Rightarrow> bool" where
  "child_success code \<longleftrightarrow> code = SUCCESS \<or> code = COMPLEXITY_CHECK_FAILED"

lemma adv_proc_result:
  assumes "advances s k n t a c" "child_success code \<Longrightarrow> k"
  shows "advances s k n t a (ProcAuthResult code ty fz at c)"
  unfolding ProcAuthResult_def Let_def
  by (intro adv_if adv assms) (use assms(2) in \<open>auto simp: child_success_def\<close>)

lemma adv_child_result:
  assumes "advances s k n t a c" "child_success code \<Longrightarrow> k" "t \<Longrightarrow> we_timerId e \<noteq> 0"
  shows "advances s k n t a (OnChildAuthResult e code ty at c)"
  unfolding OnChildAuthResult_def Let_def
  by (intro adv_child_terminated adv_if adv_proc_result adv) (use assms in auto)

lemma adv_proc_tip [adv]:
  assumes "advances s k n t a c"
  shows "advances s k n t a (ProcAuthTipInfo e tip ty info c)"
proof -
  obtain ret code fz where p: "ParseAuthTipInfo (we_callback e) tip info GENERAL_ERROR (- 1) = (ret, code, fz)"
    by (metis prod_cases3)
  show ?thesis
    unfolding ProcAuthTipInfo_def Let_def p prod.case by (intro adv_if adv assms)
qed

lemma adv_child_tip [adv]:
  assumes "advances s k n t a c"
  shows "advances s k n t a (OnChildAuthTip e tip ty at c)"
proof (cases "GetUint8ArrayValue ATTR_EXTRA_INFO at")
  case (Some info)
  show ?thesis unfolding OnChildAuthTip_def Some option.case by (intro adv assms)
qed (simp add: OnChildAuthTip_def assms)

lemma adv_report_error:
  assumes "advances s k n t a c" "t \<Longrightarrow> we_timerId e \<noteq> 0"
  shows "advances s k n t a (ReportChildError e ty cb c)"
proof -
  have "advances s k n t a (WidgetCallback_OnResult e ty GENERAL_ERROR (Serialize Attributes_new) c)"
    unfolding WidgetCallback_OnResult_def
    by (rule adv_child_result) (use assms in \<open>auto simp: child_success_def\<close>)
  then show ?thesis
    unfolding ReportChildError_def Let_def by (auto intro!: adv driven_Cleaner split: option.split)
qed

lemma adv_build_task:
  assumes "advances s k n t a c" "t \<Longrightarrow> we_timerId e \<noteq> 0"
  shows "advances s k n t a (snd (BuildTask e challenge ty atl fail intent c))"
proof -
  have error: "advances s k n t a (ReportChildError e ty cb d)" if "advances s k n t a d" for cb d
    using that assms(2) by (rule adv_report_error)
  have pool: "advances s k n t a (c\<lparr>wx_pool := p\<rparr>)" "advances s k n t a (c\<lparr>wx_pool := p, wx_launched := l\<rparr>)"
    if "Pool_Schedule v (wx_pool c) = (ok, p)" for v ok p l
    by (intro adv assms(1) driven_Schedule [OF that])+
  show ?thesis
    unfolding BuildTask_def Let_def
    by (auto split: option.split prod.split simp del: created_views dest: pool intro!: error assms(1))
qed

lemma adv_start_child:
  assumes "advances s k n t a c" "t \<Longrightarrow> we_timerId e \<noteq> 0"
  shows "advances s k n t a (start_child e fail intent ty c)"
proof -
  have b: "advances s k n t a (snd (BuildTask e (wc_challenge (wx_para c)) ty (wc_atl (wx_para c)) fail intent
      (c\<lparr>wx_activeChildCount := wx_activeChildCount c + 1\<rparr>)))"
    by (rule adv_build_task) (use assms in \<open>auto intro!: adv\<close>)
  show ?thesis
    unfolding start_child_def Let_def
    by (cases "BuildTask e (wc_challenge (wx_para c)) ty (wc_atl (wx_para c)) fail intent
      (c\<lparr>wx_activeChildCount := wx_activeChildCount c + 1\<rparr>)", use b in \<open>auto intro!: adv split: option.split\<close>)
qed

lemma adv_execute [adv]:
  "advances s k n t a c \<Longrightarrow> (t \<Longrightarrow> we_timerId e \<noteq> 0) \<Longrightarrow> advances s k n t a (ExecuteAuthList e ts fail intent c)"
proof -
  assume a: "advances s k n t a c" and timer: "t \<Longrightarrow> we_timerId e \<noteq> 0"
  from a have "advances s k n t a (fold (start_child e fail intent) ts c)"
    by (induction ts arbitrary: c) (auto intro!: adv_start_child timer)
  then show ?thesis using a by (simp add: ExecuteAuthList_def)
qed

lemma adv_stop_list [adv]: "advances s k n t a c \<Longrightarrow> advances s k n t a (Widget_StopAuthList ts c)"
  unfolding Widget_StopAuthList_def
proof (induction ts arbitrary: c)
  case (Cons ty ts)
  have "advances s k n t a (stop_child ty c)"
    unfolding stop_child_def by (auto intro!: adv Cons.prems driven_Cancel split: list.split prod.split)
  then show ?case using Cons.IH by simp
qed simp

text \<open>Only two calls of the node can end the context with success.\<close>

definition call_success :: "widget_call \<Rightarrow> bool" where
  "call_success call \<longleftrightarrow> (\<exists>ty. call = CallOnAuthSuccess ty) \<or> (\<exists>ty token. call = CallOnScheduleAuthResult SUCCESS ty token)"

lemma adv_schedule_result:
  assumes "advances s k n t a c" "code = SUCCESS \<Longrightarrow> s" "t \<Longrightarrow> we_timerId e \<noteq> 0"
  shows "advances s k n t a (OnScheduleAuthResult e code ty token c)"
proof (cases "code = SUCCESS")
  case True
  obtain r es where r: "we_enrolledState e (wc_userId (wx_para c)) ty = (r, es)" by fastforce
  show ?thesis
    unfolding OnScheduleAuthResult_def Let_def
    using True r assms by (auto intro!: adv_widget_end adv)
next
  case False
  then show ?thesis using assms by (simp add: OnScheduleAuthResult_def adv_widget_end)
qed

lemma adv_callback:
  assumes "advances s k n t a c" "call_success call \<Longrightarrow> s" "wx_latestError c \<noteq> SUCCESS" "t \<Longrightarrow> we_timerId e \<noteq> 0"
  shows "advances s k n t a (snd (widget_callback e call c))"
proof (cases call)
  case (CallOnScheduleAuthResult code ty token)
  then show ?thesis using assms by (auto simp: call_success_def intro!: adv_schedule_result)
next
  case (CallOnAuthSuccess ty)
  then show ?thesis using assms by (auto simp: call_success_def OnAuthSuccess_def intro!: adv_widget_end)
qed (use assms in \<open>auto simp: Widget_GetRemoteAuthParam_def EndAuthAsCancel_def AuthWidgetReloadInit_def OnAuthFail_def
       intro!: adv_widget_end adv\<close>)

lemma handler_node:
  assumes "widget_handler a nd = (nd', call)"
  shows "node_grows k n nd nd'"
proof -
  have "wnd_machine nd' = wnd_machine nd \<and> wnd_resultCode nd' = wnd_resultCode nd"
    using assms by (cases a) (auto simp: start_running_def split: prod.splits)
  then show ?thesis
    by (intro node_growsI [where es = "[]" and p = "postedTasks (wnd_machine nd)"]) simp_all
qed

lemma handler_success:
  "widget_handler a nd = (nd', call) \<Longrightarrow> call_success call \<longleftrightarrow>
     a = OnSuccessAuth \<or> a = OnSendAuthResult \<and> wnd_resultCode nd = SUCCESS"
  by (cases a) (auto simp: start_running_def call_success_def split: prod.splits)

lemma adv_perform:
  assumes "wx_schedule c = Some nd" "a = OnSuccessAuth \<or> a = OnSendAuthResult \<and> wnd_resultCode nd = SUCCESS \<Longrightarrow> s"
    "wx_latestError c \<noteq> SUCCESS" "t \<Longrightarrow> we_timerId e \<noteq> 0"
  shows "advances s k n t c (perform e a c)"
proof -
  obtain nd' call where h: "widget_handler a nd = (nd', call)" by fastforce
  let ?c = "c\<lparr>wx_schedule := Some nd'\<rparr>"
  have "advances s k n t c ?c"
    by (rule adv_schedule) (use handler_node [OF h] assms(1) in \<open>simp_all add: schedule_grows_def\<close>)
  then have "advances s k n t c (snd (widget_callback e call ?c))"
    by (rule adv_callback) (use assms handler_success [OF h] in auto)
  then show ?thesis
    unfolding perform_def using assms(1) h
    by (cases "widget_callback e call ?c") (auto intro!: adv)
qed

section \<open>One event\<close>

lemma with_machine_fields [simp]:
  "wx_contextId (with_machine f c) = wx_contextId c" "wx_phase (with_machine f c) = wx_phase c"
  "caller_results (with_machine f c) = caller_results c" "wx_latestError (with_machine f c) = wx_latestError c"
  "wx_pool (with_machine f c) = wx_pool c" "wx_onTerminateTimerId (with_machine f c) = wx_onTerminateTimerId c"
  "wx_client (with_machine f c) = wx_client c" "timer_ok (with_machine f c) = timer_ok c"
  "client_ok (with_machine f c) = client_ok c" "wx_para (with_machine f c) = wx_para c"
  "wx_schedule (with_machine f c) = map_option (\<lambda>n. n\<lparr>wnd_machine := f (wnd_machine n)\<rparr>) (wx_schedule c)"
  by (simp_all add: with_machine_def timer_ok_def client_ok_def)

text \<open>Handling an event: it is dropped, or its action runs with an empty queue and what it queued goes to the end.\<close>

lemma widget_event_cases:
  assumes "wx_schedule c = Some nd" "widget_machine (wnd_machine nd)" "pendingEvents (wnd_machine nd) = event # events"
  obtains (dropped) "widget_next (currentState (wnd_machine nd)) event = None"
      "widget_event e c = with_machine (\<lambda>m. m\<lparr>pendingEvents := events\<rparr>) c"
  | (handled) st a where "widget_next (currentState (wnd_machine nd)) event = Some (st, Some a)"
      "widget_event e c =
         (let d = perform e a (with_machine (\<lambda>m. m\<lparr>pendingEvents := []\<rparr>) c)
          in with_machine (\<lambda>m. (wnd_machine nd)\<lparr>pendingEvents := events @ pending d, currentState := st,
               postedTasks := postedTasks m\<rparr>) d)"
proof -
  let ?m = "(wnd_machine nd)\<lparr>pendingEvents := events\<rparr>"
  have m: "widget_machine ?m" using assms(2) by (simp add: widget_machine_def)
  have run: "widget_event e c = (case ProcessEvent (widget_run e) event (?m, c) of
      (m, c) \<Rightarrow> with_machine (\<lambda>old. m\<lparr>postedTasks := postedTasks old\<rparr>) c)"
    using assms(1,3) by (simp add: widget_event_def)
  show ?thesis
  proof (cases "widget_next (currentState (wnd_machine nd)) event")
    case None
    have "widget_event e c = with_machine (\<lambda>m. m\<lparr>pendingEvents := events\<rparr>) c"
      unfolding run ProcessEvent_widget [OF m] using None assms(1) by (simp add: with_machine_def)
    with None show ?thesis by (rule dropped)
  next
    case (Some x)
    then obtain st a where x: "x = (st, Some a)"
      using widget_table_action [OF widget_next_table] by (cases x) fastforce
    have "widget_event e c =
        (let d = perform e a (with_machine (\<lambda>m. m\<lparr>pendingEvents := []\<rparr>) c)
         in with_machine (\<lambda>m. (wnd_machine nd)\<lparr>pendingEvents := events @ pending d, currentState := st,
              postedTasks := postedTasks m\<rparr>) d)"
      unfolding run ProcessEvent_widget [OF m] using Some x
      by (simp add: widget_run_def Let_def)
    with Some x show ?thesis by (intro handled) simp_all
  qed
qed

lemma widget_event_idle: "pending c = [] \<Longrightarrow> widget_event e c = c"
  by (simp add: widget_event_def pending_def split: option.splits)

end
