(* ===== verification/Widget_Properties.thy ===== *)
theory Widget_Properties
  imports Widget_Runs
begin

text \<open>
  What a widget authentication owes to its caller along every interleaving of its start and stop, the notices of the
  dialogue, the results of its children, the events of its node, its timer, and what others do with the client and the
  pool.
\<close>

section \<open>The invariant\<close>

fun complete_notice :: "u64 \<Rightarrow> widget_label \<Rightarrow> bool" where
  "complete_notice i (WNotice parse type eventData) =
     (case parse (takeWhile (\<lambda>b. b \<noteq> 0) eventData) of
        Some (JObject ob) \<Rightarrow>
          (case notice_from_json (JObject ob) WidgetNotice_default of
             None \<Rightarrow> False
           | Some notice \<Rightarrow> wn_widgetContextId notice = i \<and> wn_event notice = NOTICE_EVENT_COMPLETE_AUTH \<and>
               wn_resultCode notice = SUCCESS)
      | _ \<Rightarrow> False)"
| "complete_notice i _ = False"

fun child_report :: "widget_label \<Rightarrow> bool" where
  "child_report (WChildResult e ty code extra) = child_success code"
| "child_report _ = False"

definition widget_inv :: "bool \<Rightarrow> bool \<Rightarrow> widget_context \<Rightarrow> bool" where
  "widget_inv k n c \<longleftrightarrow>
     wx_latestError c \<noteq> SUCCESS \<and> (wx_phase c = NOT_STARTED \<longrightarrow> wx_schedule c = None) \<and>
     (case wx_schedule c of None \<Rightarrow> True | Some nd \<Rightarrow>
        widget_machine (wnd_machine nd) \<and> (EW_COMPLETE_AUTH \<in> set (pendingEvents (wnd_machine nd)) \<longrightarrow> k) \<and>
        (wnd_resultCode nd = SUCCESS \<longrightarrow> n)) \<and>
     (if wx_phase c < RESULT_DELIVERED then caller_results c = [] else one_result (k \<or> n) [] (caller_results c)) \<and>
     client_ok c"

lemma advances_inv:
  assumes "advances s k' n' t c c'" "widget_inv k n c" "s \<Longrightarrow> k \<or> n" "k' \<Longrightarrow> k" "n' \<Longrightarrow> n"
  shows "widget_inv k n c'"
proof -
  have le: "wx_phase c \<le> wx_phase c'" and grows: "result_grows s c c'" and sched: "schedule_grows k' n' (wx_schedule c) (wx_schedule c')"
    using assms(1) by (auto simp: advances_def)
  have "wx_phase c' = NOT_STARTED \<Longrightarrow> wx_phase c = NOT_STARTED"
    using le by (metis order.antisym phase_order(3))
  moreover have "if wx_phase c' < RESULT_DELIVERED then caller_results c' = [] else one_result (k \<or> n) [] (caller_results c')"
  proof (cases "wx_phase c < RESULT_DELIVERED")
    case True
    then show ?thesis using grows assms(2,3) by (auto simp: result_grows_def widget_inv_def one_result_def split: if_splits)
  next
    case False
    then have "\<not> wx_phase c' < RESULT_DELIVERED" using le by auto
    then show ?thesis using False grows assms(2) by (simp add: result_grows_def widget_inv_def)
  qed
  moreover have "case wx_schedule c' of None \<Rightarrow> True | Some nd \<Rightarrow>
        widget_machine (wnd_machine nd) \<and> (EW_COMPLETE_AUTH \<in> set (pendingEvents (wnd_machine nd)) \<longrightarrow> k) \<and>
        (wnd_resultCode nd = SUCCESS \<longrightarrow> n)"
    using sched assms(2,4,5) unfolding schedule_grows_def node_grows_def widget_inv_def
    by (auto simp: widget_machine_def split: option.splits)
  ultimately show ?thesis
    using assms(1,2) sched unfolding widget_inv_def advances_def
    by (auto simp: schedule_grows_def split: option.splits)
qed

lemma widget_inv_mono: "widget_inv k n c \<Longrightarrow> (k \<Longrightarrow> k') \<Longrightarrow> (n \<Longrightarrow> n') \<Longrightarrow> widget_inv k' n' c"
  unfolding widget_inv_def one_result_def by (auto split: option.splits if_splits)

lemma inv_machine:
  assumes "widget_inv k n c" "\<And>nd. wx_schedule c = Some nd \<Longrightarrow> widget_machine (f (wnd_machine nd))"
    "\<And>nd. wx_schedule c = Some nd \<Longrightarrow> EW_COMPLETE_AUTH \<in> set (pendingEvents (f (wnd_machine nd))) \<Longrightarrow> k"
  shows "widget_inv k n (with_machine f c)"
  using assms by (auto simp: widget_inv_def split: option.splits)

lemma OnNotice_shape:
  assumes "OnNotice parse type eventData j = (code, j', ys)"
  shows "set (wk_scheduleMap j') \<subseteq> set (wk_scheduleMap j)"
    and "y \<in> set ys \<Longrightarrow> effect_success i y \<Longrightarrow> complete_notice i (WNotice parse type eventData)"
proof -
  have process: "set (wk_scheduleMap j') \<subseteq> set (wk_scheduleMap j) \<and>
      (\<forall>y \<in> set ys. effect_success i y \<longrightarrow> wn_widgetContextId notice = i \<and> wn_event notice = NOTICE_EVENT_COMPLETE_AUTH \<and>
         wn_resultCode notice = SUCCESS)"
    if "ProcessNotice notice types j = (j', ys)" for notice types i
  proof (cases "wn_event notice = NOTICE_EVENT_PROCESS_TERMINATE")
    case True
    then show ?thesis
      using that ClearSchedule_shape [of "wn_widgetContextId notice" j]
      by (auto simp: ProcessNotice_def Let_def notice_events split: if_splits)
  next
    case False
    then show ?thesis using that
      by (auto simp: ProcessNotice_def Let_def WidgetLoad_def WidgetRelease_def WidgetCompleteAuth_def
          split: if_splits list.splits)
  qed
  show "set (wk_scheduleMap j') \<subseteq> set (wk_scheduleMap j)"
    using assms process [THEN conjunct1] by (fastforce simp: OnNotice_def split: if_splits option.splits json.splits)
  show "complete_notice i (WNotice parse type eventData)" if "y \<in> set ys" "effect_success i y"
    using assms that process by (fastforce simp: OnNotice_def split: if_splits option.splits json.splits)
qed

lemma table_success: "widget_next st e = Some (st', Some OnSuccessAuth) \<Longrightarrow> e = EW_COMPLETE_AUTH"
  by (drule widget_next_table) (auto simp: widget_table_def)

lemma event_inv:
  assumes inv: "widget_inv k n c"
  shows "widget_inv k n (widget_event e c)"
proof (cases "pending c")
  case Nil
  then show ?thesis using inv by (simp add: widget_event_idle)
next
  case (Cons event events)
  then obtain nd where nd: "wx_schedule c = Some nd" "pendingEvents (wnd_machine nd) = event # events"
    by (auto simp: pending_def split: option.splits)
  have m: "widget_machine (wnd_machine nd)" and k: "EW_COMPLETE_AUTH \<in> set (event # events) \<longrightarrow> k" and n: "wnd_resultCode nd = SUCCESS \<longrightarrow> n"
    and le: "wx_latestError c \<noteq> SUCCESS"
    using inv nd by (auto simp: widget_inv_def)
  show ?thesis
  proof (rule widget_event_cases [OF nd(1) m nd(2)])
    assume "widget_event e c = with_machine (\<lambda>m. m\<lparr>pendingEvents := events\<rparr>) c"
    moreover have "widget_inv k n (with_machine (\<lambda>m. m\<lparr>pendingEvents := events\<rparr>) c)"
      by (rule inv_machine [OF inv]) (use m k nd in \<open>auto simp: widget_machine_def\<close>)
    ultimately show ?thesis by simp
  next
    fix st a
    assume next_state: "widget_next (currentState (wnd_machine nd)) event = Some (st, Some a)"
    let ?c = "with_machine (\<lambda>m. m\<lparr>pendingEvents := []\<rparr>) c"
    let ?d = "perform e a ?c"
    assume eq: "widget_event e c = (let d = ?d in with_machine (\<lambda>m. (wnd_machine nd)\<lparr>pendingEvents := events @ pending d,
         currentState := st, postedTasks := postedTasks m\<rparr>) d)"
    have c: "widget_inv k n ?c" by (rule inv_machine [OF inv]) (use m nd in \<open>auto simp: widget_machine_def\<close>)
    have "advances (k \<or> n) False False False ?c ?d"
      by (rule adv_perform [where nd = "nd\<lparr>wnd_machine := (wnd_machine nd)\<lparr>pendingEvents := []\<rparr>\<rparr>"])
        (use nd le k n table_success [of "currentState (wnd_machine nd)" event st] next_state in auto)
    then have d: "widget_inv k n ?d" by (rule advances_inv [OF _ c]) auto
    have "widget_inv k n (with_machine (\<lambda>m. (wnd_machine nd)\<lparr>pendingEvents := events @ pending ?d,
         currentState := st, postedTasks := postedTasks m\<rparr>) ?d)"
      by (rule inv_machine [OF d]) (use m k d in \<open>auto simp: widget_machine_def widget_inv_def pending_def\<close>)
    then show ?thesis by (simp add: eq Let_def)
  qed
qed

section \<open>Every step\<close>

text \<open>The timers of a step are those its surroundings hand out.\<close>

fun step_timers :: "widget_label \<Rightarrow> bool" where
  "step_timers (WStart e) = (we_timerId e \<noteq> 0)"
| "step_timers (WStop e) = (we_timerId e \<noteq> 0)"
| "step_timers (WChildResult e ty code extra) = (we_timerId e \<noteq> 0)"
| "step_timers (WChildTip e ty tip extra) = (we_timerId e \<noteq> 0)"
| "step_timers (WEvent e) = (we_timerId e \<noteq> 0)"
| "step_timers _ = True"

lemma adv_stop:
  assumes "t \<Longrightarrow> we_timerId e \<noteq> 0"
  shows "advances False False False t c (snd (Widget_Stop e c))"
proof -
  let ?c = "wx_emit (Caller (StageMark stage.S_CANCEL)) c"
  have c: "advances False False False t c ?c" by (intro adv) simp_all
  show ?thesis
  proof (cases "wx_phase c = NOT_STARTED")
    case True
    have "advances False False False t c (Widget_OnStartFailed CANCELED (?c\<lparr>wx_phase := STOPPING\<rparr>))"
      by (intro adv_start_failed adv_phase [OF c]) (simp_all add: True)
    then show ?thesis using True by (simp add: Widget_Stop_def AdvancePhase_less Let_def)
  next
    case False
    have "advances False False False t c (Widget_End e CANCELED ?c)"
      by (rule adv_widget_end [OF c]) (use assms in simp_all)
    then show ?thesis using False by (auto simp: Widget_Stop_def Widget_OnStop_def Let_def intro!: adv)
  qed
qed

lemma adv_notice: "complete_notice (wx_contextId c) (WNotice parse type eventData) \<longrightarrow> n \<Longrightarrow>
    advances False False n t c (notice_received parse type eventData c)"
proof -
  assume n: "complete_notice (wx_contextId c) (WNotice parse type eventData) \<longrightarrow> n"
  obtain code j ys where r: "OnNotice parse type eventData (wx_client c) = (code, j, ys)" by (metis prod_cases3)
  show ?thesis
    unfolding notice_received_def
    by (rule adv_with_client [OF advances_refl, of _ _ j ys])
      (use r OnNotice_shape [OF r] n in \<open>auto simp del: complete_notice.simps\<close>)
qed

lemma adv_extension: "advances False False False t c (extension_notified f c)"
proof (cases "wx_connection c")
  case None
  then show ?thesis by (simp add: extension_notified_def)
next
  case (Some x)
  obtain force y es where f: "f x = (force, y, es)" by (metis prod_cases3)
  let ?d = "wx_emits (map ExtensionEffect es) (c\<lparr>wx_connection := Some y\<rparr>)"
  have d: "advances False False False t c ?d" by (intro adv advances_refl) auto
  then have "advances False False False t c (with_client (ForceStopAuth (wx_contextId c)) ?d)"
    by (cases "Client_ClearSchedule (wx_contextId c) (wx_client ?d)")
      (rule adv_with_client, auto simp: ForceStopAuth_def dest: ClearSchedule_shape)
  moreover have "wx_contextId ?d = wx_contextId c" by (simp add: wx_emits_def)
  ultimately show ?thesis using d by (simp add: extension_notified_def Some f Let_def)
qed

lemma adv_force_all: "advances False False False t c (with_client ForceStopAuth_all c)"
proof -
  let ?k = "wx_client c"
  obtain j ys where r: "Client_ClearSchedule (wk_widgetContextId ?k) ?k = (j, ys)" by fastforce
  show ?thesis
    by (rule adv_with_client [OF advances_refl])
      (use r ClearSchedule_shape [OF r] in \<open>auto simp: ForceStopAuth_all_def Let_def split: option.splits\<close>)
qed

lemma adv_timeout: "wx_onTerminateTimerId c \<noteq> 0 \<Longrightarrow> advances False False False t c (OnTerminateTimerTimeOut c)"
proof -
  let ?d = "(wx_emit SystemFault (c\<lparr>wx_onTerminateTimerId := 0\<rparr>))\<lparr>wx_activeChildCount := 0\<rparr>"
  have "advances False False False False c (c\<lparr>wx_onTerminateTimerId := 0\<rparr>)"
    by (auto simp: advances_def result_grows_def client_ok_def)
  then have "advances False False False False c (Widget_EndLocked ?d)" by (intro adv) simp_all
  then have "advances False False False t c (Widget_EndLocked ?d)"
    by (rule adv_timer) (simp add: timer_ok_def EndLocked_released)
  then show ?thesis by (simp add: OnTerminateTimerTimeOut_def)
qed

lemma adv_remote: "advances False False False t c (snd (OnSetRemoteAuthWidgetParam param modal c))"
proof -
  have "advances False False False t c (SetRemoteAuthParam p modal c)" for p
    unfolding SetRemoteAuthParam_def by (intro adv) simp_all
  then show ?thesis by (simp add: OnSetRemoteAuthWidgetParam_def)
qed

lemma refresh_phase: "wx_phase (snd (RefreshAuthProfiles e c)) = wx_phase c"
  by (simp add: RefreshAuthProfiles_def split: prod.split)

text \<open>
  The start: the only step that gives the context a node and registers it. Before it the context has neither; a start
  that is repeated or comes after a stop is one more member.
\<close>

lemma start_keeps:
  assumes inv: "widget_inv k n c" and timers: "we_timerId e \<noteq> 0 \<or> \<not> t" and timer: "t \<longrightarrow> timer_ok c"
  defines "c' \<equiv> widget_start_task e c"
  shows "widget_inv k n c' \<and> (t \<longrightarrow> timer_ok c') \<and> driven (wx_pool c) (wx_pool c') \<and> wx_contextId c' = wx_contextId c \<and>
    wx_phase c \<le> wx_phase c'"
proof -
  have member: ?thesis if "advances False False False t c c'"
    using advances_inv [OF that inv] that timer by (auto simp: advances_def)
  have le: "wx_latestError c \<noteq> SUCCESS" using inv by (simp add: widget_inv_def)
  show ?thesis
  proof (cases "wx_phase c = NOT_STARTED")
    case False
    let ?d = "Widget_SetLatestError GENERAL_ERROR c"
    have "advances False False False t c (Widget_OnStartFailed GENERAL_ERROR ?d)" by (intro adv) simp_all
    then show ?thesis
      by (intro member) (use False in \<open>simp add: c'_def widget_start_task_def Widget_Start_def Widget_SetLatestError_def\<close>)
  next
    case True
    let ?a = "(wx_emit (Caller (StageMark stage.S_CONTEXT_START)) c)\<lparr>wx_phase := RUNNING\<rparr>"
    obtain ok b where b: "RefreshAuthProfiles e ?a = (ok, b)" by fastforce
    have a: "advances False False False t c ?a" by (intro adv_phase adv) (simp_all add: True)
    have cb: "advances False False False t c b" using adv_refresh [OF a, of e] by (simp add: b)
    have running: "wx_phase b = RUNNING" using refresh_phase [of e ?a] by (simp add: b)
    have start: "Widget_Start e c = Widget_OnStart e ?a"
      using True by (simp add: Widget_Start_def AdvancePhase_less)
    show ?thesis
    proof (cases ok)
      case False
      have "c' = Widget_OnStartFailed GENERAL_ERROR (Widget_SetLatestError GENERAL_ERROR b)"
        using False by (simp add: c'_def widget_start_task_def start Widget_OnStart_def b Widget_SetLatestError_def)
      then show ?thesis by (intro member) (simp, intro adv cb, simp)
    next
      case ok: True
      obtain nd where nd: "WidgetNode_Create = Some nd" "widget_machine (wnd_machine nd)" "pendingEvents (wnd_machine nd) = []"
        using WidgetNode_created by blast
      have code: "wnd_resultCode nd = GENERAL_ERROR" using nd(1) by (auto simp: WidgetNode_Create_def split: option.splits)
      let ?k = "InitSessionProfiles (wx_para b) (SetCallingBundleName (GetCallingBundleName e (wx_para b))
        (SetChallenge (wc_challenge (wx_para b)) (SetWidgetSchedule (wx_contextId b)
          (SetAuthTypeList (wc_authTypeList (wx_para b)) (SetWidgetParam (wc_widgetParam (wx_para b)) (wx_client b))))))"
      let ?d = "b\<lparr>wx_schedule := Some nd, wx_isDirectAuth := IsSingleCompanionDeviceAuth (wx_para b), wx_client := ?k\<rparr>"
      let ?e = "wx_emit (Caller (StageEnterWait stage.S_BEGIN_SCHEDULE_START)) ?d"
      have "c' = (if wx_isDirectAuth ?d then snd (on_schedule Node_StartDirectAuth
              (snd (on_schedule (Node_StartAuthList (wc_authTypeList (wx_para b)) False 0) ?d)))
            else if wx_remoteAuthCallback ?d then snd (on_schedule Node_GetRemoteAuthParam ?d)
            else wx_emit (Caller (StageExitWait stage.S_BEGIN_SCHEDULE_END)) (snd (on_schedule Node_StartSchedule ?e)))"
        unfolding c'_def widget_start_task_def start Widget_OnStart_def b prod.case nd(1) option.case Let_def
        by (simp add: ok on_schedule_def node_ops Node_TryKickMachine_def)
      also have "advances False False False t ?d \<dots>"
        by (intro adv_if adv advances_refl) simp_all
      finally have d: "advances False False False t ?d c'" .
      have "widget_inv k n b" by (rule advances_inv [OF cb inv]) simp_all
      then have "widget_inv k n ?d"
        using nd(2,3) running code by (auto simp: widget_inv_def client_ok_def caller_results_def split: if_splits)
      then have "widget_inv k n c'" by (rule advances_inv [OF d]) simp_all
      moreover have "timer_ok ?d" using running by (simp add: timer_ok_def)
      moreover have "t \<longrightarrow> timer_ok ?d \<longrightarrow> timer_ok c'" "driven (wx_pool b) (wx_pool c')" "wx_contextId c' = wx_contextId b"
        using d by (simp_all add: advances_def)
      moreover have "driven (wx_pool c) (wx_pool b)" "wx_contextId b = wx_contextId c" using cb by (simp_all add: advances_def)
      ultimately show ?thesis using True driven_trans by auto
    qed
  qed
qed

lemma advances_label:
  assumes "widget_step start err l c c'" "\<And>e. l \<noteq> WStart e" "\<And>e. l \<noteq> WEvent e" "\<And>j. l \<noteq> WOthers j" "\<And>p. l \<noteq> WPool p"
    and "t \<Longrightarrow> step_timers l"
  shows "advances False (child_report l) (complete_notice (wx_contextId c) l) t c c'"
proof -
  let ?n = "complete_notice (wx_contextId c) l"
  have weak: ?thesis if "advances False False False t c c'"
    using that by (rule advances_mono) simp_all
  show ?thesis
  proof (cases l)
    case (WChildResult e ty code extra)
    then have "c' = WidgetCallback_OnResult e ty code extra c" using assms(1) by (auto elim: widget_stepE)
    then show ?thesis
      using assms(6) WChildResult by (auto simp: WidgetCallback_OnResult_def intro!: adv_child_result)
  next
    case (WChildTip e ty tip extra)
    then have "c' = WidgetCallback_OnAcquireInfo e ty tip extra c" using assms(1) by (auto elim: widget_stepE)
    then show ?thesis by (intro weak) (auto simp: WidgetCallback_OnAcquireInfo_def intro!: adv)
  next
    case (WNotice parse type eventData)
    then have "c' = notice_received parse type eventData c" using assms(1) by (auto elim: widget_stepE)
    moreover have "advances False False ?n t c (notice_received parse type eventData c)"
      by (rule adv_notice) (simp add: WNotice)
    ultimately show ?thesis using advances_mono by blast
  next
    case (WStop e)
    then have "c' = snd (Widget_Stop e c)" using assms(1) by (auto elim: widget_stepE)
    then show ?thesis using adv_stop [of t e c] assms(6) WStop by (intro weak) simp
  next
    case WTimeout
    then show ?thesis using assms(1) adv_timeout [of c t] by (intro weak) (auto elim!: widget_stepE)
  next
    case (WRemoteParam param modal)
    then show ?thesis using assms(1) adv_remote [of t c] by (intro weak) (auto elim!: widget_stepE)
  next
    case (WConnected r x)
    then show ?thesis using assms(1) adv_extension [of t c] by (intro weak) (auto elim!: widget_stepE)
  next
    case WDisconnected
    then show ?thesis using assms(1) adv_extension [of t c] by (intro weak) (auto elim!: widget_stepE)
  next
    case WForceStop
    then show ?thesis using assms(1) adv_force_all [of t c] by (intro weak) (auto elim!: widget_stepE)
  qed (use assms in auto)
qed

lemma advances_frame:
  "advances s k n t c c' \<Longrightarrow>
   wx_contextId c' = wx_contextId c \<and> (t \<longrightarrow> timer_ok c \<longrightarrow> timer_ok c') \<and> wx_phase c \<le> wx_phase c' \<and> driven (wx_pool c) (wx_pool c')"
  by (simp add: advances_def)

lemma step_inv:
  assumes "widget_step start err l c c'" "widget_inv k n c" "child_report l \<Longrightarrow> k" "complete_notice (wx_contextId c) l \<Longrightarrow> n"
  shows "widget_inv k n c'"
proof (cases l)
  case (WStart e)
  then have "c' = widget_start_task e c" using assms(1) by (auto elim: widget_stepE)
  then show ?thesis using start_keeps [OF assms(2), of e False] by simp
next
  case (WEvent e)
  then have "c' = widget_event e c" using assms(1) by (auto elim: widget_stepE)
  then show ?thesis using event_inv [OF assms(2)] by simp
next
  case (WOthers j)
  then show ?thesis using assms(1,2) by (auto simp: widget_inv_def client_ok_def elim!: widget_stepE)
next
  case (WPool p)
  then show ?thesis using assms(1,2) by (auto simp: widget_inv_def client_ok_def elim!: widget_stepE)
qed (use advances_inv [OF advances_label [OF assms(1), of False] assms(2)] assms(3,4) in auto)

lemma event_frame:
  assumes inv: "widget_inv k n c" and timers: "t \<Longrightarrow> we_timerId e \<noteq> 0"
  shows "wx_contextId (widget_event e c) = wx_contextId c \<and> (t \<longrightarrow> timer_ok c \<longrightarrow> timer_ok (widget_event e c)) \<and>
    driven (wx_pool c) (wx_pool (widget_event e c)) \<and> wx_phase c \<le> wx_phase (widget_event e c)"
proof (cases "pending c")
  case Nil
  then show ?thesis by (simp add: widget_event_idle)
next
  case (Cons event events)
  then obtain nd where nd: "wx_schedule c = Some nd" "pendingEvents (wnd_machine nd) = event # events"
    by (auto simp: pending_def split: option.splits)
  have m: "widget_machine (wnd_machine nd)" and le: "wx_latestError c \<noteq> SUCCESS"
    using inv nd by (auto simp: widget_inv_def)
  let ?c = "with_machine (\<lambda>m. m\<lparr>pendingEvents := []\<rparr>) c"
  show ?thesis
  proof (rule widget_event_cases [OF nd(1) m nd(2)])
    fix st a
    let ?d = "perform e a ?c"
    assume eq: "widget_event e c = (let d = ?d in with_machine (\<lambda>m. (wnd_machine nd)\<lparr>pendingEvents := events @ pending d,
         currentState := st, postedTasks := postedTasks m\<rparr>) d)"
    have "advances True False False t ?c ?d"
      by (rule adv_perform [where nd = "nd\<lparr>wnd_machine := (wnd_machine nd)\<lparr>pendingEvents := []\<rparr>\<rparr>"]) (use nd le timers in auto)
    then show ?thesis by (simp add: eq Let_def advances_def)
  qed simp
qed

lemma step_frame:
  assumes "widget_step start err l c c'" "widget_inv k n c" "t \<Longrightarrow> step_timers l"
  shows "wx_contextId c' = wx_contextId c \<and> (t \<longrightarrow> timer_ok c \<longrightarrow> timer_ok c') \<and> wx_phase c \<le> wx_phase c' \<and>
    (\<exists>ls. pool_run start err (wx_pool c) ls (wx_pool c'))"
proof -
  have of_driven: ?thesis
    if "wx_contextId c' = wx_contextId c \<and> (t \<longrightarrow> timer_ok c \<longrightarrow> timer_ok c') \<and> wx_phase c \<le> wx_phase c' \<and> driven (wx_pool c) (wx_pool c')"
    using that by (auto simp: driven_def)
  have member: ?thesis if "\<And>e. l \<noteq> WStart e" "\<And>e. l \<noteq> WEvent e" "\<And>j. l \<noteq> WOthers j" "\<And>p. l \<noteq> WPool p"
    by (rule of_driven, rule advances_frame, rule advances_label [OF assms(1) that assms(3)])
  show ?thesis
  proof (cases l)
    case (WStart e)
    then have "c' = widget_start_task e c" using assms(1) by (auto elim: widget_stepE)
    then show ?thesis
      using start_keeps [OF assms(2), of e t] start_keeps [OF assms(2), of e False] assms(3) WStart by (intro of_driven) auto
  next
    case (WEvent e)
    then have "c' = widget_event e c" using assms(1) by (auto elim: widget_stepE)
    then show ?thesis using event_frame [OF assms(2), of t e] assms(3) WEvent by (intro of_driven) auto
  next
    case (WOthers j)
    then have "wx_contextId c' = wx_contextId c \<and> timer_ok c' = timer_ok c \<and> wx_phase c' = wx_phase c \<and> wx_pool c' = wx_pool c"
      using assms(1) by (auto simp: timer_ok_def elim!: widget_stepE)
    then show ?thesis by (intro of_driven) auto
  next
    case (WPool p)
    then obtain q where "c' = c\<lparr>wx_pool := q\<rparr>" "pool_step start err p (wx_pool c) q"
      using assms(1) by (auto elim!: widget_stepE)
    then show ?thesis using pool_run.run_snoc [OF pool_run.run_nil] by (fastforce simp: timer_ok_def)
  qed (rule member; simp)+
qed

section \<open>Every run\<close>

text \<open>A context as the constructor leaves it, with an id that the client does not know.\<close>

definition fresh_widget :: "widget_context \<Rightarrow> bool" where
  "fresh_widget c \<longleftrightarrow> (\<exists>r jsonBuf client pool. c = WidgetContext r jsonBuf client pool \<and>
     wr_contextId r \<notin> set (wk_scheduleMap client))"

lemma fresh_widget_inv: "fresh_widget c \<Longrightarrow> widget_inv False False c \<and> timer_ok c"
  by (auto simp: fresh_widget_def WidgetContext_def widget_inv_def client_ok_def timer_ok_def caller_results_def)

definition child_backed :: "widget_label list \<Rightarrow> bool" where
  "child_backed ls \<longleftrightarrow> (\<exists>l \<in> set ls. child_report l)"

definition notice_backed :: "u64 \<Rightarrow> widget_label list \<Rightarrow> bool" where
  "notice_backed i ls \<longleftrightarrow> (\<exists>l \<in> set ls. complete_notice i l)"

lemma widget_run_inv:
  assumes "widget_run_of start err c0 ls c" "fresh_widget c0"
  shows "widget_inv (child_backed ls) (notice_backed (wx_contextId c0) ls) c \<and> wx_contextId c = wx_contextId c0 \<and>
    ((\<forall>l \<in> set ls. step_timers l) \<longrightarrow> timer_ok c) \<and> (\<exists>ps. pool_run start err (wx_pool c0) ps (wx_pool c))"
  using assms
proof (induction rule: widget_run_of.induct)
  case wrun_nil
  then show ?case using fresh_widget_inv [of c0] pool_run.run_nil
    by (auto simp: child_backed_def notice_backed_def)
next
  case (wrun_snoc ls c l c')
  let ?i = "wx_contextId c0"
  have inv: "widget_inv (child_backed ls) (notice_backed ?i ls) c" and i: "wx_contextId c = ?i"
    and timer: "(\<forall>l \<in> set ls. step_timers l) \<longrightarrow> timer_ok c"
    using wrun_snoc by auto
  have "widget_inv (child_backed (ls @ [l])) (notice_backed ?i (ls @ [l])) c"
    using inv by (rule widget_inv_mono) (auto simp: child_backed_def notice_backed_def)
  then have "widget_inv (child_backed (ls @ [l])) (notice_backed ?i (ls @ [l])) c'"
    by (rule step_inv [OF wrun_snoc.hyps(2)]) (auto simp: child_backed_def notice_backed_def i)
  moreover have "wx_contextId c' = wx_contextId c \<and> ((\<forall>l \<in> set (ls @ [l]). step_timers l) \<longrightarrow> timer_ok c \<longrightarrow> timer_ok c') \<and>
      wx_phase c \<le> wx_phase c' \<and> (\<exists>ps. pool_run start err (wx_pool c) ps (wx_pool c'))"
    by (rule step_frame [OF wrun_snoc.hyps(2) inv]) simp
  moreover obtain ps where "pool_run start err (wx_pool c0) ps (wx_pool c)" using wrun_snoc by blast
  ultimately show ?case using i timer pool_run_append by fastforce
qed

text \<open>
  Property C13: the caller of a widget authentication gets one answer: none before the phase of delivery, one from it on,
  whatever comes afterwards.
\<close>

theorem widget_answers_once:
  assumes "widget_run_of start err c0 ls c" "fresh_widget c0"
  shows "length (caller_results c) = (if wx_phase c < RESULT_DELIVERED then 0 else 1)"
  using widget_run_inv [OF assms] by (auto simp: widget_inv_def one_result_def)

text \<open>
  Property C12: a widget authentication succeeds only when a child authentication reported a success, or a success whose
  PIN failed the complexity check, or when the dialogue itself sent a notice for this context that its authentication
  is complete.
\<close>

theorem widget_success_backed:
  assumes "widget_run_of start err c0 ls c" "fresh_widget c0" "(SUCCESS, attr) \<in> set (caller_results c)"
  shows "(\<exists>l \<in> set ls. child_report l) \<or> (\<exists>l \<in> set ls. complete_notice (wx_contextId c0) l)"
  using widget_run_inv [OF assms(1,2)] assms(3)
  by (auto simp: widget_inv_def one_result_def child_backed_def notice_backed_def split: if_splits)

text \<open>
  Also shown: a result that was delivered has a timer behind it, as long as the timer service gives out ids, and when
  that timer fires the context is released: the client forgets its node and the pool its entry.
\<close>

theorem widget_released_in_time:
  assumes "widget_run_of start err c0 ls c" "fresh_widget c0" "\<forall>l \<in> set ls. step_timers l"
    and "wx_phase c = RESULT_DELIVERED"
  shows "\<exists>c'. widget_step start err WTimeout c c' \<and> wx_phase c' = RELEASED \<and>
    wx_contextId c0 \<notin> set (wk_scheduleMap (wx_client c')) \<and> caller_results c' = caller_results c"
proof -
  have r: "widget_inv (child_backed ls) (notice_backed (wx_contextId c0) ls) c" "wx_contextId c = wx_contextId c0" "timer_ok c"
    using widget_run_inv [OF assms(1,2)] assms(3) by auto
  let ?c = "OnTerminateTimerTimeOut c"
  have timer: "wx_onTerminateTimerId c \<noteq> 0" using r(3) assms(4) by (simp add: timer_ok_def)
  then have step: "widget_step start err WTimeout c ?c" by (rule widget_timeout)
  have "wx_phase ?c = RELEASED" by (simp add: OnTerminateTimerTimeOut_def assms(4) EndLocked_released)
  moreover have "client_ok ?c" "wx_contextId ?c = wx_contextId c" "caller_results ?c = caller_results c"
    using advances_inv [OF adv_timeout [OF timer, of False] r(1)] adv_timeout [OF timer, of False] assms(4)
    by (auto simp: widget_inv_def advances_def result_grows_def)
  ultimately show ?thesis using step r(2) by (auto simp: client_ok_def)
qed

text \<open>
  Also shown: a released widget context is known to nobody: the client has no node for it, so no notice of the dialogue
  reaches it any more.
\<close>

theorem widget_released_unknown:
  assumes "widget_run_of start err c0 ls c" "fresh_widget c0" "wx_phase c = RELEASED"
  shows "wx_contextId c0 \<notin> set (wk_scheduleMap (wx_client c))"
  using widget_run_inv [OF assms(1,2)] assms(3) by (auto simp: widget_inv_def client_ok_def)

text \<open>Also shown: whatever a widget authentication does with the pool is a run of the pool's own machine.\<close>

theorem widget_refines_pool:
  assumes "widget_run_of start err c0 ls c" "fresh_widget c0"
  shows "\<exists>ps. pool_run start err (wx_pool c0) ps (wx_pool c)"
  using widget_run_inv [OF assms] by blast

end
