(* ===== verification/Widget_Results.thy ===== *)
theory Widget_Results
  imports Widget_Properties
begin

text \<open>
  What the one answer of a widget authentication is: its code and its attributes, as far as the end of the context
  decides them.
\<close>

section \<open>The attributes\<close>

definition result_row :: "widget_auth_result \<Rightarrow> (attributes \<Rightarrow> bool \<times> attributes) list" where
  "result_row info =
     [SetInt32Value ATTR_AUTH_TYPE (wa_authType info)] @
     (if wa_token info = [] then [] else [SetUint8ArrayValue ATTR_SIGNATURE (wa_token info)]) @
     [SetUint64Value ATTR_CREDENTIAL_DIGEST (wa_credentialDigest info),
      SetUint16Value ATTR_CREDENTIAL_COUNT (wa_credentialCount info), SetInt32Value ATTR_USER_ID (wa_resultUserId info)]"

lemma set_or_reason_simps [simp]:
  "set_or_reason r reason (attr, Some failed) = (attr, Some failed)"
  "set_or_reason r reason (attr, None) = (snd r, if fst r then None else Some reason)"
  by (simp_all add: set_or_reason_def split: prod.split)

lemma result_attributes_row:
  assumes "set_all (result_row info) a = (True, b)"
  shows "result_attributes info a = (b, None)"
proof -
  have "set_all (f # fs) a = (True, b) \<longleftrightarrow> fst (f a) \<and> set_all fs (snd (f a)) = (True, b)" for f fs and a b :: attributes
    by (simp split: prod.split)
  then show ?thesis
    using assms by (auto simp: result_row_def result_attributes_def Let_def split: if_splits)
qed

lemma put_bytes:
  assumes "length v \<le> MAX_ATTR_LENGTH" "attr_len MAX_ATTR_COUNT a"
  shows "fst (SetUint8ArrayValue k v a) \<and> attr_at k (EncodeUint8ArrayValue v) (snd (SetUint8ArrayValue k v a))"
proof -
  have "fst (SetUint8ArrayValue k v a)" using adds_one_bytes [OF assms(1)] assms(2) by (simp add: adds_one_def)
  then show ?thesis
    by (auto simp: attr_at_def with_impl_def SetUint8ArrayValue_def Impl_SetUint8ArrayValue_def store_value_def
        split: option.splits if_splits)
qed

lemma result_row_built:
  assumes "length (wa_token info) \<le> MAX_ATTR_LENGTH"
  shows "\<exists>b. set_all (result_row info) Attributes_new = (True, b) \<and>
    GetInt32Value ATTR_AUTH_TYPE b = Some (wa_authType info) \<and>
    GetUint64Value ATTR_CREDENTIAL_DIGEST b = Some (wa_credentialDigest info) \<and>
    GetInt32Value ATTR_USER_ID b = Some (wa_resultUserId info) \<and>
    (wa_token info \<noteq> [] \<longrightarrow> GetUint8ArrayValue ATTR_SIGNATURE b = Some (wa_token info))"
proof -
  have adds: "list_all adds_one (result_row info)" using assms by (simp add: result_row_def)
  have "length (result_row info) \<le> 5" by (simp add: result_row_def)
  then have ok: "fst (set_all (result_row info) Attributes_new)"
    using set_all_adds [OF adds attr_len_new [of 0]] by (simp add: MAX_ATTR_COUNT_def)
  then obtain b where b: "set_all (result_row info) Attributes_new = (True, b)" by (metis prod.collapse)
  let ?tok = "if wa_token info = [] then [] else [SetUint8ArrayValue ATTR_SIGNATURE (wa_token info)]"
  let ?digest = "SetUint64Value ATTR_CREDENTIAL_DIGEST (wa_credentialDigest info)"
  let ?count = "SetUint16Value ATTR_CREDENTIAL_COUNT (wa_credentialCount info)"
  let ?type = "SetInt32Value ATTR_AUTH_TYPE (wa_authType info)"
  let ?user = "SetInt32Value ATTR_USER_ID (wa_resultUserId info)"
  have "attr_at ATTR_AUTH_TYPE (EncodeInt32Value (wa_authType info))
      (snd (set_all ([] @ ?type # (?tok @ [?digest, ?count, ?user])) Attributes_new))"
    by (rule set_all_at) (use put_Int32 in simp_all)
  then have 1: "GetInt32Value ATTR_AUTH_TYPE b = Some (wa_authType info)"
    using b by (simp add: result_row_def encoded_reads(1))
  have "attr_at ATTR_CREDENTIAL_DIGEST (EncodeUint64Value (wa_credentialDigest info))
      (snd (set_all ((?type # ?tok) @ ?digest # [?count, ?user]) Attributes_new))"
    by (rule set_all_at) (use put_Uint64 assms in \<open>simp_all add: MAX_ATTR_COUNT_def\<close>)
  then have 2: "GetUint64Value ATTR_CREDENTIAL_DIGEST b = Some (wa_credentialDigest info)"
    using b by (simp add: result_row_def encoded_reads(3))
  have "attr_at ATTR_USER_ID (EncodeInt32Value (wa_resultUserId info))
      (snd (set_all ((?type # ?tok @ [?digest, ?count]) @ ?user # []) Attributes_new))"
    by (rule set_all_at) (use put_Int32 assms in \<open>simp_all add: MAX_ATTR_COUNT_def\<close>)
  then have 3: "GetInt32Value ATTR_USER_ID b = Some (wa_resultUserId info)"
    using b by (simp add: result_row_def encoded_reads(1))
  have 4: "GetUint8ArrayValue ATTR_SIGNATURE b = Some (wa_token info)" if "wa_token info \<noteq> []"
  proof -
    let ?sig = "SetUint8ArrayValue ATTR_SIGNATURE (wa_token info)"
    have "attr_at ATTR_SIGNATURE (EncodeUint8ArrayValue (wa_token info))
        (snd (set_all ([?type] @ ?sig # [?digest, ?count, ?user]) Attributes_new))"
      by (rule set_all_at) (use put_bytes assms in \<open>simp_all add: MAX_ATTR_COUNT_def\<close>)
    then show ?thesis using b that assms by (simp add: result_row_def encoded_reads(5) EncodeUint8ArrayValue_def)
  qed
  show ?thesis using b 1 2 3 4 by blast
qed

section \<open>The one result\<close>

lemma on_schedule_fields [simp]:
  "wx_phase (snd (on_schedule f c)) = wx_phase c" "caller_results (snd (on_schedule f c)) = caller_results c"
  "wx_authResultInfo (snd (on_schedule f c)) = wx_authResultInfo c"
  "wx_connection (snd (on_schedule f c)) = wx_connection c" "wx_para (snd (on_schedule f c)) = wx_para c"
  "wx_latestError (snd (on_schedule f c)) = wx_latestError c" "wx_pool (snd (on_schedule f c)) = wx_pool c"
  by (auto simp: on_schedule_def split: option.split prod.split)

lemma Disconnect_fields [simp]:
  "wx_phase (snd (DisconnectExtension e c)) = wx_phase c"
  "wx_authResultInfo (snd (DisconnectExtension e c)) = wx_authResultInfo c"
  "caller_results (snd (DisconnectExtension e c)) = caller_results c"
  "wx_pool (snd (DisconnectExtension e c)) = wx_pool c"
proof -
  have emits: "caller_results (wx_emits ys d) = caller_results d" if "\<forall>y \<in> set ys. result_in y = []" for ys d
    using that by (simp add: wx_emits_def caller_results_def)
  show "wx_phase (snd (DisconnectExtension e c)) = wx_phase c"
    "wx_authResultInfo (snd (DisconnectExtension e c)) = wx_authResultInfo c"
    "wx_pool (snd (DisconnectExtension e c)) = wx_pool c"
    by (simp_all add: DisconnectExtension_def Let_def wx_emits_def split: option.split prod.split)
  show "caller_results (snd (DisconnectExtension e c)) = caller_results c"
    by (auto simp: DisconnectExtension_def Let_def emits split: option.split prod.split)
qed

lemma caller_results_tasks [simp]:
  "caller_results (c\<lparr>wx_runTaskInfoList := x\<rparr>) = caller_results c"
  "caller_results (c\<lparr>wx_authResultInfo := y\<rparr>) = caller_results c"
  by (simp_all add: caller_results_def)

lemma advances_grows: "advances s k n t c c' \<Longrightarrow> result_grows s c c'"
  by (simp add: advances_def)

lemma StopAllRunTask_fields [simp]:
  "wx_phase (StopAllRunTask e r c) = wx_phase c" "wx_authResultInfo (StopAllRunTask e r c) = wx_authResultInfo c"
  "caller_results (StopAllRunTask e r c) = caller_results c"
  "wx_pool (StopAllRunTask e r c) = fold Pool_Cancel (map snd (wx_runTaskInfoList c)) (wx_pool c)"
  by (simp_all add: StopAllRunTask_def Let_def)

definition ending_result :: "i32 \<Rightarrow> widget_auth_result \<Rightarrow> i32 \<times> attributes" where
  "ending_result r info =
     (if r = SUCCESS \<or> wa_token info \<noteq> []
      then (case result_attributes info Attributes_new of
              (attr, None) \<Rightarrow> (r, attr)
            | (attr, Some reason) \<Rightarrow> (GENERAL_ERROR, attr))
      else (r, Attributes_new))"

lemma StartTimer_fields [simp]:
  "wx_phase (StartOnTerminateTimer e c) = wx_phase c" "caller_results (StartOnTerminateTimer e c) = caller_results c"
  by (auto simp: StartOnTerminateTimer_def caller_results_def wx_emit_def)

lemma DeliverEnd_result:
  assumes "wx_phase c < RESULT_DELIVERED"
  shows "caller_results (DeliverEndLocked e r c) = caller_results c @ [ending_result r (wx_authResultInfo c)]"
    and "wx_phase (DeliverEndLocked e r c) = RESULT_DELIVERED"
  using assms
  by (auto simp: DeliverEndLocked_def AdvancePhase_less ending_result_def Widget_HandleAuthSuccessResult_def Let_def
      split: prod.split option.split)

lemma late_try_end:
  assumes "RESULT_DELIVERED \<le> wx_phase c"
  shows "caller_results (TryEndLocked e c) = caller_results c" "wx_phase c \<le> wx_phase (TryEndLocked e c)"
proof -
  have "advances False False False False c (TryEndLocked e c)" by (rule adv_try_end) simp_all
  then have "result_grows False c (TryEndLocked e c)" "wx_phase c \<le> wx_phase (TryEndLocked e c)"
    unfolding advances_def by blast+
  then show "caller_results (TryEndLocked e c) = caller_results c" "wx_phase c \<le> wx_phase (TryEndLocked e c)"
    using assms by (simp_all add: result_grows_def leD)
qed

text \<open>An end that comes first is the answer.\<close>

lemma End_result:
  assumes "wx_phase c < STOPPING"
  shows "caller_results (Widget_End e r c) = caller_results c @ [ending_result r (wx_authResultInfo c)]"
    and "RESULT_DELIVERED \<le> wx_phase (Widget_End e r c)"
proof -
  let ?c = "if r = CANCELED then wx_emit (Caller (StageMark stage.S_CANCEL)) (c\<lparr>wx_phase := STOPPING\<rparr>)
    else c\<lparr>wx_phase := STOPPING\<rparr>"
  let ?d = "StopAllRunTask e r ?c"
  have eq: "Widget_End e r c = TryEndLocked e (DeliverEndLocked e r ?d)"
    using assms by (simp add: Widget_End_def AdvancePhase_less Let_def)
  have d: "wx_phase ?d = STOPPING" "caller_results ?d = caller_results c" "wx_authResultInfo ?d = wx_authResultInfo c"
    by simp_all
  have del: "caller_results (DeliverEndLocked e r ?d) = caller_results c @ [ending_result r (wx_authResultInfo c)]"
    "wx_phase (DeliverEndLocked e r ?d) = RESULT_DELIVERED"
    using DeliverEnd_result [of ?d e r] d by simp_all
  show "caller_results (Widget_End e r c) = caller_results c @ [ending_result r (wx_authResultInfo c)]"
    using del late_try_end(1) [of "DeliverEndLocked e r ?d" e] by (simp add: eq)
  show "RESULT_DELIVERED \<le> wx_phase (Widget_End e r c)"
    using del late_try_end(2) [of "DeliverEndLocked e r ?d" e] by (simp add: eq)
qed

section \<open>The report of a child\<close>

text \<open>What a report does before the bookkeeping of children: the node and the outputs change, and no result is given.\<close>

definition only_node :: "widget_context \<Rightarrow> widget_context \<Rightarrow> bool" where
  "only_node c c' \<longleftrightarrow>
     (\<exists>s os. c' = c\<lparr>wx_schedule := s, wx_outputs := wx_outputs c @ os\<rparr> \<and> (s = None \<longleftrightarrow> wx_schedule c = None) \<and>
        (\<forall>y \<in> set os. result_in y = []))"

lemma only_node_refl [simp]: "only_node c c"
  unfolding only_node_def by (intro exI [of _ "wx_schedule c"] exI [of _ "[]"]) simp

lemma only_node_trans [trans]:
  assumes "only_node a b" "only_node b c"
  shows "only_node a c"
proof -
  obtain s os where 1: "b = a\<lparr>wx_schedule := s, wx_outputs := wx_outputs a @ os\<rparr>" "s = None \<longleftrightarrow> wx_schedule a = None"
      "\<forall>y \<in> set os. result_in y = []"
    using assms(1) unfolding only_node_def by (elim exE conjE) (rule that)
  obtain u vs where 2: "c = b\<lparr>wx_schedule := u, wx_outputs := wx_outputs b @ vs\<rparr>" "u = None \<longleftrightarrow> wx_schedule b = None"
      "\<forall>y \<in> set vs. result_in y = []"
    using assms(2) unfolding only_node_def by (elim exE conjE) (rule that)
  show ?thesis unfolding only_node_def
    by (intro exI [of _ u] exI [of _ "os @ vs"]) (use 1 2 in auto)
qed

lemma only_node_emit: "only_node a c \<Longrightarrow> result_in y = [] \<Longrightarrow> only_node a (wx_emit y c)"
  by (erule only_node_trans) (auto simp: only_node_def wx_emit_def intro!: exI [of _ "wx_schedule c"])

lemma only_node_schedule: "only_node a c \<Longrightarrow> only_node a (snd (on_schedule f c))"
proof (erule only_node_trans)
  show "only_node c (snd (on_schedule f c))"
  proof (cases "wx_schedule c")
    case (Some nd)
    then have "snd (on_schedule f c) = c\<lparr>wx_schedule := Some (snd (f nd)), wx_outputs := wx_outputs c @ []\<rparr>"
      by (simp add: on_schedule_def split: prod.split)
    then show ?thesis unfolding only_node_def
      by (intro exI [of _ "Some (snd (f nd))"] exI [of _ "[]"]) (simp add: Some)
  qed (simp add: on_schedule_def)
qed

lemma only_node_tip: "only_node a c \<Longrightarrow> only_node a (OnScheduleAuthTip ty tip c)"
  unfolding OnScheduleAuthTip_def Let_def by (auto split: prod.split intro!: only_node_emit)

lemma only_node_effects:
  "only_node a c \<Longrightarrow> only_node a (fold client_effect ys c)"
proof (induction ys arbitrary: c)
  case (Cons y ys)
  have tips: "only_node a (OnWidgetTip ts tip d)" if "only_node a d" for ts tip d
    using that unfolding OnWidgetTip_def by (induction ts arbitrary: d) (simp_all add: only_node_tip)
  have "only_node a (node_operation oper c)" for oper
    using Cons.prems by (cases oper) (simp_all add: only_node_schedule tips)
  then have "only_node a (client_effect y c)"
    using Cons.prems by (cases y) (simp_all add: only_node_emit)
  then show ?case using Cons.IH by simp
qed simp

lemma only_node_report: "only_node a c \<Longrightarrow> only_node a (with_client (\<lambda>k. (k, f k)) c)"
  unfolding with_client_def by (simp add: only_node_effects)

lemmas only_node_intros = only_node_report only_node_emit only_node_schedule only_node_tip

lemma only_node_frame:
  assumes "only_node c c'"
  shows "wx_phase c' = wx_phase c" "caller_results c' = caller_results c" "wx_authResultInfo c' = wx_authResultInfo c"
    "wx_latestError c' = wx_latestError c" "wx_scheduleReleased c' = wx_scheduleReleased c"
    "wx_schedule c' = None \<longleftrightarrow> wx_schedule c = None" "wx_para c' = wx_para c"
  using assms by (auto simp: only_node_def caller_results_def)

text \<open>
  A child's success is stored, with its token, its digest and its count; a failure is stored as the latest error.
\<close>

definition stored_success :: "widget_context \<Rightarrow> i32 \<Rightarrow> attributes \<Rightarrow> widget_auth_result" where
  "stored_success c ty at =
     (let info = wx_authResultInfo c
      in \<lparr>wa_token = (case GetUint8ArrayValue ATTR_SIGNATURE at of None \<Rightarrow> wa_token info | Some v \<Rightarrow> v), wa_authType = ty,
          wa_credentialDigest =
            (case GetUint64Value ATTR_CREDENTIAL_DIGEST at of None \<Rightarrow> wa_credentialDigest info | Some v \<Rightarrow> v),
          wa_credentialCount =
            (case GetUint16Value ATTR_CREDENTIAL_COUNT at of None \<Rightarrow> wa_credentialCount info | Some v \<Rightarrow> v),
          wa_resultUserId = wc_userId (wx_para c)\<rparr>)"

lemma proc_success:
  assumes "code = SUCCESS \<or> code = COMPLEXITY_CHECK_FAILED" "wx_schedule c \<noteq> None"
  shows "only_node (Widget_SetLatestError code (c\<lparr>wx_authResultInfo := stored_success c ty at\<rparr>)) (ProcAuthResult code ty freeze at c)"
proof -
  let ?info = "wx_authResultInfo c"
  let ?i1 = "case GetUint8ArrayValue ATTR_SIGNATURE at of None \<Rightarrow> ?info | Some v \<Rightarrow> ?info\<lparr>wa_token := v\<rparr>"
  let ?i2 = "case GetUint64Value ATTR_CREDENTIAL_DIGEST at of None \<Rightarrow> ?i1 | Some v \<Rightarrow> ?i1\<lparr>wa_credentialDigest := v\<rparr>"
  let ?i3 = "case GetUint16Value ATTR_CREDENTIAL_COUNT at of None \<Rightarrow> ?i2 | Some v \<Rightarrow> ?i2\<lparr>wa_credentialCount := v\<rparr>"
  have info: "?i3\<lparr>wa_authType := ty, wa_resultUserId := wc_userId (wx_para c)\<rparr> = stored_success c ty at"
    by (simp add: stored_success_def Let_def split: option.split)
  have "ProcAuthResult code ty freeze at c =
      (let d = snd (on_schedule (Node_NotifyAuthSuccess ty)
                 (Widget_SetLatestError code (c\<lparr>wx_authResultInfo := stored_success c ty at\<rparr>)))
       in if wx_isDirectAuth d then snd (on_schedule Node_ClearSchedule d) else d)"
    using assms unfolding info [symmetric]
    by (auto simp: ProcAuthResult_def Let_def Widget_SetLatestError_def)
  then show ?thesis unfolding Let_def by (simp add: only_node_schedule)
qed

lemma only_node_error:
  assumes "only_node (c\<lparr>wx_latestError := x\<rparr>) d"
  shows "only_node (c\<lparr>wx_latestError := y\<rparr>) (d\<lparr>wx_latestError := y\<rparr>)"
proof -
  obtain s os where 1: "d = (c\<lparr>wx_latestError := x\<rparr>)\<lparr>wx_schedule := s, wx_outputs := wx_outputs (c\<lparr>wx_latestError := x\<rparr>) @ os\<rparr>"
      "s = None \<longleftrightarrow> wx_schedule (c\<lparr>wx_latestError := x\<rparr>) = None" "\<forall>y \<in> set os. result_in y = []"
    using assms unfolding only_node_def by (elim exE conjE) (rule that)
  show ?thesis unfolding only_node_def
    by (intro exI [of _ s] exI [of _ os]) (use 1 in simp)
qed

lemma proc_failure:
  assumes "code \<noteq> SUCCESS" "code \<noteq> COMPLEXITY_CHECK_FAILED" "wx_schedule c \<noteq> None"
  shows "\<exists>err. err \<in> {code, LOCKED} \<and> only_node (c\<lparr>wx_latestError := err\<rparr>) (ProcAuthResult code ty freeze at c)"
proof -
  let ?c = "c\<lparr>wx_latestError := code\<rparr>"
  let ?t = "if code \<noteq> CANCELED then OnScheduleAuthTip ty (GetAuthTipCode code freeze) ?c else ?c"
  have set: "Widget_SetLatestError code c = ?c" using assms(1) by (simp add: Widget_SetLatestError_def)
  have t: "only_node ?c ?t" by (simp add: only_node_tip)
  have locked: "only_node (c\<lparr>wx_latestError := LOCKED\<rparr>) (Widget_SetLatestError LOCKED ?t)"
    using only_node_error [OF t, of LOCKED] by (simp add: Widget_SetLatestError_def)
  let ?r = "ProcAuthResult code ty freeze at c"
  let ?n = "if IsSingleFaceOrFingerPrintAuth (wx_para ?t)
    then snd (on_schedule (Node_NotifyAuthFail ty) (Widget_SetLatestError LOCKED ?t))
    else if IsNavigationAuth (wx_para ?t) then snd (on_schedule Node_NaviPinAuth ?t)
    else snd (on_schedule (Node_StopAuthList [ty]) ?t)"
  have "?r = (if wx_isDirectAuth ?c
      then snd (on_schedule Node_ClearSchedule (snd (on_schedule (Node_NotifyAuthFail ty) ?c)))
      else if wc_skipLockedBiometricAuth (wx_para ?t) \<and> sint freeze > 0 then ?n
      else snd (on_schedule (Node_StopAuthList [ty]) ?t))"
    unfolding ProcAuthResult_def Let_def set using assms by (simp only: simp_thms if_False)
  then consider "?r = snd (on_schedule (Node_NotifyAuthFail ty) (Widget_SetLatestError LOCKED ?t))"
    | f where "?r = snd (on_schedule f (snd (on_schedule (Node_NotifyAuthFail ty) ?c)))"
    | f where "?r = snd (on_schedule f ?t)"
    by metis
  then show ?thesis
    using only_node_schedule [OF locked] only_node_schedule [OF t] only_node_schedule [OF only_node_schedule [OF only_node_refl]]
    by cases (metis insertCI)+
qed

text \<open>The report of a child to a context whose schedule is at work.\<close>

definition at_work :: "widget_context \<Rightarrow> bool" where
  "at_work c \<longleftrightarrow> wx_phase c < STOPPING \<and> wx_schedule c \<noteq> None \<and> \<not> wx_scheduleReleased c"

lemma at_work_phase: "at_work c \<Longrightarrow> wx_phase c \<noteq> RELEASED" "at_work c \<Longrightarrow> wx_phase c < STOPPING"
  by (auto simp: at_work_def)

lemma only_node_at_work: "only_node c d \<Longrightarrow> at_work d = at_work c"
  by (simp add: at_work_def only_node_frame)

lemma ChildTerminated_at_work:
  assumes "at_work c"
  shows "at_work (OnChildTerminated e c)" "caller_results (OnChildTerminated e c) = caller_results c"
    "wx_authResultInfo (OnChildTerminated e c) = wx_authResultInfo c"
    "wx_latestError (OnChildTerminated e c) = wx_latestError c" "wx_para (OnChildTerminated e c) = wx_para c"
    "wx_phase (OnChildTerminated e c) = wx_phase c"
  using assms
  by (simp_all add: OnChildTerminated_def TryEndLocked_def Let_def at_work_def caller_results_def)

lemma child_result_split:
  assumes "at_work c"
  shows "\<exists>d fz. only_node c d \<and> WidgetCallback_OnResult e ty code extra c =
    OnChildTerminated e (ProcAuthResult code ty fz (Attributes_of_raw extra) d)"
proof -
  let ?at = "Attributes_of_raw extra"
  let ?remain = "case GetInt32Value ATTR_REMAIN_TIMES ?at of None \<Rightarrow> - 1 | Some v \<Rightarrow> v"
  let ?fz = "case GetInt32Value ATTR_FREEZING_TIME ?at of None \<Rightarrow> - 1 | Some v \<Rightarrow> v"
  let ?d = "wx_emit (Caller (TraceAuthType ty)) (with_client (\<lambda>k. (k, ReportWidgetResult (we_dump e) code ty ?fz ?remain
      (wc_skipLockedBiometricAuth (wx_para c)) (wx_contextId c) (wc_challenge (wx_para c)) k)) c)"
  have "only_node c ?d" by (intro only_node_emit only_node_report) simp_all
  moreover have "WidgetCallback_OnResult e ty code extra c = OnChildTerminated e (ProcAuthResult code ty ?fz ?at ?d)"
    unfolding WidgetCallback_OnResult_def OnChildAuthResult_def Let_def using at_work_phase(1) [OF assms] by (simp only: if_False)
  ultimately show ?thesis by blast
qed

lemma reported_success:
  fixes e ty extra
  assumes "at_work c" "code = SUCCESS \<or> code = COMPLEXITY_CHECK_FAILED"
  defines "c' \<equiv> WidgetCallback_OnResult e ty code extra c"
  shows "at_work c'" "caller_results c' = caller_results c"
    "wx_authResultInfo c' = stored_success c ty (Attributes_of_raw extra)"
    "wx_latestError c' = (if code = SUCCESS then wx_latestError c else code)" "wx_phase c' = wx_phase c"
proof -
  let ?at = "Attributes_of_raw extra"
  obtain d fz where d: "only_node c d" "c' = OnChildTerminated e (ProcAuthResult code ty fz ?at d)"
    using child_result_split [OF assms(1), of e ty code extra] unfolding c'_def by blast
  note same = only_node_frame [OF d(1)]
  let ?b = "Widget_SetLatestError code (d\<lparr>wx_authResultInfo := stored_success d ty ?at\<rparr>)"
  have work: "at_work d" using assms(1) only_node_at_work [OF d(1)] by simp
  have "only_node ?b (ProcAuthResult code ty fz ?at d)"
    by (rule proc_success [OF assms(2)]) (use work in \<open>simp add: at_work_def\<close>)
  note fr = only_node_frame [OF this] only_node_at_work [OF this]
  have b: "at_work ?b" using work by (simp add: at_work_def Widget_SetLatestError_def)
  then have p: "at_work (ProcAuthResult code ty fz ?at d)" by (simp add: fr)
  have info: "stored_success d ty ?at = stored_success c ty ?at" by (simp add: stored_success_def same)
  show "at_work c'" using ChildTerminated_at_work(1) [OF p] by (simp add: d(2))
  show "caller_results c' = caller_results c"
    using ChildTerminated_at_work(2) [OF p] same by (simp add: d(2) fr(2) Widget_SetLatestError_def)
  show "wx_authResultInfo c' = stored_success c ty ?at"
    using ChildTerminated_at_work(3) [OF p] by (simp add: d(2) fr(3) info Widget_SetLatestError_def)
  show "wx_latestError c' = (if code = SUCCESS then wx_latestError c else code)"
    using ChildTerminated_at_work(4) [OF p] same by (simp add: d(2) fr(4) Widget_SetLatestError_def)
  show "wx_phase c' = wx_phase c"
    using ChildTerminated_at_work(6) [OF p] same by (simp add: d(2) fr(1) Widget_SetLatestError_def)
qed

lemma reported_failure:
  fixes e ty extra
  assumes "at_work c" "code \<noteq> SUCCESS" "code \<noteq> COMPLEXITY_CHECK_FAILED"
  defines "c' \<equiv> WidgetCallback_OnResult e ty code extra c"
  shows "at_work c'" "caller_results c' = caller_results c" "wx_authResultInfo c' = wx_authResultInfo c"
    "wx_latestError c' \<in> {code, LOCKED}"
proof -
  let ?at = "Attributes_of_raw extra"
  obtain d fz where d: "only_node c d" "c' = OnChildTerminated e (ProcAuthResult code ty fz ?at d)"
    using child_result_split [OF assms(1), of e ty code extra] unfolding c'_def by blast
  note same = only_node_frame [OF d(1)]
  have work: "at_work d" using assms(1) only_node_at_work [OF d(1)] by simp
  then have "wx_schedule d \<noteq> None" by (simp add: at_work_def)
  from proc_failure [OF assms(2,3) this] obtain err where
    err: "err \<in> {code, LOCKED}" "only_node (d\<lparr>wx_latestError := err\<rparr>) (ProcAuthResult code ty fz ?at d)"
    by blast
  note fr = only_node_frame [OF err(2)] only_node_at_work [OF err(2)]
  have p: "at_work (ProcAuthResult code ty fz ?at d)" using work by (simp add: fr) (simp add: at_work_def)
  show "at_work c'" using ChildTerminated_at_work(1) [OF p] by (simp add: d(2))
  show "caller_results c' = caller_results c"
    using ChildTerminated_at_work(2) [OF p] same by (simp add: d(2) fr(2))
  show "wx_authResultInfo c' = wx_authResultInfo c"
    using ChildTerminated_at_work(3) [OF p] same by (simp add: d(2) fr(3))
  show "wx_latestError c' \<in> {code, LOCKED}"
    using ChildTerminated_at_work(4) [OF p] err(1) by (simp add: d(2) fr(4))
qed

lemma ending_with_token:
  assumes "wa_token info \<noteq> [] \<or> r = SUCCESS" "length (wa_token info) \<le> MAX_ATTR_LENGTH"
  shows "\<exists>a. ending_result r info = (r, a) \<and> GetInt32Value ATTR_AUTH_TYPE a = Some (wa_authType info) \<and>
    GetUint64Value ATTR_CREDENTIAL_DIGEST a = Some (wa_credentialDigest info) \<and>
    GetInt32Value ATTR_USER_ID a = Some (wa_resultUserId info) \<and>
    (wa_token info \<noteq> [] \<longrightarrow> GetUint8ArrayValue ATTR_SIGNATURE a = Some (wa_token info))"
proof -
  obtain b where b: "set_all (result_row info) Attributes_new = (True, b)"
      "GetInt32Value ATTR_AUTH_TYPE b = Some (wa_authType info)"
      "GetUint64Value ATTR_CREDENTIAL_DIGEST b = Some (wa_credentialDigest info)"
      "GetInt32Value ATTR_USER_ID b = Some (wa_resultUserId info)"
      "wa_token info \<noteq> [] \<longrightarrow> GetUint8ArrayValue ATTR_SIGNATURE b = Some (wa_token info)"
    using result_row_built [OF assms(2)] by blast
  have "ending_result r info = (r, b)"
    using assms(1) result_attributes_row [OF b(1)] by (auto simp: ending_result_def)
  then show ?thesis using b(2-5) by blast
qed

section \<open>Properties\<close>

text \<open>
  Property C18: a child of a context at work (not stopping, with a schedule that is not released) succeeds with a token that
  is not empty and not too long, and with a credential digest, and no failure of the complexity rules is kept from before.
  When the node then ends the schedule, the caller gets exactly one result: the success, with the child's token, the type
  that succeeded, and the user and the credential digest it belongs to.
\<close>

theorem widget_success_result:
  assumes "at_work c" "wx_latestError c \<noteq> COMPLEXITY_CHECK_FAILED"
    and "GetUint8ArrayValue ATTR_SIGNATURE (Attributes_of_raw extra) = Some token"
    and "GetUint64Value ATTR_CREDENTIAL_DIGEST (Attributes_of_raw extra) = Some digest"
    and "token \<noteq> []" "length token \<le> MAX_ATTR_LENGTH"
  shows "\<exists>a. caller_results (OnAuthSuccess e' (WidgetCallback_OnResult e ty SUCCESS extra c)) =
      caller_results c @ [(SUCCESS, a)] \<and> GetUint8ArrayValue ATTR_SIGNATURE a = Some token \<and>
    GetInt32Value ATTR_AUTH_TYPE a = Some ty \<and> GetInt32Value ATTR_USER_ID a = Some (wc_userId (wx_para c)) \<and>
    GetUint64Value ATTR_CREDENTIAL_DIGEST a = Some digest"
proof -
  let ?d = "WidgetCallback_OnResult e ty SUCCESS extra c"
  note r = reported_success [OF assms(1) disjI1 [OF refl], of e ty extra]
  have info: "wa_token (wx_authResultInfo ?d) = token" "wa_authType (wx_authResultInfo ?d) = ty"
    "wa_credentialDigest (wx_authResultInfo ?d) = digest" "wa_resultUserId (wx_authResultInfo ?d) = wc_userId (wx_para c)"
    using assms(3,4) by (simp_all add: r(3) stored_success_def Let_def)
  have "OnAuthSuccess e' ?d = Widget_End e' SUCCESS ?d" using assms(2) by (simp add: OnAuthSuccess_def r(4))
  then have "caller_results (OnAuthSuccess e' ?d) = caller_results c @ [ending_result SUCCESS (wx_authResultInfo ?d)]"
    using End_result(1) [OF at_work_phase(2) [OF r(1)]] by (simp add: r(2))
  then show ?thesis using ending_with_token [of "wx_authResultInfo ?d" SUCCESS] assms(5,6) by (auto simp: info)
qed

text \<open>
  Property C29: a PIN that does not meet the complexity rules is answered as not trusted, with the token of its success;
  but the rule is kept in the latest error, and a failure that another child reports before the node has ended the
  schedule takes its place: then the caller gets a success.
\<close>

theorem complexity_failure_forgotten:
  assumes "at_work c" "GetUint8ArrayValue ATTR_SIGNATURE (Attributes_of_raw extra) = Some token"
    and "token \<noteq> []" "length token \<le> MAX_ATTR_LENGTH" "code \<noteq> SUCCESS" "code \<noteq> COMPLEXITY_CHECK_FAILED"
  shows "(\<exists>a. caller_results (OnAuthSuccess e1 (WidgetCallback_OnResult e PIN COMPLEXITY_CHECK_FAILED extra c)) =
        caller_results c @ [(TRUST_LEVEL_NOT_SUPPORT, a)] \<and> GetUint8ArrayValue ATTR_SIGNATURE a = Some token) \<and>
    (\<exists>a. caller_results (OnAuthSuccess e1 (WidgetCallback_OnResult e2 ty code extra2
          (WidgetCallback_OnResult e PIN COMPLEXITY_CHECK_FAILED extra c))) =
        caller_results c @ [(SUCCESS, a)] \<and> GetUint8ArrayValue ATTR_SIGNATURE a = Some token)"
proof -
  define d where d_def: "d = WidgetCallback_OnResult e PIN COMPLEXITY_CHECK_FAILED extra c"
  note r = reported_success [OF assms(1) disjI2 [OF refl], of e PIN extra, folded d_def]
  have token: "wa_token (wx_authResultInfo d) = token" using assms(2) by (simp add: r(3) stored_success_def Let_def)
  let ?f = "WidgetCallback_OnResult e2 ty code extra2 d"
  note f = reported_failure [OF r(1) assms(5,6), of e2 ty extra2]
  have "caller_results (OnAuthSuccess e1 d) = caller_results c @ [ending_result TRUST_LEVEL_NOT_SUPPORT (wx_authResultInfo d)]"
    using End_result(1) [OF at_work_phase(2) [OF r(1)]] by (simp add: r(2,4) OnAuthSuccess_def)
  then have 1: "\<exists>a. caller_results (OnAuthSuccess e1 d) = caller_results c @ [(TRUST_LEVEL_NOT_SUPPORT, a)] \<and>
      GetUint8ArrayValue ATTR_SIGNATURE a = Some token"
    using ending_with_token [of "wx_authResultInfo d" TRUST_LEVEL_NOT_SUPPORT] assms(3,4) by (auto simp: token)
  have "wx_latestError ?f \<noteq> COMPLEXITY_CHECK_FAILED" using f(4) assms(6) by auto
  then have "caller_results (OnAuthSuccess e1 ?f) = caller_results c @ [ending_result SUCCESS (wx_authResultInfo d)]"
    using End_result(1) [OF at_work_phase(2) [OF f(1)]] by (simp add: r(2) f(2,3) OnAuthSuccess_def)
  then have "\<exists>a. caller_results (OnAuthSuccess e1 ?f) = caller_results c @ [(SUCCESS, a)] \<and>
      GetUint8ArrayValue ATTR_SIGNATURE a = Some token"
    using ending_with_token [of "wx_authResultInfo d" SUCCESS] assms(3,4) by (auto simp: token)
  then show ?thesis using 1 unfolding d_def by blast
qed

text \<open>
  Property C20: a stop before any other end answers the caller at once, and never with success. A context that has not
  started, or has heard of no success, answers with an empty cancellation; one that holds the token of a success the node
  has not acted on yet answers CANCELED and hands the token over nevertheless.
\<close>

theorem widget_stop_answers:
  assumes "wx_phase c < STOPPING" "length (wa_token (wx_authResultInfo c)) \<le> MAX_ATTR_LENGTH"
  shows "\<exists>a. caller_results (snd (Widget_Stop e c)) = caller_results c @ [(CANCELED, a)] \<and>
    (if wx_phase c = NOT_STARTED \<or> wa_token (wx_authResultInfo c) = [] then a = Attributes_new
     else GetUint8ArrayValue ATTR_SIGNATURE a = Some (wa_token (wx_authResultInfo c)))"
proof (cases "wx_phase c = NOT_STARTED")
  case True
  let ?c = "(wx_emit (Caller (StageMark stage.S_CANCEL)) c)\<lparr>wx_phase := STOPPING\<rparr>"
  let ?d = "DeliverResultLocked ''WidgetContext start context fail'' CANCELED Attributes_new (?c\<lparr>wx_phase := RESULT_DELIVERED\<rparr>)"
  have "snd (Widget_Stop e c) = Widget_EndLocked ?d"
    using True by (simp add: Widget_Stop_def Widget_OnStartFailed_def AdvancePhase_less Let_def)
  moreover have "result_grows False ?d (Widget_EndLocked ?d)"
    by (rule advances_grows [OF adv_end [OF advances_refl]])
  ultimately show ?thesis using True by (simp add: result_grows_def)
next
  case False
  let ?c = "wx_emit (Caller (StageMark stage.S_CANCEL)) c"
  let ?d = "Widget_End e CANCELED ?c"
  have d: "caller_results ?d = caller_results c @ [ending_result CANCELED (wx_authResultInfo c)]" "RESULT_DELIVERED \<le> wx_phase ?d"
    using End_result [of ?c e CANCELED] assms(1) by simp_all
  have "snd (Widget_Stop e c) = with_client (Client_ClearSchedule (wx_contextId ?c)) ?d"
    using False by (simp add: Widget_Stop_def Widget_OnStop_def Let_def)
  moreover have "result_grows False ?d (with_client (Client_ClearSchedule (wx_contextId ?c)) ?d)"
    by (rule advances_grows [OF adv_clear [OF advances_refl]])
  ultimately have r: "caller_results (snd (Widget_Stop e c)) = caller_results c @ [ending_result CANCELED (wx_authResultInfo c)]"
    using d by (simp add: result_grows_def leD)
  show ?thesis
  proof (cases "wa_token (wx_authResultInfo c) = []")
    case True
    then show ?thesis using r by (simp add: ending_result_def)
  next
    case token: False
    then show ?thesis
      using r False ending_with_token [of "wx_authResultInfo c" CANCELED] assms(2) by auto
  qed
qed

end
