(* ===== verification/Widget_Safety.thy ===== *)
theory Widget_Safety
  imports Widget_Results
begin

text \<open>
  What a widget authentication may show and start: no dialogue over a locked screen for a caller that is not allowed
  there, and children that authenticate what the request asks for.
\<close>

section \<open>The dialogue\<close>

text \<open>The outputs that put the dialogue on the screen; an empty modal command takes it away.\<close>

fun shows_dialogue :: "widget_output \<Rightarrow> bool" where
  "shows_dialogue (ExtensionConnected bundle ability command) = True"
| "shows_dialogue (ModalCommand i command) = (command \<noteq> [])"
| "shows_dialogue _ = False"

definition dialogues :: "widget_context \<Rightarrow> widget_output list" where
  "dialogues c = filter shows_dialogue (wx_outputs c)"

lemma dialogues_emit [simp]: "dialogues (wx_emit y c) = dialogues c @ (if shows_dialogue y then [y] else [])"
  by (simp add: dialogues_def wx_emit_def)

lemma dialogues_emits [simp]: "dialogues (wx_emits ys c) = dialogues c @ filter shows_dialogue ys"
  by (simp add: dialogues_def wx_emits_def)

lemma dialogues_fields [simp]:
  "dialogues (c\<lparr>wx_phase := x1\<rparr>) = dialogues c" "dialogues (c\<lparr>wx_para := x2\<rparr>) = dialogues c"
  "dialogues (c\<lparr>wx_schedule := x3\<rparr>) = dialogues c" "dialogues (c\<lparr>wx_pool := x4\<rparr>) = dialogues c"
  "dialogues (c\<lparr>wx_client := x5\<rparr>) = dialogues c" "dialogues (c\<lparr>wx_connection := x6\<rparr>) = dialogues c"
  "dialogues (c\<lparr>wx_runTaskInfoList := x7\<rparr>) = dialogues c" "dialogues (c\<lparr>wx_onTerminateTimerId := x8\<rparr>) = dialogues c"
  "dialogues (c\<lparr>wx_faceAlgoCaller := x9\<rparr>) = dialogues c" "dialogues (c\<lparr>wx_widgetAlreadyLoad := x10\<rparr>) = dialogues c"
  by (simp_all add: dialogues_def)

lemma dialogues_schedule [simp]: "dialogues (snd (on_schedule f c)) = dialogues c"
  by (simp add: on_schedule_def split: option.split prod.split)

lemma dialogues_tip [simp]: "dialogues (OnScheduleAuthTip ty tip c) = dialogues c"
  by (simp add: OnScheduleAuthTip_def Let_def split: prod.split)

lemma dialogues_effects [simp]: "dialogues (fold client_effect ys c) = dialogues c"
proof (induction ys arbitrary: c)
  case (Cons y ys)
  have tips: "dialogues (OnWidgetTip ts tip d) = dialogues d" for ts tip d
    unfolding OnWidgetTip_def by (induction ts arbitrary: d) simp_all
  have "dialogues (node_operation oper d) = dialogues d" for oper d
    by (cases oper) (simp_all add: tips)
  then have "dialogues (client_effect y c) = dialogues c" by (cases y) simp_all
  then show ?case using Cons.IH by simp
qed simp

lemma dialogues_client [simp]: "dialogues (with_client f c) = dialogues c"
  by (simp add: with_client_def split: prod.split)

lemma dialogues_timer [simp]:
  "dialogues (StartOnTerminateTimer e c) = dialogues c" "dialogues (StopOnTerminateTimer c) = dialogues c"
  by (simp_all add: StartOnTerminateTimer_def StopOnTerminateTimer_def)

lemma dialogues_deliver [simp]: "dialogues (DeliverResultLocked reason r a c) = dialogues c"
  by (simp add: DeliverResultLocked_def Let_def)

lemma dialogues_advance [simp]: "dialogues (snd (AdvancePhaseLocked p c)) = dialogues c"
  by (simp add: AdvancePhase_less)

lemma dialogues_end_locked [simp]: "dialogues (Widget_EndLocked c) = dialogues c"
  by (simp add: Widget_EndLocked_def Let_def AdvancePhase_less)

lemma dialogues_try_end [simp]: "dialogues (TryEndLocked e c) = dialogues c"
  by (simp add: TryEndLocked_def)

lemma dialogues_refresh [simp]: "dialogues (snd (RefreshAuthProfiles e c)) = dialogues c"
  by (simp add: RefreshAuthProfiles_def split: prod.split)

lemma dialogues_disconnect [simp]: "dialogues (snd (DisconnectExtension e c)) = dialogues c"
proof -
  have "filter shows_dialogue (map ExtensionEffect es @ [ExtensionDisconnected]) = []" for es
    by (induction es) simp_all
  then show ?thesis by (simp add: DisconnectExtension_def Let_def split: option.split prod.split)
qed

lemma dialogues_stop_tasks [simp]: "dialogues (StopAllRunTask e r c) = dialogues c"
  by (simp add: StopAllRunTask_def Let_def)

lemma dialogues_success_result:
  "Widget_HandleAuthSuccessResult c = (ok, a, d) \<Longrightarrow> dialogues d = dialogues c"
  by (auto simp: Widget_HandleAuthSuccessResult_def split: prod.splits option.splits)

lemma dialogues_deliver_end [simp]: "dialogues (DeliverEndLocked e r c) = dialogues c"
  by (auto simp: DeliverEndLocked_def AdvancePhase_less Let_def dest: dialogues_success_result split: prod.split if_splits)

lemma dialogues_end [simp]: "dialogues (Widget_End e r c) = dialogues c"
  by (simp add: Widget_End_def AdvancePhase_less Let_def)

lemma dialogues_face [simp]: "dialogues (SendFaceAlgoCommand e oper c) = dialogues c"
  by (simp add: SendFaceAlgoCommand_def Let_def split: list.split)

text \<open>What \<^verbatim>\<open>ConnectExtension\<close> shows depends on the caller alone, whatever the profiles say.\<close>

lemma refresh_caller:
  "refresh_profiles e ts para log = (ok, para', log') \<Longrightarrow>
   wc_callerName para' = wc_callerName para \<and> wc_callerType para' = wc_callerType para \<and>
   wc_callingAppIdentifier para' = wc_callingAppIdentifier para"
  by (induction ts arbitrary: para log) (fastforce split: prod.splits if_splits)+

lemma refresh_allowed:
  "IsWidgetLaunchAllowed e (wx_para (snd (RefreshAuthProfiles e c))) = IsWidgetLaunchAllowed e (wx_para c)"
  by (auto simp: RefreshAuthProfiles_def IsWidgetLaunchAllowed_def dest: refresh_caller split: prod.split)

lemma allowed_profile [simp]: "IsWidgetLaunchAllowed e (p\<lparr>wc_authProfileMap := m\<rparr>) = IsWidgetLaunchAllowed e p"
  by (simp add: IsWidgetLaunchAllowed_def)

lemma connect_denied:
  assumes "\<not> IsWidgetLaunchAllowed e (wx_para c)"
  shows "dialogues (snd (ConnectExtension e r c)) = dialogues c"
proof -
  let ?rf = "if rt_isReload r then RefreshAuthProfiles e c else (True, c)"
  obtain ok d where d: "?rf = (ok, d)" by fastforce
  then have "d = snd ?rf" by simp
  then have "\<not> IsWidgetLaunchAllowed e (wx_para d)" "dialogues d = dialogues c"
    using assms refresh_allowed [of e c] by auto
  then show ?thesis
    by (simp add: ConnectExtension_def d Let_def)
qed

lemma connect_denied_ends:
  assumes "\<not> IsWidgetLaunchAllowed e (wx_para c)" "\<not> rt_isReload r"
  shows "\<exists>code d. snd (ConnectExtension e r c) = Widget_End e code d \<and> wx_phase d = wx_phase c"
proof -
  let ?first = "hd (wc_authTypeList (wx_para c))"
  let ?profile = "case wc_authProfileMap (wx_para c) ?first of None \<Rightarrow> AuthProfile_default | Some p \<Rightarrow> p"
  let ?asked = "IsSingleFaceOrFingerPrintAuth (wx_para c) \<and> wc_skipLockedBiometricAuth (wx_para c)"
  let ?d = "if ?asked then c\<lparr>wx_para := (wx_para c)
    \<lparr>wc_authProfileMap := (wc_authProfileMap (wx_para c))(?first \<mapsto> ?profile)\<rparr>\<rparr> else c"
  have "\<not> IsWidgetLaunchAllowed e (wx_para ?d)" using assms(1) by simp
  then have "ConnectExtension e r c = (True, Widget_End e (if ?asked \<and> pr_remainTimes ?profile = 0 then LOCKED else CANCELED) ?d)"
    using assms(2) unfolding ConnectExtension_def Let_def by (simp only: if_False prod.case simp_thms if_True) auto
  then show ?thesis
    by (intro exI [of _ "if ?asked \<and> pr_remainTimes ?profile = 0 then LOCKED else CANCELED"] exI [of _ ?d]) simp
qed

text \<open>
  Property C19: while the screen is locked and the caller is not among those that may appear over the lock screen, neither
  the launch of the dialogue nor its reload after a rotation shows a dialogue, and a launch of a context that is at work
  ends it with a result.
\<close>

theorem locked_screen_shows_nothing:
  assumes "we_screenLocked e"
    and "\<not> we_allowedOnLockScreen e (wc_callerName (wx_para c)) (wc_callerType (wx_para c)) (wc_callingAppIdentifier (wx_para c))"
  shows "dialogues (snd (LaunchWidget e c)) = dialogues c \<and>
    dialogues (snd (AuthWidgetReload e orientation turned loaded ty c)) = dialogues c \<and>
    (wx_phase c < STOPPING \<longrightarrow> RESULT_DELIVERED \<le> wx_phase (snd (LaunchWidget e c)))"
proof -
  have denied: "\<not> IsWidgetLaunchAllowed e (wx_para c)" using assms by (simp add: IsWidgetLaunchAllowed_def)
  let ?f = "if FACE \<in> set (wc_authTypeList (wx_para c)) then InitFaceAlgo e c else c"
  let ?r = "\<lparr>rt_isReload = False, rt_orientation = 0, rt_needRotate = 0, rt_alreadyLoad = 0, rt_rotateAuthType = 0\<rparr>"
  have f: "wx_para ?f = wx_para c" "wx_phase ?f = wx_phase c" "dialogues ?f = dialogues c"
    by (simp_all add: InitFaceAlgo_def SendFaceAlgoCommand_def Let_def split: list.split)
  have launch: "snd (LaunchWidget e c) = (if wx_phase c \<ge> STOPPING then c else snd (ConnectExtension e ?r ?f))"
    by (simp add: LaunchWidget_def Let_def)
  have "dialogues (snd (LaunchWidget e c)) = dialogues c"
    using connect_denied [of e ?f ?r] denied unfolding launch by (simp add: f)
  moreover have "dialogues (snd (AuthWidgetReload e orientation turned loaded ty c)) = dialogues c"
    using connect_denied [of e "if loaded \<noteq> 0 then c\<lparr>wx_widgetAlreadyLoad := 1\<rparr> else c"] denied
    by (simp add: AuthWidgetReload_def Let_def)
  moreover have "RESULT_DELIVERED \<le> wx_phase (snd (LaunchWidget e c))" if "wx_phase c < STOPPING"
  proof -
    have "\<exists>code d. snd (ConnectExtension e ?r ?f) = Widget_End e code d \<and> wx_phase d = wx_phase ?f"
      by (rule connect_denied_ends) (use denied f(1) in simp_all)
    then show ?thesis using that End_result(2) f(2) unfolding launch by (auto simp: not_le)
  qed
  ultimately show ?thesis by blast
qed

section \<open>The children\<close>

text \<open>Nothing that happens to a child changes what the dialogue was asked for or which children were started.\<close>

definition steady :: "widget_context \<Rightarrow> widget_context \<Rightarrow> bool" where
  "steady c c' \<longleftrightarrow> wx_para c' = wx_para c \<and> wx_launched c' = wx_launched c"

lemma steady_refl [simp]: "steady c c"
  by (simp add: steady_def)

lemma steady_trans: "steady c d \<Longrightarrow> steady d f \<Longrightarrow> steady c f"
  by (simp add: steady_def)

lemma steady_fields [simp]:
  "steady c (wx_emit y d) = steady c d" "steady c (d\<lparr>wx_phase := x1\<rparr>) = steady c d"
  "steady c (d\<lparr>wx_schedule := x2\<rparr>) = steady c d" "steady c (d\<lparr>wx_pool := x3\<rparr>) = steady c d"
  "steady c (d\<lparr>wx_client := x4\<rparr>) = steady c d" "steady c (d\<lparr>wx_latestError := x5\<rparr>) = steady c d"
  "steady c (d\<lparr>wx_authResultInfo := x6\<rparr>) = steady c d" "steady c (d\<lparr>wx_onTerminateTimerId := x7\<rparr>) = steady c d"
  "steady c (d\<lparr>wx_activeChildCount := x8\<rparr>) = steady c d"
  by (simp_all add: steady_def wx_emit_def)

lemma steady_schedule [simp]: "steady c (snd (on_schedule f d)) = steady c d"
  by (simp add: on_schedule_def split: option.split prod.split)

lemma steady_tip [simp]: "steady c (OnScheduleAuthTip ty tip d) = steady c d"
  by (simp add: OnScheduleAuthTip_def Let_def split: prod.split)

lemma steady_operation [simp]: "steady c (node_operation oper d) = steady c d"
proof (cases oper)
  case (OpWidgetTip types tip)
  have "steady c (fold (\<lambda>t. OnScheduleAuthTip t tip) types d) = steady c d" by (induction types arbitrary: d) simp_all
  then show ?thesis using OpWidgetTip by (simp add: OnWidgetTip_def)
qed simp_all

lemma steady_client [simp]: "steady c (with_client f d) = steady c d"
proof -
  have "steady c (client_effect x d) = steady c d" for x d by (cases x) simp_all
  then have "steady c (fold client_effect es d) = steady c d" for es d by (induction es arbitrary: d) simp_all
  then show ?thesis by (simp add: with_client_def split: prod.split)
qed

lemma steady_end [simp]:
  "steady c (DeliverResultLocked reason code a d) = steady c d" "steady c (StopOnTerminateTimer d) = steady c d"
  "steady c (StartOnTerminateTimer e d) = steady c d" "steady c (Widget_EndLocked d) = steady c d"
  "steady c (TryEndLocked e d) = steady c d" "steady c (OnChildTerminated e d) = steady c d"
proof -
  show *: "steady c (DeliverResultLocked reason code a d) = steady c d" "steady c (StopOnTerminateTimer d) = steady c d"
    "steady c (StartOnTerminateTimer e d) = steady c d" for reason code a d
    by (simp_all add: DeliverResultLocked_def StopOnTerminateTimer_def StartOnTerminateTimer_def Let_def)
  show **: "steady c (Widget_EndLocked d) = steady c d" for d
    by (simp add: Widget_EndLocked_def AdvancePhaseLocked_def Let_def *)
  show ***: "steady c (TryEndLocked e d) = steady c d" for d by (simp add: TryEndLocked_def * **)
  show "steady c (OnChildTerminated e d) = steady c d" by (simp add: OnChildTerminated_def Let_def ***)
qed

lemma steady_report: "steady c (ReportChildError e ty cb c)"
  by (simp add: ReportChildError_def WidgetCallback_OnResult_def OnChildAuthResult_def ProcAuthResult_def
      Widget_SetLatestError_def Let_def split: option.split)

text \<open>A child is built for the parameters it is given, or it is not started.\<close>

definition child_for :: "widget_context \<Rightarrow> bytes \<Rightarrow> i32 \<Rightarrow> u32 \<Rightarrow> bool \<Rightarrow> i32 \<Rightarrow> simple_auth_context \<Rightarrow> bool" where
  "child_for c challenge ty atl fail intent x \<longleftrightarrow>
     (\<exists>a. sa_auth x = Some a \<and> au_challenge a = challenge \<and> au_tokenId a = wk_authTokenId (wx_client c) \<and>
        ap_userId (au_para a) = wc_userId (wx_para c) \<and> ap_authType (au_para a) = ty \<and> ap_atl (au_para a) = atl \<and>
        au_endAfterFirstFail a = fail \<and> ap_authIntent (au_para a) = intent)"

lemma build_child:
  assumes "pool_inv (wx_pool c)" "i = GetNewContextId (we_draws e) (wx_pool c)"
    and "length (cp_running (wx_pool c)) + length (cp_waiting (wx_pool c)) < MAX_CONTEXT_NUM" "SelectLocked i (wx_pool c) = None"
  shows "\<exists>x cb q. BuildTask e challenge ty atl fail intent c =
      (Some i, c\<lparr>wx_pool := q, wx_launched := wx_launched c @ [(ty, x, cb)]\<rparr>) \<and>
    child_for c challenge ty atl fail intent x \<and> bc_contextId x = i \<and> cb_cleaner cb = Some i \<and>
    SelectLocked i q \<noteq> None \<and> StartTask i \<in> set (cp_tasks q)"
proof -
  let ?para = "BuildAuthenticationPara (wx_para c) (wk_authTokenId (wx_client c)) challenge ty atl fail intent"
  obtain cb0 where cb0: "Child_GetAuthContextCallback e (wx_para c) (wx_contextId c) ty atl = Some cb0"
    by (simp add: Child_GetAuthContextCallback_def ContextCallback_NewInstance_def)
  obtain x where x: "CreateSimpleAuthContext i ?para False True = Some x"
    and primary: "\<not> bc_isPrimaryContext x" and i: "bc_contextId x = i" and child: "child_for c challenge ty atl fail intent x"
    unfolding CreateSimpleAuthContext_def
    by (simp add: child_for_def SimpleAuthContext_def BaseContext_def base_context.defs Let_def AuthenticationImpl_def
        Auth_SetChallenge_def Auth_SetAccessTokenId_def Auth_SetEndAfterFirstFail_def BuildAuthenticationPara_def
        del: created_views)
  let ?cb = "SetCleaner (bc_contextId x) (SetTraceAuthContextId (bc_contextId x) cb0)"
  let ?view = "simple_view CONTEXT_SIMPLE_AUTH (we_createTime e) ?cb x"
  have view: "cx_contextId ?view = i" "\<not> cx_primary ?view" by (simp_all add: simple_view_def i primary)
  obtain q where q: "Pool_Schedule (Some ?view) (wx_pool c) = (True, q)"
    using assms(3,4) view(1) by (simp add: Pool_Schedule_def)
  have "BuildTask e challenge ty atl fail intent c = (Some i, c\<lparr>wx_pool := q, wx_launched := wx_launched c @ [(ty, x, ?cb)]\<rparr>)"
    using x i q by (simp add: BuildTask_def cb0 Let_def flip: assms(2) del: created_views)
  moreover have "SelectLocked i q = Some ?view" using scheduled_found [OF assms(1) q] view(1) by metis
  moreover have "StartTask i \<in> set (cp_tasks q)" using scheduled_admitted [OF assms(1) view(2) q] view(1) by metis
  moreover have "cb_cleaner ?cb = Some i" by (simp add: SetCleaner_def i)
  ultimately show ?thesis using child i by (intro exI [of _ x] exI [of _ ?cb] exI [of _ q]) simp
qed

lemma build_refused:
  assumes "\<not> (length (cp_running (wx_pool c)) + length (cp_waiting (wx_pool c)) < MAX_CONTEXT_NUM \<and>
      SelectLocked (GetNewContextId (we_draws e) (wx_pool c)) (wx_pool c) = None)"
  shows "fst (BuildTask e challenge ty atl fail intent c) = None \<and> steady c (snd (BuildTask e challenge ty atl fail intent c))"
proof -
  have "steady c (ReportChildError e ty cb (c\<lparr>wx_pool := p\<rparr>))" for cb p
    using steady_report [of "c\<lparr>wx_pool := p\<rparr>"] by (simp add: steady_def)
  moreover have "\<not> fst (Pool_Schedule (Some (simple_view t ct cb x)) (wx_pool c))"
    if "bc_contextId x = GetNewContextId (we_draws e) (wx_pool c)" for t ct cb x
    using assms that by (auto simp: Pool_Schedule_def simple_view_def)
  ultimately show ?thesis
    by (auto simp: BuildTask_def Let_def steady_report split: option.split prod.split)
      (metis created_views fst_conv)+
qed

lemma start_child_started:
  assumes "pool_inv (wx_pool c)" "i = GetNewContextId (we_draws e) (wx_pool c)"
    and "length (cp_running (wx_pool c)) + length (cp_waiting (wx_pool c)) < MAX_CONTEXT_NUM" "SelectLocked i (wx_pool c) = None"
  shows "\<exists>x cb. wx_launched (start_child e fail intent ty c) = wx_launched c @ [(ty, x, cb)] \<and>
    wx_runTaskInfoList (start_child e fail intent ty c) = wx_runTaskInfoList c @ [(ty, i)] \<and>
    child_for c (wc_challenge (wx_para c)) ty (wc_atl (wx_para c)) fail intent x \<and> bc_contextId x = i \<and> cb_cleaner cb = Some i \<and>
    SelectLocked i (wx_pool (start_child e fail intent ty c)) \<noteq> None \<and>
    StartTask i \<in> set (cp_tasks (wx_pool (start_child e fail intent ty c)))"
  using build_child [of "c\<lparr>wx_activeChildCount := wx_activeChildCount c + 1\<rparr>" i e "wc_challenge (wx_para c)" ty
      "wc_atl (wx_para c)" fail intent] assms
  by (auto simp: start_child_def Let_def child_for_def)

lemma start_child_refused:
  assumes "\<not> (length (cp_running (wx_pool c)) + length (cp_waiting (wx_pool c)) < MAX_CONTEXT_NUM \<and>
      SelectLocked (GetNewContextId (we_draws e) (wx_pool c)) (wx_pool c) = None)"
  shows "steady c (start_child e fail intent ty c)"
  using build_refused [of "c\<lparr>wx_activeChildCount := wx_activeChildCount c + 1\<rparr>" e "wc_challenge (wx_para c)" ty
      "wc_atl (wx_para c)" fail intent] assms
  by (auto simp: start_child_def steady_def split: prod.split option.split)

lemma start_child_para:
  "pool_inv (wx_pool c) \<Longrightarrow> wx_para (start_child e fail intent ty c) = wx_para c"
proof (cases "length (cp_running (wx_pool c)) + length (cp_waiting (wx_pool c)) < MAX_CONTEXT_NUM \<and>
    SelectLocked (GetNewContextId (we_draws e) (wx_pool c)) (wx_pool c) = None")
  case True
  assume "pool_inv (wx_pool c)"
  then show ?thesis
    using build_child [of "c\<lparr>wx_activeChildCount := wx_activeChildCount c + 1\<rparr>" _ e "wc_challenge (wx_para c)" ty
        "wc_atl (wx_para c)" fail intent] True
    by (auto simp: start_child_def Let_def)
qed (use start_child_refused in \<open>simp add: steady_def\<close>)

lemma start_child_inv: "pool_inv (wx_pool c) \<Longrightarrow> pool_inv (wx_pool (start_child e fail intent ty c))"
proof -
  have "driven (wx_pool c) (wx_pool (start_child e fail intent ty c))"
    using adv_start_child [of False True True False c c e fail intent ty] by (simp add: advances_def)
  then show "pool_inv (wx_pool c) \<Longrightarrow> pool_inv (wx_pool (start_child e fail intent ty c))"
    unfolding driven_def using pool_run_inv by blast
qed

lemma execute_inv:
  assumes "pool_inv (wx_pool c)"
  shows "pool_inv (wx_pool (ExecuteAuthList e types fail intent c)) \<and> wx_para (ExecuteAuthList e types fail intent c) = wx_para c"
proof -
  have "pool_inv (wx_pool (fold (start_child e fail intent) types c)) \<and> wx_para (fold (start_child e fail intent) types c) = wx_para c"
    using assms by (induction types arbitrary: c) (simp_all add: start_child_inv start_child_para)
  then show ?thesis using assms by (simp add: ExecuteAuthList_def)
qed

text \<open>
  Property C30: the list of types that the dialogue starts is worked off one by one, and each type, whatever was started
  before it, gets a child of its own that authenticates what the request asks for: the user, the challenge and the trust
  level of the request, with this type and the intent and the end rule of the start, on behalf of the dialogue's token. The
  child is in the pool under a fresh id, is to be started there, is entered in the list of running children, and its callback
  takes it out of the pool when it ends. When the pool is full, or the id it would get is taken, no child is started.
\<close>

theorem widget_child_faithful:
  assumes "pool_inv (wx_pool c)" "wx_phase c < STOPPING"
    and "d = ExecuteAuthList e earlier fail intent c" "d' = ExecuteAuthList e (earlier @ [ty]) fail intent c"
    and "i = GetNewContextId (we_draws e) (wx_pool d)"
  shows "if length (cp_running (wx_pool d)) + length (cp_waiting (wx_pool d)) < MAX_CONTEXT_NUM \<and> SelectLocked i (wx_pool d) = None
    then \<exists>x cb a. wx_launched d' = wx_launched d @ [(ty, x, cb)] \<and> wx_runTaskInfoList d' = wx_runTaskInfoList d @ [(ty, i)] \<and>
      bc_contextId x = i \<and> cb_cleaner cb = Some i \<and> sa_auth x = Some a \<and>
      au_challenge a = wc_challenge (wx_para c) \<and> ap_userId (au_para a) = wc_userId (wx_para c) \<and>
      ap_atl (au_para a) = wc_atl (wx_para c) \<and> ap_authType (au_para a) = ty \<and> ap_authIntent (au_para a) = intent \<and>
      au_endAfterFirstFail a = fail \<and> au_tokenId a = wk_authTokenId (wx_client d) \<and>
      SelectLocked i (wx_pool d') \<noteq> None \<and> StartTask i \<in> set (cp_tasks (wx_pool d'))
    else wx_launched d' = wx_launched d"
proof -
  have d': "d' = start_child e fail intent ty d" using assms(2-4) by (simp add: ExecuteAuthList_def)
  have d: "pool_inv (wx_pool d)" "wx_para d = wx_para c" using execute_inv [OF assms(1)] assms(3) by simp_all
  show ?thesis
  proof (cases "length (cp_running (wx_pool d)) + length (cp_waiting (wx_pool d)) < MAX_CONTEXT_NUM \<and> SelectLocked i (wx_pool d) = None")
    case True
    then show ?thesis
      using start_child_started [OF d(1) assms(5), of fail intent ty] d(2) unfolding d' child_for_def by auto
  next
    case False
    then have "wx_launched d' = wx_launched d"
      using start_child_refused [of d e fail intent ty] unfolding d' steady_def assms(5) by blast
    then show ?thesis using False by simp
  qed
qed

end
