(* ===== verification/Widget_Witness.thy ===== *)
theory Widget_Witness
  imports Widget_Safety Sudo_Auth_Witness
begin

text \<open>
  The properties of the widget authentication at work: a user with a PIN whose executor answers, no screen lock, a
  dialogue that appears when it is asked for, and a companion device that is asked without a dialogue.
\<close>

text \<open>Whoever asks for another type than a PIN finds nobody enrolled; the executor of the PIN answers or is silent.\<close>

definition w_pin_only :: "profile_env \<Rightarrow> profile_env" where
  "w_pin_only p = p\<lparr>pe_users := w_user_engine\<lparr>ue_getCredential := \<lambda>_ t. (SUCCESS, if t = PIN then [w_cred 8] else [])\<rparr>\<rparr>"

definition w_env_of :: "profile_env \<Rightarrow> widget_env" where
  "w_env_of p = \<lparr>we_profile = w_pin_only p, we_draws = (\<lambda>_. Some 77), we_createTime = 1,
     we_callback = ae_callback w_auth_env, we_dump = (\<lambda>_. Some [123, 125]), we_tokenHap = 0, we_tokenNative = 1,
     we_screenLocked = False, we_supportFollowCallerUi = False, we_folded = False, we_productName = [],
     we_allowedOnLockScreen = (\<lambda>_ _ _. False), we_connect = True, we_disconnect = True, we_timerId = 4,
     we_faceAlgoCallerSeq = 1,
     we_enrolledState = (\<lambda>_ _. (NOT_ENROLLED, \<lparr>ee_credentialDigest = 0, ee_credentialCount = 0\<rparr>))\<rparr>"

definition w_widget_env :: widget_env where
  "w_widget_env = w_env_of (sv_profile (w_sudo_env 5 0))"

definition w_silent_env :: widget_env where
  "w_silent_env = w_env_of w_profile_env"

lemmas w_env_defs = w_widget_env_def w_silent_env_def w_env_of_def w_pin_only_def

definition w_widget_para :: "i32 list \<Rightarrow> widget_para" where
  "w_widget_para types = \<lparr>wc_userId = 100, wc_sdkVersion = 12, wc_tokenId = 5, wc_callerName = [97], wc_challenge = [1, 2],
     wc_authTypeList = types, wc_atl = ATL1,
     wc_widgetParam = \<lparr>wp_title = [65], wp_navigationButtonText = [], wp_windowMode = 1, wp_hasContext = False\<rparr>,
     wc_authProfileMap = Map.empty, wc_callerType = 0, wc_callingAppID = [], wc_callingAppIdentifier = [],
     wc_isPinExpired = False, wc_isOsAccountVerified = True, wc_isBackgroundApplication = False,
     wc_skipLockedBiometricAuth = False, wc_credentialIdList = [], wc_remoteCallerName = [], wc_callerPermissions = 0\<rparr>"

definition w_client :: widget_client where
  "w_client = \<lparr>wk_schedule = None, wk_widgetContextId = 0,
     wk_widgetParam = \<lparr>wp_title = [], wp_navigationButtonText = [], wp_windowMode = 0, wp_hasContext = False\<rparr>,
     wk_authTypeList = [], wk_widgetCallback = True, wk_pinSubType = [], wk_sensorInfo = [], wk_authTokenId = 6,
     wk_challenge = [], wk_callingBundleName = [], wk_scheduleMap = [], wk_loadedAuthTypeList = []\<rparr>"

definition w_widget :: "i32 list \<Rightarrow> widget_context" where
  "w_widget types = WidgetContext \<lparr>wr_contextId = 9, wr_para = w_widget_para types, wr_isPrimary = True,
     wr_modalCallback = False, wr_remoteCallback = None\<rparr> JNull w_client initial_pool"

lemma w_widget_fresh: "fresh_widget (w_widget types)"
  unfolding fresh_widget_def w_widget_def by (intro exI conjI, rule refl) (simp add: w_client_def)


text \<open>A companion device: started, its child launched, its success reported and acted on.\<close>

definition w_direct :: widget_context where
  "w_direct = widget_start_task w_silent_env (w_widget [COMPANION_DEVICE])"

definition w_direct_child :: widget_context where
  "w_direct_child = widget_event w_silent_env (widget_event w_silent_env w_direct)"

definition w_direct_done :: widget_context where
  "w_direct_done = widget_event w_silent_env (WidgetCallback_OnResult w_silent_env COMPANION_DEVICE SUCCESS [] w_direct_child)"

definition w_direct_labels :: "widget_label list" where
  "w_direct_labels = [WStart w_silent_env, WEvent w_silent_env, WEvent w_silent_env,
     WChildResult w_silent_env COMPANION_DEVICE SUCCESS [], WEvent w_silent_env]"

lemma w_direct_run: "widget_run_of w_start w_err (w_widget [COMPANION_DEVICE]) w_direct_labels w_direct_done"
proof -
  note more = widget_run_of.wrun_snoc
  let ?e = w_silent_env
  have 1: "widget_run_of w_start w_err (w_widget [COMPANION_DEVICE]) ([] @ [WStart ?e]) w_direct"
    unfolding w_direct_def by (rule more [OF widget_run_of.wrun_nil widget_start])
  have 2: "widget_run_of w_start w_err (w_widget [COMPANION_DEVICE]) ((([] @ [WStart ?e]) @ [WEvent ?e]) @ [WEvent ?e]) w_direct_child"
    unfolding w_direct_child_def by (rule more [OF more [OF 1 widget_step.widget_event] widget_step.widget_event])
  have "widget_run_of w_start w_err (w_widget [COMPANION_DEVICE]) ((((([] @ [WStart ?e]) @ [WEvent ?e]) @ [WEvent ?e]) @
      [WChildResult ?e COMPANION_DEVICE SUCCESS []]) @ [WEvent ?e]) w_direct_done"
    unfolding w_direct_done_def by (rule more [OF more [OF 2 widget_child] widget_step.widget_event])
  then show ?thesis by (simp add: w_direct_labels_def)
qed

text \<open>The start, step by step; the rest of the run is evaluated from there.\<close>

definition w_direct_start :: "widget_node \<Rightarrow> widget_context" where
  "w_direct_start n =
     (let k = SetWidgetSchedule 9 (SetAuthTypeList [COMPANION_DEVICE]
            (SetWidgetParam (wc_widgetParam (w_widget_para [COMPANION_DEVICE])) w_client))
      in (w_widget [COMPANION_DEVICE])
           \<lparr>wx_para := (w_widget_para [COMPANION_DEVICE])\<lparr>wc_authProfileMap := [COMPANION_DEVICE \<mapsto> AuthProfile_default]\<rparr>,
            wx_phase := RUNNING, wx_isDirectAuth := True,
            wx_schedule := Some (snd (Node_StartDirectAuth (snd (Node_StartAuthList [COMPANION_DEVICE] False 0 n)))),
            wx_client := SetCallingBundleName [97] (SetChallenge [1, 2] k),
            wx_outputs := [Caller (StageMark stage.S_CONTEXT_START), Caller (ExecutorsCalled [])]\<rparr>)"

definition w_direct_node :: widget_node where
  "w_direct_node =
     \<lparr>wnd_machine = \<lparr>machineName = ''widget_schedule'', currentState = 0,
        transitionMap = map (\<lambda>(st, e, x). (GetTransitionIndex st e, x)) widget_table,
        enterMap = [], leaveMap = [], pendingEvents = [], threadHandlerSet = True, postedTasks = 0\<rparr>,
      wnd_successAuthType = 0, wnd_failAuthType = 0, wnd_startAuthTypeList = [], wnd_endAfterFirstFail = False,
      wnd_stopAuthTypeList = [], wnd_runningAuthTypeSet = [], wnd_orientation = 0, wnd_needRotate = 0,
      wnd_alreadyLoad = 0, wnd_rotateAuthType = 0, wnd_authIntent = 0, wnd_resultCode = GENERAL_ERROR, wnd_authToken = []\<rparr>"

lemma w_direct_started: "w_direct = w_direct_start w_direct_node"
proof -
  have profile: "refresh_profiles (we_profile w_silent_env) [COMPANION_DEVICE] (w_widget_para [COMPANION_DEVICE]) [] =
      (True, (w_widget_para [COMPANION_DEVICE])\<lparr>wc_authProfileMap := [COMPANION_DEVICE \<mapsto> AuthProfile_default]\<rparr>, [])"
    by (simp add: GetUserAuthProfile_def GetAuthCredentialList_def GetCredentialInfo_def w_env_defs w_widget_para_def)
  have node: "WidgetNode_Create = Some w_direct_node"
    by (simp add: WidgetNode_Create_def Widget_machine_builds FSM_SetThreadHandler_def w_direct_node_def)
  have hap: "we_tokenHap w_silent_env = 0" by (simp add: w_env_defs)
  have types: "wc_authTypeList (w_widget_para [COMPANION_DEVICE]) = [COMPANION_DEVICE]" by (simp add: w_widget_para_def)
  show ?thesis
    by (simp add: w_direct_def w_widget_def WidgetContext_def widget_start_task_def Widget_Start_def AdvancePhase_less
        Widget_OnStart_def RefreshAuthProfiles_def profile types node Let_def IsSingleCompanionDeviceAuth_def
        on_schedule_def w_direct_start_def Node_StartAuthList_def Node_StartDirectAuth_def Node_TryKickMachine_def wx_emit_def
        InitSessionProfiles_def session_pin_profile_def GetCallingBundleName_def hap
        del: refresh_profiles.simps) (simp add: w_widget_para_def)
qed

lemmas w_direct_evals = w_direct_done_def w_direct_child_def w_direct_started w_direct_start_def w_direct_node_def

lemma w_direct_end: "map fst (caller_results w_direct_done) = [SUCCESS]"
  unfolding w_direct_evals by code_simp

lemma w_direct_phase: "wx_phase w_direct_done = RESULT_DELIVERED"
  unfolding w_direct_evals by code_simp

lemma widget_answers_once_witness: "length (caller_results w_direct_done) = 1"
  using widget_answers_once [OF w_direct_run w_widget_fresh] by (simp add: w_direct_phase)

lemma widget_success_backed_witness:
  "\<exists>attr. (SUCCESS, attr) \<in> set (caller_results w_direct_done) \<and>
     ((\<exists>l \<in> set w_direct_labels. child_report l) \<or> (\<exists>l \<in> set w_direct_labels. complete_notice 9 l))"
proof -
  obtain attr where r: "(SUCCESS, attr) \<in> set (caller_results w_direct_done)"
    using w_direct_end by (cases "caller_results w_direct_done") auto
  have "wx_contextId (w_widget [COMPANION_DEVICE]) = 9" by (simp add: w_widget_def WidgetContext_def)
  then show ?thesis using widget_success_backed [OF w_direct_run w_widget_fresh r] r by auto
qed

lemma widget_released_in_time_witness:
  "\<exists>c'. widget_step w_start w_err WTimeout w_direct_done c' \<and> wx_phase c' = RELEASED"
proof -
  have "\<forall>l \<in> set w_direct_labels. step_timers l"
    by (simp add: w_direct_labels_def w_env_defs)
  from widget_released_in_time [OF w_direct_run w_widget_fresh this w_direct_phase] show ?thesis by blast
qed

lemma widget_refines_pool_witness: "\<exists>ps. pool_run w_start w_err initial_pool ps (wx_pool w_direct_done)"
  using widget_refines_pool [OF w_direct_run w_widget_fresh] by (simp add: w_widget_def WidgetContext_def)

lemma widget_released_unknown_witness:
  "wx_phase (snd (Widget_Stop w_silent_env (w_widget [PIN]))) = RELEASED \<and>
   9 \<notin> set (wk_scheduleMap (wx_client (snd (Widget_Stop w_silent_env (w_widget [PIN])))))"
proof -
  let ?c = "snd (Widget_Stop w_silent_env (w_widget [PIN]))"
  have run: "widget_run_of w_start w_err (w_widget [PIN]) ([] @ [WStop w_silent_env]) ?c"
    by (rule widget_run_of.wrun_snoc [OF widget_run_of.wrun_nil widget_stop])
  have w: "wx_contextId (w_widget [PIN]) = 9" "wx_phase (w_widget [PIN]) = NOT_STARTED"
    by (simp_all add: w_widget_def WidgetContext_def)
  then have "wx_phase ?c = RELEASED"
    by (simp add: Widget_Stop_def Let_def AdvancePhase_less Widget_OnStartFailed_def EndLocked_released)
  then show ?thesis using widget_released_unknown [OF run w_widget_fresh] w by simp
qed

text \<open>A PIN and a face behind a dialogue: the context is at work once it is started.\<close>

definition w_dialogue :: widget_context where
  "w_dialogue = widget_start_task w_widget_env (w_widget [PIN, FACE])"

lemma w_refreshed:
  "\<exists>m calls. refresh_profiles (we_profile w_widget_env) [PIN, FACE] (w_widget_para [PIN, FACE]) [] =
     (True, (w_widget_para [PIN, FACE])\<lparr>wc_authProfileMap := m\<rparr>, calls)"
proof -
  let ?e = "we_profile w_widget_env"
  have pin: "\<exists>p calls. GetUserAuthProfile ?e u PIN AuthProfile_default [] = (SUCCESS, p, calls)" for u
    by (simp add: GetUserAuthProfile_def GetAuthCredentialList_def GetCredentialInfo_def w_env_defs w_sudo_env_def
        w_profile_env_def w_user_engine_def w_cred_def CredentialInfoImpl_def pool_Select_def w_pool_def Let_def
        GetProperty_def call_executor_def w_pin_reads Helper_ParseAttributes_def read_into_def AuthProfile_default_def)
  have face: "GetUserAuthProfile ?e u FACE AuthProfile_default [] = (NOT_ENROLLED, AuthProfile_default, [])" for u
    by (simp add: GetUserAuthProfile_def GetAuthCredentialList_def GetCredentialInfo_def w_env_defs)
  obtain p calls where "GetUserAuthProfile ?e 100 PIN AuthProfile_default [] = (SUCCESS, p, calls)" using pin by blast
  then show ?thesis by (simp add: face w_widget_para_def)
qed

lemma w_dialogue_work:
  "at_work w_dialogue" "wx_latestError w_dialogue = GENERAL_ERROR" "caller_results w_dialogue = []" "wx_phase w_dialogue = RUNNING"
proof -
  let ?p = "w_widget_para [PIN, FACE]"
  obtain m calls where r: "refresh_profiles (we_profile w_widget_env) [PIN, FACE] ?p [] =
      (True, ?p\<lparr>wc_authProfileMap := m\<rparr>, calls)"
    using w_refreshed by blast
  obtain n where n: "WidgetNode_Create = Some n" using WidgetNode_created by blast
  have para: "wc_authTypeList ?p = [PIN, FACE]" by (simp add: w_widget_para_def)
  show "at_work w_dialogue" "wx_latestError w_dialogue = GENERAL_ERROR" "caller_results w_dialogue = []"
    "wx_phase w_dialogue = RUNNING"
    by (simp_all add: w_dialogue_def w_widget_def WidgetContext_def widget_start_task_def Widget_Start_def AdvancePhase_less
        Widget_OnStart_def RefreshAuthProfiles_def para r n Let_def IsSingleCompanionDeviceAuth_def on_schedule_def
        Node_StartSchedule_def Node_TryKickMachine_def at_work_def caller_results_def wx_emit_def del: refresh_profiles.simps)
qed

definition w_child_extra :: bytes where
  "w_child_extra = Serialize (snd (set_all (puts
     [(ATTR_SIGNATURE, EncodeUint8ArrayValue [7, 8]), (ATTR_CREDENTIAL_DIGEST, EncodeUint64Value 3)]) Attributes_new))"

lemma w_child_reads:
  "GetUint8ArrayValue ATTR_SIGNATURE (Attributes_of_raw w_child_extra) = Some [7, 8]"
  "GetUint64Value ATTR_CREDENTIAL_DIGEST (Attributes_of_raw w_child_extra) = Some 3"
proof -
  let ?kds = "[(ATTR_SIGNATURE, EncodeUint8ArrayValue [7, 8]), (ATTR_CREDENTIAL_DIGEST, EncodeUint64Value 3)]"
  have enc: "EncodeUint8ArrayValue [7, 8] = Some [7, 8]" by (simp add: EncodeUint8ArrayValue_def MAX_ATTR_LENGTH_def)
  obtain a where a: "set_all (puts ?kds) (Some Impl_empty) = (True, a)"
    by (simp add: with_impl_def store_value_def EncodeUint64Value_def enc Impl_empty_def MAX_ATTR_COUNT_def)
  have short: "\<And>k v. (k, Some v) \<in> set ?kds \<Longrightarrow> length v \<le> MAX_ATTR_LENGTH"
    by (auto simp: MAX_ATTR_LENGTH_def enc EncodeUint64Value_def)
  have raw: "Attributes_of_raw w_child_extra = a"
    using puts_survive [OF a _ short] a by (simp add: w_child_extra_def Attributes_new_def MAX_ATTR_COUNT_def)
  have "attr_at ATTR_SIGNATURE (EncodeUint8ArrayValue [7, 8]) a" "attr_at ATTR_CREDENTIAL_DIGEST (EncodeUint64Value 3) a"
    using puts_read [OF a] by simp_all
  then show "GetUint8ArrayValue ATTR_SIGNATURE (Attributes_of_raw w_child_extra) = Some [7, 8]"
    "GetUint64Value ATTR_CREDENTIAL_DIGEST (Attributes_of_raw w_child_extra) = Some 3"
    unfolding raw by (simp_all add: enc encoded_reads(3,5))
qed

lemma widget_success_result_witness:
  "\<exists>a. caller_results (OnAuthSuccess w_widget_env (WidgetCallback_OnResult w_widget_env PIN SUCCESS w_child_extra w_dialogue)) =
     [(SUCCESS, a)] \<and> GetUint8ArrayValue ATTR_SIGNATURE a = Some [7, 8]"
proof -
  have "\<exists>a. caller_results (OnAuthSuccess w_widget_env (WidgetCallback_OnResult w_widget_env PIN SUCCESS w_child_extra w_dialogue)) =
      caller_results w_dialogue @ [(SUCCESS, a)] \<and> GetUint8ArrayValue ATTR_SIGNATURE a = Some [7, 8] \<and>
      GetInt32Value ATTR_AUTH_TYPE a = Some PIN \<and> GetInt32Value ATTR_USER_ID a = Some (wc_userId (wx_para w_dialogue)) \<and>
      GetUint64Value ATTR_CREDENTIAL_DIGEST a = Some 3"
    by (rule widget_success_result [OF w_dialogue_work(1) _ w_child_reads])
      (simp_all add: w_dialogue_work(2) MAX_ATTR_LENGTH_def)
  then show ?thesis by (auto simp: w_dialogue_work(3))
qed

lemma complexity_failure_forgotten_witness:
  "\<exists>a. caller_results (OnAuthSuccess w_widget_env (WidgetCallback_OnResult w_widget_env FACE LOCKED []
       (WidgetCallback_OnResult w_widget_env PIN COMPLEXITY_CHECK_FAILED w_child_extra w_dialogue))) = [(SUCCESS, a)]"
  using complexity_failure_forgotten [OF w_dialogue_work(1) w_child_reads(1), of LOCKED w_widget_env w_widget_env
      w_widget_env FACE "[]"]
  by (auto simp: w_dialogue_work(3) MAX_ATTR_LENGTH_def)

lemma widget_stop_answers_witness:
  "\<exists>a. caller_results (snd (Widget_Stop w_widget_env
       (WidgetCallback_OnResult w_widget_env PIN SUCCESS w_child_extra w_dialogue))) = [(CANCELED, a)] \<and>
     GetUint8ArrayValue ATTR_SIGNATURE a = Some [7, 8]"
proof -
  let ?c = "WidgetCallback_OnResult w_widget_env PIN SUCCESS w_child_extra w_dialogue"
  note r = reported_success [OF w_dialogue_work(1) disjI1 [OF refl], of w_widget_env PIN w_child_extra]
  have token: "wa_token (wx_authResultInfo ?c) = [7, 8]" by (simp add: r(3) stored_success_def Let_def w_child_reads)
  have "wx_phase ?c \<noteq> NOT_STARTED" using w_dialogue_work(4) by (simp add: r(5))
  then show ?thesis
    using widget_stop_answers [OF at_work_phase(2) [OF r(1)], of w_widget_env] token
    by (simp add: r(2) w_dialogue_work(3) MAX_ATTR_LENGTH_def)
qed

lemma locked_screen_shows_nothing_witness:
  "RESULT_DELIVERED \<le> wx_phase (snd (LaunchWidget (w_widget_env\<lparr>we_screenLocked := True\<rparr>) w_dialogue)) \<and>
   dialogues (snd (LaunchWidget (w_widget_env\<lparr>we_screenLocked := True\<rparr>) w_dialogue)) = dialogues w_dialogue"
  using locked_screen_shows_nothing [of "w_widget_env\<lparr>we_screenLocked := True\<rparr>" w_dialogue 0 0 0 0]
    at_work_phase(2) [OF w_dialogue_work(1)]
  by (simp add: w_env_defs)

lemma widget_child_faithful_witness:
  "\<exists>d' x cb a. d' = ExecuteAuthList w_silent_env [PIN] True 0 (w_widget [PIN]) \<and>
     wx_launched d' = [(PIN, x, cb)] \<and> sa_auth x = Some a \<and> au_challenge a = [1, 2] \<and>
     ap_atl (au_para a) = ATL1 \<and> ap_userId (au_para a) = 100"
proof -
  have w: "wx_launched (w_widget [PIN]) = []" "wx_pool (w_widget [PIN]) = initial_pool" "wx_phase (w_widget [PIN]) < STOPPING"
    "wx_para (w_widget [PIN]) = w_widget_para [PIN]"
    by (simp_all add: w_widget_def WidgetContext_def)
  have para: "wc_challenge (w_widget_para [PIN]) = [1, 2]" "wc_userId (w_widget_para [PIN]) = 100"
    "wc_atl (w_widget_para [PIN]) = ATL1" by (simp_all add: w_widget_para_def)
  have inv: "pool_inv (wx_pool (w_widget [PIN]))" unfolding w(2) by (rule initial_pool_inv)
  have none: "ExecuteAuthList w_silent_env [] True 0 (w_widget [PIN]) = w_widget [PIN]" by (simp add: ExecuteAuthList_def)
  have room: "length (cp_running initial_pool) + length (cp_waiting initial_pool) < MAX_CONTEXT_NUM"
    "SelectLocked i initial_pool = None" for i
    by (simp_all add: initial_pool_def SelectLocked_def MAX_CONTEXT_NUM_def)
  from widget_child_faithful [OF inv w(3) none [symmetric] refl refl, of PIN] show ?thesis
    unfolding w para append.simps by (simp add: room) blast
qed

end
