(* ===== verification/Connection_Listeners.thy ===== *)
theory Connection_Listeners
  imports Attribute_Messages
begin

text \<open>
  Who hears what comes over the connections to other devices,
  \<^verbatim>\<open>services/remote_connect/default/src/remote_connect_listener_manager.cpp\<close>: a list of listeners, each for one end point
  of one connection or, under the name \<^verbatim>\<open>GLOBAL\<close>, of all of them. The comparison the searches use is not symmetric: a
  listener in the list for all connections equals any listener of its end point that is looked for. Registering refuses
  a null listener, so the list holds none.

  The locale \<open>listener_registry\<close> states what the contexts that open connections rely on.
\<close>

section \<open>Data\<close>

definition GLOBAL_CONNECTION_NAME :: bytes where
  "GLOBAL_CONNECTION_NAME = map of_char ''GLOBAL''"

record 'l listener_info =
  li_connectionName :: bytes
  li_endPointName :: bytes
  li_listener :: 'l

definition matches_listener :: "bytes \<Rightarrow> bytes \<Rightarrow> 'l listener_info \<Rightarrow> bool" where
  "matches_listener connectionName endPointName info \<longleftrightarrow>
     li_endPointName info = endPointName \<and>
     (li_connectionName info = connectionName \<or> li_connectionName info = GLOBAL_CONNECTION_NAME)"

section \<open>Operations\<close>

definition Connect_RegisterListener ::
  "bytes \<Rightarrow> bytes \<Rightarrow> 'l option \<Rightarrow> 'l listener_info list \<Rightarrow> i32 \<times> 'l listener_info list" where
  "Connect_RegisterListener connectionName endPointName listener listeners =
     (case listener of
        None \<Rightarrow> (GENERAL_ERROR, listeners)
      | Some l \<Rightarrow>
          if list_ex (matches_listener connectionName endPointName) listeners then (GENERAL_ERROR, listeners)
          else (SUCCESS, listeners @ [\<lparr>li_connectionName = connectionName, li_endPointName = endPointName, li_listener = l\<rparr>]))"

definition Connect_RegisterGlobal ::
  "bytes \<Rightarrow> 'l option \<Rightarrow> 'l listener_info list \<Rightarrow> i32 \<times> 'l listener_info list" where
  "Connect_RegisterGlobal endPointName listener listeners =
     Connect_RegisterListener GLOBAL_CONNECTION_NAME endPointName listener listeners"

fun erase_first :: "('a \<Rightarrow> bool) \<Rightarrow> 'a list \<Rightarrow> 'a list" where
  "erase_first q [] = []"
| "erase_first q (x # xs) = (if q x then xs else x # erase_first q xs)"

definition Connect_UnregisterListener ::
  "bytes \<Rightarrow> bytes \<Rightarrow> 'l listener_info list \<Rightarrow> i32 \<times> 'l listener_info list" where
  "Connect_UnregisterListener connectionName endPointName listeners =
     (if \<not> list_ex (matches_listener connectionName endPointName) listeners then (GENERAL_ERROR, listeners)
      else (SUCCESS, erase_first (matches_listener connectionName endPointName) listeners))"

definition Connect_UnregisterGlobal :: "bytes \<Rightarrow> 'l listener_info list \<Rightarrow> i32 \<times> 'l listener_info list" where
  "Connect_UnregisterGlobal endPointName listeners =
     Connect_UnregisterListener GLOBAL_CONNECTION_NAME endPointName listeners"

definition FindListener :: "bytes \<Rightarrow> bytes \<Rightarrow> 'l listener_info list \<Rightarrow> 'l option" where
  "FindListener connectionName endPointName listeners =
     map_option li_listener (List.find (matches_listener connectionName endPointName) listeners)"

text \<open>Who is told that a connection went down or came up, in the order of the list; those told of the end are dropped.\<close>

definition OnConnectionDown :: "bytes \<Rightarrow> 'l listener_info list \<Rightarrow> 'l list \<times> 'l listener_info list" where
  "OnConnectionDown connectionName listeners =
     (map li_listener (filter (\<lambda>info. li_connectionName info = connectionName) listeners),
      filter (\<lambda>info. li_connectionName info \<noteq> connectionName) listeners)"

definition OnConnectionUp :: "bytes \<Rightarrow> 'l listener_info list \<Rightarrow> 'l list" where
  "OnConnectionUp connectionName listeners =
     map li_listener (filter (\<lambda>info. li_connectionName info = connectionName) listeners)"

section \<open>The contract\<close>

text \<open>
  A registry with its searches. A scoped end point is one that nobody hears on all connections; for those a connection
  has at most one listener, and each registration concerns its own connection and end point only.
\<close>

locale listener_registry =
  fixes reg :: "bytes \<Rightarrow> bytes \<Rightarrow> 'l option \<Rightarrow> 'r \<Rightarrow> i32 \<times> 'r"
    and unreg :: "bytes \<Rightarrow> bytes \<Rightarrow> 'r \<Rightarrow> i32 \<times> 'r"
    and find :: "bytes \<Rightarrow> bytes \<Rightarrow> 'r \<Rightarrow> 'l option"
    and scoped :: "bytes \<Rightarrow> 'r \<Rightarrow> bool"
    and ok :: "'r \<Rightarrow> bool"
  assumes reg_taken: "find n p r \<noteq> None \<Longrightarrow> reg n p x r = (GENERAL_ERROR, r)"
    and reg_free: "find n p r = None \<Longrightarrow> n \<noteq> GLOBAL_CONNECTION_NAME \<Longrightarrow> ok r \<Longrightarrow>
      \<exists>r'. reg n p (Some l) r = (SUCCESS, r') \<and> ok r' \<and>
        (\<forall>m q. find m q r' = (if (m, q) = (n, p) then Some l else find m q r)) \<and> (\<forall>q. scoped q r' = scoped q r)"
    and unreg_none: "find n p r = None \<Longrightarrow> unreg n p r = (GENERAL_ERROR, r)"
    and unreg_found: "find n p r \<noteq> None \<Longrightarrow> scoped p r \<Longrightarrow> ok r \<Longrightarrow>
      \<exists>r'. unreg n p r = (SUCCESS, r') \<and> ok r' \<and>
        (\<forall>m q. find m q r' = (if (m, q) = (n, p) then None else find m q r)) \<and> (\<forall>q. scoped q r' = scoped q r)"
begin

text \<open>A client that registers and unregisters leaves every search as it was.\<close>

lemma bracket:
  assumes "find n p r = None" "n \<noteq> GLOBAL_CONNECTION_NAME" "ok r" "scoped p r"
  shows "find m q (snd (unreg n p (snd (reg n p (Some l) r)))) = find m q r"
proof -
  obtain r1 where r1: "reg n p (Some l) r = (SUCCESS, r1)" "ok r1" "scoped p r1"
      "\<forall>m q. find m q r1 = (if (m, q) = (n, p) then Some l else find m q r)"
    using reg_free [OF assms(1,2,3)] assms(4) by blast
  then have "find n p r1 \<noteq> None" by simp
  then obtain r2 where "unreg n p r1 = (SUCCESS, r2)" "\<forall>m q. find m q r2 = (if (m, q) = (n, p) then None else find m q r1)"
    using unreg_found r1 by blast
  then show ?thesis using r1 assms(1) by auto
qed

text \<open>A client that clears up after a registration that failed takes the listener of another away.\<close>

lemma failed_bracket:
  assumes "find n p r = Some l0" "ok r" "scoped p r"
  shows "reg n p (Some l) r = (GENERAL_ERROR, r) \<and> find n p (snd (unreg n p (snd (reg n p (Some l) r)))) = None"
proof -
  have "reg n p (Some l) r = (GENERAL_ERROR, r)" using reg_taken assms(1) by simp
  moreover have "find n p r \<noteq> None" using assms(1) by simp
  then obtain r' where "unreg n p r = (SUCCESS, r')" "\<forall>m q. find m q r' = (if (m, q) = (n, p) then None else find m q r)"
    using unreg_found assms by blast
  ultimately show ?thesis by simp
qed

end

section \<open>The contract, interpreted\<close>

definition scoped_end_point :: "bytes \<Rightarrow> 'l listener_info list \<Rightarrow> bool" where
  "scoped_end_point p listeners \<longleftrightarrow>
     (\<forall>info \<in> set listeners. li_endPointName info = p \<longrightarrow> li_connectionName info \<noteq> GLOBAL_CONNECTION_NAME)"

definition listeners_ok :: "'l listener_info list \<Rightarrow> bool" where
  "listeners_ok listeners \<longleftrightarrow> distinct (map (\<lambda>info. (li_connectionName info, li_endPointName info)) listeners)"

lemma find_None: "FindListener n p rs = None \<longleftrightarrow> \<not> list_ex (matches_listener n p) rs"
  by (auto simp: FindListener_def find_None_iff list_ex_iff)

lemma find_snoc:
  "List.find f (xs @ [x]) = (case List.find f xs of None \<Rightarrow> if f x then Some x else None | Some y \<Rightarrow> Some y)"
  by (induction xs) auto

lemma erase_scoped:
  assumes "scoped_end_point p rs" "listeners_ok rs" "list_ex (matches_listener n p) rs"
  shows "FindListener m q (erase_first (matches_listener n p) rs) = (if (m, q) = (n, p) then None else FindListener m q rs)"
    and "scoped_end_point q (erase_first (matches_listener n p) rs) = scoped_end_point q rs"
    and "listeners_ok (erase_first (matches_listener n p) rs)"
    and "set (erase_first (matches_listener n p) rs) \<subseteq> set rs"
proof -
  have "(\<forall>m q. FindListener m q (erase_first (matches_listener n p) rs) = (if (m, q) = (n, p) then None else FindListener m q rs)) \<and>
      (\<forall>q. scoped_end_point q (erase_first (matches_listener n p) rs) = scoped_end_point q rs) \<and>
      listeners_ok (erase_first (matches_listener n p) rs) \<and> set (erase_first (matches_listener n p) rs) \<subseteq> set rs"
    using assms
  proof (induction rs)
    case (Cons info rs)
    have tail: "scoped_end_point p rs" "listeners_ok rs" using Cons(2,3) by (auto simp: scoped_end_point_def listeners_ok_def)
    show ?case
    proof (cases "matches_listener n p info")
      case True
      then have i: "li_endPointName info = p" "li_connectionName info = n" "n \<noteq> GLOBAL_CONNECTION_NAME"
        using Cons(2) by (auto simp: matches_listener_def scoped_end_point_def)
      have "\<not> list_ex (matches_listener n p) rs"
      proof
        assume "list_ex (matches_listener n p) rs"
        then obtain x where x: "x \<in> set rs" "matches_listener n p x" by (auto simp: list_ex_iff)
        then have "(li_connectionName x, li_endPointName x) = (li_connectionName info, li_endPointName info)"
          using Cons(2) i by (auto simp: matches_listener_def scoped_end_point_def)
        then have "(li_connectionName info, li_endPointName info) \<in> (\<lambda>info. (li_connectionName info, li_endPointName info)) ` set rs"
          using imageI [OF x(1), of "\<lambda>info. (li_connectionName info, li_endPointName info)"] by simp
        then show False using Cons(3) by (simp add: listeners_ok_def)
      qed
      then have "FindListener n p rs = None" by (simp add: find_None)
      then show ?thesis
        using True i tail by (auto simp: FindListener_def matches_listener_def scoped_end_point_def)
    next
      case False
      then have "list_ex (matches_listener n p) rs" using Cons(4) by simp
      note IH = Cons.IH [OF tail this]
      then show ?thesis
        using False Cons(2,3) by (auto simp: FindListener_def scoped_end_point_def listeners_ok_def)
    qed
  qed simp
  then show "FindListener m q (erase_first (matches_listener n p) rs) = (if (m, q) = (n, p) then None else FindListener m q rs)"
    "scoped_end_point q (erase_first (matches_listener n p) rs) = scoped_end_point q rs"
    "listeners_ok (erase_first (matches_listener n p) rs)" "set (erase_first (matches_listener n p) rs) \<subseteq> set rs" by blast+
qed

interpretation lreg: listener_registry Connect_RegisterListener Connect_UnregisterListener FindListener
  scoped_end_point listeners_ok
proof
  fix n p :: bytes and l :: "'a option" and r :: "'a listener_info list"
  assume "FindListener n p r \<noteq> None"
  then show "Connect_RegisterListener n p l r = (GENERAL_ERROR, r)"
    by (simp add: find_None Connect_RegisterListener_def split: option.split)
next
  fix n p :: bytes and l :: 'a and r :: "'a listener_info list"
  assume a: "FindListener n p r = None" "n \<noteq> GLOBAL_CONNECTION_NAME" "listeners_ok r"
  let ?i = "\<lparr>li_connectionName = n, li_endPointName = p, li_listener = l\<rparr>"
  have free: "\<not> list_ex (matches_listener n p) r" using a(1) by (simp add: find_None)
  have "FindListener m q (r @ [?i]) = (if (m, q) = (n, p) then Some l else FindListener m q r)" for m q
    using a by (auto simp: FindListener_def find_snoc matches_listener_def split: option.splits)
  moreover have "listeners_ok (r @ [?i])" using free a(3) by (auto simp: listeners_ok_def list_ex_iff matches_listener_def)
  moreover have "scoped_end_point q (r @ [?i]) = scoped_end_point q r" for q
    using a(2) by (auto simp: scoped_end_point_def)
  ultimately show "\<exists>r'. Connect_RegisterListener n p (Some l) r = (SUCCESS, r') \<and> listeners_ok r' \<and>
      (\<forall>m q. FindListener m q r' = (if (m, q) = (n, p) then Some l else FindListener m q r)) \<and>
      (\<forall>q. scoped_end_point q r' = scoped_end_point q r)"
    using free by (simp add: Connect_RegisterListener_def)
next
  fix n p :: bytes and r :: "'a listener_info list"
  assume "FindListener n p r = None"
  then show "Connect_UnregisterListener n p r = (GENERAL_ERROR, r)"
    by (simp add: find_None Connect_UnregisterListener_def)
next
  fix n p :: bytes and r :: "'a listener_info list"
  assume "FindListener n p r \<noteq> None" "scoped_end_point p r" "listeners_ok r"
  then show "\<exists>r'. Connect_UnregisterListener n p r = (SUCCESS, r') \<and> listeners_ok r' \<and>
      (\<forall>m q. FindListener m q r' = (if (m, q) = (n, p) then None else FindListener m q r)) \<and>
      (\<forall>q. scoped_end_point q r' = scoped_end_point q r)"
    using erase_scoped [of p r n] by (auto simp: find_None Connect_UnregisterListener_def)
qed

text \<open>When a connection goes down its listeners are told, each once, and hear nothing of it any more.\<close>

lemma connection_down:
  assumes "OnConnectionDown n rs = (told, rs')"
  shows "told = OnConnectionUp n rs" and "OnConnectionUp n rs' = []"
    and "FindListener n p rs' = Some l \<Longrightarrow>
      \<exists>info \<in> set rs. li_connectionName info = GLOBAL_CONNECTION_NAME \<and> li_endPointName info = p \<and> li_listener info = l"
    and "scoped_end_point p rs \<Longrightarrow> FindListener n p rs' = None"
    and "m \<noteq> n \<Longrightarrow> OnConnectionUp m rs' = OnConnectionUp m rs"
proof -
  have rs': "rs' = filter (\<lambda>info. li_connectionName info \<noteq> n) rs"
    and told: "told = map li_listener (filter (\<lambda>info. li_connectionName info = n) rs)"
    using assms by (simp_all add: OnConnectionDown_def)
  show "told = OnConnectionUp n rs" by (simp add: told OnConnectionUp_def)
  show "OnConnectionUp n rs' = []" by (simp add: rs' OnConnectionUp_def)
  show "m \<noteq> n \<Longrightarrow> OnConnectionUp m rs' = OnConnectionUp m rs"
    by (auto simp: rs' OnConnectionUp_def intro!: arg_cong [where f = "map li_listener"] filter_cong)
  show "\<exists>info \<in> set rs. li_connectionName info = GLOBAL_CONNECTION_NAME \<and> li_endPointName info = p \<and> li_listener info = l"
    if found: "FindListener n p rs' = Some l"
  proof -
    obtain info where "List.find (matches_listener n p) rs' = Some info" "li_listener info = l"
      using found by (auto simp: FindListener_def)
    then have "info \<in> set rs'" "matches_listener n p info" by (auto simp: find_Some_iff)
    then show ?thesis using \<open>li_listener info = l\<close> by (auto simp: rs' matches_listener_def)
  qed
  show "FindListener n p rs' = None" if "scoped_end_point p rs"
    using that by (auto simp: find_None rs' list_ex_iff matches_listener_def scoped_end_point_def)
qed

end
