(* ===== verification/Remote_Message.thy ===== *)
theory Remote_Message
  imports Connection_Listeners Timing_Tracer
begin

text \<open>
  What both ends of a connection agree on, \<^verbatim>\<open>services/remote_connect/inc/remote_message.h\<close>: the types of the messages
  and the names of the end points. Besides, how a stream prints a number.
\<close>

abbreviation (input) ATTR_MSG_SEQ_NUM :: u32 where "ATTR_MSG_SEQ_NUM \<equiv> 100052"
abbreviation (input) ATTR_MSG_ACK :: u32 where "ATTR_MSG_ACK \<equiv> 100053"
abbreviation (input) ATTR_MSG_SRC_UDID :: u32 where "ATTR_MSG_SRC_UDID \<equiv> 100054"
abbreviation (input) ATTR_MSG_SRC_END_POINT :: u32 where "ATTR_MSG_SRC_END_POINT \<equiv> 100055"
abbreviation (input) ATTR_MSG_DEST_END_POINT :: u32 where "ATTR_MSG_DEST_END_POINT \<equiv> 100056"
abbreviation (input) ATTR_CONNECTION_NAME :: u32 where "ATTR_CONNECTION_NAME \<equiv> 100057"
abbreviation (input) ATTR_MSG_VERSION :: u32 where "ATTR_MSG_VERSION \<equiv> 100058"
abbreviation (input) ATTR_SCHEDULE_DATA :: u32 where "ATTR_SCHEDULE_DATA \<equiv> 100064"
abbreviation (input) ATTR_DEST_ROLE :: u32 where "ATTR_DEST_ROLE \<equiv> 100066"
abbreviation (input) ATTR_SUPPORTED_MSG_VERSION :: u32 where "ATTR_SUPPORTED_MSG_VERSION \<equiv> 100087"

section \<open>Types of messages\<close>

abbreviation (input) START_REMOTE_AUTH :: i32 where "START_REMOTE_AUTH \<equiv> 1"
abbreviation (input) SEND_REMOTE_AUTH_TIP :: i32 where "SEND_REMOTE_AUTH_TIP \<equiv> 2"
abbreviation (input) SEND_REMOTE_AUTH_RESULT :: i32 where "SEND_REMOTE_AUTH_RESULT \<equiv> 3"
abbreviation (input) QUERY_EXECUTOR_INFO :: i32 where "QUERY_EXECUTOR_INFO \<equiv> 4"
abbreviation (input) BEGIN_EXECUTE :: i32 where "BEGIN_EXECUTE \<equiv> 5"
abbreviation (input) END_EXECUTE :: i32 where "END_EXECUTE \<equiv> 6"
abbreviation (input) SEND_DATA_TO_EXECUTOR :: i32 where "SEND_DATA_TO_EXECUTOR \<equiv> 7"
abbreviation (input) EXECUTOR_FINISH :: i32 where "EXECUTOR_FINISH \<equiv> 8"
abbreviation (input) EXECUTOR_SEND_DATA :: i32 where "EXECUTOR_SEND_DATA \<equiv> 9"
abbreviation (input) KEEP_ALIVE :: i32 where "KEEP_ALIVE \<equiv> 10"

section \<open>End points\<close>

definition EXECUTOR_PROXY_ENDPOINT_NAME :: bytes where
  "EXECUTOR_PROXY_ENDPOINT_NAME = map of_char ''RemoteExecutorProxy''"
definition EXECUTOR_STUB_ENDPOINT_NAME :: bytes where
  "EXECUTOR_STUB_ENDPOINT_NAME = map of_char ''RemoteExecutorStub''"
definition REMOTE_SERVICE_ENDPOINT_NAME :: bytes where
  "REMOTE_SERVICE_ENDPOINT_NAME = map of_char ''RemoteService''"
definition REMOTE_CALLBACK_ENDPOINT_NAME :: bytes where
  "REMOTE_CALLBACK_ENDPOINT_NAME = map of_char ''RemoteCallback''"
definition REMOTE_AUTH_CONTEXT_ENDPOINT_NAME :: bytes where
  "REMOTE_AUTH_CONTEXT_ENDPOINT_NAME = map of_char ''RemoteAuthContext''"
definition REMOTE_AUTH_INVOKER_CONTEXT_ENDPOINT_NAME :: bytes where
  "REMOTE_AUTH_INVOKER_CONTEXT_ENDPOINT_NAME = map of_char ''RemoteAuthInvokerContext''"
definition CLIENT_SOCKET_ENDPOINT_NAME :: bytes where
  "CLIENT_SOCKET_ENDPOINT_NAME = map of_char ''ClientSocket''"

section \<open>Numbers in text\<close>

definition print_i32 :: "i32 \<Rightarrow> string" where
  "print_i32 n = (if sint n < 0 then ''-'' @ decimal (nat (- sint n)) else decimal (nat (sint n)))"

section \<open>What a context asks of its surroundings\<close>

text \<open>A message goes over a connection from one end point to another.\<close>

datatype remote_call =
    ThreadHandlerCreated bytes
  | ThreadHandlerDestroyed bytes
  | TimerRegistered u32
  | TimerUnregistered u32
  | ListenerRegistered bytes bytes
  | ListenerUnregistered bytes bytes
  | ConnectionOpened bytes bytes u32
  | ConnectionClosed bytes
  | MessageSent bytes bytes bytes attributes
  | TraceIsRemoteAuth bool
  | TraceRemoteUdid bytes
  | TraceConnectionName bytes
  | TraceLocalUdid bytes

end
