(* ===== verification/Remote_Invoker.thy ===== *)
theory Remote_Invoker
  imports Auth_Factory Remote_Message
begin

text \<open>
  The context of a device that asks another one for an authentication,
  \<^verbatim>\<open>services/context/src/remote_auth_invoker_context.cpp\<close>: it opens a connection, sends the request when the
  connection is up, passes on the tips of the other device and delivers the result the other device sends. What the
  connection manager, the device manager and the engine answer is an argument of the operation that asks;
  \<open>vc_calls\<close> is what the context asked of the connection manager, the timers and the thread handlers, and what it
  noted for the trace.

  A message of a result carries the code \<^verbatim>\<open>ATTR_RESULT\<close> for everybody to read and, signed by the other device's
  engine, the result itself.
\<close>

abbreviation (input) ATTR_LOCKOUT_DURATION :: u32 where "ATTR_LOCKOUT_DURATION \<equiv> 100010"
abbreviation (input) ATTR_REMAIN_ATTEMPTS :: u32 where "ATTR_REMAIN_ATTEMPTS \<equiv> 100009"
abbreviation (input) ATTR_TOKEN_FROM_REMOTE_DEVICE :: u32 where "ATTR_TOKEN_FROM_REMOTE_DEVICE \<equiv> 100093"

section \<open>Data\<close>

text \<open>
  What the surroundings answer: the timer's id, the udid of a network id and of the device itself, the result codes
  of the connection manager, and the engine: what it signs about the device's executors, and its verdict
  \<^verbatim>\<open>GetAuthResultFromMessage\<close> on a signed result from a device.
\<close>

record invoker_env =
  ve_timerId :: u32
  ve_udid :: "bytes \<Rightarrow> bytes option"
  ve_localUdid :: "bytes option"
  ve_register :: i32
  ve_open :: i32
  ve_send :: i32
  ve_getSigned :: "i32 list \<Rightarrow> i32 \<Rightarrow> bytes \<Rightarrow> i32 \<times> bytes"
  ve_pool :: rpool
  ve_verify :: "bytes \<Rightarrow> bytes \<Rightarrow> i32 \<times> eng_auth_result"

record invoker_context = base_context +
  vc_authParam :: auth_param_inner
  vc_param :: invoker_param
  vc_verifierUdid :: bytes
  vc_request :: "attributes option"
  vc_verifierContextId :: "u64 option"
  vc_cancelTimerId :: "u32 option"
  vc_calls :: "remote_call list"
  vc_destroyed :: bool

definition vc_emit :: "remote_call \<Rightarrow> invoker_context \<Rightarrow> invoker_context" where
  "vc_emit call c = c\<lparr>vc_calls := vc_calls c @ [call]\<rparr>"

definition RemoteAuthInvokerContext ::
  "u64 \<Rightarrow> auth_param_inner \<Rightarrow> invoker_param \<Rightarrow> bool \<Rightarrow> invoker_context" where
  "RemoteAuthInvokerContext contextId authParam param callback =
     base_context.extend (BaseContext contextId False callback)
       (invoker_context.fields authParam param [] None None None
         [ThreadHandlerCreated (iv_connectionName param)] False)"

definition Invoker_Destroy :: "invoker_context \<Rightarrow> invoker_context" where
  "Invoker_Destroy c =
     (let name = iv_connectionName (vc_param c);
          c = (case vc_cancelTimerId c of None \<Rightarrow> c | Some timer \<Rightarrow> vc_emit (TimerUnregistered timer) c);
          c = vc_emit (ListenerUnregistered name REMOTE_AUTH_INVOKER_CONTEXT_ENDPOINT_NAME) c;
          c = vc_emit (ConnectionClosed name) c;
          c = vc_emit (ThreadHandlerDestroyed name) c
      in c\<lparr>vc_destroyed := True\<rparr>)"

section \<open>Operations\<close>

definition Invoker_GetTokenId :: "invoker_context \<Rightarrow> u32" where
  "Invoker_GetTokenId c = iv_tokenId (vc_param c)"

text \<open>The reason for the trace and the result, on the callback; a null callback that the code uses is marked.\<close>

definition tell_result :: "string \<Rightarrow> i32 \<Rightarrow> attributes \<Rightarrow> 'c base_context_scheme \<Rightarrow> 'c base_context_scheme" where
  "tell_result reason resultCode attr c =
     (if \<not> bc_callback c then ctx_emit NullCallbackUsed c
      else ctx_emit (ResultDelivered resultCode attr) (ctx_emit (AuthFinishReason reason) c))"

text \<open>All setters are called, whatever the ones before returned.\<close>

fun set_each :: "(attributes \<Rightarrow> bool \<times> attributes) list \<Rightarrow> attributes \<Rightarrow> bool \<times> attributes" where
  "set_each [] a = (True, a)"
| "set_each (f # fs) a = (case f a of (r, a) \<Rightarrow> case set_each fs a of (rs, a) \<Rightarrow> (r \<and> rs, a))"

definition request_setters :: "invoker_context \<Rightarrow> (attributes \<Rightarrow> bool \<times> attributes) list" where
  "request_setters c =
     [SetInt32Value ATTR_MSG_TYPE START_REMOTE_AUTH,
      EncodeAuthParam (vc_authParam c),
      SetUint32Value ATTR_COLLECTOR_TOKEN_ID (iv_collectorTokenId (vc_param c)),
      SetStringValue ATTR_CALLER_NAME (iv_callerName (vc_param c)),
      SetInt32Value ATTR_CALLER_TYPE (iv_callerType (vc_param c)),
      SetStringValue ATTR_COLLECTOR_NETWORK_ID (iv_collectorNetworkId (vc_param c))]"

definition Invoker_SendRequest :: "invoker_env \<Rightarrow> invoker_context \<Rightarrow> bool \<times> invoker_context" where
  "Invoker_SendRequest e c =
     (case GetQueryExecutorInfoReply (ve_getSigned e) (ve_localUdid e) (ve_pool e) [pi_authType (vc_authParam c)]
             COLLECTOR (vc_verifierUdid c) Attributes_new of
        (getExecutorInfoRet, request) \<Rightarrow>
          if getExecutorInfoRet \<noteq> SUCCESS
          then (False, Base_SetLatestError getExecutorInfoRet (c\<lparr>vc_request := Some request\<rparr>))
          else (case set_each (request_setters c) request of
                  (stored, request) \<Rightarrow>
                    let c = c\<lparr>vc_request := Some request\<rparr>
                    in if \<not> stored then (False, c)
                       else (ve_send e = SUCCESS,
                             vc_emit (MessageSent (iv_connectionName (vc_param c)) REMOTE_AUTH_INVOKER_CONTEXT_ENDPOINT_NAME
                               REMOTE_SERVICE_ENDPOINT_NAME request) c)))"

definition SetVerifierContextId :: "u64 \<Rightarrow> invoker_context \<Rightarrow> invoker_context" where
  "SetVerifierContextId contextId c = c\<lparr>vc_verifierContextId := Some contextId\<rparr>"

text \<open>The reply to the request, \<open>None\<close> when there is none.\<close>

definition Invoker_OnReply :: "attributes option \<Rightarrow> invoker_context \<Rightarrow> invoker_context" where
  "Invoker_OnReply reply c =
     (case reply of
        None \<Rightarrow> c
      | Some reply \<Rightarrow>
          (case GetInt32Value ATTR_RESULT_CODE reply of
             None \<Rightarrow> c
           | Some resultCode \<Rightarrow>
               if resultCode \<noteq> SUCCESS
               then tell_result ''RemoteAuthInvokerContext START_REMOTE_AUTH fail'' resultCode Attributes_new c
               else (case GetUint64Value ATTR_CONTEXT_ID reply of
                       None \<Rightarrow> c
                     | Some contextId \<Rightarrow> SetVerifierContextId contextId c)))"

definition Invoker_OnConnectStatus :: "invoker_env \<Rightarrow> bytes \<Rightarrow> bool \<Rightarrow> invoker_context \<Rightarrow> invoker_context" where
  "Invoker_OnConnectStatus e connectionName connected c =
     (if iv_connectionName (vc_param c) \<noteq> connectionName \<or> \<not> bc_callback c then c
      else if \<not> connected
      then tell_result ''RemoteAuthInvokerContext OnConnectStatus disconnected'' REMOTE_DEVICE_CONNECTION_FAIL
             Attributes_new c
      else (case Invoker_SendRequest e c of
              (sent, c) \<Rightarrow>
                if sent then c
                else tell_result (''RemoteAuthInvokerContext OnConnectStatus send message fail '' @ print_i32 (bc_latestError c))
                       (bc_latestError c) Attributes_new c))"

definition Invoker_OnStart :: "invoker_env \<Rightarrow> invoker_context \<Rightarrow> bool \<times> invoker_context" where
  "Invoker_OnStart e c =
     (let name = iv_connectionName (vc_param c);
          verifier = iv_verifierNetworkId (vc_param c);
          c = vc_emit (TimerRegistered (ve_timerId e)) (c\<lparr>vc_cancelTimerId := Some (ve_timerId e)\<rparr>)
      in case ve_udid e verifier of
           None \<Rightarrow> (False, c)
         | Some udid \<Rightarrow>
             let c = c\<lparr>vc_verifierUdid := udid\<rparr>
             in if \<not> bc_callback c then (False, c)
                else
                  let c = vc_emit (TraceConnectionName name)
                        (vc_emit (TraceRemoteUdid udid) (vc_emit (TraceIsRemoteAuth True) c))
                  in case ve_localUdid e of
                       None \<Rightarrow> (False, c)
                     | Some localUdid \<Rightarrow>
                         let c = vc_emit (ListenerRegistered name REMOTE_AUTH_INVOKER_CONTEXT_ENDPOINT_NAME)
                               (vc_emit (TraceLocalUdid localUdid) c)
                         in if ve_register e \<noteq> SUCCESS then (False, c)
                            else
                              let c = vc_emit (ConnectionOpened name verifier (Invoker_GetTokenId c)) c
                              in if ve_open e \<noteq> SUCCESS
                                 then (False, Base_SetLatestError REMOTE_DEVICE_CONNECTION_FAIL c)
                                 else (True, c))"

definition Invoker_OnStop :: "invoker_context \<Rightarrow> bool \<times> invoker_context" where
  "Invoker_OnStop c =
     (if \<not> bc_callback c then (False, c)
      else (True, tell_result ''RemoteAuthInvokerContext OnStop'' CANCELED Attributes_new c))"

definition Invoker_OnTimeOut :: "invoker_context \<Rightarrow> invoker_context" where
  "Invoker_OnTimeOut c =
     (if \<not> bc_callback c then c
      else tell_result ''RemoteAuthInvokerContext OnTimeOut'' TIMEOUT Attributes_new c)"

section \<open>Messages\<close>

definition ProcAuthTipMsg :: "attributes \<Rightarrow> invoker_context \<Rightarrow> i32 \<times> invoker_context" where
  "ProcAuthTipMsg message c =
     (case GetInt32Value ATTR_DEST_ROLE message of
        None \<Rightarrow> (GENERAL_ERROR, c)
      | Some destRole \<Rightarrow>
          (case GetInt32Value ATTR_TIP_INFO message of
             None \<Rightarrow> (GENERAL_ERROR, c)
           | Some tipInfo \<Rightarrow>
               if \<not> bc_callback c then (GENERAL_ERROR, c)
               else (SUCCESS, ctx_emit (AcquireInfo destRole tipInfo (Serialize message)) c)))"

text \<open>The setters for the verdict of the engine, then the code itself; the first that fails ends the function.\<close>

definition verdict_setters :: "eng_auth_result \<Rightarrow> (attributes \<Rightarrow> bool \<times> attributes) list" where
  "verdict_setters info =
     (if er_result info = FAIL \<or> er_result info = LOCKED \<or> er_result info = SUCCESS
      then [SetInt32Value ATTR_LOCKOUT_DURATION (er_lockoutDuration info),
            SetInt32Value ATTR_REMAIN_ATTEMPTS (er_remainAttempts info)] else []) @
     (if er_result info = SUCCESS
      then [SetUint8ArrayValue ATTR_SIGNATURE (er_token info),
            SetBoolValue ATTR_TOKEN_FROM_REMOTE_DEVICE True,
            SetInt32Value ATTR_USER_ID (er_userId info)] else [])"

text \<open>The code of the function, the result code it leaves for its caller, and the attributes it filled.\<close>

definition ProcAuthResultMsgInner ::
  "(bytes \<Rightarrow> bytes \<Rightarrow> i32 \<times> eng_auth_result) \<Rightarrow> bytes \<Rightarrow> attributes \<Rightarrow> attributes \<Rightarrow> i32 \<times> i32 \<times> attributes" where
  "ProcAuthResultMsgInner verify verifierUdid message attr =
     (case GetInt32Value ATTR_RESULT message of
        None \<Rightarrow> (GENERAL_ERROR, GENERAL_ERROR, attr)
      | Some resultCode \<Rightarrow>
          (case GetUint8ArrayValue ATTR_SIGNED_AUTH_RESULT message of
             None \<Rightarrow>
               let resultCode = (if resultCode = SUCCESS then GENERAL_ERROR else resultCode)
               in (case SetInt32Value ATTR_RESULT resultCode attr of
                     (stored, attr) \<Rightarrow> (if stored then SUCCESS else GENERAL_ERROR, resultCode, attr))
           | Some remoteAuthResult \<Rightarrow>
               (case verify verifierUdid remoteAuthResult of
                  (ret, authResultInfo) \<Rightarrow>
                    if ret \<noteq> SUCCESS then (GENERAL_ERROR, resultCode, attr)
                    else (case set_all (verdict_setters authResultInfo @
                                 [SetInt32Value ATTR_RESULT (er_result authResultInfo)]) attr of
                            (stored, attr) \<Rightarrow>
                              (if stored then SUCCESS else GENERAL_ERROR, er_result authResultInfo, attr)))))"

definition ProcAuthResultMsg :: "invoker_env \<Rightarrow> attributes \<Rightarrow> invoker_context \<Rightarrow> i32 \<times> invoker_context" where
  "ProcAuthResultMsg e message c =
     (case ProcAuthResultMsgInner (ve_verify e) (vc_verifierUdid c) message Attributes_new of
        (ret, authResultCode, attr) \<Rightarrow>
          (ret, tell_result ''RemoteAuthInvokerContext ProcAuthResultMsg'' authResultCode attr c))"

text \<open>The context with the reply it filled.\<close>

definition Invoker_OnMessage ::
  "invoker_env \<Rightarrow> attributes \<Rightarrow> attributes \<Rightarrow> invoker_context \<Rightarrow> attributes \<times> invoker_context" where
  "Invoker_OnMessage e request reply c =
     (case GetInt32Value ATTR_MSG_TYPE request of
        None \<Rightarrow> (reply, c)
      | Some msgType \<Rightarrow>
          (case (if msgType = SEND_REMOTE_AUTH_TIP then ProcAuthTipMsg request c
                 else if msgType = SEND_REMOTE_AUTH_RESULT then ProcAuthResultMsg e request c
                 else (GENERAL_ERROR, c)) of
             (resultCode, c) \<Rightarrow>
               if resultCode \<noteq> SUCCESS then (reply, c)
               else (snd (SetInt32Value ATTR_RESULT_CODE SUCCESS reply), c)))"

section \<open>Runs\<close>

text \<open>
  What happens to the context, in any order: the pool starts and stops it, the connection comes up or breaks, messages
  and the reply to its request arrive, its timer fires, and at last it is destroyed.
\<close>

datatype invoker_label =
    InvokerStart invoker_env
  | InvokerStop
  | InvokerConnect invoker_env bytes bool
  | InvokerMessage invoker_env attributes attributes
  | InvokerReply "attributes option"
  | InvokerTimeOut
  | InvokerDestroy

fun invoker_step :: "invoker_label \<Rightarrow> invoker_context \<Rightarrow> invoker_context" where
  "invoker_step (InvokerStart e) c = start_task (Invoker_OnStart e) c"
| "invoker_step InvokerStop c = snd (Base_Stop Invoker_OnStop c)"
| "invoker_step (InvokerConnect e name connected) c = Invoker_OnConnectStatus e name connected c"
| "invoker_step (InvokerMessage e request reply) c = snd (Invoker_OnMessage e request reply c)"
| "invoker_step (InvokerReply reply) c = Invoker_OnReply reply c"
| "invoker_step InvokerTimeOut c = (if vc_cancelTimerId c = None then c else Invoker_OnTimeOut c)"
| "invoker_step InvokerDestroy c = Invoker_Destroy c"

definition invoker_run :: "invoker_label list \<Rightarrow> invoker_context \<Rightarrow> invoker_context" where
  "invoker_run ls c = fold (\<lambda>l c. if vc_destroyed c then c else invoker_step l c) ls c"

end
