(* ===== verification/Remote_Invoker_Properties.thy ===== *)
theory Remote_Invoker_Properties
  imports Remote_Invoker Context_Life
begin

text \<open>
  What the invoker of a remote authentication may tell its caller. A success is told for nothing but a result message
  with a signed result; a token is told only if the device's own engine vouched for it. A signed result that the engine
  refuses is no failure: the code that the message claims in the clear is told.
\<close>

section \<open>What the steps leave alone\<close>

lemma vc_emit_frame [simp]:
  "results (vc_emit x c) = results c" "bc_callback (vc_emit x c) = bc_callback c"
  "bc_latestError (vc_emit x c) = bc_latestError c" "vc_param (vc_emit x c) = vc_param c"
  "vc_authParam (vc_emit x c) = vc_authParam c" "vc_verifierUdid (vc_emit x c) = vc_verifierUdid c"
  "vc_cancelTimerId (vc_emit x c) = vc_cancelTimerId c" "vc_calls (vc_emit x c) = vc_calls c @ [x]"
  "vc_destroyed (vc_emit x c) = vc_destroyed c" "bc_hasStarted (vc_emit x c) = bc_hasStarted c"
  by (simp_all add: vc_emit_def results_def)

lemma vc_updates [simp]:
  "results (c\<lparr>vc_cancelTimerId := t\<rparr>) = results c" "results (c\<lparr>vc_verifierUdid := u\<rparr>) = results c"
  "results (c\<lparr>vc_request := q\<rparr>) = results c" "results (c\<lparr>vc_verifierContextId := i\<rparr>) = results c"
  "results (c\<lparr>vc_destroyed := b\<rparr>) = results c"
  by (simp_all add: results_def)

lemma vc_base_frame [simp]:
  "vc_param (ctx_emit out c) = vc_param c" "vc_verifierUdid (ctx_emit out c) = vc_verifierUdid c"
  "vc_calls (ctx_emit out c) = vc_calls c" "vc_cancelTimerId (ctx_emit out c) = vc_cancelTimerId c"
  "vc_destroyed (ctx_emit out c) = vc_destroyed c" "vc_param (Base_SetLatestError err c) = vc_param c"
  "vc_verifierUdid (Base_SetLatestError err c) = vc_verifierUdid c"
  "vc_calls (Base_SetLatestError err c) = vc_calls c" "vc_destroyed (Base_SetLatestError err c) = vc_destroyed c"
  "vc_cancelTimerId (Base_SetLatestError err c) = vc_cancelTimerId c"
  "bc_hasStarted (ctx_emit out c) = bc_hasStarted c" "bc_hasStarted (Base_SetLatestError err c) = bc_hasStarted c"
  by (simp_all add: ctx_emit_def Base_SetLatestError_def)

lemma vc_start_frame [simp]:
  "vc_param (Base_OnStartFailed err c) = vc_param c" "vc_verifierUdid (Base_OnStartFailed err c) = vc_verifierUdid c"
  "vc_calls (Base_OnStartFailed err c) = vc_calls c" "vc_cancelTimerId (Base_OnStartFailed err c) = vc_cancelTimerId c"
  "vc_destroyed (Base_OnStartFailed err c) = vc_destroyed c" "vc_param (Base_Mark g c) = vc_param c"
  "vc_verifierUdid (Base_Mark g c) = vc_verifierUdid c" "vc_calls (Base_Mark g c) = vc_calls c"
  "vc_cancelTimerId (Base_Mark g c) = vc_cancelTimerId c" "vc_destroyed (Base_Mark g c) = vc_destroyed c"
  "bc_hasStarted (Base_Mark g c) = bc_hasStarted c" "bc_latestError (Base_Mark g c) = bc_latestError c"
  "bc_stopRequested (Base_Mark g c) = bc_stopRequested c" "bc_callback (Base_Mark g c) = bc_callback c"
  by (simp_all add: Base_OnStartFailed_def Base_Mark_def Let_def)  (simp_all add: ctx_emit_def)

lemma SetLatestError_not_success [simp]:
  "bc_latestError c \<noteq> SUCCESS \<Longrightarrow> bc_latestError (Base_SetLatestError err c) \<noteq> SUCCESS"
  by (simp add: Base_SetLatestError_def)

lemma tell_result_frame [simp]:
  "results (tell_result reason code a c) = results c @ (if bc_callback c then [ResultDelivered code a] else [])"
  "bc_latestError (tell_result reason code a c) = bc_latestError c"
  "bc_callback (tell_result reason code a c) = bc_callback c"
  "bc_hasStarted (tell_result reason code a c) = bc_hasStarted c"
  by (simp_all add: tell_result_def) (simp_all add: ctx_emit_def)

lemma tell_result_vc [simp]:
  "vc_param (tell_result reason code a c) = vc_param c" "vc_verifierUdid (tell_result reason code a c) = vc_verifierUdid c"
  "vc_calls (tell_result reason code a c) = vc_calls c" "vc_cancelTimerId (tell_result reason code a c) = vc_cancelTimerId c"
  "vc_destroyed (tell_result reason code a c) = vc_destroyed c"
  by (simp_all add: tell_result_def)

text \<open>A step that tells at most a failure, and knows the other device as before.\<close>

definition tells_failure :: "invoker_context \<Rightarrow> invoker_context \<Rightarrow> bool" where
  "tells_failure c c' \<longleftrightarrow>
     (\<exists>d. results c' = results c @ d \<and> (\<forall>code a. ResultDelivered code a \<in> set d \<longrightarrow> code \<noteq> SUCCESS)) \<and>
     vc_param c' = vc_param c \<and> bc_latestError c' \<noteq> SUCCESS"

lemma SendRequest_quiet:
  assumes "Invoker_SendRequest e c = (r, c')"
  shows "results c' = results c \<and> vc_param c' = vc_param c \<and> vc_verifierUdid c' = vc_verifierUdid c \<and>
    (bc_latestError c \<noteq> SUCCESS \<longrightarrow> bc_latestError c' \<noteq> SUCCESS) \<and> bc_callback c' = bc_callback c"
  using assms by (auto simp: Invoker_SendRequest_def Let_def split: prod.splits if_splits)

lemma OnStart_quiet:
  assumes "Invoker_OnStart e c = (r, c')"
  shows "results c' = results c \<and> vc_param c' = vc_param c \<and>
    (bc_latestError c \<noteq> SUCCESS \<longrightarrow> bc_latestError c' \<noteq> SUCCESS) \<and>
    (vc_verifierUdid c' = vc_verifierUdid c \<or> ve_udid e (iv_verifierNetworkId (vc_param c)) = Some (vc_verifierUdid c'))"
  using assms by (auto simp: Invoker_OnStart_def Let_def split: option.splits if_splits)

section \<open>One result message\<close>

text \<open>What is told for a signed result: the claim in the clear, and what the engine made of the signed result.\<close>

definition told_for :: "i32 option \<Rightarrow> i32 \<times> eng_auth_result \<Rightarrow> i32 \<Rightarrow> attributes \<Rightarrow> bool" where
  "told_for claim verdict code a \<longleftrightarrow>
     (if fst verdict = SUCCESS
      then code = er_result (snd verdict) \<and>
        (\<forall>t. GetUint8ArrayValue ATTR_SIGNATURE a = Some t \<longrightarrow> t = er_token (snd verdict))
      else claim = Some code \<and> a = Attributes_new)"

lemma puts_reads_or:
  assumes "set_all (puts kds) a = (r, b)" "attr_at j None a" "\<And>d. (j, d) \<in> set kds \<Longrightarrow> d = d0"
  shows "attr_at j None b \<or> attr_at j d0 b"
proof -
  have "attr_at j None b \<or> attr_at j d0 b" if "attr_at j None a \<or> attr_at j d0 a" "set_all (puts kds) a = (r, b)" for a
    using that assms(3)
  proof (induction kds arbitrary: a)
    case (Cons kd kds)
    obtain k d where kd: "kd = (k, d)" by fastforce
    obtain r1 a1 where a1: "with_impl (store_value d k) a = (r1, a1)" by fastforce
    have "attr_at j None a1 \<or> attr_at j d0 a1"
    proof (cases "k = j")
      case True
      then have d: "d = d0" using Cons(4) [of d] kd by simp
      show ?thesis
      proof (cases r1)
        case True
        then show ?thesis using attr_at_put [of d k a a1] a1 d \<open>k = j\<close> by simp
      next
        case False
        then have "a1 = a" using a1 by (auto simp: with_impl_def store_value_def split: option.splits if_splits)
        then show ?thesis using Cons(2) by simp
      qed
    next
      case False
      then show ?thesis using Cons(2) attr_at_put_other [OF _ _ a1] by auto
    qed
    then show ?case using Cons.IH [of a1] Cons(3,4) kd a1 by (auto split: if_splits)
  qed simp
  then show ?thesis using assms by blast
qed

definition verdict_puts :: "eng_auth_result \<Rightarrow> (u32 \<times> bytes option) list" where
  "verdict_puts info =
     (if er_result info = FAIL \<or> er_result info = LOCKED \<or> er_result info = SUCCESS
      then [(ATTR_LOCKOUT_DURATION, EncodeInt32Value (er_lockoutDuration info)),
            (ATTR_REMAIN_ATTEMPTS, EncodeInt32Value (er_remainAttempts info))] else []) @
     (if er_result info = SUCCESS
      then [(ATTR_SIGNATURE, EncodeUint8ArrayValue (er_token info)),
            (ATTR_TOKEN_FROM_REMOTE_DEVICE, EncodeBoolValue True),
            (ATTR_USER_ID, EncodeInt32Value (er_userId info))] else [])"

lemma verdict_as_puts: "verdict_setters info @ [SetInt32Value ATTR_RESULT r] = puts (verdict_puts info @ [(ATTR_RESULT, EncodeInt32Value r)])"
proof -
  have "SetBoolValue k b = with_impl (store_value (EncodeBoolValue b) k)" for k b
    by (rule ext) (simp add: facade_store SetBoolValue_def with_impl_def Impl_SetBoolValue_def split: option.split)
  then show ?thesis by (simp add: verdict_setters_def verdict_puts_def setters_as_puts)
qed

lemma verdict_token:
  assumes "set_all (verdict_setters info @ [SetInt32Value ATTR_RESULT r]) Attributes_new = (s, b)"
    and "GetUint8ArrayValue ATTR_SIGNATURE b = Some t"
  shows "er_result info = SUCCESS \<and> t = er_token info"
proof -
  let ?d = "if er_result info = SUCCESS then EncodeUint8ArrayValue (er_token info) else None"
  have "attr_at ATTR_SIGNATURE None b \<or> attr_at ATTR_SIGNATURE ?d b"
    by (rule puts_reads_or [OF assms(1) [unfolded verdict_as_puts]]) (auto simp: verdict_puts_def split: if_splits)
  then show ?thesis using assms(2) attr_get_Uint8Array [of ATTR_SIGNATURE _ b]
    by (auto simp: EncodeUint8ArrayValue_def split: if_splits)
qed

text \<open>The whole of what one message leads to.\<close>

lemma ProcAuthResultMsgInner_cases:
  assumes "ProcAuthResultMsgInner verify udid message Attributes_new = (ret, code, a)"
  shows "case GetInt32Value ATTR_RESULT message of
      None \<Rightarrow> code = GENERAL_ERROR
    | Some claim \<Rightarrow>
        (case GetUint8ArrayValue ATTR_SIGNED_AUTH_RESULT message of
           None \<Rightarrow> code = (if claim = SUCCESS then GENERAL_ERROR else claim)
         | Some b \<Rightarrow> told_for (Some claim) (verify udid b) code a)"
  using assms
  by (auto simp: ProcAuthResultMsgInner_def told_for_def Let_def dest: verdict_token
      split: option.splits prod.splits if_splits)

section \<open>Runs\<close>

text \<open>The message and the engine's verdict behind a success.\<close>

definition success_from :: "(bytes \<Rightarrow> bool) \<Rightarrow> invoker_label \<Rightarrow> attributes \<Rightarrow> bool" where
  "success_from known l a \<longleftrightarrow>
     (\<exists>e request reply udid b.
        l = InvokerMessage e request reply \<and> GetInt32Value ATTR_MSG_TYPE request = Some SEND_REMOTE_AUTH_RESULT \<and>
        GetUint8ArrayValue ATTR_SIGNED_AUTH_RESULT request = Some b \<and> known udid \<and>
        told_for (GetInt32Value ATTR_RESULT request) (ve_verify e udid b) SUCCESS a)"

lemma OnMessage_success:
  assumes "Invoker_OnMessage e request reply c = (reply', c')"
  shows "vc_param c' = vc_param c \<and> vc_verifierUdid c' = vc_verifierUdid c \<and> bc_latestError c' = bc_latestError c \<and>
    (\<exists>d. results c' = results c @ d \<and> length d \<le> 1 \<and>
      (\<forall>a. ResultDelivered SUCCESS a \<in> set d \<longrightarrow>
         success_from (\<lambda>u. u = vc_verifierUdid c) (InvokerMessage e request reply) a))"
proof (cases "GetInt32Value ATTR_MSG_TYPE request")
  case (Some t)
  consider (tip) "t = SEND_REMOTE_AUTH_TIP" | (res) "t = SEND_REMOTE_AUTH_RESULT"
    | (other) "t \<noteq> SEND_REMOTE_AUTH_TIP" "t \<noteq> SEND_REMOTE_AUTH_RESULT" by blast
  then show ?thesis
  proof cases
    case res
    obtain ret code a where i: "ProcAuthResultMsgInner (ve_verify e) (vc_verifierUdid c) request Attributes_new = (ret, code, a)"
      by (metis prod_cases3)
    have c': "c' = tell_result ''RemoteAuthInvokerContext ProcAuthResultMsg'' code a c"
      using assms by (simp add: Invoker_OnMessage_def Some res ProcAuthResultMsg_def i split: if_splits)
    have "success_from (\<lambda>u. u = vc_verifierUdid c) (InvokerMessage e request reply) a" if "code = SUCCESS"
      using ProcAuthResultMsgInner_cases [OF i] that Some res
      by (auto simp: success_from_def split: option.splits if_splits)
    then show ?thesis unfolding c' by (auto intro!: exI [of _ "if bc_callback c then [ResultDelivered code a] else []"])
  qed (use assms in \<open>auto simp: Invoker_OnMessage_def Some ProcAuthTipMsg_def split: option.splits if_splits\<close>)
qed (use assms in \<open>simp add: Invoker_OnMessage_def\<close>)

text \<open>The steps that are no message tell failures only.\<close>

lemma Reply_fails: "bc_latestError c \<noteq> SUCCESS \<Longrightarrow> tells_failure c (Invoker_OnReply reply c)"
  by (auto simp: tells_failure_def Invoker_OnReply_def SetVerifierContextId_def split: option.splits)

lemma Connect_fails:
  assumes "bc_latestError c \<noteq> SUCCESS"
  shows "tells_failure c (Invoker_OnConnectStatus e name connected c)"
proof -
  obtain r c1 where r: "Invoker_SendRequest e c = (r, c1)" by fastforce
  show ?thesis using assms SendRequest_quiet [OF r] by (auto simp: tells_failure_def Invoker_OnConnectStatus_def r)
qed

lemma Start_fails:
  assumes "bc_latestError c \<noteq> SUCCESS"
  shows "tells_failure c (start_task (Invoker_OnStart e) c)" (is ?A)
    and "vc_verifierUdid (start_task (Invoker_OnStart e) c) = vc_verifierUdid c \<or>
      ve_udid e (iv_verifierNetworkId (vc_param c)) = Some (vc_verifierUdid (start_task (Invoker_OnStart e) c))" (is ?B)
proof -
  let ?s = "(Base_Mark S_CONTEXT_START c)\<lparr>bc_hasStarted := True\<rparr>"
  obtain r c1 where r: "Invoker_OnStart e ?s = (r, c1)" by fastforce
  have s: "bc_latestError ?s \<noteq> SUCCESS" "results ?s = results c" "vc_param ?s = vc_param c"
    "vc_verifierUdid ?s = vc_verifierUdid c" using assms by simp_all
  show ?A ?B
    using s OnStart_quiet [OF r] assms
    by (auto simp: tells_failure_def start_task_def Base_Start_def r start_failed)
qed

lemma Stop_fails:
  assumes "bc_latestError c \<noteq> SUCCESS"
  shows "tells_failure c (snd (Base_Stop Invoker_OnStop c))"
  using assms by (auto simp: tells_failure_def Base_Stop_def Let_def start_failed Invoker_OnStop_def)

lemma TimeOut_fails: "bc_latestError c \<noteq> SUCCESS \<Longrightarrow> tells_failure c (Invoker_OnTimeOut c)"
  by (auto simp: tells_failure_def Invoker_OnTimeOut_def)

lemma Destroy_fails: "bc_latestError c \<noteq> SUCCESS \<Longrightarrow> tells_failure c (Invoker_Destroy c)"
  by (auto simp: tells_failure_def Invoker_Destroy_def Let_def split: option.splits)

lemma not_start_udid:
  "vc_verifierUdid (Invoker_OnReply reply c) = vc_verifierUdid c"
  "vc_verifierUdid (Invoker_OnConnectStatus e name connected c) = vc_verifierUdid c"
  "vc_verifierUdid (snd (Base_Stop Invoker_OnStop c)) = vc_verifierUdid c"
  "vc_verifierUdid (Invoker_OnTimeOut c) = vc_verifierUdid c"
  "vc_verifierUdid (Invoker_Destroy c) = vc_verifierUdid c"
proof -
  obtain r c1 where r: "Invoker_SendRequest e c = (r, c1)" by fastforce
  show "vc_verifierUdid (Invoker_OnConnectStatus e name connected c) = vc_verifierUdid c"
    using SendRequest_quiet [OF r] by (simp add: Invoker_OnConnectStatus_def r)
qed (simp_all add: Invoker_OnReply_def SetVerifierContextId_def Base_Stop_def Let_def Invoker_OnStop_def
    Invoker_OnTimeOut_def Invoker_Destroy_def split: option.split)

text \<open>What a run from a new context has told, and which device it knows.\<close>

definition udid_known :: "bytes \<Rightarrow> invoker_label list \<Rightarrow> bytes \<Rightarrow> bool" where
  "udid_known verifier ls udid \<longleftrightarrow> udid = [] \<or> (\<exists>e. InvokerStart e \<in> set ls \<and> ve_udid e verifier = Some udid)"

definition invoker_told :: "bytes \<Rightarrow> invoker_label list \<Rightarrow> invoker_context \<Rightarrow> bool" where
  "invoker_told verifier ls c \<longleftrightarrow>
     iv_verifierNetworkId (vc_param c) = verifier \<and> bc_latestError c \<noteq> SUCCESS \<and>
     udid_known verifier ls (vc_verifierUdid c) \<and>
     (\<forall>a. ResultDelivered SUCCESS a \<in> set (results c) \<longrightarrow>
        (\<exists>l \<in> set ls. success_from (udid_known verifier ls) l a))"

lemma success_from_mono: "success_from p l a \<Longrightarrow> (\<And>u. p u \<Longrightarrow> q u) \<Longrightarrow> success_from q l a"
  unfolding success_from_def by blast

lemma told_failure_step:
  assumes "invoker_told v ls c" "tells_failure c c'"
    and "vc_verifierUdid c' = vc_verifierUdid c \<or> (\<exists>e. l = InvokerStart e \<and> ve_udid e v = Some (vc_verifierUdid c'))"
  shows "invoker_told v (ls @ [l]) c'"
proof -
  have mono: "udid_known v ls u \<Longrightarrow> udid_known v (ls @ [l]) u" for u by (auto simp: udid_known_def)
  obtain d where d: "results c' = results c @ d" "\<forall>code a. ResultDelivered code a \<in> set d \<longrightarrow> code \<noteq> SUCCESS"
    using assms(2) by (auto simp: tells_failure_def)
  have "\<exists>l' \<in> set (ls @ [l]). success_from (udid_known v (ls @ [l])) l' a" if "ResultDelivered SUCCESS a \<in> set (results c')" for a
    using assms(1) d that success_from_mono [OF _ mono] by (fastforce simp: invoker_told_def)
  moreover have "udid_known v (ls @ [l]) (vc_verifierUdid c')"
    using assms(1,3) mono by (auto simp: invoker_told_def) (auto simp: udid_known_def)
  ultimately show ?thesis using assms(1,2) by (auto simp: invoker_told_def tells_failure_def)
qed

lemma told_step:
  assumes "invoker_told v ls c"
  shows "invoker_told v (ls @ [l]) (invoker_step l c)"
proof (cases l)
  case (InvokerMessage e request reply)
  obtain reply' c' where c': "Invoker_OnMessage e request reply c = (reply', c')" by fastforce
  have mono: "udid_known v ls u \<Longrightarrow> udid_known v (ls @ [l]) u" for u by (auto simp: udid_known_def)
  obtain d where d: "results c' = results c @ d"
    "\<forall>a. ResultDelivered SUCCESS a \<in> set d \<longrightarrow> success_from (\<lambda>u. u = vc_verifierUdid c) l a"
    using OnMessage_success [OF c'] InvokerMessage by auto
  have "\<exists>l' \<in> set (ls @ [l]). success_from (udid_known v (ls @ [l])) l' a" if "ResultDelivered SUCCESS a \<in> set (results c')" for a
  proof (cases "ResultDelivered SUCCESS a \<in> set d")
    case True
    then have "success_from (udid_known v (ls @ [l])) l a"
      using d(2) assms mono by (auto simp: invoker_told_def intro: success_from_mono [of "\<lambda>u. u = vc_verifierUdid c"])
    then show ?thesis by auto
  next
    case False
    then show ?thesis using that d(1) assms success_from_mono [OF _ mono] by (fastforce simp: invoker_told_def)
  qed
  then show ?thesis
    using OnMessage_success [OF c'] assms mono InvokerMessage by (simp add: c' invoker_told_def)
next
  case (InvokerStart e)
  then show ?thesis
    using told_failure_step [OF assms Start_fails(1) [of c e], of l] Start_fails(2) [of c e] assms
    by (auto simp: invoker_told_def)
next
  case InvokerStop
  show ?thesis unfolding InvokerStop invoker_step.simps
    by (rule told_failure_step [OF assms Stop_fails]) (use assms in \<open>simp_all add: invoker_told_def not_start_udid\<close>)
next
  case (InvokerConnect e name connected)
  show ?thesis unfolding InvokerConnect invoker_step.simps
    by (rule told_failure_step [OF assms Connect_fails]) (use assms in \<open>simp_all add: invoker_told_def not_start_udid\<close>)
next
  case (InvokerReply reply)
  show ?thesis unfolding InvokerReply invoker_step.simps
    by (rule told_failure_step [OF assms Reply_fails]) (use assms in \<open>simp_all add: invoker_told_def not_start_udid\<close>)
next
  case InvokerTimeOut
  have "tells_failure c c" using assms by (auto simp: invoker_told_def tells_failure_def)
  then show ?thesis
    using told_failure_step [OF assms, of c] told_failure_step [OF assms TimeOut_fails, of InvokerTimeOut] assms
    by (simp add: InvokerTimeOut invoker_told_def not_start_udid)
next
  case InvokerDestroy
  show ?thesis unfolding InvokerDestroy invoker_step.simps
    by (rule told_failure_step [OF assms Destroy_fails]) (use assms in \<open>simp_all add: invoker_told_def not_start_udid\<close>)
qed

lemma run_told:
  "invoker_told (iv_verifierNetworkId param) ls (invoker_run ls (RemoteAuthInvokerContext i authParam param cb))"
proof (induction ls rule: rev_induct)
  case Nil
  show ?case by (simp add: invoker_run_def RemoteAuthInvokerContext_def BaseContext_def base_context.defs invoker_context.defs
      invoker_told_def udid_known_def results_def)
next
  case (snoc l ls)
  let ?c = "invoker_run ls (RemoteAuthInvokerContext i authParam param cb)"
  have "invoker_told (iv_verifierNetworkId param) (ls @ [l]) ?c"
    by (rule told_failure_step [OF snoc]) (use snoc in \<open>auto simp: tells_failure_def invoker_told_def\<close>)
  then show ?case using told_step [OF snoc, of l] by (simp add: invoker_run_def)
qed

text \<open>
  Property C8: an invoker tells a success only for a result message that carries a signed result, under the identity of
  the device it was created for. If the engine of the device accepted the signed result, then as a success, and a token
  that is told is the one the engine read. If it refused the signed result, the message itself claimed the success and
  no attributes are told.
\<close>

theorem invoker_success_signed:
  assumes "ResultDelivered SUCCESS a \<in> set (bc_outputs (invoker_run ls (RemoteAuthInvokerContext i authParam param cb)))"
  shows "\<exists>e request reply udid b.
    InvokerMessage e request reply \<in> set ls \<and> GetInt32Value ATTR_MSG_TYPE request = Some SEND_REMOTE_AUTH_RESULT \<and>
    GetUint8ArrayValue ATTR_SIGNED_AUTH_RESULT request = Some b \<and>
    (udid = [] \<or> (\<exists>e0. InvokerStart e0 \<in> set ls \<and> ve_udid e0 (iv_verifierNetworkId param) = Some udid)) \<and>
    (case ve_verify e udid b of
       (ret, info) \<Rightarrow>
         if ret = SUCCESS
         then er_result info = SUCCESS \<and> (\<forall>t. GetUint8ArrayValue ATTR_SIGNATURE a = Some t \<longrightarrow> t = er_token info)
         else GetInt32Value ATTR_RESULT request = Some SUCCESS \<and> a = Attributes_new)"
proof -
  have "ResultDelivered SUCCESS a \<in> set (results (invoker_run ls (RemoteAuthInvokerContext i authParam param cb)))"
    using assms by (simp add: results_def)
  then obtain l where "l \<in> set ls" "success_from (udid_known (iv_verifierNetworkId param) ls) l a"
    using run_told [of param ls i authParam cb] unfolding invoker_told_def by blast
  then obtain e request reply udid b where m: "InvokerMessage e request reply \<in> set ls"
      "GetInt32Value ATTR_MSG_TYPE request = Some SEND_REMOTE_AUTH_RESULT"
      "GetUint8ArrayValue ATTR_SIGNED_AUTH_RESULT request = Some b"
    and u: "udid_known (iv_verifierNetworkId param) ls udid"
    and t: "told_for (GetInt32Value ATTR_RESULT request) (ve_verify e udid b) SUCCESS a"
    unfolding success_from_def by blast
  have v: "case ve_verify e udid b of (ret, info) \<Rightarrow>
      if ret = SUCCESS
      then er_result info = SUCCESS \<and> (\<forall>t. GetUint8ArrayValue ATTR_SIGNATURE a = Some t \<longrightarrow> t = er_token info)
      else GetInt32Value ATTR_RESULT request = Some SUCCESS \<and> a = Attributes_new"
    using t by (cases "ve_verify e udid b") (simp add: told_for_def split: if_splits)
  show ?thesis
    by (intro exI [of _ e] exI [of _ request] exI [of _ reply] exI [of _ udid] exI [of _ b] conjI)
      (rule m u [unfolded udid_known_def] v)+
qed

text \<open>
  Property C9: a signed result that the engine refuses counts for nothing: whenever the message claims a success in the
  clear, the caller is told a success, whatever the signed result is, although the message is answered as an error.
\<close>

theorem refused_result_told_as_success:
  assumes "GetInt32Value ATTR_RESULT message = Some SUCCESS"
    and "GetUint8ArrayValue ATTR_SIGNED_AUTH_RESULT message = Some b"
    and "fst (ve_verify e (vc_verifierUdid c) b) \<noteq> SUCCESS" and "bc_callback c"
  shows "\<exists>c'. ProcAuthResultMsg e message c = (GENERAL_ERROR, c') \<and>
    filter is_result (bc_outputs c') = filter is_result (bc_outputs c) @ [ResultDelivered SUCCESS Attributes_new]"
  using assms by (auto simp: ProcAuthResultMsg_def ProcAuthResultMsgInner_def tell_result_def ctx_emit_def split: prod.splits)

end
