(* ===== verification/Soft_Bus_Message.thy ===== *)
theory Soft_Bus_Message
  imports Remote_Message
begin

text \<open>
  The frame of a message between devices, \<^verbatim>\<open>services/remote_connect/default/src/soft_bus_message.cpp\<close>: the sender adds
  to the attributes of the caller a sequence number, whether it is an answer, the end points, the connection's name,
  the version and its own udid; the receiver reads them back. The receiver takes the udid as the sender wrote it.
\<close>

abbreviation (input) DEFAULT_MESSAGE_VERSION :: u32 where "DEFAULT_MESSAGE_VERSION \<equiv> 0"

record soft_bus_message =
  bm_messageSeq :: u32
  bm_messageVersion :: u32
  bm_connectionName :: bytes
  bm_srcEndPoint :: bytes
  bm_destEndPoint :: bytes
  bm_attributes :: "attributes option"
  bm_isAck :: bool

definition SoftBusMessage :: "u32 \<Rightarrow> bytes \<Rightarrow> bytes \<Rightarrow> bytes \<Rightarrow> attributes option \<Rightarrow> soft_bus_message" where
  "SoftBusMessage messageSeq connectionName srcEndPoint destEndPoint attributes =
     \<lparr>bm_messageSeq = messageSeq, bm_messageVersion = 0, bm_connectionName = connectionName,
      bm_srcEndPoint = srcEndPoint, bm_destEndPoint = destEndPoint, bm_attributes = attributes, bm_isAck = False\<rparr>"

text \<open>The udid of the device is \<open>None\<close> when it cannot be found.\<close>

definition CreateMessage :: "bytes option \<Rightarrow> bool \<Rightarrow> soft_bus_message \<Rightarrow> attributes option" where
  "CreateMessage localUdid isAck m =
     (case bm_attributes m of
        None \<Rightarrow> None
      | Some given \<Rightarrow>
          (case set_all
                  [SetInt32Value ATTR_MSG_SEQ_NUM (bm_messageSeq m),
                   SetBoolValue ATTR_MSG_ACK isAck,
                   SetStringValue ATTR_MSG_SRC_END_POINT (bm_srcEndPoint m),
                   SetStringValue ATTR_MSG_DEST_END_POINT (bm_destEndPoint m),
                   SetStringValue ATTR_CONNECTION_NAME (bm_connectionName m),
                   SetUint32Value ATTR_MSG_VERSION DEFAULT_MESSAGE_VERSION] (Attributes_of_raw (Serialize given)) of
             (stored, attributes) \<Rightarrow>
               if \<not> stored then None
               else (case localUdid of
                       None \<Rightarrow> None
                     | Some udid \<Rightarrow>
                         (case SetStringValue ATTR_MSG_SRC_UDID udid attributes of
                            (stored, attributes) \<Rightarrow> if stored then Some attributes else None))))"

text \<open>A message that cannot be read is dropped with what was read of it.\<close>

definition SoftBus_ParseMessage :: "bytes \<Rightarrow> soft_bus_message option" where
  "SoftBus_ParseMessage message =
     (if message = [] then None
      else
        let attributes = Attributes_of_raw message
        in case GetUint32Value ATTR_MSG_SEQ_NUM attributes of None \<Rightarrow> None | Some messageSeq \<Rightarrow>
           case GetBoolValue ATTR_MSG_ACK attributes of None \<Rightarrow> None | Some isAck \<Rightarrow>
           case GetStringValue ATTR_MSG_SRC_END_POINT attributes of None \<Rightarrow> None | Some srcEndPoint \<Rightarrow>
           case GetStringValue ATTR_MSG_DEST_END_POINT attributes of None \<Rightarrow> None | Some destEndPoint \<Rightarrow>
           case GetStringValue ATTR_CONNECTION_NAME attributes of None \<Rightarrow> None | Some connectionName \<Rightarrow>
           case GetUint32Value ATTR_MSG_VERSION attributes of None \<Rightarrow> None | Some messageVersion \<Rightarrow>
             Some \<lparr>bm_messageSeq = messageSeq, bm_messageVersion = messageVersion, bm_connectionName = connectionName,
                   bm_srcEndPoint = srcEndPoint, bm_destEndPoint = destEndPoint, bm_attributes = Some attributes,
                   bm_isAck = isAck\<rparr>)"

section \<open>What was framed is read back\<close>

definition frame_keys :: "bytes \<Rightarrow> bool \<Rightarrow> soft_bus_message \<Rightarrow> (u32 \<times> bytes option) list" where
  "frame_keys udid isAck m =
     [(ATTR_MSG_SEQ_NUM, EncodeInt32Value (bm_messageSeq m)), (ATTR_MSG_ACK, EncodeBoolValue isAck),
      (ATTR_MSG_SRC_END_POINT, EncodeStringValue (bm_srcEndPoint m)),
      (ATTR_MSG_DEST_END_POINT, EncodeStringValue (bm_destEndPoint m)),
      (ATTR_CONNECTION_NAME, EncodeStringValue (bm_connectionName m)),
      (ATTR_MSG_VERSION, EncodeUint32Value DEFAULT_MESSAGE_VERSION),
      (ATTR_MSG_SRC_UDID, EncodeStringValue udid)]"

lemma bool_setter: "SetBoolValue k b = with_impl (store_value (EncodeBoolValue b) k)"
  by (rule ext) (simp add: facade_store SetBoolValue_def with_impl_def Impl_SetBoolValue_def split: option.split)

lemma CreateMessage_puts:
  "CreateMessage (Some udid) isAck m = Some a \<longleftrightarrow>
     (\<exists>given. bm_attributes m = Some given \<and>
        set_all (puts (frame_keys udid isAck m)) (Attributes_of_raw (Serialize given)) = (True, a))"
  by (simp add: CreateMessage_def frame_keys_def setters_as_puts bool_setter del: set_all.simps
      flip: append_Cons [of _ "[]"] split: option.split)
    (auto simp: setters_as_puts split: prod.splits if_splits)

lemma attr_get_Bool: "attr_at k (EncodeBoolValue b) a \<Longrightarrow> GetBoolValue k a = Some b"
  by (cases b) (auto simp: attr_at_def GetBoolValue_def Impl_GetBoolValue_def load_value_def EncodeBoolValue_def
      DecodeBoolValue_def)

lemma frame_fits:
  assumes "(k, Some v) \<in> set (frame_keys udid isAck m)" "length (bm_srcEndPoint m) < MAX_ATTR_LENGTH"
    and "length (bm_destEndPoint m) < MAX_ATTR_LENGTH" "length (bm_connectionName m) < MAX_ATTR_LENGTH"
    and "length udid < MAX_ATTR_LENGTH"
  shows "length v \<le> MAX_ATTR_LENGTH"
proof -
  have "length v = 4 \<or> length v = 1 \<or> length v \<le> MAX_ATTR_LENGTH"
    using assms by (auto simp: frame_keys_def EncodeInt32Value_def EncodeUint32Value_def EncodeBoolValue_def
        dest!: encoded_short(4) [OF sym])
  then show ?thesis by (auto simp: MAX_ATTR_LENGTH_def)
qed

lemma framed_built:
  assumes "CreateMessage (Some udid) isAck m = Some a" "bm_attributes m = Some (Some s)" "attr_wf s"
  shows "set_all (puts (frame_keys udid isAck m)) (Some s) = (True, a)"
  using assms(1,2) wf_survives [OF assms(3)] by (auto simp: CreateMessage_puts)

lemma framed_wf:
  assumes "CreateMessage (Some udid) isAck m = Some a"
    and "bm_attributes m = Some (Some s)" "attr_wf s" "length (amap s) + 7 \<le> MAX_ATTR_COUNT"
    and "length (bm_srcEndPoint m) < MAX_ATTR_LENGTH" "length (bm_destEndPoint m) < MAX_ATTR_LENGTH"
    and "length (bm_connectionName m) < MAX_ATTR_LENGTH" "length udid < MAX_ATTR_LENGTH"
  shows "\<exists>t. a = Some t \<and> attr_wf t \<and> length (amap t) \<le> length (amap s) + 7"
proof -
  have "\<exists>t. a = Some t \<and> attr_wf t \<and> length (amap t) \<le> length (amap s) + length (frame_keys udid isAck m)"
    by (rule puts_wf [OF framed_built [OF assms(1-3)] assms(3)], use assms(4) in \<open>simp add: frame_keys_def\<close>)
      (rule frame_fits [OF _ assms(5-8)])
  moreover have "length (frame_keys udid isAck m) = 7" by (simp add: frame_keys_def)
  ultimately show ?thesis by metis
qed

lemma framed_rest:
  assumes "CreateMessage (Some udid) isAck m = Some a" "bm_attributes m = Some (Some s)" "attr_wf s"
    and "k \<notin> fst ` set (frame_keys udid isAck m)"
  shows "attr_at k (map_of (amap s) k) a"
  using puts_leave [OF framed_built [OF assms(1-3)] _ assms(4), of "map_of (amap s) k"] by (simp add: attr_at_def)

lemma framed_read:
  assumes "CreateMessage (Some udid) isAck m = Some a"
    and "bm_attributes m = Some (Some s)" "attr_wf s" "length (amap s) + 7 \<le> MAX_ATTR_COUNT"
    and "length (bm_srcEndPoint m) < MAX_ATTR_LENGTH" "length (bm_destEndPoint m) < MAX_ATTR_LENGTH"
    and "length (bm_connectionName m) < MAX_ATTR_LENGTH" "length udid < MAX_ATTR_LENGTH"
  shows "SoftBus_ParseMessage (Serialize a) =
      Some (m\<lparr>bm_messageVersion := 0, bm_isAck := isAck, bm_attributes := Some a\<rparr>)"
    and "GetStringValue ATTR_MSG_SRC_UDID a = Some udid"
proof -
  note built = framed_built [OF assms(1-3)]
  have d: "distinct (map fst (frame_keys udid isAck m))" by (simp add: frame_keys_def)
  have at: "attr_at k v a \<and> v \<noteq> None" if "(k, v) \<in> set (frame_keys udid isAck m)" for k v
    using puts_read [OF built d that] .
  have raw: "Attributes_of_raw (Serialize a) = a" using framed_wf [OF assms] wf_survives by auto
  have str: "GetStringValue k a = Some x" if "(k, EncodeStringValue x) \<in> set (frame_keys udid isAck m)" for k x
    using encoded_reads(4) [of k x a] at [OF that] by simp
  have num: "GetUint32Value k a = Some n" if "(k, EncodeUint32Value n) \<in> set (frame_keys udid isAck m)" for k n
    using encoded_reads(2) [of k n a] at [OF that] by simp
  have "EncodeInt32Value i = EncodeUint32Value i" for i
    by (simp add: EncodeInt32Value_def EncodeUint32Value_def)
  then have reads: "GetUint32Value ATTR_MSG_SEQ_NUM a = Some (bm_messageSeq m)" "GetBoolValue ATTR_MSG_ACK a = Some isAck"
    "GetStringValue ATTR_MSG_SRC_END_POINT a = Some (bm_srcEndPoint m)"
    "GetStringValue ATTR_MSG_DEST_END_POINT a = Some (bm_destEndPoint m)"
    "GetStringValue ATTR_CONNECTION_NAME a = Some (bm_connectionName m)"
    "GetUint32Value ATTR_MSG_VERSION a = Some DEFAULT_MESSAGE_VERSION" "GetStringValue ATTR_MSG_SRC_UDID a = Some udid"
    using at [of ATTR_MSG_ACK "EncodeBoolValue isAck"]
    by (auto intro: str num attr_get_Bool simp: frame_keys_def)
  have empty: "Attributes_of_raw [] = Some Impl_empty"
    using Impl_of_raw_serialize [OF attr_wf_empty] by (simp add: Attributes_of_raw_def Impl_Serialize_def Impl_empty_def)
  have "GetUint32Value ATTR_MSG_SEQ_NUM (Some Impl_empty) = None"
    by (simp add: GetUint32Value_def Impl_GetUint32Value_def load_value_def Impl_empty_def)
  then have "Serialize a \<noteq> []" using raw reads(1) empty by auto
  then show "SoftBus_ParseMessage (Serialize a) =
      Some (m\<lparr>bm_messageVersion := 0, bm_isAck := isAck, bm_attributes := Some a\<rparr>)"
    by (simp add: SoftBus_ParseMessage_def raw reads)
  show "GetStringValue ATTR_MSG_SRC_UDID a = Some udid" by (rule reads(7))
qed

text \<open>
  Also shown: what one device frames the other reads: the sequence number, the kind, both end points and the name of the
  connection come back as they were given, the udid is the one the sender put there, and every other attribute of the
  caller arrives unchanged.
\<close>

theorem message_roundtrip:
  assumes "CreateMessage (Some udid) isAck m = Some a"
    and "bm_attributes m = Some (Some s)" "attr_wf s" "length (amap s) + 7 \<le> MAX_ATTR_COUNT"
    and "length (bm_srcEndPoint m) < MAX_ATTR_LENGTH" "length (bm_destEndPoint m) < MAX_ATTR_LENGTH"
    and "length (bm_connectionName m) < MAX_ATTR_LENGTH" "length udid < MAX_ATTR_LENGTH"
  shows "SoftBus_ParseMessage (Serialize a) =
      Some (m\<lparr>bm_messageVersion := 0, bm_isAck := isAck, bm_attributes := Some a\<rparr>) \<and>
    GetStringValue ATTR_MSG_SRC_UDID a = Some udid \<and>
    (\<forall>k v. k \<notin> {ATTR_MSG_SEQ_NUM, ATTR_MSG_ACK, ATTR_MSG_SRC_END_POINT, ATTR_MSG_DEST_END_POINT, ATTR_CONNECTION_NAME,
         ATTR_MSG_VERSION, ATTR_MSG_SRC_UDID} \<and> map_of (amap s) k = v \<longrightarrow> (\<exists>t. a = Some t \<and> map_of (amap t) k = v))"
proof -
  have "\<exists>t. a = Some t \<and> map_of (amap t) k = v" if "k \<notin> fst ` set (frame_keys udid isAck m)" "map_of (amap s) k = v" for k v
    using framed_rest [OF assms(1-3) that(1)] that(2) by (simp add: attr_at_def)
  then show ?thesis using framed_read [OF assms] by (simp add: frame_keys_def)
qed

end
