(* ===== verification/Remote_Witness.thy ===== *)
theory Remote_Witness
  imports Remote_Invoker_Properties Soft_Bus_Message
begin

text \<open>
  The properties of the messages between devices and of the invoker at concrete inputs: a device sends the result of an
  authentication, and the other accepts or refuses the signed part of it.
\<close>

section \<open>A framed message\<close>

definition w_message :: soft_bus_message where
  "w_message = SoftBusMessage 7 [110] REMOTE_CALLBACK_ENDPOINT_NAME REMOTE_AUTH_INVOKER_CONTEXT_ENDPOINT_NAME (Some (Some Impl_empty))"

lemma w_framed: "\<exists>a. CreateMessage (Some [117]) False w_message = Some a"
proof -
  have "Attributes_of_raw (Serialize (Some Impl_empty)) = Some Impl_empty" by (rule wf_survives) simp
  then show ?thesis
    by (simp add: CreateMessage_puts frame_keys_def w_message_def SoftBusMessage_def with_impl_def store_value_def
        EncodeInt32Value_def EncodeUint32Value_def EncodeBoolValue_def EncodeStringValue_def Impl_empty_def
        MAX_ATTR_COUNT_def MAX_ATTR_LENGTH_def REMOTE_CALLBACK_ENDPOINT_NAME_def
        REMOTE_AUTH_INVOKER_CONTEXT_ENDPOINT_NAME_def)
qed

lemma message_roundtrip_witness:
  "\<exists>a. CreateMessage (Some [117]) False w_message = Some a \<and>
     SoftBus_ParseMessage (Serialize a) = Some (w_message\<lparr>bm_attributes := Some a\<rparr>) \<and>
     GetStringValue ATTR_MSG_SRC_UDID a = Some [117]"
proof -
  obtain a where a: "CreateMessage (Some [117]) False w_message = Some a" using w_framed by blast
  have "SoftBus_ParseMessage (Serialize a) =
      Some (w_message\<lparr>bm_messageVersion := 0, bm_isAck := False, bm_attributes := Some a\<rparr>) \<and>
    GetStringValue ATTR_MSG_SRC_UDID a = Some [117]"
    using message_roundtrip [OF a, of Impl_empty]
    by (simp add: w_message_def SoftBusMessage_def MAX_ATTR_LENGTH_def MAX_ATTR_COUNT_def Impl_empty_def
        REMOTE_CALLBACK_ENDPOINT_NAME_def REMOTE_AUTH_INVOKER_CONTEXT_ENDPOINT_NAME_def attr_wf_empty [unfolded Impl_empty_def])
  moreover have "w_message\<lparr>bm_messageVersion := 0, bm_isAck := False, bm_attributes := Some a\<rparr> = w_message\<lparr>bm_attributes := Some a\<rparr>"
    by (simp add: w_message_def SoftBusMessage_def)
  ultimately show ?thesis using a by auto
qed

section \<open>A result message\<close>

definition w_result_keys :: "(u32 \<times> bytes option) list" where
  "w_result_keys =
     [(ATTR_MSG_TYPE, EncodeInt32Value SEND_REMOTE_AUTH_RESULT), (ATTR_RESULT, EncodeInt32Value SUCCESS),
      (ATTR_SIGNED_AUTH_RESULT, EncodeUint8ArrayValue [1, 2, 3])]"

definition w_result_message :: attributes where
  "w_result_message = snd (set_all (puts w_result_keys) Attributes_new)"

lemma w_result_reads:
  "GetInt32Value ATTR_MSG_TYPE w_result_message = Some SEND_REMOTE_AUTH_RESULT"
  "GetInt32Value ATTR_RESULT w_result_message = Some SUCCESS"
  "GetUint8ArrayValue ATTR_SIGNED_AUTH_RESULT w_result_message = Some [1, 2, 3]"
proof -
  have "fst (set_all (puts w_result_keys) Attributes_new)"
    by (simp add: w_result_keys_def with_impl_def store_value_def EncodeInt32Value_def EncodeUint8ArrayValue_def
        Attributes_new_def Impl_empty_def MAX_ATTR_LENGTH_def MAX_ATTR_COUNT_def)
  then have built: "set_all (puts w_result_keys) Attributes_new = (True, w_result_message)"
    by (simp add: w_result_message_def prod_eq_iff)
  have at: "attr_at k d w_result_message \<and> d \<noteq> None" if "(k, d) \<in> set w_result_keys" for k d
    using puts_read [OF built _ that] by (simp add: w_result_keys_def)
  show "GetInt32Value ATTR_MSG_TYPE w_result_message = Some SEND_REMOTE_AUTH_RESULT"
    "GetInt32Value ATTR_RESULT w_result_message = Some SUCCESS"
    using at [of ATTR_MSG_TYPE "EncodeInt32Value SEND_REMOTE_AUTH_RESULT"] at [of ATTR_RESULT "EncodeInt32Value SUCCESS"]
    by (simp_all add: encoded_reads(1) w_result_keys_def)
  show "GetUint8ArrayValue ATTR_SIGNED_AUTH_RESULT w_result_message = Some [1, 2, 3]"
    using at [of ATTR_SIGNED_AUTH_RESULT "EncodeUint8ArrayValue [1, 2, 3]"]
    by (simp add: encoded_reads(5) w_result_keys_def)
qed

text \<open>The engine reads the signed result as a success with a token, or refuses it.\<close>

definition w_verdict :: "i32 \<Rightarrow> i32 \<times> eng_auth_result" where
  "w_verdict ret = (ret, \<lparr>er_result = SUCCESS, er_authTrustLevel = None, er_lockoutDuration = 0, er_remainAttempts = 5,
     er_msgs = [], er_token = [9], er_rootSecret = [], er_userId = 100, er_credentialId = 0, er_pinExpiredInfo = 0,
     er_remoteAuthResultMsg = [], er_reEnrollFlag = False\<rparr>)"

definition w_invoker_env :: "i32 \<Rightarrow> invoker_env" where
  "w_invoker_env ret = \<lparr>ve_timerId = 1, ve_udid = (\<lambda>_. Some [117]), ve_localUdid = Some [108], ve_register = SUCCESS,
     ve_open = SUCCESS, ve_send = SUCCESS, ve_getSigned = (\<lambda>_ _ _. (SUCCESS, [])),
     ve_pool = \<lparr>rp_heap = (\<lambda>_. undefined), rp_map = [], rp_listeners = [], rp_events = []\<rparr>,
     ve_verify = (\<lambda>_ _. w_verdict ret)\<rparr>"

definition w_auth_param :: auth_param_inner where
  "w_auth_param = \<lparr>pi_userId = 100, pi_isUserIdSpecified = True, pi_challenge = [5], pi_authType = PIN,
     pi_authTypes = [], pi_authTrustLevel = 10000, pi_reuseUnlockResult = undefined, pi_authIntent = 0,
     pi_skipLockedBiometricAuth = False, pi_credentialIdList = [], pi_remoteTokenId = None, pi_additionalInfo = []\<rparr>"

definition w_invoker_param :: invoker_param where
  "w_invoker_param = \<lparr>iv_connectionName = [110], iv_verifierNetworkId = [118], iv_collectorNetworkId = [99],
     iv_tokenId = 1, iv_collectorTokenId = 2, iv_callerName = [], iv_callerType = 0\<rparr>"

abbreviation (input) w_invoker :: invoker_context where
  "w_invoker \<equiv> RemoteAuthInvokerContext 5 w_auth_param w_invoker_param True"

abbreviation (input) w_invoker_labels :: "i32 \<Rightarrow> invoker_label list" where
  "w_invoker_labels ret \<equiv> [InvokerMessage (w_invoker_env ret) w_result_message Attributes_new]"

lemma w_invoker_told:
  "\<exists>a. ResultDelivered SUCCESS a \<in> set (bc_outputs (invoker_run (w_invoker_labels ret) w_invoker))"
  by (simp add: invoker_run_def Invoker_OnMessage_def w_result_reads ProcAuthResultMsg_def
      ProcAuthResultMsgInner_def w_invoker_env_def w_verdict_def RemoteAuthInvokerContext_def BaseContext_def
      base_context.defs invoker_context.defs tell_result_def ctx_emit_def split: prod.split)

lemma invoker_success_signed_witness:
  "\<exists>a. ResultDelivered SUCCESS a \<in> set (bc_outputs (invoker_run (w_invoker_labels SUCCESS) w_invoker)) \<and>
     (\<forall>t. GetUint8ArrayValue ATTR_SIGNATURE a = Some t \<longrightarrow> t = [9])"
proof -
  obtain a where a: "ResultDelivered SUCCESS a \<in> set (bc_outputs (invoker_run (w_invoker_labels SUCCESS) w_invoker))"
    using w_invoker_told by blast
  show ?thesis using invoker_success_signed [OF a] a by (auto simp: w_invoker_env_def w_verdict_def)
qed

lemma refused_result_told_as_success_witness:
  "\<exists>c'. ProcAuthResultMsg (w_invoker_env GENERAL_ERROR) w_result_message w_invoker = (GENERAL_ERROR, c') \<and>
     filter is_result (bc_outputs c') = [ResultDelivered SUCCESS Attributes_new]"
  using refused_result_told_as_success [OF w_result_reads(2,3), of "w_invoker_env GENERAL_ERROR" w_invoker]
  by (simp add: w_invoker_env_def w_verdict_def RemoteAuthInvokerContext_def BaseContext_def base_context.defs)

end
