(* ===== verification/Soft_Bus.thy ===== *)
theory Soft_Bus
  imports Soft_Bus_Message Remote_Msg
begin

text \<open>
  The sockets over which two devices talk, \<^verbatim>\<open>soft_bus_base_socket.cpp\<close>, \<^verbatim>\<open>soft_bus_client_socket.cpp\<close> and
  \<^verbatim>\<open>soft_bus_server_socket.cpp\<close> in \<^verbatim>\<open>services/remote_connect/default/src\<close>. A device has one server socket, on which the
  connections that other devices opened arrive, each under the socket id of its peer, and a client socket for every
  connection it opened itself. A request waits under its sequence number for the answer.

  Sockets are objects of a heap \<open>sb_heap\<close>. What the distributed soft bus, the timers and the listeners of the
  connections answer comes from the surroundings; calls to them are outputs. A listener that sends while it hears a message
  does so in a step of its own. The callback of a request is named by a number, and so is a listener. \<^verbatim>\<open>sendTime\<close>, which
  is logged only, is left out. The map of client sockets by name is never iterated, so its order is not kept.
\<close>

abbreviation (input) INVALID_SOCKET_ID :: i32 where "INVALID_SOCKET_ID \<equiv> - 1"
abbreviation (input) INVALID_TIMER_ID :: u32 where "INVALID_TIMER_ID \<equiv> 0"

section \<open>Data\<close>

record fault_trace =
  ft_reason :: string
  ft_socketId :: i32
  ft_connectionName :: bytes
  ft_msgType :: i32
  ft_messageSeq :: u32
  ft_ack :: bool

record callback_info =
  ki_connectionName :: bytes
  ki_msgCallback :: nat
  ki_timerId :: u32

record bus_socket =
  sk_server :: bool
  sk_socketId :: i32
  sk_callbackMap :: "(u32 \<times> callback_info) list"
  sk_trace :: fault_trace
  sk_connectionName :: bytes
  sk_networkId :: bytes
  sk_keepAliveTimerId :: "u32 option"
  sk_serverSocketBindMap :: "(i32 \<times> bytes) list"
  sk_clientConnectionMap :: "(i32 \<times> bytes) list"

datatype bus_task =
    OpenTask bytes u32 bytes
  | CloseTask bytes
  | DownTask bytes
  | InitTask

datatype bus_output =
    BytesSent i32 bytes
  | TimerStarted u32
  | TimerStopped u32
  | StatusTold nat bytes bool
  | RequestHeard nat bytes bytes attributes attributes
  | AckHeard nat attributes
  | SocketClosed i32
  | FaultReported fault_trace
  | FirstCallerSet u32
  | OpenReported bytes bytes i32 i32

record bus =
  sb_heap :: "nat \<Rightarrow> bus_socket"
  sb_fresh :: nat
  sb_socketMap :: "(i32 \<times> nat) list"
  sb_clientSocketMap :: "(bytes \<times> nat) list"
  sb_serverSocket :: "nat option"
  sb_listeners :: "nat listener_info list"
  sb_messageSeq :: u32
  sb_tasks :: "bus_task list"
  sb_inited :: bool
  sb_deviceListener :: bool
  sb_busListener :: bool
  sb_outputs :: "bus_output list"

text \<open>
  The surroundings: the device's udid, \<^verbatim>\<open>SendBytes\<close>, the ids that the timer gives, what a listener leaves in the reply,
  whether a thread handler exists for a name, and the soft bus' answers to \<^verbatim>\<open>Socket\<close>, \<^verbatim>\<open>Listen\<close> and the tries of
  \<^verbatim>\<open>Bind\<close>.
\<close>

record bus_env =
  be_udid :: "bytes option"
  be_send :: "i32 \<Rightarrow> bytes \<Rightarrow> i32"
  be_replyTimer :: u32
  be_keepAliveTimer :: u32
  be_listener :: "nat \<Rightarrow> bytes \<Rightarrow> bytes \<Rightarrow> attributes \<Rightarrow> attributes \<Rightarrow> attributes"
  be_handler :: "bytes \<Rightarrow> bool"
  be_socket :: "nat \<Rightarrow> i32"
  be_listen :: "nat \<Rightarrow> i32"
  be_bind :: "nat \<Rightarrow> i32"
  be_subscribe :: bool
  be_unsubscribe :: i32

definition bus_emit :: "bus_output list \<Rightarrow> bus \<Rightarrow> bus" where
  "bus_emit ys b = b\<lparr>sb_outputs := sb_outputs b @ ys\<rparr>"

definition on_socket :: "nat \<Rightarrow> (bus_socket \<Rightarrow> bus_socket) \<Rightarrow> bus \<Rightarrow> bus" where
  "on_socket r f b = b\<lparr>sb_heap := (sb_heap b)(r := f (sb_heap b r))\<rparr>"

definition empty_trace :: "i32 \<Rightarrow> fault_trace" where
  "empty_trace socketId = \<lparr>ft_reason = [], ft_socketId = socketId, ft_connectionName = [], ft_msgType = - 1,
     ft_messageSeq = 0, ft_ack = False\<rparr>"

definition ServerSocket :: "i32 \<Rightarrow> bus_socket" where
  "ServerSocket socketId = \<lparr>sk_server = True, sk_socketId = socketId, sk_callbackMap = [],
     sk_trace = empty_trace socketId, sk_connectionName = [], sk_networkId = [], sk_keepAliveTimerId = None,
     sk_serverSocketBindMap = [], sk_clientConnectionMap = []\<rparr>"

text \<open>\<^verbatim>\<open>SocketFactory::CreateClientSocket\<close>: the constructor and the two names.\<close>

definition CreateClientSocket :: "i32 \<Rightarrow> bytes \<Rightarrow> bytes \<Rightarrow> bus_socket" where
  "CreateClientSocket socketId connectionName networkId = \<lparr>sk_server = False, sk_socketId = socketId, sk_callbackMap = [],
     sk_trace = empty_trace socketId, sk_connectionName = connectionName, sk_networkId = networkId,
     sk_keepAliveTimerId = None, sk_serverSocketBindMap = [], sk_clientConnectionMap = []\<rparr>"

section \<open>Listeners\<close>

definition Bus_OnConnectionDown :: "bytes \<Rightarrow> bus \<Rightarrow> bus" where
  "Bus_OnConnectionDown connectionName b =
     (case OnConnectionDown connectionName (sb_listeners b) of
        (told, listeners) \<Rightarrow>
          bus_emit (map (\<lambda>l. StatusTold l connectionName False) told) (b\<lparr>sb_listeners := listeners\<rparr>))"

definition Bus_OnConnectionUp :: "bytes \<Rightarrow> bus \<Rightarrow> bus" where
  "Bus_OnConnectionUp connectionName b =
     bus_emit (map (\<lambda>l. StatusTold l connectionName True) (OnConnectionUp connectionName (sb_listeners b))) b"

section \<open>Callbacks that wait for an answer\<close>

text \<open>\<^verbatim>\<open>insert\<close> keeps the entry of a key that is present.\<close>

definition InsertMsgCallback :: "u32 \<Rightarrow> bytes \<Rightarrow> nat option \<Rightarrow> u32 \<Rightarrow> bus_socket \<Rightarrow> bus_socket" where
  "InsertMsgCallback messageSeq connectionName callback timerId k =
     (case callback of
        None \<Rightarrow> k
      | Some cb \<Rightarrow>
          if map_of (sk_callbackMap k) messageSeq \<noteq> None then k
          else k\<lparr>sk_callbackMap := omap_assign messageSeq
                   \<lparr>ki_connectionName = connectionName, ki_msgCallback = cb, ki_timerId = timerId\<rparr> (sk_callbackMap k)\<rparr>)"

definition RemoveMsgCallback :: "u32 \<Rightarrow> bus_socket \<Rightarrow> bus_socket" where
  "RemoveMsgCallback messageSeq k = k\<lparr>sk_callbackMap := key_erase messageSeq (sk_callbackMap k)\<rparr>"

definition GetConnectionNameOf :: "u32 \<Rightarrow> bus_socket \<Rightarrow> bytes" where
  "GetConnectionNameOf messageSeq k =
     (case map_of (sk_callbackMap k) messageSeq of None \<Rightarrow> [] | Some i \<Rightarrow> ki_connectionName i)"

definition GetMsgCallback :: "u32 \<Rightarrow> bus_socket \<Rightarrow> nat option" where
  "GetMsgCallback messageSeq k = map_option ki_msgCallback (map_of (sk_callbackMap k) messageSeq)"

definition GetReplyTimer :: "u32 \<Rightarrow> bus_socket \<Rightarrow> u32" where
  "GetReplyTimer messageSeq k =
     (case map_of (sk_callbackMap k) messageSeq of None \<Rightarrow> 0 | Some i \<Rightarrow> ki_timerId i)"

definition StartReplyTimer :: "bus_env \<Rightarrow> nat \<Rightarrow> u32 \<Rightarrow> bus \<Rightarrow> u32 \<times> bus" where
  "StartReplyTimer e r messageSeq b =
     (let timerId = GetReplyTimer messageSeq (sb_heap b r)
      in if timerId \<noteq> INVALID_TIMER_ID then (timerId, b)
         else (be_replyTimer e, bus_emit [TimerStarted (be_replyTimer e)] b))"

definition StopReplyTimer :: "nat \<Rightarrow> u32 \<Rightarrow> bus \<Rightarrow> bus" where
  "StopReplyTimer r messageSeq b =
     (let timerId = GetReplyTimer messageSeq (sb_heap b r)
      in if timerId = INVALID_TIMER_ID then b else bus_emit [TimerStopped timerId] b)"

definition ReplyTimerTimeOut :: "nat \<Rightarrow> u32 \<Rightarrow> bus \<Rightarrow> bus" where
  "ReplyTimerTimeOut r messageSeq b =
     (let connectionName = GetConnectionNameOf messageSeq (sb_heap b r)
      in if connectionName = [] then b
         else
           let b = on_socket r (\<lambda>k. k\<lparr>sk_trace := (sk_trace k)\<lparr>ft_reason := ''ack time out''\<rparr>\<rparr>) b;
               b = bus_emit [FaultReported (sk_trace (sb_heap b r))] b;
               b = Bus_OnConnectionDown connectionName b
           in on_socket r (RemoveMsgCallback messageSeq) b)"

text \<open>The sequence numbers of all sockets come from one counter of 32 bits.\<close>

definition GetMessageSeq :: "bus \<Rightarrow> u32 \<times> bus" where
  "GetMessageSeq b = (sb_messageSeq b + 1, b\<lparr>sb_messageSeq := sb_messageSeq b + 1\<rparr>)"

definition RefreshTraceInfo :: "bytes \<Rightarrow> i32 \<Rightarrow> bool \<Rightarrow> u32 \<Rightarrow> bus_socket \<Rightarrow> bus_socket" where
  "RefreshTraceInfo connectionName msgType ack messageSeq k =
     k\<lparr>sk_trace := (sk_trace k)\<lparr>ft_connectionName := connectionName, ft_msgType := msgType, ft_ack := ack,
          ft_messageSeq := messageSeq\<rparr>\<rparr>"

definition msgType_of :: "attributes \<Rightarrow> i32" where
  "msgType_of attributes = (case GetInt32Value ATTR_MSG_TYPE attributes of None \<Rightarrow> - 1 | Some t \<Rightarrow> t)"

section \<open>Sending\<close>

definition Socket_SendRequest ::
  "bus_env \<Rightarrow> nat \<Rightarrow> i32 \<Rightarrow> bytes \<Rightarrow> bytes \<Rightarrow> bytes \<Rightarrow> attributes option \<Rightarrow> nat option \<Rightarrow> bus \<Rightarrow> i32 \<times> bus" where
  "Socket_SendRequest e r socketId connectionName srcEndPoint destEndPoint attributes callback b =
     (case attributes of
        None \<Rightarrow> (INVALID_PARAMETERS, b)
      | Some given \<Rightarrow>
          if socketId = INVALID_SOCKET_ID then (INVALID_PARAMETERS, b)
          else
            (case GetMessageSeq b of
               (messageSeq, b) \<Rightarrow>
                 let b = on_socket r (RefreshTraceInfo connectionName (msgType_of given) False messageSeq) b
                 in case CreateMessage (be_udid e) False
                           (SoftBusMessage messageSeq connectionName srcEndPoint destEndPoint attributes) of
                      None \<Rightarrow> (GENERAL_ERROR, b)
                    | Some request \<Rightarrow>
                        let data = Serialize request;
                            b = bus_emit [BytesSent socketId data] b
                        in if be_send e socketId data \<noteq> SUCCESS then (GENERAL_ERROR, b)
                           else
                             (case StartReplyTimer e r messageSeq b of
                                (timerId, b) \<Rightarrow>
                                  if timerId = INVALID_TIMER_ID then (GENERAL_ERROR, b)
                                  else (SUCCESS,
                                        on_socket r (InsertMsgCallback messageSeq connectionName callback timerId) b))))"

definition Socket_SendResponse ::
  "bus_env \<Rightarrow> nat \<Rightarrow> i32 \<Rightarrow> bytes \<Rightarrow> bytes \<Rightarrow> bytes \<Rightarrow> attributes option \<Rightarrow> u32 \<Rightarrow> bus \<Rightarrow> i32 \<times> bus" where
  "Socket_SendResponse e r socketId connectionName srcEndPoint destEndPoint attributes messageSeq b =
     (case attributes of
        None \<Rightarrow> (INVALID_PARAMETERS, b)
      | Some given \<Rightarrow>
          if socketId = INVALID_SOCKET_ID then (INVALID_PARAMETERS, b)
          else
            let b = on_socket r (RefreshTraceInfo connectionName (msgType_of given) True messageSeq) b
            in case CreateMessage (be_udid e) True
                      (SoftBusMessage messageSeq connectionName srcEndPoint destEndPoint attributes) of
                 None \<Rightarrow> (GENERAL_ERROR, b)
               | Some response \<Rightarrow>
                   let data = Serialize response
                   in (if be_send e socketId data \<noteq> SUCCESS then GENERAL_ERROR else SUCCESS,
                       bus_emit [BytesSent socketId data] b))"

section \<open>Receiving\<close>

text \<open>The network id of the peer, as the soft bus knows it, replaces what the message says of it.\<close>

definition Socket_ParseMessage :: "nat \<Rightarrow> bytes \<Rightarrow> bytes \<Rightarrow> bus \<Rightarrow> soft_bus_message option \<times> bus" where
  "Socket_ParseMessage r networkId message b =
     (case SoftBus_ParseMessage message of
        None \<Rightarrow> (None, b)
      | Some m \<Rightarrow>
          (case bm_attributes m of
             None \<Rightarrow> (None, b)
           | Some attributes \<Rightarrow>
               let b = on_socket r (RefreshTraceInfo (bm_connectionName m) (msgType_of attributes) (bm_isAck m)
                         (bm_messageSeq m)) b
               in case SetStringValue ATTR_COLLECTOR_NETWORK_ID networkId attributes of
                    (stored, attributes) \<Rightarrow>
                      if \<not> stored then (None, b) else (Some (m\<lparr>bm_attributes := Some attributes\<rparr>), b)))"

text \<open>A message that nobody hears, or of another version, is answered with an error.\<close>

definition ProcessMessage :: "bus_env \<Rightarrow> soft_bus_message \<Rightarrow> attributes \<Rightarrow> bus \<Rightarrow> attributes \<times> bus" where
  "ProcessMessage e m response b =
     (case SetInt32Value ATTR_RESULT_CODE GENERAL_ERROR response of
        (stored, response) \<Rightarrow>
          if \<not> stored then (response, b)
          else if bm_messageVersion m \<noteq> DEFAULT_MESSAGE_VERSION
          then (snd (SetUint32ArrayValue ATTR_SUPPORTED_MSG_VERSION [DEFAULT_MESSAGE_VERSION] response), b)
          else
            (case (FindListener (bm_connectionName m) (bm_destEndPoint m) (sb_listeners b), bm_attributes m) of
               (Some l, Some request) \<Rightarrow>
                 let reply = be_listener e l (bm_connectionName m) (bm_destEndPoint m) request response
                 in (reply, bus_emit [RequestHeard l (bm_connectionName m) (bm_destEndPoint m) request reply] b)
             | _ \<Rightarrow> (response, b)))"

definition ProcDataReceive :: "bus_env \<Rightarrow> nat \<Rightarrow> i32 \<Rightarrow> soft_bus_message \<Rightarrow> bus \<Rightarrow> i32 \<times> bus" where
  "ProcDataReceive e r socketId m b =
     (if socketId = INVALID_SOCKET_ID then (INVALID_PARAMETERS, b)
      else case bm_attributes m of
        None \<Rightarrow> (GENERAL_ERROR, b)
      | Some request \<Rightarrow>
          if bm_isAck m
          then (case GetMsgCallback (bm_messageSeq m) (sb_heap b r) of
                  None \<Rightarrow> (GENERAL_ERROR, b)
                | Some callback \<Rightarrow>
                    (SUCCESS, on_socket r (RemoveMsgCallback (bm_messageSeq m))
                       (StopReplyTimer r (bm_messageSeq m) (bus_emit [AckHeard callback request] b))))
          else (case ProcessMessage e m Attributes_new b of
                  (response, b) \<Rightarrow>
                    (SUCCESS, snd (Socket_SendResponse e r socketId (bm_connectionName m) (bm_destEndPoint m)
                       (bm_srcEndPoint m) (Some response) (bm_messageSeq m) b))))"

section \<open>Client sockets\<close>

definition RefreshKeepAliveTimer :: "bus_env \<Rightarrow> nat \<Rightarrow> bus \<Rightarrow> bus" where
  "RefreshKeepAliveTimer e r b =
     (let b = (case sk_keepAliveTimerId (sb_heap b r) of None \<Rightarrow> b | Some t \<Rightarrow> bus_emit [TimerStopped t] b);
          b = bus_emit [TimerStarted (be_keepAliveTimer e)] b
      in on_socket r (\<lambda>k. k\<lparr>sk_keepAliveTimerId := Some (be_keepAliveTimer e)\<rparr>) b)"

definition Client_SendMessage ::
  "bus_env \<Rightarrow> nat \<Rightarrow> bytes \<Rightarrow> bytes \<Rightarrow> bytes \<Rightarrow> attributes option \<Rightarrow> nat option \<Rightarrow> bus \<Rightarrow> i32 \<times> bus" where
  "Client_SendMessage e r connectionName srcEndPoint destEndPoint attributes callback b =
     (let socketId = sk_socketId (sb_heap b r)
      in if socketId = INVALID_SOCKET_ID then (GENERAL_ERROR, b)
         else Socket_SendRequest e r socketId connectionName srcEndPoint destEndPoint attributes callback
                (RefreshKeepAliveTimer e r b))"

definition Client_OnShutdown :: "nat \<Rightarrow> bus \<Rightarrow> bus" where
  "Client_OnShutdown r b =
     (let connectionName = sk_connectionName (sb_heap b r)
      in if connectionName = [] then b else Bus_OnConnectionDown connectionName b)"

definition Client_OnBytes :: "bus_env \<Rightarrow> nat \<Rightarrow> i32 \<Rightarrow> bytes \<Rightarrow> bus \<Rightarrow> bus" where
  "Client_OnBytes e r socketId data b =
     (if data = [] \<or> sk_networkId (sb_heap b r) = [] then b
      else (case Socket_ParseMessage r (sk_networkId (sb_heap b r)) data b of
              (None, b) \<Rightarrow> b
            | (Some m, b) \<Rightarrow> snd (ProcDataReceive e r socketId m b)))"

section \<open>The server socket\<close>

definition AddServerSocket :: "i32 \<Rightarrow> bytes \<Rightarrow> bus_socket \<Rightarrow> bus_socket" where
  "AddServerSocket socketId networkId k =
     (if socketId = INVALID_SOCKET_ID then k
      else k\<lparr>sk_serverSocketBindMap := omap_assign socketId networkId (sk_serverSocketBindMap k)\<rparr>)"

definition DeleteServerSocket :: "i32 \<Rightarrow> bus_socket \<Rightarrow> bus_socket" where
  "DeleteServerSocket socketId k =
     (if socketId = INVALID_SOCKET_ID then k
      else k\<lparr>sk_serverSocketBindMap := key_erase socketId (sk_serverSocketBindMap k)\<rparr>)"

definition GetNetworkIdBySocketId :: "i32 \<Rightarrow> bus_socket \<Rightarrow> bytes" where
  "GetNetworkIdBySocketId socketId k =
     (if socketId = INVALID_SOCKET_ID then []
      else case map_of (sk_serverSocketBindMap k) socketId of None \<Rightarrow> [] | Some n \<Rightarrow> n)"

definition AddClientConnection :: "i32 \<Rightarrow> bytes \<Rightarrow> bus_socket \<Rightarrow> bus_socket" where
  "AddClientConnection socketId connectionName k =
     (if socketId = INVALID_SOCKET_ID \<or> map_of (sk_clientConnectionMap k) socketId \<noteq> None then k
      else k\<lparr>sk_clientConnectionMap := omap_assign socketId connectionName (sk_clientConnectionMap k)\<rparr>)"

definition DeleteClientConnection :: "i32 \<Rightarrow> bus_socket \<Rightarrow> bus_socket" where
  "DeleteClientConnection socketId k =
     (if socketId = INVALID_SOCKET_ID then k
      else k\<lparr>sk_clientConnectionMap := key_erase socketId (sk_clientConnectionMap k)\<rparr>)"

definition GetClientConnectionName :: "i32 \<Rightarrow> bus_socket \<Rightarrow> bytes" where
  "GetClientConnectionName socketId k =
     (if socketId = INVALID_SOCKET_ID then []
      else case map_of (sk_clientConnectionMap k) socketId of None \<Rightarrow> [] | Some n \<Rightarrow> n)"

definition GetSocketIdByClientConnectionName :: "bytes \<Rightarrow> bus_socket \<Rightarrow> i32" where
  "GetSocketIdByClientConnectionName connectionName k =
     (case List.find (\<lambda>(_, n). n = connectionName) (sk_clientConnectionMap k) of
        None \<Rightarrow> INVALID_SOCKET_ID | Some (i, _) \<Rightarrow> i)"

definition Server_SendMessage ::
  "bus_env \<Rightarrow> nat \<Rightarrow> bytes \<Rightarrow> bytes \<Rightarrow> bytes \<Rightarrow> attributes option \<Rightarrow> nat option \<Rightarrow> bus \<Rightarrow> i32 \<times> bus" where
  "Server_SendMessage e r connectionName srcEndPoint destEndPoint attributes callback b =
     (let socketId = GetSocketIdByClientConnectionName connectionName (sb_heap b r)
      in if socketId = INVALID_SOCKET_ID then (GENERAL_ERROR, b)
         else Socket_SendRequest e r socketId connectionName srcEndPoint destEndPoint attributes callback b)"

definition Server_OnBind :: "nat \<Rightarrow> i32 \<Rightarrow> bytes option \<Rightarrow> bus \<Rightarrow> bus" where
  "Server_OnBind r socketId networkId b =
     (if sint socketId \<le> - 1 then b
      else case networkId of None \<Rightarrow> b | Some n \<Rightarrow> on_socket r (AddServerSocket socketId n) b)"

definition Server_OnShutdown :: "nat \<Rightarrow> i32 \<Rightarrow> bus \<Rightarrow> bus" where
  "Server_OnShutdown r socketId b =
     (let connectionName = GetClientConnectionName socketId (sb_heap b r);
          b = (if connectionName = [] then b else Bus_OnConnectionDown connectionName b)
      in on_socket r (\<lambda>k. DeleteClientConnection socketId (DeleteServerSocket socketId k)) b)"

text \<open>A peer is known under the first name of a connection that it used.\<close>

definition Server_OnBytes :: "bus_env \<Rightarrow> nat \<Rightarrow> i32 \<Rightarrow> bytes \<Rightarrow> bus \<Rightarrow> bus" where
  "Server_OnBytes e r socketId data b =
     (let networkId = GetNetworkIdBySocketId socketId (sb_heap b r)
      in if networkId = [] \<or> data = [] then b
         else (case Socket_ParseMessage r networkId data b of
                 (None, b) \<Rightarrow> b
               | (Some m, b) \<Rightarrow>
                   let b = (if \<not> bm_isAck m \<and> bm_connectionName m \<noteq> []
                            then on_socket r (AddClientConnection socketId (bm_connectionName m)) b else b)
                   in snd (ProcDataReceive e r socketId m b)))"

end
