(* ===== verification/Soft_Bus_Manager.thy ===== *)
theory Soft_Bus_Manager
  imports Soft_Bus
begin

text \<open>
  The owner of the sockets, \<^verbatim>\<open>services/remote_connect/default/src/soft_bus_manager.cpp\<close>, behind the facade
  \<^verbatim>\<open>remote_connect_manager.cpp\<close> and the callbacks of the soft bus in \<^verbatim>\<open>soft_bus_socket_listener.cpp\<close>. Connections are
  opened and closed by tasks on the thread of the connection. A socket whose last holder lets it go is shut down.

  The steps of the bus at the end of the theory are everything that can happen to it: calls of the services, tasks,
  callbacks of the soft bus and timers. The two listeners of system abilities are opaque: subscribing gives one or not.
\<close>

definition USER_AUTH_PACKAGE_NAME :: bytes where
  "USER_AUTH_PACKAGE_NAME = map of_char ''ohos.useriam''"

definition USER_AUTH_SOCKET_NAME :: bytes where
  "USER_AUTH_SOCKET_NAME = map of_char ''ohos.useriam.''"

abbreviation (input) SOCKET_NAME_MAX_LEN :: nat where "SOCKET_NAME_MAX_LEN \<equiv> 256"
abbreviation (input) PACKAGE_NAME_MAX_LEN :: nat where "PACKAGE_NAME_MAX_LEN \<equiv> 256"
abbreviation (input) MAX_ONBYTES_RECEIVED_DATA_LEN :: nat where "MAX_ONBYTES_RECEIVED_DATA_LEN \<equiv> 10485760"
abbreviation (input) MAX_DATA_LEN :: nat where "MAX_DATA_LEN \<equiv> 4096"
abbreviation (input) BIND_SERVICE_MAX_RETRY_TIMES :: nat where "BIND_SERVICE_MAX_RETRY_TIMES \<equiv> 3"

definition initial_bus :: bus where
  "initial_bus = \<lparr>sb_heap = (\<lambda>_. ServerSocket INVALID_SOCKET_ID), sb_fresh = 0, sb_socketMap = [],
     sb_clientSocketMap = [], sb_serverSocket = None, sb_listeners = [], sb_messageSeq = 0, sb_tasks = [],
     sb_inited = False, sb_deviceListener = False, sb_busListener = False, sb_outputs = []\<rparr>"

section \<open>The maps of sockets\<close>

definition allocate :: "bus_socket \<Rightarrow> bus \<Rightarrow> nat \<times> bus" where
  "allocate k b = (sb_fresh b, b\<lparr>sb_heap := (sb_heap b)(sb_fresh b := k), sb_fresh := Suc (sb_fresh b)\<rparr>)"

definition AddSocket :: "i32 \<Rightarrow> nat \<Rightarrow> bus \<Rightarrow> bus" where
  "AddSocket socketId r b =
     (if socketId = INVALID_SOCKET_ID \<or> map_of (sb_socketMap b) socketId \<noteq> None then b
      else b\<lparr>sb_socketMap := omap_assign socketId r (sb_socketMap b)\<rparr>)"

definition DeleteSocket :: "i32 \<Rightarrow> bus \<Rightarrow> bus" where
  "DeleteSocket socketId b =
     (if socketId = INVALID_SOCKET_ID then b else b\<lparr>sb_socketMap := key_erase socketId (sb_socketMap b)\<rparr>)"

definition FindSocketBySocketId :: "i32 \<Rightarrow> bus \<Rightarrow> nat option" where
  "FindSocketBySocketId socketId b =
     (if socketId = INVALID_SOCKET_ID then None else map_of (sb_socketMap b) socketId)"

definition AddConnection :: "bytes \<Rightarrow> nat \<Rightarrow> bus \<Rightarrow> bus" where
  "AddConnection connectionName r b =
     (if map_of (sb_clientSocketMap b) connectionName \<noteq> None then b
      else b\<lparr>sb_clientSocketMap := umap_assign connectionName r (sb_clientSocketMap b)\<rparr>)"

definition DeleteConnection :: "bytes \<Rightarrow> bus \<Rightarrow> bus" where
  "DeleteConnection connectionName b = b\<lparr>sb_clientSocketMap := key_erase connectionName (sb_clientSocketMap b)\<rparr>"

definition FindClientSocket :: "bytes \<Rightarrow> bus \<Rightarrow> nat option" where
  "FindClientSocket connectionName b = map_of (sb_clientSocketMap b) connectionName"

definition held :: "nat \<Rightarrow> bus \<Rightarrow> bool" where
  "held r b \<longleftrightarrow> r \<in> snd ` set (sb_socketMap b) \<or> r \<in> snd ` set (sb_clientSocketMap b) \<or> sb_serverSocket b = Some r"

text \<open>A reference is let go: the destructors of the client socket and of its base run if it was the last.\<close>

definition let_go :: "nat \<Rightarrow> bus \<Rightarrow> bus" where
  "let_go r b =
     (if held r b then b
      else bus_emit ((case sk_keepAliveTimerId (sb_heap b r) of None \<Rightarrow> [] | Some t \<Rightarrow> [TimerStopped t]) @
             [SocketClosed (sk_socketId (sb_heap b r))]) b)"

section \<open>Starting and stopping\<close>

definition RegistDeviceManagerListener :: "bus_env \<Rightarrow> bus \<Rightarrow> i32 \<times> bus" where
  "RegistDeviceManagerListener e b =
     (if sb_deviceListener b then (SUCCESS, b)
      else if be_subscribe e then (SUCCESS, b\<lparr>sb_deviceListener := True\<rparr>) else (GENERAL_ERROR, b))"

definition UnRegistDeviceManagerListener :: "bus_env \<Rightarrow> bus \<Rightarrow> i32 \<times> bus" where
  "UnRegistDeviceManagerListener e b =
     (if \<not> sb_deviceListener b then (SUCCESS, b)
      else if be_unsubscribe e \<noteq> SUCCESS then (GENERAL_ERROR, b) else (SUCCESS, b\<lparr>sb_deviceListener := False\<rparr>))"

definition RegistSoftBusListener :: "bus_env \<Rightarrow> bus \<Rightarrow> i32 \<times> bus" where
  "RegistSoftBusListener e b =
     (if sb_busListener b then (SUCCESS, b)
      else if be_subscribe e then (SUCCESS, b\<lparr>sb_busListener := True\<rparr>) else (GENERAL_ERROR, b))"

definition UnRegistSoftBusListener :: "bus_env \<Rightarrow> bus \<Rightarrow> i32 \<times> bus" where
  "UnRegistSoftBusListener e b =
     (if \<not> sb_busListener b then (SUCCESS, b)
      else if be_unsubscribe e \<noteq> SUCCESS then (GENERAL_ERROR, b) else (SUCCESS, b\<lparr>sb_busListener := False\<rparr>))"

definition SoftBus_Start :: "bus_env \<Rightarrow> bus \<Rightarrow> bus" where
  "SoftBus_Start e b =
     (if sb_inited b then b
      else (case RegistDeviceManagerListener e b of
              (ret, b) \<Rightarrow>
                if ret \<noteq> SUCCESS then b
                else (case RegistSoftBusListener e b of
                        (ret, b) \<Rightarrow> if ret \<noteq> SUCCESS then b else b\<lparr>sb_inited := True\<rparr>)))"

definition SoftBus_Stop :: "bus_env \<Rightarrow> bus \<Rightarrow> bus" where
  "SoftBus_Stop e b =
     (if \<not> sb_inited b then b
      else (case UnRegistDeviceManagerListener e b of
              (ret, b) \<Rightarrow>
                if ret \<noteq> SUCCESS then b
                else (case UnRegistSoftBusListener e b of
                        (ret, b) \<Rightarrow> if ret \<noteq> SUCCESS then b else b\<lparr>sb_inited := False\<rparr>)))"

text \<open>A text that is copied into a buffer needs room for its end.\<close>

definition CheckAndCopyStr :: "nat \<Rightarrow> bytes \<Rightarrow> bytes option" where
  "CheckAndCopyStr destLen src = (if destLen < length src + 1 then None else Some src)"

text \<open>\<open>n\<close> numbers the tries of the task.\<close>

definition DoServiceSocketInit :: "bus_env \<Rightarrow> nat \<Rightarrow> bus \<Rightarrow> i32 \<times> bus" where
  "DoServiceSocketInit e n b =
     (case (CheckAndCopyStr SOCKET_NAME_MAX_LEN (USER_AUTH_SOCKET_NAME @ map of_char ''service''),
            CheckAndCopyStr PACKAGE_NAME_MAX_LEN USER_AUTH_PACKAGE_NAME) of
        (Some _, Some _) \<Rightarrow>
          let socketId = be_socket e n
          in if sint socketId \<le> - 1 then (GENERAL_ERROR, b)
             else if be_listen e n \<noteq> SUCCESS then (GENERAL_ERROR, bus_emit [SocketClosed socketId] b)
             else (case allocate (ServerSocket socketId) b of
                     (r, b) \<Rightarrow>
                       let before = sb_serverSocket b;
                           b = (AddSocket socketId r b)\<lparr>sb_serverSocket := Some r\<rparr>
                       in (SUCCESS, case before of None \<Rightarrow> b | Some old \<Rightarrow> let_go old b))
      | _ \<Rightarrow> (GENERAL_ERROR, b))"

fun service_init_tries :: "bus_env \<Rightarrow> nat \<Rightarrow> nat \<Rightarrow> bus \<Rightarrow> bus" where
  "service_init_tries e n 0 b = b"
| "service_init_tries e n (Suc left) b =
     (case DoServiceSocketInit e n b of
        (ret, b) \<Rightarrow> if ret = SUCCESS then b else service_init_tries e (Suc n) left b)"

definition ServiceSocketInit :: "bus \<Rightarrow> bus" where
  "ServiceSocketInit b = b\<lparr>sb_tasks := sb_tasks b @ [InitTask]\<rparr>"

section \<open>Callbacks of the soft bus\<close>

definition Bus_OnBind :: "i32 \<Rightarrow> bytes option \<Rightarrow> bus \<Rightarrow> bus" where
  "Bus_OnBind socketId networkId b =
     (if sint socketId \<le> - 1 then b
      else case sb_serverSocket b of None \<Rightarrow> b | Some r \<Rightarrow> Server_OnBind r socketId networkId b)"

definition report_shutdown :: "nat \<Rightarrow> i32 \<Rightarrow> bus \<Rightarrow> bus" where
  "report_shutdown r reason b =
     bus_emit [FaultReported ((sk_trace (sb_heap b r))\<lparr>ft_reason := ''Shutdown:'' @ print_i32 reason\<rparr>)] b"

text \<open>
  The socket with this id is taken for a client socket, which it is unless the server socket itself is meant: that one has
  no name, so no connection goes down.
\<close>

definition Bus_OnShutdown :: "i32 \<Rightarrow> i32 \<Rightarrow> bus \<Rightarrow> bus" where
  "Bus_OnShutdown socketId reason b =
     (if sint socketId \<le> - 1 then b
      else
        let b = (case sb_serverSocket b of
                   None \<Rightarrow> b | Some r \<Rightarrow> report_shutdown r reason (Server_OnShutdown r socketId b))
        in case FindSocketBySocketId socketId b of
             None \<Rightarrow> b
           | Some r \<Rightarrow>
               let b = (if sk_server (sb_heap b r) then Server_OnShutdown r socketId b else Client_OnShutdown r b);
                   b = DeleteConnection (sk_connectionName (sb_heap b r)) (DeleteSocket socketId b)
               in let_go r (report_shutdown r reason b))"

definition Bus_OnClientBytes :: "bus_env \<Rightarrow> i32 \<Rightarrow> bytes option \<Rightarrow> bus \<Rightarrow> bus" where
  "Bus_OnClientBytes e socketId data b =
     (case data of
        None \<Rightarrow> b
      | Some d \<Rightarrow>
          if sint socketId \<le> - 1 \<or> d = [] \<or> length d > MAX_ONBYTES_RECEIVED_DATA_LEN then b
          else case sb_serverSocket b of None \<Rightarrow> b | Some r \<Rightarrow> Server_OnBytes e r socketId d b)"

definition Bus_OnServerBytes :: "bus_env \<Rightarrow> i32 \<Rightarrow> bytes option \<Rightarrow> bus \<Rightarrow> bus" where
  "Bus_OnServerBytes e socketId data b =
     (case data of
        None \<Rightarrow> b
      | Some d \<Rightarrow>
          if sint socketId \<le> - 1 \<or> d = [] \<or> length d > MAX_ONBYTES_RECEIVED_DATA_LEN then b
          else case FindSocketBySocketId socketId b of
                 None \<Rightarrow> b
               | Some r \<Rightarrow>
                   if sk_server (sb_heap b r) then Server_OnBytes e r socketId d b
                   else Client_OnBytes e r socketId d b)"

definition ServiceSocketUnInit :: "i32 \<Rightarrow> bus \<Rightarrow> bus" where
  "ServiceSocketUnInit SHUTDOWN_REASON_SERVICE_DIED b =
     (case sb_serverSocket b of
        None \<Rightarrow> b
      | Some r \<Rightarrow>
          let b = (DeleteSocket (sk_socketId (sb_heap b r)) b)\<lparr>sb_serverSocket := None\<rparr>
          in let_go r (fold (\<lambda>i. Bus_OnShutdown i SHUTDOWN_REASON_SERVICE_DIED) (map fst (sb_socketMap b)) b))"

text \<open>The functions that the soft bus calls; a package that does not name itself is \<open>None\<close>.\<close>

definition Listener_OnNegotiate :: "i32 \<Rightarrow> bytes option \<Rightarrow> bool" where
  "Listener_OnNegotiate socketId pkgName = (\<not> sint socketId \<le> - 1 \<and> pkgName = Some USER_AUTH_PACKAGE_NAME)"

definition Listener_OnBind :: "i32 \<Rightarrow> bytes option \<Rightarrow> bytes option \<Rightarrow> bus \<Rightarrow> bus" where
  "Listener_OnBind socketId pkgName networkId b =
     (if sint socketId \<le> - 1 \<or> pkgName \<noteq> Some USER_AUTH_PACKAGE_NAME then b else Bus_OnBind socketId networkId b)"

definition Listener_OnShutdown :: "i32 \<Rightarrow> i32 \<Rightarrow> bus \<Rightarrow> bus" where
  "Listener_OnShutdown socketId reason b = (if sint socketId \<le> - 1 then b else Bus_OnShutdown socketId reason b)"

definition Listener_OnClientBytes :: "bus_env \<Rightarrow> i32 \<Rightarrow> bytes option \<Rightarrow> bus \<Rightarrow> bus" where
  "Listener_OnClientBytes e socketId data b =
     (if sint socketId \<le> - 1 \<or> (case data of None \<Rightarrow> False | Some d \<Rightarrow> length d > MAX_DATA_LEN) then b
      else Bus_OnClientBytes e socketId data b)"

definition Listener_OnServerBytes :: "bus_env \<Rightarrow> i32 \<Rightarrow> bytes option \<Rightarrow> bus \<Rightarrow> bus" where
  "Listener_OnServerBytes e socketId data b =
     (if sint socketId \<le> - 1 \<or> (case data of None \<Rightarrow> False | Some d \<Rightarrow> length d > MAX_DATA_LEN) then b
      else Bus_OnServerBytes e socketId data b)"

section \<open>Opening and closing connections\<close>

definition ClientSocketInit :: "bus_env \<Rightarrow> bytes \<Rightarrow> bytes \<Rightarrow> i32" where
  "ClientSocketInit e connectionName networkId =
     (case (CheckAndCopyStr SOCKET_NAME_MAX_LEN (USER_AUTH_SOCKET_NAME @ connectionName),
            CheckAndCopyStr SOCKET_NAME_MAX_LEN (USER_AUTH_SOCKET_NAME @ map of_char ''service''),
            CheckAndCopyStr SOCKET_NAME_MAX_LEN networkId,
            CheckAndCopyStr PACKAGE_NAME_MAX_LEN USER_AUTH_PACKAGE_NAME) of
        (Some _, Some _, Some _, Some _) \<Rightarrow> be_socket e 0
      | _ \<Rightarrow> INVALID_SOCKET_ID)"

fun bind_tries :: "bus_env \<Rightarrow> nat \<Rightarrow> nat \<Rightarrow> bool" where
  "bind_tries e n 0 = False"
| "bind_tries e n (Suc left) = (if be_bind e n = SUCCESS then True else bind_tries e (Suc n) left)"

definition ClientSocketBind :: "bus_env \<Rightarrow> i32" where
  "ClientSocketBind e = (if bind_tries e 0 BIND_SERVICE_MAX_RETRY_TIMES then SUCCESS else GENERAL_ERROR)"

text \<open>The result and the socket id for the trace. A socket that cannot be bound is closed by its destructor and by the guard.\<close>

definition DoOpenConnectionInner :: "bus_env \<Rightarrow> bytes \<Rightarrow> u32 \<Rightarrow> bytes \<Rightarrow> bus \<Rightarrow> i32 \<times> i32 \<times> bus" where
  "DoOpenConnectionInner e connectionName tokenId networkId b =
     (let b = bus_emit [FirstCallerSet tokenId] b;
          socketId = ClientSocketInit e connectionName networkId
      in if sint socketId \<le> - 1 then (GENERAL_ERROR, - 1, b)
         else (case allocate (CreateClientSocket socketId connectionName networkId) b of
                 (r, b) \<Rightarrow>
                   if ClientSocketBind e \<noteq> SUCCESS
                   then (GENERAL_ERROR, socketId, bus_emit [SocketClosed socketId] (let_go r b))
                   else (SUCCESS, socketId, let_go r (AddSocket socketId r (AddConnection connectionName r b)))))"

definition DoOpenConnection :: "bus_env \<Rightarrow> bytes \<Rightarrow> u32 \<Rightarrow> bytes \<Rightarrow> bus \<Rightarrow> bus" where
  "DoOpenConnection e connectionName tokenId networkId b =
     (case DoOpenConnectionInner e connectionName tokenId networkId b of
        (result, socketId, b) \<Rightarrow>
          let b = bus_emit [OpenReported connectionName networkId socketId result] b
          in if result \<noteq> SUCCESS then Bus_OnConnectionDown connectionName b else Bus_OnConnectionUp connectionName b)"

definition Bus_OpenConnection :: "bus_env \<Rightarrow> bytes \<Rightarrow> u32 \<Rightarrow> bytes \<Rightarrow> bus \<Rightarrow> i32 \<times> bus" where
  "Bus_OpenConnection e connectionName tokenId networkId b =
     (SUCCESS, if be_handler e connectionName
               then b\<lparr>sb_tasks := sb_tasks b @ [OpenTask connectionName tokenId networkId]\<rparr> else b)"

definition DoCloseConnection :: "bytes \<Rightarrow> bus \<Rightarrow> i32 \<times> bus" where
  "DoCloseConnection connectionName b =
     (case FindClientSocket connectionName b of
        None \<Rightarrow> (GENERAL_ERROR, b)
      | Some r \<Rightarrow>
          let socketId = sk_socketId (sb_heap b r)
          in if socketId = INVALID_SOCKET_ID then (GENERAL_ERROR, b)
             else (SUCCESS, let_go r (DeleteConnection connectionName (DeleteSocket socketId
                     (Bus_OnConnectionDown connectionName b)))))"

definition Bus_CloseConnection :: "bus_env \<Rightarrow> bytes \<Rightarrow> bus \<Rightarrow> i32 \<times> bus" where
  "Bus_CloseConnection e connectionName b =
     (SUCCESS, if be_handler e connectionName then b\<lparr>sb_tasks := sb_tasks b @ [CloseTask connectionName]\<rparr> else b)"

text \<open>The server socket is tried first, under whatever name a peer gave itself.\<close>

definition Bus_SendMessage ::
  "bus_env \<Rightarrow> bytes \<Rightarrow> bytes \<Rightarrow> bytes \<Rightarrow> attributes option \<Rightarrow> nat option \<Rightarrow> bus \<Rightarrow> i32 \<times> bus" where
  "Bus_SendMessage e connectionName srcEndPoint destEndPoint attributes callback b =
     (if attributes = None then (INVALID_PARAMETERS, b)
      else case sb_serverSocket b of
        None \<Rightarrow> (GENERAL_ERROR, b)
      | Some r \<Rightarrow>
          (case Server_SendMessage e r connectionName srcEndPoint destEndPoint attributes callback b of
             (ret, b) \<Rightarrow>
               if ret = SUCCESS then (SUCCESS, b)
               else (case FindClientSocket connectionName b of
                       None \<Rightarrow> (GENERAL_ERROR, b)
                     | Some c \<Rightarrow>
                         (case Client_SendMessage e c connectionName srcEndPoint destEndPoint attributes callback b of
                            (ret, b) \<Rightarrow> (if ret \<noteq> SUCCESS then GENERAL_ERROR else SUCCESS, b)))))"

definition SendKeepAliveMessage :: "bus_env \<Rightarrow> nat \<Rightarrow> nat \<Rightarrow> bus \<Rightarrow> bus" where
  "SendKeepAliveMessage e callback r b =
     (case SetInt32Value ATTR_MSG_TYPE KEEP_ALIVE Attributes_new of
        (stored, request) \<Rightarrow>
          if \<not> stored then b
          else
            let connectionName = sk_connectionName (sb_heap b r)
            in case Bus_SendMessage e connectionName CLIENT_SOCKET_ENDPOINT_NAME REMOTE_SERVICE_ENDPOINT_NAME
                      (Some request) (Some callback) b of
                 (ret, b) \<Rightarrow>
                   if ret \<noteq> SUCCESS then b\<lparr>sb_tasks := sb_tasks b @ [DownTask connectionName]\<rparr> else b)"

section \<open>Steps\<close>

text \<open>Listeners register and go as the contexts want; a timer fires on a socket that is still held.\<close>

datatype bus_label =
    BusStart bus_env
  | BusStop bus_env
  | BusRegister bytes bytes "nat option"
  | BusUnregister bytes bytes
  | BusOpen bus_env bytes u32 bytes
  | BusClose bus_env bytes
  | BusSend bus_env bytes bytes bytes "attributes option" "nat option"
  | BusTask bus_env nat
  | BusServiceUp
  | BusServiceDown i32
  | BusBind i32 "bytes option" "bytes option"
  | BusShutdown i32 i32
  | BusClientBytes bus_env i32 "bytes option"
  | BusServerBytes bus_env i32 "bytes option"
  | BusReplyTimeOut nat u32
  | BusKeepAlive bus_env nat nat

fun run_bus_task :: "bus_env \<Rightarrow> bus_task \<Rightarrow> bus \<Rightarrow> bus" where
  "run_bus_task e (OpenTask connectionName tokenId networkId) b = DoOpenConnection e connectionName tokenId networkId b"
| "run_bus_task e (CloseTask connectionName) b = snd (DoCloseConnection connectionName b)"
| "run_bus_task e (DownTask connectionName) b = Bus_OnConnectionDown connectionName b"
| "run_bus_task e InitTask b = service_init_tries e 0 BIND_SERVICE_MAX_RETRY_TIMES b"

fun bus_step :: "bus_label \<Rightarrow> bus \<Rightarrow> bus" where
  "bus_step (BusStart e) b = SoftBus_Start e b"
| "bus_step (BusStop e) b = SoftBus_Stop e b"
| "bus_step (BusRegister n p l) b = b\<lparr>sb_listeners := snd (Connect_RegisterListener n p l (sb_listeners b))\<rparr>"
| "bus_step (BusUnregister n p) b = b\<lparr>sb_listeners := snd (Connect_UnregisterListener n p (sb_listeners b))\<rparr>"
| "bus_step (BusOpen e n t i) b = snd (Bus_OpenConnection e n t i b)"
| "bus_step (BusClose e n) b = snd (Bus_CloseConnection e n b)"
| "bus_step (BusSend e n src dest a cb) b = snd (Bus_SendMessage e n src dest a cb b)"
| "bus_step (BusTask e i) b =
     (if i < length (sb_tasks b)
      then run_bus_task e (sb_tasks b ! i) (b\<lparr>sb_tasks := take i (sb_tasks b) @ drop (Suc i) (sb_tasks b)\<rparr>) else b)"
| "bus_step BusServiceUp b = ServiceSocketInit b"
| "bus_step (BusServiceDown reason) b = ServiceSocketUnInit reason b"
| "bus_step (BusBind i pkg n) b = Listener_OnBind i pkg n b"
| "bus_step (BusShutdown i reason) b = Listener_OnShutdown i reason b"
| "bus_step (BusClientBytes e i d) b = Listener_OnClientBytes e i d b"
| "bus_step (BusServerBytes e i d) b = Listener_OnServerBytes e i d b"
| "bus_step (BusReplyTimeOut r q) b = (if held r b then ReplyTimerTimeOut r q b else b)"
| "bus_step (BusKeepAlive e cb r) b =
     (if held r b \<and> sk_keepAliveTimerId (sb_heap b r) \<noteq> None then SendKeepAliveMessage e cb r b else b)"

definition bus_run :: "bus_label list \<Rightarrow> bus \<Rightarrow> bus" where
  "bus_run ls b = fold bus_step ls b"

end
