(* ===== verification/Soft_Bus_Properties.thy ===== *)
theory Soft_Bus_Properties
  imports Soft_Bus_Manager Remote_Invoker_Properties
begin

text \<open>
  Whom a device believes on a connection. The network id under which a listener hears a request is the one of the very
  socket on which the message came: the one the soft bus gave for it when the peer bound itself, or the one that the
  connection was opened to. The name of the connection is the peer's own claim: the first name a peer uses makes the
  device send what goes to that connection to the peer, and a listener of that connection hears it.
\<close>

section \<open>What a step leaves alone\<close>

text \<open>What tells a socket from another stays as it is; peers may be unbound, and are bound by one callback only.\<close>

definition kept :: "bus_socket \<Rightarrow> bus_socket \<Rightarrow> bool" where
  "kept k k' \<longleftrightarrow>
     sk_server k' = sk_server k \<and> sk_socketId k' = sk_socketId k \<and> sk_connectionName k' = sk_connectionName k \<and>
     sk_networkId k' = sk_networkId k \<and> map_of (sk_serverSocketBindMap k') \<subseteq>\<^sub>m map_of (sk_serverSocketBindMap k)"

text \<open>\<open>heard_ok x\<close>: no request was heard, or every one under the network id \<open>x\<close>.\<close>

definition heard_ok :: "bytes option \<Rightarrow> bus_output \<Rightarrow> bool" where
  "heard_ok x out \<longleftrightarrow>
     (\<forall>l n p request reply. out = RequestHeard l n p request reply \<longrightarrow>
        (\<exists>peer. x = Some peer \<and> GetStringValue ATTR_COLLECTOR_NETWORK_ID request = Some peer))"

definition tells :: "bytes option \<Rightarrow> bus \<Rightarrow> bus \<Rightarrow> bool" where
  "tells x b b' \<longleftrightarrow> (\<exists>ys. sb_outputs b' = sb_outputs b @ ys \<and> list_all (heard_ok x) ys)"

definition grown :: "bytes option \<Rightarrow> bus \<Rightarrow> bus \<Rightarrow> bool" where
  "grown x b b' \<longleftrightarrow> (\<forall>r < sb_fresh b. kept (sb_heap b r) (sb_heap b' r)) \<and> sb_fresh b \<le> sb_fresh b' \<and> tells x b b'"

definition calm :: "bytes option \<Rightarrow> bus \<Rightarrow> bus \<Rightarrow> bool" where
  "calm x b b' \<longleftrightarrow>
     grown x b b' \<and> set (sb_socketMap b') \<subseteq> set (sb_socketMap b) \<and> sb_serverSocket b' \<in> {sb_serverSocket b, None}"

lemma map_le_none [simp]: "m \<subseteq>\<^sub>m (\<lambda>_. None) \<longleftrightarrow> m = (\<lambda>_. None)"
proof
  assume "m \<subseteq>\<^sub>m (\<lambda>_. None)"
  then have "m x = None" for x by (cases "m x") (auto simp: map_le_def dom_def)
  then show "m = (\<lambda>_. None)" by auto
qed simp

lemma kept_refl [simp]: "kept k k"
  by (simp add: kept_def)

lemma kept_trans: "kept k k1 \<Longrightarrow> kept k1 k2 \<Longrightarrow> kept k k2"
  by (auto simp: kept_def intro: map_le_trans)

lemma tells_refl [simp]: "tells x b b"
  by (simp add: tells_def)

lemma calm_refl [simp]: "calm x b b"
  by (simp add: calm_def grown_def)

lemma tells_trans: "tells x b c \<Longrightarrow> tells x c d \<Longrightarrow> tells x b d"
  unfolding tells_def by (metis append_assoc list_all_append)

lemma grown_trans: "grown x b c \<Longrightarrow> grown x c d \<Longrightarrow> grown x b d"
  unfolding grown_def using kept_trans tells_trans by (meson order_less_le_trans order_trans)

lemma calm_trans: "calm x b c \<Longrightarrow> calm x c d \<Longrightarrow> calm x b d"
  unfolding calm_def by (auto intro: grown_trans)

lemma tells_emit: "tells x b c \<Longrightarrow> list_all (heard_ok x) ys \<Longrightarrow> tells x b (bus_emit ys c)"
  by (auto simp: tells_def bus_emit_def)

lemma calm_emit [intro]: "calm x b c \<Longrightarrow> list_all (heard_ok x) ys \<Longrightarrow> calm x b (bus_emit ys c)"
  by (simp add: calm_def grown_def tells_emit) (simp add: bus_emit_def)

lemma calm_on_socket [intro]: "calm x b c \<Longrightarrow> kept (sb_heap c r) (f (sb_heap c r)) \<Longrightarrow> calm x b (on_socket r f c)"
  by (auto simp: calm_def grown_def on_socket_def tells_def intro: kept_trans)

lemma tells_updates [simp]:
  "tells x b (c\<lparr>sb_heap := h\<rparr>) = tells x b c" "tells x b (c\<lparr>sb_fresh := n\<rparr>) = tells x b c"
  "tells x b (c\<lparr>sb_socketMap := m\<rparr>) = tells x b c" "tells x b (c\<lparr>sb_clientSocketMap := cm\<rparr>) = tells x b c"
  "tells x b (c\<lparr>sb_serverSocket := s\<rparr>) = tells x b c" "tells x b (c\<lparr>sb_listeners := ls\<rparr>) = tells x b c"
  "tells x b (c\<lparr>sb_messageSeq := q\<rparr>) = tells x b c" "tells x b (c\<lparr>sb_tasks := ts\<rparr>) = tells x b c"
  "tells x b (c\<lparr>sb_inited := y\<rparr>) = tells x b c" "tells x b (c\<lparr>sb_deviceListener := y\<rparr>) = tells x b c"
  "tells x b (c\<lparr>sb_busListener := y\<rparr>) = tells x b c" "tells x b (on_socket r f c) = tells x b c"
  by (simp_all add: tells_def on_socket_def)

lemma calm_updates [simp]:
  "calm x b (c\<lparr>sb_clientSocketMap := cm\<rparr>) = calm x b c" "calm x b (c\<lparr>sb_listeners := ls\<rparr>) = calm x b c"
  "calm x b (c\<lparr>sb_messageSeq := q\<rparr>) = calm x b c" "calm x b (c\<lparr>sb_tasks := ts\<rparr>) = calm x b c"
  "calm x b (c\<lparr>sb_inited := y\<rparr>) = calm x b c" "calm x b (c\<lparr>sb_deviceListener := y\<rparr>) = calm x b c"
  "calm x b (c\<lparr>sb_busListener := y\<rparr>) = calm x b c"
  by (simp_all add: calm_def grown_def)

lemma calm_tells: "calm x b c \<Longrightarrow> tells x b c"
  by (simp add: calm_def grown_def)

lemma heard_other [simp]:
  "heard_ok x (BytesSent i d)" "heard_ok x (TimerStarted t)" "heard_ok x (TimerStopped t)"
  "heard_ok x (StatusTold l n y)" "heard_ok x (AckHeard cb a)" "heard_ok x (SocketClosed i)"
  "heard_ok x (FaultReported f)" "heard_ok x (FirstCallerSet u)" "heard_ok x (OpenReported n p i r)"
  by (simp_all add: heard_ok_def)

section \<open>Sending and hearing\<close>

lemma calm_status [intro]:
  "calm x b c \<Longrightarrow> calm x b (Bus_OnConnectionDown n c)" "calm x b c \<Longrightarrow> calm x b (Bus_OnConnectionUp n c)"
  by (auto simp: Bus_OnConnectionDown_def Bus_OnConnectionUp_def list_all_iff split: prod.split intro!: calm_emit)

lemma kept_simps [simp]:
  "kept k (InsertMsgCallback q n cb t k)" "kept k (RemoveMsgCallback q k)" "kept k (RefreshTraceInfo n t y q k)"
  "kept k (k\<lparr>sk_trace := tr\<rparr>)" "kept k (k\<lparr>sk_keepAliveTimerId := kt\<rparr>)" "kept k (AddClientConnection i n k)"
  "kept k (DeleteClientConnection i k)" "kept k (DeleteServerSocket i k)"
  "kept k (DeleteClientConnection i (DeleteServerSocket i k))"
  by (auto simp: kept_def InsertMsgCallback_def RemoveMsgCallback_def RefreshTraceInfo_def AddClientConnection_def
      DeleteClientConnection_def DeleteServerSocket_def map_le_def split: option.split)

lemma calm_send:
  assumes "calm x b c"
  shows "calm x b (snd (Socket_SendRequest e r i n src dest a cb c))"
    and "calm x b (snd (Socket_SendResponse e r i n src dest a q c))"
  using assms
  by (auto simp: Socket_SendRequest_def Socket_SendResponse_def GetMessageSeq_def StartReplyTimer_def Let_def
      intro!: calm_emit calm_on_socket split: option.split)

lemma network_id_set:
  assumes "SetStringValue ATTR_COLLECTOR_NETWORK_ID n a = (True, a')"
  shows "GetStringValue ATTR_COLLECTOR_NETWORK_ID a' = Some n"
  using attr_at_put [OF assms [unfolded setters_as_puts]] by (auto intro: encoded_reads(4))

lemma calm_parse:
  assumes "Socket_ParseMessage r peer d c = (m, c')" "calm x b c"
  shows "calm x b c'"
    and "m = Some m' \<Longrightarrow> \<exists>a. bm_attributes m' = Some a \<and> GetStringValue ATTR_COLLECTOR_NETWORK_ID a = Some peer"
  using assms
  by (auto simp: Socket_ParseMessage_def Let_def network_id_set intro!: calm_on_socket split: option.splits prod.splits if_splits)

lemma calm_process:
  assumes "calm (Some peer) b c" "bm_attributes m = Some a" "GetStringValue ATTR_COLLECTOR_NETWORK_ID a = Some peer"
  shows "calm (Some peer) b (snd (ProcessMessage e m response c))"
  using assms by (auto simp: ProcessMessage_def Let_def heard_ok_def intro!: calm_emit split: option.split prod.split)

lemma calm_receive:
  assumes "calm (Some peer) b c" "bm_attributes m = Some a" "GetStringValue ATTR_COLLECTOR_NETWORK_ID a = Some peer"
  shows "calm (Some peer) b (snd (ProcDataReceive e r i m c))"
proof (cases "i = INVALID_SOCKET_ID \<or> bm_isAck m")
  case True
  then show ?thesis
    using assms(1,2) by (auto simp: ProcDataReceive_def StopReplyTimer_def Let_def intro!: calm_on_socket calm_emit split: option.split)
next
  case False
  obtain response c1 where c1: "ProcessMessage e m Attributes_new c = (response, c1)" by fastforce
  have "calm (Some peer) b c1" using calm_process [OF assms, of e Attributes_new] c1 by simp
  then show ?thesis using False assms(2) by (simp add: ProcDataReceive_def c1 calm_send)
qed

text \<open>Bytes are heard under the network id of their own socket.\<close>

lemma calm_server_bytes: "calm (Some (GetNetworkIdBySocketId i (sb_heap b r))) b (Server_OnBytes e r i d b)"
proof (cases "GetNetworkIdBySocketId i (sb_heap b r) = [] \<or> d = []")
  case False
  let ?peer = "GetNetworkIdBySocketId i (sb_heap b r)"
  obtain m c where p: "Socket_ParseMessage r ?peer d b = (m, c)" by fastforce
  note c = calm_parse(1) [OF p calm_refl]
  show ?thesis
  proof (cases m)
    case (Some m')
    obtain a where a: "bm_attributes m' = Some a" "GetStringValue ATTR_COLLECTOR_NETWORK_ID a = Some ?peer"
      using calm_parse(2) [OF p calm_refl Some] by blast
    let ?c = "if \<not> bm_isAck m' \<and> bm_connectionName m' \<noteq> [] then on_socket r (AddClientConnection i (bm_connectionName m')) c else c"
    have "calm (Some ?peer) b ?c" using c by (auto intro!: calm_on_socket)
    then show ?thesis using calm_receive [OF _ a] False by (simp add: Server_OnBytes_def p Some Let_def)
  qed (use False c in \<open>simp add: Server_OnBytes_def p Let_def\<close>)
qed (simp add: Server_OnBytes_def)

lemma calm_client_bytes: "calm (Some (sk_networkId (sb_heap b r))) b (Client_OnBytes e r i d b)"
proof (cases "d = [] \<or> sk_networkId (sb_heap b r) = []")
  case False
  obtain m c where p: "Socket_ParseMessage r (sk_networkId (sb_heap b r)) d b = (m, c)" by fastforce
  show ?thesis
    using False calm_parse [OF p calm_refl] calm_receive [OF calm_parse(1) [OF p calm_refl]]
    by (cases m) (auto simp: Client_OnBytes_def p)
qed (simp add: Client_OnBytes_def)

lemma heard_weaken: "heard_ok None out \<Longrightarrow> heard_ok x out"
  by (auto simp: heard_ok_def)

lemma calm_weaken: "calm None b c \<Longrightarrow> calm x b c"
  unfolding calm_def grown_def tells_def using heard_weaken by (metis list_all_iff)

text \<open>The socket that bytes of either callback go to, with the network id it answers for.\<close>

definition socket_peer :: "bus \<Rightarrow> i32 \<Rightarrow> nat \<Rightarrow> bytes" where
  "socket_peer b i r =
     (if sk_server (sb_heap b r) then GetNetworkIdBySocketId i (sb_heap b r) else sk_networkId (sb_heap b r))"

lemma calm_listener_client:
  assumes "sb_serverSocket b = Some r"
  shows "calm (Some (GetNetworkIdBySocketId i (sb_heap b r))) b (Listener_OnClientBytes e i d b)"
  using assms by (simp add: Listener_OnClientBytes_def Bus_OnClientBytes_def calm_server_bytes split: option.split)

lemma calm_listener_server:
  assumes "FindSocketBySocketId i b = Some r"
  shows "calm (Some (socket_peer b i r)) b (Listener_OnServerBytes e i d b)"
  using assms
  by (simp add: Listener_OnServerBytes_def Bus_OnServerBytes_def socket_peer_def calm_server_bytes calm_client_bytes
      split: option.split)

lemma deaf_listeners [simp]:
  "sb_serverSocket b = None \<Longrightarrow> Listener_OnClientBytes e i d b = b"
  "FindSocketBySocketId i b = None \<Longrightarrow> Listener_OnServerBytes e i d b = b"
  by (simp_all add: Listener_OnClientBytes_def Bus_OnClientBytes_def Listener_OnServerBytes_def Bus_OnServerBytes_def
      split: option.split)

section \<open>The other steps\<close>

lemma set_key_erase: "set (key_erase k m) \<subseteq> set m"
  by (auto simp: key_erase_def)

lemma calm_maps [intro]:
  "calm x b c \<Longrightarrow> calm x b (DeleteSocket i c)" "calm x b c \<Longrightarrow> calm x b (AddConnection n r c)"
  "calm x b c \<Longrightarrow> calm x b (DeleteConnection n c)" "calm x b c \<Longrightarrow> calm x b (let_go r c)"
  "calm x b c \<Longrightarrow> calm x b (c\<lparr>sb_serverSocket := None\<rparr>)"
  using set_key_erase
  by (fastforce simp: DeleteSocket_def AddConnection_def DeleteConnection_def let_go_def calm_def grown_def tells_def bus_emit_def
      split: option.split)+

lemma calm_start: "calm x b (SoftBus_Start e b)" "calm x b (SoftBus_Stop e b)"
  by (auto simp: SoftBus_Start_def SoftBus_Stop_def RegistDeviceManagerListener_def RegistSoftBusListener_def
      UnRegistDeviceManagerListener_def UnRegistSoftBusListener_def)

lemma calm_shutdown: "calm x b c \<Longrightarrow> calm x b (Bus_OnShutdown i reason c)"
  by (auto simp: Bus_OnShutdown_def report_shutdown_def Server_OnShutdown_def Client_OnShutdown_def Let_def
      intro!: calm_emit calm_maps calm_on_socket calm_status split: option.split)

lemma calm_uninit: "calm x b (ServiceSocketUnInit reason b)"
proof -
  have "calm x b (fold (\<lambda>i. Bus_OnShutdown i reason) ids c)" if "calm x b c" for ids c
    using that by (induction ids arbitrary: c) (simp_all add: calm_shutdown)
  then have "calm x b (let_go r (fold (\<lambda>i. Bus_OnShutdown i reason) ids ((DeleteSocket y b)\<lparr>sb_serverSocket := None\<rparr>)))"
    for r ids y by (simp add: calm_maps)
  then show ?thesis by (simp add: ServiceSocketUnInit_def Let_def split: option.split)
qed

lemma calm_bus_send: "calm x b (snd (Bus_SendMessage e n src dest a cb b))"
proof -
  have server: "calm x b (snd (Server_SendMessage e r n src dest a cb b))" for r
    by (simp add: Server_SendMessage_def Let_def calm_send(1))
  have client: "calm x b (snd (Client_SendMessage e r n src dest a cb c))" if "calm x b c" for r c
  proof -
    have "calm x b (RefreshKeepAliveTimer e r c)"
      using that by (auto simp: RefreshKeepAliveTimer_def Let_def intro!: calm_on_socket calm_emit split: option.split)
    then show ?thesis using calm_send(1) that by (simp add: Client_SendMessage_def Let_def)
  qed
  show ?thesis
  proof (cases "a = None \<or> sb_serverSocket b = None")
    case False
    then obtain r where r: "sb_serverSocket b = Some r" by auto
    obtain ret c where c: "Server_SendMessage e r n src dest a cb b = (ret, c)" by fastforce
    have "calm x b c" using server [of r] c by simp
    then show ?thesis
      using False client [of c] by (auto simp: Bus_SendMessage_def r c split: option.split prod.split) (metis snd_conv)
  qed (auto simp: Bus_SendMessage_def)
qed

lemma calm_keep_alive: "calm x b (SendKeepAliveMessage e cb r b)"
  using calm_bus_send [of x b]
  by (auto simp: SendKeepAliveMessage_def Let_def split: prod.splits) (metis snd_conv)+

lemma calm_time_out: "calm x b (ReplyTimerTimeOut r q b)"
  by (auto simp: ReplyTimerTimeOut_def Let_def intro!: calm_on_socket calm_status calm_emit)

lemma calm_close: "calm x b c \<Longrightarrow> calm x b (snd (DoCloseConnection n c))"
  by (auto simp: DoCloseConnection_def Let_def intro!: calm_maps calm_status split: option.split)

section \<open>Sockets that a task makes\<close>

text \<open>A new socket on the heap, entered under its id: of the server, or of a connection that was opened.\<close>

definition enters :: "i32 \<Rightarrow> bus_socket \<Rightarrow> bus \<Rightarrow> bus \<Rightarrow> bool" where
  "enters i k b b' \<longleftrightarrow>
     grown None b b' \<and> sb_fresh b < sb_fresh b' \<and> kept k (sb_heap b' (sb_fresh b)) \<and>
     set (sb_socketMap b') \<subseteq> insert (i, sb_fresh b) (set (sb_socketMap b))"

lemma allocated:
  assumes "allocate k b = (r, c)"
  shows "r = sb_fresh b" "calm x b c" "sb_fresh c = Suc r" "sb_heap c r = k" "sb_serverSocket c = sb_serverSocket b"
  using assms by (auto simp: allocate_def calm_def grown_def tells_def)

lemma enters_add:
  assumes "allocate k b = (r, c)" "calm None c d" "sb_serverSocket d = sb_serverSocket c"
  shows "enters i k b (AddSocket i r d)"
proof -
  note al = allocated [OF assms(1)]
  have d: "calm None b d" "sb_fresh b < sb_fresh d" "kept k (sb_heap d (sb_fresh b))"
    using calm_trans [OF al(2) assms(2)] assms(2) al by (auto simp: calm_def grown_def)
  have "set (sb_socketMap (AddSocket i r d)) \<subseteq> insert (i, r) (set (sb_socketMap d))"
    by (auto simp: AddSocket_def dest: values_omap_assign)
  moreover have "sb_heap (AddSocket i r d) = sb_heap d" "sb_fresh (AddSocket i r d) = sb_fresh d"
    "sb_outputs (AddSocket i r d) = sb_outputs d" by (simp_all add: AddSocket_def)
  ultimately show ?thesis using d al(1) by (auto simp: enters_def calm_def grown_def tells_def)
qed

lemma enters_calm:
  assumes "enters i k b c" "calm None c d"
  shows "enters i k b d"
  using assms grown_trans [of None b c d] kept_trans by (auto simp: enters_def calm_def grown_def)

lemma let_go_server [simp]: "sb_serverSocket (let_go r b) = sb_serverSocket b"
  by (simp add: let_go_def bus_emit_def)

lemma opening_cases:
  obtains (failed) "calm None b (DoOpenConnection e n t peer b)"
      "sb_serverSocket (DoOpenConnection e n t peer b) = sb_serverSocket b"
  | (opened) i where "enters i (CreateClientSocket i n peer) b (DoOpenConnection e n t peer b)"
      "OpenReported n peer i SUCCESS \<in> set (sb_outputs (DoOpenConnection e n t peer b))"
      "sb_serverSocket (DoOpenConnection e n t peer b) = sb_serverSocket b"
proof -
  let ?i = "ClientSocketInit e n peer" and ?b = "bus_emit [FirstCallerSet t] b"
  obtain q c where al: "allocate (CreateClientSocket ?i n peer) ?b = (q, c)" by fastforce
  note a = allocated [OF al]
  have b: "calm None b ?b" by (auto intro!: calm_emit)
  then have c: "calm None b c" using calm_trans a(2) by blast
  have server: "sb_serverSocket c = sb_serverSocket b" using a(5) by (simp add: bus_emit_def)
  have down: "sb_serverSocket (Bus_OnConnectionDown n d) = sb_serverSocket d"
    "sb_serverSocket (Bus_OnConnectionUp n d) = sb_serverSocket d"
    "set (sb_outputs d) \<subseteq> set (sb_outputs (Bus_OnConnectionUp n d))" for d
    by (auto simp: Bus_OnConnectionDown_def Bus_OnConnectionUp_def bus_emit_def split: prod.split)
  show thesis
  proof (cases "sint ?i \<le> - 1 \<or> ClientSocketBind e \<noteq> SUCCESS")
    case True
    then have "calm None b (DoOpenConnection e n t peer b)"
      using b c by (auto simp: DoOpenConnection_def DoOpenConnectionInner_def Let_def al intro!: calm_status calm_emit calm_maps)
    moreover have "sb_serverSocket (DoOpenConnection e n t peer b) = sb_serverSocket b"
      using True server by (auto simp: DoOpenConnection_def DoOpenConnectionInner_def Let_def al down) (simp_all add: bus_emit_def)
    ultimately show thesis by (rule failed)
  next
    case False
    let ?d = "let_go q (AddSocket ?i q (AddConnection n q c))"
    have r: "DoOpenConnection e n t peer b = Bus_OnConnectionUp n (bus_emit [OpenReported n peer ?i SUCCESS] ?d)"
      using False by (simp add: DoOpenConnection_def DoOpenConnectionInner_def Let_def al)
    have "sb_serverSocket (AddConnection n q c) = sb_serverSocket c" by (simp add: AddConnection_def)
    then have "enters ?i (CreateClientSocket ?i n peer) ?b (AddSocket ?i q (AddConnection n q c))"
      using enters_add [OF al] by (simp add: calm_maps)
    then have "enters ?i (CreateClientSocket ?i n peer) ?b (DoOpenConnection e n t peer b)"
      unfolding r by (rule enters_calm) (auto intro!: calm_status calm_emit calm_maps)
    then have "enters ?i (CreateClientSocket ?i n peer) b (DoOpenConnection e n t peer b)"
      using b grown_trans [of None b ?b] by (auto simp: enters_def calm_def bus_emit_def)
    moreover have "OpenReported n peer ?i SUCCESS \<in> set (sb_outputs (bus_emit [OpenReported n peer ?i SUCCESS] ?d))"
      by (simp add: bus_emit_def)
    then have "OpenReported n peer ?i SUCCESS \<in> set (sb_outputs (DoOpenConnection e n t peer b))"
      unfolding r using down(3) by blast
    moreover have "sb_serverSocket (DoOpenConnection e n t peer b) = sb_serverSocket b"
      unfolding r using server by (simp add: down) (simp add: bus_emit_def AddSocket_def AddConnection_def)
    ultimately show thesis by (rule opened)
  qed
qed

lemma init_cases:
  obtains (failed) "calm None b (service_init_tries e n left b)"
      "sb_serverSocket (service_init_tries e n left b) = sb_serverSocket b"
  | (inited) i where "enters i (ServerSocket i) b (service_init_tries e n left b)"
      "sb_serverSocket (service_init_tries e n left b) = Some (sb_fresh b)"
proof -
  let ?failed = "\<lambda>b d. calm None b d \<and> sb_serverSocket d = sb_serverSocket b"
  let ?inited = "\<lambda>b d. \<exists>i. enters i (ServerSocket i) b d \<and> sb_serverSocket d = Some (sb_fresh b)"
  have one: "?failed b c \<and> ret \<noteq> SUCCESS \<or> ?inited b c \<and> ret = SUCCESS" if "DoServiceSocketInit e n b = (ret, c)" for n b ret c
  proof (cases "CheckAndCopyStr SOCKET_NAME_MAX_LEN (USER_AUTH_SOCKET_NAME @ map of_char ''service'') = None \<or>
      CheckAndCopyStr PACKAGE_NAME_MAX_LEN USER_AUTH_PACKAGE_NAME = None \<or> sint (be_socket e n) \<le> - 1 \<or> be_listen e n \<noteq> SUCCESS")
    case True
    then show ?thesis
      using that by (auto simp: DoServiceSocketInit_def Let_def bus_emit_def calm_def grown_def tells_def
          split: option.splits if_splits)
  next
    case False
    let ?i = "be_socket e n"
    obtain r d where al: "allocate (ServerSocket ?i) b = (r, d)" by fastforce
    note a = allocated [OF al]
    let ?d = "(AddSocket ?i r d)\<lparr>sb_serverSocket := Some r\<rparr>"
    have c: "c = (case sb_serverSocket d of None \<Rightarrow> ?d | Some old \<Rightarrow> let_go old ?d)" "ret = SUCCESS"
      using that False by (auto simp: DoServiceSocketInit_def Let_def al split: option.splits)
    have "enters ?i (ServerSocket ?i) b (AddSocket ?i r d)" using enters_add [OF al calm_refl refl] .
    then have "enters ?i (ServerSocket ?i) b ?d" by (simp add: enters_def grown_def)
    then have "enters ?i (ServerSocket ?i) b (let_go old ?d)" for old by (rule enters_calm) (auto intro!: calm_maps)
    then have "enters ?i (ServerSocket ?i) b c \<and> sb_serverSocket c = Some (sb_fresh b)"
      using \<open>enters ?i (ServerSocket ?i) b ?d\<close> c(1) a(1) by (auto split: option.splits)
    then show ?thesis using c(2) by blast
  qed
  have later: "?inited b d" if "?failed b c" "sb_fresh c = sb_fresh b" "?inited c d" for b c d
    using that grown_trans [of None b c d] by (auto simp: enters_def calm_def)
  have fresh: "sb_fresh c = sb_fresh b" if "DoServiceSocketInit e n b = (ret, c)" "ret \<noteq> SUCCESS" for n b ret c
    using that by (auto simp: DoServiceSocketInit_def Let_def bus_emit_def split: option.splits if_splits prod.splits)
  have "?failed b (service_init_tries e n left b) \<or> ?inited b (service_init_tries e n left b)"
  proof (induction left arbitrary: n b)
    case (Suc left)
    obtain ret c where c: "DoServiceSocketInit e n b = (ret, c)" by fastforce
    show ?case
    proof (cases "ret = SUCCESS")
      case True
      then show ?thesis using one [OF c] c by auto
    next
      case False
      then have f: "?failed b c" "sb_fresh c = sb_fresh b" using one [OF c] fresh [OF c] by auto
      show ?thesis
        using Suc [where n = "Suc n" and b = c] later [OF f] calm_trans f False c by auto
    qed
  qed simp
  then show thesis using failed inited by blast
qed

section \<open>Who a socket belongs to\<close>

text \<open>The peer of a socket of the server: the one named by the last binding that was not followed by a shutdown.\<close>

fun bind_step :: "i32 \<Rightarrow> bus_label \<Rightarrow> bytes option \<Rightarrow> bytes option" where
  "bind_step i (BusBind j pkg peer) before =
     (if j = i \<and> \<not> sint j \<le> - 1 \<and> pkg = Some USER_AUTH_PACKAGE_NAME \<and> peer \<noteq> None then peer else before)"
| "bind_step i (BusShutdown j reason) before = (if j = i \<and> \<not> sint j \<le> - 1 then None else before)"
| "bind_step i l before = before"

definition bound_peer :: "bus_label list \<Rightarrow> i32 \<Rightarrow> bytes option" where
  "bound_peer ls i = fold (bind_step i) ls None"

definition ever_bound :: "bus_label list \<Rightarrow> i32 \<Rightarrow> bytes \<Rightarrow> bool" where
  "ever_bound ls i peer \<longleftrightarrow> BusBind i (Some USER_AUTH_PACKAGE_NAME) (Some peer) \<in> set ls"

definition owned :: "bus_label list \<Rightarrow> bus \<Rightarrow> i32 \<Rightarrow> nat \<Rightarrow> bool" where
  "owned ls b i r \<longleftrightarrow>
     (if sk_server (sb_heap b r)
      then \<forall>j peer. map_of (sk_serverSocketBindMap (sb_heap b r)) j = Some peer \<longrightarrow> ever_bound ls j peer
      else sk_socketId (sb_heap b r) = i \<and>
           OpenReported (sk_connectionName (sb_heap b r)) (sk_networkId (sb_heap b r)) i SUCCESS \<in> set (sb_outputs b))"

definition traced :: "bus_label list \<Rightarrow> bus \<Rightarrow> bool" where
  "traced ls b \<longleftrightarrow>
     (\<forall>(i, r) \<in> set (sb_socketMap b). r < sb_fresh b \<and> owned ls b i r) \<and>
     (\<forall>r. sb_serverSocket b = Some r \<longrightarrow> r < sb_fresh b \<and> sk_server (sb_heap b r) \<and>
        (\<forall>i peer. map_of (sk_serverSocketBindMap (sb_heap b r)) i = Some peer \<longrightarrow> bound_peer ls i = Some peer))"

lemma bound_snoc: "bound_peer (ls @ [l]) i = bind_step i l (bound_peer ls i)"
  by (simp add: bound_peer_def)

lemma ever_mono: "set ls \<subseteq> set ls' \<Longrightarrow> ever_bound ls i peer \<Longrightarrow> ever_bound ls' i peer"
  by (auto simp: ever_bound_def)

lemma owned_grown:
  assumes "owned ls b i r" "r < sb_fresh b" "grown x b b'" "set ls \<subseteq> set ls'"
  shows "owned ls' b' i r"
proof -
  have k: "kept (sb_heap b r) (sb_heap b' r)" and out: "set (sb_outputs b) \<subseteq> set (sb_outputs b')"
    using assms(2,3) by (auto simp: grown_def tells_def)
  show ?thesis
    using assms(1) k out ever_mono [OF assms(4)] unfolding owned_def kept_def map_le_def
    by (auto split: if_splits) (metis domI)
qed

lemma traced_calm:
  assumes "traced ls b" "calm x b b'" "set ls \<subseteq> set ls'"
    and "\<And>r i peer. sb_serverSocket b' = Some r \<Longrightarrow> map_of (sk_serverSocketBindMap (sb_heap b' r)) i = Some peer \<Longrightarrow>
      bound_peer ls i = Some peer \<Longrightarrow> bound_peer ls' i = Some peer"
  shows "traced ls' b'"
proof -
  have g: "grown x b b'" "sb_fresh b \<le> sb_fresh b'" using assms(2) by (auto simp: calm_def grown_def)
  have "r < sb_fresh b' \<and> owned ls' b' i r" if "(i, r) \<in> set (sb_socketMap b')" for i r
    using that assms(1,2) g owned_grown [OF _ _ g(1) assms(3)] by (fastforce simp: traced_def calm_def)
  moreover have "r < sb_fresh b' \<and> sk_server (sb_heap b' r) \<and>
      (\<forall>i peer. map_of (sk_serverSocketBindMap (sb_heap b' r)) i = Some peer \<longrightarrow> bound_peer ls' i = Some peer)"
    if r: "sb_serverSocket b' = Some r" for r
  proof -
    have "sb_serverSocket b = Some r" using r assms(2) by (auto simp: calm_def)
    then have b: "r < sb_fresh b" "sk_server (sb_heap b r)"
      "\<And>i peer. map_of (sk_serverSocketBindMap (sb_heap b r)) i = Some peer \<Longrightarrow> bound_peer ls i = Some peer"
      using assms(1) by (auto simp: traced_def)
    have k: "kept (sb_heap b r) (sb_heap b' r)" using b(1) g(1) by (simp add: grown_def)
    then have "map_of (sk_serverSocketBindMap (sb_heap b r)) i = Some peer"
      if "map_of (sk_serverSocketBindMap (sb_heap b' r)) i = Some peer" for i peer
      using that unfolding kept_def map_le_def by (metis domI)
    then show ?thesis using k b g(2) assms(4) [OF r] by (auto simp: kept_def)
  qed
  ultimately show ?thesis by (auto simp: traced_def)
qed

lemma traced_enters:
  assumes "traced ls b" "enters i k b b'" "set ls \<subseteq> set ls'" "\<And>j. bound_peer ls' j = bound_peer ls j"
    and "sb_serverSocket b' = sb_serverSocket b \<and> \<not> sk_server k \<and> sk_socketId k = i \<and>
         OpenReported (sk_connectionName k) (sk_networkId k) i SUCCESS \<in> set (sb_outputs b') \<or>
       sb_serverSocket b' = Some (sb_fresh b) \<and> sk_server k \<and> sk_serverSocketBindMap k = []"
  shows "traced ls' b'"
proof -
  have g: "grown None b b'" "sb_fresh b < sb_fresh b'" "kept k (sb_heap b' (sb_fresh b))"
    "set (sb_socketMap b') \<subseteq> insert (i, sb_fresh b) (set (sb_socketMap b))"
    using assms(2) by (auto simp: enters_def)
  have new: "owned ls' b' i (sb_fresh b)" using assms(5) g(3) by (auto simp: owned_def kept_def)
  have "r < sb_fresh b' \<and> owned ls' b' j r" if "(j, r) \<in> set (sb_socketMap b')" for j r
  proof (cases "(j, r) = (i, sb_fresh b)")
    case False
    then have "r < sb_fresh b" "owned ls b j r" using that g(4) assms(1) by (auto simp: traced_def)
    then show ?thesis using g(2) owned_grown [OF _ _ g(1) assms(3)] by auto
  qed (use new g(2) in simp)
  moreover have "r < sb_fresh b' \<and> sk_server (sb_heap b' r) \<and>
      (\<forall>i peer. map_of (sk_serverSocketBindMap (sb_heap b' r)) i = Some peer \<longrightarrow> bound_peer ls' i = Some peer)"
    if r: "sb_serverSocket b' = Some r" for r
  proof (cases "r = sb_fresh b")
    case True
    have "\<not> sb_serverSocket b = Some r" using True assms(1) by (auto simp: traced_def)
    then show ?thesis using True r assms(5) g by (auto simp: kept_def)
  next
    case False
    then have s: "sb_serverSocket b = Some r" using r assms(5) by auto
    then have b: "r < sb_fresh b" "sk_server (sb_heap b r)"
      "\<And>i peer. map_of (sk_serverSocketBindMap (sb_heap b r)) i = Some peer \<Longrightarrow> bound_peer ls i = Some peer"
      using assms(1) by (auto simp: traced_def)
    have k: "kept (sb_heap b r) (sb_heap b' r)" using b(1) g(1) by (simp add: grown_def)
    then have "map_of (sk_serverSocketBindMap (sb_heap b r)) i = Some peer"
      if "map_of (sk_serverSocketBindMap (sb_heap b' r)) i = Some peer" for i peer
      using that unfolding kept_def map_le_def by (metis domI)
    then show ?thesis using k b g(2) assms(4) by (auto simp: kept_def)
  qed
  ultimately show ?thesis by (auto simp: traced_def)
qed

lemma kept_unbound:
  "kept k k' \<Longrightarrow> map_of (sk_serverSocketBindMap k) i = None \<Longrightarrow> map_of (sk_serverSocketBindMap k') i = None"
  unfolding kept_def map_le_def by (metis domI not_Some_eq)

lemma unbound_after_shutdown:
  assumes "\<not> sint i \<le> - 1" "sb_serverSocket (Bus_OnShutdown i reason b) = Some r" "r < sb_fresh b"
  shows "map_of (sk_serverSocketBindMap (sb_heap (Bus_OnShutdown i reason b) r)) i = None"
proof -
  let ?b = "case sb_serverSocket b of None \<Rightarrow> b | Some r \<Rightarrow> report_shutdown r reason (Server_OnShutdown r i b)"
  have server: "sb_serverSocket b = Some r"
    using assms(2) calm_shutdown [OF calm_refl [of None b], of i reason] by (auto simp: calm_def)
  have i: "i \<noteq> INVALID_SOCKET_ID" using assms(1) by auto
  have unbound: "map_of (sk_serverSocketBindMap (sb_heap ?b r)) i = None"
    using server i
    by (simp add: report_shutdown_def Server_OnShutdown_def Let_def on_socket_def bus_emit_def DeleteClientConnection_def
        DeleteServerSocket_def)
  have own: "calm None d (Server_OnShutdown q i d)" "calm None d (Client_OnShutdown q d)" for d q
    by (auto simp: Server_OnShutdown_def Client_OnShutdown_def Let_def intro!: calm_on_socket calm_status)
  have rest: "calm None d (case FindSocketBySocketId i d of None \<Rightarrow> d
      | Some q \<Rightarrow> let d = (if sk_server (sb_heap d q) then Server_OnShutdown q i d else Client_OnShutdown q d);
            d = DeleteConnection (sk_connectionName (sb_heap d q)) (DeleteSocket i d)
          in let_go q (report_shutdown q reason d))" for d
    using own by (cases "FindSocketBySocketId i d") (auto simp: Let_def report_shutdown_def intro!: calm_maps calm_emit)
  have "calm None ?b (Bus_OnShutdown i reason b)"
    unfolding Bus_OnShutdown_def if_not_P [OF assms(1)] Let_def by (rule rest [unfolded Let_def])
  moreover have "sb_fresh ?b = sb_fresh b"
    by (simp add: report_shutdown_def Server_OnShutdown_def Let_def on_socket_def bus_emit_def Bus_OnConnectionDown_def
        split: option.split prod.split)
  ultimately have "kept (sb_heap ?b r) (sb_heap (Bus_OnShutdown i reason b) r)" using assms(3) by (simp add: calm_def grown_def)
  then show ?thesis by (rule kept_unbound [OF _ unbound])
qed

lemma traced_shutdown:
  assumes "traced ls b"
  shows "traced (ls @ [BusShutdown i reason]) (Listener_OnShutdown i reason b)"
proof (cases "sint i \<le> - 1")
  case True
  then show ?thesis using traced_calm [OF assms calm_refl] by (simp add: Listener_OnShutdown_def bound_snoc subset_iff)
next
  case False
  have c: "calm None b (Bus_OnShutdown i reason b)" by (rule calm_shutdown) simp
  have "r < sb_fresh b" if "sb_serverSocket (Bus_OnShutdown i reason b) = Some r" for r
    using that c assms by (auto simp: calm_def traced_def)
  then have unbound: "map_of (sk_serverSocketBindMap (sb_heap (Bus_OnShutdown i reason b) r)) i = None"
    if "sb_serverSocket (Bus_OnShutdown i reason b) = Some r" for r
    using unbound_after_shutdown [OF False that] that by blast
  have "traced (ls @ [BusShutdown i reason]) (Bus_OnShutdown i reason b)"
  proof (rule traced_calm [OF assms c])
    fix r j peer
    assume a: "sb_serverSocket (Bus_OnShutdown i reason b) = Some r"
      "map_of (sk_serverSocketBindMap (sb_heap (Bus_OnShutdown i reason b) r)) j = Some peer" "bound_peer ls j = Some peer"
    then have "j \<noteq> i" using unbound [OF a(1)] by auto
    then show "bound_peer (ls @ [BusShutdown i reason]) j = Some peer" using a(3) by (simp add: bound_snoc)
  qed auto
  then show ?thesis using False by (simp add: Listener_OnShutdown_def)
qed

lemma traced_bind:
  assumes "traced ls b"
  shows "traced (ls @ [BusBind i pkg peer]) (Listener_OnBind i pkg peer b)"
proof (cases "(\<exists>r. sb_serverSocket b = Some r) \<and> \<not> sint i \<le> - 1 \<and> pkg = Some USER_AUTH_PACKAGE_NAME \<and> peer \<noteq> None")
  case False
  then have same: "Listener_OnBind i pkg peer b = b"
    by (auto simp: Listener_OnBind_def Bus_OnBind_def Server_OnBind_def split: option.split)
  show ?thesis
    unfolding same using False by (intro traced_calm [OF assms calm_refl]) (auto simp: bound_snoc)
next
  case True
  then obtain r n where r: "sb_serverSocket b = Some r" and n: "peer = Some n" by auto
  have i: "i \<noteq> INVALID_SOCKET_ID" using True by auto
  let ?ls = "ls @ [BusBind i pkg peer]"
  have b': "Listener_OnBind i pkg peer b =
      on_socket r (\<lambda>k. k\<lparr>sk_serverSocketBindMap := omap_assign i n (sk_serverSocketBindMap k)\<rparr>) b"
    using True r n i by (simp add: Listener_OnBind_def Bus_OnBind_def Server_OnBind_def on_socket_def AddServerSocket_def)
  have ever: "ever_bound ?ls i n" "\<And>j x. ever_bound ls j x \<Longrightarrow> ever_bound ?ls j x"
    using True n by (auto simp: ever_bound_def)
  have bound: "bound_peer ?ls j = (if j = i then Some n else bound_peer ls j)" for j
    using True n by (simp add: bound_snoc)
  show ?thesis
    using assms r ever unfolding traced_def b' by (auto simp: on_socket_def owned_def bound split: if_splits)
qed

lemma traced_calm_step:
  assumes "traced ls b" "calm x b (bus_step l b)" "\<And>i. bind_step i l = (\<lambda>p. p)"
  shows "traced (ls @ [l]) (bus_step l b)"
  by (rule traced_calm [OF assms(1,2)]) (use assms(3) in \<open>auto simp: bound_snoc\<close>)

lemma traced_step:
  assumes "traced ls b"
  shows "traced (ls @ [l]) (bus_step l b)"
proof -
  let ?ls = "ls @ [l]"
  show ?thesis
  proof (cases l)
    case (BusTask e k)
    let ?b = "b\<lparr>sb_tasks := take k (sb_tasks b) @ drop (Suc k) (sb_tasks b)\<rparr>"
    have t: "traced ls ?b" using traced_calm [OF assms _ subset_refl, of None ?b] by simp
    have b: "bound_peer ?ls j = bound_peer ls j" for j by (simp add: bound_snoc BusTask)
    note calmed = traced_calm [OF t _ _, of None _ ?ls]
    show ?thesis
    proof (cases "k < length (sb_tasks b)")
      case True
      show ?thesis
      proof (cases "sb_tasks b ! k")
        case (OpenTask n tok peer)
        show ?thesis
        proof (cases rule: opening_cases [of ?b e n tok peer])
          case failed
          then show ?thesis using calmed [OF failed(1)] True OpenTask by (simp add: BusTask b [unfolded BusTask] subset_iff)
        next
          case (opened i)
          have "traced ?ls (DoOpenConnection e n tok peer ?b)"
            by (rule traced_enters [OF t opened(1)]) (use opened in \<open>auto simp: b CreateClientSocket_def\<close>)
          then show ?thesis using True OpenTask by (simp add: BusTask)
        qed
      next
        case InitTask
        show ?thesis
        proof (cases rule: init_cases [of ?b e 0 BIND_SERVICE_MAX_RETRY_TIMES])
          case failed
          then show ?thesis using calmed [OF failed(1)] True InitTask by (simp add: BusTask b [unfolded BusTask] subset_iff)
        next
          case (inited i)
          have "traced ?ls (service_init_tries e 0 BIND_SERVICE_MAX_RETRY_TIMES ?b)"
            by (rule traced_enters [OF t inited(1)]) (use inited in \<open>auto simp: b ServerSocket_def\<close>)
          then show ?thesis using True InitTask by (simp add: BusTask)
        qed
      next
        case (CloseTask n)
        have "calm None ?b (snd (DoCloseConnection n ?b))" by (rule calm_close) simp
        from calmed [OF this] show ?thesis using True CloseTask by (simp add: BusTask b [unfolded BusTask] subset_iff)
      next
        case (DownTask n)
        have "calm None ?b (Bus_OnConnectionDown n ?b)" by (rule calm_status) simp
        from calmed [OF this] show ?thesis using True DownTask by (simp add: BusTask b [unfolded BusTask] subset_iff)
      qed
    qed (use traced_calm_step [OF assms, of None l] BusTask in \<open>simp add: fun_eq_iff\<close>)
  next
    case (BusBind i pkg peer)
    then show ?thesis using traced_bind [OF assms] by simp
  next
    case (BusShutdown i reason)
    then show ?thesis using traced_shutdown [OF assms] by simp
  next
    case (BusClientBytes e i d)
    have "\<exists>x. calm x b (Listener_OnClientBytes e i d b)"
      using calm_listener_client calm_refl by (cases "sb_serverSocket b") fastforce+
    then show ?thesis using traced_calm_step [OF assms, of _ l] BusClientBytes by (auto simp: fun_eq_iff)
  next
    case (BusServerBytes e i d)
    have "\<exists>x. calm x b (Listener_OnServerBytes e i d b)"
      using calm_listener_server calm_refl by (cases "FindSocketBySocketId i b") fastforce+
    then show ?thesis using traced_calm_step [OF assms, of _ l] BusServerBytes by (auto simp: fun_eq_iff)
  qed ((rule traced_calm_step [OF assms, of None]; auto simp: fun_eq_iff calm_start calm_bus_send calm_uninit calm_time_out
      calm_keep_alive Bus_OpenConnection_def Bus_CloseConnection_def ServiceSocketInit_def)+)
qed

lemma run_traced: "traced ls (bus_run ls initial_bus)"
proof (induction ls rule: rev_induct)
  case Nil
  show ?case by (simp add: bus_run_def traced_def initial_bus_def)
next
  case (snoc l ls)
  then show ?case using traced_step [OF snoc, of l] by (simp add: bus_run_def)
qed

section \<open>Who is heard\<close>

text \<open>Steps that receive no bytes tell no listener of a request.\<close>

lemma tells_task: "tells None b (run_bus_task e t b)"
proof (cases t)
  case (OpenTask n tok peer)
  show ?thesis
    by (cases rule: opening_cases [of b e n tok peer]) (use OpenTask in \<open>auto simp: calm_def enters_def grown_def\<close>)
next
  case InitTask
  show ?thesis
    by (cases rule: init_cases [of b e 0 BIND_SERVICE_MAX_RETRY_TIMES]) (use InitTask in \<open>auto simp: calm_def enters_def grown_def\<close>)
qed (auto intro!: calm_tells calm_close calm_status)

lemma tells_bind: "tells None b (Listener_OnBind i pkg peer b)"
  by (simp add: Listener_OnBind_def Bus_OnBind_def Server_OnBind_def split: option.split)

lemma deaf_step:
  assumes "\<And>e i d. l \<noteq> BusClientBytes e i d" "\<And>e i d. l \<noteq> BusServerBytes e i d"
  shows "tells None b (bus_step l b)"
proof (cases l)
  case (BusTask e k)
  let ?b = "b\<lparr>sb_tasks := take k (sb_tasks b) @ drop (Suc k) (sb_tasks b)\<rparr>"
  have "tells None b c" if "tells None ?b c" for c using that by (simp add: tells_def)
  then show ?thesis using BusTask tells_task by simp
qed (use assms in \<open>auto simp: tells_bind Bus_OpenConnection_def Bus_CloseConnection_def ServiceSocketInit_def
    Listener_OnShutdown_def intro!: calm_tells calm_start calm_bus_send calm_uninit calm_time_out calm_keep_alive
    calm_shutdown\<close>)

lemma bound_of_peer: "GetNetworkIdBySocketId i k \<noteq> [] \<Longrightarrow>
    map_of (sk_serverSocketBindMap k) i = Some (GetNetworkIdBySocketId i k)"
  by (auto simp: GetNetworkIdBySocketId_def split: option.splits if_splits)

lemma unbound_unheard [simp]: "GetNetworkIdBySocketId i (sb_heap b r) = [] \<Longrightarrow> Server_OnBytes e r i d b = b"
  by (simp add: Server_OnBytes_def)

lemma heard_bound:
  assumes "sb_serverSocket b = Some r" "\<not> tells None b (Listener_OnClientBytes e i d b)"
  shows "GetNetworkIdBySocketId i (sb_heap b r) \<noteq> []"
  using assms by (auto simp: Listener_OnClientBytes_def Bus_OnClientBytes_def split: option.splits if_splits)

lemma heard_bound_too:
  assumes "FindSocketBySocketId i b = Some r" "sk_server (sb_heap b r)" "\<not> tells None b (Listener_OnServerBytes e i d b)"
  shows "GetNetworkIdBySocketId i (sb_heap b r) \<noteq> []"
  using assms by (auto simp: Listener_OnServerBytes_def Bus_OnServerBytes_def split: option.splits if_splits)

lemma tells_drop: "tells x b c \<Longrightarrow> out \<in> set (drop (length (sb_outputs b)) (sb_outputs c)) \<Longrightarrow> heard_ok x out"
  by (auto simp: tells_def list_all_iff)

text \<open>
  Property C10: a listener hears every request under the network id of the very socket on which its bytes came, whatever the
  message says of its sender. Bytes that arrive on the device's server socket are heard under the network id that the soft
  bus named in the last binding of that socket by this package, with no shutdown of the socket after it. Bytes that arrive
  at a socket the device opened itself are heard under the network id of the device this very socket was opened to, and a
  connection with the socket's id to it was opened with success; a server socket can be reached there too, and then the
  peer was bound under the same socket id. No other step makes a listener hear a request.
\<close>

theorem requests_heard_from_peers:
  assumes "b = bus_run ls initial_bus"
    and "RequestHeard l n p request reply \<in> set (drop (length (sb_outputs b)) (sb_outputs (bus_step lab b)))"
  shows "\<exists>e i d peer. GetStringValue ATTR_COLLECTOR_NETWORK_ID request = Some peer \<and>
    (lab = BusClientBytes e i d \<and> bound_peer ls i = Some peer \<or>
     lab = BusServerBytes e i d \<and>
       (\<exists>r. FindSocketBySocketId i b = Some r \<and>
          (if sk_server (sb_heap b r) then BusBind i (Some USER_AUTH_PACKAGE_NAME) (Some peer) \<in> set ls
           else sk_networkId (sb_heap b r) = peer \<and> sk_socketId (sb_heap b r) = i \<and>
                OpenReported (sk_connectionName (sb_heap b r)) peer i SUCCESS \<in> set (sb_outputs b))))"
proof -
  let ?heard = "RequestHeard l n p request reply"
  have t: "traced ls b" unfolding assms(1) by (rule run_traced)
  have none: "\<not> tells None b (bus_step lab b)" using tells_drop [OF _ assms(2)] by (auto simp: heard_ok_def)
  then consider (client) e i d where "lab = BusClientBytes e i d" | (server) e i d where "lab = BusServerBytes e i d"
    using deaf_step by blast
  then show ?thesis
  proof cases
    case (client e i d)
    then obtain r where r: "sb_serverSocket b = Some r" using none by (cases "sb_serverSocket b") auto
    let ?peer = "GetNetworkIdBySocketId i (sb_heap b r)"
    have heard: "GetStringValue ATTR_COLLECTOR_NETWORK_ID request = Some ?peer"
      using tells_drop [OF calm_tells [OF calm_listener_client [OF r]]] assms(2) client by (fastforce simp: heard_ok_def)
    have "bound_peer ls i = Some ?peer"
      using t r bound_of_peer [OF heard_bound [OF r, of e i d]] none client by (auto simp: traced_def)
    then show ?thesis using heard client by blast
  next
    case (server e i d)
    then obtain r where r: "FindSocketBySocketId i b = Some r" using none by (cases "FindSocketBySocketId i b") auto
    have heard: "GetStringValue ATTR_COLLECTOR_NETWORK_ID request = Some (socket_peer b i r)"
      using tells_drop [OF calm_tells [OF calm_listener_server [OF r]]] assms(2) server by (fastforce simp: heard_ok_def)
    have "(i, r) \<in> set (sb_socketMap b)" using r by (auto simp: FindSocketBySocketId_def dest: map_of_SomeD split: if_splits)
    then have o: "owned ls b i r" using t by (auto simp: traced_def)
    show ?thesis
    proof (cases "sk_server (sb_heap b r)")
      case True
      have "ever_bound ls i (GetNetworkIdBySocketId i (sb_heap b r))"
        using o True bound_of_peer [OF heard_bound_too [OF r True, of e d]] none server by (simp add: owned_def)
      then show ?thesis using heard server r True by (auto simp: socket_peer_def ever_bound_def)
    next
      case False
      then show ?thesis using heard server r o by (auto simp: owned_def socket_peer_def)
    qed
  qed
qed

end
