(* ===== verification/Soft_Bus_Delivery.thy ===== *)
theory Soft_Bus_Delivery
  imports Soft_Bus_Properties
begin

text \<open>
  A message from one device to another: what the sender's socket puts on the bus, and what the receiver makes of the
  bytes. A peer whose socket is bound is also believed about the name of its connection.
\<close>

section \<open>Sending\<close>

lemma sent_frame:
  assumes "Socket_SendRequest e r i n src dest (Some given) cb b = (SUCCESS, b')"
  shows "\<exists>udid seq a rest. be_udid e = Some udid \<and>
    CreateMessage (Some udid) False (SoftBusMessage seq n src dest (Some given)) = Some a \<and>
    sb_outputs b' = sb_outputs b @ BytesSent i (Serialize a) # rest"
proof -
  let ?m = "SoftBusMessage (sb_messageSeq b + 1) n src dest (Some given)"
  obtain a where a: "CreateMessage (be_udid e) False ?m = Some a"
    using assms by (auto simp: Socket_SendRequest_def GetMessageSeq_def Let_def split: if_splits option.splits)
  then obtain udid where udid: "be_udid e = Some udid"
    by (auto simp: CreateMessage_def split: option.splits prod.splits if_splits)
  have "\<exists>rest. sb_outputs b' = sb_outputs b @ BytesSent i (Serialize a) # rest"
    using assms a
    by (auto simp: Socket_SendRequest_def GetMessageSeq_def StartReplyTimer_def Let_def on_socket_def bus_emit_def
        split: if_splits prod.splits)
  then show ?thesis using a udid by auto
qed

section \<open>Hearing\<close>

lemma network_id_stored:
  assumes "attr_wf t" "length (amap t) \<le> MAX_ATTR_COUNT" "length peer < MAX_ATTR_LENGTH"
  shows "\<exists>request. SetStringValue ATTR_COLLECTOR_NETWORK_ID peer (Some t) = (True, request) \<and>
    GetStringValue ATTR_COLLECTOR_NETWORK_ID request = Some peer \<and>
    (\<forall>k v. k \<noteq> ATTR_COLLECTOR_NETWORK_ID \<longrightarrow> attr_at k v (Some t) \<longrightarrow> attr_at k v request)"
proof -
  obtain request where s: "SetStringValue ATTR_COLLECTOR_NETWORK_ID peer (Some t) = (True, request)"
    using assms(2,3) by (simp add: setters_as_puts with_impl_def store_value_def EncodeStringValue_def)
  have "attr_at k v request" if "k \<noteq> ATTR_COLLECTOR_NETWORK_ID" "attr_at k v (Some t)" for k v
    using attr_at_put_other [OF that(2,1) s [unfolded setters_as_puts]] .
  then show ?thesis using s network_id_set [OF s] by blast
qed

lemma answer_outputs:
  "\<exists>rest. sb_outputs (snd (Socket_SendResponse e r i n src dest a q b)) = sb_outputs b @ rest"
  by (auto simp: Socket_SendResponse_def Let_def on_socket_def bus_emit_def split: option.split)

lemma process_heard:
  assumes "FindListener (bm_connectionName m) (bm_destEndPoint m) (sb_listeners b) = Some l"
    and "bm_messageVersion m = DEFAULT_MESSAGE_VERSION" "bm_attributes m = Some request"
  shows "\<exists>reply. snd (ProcessMessage e m Attributes_new b) =
    bus_emit [RequestHeard l (bm_connectionName m) (bm_destEndPoint m) request reply] b"
proof -
  have "\<exists>response. SetInt32Value ATTR_RESULT_CODE GENERAL_ERROR Attributes_new = (True, response)"
    by (simp add: setters_as_puts with_impl_def store_value_def EncodeInt32Value_def Attributes_new_def Impl_empty_def)
  then show ?thesis using assms by (auto simp: ProcessMessage_def Let_def)
qed

lemma receive_heard:
  assumes "FindListener (bm_connectionName m) (bm_destEndPoint m) (sb_listeners b) = Some l"
    and "bm_messageVersion m = DEFAULT_MESSAGE_VERSION" "bm_attributes m = Some request" "\<not> bm_isAck m"
    and "i \<noteq> INVALID_SOCKET_ID"
  shows "\<exists>reply rest. sb_outputs (snd (ProcDataReceive e r i m b)) = sb_outputs b @
    RequestHeard l (bm_connectionName m) (bm_destEndPoint m) request reply # rest"
proof -
  obtain response b1 where b1: "ProcessMessage e m Attributes_new b = (response, b1)" by fastforce
  obtain reply where "b1 = bus_emit [RequestHeard l (bm_connectionName m) (bm_destEndPoint m) request reply] b"
    using process_heard [OF assms(1-3), of e] b1 by auto
  then have o1: "sb_outputs b1 = sb_outputs b @ [RequestHeard l (bm_connectionName m) (bm_destEndPoint m) request reply]"
    by (simp add: bus_emit_def)
  obtain rest where "sb_outputs (snd (Socket_SendResponse e r i (bm_connectionName m) (bm_destEndPoint m)
      (bm_srcEndPoint m) (Some response) (bm_messageSeq m) b1)) = sb_outputs b1 @ rest"
    using answer_outputs by blast
  then show ?thesis using assms(3-5) o1 by (auto simp: ProcDataReceive_def b1)
qed

lemma parsed_socket:
  assumes "SoftBus_ParseMessage d = Some m" "bm_attributes m = Some a"
    and "SetStringValue ATTR_COLLECTOR_NETWORK_ID peer a = (True, request)"
  shows "\<exists>tr. Socket_ParseMessage r peer d b =
    (Some (m\<lparr>bm_attributes := Some request\<rparr>), on_socket r (\<lambda>k. k\<lparr>sk_trace := tr\<rparr>) b)"
  using assms by (auto simp: Socket_ParseMessage_def Let_def RefreshTraceInfo_def on_socket_def)

lemma valid_socket: "\<not> sint (i :: i32) \<le> - 1 \<Longrightarrow> i \<noteq> INVALID_SOCKET_ID"
  by auto

lemma bytes_heard:
  assumes "SoftBus_ParseMessage d = Some m" "bm_attributes m = Some a" "\<not> bm_isAck m"
    and "bm_messageVersion m = DEFAULT_MESSAGE_VERSION"
    and "SetStringValue ATTR_COLLECTOR_NETWORK_ID peer a = (True, request)"
    and "sb_serverSocket b = Some r" "GetNetworkIdBySocketId i (sb_heap b r) = peer" "peer \<noteq> []"
    and "FindListener (bm_connectionName m) (bm_destEndPoint m) (sb_listeners b) = Some l"
    and "\<not> sint i \<le> - 1" "length d \<le> MAX_DATA_LEN"
  shows "\<exists>reply rest. sb_outputs (Listener_OnClientBytes e i (Some d) b) = sb_outputs b @
    RequestHeard l (bm_connectionName m) (bm_destEndPoint m) request reply # rest"
proof -
  have d: "d \<noteq> []" using assms(1) by (auto simp: SoftBus_ParseMessage_def)
  then have step: "Listener_OnClientBytes e i (Some d) b = Server_OnBytes e r i d b"
    using assms(6,10,11) by (simp add: Listener_OnClientBytes_def Bus_OnClientBytes_def)
  obtain tr where p: "Socket_ParseMessage r peer d b =
      (Some (m\<lparr>bm_attributes := Some request\<rparr>), on_socket r (\<lambda>k. k\<lparr>sk_trace := tr\<rparr>) b)"
    using parsed_socket [OF assms(1,2,5)] by blast
  let ?m = "m\<lparr>bm_attributes := Some request\<rparr>"
  let ?b1 = "on_socket r (\<lambda>k. k\<lparr>sk_trace := tr\<rparr>) b"
  let ?b2 = "if bm_connectionName m \<noteq> [] then on_socket r (AddClientConnection i (bm_connectionName m)) ?b1 else ?b1"
  have same: "sb_outputs ?b2 = sb_outputs b" "sb_listeners ?b2 = sb_listeners b" by (simp_all add: on_socket_def)
  have "Server_OnBytes e r i d b = snd (ProcDataReceive e r i ?m ?b2)"
    using assms(3,7,8) d by (simp add: Server_OnBytes_def p Let_def)
  then show ?thesis
    using receive_heard [of ?m ?b2 l request i e r] assms(3,4,9) valid_socket [OF assms(10)] step same by auto
qed


end
