(* ===== verification/Soft_Bus_Claims.thy ===== *)
theory Soft_Bus_Claims
  imports Soft_Bus_Delivery
begin

text \<open>
  The name of a connection is the claim of the peer that sends under it. A first request under a name makes the device
  send everything under that name to this peer, also when it opened the connection of that name to another device itself.
\<close>

definition connections_at :: "nat \<Rightarrow> bus \<Rightarrow> (i32 \<times> bytes) list" where
  "connections_at r b = sk_clientConnectionMap (sb_heap b r)"

lemma connections_kept [simp]:
  "connections_at r (bus_emit ys b) = connections_at r b"
  "connections_at r (on_socket q (\<lambda>k. k\<lparr>sk_trace := tr\<rparr>) b) = connections_at r b"
  "connections_at r (on_socket q (RemoveMsgCallback s) b) = connections_at r b"
  "connections_at r (on_socket q (RefreshTraceInfo n t x s) b) = connections_at r b"
  by (simp_all add: connections_at_def bus_emit_def on_socket_def RemoveMsgCallback_def RefreshTraceInfo_def)

lemma server_kept [simp]:
  "sb_serverSocket (bus_emit ys b) = sb_serverSocket b" "sb_serverSocket (on_socket q g b) = sb_serverSocket b"
  by (simp_all add: bus_emit_def on_socket_def)

lemma answer_keeps:
  "connections_at r (snd (Socket_SendResponse e q i n src dest a s b)) = connections_at r b"
  "sb_serverSocket (snd (Socket_SendResponse e q i n src dest a s b)) = sb_serverSocket b"
  by (simp_all add: Socket_SendResponse_def Let_def split: option.split)

lemma process_keeps:
  "connections_at r (snd (ProcessMessage e m response b)) = connections_at r b"
  "sb_serverSocket (snd (ProcessMessage e m response b)) = sb_serverSocket b"
  by (simp_all add: ProcessMessage_def Let_def split: option.split prod.split)

lemma receive_keeps:
  "connections_at r (snd (ProcDataReceive e q i m b)) = connections_at r b"
  "sb_serverSocket (snd (ProcDataReceive e q i m b)) = sb_serverSocket b"
proof -
  obtain response b1 where b1: "ProcessMessage e m Attributes_new b = (response, b1)" by fastforce
  show "connections_at r (snd (ProcDataReceive e q i m b)) = connections_at r b"
    using process_keeps(1) [of r e m Attributes_new b]
    by (simp add: ProcDataReceive_def StopReplyTimer_def Let_def b1 answer_keeps split: option.split)
  show "sb_serverSocket (snd (ProcDataReceive e q i m b)) = sb_serverSocket b"
    using process_keeps(2) [of e m Attributes_new b]
    by (simp add: ProcDataReceive_def StopReplyTimer_def Let_def b1 answer_keeps split: option.split)
qed

lemma find_claim:
  assumes "\<And>j x. (j, x) \<in> set m \<Longrightarrow> x \<noteq> n"
  shows "List.find (\<lambda>(_, x). x = n) (omap_assign i n m) = Some (i, n)"
  using assms by (induction i n m rule: omap_assign.induct) auto

lemma claim_recorded:
  assumes "connections_at r b = m" "map_of m i = None" "\<And>j x. (j, x) \<in> set m \<Longrightarrow> x \<noteq> n" "i \<noteq> INVALID_SOCKET_ID"
  shows "GetSocketIdByClientConnectionName n (sb_heap (on_socket r (AddClientConnection i n) b) r) = i"
  using assms find_claim [of m n i]
  by (auto simp: GetSocketIdByClientConnectionName_def on_socket_def AddClientConnection_def connections_at_def)

lemma claimed_after_bytes:
  assumes "SoftBus_ParseMessage d = Some m" "bm_attributes m = Some a" "\<not> bm_isAck m" "bm_connectionName m = n" "n \<noteq> []"
    and "SetStringValue ATTR_COLLECTOR_NETWORK_ID peer a = (True, request)"
    and "sb_serverSocket b = Some r" "GetNetworkIdBySocketId i (sb_heap b r) = peer" "peer \<noteq> []"
    and "\<not> sint i \<le> - 1" "length d \<le> MAX_DATA_LEN"
    and "map_of (sk_clientConnectionMap (sb_heap b r)) i = None"
    and "\<And>j x. (j, x) \<in> set (sk_clientConnectionMap (sb_heap b r)) \<Longrightarrow> x \<noteq> n"
  shows "GetSocketIdByClientConnectionName n (sb_heap (Listener_OnClientBytes e i (Some d) b) r) = i"
    and "sb_serverSocket (Listener_OnClientBytes e i (Some d) b) = Some r"
proof -
  have d: "d \<noteq> []" using assms(1) by (auto simp: SoftBus_ParseMessage_def)
  obtain tr where p: "Socket_ParseMessage r peer d b =
      (Some (m\<lparr>bm_attributes := Some request\<rparr>), on_socket r (\<lambda>k. k\<lparr>sk_trace := tr\<rparr>) b)"
    using parsed_socket [OF assms(1,2,6)] by blast
  let ?b1 = "on_socket r (\<lambda>k. k\<lparr>sk_trace := tr\<rparr>) b"
  let ?b2 = "on_socket r (AddClientConnection i n) ?b1"
  have step: "Listener_OnClientBytes e i (Some d) b =
      snd (ProcDataReceive e r i (m\<lparr>bm_attributes := Some request\<rparr>) ?b2)"
    using assms(3-5,7-11) d
    by (simp add: Listener_OnClientBytes_def Bus_OnClientBytes_def Server_OnBytes_def p Let_def)
  have "connections_at r ?b1 = sk_clientConnectionMap (sb_heap b r)"
    by (simp add: connections_at_def on_socket_def)
  then have "GetSocketIdByClientConnectionName n (sb_heap ?b2 r) = i"
    using claim_recorded assms(12,13) valid_socket [OF assms(10)] by blast
  moreover have "connections_at r (Listener_OnClientBytes e i (Some d) b) = connections_at r ?b2"
    unfolding step by (rule receive_keeps)
  ultimately show "GetSocketIdByClientConnectionName n (sb_heap (Listener_OnClientBytes e i (Some d) b) r) = i"
    by (simp add: GetSocketIdByClientConnectionName_def connections_at_def)
  show "sb_serverSocket (Listener_OnClientBytes e i (Some d) b) = Some r"
    unfolding step using receive_keeps(2) assms(7) by simp
qed

lemma server_send:
  assumes "sb_serverSocket c = Some r" "GetSocketIdByClientConnectionName n (sb_heap c r) = i" "i \<noteq> INVALID_SOCKET_ID"
    and "CreateMessage (be_udid f) False (SoftBusMessage (sb_messageSeq c + 1) n src dest (Some given)) = Some x"
    and "be_send f i (Serialize x) = SUCCESS" "be_replyTimer f \<noteq> INVALID_TIMER_ID"
  shows "fst (Bus_SendMessage f n src dest (Some given) cb c) = SUCCESS \<and>
    (\<exists>rest. sb_outputs (snd (Bus_SendMessage f n src dest (Some given) cb c)) = sb_outputs c @ BytesSent i (Serialize x) # rest \<and>
       (\<forall>j d. BytesSent j d \<notin> set rest))"
proof -
  have "fst (Socket_SendRequest f r i n src dest (Some given) cb c) = SUCCESS \<and>
    (\<exists>rest. sb_outputs (snd (Socket_SendRequest f r i n src dest (Some given) cb c)) =
       sb_outputs c @ BytesSent i (Serialize x) # rest \<and> (\<forall>j d. BytesSent j d \<notin> set rest))"
    using assms(3-6)
    by (auto simp: Socket_SendRequest_def GetMessageSeq_def StartReplyTimer_def Let_def on_socket_def bus_emit_def
        split: prod.split)
  then show ?thesis
    using assms(1-3) by (auto simp: Bus_SendMessage_def Server_SendMessage_def Let_def split: prod.splits)
qed

text \<open>
  Property C11: a bound peer that has named no connection yet takes over the name it uses first, provided no other peer
  has used this name before: after its well-formed request of at most 4096 bytes under the name of a connection, a message
  that this device sends on that connection goes to the peer and to nobody else, whomever the device opened the connection
  to. The message is one that can be framed, the soft bus takes the bytes, and a valid timer for the reply can be started.
\<close>

theorem claimed_connection_diverts:
  assumes "SoftBus_ParseMessage d = Some m" "bm_attributes m = Some a" "\<not> bm_isAck m" "bm_connectionName m = n" "n \<noteq> []"
    and "SetStringValue ATTR_COLLECTOR_NETWORK_ID peer a = (True, request)"
    and "sb_serverSocket b = Some r" "GetNetworkIdBySocketId i (sb_heap b r) = peer" "peer \<noteq> []"
    and "\<not> sint i \<le> - 1" "length d \<le> MAX_DATA_LEN"
    and "map_of (sk_clientConnectionMap (sb_heap b r)) i = None"
    and "\<And>j x. (j, x) \<in> set (sk_clientConnectionMap (sb_heap b r)) \<Longrightarrow> x \<noteq> n"
    and "c = Listener_OnClientBytes e i (Some d) b"
    and "CreateMessage (be_udid f) False (SoftBusMessage (sb_messageSeq c + 1) n src dest (Some given)) = Some x"
    and "be_send f i (Serialize x) = SUCCESS" "be_replyTimer f \<noteq> INVALID_TIMER_ID"
  shows "fst (Bus_SendMessage f n src dest (Some given) cb c) = SUCCESS \<and>
    (\<exists>rest. sb_outputs (snd (Bus_SendMessage f n src dest (Some given) cb c)) = sb_outputs c @ BytesSent i (Serialize x) # rest \<and>
       (\<forall>j d. BytesSent j d \<notin> set rest))"
proof -
  have "GetSocketIdByClientConnectionName n (sb_heap c r) = i" "sb_serverSocket c = Some r"
    unfolding assms(14) by (rule claimed_after_bytes [OF assms(1-13)]; assumption)+
  then show ?thesis using server_send [OF _ _ valid_socket [OF assms(10)] assms(15-17)] by blast
qed

end
