(* ===== verification/Soft_Bus_Witness.thy ===== *)
theory Soft_Bus_Witness
  imports Soft_Bus_Claims Remote_Witness
begin

text \<open>
  The properties of the soft bus at a concrete device: a peer with the network id \<open>[112]\<close> is bound on socket 5 and sends
  the message of \<^verbatim>\<open>w_message\<close> under the name of a connection.
\<close>

definition w_request :: attributes where
  "w_request = the (CreateMessage (Some [117]) False w_message)"

lemma w_created: "CreateMessage (Some [117]) False w_message = Some w_request"
  using w_framed by (auto simp: w_request_def)

definition w_bytes :: bytes where
  "w_bytes = Serialize w_request"

lemma w_message_fields:
  "bm_attributes w_message = Some (Some Impl_empty)" "bm_connectionName w_message = [110]"
  "bm_srcEndPoint w_message = REMOTE_CALLBACK_ENDPOINT_NAME"
  "bm_destEndPoint w_message = REMOTE_AUTH_INVOKER_CONTEXT_ENDPOINT_NAME" "bm_messageSeq w_message = 7"
  by (simp_all add: w_message_def SoftBusMessage_def)

lemmas w_names = REMOTE_CALLBACK_ENDPOINT_NAME_def REMOTE_AUTH_INVOKER_CONTEXT_ENDPOINT_NAME_def
  MAX_ATTR_COUNT_def MAX_ATTR_LENGTH_def

lemma w_request_value:
  "w_request = Some \<lparr>amap =
     [(ATTR_MSG_SEQ_NUM, le_bytes 4 (7 :: u32)), (ATTR_MSG_ACK, [0]), (ATTR_MSG_SRC_UDID, [117, 0]),
      (ATTR_MSG_SRC_END_POINT, REMOTE_CALLBACK_ENDPOINT_NAME @ [0]),
      (ATTR_MSG_DEST_END_POINT, REMOTE_AUTH_INVOKER_CONTEXT_ENDPOINT_NAME @ [0]), (ATTR_CONNECTION_NAME, [110, 0]),
      (ATTR_MSG_VERSION, le_bytes 4 (0 :: u32))]\<rparr>"
  using framed_built [OF w_created w_message_fields(1) attr_wf_empty]
  by (simp add: frame_keys_def w_message_fields with_impl_def store_value_def EncodeInt32Value_def
      EncodeUint32Value_def EncodeBoolValue_def EncodeStringValue_def Impl_empty_def w_names)

lemma w_bytes_length: "length w_bytes \<le> 4096"
  by (simp add: w_bytes_def w_request_value Serialize_def Impl_Serialize_def serialize_entry_def w_names)

lemma w_read:
  "SoftBus_ParseMessage w_bytes =
     Some (w_message\<lparr>bm_messageVersion := 0, bm_isAck := False, bm_attributes := Some w_request\<rparr>)"
  unfolding w_bytes_def
  by (rule framed_read(1) [OF w_created w_message_fields(1) attr_wf_empty])
    (simp_all add: w_message_fields w_names Impl_empty_def)


section \<open>A device\<close>

definition w_bus_env :: "i32 \<Rightarrow> bus_env" where
  "w_bus_env i = \<lparr>be_udid = Some [117], be_send = (\<lambda>_ _. SUCCESS), be_replyTimer = 3, be_keepAliveTimer = 4,
     be_listener = (\<lambda>_ _ _ _ reply. reply), be_handler = (\<lambda>_. True), be_socket = (\<lambda>_. i),
     be_listen = (\<lambda>_. SUCCESS), be_bind = (\<lambda>_. SUCCESS), be_subscribe = True, be_unsubscribe = SUCCESS\<rparr>"

definition w_bus_labels :: "bus_label list" where
  "w_bus_labels =
     [BusServiceUp, BusTask (w_bus_env 2) 0, BusRegister [110] REMOTE_AUTH_INVOKER_CONTEXT_ENDPOINT_NAME (Some 1),
      BusOpen (w_bus_env 8) [110] 0 [120], BusTask (w_bus_env 8) 0, BusBind 5 (Some USER_AUTH_PACKAGE_NAME) (Some [112])]"

definition w_device :: bus where
  "w_device = bus_run w_bus_labels initial_bus"

lemma w_device_server: "sb_serverSocket w_device = Some 0"
  by code_simp

lemma w_device_peer: "GetNetworkIdBySocketId 5 (sb_heap w_device 0) = [112]"
  by code_simp

lemma w_device_listener:
  "FindListener [110] REMOTE_AUTH_INVOKER_CONTEXT_ENDPOINT_NAME (sb_listeners w_device) = Some 1"
  by code_simp

lemma w_device_open: "FindClientSocket [110] w_device = Some 1"
  by code_simp

lemma w_device_claims: "sk_clientConnectionMap (sb_heap w_device 0) = []"
  by code_simp


section \<open>Its peer is heard\<close>

lemma w_stored:
  "\<exists>request. SetStringValue ATTR_COLLECTOR_NETWORK_ID [112] w_request = (True, request) \<and>
     GetStringValue ATTR_COLLECTOR_NETWORK_ID request = Some [112]"
proof -
  obtain t where "w_request = Some t" "attr_wf t" "length (amap t) \<le> length (amap Impl_empty) + 7"
    using framed_wf [OF w_created w_message_fields(1) attr_wf_empty]
    by (auto simp: w_message_fields w_names Impl_empty_def)
  then show ?thesis
    using network_id_stored [of t "[112]"] by (auto simp: Impl_empty_def MAX_ATTR_COUNT_def MAX_ATTR_LENGTH_def)
qed

lemma w_heard:
  "\<exists>request reply rest. sb_outputs (Listener_OnClientBytes (w_bus_env 2) 5 (Some w_bytes) w_device) =
     sb_outputs w_device @ RequestHeard 1 [110] REMOTE_AUTH_INVOKER_CONTEXT_ENDPOINT_NAME request reply # rest"
proof -
  obtain request where "SetStringValue ATTR_COLLECTOR_NETWORK_ID [112] w_request = (True, request)"
    using w_stored by blast
  then show ?thesis
    using bytes_heard [OF w_read _ _ _ _ w_device_server w_device_peer, of w_request request 1 "w_bus_env 2"]
      w_device_listener w_bytes_length by (auto simp: w_message_fields)
qed

text \<open>Another peer, \<open>[120]\<close>, is connected too; the request is heard from the one whose socket it came on.\<close>

lemma requests_heard_from_peers_witness:
  "\<exists>request reply. RequestHeard 1 [110] REMOTE_AUTH_INVOKER_CONTEXT_ENDPOINT_NAME request reply
       \<in> set (drop (length (sb_outputs w_device)) (sb_outputs (bus_step (BusClientBytes (w_bus_env 2) 5 (Some w_bytes)) w_device))) \<and>
     GetStringValue ATTR_COLLECTOR_NETWORK_ID request = Some [112] \<and>
     OpenReported [110] [120] 8 SUCCESS \<in> set (sb_outputs w_device)"
proof -
  let ?l = "BusClientBytes (w_bus_env 2) 5 (Some w_bytes)"
  obtain request reply rest where out: "sb_outputs (bus_step ?l w_device) =
      sb_outputs w_device @ RequestHeard 1 [110] REMOTE_AUTH_INVOKER_CONTEXT_ENDPOINT_NAME request reply # rest"
    using w_heard by auto
  have heard: "RequestHeard 1 [110] REMOTE_AUTH_INVOKER_CONTEXT_ENDPOINT_NAME request reply
      \<in> set (drop (length (sb_outputs w_device)) (sb_outputs (bus_step ?l w_device)))" unfolding out by simp
  have bound: "bound_peer w_bus_labels 5 = Some [112]" by (simp add: bound_peer_def w_bus_labels_def)
  have other: "OpenReported [110] [120] 8 SUCCESS \<in> set (sb_outputs w_device)" by code_simp
  show ?thesis
    using requests_heard_from_peers [OF w_device_def heard] heard bound other by auto
qed

text \<open>Another device sends the message, and the device hears it from its peer.\<close>

definition w_sender :: bus where
  "w_sender = initial_bus\<lparr>sb_messageSeq := 6\<rparr>"

lemma w_sent:
  "\<exists>b'. Socket_SendRequest (w_bus_env 2) 0 9 [110] REMOTE_CALLBACK_ENDPOINT_NAME REMOTE_AUTH_INVOKER_CONTEXT_ENDPOINT_NAME
       (Some (Some Impl_empty)) None w_sender = (SUCCESS, b') \<and> sb_outputs b' = [BytesSent 9 w_bytes, TimerStarted 3]"
  using w_created
  by (simp add: Socket_SendRequest_def w_sender_def GetMessageSeq_def StartReplyTimer_def GetReplyTimer_def Let_def
      on_socket_def RefreshTraceInfo_def bus_emit_def w_bus_env_def w_bytes_def initial_bus_def ServerSocket_def
      flip: w_message_def)


section \<open>Its peer takes a connection over\<close>

lemma w_framed_any:
  "\<exists>x. CreateMessage (Some [117]) False (SoftBusMessage seq [110] REMOTE_CALLBACK_ENDPOINT_NAME
     REMOTE_AUTH_INVOKER_CONTEXT_ENDPOINT_NAME (Some (Some Impl_empty))) = Some x"
proof -
  have "Attributes_of_raw (Serialize (Some Impl_empty)) = Some Impl_empty" by (rule wf_survives) simp
  then show ?thesis
    by (simp add: CreateMessage_puts frame_keys_def SoftBusMessage_def with_impl_def store_value_def
        EncodeInt32Value_def EncodeUint32Value_def EncodeBoolValue_def EncodeStringValue_def Impl_empty_def w_names)
qed

lemma claimed_connection_diverts_witness:
  "FindClientSocket [110] w_device = Some 1 \<and>
   (\<exists>c x rest. c = Listener_OnClientBytes (w_bus_env 2) 5 (Some w_bytes) w_device \<and>
      sb_outputs (snd (Bus_SendMessage (w_bus_env 2) [110] REMOTE_CALLBACK_ENDPOINT_NAME
        REMOTE_AUTH_INVOKER_CONTEXT_ENDPOINT_NAME (Some (Some Impl_empty)) None c)) =
      sb_outputs c @ BytesSent 5 x # rest \<and> (\<forall>j d. BytesSent j d \<notin> set rest))"
proof -
  let ?c = "Listener_OnClientBytes (w_bus_env 2) 5 (Some w_bytes) w_device"
  obtain request where stored: "SetStringValue ATTR_COLLECTOR_NETWORK_ID [112] w_request = (True, request)"
    using w_stored by blast
  obtain x where x: "CreateMessage (be_udid (w_bus_env 2)) False (SoftBusMessage (sb_messageSeq ?c + 1) [110]
      REMOTE_CALLBACK_ENDPOINT_NAME REMOTE_AUTH_INVOKER_CONTEXT_ENDPOINT_NAME (Some (Some Impl_empty))) = Some x"
    using w_framed_any by (auto simp: w_bus_env_def)
  show ?thesis
    using claimed_connection_diverts [OF w_read _ _ _ _ stored w_device_server w_device_peer _ _ _ _ _ refl x,
        where cb = None]
      w_device_open w_bytes_length
    by (simp add: w_message_fields w_device_claims) (auto simp: w_bus_env_def)
qed

end
