(* ===== verification/Remote_Service.thy ===== *)
theory Remote_Service
  imports Soft_Bus_Message Remote_Msg Auth_Factory User_Auth_Service
begin

text \<open>
  What a device does for other devices: \<^verbatim>\<open>services/context/src/remote_auth_service.cpp\<close> hears their requests on every
  connection, starts authentications for them, describes its executors and lends them a collector. A lent executor is
  driven by a stub, \<^verbatim>\<open>remote_executor_stub.cpp\<close>, which listens to its connection, keeps the schedule alive in a context
  of the pool, \<^verbatim>\<open>schedule_holder_context.cpp\<close>, and clears both up when it is destroyed. The results of an
  authentication for another device go out through \<^verbatim>\<open>remote_iam_callback.cpp\<close>.

  Stubs are objects of a heap, owned by the map of the service alone; the callback of a connection refers to its stub
  weakly, by the reference and the schedule id. The engine, the pools, the executors and the connection manager answer from
  a record of surroundings, and calls to them are outputs. Traces are left out but for the report of a begin.
\<close>

section \<open>Data\<close>

datatype remote_listener = ServiceListener | StubListener nat u64

record executor_stub =
  rx_connectionCallback :: "u64 option"
  rx_remoteScheduleNode :: "u64 option"
  rx_executorIndex :: u64
  rx_connectionName :: bytes
  rx_contextId :: "u64 option"

datatype remote_output =
    NodeListenerAdded u64
  | NodeListenerDropped u64
  | HolderScheduled u64
  | HolderDeleted u64
  | ExecutorBegun u64 u64 attributes
  | ExecutorDataSent u64 u64 attributes
  | RemoteMessage bytes bytes bytes attributes
  | ExecuteReported u64 bytes i32
  | RemoteAuthScheduled u64 remote_request

record remote_service =
  rs_heap :: "nat \<Rightarrow> executor_stub"
  rs_fresh :: nat
  rs_stubs :: "(u64 \<times> nat) list"
  rs_listeners :: "remote_listener listener_info list"
  rs_tasks :: "u64 list"
  rs_outputs :: "remote_output list"

text \<open>
  The engine's reading of a schedule from a device, the executors, whether the pool takes a listener and a context, the
  answers of an executor and of the connection manager, the engine's signature for a description of executors, the
  device's udid and network id, the users, the id of a new context and the last error of a refused one.
\<close>

record remote_env =
  re_getLocal :: "bytes \<Rightarrow> bytes \<Rightarrow> i32 \<times> eng_schedule_info"
  re_pool :: rpool
  re_addListener :: bool
  re_schedule :: bool
  re_begin :: i32
  re_data :: i32
  re_send :: i32
  re_getSigned :: "i32 list \<Rightarrow> i32 \<Rightarrow> bytes \<Rightarrow> i32 \<times> bytes"
  re_localUdid :: "bytes option"
  re_networkId :: "bytes option"
  re_caller :: caller
  re_contextId :: u64
  re_latestError :: i32

definition rs_emit :: "remote_output list \<Rightarrow> remote_service \<Rightarrow> remote_service" where
  "rs_emit ys s = s\<lparr>rs_outputs := rs_outputs s @ ys\<rparr>"

definition on_stub :: "nat \<Rightarrow> (executor_stub \<Rightarrow> executor_stub) \<Rightarrow> remote_service \<Rightarrow> remote_service" where
  "on_stub r f s = s\<lparr>rs_heap := (rs_heap s)(r := f (rs_heap s r))\<rparr>"

definition RemoteExecutorStub :: executor_stub where
  "RemoteExecutorStub = \<lparr>rx_connectionCallback = None, rx_remoteScheduleNode = None, rx_executorIndex = 0,
     rx_connectionName = [], rx_contextId = None\<rparr>"

definition initial_service :: remote_service where
  "initial_service = \<lparr>rs_heap = (\<lambda>_. RemoteExecutorStub), rs_fresh = 0, rs_stubs = [], rs_listeners = [],
     rs_tasks = [], rs_outputs = []\<rparr>"

section \<open>Messages to another device\<close>

definition rs_send :: "remote_env \<Rightarrow> bytes \<Rightarrow> bytes \<Rightarrow> bytes \<Rightarrow> attributes \<Rightarrow> remote_service \<Rightarrow> i32 \<times> remote_service" where
  "rs_send e connectionName srcEndPoint destEndPoint request s =
     (if re_send e \<noteq> SUCCESS then GENERAL_ERROR else SUCCESS,
      rs_emit [RemoteMessage connectionName srcEndPoint destEndPoint request] s)"

definition RemoteIam_OnResult :: "remote_env \<Rightarrow> bytes \<Rightarrow> i32 \<Rightarrow> bytes \<Rightarrow> remote_service \<Rightarrow> i32 \<times> remote_service" where
  "RemoteIam_OnResult e connectionName resultCode extraInfo s =
     (case set_all [SetInt32Value ATTR_MSG_TYPE SEND_REMOTE_AUTH_RESULT, SetInt32Value ATTR_RESULT resultCode]
             (Attributes_of_raw extraInfo) of
        (stored, request) \<Rightarrow>
          if \<not> stored then (GENERAL_ERROR, s)
          else rs_send e connectionName REMOTE_CALLBACK_ENDPOINT_NAME REMOTE_AUTH_INVOKER_CONTEXT_ENDPOINT_NAME request s)"

definition RemoteIam_OnAcquireInfo ::
  "remote_env \<Rightarrow> bytes \<Rightarrow> i32 \<Rightarrow> i32 \<Rightarrow> bytes \<Rightarrow> remote_service \<Rightarrow> i32 \<times> remote_service" where
  "RemoteIam_OnAcquireInfo e connectionName module acquireInfo extraInfo s =
     (case set_all [SetInt32Value ATTR_MSG_TYPE SEND_REMOTE_AUTH_TIP, SetInt32Value ATTR_DEST_ROLE module,
               SetInt32Value ATTR_TIP_INFO acquireInfo] (Attributes_of_raw extraInfo) of
        (stored, request) \<Rightarrow>
          if \<not> stored then (GENERAL_ERROR, s)
          else rs_send e connectionName REMOTE_CALLBACK_ENDPOINT_NAME REMOTE_AUTH_INVOKER_CONTEXT_ENDPOINT_NAME request s)"

section \<open>The stub of a lent executor\<close>

text \<open>
  The destructor, then the members: the last reference to the schedule node goes with the context that held it. The
  callback is made before the listener is registered, so the destructor unregisters also where that failed.
\<close>

definition Stub_Destroy :: "nat \<Rightarrow> remote_service \<Rightarrow> remote_service" where
  "Stub_Destroy r s =
     (let k = rs_heap s r;
          s = (if rx_connectionCallback k = None then s
               else s\<lparr>rs_listeners := snd (Connect_UnregisterListener (rx_connectionName k) EXECUTOR_STUB_ENDPOINT_NAME
                      (rs_listeners s))\<rparr>);
          s = (case rx_contextId k of None \<Rightarrow> s | Some c \<Rightarrow> rs_emit [HolderDeleted c] s)
      in case rx_remoteScheduleNode k of None \<Rightarrow> s | Some scheduleId \<Rightarrow> rs_emit [NodeListenerDropped scheduleId] s)"

text \<open>The code and the schedule id, which the caller files the stub under; 0 when the request has none.\<close>

definition Stub_ProcBeginExecuteRequest ::
  "remote_env \<Rightarrow> nat \<Rightarrow> attributes \<Rightarrow> remote_service \<Rightarrow> i32 \<times> u64 \<times> remote_service" where
  "Stub_ProcBeginExecuteRequest e r attr s =
     (case GetUint64Value ATTR_SCHEDULE_ID attr of
        None \<Rightarrow> (GENERAL_ERROR, 0, s)
      | Some scheduleId \<Rightarrow>
          let s = on_stub r (\<lambda>k. k\<lparr>rx_connectionCallback := Some scheduleId\<rparr>) s
          in case GetStringValue ATTR_CONNECTION_NAME attr of
               None \<Rightarrow> (GENERAL_ERROR, scheduleId, s)
             | Some connectionName \<Rightarrow>
                 let s = on_stub r (\<lambda>k. k\<lparr>rx_connectionName := connectionName\<rparr>) s
                 in case Connect_RegisterListener connectionName EXECUTOR_STUB_ENDPOINT_NAME
                           (Some (StubListener r scheduleId)) (rs_listeners s) of
                      (registerResult, listeners) \<Rightarrow>
                        let s = s\<lparr>rs_listeners := listeners\<rparr>
                        in if registerResult \<noteq> SUCCESS then (GENERAL_ERROR, scheduleId, s)
                           else case (GetStringValue ATTR_MSG_SRC_UDID attr, GetUint8ArrayValue ATTR_SCHEDULE_DATA attr) of
                             (Some srcUdid, Some scheduleData) \<Rightarrow>
                               (case re_getLocal e srcUdid scheduleData of
                                  (ret, scheduleInfo) \<Rightarrow>
                                    if ret \<noteq> SUCCESS \<or> length (es_executorIndexes scheduleInfo) \<noteq> 1 \<or>
                                       length (es_executorMessages scheduleInfo) \<noteq> 1
                                    then (GENERAL_ERROR, scheduleId, s)
                                    else
                                      let executorIndex = hd (es_executorIndexes scheduleInfo);
                                          nodeId = es_scheduleId scheduleInfo;
                                          s = on_stub r (\<lambda>k. k\<lparr>rx_executorIndex := executorIndex\<rparr>) s
                                      in if pool_Select executorIndex (re_pool e) = None
                                         then (GENERAL_ERROR, scheduleId, s)
                                         else
                                           let s = rs_emit [NodeListenerAdded nodeId]
                                                 (on_stub r (\<lambda>k. k\<lparr>rx_remoteScheduleNode := Some nodeId\<rparr>) s)
                                           in if \<not> re_addListener e \<or> \<not> re_schedule e
                                              then (GENERAL_ERROR, scheduleId, s)
                                              else
                                                let s = rs_emit [HolderScheduled (re_contextId e)]
                                                      (on_stub r (\<lambda>k. k\<lparr>rx_contextId := Some (re_contextId e)\<rparr>) s)
                                                in case SetUint8ArrayValue ATTR_EXTRA_INFO
                                                          (hd (es_executorMessages scheduleInfo)) attr of
                                                     (stored, attr) \<Rightarrow>
                                                       if \<not> stored then (GENERAL_ERROR, scheduleId, s)
                                                       else (re_begin e, scheduleId,
                                                             rs_emit [ExecutorBegun executorIndex nodeId attr] s))
                           | _ \<Rightarrow> (GENERAL_ERROR, scheduleId, s))"

definition Stub_ProcSendDataMsg :: "remote_env \<Rightarrow> nat \<Rightarrow> attributes \<Rightarrow> remote_service \<Rightarrow> i32 \<times> remote_service" where
  "Stub_ProcSendDataMsg e r attr s =
     (case GetUint64Value ATTR_SCHEDULE_ID attr of
        None \<Rightarrow> (GENERAL_ERROR, s)
      | Some scheduleId \<Rightarrow>
          let executorIndex = rx_executorIndex (rs_heap s r)
          in if pool_Select executorIndex (re_pool e) = None then (GENERAL_ERROR, s)
             else (if re_data e \<noteq> SUCCESS then GENERAL_ERROR else SUCCESS,
                   rs_emit [ExecutorDataSent executorIndex scheduleId attr] s))"

text \<open>The reply is marked only when the executor took the data.\<close>

definition Stub_OnMessage ::
  "remote_env \<Rightarrow> nat \<Rightarrow> attributes \<Rightarrow> attributes \<Rightarrow> remote_service \<Rightarrow> attributes \<times> remote_service" where
  "Stub_OnMessage e r request reply s =
     (case GetInt32Value ATTR_MSG_TYPE request of
        None \<Rightarrow> (reply, s)
      | Some msgType \<Rightarrow>
          (case (if msgType = SEND_DATA_TO_EXECUTOR then Stub_ProcSendDataMsg e r request s else (GENERAL_ERROR, s)) of
             (resultCode, s) \<Rightarrow>
               if resultCode \<noteq> SUCCESS then (reply, s)
               else (snd (SetInt32Value ATTR_RESULT_CODE SUCCESS reply), s)))"

text \<open>What the executor sends and how it ends, as the schedule node passes it on to the device that borrows it.\<close>

definition Stub_SendMessage :: "remote_env \<Rightarrow> nat \<Rightarrow> i32 \<Rightarrow> bytes \<Rightarrow> remote_service \<Rightarrow> i32 \<times> remote_service" where
  "Stub_SendMessage e r dstRole msg s =
     (case rx_remoteScheduleNode (rs_heap s r) of
        None \<Rightarrow> (GENERAL_ERROR, s)
      | Some scheduleId \<Rightarrow>
          (case set_all [SetInt32Value ATTR_MSG_TYPE EXECUTOR_SEND_DATA, SetUint64Value ATTR_SCHEDULE_ID scheduleId,
                    SetInt32Value ATTR_DEST_ROLE dstRole] (Attributes_of_raw msg) of
             (stored, request) \<Rightarrow>
               if \<not> stored then (GENERAL_ERROR, s)
               else rs_send e (rx_connectionName (rs_heap s r)) EXECUTOR_STUB_ENDPOINT_NAME
                      EXECUTOR_PROXY_ENDPOINT_NAME request s))"

definition Stub_ContinueSchedule ::
  "remote_env \<Rightarrow> nat \<Rightarrow> i32 \<Rightarrow> attributes option \<Rightarrow> remote_service \<Rightarrow> i32 \<times> remote_service" where
  "Stub_ContinueSchedule e r resultCode finalResult s =
     (case (finalResult, rx_remoteScheduleNode (rs_heap s r)) of
        (Some final, Some scheduleId) \<Rightarrow>
          (case set_all [SetInt32Value ATTR_MSG_TYPE EXECUTOR_FINISH, SetUint64Value ATTR_SCHEDULE_ID scheduleId,
                    SetInt32Value ATTR_RESULT_CODE resultCode] (Attributes_of_raw (Serialize final)) of
             (stored, request) \<Rightarrow>
               if \<not> stored then (GENERAL_ERROR, s)
               else rs_send e (rx_connectionName (rs_heap s r)) EXECUTOR_STUB_ENDPOINT_NAME
                      EXECUTOR_PROXY_ENDPOINT_NAME request s)
      | _ \<Rightarrow> (GENERAL_ERROR, s))"

text \<open>The executor is gone or the schedule is stopped: the other device is told the code.\<close>

definition StubNode_StopSchedule :: "remote_env \<Rightarrow> nat \<Rightarrow> i32 \<Rightarrow> remote_service \<Rightarrow> bool \<times> remote_service" where
  "StubNode_StopSchedule e r errorCode s =
     (case SetInt32Value ATTR_RESULT_CODE errorCode Attributes_new of
        (stored, finalResult) \<Rightarrow>
          if \<not> stored then (False, s)
          else (case Stub_ContinueSchedule e r errorCode (Some finalResult) s of (ret, s) \<Rightarrow> (ret = SUCCESS, s)))"

text \<open>A connection that goes down ends the schedule in a task.\<close>

fun Listener_OnDisconnect :: "remote_listener \<Rightarrow> remote_service \<Rightarrow> remote_service" where
  "Listener_OnDisconnect ServiceListener s = s"
| "Listener_OnDisconnect (StubListener r scheduleId) s = s\<lparr>rs_tasks := rs_tasks s @ [scheduleId]\<rparr>"

section \<open>The service\<close>

definition empty_auth_param :: auth_param_inner where
  "empty_auth_param = \<lparr>pi_userId = 0, pi_isUserIdSpecified = False, pi_challenge = [], pi_authType = 0, pi_authTypes = [],
     pi_authTrustLevel = 0, pi_reuseUnlockResult = \<lparr>ru_isReuse = False, ru_reuseMode = 0, ru_reuseDuration = 0\<rparr>,
     pi_authIntent = 0, pi_skipLockedBiometricAuth = False, pi_credentialIdList = [], pi_remoteTokenId = None,
     pi_additionalInfo = []\<rparr>"

definition RemoteService_Start :: "remote_service \<Rightarrow> bool \<times> remote_service" where
  "RemoteService_Start s =
     (case Connect_RegisterGlobal REMOTE_SERVICE_ENDPOINT_NAME (Some ServiceListener) (rs_listeners s) of
        (registerResult, listeners) \<Rightarrow> (registerResult = SUCCESS, s\<lparr>rs_listeners := listeners\<rparr>))"

text \<open>
  The context id, the error and the state. The guard tells the callback, which tells the other device; what else the
  callback does with a result is in \<^verbatim>\<open>Context_Callback\<close>.
\<close>

definition Service_StartRemoteAuthContext ::
  "remote_env \<Rightarrow> bytes \<Rightarrow> auth_para \<Rightarrow> remote_auth_param \<Rightarrow> remote_service \<Rightarrow> u64 \<times> i32 \<times> remote_service" where
  "Service_StartRemoteAuthContext e connectionName para param s =
     (let told = snd (RemoteIam_OnResult e connectionName GENERAL_ERROR (Serialize Attributes_new) s)
      in case CreateRemoteAuthContext (re_networkId e) (re_contextId e) para param True True of
           None \<Rightarrow> (BAD_CONTEXT_ID, GENERAL_ERROR, told)
         | Some context \<Rightarrow>
             if \<not> re_schedule e then (BAD_CONTEXT_ID, re_latestError e, told)
             else (re_contextId e, SUCCESS, rs_emit [RemoteAuthScheduled (re_contextId e) context] s))"

definition requested_para :: "auth_param_inner \<Rightarrow> i32 \<Rightarrow> u32 \<Rightarrow> bytes \<Rightarrow> i32 \<Rightarrow> auth_para" where
  "requested_para authParam userId collectorTokenId callerName callerType = empty_para\<lparr>
     ap_userId := userId, ap_authType := pi_authType authParam, ap_atl := pi_authTrustLevel authParam,
     ap_collectorTokenId := collectorTokenId, ap_challenge := pi_challenge authParam,
     ap_sdkVersion := INNER_API_VERSION_10000, ap_callerName := callerName, ap_callerType := callerType\<rparr>"

definition remote_user :: "remote_env \<Rightarrow> i32 \<Rightarrow> i32 option" where
  "remote_user e userId =
     (if userId \<noteq> INVALID_USER_ID then Some userId
      else (case GetActiveUserId (re_caller e) None of (ret, activeUserId) \<Rightarrow> if ret \<noteq> SUCCESS then None else activeUserId))"

definition ProcStartRemoteAuthRequest ::
  "remote_env \<Rightarrow> bytes \<Rightarrow> attributes \<Rightarrow> attributes \<Rightarrow> remote_service \<Rightarrow> i32 \<times> attributes \<times> remote_service" where
  "ProcStartRemoteAuthRequest e connectionName request reply s =
     (case DecodeAuthParam request empty_auth_param of
        (decoded, authParam) \<Rightarrow>
          if \<not> decoded then (GENERAL_ERROR, reply, s)
          else (case (remote_user e (pi_userId authParam), GetStringValue ATTR_COLLECTOR_NETWORK_ID request,
                      GetUint32Value ATTR_COLLECTOR_TOKEN_ID request, GetStringValue ATTR_CALLER_NAME request,
                      GetInt32Value ATTR_CALLER_TYPE request) of
                  (Some userId, Some collectorNetworkId, Some collectorTokenId, Some callerName, Some callerType) \<Rightarrow>
                    (case Service_StartRemoteAuthContext e connectionName
                            (requested_para authParam userId collectorTokenId callerName callerType)
                            \<lparr>ra_authType = pi_authType authParam, ra_connectionName = connectionName,
                             ra_collectorNetworkId = collectorNetworkId, ra_executorInfoMsg = Serialize request\<rparr> s of
                       (contextId, lastError, s) \<Rightarrow>
                         if contextId = BAD_CONTEXT_ID then (lastError, reply, s)
                         else (case SetUint64Value ATTR_CONTEXT_ID contextId reply of
                                 (stored, reply) \<Rightarrow> (if stored then SUCCESS else GENERAL_ERROR, reply, s)))
                | _ \<Rightarrow> (GENERAL_ERROR, reply, s)))"

definition ProcQueryExecutorInfoRequest :: "remote_env \<Rightarrow> attributes \<Rightarrow> attributes \<Rightarrow> i32 \<times> attributes" where
  "ProcQueryExecutorInfoRequest e request reply =
     (case (GetInt32ArrayValue ATTR_AUTH_TYPES request, GetInt32Value ATTR_EXECUTOR_ROLE request,
            GetStringValue ATTR_MSG_SRC_UDID request) of
        (Some authTypes, Some executorRole, Some srcUdid) \<Rightarrow>
          GetQueryExecutorInfoReply (re_getSigned e) (re_localUdid e) (re_pool e) authTypes executorRole srcUdid reply
      | _ \<Rightarrow> (GENERAL_ERROR, reply))"

text \<open>A stub that is not filed is destroyed when the function returns; \<^verbatim>\<open>emplace\<close> files nothing under a key that is taken.\<close>

definition ProcBeginExecuteRequest :: "remote_env \<Rightarrow> attributes \<Rightarrow> remote_service \<Rightarrow> i32 \<times> remote_service" where
  "ProcBeginExecuteRequest e request s =
     (let r = rs_fresh s;
          s = s\<lparr>rs_heap := (rs_heap s)(r := RemoteExecutorStub), rs_fresh := Suc r\<rparr>
      in case Stub_ProcBeginExecuteRequest e r request s of
           (operationResult, scheduleId, s) \<Rightarrow>
             let s = rs_emit [ExecuteReported scheduleId (rx_connectionName (rs_heap s r)) operationResult] s
             in if operationResult \<noteq> SUCCESS then (GENERAL_ERROR, Stub_Destroy r s)
                else if map_of (rs_stubs s) scheduleId \<noteq> None then (SUCCESS, Stub_Destroy r s)
                else (SUCCESS, s\<lparr>rs_stubs := omap_assign scheduleId r (rs_stubs s)\<rparr>))"

definition end_execute :: "u64 \<Rightarrow> remote_service \<Rightarrow> i32 \<times> remote_service" where
  "end_execute scheduleId s =
     (case map_of (rs_stubs s) scheduleId of
        None \<Rightarrow> (GENERAL_ERROR, s)
      | Some r \<Rightarrow> (SUCCESS, Stub_Destroy r (s\<lparr>rs_stubs := key_erase scheduleId (rs_stubs s)\<rparr>)))"

definition ProcEndExecuteRequest :: "attributes \<Rightarrow> remote_service \<Rightarrow> i32 \<times> remote_service" where
  "ProcEndExecuteRequest request s =
     (case GetUint64Value ATTR_SCHEDULE_ID request of
        None \<Rightarrow> (GENERAL_ERROR, s) | Some scheduleId \<Rightarrow> end_execute scheduleId s)"

definition RemoteService_OnMessage ::
  "remote_env \<Rightarrow> bytes \<Rightarrow> attributes \<Rightarrow> attributes \<Rightarrow> remote_service \<Rightarrow> attributes \<times> remote_service" where
  "RemoteService_OnMessage e connectionName request reply s =
     (case GetInt32Value ATTR_MSG_TYPE request of
        None \<Rightarrow> (reply, s)
      | Some msgType \<Rightarrow>
          (case (if msgType = START_REMOTE_AUTH then ProcStartRemoteAuthRequest e connectionName request reply s
                 else if msgType = QUERY_EXECUTOR_INFO
                 then (case ProcQueryExecutorInfoRequest e request reply of (ret, reply) \<Rightarrow> (ret, reply, s))
                 else if msgType = BEGIN_EXECUTE
                 then (case ProcBeginExecuteRequest e request s of (ret, s) \<Rightarrow> (ret, reply, s))
                 else if msgType = END_EXECUTE
                 then (case ProcEndExecuteRequest request s of (ret, s) \<Rightarrow> (ret, reply, s))
                 else if msgType = KEEP_ALIVE then (SUCCESS, reply, s)
                 else (GENERAL_ERROR, reply, s)) of
             (resultCode, reply, s) \<Rightarrow> (snd (SetInt32Value ATTR_RESULT_CODE resultCode reply), s)))"

section \<open>Steps\<close>

text \<open>
  Messages reach the listener that is found for their connection and end point; a stub that is gone hears nothing. The
  request of the task that ends a schedule holds the schedule id only.
\<close>

datatype remote_label =
    ServiceStarts
  | MessageArrives remote_env bytes bytes attributes attributes
  | ConnectionBreaks bytes
  | TaskRuns nat
  | ExecutorSends remote_env nat i32 bytes
  | ExecutorFinishes remote_env nat i32 "attributes option"
  | ScheduleStopped remote_env nat i32

definition deliver ::
  "remote_env \<Rightarrow> bytes \<Rightarrow> bytes \<Rightarrow> attributes \<Rightarrow> attributes \<Rightarrow> remote_service \<Rightarrow> attributes \<times> remote_service" where
  "deliver e connectionName endPoint request reply s =
     (case FindListener connectionName endPoint (rs_listeners s) of
        None \<Rightarrow> (reply, s)
      | Some ServiceListener \<Rightarrow> RemoteService_OnMessage e connectionName request reply s
      | Some (StubListener r _) \<Rightarrow>
          if r \<in> snd ` set (rs_stubs s) then Stub_OnMessage e r request reply s else (reply, s))"

definition connection_breaks :: "bytes \<Rightarrow> remote_service \<Rightarrow> remote_service" where
  "connection_breaks connectionName s =
     (case OnConnectionDown connectionName (rs_listeners s) of
        (told, listeners) \<Rightarrow> fold Listener_OnDisconnect told (s\<lparr>rs_listeners := listeners\<rparr>))"

fun remote_step :: "remote_label \<Rightarrow> remote_service \<Rightarrow> remote_service" where
  "remote_step ServiceStarts s = snd (RemoteService_Start s)"
| "remote_step (MessageArrives e n p request reply) s = snd (deliver e n p request reply s)"
| "remote_step (ConnectionBreaks n) s = connection_breaks n s"
| "remote_step (TaskRuns i) s =
     (if i < length (rs_tasks s)
      then snd (end_execute (rs_tasks s ! i) (s\<lparr>rs_tasks := take i (rs_tasks s) @ drop (Suc i) (rs_tasks s)\<rparr>)) else s)"
| "remote_step (ExecutorSends e r dstRole msg) s =
     (if r \<in> snd ` set (rs_stubs s) then snd (Stub_SendMessage e r dstRole msg s) else s)"
| "remote_step (ExecutorFinishes e r resultCode finalResult) s =
     (if r \<in> snd ` set (rs_stubs s) then snd (Stub_ContinueSchedule e r resultCode finalResult s) else s)"
| "remote_step (ScheduleStopped e r errorCode) s =
     (if r \<in> snd ` set (rs_stubs s) then snd (StubNode_StopSchedule e r errorCode s) else s)"

definition remote_run :: "remote_label list \<Rightarrow> remote_service \<Rightarrow> remote_service" where
  "remote_run ls s = fold remote_step ls s"

end
