(* ===== verification/Remote_Service_Properties.thy ===== *)
theory Remote_Service_Properties
  imports Remote_Service "HOL-Library.Multiset"
begin

text \<open>
  What the lending of executors keeps in order: everything a stub takes is given back when its schedule ends, and a
  connection that breaks ends the schedule. A second request on a connection breaks this promise.
\<close>

section \<open>Ledgers\<close>

text \<open>What a machine takes from others is either given back or held, if every step keeps it so.\<close>

locale resource_ledger =
  fixes taken returned in_hand :: "'s \<Rightarrow> 'a multiset"
    and step :: "'l \<Rightarrow> 's \<Rightarrow> 's"
    and ok :: "'s \<Rightarrow> bool"
  assumes step_ok: "ok s \<Longrightarrow> ok (step l s)"
    and step_balanced: "ok s \<Longrightarrow> taken s = returned s + in_hand s \<Longrightarrow>
      taken (step l s) = returned (step l s) + in_hand (step l s)"
begin

lemma run_balanced:
  assumes "ok s" "taken s = returned s + in_hand s"
  shows "ok (fold step ls s)" "taken (fold step ls s) = returned (fold step ls s) + in_hand (fold step ls s)"
proof -
  have "ok (fold step ls s) \<and> taken (fold step ls s) = returned (fold step ls s) + in_hand (fold step ls s)"
    using assms by (induction ls arbitrary: s) (simp_all add: step_ok step_balanced)
  then show "ok (fold step ls s)" "taken (fold step ls s) = returned (fold step ls s) + in_hand (fold step ls s)" by auto
qed

lemma all_returned:
  assumes "ok s" "taken s = returned s + in_hand s" "in_hand (fold step ls s) = {#}"
  shows "taken (fold step ls s) = returned (fold step ls s)"
  using run_balanced(2) [OF assms(1,2), of ls] assms(3) by simp

end

section \<open>What a stub takes\<close>

definition picked :: "('x \<Rightarrow> 'a option) \<Rightarrow> 'x list \<Rightarrow> 'a multiset" where
  "picked f xs = mset (List.map_filter f xs)"

lemma picked_simps [simp]:
  "picked f [] = {#}" "picked f (x # xs) = (case f x of None \<Rightarrow> picked f xs | Some y \<Rightarrow> add_mset y (picked f xs))"
  "picked f (xs @ ys) = picked f xs + picked f ys"
  by (auto simp: picked_def map_filter_simps map_filter_def split: option.split)

lemma picked_mset: "mset xs = mset ys \<Longrightarrow> picked f xs = picked f ys"
  by (simp add: picked_def map_filter_def)

lemma picked_cong: "(\<And>x. x \<in> set xs \<Longrightarrow> f x = g x) \<Longrightarrow> picked f xs = picked g xs"
  by (induction xs) (auto split: option.split)

definition holder_taken :: "remote_output \<Rightarrow> u64 option" where
  "holder_taken y = (case y of HolderScheduled c \<Rightarrow> Some c | _ \<Rightarrow> None)"

definition holder_returned :: "remote_output \<Rightarrow> u64 option" where
  "holder_returned y = (case y of HolderDeleted c \<Rightarrow> Some c | _ \<Rightarrow> None)"

definition node_taken :: "remote_output \<Rightarrow> u64 option" where
  "node_taken y = (case y of NodeListenerAdded i \<Rightarrow> Some i | _ \<Rightarrow> None)"

definition node_returned :: "remote_output \<Rightarrow> u64 option" where
  "node_returned y = (case y of NodeListenerDropped i \<Rightarrow> Some i | _ \<Rightarrow> None)"

lemmas ledger_defs = holder_taken_def holder_returned_def node_taken_def node_returned_def

definition in_stubs :: "(executor_stub \<Rightarrow> u64 option) \<Rightarrow> remote_service \<Rightarrow> u64 multiset" where
  "in_stubs g s = picked (\<lambda>(_, r). g (rs_heap s r)) (rs_stubs s)"

definition opt_mset :: "'a option \<Rightarrow> 'a multiset" where
  "opt_mset x = (case x of None \<Rightarrow> {#} | Some y \<Rightarrow> {#y#})"

definition stubs_ok :: "remote_service \<Rightarrow> bool" where
  "stubs_ok s \<longleftrightarrow> distinct (map fst (rs_stubs s)) \<and> (\<forall>r \<in> snd ` set (rs_stubs s). r < rs_fresh s)"

text \<open>What the outputs \<open>ys\<close> take and give back.\<close>

definition moves :: "u64 option \<Rightarrow> u64 option \<Rightarrow> u64 option \<Rightarrow> u64 option \<Rightarrow> remote_output list \<Rightarrow> bool" where
  "moves ht hr nt nr ys \<longleftrightarrow> picked holder_taken ys = opt_mset ht \<and> picked holder_returned ys = opt_mset hr \<and>
     picked node_taken ys = opt_mset nt \<and> picked node_returned ys = opt_mset nr"

text \<open>A begin takes for its stub only, the destructor gives back what the stub has, and the rest does neither.\<close>

definition same_stubs :: "remote_service \<Rightarrow> remote_service \<Rightarrow> bool" where
  "same_stubs s s' \<longleftrightarrow> rs_stubs s' = rs_stubs s \<and> rs_fresh s' = rs_fresh s"

definition unlent :: "remote_service \<Rightarrow> remote_service \<Rightarrow> bool" where
  "unlent s s' \<longleftrightarrow> same_stubs s s' \<and> rs_heap s' = rs_heap s \<and>
     (\<exists>ys. rs_outputs s' = rs_outputs s @ ys \<and> moves None None None None ys)"

lemma stub_begin:
  assumes "Stub_ProcBeginExecuteRequest e r attr s = (ret, scheduleId, s')" "rs_heap s r = RemoteExecutorStub"
  shows "same_stubs s s' \<and> (\<forall>q. q \<noteq> r \<longrightarrow> rs_heap s' q = rs_heap s q) \<and>
    (\<exists>ys. rs_outputs s' = rs_outputs s @ ys \<and>
       moves (rx_contextId (rs_heap s' r)) None (rx_remoteScheduleNode (rs_heap s' r)) None ys)"
  using assms
  by (auto simp: Stub_ProcBeginExecuteRequest_def RemoteExecutorStub_def Let_def on_stub_def rs_emit_def same_stubs_def
      moves_def opt_mset_def ledger_defs split: option.splits prod.splits if_splits)

lemma stub_destroy:
  "same_stubs s (Stub_Destroy r s) \<and> rs_heap (Stub_Destroy r s) = rs_heap s \<and>
   (\<exists>ys. rs_outputs (Stub_Destroy r s) = rs_outputs s @ ys \<and>
      moves None (rx_contextId (rs_heap s r)) None (rx_remoteScheduleNode (rs_heap s r)) ys)"
  by (auto simp: Stub_Destroy_def Let_def rs_emit_def same_stubs_def moves_def opt_mset_def ledger_defs split: option.split)

section \<open>What leaves the ledgers alone\<close>

lemma unlent_refl [simp, intro]: "unlent s s"
  by (simp add: unlent_def same_stubs_def moves_def opt_mset_def)

lemma unlent_emit: "moves None None None None ys \<Longrightarrow> unlent s (rs_emit ys s)"
  by (auto simp: unlent_def same_stubs_def rs_emit_def)

lemma unlent_updates [simp]:
  "unlent s (s'\<lparr>rs_listeners := ls\<rparr>) = unlent s s'" "unlent s (s'\<lparr>rs_tasks := ts\<rparr>) = unlent s s'"
  by (simp_all add: unlent_def same_stubs_def)

lemma unlent_messages [simp]:
  "moves None None None None [RemoteMessage n p q a]" "moves None None None None [ExecutorDataSent i j a]"
  "moves None None None None [RemoteAuthScheduled c x]" "moves None None None None [ExecuteReported i n ret]"
  by (simp_all add: moves_def opt_mset_def ledger_defs)

lemma unlent_sends [simp]:
  "unlent s (snd (rs_send e n p q a s))" "unlent s (snd (RemoteIam_OnResult e n ret x s))"
  "unlent s (snd (Stub_SendMessage e r role msg s))" "unlent s (snd (Stub_ContinueSchedule e r ret final s))"
  "unlent s (snd (StubNode_StopSchedule e r ret s))" "unlent s (snd (Stub_ProcSendDataMsg e r a s))"
proof -
  show send: "unlent s (snd (rs_send e n p q a s))" for n p q a by (simp add: rs_send_def unlent_emit)
  show "unlent s (snd (RemoteIam_OnResult e n ret x s))" by (simp add: RemoteIam_OnResult_def send split: prod.split)
  show "unlent s (snd (Stub_SendMessage e r role msg s))"
    by (simp add: Stub_SendMessage_def send split: prod.split option.split)
  show continue: "unlent s (snd (Stub_ContinueSchedule e r ret final s))" for final
    by (simp add: Stub_ContinueSchedule_def send split: prod.split option.split)
  show "unlent s (snd (StubNode_StopSchedule e r ret s))"
    using continue by (auto simp: StubNode_StopSchedule_def split: prod.split) (metis snd_conv)
  show "unlent s (snd (Stub_ProcSendDataMsg e r a s))"
    by (simp add: Stub_ProcSendDataMsg_def Let_def unlent_emit split: option.split)
qed

lemma unlent_stub_message: "unlent s (snd (Stub_OnMessage e r request reply s))"
proof -
  obtain ret s1 where s1: "Stub_ProcSendDataMsg e r request s = (ret, s1)" by fastforce
  have "unlent s s1" using unlent_sends(6) [of s e r request] unfolding s1 by simp
  then show ?thesis by (simp add: Stub_OnMessage_def s1 split: option.split prod.split)
qed

lemma unlent_start: "unlent s (snd (snd (ProcStartRemoteAuthRequest e n request reply s)))"
proof -
  have "unlent s (snd (snd (Service_StartRemoteAuthContext e n para param s)))" for para param
    by (simp add: Service_StartRemoteAuthContext_def Let_def unlent_emit split: option.split)
  then show ?thesis
    by (auto simp: ProcStartRemoteAuthRequest_def split: option.split prod.split) (metis snd_conv)+
qed

lemma unlent_breaks: "unlent s (connection_breaks n s)"
proof -
  have "unlent s (fold Listener_OnDisconnect ls s')" if "unlent s s'" for ls s'
    using that
  proof (induction ls arbitrary: s')
    case (Cons l ls)
    then show ?case by (cases l) simp_all
  qed simp
  then show ?thesis by (simp add: connection_breaks_def split: prod.split)
qed

section \<open>Every step keeps the ledgers\<close>

text \<open>One of the two ledgers: what is picked from the outputs and which member of a stub holds it.\<close>

definition balanced ::
  "(remote_output \<Rightarrow> u64 option) \<Rightarrow> (remote_output \<Rightarrow> u64 option) \<Rightarrow> (executor_stub \<Rightarrow> u64 option) \<Rightarrow> remote_service \<Rightarrow> bool" where
  "balanced f g h s \<longleftrightarrow> picked f (rs_outputs s) = picked g (rs_outputs s) + in_stubs h s"

definition is_ledger ::
  "(remote_output \<Rightarrow> u64 option) \<Rightarrow> (remote_output \<Rightarrow> u64 option) \<Rightarrow> (executor_stub \<Rightarrow> u64 option) \<Rightarrow> bool" where
  "is_ledger f g h \<longleftrightarrow> (f = holder_taken \<and> g = holder_returned \<and> h = rx_contextId) \<or>
     (f = node_taken \<and> g = node_returned \<and> h = rx_remoteScheduleNode)"

lemma unlent_keeps: "unlent s s' \<Longrightarrow> stubs_ok s \<Longrightarrow> stubs_ok s'"
  "unlent s s' \<Longrightarrow> is_ledger f g h \<Longrightarrow> balanced f g h s \<Longrightarrow> balanced f g h s'"
  by (auto simp: unlent_def same_stubs_def stubs_ok_def balanced_def in_stubs_def is_ledger_def moves_def opt_mset_def)

lemma mset_assign: "map_of m k = None \<Longrightarrow> mset (omap_assign k v m) = add_mset (k, v) (mset m)"
  by (induction k v m rule: omap_assign.induct) (auto split: if_splits)

lemma mset_erase:
  "distinct (map fst m) \<Longrightarrow> map_of m k = Some v \<Longrightarrow> mset m = add_mset (k, v) (mset (key_erase k m))"
proof (induction m)
  case (Cons x m)
  obtain j w where x: "x = (j, w)" by fastforce
  show ?case
  proof (cases "j = k")
    case True
    then have "filter (\<lambda>(i, _). i \<noteq> k) m = m" using Cons(2) x by (auto simp: filter_id_conv image_iff)
    then show ?thesis using Cons(3) x True by (simp add: key_erase_def)
  next
    case False
    then show ?thesis using Cons x by (simp add: key_erase_def)
  qed
qed simp

lemma distinct_assign: "distinct (map fst m) \<Longrightarrow> map_of m k = None \<Longrightarrow> distinct (map fst (omap_assign k v m))"
  by (induction k v m rule: omap_assign.induct) (simp_all add: map_of_eq_None_iff split: if_splits)

lemma picked_assign: "map_of m k = None \<Longrightarrow> picked f (omap_assign k v m) = picked f ((k, v) # m)"
  by (rule picked_mset) (simp add: mset_assign)

lemma picked_erase:
  "distinct (map fst m) \<Longrightarrow> map_of m k = Some v \<Longrightarrow> picked f m = picked f ((k, v) # key_erase k m)"
  by (rule picked_mset) (simp add: mset_erase)

lemma in_stubs_assign:
  "map_of (rs_stubs s) k = None \<Longrightarrow>
     in_stubs h (s\<lparr>rs_stubs := omap_assign k r (rs_stubs s)\<rparr>) = in_stubs h s + opt_mset (h (rs_heap s r))"
  by (simp add: in_stubs_def opt_mset_def picked_assign split: option.split)

lemma in_stubs_erase:
  assumes "distinct (map fst (rs_stubs s))" "map_of (rs_stubs s) k = Some r"
  shows "in_stubs h s = in_stubs h (s\<lparr>rs_stubs := key_erase k (rs_stubs s)\<rparr>) + opt_mset (h (rs_heap s r))"
  using picked_erase [OF assms, of "\<lambda>(_, r). h (rs_heap s r)"]
  by (simp add: in_stubs_def opt_mset_def split: option.splits)

lemma destroy_balance:
  assumes "is_ledger f g h" "picked f (rs_outputs s) = picked g (rs_outputs s) + in_stubs h s + opt_mset (h (rs_heap s r))"
  shows "balanced f g h (Stub_Destroy r s)"
  using stub_destroy [of s r] assms
  by (auto simp: balanced_def is_ledger_def moves_def opt_mset_def in_stubs_def same_stubs_def)

lemma end_keeps:
  assumes "stubs_ok s"
  shows "stubs_ok (snd (end_execute i s))"
    and "is_ledger f g h \<Longrightarrow> balanced f g h s \<Longrightarrow> balanced f g h (snd (end_execute i s))"
proof -
  show "stubs_ok (snd (end_execute i s))"
    using assms stub_destroy [of "s\<lparr>rs_stubs := key_erase i (rs_stubs s)\<rparr>"]
    by (auto simp: end_execute_def stubs_ok_def same_stubs_def key_erase_def distinct_map_filter split: option.split)
  show "balanced f g h (snd (end_execute i s))" if l: "is_ledger f g h" and b: "balanced f g h s"
  proof (cases "map_of (rs_stubs s) i")
    case (Some r)
    let ?s = "s\<lparr>rs_stubs := key_erase i (rs_stubs s)\<rparr>"
    have "picked f (rs_outputs ?s) = picked g (rs_outputs ?s) + in_stubs h ?s + opt_mset (h (rs_heap ?s r))"
      using b in_stubs_erase [of s i r h] Some assms by (simp add: balanced_def stubs_ok_def)
    then show ?thesis using destroy_balance [OF l] Some by (simp add: end_execute_def)
  qed (use b in \<open>simp add: end_execute_def\<close>)
qed

lemma begin_keeps:
  assumes "stubs_ok s"
  shows "stubs_ok (snd (ProcBeginExecuteRequest e request s)) \<and>
    (is_ledger f g h \<longrightarrow> balanced f g h s \<longrightarrow> balanced f g h (snd (ProcBeginExecuteRequest e request s)))"
proof -
  let ?r = "rs_fresh s"
  let ?s0 = "s\<lparr>rs_heap := (rs_heap s)(?r := RemoteExecutorStub), rs_fresh := Suc ?r\<rparr>"
  obtain ret i s1 where s1: "Stub_ProcBeginExecuteRequest e ?r request ?s0 = (ret, i, s1)" by (metis prod_cases3)
  let ?s2 = "rs_emit [ExecuteReported i (rx_connectionName (rs_heap s1 ?r)) ret] s1"
  have b: "same_stubs ?s0 s1" "\<And>q. q \<noteq> ?r \<Longrightarrow> rs_heap s1 q = rs_heap s q"
    and out: "\<exists>ys. rs_outputs s1 = rs_outputs s @ ys \<and>
      moves (rx_contextId (rs_heap s1 ?r)) None (rx_remoteScheduleNode (rs_heap s1 ?r)) None ys"
    using stub_begin [OF s1] by auto
  have same: "rs_stubs ?s2 = rs_stubs s" "rs_fresh ?s2 = Suc ?r" "rs_heap ?s2 = rs_heap s1"
    using b(1) by (simp_all add: same_stubs_def rs_emit_def)
  have ok2: "stubs_ok ?s2" using assms same by (auto simp: stubs_ok_def less_Suc_eq)
  have fresh: "?r \<notin> snd ` set (rs_stubs s)" using assms by (auto simp: stubs_ok_def)
  have "rs_heap s1 q = rs_heap s q" if "(j, q) \<in> set (rs_stubs s)" for j q
    using b(2) [of q] fresh that by force
  then have held2: "in_stubs h ?s2 = in_stubs h s"
    unfolding in_stubs_def same by (intro picked_cong) (auto split: prod.split)
  have bal2: "picked f (rs_outputs ?s2) = picked g (rs_outputs ?s2) + in_stubs h ?s2 + opt_mset (h (rs_heap ?s2 ?r))"
    if l: "is_ledger f g h" and "balanced f g h s"
  proof -
    have "picked f (rs_outputs ?s2) = picked f (rs_outputs s) + opt_mset (h (rs_heap s1 ?r))"
      "picked g (rs_outputs ?s2) = picked g (rs_outputs s)"
      using out l by (auto simp: is_ledger_def moves_def rs_emit_def ledger_defs opt_mset_def)
    then show ?thesis using that(2) held2 same(3) by (simp add: balanced_def)
  qed
  have filed: "stubs_ok (?s2\<lparr>rs_stubs := omap_assign i ?r (rs_stubs ?s2)\<rparr>)" if "map_of (rs_stubs ?s2) i = None"
  proof -
    have "distinct (map fst (omap_assign i ?r (rs_stubs ?s2)))" 
      using distinct_assign [OF conjunct1 [OF ok2 [unfolded stubs_ok_def]] that] .
    moreover have "\<forall>q \<in> snd ` set (omap_assign i ?r (rs_stubs ?s2)). q < Suc ?r"
      using ok2 same by (auto simp: stubs_ok_def dest: values_omap_assign)
    ultimately show ?thesis using same by (simp add: stubs_ok_def)
  qed
  have "stubs_ok (Stub_Destroy ?r ?s2)"
    using ok2 stub_destroy [of ?s2 ?r] by (simp add: stubs_ok_def same_stubs_def)
  moreover have "balanced f g h (Stub_Destroy ?r ?s2)" if "is_ledger f g h" "balanced f g h s"
    using destroy_balance [OF that(1) bal2 [OF that]] .
  moreover have "balanced f g h (?s2\<lparr>rs_stubs := omap_assign i ?r (rs_stubs ?s2)\<rparr>)"
    if "is_ledger f g h" "balanced f g h s" "map_of (rs_stubs ?s2) i = None"
    using bal2 [OF that(1,2)] in_stubs_assign [OF that(3), of h ?r] by (simp add: balanced_def add.assoc)
  moreover have "snd (ProcBeginExecuteRequest e request s) = Stub_Destroy ?r ?s2 \<or> map_of (rs_stubs ?s2) i = None \<and>
      snd (ProcBeginExecuteRequest e request s) = ?s2\<lparr>rs_stubs := omap_assign i ?r (rs_stubs ?s2)\<rparr>"
    by (simp add: ProcBeginExecuteRequest_def s1 Let_def)
  ultimately show ?thesis using filed by metis
qed

lemma message_keeps:
  assumes "stubs_ok s"
  shows "stubs_ok (snd (RemoteService_OnMessage e n request reply s)) \<and>
    (is_ledger f g h \<longrightarrow> balanced f g h s \<longrightarrow> balanced f g h (snd (RemoteService_OnMessage e n request reply s)))"
proof -
  obtain ret reply1 s1 where start: "ProcStartRemoteAuthRequest e n request reply s = (ret, reply1, s1)" by (metis prod_cases3)
  obtain ret2 s2 where begins: "ProcBeginExecuteRequest e request s = (ret2, s2)" by fastforce
  obtain ret3 s3 where ends: "ProcEndExecuteRequest request s = (ret3, s3)" by fastforce
  have "unlent s s1" using unlent_start [of s e n request reply] start by simp
  moreover have "stubs_ok s2 \<and> (is_ledger f g h \<longrightarrow> balanced f g h s \<longrightarrow> balanced f g h s2)"
    using begin_keeps [OF assms, of e request f g h] begins by simp
  moreover have "stubs_ok s3 \<and> (is_ledger f g h \<longrightarrow> balanced f g h s \<longrightarrow> balanced f g h s3)"
    using end_keeps [OF assms] ends assms by (auto simp: ProcEndExecuteRequest_def split: option.splits) (metis snd_conv)+
  ultimately show ?thesis
    using unlent_keeps assms
    by (auto simp: RemoteService_OnMessage_def start begins ends split: option.split prod.split)
qed

lemma service_step_keeps:
  assumes "stubs_ok s"
  shows "stubs_ok (remote_step l s)" and "is_ledger f g h \<Longrightarrow> balanced f g h s \<Longrightarrow> balanced f g h (remote_step l s)"
proof -
  have "stubs_ok (remote_step l s) \<and> (is_ledger f g h \<longrightarrow> balanced f g h s \<longrightarrow> balanced f g h (remote_step l s))"
  proof (cases "unlent s (remote_step l s)")
    case True
    then show ?thesis using unlent_keeps assms by blast
  next
    case False
    then show ?thesis
    proof (cases l)
      case ServiceStarts
      then show ?thesis using False by (simp add: RemoteService_Start_def split: prod.splits)
    next
      case (MessageArrives e n p request reply)
      then show ?thesis
        using False message_keeps [OF assms] unlent_stub_message
        by (auto simp: deliver_def split: option.splits remote_listener.splits if_splits)
    next
      case (TaskRuns i)
      let ?s = "s\<lparr>rs_tasks := take i (rs_tasks s) @ drop (Suc i) (rs_tasks s)\<rparr>"
      have "unlent s ?s" by simp
      then have "stubs_ok ?s" "is_ledger f g h \<longrightarrow> balanced f g h s \<longrightarrow> balanced f g h ?s" using unlent_keeps assms by blast+
      then show ?thesis using end_keeps [of ?s] TaskRuns False by auto
    qed (use False in \<open>simp_all add: unlent_breaks split: if_splits\<close>)
  qed
  then show "stubs_ok (remote_step l s)" "is_ledger f g h \<Longrightarrow> balanced f g h s \<Longrightarrow> balanced f g h (remote_step l s)" by auto
qed

text \<open>Both ledgers: the contexts that hold schedules in the pool, and the listeners of the executors' pool.\<close>

interpretation holders: resource_ledger "\<lambda>s. picked holder_taken (rs_outputs s)" "\<lambda>s. picked holder_returned (rs_outputs s)"
  "in_stubs rx_contextId" remote_step stubs_ok
  using service_step_keeps by unfold_locales (auto simp: is_ledger_def balanced_def)

interpretation node_listeners: resource_ledger "\<lambda>s. picked node_taken (rs_outputs s)" "\<lambda>s. picked node_returned (rs_outputs s)"
  "in_stubs rx_remoteScheduleNode" remote_step stubs_ok
  using service_step_keeps by unfold_locales (auto simp: is_ledger_def balanced_def)

lemma initial_ledgers:
  "stubs_ok initial_service" "rs_outputs initial_service = []" "in_stubs h initial_service = {#}"
  by (simp_all add: stubs_ok_def initial_service_def in_stubs_def)

text \<open>
  Property C25: whatever devices ask and in whichever order connections break and tasks run, each context that was put
  into the pool for a lent executor was either taken out again or belongs to exactly one stub that the service still has
  on file, and so it is with the listeners: each that the pool of executors was asked to add it was asked to drop, or it
  belongs to a stub on file. When no stub is on file, everything was given back.
\<close>

theorem lent_executors_balanced:
  "picked holder_taken (rs_outputs (remote_run ls initial_service)) =
     picked holder_returned (rs_outputs (remote_run ls initial_service)) +
     in_stubs rx_contextId (remote_run ls initial_service) \<and>
   picked node_taken (rs_outputs (remote_run ls initial_service)) =
     picked node_returned (rs_outputs (remote_run ls initial_service)) +
     in_stubs rx_remoteScheduleNode (remote_run ls initial_service)"
  using holders.run_balanced(2) [of initial_service ls] node_listeners.run_balanced(2) [of initial_service ls]
  by (simp add: initial_ledgers remote_run_def)

end
