(* ===== verification/Remote_Service_Links.thy ===== *)
theory Remote_Service_Links
  imports Remote_Service_Properties
begin

text \<open>
  The listeners of lent executors: each belongs to a stub on file, so that a connection that breaks ends its schedule.
  A second request to lend on the same connection takes the listener away. Only \<open>GLOBAL_CONNECTION_NAME\<close> is
  excluded as the name of a connection, under which a peer would listen to all of them.
\<close>

section \<open>Listeners and stubs\<close>

definition listener_backed :: "remote_service \<Rightarrow> remote_listener listener_info \<Rightarrow> bool" where
  "listener_backed s info \<longleftrightarrow>
     (case li_listener info of
        ServiceListener \<Rightarrow> li_endPointName info \<noteq> EXECUTOR_STUB_ENDPOINT_NAME
      | StubListener r i \<Rightarrow>
          li_endPointName info = EXECUTOR_STUB_ENDPOINT_NAME \<and> map_of (rs_stubs s) i = Some r \<and>
          rx_connectionName (rs_heap s r) = li_connectionName info \<and> rx_connectionCallback (rs_heap s r) \<noteq> None)"

definition registry_ok :: "remote_listener listener_info list \<Rightarrow> bool" where
  "registry_ok rs \<longleftrightarrow> listeners_ok rs \<and> scoped_end_point EXECUTOR_STUB_ENDPOINT_NAME rs"

definition linked :: "remote_service \<Rightarrow> bool" where
  "linked s \<longleftrightarrow> stubs_ok s \<and> registry_ok (rs_listeners s) \<and> (\<forall>info \<in> set (rs_listeners s). listener_backed s info)"

lemma unregistered:
  assumes "registry_ok rs" "rs' = snd (Connect_UnregisterListener n EXECUTOR_STUB_ENDPOINT_NAME rs)"
  shows "registry_ok rs'" "set rs' \<subseteq> set rs"
    and "info \<in> set rs' \<Longrightarrow> li_endPointName info = EXECUTOR_STUB_ENDPOINT_NAME \<Longrightarrow> li_connectionName info \<noteq> n"
proof -
  let ?p = EXECUTOR_STUB_ENDPOINT_NAME
  have "registry_ok rs' \<and> set rs' \<subseteq> set rs \<and> FindListener n ?p rs' = None"
  proof (cases "list_ex (matches_listener n ?p) rs")
    case True
    then have rs': "rs' = erase_first (matches_listener n ?p) rs" using assms(2) by (simp add: Connect_UnregisterListener_def)
    show ?thesis using erase_scoped [OF _ _ True] assms(1) unfolding rs' registry_ok_def by auto
  next
    case False
    then show ?thesis using assms by (simp add: Connect_UnregisterListener_def find_None)
  qed
  then show "registry_ok rs'" "set rs' \<subseteq> set rs"
    "info \<in> set rs' \<Longrightarrow> li_endPointName info = ?p \<Longrightarrow> li_connectionName info \<noteq> n"
    by (auto simp: find_None list_ex_iff matches_listener_def)
qed

lemma registered:
  assumes "registry_ok rs" "FindListener n EXECUTOR_STUB_ENDPOINT_NAME rs = None" "n \<noteq> GLOBAL_CONNECTION_NAME"
  shows "registry_ok (rs @ [\<lparr>li_connectionName = n, li_endPointName = EXECUTOR_STUB_ENDPOINT_NAME, li_listener = l\<rparr>])"
  using assms by (auto simp: registry_ok_def listeners_ok_def scoped_end_point_def find_None list_ex_iff matches_listener_def)

section \<open>Beginning and ending\<close>

lemma destroyed_listeners:
  "rs_listeners (Stub_Destroy r s) =
     (if rx_connectionCallback (rs_heap s r) = None then rs_listeners s
      else snd (Connect_UnregisterListener (rx_connectionName (rs_heap s r)) EXECUTOR_STUB_ENDPOINT_NAME (rs_listeners s)))"
  "rs_stubs (Stub_Destroy r s) = rs_stubs s" "rs_heap (Stub_Destroy r s) = rs_heap s"
  "rs_fresh (Stub_Destroy r s) = rs_fresh s" "rs_tasks (Stub_Destroy r s) = rs_tasks s"
  by (auto simp: Stub_Destroy_def Let_def rs_emit_def split: option.split)

lemma begin_listener:
  assumes "Stub_ProcBeginExecuteRequest e r attr s = (ret, i, s')"
    and "GetStringValue ATTR_CONNECTION_NAME attr \<noteq> Some GLOBAL_CONNECTION_NAME"
  shows "(ret \<noteq> SUCCESS \<and> rs_listeners s' = rs_listeners s) \<or>
    (\<exists>n. n \<noteq> GLOBAL_CONNECTION_NAME \<and> FindListener n EXECUTOR_STUB_ENDPOINT_NAME (rs_listeners s) = None \<and>
       rx_connectionName (rs_heap s' r) = n \<and> rx_connectionCallback (rs_heap s' r) = Some i \<and>
       rs_listeners s' = rs_listeners s @
         [\<lparr>li_connectionName = n, li_endPointName = EXECUTOR_STUB_ENDPOINT_NAME, li_listener = StubListener r i\<rparr>])"
proof -
  have reg: "Connect_RegisterListener n p (Some l) rs =
      (if FindListener n p rs = None then (SUCCESS, rs @ [\<lparr>li_connectionName = n, li_endPointName = p, li_listener = l\<rparr>])
       else (GENERAL_ERROR, rs))" for n p and l :: remote_listener and rs
    by (simp add: Connect_RegisterListener_def find_None)
  show ?thesis
    using assms
    by (auto simp: Stub_ProcBeginExecuteRequest_def Let_def on_stub_def rs_emit_def reg
        split: option.splits prod.splits if_splits)
qed

text \<open>What a stub that is not on file leaves behind when it is destroyed is backed by the others.\<close>

lemma destroy_linked:
  assumes "stubs_ok s" "registry_ok (rs_listeners s)"
    and "\<And>info. info \<in> set (rs_listeners s) \<Longrightarrow>
      listener_backed s info \<or> rx_connectionCallback (rs_heap s r) \<noteq> None \<and>
        li_connectionName info = rx_connectionName (rs_heap s r) \<and> li_endPointName info = EXECUTOR_STUB_ENDPOINT_NAME"
  shows "linked (Stub_Destroy r s)"
proof -
  have same: "listener_backed (Stub_Destroy r s) = listener_backed s"
    by (rule ext) (simp add: listener_backed_def destroyed_listeners split: remote_listener.split)
  have ok: "stubs_ok (Stub_Destroy r s)" using assms(1) by (simp add: stubs_ok_def destroyed_listeners)
  show ?thesis
  proof (cases "rx_connectionCallback (rs_heap s r) = None")
    case True
    then show ?thesis using assms(2,3) ok same by (auto simp: linked_def destroyed_listeners)
  next
    case False
    let ?rs = "snd (Connect_UnregisterListener (rx_connectionName (rs_heap s r)) EXECUTOR_STUB_ENDPOINT_NAME (rs_listeners s))"
    note u = unregistered [OF assms(2) refl, where n = "rx_connectionName (rs_heap s r)"]
    have "listener_backed s info" if "info \<in> set ?rs" for info
      using assms(3) [of info] u(2) u(3) [OF that] that by auto
    then show ?thesis using ok same u(1) False by (auto simp: linked_def destroyed_listeners)
  qed
qed

lemma backed_other:
  assumes "stubs_ok s" "\<And>q. q < rs_fresh s \<Longrightarrow> rs_heap s' q = rs_heap s q" "\<And>i q. map_of (rs_stubs s) i = Some q \<Longrightarrow> map_of (rs_stubs s') i = Some q"
    and "listener_backed s info"
  shows "listener_backed s' info"
proof (cases "li_listener info")
  case (StubListener q i)
  then have "map_of (rs_stubs s) i = Some q" using assms(4) by (simp add: listener_backed_def)
  then have "q < rs_fresh s" using assms(1) by (force simp: stubs_ok_def dest: map_of_SomeD)
  then show ?thesis using assms(2-4) StubListener by (simp add: listener_backed_def)
qed (use assms(4) in \<open>simp add: listener_backed_def\<close>)

lemma begin_linked:
  assumes "linked s" "GetStringValue ATTR_CONNECTION_NAME request \<noteq> Some GLOBAL_CONNECTION_NAME"
  shows "linked (snd (ProcBeginExecuteRequest e request s))"
proof -
  let ?r = "rs_fresh s"
  let ?s0 = "s\<lparr>rs_heap := (rs_heap s)(?r := RemoteExecutorStub), rs_fresh := Suc ?r\<rparr>"
  obtain ret i s1 where s1: "Stub_ProcBeginExecuteRequest e ?r request ?s0 = (ret, i, s1)" by (metis prod_cases3)
  let ?s2 = "rs_emit [ExecuteReported i (rx_connectionName (rs_heap s1 ?r)) ret] s1"
  have ok: "stubs_ok s" and reg: "registry_ok (rs_listeners s)"
    and backed: "\<And>info. info \<in> set (rs_listeners s) \<Longrightarrow> listener_backed s info"
    using assms(1) by (simp_all add: linked_def)
  have b: "same_stubs ?s0 s1" "\<And>q. q \<noteq> ?r \<Longrightarrow> rs_heap s1 q = rs_heap s q" using stub_begin [OF s1] by auto
  have same: "rs_stubs ?s2 = rs_stubs s" "rs_fresh ?s2 = Suc ?r" "rs_heap ?s2 = rs_heap s1" "rs_listeners ?s2 = rs_listeners s1"
    using b(1) by (simp_all add: same_stubs_def rs_emit_def)
  have ok2: "stubs_ok ?s2" using ok same by (auto simp: stubs_ok_def less_Suc_eq)
  have old: "listener_backed s' info"
    if "info \<in> set (rs_listeners s)" "rs_heap s' = rs_heap s1" "\<And>j q. map_of (rs_stubs s) j = Some q \<Longrightarrow> map_of (rs_stubs s') j = Some q"
    for s' info
    using backed_other [OF ok _ that(3) backed [OF that(1)]] b(2) that(2) by simp
  have new: "(ret \<noteq> SUCCESS \<and> rs_listeners s1 = rs_listeners s) \<or>
    (\<exists>n. n \<noteq> GLOBAL_CONNECTION_NAME \<and> FindListener n EXECUTOR_STUB_ENDPOINT_NAME (rs_listeners s) = None \<and>
       rx_connectionName (rs_heap s1 ?r) = n \<and> rx_connectionCallback (rs_heap s1 ?r) = Some i \<and>
       rs_listeners s1 = rs_listeners s @
         [\<lparr>li_connectionName = n, li_endPointName = EXECUTOR_STUB_ENDPOINT_NAME, li_listener = StubListener ?r i\<rparr>])"
    using begin_listener [OF s1 assms(2)] by simp
  have reg1: "registry_ok (rs_listeners s1)" using new reg registered by auto
  have gone: "linked (Stub_Destroy ?r ?s2)"
  proof (rule destroy_linked [OF ok2])
    show "registry_ok (rs_listeners ?s2)" using reg1 same by simp
    fix info assume "info \<in> set (rs_listeners ?s2)"
    then show "listener_backed ?s2 info \<or> rx_connectionCallback (rs_heap ?s2 ?r) \<noteq> None \<and>
        li_connectionName info = rx_connectionName (rs_heap ?s2 ?r) \<and> li_endPointName info = EXECUTOR_STUB_ENDPOINT_NAME"
      using new old [of info ?s2] same by auto
  qed
  let ?s3 = "?s2\<lparr>rs_stubs := omap_assign i ?r (rs_stubs ?s2)\<rparr>"
  have filed: "linked ?s3" if success: "ret = SUCCESS" and free: "map_of (rs_stubs ?s2) i = None"
  proof -
    obtain n where n: "rx_connectionName (rs_heap s1 ?r) = n" "rx_connectionCallback (rs_heap s1 ?r) = Some i"
      "rs_listeners s1 = rs_listeners s @
         [\<lparr>li_connectionName = n, li_endPointName = EXECUTOR_STUB_ENDPOINT_NAME, li_listener = StubListener ?r i\<rparr>]"
      using new success by auto
    have "listener_backed ?s3 info" if "info \<in> set (rs_listeners s)" for info
      by (rule old [OF that]) (use free same in auto)
    moreover have "stubs_ok ?s3"
      using ok2 same distinct_assign [of "rs_stubs ?s2" i ?r] free by (auto simp: stubs_ok_def dest: values_omap_assign)
    moreover have "listener_backed ?s3
        \<lparr>li_connectionName = n, li_endPointName = EXECUTOR_STUB_ENDPOINT_NAME, li_listener = StubListener ?r i\<rparr>"
      using n same by (simp add: listener_backed_def)
    moreover have "rs_listeners ?s3 = rs_listeners s1" using same(4) by simp
    ultimately show ?thesis using reg1 n(3) unfolding linked_def by auto
  qed
  have "snd (ProcBeginExecuteRequest e request s) = Stub_Destroy ?r ?s2 \<or>
      ret = SUCCESS \<and> map_of (rs_stubs ?s2) i = None \<and> snd (ProcBeginExecuteRequest e request s) = ?s3"
    by (simp add: ProcBeginExecuteRequest_def s1 Let_def)
  then show ?thesis using gone filed by metis
qed

lemma end_linked:
  assumes "linked s"
  shows "linked (snd (end_execute i s))"
proof (cases "map_of (rs_stubs s) i")
  case (Some r)
  let ?s = "s\<lparr>rs_stubs := key_erase i (rs_stubs s)\<rparr>"
  have "linked (Stub_Destroy r ?s)"
  proof (rule destroy_linked)
    show "stubs_ok ?s" using assms by (auto simp: linked_def stubs_ok_def key_erase_def distinct_map_filter)
    show "registry_ok (rs_listeners ?s)" using assms by (simp add: linked_def)
    fix info assume "info \<in> set (rs_listeners ?s)"
    then have b: "listener_backed s info" using assms by (simp add: linked_def)
    show "listener_backed ?s info \<or> rx_connectionCallback (rs_heap ?s r) \<noteq> None \<and>
        li_connectionName info = rx_connectionName (rs_heap ?s r) \<and> li_endPointName info = EXECUTOR_STUB_ENDPOINT_NAME"
      using b Some by (auto simp: listener_backed_def split: remote_listener.splits)
  qed
  then show ?thesis using Some by (simp add: end_execute_def)
qed (use assms in \<open>simp add: end_execute_def\<close>)

section \<open>Runs\<close>

text \<open>No request names \<open>GLOBAL_CONNECTION_NAME\<close> as its connection.\<close>

definition names_connection :: "remote_label \<Rightarrow> bool" where
  "names_connection l \<longleftrightarrow>
     (\<forall>e n p request reply. l = MessageArrives e n p request reply \<longrightarrow>
        GetStringValue ATTR_CONNECTION_NAME request \<noteq> Some GLOBAL_CONNECTION_NAME)"

lemma linked_unlent: "linked s \<Longrightarrow> unlent s s' \<Longrightarrow> rs_listeners s' = rs_listeners s \<Longrightarrow> linked s'"
  by (auto simp: linked_def unlent_def same_stubs_def stubs_ok_def listener_backed_def split: remote_listener.splits)

lemma sends_listeners:
  "rs_listeners (snd (rs_send e n p q a s)) = rs_listeners s"
  "rs_listeners (snd (RemoteIam_OnResult e n ret x s)) = rs_listeners s"
  "rs_listeners (snd (Stub_SendMessage e r role msg s)) = rs_listeners s"
  "rs_listeners (snd (Stub_ContinueSchedule e r ret final s)) = rs_listeners s"
  "rs_listeners (snd (Stub_ProcSendDataMsg e r a s)) = rs_listeners s"
  by (simp_all add: rs_send_def RemoteIam_OnResult_def Stub_SendMessage_def Stub_ContinueSchedule_def
      Stub_ProcSendDataMsg_def rs_emit_def Let_def split: option.split prod.split)

lemma stop_listeners: "rs_listeners (snd (StubNode_StopSchedule e r ret s)) = rs_listeners s"
proof -
  have "rs_listeners s1 = rs_listeners s" if "Stub_ContinueSchedule e r ret final s = (c, s1)" for final c s1
    using sends_listeners(4) [of e r ret final s] that by simp
  then show ?thesis by (auto simp: StubNode_StopSchedule_def split: prod.split)
qed

lemma message_listeners: "rs_listeners (snd (Stub_OnMessage e r request reply s)) = rs_listeners s"
proof -
  obtain ret s1 where s1: "Stub_ProcSendDataMsg e r request s = (ret, s1)" by fastforce
  have "rs_listeners s1 = rs_listeners s" using sends_listeners(5) [of e r request s] unfolding s1 by simp
  then show ?thesis by (simp add: Stub_OnMessage_def s1 split: option.split prod.split)
qed

lemma start_listeners: "rs_listeners (snd (snd (ProcStartRemoteAuthRequest e n request reply s))) = rs_listeners s"
proof -
  have "rs_listeners s1 = rs_listeners s" if "Service_StartRemoteAuthContext e n para param s = (c, ret, s1)" for para param c ret s1
    using that by (auto simp: Service_StartRemoteAuthContext_def Let_def sends_listeners rs_emit_def split: option.splits if_splits)
  then show ?thesis by (auto simp: ProcStartRemoteAuthRequest_def split: option.split prod.split)
qed

lemma service_linked:
  assumes "linked s" "GetStringValue ATTR_CONNECTION_NAME request \<noteq> Some GLOBAL_CONNECTION_NAME"
  shows "linked (snd (RemoteService_OnMessage e n request reply s))"
proof -
  obtain ret reply1 s1 where start: "ProcStartRemoteAuthRequest e n request reply s = (ret, reply1, s1)" by (metis prod_cases3)
  obtain ret2 s2 where begins: "ProcBeginExecuteRequest e request s = (ret2, s2)" by fastforce
  obtain ret3 s3 where ends: "ProcEndExecuteRequest request s = (ret3, s3)" by fastforce
  have "linked s1"
    using linked_unlent [OF assms(1) unlent_start start_listeners, of e n request reply] unfolding start by simp
  moreover have "linked s2" using begin_linked [OF assms, of e] begins by simp
  moreover have "linked s3"
  proof (cases "GetUint64Value ATTR_SCHEDULE_ID request")
    case (Some i)
    then show ?thesis using ends end_linked [OF assms(1), of i] by (simp add: ProcEndExecuteRequest_def)
  qed (use ends assms(1) in \<open>simp add: ProcEndExecuteRequest_def\<close>)
  ultimately show ?thesis
    using assms(1) by (auto simp: RemoteService_OnMessage_def start begins ends split: option.split prod.split)
qed

lemma told_same: "rs_listeners (fold Listener_OnDisconnect told s) = rs_listeners s \<and>
    rs_stubs (fold Listener_OnDisconnect told s) = rs_stubs s \<and> rs_heap (fold Listener_OnDisconnect told s) = rs_heap s \<and>
    rs_fresh (fold Listener_OnDisconnect told s) = rs_fresh s"
proof (induction told arbitrary: s)
  case (Cons l told)
  then show ?case by (cases l) simp_all
qed simp

lemma breaks_linked: "linked s \<Longrightarrow> linked (connection_breaks n s)"
  using told_same
  by (auto simp: connection_breaks_def OnConnectionDown_def linked_def stubs_ok_def registry_ok_def listeners_ok_def
      scoped_end_point_def listener_backed_def distinct_map_filter split: remote_listener.splits)

lemma service_starts_linked:
  assumes "linked s"
  shows "linked (snd (RemoteService_Start s))"
proof -
  have "REMOTE_SERVICE_ENDPOINT_NAME \<noteq> EXECUTOR_STUB_ENDPOINT_NAME"
    by (simp add: REMOTE_SERVICE_ENDPOINT_NAME_def EXECUTOR_STUB_ENDPOINT_NAME_def)
  then show ?thesis
    using assms
    by (auto simp: RemoteService_Start_def Connect_RegisterGlobal_def Connect_RegisterListener_def linked_def registry_ok_def
        listeners_ok_def scoped_end_point_def listener_backed_def stubs_ok_def list_ex_iff matches_listener_def
        split: remote_listener.splits)
qed

lemma step_linked:
  assumes "linked s" "names_connection l"
  shows "linked (remote_step l s)"
proof (cases l)
  case ServiceStarts
  then show ?thesis using service_starts_linked [OF assms(1)] by simp
next
  case (MessageArrives e n p request reply)
  have "GetStringValue ATTR_CONNECTION_NAME request \<noteq> Some GLOBAL_CONNECTION_NAME"
    using assms(2) MessageArrives unfolding names_connection_def by blast
  note service = service_linked [OF assms(1) this, of e n reply]
  note stub = linked_unlent [OF assms(1) unlent_stub_message message_listeners, of e _ request reply]
  show ?thesis using MessageArrives service stub assms(1) by (auto simp: deliver_def split: option.split remote_listener.split)
next
  case (ConnectionBreaks n)
  then show ?thesis using breaks_linked [OF assms(1)] by simp
next
  case (TaskRuns i)
  have "linked (s\<lparr>rs_tasks := ts\<rparr>)" for ts using linked_unlent [OF assms(1), of "s\<lparr>rs_tasks := ts\<rparr>"] by simp
  then show ?thesis using end_linked assms(1) TaskRuns by simp
next
  case (ExecutorSends e r role msg)
  then show ?thesis using linked_unlent [OF assms(1) unlent_sends(3) sends_listeners(3)] assms(1) by simp
next
  case (ExecutorFinishes e r ret final)
  then show ?thesis using linked_unlent [OF assms(1) unlent_sends(4) sends_listeners(4)] assms(1) by simp
next
  case (ScheduleStopped e r ret)
  then show ?thesis using linked_unlent [OF assms(1) unlent_sends(5) stop_listeners] assms(1) by simp
qed

lemma run_linked: "list_all names_connection ls \<Longrightarrow> linked (remote_run ls initial_service)"
proof (induction ls rule: rev_induct)
  case Nil
  show ?case
    by (simp add: remote_run_def initial_service_def linked_def stubs_ok_def registry_ok_def listeners_ok_def scoped_end_point_def)
next
  case (snoc l ls)
  then show ?case using step_linked [of "remote_run ls initial_service" l] by (simp add: remote_run_def)
qed

section \<open>When a connection breaks\<close>

definition ended_by :: "remote_listener \<Rightarrow> u64 option" where
  "ended_by l = (case l of ServiceListener \<Rightarrow> None | StubListener r i \<Rightarrow> Some i)"

lemma told_tasks:
  "rs_tasks (fold Listener_OnDisconnect told s) = rs_tasks s @ List.map_filter ended_by told"
proof (induction told arbitrary: s)
  case (Cons l told)
  then show ?case by (cases l) (simp_all add: map_filter_simps ended_by_def)
qed (simp add: map_filter_simps)

lemma breaks_tasks:
  "rs_tasks (connection_breaks n s) = rs_tasks s @ List.map_filter ended_by
     (map li_listener (filter (\<lambda>info. li_connectionName info = n) (rs_listeners s)))"
  by (simp add: connection_breaks_def OnConnectionDown_def told_tasks)

lemma found_stub:
  assumes "linked s" "FindListener n EXECUTOR_STUB_ENDPOINT_NAME (rs_listeners s) = Some l"
  shows "\<exists>r i. l = StubListener r i \<and> map_of (rs_stubs s) i = Some r \<and>
    (\<exists>info \<in> set (rs_listeners s). li_connectionName info = n \<and> li_listener info = l)"
proof -
  obtain info where info: "info \<in> set (rs_listeners s)" "matches_listener n EXECUTOR_STUB_ENDPOINT_NAME info" "li_listener info = l"
    using assms(2) unfolding FindListener_def by (auto simp: find_Some_iff in_set_conv_nth split: option.splits)
  then have "li_connectionName info = n" "li_endPointName info = EXECUTOR_STUB_ENDPOINT_NAME"
    using assms(1) by (auto simp: linked_def registry_ok_def scoped_end_point_def matches_listener_def)
  moreover have "listener_backed s info" using assms(1) info(1) by (simp add: linked_def)
  ultimately show ?thesis using info by (cases l) (auto simp: listener_backed_def)
qed

lemma mapped_member: "\<lbrakk>x \<in> set xs; f x = Some y\<rbrakk> \<Longrightarrow> y \<in> set (List.map_filter f xs)"
  by (induction xs) (auto simp: List.map_filter_simps split: option.splits)

text \<open>
  Also shown: when the connection of a lent executor breaks, a task is posted that ends its schedule: after it ran, the
  stub is off file, its context was taken out of the pool and its end point is free. This holds whatever was asked before,
  unless a request named the connection \<open>GLOBAL_CONNECTION_NAME\<close>.
\<close>

theorem disconnect_ends_schedule:
  assumes "list_all names_connection ls" "s = remote_run ls initial_service"
    and "FindListener n EXECUTOR_STUB_ENDPOINT_NAME (rs_listeners s) = Some (StubListener r i)"
  shows "map_of (rs_stubs s) i = Some r \<and>
    (\<exists>k < length (rs_tasks (connection_breaks n s)).
       let s' = remote_run [ConnectionBreaks n, TaskRuns k] s
       in map_of (rs_stubs s') i = None \<and> FindListener n EXECUTOR_STUB_ENDPOINT_NAME (rs_listeners s') = None \<and>
          (\<forall>c. rx_contextId (rs_heap s r) = Some c \<longrightarrow> HolderDeleted c \<in> set (rs_outputs s')))"
proof -
  have linked: "linked s" using run_linked assms(1,2) by simp
  have filed: "map_of (rs_stubs s) i = Some r" using found_stub [OF linked assms(3)] by auto
  obtain info where "info \<in> set (rs_listeners s)" "li_connectionName info = n" "li_listener info = StubListener r i"
    using found_stub [OF linked assms(3)] by blast
  then have "StubListener r i \<in> set (map li_listener (filter (\<lambda>info. li_connectionName info = n) (rs_listeners s)))"
    by (auto intro: rev_image_eqI)
  then have "i \<in> set (rs_tasks (connection_breaks n s))"
    unfolding breaks_tasks by (simp add: mapped_member [of _ _ ended_by] ended_by_def)
  then obtain k where k: "k < length (rs_tasks (connection_breaks n s))" "rs_tasks (connection_breaks n s) ! k = i"
    by (auto simp: in_set_conv_nth)
  let ?b = "connection_breaks n s"
  let ?t = "?b\<lparr>rs_tasks := take k (rs_tasks ?b) @ drop (Suc k) (rs_tasks ?b)\<rparr>"
  have b: "rs_stubs ?b = rs_stubs s" "rs_heap ?b = rs_heap s" "FindListener n EXECUTOR_STUB_ENDPOINT_NAME (rs_listeners ?b) = None"
    "registry_ok (rs_listeners ?b)"
    using told_same connection_down(4) linked breaks_linked [OF linked, of n]
    by (auto simp: connection_breaks_def linked_def registry_ok_def split: prod.splits)
  let ?e = "?t\<lparr>rs_stubs := key_erase i (rs_stubs ?t)\<rparr>"
  have run: "remote_run [ConnectionBreaks n, TaskRuns k] s = Stub_Destroy r ?e"
    using k b(1) filed by (simp add: remote_run_def end_execute_def)
  have "map_of (rs_stubs (Stub_Destroy r ?e)) i = None" by (simp add: destroyed_listeners)
  moreover have "FindListener n EXECUTOR_STUB_ENDPOINT_NAME (rs_listeners (Stub_Destroy r ?e)) = None"
  proof -
    have "set (rs_listeners (Stub_Destroy r ?e)) \<subseteq> set (rs_listeners ?b)"
      using unregistered(2) [OF b(4) refl] by (auto simp: destroyed_listeners)
    then show ?thesis using b(3) by (auto simp: find_None list_ex_iff)
  qed
  moreover have "HolderDeleted c \<in> set (rs_outputs (Stub_Destroy r ?e))" if "rx_contextId (rs_heap s r) = Some c" for c
    using that b(2) by (simp add: Stub_Destroy_def Let_def rs_emit_def split: option.split)
  ultimately have "let s' = remote_run [ConnectionBreaks n, TaskRuns k] s
       in map_of (rs_stubs s') i = None \<and> FindListener n EXECUTOR_STUB_ENDPOINT_NAME (rs_listeners s') = None \<and>
          (\<forall>c. rx_contextId (rs_heap s r) = Some c \<longrightarrow> HolderDeleted c \<in> set (rs_outputs s'))"
    unfolding run by (simp add: Let_def)
  then show ?thesis using filed k(1) by blast
qed

text \<open>
  Also shown: a second request to lend an executor on a connection undoes this for the first: it is refused, but the stub
  it made takes the listener of the first away when it is destroyed. The first stub stays on file, hears no data any more,
  and the connection that breaks posts no task to end it.
\<close>

theorem second_begin_silences_first:
  assumes "list_all names_connection ls" "s = remote_run ls initial_service"
    and "FindListener n EXECUTOR_STUB_ENDPOINT_NAME (rs_listeners s) = Some (StubListener r i)"
    and "GetUint64Value ATTR_SCHEDULE_ID request = Some j" "GetStringValue ATTR_CONNECTION_NAME request = Some n"
    and "s' = snd (ProcBeginExecuteRequest e request s)"
  shows "fst (ProcBeginExecuteRequest e request s) = GENERAL_ERROR \<and> map_of (rs_stubs s') i = Some r \<and>
    FindListener n EXECUTOR_STUB_ENDPOINT_NAME (rs_listeners s') = None \<and>
    rs_tasks (connection_breaks n s') = rs_tasks s"
proof -
  let ?p = EXECUTOR_STUB_ENDPOINT_NAME
  have linked: "linked s" using run_linked assms(1,2) by simp
  have filed: "map_of (rs_stubs s) i = Some r" using found_stub [OF linked assms(3)] by auto
  have taken: "Connect_RegisterListener n ?p (Some l) (rs_listeners s) = (GENERAL_ERROR, rs_listeners s)" for l
    using assms(3) lreg.reg_taken [of n ?p "rs_listeners s"] by simp
  let ?r = "rs_fresh s"
  obtain s2 where s2: "ProcBeginExecuteRequest e request s = (GENERAL_ERROR, Stub_Destroy ?r s2)"
    "rs_stubs s2 = rs_stubs s" "rs_listeners s2 = rs_listeners s" "rs_tasks s2 = rs_tasks s"
    "rx_connectionCallback (rs_heap s2 ?r) = Some j" "rx_connectionName (rs_heap s2 ?r) = n"
    by (simp add: ProcBeginExecuteRequest_def Stub_ProcBeginExecuteRequest_def assms(4,5) taken Let_def on_stub_def rs_emit_def)
  let ?rs = "snd (Connect_UnregisterListener n ?p (rs_listeners s))"
  have rs: "rs_listeners s' = ?rs" "rs_stubs s' = rs_stubs s" "rs_tasks s' = rs_tasks s"
    using s2 assms(6) by (simp_all add: destroyed_listeners)
  have reg: "registry_ok (rs_listeners s)" using linked by (simp add: linked_def)
  note u = unregistered [OF reg refl, where n = n]
  have "li_listener info = ServiceListener" if "info \<in> set ?rs" "li_connectionName info = n" for info
  proof -
    have "listener_backed s info" using linked u(2) that(1) by (auto simp: linked_def)
    then show ?thesis using u(3) [OF that(1)] that(2) by (auto simp: listener_backed_def split: remote_listener.splits)
  qed
  then have "List.map_filter ended_by (map li_listener (filter (\<lambda>info. li_connectionName info = n) ?rs)) = []"
    by (simp add: map_filter_def filter_empty_conv ended_by_def)
  then have "rs_tasks (connection_breaks n s') = rs_tasks s" unfolding breaks_tasks rs by simp
  moreover have "FindListener n ?p ?rs = None"
    using u(1,3) by (auto simp: find_None list_ex_iff matches_listener_def registry_ok_def scoped_end_point_def)
  ultimately show ?thesis using rs s2(1) filed by simp
qed

end
