(* ===== verification/Spec2Isabelle.thy ===== *)
theory Spec2Isabelle
  imports Attributes Fsm Resource_Pool Schedule_Properties Context_Pool_Properties Simple_Auth_Properties
    Identify Enroll Delete User_Idm_Gate Sudo_Auth_Witness Widget_Witness Remote_Witness Soft_Bus_Witness Remote_Service_Links
begin

text \<open>
  The user authentication framework authenticates, identifies and enrolls users with executors (PIN, face,
  fingerprint) and a trusted engine. This library models the core of its service process and proves what its parts
  promise to each other.

  \<^bold>\<open>How the program works.\<close> A client calls a system ability (\<^verbatim>\<open>services/ipc\<close>). The ability checks the caller's
  permission, makes a callback object that will tell the client the result, lets the factory make a context for the
  request and schedules the context in the context pool. The pool starts a context when no other contends with it. A
  started context asks the engine for schedules; a schedule node drives a verifying and a collecting executor through
  a state machine and reports how it ended. The context gives the executor's result to the engine, whose verdict it
  puts into attributes and delivers through the callback. The callback tells the client and the listeners, and removes
  the context from the pool. Executors register as resource nodes in the resource pool, from which schedules are built.

  \<^bold>\<open>Which theory models which part.\<close> The prelude is \<open>Iam_Prelude\<close>: machine integers, result codes, attribute keys,
  and the association lists that stand for \<^verbatim>\<open>std::map\<close> and \<^verbatim>\<open>std::unordered_map\<close>.

  \<^item> \<open>Attributes_Codec\<close>, \<open>Attributes_Impl\<close>, \<open>Attributes\<close>, \<open>Attribute_Setters\<close>: the tagged values that every message
    consists of (\<^verbatim>\<open>frameworks/native/common/attributes\<close>): the codecs of thirteen types, the map with its limits of 512
    attributes and 81920 bytes, the binary format and its parser.
  \<^item> \<open>Fsm\<close>: the state machine library (\<^verbatim>\<open>frameworks/native/common/fsm\<close> and \<^verbatim>\<open>services/core\<close>): builder, event queue,
    transitions with enter and leave actions.
  \<^item> \<open>Resource_Pool\<close>, \<open>Resource_Utils\<close>: executors as nodes of a heap, the reference counted pool with its
    listeners, and the deletion of templates (\<^verbatim>\<open>resource_node_impl.cpp\<close>, \<^verbatim>\<open>resource_node_pool.cpp\<close>,
    \<^verbatim>\<open>resource_node_utils.cpp\<close>).
  \<^item> \<open>Schedule_Node\<close>, \<open>Schedule_Runs\<close>, \<open>Schedule_Properties\<close>, \<open>Schedule_Build\<close>: one schedule as a state machine over
    verifier and collector, its runs, and how it is built from an answer of the engine
    (\<^verbatim>\<open>schedule_node_impl.cpp\<close>, \<^verbatim>\<open>schedule_node_builder.cpp\<close>, \<^verbatim>\<open>schedule_node_helper.cpp\<close>).
  \<^item> \<open>Context_Policy\<close>, \<open>Context_Pool\<close>, \<open>Context_Pool_Properties\<close>: which requests may run together, the pool with its
    waiting queue, promotion, preemption and cancellation (\<^verbatim>\<open>context_pool_impl.cpp\<close>,
    \<^verbatim>\<open>context_arbitration_policy.cpp\<close>).
  \<^item> \<open>Base_Context\<close>, \<open>Context_Life\<close>, \<open>Context_Witness\<close>: what all contexts share, and their life between the pool, the
    schedules and the callback (\<^verbatim>\<open>base_context.cpp\<close>).
  \<^item> \<open>Authentication\<close>, \<open>Simple_Auth\<close>, \<open>Simple_Auth_Properties\<close>, \<open>Identify\<close>, \<open>Enroll\<close>, \<open>Delete\<close>: the four kinds of
    request on the own device, each with its engine object (\<^verbatim>\<open>authentication_impl.cpp\<close> and its siblings) and its
    context (\<^verbatim>\<open>simple_auth_context.cpp\<close> and its siblings).
  \<^item> \<open>User_Database\<close>, \<open>Credential_Events\<close>: queries of the engine's credential database, the cached PIN update and the
    events that follow a change (\<^verbatim>\<open>user_idm_database_impl.cpp\<close>, \<^verbatim>\<open>publish_event_adapter.cpp\<close>,
    \<^verbatim>\<open>credential_updated_manager.cpp\<close>).
  \<^item> \<open>Timing_Tracer\<close>, \<open>Context_Callback\<close>: the stopwatch of a request and the callback that delivers its result
    (\<^verbatim>\<open>timing_tracer.cpp\<close>, \<^verbatim>\<open>context_callback_impl.cpp\<close>).
  \<^item> \<open>Ipc_Common\<close>, \<open>Context_Factory\<close>, \<open>User_Idm_Service\<close>, \<open>User_Idm_Properties\<close>, \<open>User_Idm_Gate\<close>: the permission
    checks, the factory and every request of the credential management service (\<^verbatim>\<open>ipc_common.cpp\<close>,
    \<^verbatim>\<open>context_factory.cpp\<close>, \<^verbatim>\<open>user_idm_service.cpp\<close>), each request answered once, and a caller without permission unable
    to tell two services apart.
  \<^item> \<open>Auth_Factory\<close>, \<open>User_Auth_Helper\<close>, \<open>Auth_Widget_Helper\<close>, \<open>Auth_Requests\<close>, \<open>User_Auth_Service\<close>: the requests of
    the authentication service, with the checks of their parameters, the profiles and the reuse of an earlier result
    (\<^verbatim>\<open>user_auth_service.cpp\<close>, \<^verbatim>\<open>user_auth_helper.cpp\<close>, \<^verbatim>\<open>auth_widget_helper.cpp\<close>). \<open>Callback_Answers\<close>,
    \<open>User_Auth_Properties\<close>, \<open>User_Auth_Gate\<close>, \<open>User_Auth_Safety\<close>, \<open>Auth_Checks\<close> and \<open>User_Auth_Witness\<close> show what
    the service promises: that a caller without permission cannot tell two services apart, one answer per request, and
    that it changes the pool only by steps of the pool.
  \<^item> \<open>Attribute_Messages\<close>, \<open>Remote_Msg\<close>: the messages between devices (\<^verbatim>\<open>remote_msg_util.cpp\<close>).
  \<^item> \<open>Pool_Driven\<close>, \<open>Sudo_Auth\<close>, \<open>Sudo_Auth_Properties\<close>, \<open>Sudo_Auth_Witness\<close>: the request for elevated rights, which
    launches one child authentication, silent or with a dialogue, and answers with its result (\<^verbatim>\<open>sudo_auth_context.cpp\<close>).
  \<^item> \<open>Widget_Json\<close>, \<open>Widget_Node\<close>, \<open>Widget_Client\<close>, \<open>Widget_Command\<close>, \<open>Widget_Context\<close>: the authentication with a
    dialogue: its messages (\<^verbatim>\<open>widget_json.cpp\<close>), the state machine that orders what the dialogue and the children want
    (\<^verbatim>\<open>widget_schedule_node_impl.cpp\<close>), the one client of the dialogue (\<^verbatim>\<open>widget_client.cpp\<close>), the start command and
    the connection (\<^verbatim>\<open>ui_extension_ability_connection.cpp\<close>), and the context (\<^verbatim>\<open>widget_context.cpp\<close>). \<open>Widget_Runs\<close>
    makes the events of these parts the steps of one machine and gives every member its frame;
    \<open>Widget_Properties\<close> shows the invariant of the runs, \<open>Widget_Results\<close> what the one answer contains, \<open>Widget_Safety\<close>
    what may be shown and started, and \<open>Widget_Witness\<close> evaluates a run from the request to the answer.
  \<^item> \<open>Connection_Listeners\<close>, \<open>Remote_Message\<close>, \<open>Soft_Bus_Message\<close>: who hears the messages of a connection to another
    device and how a message is framed (\<^verbatim>\<open>remote_connect_listener_manager.cpp\<close>, \<^verbatim>\<open>soft_bus_message.cpp\<close>).
    \<open>Soft_Bus\<close>, \<open>Soft_Bus_Manager\<close>: the sockets with their callbacks, timers and maps, and the manager that opens,
    closes and serves connections, as one machine (\<^verbatim>\<open>soft_bus_base_socket.cpp\<close>, \<^verbatim>\<open>soft_bus_client_socket.cpp\<close>,
    \<^verbatim>\<open>soft_bus_server_socket.cpp\<close>, \<^verbatim>\<open>soft_bus_manager.cpp\<close>, \<^verbatim>\<open>soft_bus_socket_listener.cpp\<close>).
    \<open>Soft_Bus_Properties\<close> shows whose network id a request is heard under, \<open>Soft_Bus_Delivery\<close> that a sent request
    arrives at its listener, \<open>Soft_Bus_Claims\<close> what the name of a connection is worth, and \<open>Soft_Bus_Witness\<close> evaluates a
    device with a peer.
    \<open>Remote_Invoker\<close>, \<open>Remote_Invoker_Properties\<close>, \<open>Remote_Witness\<close>: the context that asks another device for an
    authentication and what stands behind a success it tells (\<^verbatim>\<open>remote_auth_invoker_context.cpp\<close>).
  \<^item> \<open>Remote_Service\<close>: what a device does for others, with the stub of an executor lent to another device
    (\<^verbatim>\<open>remote_auth_service.cpp\<close>, \<^verbatim>\<open>remote_executor_stub.cpp\<close>, \<^verbatim>\<open>remote_iam_callback.cpp\<close>).
    \<open>Remote_Service_Properties\<close> shows that whatever a stub takes is given back, \<open>Remote_Service_Links\<close> that a broken
    connection ends the schedule of its stub, and how a second request on a connection breaks this.

  \<^bold>\<open>How the state corresponds.\<close> A class is a record with the members of the class under the same names; a member
  function is a definition with the name of the function that takes the members it reads and returns them updated,
  after its result. Output parameters are further results. Calls to the outside (executors, engine, client, timers,
  listeners) are appended to a list of outputs in the order of the calls, and what the outside answers comes from
  fields of a record of surroundings, over which the theorems quantify. Shared objects (resource nodes) live in a heap
  of references; a weak pointer is a lookup that may fail. Integers keep their width. Locks have no counterpart: every
  locked operation is one step, and the steps of several threads interleave in the runs (\<open>pool_run\<close>, \<open>sched_run\<close> and
  the runs of a context).

  \<^bold>\<open>Interfaces.\<close> \<open>keyed_store\<close> is what a client relies on of a map, and both standard maps give it; \<open>element_codec\<close>,
  \<open>value_codec\<close> and \<open>bounded_codec\<close> are the contract of the codecs, interpreted for every type; \<open>fsm_invariant\<close> and
  \<open>fsm_drain\<close> lift an invariant of the actions to the event loop, and are interpreted for the schedule; \<open>admission\<close> is
  what the pool's promotion relies on; \<open>resource_ledger\<close>
  says that what is taken is returned or held, and is interpreted twice for lent executors; \<open>listener_registry\<close> is what a
  context relies on that listens to a connection; \<open>context_class\<close> is what a kind of context has to show so that at most one
  result is delivered and each success has an executor's result and the engine's consent behind it, interpreted for
  the four kinds of context.

  \<^bold>\<open>Bounds.\<close> The event loop of a state machine runs at most \<^verbatim>\<open>MAX_SCHEDULE_TIMES\<close> (100) events per call as in the
  code; the theorems about schedules show that fewer are always enough, so that the loop ends with an empty queue. The
  parser and the other loops recurse on the length of their input. No definition has fuel of its own.

  \<^bold>\<open>What is not modelled.\<close> The executor registration service and the messages of executors through IPC, the
  contexts of the verifying device in an authentication across devices, the proxy of a borrowed executor, the listeners' death recipients, the
  trace events, the conversion of engine structures and the loading of the services are not modelled: they move data
  between the modelled parts and interfaces that are outside the repository. The generated IPC stubs, the language
  bindings and the native clients only marshal arguments. Memory allocation is taken to succeed, logs are left out.
  Where a class is modelled in part, \<^verbatim>\<open>PROJECT.json\<close> says which part.
\<close>

end
